(* ===== verification/Prelude.thy ===== *)
theory Prelude
  imports Main "HOL-Library.AList"
begin

text \<open>
  Shared vocabulary of the development: Go maps as association lists with
  distinct keys, results that carry a Go error, and the generic run/invariant
  argument that every component with state uses.

  Go leaves the iteration order of a map undefined.  A map is modelled by an
  association list and every theorem quantifies over that list, so a result
  that depends on the iteration order is proved for each order.
\<close>

named_theorems gomap_simps "rewrite rules for Go maps"
named_theorems inv_intros "introduction rules for component invariants"

section \<open>Go maps\<close>

type_synonym ('k, 'v) gomap = "('k \<times> 'v) list"

definition mget :: "('k, 'v) gomap \<Rightarrow> 'k \<Rightarrow> 'v option" where
  "mget m k = map_of m k"

definition mput :: "'k \<Rightarrow> 'v \<Rightarrow> ('k, 'v) gomap \<Rightarrow> ('k, 'v) gomap" where
  "mput k v m = AList.update k v m"

definition mdel :: "'k \<Rightarrow> ('k, 'v) gomap \<Rightarrow> ('k, 'v) gomap" where
  "mdel k m = AList.delete k m"

definition mlen :: "('k, 'v) gomap \<Rightarrow> int" where
  "mlen m = int (length m)"

definition mkeys :: "('k, 'v) gomap \<Rightarrow> 'k list" where
  "mkeys m = map fst m"

definition mvals :: "('k, 'v) gomap \<Rightarrow> 'v list" where
  "mvals m = map snd m"

text \<open>A loop \<open>for k, v := range m\<close> that updates the pointed-to values in place.\<close>

definition mmap :: "('k \<Rightarrow> 'v \<Rightarrow> 'v) \<Rightarrow> ('k, 'v) gomap \<Rightarrow> ('k, 'v) gomap" where
  "mmap f m = map (\<lambda>(k, v). (k, f k v)) m"

definition mwf :: "('k, 'v) gomap \<Rightarrow> bool" where
  "mwf m \<longleftrightarrow> distinct (map fst m)"

lemma mget_Nil [simp, gomap_simps]: "mget [] k = None"
  by (simp add: mget_def)

lemma mget_Cons [gomap_simps]: "mget ((a, b) # m) k = (if a = k then Some b else mget m k)"
  by (simp add: mget_def)

lemma mget_mput [simp, gomap_simps]: "mget (mput k v m) k' = (if k' = k then Some v else mget m k')"
  by (simp add: mget_def mput_def update_conv')

lemma mget_mdel [simp, gomap_simps]: "mget (mdel k m) k' = (if k' = k then None else mget m k')"
  by (simp add: mget_def mdel_def delete_conv')

lemma mget_mmap [simp, gomap_simps]: "mget (mmap f m) k = map_option (f k) (mget m k)"
  by (induction m) (auto simp: mget_def mmap_def)

lemma mwf_Nil [simp, inv_intros]: "mwf []"
  by (simp add: mwf_def)

lemma mwf_mput [simp, inv_intros]: "mwf m \<Longrightarrow> mwf (mput k v m)"
  by (simp add: mwf_def mput_def distinct_update)

lemma mwf_mdel [simp, inv_intros]: "mwf m \<Longrightarrow> mwf (mdel k m)"
  by (simp add: mwf_def mdel_def distinct_delete)

lemma mwf_mmap [simp]: "mwf (mmap f m) = mwf m"
proof -
  have "map fst (mmap f m) = map fst m"
    by (induction m) (auto simp: mmap_def)
  then show ?thesis by (simp add: mwf_def)
qed

lemma mlen_mmap [simp]: "mlen (mmap f m) = mlen m"
  by (simp add: mlen_def mmap_def)

lemma mlen_Nil [simp]: "mlen [] = 0"
  by (simp add: mlen_def)

lemma mlen_nonneg [simp]: "0 \<le> mlen m"
  by (simp add: mlen_def)

lemma mlen_mput: "mlen (mput k v m) = (if mget m k = None then mlen m + 1 else mlen m)"
  by (induction m) (auto simp: mlen_def mput_def mget_def)

lemma length_delete_absent: "map_of m k = None \<Longrightarrow> AList.delete k m = m"
  by (simp add: delete_id map_of_eq_None_iff)

lemma mlen_mdel: "mwf m \<Longrightarrow> mlen (mdel k m) = (if mget m k = None then mlen m else mlen m - 1)"
proof (induction m)
  case Nil
  then show ?case by (simp add: mlen_def mdel_def)
next
  case (Cons p m)
  obtain a b where p: "p = (a, b)" by fastforce
  from Cons.prems p have wf: "mwf m" and fresh: "map_of m a = None"
    by (auto simp: mwf_def map_of_eq_None_iff)
  show ?case
  proof (cases "a = k")
    case True
    with p fresh show ?thesis
      by (simp add: mlen_def mdel_def mget_def length_delete_absent)
  next
    case False
    with p Cons.IH[OF wf] show ?thesis
      by (auto simp: mlen_def mdel_def mget_def)
  qed
qed

lemma mlen_mdel_le: "mlen (mdel k m) \<le> mlen m"
  by (simp add: mlen_def mdel_def length_delete_le)

lemma mget_in_set: "mget m k = Some v \<Longrightarrow> (k, v) \<in> set m"
  by (simp add: mget_def map_of_SomeD)

lemma mget_iff_in_set: "mwf m \<Longrightarrow> mget m k = Some v \<longleftrightarrow> (k, v) \<in> set m"
  by (simp add: mget_def mwf_def)

lemma set_mput: "mwf m \<Longrightarrow> set (mput k v m) = insert (k, v) {p \<in> set m. fst p \<noteq> k}"
proof -
  assume wf: "mwf m"
  then have wf': "mwf (mput k v m)" by simp
  have "(a, b) \<in> set (mput k v m) \<longleftrightarrow> (a, b) \<in> insert (k, v) {p \<in> set m. fst p \<noteq> k}" for a b
    using mget_iff_in_set[OF wf', of a b] mget_iff_in_set[OF wf, of a b]
    by (auto split: if_splits)
  then show ?thesis by (metis (no_types, lifting) subsetI subset_antisym surj_pair)
qed

lemma set_mdel: "set (mdel k m) = {p \<in> set m. fst p \<noteq> k}"
  by (induction m) (auto simp: mdel_def)

lemma set_mmap: "set (mmap f m) = (\<lambda>(k, v). (k, f k v)) ` set m"
  by (simp add: mmap_def)

lemma mkeys_mmap [simp]: "mkeys (mmap f m) = mkeys m"
  by (simp add: mkeys_def mmap_def case_prod_unfold)

lemma length_mvals: "int (length (mvals m)) = mlen m"
  by (simp add: mvals_def mlen_def)

text \<open>A property of every entry of a map, kept by each of the map operations.\<close>

definition mall :: "('k \<Rightarrow> 'v \<Rightarrow> bool) \<Rightarrow> ('k, 'v) gomap \<Rightarrow> bool" where
  "mall P m \<longleftrightarrow> (\<forall>(k, v) \<in> set m. P k v)"

lemma mall_Nil [simp]: "mall P []"
  by (simp add: mall_def)

lemma mall_get: "mall P m \<Longrightarrow> mget m k = Some v \<Longrightarrow> P k v"
  by (auto simp: mall_def dest: mget_in_set)

lemma mall_mput [inv_intros]: "mall P m \<Longrightarrow> P k v \<Longrightarrow> mall P (mput k v m)"
proof -
  assume "mall P m" and "P k v"
  moreover have "set (mput k v m) \<subseteq> insert (k, v) (set m)"
    by (induction m) (auto simp: mput_def)
  ultimately show ?thesis by (auto simp: mall_def)
qed

lemma mall_mdel [inv_intros]: "mall P m \<Longrightarrow> mall P (mdel k m)"
  by (auto simp: mall_def set_mdel)

lemma mall_mmap: "mall P m \<Longrightarrow> (\<And>k v. P k v \<Longrightarrow> P k (f k v)) \<Longrightarrow> mall P (mmap f m)"
  by (auto simp: mall_def set_mmap)

lemma mall_mono: "mall P m \<Longrightarrow> (\<And>k v. P k v \<Longrightarrow> Q k v) \<Longrightarrow> mall Q m"
  by (auto simp: mall_def)

lemma length_filter_mono: "(\<And>x. P x \<Longrightarrow> Q x) \<Longrightarrow> length (filter P xs) \<le> length (filter Q xs)"
  by (induction xs) (auto simp: le_SucI)

section \<open>The run argument\<close>

text \<open>
  A component is a state and operations; a client calls the operations in some
  order.  The contract is an invariant that each operation keeps, and the
  consequence that every component uses is that each state of each run keeps it.
\<close>

locale machine =
  fixes exec :: "'s \<Rightarrow> 'op \<Rightarrow> 's"
    and good :: "'s \<Rightarrow> bool"
  assumes exec_good: "good s \<Longrightarrow> good (exec s c)"
begin

lemma run_good: "good s \<Longrightarrow> good (foldl exec s cs)"
  by (induction cs arbitrary: s) (auto intro: exec_good)

lemma run_prefix_good: "good s \<Longrightarrow> good (foldl exec s (take n cs))"
  by (rule run_good)

end

text \<open>
  A machine with an operation after which nothing can be accepted any more:
  the state stays shut whatever is called.
\<close>

locale closable_machine = machine exec good
  for exec :: "'s \<Rightarrow> 'op \<Rightarrow> 's" and good :: "'s \<Rightarrow> bool" +
  fixes shut :: "'s \<Rightarrow> bool"
  assumes exec_shut: "shut s \<Longrightarrow> shut (exec s c)"
begin

lemma run_shut: "shut s \<Longrightarrow> shut (foldl exec s cs)"
  by (induction cs arbitrary: s) (auto intro: exec_shut)

end

end
