(* ===== verification/Go_Path.thy ===== *)
theory Go_Path
  imports Prelude
begin

text \<open>
  What the policy code uses of Go's standard library and of its own wildcard
  matcher: \<open>strings.Split\<close>, \<open>strings.Join\<close>, \<open>filepath.Clean\<close> and
  \<open>filepath.IsAbs\<close> (Unix), and the matcher that rules.go builds by turning a
  pattern into a regular expression.  Strings are byte strings in valid UTF-8.
\<close>

section \<open>Splitting and joining\<close>

fun split_on :: "char \<Rightarrow> string \<Rightarrow> string list" where
  "split_on c [] = [[]]"
| "split_on c (x # xs) =
     (if x = c then [] # split_on c xs
      else (case split_on c xs of [] \<Rightarrow> [[x]] | y # ys \<Rightarrow> (x # y) # ys))"

fun join_with :: "string \<Rightarrow> string list \<Rightarrow> string" where
  "join_with s [] = []"
| "join_with s [x] = x"
| "join_with s (x # y # ys) = x @ s @ join_with s (y # ys)"

lemma split_on_not_Nil [simp]: "split_on c s \<noteq> []"
  by (induction s) (auto split: list.splits)

lemma split_on_no_sep: "x \<in> set (split_on c s) \<Longrightarrow> c \<notin> set x"
  by (induction s arbitrary: x) (auto split: if_splits list.splits)

lemma split_on_fresh: "c \<notin> set s \<Longrightarrow> split_on c s = [s]"
  by (induction s) auto

lemma split_on_append: "c \<notin> set x \<Longrightarrow> split_on c (x @ c # s) = x # split_on c s"
  by (induction x) auto

lemma split_join:
  "xs \<noteq> [] \<Longrightarrow> (\<And>x. x \<in> set xs \<Longrightarrow> c \<notin> set x) \<Longrightarrow> split_on c (join_with [c] xs) = xs"
proof (induction xs rule: induct_list012)
  case (3 x y ys)
  then have "split_on c (join_with [c] (y # ys)) = y # ys" by simp
  moreover from 3 have "c \<notin> set x" by simp
  ultimately show ?case by (simp add: split_on_append)
qed (simp_all add: split_on_fresh)

lemma join_split: "join_with [c] (split_on c s) = s"
proof (induction s)
  case (Cons x xs)
  obtain y ys where "split_on c xs = y # ys" by (cases "split_on c xs") auto
  with Cons show ?case by (cases ys) auto
qed simp

section \<open>filepath.Clean\<close>

definition slash :: char where
  "slash = CHR ''/''"

definition path_is_abs :: "string \<Rightarrow> bool" where
  "path_is_abs p \<longleftrightarrow> (case p of [] \<Rightarrow> False | c # _ \<Rightarrow> c = slash)"

text \<open>
  The components read so far are kept in reverse; \<open>''..''\<close> drops the last real
  component, is dropped at the root of a rooted path and is kept at the front
  of a relative one.
\<close>

fun clean_comps :: "bool \<Rightarrow> string list \<Rightarrow> string list \<Rightarrow> string list" where
  "clean_comps rooted st [] = rev st"
| "clean_comps rooted st (c # cs) =
     (if c = '''' \<or> c = ''.'' then clean_comps rooted st cs
      else if c = ''..'' then
        (if st \<noteq> [] \<and> hd st \<noteq> ''..'' then clean_comps rooted (tl st) cs
         else if rooted then clean_comps rooted st cs
         else clean_comps rooted (''..'' # st) cs)
      else clean_comps rooted (c # st) cs)"

definition path_clean :: "string \<Rightarrow> string" where
  "path_clean p =
     (let rooted = path_is_abs p;
          comps = clean_comps rooted [] (split_on slash p)
      in if rooted then slash # join_with [slash] comps
         else if comps = [] then ''.'' else join_with [slash] comps)"

definition real_comp :: "string \<Rightarrow> bool" where
  "real_comp c \<longleftrightarrow> c \<noteq> '''' \<and> c \<noteq> ''.'' \<and> c \<noteq> ''..''"

lemma clean_comps_subset: "set (clean_comps r st cs) \<subseteq> set st \<union> set cs"
proof (induction r st cs rule: clean_comps.induct)
  case (2 r st c cs)
  then show ?case by (cases st) auto
qed simp

lemma clean_comps_rooted_real:
  "list_all real_comp st \<Longrightarrow> list_all real_comp (clean_comps True st cs)"
proof (induction True st cs rule: clean_comps.induct)
  case (2 st c cs)
  have tl: "list_all real_comp (tl st)" using "2.prems" by (cases st) auto
  show ?case
  proof (cases "c = '''' \<or> c = ''.'' \<or> c = ''..''")
    case True
    then show ?thesis using 2 tl by auto
  next
    case False
    then have "list_all real_comp (c # st)" using "2.prems" by (simp add: real_comp_def)
    with False show ?thesis using "2.hyps" by simp
  qed
qed (simp add: list_all_iff)

corollary clean_comps_rooted_realD:
  "c \<in> set (clean_comps True [] cs) \<Longrightarrow> real_comp c"
  using clean_comps_rooted_real [of "[]" cs] by (simp add: list_all_iff)

lemma clean_comps_real_id:
  "(\<And>c. c \<in> set cs \<Longrightarrow> real_comp c) \<Longrightarrow> clean_comps r st cs = rev st @ cs"
  by (induction cs arbitrary: st) (auto simp: real_comp_def)

text \<open>A relative path cleans to some leading \<open>''..''\<close> and then real components.\<close>

definition rel_shape :: "string list \<Rightarrow> bool" where
  "rel_shape cs \<longleftrightarrow> (\<exists>n rs. cs = replicate n ''..'' @ rs \<and> (\<forall>c \<in> set rs. real_comp c))"

lemma rel_shapeI: "(\<And>c. c \<in> set rs \<Longrightarrow> real_comp c) \<Longrightarrow> rel_shape (replicate n ''..'' @ rs)"
  by (auto simp: rel_shape_def)

lemma rel_shape_butlast: "rel_shape cs \<Longrightarrow> rel_shape (butlast cs)"
proof -
  assume "rel_shape cs"
  then obtain n rs where cs: "cs = replicate n ''..'' @ rs" and rs: "\<forall>c \<in> set rs. real_comp c"
    by (auto simp: rel_shape_def)
  show ?thesis
  proof (cases "rs = []")
    case True
    then have "butlast cs = replicate (n - 1) ''..'' @ []"
      using cs by (cases n) (auto simp: butlast_append replicate_append_same [symmetric])
    then show ?thesis using rel_shapeI [of "[]" "n - 1"] by simp
  next
    case False
    then have "butlast cs = replicate n ''..'' @ butlast rs"
      using cs by (simp add: butlast_append)
    then show ?thesis using rs rel_shapeI [of "butlast rs" n] by (auto dest: in_set_butlastD)
  qed
qed

lemma rel_shape_snoc: "rel_shape cs \<Longrightarrow> real_comp c \<Longrightarrow> rel_shape (cs @ [c])"
proof -
  assume "rel_shape cs" and c: "real_comp c"
  then obtain n rs where cs: "cs = replicate n ''..'' @ rs" and rs: "\<forall>d \<in> set rs. real_comp d"
    by (auto simp: rel_shape_def)
  have "rel_shape (replicate n ''..'' @ (rs @ [c]))"
    by (rule rel_shapeI) (use rs c in auto)
  with cs show ?thesis by simp
qed

lemma rel_shape_nonempty: "rel_shape cs \<Longrightarrow> c \<in> set cs \<Longrightarrow> c \<noteq> ''''"
proof -
  assume "rel_shape cs" and c: "c \<in> set cs"
  then obtain n rs where cs: "cs = replicate n ''..'' @ rs" and rs: "\<forall>d \<in> set rs. real_comp d"
    by (auto simp: rel_shape_def)
  from c have "c = ''..'' \<or> c \<in> set rs" by (auto simp: cs)
  with rs show "c \<noteq> ''''" by (auto simp: real_comp_def)
qed

lemma rel_shape_dots:
  assumes "rel_shape cs" and "cs = [] \<or> last cs = ''..''"
  shows "rel_shape (cs @ [''..''])"
proof -
  from assms(1) obtain n rs where cs: "cs = replicate n ''..'' @ rs" and rs: "\<forall>c \<in> set rs. real_comp c"
    by (auto simp: rel_shape_def)
  have "rs = []"
  proof (rule ccontr)
    assume "rs \<noteq> []"
    with cs assms(2) have "last rs = ''..''" by auto
    moreover from \<open>rs \<noteq> []\<close> have "last rs \<in> set rs" by (rule last_in_set)
    ultimately show False using rs by (auto simp: real_comp_def)
  qed
  with cs have "cs @ [''..''] = replicate (Suc n) ''..'' @ []"
    by (simp add: replicate_append_same)
  then show ?thesis using rel_shapeI [of "[]" "Suc n"] by simp
qed

lemma clean_comps_rel_shape: "rel_shape (rev st) \<Longrightarrow> rel_shape (clean_comps False st cs)"
proof (induction False st cs rule: clean_comps.induct)
  case (2 st c cs)
  consider "c = '''' \<or> c = ''.''" | "c = ''..''" | "real_comp c"
    by (auto simp: real_comp_def)
  then show ?case
  proof cases
    case 1
    then show ?thesis using 2 by auto
  next
    case dots: 2
    show ?thesis
    proof (cases "st \<noteq> [] \<and> hd st \<noteq> ''..''")
      case True
      moreover from True have "rev (tl st) = butlast (rev st)" by (cases st) auto
      then have "rel_shape (rev (tl st))" using rel_shape_butlast [OF "2.prems"] by (simp only:)
      ultimately show ?thesis using 2 dots by simp
    next
      case False
      then have "rev st = [] \<or> last (rev st) = ''..''" by (cases st) auto
      with 2 dots False show ?thesis by (auto simp: rel_shape_dots)
    qed
  next
    case 3
    then show ?thesis using 2 by (auto simp: real_comp_def rel_shape_snoc)
  qed
qed simp

lemma clean_comps_dots: "set st \<subseteq> {''..''} \<Longrightarrow>
  clean_comps False st (replicate n ''..'' @ cs) = clean_comps False (replicate n ''..'' @ st) cs"
proof (induction n arbitrary: st)
  case (Suc n)
  have "clean_comps False st (replicate (Suc n) ''..'' @ cs)
      = clean_comps False (''..'' # st) (replicate n ''..'' @ cs)"
    using Suc.prems by (cases st) auto
  also have "\<dots> = clean_comps False (replicate n ''..'' @ ''..'' # st) cs"
    using Suc.prems by (intro Suc.IH) auto
  finally show ?case by (simp add: replicate_app_Cons_same)
qed simp

lemma clean_comps_rel_id: "rel_shape cs \<Longrightarrow> clean_comps False [] cs = cs"
  by (auto simp: rel_shape_def clean_comps_dots clean_comps_real_id)

lemma clean_comps_no_slash: "x \<in> set (clean_comps r [] (split_on slash p)) \<Longrightarrow> slash \<notin> set x"
  using clean_comps_subset [of r "[]" "split_on slash p"] by (auto dest: split_on_no_sep)

lemma join_real_not_abs:
  assumes "cs \<noteq> []" and "hd cs \<noteq> ''''" and "slash \<notin> set (hd cs)"
  shows "\<not> path_is_abs (join_with [slash] cs)"
proof -
  from assms(1,2) obtain a x ys where cs: "cs = (a # x) # ys"
    by (metis list.sel(1) neq_Nil_conv)
  with assms(3) show ?thesis by (cases ys) (auto simp: path_is_abs_def)
qed

lemma path_clean_abs_iff: "path_is_abs (path_clean p) = path_is_abs p"
proof (cases "path_is_abs p")
  case True
  then show ?thesis by (simp add: path_clean_def path_is_abs_def Let_def)
next
  case False
  let ?cs = "clean_comps False [] (split_on slash p)"
  have shape: "rel_shape ?cs"
    by (rule clean_comps_rel_shape) (auto simp: rel_shape_def)
  show ?thesis
  proof (cases "?cs = []")
    case True
    then show ?thesis using False by (simp add: path_clean_def Let_def path_is_abs_def slash_def)
  next
    case ne: False
    then have "hd ?cs \<in> set ?cs" by simp
    then have "slash \<notin> set (hd ?cs)" by (rule clean_comps_no_slash)
    moreover from shape \<open>hd ?cs \<in> set ?cs\<close> have "hd ?cs \<noteq> ''''" by (rule rel_shape_nonempty)
    ultimately show ?thesis using False ne
      by (simp add: path_clean_def Let_def join_real_not_abs)
  qed
qed

lemma path_clean_comps_abs:
  assumes "path_is_abs p"
  shows "clean_comps True [] (split_on slash (path_clean p))
       = clean_comps True [] (split_on slash p)"
proof -
  let ?cs = "clean_comps True [] (split_on slash p)"
  have real: "\<And>c. c \<in> set ?cs \<Longrightarrow> real_comp c"
    by (rule clean_comps_rooted_realD)
  have "split_on slash (path_clean p) = [] # (if ?cs = [] then [[]] else ?cs)"
    using assms clean_comps_no_slash [of _ True p]
    by (auto simp: path_clean_def Let_def intro!: split_join)
  moreover have "clean_comps True [] ?cs = ?cs"
    using clean_comps_real_id [of ?cs True "[]"] real by simp
  ultimately show ?thesis by simp
qed

lemma path_clean_idem: "path_clean (path_clean p) = path_clean p"
proof (cases "path_is_abs p")
  case True
  have unfold: "path_clean q = slash # join_with [slash] (clean_comps True [] (split_on slash q))"
    if "path_is_abs q" for q
    using that by (simp add: path_clean_def Let_def)
  have "path_is_abs (path_clean p)" using True by (simp add: path_clean_abs_iff)
  then show ?thesis
    using unfold [of "path_clean p"] unfold [OF True] path_clean_comps_abs [OF True] by metis
next
  case False
  let ?cs = "clean_comps False [] (split_on slash p)"
  have shape: "rel_shape ?cs"
    by (rule clean_comps_rel_shape) (auto simp: rel_shape_def)
  show ?thesis
  proof (cases "?cs = []")
    case True
    then have "path_clean p = ''.''" using False by (simp add: path_clean_def Let_def)
    then show ?thesis by (simp add: path_clean_def path_is_abs_def slash_def)
  next
    case ne: False
    then have pc: "path_clean p = join_with [slash] ?cs" using False by (simp add: path_clean_def Let_def)
    have "split_on slash (path_clean p) = ?cs"
      unfolding pc using ne clean_comps_no_slash [of _ False p] by (intro split_join) auto
    moreover have "\<not> path_is_abs (path_clean p)" using False by (simp add: path_clean_abs_iff)
    ultimately have "path_clean (path_clean p) = join_with [slash] (clean_comps False [] ?cs)"
      using ne shape unfolding path_clean_def [of "path_clean p"]
      by (simp add: Let_def clean_comps_rel_id)
    also have "\<dots> = path_clean p" using shape pc by (simp add: clean_comps_rel_id)
    finally show ?thesis .
  qed
qed

text \<open>A cleaned absolute path has no \<open>..\<close>, no \<open>.\<close> and no empty component.\<close>

lemma path_clean_abs_components:
  assumes "path_is_abs p" and "path_clean p \<noteq> [slash]" and "c \<in> set (tl (split_on slash (path_clean p)))"
  shows "real_comp c"
proof -
  let ?cs = "clean_comps True [] (split_on slash p)"
  have "?cs \<noteq> []" using assms by (auto simp: path_clean_def Let_def)
  then have "split_on slash (path_clean p) = [] # ?cs"
    using assms(1) clean_comps_no_slash [of _ True p]
    by (auto simp: path_clean_def Let_def intro!: split_join)
  with assms(3) have "c \<in> set ?cs" by simp
  then show ?thesis by (rule clean_comps_rooted_realD)
qed

section \<open>Characters\<close>

definition star :: char where
  "star = CHR ''*''"

definition newline :: char where
  "newline = CHR 0x0A"

end
