(* ===== verification/Go_Strings.thy ===== *)
theory Go_Strings
  imports Go_Path "HOL-Library.Word"
begin

text \<open>
  The package strings as the code uses it, on ASCII text, with the arguments in Go's
  order; the verb \<open>%d\<close> of \<open>fmt.Sscanf\<close>, and the 64-bit integers it reads.  \<open>Split\<close> and
  \<open>Join\<close> are \<open>split_on\<close> and \<open>join_with\<close> of Go_Path.
\<close>

section \<open>Strings\<close>

definition has_prefix :: "string \<Rightarrow> string \<Rightarrow> bool" where
  "has_prefix s p \<longleftrightarrow> take (length p) s = p"

definition has_suffix :: "string \<Rightarrow> string \<Rightarrow> bool" where
  "has_suffix s p \<longleftrightarrow> length p \<le> length s \<and> drop (length s - length p) s = p"

fun str_contains :: "string \<Rightarrow> string \<Rightarrow> bool" where
  "str_contains [] p = (p = [])"
| "str_contains (x # xs) p = (has_prefix (x # xs) p \<or> str_contains xs p)"

lemma str_contains_iff: "str_contains s p \<longleftrightarrow> (\<exists>u v. s = u @ p @ v)"
proof (induction s)
  case (Cons x xs)
  show ?case
  proof
    assume "str_contains (x # xs) p"
    then consider "has_prefix (x # xs) p" | "str_contains xs p" by auto
    then show "\<exists>u v. x # xs = u @ p @ v"
    proof cases
      case 1
      then have "x # xs = [] @ p @ drop (length p) (x # xs)"
        by (metis append_Nil append_take_drop_id has_prefix_def)
      then show ?thesis by blast
    next
      case 2
      with Cons obtain u v where "xs = u @ p @ v" by blast
      then have "x # xs = (x # u) @ p @ v" by simp
      then show ?thesis by blast
    qed
  next
    assume "\<exists>u v. x # xs = u @ p @ v"
    then obtain u v where uv: "x # xs = u @ p @ v" by blast
    show "str_contains (x # xs) p"
    proof (cases u)
      case Nil
      with uv have "has_prefix (x # xs) p" by (simp add: has_prefix_def)
      then show ?thesis by simp
    next
      case (Cons a u')
      with uv have "xs = u' @ p @ v" by simp
      with Cons.IH show ?thesis by auto
    qed
  qed
qed auto

text \<open>\<open>strings.ReplaceAll\<close> with an old text that is not empty, from the left.\<close>

function replace_all :: "string \<Rightarrow> string \<Rightarrow> string \<Rightarrow> string" where
  "replace_all old nw [] = []"
| "replace_all old nw (x # xs) =
     (if old \<noteq> '''' \<and> has_prefix (x # xs) old then nw @ replace_all old nw (drop (length old) (x # xs))
      else x # replace_all old nw xs)"
  by pat_completeness auto
termination by (relation "measure (\<lambda>(old, nw, s). length s)") auto

definition lower_char :: "char \<Rightarrow> char" where
  "lower_char c =
     (let n = of_char c :: nat in if 65 \<le> n \<and> n \<le> 90 then char_of (n + 32) else c)"

definition to_lower :: "string \<Rightarrow> string" where
  "to_lower s = map lower_char s"

definition is_blank :: "char \<Rightarrow> bool" where
  "is_blank c \<longleftrightarrow> (let n = of_char c :: nat in n = 32 \<or> n = 9 \<or> n = 11 \<or> n = 12 \<or> n = 13)"

text \<open>\<open>strings.TrimSpace\<close>.\<close>

definition is_space :: "char \<Rightarrow> bool" where
  "is_space c \<longleftrightarrow> is_blank c \<or> c = newline"

definition trim_space :: "string \<Rightarrow> string" where
  "trim_space s = rev (dropWhile is_space (rev (dropWhile is_space s)))"

definition upper_char :: "char \<Rightarrow> char" where
  "upper_char c =
     (let n = of_char c :: nat in if 97 \<le> n \<and> n \<le> 122 then char_of (n - 32) else c)"

definition to_upper :: "string \<Rightarrow> string" where
  "to_upper s = map upper_char s"

definition trim_suffix :: "string \<Rightarrow> string \<Rightarrow> string" where
  "trim_suffix s p = (if has_suffix s p then take (length s - length p) s else s)"

definition trim_prefix :: "string \<Rightarrow> string \<Rightarrow> string" where
  "trim_prefix s p = (if has_prefix s p then drop (length p) s else s)"

definition is_digit :: "char \<Rightarrow> bool" where
  "is_digit c \<longleftrightarrow> (let n = of_char c :: nat in 48 \<le> n \<and> n \<le> 57)"

definition digit_value :: "char \<Rightarrow> int" where
  "digit_value c = int (of_char c) - 48"

definition digits_value :: "string \<Rightarrow> int" where
  "digits_value ds = foldl (\<lambda>n d. 10 * n + digit_value d) 0 ds"

definition int64_min :: int where "int64_min = - 9223372036854775808"
definition int64_max :: int where "int64_max = 9223372036854775807"

text \<open>
  \<open>fmt.Sscanf(s, "%d", &size)\<close> with \<open>size\<close> 0 before the call: blanks (a newline is
  an error), a sign, decimal digits.  On any error, a value that does not fit
  64 bits among them, \<open>size\<close> keeps 0.
\<close>

definition sscanf_int :: "string \<Rightarrow> int option" where
  "sscanf_int s =
     (let s1 = dropWhile is_blank s;
          neg = (case s1 of [] \<Rightarrow> False | c # _ \<Rightarrow> c = CHR ''-'');
          s2 = (case s1 of [] \<Rightarrow> [] | c # cs \<Rightarrow> if c = CHR ''-'' \<or> c = CHR ''+'' then cs else s1);
          ds = takeWhile is_digit s2;
          v = (if neg then - digits_value ds else digits_value ds)
      in if ds = [] then None else if int64_min \<le> v \<and> v \<le> int64_max then Some v else None)"

definition sscanf_d :: "string \<Rightarrow> int" where
  "sscanf_d s = (case sscanf_int s of Some v \<Rightarrow> v | None \<Rightarrow> 0)"

definition int64_mul :: "int \<Rightarrow> int \<Rightarrow> int" where
  "int64_mul a b = sint (word_of_int a * word_of_int b :: 64 word)"

definition dot :: char where
  "dot = CHR ''.''"

definition int64_add :: "int \<Rightarrow> int \<Rightarrow> int" where
  "int64_add a b = sint (word_of_int a + word_of_int b :: 64 word)"

lemma has_prefix_iff: "has_prefix s pre \<longleftrightarrow> (\<exists>r. s = pre @ r)"
  by (metis append_eq_conv_conj append_take_drop_id has_prefix_def)

lemma has_suffix_iff: "has_suffix s suf \<longleftrightarrow> (\<exists>r. s = r @ suf)"
proof
  assume "has_suffix s suf"
  then show "\<exists>r. s = r @ suf" unfolding has_suffix_def by (metis append_take_drop_id)
next
  assume "\<exists>r. s = r @ suf"
  then show "has_suffix s suf" by (auto simp: has_suffix_def)
qed

lemma trim_suffix_append [simp]: "trim_suffix (r @ suf) suf = r"
  by (simp add: trim_suffix_def has_suffix_def)

lemma has_suffix_append [simp]: "has_suffix (r @ suf) suf"
  by (auto simp: has_suffix_iff)

lemma has_prefix_append [simp]: "has_prefix (pre @ r) pre"
  by (auto simp: has_prefix_iff)

lemma trim_prefix_append [simp]: "trim_prefix (pre @ r) pre = r"
  by (simp add: trim_prefix_def)

lemma split_on_append_sep: "split_on c (x @ c # y) = split_on c x @ split_on c y"
proof (induction x)
  case (Cons a x)
  obtain z zs where "split_on c x = z # zs" by (cases "split_on c x") auto
  with Cons show ?case by simp
qed simp

lemma join_with_append:
  "xs \<noteq> [] \<Longrightarrow> ys \<noteq> [] \<Longrightarrow> join_with s (xs @ ys) = join_with s xs @ s @ join_with s ys"
proof (induction xs)
  case (Cons x xs)
  then show ?case by (cases xs; cases ys) auto
qed simp

section \<open>Range\<close>

lemma int64_mul_range: "int64_min \<le> int64_mul a b \<and> int64_mul a b \<le> int64_max"
  using sint_ge [of "word_of_int a * word_of_int b :: 64 word"]
    sint_lt [of "word_of_int a * word_of_int b :: 64 word"]
  by (simp add: int64_mul_def int64_min_def int64_max_def)

lemma int64_mul_exact:
  assumes "int64_min \<le> a * b" and "a * b \<le> int64_max"
  shows "int64_mul a b = a * b"
proof -
  have "int64_mul a b = signed_take_bit 63 (a * b)"
    by (simp only: int64_mul_def wi_hom_mult sint_sbintrunc') simp
  also have "\<dots> = a * b"
    using assms by (simp add: signed_take_bit_int_eq_self int64_min_def int64_max_def)
  finally show ?thesis .
qed

lemma int64_add_exact:
  assumes "int64_min \<le> a + b" and "a + b \<le> int64_max"
  shows "int64_add a b = a + b"
proof -
  have "int64_add a b = signed_take_bit 63 (a + b)"
    by (simp only: int64_add_def wi_hom_add sint_sbintrunc') simp
  also have "\<dots> = a + b"
    using assms by (simp add: signed_take_bit_int_eq_self int64_min_def int64_max_def)
  finally show ?thesis .
qed

lemma int64_add_range: "int64_min \<le> int64_add a b \<and> int64_add a b \<le> int64_max"
  using sint_ge [of "word_of_int a + word_of_int b :: 64 word"]
    sint_lt [of "word_of_int a + word_of_int b :: 64 word"]
  by (simp add: int64_add_def int64_min_def int64_max_def)

end
