(* ===== verification/Go_Regexp.thy ===== *)
theory Go_Regexp
  imports Go_Strings
begin

text \<open>
  The package regexp, as far as \<open>matchPattern\<close> of pkg/policy/rules.go uses it: the syntax of
  characters, escaped punctuation, the dot, the star after one of these and the two anchors, and an
  unanchored search.  Then \<open>matchPattern\<close> itself, which builds such an expression, and
  the language that it decides.  Texts are taken to be valid UTF-8.
\<close>

section \<open>Syntax\<close>

definition backslash :: char where
  "backslash = CHR 0x5C"

definition is_meta :: "char \<Rightarrow> bool" where
  "is_meta c \<longleftrightarrow> c \<in> set (backslash # ''.+*?()|[]{}^$'')"

text \<open>\<open>regexp.QuoteMeta\<close>.\<close>

fun quote_meta :: "string \<Rightarrow> string" where
  "quote_meta [] = []"
| "quote_meta (c # s) = (if is_meta c then backslash # c # quote_meta s else c # quote_meta s)"

datatype re_token = TokLit char | TokDot | TokStar | TokBegin | TokEnd

text \<open>A backslash makes the ASCII character after it a literal unless that is a letter or a digit.\<close>

definition escapable :: "char \<Rightarrow> bool" where
  "escapable c \<longleftrightarrow> (let n = of_char c :: nat in
     n < 128 \<and> \<not> (48 \<le> n \<and> n \<le> 57 \<or> 65 \<le> n \<and> n \<le> 90 \<or> 97 \<le> n \<and> n \<le> 122))"

text \<open>Nothing for an expression that is refused or outside this fragment.\<close>

fun re_tokens :: "string \<Rightarrow> re_token list option" where
  "re_tokens [] = Some []"
| "re_tokens (c # s) =
     (if c = backslash then
        (case s of [] \<Rightarrow> None
         | d # t \<Rightarrow> if escapable d then map_option (Cons (TokLit d)) (re_tokens t) else None)
      else if c = dot then map_option (Cons TokDot) (re_tokens s)
      else if c = star then map_option (Cons TokStar) (re_tokens s)
      else if c = CHR ''^'' then map_option (Cons TokBegin) (re_tokens s)
      else if c = CHR ''$'' then map_option (Cons TokEnd) (re_tokens s)
      else if is_meta c then None
      else map_option (Cons (TokLit c)) (re_tokens s))"

datatype re_atom = ReLit char | ReDot
datatype re_item = ReOne re_atom | ReMany re_atom | ReBegin | ReEnd

fun token_atom :: "re_token \<Rightarrow> re_atom option" where
  "token_atom (TokLit c) = Some (ReLit c)"
| "token_atom TokDot = Some ReDot"
| "token_atom _ = None"

fun re_items :: "re_token list \<Rightarrow> re_item list option" where
  "re_items [] = Some []"
| "re_items (TokBegin # ts) = map_option (Cons ReBegin) (re_items ts)"
| "re_items (TokEnd # ts) = map_option (Cons ReEnd) (re_items ts)"
| "re_items (TokStar # ts) = None"
| "re_items (t # TokStar # ts) =
     (case token_atom t of None \<Rightarrow> None | Some a \<Rightarrow> map_option (Cons (ReMany a)) (re_items ts))"
| "re_items (t # ts) =
     (case token_atom t of None \<Rightarrow> None | Some a \<Rightarrow> map_option (Cons (ReOne a)) (re_items ts))"

definition re_compile :: "string \<Rightarrow> re_item list option" where
  "re_compile expr = (case re_tokens expr of None \<Rightarrow> None | Some ts \<Rightarrow> re_items ts)"

section \<open>Matching\<close>

text \<open>The dot does not match a newline.\<close>

fun atom_ok :: "re_atom \<Rightarrow> char \<Rightarrow> bool" where
  "atom_ok (ReLit c) x = (x = c)"
| "atom_ok ReDot x = (x \<noteq> newline)"

text \<open>Some prefix of the text matches; the flag says that the text is not preceded by anything.\<close>

function re_here :: "bool \<Rightarrow> re_item list \<Rightarrow> string \<Rightarrow> bool" where
  "re_here b [] s = True"
| "re_here b (ReBegin # rs) s = (b \<and> re_here b rs s)"
| "re_here b (ReEnd # rs) s = (s = [] \<and> re_here b rs s)"
| "re_here b (ReOne a # rs) s = (case s of [] \<Rightarrow> False | x # xs \<Rightarrow> atom_ok a x \<and> re_here False rs xs)"
| "re_here b (ReMany a # rs) s =
     (re_here b rs s \<or> (case s of [] \<Rightarrow> False | x # xs \<Rightarrow> atom_ok a x \<and> re_here False (ReMany a # rs) xs))"
  by pat_completeness auto
termination by (relation "measure (\<lambda>(b, rs, s). length rs + length s)") auto

fun re_search :: "bool \<Rightarrow> re_item list \<Rightarrow> string \<Rightarrow> bool" where
  "re_search b rs [] = re_here b rs []"
| "re_search b rs (x # xs) = (re_here b rs (x # xs) \<or> re_search False rs xs)"

text \<open>\<open>regexp.MatchString\<close>, which matches nothing when it returns an error.\<close>

definition match_string :: "string \<Rightarrow> string \<Rightarrow> bool" where
  "match_string expr s = (case re_compile expr of None \<Rightarrow> False | Some rs \<Rightarrow> re_search True rs s)"

section \<open>Wildcard patterns\<close>

text \<open>The expression for a pattern: quoted, with each quoted star read as dot and star.\<close>

definition pattern_expr :: "string \<Rightarrow> string" where
  "pattern_expr pattern = replace_all [backslash, star] [dot, star] (quote_meta pattern)"

definition match_pattern :: "string \<Rightarrow> string \<Rightarrow> bool" where
  "match_pattern s pattern =
     (if s = pattern then True
      else if \<not> str_contains pattern [star] then False
      else match_string (''^'' @ pattern_expr pattern @ ''$'') s)"

section \<open>The direct matcher\<close>

fun glob_match :: "string \<Rightarrow> string \<Rightarrow> bool" where
  "glob_match [] s = (s = [])"
| "glob_match (c # p) [] = (if c = star then glob_match p [] else False)"
| "glob_match (c # p) (x # xs) =
     (if c = star then glob_match p (x # xs) \<or> (x \<noteq> newline \<and> glob_match (c # p) xs)
      else x = c \<and> glob_match p xs)"

definition wild_item :: "char \<Rightarrow> re_item" where
  "wild_item c = (if c = star then ReMany ReDot else ReOne (ReLit c))"

definition wild_text :: "char \<Rightarrow> string" where
  "wild_text c = (if c = star then [dot, star] else if is_meta c then [backslash, c] else [c])"

lemma char_consts [simp]:
  "is_meta star" "is_meta backslash" "is_meta dot" "star \<noteq> backslash" "backslash \<noteq> star" "dot \<noteq> backslash" "backslash \<noteq> dot"
  "dot \<noteq> star" "star \<noteq> dot"
  by (simp_all add: is_meta_def star_def backslash_def dot_def)

lemma meta_escapable: "is_meta c \<Longrightarrow> escapable c"
  by (auto simp: is_meta_def backslash_def escapable_def Let_def)

lemma quoted_start: "quote_meta p \<noteq> star # r"
  by (cases p) (auto split: if_splits)

lemma replace_quoted:
  "replace_all [backslash, star] [dot, star] (quote_meta p) = concat (map wild_text p)"
proof (induction p)
  case (Cons c p)
  have no: "replace_all [backslash, star] [dot, star] (x # quote_meta p) = x # concat (map wild_text p)" for x
    using Cons.IH quoted_start [of p] by (cases "quote_meta p") (auto simp: has_prefix_def)
  show ?case
  proof (cases "c = star")
    case True
    then show ?thesis using Cons.IH by (simp add: has_prefix_def wild_text_def)
  next
    case False
    then have "replace_all [backslash, star] [dot, star] (backslash # c # quote_meta p) = backslash # c # concat (map wild_text p)"
      by (subst replace_all.simps(2)) (simp add: has_prefix_def no [of c] del: replace_all.simps)
    then show ?thesis using False no [of c] by (simp add: wild_text_def [of c] del: replace_all.simps)
  qed
qed simp

fun wild_tokens :: "string \<Rightarrow> re_token list" where
  "wild_tokens [] = [TokEnd]"
| "wild_tokens (c # p) = (if c = star then TokDot # TokStar # wild_tokens p else TokLit c # wild_tokens p)"

lemma tokens_wild: "re_tokens (concat (map wild_text p) @ ''$'') = Some (wild_tokens p)"
proof (induction p)
  case Nil
  show ?case by (simp add: backslash_def dot_def star_def)
next
  case (Cons c p)
  have plain: "c \<noteq> backslash" "c \<noteq> dot" "c \<noteq> CHR ''^''" "c \<noteq> CHR ''$''" if "\<not> is_meta c"
    using that by (auto simp: is_meta_def dot_def)
  show ?case using Cons.IH plain by (auto simp: wild_text_def meta_escapable)
qed

lemma wild_tokens_start: "wild_tokens p \<noteq> TokStar # ts"
  by (cases p) auto

lemma items_lit:
  assumes "\<And>us. ts \<noteq> TokStar # us"
  shows "re_items (TokLit c # ts) = map_option (Cons (ReOne (ReLit c))) (re_items ts)"
proof (cases ts)
  case (Cons t us)
  then show ?thesis using assms by (cases t) auto
qed simp

lemma items_wild: "re_items (wild_tokens p) = Some (map wild_item p @ [ReEnd])"
  by (induction p) (auto simp: wild_item_def items_lit wild_tokens_start)

lemma compile_wild: "re_compile (''^'' @ pattern_expr p @ ''$'') = Some (ReBegin # map wild_item p @ [ReEnd])"
proof -
  have "re_tokens (CHR ''^'' # (concat (map wild_text p) @ ''$'')) = Some (TokBegin # wild_tokens p)"
    using tokens_wild [of p] by (simp add: backslash_def dot_def star_def)
  then show ?thesis by (simp add: re_compile_def pattern_expr_def replace_quoted items_wild)
qed

lemma here_wild: "re_here b (map wild_item p @ [ReEnd]) s = glob_match p s"
proof (induction p s arbitrary: b rule: glob_match.induct)
  case (3 c p x xs)
  then show ?case by (cases "c = star") (auto simp: wild_item_def)
qed (auto simp: wild_item_def)

lemma search_begin: "re_search b (ReBegin # rs) s = (b \<and> re_here True rs s)"
proof (induction s arbitrary: b)
  case (Cons x xs)
  then show ?case by (cases b) auto
qed auto

lemma match_string_wild: "match_string (''^'' @ pattern_expr p @ ''$'') s = glob_match p s"
  by (simp only: match_string_def compile_wild option.case search_begin here_wild simp_thms)

lemma contains_char: "str_contains s [c] \<longleftrightarrow> c \<in> set s"
  by (induction s) (auto simp: has_prefix_def)

text \<open>What the construction comes to; it is also how the matcher is evaluated.\<close>

lemma match_pattern_glob [code]:
  "match_pattern s pattern =
     (if s = pattern then True else if star \<notin> set pattern then False else glob_match pattern s)"
  by (simp only: match_pattern_def match_string_wild contains_char)

text \<open>The language of a pattern, stated without reference to how it is matched.\<close>

inductive glob_lang :: "string \<Rightarrow> string \<Rightarrow> bool" where
  glob_Nil: "glob_lang [] []"
| glob_lit: "c \<noteq> star \<Longrightarrow> glob_lang p s \<Longrightarrow> glob_lang (c # p) (c # s)"
| glob_star: "newline \<notin> set w \<Longrightarrow> glob_lang p s \<Longrightarrow> glob_lang (star # p) (w @ s)"

inductive_cases glob_lang_NilE: "glob_lang [] s"
inductive_cases glob_lang_starE: "glob_lang (star # p) s"
inductive_cases glob_lang_ConsE: "glob_lang (c # p) s"

lemma glob_star_skip: "newline \<notin> set w \<Longrightarrow> glob_match p s \<Longrightarrow> glob_match (star # p) (w @ s)"
proof (induction w)
  case Nil
  then show ?case by (cases s) auto
qed auto

lemma glob_lang_imp_match: "glob_lang p s \<Longrightarrow> glob_match p s"
proof (induction rule: glob_lang.induct)
  case (glob_star w p s)
  then show ?case by (intro glob_star_skip)
qed auto

lemma glob_match_imp_lang: "glob_match p s \<Longrightarrow> glob_lang p s"
proof (induction p s rule: glob_match.induct)
  case (1 s)
  then show ?case by (simp add: glob_Nil)
next
  case (2 c p)
  then show ?case using glob_star [of "[]" p "[]"] by (auto split: if_splits)
next
  case (3 c p x xs)
  show ?case
  proof (cases "c = star")
    case False
    with 3 show ?thesis by (auto intro: glob_lit)
  next
    case True
    with "3.prems" consider "glob_match p (x # xs)" | "x \<noteq> newline" "glob_match (c # p) xs"
      by auto
    then show ?thesis
    proof cases
      case 1
      then show ?thesis using "3.IH"(1) True glob_star [of "[]" p "x # xs"] by simp
    next
      case 2
      with "3.IH"(2) True have "glob_lang (star # p) xs" by simp
      then obtain w t where "xs = w @ t" "newline \<notin> set w" "glob_lang p t"
        by (auto elim: glob_lang_starE)
      then show ?thesis using 2 True glob_star [of "x # w" p t] by simp
    qed
  qed
qed

lemma glob_match_iff_lang: "glob_match p s \<longleftrightarrow> glob_lang p s"
  by (blast intro: glob_lang_imp_match glob_match_imp_lang)

lemma glob_lang_literal: "star \<notin> set p \<Longrightarrow> glob_lang p s \<longleftrightarrow> s = p"
proof (induction p arbitrary: s)
  case Nil
  then show ?case by (auto intro: glob_Nil elim: glob_lang_NilE)
next
  case (Cons c p)
  then show ?case by (auto intro: glob_lit elim: glob_lang_ConsE)
qed

lemma glob_lang_self: "glob_lang p p"
proof (induction p)
  case (Cons c p)
  then show ?case
    using glob_star [of "[star]" p p] by (cases "c = star") (auto intro: glob_lit simp: star_def newline_def)
qed (rule glob_Nil)

lemma match_pattern_lang: "match_pattern s pat \<longleftrightarrow> glob_lang pat s"
  by (auto simp: match_pattern_glob glob_match_iff_lang glob_lang_literal glob_lang_self)

text \<open>A pattern that is a literal prefix and one final star.\<close>

lemma glob_prefix_star:
  "star \<notin> set d \<Longrightarrow> glob_match (d @ [star]) s \<longleftrightarrow> (\<exists>w. s = d @ w \<and> newline \<notin> set w)"
proof (induction d arbitrary: s)
  case Nil
  have "glob_match [star] s \<longleftrightarrow> newline \<notin> set s" by (induction s) auto
  then show ?case by simp
next
  case (Cons c d)
  then show ?case by (cases s) auto
qed

end
