(* ===== verification/Go_Types.thy ===== *)
theory Go_Types
  imports Prelude
begin

text \<open>
  The shared data types of pkg/types/common.go: identifiers, timestamps,
  statuses and errors with a code.  Error messages are text for people and no
  code under src/ branches on them; an error is its code and what it wraps.
  A timestamp is a count of nanoseconds; 0 stands for Go's zero time.
\<close>

type_synonym id = string
type_synonym timestamp = int
type_synonym duration = int

datatype status =
    StatusUnknown | StatusStarting | StatusRunning | StatusStopping
  | StatusStopped | StatusError | StatusTerminated | StatusOther string

text \<open>
  The codes from \<open>ErrProviderNotAvailable\<close> on are those of pkg/provider/types.go, whose rate
  limit code is the same string as the one of the shared codes.
\<close>

datatype err_code =
    ErrNotFound | ErrAlreadyExists | ErrInvalidArgument | ErrInvalid | ErrPermission
  | ErrPermissionDenied | ErrInternal | ErrUnavailable | ErrTimeout | ErrCanceled
  | ErrHandlerFailed | ErrPartialFailure | ErrFiltered | ErrRateLimited | ErrDuplicate
  | ErrFailedPrecondition | ErrResourceExhausted
  | ErrProviderNotAvailable | ErrProviderNotFound | ErrModelNotSupported | ErrModelNotFound
  | ErrInvalidRequest | ErrAuthenticationFailed | ErrContextTooLong | ErrInvalidResponse
  | ErrStreamError | ErrProviderTimeout | ErrUpstreamError

text \<open>
  \<open>GoErr c None\<close> is \<open>NewError\<close>, \<open>GoErr c (Some e)\<close> is \<open>WrapError\<close>, and
  \<open>PlainErr\<close> is any other error value (\<open>fmt.Errorf\<close>, a context error).
\<close>

datatype go_error = GoErr err_code "go_error option" | PlainErr string

type_synonym 'a result = "go_error + 'a"

text \<open>A value of any type: its text, its number, its truth value, or a token for anything else.\<close>

datatype any_value = AnyString string | AnyInt int | AnyBool bool | AnyOther nat

definition new_error :: "err_code \<Rightarrow> go_error" where
  "new_error c = GoErr c None"

definition wrap_error :: "err_code \<Rightarrow> go_error \<Rightarrow> go_error" where
  "wrap_error c e = GoErr c (Some e)"

fun unwrap_error :: "go_error \<Rightarrow> go_error option" where
  "unwrap_error (GoErr c e) = e"
| "unwrap_error (PlainErr m) = None"

fun is_err_code :: "go_error \<Rightarrow> err_code \<Rightarrow> bool" where
  "is_err_code (GoErr c e) c' = (c = c')"
| "is_err_code (PlainErr m) c' = False"

fun get_error_code :: "go_error \<Rightarrow> err_code option" where
  "get_error_code (GoErr c e) = Some c"
| "get_error_code (PlainErr m) = None"

definition id_is_empty :: "id \<Rightarrow> bool" where
  "id_is_empty i \<longleftrightarrow> i = ''''"

definition ts_is_zero :: "timestamp \<Rightarrow> bool" where
  "ts_is_zero t \<longleftrightarrow> t = 0"

lemma is_err_code_new [simp]: "is_err_code (new_error c) c' \<longleftrightarrow> c = c'"
  by (simp add: new_error_def)

lemma is_err_code_wrap [simp]: "is_err_code (wrap_error c e) c' \<longleftrightarrow> c = c'"
  by (simp add: wrap_error_def)

lemma new_error_inject [simp]: "new_error c = new_error c' \<longleftrightarrow> c = c'"
  by (simp add: new_error_def)

lemma new_error_neq_wrap [simp]: "new_error c \<noteq> wrap_error c' e"
  by (simp add: new_error_def wrap_error_def)

lemma is_err_code_iff: "is_err_code e c \<longleftrightarrow> get_error_code e = Some c"
  by (cases e) auto

text \<open>A loop that returns at the first error.\<close>

fun first_error :: "('a \<Rightarrow> go_error option) \<Rightarrow> 'a list \<Rightarrow> go_error option" where
  "first_error f [] = None"
| "first_error f (x # xs) = (case f x of Some e \<Rightarrow> Some e | None \<Rightarrow> first_error f xs)"

lemma first_error_None: "first_error f xs = None \<longleftrightarrow> (\<forall>x \<in> set xs. f x = None)"
  by (induction xs) (auto split: option.split)

section \<open>Decimal text\<close>

text \<open>The verb \<open>%d\<close> of \<open>fmt.Sprintf\<close>.\<close>

fun dec_nat :: "nat \<Rightarrow> string" where
  "dec_nat n = (if n < 10 then [char_of (48 + n)] else dec_nat (n div 10) @ [char_of (48 + n mod 10)])"

declare dec_nat.simps [simp del]

definition dec_int :: "int \<Rightarrow> string" where
  "dec_int i = (if i < 0 then CHR ''-'' # dec_nat (nat (- i)) else dec_nat (nat i))"

section \<open>Error results\<close>

fun is_ok :: "'a result \<Rightarrow> bool" where
  "is_ok (Inr a) = True"
| "is_ok (Inl e) = False"

lemma is_ok_iff: "is_ok r \<longleftrightarrow> (\<exists>a. r = Inr a)"
  by (cases r) auto

lemma not_is_ok_iff: "\<not> is_ok r \<longleftrightarrow> (\<exists>e. r = Inl e)"
  by (cases r) auto

end
