(* ===== verification/Container_Types.thy ===== *)
theory Container_Types
  imports Complex_Main Go_Types
begin

text \<open>
  The container configuration of pkg/types/container.go that the policy engine
  validates and rewrites.  A 64-bit quantity is an \<open>int\<close> where the code only
  compares it; an optional pointer is an \<open>option\<close>.
\<close>

text \<open>Go's string-valued enumerations admit any other string.\<close>

datatype mount_type = MountBind | MountVolume | MountTmpfs | MountOther string

record mount =
  mt_type :: mount_type
  mt_source :: string
  mt_target :: string
  mt_read_only :: bool

record port_binding =
  pb_container_port :: int
  pb_host_port :: int
  pb_protocol :: string
  pb_host_ip :: string

record resource_limits =
  rl_nano_cpus :: int
  rl_memory_bytes :: int
  rl_memory_swap :: int
  rl_pids_limit :: "int option"

record resource_usage =
  ru_cpu_percent :: rat
  ru_memory_usage :: int
  ru_memory_limit :: int
  ru_memory_percent :: rat
  ru_network_rx :: int
  ru_network_tx :: int
  ru_block_read :: int
  ru_block_write :: int
  ru_pids_count :: int

record restart_policy =
  rp_name :: string
  rp_max_retry :: int
  rp_timeout :: "duration option"

record health_check =
  hc_test :: "string list"
  hc_interval :: duration
  hc_timeout :: duration
  hc_start_period :: duration
  hc_retries :: int

record container_config =
  cc_image :: string
  cc_command :: "string list"
  cc_args :: "string list"
  cc_env :: "(string, string) gomap"
  cc_working_dir :: string
  cc_labels :: "(string, string) gomap"
  cc_mounts :: "mount list"
  cc_ports :: "port_binding list"
  cc_network_mode :: string
  cc_networks :: "string list"
  cc_resources :: resource_limits
  cc_restart_policy :: restart_policy
  cc_read_only_rootfs :: bool
  cc_remove_on_stop :: bool
  cc_user :: string
  cc_security_opt :: "string list"
  cc_cap_add :: "string list"
  cc_cap_drop :: "string list"
  cc_health_check :: "health_check option"

text \<open>Go's zero value of the configuration, the start of every concrete one below.\<close>

definition zero_resources :: resource_limits where
  "zero_resources = \<lparr>rl_nano_cpus = 0, rl_memory_bytes = 0, rl_memory_swap = 0, rl_pids_limit = None\<rparr>"

definition zero_usage :: resource_usage where
  "zero_usage = \<lparr>ru_cpu_percent = 0, ru_memory_usage = 0, ru_memory_limit = 0, ru_memory_percent = 0, ru_network_rx = 0,
     ru_network_tx = 0, ru_block_read = 0, ru_block_write = 0, ru_pids_count = 0\<rparr>"

definition zero_config :: container_config where
  "zero_config = \<lparr>cc_image = '''', cc_command = [], cc_args = [], cc_env = [], cc_working_dir = '''',
     cc_labels = [], cc_mounts = [], cc_ports = [], cc_network_mode = '''', cc_networks = [],
     cc_resources = zero_resources,
     cc_restart_policy = \<lparr>rp_name = '''', rp_max_retry = 0, rp_timeout = None\<rparr>,
     cc_read_only_rootfs = False, cc_remove_on_stop = False, cc_user = '''', cc_security_opt = [],
     cc_cap_add = [], cc_cap_drop = [], cc_health_check = None\<rparr>"

end
