(* ===== verification/Policy_Rules.thy ===== *)
theory Policy_Rules
  imports Go_Regexp Container_Types
begin

text \<open>
  pkg/policy/rules.go: the policy records, how a session policy is merged over
  the global one, when a policy is accepted, the two built-in policies, and the
  path check on the legacy allow and deny lists.
\<close>

section \<open>Policies\<close>

text \<open>The last constructor of each mode stands for a string that is none of the constants.\<close>

datatype enforcement_mode = ModeStrict | ModePermissive | ModeDisabled | ModeOther string

datatype severity = SeverityError | SeverityWarning | SeverityInfo

datatype access_mode = AccessReadOnly | AccessReadWrite | AccessDenied | AccessOther string

record resource_quota =
  rq_max_cpus :: "int option"
  rq_min_cpus :: "int option"
  rq_max_memory :: "int option"
  rq_min_memory :: "int option"
  rq_max_memory_swap :: "int option"
  rq_max_pids :: "int option"

record allow_entry =
  ae_path :: string
  ae_user :: string
  ae_group :: string
  ae_mode :: access_mode

record mount_policy =
  mp_allow_bind :: bool
  mp_allowed_bind_sources :: "string list"
  mp_denied_bind_sources :: "string list"
  mp_allow_volumes :: bool
  mp_allowed_volumes :: "string list"
  mp_denied_volumes :: "string list"
  mp_allow_tmpfs :: bool
  mp_max_tmpfs_size :: "int option"
  mp_enforce_ro_rootfs :: bool
  mp_allowlist :: "allow_entry list"

record network_policy =
  np_allow_network :: bool
  np_allowed_networks :: "string list"
  np_denied_networks :: "string list"
  np_allow_host :: bool

record image_policy =
  ip_allowed_images :: "string list"
  ip_denied_images :: "string list"
  ip_require_digest :: bool
  ip_allow_latest :: bool

record security_policy =
  sp_allow_privileged :: bool
  sp_allowed_caps :: "string list"
  sp_add_caps :: "string list"
  sp_drop_caps :: "string list"
  sp_allow_root :: bool
  sp_require_non_root :: bool
  sp_allowed_uids :: "int list"
  sp_allowed_gids :: "int list"
  sp_read_only_rootfs :: bool

record policy =
  pol_id :: string
  pol_name :: string
  pol_description :: string
  pol_mode :: enforcement_mode
  pol_quotas :: resource_quota
  pol_mounts :: mount_policy
  pol_network :: network_policy
  pol_images :: image_policy
  pol_security :: security_policy
  pol_labels :: "(string, string) gomap"

datatype component = CompQuota | CompMount | CompNetwork | CompImage | CompSecurity

record violation =
  v_rule :: string
  v_severity :: severity
  v_component :: component

record validation_result =
  vr_allowed :: bool
  vr_violations :: "violation list"
  vr_warnings :: "violation list"

section \<open>Merge\<close>

definition ptr_over :: "'a option \<Rightarrow> 'a option \<Rightarrow> 'a option" where
  "ptr_over new old = (if new \<noteq> None then new else old)"

definition slice_over :: "'a list \<Rightarrow> 'a list \<Rightarrow> 'a list" where
  "slice_over new old = (if length new > 0 then new else old)"

definition merge_quotas :: "resource_quota \<Rightarrow> resource_quota \<Rightarrow> resource_quota" where
  "merge_quotas p q = p\<lparr>
     rq_max_cpus := ptr_over (rq_max_cpus q) (rq_max_cpus p),
     rq_min_cpus := ptr_over (rq_min_cpus q) (rq_min_cpus p),
     rq_max_memory := ptr_over (rq_max_memory q) (rq_max_memory p),
     rq_min_memory := ptr_over (rq_min_memory q) (rq_min_memory p),
     rq_max_memory_swap := ptr_over (rq_max_memory_swap q) (rq_max_memory_swap p),
     rq_max_pids := ptr_over (rq_max_pids q) (rq_max_pids p)\<rparr>"

definition merge_mounts :: "mount_policy \<Rightarrow> mount_policy \<Rightarrow> mount_policy" where
  "merge_mounts p q = p\<lparr>
     mp_allow_bind := mp_allow_bind q,
     mp_allowed_bind_sources := slice_over (mp_allowed_bind_sources q) (mp_allowed_bind_sources p),
     mp_denied_bind_sources := slice_over (mp_denied_bind_sources q) (mp_denied_bind_sources p),
     mp_allow_volumes := mp_allow_volumes q,
     mp_allowed_volumes := slice_over (mp_allowed_volumes q) (mp_allowed_volumes p),
     mp_denied_volumes := slice_over (mp_denied_volumes q) (mp_denied_volumes p),
     mp_allow_tmpfs := mp_allow_tmpfs q,
     mp_max_tmpfs_size := ptr_over (mp_max_tmpfs_size q) (mp_max_tmpfs_size p),
     mp_enforce_ro_rootfs := mp_enforce_ro_rootfs q,
     mp_allowlist := slice_over (mp_allowlist q) (mp_allowlist p)\<rparr>"

definition merge_network :: "network_policy \<Rightarrow> network_policy \<Rightarrow> network_policy" where
  "merge_network p q = p\<lparr>
     np_allow_network := np_allow_network q,
     np_allowed_networks := slice_over (np_allowed_networks q) (np_allowed_networks p),
     np_denied_networks := slice_over (np_denied_networks q) (np_denied_networks p),
     np_allow_host := np_allow_host q\<rparr>"

definition merge_images :: "image_policy \<Rightarrow> image_policy \<Rightarrow> image_policy" where
  "merge_images p q = p\<lparr>
     ip_allowed_images := slice_over (ip_allowed_images q) (ip_allowed_images p),
     ip_denied_images := slice_over (ip_denied_images q) (ip_denied_images p),
     ip_require_digest := ip_require_digest q,
     ip_allow_latest := ip_allow_latest q\<rparr>"

definition merge_security :: "security_policy \<Rightarrow> security_policy \<Rightarrow> security_policy" where
  "merge_security p q = p\<lparr>
     sp_allow_privileged := sp_allow_privileged q,
     sp_allowed_caps := slice_over (sp_allowed_caps q) (sp_allowed_caps p),
     sp_add_caps := slice_over (sp_add_caps q) (sp_add_caps p),
     sp_drop_caps := slice_over (sp_drop_caps q) (sp_drop_caps p),
     sp_allow_root := sp_allow_root q,
     sp_require_non_root := sp_require_non_root q,
     sp_allowed_uids := slice_over (sp_allowed_uids q) (sp_allowed_uids p),
     sp_allowed_gids := slice_over (sp_allowed_gids q) (sp_allowed_gids p),
     sp_read_only_rootfs := sp_read_only_rootfs q\<rparr>"

definition policy_merge :: "policy \<Rightarrow> policy option \<Rightarrow> policy" where
  "policy_merge p other =
     (case other of None \<Rightarrow> p
      | Some q \<Rightarrow> p\<lparr>
          pol_quotas := merge_quotas (pol_quotas p) (pol_quotas q),
          pol_mounts := merge_mounts (pol_mounts p) (pol_mounts q),
          pol_network := merge_network (pol_network p) (pol_network q),
          pol_images := merge_images (pol_images p) (pol_images q),
          pol_security := merge_security (pol_security p) (pol_security q),
          pol_mode := pol_mode q\<rparr>)"

section \<open>Validate\<close>

definition known_mode :: "enforcement_mode \<Rightarrow> bool" where
  "known_mode m \<longleftrightarrow> (case m of ModeOther _ \<Rightarrow> False | _ \<Rightarrow> True)"

definition known_access :: "access_mode \<Rightarrow> bool" where
  "known_access m \<longleftrightarrow> (case m of AccessOther _ \<Rightarrow> False | _ \<Rightarrow> True)"

text \<open>\<open>min\<close> and \<open>max\<close> both set and in the wrong order.\<close>

definition crossed :: "int option \<Rightarrow> int option \<Rightarrow> bool" where
  "crossed lo hi \<longleftrightarrow> (case (lo, hi) of (Some a, Some b) \<Rightarrow> a > b | _ \<Rightarrow> False)"

text \<open>A policy error: which of the returns of \<open>Validate\<close> was taken.\<close>

datatype policy_error =
    InvalidMode enforcement_mode | MinCpusExceedMax | MinMemoryExceedsMax | MaxPidsBelowOne
  | MaxTmpfsNegative | EntryPathEmpty nat | EntryPathRelative nat | EntryModeInvalid nat
  | EntryUserAndGroup nat | ImagePatternInvalid string

text \<open>The fixed part of each error's text.\<close>

fun policy_error_text :: "policy_error \<Rightarrow> string" where
  "policy_error_text (InvalidMode m) = ''invalid enforcement mode''"
| "policy_error_text MinCpusExceedMax = ''min CPUs cannot exceed max CPUs''"
| "policy_error_text MinMemoryExceedsMax = ''min memory cannot exceed max memory''"
| "policy_error_text MaxPidsBelowOne = ''max PIDs must be at least 1''"
| "policy_error_text MaxTmpfsNegative = ''max tmpfs size cannot be negative''"
| "policy_error_text (EntryPathEmpty i) = ''path cannot be empty''"
| "policy_error_text (EntryPathRelative i) = ''path must be absolute''"
| "policy_error_text (EntryModeInvalid i) = ''invalid mode''"
| "policy_error_text (EntryUserAndGroup i) = ''cannot specify both user and group''"
| "policy_error_text (ImagePatternInvalid p) = ''invalid image pattern''"

definition validate_entry :: "nat \<Rightarrow> allow_entry \<Rightarrow> policy_error option" where
  "validate_entry i e =
     (if ae_path e = '''' then Some (EntryPathEmpty i)
      else if \<not> path_is_abs (ae_path e) then Some (EntryPathRelative i)
      else if \<not> known_access (ae_mode e) then Some (EntryModeInvalid i)
      else if ae_user e \<noteq> '''' \<and> ae_group e \<noteq> '''' then Some (EntryUserAndGroup i)
      else None)"

fun validate_entries :: "nat \<Rightarrow> allow_entry list \<Rightarrow> policy_error option" where
  "validate_entries i [] = None"
| "validate_entries i (e # es) =
     (case validate_entry i e of Some err \<Rightarrow> Some err | None \<Rightarrow> validate_entries (Suc i) es)"

text \<open>
  \<open>parseImagePattern\<close> splits a pattern at the first colon and takes the first
  path element for a host when it contains a dot.  Its error result is always nil.
\<close>

definition parse_image_pattern :: "string \<Rightarrow> (string \<times> string \<times> string) \<times> go_error option" where
  "parse_image_pattern pattern =
     (let image_ref = takeWhile (\<lambda>c. c \<noteq> CHR '':'') pattern;
          tag = tl (dropWhile (\<lambda>c. c \<noteq> CHR '':'') pattern);
          parts = split_on slash image_ref
      in if length parts > 1 \<and> str_contains (hd parts) ''.''
         then ((hd parts, join_with [slash] (tl parts), tag), None)
         else (('''', image_ref, tag), None))"

fun validate_patterns :: "string list \<Rightarrow> policy_error option" where
  "validate_patterns [] = None"
| "validate_patterns (p # ps) =
     (case snd (parse_image_pattern p) of
        Some e \<Rightarrow> Some (ImagePatternInvalid p)
      | None \<Rightarrow> validate_patterns ps)"

definition policy_validate :: "policy \<Rightarrow> policy_error option" where
  "policy_validate p =
     (let q = pol_quotas p; m = pol_mounts p in
      if \<not> known_mode (pol_mode p) then Some (InvalidMode (pol_mode p))
      else if crossed (rq_min_cpus q) (rq_max_cpus q) then Some MinCpusExceedMax
      else if crossed (rq_min_memory q) (rq_max_memory q) then Some MinMemoryExceedsMax
      else if (case rq_max_pids q of Some n \<Rightarrow> n < 1 | None \<Rightarrow> False) then Some MaxPidsBelowOne
      else if (case mp_max_tmpfs_size m of Some n \<Rightarrow> n < 0 | None \<Rightarrow> False) then Some MaxTmpfsNegative
      else (case validate_entries 0 (mp_allowlist m) of
              Some e \<Rightarrow> Some e
            | None \<Rightarrow>
               (case validate_patterns (ip_allowed_images (pol_images p)) of
                  Some e \<Rightarrow> Some e
                | None \<Rightarrow> validate_patterns (ip_denied_images (pol_images p)))))"

section \<open>Built-in policies\<close>

definition zero_mounts :: mount_policy where
  "zero_mounts = \<lparr>mp_allow_bind = False, mp_allowed_bind_sources = [], mp_denied_bind_sources = [],
     mp_allow_volumes = False, mp_allowed_volumes = [], mp_denied_volumes = [], mp_allow_tmpfs = False,
     mp_max_tmpfs_size = None, mp_enforce_ro_rootfs = False, mp_allowlist = []\<rparr>"

definition zero_security :: security_policy where
  "zero_security = \<lparr>sp_allow_privileged = False, sp_allowed_caps = [], sp_add_caps = [],
     sp_drop_caps = [], sp_allow_root = False, sp_require_non_root = False, sp_allowed_uids = [],
     sp_allowed_gids = [], sp_read_only_rootfs = False\<rparr>"

definition default_policy :: policy where
  "default_policy = \<lparr>pol_id = ''default'', pol_name = ''Default Policy'',
     pol_description = ''Default security policy with reasonable restrictions'',
     pol_mode = ModeStrict,
     pol_quotas = \<lparr>rq_max_cpus = Some 4000000000, rq_min_cpus = None,
       rq_max_memory = Some 8589934592, rq_min_memory = None,
       rq_max_memory_swap = Some 8589934592, rq_max_pids = Some 1024\<rparr>,
     pol_mounts = zero_mounts\<lparr>mp_allow_volumes := True, mp_allow_tmpfs := True,
       mp_max_tmpfs_size := Some 268435456\<rparr>,
     pol_network = \<lparr>np_allow_network = True, np_allowed_networks = [], np_denied_networks = [],
       np_allow_host = False\<rparr>,
     pol_images = \<lparr>ip_allowed_images = [], ip_denied_images = [], ip_require_digest = False,
       ip_allow_latest = False\<rparr>,
     pol_security = zero_security,
     pol_labels = []\<rparr>"

definition permissive_policy :: policy where
  "permissive_policy = \<lparr>pol_id = ''permissive'', pol_name = ''Permissive Policy'',
     pol_description = ''Permissive security policy for development'',
     pol_mode = ModePermissive,
     pol_quotas = \<lparr>rq_max_cpus = Some 16000000000, rq_min_cpus = None,
       rq_max_memory = Some 17179869184, rq_min_memory = None,
       rq_max_memory_swap = Some (-1), rq_max_pids = Some 4096\<rparr>,
     pol_mounts = zero_mounts\<lparr>mp_allow_bind := True, mp_allow_volumes := True, mp_allow_tmpfs := True\<rparr>,
     pol_network = \<lparr>np_allow_network = True, np_allowed_networks = [], np_denied_networks = [],
       np_allow_host = False\<rparr>,
     pol_images = \<lparr>ip_allowed_images = [], ip_denied_images = [], ip_require_digest = False,
       ip_allow_latest = True\<rparr>,
     pol_security = zero_security\<lparr>sp_allow_root := True\<rparr>,
     pol_labels = []\<rparr>"

section \<open>isPathAllowed\<close>

definition path_hits :: "string \<Rightarrow> string \<Rightarrow> bool" where
  "path_hits path pattern \<longleftrightarrow> match_pattern (path_clean path) pattern \<or> match_pattern path pattern"

definition is_path_allowed :: "string \<Rightarrow> string list \<Rightarrow> string list \<Rightarrow> bool" where
  "is_path_allowed path allowed denied =
     (if \<exists>p \<in> set denied. path_hits path p then False
      else if length allowed = 0 then True
      else \<exists>p \<in> set allowed. path_hits path p)"

section \<open>Lemmas\<close>

lemma ptr_over_simps [simp]: "ptr_over (Some a) o' = Some a" "ptr_over None o' = o'"
  by (auto simp: ptr_over_def)

lemma slice_over_simps [simp]: "slice_over [] ys = ys" "slice_over (x # xs) ys = x # xs"
  by (auto simp: slice_over_def)

lemma ptr_over_assoc: "ptr_over (ptr_over a b) c = ptr_over a (ptr_over b c)"
  by (simp add: ptr_over_def)

lemma slice_over_assoc: "slice_over (slice_over a b) c = slice_over a (slice_over b c)"
  by (simp add: slice_over_def)

lemma ptr_over_idem [simp]: "ptr_over a a = a"
  by (simp add: ptr_over_def)

lemma slice_over_idem [simp]: "slice_over a a = a"
  by (simp add: slice_over_def)

lemmas merge_defs = merge_quotas_def merge_mounts_def merge_network_def merge_images_def merge_security_def

lemma policy_merge_None [simp]: "policy_merge p None = p"
  by (simp add: policy_merge_def)

lemma merge_assoc:
  "merge_quotas (merge_quotas p1 q1) r1 = merge_quotas p1 (merge_quotas q1 r1)"
  "merge_mounts (merge_mounts p2 q2) r2 = merge_mounts p2 (merge_mounts q2 r2)"
  "merge_network (merge_network p3 q3) r3 = merge_network p3 (merge_network q3 r3)"
  "merge_images (merge_images p4 q4) r4 = merge_images p4 (merge_images q4 r4)"
  "merge_security (merge_security p5 q5) r5 = merge_security p5 (merge_security q5 r5)"
  by (simp_all add: merge_defs ptr_over_assoc slice_over_assoc)

lemma validate_patterns_None [simp]: "validate_patterns ps = None"
  by (induction ps) (auto simp: parse_image_pattern_def Let_def)

lemma validate_entries_None_iff:
  "validate_entries i es = None \<longleftrightarrow> (\<forall>e \<in> set es. validate_entry 0 e = None)"
proof (induction es arbitrary: i)
  case (Cons e es)
  have "validate_entry i e = None \<longleftrightarrow> validate_entry 0 e = None"
    by (simp add: validate_entry_def)
  with Cons show ?case by (auto split: option.splits)
qed simp

text \<open>What an accepted policy guarantees.\<close>

definition policy_ok :: "policy \<Rightarrow> bool" where
  "policy_ok p \<longleftrightarrow>
     known_mode (pol_mode p)
     \<and> \<not> crossed (rq_min_cpus (pol_quotas p)) (rq_max_cpus (pol_quotas p))
     \<and> \<not> crossed (rq_min_memory (pol_quotas p)) (rq_max_memory (pol_quotas p))
     \<and> (\<forall>n. rq_max_pids (pol_quotas p) = Some n \<longrightarrow> 1 \<le> n)
     \<and> (\<forall>n. mp_max_tmpfs_size (pol_mounts p) = Some n \<longrightarrow> 0 \<le> n)
     \<and> (\<forall>e \<in> set (mp_allowlist (pol_mounts p)).
          path_is_abs (ae_path e) \<and> known_access (ae_mode e) \<and> (ae_user e = '''' \<or> ae_group e = ''''))"

lemma validate_entry_None_iff:
  "validate_entry i e = None \<longleftrightarrow>
     path_is_abs (ae_path e) \<and> known_access (ae_mode e) \<and> (ae_user e = '''' \<or> ae_group e = '''')"
  by (auto simp: validate_entry_def path_is_abs_def)

lemma policy_validate_iff: "policy_validate p = None \<longleftrightarrow> policy_ok p"
proof -
  have "validate_entries 0 (mp_allowlist (pol_mounts p)) = None \<longleftrightarrow>
    (\<forall>e \<in> set (mp_allowlist (pol_mounts p)).
       path_is_abs (ae_path e) \<and> known_access (ae_mode e) \<and> (ae_user e = '''' \<or> ae_group e = ''''))"
    by (simp add: validate_entries_None_iff validate_entry_None_iff)
  then show ?thesis
    by (cases "validate_entries 0 (mp_allowlist (pol_mounts p))")
      (auto simp: policy_validate_def policy_ok_def Let_def split: option.splits)
qed

lemma path_hits_clean: "path_hits (path_clean path) pat \<Longrightarrow> path_hits path pat"
  by (auto simp: path_hits_def path_clean_idem)

end
