(* ===== verification/Mount_Allowlist.thy ===== *)
theory Mount_Allowlist
  imports Policy_Rules
begin

text \<open>
  pkg/policy/mount_allowlist.go: which access a user has to a host path.  The
  group membership provider is an interface with no implementation in the
  repository; it is a parameter, a function from a user to a result.
\<close>

type_synonym group_provider = "string \<Rightarrow> string list result"

record resolver =
  rs_policy :: policy
  rs_closed :: bool
  rs_provider :: "group_provider option"

definition new_resolver :: "policy option \<Rightarrow> resolver" where
  "new_resolver p = \<lparr>rs_policy = (case p of None \<Rightarrow> default_policy | Some q \<Rightarrow> q),
     rs_closed = False, rs_provider = None\<rparr>"

definition resolver_set_policy :: "resolver \<Rightarrow> policy option \<Rightarrow> go_error option \<times> resolver" where
  "resolver_set_policy r p =
     (if rs_closed r then (Some (new_error ErrUnavailable), r)
      else case p of
          None \<Rightarrow> (Some (new_error ErrInvalidArgument), r)
        | Some q \<Rightarrow>
           (case policy_validate q of
              Some err \<Rightarrow> (Some (wrap_error ErrInvalidArgument (PlainErr (policy_error_text err))), r)
            | None \<Rightarrow> (None, r\<lparr>rs_policy := q\<rparr>)))"

definition resolver_get_policy :: "resolver \<Rightarrow> policy result" where
  "resolver_get_policy r =
     (if rs_closed r then Inl (new_error ErrUnavailable) else Inr (rs_policy r))"

definition resolver_set_group_provider ::
    "resolver \<Rightarrow> group_provider option \<Rightarrow> go_error option \<times> resolver" where
  "resolver_set_group_provider r gp =
     (if rs_closed r then (Some (new_error ErrUnavailable), r)
      else (None, r\<lparr>rs_provider := gp\<rparr>))"

definition contains_string :: "string list \<Rightarrow> string \<Rightarrow> bool" where
  "contains_string xs s \<longleftrightarrow> (\<exists>x \<in> set xs. x = s)"

text \<open>A provider that fails counts as no groups.\<close>

definition user_groups :: "resolver \<Rightarrow> string \<Rightarrow> string list" where
  "user_groups r username =
     (case rs_provider r of
        None \<Rightarrow> []
      | Some gp \<Rightarrow> if username \<noteq> '''' then (case gp username of Inl e \<Rightarrow> [] | Inr gs \<Rightarrow> gs) else [])"

definition entry_priority :: "string \<Rightarrow> string list \<Rightarrow> allow_entry \<Rightarrow> nat option" where
  "entry_priority username groups e =
     (if ae_user e \<noteq> '''' \<and> ae_user e = username then Some 3
      else if ae_group e \<noteq> '''' \<and> contains_string groups (ae_group e) then Some 2
      else if ae_user e = '''' \<and> ae_group e = '''' then Some 1
      else None)"

definition entry_matches :: "string \<Rightarrow> allow_entry \<Rightarrow> bool" where
  "entry_matches clean_path e \<longleftrightarrow> match_pattern clean_path (path_clean (ae_path e))"

text \<open>The loop over the allowlist, with the best entry so far and its priority.\<close>

fun best_entry ::
    "string \<Rightarrow> string \<Rightarrow> string list \<Rightarrow> (allow_entry \<times> nat) option \<Rightarrow> allow_entry list \<Rightarrow> (allow_entry \<times> nat) option"
where
  "best_entry cp u gs best [] = best"
| "best_entry cp u gs best (e # es) =
     (if \<not> entry_matches cp e then best_entry cp u gs best es
      else case entry_priority u gs e of
          None \<Rightarrow> best_entry cp u gs best es
        | Some k \<Rightarrow>
           (case best of
              Some (b, kb) \<Rightarrow> if k \<le> kb then best_entry cp u gs best es
                              else best_entry cp u gs (Some (e, k)) es
            | None \<Rightarrow> best_entry cp u gs (Some (e, k)) es))"

definition resolve_mount_access :: "resolver \<Rightarrow> string \<Rightarrow> string \<Rightarrow> access_mode result" where
  "resolve_mount_access r path username =
     (if rs_closed r then Inl (new_error ErrUnavailable)
      else (let clean_path = path_clean path;
                groups = user_groups r username
            in case best_entry clean_path username groups None (mp_allowlist (pol_mounts (rs_policy r))) of
                 None \<Rightarrow> Inr AccessDenied
               | Some (e, k) \<Rightarrow> Inr (ae_mode e)))"

definition entry_applies :: "string \<Rightarrow> string list \<Rightarrow> allow_entry \<Rightarrow> bool" where
  "entry_applies username groups e =
     (if ae_user e \<noteq> '''' then ae_user e = username
      else if ae_group e \<noteq> '''' then contains_string groups (ae_group e)
      else True)"

definition get_allowed_mounts :: "resolver \<Rightarrow> string \<Rightarrow> allow_entry list result" where
  "get_allowed_mounts r username =
     (if rs_closed r then Inl (new_error ErrUnavailable)
      else Inr [e \<leftarrow> mp_allowlist (pol_mounts (rs_policy r)).
                  ae_mode e \<noteq> AccessDenied \<and> entry_applies username (user_groups r username) e])"

definition validate_path :: "resolver \<Rightarrow> string \<Rightarrow> string \<Rightarrow> go_error option" where
  "validate_path r path username =
     (case resolve_mount_access r path username of
        Inl e \<Rightarrow> Some e
      | Inr m \<Rightarrow> if m = AccessDenied then Some (new_error ErrPermission) else None)"

definition resolver_close :: "resolver \<Rightarrow> resolver" where
  "resolver_close r = (if rs_closed r then r else r\<lparr>rs_closed := True\<rparr>)"

definition resolver_stats :: "resolver \<Rightarrow> nat \<times> nat \<times> nat" where
  "resolver_stats r =
     (let es = mp_allowlist (pol_mounts (rs_policy r))
      in (length es, length [e \<leftarrow> es. ae_user e \<noteq> ''''], length [e \<leftarrow> es. ae_group e \<noteq> '''']))"

section \<open>What the loop selects\<close>

text \<open>The rank of an entry for a request: 0 when the loop skips it.\<close>

definition rank :: "string \<Rightarrow> string \<Rightarrow> string list \<Rightarrow> allow_entry \<Rightarrow> nat" where
  "rank cp u gs e =
     (if entry_matches cp e then (case entry_priority u gs e of None \<Rightarrow> 0 | Some k \<Rightarrow> k) else 0)"

lemma rank_le_3: "rank cp u gs e \<le> 3"
  by (simp add: rank_def entry_priority_def)

lemma entry_priority_pos: "entry_priority u gs e = Some k \<Longrightarrow> 0 < k"
  by (auto simp: entry_priority_def split: if_splits)

definition best_rank :: "(allow_entry \<times> nat) option \<Rightarrow> nat" where
  "best_rank b = (case b of None \<Rightarrow> 0 | Some (e, k) \<Rightarrow> k)"

lemma best_entry_step:
  "best_entry cp u gs best (e # es) =
     best_entry cp u gs (if rank cp u gs e > best_rank best then Some (e, rank cp u gs e) else best) es"
  by (auto simp: rank_def best_rank_def split: option.splits dest: entry_priority_pos)

declare best_entry.simps(2) [simp del]

lemma best_entry_keep:
  "\<forall>e \<in> set es. rank cp u gs e \<le> best_rank best \<Longrightarrow> best_entry cp u gs best es = best"
  by (induction es) (auto simp: best_entry_step)

text \<open>
  The selected entry: strictly better than everything before it, at least as
  good as everything after it.  Conversely any entry placed so is selected.
\<close>

lemma best_entry_split:
  assumes "best_rank best < rank cp u gs e"
    and "\<And>x. x \<in> set pre \<Longrightarrow> rank cp u gs x < rank cp u gs e"
    and "\<And>x. x \<in> set post \<Longrightarrow> rank cp u gs x \<le> rank cp u gs e"
  shows "best_entry cp u gs best (pre @ e # post) = Some (e, rank cp u gs e)"
  using assms
proof (induction pre arbitrary: best)
  case Nil
  then show ?case by (simp add: best_entry_step) (simp add: best_entry_keep best_rank_def)
next
  case (Cons x pre)
  show ?case
    by (subst append_Cons, subst best_entry_step, rule Cons.IH) (use Cons.prems in \<open>auto simp: best_rank_def\<close>)
qed

lemma best_entry_None_iff:
  "best_entry cp u gs None es = None \<longleftrightarrow> (\<forall>e \<in> set es. rank cp u gs e = 0)"
proof
  have keep: "best_entry cp u gs (Some b) es \<noteq> None" for b es
    by (induction es arbitrary: b) (auto simp: best_entry_step)
  show "best_entry cp u gs None es = None \<Longrightarrow> \<forall>e \<in> set es. rank cp u gs e = 0"
    by (induction es) (auto simp: best_entry_step best_rank_def keep split: if_splits)
next
  assume "\<forall>e \<in> set es. rank cp u gs e = 0"
  then show "best_entry cp u gs None es = None"
    by (intro best_entry_keep) (simp add: best_rank_def)
qed

lemma ex_first_max:
  fixes f :: "'a \<Rightarrow> nat"
  assumes "xs \<noteq> []"
  shows "\<exists>pre e post. xs = pre @ e # post \<and> (\<forall>x \<in> set pre. f x < f e) \<and> (\<forall>x \<in> set post. f x \<le> f e)"
  using assms
proof (induction xs rule: list_nonempty_induct)
  case (single x)
  then show ?case by (intro exI [of _ "[]"]) auto
next
  case (cons x xs)
  then obtain pre e post where xs: "xs = pre @ e # post"
    and pre: "\<forall>y \<in> set pre. f y < f e" and post: "\<forall>y \<in> set post. f y \<le> f e" by blast
  show ?case
  proof (cases "f x < f e")
    case True
    with xs pre post show ?thesis by (intro exI [of _ "x # pre"] exI [of _ e] exI [of _ post]) auto
  next
    case False
    with xs pre post show ?thesis
      by (intro exI [of _ "[]"] exI [of _ x] exI [of _ xs]) fastforce
  qed
qed

lemma best_entry_Some_iff:
  "best_entry cp u gs None es = Some (e, k) \<longleftrightarrow>
     (\<exists>pre post. es = pre @ e # post \<and> k = rank cp u gs e \<and> 0 < k
        \<and> (\<forall>x \<in> set pre. rank cp u gs x < k) \<and> (\<forall>x \<in> set post. rank cp u gs x \<le> k))"
  (is "?L \<longleftrightarrow> ?R")
proof
  assume ?R
  then show ?L using best_entry_split [of None cp u gs e] by (auto simp: best_rank_def)
next
  assume L: ?L
  then have ne: "es \<noteq> []" by auto
  from ex_first_max [OF ne, of "rank cp u gs"] obtain pre x post where es: "es = pre @ x # post"
    and pre: "\<forall>y \<in> set pre. rank cp u gs y < rank cp u gs x"
    and post: "\<forall>y \<in> set post. rank cp u gs y \<le> rank cp u gs x" by blast
  have "0 < rank cp u gs x"
  proof (rule ccontr)
    assume "\<not> 0 < rank cp u gs x"
    with es pre post have "best_entry cp u gs None es = None" by (auto simp: best_entry_None_iff)
    with L show False by simp
  qed
  then have "best_entry cp u gs None es = Some (x, rank cp u gs x)"
    unfolding es using pre post by (intro best_entry_split) (auto simp: best_rank_def)
  with L have "x = e" "k = rank cp u gs x" by auto
  with es pre post \<open>0 < rank cp u gs x\<close> show ?R by blast
qed

section \<open>The contract of the resolver\<close>

text \<open>
  What the enforcer relies on when it asks for the access to a path: spellings
  of the same path get the same answer, and a path that no entry speaks of is
  denied.
\<close>

locale mount_access =
  fixes access :: "string \<Rightarrow> string \<Rightarrow> access_mode result"
    and listed :: "string \<Rightarrow> bool"
  assumes access_clean: "access (path_clean p) u = access p u"
    and access_unlisted: "access p u = Inr m \<Longrightarrow> \<not> listed (path_clean p) \<Longrightarrow> m = AccessDenied"
begin

lemma access_same_clean: "path_clean p = path_clean q \<Longrightarrow> access p u = access q u"
  by (metis access_clean)

lemma allowed_imp_listed: "access p u = Inr m \<Longrightarrow> m \<noteq> AccessDenied \<Longrightarrow> listed (path_clean p)"
  using access_unlisted by blast

end

definition listed_by :: "resolver \<Rightarrow> string \<Rightarrow> bool" where
  "listed_by r p \<longleftrightarrow> (\<exists>e \<in> set (mp_allowlist (pol_mounts (rs_policy r))). entry_matches p e)"

interpretation resolver: mount_access "resolve_mount_access r" "listed_by r" for r
proof unfold_locales
  fix p u
  show "resolve_mount_access r (path_clean p) u = resolve_mount_access r p u"
    by (simp add: resolve_mount_access_def Let_def path_clean_idem)
next
  fix p u m
  assume acc: "resolve_mount_access r p u = Inr m" and unlisted: "\<not> listed_by r (path_clean p)"
  then have "best_entry (path_clean p) u (user_groups r u) None (mp_allowlist (pol_mounts (rs_policy r))) = None"
    by (auto simp: best_entry_None_iff listed_by_def rank_def)
  with acc show "m = AccessDenied"
    by (simp add: resolve_mount_access_def Let_def split: if_splits)
qed

lemma resolve_open: "resolve_mount_access r p u = Inr m \<Longrightarrow> \<not> rs_closed r"
  by (auto simp: resolve_mount_access_def)

end
