(* ===== verification/Audit_Log.thy ===== *)
theory Audit_Log
  imports Policy_Rules
begin

text \<open>
  pkg/policy/audit_logger.go: the record of denied mounts.  The log is the list
  of the events that reached the structured logger; the time stamp, the copy
  written to a file and the file's errors are left out.
\<close>

datatype audit_type = AuditMountViolation | AuditMountDenied | AuditMountAllowed

record audit_event =
  ax_type :: audit_type
  ax_severity :: string
  ax_user :: string
  ax_group :: string
  ax_path :: string
  ax_mode :: access_mode
  ax_decision :: string
  ax_reason :: string
  ax_context :: "(string, string) gomap"

record audit_logger =
  al_path :: string
  al_closed :: bool
  al_log :: "audit_event list"

definition new_audit_logger :: "string \<Rightarrow> audit_logger" where
  "new_audit_logger path = \<lparr>al_path = path, al_closed = False, al_log = []\<rparr>"

definition log_event :: "audit_event \<Rightarrow> audit_logger \<Rightarrow> go_error option \<times> audit_logger" where
  "log_event ev al =
     (if al_closed al then (Some (PlainErr ''audit logger is closed''), al)
      else (None, al\<lparr>al_log := al_log al @ [ev]\<rparr>))"

definition mount_violation_event ::
    "string \<Rightarrow> string \<Rightarrow> string \<Rightarrow> access_mode \<Rightarrow> string \<Rightarrow> (string, string) gomap \<Rightarrow> audit_event" where
  "mount_violation_event user grp path mode reason ctx =
     \<lparr>ax_type = AuditMountViolation, ax_severity = ''error'', ax_user = user, ax_group = grp,
      ax_path = path, ax_mode = mode, ax_decision = ''denied'', ax_reason = reason, ax_context = ctx\<rparr>"

definition log_mount_violation ::
    "string \<Rightarrow> string \<Rightarrow> string \<Rightarrow> access_mode \<Rightarrow> string \<Rightarrow> (string, string) gomap
     \<Rightarrow> audit_logger \<Rightarrow> go_error option \<times> audit_logger" where
  "log_mount_violation user grp path mode reason ctx al =
     log_event (mount_violation_event user grp path mode reason ctx) al"

definition log_mount_denied ::
    "string \<Rightarrow> string \<Rightarrow> string \<Rightarrow> access_mode \<Rightarrow> string \<Rightarrow> (string, string) gomap
     \<Rightarrow> audit_logger \<Rightarrow> go_error option \<times> audit_logger" where
  "log_mount_denied user grp path mode reason ctx al =
     log_event \<lparr>ax_type = AuditMountDenied, ax_severity = ''warning'', ax_user = user, ax_group = grp,
       ax_path = path, ax_mode = mode, ax_decision = ''denied'', ax_reason = reason, ax_context = ctx\<rparr> al"

definition log_mount_allowed ::
    "string \<Rightarrow> string \<Rightarrow> string \<Rightarrow> access_mode \<Rightarrow> (string, string) gomap
     \<Rightarrow> audit_logger \<Rightarrow> go_error option \<times> audit_logger" where
  "log_mount_allowed user grp path mode ctx al =
     log_event \<lparr>ax_type = AuditMountAllowed, ax_severity = ''info'', ax_user = user, ax_group = grp,
       ax_path = path, ax_mode = mode, ax_decision = ''allowed'', ax_reason = '''', ax_context = ctx\<rparr> al"

definition audit_close :: "audit_logger \<Rightarrow> audit_logger" where
  "audit_close al = (if al_closed al then al else al\<lparr>al_closed := True\<rparr>)"

text \<open>
  The calls of one validation in order.  The enforcer ignores the error of each
  and makes none when it has no logger.
\<close>

definition audit_all :: "audit_event list \<Rightarrow> audit_logger option \<Rightarrow> audit_logger option" where
  "audit_all evs al = map_option (fold (\<lambda>ev a. snd (log_event ev a)) evs) al"

lemma fold_log_event:
  "fold (\<lambda>ev a. snd (log_event ev a)) evs al =
     (if al_closed al then al else al\<lparr>al_log := al_log al @ evs\<rparr>)"
  by (induction evs arbitrary: al) (auto simp: log_event_def)

lemma audit_all_None [simp]: "audit_all evs None = None"
  by (simp add: audit_all_def)

lemma audit_all_Some: "audit_all evs (Some al) =
    Some (if al_closed al then al else al\<lparr>al_log := al_log al @ evs\<rparr>)"
  by (simp add: audit_all_def fold_log_event)

lemma audit_close_closed [simp]: "al_closed (audit_close al)"
  by (simp add: audit_close_def)

lemma audit_close_log [simp]: "al_log (audit_close al) = al_log al"
  by (simp add: audit_close_def)

end
