(* ===== verification/Tmpfs_Size.thy ===== *)
theory Tmpfs_Size
  imports Policy_Rules
begin

text \<open>
  The size option of a tmpfs mount: \<open>parseTmpfsSize\<close> of enforcer.go.  The product is
  a 64-bit one and wraps around.
\<close>

definition size_multiplier :: "string \<Rightarrow> int \<times> string" where
  "size_multiplier s =
     (if has_suffix s ''g'' then (1024 * 1024 * 1024, trim_suffix s ''g'')
      else if has_suffix s ''m'' then (1024 * 1024, trim_suffix s ''m'')
      else if has_suffix s ''k'' then (1024, trim_suffix s ''k'')
      else (1, s))"

definition parse_tmpfs_size :: "string \<Rightarrow> int" where
  "parse_tmpfs_size str =
     (let (multiplier, s) = size_multiplier (to_lower str);
          size = (if length s > 0 then sscanf_d s else 0)
      in int64_mul size multiplier)"

text \<open>The first \<open>size=\<close> option of a comma-separated mount source; 0 when there is none.\<close>

fun first_size_option :: "string list \<Rightarrow> int" where
  "first_size_option [] = 0"
| "first_size_option (part # parts) =
     (if has_prefix part ''size='' then parse_tmpfs_size (trim_prefix part ''size='')
      else first_size_option parts)"

definition tmpfs_requested_size :: "string \<Rightarrow> int" where
  "tmpfs_requested_size source = first_size_option (split_on (CHR '','') source)"

section \<open>Range\<close>

lemma parse_tmpfs_size_range: "int64_min \<le> parse_tmpfs_size s \<and> parse_tmpfs_size s \<le> int64_max"
  unfolding parse_tmpfs_size_def Let_def by (auto simp: int64_mul_range split: prod.splits)

end
