(* ===== verification/Policy_Enforcer.thy ===== *)
theory Policy_Enforcer
  imports Mount_Allowlist Audit_Log Tmpfs_Size
begin

text \<open>
  pkg/policy/enforcer.go: validation of a container configuration against the
  policy in force for a session, and the rewriting of a configuration that
  passes.  The enforcer's lock makes each operation one step.  The text of a
  violation is left out; its rule, severity and component are kept.
\<close>

record policy_config =
  pc_config_path :: string
  pc_reload_on_changes :: bool
  pc_reload_interval :: duration
  pc_enforcement_mode :: string
  pc_default_quota_cpu :: int
  pc_default_quota_memory :: int

record enforcer =
  en_policy :: policy
  en_cfg :: policy_config
  en_closed :: bool
  en_session_policies :: "(id, policy) gomap"
  en_resolver :: "resolver option"
  en_audit :: "audit_logger option"

definition new_enforcer :: "policy_config \<Rightarrow> enforcer" where
  "new_enforcer cfg = \<lparr>en_policy = default_policy, en_cfg = cfg, en_closed = False,
     en_session_policies = [], en_resolver = Some (new_resolver (Some default_policy)),
     en_audit = Some (new_audit_logger '''')\<rparr>"

section \<open>Policies in force\<close>

definition en_set_policy :: "policy \<Rightarrow> enforcer \<Rightarrow> go_error option \<times> enforcer" where
  "en_set_policy p e =
     (if en_closed e then (Some (new_error ErrUnavailable), e)
      else case policy_validate p of
          Some err \<Rightarrow> (Some (wrap_error ErrInvalidArgument (PlainErr (policy_error_text err))), e)
        | None \<Rightarrow> (None, e\<lparr>en_policy := p,
             en_resolver := map_option (\<lambda>r. snd (resolver_set_policy r (Some p))) (en_resolver e)\<rparr>))"

definition en_get_policy :: "enforcer \<Rightarrow> policy result" where
  "en_get_policy e = (if en_closed e then Inl (new_error ErrUnavailable) else Inr (en_policy e))"

definition en_set_session_policy :: "id \<Rightarrow> policy \<Rightarrow> enforcer \<Rightarrow> go_error option \<times> enforcer" where
  "en_set_session_policy sid p e =
     (if en_closed e then (Some (new_error ErrUnavailable), e)
      else case policy_validate p of
          Some err \<Rightarrow> (Some (wrap_error ErrInvalidArgument (PlainErr (policy_error_text err))), e)
        | None \<Rightarrow> (None, e\<lparr>en_session_policies := mput sid p (en_session_policies e)\<rparr>))"

definition en_get_session_policy :: "id \<Rightarrow> enforcer \<Rightarrow> policy result" where
  "en_get_session_policy sid e =
     (if en_closed e then Inl (new_error ErrUnavailable)
      else case mget (en_session_policies e) sid of
          None \<Rightarrow> Inr (en_policy e)
        | Some p \<Rightarrow> Inr (policy_merge (en_policy e) (Some p)))"

definition en_remove_session_policy :: "id \<Rightarrow> enforcer \<Rightarrow> go_error option \<times> enforcer" where
  "en_remove_session_policy sid e =
     (if en_closed e then (Some (new_error ErrUnavailable), e)
      else (None, e\<lparr>en_session_policies := mdel sid (en_session_policies e)\<rparr>))"

text \<open>The first lines of \<open>ValidateContainerConfig\<close> and \<open>EnforceContainerConfig\<close>.\<close>

definition effective_policy :: "enforcer \<Rightarrow> id \<Rightarrow> policy" where
  "effective_policy e sid =
     (case mget (en_session_policies e) sid of
        Some p \<Rightarrow> policy_merge (en_policy e) (Some p)
      | None \<Rightarrow> en_policy e)"

section \<open>Checks\<close>

definition viol :: "string \<Rightarrow> severity \<Rightarrow> component \<Rightarrow> violation" where
  "viol rule sev c = \<lparr>v_rule = rule, v_severity = sev, v_component = c\<rparr>"

definition above :: "int \<Rightarrow> int option \<Rightarrow> bool" where
  "above x cap \<longleftrightarrow> (case cap of None \<Rightarrow> False | Some l \<Rightarrow> x > l)"

definition below :: "int \<Rightarrow> int option \<Rightarrow> bool" where
  "below x cap \<longleftrightarrow> (case cap of None \<Rightarrow> False | Some l \<Rightarrow> x < l)"

definition flag_if :: "bool \<Rightarrow> 'a \<Rightarrow> 'a list" where
  "flag_if b x = (if b then [x] else [])"

definition validate_quotas :: "policy \<Rightarrow> container_config \<Rightarrow> violation list" where
  "validate_quotas p cfg =
     (let r = cc_resources cfg; q = pol_quotas p in
        (if rl_nano_cpus r > 0
         then flag_if (above (rl_nano_cpus r) (rq_max_cpus q)) (viol ''quota.cpu.max'' SeverityError CompQuota)
            @ flag_if (below (rl_nano_cpus r) (rq_min_cpus q)) (viol ''quota.cpu.min'' SeverityWarning CompQuota)
         else [])
      @ (if rl_memory_bytes r > 0
         then flag_if (above (rl_memory_bytes r) (rq_max_memory q)) (viol ''quota.memory.max'' SeverityError CompQuota)
            @ flag_if (below (rl_memory_bytes r) (rq_min_memory q)) (viol ''quota.memory.min'' SeverityWarning CompQuota)
         else [])
      @ (if rl_memory_swap r > 0
         then (case rq_max_memory_swap q of
                 None \<Rightarrow> []
               | Some l \<Rightarrow> flag_if (rl_memory_swap r > l \<and> l \<noteq> -1)
                             (viol ''quota.memory_swap.max'' SeverityError CompQuota))
         else [])
      @ (case (rl_pids_limit r, rq_max_pids q) of
           (Some n, Some l) \<Rightarrow> flag_if (n > l) (viol ''quota.pids.max'' SeverityError CompQuota)
         | _ \<Rightarrow> []))"

definition get_username :: "container_config \<Rightarrow> string" where
  "get_username cfg = (case mget (cc_labels cfg) ''username'' of Some u \<Rightarrow> u | None \<Rightarrow> '''')"

definition requested_mode :: "mount \<Rightarrow> access_mode" where
  "requested_mode m = (if mt_read_only m then AccessReadOnly else AccessReadWrite)"

text \<open>A mount violation and the audit event logged with it.\<close>

definition mount_denied ::
    "container_config \<Rightarrow> string \<Rightarrow> string \<Rightarrow> access_mode \<Rightarrow> string \<Rightarrow> (string, string) gomap
     \<Rightarrow> violation list \<times> audit_event list" where
  "mount_denied cfg rule path mode reason ctx =
     ([viol rule SeverityError CompMount],
      [mount_violation_event (get_username cfg) '''' path mode reason (ctx @ [(''rule'', rule)])])"

definition check_bind_legacy :: "policy \<Rightarrow> container_config \<Rightarrow> mount \<Rightarrow> violation list \<times> audit_event list" where
  "check_bind_legacy p cfg m =
     (if \<not> is_path_allowed (mt_source m) (mp_allowed_bind_sources (pol_mounts p))
             (mp_denied_bind_sources (pol_mounts p))
      then mount_denied cfg ''mount.bind.source_not_allowed'' (mt_source m) (requested_mode m)
             ''bind mount source not in legacy allowlist'' [(''target'', mt_target m)]
      else ([], []))"

text \<open>
  The access function is the resolver's \<open>ResolveMountAccess\<close>, absent when the
  enforcer has no resolver.  The assignment \<open>mount.ReadOnly = true\<close> of the code
  writes to the loop's copy of the mount and so has no effect to model.
\<close>

definition check_bind ::
    "(string \<Rightarrow> string \<Rightarrow> access_mode result) option \<Rightarrow> policy \<Rightarrow> container_config \<Rightarrow> mount
     \<Rightarrow> violation list \<times> audit_event list" where
  "check_bind access p cfg m =
     (if \<not> mp_allow_bind (pol_mounts p)
      then mount_denied cfg ''mount.bind.disabled'' (mt_source m) (requested_mode m)
             ''bind mounts are disabled by policy'' [(''target'', mt_target m)]
      else case access of
          None \<Rightarrow> check_bind_legacy p cfg m
        | Some acc \<Rightarrow>
           (if length (mp_allowlist (pol_mounts p)) > 0
            then (case acc (mt_source m) (get_username cfg) of
                    Inl err \<Rightarrow> check_bind_legacy p cfg m
                  | Inr mode \<Rightarrow>
                      if mode = AccessDenied
                      then mount_denied cfg ''mount.bind.source_not_allowed'' (mt_source m) mode
                             ''mount source not in allowlist'' [(''target'', mt_target m)]
                      else ([], []))
            else check_bind_legacy p cfg m))"

definition check_volume :: "policy \<Rightarrow> container_config \<Rightarrow> mount \<Rightarrow> violation list \<times> audit_event list" where
  "check_volume p cfg m =
     (if \<not> mp_allow_volumes (pol_mounts p)
      then mount_denied cfg ''mount.volume.disabled'' (mt_source m) (requested_mode m)
             ''volume mounts are disabled by policy'' [(''target'', mt_target m)]
      else if \<not> is_path_allowed (mt_source m) (mp_allowed_volumes (pol_mounts p))
                  (mp_denied_volumes (pol_mounts p))
      then mount_denied cfg ''mount.volume.not_allowed'' (mt_source m) (requested_mode m)
             ''volume not in allowlist'' [(''target'', mt_target m)]
      else ([], []))"

definition check_tmpfs :: "policy \<Rightarrow> container_config \<Rightarrow> mount \<Rightarrow> violation list \<times> audit_event list" where
  "check_tmpfs p cfg m =
     (if \<not> mp_allow_tmpfs (pol_mounts p)
      then mount_denied cfg ''mount.tmpfs.disabled'' (mt_target m) AccessReadWrite
             ''tmpfs mounts are disabled by policy'' []
      else case mp_max_tmpfs_size (pol_mounts p) of
          None \<Rightarrow> ([], [])
        | Some cap \<Rightarrow>
           (let size = tmpfs_requested_size (mt_source m) in
            if size > cap
            then mount_denied cfg ''mount.tmpfs.size_exceeded'' (mt_target m) AccessReadWrite
                   (''tmpfs size exceeds maximum: requested '' @ dec_int size @ '', maximum '' @ dec_int cap)
                   [(''requested_size'', dec_int size), (''max_size'', dec_int cap)]
            else ([], [])))"

text \<open>The switch has no default case: a mount of another type is not looked at.\<close>

definition check_mount ::
    "(string \<Rightarrow> string \<Rightarrow> access_mode result) option \<Rightarrow> policy \<Rightarrow> container_config \<Rightarrow> mount
     \<Rightarrow> violation list \<times> audit_event list" where
  "check_mount access p cfg m =
     (case mt_type m of
        MountBind \<Rightarrow> check_bind access p cfg m
      | MountVolume \<Rightarrow> check_volume p cfg m
      | MountTmpfs \<Rightarrow> check_tmpfs p cfg m
      | MountOther s \<Rightarrow> ([], []))"

definition check_rootfs :: "policy \<Rightarrow> container_config \<Rightarrow> violation list \<times> audit_event list" where
  "check_rootfs p cfg =
     (if mp_enforce_ro_rootfs (pol_mounts p) \<and> \<not> cc_read_only_rootfs cfg
      then mount_denied cfg ''mount.readonly_rootfs.required'' ''/'' AccessReadWrite
             ''read-only root filesystem is required by policy'' []
      else ([], []))"

definition validate_mounts ::
    "(string \<Rightarrow> string \<Rightarrow> access_mode result) option \<Rightarrow> policy \<Rightarrow> container_config
     \<Rightarrow> violation list \<times> audit_event list" where
  "validate_mounts access p cfg =
     (let rs = map (check_mount access p cfg) (cc_mounts cfg) @ [check_rootfs p cfg]
      in (concat (map fst rs), concat (map snd rs)))"

definition validate_network :: "policy \<Rightarrow> container_config \<Rightarrow> violation list" where
  "validate_network p cfg =
     (let n = pol_network p; net = np_allow_network n in
        flag_if (cc_network_mode cfg = ''host'' \<and> \<not> np_allow_host n) (viol ''network.host.disabled'' SeverityError CompNetwork)
      @ flag_if (\<not> net \<and> cc_network_mode cfg \<noteq> ''none'') (viol ''network.disabled'' SeverityError CompNetwork)
      @ flag_if (\<not> net \<and> length (cc_networks cfg) > 0) (viol ''network.configured'' SeverityError CompNetwork)
      @ flag_if (\<not> net \<and> length (cc_ports cfg) > 0) (viol ''network.ports.disabled'' SeverityError CompNetwork))"

definition validate_image :: "policy \<Rightarrow> container_config \<Rightarrow> violation list" where
  "validate_image p cfg =
     (let i = pol_images p; image = cc_image cfg in
      if \<exists>pat \<in> set (ip_denied_images i). match_pattern image pat
      then [viol ''image.denied'' SeverityError CompImage]
      else flag_if (length (ip_allowed_images i) > 0 \<and> \<not> (\<exists>pat \<in> set (ip_allowed_images i). match_pattern image pat))
             (viol ''image.not_allowed'' SeverityError CompImage)
         @ flag_if (\<not> ip_allow_latest i \<and> (has_suffix image '':latest'' \<or> \<not> str_contains image '':''))
             (viol ''image.latest_tag'' SeverityError CompImage)
         @ flag_if (ip_require_digest i \<and> \<not> str_contains image ''@sha256:'')
             (viol ''image.digest_required'' SeverityError CompImage))"

definition validate_security :: "policy \<Rightarrow> container_config \<Rightarrow> violation list" where
  "validate_security p cfg =
     (let s = pol_security p in
        flag_if (mget (cc_labels cfg) ''privileged'' = Some ''true'' \<and> \<not> sp_allow_privileged s)
          (viol ''security.privileged.disabled'' SeverityError CompSecurity)
      @ (case mget (cc_labels cfg) ''user'' of
           None \<Rightarrow> []
         | Some user \<Rightarrow>
             if user = ''root'' \<or> user = ''0''
             then flag_if (\<not> sp_allow_root s) (viol ''security.root.disabled'' SeverityError CompSecurity)
                @ flag_if (sp_require_non_root s) (viol ''security.non_root_required'' SeverityError CompSecurity)
             else [])
      @ flag_if (sp_read_only_rootfs s \<and> \<not> cc_read_only_rootfs cfg)
          (viol ''security.readonly_rootfs.required'' SeverityError CompSecurity))"

section \<open>ValidateContainerConfig\<close>

definition access_of :: "enforcer \<Rightarrow> (string \<Rightarrow> string \<Rightarrow> access_mode result) option" where
  "access_of e = map_option resolve_mount_access (en_resolver e)"

definition all_violations ::
    "(string \<Rightarrow> string \<Rightarrow> access_mode result) option \<Rightarrow> policy \<Rightarrow> container_config \<Rightarrow> violation list" where
  "all_violations access p cfg =
     validate_quotas p cfg @ fst (validate_mounts access p cfg) @ validate_network p cfg
     @ validate_image p cfg @ validate_security p cfg"

definition en_validate :: "id \<Rightarrow> container_config \<Rightarrow> enforcer \<Rightarrow> validation_result result \<times> enforcer" where
  "en_validate sid cfg e =
     (if en_closed e then (Inl (new_error ErrUnavailable), e)
      else (let p = effective_policy e sid in
            if pol_mode p = ModeDisabled
            then (Inr \<lparr>vr_allowed = True, vr_violations = [], vr_warnings = []\<rparr>, e)
            else (let vs = all_violations (access_of e) p cfg;
                      evs = snd (validate_mounts (access_of e) p cfg)
                  in (Inr \<lparr>vr_allowed = \<not> (pol_mode p = ModeStrict \<and> length vs > 0),
                           vr_violations = vs, vr_warnings = []\<rparr>,
                      e\<lparr>en_audit := audit_all evs (en_audit e)\<rparr>))))"

section \<open>EnforceContainerConfig\<close>

definition harden_network :: "policy \<Rightarrow> container_config \<Rightarrow> container_config" where
  "harden_network p cfg =
     (if \<not> np_allow_network (pol_network p)
      then cfg\<lparr>cc_network_mode := ''none'', cc_networks := [], cc_ports := []\<rparr>
      else cfg)"

definition default_quotas :: "policy \<Rightarrow> resource_limits \<Rightarrow> resource_limits" where
  "default_quotas p r =
     (let q = pol_quotas p in
      r\<lparr>rl_nano_cpus := (if rl_nano_cpus r = 0 then (case rq_max_cpus q of Some n \<Rightarrow> n | None \<Rightarrow> rl_nano_cpus r)
                         else rl_nano_cpus r),
        rl_memory_bytes := (if rl_memory_bytes r = 0 then (case rq_max_memory q of Some n \<Rightarrow> n | None \<Rightarrow> rl_memory_bytes r)
                            else rl_memory_bytes r),
        rl_pids_limit := (if rl_pids_limit r = None then (case rq_max_pids q of Some n \<Rightarrow> Some n | None \<Rightarrow> None)
                          else rl_pids_limit r)\<rparr>)"

definition harden_mount ::
    "(string \<Rightarrow> string \<Rightarrow> access_mode result) option \<Rightarrow> policy \<Rightarrow> container_config \<Rightarrow> mount \<Rightarrow> mount" where
  "harden_mount access p cfg m =
     (if mt_type m \<noteq> MountBind then m
      else case access of
          None \<Rightarrow> m
        | Some acc \<Rightarrow>
           (if length (mp_allowlist (pol_mounts p)) > 0
            then (case acc (mt_source m) (get_username cfg) of
                    Inl err \<Rightarrow> m
                  | Inr mode \<Rightarrow> if mode = AccessReadOnly then m\<lparr>mt_read_only := True\<rparr> else m)
            else m))"

definition apply_policy ::
    "(string \<Rightarrow> string \<Rightarrow> access_mode result) option \<Rightarrow> policy \<Rightarrow> container_config \<Rightarrow> container_config" where
  "apply_policy access p cfg =
     (let c0 = harden_network p cfg in
      c0\<lparr>cc_resources := default_quotas p (cc_resources c0),
         cc_read_only_rootfs := (cc_read_only_rootfs c0 \<or> sp_read_only_rootfs (pol_security p)
                                 \<or> mp_enforce_ro_rootfs (pol_mounts p)),
         cc_mounts := map (harden_mount access p cfg) (cc_mounts c0)\<rparr>)"

definition en_enforce :: "id \<Rightarrow> container_config \<Rightarrow> enforcer \<Rightarrow> container_config result \<times> enforcer" where
  "en_enforce sid cfg e =
     (if en_closed e then (Inl (new_error ErrUnavailable), e)
      else (let p = effective_policy e sid in
            if pol_mode p = ModeDisabled then (Inr cfg, e)
            else (case en_validate sid (harden_network p cfg) e of
                    (Inl err, e') \<Rightarrow> (Inl err, e')
                  | (Inr res, e') \<Rightarrow>
                      if \<not> vr_allowed res then (Inl (new_error ErrPermission), e')
                      else (Inr (apply_policy (access_of e) p cfg), e'))))"

section \<open>Remaining operations\<close>

definition en_close :: "enforcer \<Rightarrow> enforcer" where
  "en_close e =
     (if en_closed e then e
      else e\<lparr>en_closed := True, en_audit := map_option audit_close (en_audit e),
             en_resolver := map_option resolver_close (en_resolver e)\<rparr>)"

definition en_stats :: "enforcer \<Rightarrow> int" where
  "en_stats e = mlen (en_session_policies e)"

definition en_set_audit_logger :: "audit_logger option \<Rightarrow> enforcer \<Rightarrow> go_error option \<times> enforcer" where
  "en_set_audit_logger al e =
     (if en_closed e then (Some (new_error ErrUnavailable), e) else (None, e\<lparr>en_audit := al\<rparr>))"

definition en_set_group_provider :: "group_provider option \<Rightarrow> enforcer \<Rightarrow> go_error option \<times> enforcer" where
  "en_set_group_provider gp e =
     (if en_closed e then (Some (new_error ErrUnavailable), e)
      else case en_resolver e of
          None \<Rightarrow> (Some (new_error ErrInternal), e)
        | Some r \<Rightarrow>
           (case resolver_set_group_provider r gp of
              (Some err, r') \<Rightarrow> (Some (wrap_error ErrInternal err), e\<lparr>en_resolver := Some r'\<rparr>)
            | (None, r') \<Rightarrow> (None, e\<lparr>en_resolver := Some r'\<rparr>)))"

end
