(* ===== verification/Policy_Proofs.thy ===== *)
theory Policy_Proofs
  imports Policy_Enforcer
begin

text \<open>
  What the policy engine guarantees: an enforced configuration passes the
  validation it was enforced against, keeps within the quotas and carries every
  hardening; the operations keep the enforcer and its resolver in step; and the
  places where a check does not do what its comment or the architecture says.
\<close>

section \<open>Violations\<close>

lemma flag_if_Nil [simp]: "flag_if b x = [] \<longleftrightarrow> \<not> b"
  by (simp add: flag_if_def)

lemma mount_denied_simps [simp]:
  "fst (mount_denied cfg rule path mode reason ctx) = [viol rule SeverityError CompMount]"
  "length (snd (mount_denied cfg rule path mode reason ctx)) = 1"
  by (simp_all add: mount_denied_def)

lemmas check_mount_defs = check_mount_def check_bind_def check_bind_legacy_def check_volume_def
  check_tmpfs_def

text \<open>The violations of a mount depend on its type, source and the user's name only.\<close>

lemma check_mount_cong:
  assumes "mt_type m' = mt_type m" and "mt_source m' = mt_source m" and "cc_labels c' = cc_labels c"
  shows "fst (check_mount access p c' m') = fst (check_mount access p c m)"
proof -
  have "get_username c' = get_username c" using assms(3) by (simp add: get_username_def)
  with assms(1,2) show ?thesis
    by (simp add: check_mount_defs Let_def
        split: mount_type.split option.split sum.split)
qed

lemma harden_mount_same [simp]:
  "mt_type (harden_mount access p cfg m) = mt_type m"
  "mt_source (harden_mount access p cfg m) = mt_source m"
  "mt_target (harden_mount access p cfg m) = mt_target m"
  by (simp_all add: harden_mount_def split: option.split sum.split)

lemma harden_network_same [simp]:
  "cc_labels (harden_network p cfg) = cc_labels cfg"
  "cc_mounts (harden_network p cfg) = cc_mounts cfg"
  "cc_resources (harden_network p cfg) = cc_resources cfg"
  "cc_image (harden_network p cfg) = cc_image cfg"
  "cc_read_only_rootfs (harden_network p cfg) = cc_read_only_rootfs cfg"
  by (simp_all add: harden_network_def)

lemma apply_policy_simps [simp]:
  "cc_labels (apply_policy access p cfg) = cc_labels cfg"
  "cc_image (apply_policy access p cfg) = cc_image cfg"
  "cc_mounts (apply_policy access p cfg) = map (harden_mount access p cfg) (cc_mounts cfg)"
  "cc_resources (apply_policy access p cfg) = default_quotas p (cc_resources cfg)"
  "cc_network_mode (apply_policy access p cfg) = cc_network_mode (harden_network p cfg)"
  "cc_networks (apply_policy access p cfg) = cc_networks (harden_network p cfg)"
  "cc_ports (apply_policy access p cfg) = cc_ports (harden_network p cfg)"
  "cc_read_only_rootfs (apply_policy access p cfg) \<longleftrightarrow>
     cc_read_only_rootfs cfg \<or> sp_read_only_rootfs (pol_security p) \<or> mp_enforce_ro_rootfs (pol_mounts p)"
  by (simp_all add: apply_policy_def Let_def)

definition quotas_consistent :: "policy \<Rightarrow> bool" where
  "quotas_consistent p \<longleftrightarrow>
     \<not> crossed (rq_min_cpus (pol_quotas p)) (rq_max_cpus (pol_quotas p))
     \<and> \<not> crossed (rq_min_memory (pol_quotas p)) (rq_max_memory (pol_quotas p))"

lemma policy_ok_quotas: "policy_ok p \<Longrightarrow> quotas_consistent p"
  by (simp add: policy_ok_def quotas_consistent_def)

lemma above_below_simps [simp]:
  "above x None = False" "above x (Some l) = (x > l)"
  "below x None = False" "below x (Some l) = (x < l)"
  by (simp_all add: above_def below_def)

lemma crossed_simps [simp]:
  "crossed None hi = False" "crossed lo None = False" "crossed (Some a) (Some b) = (a > b)"
  by (simp_all add: crossed_def split: option.split)

lemma validate_quotas_Nil_iff:
  "validate_quotas p cfg = [] \<longleftrightarrow>
     (let r = cc_resources cfg; q = pol_quotas p in
        (0 < rl_nano_cpus r \<longrightarrow> \<not> above (rl_nano_cpus r) (rq_max_cpus q) \<and> \<not> below (rl_nano_cpus r) (rq_min_cpus q))
      \<and> (0 < rl_memory_bytes r \<longrightarrow> \<not> above (rl_memory_bytes r) (rq_max_memory q) \<and> \<not> below (rl_memory_bytes r) (rq_min_memory q))
      \<and> (0 < rl_memory_swap r \<longrightarrow> rq_max_memory_swap q \<noteq> Some (-1) \<longrightarrow> \<not> above (rl_memory_swap r) (rq_max_memory_swap q))
      \<and> (\<forall>n. rl_pids_limit r = Some n \<longrightarrow> \<not> above n (rq_max_pids q)))"
  by (auto simp: validate_quotas_def Let_def split: option.split)

lemma default_quotas_fields:
  "rl_nano_cpus (default_quotas p r) =
     (if rl_nano_cpus r = 0 then (case rq_max_cpus (pol_quotas p) of Some n \<Rightarrow> n | None \<Rightarrow> 0) else rl_nano_cpus r)"
  "rl_memory_bytes (default_quotas p r) =
     (if rl_memory_bytes r = 0 then (case rq_max_memory (pol_quotas p) of Some n \<Rightarrow> n | None \<Rightarrow> 0) else rl_memory_bytes r)"
  "rl_memory_swap (default_quotas p r) = rl_memory_swap r"
  "rl_pids_limit (default_quotas p r) =
     (if rl_pids_limit r = None then rq_max_pids (pol_quotas p) else rl_pids_limit r)"
  by (simp_all add: default_quotas_def Let_def split: option.split)

text \<open>
  What enforcement fills in can break the policy it comes from: a missing limit becomes the
  maximum, which lies below the minimum when the two are in the wrong order.
\<close>

definition filled_below :: "int \<Rightarrow> int option \<Rightarrow> int option \<Rightarrow> bool" where
  "filled_below given lo hi \<longleftrightarrow> given = 0 \<and> crossed lo hi \<and> (\<exists>h. hi = Some h \<and> 0 < h)"

definition minimum_clash :: "policy \<Rightarrow> container_config \<Rightarrow> violation list" where
  "minimum_clash p cfg =
     (let r = cc_resources cfg; q = pol_quotas p in
        flag_if (filled_below (rl_nano_cpus r) (rq_min_cpus q) (rq_max_cpus q)) (viol ''quota.cpu.min'' SeverityWarning CompQuota)
      @ flag_if (filled_below (rl_memory_bytes r) (rq_min_memory q) (rq_max_memory q)) (viol ''quota.memory.min'' SeverityWarning CompQuota))"

lemma minimum_clash_consistent: "quotas_consistent p \<Longrightarrow> minimum_clash p cfg = []"
  by (simp add: minimum_clash_def filled_below_def quotas_consistent_def Let_def flag_if_def)

lemma flag_if_simps [simp]: "flag_if True x = [x]" "flag_if False x = []"
  by (simp_all add: flag_if_def)

lemma validate_quotas_defaulted:
  assumes "validate_quotas p cfg = []" and "cc_resources cfg' = default_quotas p (cc_resources cfg)"
  shows "validate_quotas p cfg' = minimum_clash p cfg"
proof -
  let ?r = "cc_resources cfg" and ?q = "pol_quotas p"
  have cpu: "(if 0 < rl_nano_cpus (default_quotas p ?r)
      then flag_if (above (rl_nano_cpus (default_quotas p ?r)) (rq_max_cpus ?q)) a
        @ flag_if (below (rl_nano_cpus (default_quotas p ?r)) (rq_min_cpus ?q)) b else [])
    = flag_if (filled_below (rl_nano_cpus ?r) (rq_min_cpus ?q) (rq_max_cpus ?q)) b" for a b :: violation
    using assms(1) unfolding validate_quotas_Nil_iff Let_def
    by (cases "rq_max_cpus ?q"; cases "rq_min_cpus ?q") (auto simp: default_quotas_fields filled_below_def flag_if_def)
  have mem: "(if 0 < rl_memory_bytes (default_quotas p ?r)
      then flag_if (above (rl_memory_bytes (default_quotas p ?r)) (rq_max_memory ?q)) a
        @ flag_if (below (rl_memory_bytes (default_quotas p ?r)) (rq_min_memory ?q)) b else [])
    = flag_if (filled_below (rl_memory_bytes ?r) (rq_min_memory ?q) (rq_max_memory ?q)) b" for a b :: violation
    using assms(1) unfolding validate_quotas_Nil_iff Let_def
    by (cases "rq_max_memory ?q"; cases "rq_min_memory ?q") (auto simp: default_quotas_fields filled_below_def flag_if_def)
  have swap: "(if 0 < rl_memory_swap ?r then (case rq_max_memory_swap ?q of None \<Rightarrow> []
      | Some l \<Rightarrow> flag_if (rl_memory_swap ?r > l \<and> l \<noteq> -1) a) else []) = []" for a :: violation
    using assms(1) unfolding validate_quotas_Nil_iff Let_def by (auto split: option.split)
  have pids: "(case (rl_pids_limit (default_quotas p ?r), rq_max_pids ?q) of
      (Some n, Some l) \<Rightarrow> flag_if (n > l) a | _ \<Rightarrow> []) = []" for a :: violation
    using assms(1) unfolding validate_quotas_Nil_iff Let_def
    by (cases "rl_pids_limit ?r"; cases "rq_max_pids ?q") (auto simp: default_quotas_fields)
  show ?thesis
    unfolding validate_quotas_def minimum_clash_def Let_def assms(2) cpu mem default_quotas_fields(3) swap pids by simp
qed

lemma validate_mounts_fst_Nil_iff:
  "fst (validate_mounts access p cfg) = [] \<longleftrightarrow>
     (\<forall>m \<in> set (cc_mounts cfg). fst (check_mount access p cfg m) = []) \<and> fst (check_rootfs p cfg) = []"
  by (auto simp: validate_mounts_def Let_def)

lemma validate_mounts_applied:
  assumes "fst (validate_mounts access p (harden_network p cfg)) = []"
  shows "fst (validate_mounts access p (apply_policy access p cfg)) = []"
  unfolding validate_mounts_fst_Nil_iff
proof
  show "fst (check_rootfs p (apply_policy access p cfg)) = []"
    by (simp add: check_rootfs_def)
  have "fst (check_mount access p (apply_policy access p cfg) (harden_mount access p cfg m)) = []"
    if "m \<in> set (cc_mounts cfg)" for m
  proof -
    have "fst (check_mount access p (apply_policy access p cfg) (harden_mount access p cfg m))
        = fst (check_mount access p (harden_network p cfg) m)"
      by (rule check_mount_cong) simp_all
    also have "\<dots> = []" using assms that by (simp add: validate_mounts_fst_Nil_iff)
    finally show ?thesis .
  qed
  then show "\<forall>m \<in> set (cc_mounts (apply_policy access p cfg)).
      fst (check_mount access p (apply_policy access p cfg) m) = []" by simp
qed

lemma validate_rest_applied:
  "validate_network p (apply_policy access p cfg) = validate_network p (harden_network p cfg)"
  "validate_image p (apply_policy access p cfg) = validate_image p (harden_network p cfg)"
  "validate_security p (harden_network p cfg) = [] \<Longrightarrow> validate_security p (apply_policy access p cfg) = []"
  by (simp_all add: validate_network_def validate_image_def validate_security_def Let_def)

lemma all_violations_applied:
  assumes "all_violations access p (harden_network p cfg) = []"
  shows "all_violations access p (apply_policy access p cfg) = minimum_clash p cfg"
proof -
  have "minimum_clash p (harden_network p cfg) = minimum_clash p cfg" by (simp add: minimum_clash_def)
  then have "validate_quotas p (apply_policy access p cfg) = minimum_clash p cfg"
    using validate_quotas_defaulted [of p "harden_network p cfg" "apply_policy access p cfg"] assms
    by (simp add: all_violations_def)
  with assms show ?thesis
    by (simp add: all_violations_def validate_mounts_applied validate_rest_applied)
qed

section \<open>Validation and enforcement as one step\<close>

lemma en_validate_fst:
  "fst (en_validate sid cfg e) =
     (if en_closed e then Inl (new_error ErrUnavailable)
      else if pol_mode (effective_policy e sid) = ModeDisabled
      then Inr \<lparr>vr_allowed = True, vr_violations = [], vr_warnings = []\<rparr>
      else Inr \<lparr>vr_allowed = (pol_mode (effective_policy e sid) = ModeStrict \<longrightarrow>
                              all_violations (access_of e) (effective_policy e sid) cfg = []),
                vr_violations = all_violations (access_of e) (effective_policy e sid) cfg,
                vr_warnings = []\<rparr>)"
  by (simp add: en_validate_def Let_def)

lemma en_validate_snd:
  "snd (en_validate sid cfg e) =
     (if en_closed e \<or> pol_mode (effective_policy e sid) = ModeDisabled then e
      else e\<lparr>en_audit := audit_all (snd (validate_mounts (access_of e) (effective_policy e sid) cfg)) (en_audit e)\<rparr>)"
  by (simp add: en_validate_def Let_def)

lemma audit_frame [simp]:
  "access_of (e\<lparr>en_audit := a\<rparr>) = access_of e"
  "effective_policy (e\<lparr>en_audit := a\<rparr>) sid = effective_policy e sid"
  by (simp_all add: access_of_def effective_policy_def split: option.split)

lemma en_validate_frame [simp]:
  "access_of (snd (en_validate sid cfg e)) = access_of e"
  "effective_policy (snd (en_validate sid cfg e)) sid' = effective_policy e sid'"
  "en_closed (snd (en_validate sid cfg e)) = en_closed e"
  by (simp_all add: en_validate_snd)

lemma en_enforce_cases:
  assumes "en_enforce sid cfg e = (Inr c', e')" and "pol_mode (effective_policy e sid) \<noteq> ModeDisabled"
  obtains "\<not> en_closed e" and "c' = apply_policy (access_of e) (effective_policy e sid) cfg"
    and "e' = snd (en_validate sid (harden_network (effective_policy e sid) cfg) e)"
    and "pol_mode (effective_policy e sid) = ModeStrict \<Longrightarrow>
         all_violations (access_of e) (effective_policy e sid) (harden_network (effective_policy e sid) cfg) = []"
  using assms by (auto simp: en_enforce_def en_validate_def Let_def split: if_splits)

section \<open>Example\<close>

text \<open>The enforcer as built, and a container that its default policy accepts.\<close>

definition sample_cfg :: policy_config where
  "sample_cfg = \<lparr>pc_config_path = '''', pc_reload_on_changes = False, pc_reload_interval = 0,
     pc_enforcement_mode = ''strict'', pc_default_quota_cpu = 0, pc_default_quota_memory = 0\<rparr>"

definition sample_container :: container_config where
  "sample_container = zero_config\<lparr>cc_image := ''a:1'',
     cc_mounts := [\<lparr>mt_type = MountVolume, mt_source = ''v'', mt_target = ''/v'', mt_read_only = False\<rparr>]\<rparr>"

definition sample_enforced :: "container_config result" where
  "sample_enforced = fst (en_enforce ''s'' sample_container (new_enforcer sample_cfg))"

lemma sample_enforced_ok:
  "sample_enforced = Inr (sample_container\<lparr>cc_resources :=
     \<lparr>rl_nano_cpus = 4000000000, rl_memory_bytes = 8589934592, rl_memory_swap = 0, rl_pids_limit = Some 1024\<rparr>\<rparr>)"
  by code_simp

section \<open>Properties\<close>

lemma enforced_validates:
  assumes "en_enforce sid cfg e = (Inr c', e')"
    and "pol_mode (effective_policy e sid) = ModeStrict"
  shows "fst (en_validate sid c' e') =
    Inr \<lparr>vr_allowed = (minimum_clash (effective_policy e sid) cfg = []),
      vr_violations = minimum_clash (effective_policy e sid) cfg, vr_warnings = []\<rparr>"
proof -
  from assms(2) have "pol_mode (effective_policy e sid) \<noteq> ModeDisabled" by simp
  from assms(1) this show ?thesis
  proof (cases rule: en_enforce_cases)
    case 1
    with assms(2) have "all_violations (access_of e) (effective_policy e sid) c' = minimum_clash (effective_policy e sid) cfg"
      by (simp add: all_violations_applied)
    with 1(1,3) assms(2) show ?thesis by (simp add: en_validate_fst)
  qed
qed


text \<open>
  In strict mode an enforced configuration asks for no more CPU or memory
  than the maxima, and when the policy has a process limit the configuration
  has one that is not above it.
\<close>

lemma enforce_within_quotas:
  assumes "en_enforce sid cfg e = (Inr c', e')"
    and "pol_mode (effective_policy e sid) = ModeStrict"
    and "rq_max_cpus (pol_quotas (effective_policy e sid)) = Some cpu" and "0 \<le> cpu"
    and "rq_max_memory (pol_quotas (effective_policy e sid)) = Some mem" and "0 \<le> mem"
    and "rq_max_pids (pol_quotas (effective_policy e sid)) = Some pids"
  shows "rl_nano_cpus (cc_resources c') \<le> cpu \<and> rl_memory_bytes (cc_resources c') \<le> mem
       \<and> (\<exists>n. rl_pids_limit (cc_resources c') = Some n \<and> n \<le> pids)
       \<and> (rl_nano_cpus (cc_resources cfg) = 0 \<longrightarrow> rl_nano_cpus (cc_resources c') = cpu)"
proof -
  let ?p = "effective_policy e sid"
  from assms(2) have "pol_mode ?p \<noteq> ModeDisabled" by simp
  from assms(1) this show ?thesis
  proof (cases rule: en_enforce_cases)
    case 1
    with assms(2) have "validate_quotas ?p (harden_network ?p cfg) = []"
      by (simp add: all_violations_def)
    then show ?thesis using assms(3-7) 1(2)
      by (cases "rl_pids_limit (cc_resources cfg)")
        (auto simp: validate_quotas_Nil_iff default_quotas_fields Let_def)
  qed
qed

lemma sample_enforce_run:
  "en_enforce ''s'' sample_container (new_enforcer sample_cfg) =
     (Inr (sample_container\<lparr>cc_resources :=
        \<lparr>rl_nano_cpus = 4000000000, rl_memory_bytes = 8589934592, rl_memory_swap = 0, rl_pids_limit = Some 1024\<rparr>\<rparr>),
      snd (en_enforce ''s'' sample_container (new_enforcer sample_cfg)))"
  using sample_enforced_ok by (simp add: sample_enforced_def prod_eq_iff)

lemma sample_effective: "effective_policy (new_enforcer sample_cfg) sid = default_policy"
  by (simp add: effective_policy_def new_enforcer_def)

lemma default_policy_simps:
  "pol_mode default_policy = ModeStrict" "quotas_consistent default_policy"
  "rq_max_cpus (pol_quotas default_policy) = Some 4000000000"
  "rq_max_memory (pol_quotas default_policy) = Some 8589934592"
  "rq_max_pids (pol_quotas default_policy) = Some 1024"
  by (simp_all add: default_policy_def quotas_consistent_def)


theorem enforce_within_quotas_witness:
  "\<exists>c' e'. en_enforce ''s'' sample_container (new_enforcer sample_cfg) = (Inr c', e')
     \<and> rl_nano_cpus (cc_resources c') \<le> 4000000000
     \<and> (\<exists>n. rl_pids_limit (cc_resources c') = Some n \<and> n \<le> 1024)"
  using sample_enforce_run enforce_within_quotas [OF sample_enforce_run]
  by (auto simp: sample_effective default_policy_simps)

text \<open>
  No check reads the user, the added capabilities or the security options of
  a container: changing them never changes the violations, so a container with
  user root and every capability passes a policy that requires a non-root user.
\<close>

lemma user_and_capabilities_unchecked:
  "all_violations access p (cfg\<lparr>cc_user := u, cc_cap_add := caps, cc_security_opt := opts\<rparr>)
     = all_violations access p cfg"
proof -
  let ?c = "cfg\<lparr>cc_user := u, cc_cap_add := caps, cc_security_opt := opts\<rparr>"
  have "fst (check_mount access p ?c m) = fst (check_mount access p cfg m)" for m
    by (intro check_mount_cong) simp_all
  then have "fst (validate_mounts access p ?c) = fst (validate_mounts access p cfg)"
    by (simp add: validate_mounts_def check_rootfs_def comp_def Let_def)
  then show ?thesis
    by (simp add: all_violations_def validate_quotas_def validate_network_def validate_image_def
        validate_security_def Let_def)
qed

text \<open>A check's result with one denial event for each violation.\<close>

definition audited :: "container_config \<Rightarrow> violation list \<times> audit_event list \<Rightarrow> bool" where
  "audited cfg r \<longleftrightarrow> length (snd r) = length (fst r)
     \<and> (\<forall>ev \<in> set (snd r). ax_type ev = AuditMountViolation \<and> ax_user ev = get_username cfg
          \<and> ax_decision ev = ''denied'')"

lemma audited_simps [simp]:
  "audited cfg ([], [])" "audited cfg (mount_denied cfg rule path mode reason ctx)"
  by (simp_all add: audited_def mount_denied_def mount_violation_event_def)

lemma audited_legacy [simp]: "audited cfg (check_bind_legacy p cfg m)"
  by (simp add: check_bind_legacy_def)

lemma audited_bind [simp]: "audited cfg (check_bind access p cfg m)"
  by (simp add: check_bind_def split: option.split sum.split)

lemma audited_volume [simp]: "audited cfg (check_volume p cfg m)"
  by (simp add: check_volume_def)

lemma audited_tmpfs [simp]: "audited cfg (check_tmpfs p cfg m)"
  by (simp add: check_tmpfs_def Let_def split: option.split)

lemma audited_mount [simp]: "audited cfg (check_mount access p cfg m)"
  by (simp add: check_mount_def split: mount_type.split)

lemma audited_rootfs [simp]: "audited cfg (check_rootfs p cfg)"
  by (simp add: check_rootfs_def)

lemma audited_concat:
  "\<forall>r \<in> set rs. audited cfg r \<Longrightarrow> audited cfg (concat (map fst rs), concat (map snd rs))"
  by (induction rs) (auto simp: audited_def)

lemma audited_mounts [simp]: "audited cfg (validate_mounts access p cfg)"
  unfolding validate_mounts_def Let_def by (rule audited_concat) auto

text \<open>
  Validation raises exactly one audit event for each mount violation, and an
  open logger appends them in order; nothing else is logged.
\<close>

lemma validate_audits_each_mount_violation:
  assumes "\<not> en_closed e" and "pol_mode (effective_policy e sid) \<noteq> ModeDisabled"
    and "en_audit e = Some al" and "\<not> al_closed al"
  shows "\<exists>al'. en_audit (snd (en_validate sid cfg e)) = Some al'
       \<and> (\<exists>evs. al_log al' = al_log al @ evs
           \<and> length evs = length (fst (validate_mounts (access_of e) (effective_policy e sid) cfg))
           \<and> (\<forall>ev \<in> set evs. ax_type ev = AuditMountViolation \<and> ax_user ev = get_username cfg
                \<and> ax_decision ev = ''denied''))"
proof -
  have "audited cfg (validate_mounts (access_of e) (effective_policy e sid) cfg)" by simp
  with assms show ?thesis by (simp add: en_validate_snd audit_all_Some audited_def)
qed

theorem validate_audits_each_mount_violation_witness:
  "\<exists>al'. en_audit (snd (en_validate ''s'' zero_config (new_enforcer sample_cfg))) = Some al'
     \<and> (\<exists>evs. al_log al' = [] @ evs)"
proof -
  let ?e = "new_enforcer sample_cfg"
  have "\<not> en_closed ?e" "pol_mode (effective_policy ?e ''s'') \<noteq> ModeDisabled"
    "en_audit ?e = Some (new_audit_logger '''')" "\<not> al_closed (new_audit_logger '''')"
    by (simp_all add: sample_effective default_policy_simps) (simp_all add: new_enforcer_def new_audit_logger_def)
  from validate_audits_each_mount_violation [OF this, of zero_config]
  show ?thesis by (auto simp: new_audit_logger_def)
qed

section \<open>Runs of the enforcer\<close>

datatype en_op =
    OpSetPolicy policy | OpSetSessionPolicy id policy | OpRemoveSessionPolicy id
  | OpValidate id container_config | OpEnforce id container_config | OpClose
  | OpSetAuditLogger "audit_logger option" | OpSetGroupProvider "group_provider option"

fun en_exec :: "enforcer \<Rightarrow> en_op \<Rightarrow> enforcer" where
  "en_exec e (OpSetPolicy p) = snd (en_set_policy p e)"
| "en_exec e (OpSetSessionPolicy sid p) = snd (en_set_session_policy sid p e)"
| "en_exec e (OpRemoveSessionPolicy sid) = snd (en_remove_session_policy sid e)"
| "en_exec e (OpValidate sid cfg) = snd (en_validate sid cfg e)"
| "en_exec e (OpEnforce sid cfg) = snd (en_enforce sid cfg e)"
| "en_exec e OpClose = en_close e"
| "en_exec e (OpSetAuditLogger al) = snd (en_set_audit_logger al e)"
| "en_exec e (OpSetGroupProvider gp) = snd (en_set_group_provider gp e)"

text \<open>
  The invariant: every stored policy was accepted, and the resolver holds the
  global policy and is open exactly when the enforcer is.
\<close>

definition en_good :: "enforcer \<Rightarrow> bool" where
  "en_good e \<longleftrightarrow>
     mwf (en_session_policies e) \<and> policy_ok (en_policy e)
     \<and> mall (\<lambda>_ p. policy_ok p) (en_session_policies e)
     \<and> (\<exists>r. en_resolver e = Some r \<and> rs_policy r = en_policy e \<and> rs_closed r = en_closed e)"

lemma en_enforce_snd:
  "snd (en_enforce sid cfg e) = e \<or> snd (en_enforce sid cfg e) = snd (en_validate sid (harden_network (effective_policy e sid) cfg) e)"
  by (auto simp: en_enforce_def Let_def split: prod.split sum.split)

lemma en_good_audit [simp]: "en_good (e\<lparr>en_audit := a\<rparr>) = en_good e"
  by (simp add: en_good_def)

lemma en_good_validate: "en_good e \<Longrightarrow> en_good (snd (en_validate sid cfg e))"
  by (simp add: en_validate_snd)

lemma en_good_enforce: "en_good e \<Longrightarrow> en_good (snd (en_enforce sid cfg e))"
  using en_enforce_snd [of sid cfg e] en_good_validate [of e] by auto

lemma en_good_set_policy: "en_good e \<Longrightarrow> en_good (snd (en_set_policy p e))"
proof -
  assume good: "en_good e"
  then obtain r where r: "en_resolver e = Some r" "rs_policy r = en_policy e" "rs_closed r = en_closed e"
    by (auto simp: en_good_def)
  show ?thesis
  proof (cases "en_closed e \<or> policy_validate p \<noteq> None")
    case True
    then have "snd (en_set_policy p e) = e" by (auto simp: en_set_policy_def)
    with good show ?thesis by simp
  next
    case False
    then show ?thesis using good r
      by (simp add: en_set_policy_def en_good_def resolver_set_policy_def flip: policy_validate_iff)
  qed
qed

lemma en_good_set_session_policy: "en_good e \<Longrightarrow> en_good (snd (en_set_session_policy sid p e))"
  by (auto simp: en_set_session_policy_def en_good_def policy_validate_iff intro: mall_mput split: option.splits)

lemma en_good_exec: "en_good e \<Longrightarrow> en_good (en_exec e c)"
proof (cases c)
  case (OpRemoveSessionPolicy sid)
  moreover assume "en_good e"
  ultimately show ?thesis by (auto simp: en_remove_session_policy_def en_good_def intro: mall_mdel)
next
  case OpClose
  moreover assume "en_good e"
  ultimately show ?thesis by (auto simp: en_close_def en_good_def resolver_close_def)
next
  case (OpSetGroupProvider gp)
  moreover assume "en_good e"
  ultimately show ?thesis
    by (auto simp: en_set_group_provider_def en_good_def resolver_set_group_provider_def split: option.splits)
qed (simp_all add: en_good_validate en_good_enforce en_good_set_policy en_good_set_session_policy
    en_set_audit_logger_def)

lemma en_closed_exec: "en_closed e \<Longrightarrow> en_closed (en_exec e c)"
proof (cases c)
  case (OpEnforce sid cfg)
  moreover assume "en_closed e"
  ultimately show ?thesis using en_enforce_snd [of sid cfg e] by auto
qed (simp_all add: en_set_policy_def en_set_session_policy_def en_remove_session_policy_def en_close_def
    en_set_audit_logger_def en_set_group_provider_def)

interpretation en: closable_machine en_exec en_good en_closed
  by unfold_locales (simp_all add: en_good_exec en_closed_exec)

lemma default_policy_ok: "policy_ok default_policy"
  by (simp add: policy_ok_def default_policy_def known_mode_def zero_mounts_def)

lemma en_good_new: "en_good (new_enforcer cfg)"
  by (simp add: en_good_def new_enforcer_def new_resolver_def default_policy_ok)

text \<open>
  After any sequence of calls on a new enforcer, every stored policy is one
  that \<open>Validate\<close> accepts and the resolver answers from the global policy in force.
\<close>

lemma enforcer_runs_stay_consistent: "en_good (foldl en_exec (new_enforcer cfg) cs)"
  by (rule en.run_good [OF en_good_new])

text \<open>
  Once closed, an enforcer stays closed under any calls, and validation and
  enforcement return the unavailable error.
\<close>

lemma enforcer_closed_stays_closed:
  assumes "e' = foldl en_exec (en_close e) cs"
  shows "en_closed e' \<and> fst (en_validate sid c e') = Inl (new_error ErrUnavailable)
     \<and> fst (en_enforce sid c e') = Inl (new_error ErrUnavailable)"
proof -
  have "en_closed (en_close e)" by (simp add: en_close_def)
  then have "en_closed e'" using assms en.run_shut by blast
  then show ?thesis by (simp add: en_validate_fst en_enforce_def)
qed

theorem enforcer_closed_stays_closed_witness:
  "fst (en_validate ''s'' zero_config (foldl en_exec (en_close (new_enforcer sample_cfg)) [OpClose]))
     = Inl (new_error ErrUnavailable)"
  using enforcer_closed_stays_closed [OF refl] by blast

section \<open>Enforcing and validating again\<close>

lemma runs_without_session_policy:
  assumes "e = foldl en_exec (new_enforcer pc) cs" and "mget (en_session_policies e) sid = None"
  shows "quotas_consistent (effective_policy e sid)"
  using enforcer_runs_stay_consistent [of pc cs] assms
  by (simp add: en_good_def effective_policy_def policy_ok_quotas)

text \<open>
  C1: In strict mode a configuration that enforcement returns passes validation, in the state
  enforcement leaves, with one exception: a limit that enforcement filled in from a maximum below
  the minimum violates that minimum.  It cannot happen while minima do not exceed maxima, and so not in
  any state the enforcer can reach for a session without a policy of its own: only merging a session
  policy over the global one puts the two out of order.
\<close>

theorem enforce_then_validate_clean:
  assumes "en_enforce sid cfg e = (Inr c', e')"
    and "pol_mode (effective_policy e sid) = ModeStrict"
  shows "(\<exists>vs. fst (en_validate sid c' e') = Inr \<lparr>vr_allowed = (vs = []), vr_violations = vs, vr_warnings = []\<rparr>
       \<and> (viol ''quota.cpu.min'' SeverityWarning CompQuota \<in> set vs \<longleftrightarrow>
            filled_below (rl_nano_cpus (cc_resources cfg)) (rq_min_cpus (pol_quotas (effective_policy e sid)))
              (rq_max_cpus (pol_quotas (effective_policy e sid))))
       \<and> (viol ''quota.memory.min'' SeverityWarning CompQuota \<in> set vs \<longleftrightarrow>
            filled_below (rl_memory_bytes (cc_resources cfg)) (rq_min_memory (pol_quotas (effective_policy e sid)))
              (rq_max_memory (pol_quotas (effective_policy e sid))))
       \<and> set vs \<subseteq> {viol ''quota.cpu.min'' SeverityWarning CompQuota, viol ''quota.memory.min'' SeverityWarning CompQuota}
       \<and> (quotas_consistent (effective_policy e sid) \<longrightarrow> vs = []))
    \<and> (\<forall>pc cs. e = foldl en_exec (new_enforcer pc) cs \<and> mget (en_session_policies e) sid = None
         \<longrightarrow> quotas_consistent (effective_policy e sid))"
  using enforced_validates [OF assms] minimum_clash_consistent [of "effective_policy e sid" cfg] runs_without_session_policy
  by (auto simp: minimum_clash_def Let_def flag_if_def viol_def)

theorem enforce_then_validate_clean_witness:
  "\<exists>c' e'. en_enforce ''s'' sample_container (new_enforcer sample_cfg) = (Inr c', e')
     \<and> fst (en_validate ''s'' c' e') = Inr \<lparr>vr_allowed = True, vr_violations = [], vr_warnings = []\<rparr>"
  using sample_enforce_run enforce_then_validate_clean [OF sample_enforce_run]
  by (auto simp: sample_effective default_policy_simps)

end
