(* ===== verification/Policy_Paths.thy ===== *)
theory Policy_Paths
  imports Policy_Proofs
begin

text \<open>
  Properties of the parts the policy engine is made of: the wildcard matcher,
  the allowlist resolver, the merge and the acceptance of policies, the size
  option of a tmpfs mount; and closed counterexamples where a check can be
  passed by what it is meant to stop.
\<close>

section \<open>Wildcards\<close>

text \<open>
  C15: \<open>matchPattern\<close> accepts a text exactly when it is an instance of the pattern, in which each asterisk
  stands for a run of characters without a newline and every other character, those with a meaning
  in regular expressions included, for itself: the expression that is built by quoting, replacing and
  anchoring always compiles and says no more and no less.
\<close>

theorem match_pattern_is_glob_language:
  "match_pattern s pat \<longleftrightarrow> glob_lang pat s"
  by (rule match_pattern_lang)

lemma match_pattern_examples:
  "match_pattern ''/data/a/b'' ''/data/*''" "\<not> match_pattern ''x/data/a'' ''/data/*''"
  "\<not> match_pattern ''/dataXa'' ''/data.*''" "match_pattern ''/data.a'' ''/data.*''"
  by code_simp+

section \<open>The allowlist\<close>


definition sample_resolver :: resolver where
  "sample_resolver = new_resolver (Some (default_policy\<lparr>pol_mounts := zero_mounts\<lparr>mp_allowlist :=
     [\<lparr>ae_path = ''/d/*'', ae_user = '''', ae_group = '''', ae_mode = AccessReadOnly\<rparr>,
      \<lparr>ae_path = ''/d/*'', ae_user = ''bo'', ae_group = '''', ae_mode = AccessReadWrite\<rparr>]\<rparr>\<rparr>))"

lemma sample_resolver_answers:
  "resolve_mount_access sample_resolver ''/d/x'' ''bo'' = Inr AccessReadWrite"
  "resolve_mount_access sample_resolver ''/d//y/../x'' ''al'' = Inr AccessReadOnly"
  "resolve_mount_access sample_resolver ''/d/../etc'' ''bo'' = Inr AccessDenied"
  by code_simp+

lemma sample_resolver_open: "\<not> rs_closed sample_resolver"
  by code_simp


text \<open>
  The resolver cannot be led outside the allowlist by the spelling of an
  absolute path: an answer other than denied is the mode of an entry whose
  pattern matches the cleaned path, and the cleaned path has no \<open>..\<close>, no \<open>.\<close> and
  no empty component.
\<close>

lemma resolver_stops_traversal:
  assumes "path_is_abs p" and "resolve_mount_access r p u = Inr m" and "m \<noteq> AccessDenied"
  shows "(\<exists>e \<in> set (mp_allowlist (pol_mounts (rs_policy r))). entry_matches (path_clean p) e)
       \<and> (path_clean p \<noteq> [slash] \<longrightarrow> (\<forall>c \<in> set (tl (split_on slash (path_clean p))). real_comp c))
       \<and> resolve_mount_access r (path_clean p) u = Inr m"
  using resolver.allowed_imp_listed [OF assms(2,3)] path_clean_abs_components [OF assms(1)]
    resolver.access_clean [of r p u] assms(2)
  by (auto simp: listed_by_def)

theorem resolver_stops_traversal_witness:
  "path_clean ''/d//y/../x'' = ''/d/x'' \<and> entry_matches ''/d/x'' (hd (mp_allowlist (pol_mounts (rs_policy sample_resolver))))
     \<and> resolve_mount_access sample_resolver ''/d/x'' ''al'' = Inr AccessReadOnly"
proof -
  have clean: "path_clean ''/d//y/../x'' = ''/d/x''" by code_simp
  have "path_is_abs ''/d//y/../x''" by code_simp
  from resolver_stops_traversal [OF this sample_resolver_answers(2)]
  have "resolve_mount_access sample_resolver ''/d/x'' ''al'' = Inr AccessReadOnly" by (simp add: clean)
  moreover have "entry_matches ''/d/x'' (hd (mp_allowlist (pol_mounts (rs_policy sample_resolver))))" by code_simp
  ultimately show ?thesis using clean by simp
qed

text \<open>
  With entries that \<open>Validate\<close> accepts, whatever the resolver grants is in the
  list of mounts shown to the user.
\<close>

lemma granted_access_is_listed:
  assumes "policy_ok (rs_policy r)" and "resolve_mount_access r p u = Inr m" and "m \<noteq> AccessDenied"
    and "get_allowed_mounts r u = Inr ms"
  shows "\<exists>e \<in> set ms. ae_mode e = m \<and> entry_matches (path_clean p) e"
proof -
  let ?es = "mp_allowlist (pol_mounts (rs_policy r))" and ?gs = "user_groups r u"
  from assms(2,3) obtain e k where best: "best_entry (path_clean p) u ?gs None ?es = Some (e, k)"
    and m: "m = ae_mode e"
    by (auto simp: resolve_mount_access_def Let_def split: if_splits option.splits)
  from best have e: "e \<in> set ?es" and rank: "0 < rank (path_clean p) u ?gs e"
    by (auto simp: best_entry_Some_iff)
  from e assms(1) have "ae_user e = '''' \<or> ae_group e = ''''" by (simp add: policy_ok_def)
  with rank have "entry_applies u ?gs e" and "entry_matches (path_clean p) e"
    by (auto simp: rank_def entry_priority_def entry_applies_def split: if_splits)
  with e m assms(3,4) show ?thesis by (auto simp: get_allowed_mounts_def split: if_splits)
qed

theorem granted_access_is_listed_witness:
  "\<exists>ms. get_allowed_mounts sample_resolver ''bo'' = Inr ms
     \<and> (\<exists>e \<in> set ms. ae_mode e = AccessReadWrite \<and> entry_matches (path_clean ''/d/x'') e)"
proof -
  have ok: "policy_ok (rs_policy sample_resolver)"
    by (simp add: policy_ok_def sample_resolver_def new_resolver_def default_policy_def known_mode_def
        known_access_def zero_mounts_def path_is_abs_def slash_def)
  obtain ms where ms: "get_allowed_mounts sample_resolver ''bo'' = Inr ms"
    using sample_resolver_open by (simp add: get_allowed_mounts_def)
  show ?thesis
    using granted_access_is_listed [OF ok sample_resolver_answers(1) _ ms] ms by auto
qed

text \<open>
  The legacy allow list is matched against the path as written too, so a path
  under an allowed directory may climb out of it: with \<open>d*\<close> allowed, every path
  that starts with \<open>d\<close> passes, wherever it leads.
\<close>

lemma legacy_allow_list_admits_traversal:
  assumes "star \<notin> set d" and "newline \<notin> set w"
  shows "is_path_allowed (d @ w) [d @ [star]] []"
  using assms by (auto simp: is_path_allowed_def path_hits_def match_pattern_glob glob_prefix_star)

theorem legacy_allow_list_admits_traversal_witness:
  "is_path_allowed ''/data/../etc/shadow'' [''/data/*''] [] \<and> path_clean ''/data/../etc/shadow'' = ''/etc/shadow''"
proof -
  have "is_path_allowed (''/data/'' @ ''../etc/shadow'') [''/data/'' @ [star]] []"
    by (rule legacy_allow_list_admits_traversal) (simp_all add: star_def newline_def)
  moreover have "path_clean ''/data/../etc/shadow'' = ''/etc/shadow''" by code_simp
  ultimately show ?thesis by (simp add: star_def)
qed

section \<open>Policies\<close>

text \<open>\<open>Validate\<close> accepts exactly the policies that satisfy the stated conditions.\<close>

lemma policy_validate_exact: "policy_validate p = None \<longleftrightarrow> policy_ok p"
  by (rule policy_validate_iff)

text \<open>
  Merging is associative and idempotent, and takes over the mode and every
  switch of the session's policy, while identity and labels stay the global ones.
\<close>

lemma policy_merge_laws:
  "policy_merge (policy_merge p (Some q)) (Some r) = policy_merge p (Some (policy_merge q (Some r)))
   \<and> policy_merge p (Some p) = p
   \<and> pol_mode (policy_merge p (Some q)) = pol_mode q
   \<and> pol_id (policy_merge p (Some q)) = pol_id p
   \<and> np_allow_network (pol_network (policy_merge p (Some q))) = np_allow_network (pol_network q)
   \<and> sp_allow_root (pol_security (policy_merge p (Some q))) = sp_allow_root (pol_security q)"
  by (simp add: policy_merge_def merge_assoc) (simp add: merge_defs)

definition min_cpu_policy :: policy where
  "min_cpu_policy = default_policy\<lparr>pol_quotas := (pol_quotas default_policy)\<lparr>rq_max_cpus := None, rq_min_cpus := Some 4\<rparr>\<rparr>"

definition max_cpu_policy :: policy where
  "max_cpu_policy = default_policy\<lparr>pol_quotas := (pol_quotas default_policy)\<lparr>rq_max_cpus := Some 2\<rparr>\<rparr>"

text \<open>
  Two policies that are each accepted can merge to one that is not: the merged
  policy is never validated, and under it the CPU default that enforcement fills
  in is itself a violation.
\<close>

lemma merge_can_break_validity:
  "policy_validate min_cpu_policy = None \<and> policy_validate max_cpu_policy = None
   \<and> policy_validate (policy_merge min_cpu_policy (Some max_cpu_policy)) = Some MinCpusExceedMax
   \<and> validate_quotas (policy_merge min_cpu_policy (Some max_cpu_policy)) zero_config = []
   \<and> validate_quotas (policy_merge min_cpu_policy (Some max_cpu_policy))
       (apply_policy None (policy_merge min_cpu_policy (Some max_cpu_policy)) zero_config)
     = [viol ''quota.cpu.min'' SeverityWarning CompQuota]"
  by code_simp

section \<open>Session allowlists\<close>

definition entry_rw :: "string \<Rightarrow> access_mode \<Rightarrow> allow_entry" where
  "entry_rw path m = \<lparr>ae_path = path, ae_user = '''', ae_group = '''', ae_mode = m\<rparr>"

definition bind_policy :: "access_mode \<Rightarrow> policy" where
  "bind_policy m = default_policy\<lparr>pol_mounts := zero_mounts\<lparr>mp_allow_bind := True, mp_allowlist := [entry_rw ''/d'' m]\<rparr>\<rparr>"

definition bind_container :: container_config where
  "bind_container = zero_config\<lparr>cc_image := ''a:1'',
     cc_mounts := [\<lparr>mt_type = MountBind, mt_source = ''/d'', mt_target = ''/d'', mt_read_only = False\<rparr>]\<rparr>"

text \<open>
  The allowlist of a session policy is not enforced: setting it leaves the
  resolver as it was.  A global list that grants \<open>/d\<close> read-write with a session
  list that denies it lets the mount pass with no violation, although the list of
  the policy in force for the session denies it.
\<close>

lemma session_allowlist_not_enforced:
  "access_of (snd (en_set_session_policy sid q e)) = access_of e
   \<and> (let e2 = snd (en_set_session_policy ''s'' (bind_policy AccessDenied)
                      (snd (en_set_policy (bind_policy AccessReadWrite) (new_enforcer sample_cfg))))
      in mp_allowlist (pol_mounts (effective_policy e2 ''s'')) = [entry_rw ''/d'' AccessDenied]
       \<and> resolve_mount_access (new_resolver (Some (effective_policy e2 ''s''))) ''/d'' '''' = Inr AccessDenied
       \<and> fst (en_validate ''s'' bind_container e2)
         = Inr \<lparr>vr_allowed = True, vr_violations = [], vr_warnings = []\<rparr>)"
proof
  show "access_of (snd (en_set_session_policy sid q e)) = access_of e"
    by (simp add: en_set_session_policy_def access_of_def split: option.split)
qed code_simp

section \<open>Sizes and limits that slip through\<close>

lemma tmpfs_size_parts:
  "split_on (CHR '','') ''size=17179869184g'' = [''size=17179869184g'']"
  "split_on (CHR '','') ''size=8589934592g'' = [''size=8589934592g'']"
  "split_on (CHR '','') ''size=257m'' = [''size=257m'']"
  "size_multiplier (to_lower ''17179869184g'') = (1073741824, ''17179869184'')"
  "size_multiplier (to_lower ''8589934592g'') = (1073741824, ''8589934592'')"
  "size_multiplier (to_lower ''257m'') = (1048576, ''257'')"
  "sscanf_d ''17179869184'' = 17179869184" "sscanf_d ''8589934592'' = 8589934592" "sscanf_d ''257'' = 257"
  by code_simp+

lemma tmpfs_sizes:
  "tmpfs_requested_size ''size=17179869184g'' = 0"
  "tmpfs_requested_size ''size=8589934592g'' = - 9223372036854775808"
  "tmpfs_requested_size ''size=257m'' = 269484032"
  by (simp_all add: tmpfs_requested_size_def tmpfs_size_parts parse_tmpfs_size_def has_prefix_def
      trim_prefix_def int64_mul_def)

text \<open>
  The size of a tmpfs mount is multiplied in 64 bits, so a large enough request
  wraps around: 2^34 gigabytes count as 0 bytes and 2^33 as a negative size, and
  both pass the default limit of 256 MB that 257 MB does not.
\<close>

lemma tmpfs_size_wraps_around:
  "tmpfs_requested_size ''size=17179869184g'' = 0
   \<and> tmpfs_requested_size ''size=8589934592g'' < 0
   \<and> fst (check_tmpfs default_policy zero_config
        \<lparr>mt_type = MountTmpfs, mt_source = ''size=17179869184g'', mt_target = ''/t'', mt_read_only = False\<rparr>) = []
   \<and> fst (check_tmpfs default_policy zero_config
        \<lparr>mt_type = MountTmpfs, mt_source = ''size=257m'', mt_target = ''/t'', mt_read_only = False\<rparr>)
     = [viol ''mount.tmpfs.size_exceeded'' SeverityError CompMount]"
proof -
  have lim: "mp_allow_tmpfs (pol_mounts default_policy)"
    "mp_max_tmpfs_size (pol_mounts default_policy) = Some 268435456"
    by (simp_all add: default_policy_def)
  show ?thesis by (simp add: check_tmpfs_def lim tmpfs_sizes)
qed

text \<open>
  The limits on swap and on processes are not limits on the value \<open>-1\<close> that
  stands for unlimited: a container that asks for unlimited swap and processes
  has no quota violation under any policy, and enforcement leaves both as they are.
\<close>

lemma unlimited_requests_pass_quotas:
  assumes "0 \<le> pids" and "rq_max_pids (pol_quotas p) = Some pids"
    and "cc_resources cfg = zero_resources\<lparr>rl_memory_swap := -1, rl_pids_limit := Some (-1)\<rparr>"
  shows "validate_quotas p cfg = []
       \<and> rl_memory_swap (cc_resources (apply_policy access p cfg)) = -1
       \<and> rl_pids_limit (cc_resources (apply_policy access p cfg)) = Some (-1)"
  using assms by (simp add: validate_quotas_Nil_iff default_quotas_fields zero_resources_def)

lemma unlimited_requests_pass_quotas_witness:
  "validate_quotas default_policy
     (zero_config\<lparr>cc_resources := zero_resources\<lparr>rl_memory_swap := -1, rl_pids_limit := Some (-1)\<rparr>\<rparr>) = []"
  using unlimited_requests_pass_quotas [of 1024 default_policy
      "zero_config\<lparr>cc_resources := zero_resources\<lparr>rl_memory_swap := -1, rl_pids_limit := Some (-1)\<rparr>\<rparr>"]
  by (simp add: default_policy_simps)

section \<open>Size text\<close>

lemma char_of_digit: "n < 10 \<Longrightarrow> of_char (char_of (48 + n) :: char) = (48 + n :: nat)"
  by simp

lemma lower_dec_digit: "n < 10 \<Longrightarrow> lower_char (char_of (48 + n :: nat)) = char_of (48 + n)"
  by (simp add: lower_char_def Let_def)

lemma dec_nat_digits: "list_all is_digit (dec_nat n) \<and> to_lower (dec_nat n) = dec_nat n
   \<and> digits_value (dec_nat n) = int n \<and> dec_nat n \<noteq> []"
proof (induction n rule: dec_nat.induct)
  case (1 n)
  have d: "is_digit (char_of (48 + k))" "lower_char (char_of (48 + k)) = char_of (48 + k)"
    "digit_value (char_of (48 + k)) = int k" if "k < 10" for k :: nat
    using that by (simp_all add: is_digit_def lower_char_def digit_value_def Let_def)
  show ?case
  proof (cases "n < 10")
    case True
    then show ?thesis using d [of n]
      by (simp add: dec_nat.simps [of n] to_lower_def digits_value_def)
  next
    case False
    with 1 have IH: "list_all is_digit (dec_nat (n div 10))" "to_lower (dec_nat (n div 10)) = dec_nat (n div 10)"
      "digits_value (dec_nat (n div 10)) = int (n div 10)" by auto
    have "digits_value (dec_nat (n div 10) @ [char_of (48 + n mod 10)]) = 10 * int (n div 10) + int (n mod 10)"
      using IH(3) d(3) [of "n mod 10"] by (simp add: digits_value_def)
    also have "\<dots> = int n" by presburger
    finally show ?thesis using False IH(1,2) d [of "n mod 10"]
      by (simp add: dec_nat.simps [of n] to_lower_def)
  qed
qed

lemma sscanf_dec_nat: "int n \<le> int64_max \<Longrightarrow> sscanf_d (dec_nat n) = int n"
proof -
  assume fits: "int n \<le> int64_max"
  from dec_nat_digits [of n] obtain c cs where cs: "dec_nat n = c # cs" by (cases "dec_nat n") auto
  with dec_nat_digits [of n] have c: "is_digit c" and all: "\<forall>x \<in> set (dec_nat n). is_digit x"
    by (auto simp: list_all_iff)
  from c have nb: "\<not> is_blank c" "c \<noteq> CHR ''-''" "c \<noteq> CHR ''+''"
    by (auto simp: is_digit_def is_blank_def Let_def)
  have tw: "takeWhile is_digit (c # cs) = c # cs" using all cs by (simp add: takeWhile_eq_all_conv)
  have dw: "dropWhile is_blank (c # cs) = c # cs" using nb by simp
  show ?thesis using dec_nat_digits [of n] fits nb
    unfolding sscanf_d_def sscanf_int_def Let_def cs dw by (simp add: tw int64_min_def del: takeWhile.simps)
qed

text \<open>
  A size written as a decimal number and \<open>m\<close> in either case is read as that
  number of megabytes as long as the product fits 64 bits.
\<close>

lemma tmpfs_size_exact_below_overflow:
  assumes "int n * 1048576 \<le> int64_max"
  shows "parse_tmpfs_size (dec_nat n @ ''m'') = int n * 1048576
       \<and> parse_tmpfs_size (dec_nat n @ ''M'') = int n * 1048576"
proof -
  have lower_m: "lower_char CHR ''m'' = CHR ''m''" "lower_char CHR ''M'' = CHR ''m''" by code_simp+
  have lower: "to_lower (dec_nat n @ ''m'') = dec_nat n @ ''m''" "to_lower (dec_nat n @ ''M'') = dec_nat n @ ''m''"
    using dec_nat_digits [of n] lower_m by (simp_all add: to_lower_def)
  have mult: "size_multiplier (dec_nat n @ ''m'') = (1048576, dec_nat n)"
    by (simp add: size_multiplier_def has_suffix_def trim_suffix_def)
  have "int n \<le> int64_max" using assms by linarith
  then have scan: "sscanf_d (dec_nat n) = int n" by (rule sscanf_dec_nat)
  have "int64_mul (int n) 1048576 = int n * 1048576"
    by (rule int64_mul_exact) (use assms in \<open>simp_all add: int64_min_def\<close>)
  with lower mult scan dec_nat_digits [of n] show ?thesis
    by (simp add: parse_tmpfs_size_def Let_def)
qed

theorem tmpfs_size_exact_below_overflow_witness:
  "parse_tmpfs_size (dec_nat 100 @ ''m'') = 104857600"
  using tmpfs_size_exact_below_overflow [of 100] by (simp add: int64_max_def)

end
