(* ===== verification/Session_State.thy ===== *)
theory Session_State
  imports Container_Types
begin

text \<open>
  pkg/types/session.go and pkg/session/state.go: the session, its state machine
  and the wrapper that keeps the two together.  A clock reading is an argument.
\<close>

section \<open>Sessions\<close>

datatype session_state =
    StInitializing | StActive | StIdle | StClosing | StClosed | StOther string

datatype message_role = RoleUser | RoleSystem | RoleAssistant | RoleTool | RoleOther string

record message_metadata =
  mm_container_id :: "id option"
  mm_tool_name :: string
  mm_tool_call_id :: string
  mm_extra :: "(string, string) gomap"

record message =
  msg_id :: id
  msg_timestamp :: timestamp
  msg_role :: message_role
  msg_content :: string
  msg_metadata :: message_metadata

record user_preferences =
  up_timezone :: string
  up_language :: string
  up_theme :: string
  up_notifications :: bool

record session_policy =
  sn_allow_network :: bool
  sn_allowed_networks :: "string list"
  sn_allow_volume_mount :: bool
  sn_allowed_paths :: "string list"
  sn_require_approval :: bool

record session_config =
  sc_max_containers :: int
  sc_max_duration :: duration
  sc_idle_timeout :: duration
  sc_resource_limits :: resource_limits
  sc_allowed_images :: "string list"
  sc_policy :: session_policy

record session_metadata =
  sd_name :: string
  sd_description :: string
  sd_labels :: "(string, string) gomap option"
  sd_owner_id :: string
  sd_tags :: "string list"

record session_context =
  sx_messages :: "message list"
  sx_current_task :: "id option"
  sx_task_history :: "id list"
  sx_preferences :: user_preferences
  sx_config :: session_config
  sx_resource_usage :: resource_usage

record session =
  se_id :: id
  se_state :: session_state
  se_status :: status
  se_created :: timestamp
  se_updated :: timestamp
  se_expires :: "timestamp option"
  se_closed_at :: "timestamp option"
  se_metadata :: session_metadata
  se_context :: session_context
  se_containers :: "id list"

record session_filter =
  sf_state :: "session_state option"
  sf_status :: "status option"
  sf_owner :: "string option"
  sf_label :: "(string, string) gomap option"

record session_stats =
  stt_session_id :: id
  stt_messages :: nat
  stt_containers :: nat
  stt_tasks :: nat
  stt_duration_seconds :: int
  stt_timestamp :: timestamp

text \<open>Zero values, as a composite literal leaves the fields it does not name.\<close>

definition zero_session_config :: session_config where
  "zero_session_config = \<lparr>sc_max_containers = 0, sc_max_duration = 0, sc_idle_timeout = 0,
     sc_resource_limits = zero_resources, sc_allowed_images = [],
     sc_policy = \<lparr>sn_allow_network = False, sn_allowed_networks = [], sn_allow_volume_mount = False,
       sn_allowed_paths = [], sn_require_approval = False\<rparr>\<rparr>"

definition zero_metadata :: session_metadata where
  "zero_metadata = \<lparr>sd_name = '''', sd_description = '''', sd_labels = None, sd_owner_id = '''', sd_tags = []\<rparr>"

definition zero_message_metadata :: message_metadata where
  "zero_message_metadata = \<lparr>mm_container_id = None, mm_tool_name = '''', mm_tool_call_id = '''', mm_extra = []\<rparr>"

definition zero_context :: session_context where
  "zero_context = \<lparr>sx_messages = [], sx_current_task = None, sx_task_history = [],
     sx_preferences = \<lparr>up_timezone = '''', up_language = '''', up_theme = '''', up_notifications = False\<rparr>,
     sx_config = zero_session_config, sx_resource_usage = zero_usage\<rparr>"

section \<open>The state machine\<close>

definition new_state_machine :: session_state where
  "new_state_machine = StInitializing"

fun transitions :: "session_state \<Rightarrow> session_state list option" where
  "transitions StInitializing = Some [StActive, StClosed]"
| "transitions StActive = Some [StIdle, StClosing, StClosed]"
| "transitions StIdle = Some [StActive, StClosing, StClosed]"
| "transitions StClosing = Some [StClosed]"
| "transitions StClosed = Some []"
| "transitions (StOther s) = None"

text \<open>\<open>ValidTransitions\<close> has a table of its own.\<close>

fun listed_transitions :: "session_state \<Rightarrow> session_state list option" where
  "listed_transitions StInitializing = Some [StActive, StClosed]"
| "listed_transitions StActive = Some [StIdle, StClosing, StClosed]"
| "listed_transitions StIdle = Some [StActive, StClosing, StClosed]"
| "listed_transitions StClosing = Some [StClosed]"
| "listed_transitions StClosed = Some []"
| "listed_transitions (StOther s) = None"

definition can_transition :: "session_state \<Rightarrow> session_state \<Rightarrow> bool" where
  "can_transition cur target =
     (case transitions cur of None \<Rightarrow> False | Some allowed \<Rightarrow> \<exists>a \<in> set allowed. a = target)"

definition valid_transitions :: "session_state \<Rightarrow> session_state list" where
  "valid_transitions cur = (case listed_transitions cur of None \<Rightarrow> [] | Some valid \<Rightarrow> valid)"

definition sm_transition :: "session_state \<Rightarrow> session_state \<Rightarrow> session_state result" where
  "sm_transition cur target =
     (if cur = target then Inr cur
      else if \<not> can_transition cur target then Inl (new_error ErrInvalidArgument)
      else Inr target)"

text \<open>\<open>MustTransition\<close>: \<open>None\<close> is the panic.\<close>

definition sm_must_transition :: "session_state \<Rightarrow> session_state \<Rightarrow> session_state option" where
  "sm_must_transition cur target = (case sm_transition cur target of Inl e \<Rightarrow> None | Inr s \<Rightarrow> Some s)"

definition sm_is_terminal :: "session_state \<Rightarrow> bool" where
  "sm_is_terminal cur \<longleftrightarrow> cur = StClosed"

definition sm_is_active :: "session_state \<Rightarrow> bool" where
  "sm_is_active cur \<longleftrightarrow> cur = StActive \<or> cur = StIdle"

section \<open>A session with its machine\<close>

record session_sm =
  ss_session :: session
  ss_sm :: session_state

definition new_session_sm :: "session \<Rightarrow> session_sm" where
  "new_session_sm s = \<lparr>ss_session = s, ss_sm = new_state_machine\<rparr>"

text \<open>\<open>t1\<close> and \<open>t2\<close> are the two readings of the clock.\<close>

definition ss_transition ::
    "timestamp \<Rightarrow> timestamp \<Rightarrow> session_state \<Rightarrow> session_sm \<Rightarrow> go_error option \<times> session_sm" where
  "ss_transition t1 t2 target s =
     (case sm_transition (ss_sm s) target of
        Inl e \<Rightarrow> (Some e, s)
      | Inr cur \<Rightarrow> (None, s\<lparr>ss_sm := cur,
          ss_session := (ss_session s)\<lparr>se_state := target, se_updated := t1,
            se_closed_at := (if target = StClosed then Some t2 else se_closed_at (ss_session s))\<rparr>\<rparr>))"

definition ss_activate :: "timestamp \<Rightarrow> session_sm \<Rightarrow> go_error option \<times> session_sm" where
  "ss_activate t s = ss_transition t t StActive s"

definition ss_idle :: "timestamp \<Rightarrow> session_sm \<Rightarrow> go_error option \<times> session_sm" where
  "ss_idle t s = ss_transition t t StIdle s"

definition ss_close :: "timestamp \<Rightarrow> session_sm \<Rightarrow> go_error option \<times> session_sm" where
  "ss_close t s = ss_transition t t StClosing s"

definition ss_force_close :: "timestamp \<Rightarrow> timestamp \<Rightarrow> session_sm \<Rightarrow> go_error option \<times> session_sm" where
  "ss_force_close t1 t2 s = ss_transition t1 t2 StClosed s"

definition ss_is_terminal :: "session_sm \<Rightarrow> bool" where
  "ss_is_terminal s = sm_is_terminal (ss_sm s)"

definition ss_is_active :: "session_sm \<Rightarrow> bool" where
  "ss_is_active s = sm_is_active (ss_sm s)"

section \<open>Lemmas\<close>

lemmas ss_op_defs = ss_activate_def ss_idle_def ss_close_def ss_force_close_def

lemma can_transition_iff_valid: "can_transition cur t \<longleftrightarrow> t \<in> set (valid_transitions cur)"
  by (cases cur) (auto simp: can_transition_def valid_transitions_def)

lemma can_transition_closed [simp]: "\<not> can_transition StClosed t"
  by (simp add: can_transition_def)

lemma known_can_close: "s \<noteq> StClosed \<Longrightarrow> (\<forall>x. s \<noteq> StOther x) \<Longrightarrow> can_transition s StClosed"
  by (cases s) (auto simp: can_transition_def)

lemma sm_transition_closed: "sm_transition StClosed t = Inr s \<Longrightarrow> s = StClosed"
  by (auto simp: sm_transition_def split: if_splits)

lemma sm_transition_target: "sm_transition cur t = Inr s \<Longrightarrow> s = t"
  by (auto simp: sm_transition_def split: if_splits)

text \<open>What the wrapper keeps: identity, creation, containers, context and metadata.\<close>

lemma ss_transition_frame [simp]:
  "se_id (ss_session (snd (ss_transition t1 t2 target s))) = se_id (ss_session s)"
  "se_containers (ss_session (snd (ss_transition t1 t2 target s))) = se_containers (ss_session s)"
  "se_context (ss_session (snd (ss_transition t1 t2 target s))) = se_context (ss_session s)"
  "se_metadata (ss_session (snd (ss_transition t1 t2 target s))) = se_metadata (ss_session s)"
  "se_expires (ss_session (snd (ss_transition t1 t2 target s))) = se_expires (ss_session s)"
  "se_status (ss_session (snd (ss_transition t1 t2 target s))) = se_status (ss_session s)"
  by (simp_all add: ss_transition_def split: sum.split)

text \<open>The recorded state agrees with the machine and a closing time is set exactly when closed.\<close>

definition ss_agree :: "session_sm \<Rightarrow> bool" where
  "ss_agree s \<longleftrightarrow> se_state (ss_session s) = ss_sm s
     \<and> (ss_sm s = StClosed \<longleftrightarrow> se_closed_at (ss_session s) \<noteq> None)"

lemma ss_transition_agree: "ss_agree s \<Longrightarrow> ss_agree (snd (ss_transition t1 t2 target s))"
  by (auto simp: ss_transition_def ss_agree_def sm_transition_def split: sum.split if_splits)

lemma ss_transition_sm:
  "ss_sm (snd (ss_transition t1 t2 target s)) =
     (case sm_transition (ss_sm s) target of Inl e \<Rightarrow> ss_sm s | Inr c \<Rightarrow> c)"
  by (simp add: ss_transition_def split: sum.split)

lemma ss_transition_fst:
  "fst (ss_transition t1 t2 target s) = None \<longleftrightarrow> ss_sm s = target \<or> can_transition (ss_sm s) target"
  by (auto simp: ss_transition_def sm_transition_def split: sum.split if_splits)

lemma ss_agree_status [simp]: "ss_agree (s\<lparr>ss_session := (ss_session s)\<lparr>se_status := st\<rparr>\<rparr>) = ss_agree s"
  by (simp add: ss_agree_def)

section \<open>Runs of the machine\<close>

text \<open>A request that is refused leaves the state.\<close>

definition sm_exec :: "session_state \<Rightarrow> session_state \<Rightarrow> session_state" where
  "sm_exec cur target = (case sm_transition cur target of Inl e \<Rightarrow> cur | Inr s \<Rightarrow> s)"

definition known_state :: "session_state \<Rightarrow> bool" where
  "known_state s \<longleftrightarrow> (case s of StOther _ \<Rightarrow> False | _ \<Rightarrow> True)"

lemma known_transition: "known_state cur \<Longrightarrow> known_state (sm_exec cur target)"
  by (cases cur; cases target) (auto simp: sm_exec_def sm_transition_def can_transition_def known_state_def)

interpretation session_machine: closable_machine sm_exec known_state "\<lambda>s. s = StClosed"
proof unfold_locales
  show "known_state s \<Longrightarrow> known_state (sm_exec s c)" for s c
    by (rule known_transition)
  show "s = StClosed \<Longrightarrow> sm_exec s c = StClosed" for s c
    by (auto simp: sm_exec_def sm_transition_def)
qed

text \<open>One step of the machine to a different state.\<close>

inductive sm_step :: "session_state \<Rightarrow> session_state \<Rightarrow> bool" where
  sm_move: "can_transition a b \<Longrightarrow> a \<noteq> b \<Longrightarrow> sm_step a b"

inductive_simps sm_step_iff: "sm_step a b"

inductive sm_reach :: "session_state \<Rightarrow> nat \<Rightarrow> bool" where
  reach_init: "sm_reach new_state_machine 0"
| reach_move: "sm_reach a n \<Longrightarrow> sm_step a b \<Longrightarrow> sm_reach b (Suc n)"

lemma sm_step_cases:
  "sm_step StInitializing b \<longleftrightarrow> b = StActive \<or> b = StClosed"
  "sm_step StActive b \<longleftrightarrow> b = StIdle \<or> b = StClosing \<or> b = StClosed"
  "sm_step StIdle b \<longleftrightarrow> b = StActive \<or> b = StClosing \<or> b = StClosed"
  "sm_step StClosing b \<longleftrightarrow> b = StClosed"
  "\<not> sm_step StClosed b"
  by (auto simp: sm_step_iff can_transition_def)

lemma sm_reach_known: "sm_reach s n \<Longrightarrow> known_state s \<and> (s = StInitializing \<longleftrightarrow> n = 0)"
proof (induction rule: sm_reach.induct)
  case reach_init
  show ?case by (simp add: new_state_machine_def known_state_def)
next
  case (reach_move a n b)
  then show ?case
    by (cases a rule: session_state.exhaust) (auto simp: sm_step_cases known_state_def)
qed

end
