(* ===== verification/Go_Files.thy ===== *)
theory Go_Files
  imports Go_Strings Go_Types "HOL-Library.Char_ord" "HOL-Library.List_Lexorder"
begin

text \<open>
  More of the standard library: searching and replacing in strings, the rest of
  path/filepath that the code uses, and a disk as the files and directories that the
  operations of package os leave on it.  Whether an operation of the disk fails is an
  argument of the operation that calls it.
\<close>

section \<open>Strings\<close>

text \<open>\<open>strings.Count\<close>, for a text to find that is not empty.\<close>

function str_count :: "string \<Rightarrow> string \<Rightarrow> nat" where
  "str_count old [] = 0"
| "str_count old (x # xs) =
     (if old \<noteq> '''' \<and> has_prefix (x # xs) old then Suc (str_count old (drop (length old) (x # xs)))
      else str_count old xs)"
  by pat_completeness auto
termination by (relation "measure (\<lambda>(old, s). length s)") auto

text \<open>\<open>strings.Index\<close>.\<close>

fun str_index :: "string \<Rightarrow> string \<Rightarrow> nat option" where
  "str_index [] p = (if p = [] then Some 0 else None)"
| "str_index (x # xs) p = (if has_prefix (x # xs) p then Some 0 else map_option Suc (str_index xs p))"

section \<open>Paths\<close>

text \<open>\<open>filepath.Join\<close>: leading empty elements are dropped, the rest is joined and cleaned.\<close>

definition path_join :: "string list \<Rightarrow> string" where
  "path_join elems =
     (case dropWhile (\<lambda>e. e = '''') elems of [] \<Rightarrow> '''' | es \<Rightarrow> path_clean (join_with [slash] es))"

text \<open>\<open>filepath.Dir\<close> and \<open>filepath.Base\<close>.\<close>

definition path_dir :: "string \<Rightarrow> string" where
  "path_dir p = path_clean (rev (dropWhile (\<lambda>c. c \<noteq> slash) (rev p)))"

definition path_base :: "string \<Rightarrow> string" where
  "path_base p =
     (if p = '''' then ''.''
      else
        let q = rev (dropWhile (\<lambda>c. c = slash) (rev p));
            b = rev (takeWhile (\<lambda>c. c \<noteq> slash) (rev q))
        in if b = '''' then [slash] else b)"

text \<open>\<open>filepath.Abs\<close>, with the working directory.\<close>

definition path_abs :: "string \<Rightarrow> string \<Rightarrow> string" where
  "path_abs cwd p = (if path_is_abs p then path_clean p else path_join [cwd, p])"

text \<open>\<open>filepath.Rel\<close> between two rooted, cleaned paths, where it does not fail.\<close>

fun rel_comps :: "string list \<Rightarrow> string list \<Rightarrow> string list" where
  "rel_comps (b # bs) (t # ts) = (if b = t then rel_comps bs ts else map (\<lambda>_. ''..'') (b # bs) @ t # ts)"
| "rel_comps bs ts = map (\<lambda>_. ''..'') bs @ ts"

definition path_comps :: "string \<Rightarrow> string list" where
  "path_comps p = clean_comps (path_is_abs p) [] (split_on slash p)"

definition path_rel :: "string \<Rightarrow> string \<Rightarrow> string" where
  "path_rel base target =
     (case rel_comps (path_comps base) (path_comps target) of [] \<Rightarrow> ''.'' | cs \<Rightarrow> join_with [slash] cs)"

section \<open>Decoded JSON\<close>

text \<open>What \<open>json.Unmarshal\<close> makes of JSON where no type is given; a number is its text.\<close>

datatype json =
    JNull
  | JBool bool
  | JNumber string
  | JString string
  | JList "json list"
  | JMap "(string \<times> json) list"

section \<open>A disk\<close>

record disk =
  dk_files :: "(string, string) gomap"
  dk_dirs :: "string list"

text \<open>A path and those of the directories above it.\<close>

definition path_prefixes :: "string \<Rightarrow> string list" where
  "path_prefixes p =
     (let cs = split_on slash p in map (\<lambda>n. join_with [slash] (take n cs)) [1..<Suc (length cs)])"

definition path_below :: "string \<Rightarrow> string \<Rightarrow> bool" where
  "path_below p q \<longleftrightarrow> q = p \<or> has_prefix q (p @ [slash])"

definition disk_mkdir_all :: "string \<Rightarrow> disk \<Rightarrow> disk" where
  "disk_mkdir_all p d = d\<lparr>dk_dirs := dk_dirs d @ filter (\<lambda>q. q \<notin> set (dk_dirs d)) (path_prefixes p)\<rparr>"

definition disk_write :: "string \<Rightarrow> string \<Rightarrow> disk \<Rightarrow> disk" where
  "disk_write p s d = d\<lparr>dk_files := mput p s (dk_files d)\<rparr>"

definition disk_remove :: "string \<Rightarrow> disk \<Rightarrow> disk" where
  "disk_remove p d = d\<lparr>dk_files := mdel p (dk_files d)\<rparr>"

text \<open>\<open>os.Rename\<close> of a file, which replaces what is at the target, and of a directory.\<close>

definition disk_rename :: "string \<Rightarrow> string \<Rightarrow> disk \<Rightarrow> disk" where
  "disk_rename a b d =
     (case mget (dk_files d) a of
        None \<Rightarrow> d
      | Some s \<Rightarrow> if a = b then d else disk_write b s (disk_remove a d))"

definition moved :: "string \<Rightarrow> string \<Rightarrow> string \<Rightarrow> string" where
  "moved a b q = (if path_below a q then b @ drop (length a) q else q)"

definition disk_rename_dir :: "string \<Rightarrow> string \<Rightarrow> disk \<Rightarrow> disk" where
  "disk_rename_dir a b d =
     d\<lparr>dk_files := map (\<lambda>(q, s). (moved a b q, s)) (dk_files d), dk_dirs := map (moved a b) (dk_dirs d)\<rparr>"

definition disk_remove_all :: "string \<Rightarrow> disk \<Rightarrow> disk" where
  "disk_remove_all p d =
     d\<lparr>dk_files := filter (\<lambda>(q, s). \<not> path_below p q) (dk_files d), dk_dirs := filter (\<lambda>q. \<not> path_below p q) (dk_dirs d)\<rparr>"

definition disk_exists :: "string \<Rightarrow> disk \<Rightarrow> bool" where
  "disk_exists p d \<longleftrightarrow> mget (dk_files d) p \<noteq> None \<or> p \<in> set (dk_dirs d)"

text \<open>\<open>os.ReadDir\<close>: the names in a directory, sorted, each with whether it is a directory.\<close>

definition names_in :: "string \<Rightarrow> string list \<Rightarrow> string list" where
  "names_in p qs = map path_base (filter (\<lambda>q. q \<noteq> p \<and> path_dir q = p) qs)"

definition disk_read_dir :: "string \<Rightarrow> disk \<Rightarrow> (string \<times> bool) list" where
  "disk_read_dir p d =
     (let ds = names_in p (dk_dirs d)
      in map (\<lambda>n. (n, n \<in> set ds)) (sort (remdups (ds @ names_in p (mkeys (dk_files d))))))"

section \<open>Writing by a temporary file\<close>

text \<open>
  What the disk answers to a save: an error of \<open>MkdirAll\<close>; of \<open>WriteFile\<close>, with what it left in the
  temporary file, if it made one; of \<open>Rename\<close>, and whether the temporary file then stays.
\<close>

record save_faults =
  sf_mkdir :: "go_error option"
  sf_write :: "(go_error \<times> string option) option"
  sf_rename :: "go_error option"
  sf_tmp_stays :: bool

definition no_faults :: save_faults where
  "no_faults = \<lparr>sf_mkdir = None, sf_write = None, sf_rename = None, sf_tmp_stays = False\<rparr>"

definition write_then_rename :: "save_faults \<Rightarrow> string \<Rightarrow> string \<Rightarrow> disk \<Rightarrow> go_error option \<times> disk" where
  "write_then_rename f p s d =
     (let tmp = p @ ''.tmp''
      in case sf_write f of
           Some (e, torn) \<Rightarrow>
             (Some (wrap_error ErrInternal e), (case torn of None \<Rightarrow> d | Some t \<Rightarrow> disk_write tmp t d))
         | None \<Rightarrow>
             (case sf_rename f of
                Some e \<Rightarrow> (Some (wrap_error ErrInternal e), if sf_tmp_stays f then disk_write tmp s d else disk_remove tmp d)
              | None \<Rightarrow> (None, disk_rename tmp p (disk_write tmp s d))))"

section \<open>Facts\<close>

lemma disk_write_files [simp]: "mget (dk_files (disk_write p s d)) q = (if q = p then Some s else mget (dk_files d) q)"
  by (simp add: disk_write_def)

lemma disk_remove_files [simp]: "mget (dk_files (disk_remove p d)) q = (if q = p then None else mget (dk_files d) q)"
  by (simp add: disk_remove_def)

lemma disk_mkdir_all_files [simp]: "dk_files (disk_mkdir_all p d) = dk_files d"
  by (simp add: disk_mkdir_all_def)

lemma disk_rename_files: "mget (dk_files (disk_rename a b d)) q =
    (if a = b \<or> mget (dk_files d) a = None then mget (dk_files d) q
     else if q = b then mget (dk_files d) a else if q = a then None else mget (dk_files d) q)"
  by (auto simp: disk_rename_def split: option.split)

lemma write_then_rename_files:
  assumes "write_then_rename f p s d = (r, d')"
  shows "(r = None \<longrightarrow> mget (dk_files d') p = Some s)
    \<and> (\<forall>q. q \<noteq> p @ ''.tmp'' \<longrightarrow> r \<noteq> None \<or> q \<noteq> p \<longrightarrow> mget (dk_files d') q = mget (dk_files d) q)"
  using assms by (auto simp: write_then_rename_def disk_rename_files Let_def split: option.splits if_splits)

lemma str_index_at:
  assumes "\<And>w. length w < length u \<Longrightarrow> \<not> (\<exists>r. u @ p @ v = w @ p @ r)"
  shows "str_index (u @ p @ v) p = Some (length u)"
  using assms
proof (induction u)
  case Nil
  have "has_prefix (p @ v) p" by simp
  then show ?case by (cases "p @ v") auto
next
  case (Cons x u)
  have "\<not> has_prefix ((x # u) @ p @ v) p" using Cons.prems [of "[]"] by (auto simp: has_prefix_iff)
  moreover have "\<not> (\<exists>r. u @ p @ v = w @ p @ r)" if "length w < length u" for w
    using Cons.prems [of "x # w"] that by auto
  ultimately show ?case using Cons.IH by simp
qed

lemma str_index_contains: "str_index s p = None \<longleftrightarrow> \<not> str_contains s p"
  by (induction s) (auto simp: has_prefix_def)

end
