(* ===== verification/Session_Store.thy ===== *)
theory Session_Store
  imports Session_State Go_Files
begin

text \<open>
  pkg/session/persistence.go: the message log of a session, one JSON line per
  message in a file named after owner and session.  The file system is a map
  from a cleaned path to the bytes of the file.  \<open>json.Marshal\<close> and
  \<open>json.Unmarshal\<close> are the fields \<open>st_marshal\<close> and \<open>st_unmarshal\<close> of the store; what
  a file operation returns is an argument.  The advisory lock of each file makes
  an append or a read one step.
\<close>

record session_mgr_config =
  sg_timeout :: duration
  sg_max_sessions :: int
  sg_cleanup_interval :: duration
  sg_idle_timeout :: duration
  sg_persistence :: bool
  sg_storage_path :: string

record persisted_message =
  pm_id :: string
  pm_timestamp :: timestamp
  pm_role :: message_role
  pm_content :: string
  pm_metadata :: message_metadata

type_synonym file_system = "(string, string) gomap"

record store =
  st_cfg :: session_mgr_config
  st_closed :: bool
  st_files :: file_system
  st_marshal :: "persisted_message \<Rightarrow> string result"
  st_unmarshal :: "string \<Rightarrow> persisted_message result"

definition store_close :: "store \<Rightarrow> store" where
  "store_close s = (if st_closed s then s else s\<lparr>st_closed := True\<rparr>)"

section \<open>Paths\<close>

definition session_ext :: string where
  "session_ext = ''.jsonl''"

definition session_file_path :: "store \<Rightarrow> string \<Rightarrow> string \<Rightarrow> string" where
  "session_file_path s owner sid =
     path_join [path_join [sg_storage_path (st_cfg s), owner], sid @ session_ext]"

definition lock_file_path :: "string \<Rightarrow> string" where
  "lock_file_path f = f @ ''.lock''"

section \<open>Messages\<close>

definition to_persisted :: "message \<Rightarrow> persisted_message" where
  "to_persisted m = \<lparr>pm_id = msg_id m, pm_timestamp = msg_timestamp m, pm_role = msg_role m,
     pm_content = msg_content m, pm_metadata = msg_metadata m\<rparr>"

definition to_message :: "persisted_message \<Rightarrow> message" where
  "to_message p = \<lparr>msg_id = pm_id p, msg_timestamp = pm_timestamp p, msg_role = pm_role p,
     msg_content = pm_content p, msg_metadata = pm_metadata p\<rparr>"

definition marshal_message :: "store \<Rightarrow> persisted_message \<Rightarrow> string result" where
  "marshal_message s p =
     (case st_marshal s p of Inl e \<Rightarrow> Inl (wrap_error ErrInternal e) | Inr d \<Rightarrow> Inr (d @ [newline]))"

definition unmarshal_message :: "store \<Rightarrow> string \<Rightarrow> persisted_message result" where
  "unmarshal_message s d =
     (case st_unmarshal s d of Inl e \<Rightarrow> Inl (wrap_error ErrInternal e) | Inr p \<Rightarrow> Inr p)"

section \<open>AppendMessage\<close>

text \<open>
  How the file operations of an append go: everything succeeds; a step before the
  write fails (directory, lock or open); the write stops after some bytes; or the
  bytes are written and the sync or the close fails.
\<close>

datatype append_io = IoOk | IoFailBefore go_error | IoShortWrite nat go_error | IoFailAfter go_error

definition file_bytes :: "file_system \<Rightarrow> string \<Rightarrow> string" where
  "file_bytes fs path = (case mget fs path of None \<Rightarrow> [] | Some b \<Rightarrow> b)"

definition append_bytes :: "string \<Rightarrow> string \<Rightarrow> store \<Rightarrow> store" where
  "append_bytes path bytes s = s\<lparr>st_files := mput path (file_bytes (st_files s) path @ bytes) (st_files s)\<rparr>"

definition store_append ::
    "append_io \<Rightarrow> string \<Rightarrow> string \<Rightarrow> message \<Rightarrow> store \<Rightarrow> go_error option \<times> store" where
  "store_append io owner sid msg s =
     (if st_closed s then (Some (new_error ErrUnavailable), s)
      else if \<not> sg_persistence (st_cfg s) then (None, s)
      else case io of
          IoFailBefore e \<Rightarrow> (Some e, s)
        | _ \<Rightarrow>
           (case marshal_message s (to_persisted msg) of
              Inl e \<Rightarrow> (Some e, s)
            | Inr bytes \<Rightarrow>
               (let path = session_file_path s owner sid in
                case io of
                  IoShortWrite n e \<Rightarrow> (Some (wrap_error ErrInternal e), append_bytes path (take n bytes) s)
                | IoFailAfter e \<Rightarrow> (Some (wrap_error ErrInternal e), append_bytes path bytes s)
                | _ \<Rightarrow> (None, append_bytes path bytes s))))"

section \<open>LoadMessages\<close>

text \<open>\<open>splitLines\<close>: the pieces between newlines, without an empty one at the end.\<close>

fun split_lines_from :: "string \<Rightarrow> string \<Rightarrow> string list" where
  "split_lines_from cur [] = (if cur = [] then [] else [cur])"
| "split_lines_from cur (b # bs) =
     (if b = newline then cur # split_lines_from [] bs else split_lines_from (cur @ [b]) bs)"

definition split_lines :: "string \<Rightarrow> string list" where
  "split_lines d = split_lines_from [] d"

fun decode_lines :: "store \<Rightarrow> string list \<Rightarrow> message list" where
  "decode_lines s [] = []"
| "decode_lines s (l # ls) =
     (if length l = 0 then decode_lines s ls
      else (case unmarshal_message s l of
              Inl e \<Rightarrow> decode_lines s ls
            | Inr p \<Rightarrow> to_message p # decode_lines s ls))"

datatype read_io = ReadOk | ReadLockFail go_error | ReadFail go_error

definition store_load :: "read_io \<Rightarrow> string \<Rightarrow> string \<Rightarrow> store \<Rightarrow> message list result" where
  "store_load io owner sid s =
     (if st_closed s then Inl (new_error ErrUnavailable)
      else if \<not> sg_persistence (st_cfg s) then Inr []
      else case io of
          ReadLockFail e \<Rightarrow> Inl (wrap_error ErrUnavailable e)
        | ReadFail e \<Rightarrow> Inl (wrap_error ErrInternal e)
        | ReadOk \<Rightarrow>
           (case mget (st_files s) (session_file_path s owner sid) of
              None \<Rightarrow> Inr []
            | Some data \<Rightarrow> Inr (decode_lines s (split_lines data))))"

section \<open>ListSessions\<close>

text \<open>\<open>filepath.Ext\<close> of a file name: from its last dot.\<close>

definition path_ext :: "string \<Rightarrow> string" where
  "path_ext name =
     (if CHR ''.'' \<in> set name then CHR ''.'' # rev (takeWhile (\<lambda>c. c \<noteq> CHR ''.'') (rev name)) else '''')"

definition trim_ext :: "string \<Rightarrow> string" where
  "trim_ext name = take (length name - length session_ext) name"

text \<open>
  What \<open>os.Stat\<close> and \<open>os.ReadDir\<close> say of the owner's directory: missing, an error, not a
  directory, or its entries, each with whether it is a directory.
\<close>

datatype dir_io = DirMissing | DirError go_error | DirNotDir | DirEntries "(string \<times> bool) list"

definition store_list_sessions :: "dir_io \<Rightarrow> store \<Rightarrow> string list result" where
  "store_list_sessions io s =
     (if st_closed s then Inl (new_error ErrUnavailable)
      else if \<not> sg_persistence (st_cfg s) then Inr []
      else case io of
          DirMissing \<Rightarrow> Inr []
        | DirError e \<Rightarrow> Inl (wrap_error ErrInternal e)
        | DirNotDir \<Rightarrow> Inl (new_error ErrInternal)
        | DirEntries es \<Rightarrow>
            Inr (map (\<lambda>(name, d). trim_ext name) (filter (\<lambda>(name, d). \<not> d \<and> path_ext name = session_ext) es)))"

definition count_lines :: "string \<Rightarrow> nat" where
  "count_lines d = length (filter (\<lambda>b. b = newline) d)"

section \<open>Lemmas\<close>

lemma to_message_persisted [simp]: "to_message (to_persisted m) = m"
  by (simp add: to_message_def to_persisted_def)

lemma split_lines_from_fresh:
  "newline \<notin> set l \<Longrightarrow> split_lines_from cur (l @ newline # bs) = (cur @ l) # split_lines_from [] bs"
  by (induction l arbitrary: cur) auto

lemma split_lines_from_append:
  "split_lines_from cur (d @ newline # bs) = split_lines_from cur (d @ [newline]) @ split_lines_from [] bs"
  by (induction d arbitrary: cur) auto

text \<open>A log that is empty or ends in a newline.\<close>

definition complete_log :: "string \<Rightarrow> bool" where
  "complete_log d \<longleftrightarrow> d = [] \<or> last d = newline"

lemma split_lines_complete:
  assumes "complete_log d"
  shows "split_lines (d @ bs) = split_lines d @ split_lines bs"
proof (cases "d = []")
  case True
  then show ?thesis by (simp add: split_lines_def)
next
  case False
  with assms have d: "d = butlast d @ [newline]" by (simp add: complete_log_def) (metis append_butlast_last_id)
  have "split_lines_from [] ((butlast d @ [newline]) @ bs)
      = split_lines_from [] (butlast d @ [newline]) @ split_lines_from [] bs"
    using split_lines_from_append [of "[]" "butlast d" bs] by simp
  then show ?thesis unfolding split_lines_def using d by simp
qed

lemma decode_lines_append: "decode_lines s (xs @ ys) = decode_lines s xs @ decode_lines s ys"
  by (induction xs) (auto split: sum.split)

lemma file_bytes_append [simp]:
  "file_bytes (st_files (append_bytes path bytes s)) path = file_bytes (st_files s) path @ bytes"
  by (simp add: append_bytes_def file_bytes_def)

lemma append_bytes_frame [simp]:
  "st_cfg (append_bytes path bytes s) = st_cfg s"
  "st_closed (append_bytes path bytes s) = st_closed s"
  "st_marshal (append_bytes path bytes s) = st_marshal s"
  "st_unmarshal (append_bytes path bytes s) = st_unmarshal s"
  "mget (st_files (append_bytes path bytes s)) p =
     (if p = path then Some (file_bytes (st_files s) path @ bytes) else mget (st_files s) p)"
  by (simp_all add: append_bytes_def)

lemma session_file_path_append [simp]:
  "session_file_path (append_bytes path bytes s) owner sid = session_file_path s owner sid"
  by (simp add: session_file_path_def)

lemma decode_lines_cong: "st_unmarshal s' = st_unmarshal s \<Longrightarrow> decode_lines s' ls = decode_lines s ls"
  by (induction ls) (auto simp: unmarshal_message_def split: sum.split)

lemma store_load_open:
  "\<not> st_closed s \<Longrightarrow> sg_persistence (st_cfg s) \<Longrightarrow>
   store_load ReadOk owner sid s = Inr (decode_lines s (split_lines (file_bytes (st_files s) (session_file_path s owner sid))))"
  by (simp add: store_load_def file_bytes_def split_lines_def split: option.split)

lemma store_append_open:
  "\<not> st_closed s \<Longrightarrow> sg_persistence (st_cfg s) \<Longrightarrow> st_marshal s (to_persisted msg) = Inr l \<Longrightarrow>
   store_append IoOk owner sid msg s = (None, append_bytes (session_file_path s owner sid) (l @ [newline]) s)"
  by (simp add: store_append_def marshal_message_def Let_def)

section \<open>Properties\<close>

text \<open>
  Appending a message to a complete log and loading it again returns the
  messages loaded before followed by that message, when the JSON text of the
  message has no raw newline and decodes to the message; the log stays complete.
\<close>

lemma append_then_load:
  assumes "\<not> st_closed s" and "sg_persistence (st_cfg s)"
    and "st_marshal s (to_persisted msg) = Inr l" and "st_unmarshal s l = Inr (to_persisted msg)"
    and "newline \<notin> set l" and "l \<noteq> []"
    and "complete_log (file_bytes (st_files s) (session_file_path s owner sid))"
  shows "\<exists>s'. store_append IoOk owner sid msg s = (None, s')
     \<and> (\<exists>ms. store_load ReadOk owner sid s = Inr ms \<and> store_load ReadOk owner sid s' = Inr (ms @ [msg]))
     \<and> complete_log (file_bytes (st_files s') (session_file_path s' owner sid))"
proof -
  let ?p = "session_file_path s owner sid"
  let ?s' = "append_bytes ?p (l @ [newline]) s"
  have "split_lines (l @ [newline]) = [l]"
    using split_lines_from_fresh [OF assms(5), of "[]" "[]"] by (simp add: split_lines_def)
  then have new: "decode_lines s (split_lines (l @ [newline])) = [msg]"
    using assms(4,6) by (simp add: unmarshal_message_def)
  have "store_load ReadOk owner sid ?s' = Inr (decode_lines s (split_lines (file_bytes (st_files s) ?p)) @ [msg])"
    using assms(1,2,7) new decode_lines_cong [of ?s' s]
    by (simp add: store_load_open split_lines_complete decode_lines_append)
  moreover have "complete_log (file_bytes (st_files ?s') (session_file_path ?s' owner sid))"
    by (simp add: complete_log_def)
  ultimately show ?thesis
    using assms(1-3) by (auto simp: store_append_open store_load_open)
qed

definition sample_message :: message where
  "sample_message = \<lparr>msg_id = ''m1'', msg_timestamp = 7, msg_role = RoleUser, msg_content = ''hi'',
     msg_metadata = \<lparr>mm_container_id = None, mm_tool_name = '''', mm_tool_call_id = '''', mm_extra = []\<rparr>\<rparr>"

definition sample_mgr_config :: session_mgr_config where
  "sample_mgr_config = \<lparr>sg_timeout = 0, sg_max_sessions = 2, sg_cleanup_interval = 60, sg_idle_timeout = 10,
     sg_persistence = True, sg_storage_path = ''/data''\<rparr>"

text \<open>A store whose codec knows one message, written as one letter.\<close>

definition sample_store :: store where
  "sample_store = \<lparr>st_cfg = sample_mgr_config, st_closed = False, st_files = [],
     st_marshal = (\<lambda>p. Inr ''x''),
     st_unmarshal = (\<lambda>d. if d = ''x'' then Inr (to_persisted sample_message) else Inl (PlainErr ''bad json''))\<rparr>"

text \<open>
  A write that stops short leaves a line without its newline, and the next
  message, although its append succeeds, lands on that line: when the joined line
  does not decode, the later message is lost on the next load.
\<close>

lemma short_write_loses_next_message:
  assumes "\<not> st_closed s" and "sg_persistence (st_cfg s)"
    and "st_marshal s (to_persisted m1) = Inr l1" and "st_marshal s (to_persisted m2) = Inr l2"
    and "newline \<notin> set l1" and "newline \<notin> set l2"
    and "complete_log (file_bytes (st_files s) (session_file_path s owner sid))"
    and "0 < n" and "n \<le> length l1" and "st_unmarshal s (take n l1 @ l2) = Inl e"
  shows "\<exists>s1 s2. store_append (IoShortWrite n (PlainErr ''disk full'')) owner sid m1 s
        = (Some (wrap_error ErrInternal (PlainErr ''disk full'')), s1)
     \<and> store_append IoOk owner sid m2 s1 = (None, s2)
     \<and> store_load ReadOk owner sid s2 = store_load ReadOk owner sid s"
proof -
  let ?p = "session_file_path s owner sid"
  let ?s1 = "append_bytes ?p (take n l1) s"
  let ?s2 = "append_bytes ?p (l2 @ [newline]) ?s1"
  have one: "store_append (IoShortWrite n (PlainErr ''disk full'')) owner sid m1 s
      = (Some (wrap_error ErrInternal (PlainErr ''disk full'')), ?s1)"
    using assms(1-3,9) by (simp add: store_append_def marshal_message_def Let_def)
  have two: "store_append IoOk owner sid m2 ?s1 = (None, ?s2)"
    using assms(1,2,4) by (simp add: store_append_open)
  have fresh: "newline \<notin> set (take n l1 @ l2)" using assms(5,6) by (auto dest: in_set_takeD)
  have "split_lines ((take n l1 @ l2) @ [newline]) = [take n l1 @ l2]"
    using split_lines_from_fresh [OF fresh, of "[]" "[]"] by (simp add: split_lines_def)
  moreover have "take n l1 @ l2 \<noteq> []" using assms(8,9) by auto
  ultimately have "decode_lines s (split_lines ((take n l1 @ l2) @ [newline])) = []"
    using assms(10) by (simp add: unmarshal_message_def)
  then have "store_load ReadOk owner sid ?s2 = store_load ReadOk owner sid s"
    using assms(1,2,7) decode_lines_cong [of ?s2 s] split_lines_complete [OF assms(7), of "(take n l1 @ l2) @ [newline]"]
    by (simp add: store_load_open decode_lines_append)
  with one two show ?thesis by blast
qed

theorem short_write_loses_next_message_witness:
  "\<exists>s1 s2. store_append (IoShortWrite 1 (PlainErr ''disk full'')) ''al'' ''s1'' sample_message sample_store
        = (Some (wrap_error ErrInternal (PlainErr ''disk full'')), s1)
     \<and> store_append IoOk ''al'' ''s1'' sample_message s1 = (None, s2)
     \<and> store_load ReadOk ''al'' ''s1'' s2 = Inr []"
proof -
  have h: "\<not> st_closed sample_store" "sg_persistence (st_cfg sample_store)"
    "st_marshal sample_store (to_persisted sample_message) = Inr ''x''"
    "st_marshal sample_store (to_persisted sample_message) = Inr ''x''" "newline \<notin> set ''x''" "newline \<notin> set ''x''"
    "complete_log (file_bytes (st_files sample_store) (session_file_path sample_store ''al'' ''s1''))"
    "0 < (1::nat)" "1 \<le> length ''x''"
    "st_unmarshal sample_store (take 1 ''x'' @ ''x'') = Inl (PlainErr ''bad json'')"
    by (simp_all add: sample_store_def sample_mgr_config_def newline_def complete_log_def file_bytes_def)
  have "store_load ReadOk ''al'' ''s1'' sample_store = Inr []"
    by (simp add: store_load_def sample_store_def sample_mgr_config_def)
  with short_write_loses_next_message [OF h] show ?thesis by simp
qed

text \<open>
  The owner is joined to the storage path without a check: an owner with \<open>..\<close>
  names files outside the storage path, and different owners can name one file.
\<close>

lemma owner_can_leave_storage:
  "session_file_path sample_store ''../etc'' ''s1'' = ''/etc/s1.jsonl''
   \<and> session_file_path sample_store ''a/../b'' ''s1'' = session_file_path sample_store ''b'' ''s1''
   \<and> session_file_path sample_store ''b'' ''s1'' = ''/data/b/s1.jsonl''"
  by code_simp

end
