(* ===== verification/Session_Manager.thy ===== *)
theory Session_Manager
  imports Session_Store
begin

text \<open>
  pkg/session/manager.go: the session manager.  Each method holds \<open>m.mu\<close> from its
  first to its last statement, so it is one step on the state.  Clock readings,
  generated identifiers and what file operations return are arguments.  The
  map of sessions is an association list in its iteration order.
\<close>

section \<open>State\<close>

record session_mgr =
  mg_sessions :: "(id, session_sm) gomap"
  mg_cfg :: session_mgr_config
  mg_store :: "store option"
  mg_closed :: bool
  mg_cleanup_interval :: duration

definition one_minute :: duration where
  "one_minute = 60 * 1000000000"

text \<open>\<open>New\<close>: \<open>st\<close> is what \<open>NewStore\<close> returned.\<close>

definition mg_new :: "store result \<Rightarrow> session_mgr_config \<Rightarrow> session_mgr result" where
  "mg_new st cfg =
     (if sg_persistence cfg then
        (case st of
           Inl e \<Rightarrow> Inl (wrap_error ErrInternal e)
         | Inr s \<Rightarrow> Inr \<lparr>mg_sessions = [], mg_cfg = cfg, mg_store = Some s, mg_closed = False,
                      mg_cleanup_interval = one_minute\<rparr>)
      else Inr \<lparr>mg_sessions = [], mg_cfg = cfg, mg_store = None, mg_closed = False,
             mg_cleanup_interval = one_minute\<rparr>)"

text \<open>The guards with which each method on one session begins.\<close>

definition mg_lookup :: "session_mgr \<Rightarrow> id \<Rightarrow> session_sm result" where
  "mg_lookup m sid =
     (if mg_closed m then Inl (new_error ErrUnavailable)
      else case mget (mg_sessions m) sid of
          None \<Rightarrow> Inl (new_error ErrNotFound)
        | Some s \<Rightarrow> Inr s)"

text \<open>A write through the session pointer that the map holds.\<close>

definition mg_write :: "id \<Rightarrow> session_sm \<Rightarrow> session_mgr \<Rightarrow> session_mgr" where
  "mg_write sid s m = m\<lparr>mg_sessions := mput sid s (mg_sessions m)\<rparr>"

definition set_status :: "status \<Rightarrow> session_sm \<Rightarrow> session_sm" where
  "set_status st s = s\<lparr>ss_session := (ss_session s)\<lparr>se_status := st\<rparr>\<rparr>"

section \<open>Operations\<close>

text \<open>
  \<open>Create\<close>: \<open>sid\<close> is the generated identifier, \<open>now\<close>, \<open>t_exp\<close> and \<open>t_act\<close> the
  readings for creation, expiry and activation.
\<close>

definition mg_create ::
    "id \<Rightarrow> timestamp \<Rightarrow> timestamp \<Rightarrow> timestamp \<Rightarrow> session_metadata \<Rightarrow> session_config \<Rightarrow> session_mgr
     \<Rightarrow> id result \<times> session_mgr" where
  "mg_create sid now t_exp t_act metadata scfg m =
     (if mg_closed m then (Inl (new_error ErrUnavailable), m)
      else if sg_max_sessions (mg_cfg m) > 0 \<and> mlen (mg_sessions m) \<ge> sg_max_sessions (mg_cfg m) then
        (Inl (new_error ErrResourceExhausted), m)
      else
        let expires = (if sc_max_duration scfg > 0 then Some (t_exp + sc_max_duration scfg) else None);
            s = new_session_sm \<lparr>se_id = sid, se_state = StInitializing, se_status = StatusStarting,
                  se_created = now, se_updated = now, se_expires = expires, se_closed_at = None,
                  se_metadata = metadata, se_context = zero_context\<lparr>sx_config := scfg\<rparr>, se_containers = []\<rparr>;
            m1 = mg_write sid s m
        in case ss_activate t_act s of
             (Some e, _) \<Rightarrow>
               (Inl (wrap_error ErrInternal e), m1\<lparr>mg_sessions := mdel sid (mg_sessions m1)\<rparr>)
           | (None, s1) \<Rightarrow> (Inr sid, mg_write sid (set_status StatusRunning s1) m1))"

definition copy_session :: "session \<Rightarrow> session" where
  "copy_session s = s"

definition mg_get :: "id \<Rightarrow> session_mgr \<Rightarrow> session result" where
  "mg_get sid m = (case mg_lookup m sid of Inl e \<Rightarrow> Inl e | Inr s \<Rightarrow> Inr (copy_session (ss_session s)))"

fun labels_match :: "(string, string) gomap option \<Rightarrow> (string, string) gomap \<Rightarrow> bool" where
  "labels_match ls [] = True"
| "labels_match None (kv # f) = False"
| "labels_match (Some ls) ((k, v) # f) =
     ((case mget ls k of None \<Rightarrow> '''' | Some x \<Rightarrow> x) = v \<and> labels_match (Some ls) f)"

definition matches_filter :: "session \<Rightarrow> session_filter \<Rightarrow> bool" where
  "matches_filter s f \<longleftrightarrow>
     (case sf_state f of None \<Rightarrow> True | Some x \<Rightarrow> se_state s = x)
     \<and> (case sf_status f of None \<Rightarrow> True | Some x \<Rightarrow> se_status s = x)
     \<and> (case sf_owner f of None \<Rightarrow> True | Some x \<Rightarrow> sd_owner_id (se_metadata s) = x)
     \<and> (case sf_label f of None \<Rightarrow> True | Some l \<Rightarrow> labels_match (sd_labels (se_metadata s)) l)"

definition mg_list :: "session_filter option \<Rightarrow> session_mgr \<Rightarrow> session list result" where
  "mg_list f m =
     (if mg_closed m then Inl (new_error ErrUnavailable)
      else Inr (map copy_session
             (filter (\<lambda>s. case f of None \<Rightarrow> True | Some fl \<Rightarrow> matches_filter s fl)
               (map ss_session (mvals (mg_sessions m))))))"

definition mg_update :: "timestamp \<Rightarrow> id \<Rightarrow> session_metadata \<Rightarrow> session_mgr \<Rightarrow> go_error option \<times> session_mgr" where
  "mg_update now sid metadata m =
     (case mg_lookup m sid of
        Inl e \<Rightarrow> (Some e, m)
      | Inr s \<Rightarrow>
          if ss_is_terminal s then (Some (new_error ErrFailedPrecondition), m)
          else (None, mg_write sid (s\<lparr>ss_session := (ss_session s)\<lparr>se_metadata := metadata, se_updated := now\<rparr>\<rparr>) m))"

definition mg_close_session :: "timestamp \<Rightarrow> timestamp \<Rightarrow> id \<Rightarrow> session_mgr \<Rightarrow> go_error option \<times> session_mgr" where
  "mg_close_session t1 t2 sid m =
     (case mg_lookup m sid of
        Inl e \<Rightarrow> (Some e, m)
      | Inr s \<Rightarrow>
          if ss_sm s = StClosed then (None, m)
          else if ss_sm s = StClosing then
            (case ss_transition t1 t2 StClosed s of
               (Some e, s1) \<Rightarrow> (Some (wrap_error ErrInternal e), mg_write sid s1 m)
             | (None, s1) \<Rightarrow> (None, mg_write sid (set_status StatusStopped s1) m))
          else
            (case ss_transition t1 t2 StClosed s of
               (Some e, s1) \<Rightarrow> (Some (wrap_error ErrInternal e), mg_write sid s1 m)
             | (None, s1) \<Rightarrow> (None, mg_write sid (set_status StatusStopped s1) m)))"

definition mg_delete :: "id \<Rightarrow> session_mgr \<Rightarrow> go_error option \<times> session_mgr" where
  "mg_delete sid m =
     (case mg_lookup m sid of
        Inl e \<Rightarrow> (Some e, m)
      | Inr s \<Rightarrow>
          if \<not> ss_is_terminal s then (Some (new_error ErrFailedPrecondition), m)
          else (None, m\<lparr>mg_sessions := mdel sid (mg_sessions m)\<rparr>))"

definition set_containers :: "timestamp \<Rightarrow> id list \<Rightarrow> session_sm \<Rightarrow> session_sm" where
  "set_containers now cs s = s\<lparr>ss_session := (ss_session s)\<lparr>se_containers := cs, se_updated := now\<rparr>\<rparr>"

definition container_limit_hit :: "session \<Rightarrow> bool" where
  "container_limit_hit s \<longleftrightarrow>
     sc_max_containers (sx_config (se_context s)) > 0
     \<and> int (length (se_containers s)) \<ge> sc_max_containers (sx_config (se_context s))"

definition mg_add_container :: "timestamp \<Rightarrow> id \<Rightarrow> id \<Rightarrow> session_mgr \<Rightarrow> go_error option \<times> session_mgr" where
  "mg_add_container now sid cid m =
     (case mg_lookup m sid of
        Inl e \<Rightarrow> (Some e, m)
      | Inr s \<Rightarrow>
          if ss_is_terminal s then (Some (new_error ErrFailedPrecondition), m)
          else if container_limit_hit (ss_session s) then (Some (new_error ErrResourceExhausted), m)
          else if cid \<in> set (se_containers (ss_session s)) then (Some (new_error ErrAlreadyExists), m)
          else (None, mg_write sid (set_containers now (se_containers (ss_session s) @ [cid]) s) m))"

definition mg_remove_container :: "timestamp \<Rightarrow> id \<Rightarrow> id \<Rightarrow> session_mgr \<Rightarrow> go_error option \<times> session_mgr" where
  "mg_remove_container now sid cid m =
     (case mg_lookup m sid of
        Inl e \<Rightarrow> (Some e, m)
      | Inr s \<Rightarrow>
          if cid \<notin> set (se_containers (ss_session s)) then (Some (new_error ErrNotFound), m)
          else (None, mg_write sid (set_containers now (filter (\<lambda>c. c \<noteq> cid) (se_containers (ss_session s))) s) m))"

text \<open>
  \<open>AddMessage\<close>: \<open>gid\<close> and \<open>t0\<close> fill an empty identifier and a zero timestamp, \<open>io\<close>
  is how the append goes, \<open>t1\<close> and \<open>t2\<close> are the readings for the update and for
  the activation of an idle session.
\<close>

definition fill_message :: "id \<Rightarrow> timestamp \<Rightarrow> message \<Rightarrow> message" where
  "fill_message gid t0 msg =
     (let m1 = (if id_is_empty (msg_id msg) then msg\<lparr>msg_id := gid\<rparr> else msg)
      in if ts_is_zero (msg_timestamp m1) then m1\<lparr>msg_timestamp := t0\<rparr> else m1)"

definition push_message :: "timestamp \<Rightarrow> message \<Rightarrow> session_sm \<Rightarrow> session_sm" where
  "push_message t1 msg s =
     s\<lparr>ss_session := (ss_session s)
        \<lparr>se_context := (se_context (ss_session s))\<lparr>sx_messages := sx_messages (se_context (ss_session s)) @ [msg]\<rparr>,
         se_updated := t1\<rparr>\<rparr>"

definition mg_add_message ::
    "append_io \<Rightarrow> id \<Rightarrow> timestamp \<Rightarrow> timestamp \<Rightarrow> timestamp \<Rightarrow> id \<Rightarrow> message \<Rightarrow> session_mgr
     \<Rightarrow> go_error option \<times> session_mgr" where
  "mg_add_message io gid t0 t1 t2 sid msg0 m =
     (case mg_lookup m sid of
        Inl e \<Rightarrow> (Some e, m)
      | Inr s \<Rightarrow>
          if ss_is_terminal s then (Some (new_error ErrFailedPrecondition), m)
          else
            let msg = fill_message gid t0 msg0;
                (err, m1) =
                  (case mg_store m of
                     None \<Rightarrow> (None, m)
                   | Some st \<Rightarrow>
                       (case store_append io (sd_owner_id (se_metadata (ss_session s))) sid msg st of
                          (e, st') \<Rightarrow> (e, m\<lparr>mg_store := Some st'\<rparr>)))
            in (case err of
                  Some e \<Rightarrow> (Some e, m1)
                | None \<Rightarrow>
                    let s1 = push_message t1 msg s;
                        s2 = (if ss_sm s1 = StIdle then snd (ss_activate t2 s1) else s1)
                    in (None, mg_write sid s2 m1)))"

definition mg_get_state :: "id \<Rightarrow> session_mgr \<Rightarrow> session_state result" where
  "mg_get_state sid m = (case mg_lookup m sid of Inl e \<Rightarrow> Inl e | Inr s \<Rightarrow> Inr (ss_sm s))"

text \<open>
  \<open>int64(d.Seconds())\<close>: whole seconds, towards zero.  The rounding of the
  floating-point number on the way is left out; it needs an age of over half a
  year and a fraction within two nanoseconds of a second to show.
\<close>

definition trunc_seconds :: "duration \<Rightarrow> int" where
  "trunc_seconds d = (if d < 0 then - ((- d) div 1000000000) else d div 1000000000)"

definition mg_get_stats :: "timestamp \<Rightarrow> timestamp \<Rightarrow> id \<Rightarrow> session_mgr \<Rightarrow> session_stats result" where
  "mg_get_stats t1 t2 sid m =
     (case mg_lookup m sid of
        Inl e \<Rightarrow> Inl e
      | Inr s \<Rightarrow> Inr \<lparr>stt_session_id = sid,
            stt_messages = length (sx_messages (se_context (ss_session s))),
            stt_containers = length (se_containers (ss_session s)),
            stt_tasks = length (sx_task_history (se_context (ss_session s))),
            stt_duration_seconds = trunc_seconds (t1 - se_created (ss_session s)),
            stt_timestamp = t2\<rparr>)"

definition close_entry :: "timestamp \<Rightarrow> timestamp \<Rightarrow> session_sm \<Rightarrow> session_sm" where
  "close_entry t1 t2 s =
     (if \<not> ss_is_terminal s then set_status StatusStopped (snd (ss_force_close t1 t2 s)) else s)"

definition mg_close :: "timestamp \<Rightarrow> timestamp \<Rightarrow> session_mgr \<Rightarrow> session_mgr" where
  "mg_close t1 t2 m =
     (if mg_closed m then m
      else m\<lparr>mg_sessions := mmap (\<lambda>k s. close_entry t1 t2 s) (mg_sessions m),
             mg_store := map_option store_close (mg_store m), mg_closed := True\<rparr>)"

definition count_state :: "session_state \<Rightarrow> session_mgr \<Rightarrow> nat" where
  "count_state st m = length (filter (\<lambda>s. ss_sm s = st) (mvals (mg_sessions m)))"

text \<open>\<open>Stats\<close>: active, idle, closing and closed sessions.\<close>

definition mg_stats :: "session_mgr \<Rightarrow> nat \<times> nat \<times> nat \<times> nat" where
  "mg_stats m = (count_state StActive m, count_state StIdle m, count_state StClosing m, count_state StClosed m)"

section \<open>Cleanup\<close>

definition has_expired :: "timestamp \<Rightarrow> session \<Rightarrow> bool" where
  "has_expired now s \<longleftrightarrow> (case se_expires s of None \<Rightarrow> False | Some e \<Rightarrow> now > e)"

definition cleanup_entry :: "session_mgr_config \<Rightarrow> timestamp \<Rightarrow> timestamp \<Rightarrow> session_sm \<Rightarrow> session_sm" where
  "cleanup_entry cfg now t s =
     (if ss_is_terminal s then s
      else if has_expired now (ss_session s) then set_status StatusStopping (snd (ss_close t s))
      else if sg_idle_timeout cfg > 0 \<and> ss_sm s = StActive
              \<and> now - se_updated (ss_session s) > sg_idle_timeout cfg then
        set_status StatusRunning (snd (ss_idle t s))
      else s)"

definition mg_cleanup :: "timestamp \<Rightarrow> timestamp \<Rightarrow> session_mgr \<Rightarrow> session_mgr" where
  "mg_cleanup now t m = m\<lparr>mg_sessions := mmap (\<lambda>k s. cleanup_entry (mg_cfg m) now t s) (mg_sessions m)\<rparr>"

section \<open>Queries across sessions\<close>

definition mg_active_containers :: "session_mgr \<Rightarrow> id list result" where
  "mg_active_containers m =
     (if mg_closed m then Inl (new_error ErrUnavailable)
      else Inr (concat (map (\<lambda>s. se_containers (ss_session s)) (filter ss_is_active (mvals (mg_sessions m))))))"

definition mg_validate :: "timestamp \<Rightarrow> id \<Rightarrow> session_mgr \<Rightarrow> go_error option" where
  "mg_validate now sid m =
     (case mg_lookup m sid of
        Inl e \<Rightarrow> Some e
      | Inr s \<Rightarrow>
          if \<not> ss_is_active s then Some (new_error ErrFailedPrecondition)
          else if has_expired now (ss_session s) then Some (new_error ErrFailedPrecondition)
          else None)"

section \<open>RestoreSessions\<close>

text \<open>
  What the file system says during a restore: the entries of the storage path, the
  directory of each owner, how reading each session file goes, and the clock.
\<close>

record restore_io =
  ri_root :: dir_io
  ri_owner :: "string \<Rightarrow> dir_io"
  ri_read :: "string \<Rightarrow> string \<Rightarrow> read_io"
  ri_now :: "string \<Rightarrow> string \<Rightarrow> timestamp"

definition session_id_prefix_length :: nat where
  "session_id_prefix_length = 8"

definition restored_session :: "timestamp \<Rightarrow> string \<Rightarrow> id \<Rightarrow> message list \<Rightarrow> session" where
  "restored_session now owner sid msgs =
     (let created = (if length msgs > 0 \<and> \<not> ts_is_zero (msg_timestamp (hd msgs)) then msg_timestamp (hd msgs) else now);
          prefix = (if length sid > session_id_prefix_length then take session_id_prefix_length sid else sid)
      in \<lparr>se_id = sid, se_state = StIdle, se_status = StatusRunning, se_created = created, se_updated = now,
          se_expires = None, se_closed_at = None,
          se_metadata = zero_metadata\<lparr>sd_owner_id := owner, sd_name := ''restored-'' @ prefix\<rparr>,
          se_context = zero_context\<lparr>sx_config := zero_session_config, sx_messages := msgs\<rparr>,
          se_containers = []\<rparr>)"

definition restore_one :: "restore_io \<Rightarrow> store \<Rightarrow> string \<Rightarrow> id \<Rightarrow> (id, session_sm) gomap \<Rightarrow> (id, session_sm) gomap" where
  "restore_one io st owner sid ss =
     (case mget ss sid of
        Some _ \<Rightarrow> ss
      | None \<Rightarrow>
          (case store_load (ri_read io owner sid) owner sid st of
             Inl e \<Rightarrow> ss
           | Inr msgs \<Rightarrow> mput sid (new_session_sm (restored_session (ri_now io owner sid) owner sid msgs)) ss))"

definition restore_owner :: "restore_io \<Rightarrow> store \<Rightarrow> string \<times> bool \<Rightarrow> (id, session_sm) gomap \<Rightarrow> (id, session_sm) gomap" where
  "restore_owner io st entry ss =
     (if \<not> snd entry then ss
      else case store_list_sessions (ri_owner io (fst entry)) st of
          Inl e \<Rightarrow> ss
        | Inr sids \<Rightarrow> fold (restore_one io st (fst entry)) sids ss)"

definition mg_restore :: "restore_io \<Rightarrow> session_mgr \<Rightarrow> go_error option \<times> session_mgr" where
  "mg_restore io m =
     (if mg_closed m then (Some (new_error ErrUnavailable), m)
      else case mg_store m of
          None \<Rightarrow> (None, m)
        | Some st \<Rightarrow>
            if \<not> sg_persistence (st_cfg st) then (None, m)
            else (case ri_root io of
                    DirMissing \<Rightarrow> (None, m)
                  | DirError e \<Rightarrow> (Some (wrap_error ErrInternal e), m)
                  | DirNotDir \<Rightarrow> (Some (wrap_error ErrInternal (PlainErr ''not a directory'')), m)
                  | DirEntries es \<Rightarrow> (None, m\<lparr>mg_sessions := fold (restore_owner io st) es (mg_sessions m)\<rparr>)))"

end
