(* ===== verification/Session_Proofs.thy ===== *)
theory Session_Proofs
  imports Session_Manager
begin

text \<open>
  What the session manager keeps.  \<open>entry_step\<close> is the life of one session;
  \<open>mg_exec_effect\<close> shows that each call of the manager is, on each key, nothing,
  a step of that life, a new entry, or the removal of a closed one.  The locale
  \<open>entry_property\<close> turns what one step keeps into what every run keeps.
\<close>

section \<open>The invariant of an entry\<close>

text \<open>
  An entry is filed under its identifier, holds each container once and no more
  than its limit, has a closing time exactly when its machine is closed, and its
  recorded state is that of the machine, except for a restored session whose
  machine still initializes.
\<close>

definition entry_ok :: "id \<Rightarrow> session_sm \<Rightarrow> bool" where
  "entry_ok k s \<longleftrightarrow> se_id (ss_session s) = k
     \<and> distinct (se_containers (ss_session s))
     \<and> (sc_max_containers (sx_config (se_context (ss_session s))) > 0 \<longrightarrow>
          int (length (se_containers (ss_session s))) \<le> sc_max_containers (sx_config (se_context (ss_session s))))
     \<and> known_state (ss_sm s)
     \<and> (ss_sm s = StClosed \<longleftrightarrow> se_closed_at (ss_session s) \<noteq> None)
     \<and> (se_state (ss_session s) = ss_sm s \<or> se_state (ss_session s) = StIdle \<and> ss_sm s = StInitializing)"

definition mg_inv :: "session_mgr \<Rightarrow> bool" where
  "mg_inv m \<longleftrightarrow> mwf (mg_sessions m) \<and> mall entry_ok (mg_sessions m)"

lemma known_target: "sm_transition cur t = Inr s \<Longrightarrow> known_state cur \<Longrightarrow> known_state s"
  using known_transition [of cur t] by (simp add: sm_exec_def)

lemma entry_ok_transition: "entry_ok k s \<Longrightarrow> entry_ok k (snd (ss_transition t1 t2 target s))"
proof (cases "sm_transition (ss_sm s) target")
  case (Inl e)
  assume "entry_ok k s"
  with Inl show ?thesis by (simp add: ss_transition_def)
next
  case (Inr c)
  assume ok: "entry_ok k s"
  from Inr have c: "c = target" by (rule sm_transition_target)
  from Inr ok have known: "known_state c" by (auto simp: entry_ok_def intro: known_target)
  have "ss_sm s = StClosed \<Longrightarrow> c = StClosed" using Inr by (metis sm_transition_closed)
  with ok Inr c known show ?thesis by (auto simp: ss_transition_def entry_ok_def)
qed

lemma entry_ok_ops [simp, intro]:
  assumes "entry_ok k s"
  shows "entry_ok k (snd (ss_activate t s))" "entry_ok k (snd (ss_idle t s))"
    "entry_ok k (snd (ss_close t s))" "entry_ok k (snd (ss_force_close t1 t2 s))"
  using assms by (auto simp: ss_op_defs intro: entry_ok_transition)

lemma entry_ok_set_status [simp]: "entry_ok k (set_status st s) = entry_ok k s"
  by (simp add: entry_ok_def set_status_def)

lemma entry_ok_push [simp]: "entry_ok k (push_message t msg s) = entry_ok k s"
  by (simp add: entry_ok_def push_message_def)

lemma entry_ok_metadata [simp]:
  "entry_ok k (s\<lparr>ss_session := (ss_session s)\<lparr>se_metadata := md, se_updated := t\<rparr>\<rparr>) = entry_ok k s"
  by (simp add: entry_ok_def)

lemma entry_ok_close_entry: "entry_ok k s \<Longrightarrow> entry_ok k (close_entry t1 t2 s)"
  by (simp add: close_entry_def)

lemma entry_ok_cleanup_entry: "entry_ok k s \<Longrightarrow> entry_ok k (cleanup_entry cfg now t s)"
  by (simp add: cleanup_entry_def)

lemma entry_ok_add:
  "entry_ok k s \<Longrightarrow> \<not> container_limit_hit (ss_session s) \<Longrightarrow> cid \<notin> set (se_containers (ss_session s)) \<Longrightarrow>
   entry_ok k (set_containers now (se_containers (ss_session s) @ [cid]) s)"
  by (auto simp: entry_ok_def set_containers_def container_limit_hit_def)

lemma length_filter_int_le: "int (length xs) \<le> n \<Longrightarrow> int (length (filter P xs)) \<le> n"
  using length_filter_le [of P xs] by linarith

lemma entry_ok_remove:
  "entry_ok k s \<Longrightarrow> entry_ok k (set_containers now (filter (\<lambda>c. c \<noteq> cid) (se_containers (ss_session s))) s)"
  by (auto simp: entry_ok_def set_containers_def intro: length_filter_int_le)

lemma entry_ok_fresh:
  assumes "se_id s = k" and "se_state s = StInitializing \<or> se_state s = StIdle"
    and "se_closed_at s = None" and "se_containers s = []"
  shows "entry_ok k (new_session_sm s)"
  using assms by (auto simp: entry_ok_def new_session_sm_def new_state_machine_def known_state_def)

section \<open>The invariant of the manager\<close>

lemma mg_lookup_ok: "mg_inv m \<Longrightarrow> mg_lookup m sid = Inr s \<Longrightarrow> entry_ok sid s"
  by (auto simp: mg_lookup_def mg_inv_def split: if_splits option.splits dest: mall_get)

lemma mg_lookup_Inr: "mg_lookup m sid = Inr s \<longleftrightarrow> \<not> mg_closed m \<and> mget (mg_sessions m) sid = Some s"
  by (auto simp: mg_lookup_def split: option.splits)

lemma mg_inv_write: "mg_inv m \<Longrightarrow> entry_ok sid s \<Longrightarrow> mg_inv (mg_write sid s m)"
  by (auto simp: mg_inv_def mg_write_def intro: mall_mput)

lemma mg_inv_store [simp]: "mg_inv (m\<lparr>mg_store := st\<rparr>) = mg_inv m"
  by (simp add: mg_inv_def)

lemma mg_inv_delete: "mg_inv m \<Longrightarrow> mg_inv (m\<lparr>mg_sessions := mdel sid (mg_sessions m)\<rparr>)"
  by (auto simp: mg_inv_def intro: mall_mdel)

lemma mg_inv_new: "mg_new st cfg = Inr m \<Longrightarrow> mg_inv m"
  by (auto simp: mg_new_def mg_inv_def split: if_splits sum.splits)

lemma activate_fresh:
  "ss_activate t (new_session_sm s) =
     (None, \<lparr>ss_session = s\<lparr>se_state := StActive, se_updated := t\<rparr>, ss_sm = StActive\<rparr>)"
  by (simp add: ss_activate_def ss_transition_def sm_transition_def new_session_sm_def
      new_state_machine_def can_transition_def)

text \<open>The activation of a new session cannot fail, so the error branch of \<open>Create\<close> is dead.\<close>

lemma mg_create_open:
  assumes "\<not> mg_closed m" and "\<not> (sg_max_sessions (mg_cfg m) > 0 \<and> mlen (mg_sessions m) \<ge> sg_max_sessions (mg_cfg m))"
  shows "mg_create sid now te ta md scfg m = (Inr sid, mg_write sid
     \<lparr>ss_session = \<lparr>se_id = sid, se_state = StActive, se_status = StatusRunning, se_created = now, se_updated = ta,
        se_expires = (if sc_max_duration scfg > 0 then Some (te + sc_max_duration scfg) else None),
        se_closed_at = None, se_metadata = md, se_context = zero_context\<lparr>sx_config := scfg\<rparr>, se_containers = []\<rparr>,
      ss_sm = StActive\<rparr> m)"
proof -
  have twice: "mg_write sid s' (mg_write sid s m) = mg_write sid s' m" for s s'
    by (simp add: mg_write_def mput_def)
  show ?thesis
    using assms by (simp add: mg_create_def Let_def activate_fresh set_status_def twice)
qed

section \<open>Calls and runs\<close>

text \<open>A call of the manager, with the readings and outcomes it meets; queries change nothing.\<close>

datatype mg_op =
    OpCreate id timestamp timestamp timestamp session_metadata session_config
  | OpUpdate timestamp id session_metadata
  | OpCloseSession timestamp timestamp id
  | OpDelete id
  | OpAddContainer timestamp id id
  | OpRemoveContainer timestamp id id
  | OpAddMessage append_io id timestamp timestamp timestamp id message
  | OpCleanup timestamp timestamp
  | OpClose timestamp timestamp
  | OpRestore restore_io

fun mg_exec :: "session_mgr \<Rightarrow> mg_op \<Rightarrow> session_mgr" where
  "mg_exec m (OpCreate sid now te ta md scfg) = snd (mg_create sid now te ta md scfg m)"
| "mg_exec m (OpUpdate now sid md) = snd (mg_update now sid md m)"
| "mg_exec m (OpCloseSession t1 t2 sid) = snd (mg_close_session t1 t2 sid m)"
| "mg_exec m (OpDelete sid) = snd (mg_delete sid m)"
| "mg_exec m (OpAddContainer now sid cid) = snd (mg_add_container now sid cid m)"
| "mg_exec m (OpRemoveContainer now sid cid) = snd (mg_remove_container now sid cid m)"
| "mg_exec m (OpAddMessage io gid t0 t1 t2 sid msg) = snd (mg_add_message io gid t0 t1 t2 sid msg m)"
| "mg_exec m (OpCleanup now t) = mg_cleanup now t m"
| "mg_exec m (OpClose t1 t2) = mg_close t1 t2 m"
| "mg_exec m (OpRestore io) = snd (mg_restore io m)"

section \<open>The life of one session\<close>

text \<open>
  What the manager may do to an entry that is there.  The manager refines this
  step relation on each key, so what it keeps holds of every session.
\<close>

inductive entry_step :: "session_sm \<Rightarrow> session_sm \<Rightarrow> bool" where
  es_update: "\<not> ss_is_terminal s \<Longrightarrow>
     entry_step s (s\<lparr>ss_session := (ss_session s)\<lparr>se_metadata := md, se_updated := now\<rparr>\<rparr>)"
| es_close: "ss_sm s \<noteq> StClosed \<Longrightarrow> entry_step s (set_status StatusStopped (snd (ss_transition t1 t2 StClosed s)))"
| es_close_failed: "ss_sm s \<noteq> StClosed \<Longrightarrow> ss_transition t1 t2 StClosed s = (Some e, s') \<Longrightarrow> entry_step s s'"
| es_add: "\<not> ss_is_terminal s \<Longrightarrow> \<not> container_limit_hit (ss_session s) \<Longrightarrow> cid \<notin> set (se_containers (ss_session s)) \<Longrightarrow>
     entry_step s (set_containers now (se_containers (ss_session s) @ [cid]) s)"
| es_remove: "entry_step s (set_containers now (filter (\<lambda>c. c \<noteq> cid) (se_containers (ss_session s))) s)"
| es_message: "\<not> ss_is_terminal s \<Longrightarrow> s1 = push_message t1 msg s \<Longrightarrow>
     entry_step s (if ss_sm s1 = StIdle then snd (ss_activate t2 s1) else s1)"
| es_cleanup: "entry_step s (cleanup_entry cfg now t s)"
| es_shutdown: "entry_step s (close_entry t1 t2 s)"

text \<open>What a new entry looks like: created and active, or restored from its log.\<close>

inductive fresh_entry :: "id \<Rightarrow> session_sm \<Rightarrow> bool" where
  fe_created: "\<lbrakk>se_id s = k; se_state s = StActive; se_closed_at s = None; se_containers s = [];
     sx_messages (se_context s) = []\<rbrakk> \<Longrightarrow> fresh_entry k \<lparr>ss_session = s, ss_sm = StActive\<rparr>"
| fe_restored: "fresh_entry k (new_session_sm (restored_session now owner k msgs))"

fun op_creates :: "id \<Rightarrow> mg_op \<Rightarrow> bool" where
  "op_creates k (OpCreate sid now te ta md scfg) = (sid = k)"
| "op_creates k c = False"

text \<open>Restores are the calls whose new entries record another state than their machine's.\<close>

fun is_restore :: "mg_op \<Rightarrow> bool" where
  "is_restore (OpRestore io) = True"
| "is_restore c = False"

definition op_deletes :: "id \<Rightarrow> mg_op \<Rightarrow> bool" where
  "op_deletes k c \<longleftrightarrow> c = OpDelete k"

definition entry_effect :: "id \<Rightarrow> mg_op \<Rightarrow> session_sm option \<Rightarrow> session_sm option \<Rightarrow> bool" where
  "entry_effect k c before after \<longleftrightarrow>
     (case after of
        None \<Rightarrow> before = None \<or> op_deletes k c \<and> (\<exists>s. before = Some s \<and> ss_sm s = StClosed)
      | Some s' \<Rightarrow>
          (\<exists>s. before = Some s \<and> (s' = s \<or> entry_step s s'))
          \<or> fresh_entry k s' \<and> (before = None \<or> op_creates k c) \<and> (is_restore c \<or> se_state (ss_session s') = ss_sm s'))"

lemma effect_same [simp, intro]: "entry_effect k c x x"
  by (simp add: entry_effect_def split: option.split)

lemma effect_write:
  assumes "mg_lookup m sid = Inr s" and "entry_step s s'"
  shows "entry_effect k c (mget (mg_sessions m) k) (mget (mg_sessions (mg_write sid s' m)) k)"
  using assms by (auto simp: mg_write_def mg_lookup_Inr entry_effect_def split: option.split)

lemma mg_sessions_store [simp]: "mg_sessions (m\<lparr>mg_store := st\<rparr>) = mg_sessions m"
  by simp

lemma mg_sessions_write_store [simp]:
  "mg_sessions (mg_write sid s (m\<lparr>mg_store := st\<rparr>)) = mg_sessions (mg_write sid s m)"
  by (simp add: mg_write_def)

lemma effect_create: "entry_effect k (OpCreate sid now te ta md scfg) (mget (mg_sessions m) k)
   (mget (mg_sessions (snd (mg_create sid now te ta md scfg m))) k)"
proof (cases "mg_closed m \<or> (sg_max_sessions (mg_cfg m) > 0 \<and> mlen (mg_sessions m) \<ge> sg_max_sessions (mg_cfg m))")
  case True
  then show ?thesis by (auto simp: mg_create_def)
next
  case False
  let ?s = "\<lparr>se_id = sid, se_state = StActive, se_status = StatusRunning, se_created = now, se_updated = ta,
        se_expires = (if sc_max_duration scfg > 0 then Some (te + sc_max_duration scfg) else None),
        se_closed_at = None, se_metadata = md, se_context = zero_context\<lparr>sx_config := scfg\<rparr>, se_containers = []\<rparr>"
  have "fresh_entry sid \<lparr>ss_session = ?s, ss_sm = StActive\<rparr>"
    by (rule fe_created) (simp_all add: zero_context_def)
  with False mg_create_open [of m sid now te ta md scfg] show ?thesis
    by (cases "k = sid") (simp_all add: mg_write_def entry_effect_def split: option.split)
qed

lemma effect_update: "entry_effect k c (mget (mg_sessions m) k) (mget (mg_sessions (snd (mg_update now sid md m))) k)"
proof (cases "mg_lookup m sid")
  case (Inr s)
  then show ?thesis by (cases "ss_is_terminal s") (auto simp: mg_update_def intro!: effect_write es_update)
qed (simp add: mg_update_def)

lemma effect_close_session: "entry_effect k c (mget (mg_sessions m) k) (mget (mg_sessions (snd (mg_close_session t1 t2 sid m))) k)"
proof (cases "mg_lookup m sid")
  case (Inr s)
  obtain e s' where tr: "ss_transition t1 t2 StClosed s = (e, s')" by fastforce
  show ?thesis
  proof (cases "ss_sm s = StClosed")
    case False
    then show ?thesis
      using Inr tr es_close [of s t1 t2] es_close_failed [of s t1 t2]
      by (cases e) (auto simp: mg_close_session_def intro!: effect_write)
  qed (simp add: mg_close_session_def Inr)
qed (simp add: mg_close_session_def)

lemma effect_delete: "entry_effect k (OpDelete sid) (mget (mg_sessions m) k) (mget (mg_sessions (snd (mg_delete sid m))) k)"
proof (cases "mg_lookup m sid")
  case (Inr s)
  then have "mget (mg_sessions m) sid = Some s" by (simp add: mg_lookup_Inr)
  with Inr show ?thesis
    by (cases "ss_is_terminal s"; cases "k = sid")
      (simp_all add: mg_delete_def entry_effect_def op_deletes_def ss_is_terminal_def sm_is_terminal_def split: option.split)
qed (simp add: mg_delete_def)

lemma effect_add_container:
  "entry_effect k c (mget (mg_sessions m) k) (mget (mg_sessions (snd (mg_add_container now sid cid m))) k)"
proof (cases "mg_lookup m sid")
  case (Inr s)
  then show ?thesis by (auto simp: mg_add_container_def intro!: effect_write es_add)
qed (simp add: mg_add_container_def)

lemma effect_remove_container:
  "entry_effect k c (mget (mg_sessions m) k) (mget (mg_sessions (snd (mg_remove_container now sid cid m))) k)"
proof (cases "mg_lookup m sid")
  case (Inr s)
  then show ?thesis by (auto simp: mg_remove_container_def intro!: effect_write es_remove)
qed (simp add: mg_remove_container_def)

lemma effect_add_message:
  "entry_effect k c (mget (mg_sessions m) k) (mget (mg_sessions (snd (mg_add_message io gid t0 t1 t2 sid msg m))) k)"
proof (cases "mg_lookup m sid")
  case (Inr s)
  let ?s1 = "push_message t1 (fill_message gid t0 msg) s"
  let ?s2 = "if ss_sm ?s1 = StIdle then snd (ss_activate t2 ?s1) else ?s1"
  show ?thesis
  proof (cases "ss_is_terminal s")
    case False
    then have "entry_effect k c (mget (mg_sessions m) k) (mget (mg_sessions (mg_write sid ?s2 m)) k)"
      by (intro effect_write [OF Inr] es_message) auto
    with False Inr show ?thesis
      by (cases "ss_sm ?s1 = StIdle")
        (auto simp: mg_add_message_def Let_def split: option.split prod.split)
  qed (simp add: mg_add_message_def Inr)
qed (simp add: mg_add_message_def)

lemma effect_map:
  assumes "\<And>s. entry_step s (f s)"
  shows "entry_effect k c (mget ss k) (mget (mmap (\<lambda>k s. f s) ss) k)"
  using assms by (cases "mget ss k") (auto simp: entry_effect_def)

lemma effect_cleanup: "entry_effect k c (mget (mg_sessions m) k) (mget (mg_sessions (mg_cleanup now t m)) k)"
  by (simp add: mg_cleanup_def effect_map es_cleanup del: mget_mmap)

lemma effect_shutdown: "entry_effect k c (mget (mg_sessions m) k) (mget (mg_sessions (mg_close t1 t2 m)) k)"
  by (simp add: mg_close_def effect_map es_shutdown del: mget_mmap)

text \<open>A restore leaves what is there and adds restored entries.\<close>

definition restored_over :: "(id, session_sm) gomap \<Rightarrow> (id, session_sm) gomap \<Rightarrow> bool" where
  "restored_over ss ss' \<longleftrightarrow> (mwf ss \<longrightarrow> mwf ss') \<and>
     (\<forall>k. mget ss' k = mget ss k \<or>
        mget ss k = None \<and> (\<exists>now owner msgs. mget ss' k = Some (new_session_sm (restored_session now owner k msgs))))"

lemma restored_over_refl [simp]: "restored_over ss ss"
  by (simp add: restored_over_def)

lemma restored_over_trans: "restored_over a b \<Longrightarrow> restored_over b c \<Longrightarrow> restored_over a c"
  unfolding restored_over_def by metis

lemma restored_over_one: "restored_over ss (restore_one io st owner sid ss)"
proof -
  have "restored_over ss (mput sid (new_session_sm (restored_session now owner sid msgs)) ss)"
    if "mget ss sid = None" for now msgs
    using that by (auto simp: restored_over_def)
  then show ?thesis by (simp add: restore_one_def split: option.split sum.split)
qed

lemma restored_over_fold:
  assumes "\<And>x ss. restored_over ss (f x ss)"
  shows "restored_over ss (fold f xs ss)"
  by (induction xs arbitrary: ss) (auto intro: restored_over_trans assms)

lemma restored_over_owner: "restored_over ss (restore_owner io st entry ss)"
  by (simp add: restore_owner_def restored_over_fold restored_over_one split: sum.split)

lemma restored_over_restore: "restored_over (mg_sessions m) (mg_sessions (snd (mg_restore io m)))"
  by (simp add: mg_restore_def restored_over_fold restored_over_owner split: option.split dir_io.split)

lemma effect_restore: "entry_effect k (OpRestore io) (mget (mg_sessions m) k) (mget (mg_sessions (snd (mg_restore io m))) k)"
proof -
  have "mget (mg_sessions (snd (mg_restore io m))) k = mget (mg_sessions m) k \<or>
        mget (mg_sessions m) k = None \<and> (\<exists>now owner msgs.
          mget (mg_sessions (snd (mg_restore io m))) k = Some (new_session_sm (restored_session now owner k msgs)))"
    using restored_over_restore [of m io] unfolding restored_over_def by blast
  then show ?thesis
  proof (elim disjE conjE exE)
    fix now owner msgs
    assume "mget (mg_sessions m) k = None"
      and "mget (mg_sessions (snd (mg_restore io m))) k = Some (new_session_sm (restored_session now owner k msgs))"
    then show ?thesis using fe_restored [of k now owner msgs] by (simp add: entry_effect_def)
  qed simp
qed

lemma mg_exec_effect: "entry_effect k c (mget (mg_sessions m) k) (mget (mg_sessions (mg_exec m c)) k)"
  by (cases c) (simp_all add: effect_create effect_update effect_close_session effect_delete effect_add_container
      effect_remove_container effect_add_message effect_cleanup effect_shutdown effect_restore)


section \<open>What the life of a session keeps\<close>

lemma entry_step_ok: "entry_step s s' \<Longrightarrow> entry_ok k s \<Longrightarrow> entry_ok k s'"
proof (induction rule: entry_step.induct)
  case (es_close_failed s t1 t2 e s')
  then show ?case using entry_ok_transition [of k s t1 t2 StClosed] by simp
qed (auto simp: entry_ok_transition entry_ok_add entry_ok_remove entry_ok_cleanup_entry entry_ok_close_entry)

lemma fresh_entry_ok: "fresh_entry k s \<Longrightarrow> entry_ok k s"
  by (induction rule: fresh_entry.induct)
    (auto simp: entry_ok_def known_state_def restored_session_def Let_def new_session_sm_def new_state_machine_def)

text \<open>A recorded state that is the machine's stays so.\<close>

definition in_step :: "session_sm \<Rightarrow> bool" where
  "in_step s \<longleftrightarrow> se_state (ss_session s) = ss_sm s"

lemma in_step_transition: "in_step s \<Longrightarrow> in_step (snd (ss_transition t1 t2 target s))"
  by (auto simp: in_step_def ss_transition_def sm_transition_def split: sum.split if_splits)

lemma in_step_frame [simp]:
  "in_step (set_status st s) = in_step s" "in_step (push_message t msg s) = in_step s"
  "in_step (set_containers t cids s) = in_step s"
  "in_step (s\<lparr>ss_session := (ss_session s)\<lparr>se_metadata := md, se_updated := t\<rparr>\<rparr>) = in_step s"
  by (simp_all add: in_step_def set_status_def push_message_def set_containers_def)

lemma entry_step_in_step: "entry_step s s' \<Longrightarrow> in_step s \<Longrightarrow> in_step s'"
proof (induction rule: entry_step.induct)
  case (es_close_failed s t1 t2 e s')
  then show ?case using in_step_transition [of s t1 t2 StClosed] by simp
qed (auto simp: in_step_transition cleanup_entry_def close_entry_def ss_op_defs)

lemma mall_mget: "mwf m \<Longrightarrow> mall P m \<longleftrightarrow> (\<forall>k v. mget m k = Some v \<longrightarrow> P k v)"
  by (auto simp: mall_def mget_iff_in_set)

lemma mg_exec_wf: "mwf (mg_sessions m) \<Longrightarrow> mwf (mg_sessions (mg_exec m c))"
proof (cases c)
  case (OpRestore io)
  assume "mwf (mg_sessions m)"
  then show ?thesis using restored_over_restore [of m io] OpRestore by (simp add: restored_over_def)
next
  case (OpAddMessage io gid t0 t1 t2 sid msg)
  assume "mwf (mg_sessions m)"
  then show ?thesis using OpAddMessage
    by (auto simp: mg_add_message_def mg_write_def Let_def split: sum.split option.split prod.split)
next
  case (OpCreate sid now te ta md scfg)
  assume "mwf (mg_sessions m)"
  then show ?thesis using OpCreate
    by (simp add: mg_create_def mg_write_def Let_def split: option.split prod.split)
next
  case (OpCloseSession t1 t2 sid)
  assume "mwf (mg_sessions m)"
  then show ?thesis using OpCloseSession
    by (simp add: mg_close_session_def mg_write_def split: sum.split option.split prod.split)
qed (simp_all add: mg_update_def mg_delete_def mg_add_container_def mg_remove_container_def mg_cleanup_def mg_close_def
      mg_write_def split: sum.split)

lemma mg_exec_inv: "mg_inv m \<Longrightarrow> mg_inv (mg_exec m c)"
proof -
  assume inv: "mg_inv m"
  then have wf: "mwf (mg_sessions m)" and ok: "\<And>k s. mget (mg_sessions m) k = Some s \<Longrightarrow> entry_ok k s"
    by (auto simp: mg_inv_def dest: mall_get)
  have "entry_ok k s'" if "mget (mg_sessions (mg_exec m c)) k = Some s'" for k s'
    using mg_exec_effect [of k c m] that ok [of k] entry_step_ok fresh_entry_ok
    by (auto simp: entry_effect_def)
  with mg_exec_wf [OF wf] show ?thesis by (simp add: mg_inv_def mall_mget)
qed

lemma closed_write [simp]: "mg_closed (mg_write sid s m) = mg_closed m"
  by (simp add: mg_write_def)

lemma mg_exec_closed: "mg_closed m \<Longrightarrow> mg_exec m c = m \<or> (\<exists>now t. c = OpCleanup now t)"
  by (cases c) (simp_all add: mg_create_def mg_update_def mg_close_session_def mg_delete_def mg_add_container_def
      mg_remove_container_def mg_add_message_def mg_close_def mg_restore_def mg_lookup_def)

lemma mg_exec_shut: "mg_closed m \<Longrightarrow> mg_closed (mg_exec m c)"
  using mg_exec_closed [of m c] by (auto simp: mg_cleanup_def)

interpretation mgr: closable_machine mg_exec mg_inv mg_closed
  by unfold_locales (rule mg_exec_inv mg_exec_shut, assumption)+

text \<open>
  A contract on one session: a property of its entry that each step of its life
  keeps holds after any run in which the session is neither deleted nor created anew.
\<close>

definition spares :: "id \<Rightarrow> mg_op list \<Rightarrow> bool" where
  "spares k cs \<longleftrightarrow> (\<forall>c \<in> set cs. \<not> op_creates k c \<and> \<not> op_deletes k c)"

locale entry_property =
  fixes P :: "session_sm \<Rightarrow> bool"
  assumes step_keeps: "entry_step s s' \<Longrightarrow> P s \<Longrightarrow> P s'"
begin

lemma exec_keeps:
  assumes "mget (mg_sessions m) k = Some s" and "P s" and "\<not> op_creates k c" and "\<not> op_deletes k c"
  shows "\<exists>s'. mget (mg_sessions (mg_exec m c)) k = Some s' \<and> P s'"
  using mg_exec_effect [of k c m] assms step_keeps by (auto simp: entry_effect_def split: option.splits)

lemma run_keeps:
  assumes "mget (mg_sessions m) k = Some s" and "P s" and "spares k cs"
  shows "\<exists>s'. mget (mg_sessions (foldl mg_exec m cs)) k = Some s' \<and> P s'"
  using assms
proof (induction cs arbitrary: m s)
  case (Cons c cs)
  from Cons.prems(3) have c: "\<not> op_creates k c" "\<not> op_deletes k c" and cs: "spares k cs"
    by (auto simp: spares_def)
  from exec_keeps [OF Cons.prems(1,2) c] obtain s1
    where "mget (mg_sessions (mg_exec m c)) k = Some s1" "P s1" by blast
  from Cons.IH [OF this cs] show ?case by simp
qed auto

end

definition session_messages :: "session_sm \<Rightarrow> message list" where
  "session_messages s = sx_messages (se_context (ss_session s))"

lemma messages_transition [simp]:
  "session_messages (snd (ss_transition t1 t2 target s)) = session_messages s"
  "session_messages (set_status st s) = session_messages s"
  "session_messages (push_message t msg s) = session_messages s @ [msg]"
  "session_messages (set_containers t cs s) = session_messages s"
  "session_messages (cleanup_entry cfg now t s) = session_messages s"
  "session_messages (close_entry t1 t2 s) = session_messages s"
  by (simp_all add: session_messages_def set_status_def push_message_def set_containers_def cleanup_entry_def
      close_entry_def ss_op_defs)

lemma entry_step_messages:
  "entry_step s s' \<Longrightarrow> session_messages s' = session_messages s
     \<or> \<not> ss_is_terminal s \<and> (\<exists>msg. session_messages s' = session_messages s @ [msg])"
proof (induction rule: entry_step.induct)
  case (es_close_failed s t1 t2 e s')
  then show ?case using messages_transition(1) [of t1 t2 StClosed s] by simp
qed (auto simp: ss_op_defs, simp_all add: session_messages_def)

lemma sm_frame [simp]:
  "ss_sm (set_status st s) = ss_sm s" "ss_sm (push_message t msg s) = ss_sm s" "ss_sm (set_containers t cs s) = ss_sm s"
  by (simp_all add: set_status_def push_message_def set_containers_def)

lemma entry_step_closed: "entry_step s s' \<Longrightarrow> ss_sm s = StClosed \<Longrightarrow> ss_sm s' = StClosed"
  by (induction rule: entry_step.induct)
    (auto simp: ss_is_terminal_def sm_is_terminal_def cleanup_entry_def close_entry_def)

lemma entry_step_initializing:
  "entry_step s s' \<Longrightarrow> ss_sm s = StInitializing \<or> ss_sm s = StClosed \<Longrightarrow> ss_sm s' = StInitializing \<or> ss_sm s' = StClosed"
proof (induction rule: entry_step.induct)
  case (es_close_failed s t1 t2 e s')
  then show ?case using ss_transition_sm [of t1 t2 StClosed s] by (auto split: sum.splits dest: sm_transition_target)
qed (auto simp: ss_is_terminal_def sm_is_terminal_def cleanup_entry_def close_entry_def ss_op_defs ss_transition_sm
      sm_transition_def can_transition_def)

interpretation closed_entry: entry_property "\<lambda>s. ss_sm s = StClosed \<and> session_messages s = msgs" for msgs
proof unfold_locales
  fix s s'
  assume "entry_step s s'" "ss_sm s = StClosed \<and> session_messages s = msgs"
  then show "ss_sm s' = StClosed \<and> session_messages s' = msgs"
    using entry_step_closed entry_step_messages [of s s'] by (auto simp: ss_is_terminal_def sm_is_terminal_def)
qed

interpretation growing_entry: entry_property "\<lambda>s. \<exists>more. session_messages s = msgs @ more" for msgs
proof unfold_locales
  fix s s'
  assume "entry_step s s'" "\<exists>more. session_messages s = msgs @ more"
  then show "\<exists>more. session_messages s' = msgs @ more"
    using entry_step_messages [of s s'] by auto
qed

interpretation stuck_entry: entry_property "\<lambda>s. ss_sm s = StInitializing \<or> ss_sm s = StClosed"
  by unfold_locales (rule entry_step_initializing)

end
