(* ===== verification/Session_Properties.thy ===== *)
theory Session_Properties
  imports Session_Proofs
begin

text \<open>
  The properties of the session manager: what holds after every run of calls, what
  happens to one session across a run, how memory and the message log stay in
  step, and where expiry, restore, change of owner and shutdown go wrong.
\<close>

section \<open>Samples\<close>

definition sample_meta :: session_metadata where
  "sample_meta = zero_metadata\<lparr>sd_owner_id := ''al''\<rparr>"

definition sample_mgr :: session_mgr where
  "sample_mgr = \<lparr>mg_sessions = [], mg_cfg = sample_mgr_config, mg_store = Some sample_store, mg_closed = False,
     mg_cleanup_interval = one_minute\<rparr>"

definition sample_scfg :: session_config where
  "sample_scfg = zero_session_config\<lparr>sc_max_containers := 1, sc_max_duration := 100\<rparr>"

text \<open>One session \<open>s1\<close> of owner \<open>al\<close>, active from time 2 and expiring at 101.\<close>

definition one_session :: session_mgr where
  "one_session = snd (mg_create ''s1'' 1 1 2 sample_meta sample_scfg sample_mgr)"

definition sample_entry :: session_sm where
  "sample_entry = \<lparr>ss_session = \<lparr>se_id = ''s1'', se_state = StActive, se_status = StatusRunning, se_created = 1,
     se_updated = 2, se_expires = Some 101, se_closed_at = None, se_metadata = sample_meta,
     se_context = zero_context\<lparr>sx_config := sample_scfg\<rparr>, se_containers = []\<rparr>, ss_sm = StActive\<rparr>"

lemma sample_mgr_new: "mg_new (Inr sample_store) sample_mgr_config = Inr sample_mgr"
  by (simp add: mg_new_def sample_mgr_def sample_mgr_config_def)

lemma one_session_eq: "one_session = mg_write ''s1'' sample_entry sample_mgr"
  using mg_create_open [of sample_mgr "''s1''" 1 1 2 sample_meta sample_scfg]
  by (simp add: one_session_def sample_entry_def sample_mgr_def sample_mgr_config_def sample_scfg_def)

lemma one_session_get [simp]: "mget (mg_sessions one_session) ''s1'' = Some sample_entry"
  by (simp add: one_session_eq mg_write_def)

lemma one_session_fields [simp]:
  "mg_closed one_session = False" "mg_store one_session = Some sample_store" "mg_cfg one_session = sample_mgr_config"
  "mlen (mg_sessions one_session) = 1"
  by (simp_all add: one_session_eq mg_write_def sample_mgr_def mlen_mput)

lemma one_session_inv: "mg_inv one_session"
  using mgr.exec_good [of sample_mgr "OpCreate ''s1'' 1 1 2 sample_meta sample_scfg"] mg_inv_new [OF sample_mgr_new]
  by (simp add: one_session_def)

section \<open>Every run\<close>

lemma mg_exec_in_step:
  assumes "\<not> is_restore c" and "mg_inv m" and "\<And>k s. mget (mg_sessions m) k = Some s \<Longrightarrow> in_step s"
    and "mget (mg_sessions (mg_exec m c)) k = Some s'"
  shows "in_step s'"
  using mg_exec_effect [of k c m] assms entry_step_in_step by (auto simp: entry_effect_def in_step_def [symmetric])

lemma runs_in_step:
  assumes "mg_new st cfg = Inr m0" and "\<forall>c \<in> set cs. \<not> is_restore c"
  shows "mget (mg_sessions (foldl mg_exec m0 cs)) k = Some s \<Longrightarrow> in_step s"
  using assms(2)
proof (induction cs arbitrary: k s rule: rev_induct)
  case Nil
  then show ?case using assms(1) by (auto simp: mg_new_def split: if_splits sum.splits)
next
  case (snoc c cs)
  show ?case
    by (rule mg_exec_in_step [of c "foldl mg_exec m0 cs" k]) (use snoc mgr.run_good [OF mg_inv_new [OF assms(1)]] in auto)
qed

text \<open>
  C3: In every state a new manager can reach by any sequence of calls, clean-ups
  and restores included, each session is filed under its own identifier, holds
  no container twice nor more than its limit, is in a known state of its machine and
  has a closing time exactly when that is closed.  The state it records is the
  machine's, always when the run has no restore; a session that a restore brought back may
  record idle while its machine still initializes, and differs in no other way.
\<close>

theorem manager_runs_stay_consistent:
  assumes "mg_new st cfg = Inr m0" and "mget (mg_sessions (foldl mg_exec m0 cs)) k = Some s"
  shows "se_id (ss_session s) = k \<and> distinct (se_containers (ss_session s))
    \<and> (0 < sc_max_containers (sx_config (se_context (ss_session s))) \<longrightarrow>
         int (length (se_containers (ss_session s))) \<le> sc_max_containers (sx_config (se_context (ss_session s))))
    \<and> known_state (ss_sm s) \<and> (ss_sm s = StClosed \<longleftrightarrow> se_closed_at (ss_session s) \<noteq> None)
    \<and> ((\<forall>c \<in> set cs. \<not> is_restore c) \<longrightarrow> se_state (ss_session s) = ss_sm s)
    \<and> (se_state (ss_session s) \<noteq> ss_sm s \<longrightarrow> se_state (ss_session s) = StIdle \<and> ss_sm s = StInitializing)"
proof -
  have "entry_ok k s"
    using mgr.run_good [OF mg_inv_new [OF assms(1)], of cs] assms(2) by (auto simp: mg_inv_def dest: mall_get)
  then show ?thesis using runs_in_step [OF assms(1) _ assms(2)] by (auto simp: entry_ok_def in_step_def)
qed

theorem manager_runs_stay_consistent_witness:
  "se_state (ss_session sample_entry) = ss_sm sample_entry \<and> distinct (se_containers (ss_session sample_entry))"
proof -
  have "mget (mg_sessions (foldl mg_exec sample_mgr [OpCreate ''s1'' 1 1 2 sample_meta sample_scfg])) ''s1'' = Some sample_entry"
    using one_session_get by (simp add: one_session_def)
  from manager_runs_stay_consistent [OF sample_mgr_new this] show ?thesis by simp
qed

text \<open>The number of sessions: only a restore can take it past the limit.\<close>

definition within_limit :: "session_mgr \<Rightarrow> bool" where
  "within_limit m \<longleftrightarrow> mwf (mg_sessions m) \<and>
     (sg_max_sessions (mg_cfg m) > 0 \<longrightarrow> mlen (mg_sessions m) \<le> sg_max_sessions (mg_cfg m))"

lemma mg_cfg_write [simp]: "mg_cfg (mg_write sid s m) = mg_cfg m"
  by (simp add: mg_write_def)

lemma mg_cfg_exec [simp]: "mg_cfg (mg_exec m c) = mg_cfg m"
  by (cases c) (auto simp: mg_create_def mg_update_def mg_close_session_def mg_delete_def mg_add_container_def
      mg_remove_container_def mg_add_message_def mg_close_def mg_restore_def mg_cleanup_def Let_def
      split: sum.split option.split prod.split dir_io.split)

lemma mlen_write: "mg_lookup m sid = Inr s \<Longrightarrow> mlen (mg_sessions (mg_write sid s' m)) = mlen (mg_sessions m)"
  by (simp add: mg_lookup_Inr mg_write_def mlen_mput)

lemma mlen_mg_delete: "mlen (mg_sessions (snd (mg_delete sid m))) \<le> mlen (mg_sessions m)"
  by (simp add: mg_delete_def mlen_mdel_le split: sum.split)

lemma mlen_add_message: "mlen (mg_sessions (snd (mg_add_message io gid t0 t1 t2 sid msg m))) = mlen (mg_sessions m)"
  by (auto simp: mg_add_message_def Let_def mlen_write split: sum.split option.split prod.split)

lemma mlen_close_session: "mlen (mg_sessions (snd (mg_close_session t1 t2 sid m))) = mlen (mg_sessions m)"
  by (auto simp: mg_close_session_def mlen_write split: sum.split option.split prod.split)

lemma mlen_exec:
  assumes "\<not> is_restore c"
  shows "mlen (mg_sessions (mg_exec m c)) \<le> mlen (mg_sessions m) \<or>
    mlen (mg_sessions (mg_exec m c)) \<le> mlen (mg_sessions m) + 1
      \<and> \<not> (sg_max_sessions (mg_cfg m) > 0 \<and> mlen (mg_sessions m) \<ge> sg_max_sessions (mg_cfg m))"
proof (cases c)
  case (OpCreate sid now te ta md scfg)
  show ?thesis
  proof (cases "mg_closed m \<or> (sg_max_sessions (mg_cfg m) > 0 \<and> mlen (mg_sessions m) \<ge> sg_max_sessions (mg_cfg m))")
    case True
    with OpCreate show ?thesis by (auto simp: mg_create_def)
  next
    case False
    with OpCreate show ?thesis by (simp add: mg_create_open mg_write_def mlen_mput del: not_less)
  qed
qed (use assms in \<open>simp_all add: mg_update_def mlen_mg_delete mg_add_container_def mlen_add_message
      mg_remove_container_def mg_cleanup_def mg_close_def mlen_write mlen_close_session split: sum.split\<close>)

interpretation limited: machine "\<lambda>m c. if is_restore c then m else mg_exec m c" within_limit
proof unfold_locales
  fix m c
  assume "within_limit m"
  then show "within_limit (if is_restore c then m else mg_exec m c)"
    using mlen_exec [of c m] mg_exec_wf [of m c] by (auto simp: within_limit_def)
qed

lemma foldl_unrestored:
  "\<forall>c \<in> set cs. \<not> is_restore c \<Longrightarrow> foldl (\<lambda>m c. if is_restore c then m else mg_exec m c) m cs = foldl mg_exec m cs"
  by (induction cs arbitrary: m) auto

text \<open>
  With a limit configured, no sequence of calls without a restore leads to
  more sessions than the limit.
\<close>

lemma session_limit_kept:
  assumes "mg_new st cfg = Inr m0" and "0 < sg_max_sessions cfg" and "\<forall>c \<in> set cs. \<not> is_restore c"
  shows "mlen (mg_sessions (foldl mg_exec m0 cs)) \<le> sg_max_sessions cfg"
proof -
  have start: "within_limit m0" and cfg: "mg_cfg m0 = cfg"
    using assms(1,2) by (auto simp: mg_new_def within_limit_def split: if_splits sum.splits)
  have same: "mg_cfg (foldl mg_exec m cs) = mg_cfg m" for m
    by (induction cs arbitrary: m) auto
  show ?thesis
    using limited.run_good [OF start, of cs] assms(2,3) same [of m0] cfg
    by (simp add: foldl_unrestored within_limit_def)
qed

theorem session_limit_kept_witness:
  "mlen (mg_sessions (foldl mg_exec sample_mgr
     [OpCreate ''s1'' 1 1 2 sample_meta sample_scfg, OpCreate ''s2'' 3 3 4 sample_meta sample_scfg,
      OpCreate ''s3'' 5 5 6 sample_meta sample_scfg])) \<le> 2"
  using session_limit_kept [OF sample_mgr_new, of "[OpCreate ''s1'' 1 1 2 sample_meta sample_scfg,
      OpCreate ''s2'' 3 3 4 sample_meta sample_scfg, OpCreate ''s3'' 5 5 6 sample_meta sample_scfg]"]
  by (simp add: sample_mgr_config_def)

section \<open>One session across a run\<close>

text \<open>
  C14: A closed session is final: whatever is called afterwards, short of deleting
  it or creating its identifier again, it stays closed and its conversation does
  not change.
\<close>

theorem closed_session_is_final:
  assumes "mget (mg_sessions m) k = Some s" and "ss_sm s = StClosed" and "spares k cs"
  shows "\<exists>s'. mget (mg_sessions (foldl mg_exec m cs)) k = Some s' \<and> ss_sm s' = StClosed
     \<and> session_messages s' = session_messages s"
  using closed_entry.run_keeps [OF assms(1), of "session_messages s"] assms(2,3) by simp

theorem closed_session_is_final_witness:
  "\<exists>s'. mget (mg_sessions (foldl mg_exec (snd (mg_close_session 5 6 ''s1'' one_session)) [OpCleanup 900 901])) ''s1'' = Some s'
     \<and> ss_sm s' = StClosed"
proof -
  let ?s = "set_status StatusStopped (snd (ss_transition 5 6 StClosed sample_entry))"
  have get: "mget (mg_sessions (snd (mg_close_session 5 6 ''s1'' one_session))) ''s1'' = Some ?s"
    by (simp add: mg_close_session_def mg_lookup_def mg_write_def sample_entry_def ss_transition_def
        sm_transition_def can_transition_def)
  have closed: "ss_sm ?s = StClosed"
    by (simp add: sample_entry_def ss_transition_def sm_transition_def can_transition_def)
  have "spares ''s1'' [OpCleanup 900 901]" by (simp add: spares_def op_deletes_def)
  from closed_session_is_final [OF get closed this] show ?thesis by blast
qed

text \<open>
  A conversation only grows: after any run that spares the session its
  messages are the earlier ones, in order, followed by new ones.
\<close>

lemma history_only_grows:
  assumes "mget (mg_sessions m) k = Some s" and "spares k cs"
  shows "\<exists>s' more. mget (mg_sessions (foldl mg_exec m cs)) k = Some s' \<and> session_messages s' = session_messages s @ more"
  using growing_entry.run_keeps [OF assms(1) _ assms(2), of "session_messages s"] by auto

theorem history_only_grows_witness:
  "\<exists>s'. mget (mg_sessions (foldl mg_exec one_session
     [OpAddMessage IoOk ''g'' 5 6 7 ''s1'' sample_message, OpCleanup 900 901, OpClose 902 903])) ''s1'' = Some s'"
  using history_only_grows [OF one_session_get, of "[OpAddMessage IoOk ''g'' 5 6 7 ''s1'' sample_message,
      OpCleanup 900 901, OpClose 902 903]"]
  by (auto simp: spares_def op_deletes_def)

text \<open>
  The only call after which a session is gone is the deletion of that session,
  and it was closed: no other call, and in particular no clean-up, removes one.
\<close>

lemma session_leaves_only_by_delete:
  assumes "mget (mg_sessions m) k = Some s" and "mget (mg_sessions (mg_exec m c)) k = None"
  shows "c = OpDelete k \<and> ss_sm s = StClosed"
  using mg_exec_effect [of k c m] assms by (simp add: entry_effect_def op_deletes_def)

theorem session_leaves_only_by_delete_witness:
  "\<exists>s. mget (mg_sessions (mg_exec one_session (OpCloseSession 5 6 ''s1''))) ''s1'' = Some s \<and> ss_sm s = StClosed"
proof -
  let ?m = "mg_exec one_session (OpCloseSession 5 6 ''s1'')"
  obtain s where s: "mget (mg_sessions ?m) ''s1'' = Some s" and "ss_sm s = StClosed"
    by (auto simp: mg_close_session_def mg_lookup_def mg_write_def sample_entry_def ss_transition_def
        sm_transition_def can_transition_def)
  then have "mget (mg_sessions (mg_exec ?m (OpDelete ''s1''))) ''s1'' = None"
    by (simp add: mg_delete_def mg_lookup_def ss_is_terminal_def sm_is_terminal_def
        mg_close_session_def mg_write_def sample_entry_def ss_transition_def sm_transition_def can_transition_def)
  from session_leaves_only_by_delete [OF s this] s show ?thesis by blast
qed

section \<open>Expiry\<close>

lemma cleanup_keeps_closing: "ss_sm s = StClosing \<Longrightarrow> ss_sm (cleanup_entry cfg now t s) = StClosing"
  by (simp add: cleanup_entry_def ss_close_def ss_transition_sm sm_transition_def ss_is_terminal_def sm_is_terminal_def)

lemma cleanup_expired:
  "ss_is_active s \<Longrightarrow> has_expired now (ss_session s) \<Longrightarrow> ss_sm (cleanup_entry cfg now t s) = StClosing"
  by (auto simp: cleanup_entry_def ss_close_def ss_transition_sm sm_transition_def ss_is_terminal_def sm_is_terminal_def
      ss_is_active_def sm_is_active_def can_transition_def)

definition cleanups :: "(timestamp \<times> timestamp) list \<Rightarrow> mg_op list" where
  "cleanups ts = map (\<lambda>(now, t). OpCleanup now t) ts"

lemma cleanups_simps [simp]: "cleanups [] = []" "cleanups ((now, t) # ts) = OpCleanup now t # cleanups ts"
  by (simp_all add: cleanups_def)

lemma cleanups_keep_closing:
  "mget (mg_sessions m) k = Some s \<Longrightarrow> ss_sm s = StClosing \<Longrightarrow>
   (\<exists>s'. mget (mg_sessions (foldl mg_exec m (cleanups ts))) k = Some s' \<and> ss_sm s' = StClosing)
   \<and> mlen (mg_sessions (foldl mg_exec m (cleanups ts))) = mlen (mg_sessions m)"
proof (induction ts arbitrary: m s)
  case (Cons p ts)
  obtain now t where p: "p = (now, t)" by fastforce
  have "mget (mg_sessions (mg_cleanup now t m)) k = Some (cleanup_entry (mg_cfg m) now t s)"
    using Cons.prems(1) by (simp add: mg_cleanup_def)
  from Cons.IH [OF this cleanup_keeps_closing [OF Cons.prems(2)]] show ?case
    by (simp add: p) (simp add: mg_cleanup_def)
qed simp

text \<open>
  An expired session is never removed by clean-up, however often it runs: the
  first clean-up leaves it closing, it stays closing, and it keeps its place among
  the sessions that count against the limit.
\<close>

lemma expired_session_is_never_removed:
  assumes "mget (mg_sessions m) k = Some s" and "ss_is_active s" and "has_expired now (ss_session s)"
  shows "(\<exists>s'. mget (mg_sessions (foldl mg_exec (mg_cleanup now t m) (cleanups ts))) k = Some s' \<and> ss_sm s' = StClosing)
     \<and> mlen (mg_sessions (foldl mg_exec (mg_cleanup now t m) (cleanups ts))) = mlen (mg_sessions m)"
proof -
  have "mget (mg_sessions (mg_cleanup now t m)) k = Some (cleanup_entry (mg_cfg m) now t s)"
    using assms(1) by (simp add: mg_cleanup_def)
  from cleanups_keep_closing [OF this cleanup_expired [OF assms(2,3)], of ts] show ?thesis
    by (simp add: mg_cleanup_def)
qed

theorem expired_session_is_never_removed_witness:
  "mlen (mg_sessions (foldl mg_exec (mg_cleanup 200 200 one_session) (cleanups [(300, 300), (400, 400)]))) = 1"
  using expired_session_is_never_removed [OF one_session_get, of 200 200 "[(300, 300), (400, 400)]"]
  by (simp add: sample_entry_def ss_is_active_def sm_is_active_def has_expired_def)

section \<open>Memory and log\<close>

lemma fill_message_full [simp]: "msg_id msg \<noteq> '''' \<Longrightarrow> msg_timestamp msg \<noteq> 0 \<Longrightarrow> fill_message gid t0 msg = msg"
  by (simp add: fill_message_def Let_def id_is_empty_def ts_is_zero_def)

text \<open>
  C11: When the log of a session says what memory says, it does so after a message
  is added too: memory and log grow by the same message, and an idle session
  becomes active.
\<close>

theorem add_message_keeps_log_in_step:
  assumes "mg_lookup m sid = Inr s" and "ss_sm s \<noteq> StClosed" and "mg_store m = Some st"
    and "\<not> st_closed st" and "sg_persistence (st_cfg st)"
    and "msg = fill_message gid t0 msg0"
    and "st_marshal st (to_persisted msg) = Inr l" and "st_unmarshal st l = Inr (to_persisted msg)"
    and "newline \<notin> set l" and "l \<noteq> []"
    and "complete_log (file_bytes (st_files st) (session_file_path st (sd_owner_id (se_metadata (ss_session s))) sid))"
    and "store_load ReadOk (sd_owner_id (se_metadata (ss_session s))) sid st = Inr (session_messages s)"
  shows "\<exists>m' s' st'. mg_add_message IoOk gid t0 t1 t2 sid msg0 m = (None, m')
     \<and> mg_lookup m' sid = Inr s' \<and> mg_store m' = Some st'
     \<and> session_messages s' = session_messages s @ [msg] \<and> se_metadata (ss_session s') = se_metadata (ss_session s)
     \<and> store_load ReadOk (sd_owner_id (se_metadata (ss_session s'))) sid st' = Inr (session_messages s')
     \<and> ss_sm s' = (if ss_sm s = StIdle then StActive else ss_sm s)"
proof -
  let ?o = "sd_owner_id (se_metadata (ss_session s))"
  from append_then_load [OF assms(4,5,7,8,9,10,11)] assms(12) obtain st' where
    app: "store_append IoOk ?o sid msg st = (None, st')"
    and load: "store_load ReadOk ?o sid st' = Inr (session_messages s @ [msg])" by auto
  let ?s1 = "push_message t1 msg s"
  let ?s2 = "if ss_sm s = StIdle then snd (ss_activate t2 ?s1) else ?s1"
  have run: "mg_add_message IoOk gid t0 t1 t2 sid msg0 m = (None, mg_write sid ?s2 (m\<lparr>mg_store := Some st'\<rparr>))"
    using assms(1-3,6) app
    by (simp add: mg_add_message_def Let_def ss_is_terminal_def sm_is_terminal_def)
  have msgs: "session_messages ?s2 = session_messages s @ [msg]" by (simp add: ss_op_defs)
  have owner: "se_metadata (ss_session ?s2) = se_metadata (ss_session s)" by (simp add: push_message_def ss_op_defs)
  have state: "ss_sm ?s2 = (if ss_sm s = StIdle then StActive else ss_sm s)"
    by (simp add: ss_op_defs ss_transition_sm sm_transition_def can_transition_def)
  have look: "mg_lookup (mg_write sid ?s2 (m\<lparr>mg_store := Some st'\<rparr>)) sid = Inr ?s2"
    using assms(1) by (simp add: mg_lookup_Inr mg_write_def)
  have "mg_store (mg_write sid ?s2 (m\<lparr>mg_store := Some st'\<rparr>)) = Some st'" by (simp add: mg_write_def)
  with run look msgs owner state load show ?thesis by metis
qed

theorem add_message_keeps_log_in_step_witness:
  "\<exists>m' s' st'. mg_add_message IoOk ''g'' 5 6 7 ''s1'' sample_message one_session = (None, m')
     \<and> mg_lookup m' ''s1'' = Inr s' \<and> mg_store m' = Some st'
     \<and> session_messages s' = [sample_message] \<and> store_load ReadOk ''al'' ''s1'' st' = Inr [sample_message]"
proof -
  have look: "mg_lookup one_session ''s1'' = Inr sample_entry" by (simp add: mg_lookup_def)
  have h: "ss_sm sample_entry \<noteq> StClosed" "mg_store one_session = Some sample_store" "\<not> st_closed sample_store"
    "sg_persistence (st_cfg sample_store)" "sample_message = fill_message ''g'' 5 sample_message"
    "st_marshal sample_store (to_persisted sample_message) = Inr ''x''"
    "st_unmarshal sample_store ''x'' = Inr (to_persisted sample_message)" "newline \<notin> set ''x''" "''x'' \<noteq> []"
    "complete_log (file_bytes (st_files sample_store)
       (session_file_path sample_store (sd_owner_id (se_metadata (ss_session sample_entry))) ''s1''))"
    "store_load ReadOk (sd_owner_id (se_metadata (ss_session sample_entry))) ''s1'' sample_store
       = Inr (session_messages sample_entry)"
    by (simp_all add: sample_store_def sample_mgr_config_def newline_def complete_log_def file_bytes_def
        sample_entry_def sample_message_def store_load_def session_messages_def zero_context_def)
  obtain m' s' st' where r: "mg_add_message IoOk ''g'' 5 6 7 ''s1'' sample_message one_session = (None, m')"
    "mg_lookup m' ''s1'' = Inr s'" "mg_store m' = Some st'"
    "session_messages s' = session_messages sample_entry @ [sample_message]"
    "se_metadata (ss_session s') = se_metadata (ss_session sample_entry)"
    "store_load ReadOk (sd_owner_id (se_metadata (ss_session s'))) ''s1'' st' = Inr (session_messages s')"
    using add_message_keeps_log_in_step [OF look h] by blast
  have none: "session_messages sample_entry = []" by (simp add: sample_entry_def session_messages_def zero_context_def)
  have "sd_owner_id (se_metadata (ss_session sample_entry)) = ''al''" by (simp add: sample_entry_def sample_meta_def)
  with r none show ?thesis by (metis append_Nil)
qed

text \<open>
  A message that could not be written to the log is not in memory either: the
  error is returned and no session has changed.
\<close>

lemma failed_append_keeps_sessions:
  assumes "mg_lookup m sid = Inr s" and "ss_sm s \<noteq> StClosed" and "mg_store m = Some st"
    and "store_append io (sd_owner_id (se_metadata (ss_session s))) sid (fill_message gid t0 msg0) st = (Some e, st')"
  shows "mg_add_message io gid t0 t1 t2 sid msg0 m = (Some e, m\<lparr>mg_store := Some st'\<rparr>)
     \<and> mg_sessions (snd (mg_add_message io gid t0 t1 t2 sid msg0 m)) = mg_sessions m"
  using assms by (simp add: mg_add_message_def Let_def ss_is_terminal_def sm_is_terminal_def)

lemma failed_append_keeps_sessions_witness:
  "mg_sessions (snd (mg_add_message (IoFailBefore (PlainErr ''locked'')) ''g'' 5 6 7 ''s1'' sample_message one_session))
     = mg_sessions one_session"
proof -
  have look: "mg_lookup one_session ''s1'' = Inr sample_entry" by (simp add: mg_lookup_def)
  have h: "ss_sm sample_entry \<noteq> StClosed" "mg_store one_session = Some sample_store"
    "store_append (IoFailBefore (PlainErr ''locked'')) (sd_owner_id (se_metadata (ss_session sample_entry))) ''s1''
       (fill_message ''g'' 5 sample_message) sample_store = (Some (PlainErr ''locked''), sample_store)"
    by (simp_all add: sample_entry_def store_append_def sample_store_def sample_mgr_config_def)
  from failed_append_keeps_sessions [OF look h] show ?thesis by blast
qed

section \<open>Containers\<close>

lemma filter_absent: "x \<notin> set xs \<Longrightarrow> filter (\<lambda>c. c \<noteq> x) xs = xs"
  by (induction xs) auto

lemma mg_add_container_ok:
  assumes "mg_add_container t sid cid m = (None, m1)"
  shows "\<exists>s. mg_lookup m sid = Inr s \<and> cid \<notin> set (se_containers (ss_session s))
    \<and> m1 = mg_write sid (set_containers t (se_containers (ss_session s) @ [cid]) s) m"
proof (cases "mg_lookup m sid")
  case (Inr s)
  with assms show ?thesis
    by (cases "ss_is_terminal s"; cases "container_limit_hit (ss_session s)"; cases "cid \<in> set (se_containers (ss_session s))")
      (simp_all add: mg_add_container_def)
qed (use assms in \<open>simp add: mg_add_container_def\<close>)

lemma mg_remove_container_ok:
  assumes "mget (mg_sessions m) sid = Some s" and "\<not> mg_closed m" and "cid \<in> set (se_containers (ss_session s))"
  shows "mg_remove_container t sid cid m =
    (None, mg_write sid (set_containers t (filter (\<lambda>c. c \<noteq> cid) (se_containers (ss_session s))) s) m)"
  using assms by (simp add: mg_remove_container_def mg_lookup_def)

text \<open>
  A container that was added can be removed again, and that leaves the
  containers of the session, and every other session, as they were.
\<close>

lemma container_add_remove:
  assumes "mg_add_container t sid cid m = (None, m1)"
  shows "\<exists>m2 s s2. mg_remove_container t' sid cid m1 = (None, m2)
     \<and> mget (mg_sessions m) sid = Some s \<and> mget (mg_sessions m2) sid = Some s2
     \<and> se_containers (ss_session s2) = se_containers (ss_session s)
     \<and> (\<forall>k. k \<noteq> sid \<longrightarrow> mget (mg_sessions m2) k = mget (mg_sessions m) k)"
proof -
  from mg_add_container_ok [OF assms] obtain s where s: "mg_lookup m sid = Inr s"
    and fresh: "cid \<notin> set (se_containers (ss_session s))"
    and m1: "m1 = mg_write sid (set_containers t (se_containers (ss_session s) @ [cid]) s) m" by blast
  let ?s1 = "set_containers t (se_containers (ss_session s) @ [cid]) s"
  let ?s2 = "set_containers t' (se_containers (ss_session s)) ?s1"
  from fresh have same: "filter (\<lambda>c. c \<noteq> cid) (se_containers (ss_session s)) = se_containers (ss_session s)"
    by (rule filter_absent)
  from s have get: "mget (mg_sessions m) sid = Some s" and live: "\<not> mg_closed m" by (simp_all add: mg_lookup_Inr)
  have get1: "mget (mg_sessions m1) sid = Some ?s1" "\<not> mg_closed m1" "cid \<in> set (se_containers (ss_session ?s1))"
    using live by (simp_all add: m1 mg_write_def set_containers_def)
  have conts: "se_containers (ss_session ?s1) = se_containers (ss_session s) @ [cid]" by (simp add: set_containers_def)
  have "mg_remove_container t' sid cid m1 = (None, mg_write sid ?s2 m1)"
    using mg_remove_container_ok [OF get1, of t'] same by (simp only: conts) simp
  moreover have "mget (mg_sessions (mg_write sid ?s2 m1)) sid = Some ?s2" by (simp add: mg_write_def)
  moreover have "\<forall>k. k \<noteq> sid \<longrightarrow> mget (mg_sessions (mg_write sid ?s2 m1)) k = mget (mg_sessions m) k"
    by (simp add: mg_write_def m1)
  moreover have "se_containers (ss_session ?s2) = se_containers (ss_session s)" by (simp add: set_containers_def)
  ultimately show ?thesis using get by blast
qed

theorem container_add_remove_witness:
  "\<exists>m1 m2. mg_add_container 5 ''s1'' ''c1'' one_session = (None, m1) \<and> mg_remove_container 6 ''s1'' ''c1'' m1 = (None, m2)"
proof -
  obtain m1 where m1: "mg_add_container 5 ''s1'' ''c1'' one_session = (None, m1)"
    by (simp add: mg_add_container_def mg_lookup_def sample_entry_def ss_is_terminal_def sm_is_terminal_def
        container_limit_hit_def sample_scfg_def)
  from container_add_remove [OF this, of 6] m1 show ?thesis by blast
qed

section \<open>Restore\<close>

lemma restored_entry:
  assumes "mget (mg_sessions m) k = None" and "mget (mg_sessions (snd (mg_restore io m))) k = Some s"
  shows "\<exists>now owner msgs. s = new_session_sm (restored_session now owner k msgs)"
  using restored_over_restore [of m io] assms unfolding restored_over_def by (metis option.distinct(1) option.inject)

lemma restored_machine:
  "ss_sm (new_session_sm (restored_session now owner k msgs)) = StInitializing"
  "se_state (ss_session (new_session_sm (restored_session now owner k msgs))) = StIdle"
  by (simp_all add: new_session_sm_def new_state_machine_def restored_session_def Let_def)

text \<open>
  A restored session records the idle state but its machine starts afresh, and
  nothing ever activates it: after any run of calls that spares it the machine is
  initializing or closed, so validation refuses the session for ever.
\<close>

lemma restored_session_never_validates:
  assumes "mget (mg_sessions m) k = None" and "mget (mg_sessions (snd (mg_restore io m))) k = Some s"
    and "spares k cs"
  shows "se_state (ss_session s) = StIdle \<and> ss_sm s = StInitializing
     \<and> (\<exists>s'. mget (mg_sessions (foldl mg_exec (snd (mg_restore io m)) cs)) k = Some s'
          \<and> (ss_sm s' = StInitializing \<or> ss_sm s' = StClosed))
     \<and> mg_validate now k (foldl mg_exec (snd (mg_restore io m)) cs) \<noteq> None"
proof -
  from restored_entry [OF assms(1,2)] have s: "se_state (ss_session s) = StIdle" "ss_sm s = StInitializing"
    using restored_machine by auto
  from stuck_entry.run_keeps [OF assms(2) _ assms(3)] s(2) obtain s'
    where s': "mget (mg_sessions (foldl mg_exec (snd (mg_restore io m)) cs)) k = Some s'"
      "ss_sm s' = StInitializing \<or> ss_sm s' = StClosed" by blast
  then have "mg_validate now k (foldl mg_exec (snd (mg_restore io m)) cs) \<noteq> None"
    by (auto simp: mg_validate_def mg_lookup_def ss_is_active_def sm_is_active_def)
  with s s' show ?thesis by blast
qed

text \<open>A storage path with one owner and the log of one session.\<close>

definition sample_log_store :: store where
  "sample_log_store = sample_store\<lparr>st_files := [(''/data/al/s1.jsonl'', ''x'' @ [newline])]\<rparr>"

definition sample_io :: restore_io where
  "sample_io = \<lparr>ri_root = DirEntries [(''al'', True)], ri_owner = (\<lambda>_. DirEntries [(''s1.jsonl'', False)]),
     ri_read = (\<lambda>_ _. ReadOk), ri_now = (\<lambda>_ _. 50)\<rparr>"

lemma sample_restore:
  "mget (mg_sessions (snd (mg_restore sample_io (sample_mgr\<lparr>mg_store := Some sample_log_store\<rparr>)))) ''s1''
     = Some (new_session_sm (restored_session 50 ''al'' ''s1'' [sample_message]))"
  by code_simp

theorem restored_session_never_validates_witness:
  "mg_validate 60 ''s1'' (foldl mg_exec (snd (mg_restore sample_io (sample_mgr\<lparr>mg_store := Some sample_log_store\<rparr>)))
      [OpAddMessage IoOk ''g'' 55 55 55 ''s1'' sample_message]) \<noteq> None"
proof -
  have none: "mget (mg_sessions (sample_mgr\<lparr>mg_store := Some sample_log_store\<rparr>)) ''s1'' = None"
    by (simp add: sample_mgr_def)
  have "spares ''s1'' [OpAddMessage IoOk ''g'' 55 55 55 ''s1'' sample_message]" by (simp add: spares_def op_deletes_def)
  from restored_session_never_validates [OF none sample_restore this] show ?thesis by blast
qed

definition after_owner_change :: session_mgr where
  "after_owner_change = foldl mg_exec sample_mgr
     [OpCreate ''s1'' 1 1 2 sample_meta sample_scfg, OpAddMessage IoOk ''g'' 5 6 7 ''s1'' sample_message,
      OpUpdate 8 ''s1'' (sample_meta\<lparr>sd_owner_id := ''bo''\<rparr>), OpAddMessage IoOk ''g'' 9 10 11 ''s1'' sample_message]"

definition both_owners_io :: restore_io where
  "both_owners_io = sample_io\<lparr>ri_root := DirEntries [(''al'', True), (''bo'', True)]\<rparr>"

text \<open>
  Changing the owner of a session splits its log: the next message goes to the
  file of the new owner, and a restore brings back one of the two files only.  Here
  memory holds two messages and the restored session one.
\<close>

lemma owner_change_splits_log:
  "map_option session_messages (mget (mg_sessions after_owner_change) ''s1'') = Some [sample_message, sample_message]
   \<and> map_option session_messages
       (mget (mg_sessions (snd (mg_restore both_owners_io (sample_mgr\<lparr>mg_store := mg_store after_owner_change\<rparr>)))) ''s1'')
     = Some [sample_message]"
  by code_simp

section \<open>The state machine\<close>

text \<open>
  C16: The machine of a session: the transitions that \<open>ValidTransitions\<close> lists are
  those that \<open>CanTransition\<close> allows and \<open>Transition\<close> performs; whatever is
  requested from a known state leads to a known state; once closed it stays so; and
  closing is possible from each known state.
\<close>

theorem session_machine_runs:
  assumes "known_state cur"
  shows "known_state (foldl sm_exec cur targets)
     \<and> (cur = StClosed \<longrightarrow> foldl sm_exec cur targets = StClosed)
     \<and> sm_transition (foldl sm_exec cur targets) StClosed = Inr StClosed
     \<and> (\<forall>t. is_ok (sm_transition cur t) \<longleftrightarrow> t = cur \<or> t \<in> set (valid_transitions cur))"
proof -
  have known: "known_state (foldl sm_exec cur targets)" by (rule session_machine.run_good [OF assms])
  have shut: "cur = StClosed \<longrightarrow> foldl sm_exec cur targets = StClosed" by (simp add: session_machine.run_shut)
  have close: "sm_transition s StClosed = Inr StClosed" if "known_state s" for s
    using that by (cases s) (auto simp: sm_transition_def can_transition_def known_state_def)
  have "is_ok (sm_transition cur t) \<longleftrightarrow> t = cur \<or> t \<in> set (valid_transitions cur)" for t
    by (auto simp: sm_transition_def can_transition_iff_valid)
  with known shut close [OF known] show ?thesis by blast
qed

theorem session_machine_runs_witness:
  "known_state (foldl sm_exec new_state_machine [StActive, StClosing, StIdle])
   \<and> sm_transition (foldl sm_exec new_state_machine [StActive, StClosing, StIdle]) StClosed = Inr StClosed"
proof -
  have "known_state new_state_machine" by (simp add: new_state_machine_def known_state_def)
  from session_machine_runs [OF this, of "[StActive, StClosing, StIdle]"] show ?thesis by blast
qed

end
