(* ===== verification/Session_Shutdown.thy ===== *)
theory Session_Shutdown
  imports Main
begin

text \<open>
  \<open>Close\<close> and the clean-up goroutine: \<open>Close\<close> takes \<open>m.mu\<close>, closes
  \<open>stopCleanup\<close> and waits for the goroutine with the lock held; the goroutine
  waits for a tick or the stop, and on a tick takes \<open>m.mu\<close> for \<open>cleanup\<close>.
\<close>

datatype closer_pc = CloseStart | CloseLocked | CloseWaiting | CloseDone
datatype cleaner_pc = CleanSelect | CleanWantLock | CleanHolding | CleanDone
datatype lock_holder = LockFree | LockCloser | LockCleaner

record shutdown_state =
  sh_closer :: closer_pc
  sh_cleaner :: cleaner_pc
  sh_lock :: lock_holder
  sh_stop :: bool

inductive shutdown_step :: "shutdown_state \<Rightarrow> shutdown_state \<Rightarrow> bool" where
  close_lock: "sh_closer s = CloseStart \<Longrightarrow> sh_lock s = LockFree \<Longrightarrow>
     shutdown_step s (s\<lparr>sh_closer := CloseLocked, sh_lock := LockCloser\<rparr>)"
| close_stop: "sh_closer s = CloseLocked \<Longrightarrow> shutdown_step s (s\<lparr>sh_closer := CloseWaiting, sh_stop := True\<rparr>)"
| close_finish: "sh_closer s = CloseWaiting \<Longrightarrow> sh_cleaner s = CleanDone \<Longrightarrow>
     shutdown_step s (s\<lparr>sh_closer := CloseDone, sh_lock := LockFree\<rparr>)"
| clean_tick: "sh_cleaner s = CleanSelect \<Longrightarrow> shutdown_step s (s\<lparr>sh_cleaner := CleanWantLock\<rparr>)"
| clean_stop: "sh_cleaner s = CleanSelect \<Longrightarrow> sh_stop s \<Longrightarrow> shutdown_step s (s\<lparr>sh_cleaner := CleanDone\<rparr>)"
| clean_lock: "sh_cleaner s = CleanWantLock \<Longrightarrow> sh_lock s = LockFree \<Longrightarrow>
     shutdown_step s (s\<lparr>sh_cleaner := CleanHolding, sh_lock := LockCleaner\<rparr>)"
| clean_unlock: "sh_cleaner s = CleanHolding \<Longrightarrow>
     shutdown_step s (s\<lparr>sh_cleaner := CleanSelect, sh_lock := LockFree\<rparr>)"

inductive_simps shutdown_step_iff: "shutdown_step s s'"

definition shutdown_init :: shutdown_state where
  "shutdown_init = \<lparr>sh_closer = CloseStart, sh_cleaner = CleanSelect, sh_lock = LockFree, sh_stop = False\<rparr>"

inductive shutdown_reach :: "shutdown_state \<Rightarrow> bool" where
  sr_init: "shutdown_reach shutdown_init"
| sr_step: "shutdown_reach s \<Longrightarrow> shutdown_step s s' \<Longrightarrow> shutdown_reach s'"

definition shutdown_inv :: "shutdown_state \<Rightarrow> bool" where
  "shutdown_inv s \<longleftrightarrow> (sh_lock s = LockCloser \<longleftrightarrow> sh_closer s = CloseLocked \<or> sh_closer s = CloseWaiting)
     \<and> (sh_lock s = LockCleaner \<longleftrightarrow> sh_cleaner s = CleanHolding)
     \<and> (sh_stop s \<longleftrightarrow> sh_closer s = CloseWaiting \<or> sh_closer s = CloseDone)
     \<and> (sh_cleaner s = CleanDone \<longrightarrow> sh_stop s) \<and> (sh_closer s = CloseDone \<longrightarrow> sh_cleaner s = CleanDone)"

lemma shutdown_reach_inv: "shutdown_reach s \<Longrightarrow> shutdown_inv s"
proof (induction rule: shutdown_reach.induct)
  case (sr_step s s')
  from sr_step(2,3) show ?case by (induction rule: shutdown_step.induct) (auto simp: shutdown_inv_def)
qed (simp add: shutdown_inv_def shutdown_init_def)

definition shutdown_stuck :: "shutdown_state \<Rightarrow> bool" where
  "shutdown_stuck s \<longleftrightarrow> sh_closer s \<noteq> CloseDone \<and> (\<forall>s'. \<not> shutdown_step s s')"

definition deadlocked :: "shutdown_state \<Rightarrow> bool" where
  "deadlocked s \<longleftrightarrow> sh_closer s = CloseWaiting \<and> sh_cleaner s = CleanWantLock"

lemma deadlocked_reachable: "\<exists>s. shutdown_reach s \<and> deadlocked s"
proof -
  let ?s1 = "shutdown_init\<lparr>sh_closer := CloseLocked, sh_lock := LockCloser\<rparr>"
  let ?s2 = "?s1\<lparr>sh_cleaner := CleanWantLock\<rparr>"
  let ?s3 = "?s2\<lparr>sh_closer := CloseWaiting, sh_stop := True\<rparr>"
  have "shutdown_reach ?s1" by (rule sr_step [OF sr_init close_lock]) (simp_all add: shutdown_init_def)
  then have "shutdown_reach ?s2" by (rule sr_step [OF _ clean_tick]) (simp add: shutdown_init_def)
  then have "shutdown_reach ?s3" by (rule sr_step [OF _ close_stop]) simp
  then show ?thesis unfolding deadlocked_def by (intro exI [of _ ?s3]) (simp add: shutdown_init_def)
qed

lemma stuck_iff_deadlocked: "shutdown_inv s \<Longrightarrow> shutdown_stuck s \<longleftrightarrow> deadlocked s"
proof -
  assume inv: "shutdown_inv s"
  obtain c g l st where s: "s = \<lparr>sh_closer = c, sh_cleaner = g, sh_lock = l, sh_stop = st\<rparr>" by (cases s) auto
  from inv show ?thesis
    unfolding s shutdown_stuck_def deadlocked_def shutdown_step_iff shutdown_inv_def
    by (cases c; cases g; cases l) auto
qed

text \<open>
  C39: Shutting the manager down can deadlock, in one way: a tick comes before the
  stop is seen, so \<open>Close\<close> waits for the goroutine with the lock the goroutine
  waits for.  That state is reachable, and among the reachable states it is exactly
  the one in which \<open>Close\<close> has not returned and no step is possible.
\<close>

theorem close_can_deadlock:
  "(\<exists>s. shutdown_reach s \<and> shutdown_stuck s)
   \<and> (\<forall>s. shutdown_reach s \<longrightarrow> (shutdown_stuck s \<longleftrightarrow> sh_closer s = CloseWaiting \<and> sh_cleaner s = CleanWantLock))"
  using deadlocked_reachable stuck_iff_deadlocked shutdown_reach_inv by (auto simp: deadlocked_def)

theorem close_can_deadlock_witness:
  "shutdown_stuck shutdown_init \<longleftrightarrow> sh_closer shutdown_init = CloseWaiting \<and> sh_cleaner shutdown_init = CleanWantLock"
  using close_can_deadlock sr_init by blast

end
