(* ===== verification/Go_Heap.thy ===== *)
theory Go_Heap
  imports "HOL-Library.Multiset" Prelude
begin

text \<open>
  The package container/heap on a slice, as the task queue uses it: \<open>lt\<close> compares
  two elements, a heap is a list, and each function returns the list it leaves.
  The locale states what \<open>lt\<close> must satisfy and holds the correctness of the
  operations; the queue of tasks interprets it.
\<close>

definition swap :: "nat \<Rightarrow> nat \<Rightarrow> 'a list \<Rightarrow> 'a list" where
  "swap i j xs = xs[i := xs ! j, j := xs ! i]"

definition parent :: "nat \<Rightarrow> nat" where
  "parent j = (j - 1) div 2"

function heap_up :: "('a \<Rightarrow> 'a \<Rightarrow> bool) \<Rightarrow> 'a list \<Rightarrow> nat \<Rightarrow> 'a list" where
  "heap_up lt xs j =
     (let i = parent j in
      if i = j \<or> \<not> lt (xs ! j) (xs ! i) then xs else heap_up lt (swap i j xs) i)"
  by pat_completeness auto
termination
  by (relation "measure (\<lambda>(lt, xs, j). j)") (auto simp: parent_def)

definition smaller_child :: "('a \<Rightarrow> 'a \<Rightarrow> bool) \<Rightarrow> 'a list \<Rightarrow> nat \<Rightarrow> nat \<Rightarrow> nat" where
  "smaller_child lt xs i n =
     (if 2 * i + 2 < n \<and> lt (xs ! (2 * i + 2)) (xs ! (2 * i + 1)) then 2 * i + 2 else 2 * i + 1)"

function heap_down :: "('a \<Rightarrow> 'a \<Rightarrow> bool) \<Rightarrow> 'a list \<Rightarrow> nat \<Rightarrow> nat \<Rightarrow> 'a list" where
  "heap_down lt xs i n =
     (if 2 * i + 1 \<ge> n then xs
      else let j = smaller_child lt xs i n in
        if \<not> lt (xs ! j) (xs ! i) then xs else heap_down lt (swap i j xs) j n)"
  by pat_completeness auto
termination
  by (relation "measure (\<lambda>(lt, xs, i, n). n - i)") (auto simp: smaller_child_def)

declare heap_up.simps [simp del] heap_down.simps [simp del]

definition heap_init :: "('a \<Rightarrow> 'a \<Rightarrow> bool) \<Rightarrow> 'a list \<Rightarrow> 'a list" where
  "heap_init lt xs = fold (\<lambda>i ys. heap_down lt ys i (length xs)) (rev [0..<length xs div 2]) xs"

definition heap_push :: "('a \<Rightarrow> 'a \<Rightarrow> bool) \<Rightarrow> 'a list \<Rightarrow> 'a \<Rightarrow> 'a list" where
  "heap_push lt xs x = heap_up lt (xs @ [x]) (length xs)"

definition heap_pop :: "('a \<Rightarrow> 'a \<Rightarrow> bool) \<Rightarrow> 'a list \<Rightarrow> 'a \<times> 'a list" where
  "heap_pop lt xs =
     (let n = length xs - 1; ys = heap_down lt (swap 0 n xs) 0 n in (last ys, butlast ys))"

section \<open>The elements stay\<close>

lemma length_swap [simp]: "length (swap i j xs) = length xs"
  by (simp add: swap_def)

lemma mset_swap_eq [simp]: "i < length xs \<Longrightarrow> j < length xs \<Longrightarrow> mset (swap i j xs) = mset xs"
  by (simp add: swap_def mset_swap)

lemma nth_swap:
  "i < length xs \<Longrightarrow> j < length xs \<Longrightarrow> k < length xs \<Longrightarrow>
   swap i j xs ! k = (if k = i then xs ! j else if k = j then xs ! i else xs ! k)"
  by (auto simp: swap_def nth_list_update)

lemma parent_less: "0 < j \<Longrightarrow> parent j < j"
  by (auto simp: parent_def)

lemma smaller_child_bounds:
  assumes "2 * i + 1 < n"
  shows "i < smaller_child lt xs i n" "smaller_child lt xs i n < n" "parent (smaller_child lt xs i n) = i"
  using assms by (auto simp: smaller_child_def parent_def)

lemma parent_eq_iff: "0 < k \<Longrightarrow> parent k = i \<longleftrightarrow> k = 2 * i + 1 \<or> k = 2 * i + 2"
  by (auto simp: parent_def)

lemma length_heap_down [simp]: "length (heap_down lt xs i n) = length xs"
proof (induction lt xs i n rule: heap_down.induct)
  case (1 lt xs i n)
  then show ?case by (subst heap_down.simps) (auto simp: Let_def)
qed

lemma mset_heap_down: "n \<le> length xs \<Longrightarrow> mset (heap_down lt xs i n) = mset xs"
proof (induction lt xs i n rule: heap_down.induct)
  case (1 lt xs i n)
  show ?case
  proof (cases "2 * i + 1 \<ge> n \<or> \<not> lt (xs ! smaller_child lt xs i n) (xs ! i)")
    case True
    then show ?thesis by (subst heap_down.simps) (auto simp: Let_def)
  next
    case False
    let ?j = "smaller_child lt xs i n"
    from False have b: "i < ?j" "?j < n" using smaller_child_bounds [of i n lt xs] by auto
    with 1 False have "mset (heap_down lt (swap i ?j xs) ?j n) = mset (swap i ?j xs)" by simp
    with b 1(2) False show ?thesis by (subst heap_down.simps) (simp add: Let_def)
  qed
qed

text \<open>Positions from \<open>n\<close> on, and those before \<open>i\<close>, are not touched.\<close>

lemma heap_down_frame: "n \<le> length xs \<Longrightarrow> k < length xs \<Longrightarrow> n \<le> k \<or> k < i \<Longrightarrow> heap_down lt xs i n ! k = xs ! k"
proof (induction lt xs i n rule: heap_down.induct)
  case (1 lt xs i n)
  show ?case
  proof (cases "2 * i + 1 \<ge> n \<or> \<not> lt (xs ! smaller_child lt xs i n) (xs ! i)")
    case True
    then show ?thesis by (subst heap_down.simps) (auto simp: Let_def)
  next
    case False
    let ?j = "smaller_child lt xs i n"
    from False have b: "i < ?j" "?j < n" using smaller_child_bounds [of i n lt xs] by auto
    with 1 False have "heap_down lt (swap i ?j xs) ?j n ! k = swap i ?j xs ! k" by auto
    also have "\<dots> = xs ! k" using b 1(2-4) by (auto simp: nth_swap)
    finally show ?thesis using False by (subst heap_down.simps) (simp add: Let_def)
  qed
qed

lemma mset_heap_up: "j < length xs \<Longrightarrow> mset (heap_up lt xs j) = mset xs"
proof (induction lt xs j rule: heap_up.induct)
  case (1 lt xs j)
  then show ?case
    using parent_less [of j] by (subst heap_up.simps) (auto simp: Let_def parent_def)
qed

lemma length_heap_up [simp]: "j < length xs \<Longrightarrow> length (heap_up lt xs j) = length xs"
  using mset_heap_up by (metis size_mset)

lemma heap_init_fold:
  "n \<le> length xs \<Longrightarrow> mset (fold (\<lambda>i ys. heap_down lt ys i n) is xs) = mset xs"
  by (induction "is" arbitrary: xs) (simp_all add: mset_heap_down)

lemma mset_heap_init [simp]: "mset (heap_init lt xs) = mset xs"
  by (simp add: heap_init_def heap_init_fold)

lemma mset_heap_push [simp]: "mset (heap_push lt xs x) = add_mset x (mset xs)"
  by (simp add: heap_push_def mset_heap_up)

lemma heap_pop_split:
  assumes "xs \<noteq> []"
  shows "fst (heap_pop lt xs) = hd xs" "add_mset (hd xs) (mset (snd (heap_pop lt xs))) = mset xs"
proof -
  let ?n = "length xs - 1" let ?ys = "heap_down lt (swap 0 ?n xs) 0 ?n"
  from assms have n: "?n < length xs" "0 < length xs" by auto
  then have ne: "?ys \<noteq> []" by (metis length_0_conv length_greater_0_conv length_heap_down length_swap)
  then have "last ?ys = ?ys ! ?n" by (simp add: last_conv_nth)
  also have "\<dots> = swap 0 ?n xs ! ?n" using n by (intro heap_down_frame) auto
  also have "\<dots> = hd xs" using n assms by (simp add: nth_swap hd_conv_nth)
  finally have last: "last ?ys = hd xs" .
  then show "fst (heap_pop lt xs) = hd xs" by (simp add: heap_pop_def Let_def)
  have "mset ?ys = mset xs" using n by (simp add: mset_heap_down)
  moreover have "mset ?ys = add_mset (last ?ys) (mset (butlast ?ys))"
    by (subst append_butlast_last_id [OF ne, symmetric], subst mset_append) simp
  ultimately show "add_mset (hd xs) (mset (snd (heap_pop lt xs))) = mset xs"
    using last by (simp add: heap_pop_def Let_def)
qed

section \<open>The heap order\<close>

text \<open>\<open>heap_from lt l n xs\<close>: no element below \<open>n\<close> whose parent is at \<open>l\<close> or after comes before its parent.\<close>

definition heap_from :: "('a \<Rightarrow> 'a \<Rightarrow> bool) \<Rightarrow> nat \<Rightarrow> nat \<Rightarrow> 'a list \<Rightarrow> bool" where
  "heap_from lt l n xs \<longleftrightarrow> (\<forall>k. 0 < k \<and> k < n \<and> l \<le> parent k \<longrightarrow> \<not> lt (xs ! k) (xs ! parent k))"

definition is_heap :: "('a \<Rightarrow> 'a \<Rightarrow> bool) \<Rightarrow> 'a list \<Rightarrow> bool" where
  "is_heap lt xs = heap_from lt 0 (length xs) xs"

lemma is_heap_Nil [simp]: "is_heap lt []"
  by (simp add: is_heap_def heap_from_def)

lemma is_heap_cong:
  "(\<And>a b. a \<in> set xs \<Longrightarrow> b \<in> set xs \<Longrightarrow> lt a b = lt' a b) \<Longrightarrow> is_heap lt xs = is_heap lt' xs"
  unfolding is_heap_def heap_from_def
  by (metis bot_nat_0.extremum nth_mem order.strict_trans parent_less)

locale weak_order =
  fixes lt :: "'a \<Rightarrow> 'a \<Rightarrow> bool"
  assumes less_asym: "lt a b \<Longrightarrow> \<not> lt b a"
    and less_negtrans: "\<not> lt a b \<Longrightarrow> \<not> lt b c \<Longrightarrow> \<not> lt a c"
begin

lemma less_trans: "lt a b \<Longrightarrow> lt b c \<Longrightarrow> lt a c"
  using less_asym less_negtrans by blast

text \<open>Sifting down: the order holds from \<open>l\<close> on except at the children of \<open>i\<close>, which respect the parent of \<open>i\<close>.\<close>

definition down_inv :: "nat \<Rightarrow> nat \<Rightarrow> nat \<Rightarrow> 'a list \<Rightarrow> bool" where
  "down_inv l i n xs \<longleftrightarrow>
     (\<forall>k. 0 < k \<and> k < n \<and> l \<le> parent k \<and> parent k \<noteq> i \<longrightarrow> \<not> lt (xs ! k) (xs ! parent k))
     \<and> (\<forall>k. 0 < k \<and> k < n \<and> parent k = i \<and> 0 < i \<and> l \<le> parent i \<longrightarrow> \<not> lt (xs ! k) (xs ! parent i))"

lemma smaller_child_min:
  assumes "0 < k" "k < n" "parent k = i" "2 * i + 1 < n"
  shows "\<not> lt (xs ! k) (xs ! smaller_child lt xs i n)"
  using assms less_asym by (auto simp: smaller_child_def parent_eq_iff)

lemma down_inv_step:
  assumes inv: "down_inv l i n xs" and n: "n \<le> length xs" "2 * i + 1 < n" and li: "l \<le> i"
    and lt: "lt (xs ! smaller_child lt xs i n) (xs ! i)"
  shows "down_inv l (smaller_child lt xs i n) n (swap i (smaller_child lt xs i n) xs)"
proof -
  let ?j = "smaller_child lt xs i n"
  have j: "i < ?j" "?j < n" "parent ?j = i" using smaller_child_bounds [OF n(2), of lt xs] by auto
  have A: "\<not> lt (swap i ?j xs ! k) (swap i ?j xs ! parent k)"
    if k: "0 < k" "k < n" "l \<le> parent k" "parent k \<noteq> ?j" for k
  proof -
    have pk: "parent k < k" using k(1) by (rule parent_less)
    consider (child) "parent k = i" | (here) "k = i" | (other) "parent k \<noteq> i" "k \<noteq> i" by blast
    then show ?thesis
    proof cases
      case child
      then have "\<not> lt (xs ! k) (xs ! ?j)" using smaller_child_min k n by blast
      then show ?thesis using child k j n pk lt less_asym by (auto simp: nth_swap)
    next
      case here
      then have "\<not> lt (xs ! ?j) (xs ! parent i)" using inv j k unfolding down_inv_def by auto
      then show ?thesis using here k j n pk by (auto simp: nth_swap)
    next
      case other
      have "k \<noteq> ?j" using other j by auto
      then show ?thesis using other k j n pk inv unfolding down_inv_def by (auto simp: nth_swap)
    qed
  qed
  have B: "\<not> lt (swap i ?j xs ! k) (swap i ?j xs ! parent ?j)" if k: "0 < k" "k < n" "parent k = ?j" for k
  proof -
    have "\<not> lt (xs ! k) (xs ! ?j)" using inv k j li unfolding down_inv_def by (metis order.strict_implies_order order.strict_trans1 less_irrefl_nat)
    moreover have "k \<noteq> i" "k \<noteq> ?j" using parent_less [OF k(1)] k j by auto
    ultimately show ?thesis using k j n by (auto simp: nth_swap)
  qed
  show ?thesis unfolding down_inv_def using A B by blast
qed

lemma heap_down_order: "n \<le> length xs \<Longrightarrow> l \<le> i \<Longrightarrow> down_inv l i n xs \<Longrightarrow> heap_from lt l n (heap_down lt xs i n)"
proof (induction "n - i" arbitrary: xs i rule: less_induct)
  case less
  show ?case
  proof (cases "2 * i + 1 \<ge> n \<or> \<not> lt (xs ! smaller_child lt xs i n) (xs ! i)")
    case stop: True
    have "\<not> lt (xs ! k) (xs ! parent k)" if k: "0 < k" "k < n" "l \<le> parent k" for k
    proof (cases "parent k = i")
      case True
      then have "2 * i + 1 < n" using k by (auto simp: parent_eq_iff)
      then show ?thesis using stop smaller_child_min [OF k(1,2) True] less_negtrans True by (metis not_less)
    next
      case False
      then show ?thesis using less(4) k unfolding down_inv_def by blast
    qed
    with stop show ?thesis by (subst heap_down.simps) (auto simp: Let_def heap_from_def)
  next
    case False
    let ?j = "smaller_child lt xs i n"
    have j: "i < ?j" "?j < n" using smaller_child_bounds [of i n lt xs] False by auto
    have "down_inv l ?j n (swap i ?j xs)" using down_inv_step less(2-4) False by auto
    then have "heap_from lt l n (heap_down lt (swap i ?j xs) ?j n)" using less(1) [of ?j "swap i ?j xs"] j less(2,3) by auto
    with False show ?thesis by (subst heap_down.simps) (simp add: Let_def)
  qed
qed

lemma heap_down_from: "n \<le> length xs \<Longrightarrow> heap_from lt (Suc i) n xs \<Longrightarrow> heap_from lt i n (heap_down lt xs i n)"
proof (rule heap_down_order)
  assume "heap_from lt (Suc i) n xs"
  then show "down_inv i i n xs"
    unfolding down_inv_def heap_from_def using parent_less by (metis Suc_leI le_neq_implies_less not_less)
qed simp_all

lemma heap_init_order: "is_heap lt (heap_init lt xs)"
proof -
  let ?n = "length xs"
  have "heap_from lt 0 ?n (fold (\<lambda>i ys. heap_down lt ys i ?n) (rev [0..<m]) ys)"
    if "heap_from lt m ?n ys" "length ys = ?n" for m ys
    using that by (induction m arbitrary: ys) (simp_all add: heap_down_from)
  moreover have "heap_from lt (?n div 2) ?n xs" by (auto simp: heap_from_def parent_def)
  ultimately have "heap_from lt 0 ?n (heap_init lt xs)" by (simp add: heap_init_def)
  moreover have "length (heap_init lt xs) = ?n" by (metis mset_heap_init size_mset)
  ultimately show ?thesis by (simp add: is_heap_def)
qed

text \<open>Sifting up: the order holds except at \<open>j\<close>, whose children respect its parent.\<close>

definition up_inv :: "nat \<Rightarrow> 'a list \<Rightarrow> bool" where
  "up_inv j xs \<longleftrightarrow>
     (\<forall>k. 0 < k \<and> k < length xs \<and> k \<noteq> j \<longrightarrow> \<not> lt (xs ! k) (xs ! parent k))
     \<and> (\<forall>k. 0 < k \<and> k < length xs \<and> parent k = j \<and> 0 < j \<longrightarrow> \<not> lt (xs ! k) (xs ! parent j))"

lemma up_inv_step:
  assumes inv: "up_inv j xs" and j: "0 < j" "j < length xs" and lt: "lt (xs ! j) (xs ! parent j)"
  shows "up_inv (parent j) (swap (parent j) j xs)"
proof -
  let ?i = "parent j"
  have i: "?i < j" using j(1) by (rule parent_less)
  have A: "\<not> lt (swap ?i j xs ! k) (swap ?i j xs ! parent k)" if k: "0 < k" "k < length xs" "k \<noteq> ?i" for k
  proof -
    have pk: "parent k < k" using k(1) by (rule parent_less)
    consider (here) "k = j" | (sib) "k \<noteq> j" "parent k = ?i" | (child) "parent k = j" | (other) "k \<noteq> j" "parent k \<noteq> ?i" "parent k \<noteq> j"
      by blast
    then show ?thesis
    proof cases
      case here
      then show ?thesis using less_asym [OF lt] i j by (simp add: nth_swap)
    next
      case sib
      have "\<not> lt (xs ! k) (xs ! ?i)" using inv sib k unfolding up_inv_def by metis
      moreover have "\<not> lt (xs ! ?i) (xs ! j)" using less_asym [OF lt] .
      ultimately have "\<not> lt (xs ! k) (xs ! j)" by (rule less_negtrans)
      then show ?thesis using sib i j k by (simp add: nth_swap)
    next
      case child
      then have "\<not> lt (xs ! k) (xs ! ?i)" using inv k j unfolding up_inv_def by metis
      then show ?thesis using child i j k pk by (simp add: nth_swap)
    next
      case other
      then have "\<not> lt (xs ! k) (xs ! parent k)" using inv k unfolding up_inv_def by metis
      then show ?thesis using other i j k pk by (simp add: nth_swap)
    qed
  qed
  have B: "\<not> lt (swap ?i j xs ! k) (swap ?i j xs ! parent ?i)"
    if k: "0 < k" "k < length xs" "parent k = ?i" "0 < ?i" for k
  proof -
    have ppi: "parent ?i < ?i" using k(4) by (rule parent_less)
    have up: "\<not> lt (xs ! ?i) (xs ! parent ?i)" using inv k(4) i j unfolding up_inv_def by (metis less_irrefl_nat order.strict_trans)
    show ?thesis
    proof (cases "k = j")
      case True
      then show ?thesis using up ppi i j by (simp add: nth_swap)
    next
      case False
      have "\<not> lt (xs ! k) (xs ! ?i)" using inv False k unfolding up_inv_def by metis
      then have "\<not> lt (xs ! k) (xs ! parent ?i)" using up less_negtrans by blast
      moreover have "k \<noteq> ?i" using parent_less [OF k(1)] k by auto
      ultimately show ?thesis using False ppi i j k by (simp add: nth_swap)
    qed
  qed
  show ?thesis unfolding up_inv_def using A B by simp
qed

lemma heap_up_order: "j < length xs \<Longrightarrow> up_inv j xs \<Longrightarrow> is_heap lt (heap_up lt xs j)"
proof (induction j arbitrary: xs rule: less_induct)
  case (less j)
  show ?case
  proof (cases "parent j = j \<or> \<not> lt (xs ! j) (xs ! parent j)")
    case True
    then have "\<not> lt (xs ! j) (xs ! parent j)" if "0 < j" using that parent_less [of j] by auto
    then have "is_heap lt xs" using less(3) unfolding is_heap_def heap_from_def up_inv_def by metis
    with True show ?thesis by (subst heap_up.simps) (auto simp: Let_def)
  next
    case False
    then have j: "0 < j" "parent j < j" using parent_less [of j] by (auto simp: parent_def)
    have "is_heap lt (heap_up lt (swap (parent j) j xs) (parent j))"
      using less j up_inv_step False by (intro less(1)) auto
    with False show ?thesis by (subst heap_up.simps) (simp add: Let_def)
  qed
qed

lemma heap_push_order: "is_heap lt xs \<Longrightarrow> is_heap lt (heap_push lt xs x)"
proof -
  assume h: "is_heap lt xs"
  have "up_inv (length xs) (xs @ [x])"
    unfolding up_inv_def
  proof (intro conjI allI impI)
    fix k assume k: "0 < k \<and> k < length (xs @ [x]) \<and> k \<noteq> length xs"
    then have "k < length xs" "parent k < length xs" using parent_less [of k] by auto
    then show "\<not> lt ((xs @ [x]) ! k) ((xs @ [x]) ! parent k)"
      using h k by (auto simp: is_heap_def heap_from_def nth_append)
  next
    fix k assume "0 < k \<and> k < length (xs @ [x]) \<and> parent k = length xs \<and> 0 < length xs"
    then show "\<not> lt ((xs @ [x]) ! k) ((xs @ [x]) ! parent (length xs))"
      using parent_less [of k] by auto
  qed
  then show ?thesis by (simp add: heap_push_def heap_up_order)
qed

lemma heap_root_min:
  assumes "is_heap lt xs" and "k < length xs"
  shows "\<not> lt (xs ! k) (xs ! 0)"
  using assms(2)
proof (induction k rule: less_induct)
  case (less k)
  show ?case
  proof (cases "k = 0")
    case True
    then show ?thesis using less_asym by auto
  next
    case False
    then have p: "parent k < k" by (simp add: parent_less)
    with less have "\<not> lt (xs ! parent k) (xs ! 0)" by auto
    moreover have "\<not> lt (xs ! k) (xs ! parent k)"
      using assms(1) less(2) False by (simp add: is_heap_def heap_from_def)
    ultimately show ?thesis using less_negtrans by blast
  qed
qed

lemma heap_hd_min: "is_heap lt xs \<Longrightarrow> x \<in> set xs \<Longrightarrow> \<not> lt x (hd xs)"
  using heap_root_min by (metis hd_conv_nth in_set_conv_nth length_greater_0_conv length_pos_if_in_set)

lemma heap_pop_order: "is_heap lt xs \<Longrightarrow> xs \<noteq> [] \<Longrightarrow> is_heap lt (snd (heap_pop lt xs))"
proof -
  assume h: "is_heap lt xs" and ne: "xs \<noteq> []"
  let ?n = "length xs - 1" let ?ys = "heap_down lt (swap 0 ?n xs) 0 ?n"
  from ne have n: "?n < length xs" "0 < length xs" by auto
  have "down_inv 0 0 ?n (swap 0 ?n xs)"
    unfolding down_inv_def
  proof (intro conjI allI impI)
    fix k assume k: "0 < k \<and> k < ?n \<and> 0 \<le> parent k \<and> parent k \<noteq> 0"
    then have "parent k < k" by (simp add: parent_less)
    then show "\<not> lt (swap 0 ?n xs ! k) (swap 0 ?n xs ! parent k)"
      using h k n by (auto simp: is_heap_def heap_from_def nth_swap)
  qed simp
  then have "heap_from lt 0 ?n ?ys" using n by (intro heap_down_order) auto
  then have "heap_from lt 0 ?n (butlast ?ys)"
    unfolding heap_from_def by (auto simp: nth_butlast dest: parent_less)
  then show ?thesis by (simp add: heap_pop_def Let_def is_heap_def)
qed

end

end
