(* ===== verification/Task_Queue.thy ===== *)
theory Task_Queue
  imports Go_Heap Go_Types
begin

text \<open>
  pkg/scheduler/queue.go: the priority queue of tasks.  Tasks are shared objects:
  the queue and the scheduler hold references, so a task is a reference into a
  store \<open>nat \<Rightarrow> task\<close> that the operations pass along.  A method runs under
  \<open>q.mu\<close> and is one step.  The handler and the context of a task, and metadata that
  no code reads, are left out of the record.
\<close>

section \<open>Tasks\<close>

datatype task_status = TaskPending | TaskQueued | TaskRunning | TaskCompleted | TaskFailed | TaskCanceled

definition priority_low :: int where "priority_low = 0"
definition priority_normal :: int where "priority_normal = 1"
definition priority_high :: int where "priority_high = 2"

record task =
  tk_id :: id
  tk_name :: string
  tk_priority :: int
  tk_session :: "id option"
  tk_status :: task_status
  tk_created :: timestamp
  tk_started :: "timestamp option"
  tk_completed :: "timestamp option"
  tk_error :: string
  tk_retries :: int
  tk_max_retries :: int
  tk_timeout :: duration

type_synonym ref = nat
type_synonym task_store = "ref \<Rightarrow> task"

definition task_less :: "task \<Rightarrow> task \<Rightarrow> bool" where
  "task_less a b =
     (if tk_priority a \<noteq> tk_priority b then tk_priority a > tk_priority b else tk_created a < tk_created b)"

definition ref_less :: "task_store \<Rightarrow> ref \<Rightarrow> ref \<Rightarrow> bool" where
  "ref_less mem a b = task_less (mem a) (mem b)"

section \<open>The queue\<close>

record queue =
  q_pq :: "ref list"
  q_tasks :: "(id, ref) gomap"
  q_notify :: bool
  q_closed :: bool
  q_max :: int

definition new_queue :: "task_store \<Rightarrow> int \<Rightarrow> queue" where
  "new_queue mem n = \<lparr>q_pq = heap_init (ref_less mem) [], q_tasks = [], q_notify = False, q_closed = False, q_max = n\<rparr>"

text \<open>\<open>gid\<close> and \<open>now\<close>: the identifier and timestamp a task without them gets.\<close>

definition fill_task :: "id \<Rightarrow> timestamp \<Rightarrow> task \<Rightarrow> task" where
  "fill_task gid now t =
     (let t1 = (if id_is_empty (tk_id t) then t\<lparr>tk_id := gid\<rparr> else t);
          t2 = (if ts_is_zero (tk_created t1) then t1\<lparr>tk_created := now\<rparr> else t1)
      in t2\<lparr>tk_status := TaskQueued\<rparr>)"

definition q_full :: "queue \<Rightarrow> bool" where
  "q_full q \<longleftrightarrow> q_max q > 0 \<and> mlen (q_tasks q) \<ge> q_max q"

definition enqueue ::
    "id \<Rightarrow> timestamp \<Rightarrow> ref \<Rightarrow> task_store \<Rightarrow> queue \<Rightarrow> go_error option \<times> task_store \<times> queue" where
  "enqueue gid now r mem q =
     (if q_closed q then (Some (new_error ErrUnavailable), mem, q)
      else if q_full q then (Some (new_error ErrResourceExhausted), mem, q)
      else
        let mem1 = mem(r := fill_task gid now (mem r)) in
        (None, mem1, q\<lparr>q_tasks := mput (tk_id (mem1 r)) r (q_tasks q),
           q_pq := heap_push (ref_less mem1) (q_pq q) r, q_notify := True\<rparr>))"

definition try_dequeue :: "task_store \<Rightarrow> queue \<Rightarrow> ref result \<times> queue" where
  "try_dequeue mem q =
     (if q_closed q then (Inl (new_error ErrUnavailable), q)
      else if length (q_pq q) = 0 then (Inl (new_error ErrResourceExhausted), q)
      else case heap_pop (ref_less mem) (q_pq q) of
          (r, pq) \<Rightarrow> (Inr r, q\<lparr>q_pq := pq, q_tasks := mdel (tk_id (mem r)) (q_tasks q)\<rparr>))"

text \<open>
  One round of \<open>Dequeue\<close>: \<open>None\<close> is waiting for a notification.  A waiter is woken
  by the notification, which it takes, or by its context.
\<close>

definition dequeue_round :: "task_store \<Rightarrow> queue \<Rightarrow> ref result option \<times> queue" where
  "dequeue_round mem q =
     (case try_dequeue mem q of
        (Inl e, q1) \<Rightarrow>
          if is_err_code e ErrResourceExhausted \<and> \<not> q_closed q1 then (None, q1) else (Some (Inl e), q1)
      | (Inr r, q1) \<Rightarrow> (Some (Inr r), q1))"

datatype wake = WakeNotified | WakeCanceled go_error

definition dequeue_wake :: "wake \<Rightarrow> queue \<Rightarrow> ref result option \<times> queue" where
  "dequeue_wake w q =
     (case w of
        WakeNotified \<Rightarrow> (None, if q_closed q then q else q\<lparr>q_notify := False\<rparr>)
      | WakeCanceled e \<Rightarrow> (Some (Inl (wrap_error ErrCanceled e)), q))"

definition queue_peek :: "queue \<Rightarrow> ref result" where
  "queue_peek q =
     (if q_closed q then Inl (new_error ErrUnavailable)
      else if length (q_pq q) = 0 then Inl (new_error ErrNotFound)
      else Inr (q_pq q ! 0))"

definition cancel_task :: "ref \<Rightarrow> task_store \<Rightarrow> task_store" where
  "cancel_task r mem = mem(r := (mem r)\<lparr>tk_status := TaskCanceled\<rparr>)"

definition queue_remove :: "id \<Rightarrow> task_store \<Rightarrow> queue \<Rightarrow> go_error option \<times> task_store \<times> queue" where
  "queue_remove tid mem q =
     (if q_closed q then (Some (new_error ErrUnavailable), mem, q)
      else case mget (q_tasks q) tid of
          None \<Rightarrow> (Some (new_error ErrNotFound), mem, q)
        | Some r \<Rightarrow>
            let mem1 = cancel_task r mem in
            (None, mem1, q\<lparr>q_tasks := mdel tid (q_tasks q),
               q_pq := heap_init (ref_less mem1) (filter (\<lambda>t. tk_id (mem1 t) \<noteq> tid) (q_pq q))\<rparr>))"

definition queue_get :: "id \<Rightarrow> queue \<Rightarrow> ref result" where
  "queue_get tid q = (case mget (q_tasks q) tid of None \<Rightarrow> Inl (new_error ErrNotFound) | Some r \<Rightarrow> Inr r)"

definition queue_list :: "queue \<Rightarrow> ref list" where
  "queue_list q = mvals (q_tasks q)"

definition queue_size :: "queue \<Rightarrow> int" where
  "queue_size q = mlen (q_tasks q)"

definition queue_is_empty :: "queue \<Rightarrow> bool" where
  "queue_is_empty q \<longleftrightarrow> mlen (q_tasks q) = 0"

definition queue_close :: "queue \<Rightarrow> queue" where
  "queue_close q = (if q_closed q then q else q\<lparr>q_closed := True\<rparr>)"

definition queue_clear :: "task_store \<Rightarrow> queue \<Rightarrow> task_store \<times> queue" where
  "queue_clear mem q =
     (let mem1 = fold cancel_task (mvals (q_tasks q)) mem
      in (mem1, q\<lparr>q_pq := heap_init (ref_less mem1) [], q_tasks := []\<rparr>))"

definition update_priority :: "id \<Rightarrow> int \<Rightarrow> task_store \<Rightarrow> queue \<Rightarrow> go_error option \<times> task_store \<times> queue" where
  "update_priority tid p mem q =
     (if q_closed q then (Some (new_error ErrUnavailable), mem, q)
      else case mget (q_tasks q) tid of
          None \<Rightarrow> (Some (new_error ErrNotFound), mem, q)
        | Some r \<Rightarrow>
            let mem1 = mem(r := (mem r)\<lparr>tk_priority := p\<rparr>) in
            (None, mem1, q\<lparr>q_pq := heap_init (ref_less mem1) (q_pq q)\<rparr>))"

record queue_stats =
  qs_size :: int
  qs_max :: int
  qs_closed :: bool
  qs_priority :: "(int, nat) gomap"

definition count_priority :: "task_store \<Rightarrow> ref \<Rightarrow> (int, nat) gomap \<Rightarrow> (int, nat) gomap" where
  "count_priority mem r m =
     mput (tk_priority (mem r)) ((case mget m (tk_priority (mem r)) of None \<Rightarrow> 0 | Some n \<Rightarrow> n) + 1) m"

definition queue_stats_of :: "task_store \<Rightarrow> queue \<Rightarrow> queue_stats" where
  "queue_stats_of mem q = \<lparr>qs_size = mlen (q_tasks q), qs_max = q_max q, qs_closed = q_closed q,
     qs_priority = fold (count_priority mem) (mvals (q_tasks q)) []\<rparr>"

end
