(* ===== verification/Queue_Proofs.thy ===== *)
theory Queue_Proofs
  imports Task_Queue
begin

text \<open>
  Correctness of the task queue: the order of tasks is a weak order, so the heap
  operations apply; each operation keeps the queue a heap of distinct tasks whose
  map points into it; dequeuing serves the highest priority, oldest first.
\<close>

section \<open>The order of tasks\<close>

lemma task_less_irrefl [simp]: "\<not> task_less a a"
  by (simp add: task_less_def)

interpretation tasks: weak_order "ref_less mem" for mem
  by unfold_locales (auto simp: ref_less_def task_less_def split: if_splits)

lemma ref_less_cong:
  assumes "tk_priority (mem' a) = tk_priority (mem a)" "tk_created (mem' a) = tk_created (mem a)"
    and "tk_priority (mem' b) = tk_priority (mem b)" "tk_created (mem' b) = tk_created (mem b)"
  shows "ref_less mem' a b = ref_less mem a b"
  using assms by (simp add: ref_less_def task_less_def)

section \<open>The invariant of the queue\<close>

text \<open>
  The slice is a heap without repeated references, and each entry of the map is a
  task of the slice under its identifier.  \<open>queue_synced\<close> adds that identifiers are
  unique and each task of the slice has its entry.
\<close>

definition queue_ok :: "task_store \<Rightarrow> queue \<Rightarrow> bool" where
  "queue_ok mem q \<longleftrightarrow> is_heap (ref_less mem) (q_pq q) \<and> distinct (q_pq q) \<and> mwf (q_tasks q)
     \<and> (\<forall>k r. mget (q_tasks q) k = Some r \<longrightarrow> r \<in> set (q_pq q) \<and> tk_id (mem r) = k)"

definition queue_synced :: "task_store \<Rightarrow> queue \<Rightarrow> bool" where
  "queue_synced mem q \<longleftrightarrow> queue_ok mem q \<and> (\<forall>r \<in> set (q_pq q). mget (q_tasks q) (tk_id (mem r)) = Some r)"

text \<open>What of a task its place in the queue depends on.\<close>

definition same_place :: "task \<Rightarrow> task \<Rightarrow> bool" where
  "same_place t t' \<longleftrightarrow> tk_id t' = tk_id t \<and> tk_priority t' = tk_priority t \<and> tk_created t' = tk_created t"

lemma same_place_refl [simp]: "same_place t t"
  by (simp add: same_place_def)

lemma heap_same_place:
  "(\<And>r. r \<in> set xs \<Longrightarrow> same_place (mem r) (mem' r)) \<Longrightarrow> is_heap (ref_less mem') xs = is_heap (ref_less mem) xs"
  by (rule is_heap_cong, rule ref_less_cong) (simp_all add: same_place_def)

lemma queue_ok_store:
  assumes "queue_ok mem q" and "\<And>r. r \<in> set (q_pq q) \<Longrightarrow> same_place (mem r) (mem' r)"
  shows "queue_ok mem' q"
proof -
  have "is_heap (ref_less mem') (q_pq q)"
    using assms heap_same_place [of "q_pq q" mem mem'] by (simp add: queue_ok_def)
  moreover have "tk_id (mem' r) = tk_id (mem r)" if "r \<in> set (q_pq q)" for r
    using assms(2) [OF that] by (simp add: same_place_def)
  ultimately show ?thesis using assms(1) unfolding queue_ok_def by metis
qed

lemma queue_okI:
  assumes "is_heap (ref_less mem) pq" and "distinct pq" and "mwf ts"
    and "\<And>k r. mget ts k = Some r \<Longrightarrow> r \<in> set pq \<and> tk_id (mem r) = k"
    and "q_pq q = pq" and "q_tasks q = ts"
  shows "queue_ok mem q"
  using assms unfolding queue_ok_def by blast

lemma queue_ok_parts:
  assumes "queue_ok mem q"
  shows "is_heap (ref_less mem) (q_pq q)" "distinct (q_pq q)" "mwf (q_tasks q)"
  using assms unfolding queue_ok_def by blast+

lemma queue_ok_maps: "queue_ok mem q \<Longrightarrow> mget (q_tasks q) k = Some r \<Longrightarrow> r \<in> set (q_pq q) \<and> tk_id (mem r) = k"
  unfolding queue_ok_def by blast

lemma queue_ok_new [simp]: "queue_ok mem (new_queue mem n)"
  by (simp add: queue_ok_def new_queue_def heap_init_def)

lemma queue_ok_notify [simp]: "queue_ok mem (q\<lparr>q_notify := b\<rparr>) = queue_ok mem q"
  by (simp add: queue_ok_def)

lemma queue_ok_close [simp]: "queue_ok mem (queue_close q) = queue_ok mem q"
  by (simp add: queue_ok_def queue_close_def)

lemma set_heap_push [simp]: "set (heap_push lt xs x) = insert x (set xs)"
  by (metis mset_heap_push set_mset_add_mset_insert set_mset_mset)

lemma set_heap_init [simp]: "set (heap_init lt xs) = set xs"
  by (metis mset_heap_init set_mset_mset)

lemma distinct_heap_push [simp]: "distinct (heap_push lt xs x) \<longleftrightarrow> x \<notin> set xs \<and> distinct xs"
proof -
  have "distinct (heap_push lt xs x) = distinct (x # xs)"
    by (rule mset_eq_imp_distinct_iff) simp
  then show ?thesis by simp
qed

lemma distinct_heap_init [simp]: "distinct (heap_init lt xs) = distinct xs"
  by (rule mset_eq_imp_distinct_iff) simp

lemma length_heap_push [simp]: "length (heap_push lt xs x) = Suc (length xs)"
  by (metis mset_heap_push size_add_mset size_mset)

lemma length_heap_init [simp]: "length (heap_init lt xs) = length xs"
  by (metis mset_heap_init size_mset)

lemma heap_pop_facts:
  assumes "xs \<noteq> []" "distinct xs"
  shows "set (snd (heap_pop lt xs)) = set xs - {hd xs}" "distinct (snd (heap_pop lt xs))"
    "length (snd (heap_pop lt xs)) = length xs - 1" "fst (heap_pop lt xs) = hd xs"
proof -
  have eq: "mset (hd xs # snd (heap_pop lt xs)) = mset xs" using heap_pop_split(2) [OF assms(1), of lt] by simp
  then have d: "distinct (hd xs # snd (heap_pop lt xs))" using assms(2) mset_eq_imp_distinct_iff by blast
  moreover have "set (hd xs # snd (heap_pop lt xs)) = set xs" using eq by (metis set_mset_mset)
  ultimately show "set (snd (heap_pop lt xs)) = set xs - {hd xs}" "distinct (snd (heap_pop lt xs))" by auto
  have "length (hd xs # snd (heap_pop lt xs)) = length xs" using eq by (metis size_mset)
  then show "length (snd (heap_pop lt xs)) = length xs - 1" by simp
  show "fst (heap_pop lt xs) = hd xs" by (rule heap_pop_split(1) [OF assms(1)])
qed

section \<open>Operations keep it\<close>

lemma enqueue_ok:
  assumes "queue_ok mem q" and "r \<notin> set (q_pq q)" and "enqueue gid now r mem q = (e, mem', q')"
  shows "queue_ok mem' q'"
proof (cases "q_closed q \<or> q_full q")
  case True
  with assms show ?thesis by (auto simp: enqueue_def split: if_splits)
next
  case False
  define m2 where "m2 = mem(r := fill_task gid now (mem r))"
  have ok: "queue_ok m2 q" by (rule queue_ok_store [OF assms(1)]) (use assms(2) in \<open>auto simp: m2_def\<close>)
  have heap: "is_heap (ref_less m2) (heap_push (ref_less m2) (q_pq q) r)"
    by (rule tasks.heap_push_order) (rule queue_ok_parts [OF ok])
  have maps: "x \<in> set (heap_push (ref_less m2) (q_pq q) r) \<and> tk_id (m2 x) = k"
    if "mget (mput (tk_id (m2 r)) r (q_tasks q)) k = Some x" for k x
    using that queue_ok_maps [OF ok, of k x] by (cases "k = tk_id (m2 r)") simp_all
  have eqs: "mem' = m2" "q' = q\<lparr>q_tasks := mput (tk_id (m2 r)) r (q_tasks q),
      q_pq := heap_push (ref_less m2) (q_pq q) r, q_notify := True\<rparr>"
    using assms(3) False by (auto simp: enqueue_def Let_def m2_def split: if_splits)
  have "distinct (heap_push (ref_less m2) (q_pq q) r)" "mwf (mput (tk_id (m2 r)) r (q_tasks q))"
    using assms(2) queue_ok_parts [OF ok] by simp_all
  from queue_okI [OF heap this maps] show ?thesis unfolding eqs by simp
qed

lemma try_dequeue_some:
  assumes "queue_ok mem q" and "\<not> q_closed q" and "q_pq q \<noteq> []"
  shows "try_dequeue mem q = (Inr (hd (q_pq q)), q\<lparr>q_pq := snd (heap_pop (ref_less mem) (q_pq q)),
     q_tasks := mdel (tk_id (mem (hd (q_pq q)))) (q_tasks q)\<rparr>)"
  using assms heap_pop_split(1) [of "q_pq q" "ref_less mem"] by (auto simp: try_dequeue_def split: prod.split)

lemma try_dequeue_ok:
  assumes "queue_ok mem q" and "try_dequeue mem q = (x, q')"
  shows "queue_ok mem q'"
proof (cases "q_closed q \<or> q_pq q = []")
  case True
  with assms show ?thesis by (auto simp: try_dequeue_def split: if_splits)
next
  case False
  let ?r = "hd (q_pq q)" and ?pq = "snd (heap_pop (ref_less mem) (q_pq q))"
  have q': "q' = q\<lparr>q_pq := ?pq, q_tasks := mdel (tk_id (mem ?r)) (q_tasks q)\<rparr>"
    using False assms try_dequeue_some [of mem q] by auto
  have d: "distinct (q_pq q)" and ne: "q_pq q \<noteq> []" and h: "is_heap (ref_less mem) (q_pq q)"
    using assms(1) False by (auto simp: queue_ok_def)
  have pq: "is_heap (ref_less mem) ?pq" "distinct ?pq" "set ?pq = set (q_pq q) - {?r}"
    using tasks.heap_pop_order [OF h ne] heap_pop_facts(1,2) [OF ne d] by auto
  have maps: "r \<in> set ?pq \<and> tk_id (mem r) = k" if "mget (mdel (tk_id (mem ?r)) (q_tasks q)) k = Some r" for k r
    using that queue_ok_maps [OF assms(1), of k r] pq(3) by (cases "k = tk_id (mem ?r)") auto
  have "mwf (mdel (tk_id (mem ?r)) (q_tasks q))" using queue_ok_parts(3) [OF assms(1)] by simp
  from queue_okI [OF pq(1,2) this maps] show ?thesis unfolding q' by simp
qed

lemma queue_remove_ok:
  assumes "queue_ok mem q" and "queue_remove tid mem q = (e, mem', q')"
  shows "queue_ok mem' q'"
proof (cases "q_closed q \<or> mget (q_tasks q) tid = None")
  case True
  with assms show ?thesis by (auto simp: queue_remove_def split: if_splits)
next
  case False
  then obtain r where r: "mget (q_tasks q) tid = Some r" by auto
  let ?mem = "cancel_task r mem"
  have ids [simp]: "tk_id (?mem x) = tk_id (mem x)" for x by (simp add: cancel_task_def)
  have eqs: "mem' = ?mem" "q' = q\<lparr>q_tasks := mdel tid (q_tasks q),
      q_pq := heap_init (ref_less ?mem) (filter (\<lambda>t. tk_id (?mem t) \<noteq> tid) (q_pq q))\<rparr>"
    using assms False r by (auto simp: queue_remove_def Let_def)
  let ?pq = "heap_init (ref_less ?mem) (filter (\<lambda>t. tk_id (?mem t) \<noteq> tid) (q_pq q))"
  have maps: "x \<in> set ?pq \<and> tk_id (?mem x) = k" if "mget (mdel tid (q_tasks q)) k = Some x" for k x
    using that queue_ok_maps [OF assms(1), of k x] by (cases "k = tid") auto
  have "distinct ?pq" "mwf (mdel tid (q_tasks q))" using queue_ok_parts [OF assms(1)] by simp_all
  from queue_okI [OF tasks.heap_init_order this maps] show ?thesis unfolding eqs by simp
qed

lemma update_priority_ok:
  assumes "queue_ok mem q" and "update_priority tid p mem q = (e, mem', q')"
  shows "queue_ok mem' q'"
proof (cases "q_closed q \<or> mget (q_tasks q) tid = None")
  case True
  with assms show ?thesis by (auto simp: update_priority_def split: if_splits)
next
  case False
  then obtain r where r: "mget (q_tasks q) tid = Some r" by auto
  let ?mem = "mem(r := (mem r)\<lparr>tk_priority := p\<rparr>)"
  have ids: "tk_id (?mem x) = tk_id (mem x)" for x by simp
  have eqs: "mem' = ?mem" "q' = q\<lparr>q_pq := heap_init (ref_less ?mem) (q_pq q)\<rparr>"
    using assms False r by (auto simp: update_priority_def Let_def)
  have "distinct (q_pq q)" "mwf (q_tasks q)"
    "\<forall>k r. mget (q_tasks q) k = Some r \<longrightarrow> r \<in> set (q_pq q) \<and> tk_id (mem r) = k"
    using assms(1) by (auto simp: queue_ok_def)
  moreover have "is_heap (ref_less ?mem) (heap_init (ref_less ?mem) (q_pq q))" by (rule tasks.heap_init_order)
  ultimately show ?thesis unfolding eqs queue_ok_def ids by simp
qed

lemma queue_clear_ok: "queue_clear mem q = (mem', q') \<Longrightarrow> queue_ok mem' q'"
  by (auto simp: queue_clear_def Let_def queue_ok_def heap_init_def)

section \<open>Synchronised queues\<close>

lemma synced_size: "queue_synced mem q \<Longrightarrow> mlen (q_tasks q) = int (length (q_pq q))"
proof -
  assume s: "queue_synced mem q"
  then have wf: "mwf (q_tasks q)" and d: "distinct (q_pq q)" by (auto simp: queue_synced_def queue_ok_def)
  have "set (q_tasks q) = (\<lambda>r. (tk_id (mem r), r)) ` set (q_pq q)"
  proof (rule set_eqI)
    fix p :: "id \<times> ref"
    obtain k r where p: "p = (k, r)" by (cases p)
    have "mget (q_tasks q) k = Some r \<longleftrightarrow> r \<in> set (q_pq q) \<and> tk_id (mem r) = k"
      using s unfolding queue_synced_def queue_ok_def by metis
    then show "p \<in> set (q_tasks q) \<longleftrightarrow> p \<in> (\<lambda>r. (tk_id (mem r), r)) ` set (q_pq q)"
      using mget_iff_in_set [OF wf, of k r] by (auto simp: p)
  qed
  moreover have "inj_on (\<lambda>r. (tk_id (mem r), r)) (set (q_pq q))" by (auto simp: inj_on_def)
  ultimately have "card (set (q_tasks q)) = card (set (q_pq q))" by (simp add: card_image)
  moreover have "distinct (q_tasks q)" using wf by (simp add: mwf_def distinct_map)
  ultimately show ?thesis using d by (simp add: mlen_def distinct_card)
qed

lemma synced_inj: "queue_synced mem q \<Longrightarrow> a \<in> set (q_pq q) \<Longrightarrow> b \<in> set (q_pq q) \<Longrightarrow> tk_id (mem a) = tk_id (mem b) \<Longrightarrow> a = b"
  unfolding queue_synced_def by (metis option.inject)

lemma try_dequeue_synced:
  assumes "queue_synced mem q" and "try_dequeue mem q = (x, q')"
  shows "queue_synced mem q'"
proof (cases "q_closed q \<or> q_pq q = []")
  case True
  with assms show ?thesis by (auto simp: try_dequeue_def split: if_splits)
next
  case False
  let ?r = "hd (q_pq q)" and ?pq = "snd (heap_pop (ref_less mem) (q_pq q))"
  have ok: "queue_ok mem q" using assms(1) by (simp add: queue_synced_def)
  have q': "q' = q\<lparr>q_pq := ?pq, q_tasks := mdel (tk_id (mem ?r)) (q_tasks q)\<rparr>"
    using False assms(2) try_dequeue_some [OF ok] by auto
  have d: "distinct (q_pq q)" and ne: "q_pq q \<noteq> []" using ok False by (auto simp: queue_ok_def)
  have "mget (q_tasks q') (tk_id (mem t)) = Some t" if "t \<in> set (q_pq q')" for t
  proof -
    have t: "t \<in> set (q_pq q)" "t \<noteq> ?r" using that heap_pop_facts(1) [OF ne d] by (auto simp: q')
    then have "tk_id (mem t) \<noteq> tk_id (mem ?r)" using synced_inj [OF assms(1)] ne by (metis hd_in_set)
    then show ?thesis using assms(1) t by (simp add: q' queue_synced_def)
  qed
  then show ?thesis using try_dequeue_ok [OF ok assms(2)] by (simp add: queue_synced_def)
qed

lemma enqueue_synced:
  assumes "queue_synced mem q" and "r \<notin> set (q_pq q)" and "enqueue gid now r mem q = (None, mem', q')"
    and "mget (q_tasks q) (tk_id (mem' r)) = None"
  shows "queue_synced mem' q' \<and> mset (q_pq q') = add_mset r (mset (q_pq q))"
proof -
  have ok: "queue_ok mem q" using assms(1) by (simp add: queue_synced_def)
  have nb: "\<not> (q_closed q \<or> q_full q)" using assms(3) by (auto simp: enqueue_def split: if_splits)
  have mem': "mem' = mem(r := fill_task gid now (mem r))"
    and q': "q' = q\<lparr>q_tasks := mput (tk_id (mem' r)) r (q_tasks q), q_pq := heap_push (ref_less mem') (q_pq q) r, q_notify := True\<rparr>"
    using nb assms(3) by (auto simp: enqueue_def Let_def)
  have "mget (q_tasks q') (tk_id (mem' t)) = Some t" if "t \<in> set (q_pq q')" for t
  proof (cases "t = r")
    case True
    then show ?thesis by (simp add: q')
  next
    case False
    then have t: "t \<in> set (q_pq q)" "mem' t = mem t" using that by (auto simp: q' mem')
    then have "mget (q_tasks q) (tk_id (mem' t)) = Some t" using assms(1) by (simp add: queue_synced_def)
    then show ?thesis using assms(4) by (auto simp: q')
  qed
  then show ?thesis using enqueue_ok [OF ok assms(2,3)] by (simp add: queue_synced_def) (simp add: q')
qed

section \<open>Serving order\<close>

text \<open>
  Dequeuing from an open queue that is not empty returns a task that no
  waiting task comes before (a higher priority, or an earlier creation at the same
  priority), removes exactly that task, and keeps slice and map in step.
\<close>

lemma dequeue_takes_best:
  assumes "queue_synced mem q" and "\<not> q_closed q" and "q_pq q \<noteq> []"
  shows "\<exists>r q'. try_dequeue mem q = (Inr r, q') \<and> (\<forall>t \<in> set (q_pq q). \<not> task_less (mem t) (mem r))
     \<and> mset (q_pq q) = add_mset r (mset (q_pq q')) \<and> queue_size q' = queue_size q - 1 \<and> queue_synced mem q'"
proof -
  have ok: "queue_ok mem q" using assms(1) by (simp add: queue_synced_def)
  obtain q' where deq: "try_dequeue mem q = (Inr (hd (q_pq q)), q')"
    and pq: "q_pq q' = snd (heap_pop (ref_less mem) (q_pq q))"
    using try_dequeue_some [OF ok assms(2,3)] by simp
  have best: "\<forall>t \<in> set (q_pq q). \<not> task_less (mem t) (mem (hd (q_pq q)))"
    using tasks.heap_hd_min [OF queue_ok_parts(1) [OF ok]] by (simp add: ref_less_def)
  have rest: "mset (q_pq q) = add_mset (hd (q_pq q)) (mset (q_pq q'))"
    using heap_pop_split(2) [OF assms(3)] by (simp add: pq)
  have sync: "queue_synced mem q'" by (rule try_dequeue_synced [OF assms(1) deq])
  have "length (q_pq q) = Suc (length (q_pq q'))" using rest by (metis size_add_mset size_mset)
  then have "queue_size q' = queue_size q - 1"
    using synced_size [OF assms(1)] synced_size [OF sync] by (simp add: queue_size_def)
  with deq best rest sync show ?thesis by blast
qed

text \<open>Dequeuing up to \<open>n\<close> times.\<close>

fun drain :: "nat \<Rightarrow> task_store \<Rightarrow> queue \<Rightarrow> ref list" where
  "drain 0 mem q = []"
| "drain (Suc n) mem q = (case try_dequeue mem q of (Inl e, q1) \<Rightarrow> [] | (Inr r, q1) \<Rightarrow> r # drain n mem q1)"

lemma drain_order:
  assumes "queue_ok mem q" and "\<not> q_closed q" and "length (q_pq q) = n"
  shows "mset (drain n mem q) = mset (q_pq q) \<and> sorted_wrt (\<lambda>a b. \<not> task_less (mem b) (mem a)) (drain n mem q)"
  using assms
proof (induction n arbitrary: q)
  case (Suc n)
  then have ne: "q_pq q \<noteq> []" by auto
  let ?r = "hd (q_pq q)"
  obtain q' where deq: "try_dequeue mem q = (Inr ?r, q')"
    and pq: "q_pq q' = snd (heap_pop (ref_less mem) (q_pq q))" and open': "\<not> q_closed q'"
    using try_dequeue_some [OF Suc.prems(1,2) ne] Suc.prems(2) by simp
  have ok: "queue_ok mem q'" by (rule try_dequeue_ok [OF Suc.prems(1) deq])
  have rest: "mset (q_pq q) = add_mset ?r (mset (q_pq q'))" using heap_pop_split(2) [OF ne] by (simp add: pq)
  then have "length (q_pq q') = n" using Suc.prems(3) by (metis size_add_mset size_mset nat.inject)
  from Suc.IH [OF ok open' this] have IH: "mset (drain n mem q') = mset (q_pq q')"
    "sorted_wrt (\<lambda>a b. \<not> task_less (mem b) (mem a)) (drain n mem q')" by auto
  have "set (drain n mem q') \<subseteq> set (q_pq q)"
    using IH(1) rest by (metis set_mset_mset set_mset_add_mset_insert subset_insertI)
  then have "\<forall>t \<in> set (drain n mem q'). \<not> task_less (mem t) (mem ?r)"
    using tasks.heap_hd_min [OF queue_ok_parts(1) [OF Suc.prems(1)]] by (auto simp: ref_less_def)
  with deq IH rest show ?case by simp
qed simp

text \<open>
  C9: Draining the queue serves every task once, by falling priority and, within
  one priority, from the oldest to the newest.
\<close>

theorem drain_serves_in_order:
  assumes "queue_ok mem q" and "\<not> q_closed q"
  shows "mset (drain (length (q_pq q)) mem q) = mset (q_pq q)
     \<and> sorted_wrt (\<lambda>a b. tk_priority (mem a) > tk_priority (mem b)
          \<or> tk_priority (mem a) = tk_priority (mem b) \<and> tk_created (mem a) \<le> tk_created (mem b))
         (drain (length (q_pq q)) mem q)"
proof -
  have "sorted_wrt (\<lambda>a b. tk_priority (mem a) > tk_priority (mem b)
          \<or> tk_priority (mem a) = tk_priority (mem b) \<and> tk_created (mem a) \<le> tk_created (mem b)) xs"
    if "sorted_wrt (\<lambda>a b. \<not> task_less (mem b) (mem a)) xs" for xs
    by (rule sorted_wrt_mono_rel [OF _ that]) (auto simp: task_less_def split: if_splits)
  with drain_order [OF assms refl] show ?thesis by blast
qed

section \<open>Samples\<close>

definition sample_task :: "id \<Rightarrow> int \<Rightarrow> timestamp \<Rightarrow> task" where
  "sample_task i p t = \<lparr>tk_id = i, tk_name = '''', tk_priority = p, tk_session = None, tk_status = TaskPending,
     tk_created = t, tk_started = None, tk_completed = None, tk_error = '''', tk_retries = 0, tk_max_retries = 1,
     tk_timeout = 0\<rparr>"

definition sample_tasks :: task_store where
  "sample_tasks r = (if r = 0 then sample_task ''a'' priority_low 1 else if r = 1 then sample_task ''b'' priority_high 3
     else sample_task ''c'' priority_high 2)"

definition enqueue_all :: "ref list \<Rightarrow> task_store \<times> queue \<Rightarrow> task_store \<times> queue" where
  "enqueue_all rs s = fold (\<lambda>r s. snd (enqueue ''g'' 9 r (fst s) (snd s))) rs s"

definition sample_queue :: "task_store \<times> queue" where
  "sample_queue = enqueue_all [0, 1, 2] (sample_tasks, new_queue sample_tasks 10)"

lemma sample_queue_facts:
  "q_pq (snd sample_queue) = [2, 0, 1]" "q_closed (snd sample_queue) = False"
  "q_tasks (snd sample_queue) = [(''a'', 0), (''b'', 1), (''c'', 2)]"
  "map (tk_id \<circ> fst sample_queue) [0, 1, 2] = [''a'', ''b'', ''c'']"
  "map (tk_priority \<circ> fst sample_queue) [0, 1, 2] = [0, 2, 2]"
  "map (tk_created \<circ> fst sample_queue) [0, 1, 2] = [1, 3, 2]"
  by code_simp+

lemma sample_queue_synced: "queue_synced (fst sample_queue) (snd sample_queue)"
proof -
  have "is_heap (ref_less (fst sample_queue)) [2, 0, 1]"
    using sample_queue_facts(5,6)
    by (auto simp: is_heap_def heap_from_def parent_def ref_less_def task_less_def numeral_3_eq_3 less_Suc_eq)
  then show ?thesis
    using sample_queue_facts
    by (auto simp: queue_synced_def queue_ok_def mget_Cons mwf_def split: if_splits)
qed

theorem dequeue_takes_best_witness:
  "\<exists>r q'. try_dequeue (fst sample_queue) (snd sample_queue) = (Inr r, q') \<and> queue_size q' = 2"
  using dequeue_takes_best [OF sample_queue_synced] sample_queue_facts(1-3) by (auto simp: queue_size_def mlen_def)

theorem drain_serves_in_order_witness:
  "mset (drain 3 (fst sample_queue) (snd sample_queue)) = {#0, 1, 2#} \<and> drain 3 (fst sample_queue) (snd sample_queue) = [2, 1, 0]"
proof -
  have "drain 3 (fst sample_queue) (snd sample_queue) = [2, 1, 0]" by code_simp
  moreover have "queue_ok (fst sample_queue) (snd sample_queue)" using sample_queue_synced by (simp add: queue_synced_def)
  ultimately show ?thesis
    using drain_serves_in_order [of "fst sample_queue" "snd sample_queue"] sample_queue_facts(1,2)
    by (simp add: numeral_3_eq_3)
qed

end
