(* ===== verification/Scheduler.thy ===== *)
theory Scheduler
  imports Queue_Proofs
begin

text \<open>
  pkg/scheduler/scheduler.go: submission, cancellation, the worker pool with
  retries, waiting for a result and shutdown.  The steps of a worker are those
  between which another goroutine can act: taking a task from the queue, starting
  it, recording how the handler went, putting a task back for a retry, and letting
  go of it.  What the handler returns, clock readings and generated identifiers are
  arguments; the 64-bit counters are integers.
\<close>

section \<open>State\<close>

record sched_config =
  sk_queue_size :: int
  sk_workers :: int
  sk_max_retries :: int
  sk_retry_delay :: duration
  sk_task_timeout :: duration
  sk_queue_timeout :: duration

text \<open>Where a worker is in \<open>run\<close> and \<open>executeTask\<close>.\<close>

datatype worker =
    WIdle
  | WTaken ref
  | WRunning ref
  | WRequeue ref
  | WRelease ref
  | WStopped

text \<open>The field \<open>currentTask\<close>: set by the start, cleared when the worker lets go.\<close>

fun worker_current :: "worker \<Rightarrow> ref option" where
  "worker_current (WRunning r) = Some r"
| "worker_current (WRequeue r) = Some r"
| "worker_current (WRelease r) = Some r"
| "worker_current w = None"

text \<open>The field \<open>working\<close>.\<close>

definition worker_working :: "worker \<Rightarrow> bool" where
  "worker_working w \<longleftrightarrow> worker_current w \<noteq> None"

record scheduler =
  sch_queue :: queue
  sch_workers :: "worker list"
  sch_cfg :: sched_config
  sch_closed :: bool
  sch_canceled :: bool
  sch_task_count :: int
  sch_success :: int
  sch_failure :: int
  sch_all :: "(id, ref) gomap"
  sch_mem :: task_store
  sch_next :: ref

definition zero_task :: task where
  "zero_task = \<lparr>tk_id = '''', tk_name = '''', tk_priority = 0, tk_session = None, tk_status = TaskPending,
     tk_created = 0, tk_started = None, tk_completed = None, tk_error = '''', tk_retries = 0, tk_max_retries = 0,
     tk_timeout = 0\<rparr>"

definition sched_new :: "sched_config \<Rightarrow> scheduler result" where
  "sched_new cfg =
     (if sk_queue_size cfg \<le> 0 then Inl (new_error ErrInvalidArgument)
      else if sk_workers cfg \<le> 0 then Inl (new_error ErrInvalidArgument)
      else Inr \<lparr>sch_queue = new_queue (\<lambda>_. zero_task) (sk_queue_size cfg),
             sch_workers = replicate (nat (sk_workers cfg)) WIdle, sch_cfg = cfg, sch_closed = False,
             sch_canceled = False, sch_task_count = 0, sch_success = 0, sch_failure = 0, sch_all = [],
             sch_mem = (\<lambda>_. zero_task), sch_next = 0\<rparr>)"

section \<open>Submission\<close>

datatype task_option =
    WithTaskID id | WithTaskName string | WithTaskPriority int | WithTaskSessionID id
  | WithTaskTimeout duration | WithTaskMaxRetries int

fun apply_option :: "task_option \<Rightarrow> task \<Rightarrow> task" where
  "apply_option (WithTaskID i) t = t\<lparr>tk_id := i\<rparr>"
| "apply_option (WithTaskName n) t = t\<lparr>tk_name := n\<rparr>"
| "apply_option (WithTaskPriority p) t = t\<lparr>tk_priority := p\<rparr>"
| "apply_option (WithTaskSessionID i) t = t\<lparr>tk_session := Some i\<rparr>"
| "apply_option (WithTaskTimeout d) t = t\<lparr>tk_timeout := d\<rparr>"
| "apply_option (WithTaskMaxRetries n) t = t\<lparr>tk_max_retries := n\<rparr>"

definition build_task :: "id \<Rightarrow> timestamp \<Rightarrow> task_option list \<Rightarrow> sched_config \<Rightarrow> task" where
  "build_task gid now opts cfg =
     (let t = fold apply_option opts (zero_task\<lparr>tk_status := TaskPending, tk_created := now, tk_retries := 0,
                tk_max_retries := sk_max_retries cfg, tk_timeout := sk_task_timeout cfg\<rparr>)
      in if id_is_empty (tk_id t) then t\<lparr>tk_id := gid\<rparr> else t)"

definition sched_submit :: "id \<Rightarrow> timestamp \<Rightarrow> task_option list \<Rightarrow> scheduler \<Rightarrow> id result \<times> scheduler" where
  "sched_submit gid now opts s =
     (if sch_closed s then (Inl (new_error ErrUnavailable), s)
      else
        let r = sch_next s;
            mem1 = (sch_mem s)(r := build_task gid now opts (sch_cfg s))
        in case enqueue gid now r mem1 (sch_queue s) of
             (Some e, mem2, q) \<Rightarrow>
               (Inl (wrap_error ErrInternal e), s\<lparr>sch_mem := mem2, sch_queue := q, sch_next := Suc r\<rparr>)
           | (None, mem2, q) \<Rightarrow>
               (Inr (tk_id (mem2 r)), s\<lparr>sch_mem := mem2, sch_queue := q, sch_next := Suc r,
                  sch_all := mput (tk_id (mem2 r)) r (sch_all s), sch_task_count := sch_task_count s + 1\<rparr>))"

section \<open>Cancellation and queries\<close>

fun find_running :: "id \<Rightarrow> task_store \<Rightarrow> worker list \<Rightarrow> ref option" where
  "find_running tid mem [] = None"
| "find_running tid mem (w # ws) =
     (case worker_current w of
        Some r \<Rightarrow> if tk_id (mem r) = tid then Some r else find_running tid mem ws
      | None \<Rightarrow> find_running tid mem ws)"

definition sched_cancel :: "id \<Rightarrow> scheduler \<Rightarrow> go_error option \<times> scheduler" where
  "sched_cancel tid s =
     (if sch_closed s then (Some (new_error ErrUnavailable), s)
      else case queue_remove tid (sch_mem s) (sch_queue s) of
          (None, mem, q) \<Rightarrow> (None, s\<lparr>sch_mem := mem, sch_queue := q\<rparr>)
        | (Some _, _, _) \<Rightarrow>
            (case find_running tid (sch_mem s) (sch_workers s) of
               Some r \<Rightarrow> (None, s\<lparr>sch_mem := cancel_task r (sch_mem s)\<rparr>)
             | None \<Rightarrow> (Some (new_error ErrNotFound), s)))"

definition sched_get_task :: "id \<Rightarrow> scheduler \<Rightarrow> ref result" where
  "sched_get_task tid s =
     (case mget (sch_all s) tid of Some r \<Rightarrow> Inr r | None \<Rightarrow> Inl (new_error ErrNotFound))"

record task_filter =
  tf_status :: "task_status option"
  tf_priority :: "int option"
  tf_session :: "id option"
  tf_name :: "string option"

definition task_matches :: "task_filter option \<Rightarrow> task \<Rightarrow> bool" where
  "task_matches f t \<longleftrightarrow>
     (case f of
        None \<Rightarrow> True
      | Some fl \<Rightarrow>
          (case tf_status fl of None \<Rightarrow> True | Some x \<Rightarrow> tk_status t = x)
          \<and> (case tf_priority fl of None \<Rightarrow> True | Some x \<Rightarrow> tk_priority t = x)
          \<and> (case tf_session fl of None \<Rightarrow> True | Some x \<Rightarrow> tk_session t = Some x)
          \<and> (case tf_name fl of None \<Rightarrow> True | Some x \<Rightarrow> tk_name t = x))"

definition sched_list_tasks :: "task_filter option \<Rightarrow> scheduler \<Rightarrow> ref list result" where
  "sched_list_tasks f s =
     (if sch_closed s then Inl (new_error ErrUnavailable)
      else Inr (filter (\<lambda>r. task_matches f (sch_mem s r)) (mvals (sch_all s))))"

record sched_stats =
  ks_total :: int
  ks_success :: int
  ks_failure :: int
  ks_queue_size :: int
  ks_workers :: nat
  ks_active :: nat
  ks_queue :: queue_stats

definition sched_stats_of :: "scheduler \<Rightarrow> sched_stats" where
  "sched_stats_of s = \<lparr>ks_total = sch_task_count s, ks_success = sch_success s, ks_failure = sch_failure s,
     ks_queue_size = queue_size (sch_queue s), ks_workers = length (sch_workers s),
     ks_active = length (filter worker_working (sch_workers s)),
     ks_queue = queue_stats_of (sch_mem s) (sch_queue s)\<rparr>"

text \<open>\<open>Close\<close>: \<open>timed_out\<close> is whether the workers outlast the shutdown timeout.\<close>

definition sched_close :: "bool \<Rightarrow> scheduler \<Rightarrow> go_error option \<times> scheduler" where
  "sched_close timed_out s =
     (if sch_closed s then (None, s)
      else (if timed_out then Some (new_error ErrTimeout) else None,
            s\<lparr>sch_closed := True, sch_queue := queue_close (sch_queue s), sch_canceled := True\<rparr>))"

section \<open>Workers\<close>

definition set_worker :: "nat \<Rightarrow> worker \<Rightarrow> scheduler \<Rightarrow> scheduler" where
  "set_worker i w s = s\<lparr>sch_workers := (sch_workers s)[i := w]\<rparr>"

definition get_worker :: "nat \<Rightarrow> scheduler \<Rightarrow> worker" where
  "get_worker i s = (if i < length (sch_workers s) then sch_workers s ! i else WStopped)"

definition set_task :: "ref \<Rightarrow> task \<Rightarrow> scheduler \<Rightarrow> scheduler" where
  "set_task r t s = s\<lparr>sch_mem := (sch_mem s)(r := t)\<rparr>"

text \<open>
  One attempt of an idle worker to take a task.  With an error the worker stops if
  its context is canceled and tries again otherwise.
\<close>

definition worker_take :: "nat \<Rightarrow> scheduler \<Rightarrow> scheduler" where
  "worker_take i s =
     (case get_worker i s of
        WIdle \<Rightarrow>
          (case try_dequeue (sch_mem s) (sch_queue s) of
             (Inr r, q) \<Rightarrow> set_worker i (WTaken r) (s\<lparr>sch_queue := q\<rparr>)
           | (Inl e, q) \<Rightarrow> if sch_canceled s then set_worker i WStopped s else s)
      | _ \<Rightarrow> s)"

definition worker_start :: "nat \<Rightarrow> timestamp \<Rightarrow> scheduler \<Rightarrow> scheduler" where
  "worker_start i now s =
     (case get_worker i s of
        WTaken r \<Rightarrow>
          set_worker i (WRunning r)
            (set_task r ((sch_mem s r)\<lparr>tk_status := TaskRunning, tk_started := Some now\<rparr>) s)
      | _ \<Rightarrow> s)"

text \<open>How the handler went; a panic is recovered into an error.\<close>

datatype outcome = HandlerOk | HandlerError string | HandlerPanic string

fun outcome_error :: "outcome \<Rightarrow> string option" where
  "outcome_error HandlerOk = None"
| "outcome_error (HandlerError m) = Some m"
| "outcome_error (HandlerPanic v) = Some (''task panic: '' @ v)"

definition worker_finish :: "nat \<Rightarrow> timestamp \<Rightarrow> outcome \<Rightarrow> scheduler \<Rightarrow> scheduler" where
  "worker_finish i now res s =
     (case get_worker i s of
        WRunning r \<Rightarrow>
          (let t = (sch_mem s r)\<lparr>tk_completed := Some now\<rparr> in
           case outcome_error res of
             Some msg \<Rightarrow>
               if tk_retries t < tk_max_retries t then
                 set_worker i (WRequeue r)
                   (set_task r (t\<lparr>tk_retries := tk_retries t + 1, tk_status := TaskQueued, tk_error := ''''\<rparr>) s)
               else
                 set_worker i (WRelease r)
                   ((set_task r (t\<lparr>tk_error := msg, tk_status := TaskFailed\<rparr>) s)\<lparr>sch_failure := sch_failure s + 1\<rparr>)
           | None \<Rightarrow>
               set_worker i (WRelease r)
                 ((set_task r (t\<lparr>tk_status := TaskCompleted\<rparr>) s)\<lparr>sch_success := sch_success s + 1\<rparr>))
      | _ \<Rightarrow> s)"

definition worker_requeue :: "nat \<Rightarrow> id \<Rightarrow> timestamp \<Rightarrow> scheduler \<Rightarrow> scheduler" where
  "worker_requeue i gid now s =
     (case get_worker i s of
        WRequeue r \<Rightarrow>
          (case enqueue gid now r (sch_mem s) (sch_queue s) of
             (None, mem, q) \<Rightarrow> set_worker i (WRelease r) (s\<lparr>sch_mem := mem, sch_queue := q\<rparr>)
           | (Some e, mem, q) \<Rightarrow>
               set_worker i (WRelease r)
                 (s\<lparr>sch_mem := mem(r := (mem r)\<lparr>tk_status := TaskFailed\<rparr>), sch_queue := q,
                    sch_failure := sch_failure s + 1\<rparr>))
      | _ \<Rightarrow> s)"

definition worker_release :: "nat \<Rightarrow> scheduler \<Rightarrow> scheduler" where
  "worker_release i s = (case get_worker i s of WRelease r \<Rightarrow> set_worker i WIdle s | _ \<Rightarrow> s)"

section \<open>Waiting for a result\<close>

record task_result =
  tr_id :: id
  tr_status :: task_status
  tr_error :: "go_error option"
  tr_started :: timestamp
  tr_finished :: timestamp
  tr_duration :: duration

text \<open>
  One round of the goroutine behind \<open>WaitForResult\<close>.  The result dereferences both
  times, which panics when one is nil, and nothing recovers that panic.
\<close>

datatype wait_outcome = WaitError go_error | WaitResult task_result | WaitAgain | WaitPanic

definition task_done :: "task_status \<Rightarrow> bool" where
  "task_done st \<longleftrightarrow> st = TaskCompleted \<or> st = TaskFailed \<or> st = TaskCanceled"

definition wait_poll :: "id \<Rightarrow> scheduler \<Rightarrow> wait_outcome" where
  "wait_poll tid s =
     (case sched_get_task tid s of
        Inl e \<Rightarrow> WaitError e
      | Inr r \<Rightarrow>
          (let t = sch_mem s r in
           if task_done (tk_status t) then
             (case (tk_started t, tk_completed t) of
                (Some a, Some b) \<Rightarrow>
                  WaitResult \<lparr>tr_id = tid, tr_status = tk_status t,
                    tr_error = (if tk_error t \<noteq> '''' then Some (PlainErr (tk_error t)) else None),
                    tr_started = a, tr_finished = b,
                    tr_duration = (if \<not> ts_is_zero a \<and> \<not> ts_is_zero b then b - a else 0)\<rparr>
              | _ \<Rightarrow> WaitPanic)
           else WaitAgain))"

section \<open>Runs\<close>

datatype sched_op =
    SSubmit id timestamp "task_option list"
  | SCancel id
  | SClose bool
  | STake nat
  | SStart nat timestamp
  | SFinish nat timestamp outcome
  | SRequeue nat id timestamp
  | SRelease nat

fun sched_exec :: "scheduler \<Rightarrow> sched_op \<Rightarrow> scheduler" where
  "sched_exec s (SSubmit gid now opts) = snd (sched_submit gid now opts s)"
| "sched_exec s (SCancel tid) = snd (sched_cancel tid s)"
| "sched_exec s (SClose timed_out) = snd (sched_close timed_out s)"
| "sched_exec s (STake i) = worker_take i s"
| "sched_exec s (SStart i now) = worker_start i now s"
| "sched_exec s (SFinish i now res) = worker_finish i now res s"
| "sched_exec s (SRequeue i gid now) = worker_requeue i gid now s"
| "sched_exec s (SRelease i) = worker_release i s"

end
