(* ===== verification/Scheduler_Proofs.thy ===== *)
theory Scheduler_Proofs
  imports Scheduler
begin

text \<open>
  What every run of the scheduler keeps: the queue stays a heap, a task is in at
  most one place (the queue or one worker), no task is counted twice, retries stay
  within their limit, and finished tasks have their times.
\<close>

section \<open>Where a task is\<close>

text \<open>A worker owns a task from taking it to putting it back or finishing it.\<close>

fun worker_active :: "worker \<Rightarrow> ref list" where
  "worker_active (WTaken r) = [r]"
| "worker_active (WRunning r) = [r]"
| "worker_active (WRequeue r) = [r]"
| "worker_active w = []"

definition owned :: "worker list \<Rightarrow> ref multiset" where
  "owned ws = mset (concat (map worker_active ws))"

definition places :: "scheduler \<Rightarrow> ref multiset" where
  "places s = mset (q_pq (sch_queue s)) + owned (sch_workers s)"

definition sched_struct :: "scheduler \<Rightarrow> bool" where
  "sched_struct s \<longleftrightarrow> queue_ok (sch_mem s) (sch_queue s) \<and> (\<forall>r. count (places s) r \<le> 1)
     \<and> (\<forall>r \<in># places s. r < sch_next s)"

text \<open>Submitted tasks that are neither counted as finished nor anywhere.\<close>

definition slack :: "scheduler \<Rightarrow> int" where
  "slack s = sch_task_count s - sch_success s - sch_failure s - int (size (places s))"

lemma owned_update:
  "i < length ws \<Longrightarrow> owned (ws[i := w]) + mset (worker_active (ws ! i)) = owned ws + mset (worker_active w)"
proof (induction ws arbitrary: i)
  case (Cons v ws)
  then show ?case by (cases i) (auto simp: owned_def ac_simps)
qed simp

lemma get_worker_bound: "get_worker i s = w \<Longrightarrow> w \<noteq> WStopped \<Longrightarrow> i < length (sch_workers s) \<and> sch_workers s ! i = w"
  by (auto simp: get_worker_def split: if_splits)

lemma places_set_worker:
  assumes "get_worker i s = w0" and "w0 \<noteq> WStopped"
  shows "places (set_worker i w s) + mset (worker_active w0) = places s + mset (worker_active w)"
  using owned_update [of i "sch_workers s" w] get_worker_bound [OF assms]
  by (simp add: places_def set_worker_def ac_simps)

lemma set_worker_fields [simp]:
  "sch_queue (set_worker i w s) = sch_queue s" "sch_mem (set_worker i w s) = sch_mem s"
  "sch_next (set_worker i w s) = sch_next s" "sch_task_count (set_worker i w s) = sch_task_count s"
  "sch_success (set_worker i w s) = sch_success s" "sch_failure (set_worker i w s) = sch_failure s"
  "sch_closed (set_worker i w s) = sch_closed s" "sch_all (set_worker i w s) = sch_all s"
  by (simp_all add: set_worker_def)

lemma set_task_fields [simp]:
  "sch_queue (set_task r t s) = sch_queue s" "sch_mem (set_task r t s) = (sch_mem s)(r := t)"
  "sch_next (set_task r t s) = sch_next s" "sch_task_count (set_task r t s) = sch_task_count s"
  "sch_success (set_task r t s) = sch_success s" "sch_failure (set_task r t s) = sch_failure s"
  "sch_workers (set_task r t s) = sch_workers s" "sch_closed (set_task r t s) = sch_closed s"
  "sch_all (set_task r t s) = sch_all s"
  by (simp_all add: set_task_def)

lemma get_worker_set_task [simp]: "get_worker i (set_task r t s) = get_worker i s"
  by (simp add: get_worker_def)

lemma counter_update [simp]:
  "get_worker i (s\<lparr>sch_success := a, sch_failure := b\<rparr>) = get_worker i s"
  "places (s\<lparr>sch_success := a, sch_failure := b\<rparr>) = places s"
  by (simp_all add: get_worker_def places_def)

lemma places_set_task [simp]: "places (set_task r t s) = places s"
  by (simp add: places_def)

lemma struct_queue: "sched_struct s \<Longrightarrow> queue_ok (sch_mem s) (sch_queue s)"
  unfolding sched_struct_def by (rule conjunct1)

text \<open>What each step has to show.\<close>

lemma structI:
  assumes "sched_struct s" and "queue_ok (sch_mem s') (sch_queue s')" and "places s' \<subseteq># places s" and "sch_next s' = sch_next s"
  shows "sched_struct s'"
proof -
  have "count (places s') r \<le> 1" for r
    using assms(1,3) mset_subset_eq_count [OF assms(3), of r] unfolding sched_struct_def by (metis le_trans)
  moreover have "r < sch_next s'" if "r \<in># places s'" for r
    using assms(1,4) mset_subset_eqD [OF assms(3) that] by (simp add: sched_struct_def)
  ultimately show ?thesis using assms(2) by (simp add: sched_struct_def)
qed

lemma queue_ok_set_task:
  "sched_struct s \<Longrightarrow> same_place (sch_mem s r) t \<Longrightarrow> queue_ok ((sch_mem s)(r := t)) (sch_queue s)"
  by (rule queue_ok_store [of "sch_mem s"]) (auto simp: sched_struct_def)

text \<open>A reference a worker owns is not in the queue.\<close>

lemma owned_not_queued:
  assumes "sched_struct s" and "get_worker i s = w" and "worker_active w = [r]"
  shows "r \<notin> set (q_pq (sch_queue s))"
proof
  assume q: "r \<in> set (q_pq (sch_queue s))"
  have "w \<noteq> WStopped" using assms(3) by auto
  then have "w \<in> set (sch_workers s)" using get_worker_bound [OF assms(2)] by (metis nth_mem)
  then have "r \<in># owned (sch_workers s)" using assms(3) by (force simp: owned_def)
  then have "1 \<le> count (owned (sch_workers s)) r" by (simp add: Suc_leI)
  moreover have "1 \<le> count (mset (q_pq (sch_queue s))) r" using q by (simp add: Suc_leI count_greater_zero_iff)
  moreover have "count (places s) r = count (mset (q_pq (sch_queue s))) r + count (owned (sch_workers s)) r"
    by (simp add: places_def)
  moreover have "count (places s) r \<le> 1" using assms(1) by (simp add: sched_struct_def)
  ultimately show False by linarith
qed

section \<open>Each step\<close>

lemma take_step:
  assumes "sched_struct s"
  shows "sched_struct (worker_take i s) \<and> places (worker_take i s) = places s \<and> slack (worker_take i s) = slack s"
proof (cases "get_worker i s = WIdle")
  case False
  then have "worker_take i s = s" by (simp add: worker_take_def split: worker.split)
  then show ?thesis using assms by simp
next
  case idle: True
  have ok: "queue_ok (sch_mem s) (sch_queue s)" by (rule struct_queue [OF assms])
  obtain x q where deq: "try_dequeue (sch_mem s) (sch_queue s) = (x, q)" by fastforce
  have ok': "queue_ok (sch_mem s) q" by (rule try_dequeue_ok [OF ok deq])
  show ?thesis
  proof (cases x)
    case (Inl e)
    have "places (set_worker i WStopped s) = places s" using places_set_worker [OF idle, of WStopped] by simp
    then show ?thesis
      using assms ok idle deq Inl structI [OF assms, of "set_worker i WStopped s"]
      by (auto simp: worker_take_def slack_def)
  next
    case (Inr r)
    then have "\<not> (q_closed (sch_queue s) \<or> q_pq (sch_queue s) = [])" using deq by (auto simp: try_dequeue_def split: if_splits)
    then have some: "r = hd (q_pq (sch_queue s))" "q_pq q = snd (heap_pop (ref_less (sch_mem s)) (q_pq (sch_queue s)))"
      and ne: "q_pq (sch_queue s) \<noteq> []"
      using try_dequeue_some [OF ok] deq Inr by auto
    have pq: "mset (q_pq (sch_queue s)) = add_mset r (mset (q_pq q))"
      using heap_pop_split(2) [OF ne] some by simp
    let ?s1 = "s\<lparr>sch_queue := q\<rparr>"
    have "get_worker i ?s1 = WIdle" using idle by (simp add: get_worker_def split: if_splits)
    from places_set_worker [OF this, of "WTaken r"]
    have pl: "places (set_worker i (WTaken r) ?s1) = places s" using pq by (simp add: places_def)
    have eq: "worker_take i s = set_worker i (WTaken r) ?s1" using idle deq Inr by (simp add: worker_take_def)
    have "sched_struct (set_worker i (WTaken r) ?s1)" by (rule structI [OF assms]) (simp_all add: ok' pl)
    then show ?thesis using pl eq by (simp add: slack_def)
  qed
qed

lemma start_step:
  assumes "sched_struct s"
  shows "sched_struct (worker_start i now s) \<and> slack (worker_start i now s) = slack s"
proof (cases "\<exists>r. get_worker i s = WTaken r")
  case False
  then have "worker_start i now s = s" by (auto simp: worker_start_def split: worker.split)
  then show ?thesis using assms by simp
next
  case True
  then obtain r where w: "get_worker i s = WTaken r" by blast
  let ?t = "(sch_mem s r)\<lparr>tk_status := TaskRunning, tk_started := Some now\<rparr>"
  have pl: "places (set_worker i (WRunning r) (set_task r ?t s)) = places s"
    using places_set_worker [of i "set_task r ?t s" "WTaken r" "WRunning r"] w by simp
  have "sched_struct (set_worker i (WRunning r) (set_task r ?t s))"
    by (rule structI [OF assms]) (simp_all add: pl queue_ok_set_task assms same_place_def)
  then show ?thesis using pl w by (simp add: worker_start_def slack_def)
qed

lemma release_step:
  assumes "sched_struct s"
  shows "sched_struct (worker_release i s) \<and> slack (worker_release i s) = slack s"
proof (cases "\<exists>r. get_worker i s = WRelease r")
  case False
  then have "worker_release i s = s" by (auto simp: worker_release_def split: worker.split)
  then show ?thesis using assms by simp
next
  case True
  then obtain r where w: "get_worker i s = WRelease r" by blast
  have pl: "places (set_worker i WIdle s) = places s" using places_set_worker [OF w, of WIdle] by simp
  have "sched_struct (set_worker i WIdle s)"
    by (rule structI [OF assms]) (use assms in \<open>simp_all add: pl sched_struct_def\<close>)
  then show ?thesis using pl w by (simp add: worker_release_def slack_def)
qed

lemma finish_step:
  assumes "sched_struct s"
  shows "sched_struct (worker_finish i now res s) \<and> slack (worker_finish i now res s) = slack s"
proof (cases "\<exists>r. get_worker i s = WRunning r")
  case False
  then have "worker_finish i now res s = s" by (auto simp: worker_finish_def split: worker.split)
  then show ?thesis using assms by simp
next
  case True
  then obtain r where w: "get_worker i s = WRunning r" by blast
  have keep: "places (set_worker i (WRequeue r) (set_task r t s)) = places s" for t
    using places_set_worker [of i "set_task r t s" "WRunning r" "WRequeue r"] w by simp
  have drop: "add_mset r (places (set_worker i (WRelease r) ((set_task r t s)\<lparr>sch_success := a, sch_failure := b\<rparr>))) = places s" for t a b
    using places_set_worker [of i "(set_task r t s)\<lparr>sch_success := a, sch_failure := b\<rparr>" "WRunning r" "WRelease r"] w
    by simp
  have st: "sched_struct (set_worker i (WRequeue r) (set_task r t s))" if "same_place (sch_mem s r) t" for t
    by (rule structI [OF assms]) (simp_all add: keep queue_ok_set_task assms that)
  have sd: "sched_struct (set_worker i (WRelease r) ((set_task r t s)\<lparr>sch_success := a, sch_failure := b\<rparr>))"
    if "same_place (sch_mem s r) t" for t a b
    by (rule structI [OF assms]) (simp_all add: queue_ok_set_task assms that drop [where t = t and a = a and b = b, symmetric])
  have size: "int (size (places (set_worker i (WRelease r) ((set_task r t s)\<lparr>sch_success := a, sch_failure := b\<rparr>)))) = int (size (places s)) - 1" for t a b
    by (simp add: drop [where t = t and a = a and b = b, symmetric])
  show ?thesis
  proof (cases "outcome_error res")
    case None
    then have eq: "worker_finish i now res s = set_worker i (WRelease r)
        ((set_task r ((sch_mem s r)\<lparr>tk_completed := Some now, tk_status := TaskCompleted\<rparr>) s)
          \<lparr>sch_success := sch_success s + 1, sch_failure := sch_failure s\<rparr>)"
      using w by (simp add: worker_finish_def Let_def set_task_def)
    show ?thesis unfolding eq using sd size by (simp add: same_place_def slack_def)
  next
    case (Some msg)
    show ?thesis
    proof (cases "tk_retries (sch_mem s r) < tk_max_retries (sch_mem s r)")
      case True
      then have eq: "worker_finish i now res s = set_worker i (WRequeue r) (set_task r ((sch_mem s r)
          \<lparr>tk_completed := Some now, tk_retries := tk_retries (sch_mem s r) + 1, tk_status := TaskQueued, tk_error := ''''\<rparr>) s)"
        using w Some by (simp add: worker_finish_def Let_def)
      show ?thesis unfolding eq using st keep by (simp add: same_place_def slack_def)
    next
      case False
      then have eq: "worker_finish i now res s = set_worker i (WRelease r)
        ((set_task r ((sch_mem s r)\<lparr>tk_completed := Some now, tk_error := msg, tk_status := TaskFailed\<rparr>) s)
          \<lparr>sch_success := sch_success s, sch_failure := sch_failure s + 1\<rparr>)"
        using w Some by (simp add: worker_finish_def Let_def set_task_def)
      show ?thesis unfolding eq using sd size by (simp add: same_place_def slack_def)
    qed
  qed
qed


lemma requeue_step:
  assumes "sched_struct s"
  shows "sched_struct (worker_requeue i gid now s) \<and> slack (worker_requeue i gid now s) = slack s"
proof (cases "\<exists>r. get_worker i s = WRequeue r")
  case False
  then have "worker_requeue i gid now s = s" by (auto simp: worker_requeue_def split: worker.split)
  then show ?thesis using assms by simp
next
  case True
  then obtain r where w: "get_worker i s = WRequeue r" by blast
  obtain e mem q where enq: "enqueue gid now r (sch_mem s) (sch_queue s) = (e, mem, q)" by (metis surj_pair)
  have out: "r \<notin> set (q_pq (sch_queue s))" by (rule owned_not_queued [OF assms w]) simp
  have ok: "queue_ok mem q" using assms by (intro enqueue_ok [OF _ out enq]) (simp add: sched_struct_def)
  show ?thesis
  proof (cases e)
    case None
    then have pq: "mset (q_pq q) = add_mset r (mset (q_pq (sch_queue s)))"
      using enq by (auto simp: enqueue_def Let_def split: if_splits)
    let ?s1 = "s\<lparr>sch_mem := mem, sch_queue := q\<rparr>"
    have "get_worker i ?s1 = WRequeue r" using w by (simp add: get_worker_def split: if_splits)
    from places_set_worker [OF this, of "WRelease r"]
    have pl: "places (set_worker i (WRelease r) ?s1) = places s" by (simp add: places_def pq)
    have eq: "worker_requeue i gid now s = set_worker i (WRelease r) ?s1" using w enq None by (simp add: worker_requeue_def)
    have "sched_struct (set_worker i (WRelease r) ?s1)" by (rule structI [OF assms]) (simp_all add: ok pl)
    then show ?thesis using pl eq by (simp add: slack_def)
  next
    case (Some e')
    then have same: "mem = sch_mem s" "q = sch_queue s"
      using enq by (auto simp: enqueue_def Let_def split: if_splits)
    let ?t = "(sch_mem s r)\<lparr>tk_status := TaskFailed\<rparr>"
    let ?s1 = "(set_task r ?t s)\<lparr>sch_success := sch_success s, sch_failure := sch_failure s + 1\<rparr>"
    have eq: "worker_requeue i gid now s = set_worker i (WRelease r) ?s1"
      using w enq Some same by (simp add: worker_requeue_def set_task_def)
    have drop: "add_mset r (places (set_worker i (WRelease r) ?s1)) = places s"
      using places_set_worker [of i ?s1 "WRequeue r" "WRelease r"] w by simp
    have "sched_struct (set_worker i (WRelease r) ?s1)"
      by (rule structI [OF assms]) (simp_all add: queue_ok_set_task assms same_place_def drop [symmetric])
    moreover have "int (size (places s)) = int (size (places (set_worker i (WRelease r) ?s1))) + 1"
      by (simp add: drop [symmetric])
    ultimately show ?thesis using eq by (simp add: slack_def)
  qed
qed

lemma submit_step:
  assumes "sched_struct s"
  shows "sched_struct (snd (sched_submit gid now opts s)) \<and> slack (snd (sched_submit gid now opts s)) = slack s"
proof (cases "sch_closed s")
  case True
  then show ?thesis using assms by (simp add: sched_submit_def)
next
  case False
  let ?r = "sch_next s"
  define mem1 where "mem1 = (sch_mem s)(?r := build_task gid now opts (sch_cfg s))"
  obtain e mem q where enq: "enqueue gid now ?r mem1 (sch_queue s) = (e, mem, q)" by (metis surj_pair)
  have out: "?r \<notin># places s" using assms by (auto simp: sched_struct_def)
  then have outq: "?r \<notin> set (q_pq (sch_queue s))" by (simp add: places_def)
  have "queue_ok mem1 (sch_queue s)"
    by (rule queue_ok_store [of "sch_mem s"]) (use assms outq in \<open>auto simp: sched_struct_def mem1_def\<close>)
  then have ok: "queue_ok mem q" by (rule enqueue_ok [OF _ outq enq])
  show ?thesis
  proof (cases e)
    case None
    then have pq: "mset (q_pq q) = add_mset ?r (mset (q_pq (sch_queue s)))"
      using enq by (auto simp: enqueue_def Let_def split: if_splits)
    let ?s1 = "s\<lparr>sch_mem := mem, sch_queue := q, sch_next := Suc ?r, sch_all := mput (tk_id (mem ?r)) ?r (sch_all s),
      sch_task_count := sch_task_count s + 1\<rparr>"
    have eq: "snd (sched_submit gid now opts s) = ?s1"
      using False enq None by (simp add: sched_submit_def Let_def mem1_def)
    have pl: "places ?s1 = add_mset ?r (places s)" by (simp add: places_def pq)
    have "count (places ?s1) x \<le> 1" for x
      using assms out unfolding pl sched_struct_def by (cases "x = ?r") (auto simp: not_in_iff)
    moreover have "x < sch_next ?s1" if "x \<in># places ?s1" for x
      using that assms unfolding pl sched_struct_def by auto
    ultimately have "sched_struct ?s1" unfolding sched_struct_def using ok by simp
    then show ?thesis unfolding eq using pl by (simp add: slack_def)
  next
    case (Some e')
    then have same: "q = sch_queue s" using enq by (auto simp: enqueue_def Let_def split: if_splits)
    let ?s1 = "s\<lparr>sch_mem := mem, sch_queue := q, sch_next := Suc ?r\<rparr>"
    have eq: "snd (sched_submit gid now opts s) = ?s1"
      using False enq Some by (simp add: sched_submit_def Let_def mem1_def)
    have pl: "places ?s1 = places s" by (simp add: places_def same)
    have "x < Suc ?r" if "x \<in># places s" for x using that assms by (auto simp: sched_struct_def less_Suc_eq)
    then have "sched_struct ?s1" using assms ok unfolding sched_struct_def pl by simp
    then show ?thesis unfolding eq using pl by (simp add: slack_def)
  qed
qed

lemma close_step:
  assumes "sched_struct s"
  shows "sched_struct (snd (sched_close b s)) \<and> slack (snd (sched_close b s)) = slack s"
proof (cases "sch_closed s")
  case True
  then show ?thesis using assms by (simp add: sched_close_def)
next
  case False
  let ?s1 = "s\<lparr>sch_closed := True, sch_queue := queue_close (sch_queue s), sch_canceled := True\<rparr>"
  have eq: "snd (sched_close b s) = ?s1" using False by (simp add: sched_close_def)
  have pl: "places ?s1 = places s" by (simp add: places_def queue_close_def)
  from struct_queue [OF assms] have "sched_struct ?s1" by (intro structI [OF assms]) (simp_all add: pl)
  then show ?thesis unfolding eq using pl by (simp add: slack_def)
qed

lemma remove_places:
  assumes "queue_remove tid mem q = (None, mem', q')"
  shows "mset (q_pq q') \<subseteq># mset (q_pq q)"
  using assms by (auto simp: queue_remove_def Let_def split: if_splits option.splits)

lemma cancel_step:
  assumes "sched_struct s"
  shows "sched_struct (snd (sched_cancel tid s)) \<and> slack s \<le> slack (snd (sched_cancel tid s))"
proof -
  obtain e mem q where rem: "queue_remove tid (sch_mem s) (sch_queue s) = (e, mem, q)" by (metis surj_pair)
  have ok: "queue_ok mem q" by (rule queue_remove_ok [OF struct_queue [OF assms] rem])
  show ?thesis
  proof (cases "sch_closed s")
    case True
    then show ?thesis using assms by (simp add: sched_cancel_def)
  next
    case open': False
    show ?thesis
    proof (cases e)
      case None
      let ?s1 = "s\<lparr>sch_mem := mem, sch_queue := q\<rparr>"
      have eq: "snd (sched_cancel tid s) = ?s1" using open' rem None by (simp add: sched_cancel_def)
      have pl: "places ?s1 \<subseteq># places s" using remove_places [of tid "sch_mem s" "sch_queue s" mem q] rem None
        by (simp add: places_def)
      have "sched_struct ?s1" by (rule structI [OF assms _ pl]) (simp_all add: ok)
      then show ?thesis unfolding eq using size_mset_mono [OF pl] by (simp add: slack_def)
    next
      case (Some e')
      show ?thesis
      proof (cases "find_running tid (sch_mem s) (sch_workers s)")
        case None
        then show ?thesis using open' rem Some assms by (simp add: sched_cancel_def)
      next
        case (Some r)
        then have eq: "snd (sched_cancel tid s) = set_task r ((sch_mem s r)\<lparr>tk_status := TaskCanceled\<rparr>) s"
          using open' rem \<open>e = Some e'\<close> by (simp add: sched_cancel_def set_task_def cancel_task_def)
        have "sched_struct (set_task r ((sch_mem s r)\<lparr>tk_status := TaskCanceled\<rparr>) s)"
          by (rule structI [OF assms]) (simp_all add: queue_ok_set_task assms same_place_def)
        then show ?thesis unfolding eq by (simp add: slack_def)
      qed
    qed
  qed
qed

fun is_cancel :: "sched_op \<Rightarrow> bool" where
  "is_cancel (SCancel tid) = True"
| "is_cancel c = False"

lemma exec_struct: "sched_struct s \<Longrightarrow> sched_struct (sched_exec s c) \<and> slack s \<le> slack (sched_exec s c)
    \<and> (\<not> is_cancel c \<longrightarrow> slack (sched_exec s c) = slack s)"
  by (cases c) (simp_all add: submit_step cancel_step close_step take_step start_step finish_step requeue_step release_step)


section \<open>Retries and times\<close>

text \<open>
  Each task has retried at most as often as allowed, and a task that completed or
  failed has both its times; a running task has been started.
\<close>

definition task_ok :: "task \<Rightarrow> bool" where
  "task_ok t \<longleftrightarrow> 0 \<le> tk_retries t \<and> (tk_retries t \<le> tk_max_retries t \<or> tk_retries t = 0)
     \<and> (tk_status t = TaskCompleted \<or> tk_status t = TaskFailed \<longrightarrow> tk_started t \<noteq> None \<and> tk_completed t \<noteq> None)"

fun worker_ok :: "task_store \<Rightarrow> worker \<Rightarrow> bool" where
  "worker_ok mem (WRunning r) = (tk_started (mem r) \<noteq> None)"
| "worker_ok mem (WRequeue r) = (tk_started (mem r) \<noteq> None \<and> tk_completed (mem r) \<noteq> None)"
| "worker_ok mem w = True"

definition sched_tasks :: "scheduler \<Rightarrow> bool" where
  "sched_tasks s \<longleftrightarrow> (\<forall>r. task_ok (sch_mem s r)) \<and> (\<forall>w \<in> set (sch_workers s). worker_ok (sch_mem s) w)"

definition keeps_times :: "task \<Rightarrow> task \<Rightarrow> bool" where
  "keeps_times t t' \<longleftrightarrow> (tk_started t \<noteq> None \<longrightarrow> tk_started t' \<noteq> None) \<and> (tk_completed t \<noteq> None \<longrightarrow> tk_completed t' \<noteq> None)"

lemma keeps_times_refl [simp]: "keeps_times t t"
  by (simp add: keeps_times_def)

lemma worker_ok_mono: "worker_ok mem w \<Longrightarrow> (\<And>r. r \<in> set (worker_active w) \<Longrightarrow> keeps_times (mem r) (mem' r)) \<Longrightarrow> worker_ok mem' w"
  by (cases w) (simp_all add: keeps_times_def)

lemma sched_tasks_task: "sched_tasks s \<Longrightarrow> task_ok (sch_mem s r)"
  by (simp add: sched_tasks_def)

lemma sched_tasks_worker: "sched_tasks s \<Longrightarrow> get_worker i s = w \<Longrightarrow> worker_ok (sch_mem s) w"
  by (auto simp: sched_tasks_def get_worker_def split: if_splits)

lemma tasksI:
  assumes "sched_tasks s" and "\<And>x. task_ok (mem x)" and "\<And>x. keeps_times (sch_mem s x) (mem x)"
    and "worker_ok mem w" and "sch_workers s' = (sch_workers s)[i := w]" and "sch_mem s' = mem"
  shows "sched_tasks s'"
proof -
  have "worker_ok mem v" if "v \<in> set ((sch_workers s)[i := w])" for v
  proof (cases "v \<in> set (sch_workers s)")
    case True
    then have "worker_ok (sch_mem s) v" using assms(1) by (simp add: sched_tasks_def)
    then show ?thesis by (rule worker_ok_mono) (rule assms(3))
  next
    case False
    then have "v = w" using that set_update_subset_insert [of "sch_workers s" i w] by auto
    then show ?thesis using assms(4) by simp
  qed
  then show ?thesis unfolding sched_tasks_def assms(5,6) using assms(2) by blast
qed

lemma task_update:
  assumes "sched_tasks s" and "task_ok t" and "keeps_times (sch_mem s r) t"
  shows "task_ok (((sch_mem s)(r := t)) x)" "keeps_times (sch_mem s x) (((sch_mem s)(r := t)) x)"
  using assms by (auto simp: sched_tasks_def)

lemma tasks_update:
  assumes "sched_tasks s" and "task_ok t" and "keeps_times (sch_mem s r) t" and "worker_ok ((sch_mem s)(r := t)) w"
    and "sch_workers s' = (sch_workers s)[i := w]" and "sch_mem s' = (sch_mem s)(r := t)"
  shows "sched_tasks s'"
  by (rule tasksI [OF assms(1) task_update(1) [OF assms(1-3)] task_update(2) [OF assms(1-3)] assms(4-6)])

lemma sched_workers_set [simp]: "sch_workers (set_worker i w s) = (sch_workers s)[i := w]"
  by (simp add: set_worker_def)

lemma fill_task_fields [simp]:
  "tk_retries (fill_task gid now t) = tk_retries t" "tk_max_retries (fill_task gid now t) = tk_max_retries t"
  "tk_started (fill_task gid now t) = tk_started t" "tk_completed (fill_task gid now t) = tk_completed t"
  "tk_status (fill_task gid now t) = TaskQueued"
  by (simp_all add: fill_task_def Let_def)

lemma enqueue_mem: "enqueue gid now r mem q = (e, mem', q') \<Longrightarrow>
    mem' = (if e = None then mem(r := fill_task gid now (mem r)) else mem)"
  by (auto simp: enqueue_def Let_def split: if_splits)

lemma take_tasks: "sched_tasks s \<Longrightarrow> sched_tasks (worker_take i s)"
proof (cases "get_worker i s = WIdle")
  case True
  assume t: "sched_tasks s"
  obtain x q where deq: "try_dequeue (sch_mem s) (sch_queue s) = (x, q)" by fastforce
  have *: "sched_tasks (set_worker i w s1)" if "sch_mem s1 = sch_mem s" "sch_workers s1 = sch_workers s" "worker_ok (sch_mem s) w" for w s1
    by (rule tasksI [OF t, of "sch_mem s" w _ i]) (use that t in \<open>simp_all add: sched_tasks_task\<close>)
  show ?thesis using True deq t * [of "s\<lparr>sch_queue := q\<rparr>" "WTaken r" for r] * [of s WStopped]
    by (cases x) (simp_all add: worker_take_def)
next
  case False
  assume "sched_tasks s"
  with False show ?thesis by (simp add: worker_take_def split: worker.split)
qed

lemma start_tasks: "sched_tasks s \<Longrightarrow> sched_tasks (worker_start i now s)"
proof (cases "\<exists>r. get_worker i s = WTaken r")
  case True
  assume t: "sched_tasks s"
  from True obtain r where w: "get_worker i s = WTaken r" by blast
  let ?t = "(sch_mem s r)\<lparr>tk_status := TaskRunning, tk_started := Some now\<rparr>"
  have "sched_tasks (set_worker i (WRunning r) (set_task r ?t s))"
    by (rule tasks_update [OF t, of ?t r "WRunning r" _ i])
      (use sched_tasks_task [OF t, of r] in \<open>simp_all add: task_ok_def keeps_times_def\<close>)
  then show ?thesis using w by (simp add: worker_start_def)
next
  case False
  assume "sched_tasks s"
  moreover from False have "worker_start i now s = s" by (auto simp: worker_start_def split: worker.split)
  ultimately show ?thesis by simp
qed

lemma finish_tasks: "sched_tasks s \<Longrightarrow> sched_tasks (worker_finish i now res s)"
proof (cases "\<exists>r. get_worker i s = WRunning r")
  case True
  assume t: "sched_tasks s"
  from True obtain r where w: "get_worker i s = WRunning r" by blast
  have started: "tk_started (sch_mem s r) \<noteq> None" using sched_tasks_worker [OF t w] by simp
  have *: "sched_tasks (set_worker i v s1)"
    if "sch_mem s1 = (sch_mem s)(r := t')" "sch_workers s1 = sch_workers s" "task_ok t'" "tk_started t' = tk_started (sch_mem s r)"
      "tk_completed t' = Some now" "v = WRelease r \<or> v = WRequeue r" for t' s1 v
    by (rule tasks_update [OF t that(3), of r v _ i]) (use that started in \<open>auto simp: keeps_times_def\<close>)
  note ok = sched_tasks_task [OF t, of r]
  show ?thesis
  proof (cases "outcome_error res")
    case None
    show ?thesis using w None started ok
      by (simp add: worker_finish_def Let_def)
        (rule * [of _ "(sch_mem s r)\<lparr>tk_completed := Some now, tk_status := TaskCompleted\<rparr>"], simp_all add: task_ok_def)
  next
    case (Some msg)
    show ?thesis
    proof (cases "tk_retries (sch_mem s r) < tk_max_retries (sch_mem s r)")
      case True
      show ?thesis using w Some started ok True
        by (simp add: worker_finish_def Let_def)
          (rule * [of _ "(sch_mem s r)\<lparr>tk_completed := Some now, tk_retries := tk_retries (sch_mem s r) + 1,
              tk_status := TaskQueued, tk_error := ''''\<rparr>"], simp_all add: task_ok_def)
    next
      case False
      show ?thesis using w Some started ok False
        by (simp add: worker_finish_def Let_def)
          (rule * [of _ "(sch_mem s r)\<lparr>tk_completed := Some now, tk_error := msg, tk_status := TaskFailed\<rparr>"],
            simp_all add: task_ok_def)
    qed
  qed
next
  case False
  assume "sched_tasks s"
  moreover from False have "worker_finish i now res s = s" by (auto simp: worker_finish_def split: worker.split)
  ultimately show ?thesis by simp
qed

lemma requeue_tasks: "sched_tasks s \<Longrightarrow> sched_tasks (worker_requeue i gid now s)"
proof (cases "\<exists>r. get_worker i s = WRequeue r")
  case True
  assume t: "sched_tasks s"
  from True obtain r where w: "get_worker i s = WRequeue r" by blast
  obtain e mem q where enq: "enqueue gid now r (sch_mem s) (sch_queue s) = (e, mem, q)" by (metis surj_pair)
  have times: "tk_started (sch_mem s r) \<noteq> None" "tk_completed (sch_mem s r) \<noteq> None"
    using sched_tasks_worker [OF t w] by simp_all
  have *: "sched_tasks (set_worker i (WRelease r) s1)"
    if "sch_mem s1 = (sch_mem s)(r := t')" "sch_workers s1 = sch_workers s" "task_ok t'" "keeps_times (sch_mem s r) t'" for t' s1
    by (rule tasks_update [OF t that(3,4), of "WRelease r" _ i]) (use that in simp_all)
  note ok = sched_tasks_task [OF t, of r]
  show ?thesis
  proof (cases e)
    case None
    show ?thesis using w enq None ok enqueue_mem [OF enq]
      by (simp add: worker_requeue_def)
        (rule * [of _ "fill_task gid now (sch_mem s r)"], simp_all add: task_ok_def keeps_times_def)
  next
    case (Some e')
    show ?thesis using w enq Some ok times enqueue_mem [OF enq]
      by (simp add: worker_requeue_def)
        (rule * [of _ "(sch_mem s r)\<lparr>tk_status := TaskFailed\<rparr>"], simp_all add: task_ok_def keeps_times_def)
  qed
next
  case False
  assume "sched_tasks s"
  moreover from False have "worker_requeue i gid now s = s" by (auto simp: worker_requeue_def split: worker.split)
  ultimately show ?thesis by simp
qed

lemma release_tasks: "sched_tasks s \<Longrightarrow> sched_tasks (worker_release i s)"
proof (cases "\<exists>r. get_worker i s = WRelease r")
  case True
  assume t: "sched_tasks s"
  have "sched_tasks (set_worker i WIdle s)"
    by (rule tasksI [OF t, of "sch_mem s" WIdle _ i]) (use t in \<open>simp_all add: sched_tasks_task\<close>)
  with True show ?thesis by (auto simp: worker_release_def)
next
  case False
  assume "sched_tasks s"
  moreover from False have "worker_release i s = s" by (auto simp: worker_release_def split: worker.split)
  ultimately show ?thesis by simp
qed

lemma cancel_mem:
  "\<exists>f. sch_mem (snd (sched_cancel tid s)) = (\<lambda>r. if f r then (sch_mem s r)\<lparr>tk_status := TaskCanceled\<rparr> else sch_mem s r)
     \<and> sch_workers (snd (sched_cancel tid s)) = sch_workers s"
proof -
  have none: "\<exists>f. sch_mem s = (\<lambda>r. if f r then (sch_mem s r)\<lparr>tk_status := TaskCanceled\<rparr> else sch_mem s r)"
    by (rule exI [of _ "\<lambda>_. False"]) simp
  have one: "\<exists>f. cancel_task x (sch_mem s) = (\<lambda>r. if f r then (sch_mem s r)\<lparr>tk_status := TaskCanceled\<rparr> else sch_mem s r)" for x
    by (rule exI [of _ "\<lambda>r. r = x"]) (auto simp: cancel_task_def)
  show ?thesis using none one
    by (simp add: sched_cancel_def queue_remove_def Let_def split: option.split)
qed

lemma cancel_tasks: "sched_tasks s \<Longrightarrow> sched_tasks (snd (sched_cancel tid s))"
proof -
  assume t: "sched_tasks s"
  from cancel_mem [of tid s] obtain f where
    m: "sch_mem (snd (sched_cancel tid s)) = (\<lambda>r. if f r then (sch_mem s r)\<lparr>tk_status := TaskCanceled\<rparr> else sch_mem s r)"
    and ws: "sch_workers (snd (sched_cancel tid s)) = sch_workers s" by blast
  have "task_ok ((sch_mem s x)\<lparr>tk_status := TaskCanceled\<rparr>)" for x
    using sched_tasks_task [OF t, of x] by (simp add: task_ok_def)
  then have ok: "task_ok (sch_mem (snd (sched_cancel tid s)) x)" for x
    using sched_tasks_task [OF t, of x] by (simp add: m)
  have "worker_ok (sch_mem (snd (sched_cancel tid s))) w" if "w \<in> set (sch_workers s)" for w
  proof (rule worker_ok_mono)
    show "worker_ok (sch_mem s) w" using t that by (simp add: sched_tasks_def)
  qed (simp add: m keeps_times_def)
  with ok show ?thesis by (simp add: sched_tasks_def ws)
qed

lemma fold_options [simp]:
  "tk_retries (fold apply_option opts t) = tk_retries t" "tk_status (fold apply_option opts t) = tk_status t"
proof -
  have one: "tk_retries (apply_option p t) = tk_retries t" "tk_status (apply_option p t) = tk_status t" for p t
    by (cases p; simp)+
  show "tk_retries (fold apply_option opts t) = tk_retries t" "tk_status (fold apply_option opts t) = tk_status t"
    by (induction opts arbitrary: t) (simp_all add: one)
qed

lemma build_task_ok: "task_ok (build_task gid now opts cfg)" "task_ok (fill_task g n (build_task gid now opts cfg))"
  by (simp_all add: build_task_def task_ok_def Let_def)

lemma submit_tasks:
  assumes "sched_tasks s" and "sched_struct s"
  shows "sched_tasks (snd (sched_submit gid now opts s))"
proof (cases "sch_closed s")
  case True
  then show ?thesis using assms by (simp add: sched_submit_def)
next
  case False
  let ?r = "sch_next s"
  define mem1 where "mem1 = (sch_mem s)(?r := build_task gid now opts (sch_cfg s))"
  obtain e mem q where enq: "enqueue gid now ?r mem1 (sch_queue s) = (e, mem, q)" by (metis surj_pair)
  have mem: "task_ok (mem x) \<and> (x \<noteq> ?r \<longrightarrow> mem x = sch_mem s x)" for x
    using enqueue_mem [OF enq] sched_tasks_task [OF assms(1), of x] build_task_ok by (auto simp: mem1_def)
  have fields: "sch_mem (snd (sched_submit gid now opts s)) = mem" "sch_workers (snd (sched_submit gid now opts s)) = sch_workers s"
    using False enq by (cases e; simp add: sched_submit_def Let_def mem1_def)+
  have "worker_ok mem w" if w: "w \<in> set (sch_workers s)" for w
  proof (rule worker_ok_mono)
    show "worker_ok (sch_mem s) w" using assms(1) w by (simp add: sched_tasks_def)
    fix x assume "x \<in> set (worker_active w)"
    then have "x \<in># places s" using w by (auto simp: places_def owned_def)
    then have "x \<noteq> ?r" using assms(2) by (auto simp: sched_struct_def)
    then show "keeps_times (sch_mem s x) (mem x)" using mem by simp
  qed
  then show ?thesis using mem by (simp add: sched_tasks_def fields)
qed

lemma exec_tasks: "sched_tasks s \<Longrightarrow> sched_struct s \<Longrightarrow> sched_tasks (sched_exec s c)"
proof (cases c)
  case (SClose b)
  assume "sched_tasks s"
  with SClose show ?thesis by (simp add: sched_close_def sched_tasks_def)
qed (simp_all add: submit_tasks cancel_tasks take_tasks start_tasks finish_tasks requeue_tasks release_tasks)

section \<open>Every run\<close>

definition sched_inv :: "scheduler \<Rightarrow> bool" where
  "sched_inv s \<longleftrightarrow> sched_struct s \<and> sched_tasks s \<and> 0 \<le> slack s"

lemma sched_inv_exec: "sched_inv s \<Longrightarrow> sched_inv (sched_exec s c)"
  using exec_struct [of s c] exec_tasks [of s c] by (auto simp: sched_inv_def)

lemma owned_idle: "\<forall>w \<in> set ws. w = WIdle \<Longrightarrow> owned ws = {#}"
  by (induction ws) (auto simp: owned_def)

lemma sched_new_inv: "sched_new cfg = Inr s \<Longrightarrow> sched_inv s \<and> slack s = 0"
proof -
  assume "sched_new cfg = Inr s"
  then have s: "sch_queue s = new_queue (\<lambda>_. zero_task) (sk_queue_size cfg)" "sch_mem s = (\<lambda>_. zero_task)"
    "sch_task_count s = 0" "sch_success s = 0" "sch_failure s = 0"
    and ws: "\<forall>w \<in> set (sch_workers s). w = WIdle"
    by (auto simp: sched_new_def split: if_splits)
  have pl: "places s = {#}" using owned_idle [OF ws] by (simp add: places_def s(1) new_queue_def heap_init_def)
  have "sched_struct s" by (simp add: sched_struct_def pl s)
  moreover have "sched_tasks s" using ws by (auto simp: sched_tasks_def s(2) task_ok_def zero_task_def)
  ultimately show ?thesis by (simp add: sched_inv_def slack_def pl s)
qed

lemma sched_shut_exec:
  assumes "sch_closed s \<and> q_closed (sch_queue s)"
  shows "sch_closed (sched_exec s c) \<and> q_closed (sch_queue (sched_exec s c))"
proof (cases c)
  case (SRequeue i gid now)
  then show ?thesis using assms by (simp add: worker_requeue_def enqueue_def split: worker.split)
next
  case (SFinish i now res)
  then show ?thesis using assms by (simp add: worker_finish_def Let_def split: worker.split option.split)
next
  case (STake i)
  then show ?thesis using assms by (simp add: worker_take_def try_dequeue_def split: worker.split)
qed (use assms in \<open>simp_all add: sched_submit_def sched_cancel_def sched_close_def worker_start_def worker_release_def
      split: worker.split\<close>)

interpretation sched: closable_machine sched_exec sched_inv "\<lambda>s. sch_closed s \<and> q_closed (sch_queue s)"
  by unfold_locales (rule sched_inv_exec sched_shut_exec, assumption)+

interpretation accounted: machine "\<lambda>s c. if is_cancel c then s else sched_exec s c" "\<lambda>s. sched_inv s \<and> slack s = 0"
proof unfold_locales
  fix s c
  assume "sched_inv s \<and> slack s = 0"
  then show "sched_inv (if is_cancel c then s else sched_exec s c) \<and> slack (if is_cancel c then s else sched_exec s c) = 0"
    using sched_inv_exec [of s c] exec_struct [of s c] by (auto simp: sched_inv_def)
qed

lemma foldl_uncanceled:
  "\<forall>c \<in> set cs. \<not> is_cancel c \<Longrightarrow> foldl (\<lambda>s c. if is_cancel c then s else sched_exec s c) s cs = foldl sched_exec s cs"
  by (induction cs arbitrary: s) auto

end
