(* ===== verification/Scheduler_Properties.thy ===== *)
theory Scheduler_Properties
  imports Scheduler_Proofs
begin

text \<open>
  The properties of the scheduler: what holds in every state of every run, what
  waiting for a result meets, and where cancellation, duplicate identifiers and
  failed retries go wrong.
\<close>

section \<open>Samples\<close>

definition sample_sched_config :: sched_config where
  "sample_sched_config = \<lparr>sk_queue_size = 2, sk_workers = 1, sk_max_retries = 1, sk_retry_delay = 0,
     sk_task_timeout = 10, sk_queue_timeout = 5\<rparr>"

definition sample_sched :: scheduler where
  "sample_sched = \<lparr>sch_queue = new_queue (\<lambda>_. zero_task) 2, sch_workers = [WIdle], sch_cfg = sample_sched_config,
     sch_closed = False, sch_canceled = False, sch_task_count = 0, sch_success = 0, sch_failure = 0, sch_all = [],
     sch_mem = (\<lambda>_. zero_task), sch_next = 0\<rparr>"

lemma sample_sched_new: "sched_new sample_sched_config = Inr sample_sched"
  by (simp add: sched_new_def sample_sched_def sample_sched_config_def)

section \<open>Every run\<close>

text \<open>
  C2: In every state that a new scheduler reaches, whatever clients and workers do
  and in whatever order: the queue is a heap of distinct tasks whose map points
  into it; no task is in two places (queued twice, queued and held by a worker, or
  held by two workers); and successes, failures and tasks in a place together do
  not exceed the submissions.
\<close>

theorem scheduler_runs_stay_consistent:
  assumes "sched_new cfg = Inr s0" and "s = foldl sched_exec s0 cs"
  shows "queue_ok (sch_mem s) (sch_queue s) \<and> (\<forall>r. count (places s) r \<le> 1)
     \<and> sch_success s + sch_failure s + int (size (places s)) \<le> sch_task_count s"
proof -
  have "sched_inv s" using sched.run_good sched_new_inv [OF assms(1)] assms(2) by blast
  then show ?thesis by (simp add: sched_inv_def sched_struct_def slack_def)
qed

theorem scheduler_runs_stay_consistent_witness:
  "\<exists>s. s = foldl sched_exec sample_sched [SSubmit ''a'' 1 [], STake 0, SCancel ''a''] \<and> queue_ok (sch_mem s) (sch_queue s)"
  using scheduler_runs_stay_consistent [OF sample_sched_new refl] by blast

text \<open>
  C6: Without cancellations no task is lost: every submitted task is a success, a
  failure, in the queue, or held by a worker, and the numbers add up exactly, also
  across retries, failed re-enqueues and shutdown.
\<close>

theorem no_task_is_lost:
  assumes "sched_new cfg = Inr s0" and "\<forall>c \<in> set cs. \<not> is_cancel c" and "s = foldl sched_exec s0 cs"
  shows "sch_task_count s = sch_success s + sch_failure s + int (size (places s))"
proof -
  have "slack s = 0"
    using accounted.run_good [of s0 cs] sched_new_inv [OF assms(1)] foldl_uncanceled [OF assms(2), of s0] assms(3) by simp
  then show ?thesis by (simp add: slack_def)
qed

theorem no_task_is_lost_witness:
  "let s = foldl sched_exec sample_sched [SSubmit ''a'' 1 [], STake 0, SStart 0 2, SFinish 0 3 (HandlerPanic ''x''), SClose False,
      SRequeue 0 ''g'' 4]
   in sch_task_count s = sch_success s + sch_failure s + int (size (places s)) \<and> sch_failure s = 1"
proof -
  let ?cs = "[SSubmit ''a'' 1 [], STake 0, SStart 0 2, SFinish 0 3 (HandlerPanic ''x''), SClose False, SRequeue 0 ''g'' 4]"
  have "sch_failure (foldl sched_exec sample_sched ?cs) = 1" by code_simp
  moreover have "\<forall>c \<in> set ?cs. \<not> is_cancel c" by simp
  ultimately show ?thesis using no_task_is_lost [OF sample_sched_new _ refl, of ?cs] by (simp only: Let_def)
qed

text \<open>
  No task is ever retried more often than its limit allows (a limit that is not
  positive allows none).
\<close>

lemma retries_are_bounded:
  assumes "sched_new cfg = Inr s0" and "s = foldl sched_exec s0 cs"
  shows "0 \<le> tk_retries (sch_mem s r) \<and> tk_retries (sch_mem s r) \<le> max 0 (tk_max_retries (sch_mem s r))"
proof -
  have "sched_inv s" using sched.run_good sched_new_inv [OF assms(1)] assms(2) by blast
  then have "task_ok (sch_mem s r)" by (simp add: sched_inv_def sched_tasks_def)
  then show ?thesis by (auto simp: task_ok_def)
qed

theorem retries_are_bounded_witness:
  "\<exists>s. s = foldl sched_exec sample_sched [SSubmit ''a'' 1 [WithTaskMaxRetries (- 3)], STake 0, SStart 0 2,
      SFinish 0 3 (HandlerError ''x'')] \<and> tk_retries (sch_mem s 0) \<le> max 0 (tk_max_retries (sch_mem s 0))"
  using retries_are_bounded [OF sample_sched_new refl] by blast

section \<open>Waiting and cancelling\<close>

lemma wait_poll_panic_iff:
  "wait_poll tid s = WaitPanic \<longleftrightarrow>
     (\<exists>r. mget (sch_all s) tid = Some r \<and> task_done (tk_status (sch_mem s r))
        \<and> (tk_started (sch_mem s r) = None \<or> tk_completed (sch_mem s r) = None))"
  by (auto simp: wait_poll_def sched_get_task_def Let_def split: option.splits)

text \<open>
  Waiting for a result panics only on a canceled task: in every reachable state
  a task that completed or failed has both times.
\<close>

lemma wait_panics_only_on_canceled:
  assumes "sched_new cfg = Inr s0" and "s = foldl sched_exec s0 cs" and "wait_poll tid s = WaitPanic"
  shows "\<exists>r. sched_get_task tid s = Inr r \<and> tk_status (sch_mem s r) = TaskCanceled"
proof -
  from assms(3) obtain r where r: "mget (sch_all s) tid = Some r" "task_done (tk_status (sch_mem s r))"
    "tk_started (sch_mem s r) = None \<or> tk_completed (sch_mem s r) = None" by (auto simp: wait_poll_panic_iff)
  have "sched_inv s" using sched.run_good sched_new_inv [OF assms(1)] assms(2) by blast
  then have "task_ok (sch_mem s r)" by (simp add: sched_inv_def sched_tasks_def)
  with r show ?thesis by (auto simp: task_ok_def task_done_def sched_get_task_def)
qed

text \<open>
  Waiting for a task that is canceled while queued panics, when the task has
  not run before: its start time is nil and the waiting goroutine dereferences it.
\<close>

lemma cancel_queued_makes_wait_panic:
  assumes "\<not> sch_closed s" and "\<not> q_closed (sch_queue s)" and "mget (q_tasks (sch_queue s)) tid = Some r"
    and "mget (sch_all s) tid = Some r" and "tk_started (sch_mem s r) = None"
  shows "fst (sched_cancel tid s) = None \<and> wait_poll tid (snd (sched_cancel tid s)) = WaitPanic"
  using assms by (simp add: sched_cancel_def queue_remove_def Let_def wait_poll_panic_iff cancel_task_def task_done_def)

text \<open>A task queued and not taken.\<close>

definition one_queued :: scheduler where
  "one_queued = foldl sched_exec sample_sched [SSubmit ''a'' 1 []]"

lemma one_queued_facts:
  "sch_closed one_queued = False" "q_closed (sch_queue one_queued) = False"
  "mget (q_tasks (sch_queue one_queued)) ''a'' = Some 0" "mget (sch_all one_queued) ''a'' = Some 0"
  "tk_started (sch_mem one_queued 0) = None"
  by code_simp+

theorem cancel_queued_makes_wait_panic_witness:
  "wait_poll ''a'' (snd (sched_cancel ''a'' one_queued)) = WaitPanic"
  using cancel_queued_makes_wait_panic [of one_queued "''a''" 0] one_queued_facts by simp

theorem wait_panics_only_on_canceled_witness:
  "\<exists>r. sched_get_task ''a'' (foldl sched_exec sample_sched [SSubmit ''a'' 1 [], SCancel ''a'']) = Inr r
     \<and> tk_status (sch_mem (foldl sched_exec sample_sched [SSubmit ''a'' 1 [], SCancel ''a'']) r) = TaskCanceled"
proof -
  have "wait_poll ''a'' (foldl sched_exec sample_sched [SSubmit ''a'' 1 [], SCancel ''a'']) = WaitPanic" by code_simp
  from wait_panics_only_on_canceled [OF sample_sched_new refl this] show ?thesis .
qed

text \<open>
  Cancelling a running task has no lasting effect: the cancellation is accepted
  and the task is marked, but when its handler returns the task becomes completed,
  failed or queued for a retry as if it had not been canceled.
\<close>

lemma cancel_running_is_overwritten:
  assumes "\<not> sch_closed s" and "get_worker i s = WRunning r" and "mget (q_tasks (sch_queue s)) tid = None"
    and "find_running tid (sch_mem s) (sch_workers s) = Some r"
  shows "fst (sched_cancel tid s) = None
     \<and> tk_status (sch_mem (snd (sched_cancel tid s)) r) = TaskCanceled
     \<and> tk_status (sch_mem (worker_finish i now res (snd (sched_cancel tid s))) r) \<noteq> TaskCanceled
     \<and> sch_mem (worker_finish i now res (snd (sched_cancel tid s))) = sch_mem (worker_finish i now res s)"
proof -
  have c: "sched_cancel tid s = (None, s\<lparr>sch_mem := cancel_task r (sch_mem s)\<rparr>)"
    using assms by (simp add: sched_cancel_def queue_remove_def)
  have w: "get_worker i (s\<lparr>sch_mem := cancel_task r (sch_mem s)\<rparr>) = WRunning r"
    using assms(2) by (simp add: get_worker_def split: if_splits)
  show ?thesis unfolding c using w assms(2)
    by (cases "outcome_error res") (simp_all add: worker_finish_def Let_def set_worker_def set_task_def cancel_task_def)
qed

definition one_running :: scheduler where
  "one_running = foldl sched_exec sample_sched [SSubmit ''a'' 1 [], STake 0, SStart 0 2]"

lemma one_running_facts:
  "sch_closed one_running = False" "get_worker 0 one_running = WRunning 0"
  "mget (q_tasks (sch_queue one_running)) ''a'' = None"
  "find_running ''a'' (sch_mem one_running) (sch_workers one_running) = Some 0"
  by code_simp+

theorem cancel_running_is_overwritten_witness:
  "tk_status (sch_mem (worker_finish 0 3 HandlerOk (snd (sched_cancel ''a'' one_running))) 0) \<noteq> TaskCanceled"
proof -
  have "\<not> sch_closed one_running" using one_running_facts(1) by simp
  from cancel_running_is_overwritten [OF this one_running_facts(2-4), of 3 HandlerOk] show ?thesis by blast
qed

section \<open>Identifiers and errors\<close>

text \<open>Three tasks under one identifier.\<close>

definition twice :: scheduler where
  "twice = foldl sched_exec sample_sched [SSubmit ''g'' 1 [WithTaskID ''a''], SSubmit ''g'' 2 [WithTaskID ''a''],
     SSubmit ''g'' 3 [WithTaskID ''a'']]"

text \<open>
  A second task with an identifier in use is accepted and the queue loses track:
  its size is one with two tasks waiting, so the size limit does not bind, the first
  task cannot be found, and cancelling the identifier drops both tasks while the
  first is still marked as queued.
\<close>

lemma duplicate_id_breaks_queue:
  "sch_task_count twice = 3 \<and> q_max (sch_queue twice) = 2 \<and> length (q_pq (sch_queue twice)) = 3
   \<and> queue_size (sch_queue twice) = 1 \<and> sched_get_task ''a'' twice = Inr 2
   \<and> q_pq (sch_queue (snd (sched_cancel ''a'' twice))) = []
   \<and> tk_status (sch_mem (snd (sched_cancel ''a'' twice)) 0) = TaskQueued"
  by code_simp

lemma enqueue_refused: "q_closed q \<or> q_full q \<Longrightarrow> \<exists>e. enqueue gid now r mem q = (Some e, mem, q)"
  by (cases "q_closed q") (simp_all add: enqueue_def)

text \<open>
  When a failed task cannot be put back for its retry (the scheduler was closed
  or the queue is full) it is failed without an error: the text of the handler's
  error was cleared for the retry, so a waiting client gets a failure with no cause.
\<close>

lemma failed_requeue_reports_no_error:
  assumes "get_worker i s = WRunning r" and "tk_retries (sch_mem s r) < tk_max_retries (sch_mem s r)"
    and "q_closed (sch_queue s) \<or> q_full (sch_queue s)" and "mget (sch_all s) tid = Some r"
    and "tk_started (sch_mem s r) = Some t0"
  shows "\<exists>res. wait_poll tid (worker_requeue i gid t2 (worker_finish i t1 (HandlerError msg) s)) = WaitResult res
     \<and> tr_status res = TaskFailed \<and> tr_error res = None"
proof -
  let ?t = "(sch_mem s r)\<lparr>tk_completed := Some t1, tk_retries := tk_retries (sch_mem s r) + 1, tk_status := TaskQueued, tk_error := ''''\<rparr>"
  let ?s1 = "set_worker i (WRequeue r) (set_task r ?t s)"
  have s1: "worker_finish i t1 (HandlerError msg) s = ?s1" using assms(1,2) by (simp add: worker_finish_def Let_def)
  have w: "get_worker i ?s1 = WRequeue r"
    using get_worker_bound [OF assms(1)] by (simp add: get_worker_def)
  have "q_closed (sch_queue ?s1) \<or> q_full (sch_queue ?s1)" using assms(3) by simp
  then obtain e where enq: "enqueue gid t2 r (sch_mem ?s1) (sch_queue ?s1) = (Some e, sch_mem ?s1, sch_queue ?s1)"
    using enqueue_refused by blast
  show ?thesis unfolding s1 using w enq assms(4,5)
    by (simp add: worker_requeue_def wait_poll_def sched_get_task_def Let_def task_done_def)
qed

definition closing_run :: scheduler where
  "closing_run = snd (sched_close False one_running)"

lemma closing_run_facts:
  "get_worker 0 closing_run = WRunning 0" "tk_retries (sch_mem closing_run 0) < tk_max_retries (sch_mem closing_run 0)"
  "q_closed (sch_queue closing_run)" "mget (sch_all closing_run) ''a'' = Some 0"
  "tk_started (sch_mem closing_run 0) = Some 2"
  by code_simp+

theorem failed_requeue_reports_no_error_witness:
  "\<exists>res. wait_poll ''a'' (worker_requeue 0 ''g'' 5 (worker_finish 0 4 (HandlerError ''disk full'') closing_run)) = WaitResult res
     \<and> tr_status res = TaskFailed \<and> tr_error res = None"
  using failed_requeue_reports_no_error [OF closing_run_facts(1,2) disjI1 [OF closing_run_facts(3)] closing_run_facts(4,5)] .

end
