(* ===== verification/Event_Types.thy ===== *)
theory Event_Types
  imports Go_Types Go_Strings
begin

text \<open>
  pkg/types/event.go: events, filters and the handler interface.  A handler passes along the state \<open>'s\<close> that its calls
  change.
\<close>

type_synonym event_type = string

definition event_types :: "event_type list" where
  "event_types = [''container.created'', ''container.started'', ''container.stopped'', ''container.removed'',
     ''container.error'', ''session.created'', ''session.updated'', ''session.closed'', ''session.archived'',
     ''task.created'', ''task.updated'', ''task.completed'', ''task.failed'', ''ipc.message'',
     ''policy.violation'', ''resource.threshold'', ''system.startup'', ''system.shutdown'']"

definition topic_all :: string where
  "topic_all = ''*''"

definition event_topics :: "string list" where
  "event_topics = [topic_all, ''container'', ''session'', ''task'', ''ipc'', ''policy'', ''system'']"

record event_metadata =
  em_correlation :: "id option"
  em_session :: "id option"
  em_container :: "id option"
  em_user :: string
  em_labels :: "(string, string) gomap option"
  em_priority :: string

record event =
  ev_id :: id
  ev_type :: event_type
  ev_source :: string
  ev_timestamp :: timestamp
  ev_data :: "(string, any_value) gomap option"
  ev_metadata :: event_metadata

record event_filter =
  ef_type :: "event_type option"
  ef_source :: "string option"
  ef_session :: "id option"
  ef_container :: "id option"
  ef_priority :: "string option"
  ef_labels :: "(string, string) gomap"
  ef_start :: "timestamp option"
  ef_end :: "timestamp option"

definition empty_filter :: event_filter where
  "empty_filter = \<lparr>ef_type = None, ef_source = None, ef_session = None, ef_container = None,
     ef_priority = None, ef_labels = [], ef_start = None, ef_end = None\<rparr>"

record 's handler =
  h_can :: "event_type \<Rightarrow> bool"
  h_handle :: "event \<Rightarrow> 's \<Rightarrow> go_error option \<times> 's"

text \<open>\<open>EventFunc\<close>: a function as a handler that takes every type.\<close>

definition event_func :: "(event \<Rightarrow> 's \<Rightarrow> go_error option \<times> 's) \<Rightarrow> 's handler" where
  "event_func f = \<lparr>h_can = (\<lambda>_. True), h_handle = f\<rparr>"

definition sample_event :: event where
  "sample_event = \<lparr>ev_id = ''e1'', ev_type = ''container.created'', ev_source = ''src'', ev_timestamp = 5,
     ev_data = None, ev_metadata = \<lparr>em_correlation = None, em_session = None, em_container = None, em_user = '''',
       em_labels = None, em_priority = ''normal''\<rparr>\<rparr>"

end
