(* ===== verification/Exchange_Sort.thy ===== *)
theory Exchange_Sort
  imports Go_Heap
begin

text \<open>
  The sort the code writes out by hand in several places: for every pair of positions
  \<open>i < j\<close> the two elements are exchanged when the later one comes before.  It is sorted for
  every weak order, and the components interpret the order they use.
\<close>

definition exch_step :: "('a \<Rightarrow> 'a \<Rightarrow> bool) \<Rightarrow> nat \<Rightarrow> nat \<Rightarrow> 'a list \<Rightarrow> 'a list" where
  "exch_step before i j xs = (if before (xs ! j) (xs ! i) then swap i j xs else xs)"

definition exch_inner :: "('a \<Rightarrow> 'a \<Rightarrow> bool) \<Rightarrow> nat \<Rightarrow> 'a list \<Rightarrow> 'a list" where
  "exch_inner before i xs = fold (exch_step before i) [Suc i..<length xs] xs"

text \<open>The outer loop runs over the first \<open>n\<close> positions.\<close>

definition exchange_sort :: "('a \<Rightarrow> 'a \<Rightarrow> bool) \<Rightarrow> nat \<Rightarrow> 'a list \<Rightarrow> 'a list" where
  "exchange_sort before n xs = fold (exch_inner before) [0..<n] xs"

lemma exch_step_length [simp]: "length (exch_step before i j xs) = length xs"
  by (simp add: exch_step_def)

lemma exch_step_mset: "i < length xs \<Longrightarrow> j < length xs \<Longrightarrow> mset (exch_step before i j xs) = mset xs"
  by (simp add: exch_step_def)

context weak_order
begin

definition prefix_sorted :: "nat \<Rightarrow> 'a list \<Rightarrow> bool" where
  "prefix_sorted i xs \<longleftrightarrow> (\<forall>a b. a < i \<and> a < b \<and> b < length xs \<longrightarrow> \<not> lt (xs ! b) (xs ! a))"

definition tops :: "nat \<Rightarrow> nat \<Rightarrow> 'a list \<Rightarrow> bool" where
  "tops i m xs \<longleftrightarrow> (\<forall>k. i < k \<and> k < m \<longrightarrow> \<not> lt (xs ! k) (xs ! i))"

lemma less_irrefl: "\<not> lt a a"
  using less_asym by blast

lemma step_prefix:
  assumes "prefix_sorted i xs" and "i < j" and "j < length xs"
  shows "prefix_sorted i (exch_step lt i j xs)"
  unfolding prefix_sorted_def
proof (intro allI impI)
  fix a b assume ab: "a < i \<and> a < b \<and> b < length (exch_step lt i j xs)"
  have "\<not> lt (xs ! c) (xs ! a)" if "a < c" "c < length xs" for c
    using assms(1) ab that by (simp add: prefix_sorted_def)
  then show "\<not> lt (exch_step lt i j xs ! b) (exch_step lt i j xs ! a)"
    using ab assms(2,3) by (cases "b = i"; cases "b = j") (auto simp: exch_step_def nth_swap)
qed

lemma step_tops:
  assumes "tops i m xs" and "i < m" and "m < length xs"
  shows "tops i (Suc m) (exch_step lt i m xs)"
proof (cases "lt (xs ! m) (xs ! i)")
  case True
  have "\<not> lt (xs ! k) (xs ! m)" if "i < k" "k < m" for k
    using assms(1) True that less_trans unfolding tops_def by blast
  then show ?thesis using assms(2,3) True less_asym [OF True]
    by (auto simp: tops_def exch_step_def nth_swap less_Suc_eq)
next
  case False
  then show ?thesis using assms by (auto simp: tops_def exch_step_def less_Suc_eq)
qed

lemma inner_upto:
  assumes "prefix_sorted i es" and "i < length es" and "m \<le> length es"
  shows "prefix_sorted i (fold (exch_step lt i) [Suc i..<m] es) \<and> tops i m (fold (exch_step lt i) [Suc i..<m] es)
    \<and> mset (fold (exch_step lt i) [Suc i..<m] es) = mset es \<and> length (fold (exch_step lt i) [Suc i..<m] es) = length es"
  using assms(3)
proof (induction m)
  case 0
  then show ?case using assms by (simp add: tops_def)
next
  case (Suc m)
  let ?xs = "fold (exch_step lt i) [Suc i..<m] es"
  have IH: "prefix_sorted i ?xs" "tops i m ?xs" "mset ?xs = mset es" "length ?xs = length es" using Suc by auto
  show ?case
  proof (cases "i < m")
    case True
    then have upt: "[Suc i..<Suc m] = [Suc i..<m] @ [m]" by simp
    have m: "m < length ?xs" "i < length ?xs" using Suc.prems assms(2) IH(4) by auto
    show ?thesis unfolding upt
      using step_prefix [OF IH(1) True m(1)] step_tops [OF IH(2) True m(1)] exch_step_mset [OF m(2,1), of lt] IH(3,4)
      by simp
  next
    case False
    then show ?thesis using assms by (auto simp: tops_def)
  qed
qed

lemma inner_sorts:
  assumes "prefix_sorted i es" and "i < length es"
  shows "prefix_sorted (Suc i) (exch_inner lt i es) \<and> mset (exch_inner lt i es) = mset es
    \<and> length (exch_inner lt i es) = length es"
proof -
  have "prefix_sorted i (exch_inner lt i es)" "tops i (length es) (exch_inner lt i es)" "mset (exch_inner lt i es) = mset es"
    "length (exch_inner lt i es) = length es"
    using inner_upto [OF assms order_refl] by (simp_all add: exch_inner_def)
  then show ?thesis by (auto simp: prefix_sorted_def tops_def less_Suc_eq)
qed

lemma sort_upto:
  "m \<le> length es \<Longrightarrow>
   prefix_sorted m (fold (exch_inner lt) [0..<m] es) \<and> mset (fold (exch_inner lt) [0..<m] es) = mset es
   \<and> length (fold (exch_inner lt) [0..<m] es) = length es"
proof (induction m)
  case (Suc m)
  then show ?case using inner_sorts [of m "fold (exch_inner lt) [0..<m] es"] by auto
qed (simp add: prefix_sorted_def)

lemma exchange_sort_mset: "n \<le> length es \<Longrightarrow> mset (exchange_sort lt n es) = mset es"
  using sort_upto [of n es] by (simp add: exchange_sort_def)

lemma exchange_sort_set: "n \<le> length es \<Longrightarrow> set (exchange_sort lt n es) = set es"
  by (metis exchange_sort_mset set_mset_mset)

text \<open>It is enough that the outer loop leaves out the last position.\<close>

lemma exchange_sort_sorted:
  assumes "n \<le> length es" and "length es \<le> Suc n"
  shows "sorted_wrt (\<lambda>a b. \<not> lt b a) (exchange_sort lt n es)"
proof -
  have "prefix_sorted n (exchange_sort lt n es)" "length (exchange_sort lt n es) = length es"
    using sort_upto [OF assms(1)] by (simp_all add: exchange_sort_def)
  then show ?thesis using assms(2) by (auto simp: sorted_wrt_iff_nth_less prefix_sorted_def)
qed

end

end
