(* ===== verification/Event_Router.thy ===== *)
theory Event_Router
  imports Event_Types Exchange_Sort
begin

text \<open>
  pkg/events/router.go: routes from topic patterns to handlers.  Exact patterns are
  kept in one map, wildcard patterns under their prefix in another.
\<close>

record 's route_entry =
  re_id :: id
  re_pattern :: string
  re_handler :: "'s handler"
  re_active :: bool
  re_metadata :: "(string, string) gomap"
  re_priority :: int

record 's router =
  ro_routes :: "(string, 's route_entry) gomap"
  ro_wild :: "(string, 's route_entry list) gomap"
  ro_closed :: bool

definition new_router :: "'s router" where
  "new_router = \<lparr>ro_routes = [], ro_wild = [], ro_closed = False\<rparr>"

section \<open>Patterns\<close>

definition wild_suffix :: string where
  "wild_suffix = ''.*''"

definition catch_all :: string where
  "catch_all = ''*''"

definition is_wildcard :: "string \<Rightarrow> bool" where
  "is_wildcard p \<longleftrightarrow> has_suffix p wild_suffix \<or> p = catch_all"

definition wild_prefix :: "string \<Rightarrow> string" where
  "wild_prefix p = (let pre = trim_suffix p wild_suffix in if pre = '''' then catch_all else pre)"

definition topic_matches :: "string \<Rightarrow> string \<Rightarrow> bool" where
  "topic_matches topic p =
     (if p = catch_all then True
      else if has_suffix p wild_suffix then has_prefix topic (trim_suffix p wild_suffix @ [dot])
      else topic = p)"

text \<open>The loop over the segments: empty ones and a wildcard before the last are refused.\<close>

fun check_segments :: "string list \<Rightarrow> go_error option" where
  "check_segments [] = None"
| "check_segments (part # parts) =
     (if part = '''' then Some (PlainErr ''empty segment'')
      else if part = catch_all \<and> parts \<noteq> [] then Some (PlainErr ''wildcard position'')
      else check_segments parts)"

definition validate_pattern :: "string \<Rightarrow> go_error option" where
  "validate_pattern p =
     (if p = '''' then Some (PlainErr ''empty pattern'')
      else if p = catch_all then None
      else if CHR ''*'' \<in> set p \<and> \<not> has_suffix p wild_suffix then Some (PlainErr ''wildcard not at the end'')
      else check_segments (split_on dot p))"

section \<open>Sorting\<close>

text \<open>\<open>sortWildcardEntries\<close>: every pair out of order is exchanged.\<close>

definition sort_entries :: "'s route_entry list \<Rightarrow> 's route_entry list" where
  "sort_entries es = exchange_sort (\<lambda>a b. re_priority b < re_priority a) (length es - 1) es"

section \<open>Routes\<close>

definition wild_at :: "'s router \<Rightarrow> string \<Rightarrow> 's route_entry list" where
  "wild_at r k = (case mget (ro_wild r) k of None \<Rightarrow> [] | Some es \<Rightarrow> es)"

text \<open>The guards that both ways of adding a route begin with; a nil handler is \<open>None\<close>.\<close>

definition check_route :: "string \<Rightarrow> 's handler option \<Rightarrow> 's router \<Rightarrow> go_error option" where
  "check_route p h r =
     (if ro_closed r then Some (new_error ErrUnavailable)
      else if Option.is_none h then Some (new_error ErrInvalid)
      else if p = '''' then Some (new_error ErrInvalid)
      else map_option (wrap_error ErrInvalid) (validate_pattern p))"

definition new_entry :: "id \<Rightarrow> string \<Rightarrow> 's handler \<Rightarrow> int \<Rightarrow> 's route_entry" where
  "new_entry gid p h prio = \<lparr>re_id = gid, re_pattern = p, re_handler = h, re_active = True, re_metadata = [], re_priority = prio\<rparr>"

definition add_route :: "id \<Rightarrow> string \<Rightarrow> 's handler option \<Rightarrow> 's router \<Rightarrow> id result \<times> 's router" where
  "add_route gid p h r =
     (case check_route p h r of
        Some e \<Rightarrow> (Inl e, r)
      | None \<Rightarrow>
          let e = new_entry gid p (the h) 0 in
          if is_wildcard p then
            (Inr gid, r\<lparr>ro_wild := mput (wild_prefix p) (wild_at r (wild_prefix p) @ [e]) (ro_wild r)\<rparr>)
          else (Inr gid, r\<lparr>ro_routes := mput p e (ro_routes r)\<rparr>))"

definition add_route_priority :: "id \<Rightarrow> string \<Rightarrow> 's handler option \<Rightarrow> int \<Rightarrow> 's router \<Rightarrow> id result \<times> 's router" where
  "add_route_priority gid p h prio r =
     (case check_route p h r of
        Some e \<Rightarrow> (Inl e, r)
      | None \<Rightarrow>
          let e = new_entry gid p (the h) prio in
          if is_wildcard p then
            (Inr gid, r\<lparr>ro_wild := mput (wild_prefix p) (sort_entries (wild_at r (wild_prefix p) @ [e])) (ro_wild r)\<rparr>)
          else (Inr gid, r\<lparr>ro_routes := mput p e (ro_routes r)\<rparr>))"

text \<open>The first entry with an identifier, in the iteration order of a map.\<close>

fun find_exact :: "id \<Rightarrow> (string, 's route_entry) gomap \<Rightarrow> string option" where
  "find_exact i [] = None"
| "find_exact i ((p, e) # m) = (if re_id e = i then Some p else find_exact i m)"

fun find_wild :: "id \<Rightarrow> (string, 's route_entry list) gomap \<Rightarrow> string option" where
  "find_wild i [] = None"
| "find_wild i ((k, es) # m) = (if \<exists>e \<in> set es. re_id e = i then Some k else find_wild i m)"

fun remove_first :: "id \<Rightarrow> 's route_entry list \<Rightarrow> 's route_entry list" where
  "remove_first i [] = []"
| "remove_first i (e # es) = (if re_id e = i then es else e # remove_first i es)"

definition remove_route :: "id \<Rightarrow> 's router \<Rightarrow> go_error option \<times> 's router" where
  "remove_route i r =
     (if ro_closed r then (Some (new_error ErrUnavailable), r)
      else case find_exact i (ro_routes r) of
          Some p \<Rightarrow> (None, r\<lparr>ro_routes := mdel p (ro_routes r)\<rparr>)
        | None \<Rightarrow>
            (case find_wild i (ro_wild r) of
               Some k \<Rightarrow>
                 (let es = remove_first i (wild_at r k) in
                  (None, r\<lparr>ro_wild := (if length es = 0 then mdel k (ro_wild r) else mput k es (ro_wild r))\<rparr>))
             | None \<Rightarrow> (Some (new_error ErrNotFound), r)))"

fun update_first :: "id \<Rightarrow> ('s route_entry \<Rightarrow> 's route_entry) \<Rightarrow> 's route_entry list \<Rightarrow> 's route_entry list" where
  "update_first i f [] = []"
| "update_first i f (e # es) = (if re_id e = i then f e # es else e # update_first i f es)"

definition update_route ::
    "id \<Rightarrow> ('s route_entry \<Rightarrow> 's route_entry) \<Rightarrow> 's router \<Rightarrow> go_error option \<times> 's router" where
  "update_route i f r =
     (case find_exact i (ro_routes r) of
        Some p \<Rightarrow> (None, r\<lparr>ro_routes := (case mget (ro_routes r) p of Some e \<Rightarrow> mput p (f e) (ro_routes r) | None \<Rightarrow> ro_routes r)\<rparr>)
      | None \<Rightarrow>
          (case find_wild i (ro_wild r) of
             Some k \<Rightarrow> (None, r\<lparr>ro_wild := mput k (update_first i f (wild_at r k)) (ro_wild r)\<rparr>)
           | None \<Rightarrow> (Some (new_error ErrNotFound), r)))"

definition set_route_metadata :: "id \<Rightarrow> (string, string) gomap \<Rightarrow> 's router \<Rightarrow> go_error option \<times> 's router" where
  "set_route_metadata i md r = update_route i (\<lambda>e. e\<lparr>re_metadata := md\<rparr>) r"

definition set_route_active :: "id \<Rightarrow> bool \<Rightarrow> 's router \<Rightarrow> go_error option \<times> 's router" where
  "set_route_active i b r = update_route i (\<lambda>e. e\<lparr>re_active := b\<rparr>) r"

definition list_routes :: "'s router \<Rightarrow> 's route_entry list" where
  "list_routes r = mvals (ro_routes r) @ concat (mvals (ro_wild r))"

definition get_route :: "id \<Rightarrow> 's router \<Rightarrow> 's route_entry result" where
  "get_route i r =
     (case find (\<lambda>e. re_id e = i) (list_routes r) of Some e \<Rightarrow> Inr e | None \<Rightarrow> Inl (new_error ErrNotFound))"

record router_stats =
  rst_total :: nat
  rst_exact :: nat
  rst_wild :: nat
  rst_active :: nat
  rst_inactive :: nat

definition router_stats_of :: "'s router \<Rightarrow> router_stats" where
  "router_stats_of r =
     (let ex = length (ro_routes r); w = length (concat (mvals (ro_wild r)));
          act = length (filter re_active (mvals (ro_routes r))) + length (filter re_active (concat (mvals (ro_wild r))))
      in \<lparr>rst_total = ex + w, rst_exact = ex, rst_wild = w, rst_active = act, rst_inactive = ex + w - act\<rparr>)"

definition router_close :: "'s router \<Rightarrow> go_error option \<times> 's router" where
  "router_close r = (if ro_closed r then (Some (new_error ErrInvalid), r) else (None, r\<lparr>ro_closed := True\<rparr>))"

section \<open>Routing\<close>

text \<open>The prefixes of a topic, the longest first; the last is the empty one.\<close>

definition topic_prefixes :: "string \<Rightarrow> string list" where
  "topic_prefixes topic = map (\<lambda>i. join_with [dot] (take i (split_on dot topic))) (rev [0..<Suc (length (split_on dot topic))])"

definition find_handlers :: "string \<Rightarrow> 's router \<Rightarrow> 's route_entry list" where
  "find_handlers topic r =
     (case mget (ro_routes r) topic of Some e \<Rightarrow> if re_active e then [e] else [] | None \<Rightarrow> [])
     @ concat (map (\<lambda>k. filter (\<lambda>e. re_active e \<and> topic_matches topic (re_pattern e)) (wild_at r k)) (topic_prefixes topic))
     @ filter re_active (wild_at r catch_all)"

text \<open>
  Handlers run concurrently; \<open>out\<close> is the error, if any, of each handler that runs.
\<close>

definition route_event :: "('s route_entry \<Rightarrow> go_error option) \<Rightarrow> event \<Rightarrow> 's router \<Rightarrow> go_error option" where
  "route_event out ev r =
     (if ro_closed r then Some (new_error ErrUnavailable)
      else
        let hs = find_handlers (ev_type ev) r;
            run = filter (\<lambda>e. h_can (re_handler e) (ev_type ev)) hs;
            errs = map (wrap_error ErrHandlerFailed) (List.map_filter out run)
        in if length hs = 0 then None
           else if length errs > 0 then Some (wrap_error ErrPartialFailure (PlainErr (dec_nat (length errs))))
           else None)"

end
