(* ===== verification/Router_Proofs.thy ===== *)
theory Router_Proofs
  imports Event_Router
begin

text \<open>
  What holds of the router: its maps stay keyed by the patterns of their entries,
  the sort orders by priority, and the lookup by prefixes finds exactly the active
  routes whose pattern matches.
\<close>

section \<open>Sorting\<close>

interpretation by_priority: weak_order "\<lambda>a b :: 's route_entry. re_priority b < re_priority a"
  by unfold_locales auto

lemma sort_entries_set [simp]: "set (sort_entries es) = set es"
  by (simp add: sort_entries_def by_priority.exchange_sort_set)

lemma sort_entries_sorted: "sorted_wrt (\<lambda>a b. re_priority b \<le> re_priority a) (sort_entries es)"
  using by_priority.exchange_sort_sorted [of "length es - 1" es] by (simp add: sort_entries_def not_less)

section \<open>Patterns\<close>

lemma check_segments_None:
  "check_segments ps = None \<longleftrightarrow> '''' \<notin> set ps \<and> catch_all \<notin> set (butlast ps)"
  by (induction ps) auto

lemma split_wild: "split_on dot (k @ wild_suffix) = split_on dot k @ [catch_all]"
proof -
  have "k @ wild_suffix = k @ dot # catch_all" by (simp add: wild_suffix_def dot_def catch_all_def)
  then show ?thesis by (simp only: split_on_append_sep) (simp add: split_on_fresh dot_def catch_all_def)
qed

lemma valid_wildcard:
  assumes "validate_pattern p = None" and "is_wildcard p"
  shows "(p = catch_all \<and> wild_prefix p = catch_all)
    \<or> (\<exists>k. p = k @ wild_suffix \<and> k \<noteq> '''' \<and> k \<noteq> catch_all \<and> wild_prefix p = k)"
proof (cases "p = catch_all")
  case True
  have "wild_prefix catch_all = catch_all" by code_simp
  with True show ?thesis by simp
next
  case False
  then have suf: "has_suffix p wild_suffix" using assms(2) by (simp add: is_wildcard_def)
  then obtain k where k: "p = k @ wild_suffix" by (auto simp: has_suffix_iff)
  have "p \<noteq> ''''" using k by (auto simp: wild_suffix_def)
  then have "check_segments (split_on dot k @ [catch_all]) = None"
    using assms(1) False suf by (simp add: validate_pattern_def k split_wild split: if_splits)
  then have segs: "'''' \<notin> set (split_on dot k)" "catch_all \<notin> set (split_on dot k)"
    by (simp_all add: check_segments_None)
  have "k \<noteq> ''''" using segs(1) by auto
  moreover have "split_on dot catch_all = [catch_all]" by (simp add: split_on_fresh dot_def catch_all_def)
  then have "k \<noteq> catch_all" using segs(2) by auto
  ultimately show ?thesis using k by (simp add: wild_prefix_def Let_def)
qed

lemma topic_matches_exact: "\<not> is_wildcard p \<Longrightarrow> topic_matches topic p \<longleftrightarrow> topic = p"
  by (simp add: topic_matches_def is_wildcard_def)

lemma topic_matches_wild:
  assumes "k \<noteq> ''''"
  shows "topic_matches topic (k @ wild_suffix) \<longleftrightarrow> has_prefix topic (k @ [dot])"
proof -
  have "k @ wild_suffix \<noteq> catch_all" using assms by (cases k) (auto simp: wild_suffix_def catch_all_def)
  then show ?thesis by (simp add: topic_matches_def)
qed

section \<open>The invariant\<close>

definition exact_ok :: "string \<Rightarrow> 's route_entry \<Rightarrow> bool" where
  "exact_ok p e \<longleftrightarrow> re_pattern e = p \<and> \<not> is_wildcard p \<and> validate_pattern p = None"

definition wild_ok :: "string \<Rightarrow> 's route_entry list \<Rightarrow> bool" where
  "wild_ok k es \<longleftrightarrow>
     (\<forall>e \<in> set es. is_wildcard (re_pattern e) \<and> wild_prefix (re_pattern e) = k \<and> validate_pattern (re_pattern e) = None)"

definition router_ok :: "'s router \<Rightarrow> bool" where
  "router_ok r \<longleftrightarrow> mwf (ro_routes r) \<and> mwf (ro_wild r) \<and> mall exact_ok (ro_routes r) \<and> mall wild_ok (ro_wild r)"

lemma router_ok_new [simp]: "router_ok new_router"
  by (simp add: router_ok_def new_router_def)

lemma wild_at_ok: "router_ok r \<Longrightarrow> wild_ok k (wild_at r k)"
  using mall_get [of wild_ok "ro_wild r" k] by (cases "mget (ro_wild r) k") (auto simp: router_ok_def wild_at_def wild_ok_def)

lemma check_route_None:
  "check_route p h r = None \<longleftrightarrow> \<not> ro_closed r \<and> h \<noteq> None \<and> p \<noteq> '''' \<and> validate_pattern p = None"
  by (auto simp: check_route_def Option.is_none_def)

lemma new_entry_fields [simp]: "re_pattern (new_entry gid p h prio) = p" "re_id (new_entry gid p h prio) = gid"
  "re_active (new_entry gid p h prio)" "re_priority (new_entry gid p h prio) = prio" "re_handler (new_entry gid p h prio) = h"
  by (simp_all add: new_entry_def)

lemma router_ok_put_wild:
  assumes "router_ok r" and "wild_ok k es"
  shows "router_ok (r\<lparr>ro_wild := mput k es (ro_wild r)\<rparr>)"
  using assms by (simp add: router_ok_def mall_mput)

lemma router_ok_put_exact:
  assumes "router_ok r" and "exact_ok p e"
  shows "router_ok (r\<lparr>ro_routes := mput p e (ro_routes r)\<rparr>)"
  using assms by (simp add: router_ok_def mall_mput)

lemma add_route_ok: "router_ok r \<Longrightarrow> router_ok (snd (add_route gid p h r))"
proof (cases "check_route p h r")
  case None
  assume ok: "router_ok r"
  from None have v: "validate_pattern p = None" by (simp add: check_route_None)
  show ?thesis
  proof (cases "is_wildcard p")
    case True
    then have "wild_ok (wild_prefix p) (wild_at r (wild_prefix p) @ [new_entry gid p (the h) 0])"
      using wild_at_ok [OF ok, of "wild_prefix p"] v by (auto simp: wild_ok_def)
    then show ?thesis using None True ok by (simp add: add_route_def Let_def router_ok_put_wild)
  next
    case False
    then have "exact_ok p (new_entry gid p (the h) 0)" using v by (simp add: exact_ok_def)
    then show ?thesis using None False ok by (simp add: add_route_def Let_def router_ok_put_exact)
  qed
qed (simp add: add_route_def)

lemma add_route_priority_ok: "router_ok r \<Longrightarrow> router_ok (snd (add_route_priority gid p h prio r))"
proof (cases "check_route p h r")
  case None
  assume ok: "router_ok r"
  from None have v: "validate_pattern p = None" by (simp add: check_route_None)
  show ?thesis
  proof (cases "is_wildcard p")
    case True
    then have "wild_ok (wild_prefix p) (sort_entries (wild_at r (wild_prefix p) @ [new_entry gid p (the h) prio]))"
      using wild_at_ok [OF ok, of "wild_prefix p"] v by (auto simp: wild_ok_def)
    then show ?thesis using None True ok by (simp add: add_route_priority_def Let_def router_ok_put_wild)
  next
    case False
    then have "exact_ok p (new_entry gid p (the h) prio)" using v by (simp add: exact_ok_def)
    then show ?thesis using None False ok by (simp add: add_route_priority_def Let_def router_ok_put_exact)
  qed
qed (simp add: add_route_priority_def)

lemma set_remove_first: "set (remove_first i es) \<subseteq> set es"
  by (induction es) auto

lemma remove_route_ok: "router_ok r \<Longrightarrow> router_ok (snd (remove_route i r))"
proof -
  assume ok: "router_ok r"
  have "wild_ok k (remove_first i (wild_at r k))" for k
    using wild_at_ok [OF ok, of k] set_remove_first [of i "wild_at r k"] by (auto simp: wild_ok_def)
  then have put: "router_ok (r\<lparr>ro_wild := mput k (remove_first i (wild_at r k)) (ro_wild r)\<rparr>)" for k
    using ok by (simp add: router_ok_put_wild)
  have del: "router_ok (r\<lparr>ro_wild := mdel k (ro_wild r)\<rparr>)" "router_ok (r\<lparr>ro_routes := mdel k (ro_routes r)\<rparr>)" for k
    using ok by (simp_all add: router_ok_def mall_mdel)
  show ?thesis
  proof (cases "ro_closed r")
    case False
    then show ?thesis
      by (cases "find_exact i (ro_routes r)"; cases "find_wild i (ro_wild r)")
        (simp_all add: remove_route_def Let_def ok put del)
  qed (simp add: remove_route_def ok)
qed

lemma set_update_first: "set (update_first i f es) \<subseteq> set es \<union> f ` set es"
  by (induction es) auto

lemma wild_ok_update:
  "wild_ok k es \<Longrightarrow> (\<And>e. re_pattern (f e) = re_pattern e) \<Longrightarrow> wild_ok k (update_first i f es)"
  using set_update_first [of i f es] unfolding wild_ok_def by fastforce

lemma update_route_ok:
  assumes "router_ok r" and "\<And>e. re_pattern (f e) = re_pattern e"
  shows "router_ok (snd (update_route i f r))"
proof -
  have "exact_ok p (f e)" if "mget (ro_routes r) p = Some e" for p e
    using assms that by (auto simp: router_ok_def exact_ok_def dest: mall_get)
  then have ex: "router_ok (r\<lparr>ro_routes := (case mget (ro_routes r) p of Some e \<Rightarrow> mput p (f e) (ro_routes r) | None \<Rightarrow> ro_routes r)\<rparr>)" for p
    using assms(1) router_ok_put_exact [OF assms(1), of p] by (simp add: router_ok_def split: option.split)
  have w: "router_ok (r\<lparr>ro_wild := mput k (update_first i f (wild_at r k)) (ro_wild r)\<rparr>)" for k
    by (rule router_ok_put_wild [OF assms(1) wild_ok_update [OF wild_at_ok [OF assms(1)] assms(2)]])
  show ?thesis using assms(1) ex w by (simp add: update_route_def split: option.split)
qed

datatype 's router_op =
    RAdd id string "'s handler option"
  | RAddPriority id string "'s handler option" int
  | RRemove id
  | RMetadata id "(string, string) gomap"
  | RActive id bool
  | RClose

fun router_exec :: "'s router \<Rightarrow> 's router_op \<Rightarrow> 's router" where
  "router_exec r (RAdd gid p h) = snd (add_route gid p h r)"
| "router_exec r (RAddPriority gid p h prio) = snd (add_route_priority gid p h prio r)"
| "router_exec r (RRemove i) = snd (remove_route i r)"
| "router_exec r (RMetadata i md) = snd (set_route_metadata i md r)"
| "router_exec r (RActive i b) = snd (set_route_active i b r)"
| "router_exec r RClose = snd (router_close r)"

interpretation routers: machine router_exec router_ok
proof unfold_locales
  fix r :: "'s router" and c
  assume ok: "router_ok r"
  show "router_ok (router_exec r c)"
  proof (cases c)
    case RClose
    then show ?thesis using ok by (simp add: router_close_def router_ok_def)
  qed (simp_all add: ok add_route_ok add_route_priority_ok remove_route_ok set_route_metadata_def set_route_active_def
      update_route_ok)
qed

end
