(* ===== verification/Router_Lookup.thy ===== *)
theory Router_Lookup
  imports Router_Proofs
begin

text \<open>
  The lookup of the router by the prefixes of a topic finds the same routes as a
  search of all routes for the patterns that match.
\<close>

section \<open>The prefixes of a topic\<close>

abbreviation topic_prefix :: "string \<Rightarrow> nat \<Rightarrow> string" where
  "topic_prefix topic i \<equiv> join_with [dot] (take i (split_on dot topic))"

lemma length_join_snoc: "xs \<noteq> [] \<Longrightarrow> length (join_with [dot] xs) < length (join_with [dot] (xs @ [y]))"
  by (simp add: join_with_append)

lemma topic_prefix_step:
  assumes "0 < i" and "i < length (split_on dot topic)"
  shows "length (topic_prefix topic i) < length (topic_prefix topic (Suc i))"
proof -
  have "take i (split_on dot topic) \<noteq> []" using assms by auto
  then show ?thesis using assms by (simp add: take_Suc_conv_app_nth length_join_snoc)
qed

lemma topic_prefix_mono:
  assumes "i < j" and "0 < i" and "j \<le> length (split_on dot topic)"
  shows "length (topic_prefix topic i) < length (topic_prefix topic j)"
  using assms
proof (induction j)
  case (Suc j)
  show ?case
  proof (cases "i = j")
    case True
    then show ?thesis using topic_prefix_step [of j topic] Suc.prems by simp
  next
    case False
    then have "length (topic_prefix topic i) < length (topic_prefix topic j)" using Suc by simp
    also have "\<dots> < length (topic_prefix topic (Suc j))" using topic_prefix_step [of j topic] Suc.prems False by simp
    finally show ?thesis .
  qed
qed simp

definition prefix_set :: "string \<Rightarrow> string set" where
  "prefix_set topic = topic_prefix topic ` {1..length (split_on dot topic)}"

lemma topic_prefix_inj: "inj_on (topic_prefix topic) {1..length (split_on dot topic)}"
proof (rule inj_onI)
  fix i j assume "i \<in> {1..length (split_on dot topic)}" "j \<in> {1..length (split_on dot topic)}"
    "topic_prefix topic i = topic_prefix topic j"
  then show "i = j" using topic_prefix_mono [of i j topic] topic_prefix_mono [of j i topic]
    by (cases i j rule: linorder_cases) auto
qed

lemma topic_prefixes_sum:
  assumes "F [] = {#}" and "\<And>k. mset (f k) = F k"
  shows "mset (concat (map f (topic_prefixes topic))) = sum F (prefix_set topic)"
proof -
  let ?n = "length (split_on dot topic)"
  have "mset (concat (map f xs)) = (\<Sum>x\<leftarrow>xs. F x)" for xs
    by (induction xs) (simp_all add: assms(2))
  then have "mset (concat (map f (topic_prefixes topic))) = (\<Sum>x\<leftarrow>topic_prefixes topic. F x)" .
  also have "\<dots> = (\<Sum>i\<leftarrow>rev [0..<Suc ?n]. F (topic_prefix topic i))"
    by (simp only: topic_prefixes_def map_map o_def)
  also have "\<dots> = (\<Sum>i\<leftarrow>[0..<Suc ?n]. F (topic_prefix topic i))"
    by (simp only: rev_map [symmetric] sum_list_rev)
  also have "\<dots> = (\<Sum>i = 0..<Suc ?n. F (topic_prefix topic i))"
    by (simp only: interv_sum_list_conv_sum_set_nat set_upt)
  also have "\<dots> = (\<Sum>i = 1..<Suc ?n. F (topic_prefix topic i))"
    by (subst sum.atLeast_Suc_lessThan) (simp_all add: assms(1))
  also have "\<dots> = sum F (prefix_set topic)"
    by (simp only: prefix_set_def sum.reindex [OF topic_prefix_inj] o_def atLeastLessThanSuc_atLeastAtMost)
  finally show ?thesis .
qed

lemma prefix_setI:
  assumes "has_prefix topic (k @ [dot])"
  shows "k \<in> prefix_set topic"
proof -
  from assms obtain r where "topic = k @ dot # r" by (auto simp: has_prefix_iff)
  then have "split_on dot topic = split_on dot k @ split_on dot r" by (simp add: split_on_append_sep)
  then have "topic_prefix topic (length (split_on dot k)) = k" "length (split_on dot k) \<le> length (split_on dot topic)"
    by (simp_all add: join_split)
  moreover have "1 \<le> length (split_on dot k)" by (simp add: Suc_leI)
  ultimately show ?thesis by (auto simp: prefix_set_def image_iff intro!: bexI [of _ "length (split_on dot k)"])
qed

lemma catch_all_not_prefix:
  assumes "hd (split_on dot topic) \<noteq> catch_all"
  shows "catch_all \<notin> prefix_set topic"
proof
  assume "catch_all \<in> prefix_set topic"
  then obtain i where i: "1 \<le> i" "catch_all = topic_prefix topic i" by (auto simp: prefix_set_def)
  have "split_on dot (topic_prefix topic i) = take i (split_on dot topic)"
    using i(1) by (intro split_join) (auto dest: in_set_takeD split_on_no_sep)
  with i(2) have "split_on dot catch_all = take i (split_on dot topic)" by simp
  then have "take i (split_on dot topic) = [catch_all]" by (simp add: split_on_fresh catch_all_def dot_def)
  then show False using assms i(1) by (metis hd_take list.sel(1) less_le_trans zero_less_one)
qed

lemma catch_all_prefix: "catch_all \<in> prefix_set topic \<longleftrightarrow> hd (split_on dot topic) = catch_all"
proof
  assume h: "hd (split_on dot topic) = catch_all"
  have "take 1 (split_on dot topic) = [hd (split_on dot topic)]" by (cases "split_on dot topic") auto
  then have "topic_prefix topic 1 = catch_all" using h by simp
  moreover have "1 \<le> length (split_on dot topic)" by (simp add: Suc_leI)
  ultimately show "catch_all \<in> prefix_set topic" by (auto simp: prefix_set_def image_iff intro!: bexI [of _ 1])
qed (use catch_all_not_prefix in blast)

section \<open>The lookup\<close>

definition hit :: "string \<Rightarrow> 's route_entry \<Rightarrow> bool" where
  "hit topic e \<longleftrightarrow> re_active e \<and> topic_matches topic (re_pattern e)"

lemma mvals_Cons [simp]: "mvals (p # m) = snd p # mvals m"
  by (simp add: mvals_def)

lemma mvals_Nil [simp]: "mvals [] = []"
  by (simp add: mvals_def)

lemma exact_hits:
  "mall exact_ok m \<Longrightarrow> mwf m \<Longrightarrow>
   (case mget m topic of Some e \<Rightarrow> if re_active e then [e] else [] | None \<Rightarrow> []) = filter (hit topic) (mvals m)"
proof (induction m)
  case (Cons p m)
  obtain k e where p: "p = (k, e)" by fastforce
  have ok: "re_pattern e = k" "\<not> is_wildcard k" and m: "mall exact_ok m" "mwf m" and fresh: "mget m k = None"
    using Cons.prems p by (auto simp: mall_def exact_ok_def mwf_def mget_def map_of_eq_None_iff)
  have e: "hit topic e \<longleftrightarrow> re_active e \<and> topic = k" using ok by (simp add: hit_def topic_matches_exact)
  show ?case using Cons.IH m fresh by (auto simp: p mget_Cons e)
qed (simp add: mvals_def)

lemma wild_sum:
  "mwf m \<Longrightarrow> (\<Sum>k\<in>set (map fst m). mset (filter P (case mget m k of None \<Rightarrow> [] | Some es \<Rightarrow> es)))
    = mset (filter P (concat (mvals m)))"
proof (induction m)
  case (Cons p m)
  obtain k es where p: "p = (k, es)" by fastforce
  have fresh: "k \<notin> fst ` set m" and m: "mwf m" using Cons.prems p by (auto simp: mwf_def)
  have "(\<Sum>a\<in>fst ` set m. mset (filter P (case mget (p # m) a of None \<Rightarrow> [] | Some es \<Rightarrow> es)))
    = (\<Sum>a\<in>fst ` set m. mset (filter P (case mget m a of None \<Rightarrow> [] | Some es \<Rightarrow> es)))"
    using fresh by (intro sum.cong) (auto simp: p mget_Cons)
  then show ?case using fresh Cons.IH [OF m] by (simp add: p mget_Cons)
qed simp

lemma wild_hits:
  assumes ok: "router_ok r"
  shows "mset (concat (map (\<lambda>k. filter (hit topic) (wild_at r k)) (topic_prefixes topic)) @ filter re_active (wild_at r catch_all))
    = mset (filter (hit topic) (concat (mvals (ro_wild r))))
      + (if hd (split_on dot topic) = catch_all
         then mset (filter (\<lambda>e. re_active e \<and> re_pattern e = catch_all) (concat (mvals (ro_wild r)))) else {#})"
proof -
  let ?G = "\<lambda>k. mset (filter (\<lambda>e. re_active e \<and> re_pattern e = catch_all) (wild_at r k))"
  let ?F = "\<lambda>k. mset (filter (hit topic) (wild_at r k))"
  let ?K = "set (map fst (ro_wild r))"
  have wok: "wild_ok k (wild_at r k)" for k by (rule wild_at_ok [OF ok])
  have shape: "(re_pattern e = catch_all \<and> k = catch_all) \<or> (re_pattern e = k @ wild_suffix \<and> k \<noteq> '''' \<and> k \<noteq> catch_all)"
    if "e \<in> set (wild_at r k)" for e k
  proof -
    have "is_wildcard (re_pattern e)" "wild_prefix (re_pattern e) = k" "validate_pattern (re_pattern e) = None"
      using wok [of k] that by (auto simp: wild_ok_def)
    then show ?thesis using valid_wildcard [of "re_pattern e"] by auto
  qed
  have empty: "?F '''' = {#}" using shape [of _ "[]"] by (auto simp: catch_all_def)
  have all: "filter (hit topic) (wild_at r catch_all) = filter re_active (wild_at r catch_all)"
    using shape [of _ catch_all] by (intro filter_cong) (auto simp: hit_def topic_matches_def)
  have outside: "?F k = {#}" if "k \<notin> ?K" for k
  proof -
    have "map_of (ro_wild r) k = None" using that by (simp add: map_of_eq_None_iff)
    then show ?thesis by (simp add: wild_at_def mget_def)
  qed
  have missed: "?F k = {#}" if "k \<notin> insert catch_all (prefix_set topic)" for k
  proof -
    have "\<not> hit topic e" if e: "e \<in> set (wild_at r k)" for e
      using shape [OF e] \<open>k \<notin> insert catch_all (prefix_set topic)\<close> prefix_setI [of topic k]
      by (auto simp: hit_def topic_matches_wild)
    then show ?thesis by (simp add: filter_empty_conv)
  qed
  have key: "?G k = (if k = catch_all then ?F catch_all else {#})" for k
  proof (cases "k = catch_all")
    case True
    have "filter (\<lambda>e. re_active e \<and> re_pattern e = catch_all) (wild_at r catch_all) = filter (hit topic) (wild_at r catch_all)"
      using shape [of _ catch_all] by (intro filter_cong) (auto simp: hit_def topic_matches_def)
    then show ?thesis using True by simp
  next
    case False
    then show ?thesis using shape [of _ k] by (auto simp: filter_empty_conv catch_all_def wild_suffix_def)
  qed
  have twice: "mset (filter (\<lambda>e. re_active e \<and> re_pattern e = catch_all) (concat (mvals (ro_wild r)))) = ?F catch_all"
  proof -
    have "mset (filter (\<lambda>e. re_active e \<and> re_pattern e = catch_all) (concat (mvals (ro_wild r)))) = sum ?G ?K"
      using wild_sum [of "ro_wild r" "\<lambda>e. re_active e \<and> re_pattern e = catch_all"] ok by (simp only: router_ok_def wild_at_def)
    also have "\<dots> = (\<Sum>k\<in>?K. if k = catch_all then ?F catch_all else {#})" by (simp only: key)
    also have "\<dots> = (if catch_all \<in> ?K then ?F catch_all else {#})"
      by (simp only: sum.delta finite_set)
    also have "\<dots> = ?F catch_all" using outside [of catch_all] by simp
    finally show ?thesis .
  qed
  have split: "sum ?F (prefix_set topic) + ?F catch_all
    = sum ?F (insert catch_all (prefix_set topic)) + (if hd (split_on dot topic) = catch_all then ?F catch_all else {#})"
  proof (cases "catch_all \<in> prefix_set topic")
    case True
    then show ?thesis by (simp add: catch_all_prefix [symmetric] insert_absorb)
  next
    case False
    then show ?thesis by (simp add: catch_all_prefix [symmetric] prefix_set_def add.commute)
  qed
  have "mset (concat (map (\<lambda>k. filter (hit topic) (wild_at r k)) (topic_prefixes topic)) @ filter re_active (wild_at r catch_all))
    = sum ?F (prefix_set topic) + ?F catch_all"
    using topic_prefixes_sum [of ?F "\<lambda>k. filter (hit topic) (wild_at r k)" topic] empty all by simp
  moreover have "sum ?F (insert catch_all (prefix_set topic)) = sum ?F ?K"
    using outside missed by (intro sum.mono_neutral_cong) (auto simp: prefix_set_def)
  moreover have "\<dots> = mset (filter (hit topic) (concat (mvals (ro_wild r))))"
    using wild_sum [of "ro_wild r" "hit topic"] ok by (simp only: router_ok_def wild_at_def)
  ultimately show ?thesis using split twice by simp
qed

text \<open>
  C4: In every router that calls can build, the handlers found by the prefix lookup are exactly the active
  routes whose pattern matches the topic, each as often as it is registered; only for a topic whose
  first segment is an asterisk each active catch-all route is found a second time.
\<close>

theorem find_handlers_exact:
  assumes "r = foldl router_exec new_router cs"
  shows "mset (find_handlers topic r) =
    mset (filter (\<lambda>e. re_active e \<and> topic_matches topic (re_pattern e)) (list_routes r))
    + (if hd (split_on dot topic) = catch_all
       then mset (filter (\<lambda>e. re_active e \<and> re_pattern e = catch_all) (list_routes r)) else {#})"
proof -
  have ok: "router_ok r" using assms(1) routers.run_good [OF router_ok_new] by simp
  have hit: "(\<lambda>e. re_active e \<and> topic_matches topic (re_pattern e)) = hit topic" by (auto simp: hit_def)
  have ex: "mall exact_ok (ro_routes r)" "mwf (ro_routes r)" using ok by (simp_all add: router_ok_def)
  have none: "filter (\<lambda>e. re_active e \<and> re_pattern e = catch_all) (mvals (ro_routes r)) = []"
    using ex(1) by (auto simp: filter_empty_conv mall_def exact_ok_def mvals_def is_wildcard_def)
  show ?thesis
    using wild_hits [OF ok] exact_hits [OF ex, of topic]
    by (simp add: find_handlers_def list_routes_def hit none)
qed

definition sample_handler :: "nat handler" where
  "sample_handler = event_func (\<lambda>_ n. (None, Suc n))"

definition sample_router :: "nat router" where
  "sample_router = foldl router_exec new_router
     [RAdd ''r1'' ''container.*'' (Some sample_handler), RAdd ''r2'' ''container.created'' (Some sample_handler),
      RAdd ''r3'' ''session.*'' (Some sample_handler), RAdd ''r4'' ''*'' (Some sample_handler)]"

lemma sample_router_routes:
  "map re_id (filter (\<lambda>e. re_active e \<and> topic_matches ''container.created'' (re_pattern e)) (list_routes sample_router))
     = [''r2'', ''r1'', ''r4'']"
  "map re_id (filter (\<lambda>e. re_active e \<and> topic_matches ''*.created'' (re_pattern e)) (list_routes sample_router)) = [''r4'']"
  "map re_id (filter (\<lambda>e. re_active e \<and> re_pattern e = catch_all) (list_routes sample_router)) = [''r4'']"
  "hd (split_on dot ''container.created'') \<noteq> catch_all" "hd (split_on dot ''*.created'') = catch_all"
  by code_simp+

lemma mset_map_union: "mset xs = mset ys + mset zs \<Longrightarrow> mset (map f xs) = mset (map f ys) + mset (map f zs)"
  by simp

lemma find_handlers_exact_witness:
  "mset (map re_id (find_handlers ''container.created'' sample_router)) = {#''r2'', ''r1'', ''r4''#}
   \<and> mset (map re_id (find_handlers ''*.created'' sample_router)) = {#''r4'', ''r4''#}"
proof -
  have one: "mset (map re_id (find_handlers topic sample_router)) =
      mset (map re_id (filter (\<lambda>e. re_active e \<and> topic_matches topic (re_pattern e)) (list_routes sample_router)))
      + (if hd (split_on dot topic) = catch_all
         then mset (map re_id (filter (\<lambda>e. re_active e \<and> re_pattern e = catch_all) (list_routes sample_router))) else {#})" for topic
    using find_handlers_exact [OF sample_router_def, of topic] by (simp only: mset_map split: if_split) simp
  show ?thesis unfolding one sample_router_routes if_P [OF sample_router_routes(5)] if_not_P [OF sample_router_routes(4)] by simp
qed

end
