(* ===== verification/Event_Bus.thy ===== *)
theory Event_Bus
  imports Event_Types
begin

text \<open>
  pkg/events/bus.go: subscriptions, their filters and the dispatch of an event to
  them.  The subscriptions are shared by pointer between the table and the groups,
  and no operation changes one, so the groups hold copies.  Handlers of one event
  run concurrently: a dispatch takes the error of each as a parameter.
\<close>

record 's subscription =
  su_id :: id
  su_filter :: event_filter
  su_handler :: "'s handler"
  su_active :: bool
  su_created :: timestamp

record 's bus =
  bu_subs :: "(id, 's subscription) gomap"
  bu_groups :: "(event_type, (id, 's subscription) gomap) gomap"
  bu_closed :: bool
  bu_queue :: "event list"

definition new_bus :: "'s bus" where
  "new_bus = \<lparr>bu_subs = [], bu_groups = [], bu_closed = False, bu_queue = []\<rparr>"

section \<open>Filters\<close>

text \<open>A condition of a filter that is unset holds; one on an optional field needs the field.\<close>

definition unset_or :: "'a option \<Rightarrow> ('a \<Rightarrow> bool) \<Rightarrow> bool" where
  "unset_or x P = (case x of None \<Rightarrow> True | Some a \<Rightarrow> P a)"

definition label_matches :: "(string, string) gomap option \<Rightarrow> string \<times> string \<Rightarrow> bool" where
  "label_matches ls kv =
     (case ls of None \<Rightarrow> False | Some m \<Rightarrow> (case mget m (fst kv) of None \<Rightarrow> '''' | Some v \<Rightarrow> v) = snd kv)"

definition event_matches_filter :: "event \<Rightarrow> event_filter \<Rightarrow> bool" where
  "event_matches_filter ev f =
     (if \<not> unset_or (ef_type f) (\<lambda>t. ev_type ev = t) then False
      else if \<not> unset_or (ef_source f) (\<lambda>s. ev_source ev = s) then False
      else if \<not> unset_or (ef_session f) (\<lambda>i. em_session (ev_metadata ev) = Some i) then False
      else if \<not> unset_or (ef_container f) (\<lambda>i. em_container (ev_metadata ev) = Some i) then False
      else if \<not> unset_or (ef_priority f) (\<lambda>p. em_priority (ev_metadata ev) = p) then False
      else if \<not> list_all (label_matches (em_labels (ev_metadata ev))) (ef_labels f) then False
      else if \<not> unset_or (ef_start f) (\<lambda>t. \<not> ev_timestamp ev < t) then False
      else if \<not> unset_or (ef_end f) (\<lambda>t. \<not> t < ev_timestamp ev) then False
      else True)"

section \<open>Subscriptions\<close>

definition subscribe ::
    "id \<Rightarrow> timestamp \<Rightarrow> event_filter \<Rightarrow> 's handler option \<Rightarrow> 's bus \<Rightarrow> id result \<times> 's bus" where
  "subscribe gid now f h b =
     (if bu_closed b then (Inl (new_error ErrUnavailable), b)
      else case h of
        None \<Rightarrow> (Inl (new_error ErrInvalid), b)
      | Some h' \<Rightarrow>
          let s = \<lparr>su_id = gid, su_filter = f, su_handler = h', su_active = True, su_created = now\<rparr>;
              b1 = b\<lparr>bu_subs := mput gid s (bu_subs b)\<rparr>
          in (Inr gid,
              case ef_type f of
                Some t \<Rightarrow>
                  let g = (case mget (bu_groups b1) t of None \<Rightarrow> [] | Some g \<Rightarrow> g)
                  in b1\<lparr>bu_groups := mput t (mput gid s g) (bu_groups b1)\<rparr>
              | None \<Rightarrow> b1\<lparr>bu_groups := mmap (\<lambda>_ g. mput gid s g) (bu_groups b1)\<rparr>))"

definition topic_filter :: "string \<Rightarrow> event_filter" where
  "topic_filter topic = (if topic = topic_all then empty_filter else empty_filter\<lparr>ef_type := Some topic\<rparr>)"

definition subscribe_topic ::
    "id \<Rightarrow> timestamp \<Rightarrow> string \<Rightarrow> 's handler option \<Rightarrow> 's bus \<Rightarrow> id result \<times> 's bus" where
  "subscribe_topic gid now topic h b = subscribe gid now (topic_filter topic) h b"

definition unsubscribe :: "id \<Rightarrow> 's bus \<Rightarrow> go_error option \<times> 's bus" where
  "unsubscribe i b =
     (if bu_closed b then (Some (new_error ErrUnavailable), b)
      else case mget (bu_subs b) i of
        None \<Rightarrow> (Some (new_error ErrNotFound), b)
      | Some s \<Rightarrow>
          let groups =
                (case ef_type (su_filter s) of
                   Some t \<Rightarrow> (case mget (bu_groups b) t of Some g \<Rightarrow> mput t (mdel i g) (bu_groups b) | None \<Rightarrow> bu_groups b)
                 | None \<Rightarrow> mmap (\<lambda>_ g. mdel i g) (bu_groups b))
          in (None, b\<lparr>bu_groups := groups, bu_subs := mdel i (bu_subs b)\<rparr>))"

section \<open>Publishing\<close>

definition prepare_event :: "id \<Rightarrow> timestamp \<Rightarrow> event \<Rightarrow> event" where
  "prepare_event gid now ev =
     (let ev1 = (if ev_id ev = '''' then ev\<lparr>ev_id := gid\<rparr> else ev)
      in if ts_is_zero (ev_timestamp ev1) then ev1\<lparr>ev_timestamp := now\<rparr> else ev1)"

text \<open>The subscriptions an event goes to, in the iteration order of the table.\<close>

definition recipients :: "event \<Rightarrow> 's bus \<Rightarrow> id list" where
  "recipients ev b =
     map fst (filter (\<lambda>(i, s). su_active s \<and> event_matches_filter ev (su_filter s) \<and> h_can (su_handler s) (ev_type ev)) (bu_subs b))"

definition dispatch_event :: "(id \<Rightarrow> go_error option) \<Rightarrow> event \<Rightarrow> 's bus \<Rightarrow> go_error option" where
  "dispatch_event out ev b =
     (let hs = recipients ev b
      in if length hs = 0 then None
         else
           let errs = map (wrap_error ErrHandlerFailed) (List.map_filter out hs)
           in if length errs > 0 then Some (wrap_error ErrPartialFailure (PlainErr (dec_nat (length errs)))) else None)"

definition publish_sync :: "id \<Rightarrow> timestamp \<Rightarrow> (id \<Rightarrow> go_error option) \<Rightarrow> event \<Rightarrow> 's bus \<Rightarrow> go_error option" where
  "publish_sync gid now out ev b =
     (if bu_closed b then Some (new_error ErrUnavailable) else dispatch_event out (prepare_event gid now ev) b)"

text \<open>
  The select of \<open>Publish\<close>: the request is buffered, or the context ends first, or
  five seconds pass.  The first needs room in the buffer.
\<close>

datatype publish_case = Sent | CtxDone go_error | TimedOut

definition publish_cap :: nat where
  "publish_cap = 1000"

definition publish_ready :: "publish_case \<Rightarrow> 's bus \<Rightarrow> bool" where
  "publish_ready c b = (case c of Sent \<Rightarrow> length (bu_queue b) < publish_cap | _ \<Rightarrow> True)"

definition publish :: "id \<Rightarrow> timestamp \<Rightarrow> publish_case \<Rightarrow> event \<Rightarrow> 's bus \<Rightarrow> go_error option \<times> 's bus" where
  "publish gid now c ev b =
     (if bu_closed b then (Some (new_error ErrUnavailable), b)
      else case c of
        Sent \<Rightarrow> (None, b\<lparr>bu_queue := bu_queue b @ [prepare_event gid now ev]\<rparr>)
      | CtxDone e \<Rightarrow> (Some (wrap_error ErrCanceled e), b)
      | TimedOut \<Rightarrow> (Some (new_error ErrTimeout), b))"

text \<open>One round of the worker: it takes the oldest request.\<close>

definition bus_worker_take :: "'s bus \<Rightarrow> (event \<times> 's bus) option" where
  "bus_worker_take b = (case bu_queue b of [] \<Rightarrow> None | ev # q \<Rightarrow> Some (ev, b\<lparr>bu_queue := q\<rparr>))"

text \<open>
  \<open>Close\<close> returns when the worker has drained the buffer: the events in the middle are
  dispatched by then.  What a concurrent \<open>Publish\<close> can see is the subject of Bus_Shutdown.
\<close>

definition bus_close :: "'s bus \<Rightarrow> go_error option \<times> event list \<times> 's bus" where
  "bus_close b =
     (if bu_closed b then (Some (new_error ErrInvalid), [], b)
      else (None, bu_queue b, b\<lparr>bu_closed := True, bu_queue := []\<rparr>))"

record bus_stats =
  bst_total :: nat
  bst_active :: nat
  bst_pending :: nat

definition bus_stats_of :: "'s bus \<Rightarrow> bus_stats" where
  "bus_stats_of b = \<lparr>bst_total = length (bu_subs b), bst_active = length (filter (su_active \<circ> snd) (bu_subs b)),
     bst_pending = length (bu_queue b)\<rparr>"

section \<open>Subscriptions over runs\<close>

datatype 's bus_op =
    BSubscribe id timestamp event_filter "'s handler option"
  | BTopic id timestamp string "'s handler option"
  | BUnsubscribe id
  | BPublish id timestamp publish_case event
  | BTake
  | BClose

fun bus_exec :: "'s bus \<Rightarrow> 's bus_op \<Rightarrow> 's bus" where
  "bus_exec b (BSubscribe gid now f h) = snd (subscribe gid now f h b)"
| "bus_exec b (BTopic gid now topic h) = snd (subscribe_topic gid now topic h b)"
| "bus_exec b (BUnsubscribe i) = snd (unsubscribe i b)"
| "bus_exec b (BPublish gid now c ev) = snd (publish gid now c ev b)"
| "bus_exec b BTake = (case bus_worker_take b of None \<Rightarrow> b | Some (ev, b') \<Rightarrow> b')"
| "bus_exec b BClose = snd (snd (bus_close b))"

lemma bus_exec_wf: "mwf (bu_subs b) \<Longrightarrow> mwf (bu_subs (bus_exec b c))"
  by (cases c)
    (auto simp: subscribe_def subscribe_topic_def unsubscribe_def publish_def bus_worker_take_def bus_close_def Let_def
      split: option.split list.split publish_case.split)

interpretation buses: machine bus_exec "\<lambda>b. mwf (bu_subs b)"
  by unfold_locales (rule bus_exec_wf)

text \<open>Calls that neither end nor replace a subscription.\<close>

fun keeps_sub :: "id \<Rightarrow> 's bus_op \<Rightarrow> bool" where
  "keeps_sub i (BSubscribe gid now f h) = (gid \<noteq> i)"
| "keeps_sub i (BTopic gid now topic h) = (gid \<noteq> i)"
| "keeps_sub i (BUnsubscribe j) = (j \<noteq> i)"
| "keeps_sub i c = True"

lemma keeps_sub_get: "keeps_sub i c \<Longrightarrow> mget (bu_subs (bus_exec b c)) i = mget (bu_subs b) i"
  by (cases c)
    (auto simp: subscribe_def subscribe_topic_def unsubscribe_def publish_def bus_worker_take_def bus_close_def Let_def
      split: option.split list.split publish_case.split)

lemma keeps_sub_run: "list_all (keeps_sub i) cs \<Longrightarrow> mget (bu_subs (foldl bus_exec b cs)) i = mget (bu_subs b) i"
  by (induction cs arbitrary: b) (simp_all add: keeps_sub_get)

lemma recipients_iff:
  assumes "mwf (bu_subs b)"
  shows "i \<in> set (recipients ev b) \<longleftrightarrow>
    (\<exists>s. mget (bu_subs b) i = Some s \<and> su_active s \<and> event_matches_filter ev (su_filter s) \<and> h_can (su_handler s) (ev_type ev))"
  using mget_iff_in_set [OF assms, of i] by (force simp: recipients_def image_iff)

lemma subscribe_get:
  "\<not> bu_closed b \<Longrightarrow> mget (bu_subs (snd (subscribe i now f (Some h) b))) i =
     Some \<lparr>su_id = i, su_filter = f, su_handler = h, su_active = True, su_created = now\<rparr>"
  by (simp add: subscribe_def Let_def split: option.split)

lemma unsubscribe_get: "\<not> bu_closed b \<Longrightarrow> mget (bu_subs (snd (unsubscribe i b))) i = None"
  by (simp add: unsubscribe_def Let_def split: option.split)

lemma map_filter_Nil: "List.map_filter f xs = [] \<longleftrightarrow> (\<forall>x \<in> set xs. f x = None)"
  by (induction xs) (auto split: option.split)

lemma dispatch_event_None: "dispatch_event out ev b = None \<longleftrightarrow> (\<forall>i \<in> set (recipients ev b). out i = None)"
  by (auto simp: dispatch_event_def Let_def map_filter_Nil)

text \<open>
  An open subscription receives exactly the events its filter and its handler accept, whatever
  other calls come after it, until it is removed; from then on it receives none until its identifier
  is used again.
\<close>

lemma subscription_lifetime:
  assumes b: "b = foldl bus_exec new_bus cs" and "\<not> bu_closed b"
    and b1: "b1 = foldl bus_exec (snd (subscribe i now f (Some h) b)) ds" and ds: "list_all (keeps_sub i) ds"
    and es: "list_all (keeps_sub i) es"
  shows "(i \<in> set (recipients ev b1) \<longleftrightarrow> event_matches_filter ev f \<and> h_can h (ev_type ev))
    \<and> (\<not> bu_closed b1 \<longrightarrow> i \<notin> set (recipients ev (foldl bus_exec (snd (unsubscribe i b1)) es)))"
proof -
  have wf: "mwf (bu_subs b)" unfolding b by (rule buses.run_good) (simp add: new_bus_def)
  have "mwf (bu_subs (bus_exec b (BSubscribe i now f (Some h))))" by (rule bus_exec_wf [OF wf])
  then have wf1: "mwf (bu_subs b1)" unfolding b1 by (intro buses.run_good) simp
  have "mwf (bu_subs (bus_exec b1 (BUnsubscribe i)))" by (rule bus_exec_wf [OF wf1])
  then have wf2: "mwf (bu_subs (foldl bus_exec (snd (unsubscribe i b1)) es))" by (intro buses.run_good) simp
  have "i \<in> set (recipients ev b1) \<longleftrightarrow> event_matches_filter ev f \<and> h_can h (ev_type ev)"
    unfolding recipients_iff [OF wf1] unfolding b1 keeps_sub_run [OF ds] subscribe_get [OF assms(2)] by simp
  moreover have "\<not> bu_closed b1 \<longrightarrow> i \<notin> set (recipients ev (foldl bus_exec (snd (unsubscribe i b1)) es))"
    using unsubscribe_get [of b1 i] unfolding recipients_iff [OF wf2] keeps_sub_run [OF es] by simp
  ultimately show ?thesis by blast
qed

lemma subscription_lifetime_witness:
  "''s1'' \<in> set (recipients sample_event (snd (subscribe ''s1'' 3 empty_filter (Some (event_func (\<lambda>_ n. (None, Suc n)))) new_bus)))"
  using subscription_lifetime [of new_bus "[]" "snd (subscribe ''s1'' 3 empty_filter (Some (event_func (\<lambda>_ n. (None, Suc n)))) new_bus)"
      "''s1''" 3 empty_filter "event_func (\<lambda>_ n. (None, Suc n))" "[]" "[]" sample_event]
  by (simp add: new_bus_def event_func_def event_matches_filter_def empty_filter_def unset_or_def)

text \<open>
  A subscription with any topic but the one for everything receives none of the events the
  program defines: the topic is compared with the whole type of the event.
\<close>

lemma topic_subscription_is_deaf:
  "\<forall>topic \<in> set event_topics - {topic_all}. \<forall>ev. ev_type ev \<in> set event_types \<longrightarrow> \<not> event_matches_filter ev (topic_filter topic)"
  by (auto simp: event_topics_def event_types_def topic_all_def topic_filter_def event_matches_filter_def unset_or_def empty_filter_def)

lemma topic_subscription_is_deaf_witness:
  "\<not> event_matches_filter sample_event (topic_filter ''container'')"
proof -
  have t: "''container'' \<in> set event_topics - {topic_all}" "ev_type sample_event \<in> set event_types" by code_simp+
  show ?thesis using topic_subscription_is_deaf t by blast
qed

end
