(* ===== verification/Bus_Shutdown.thy ===== *)
theory Bus_Shutdown
  imports Main
begin

text \<open>
  \<open>Publish\<close>, the worker and \<open>Close\<close> of the bus as steps: \<open>Publish\<close> reads \<open>closed\<close> under
  the lock and sends on the channel after releasing it; \<open>Close\<close> sets \<open>closed\<close>, closes
  \<open>closeCh\<close>, waits for the worker and closes the channel itself.  Publisher \<open>k\<close> publishes
  the event \<open>k\<close>; the record keeps, besides the state of the program, the events that
  were accepted and those that were dispatched.
\<close>

datatype pub_pc = PubCheck | PubSend | PubAccepted | PubRefused | PubGaveUp | PubPanicked
datatype pub_worker_pc = WorkRun | WorkDrain | WorkDone
datatype bus_close_pc = CloseNew | CloseSet | CloseSignalled | CloseEnded

record bus_run =
  br_closed :: bool
  br_signal :: bool
  br_chan_closed :: bool
  br_queue :: "nat list"
  br_pubs :: "pub_pc list"
  br_worker :: pub_worker_pc
  br_closer :: bus_close_pc
  br_accepted :: "nat list"
  br_dispatched :: "nat list"

definition chan_cap :: nat where
  "chan_cap = 1000"

definition set_pub :: "nat \<Rightarrow> pub_pc \<Rightarrow> bus_run \<Rightarrow> bus_run" where
  "set_pub k pc s = s\<lparr>br_pubs := (br_pubs s)[k := pc]\<rparr>"

definition pub_at :: "nat \<Rightarrow> pub_pc \<Rightarrow> bus_run \<Rightarrow> bool" where
  "pub_at k pc s \<longleftrightarrow> k < length (br_pubs s) \<and> br_pubs s ! k = pc"

definition take_one :: "nat \<Rightarrow> nat list \<Rightarrow> bus_run \<Rightarrow> bus_run" where
  "take_one k q s = s\<lparr>br_queue := q, br_dispatched := br_dispatched s @ [k]\<rparr>"

inductive bus_step :: "bus_run \<Rightarrow> bus_run \<Rightarrow> bool" where
  pub_open: "pub_at k PubCheck s \<Longrightarrow> \<not> br_closed s \<Longrightarrow> bus_step s (set_pub k PubSend s)"
| pub_refused: "pub_at k PubCheck s \<Longrightarrow> br_closed s \<Longrightarrow> bus_step s (set_pub k PubRefused s)"
| pub_send: "pub_at k PubSend s \<Longrightarrow> \<not> br_chan_closed s \<Longrightarrow> length (br_queue s) < chan_cap \<Longrightarrow>
    bus_step s ((set_pub k PubAccepted s)\<lparr>br_queue := br_queue s @ [k], br_accepted := br_accepted s @ [k]\<rparr>)"
| pub_gave_up: "pub_at k PubSend s \<Longrightarrow> bus_step s (set_pub k PubGaveUp s)"
| pub_panic: "pub_at k PubSend s \<Longrightarrow> br_chan_closed s \<Longrightarrow> bus_step s (set_pub k PubPanicked s)"
| work_take: "br_worker s = WorkRun \<Longrightarrow> br_queue s = k # q \<Longrightarrow> bus_step s (take_one k q s)"
| work_stop: "br_worker s = WorkRun \<Longrightarrow> br_signal s \<Longrightarrow> bus_step s (s\<lparr>br_worker := WorkDrain\<rparr>)"
| drain_take: "br_worker s = WorkDrain \<Longrightarrow> br_queue s = k # q \<Longrightarrow> bus_step s (take_one k q s)"
| drain_end: "br_worker s = WorkDrain \<Longrightarrow> br_queue s = [] \<Longrightarrow> bus_step s (s\<lparr>br_worker := WorkDone\<rparr>)"
| close_set: "br_closer s = CloseNew \<Longrightarrow> bus_step s (s\<lparr>br_closer := CloseSet, br_closed := True\<rparr>)"
| close_signal: "br_closer s = CloseSet \<Longrightarrow> bus_step s (s\<lparr>br_closer := CloseSignalled, br_signal := True\<rparr>)"
| close_end: "br_closer s = CloseSignalled \<Longrightarrow> br_worker s = WorkDone \<Longrightarrow>
    bus_step s (s\<lparr>br_closer := CloseEnded, br_chan_closed := True\<rparr>)"

definition bus_start :: "nat \<Rightarrow> bus_run" where
  "bus_start n = \<lparr>br_closed = False, br_signal = False, br_chan_closed = False, br_queue = [],
     br_pubs = replicate n PubCheck, br_worker = WorkRun, br_closer = CloseNew, br_accepted = [], br_dispatched = []\<rparr>"

inductive bus_reach :: "nat \<Rightarrow> bus_run \<Rightarrow> bool" for n where
  br_start: "bus_reach n (bus_start n)"
| br_step: "bus_reach n s \<Longrightarrow> bus_step s s' \<Longrightarrow> bus_reach n s'"

section \<open>Delivery\<close>

definition bus_inv :: "bus_run \<Rightarrow> bool" where
  "bus_inv s \<longleftrightarrow> br_accepted s = br_dispatched s @ br_queue s \<and> distinct (br_accepted s)
     \<and> (\<forall>k. k \<in> set (br_accepted s) \<longleftrightarrow> pub_at k PubAccepted s)"

lemma pub_at_set: "k < length (br_pubs s) \<Longrightarrow> pub_at j pc (set_pub k pc' s) \<longleftrightarrow> (if j = k then pc = pc' else pub_at j pc s)"
  by (auto simp: pub_at_def set_pub_def nth_list_update)

lemma pub_at_unique: "pub_at k pc s \<Longrightarrow> pub_at k pc' s \<longleftrightarrow> pc = pc'"
  by (auto simp: pub_at_def)

lemma pub_at_update [simp]:
  "pub_at k pc (s\<lparr>br_queue := q\<rparr>) = pub_at k pc s" "pub_at k pc (s\<lparr>br_accepted := a\<rparr>) = pub_at k pc s"
  "pub_at k pc (s\<lparr>br_dispatched := d\<rparr>) = pub_at k pc s" "pub_at k pc (s\<lparr>br_worker := w\<rparr>) = pub_at k pc s"
  "pub_at k pc (s\<lparr>br_closer := c\<rparr>) = pub_at k pc s" "pub_at k pc (s\<lparr>br_closed := b\<rparr>) = pub_at k pc s"
  "pub_at k pc (s\<lparr>br_signal := b\<rparr>) = pub_at k pc s" "pub_at k pc (s\<lparr>br_chan_closed := b\<rparr>) = pub_at k pc s"
  by (simp_all add: pub_at_def)

lemma set_pub_fields [simp]:
  "br_closed (set_pub k pc s) = br_closed s" "br_signal (set_pub k pc s) = br_signal s"
  "br_chan_closed (set_pub k pc s) = br_chan_closed s" "br_queue (set_pub k pc s) = br_queue s"
  "br_worker (set_pub k pc s) = br_worker s" "br_closer (set_pub k pc s) = br_closer s"
  "br_accepted (set_pub k pc s) = br_accepted s" "br_dispatched (set_pub k pc s) = br_dispatched s"
  "length (br_pubs (set_pub k pc s)) = length (br_pubs s)"
  by (simp_all add: set_pub_def)

lemma pub_at_less: "pub_at k pc s \<Longrightarrow> k < length (br_pubs s)"
  by (simp add: pub_at_def)

lemma bus_invI:
  "br_accepted s = br_dispatched s @ br_queue s \<Longrightarrow> distinct (br_accepted s) \<Longrightarrow>
   (\<And>k. k \<in> set (br_accepted s) \<longleftrightarrow> pub_at k PubAccepted s) \<Longrightarrow> bus_inv s"
  by (simp only: bus_inv_def) blast

lemma bus_invD:
  assumes "bus_inv s"
  shows "br_accepted s = br_dispatched s @ br_queue s" "distinct (br_accepted s)"
    "k \<in> set (br_accepted s) \<longleftrightarrow> pub_at k PubAccepted s"
  using assms unfolding bus_inv_def by blast+

lemma not_accepted:
  assumes "bus_inv s" and "pub_at k pc s" and "pc \<noteq> PubAccepted"
  shows "k \<notin> set (br_accepted s)"
  using assms(2,3) unfolding bus_invD(3) [OF assms(1)] by (auto simp: pub_at_def)

lemma bus_inv_pub:
  assumes inv: "bus_inv s" and at: "pub_at k pc s" and pc: "pc \<noteq> PubAccepted" and pc': "pc' \<noteq> PubAccepted"
  shows "bus_inv (set_pub k pc' s)"
proof (rule bus_invI)
  fix j
  show "j \<in> set (br_accepted (set_pub k pc' s)) \<longleftrightarrow> pub_at j PubAccepted (set_pub k pc' s)"
    using not_accepted [OF inv at pc] pc' bus_invD(3) [OF inv, of j]
    by (cases "j = k") (simp_all add: pub_at_set [OF pub_at_less [OF at]])
qed (use bus_invD(1,2) [OF inv] in simp_all)

lemma bus_inv_same:
  assumes "bus_inv s" and "br_accepted s' = br_accepted s" and "br_dispatched s' @ br_queue s' = br_dispatched s @ br_queue s"
    and "br_pubs s' = br_pubs s"
  shows "bus_inv s'"
proof (rule bus_invI)
  show "br_accepted s' = br_dispatched s' @ br_queue s'" using bus_invD(1) [OF assms(1)] assms(2,3) by metis
  show "distinct (br_accepted s')" using bus_invD(2) [OF assms(1)] assms(2) by metis
  show "j \<in> set (br_accepted s') \<longleftrightarrow> pub_at j PubAccepted s'" for j
    using bus_invD(3) [OF assms(1), of j] assms(2,4) by (simp only: pub_at_def)
qed

lemma bus_step_inv: "bus_step s s' \<Longrightarrow> bus_inv s \<Longrightarrow> bus_inv s'"
proof (induction rule: bus_step.induct)
  case (pub_send k s)
  let ?s = "(set_pub k PubAccepted s)\<lparr>br_queue := br_queue s @ [k], br_accepted := br_accepted s @ [k]\<rparr>"
  have fresh: "k \<notin> set (br_accepted s)" using not_accepted [OF pub_send(4,1)] by simp
  show ?case
  proof (rule bus_invI)
    show "br_accepted ?s = br_dispatched ?s @ br_queue ?s" using bus_invD(1) [OF pub_send(4)] by simp
    show "distinct (br_accepted ?s)" using bus_invD(2) [OF pub_send(4)] fresh by simp
    show "j \<in> set (br_accepted ?s) \<longleftrightarrow> pub_at j PubAccepted ?s" for j
      using bus_invD(3) [OF pub_send(4), of j] by (simp add: pub_at_set [OF pub_at_less [OF pub_send(1)]])
  qed
next
  case (work_take s k q)
  show ?case by (rule bus_inv_same [OF work_take(3)]) (simp_all add: take_one_def work_take(2))
next
  case (drain_take s k q)
  show ?case by (rule bus_inv_same [OF drain_take(3)]) (simp_all add: take_one_def drain_take(2))
qed (auto intro: bus_inv_pub bus_inv_same)

lemma bus_reach_inv: "bus_reach n s \<Longrightarrow> bus_inv s"
proof (induction rule: bus_reach.induct)
  case br_start
  show ?case by (rule bus_invI) (auto simp: bus_start_def pub_at_def)
qed (rule bus_step_inv)

section \<open>Closing\<close>

text \<open>The steps of \<open>Close\<close> and what each leaves behind.\<close>

definition close_inv :: "bus_run \<Rightarrow> bool" where
  "close_inv s \<longleftrightarrow> (br_signal s \<longrightarrow> br_closed s) \<and> (br_closer s = CloseNew \<longrightarrow> \<not> br_closed s)
     \<and> (br_closer s = CloseNew \<or> br_closer s = CloseSet \<longrightarrow> \<not> br_signal s)
     \<and> (br_worker s \<noteq> WorkRun \<longrightarrow> br_signal s) \<and> (br_chan_closed s \<longrightarrow> br_worker s = WorkDone)
     \<and> (br_chan_closed s \<longleftrightarrow> br_closer s = CloseEnded) \<and> (br_closer s \<noteq> CloseNew \<longrightarrow> br_closed s)"

lemma bus_step_close_inv: "bus_step s s' \<Longrightarrow> close_inv s \<Longrightarrow> close_inv s'"
  by (induction rule: bus_step.induct) (auto simp: close_inv_def take_one_def)

lemma bus_reach_close_inv: "bus_reach n s \<Longrightarrow> close_inv s"
proof (induction rule: bus_reach.induct)
  case br_start
  show ?case by (simp add: bus_start_def close_inv_def)
qed (rule bus_step_close_inv)

text \<open>No publisher is between its check of \<open>closed\<close> and the end of its send.\<close>

definition quiet :: "bus_run \<Rightarrow> bool" where
  "quiet s \<longleftrightarrow> br_closed s \<and> (\<forall>k. \<not> pub_at k PubSend s) \<and> (br_worker s = WorkDone \<longrightarrow> br_queue s = [])"

lemma set_pub_at: "pub_at j pc (set_pub k pc' s) \<Longrightarrow> pub_at j pc s \<or> pc = pc'"
  by (cases "j = k") (auto simp: pub_at_def set_pub_def)

lemma quiet_step: "bus_step s s' \<Longrightarrow> quiet s \<Longrightarrow> quiet s'"
  by (induction rule: bus_step.induct) (auto simp: quiet_def take_one_def dest: set_pub_at)

lemma close_mark: "bus_step s s' \<Longrightarrow> \<not> br_closed s \<Longrightarrow> br_closed s' \<Longrightarrow> s' = s\<lparr>br_closer := CloseSet, br_closed := True\<rparr>"
  by (induction rule: bus_step.induct) (auto simp: take_one_def)

lemma quiet_run: "bus_step\<^sup>*\<^sup>* s s' \<Longrightarrow> quiet s \<Longrightarrow> quiet s'"
  by (induction rule: rtranclp_induct) (auto intro: quiet_step)

lemma bus_reach_run: "bus_step\<^sup>*\<^sup>* s s' \<Longrightarrow> bus_reach n s \<Longrightarrow> bus_reach n s'"
  by (induction rule: rtranclp_induct) (auto intro: br_step)

text \<open>
  C13: The worker dispatches the accepted events in the order in which they were accepted, each at
  most once, and none that was not accepted.  If no publisher is sending when the bus is marked
  closed, every accepted event has been dispatched when \<open>Close\<close> returns.
\<close>

theorem bus_dispatches_in_order:
  assumes "bus_reach n s"
  shows "br_accepted s = br_dispatched s @ br_queue s \<and> distinct (br_accepted s)
    \<and> (\<forall>k. k \<in> set (br_accepted s) \<longleftrightarrow> pub_at k PubAccepted s)
    \<and> (\<forall>s'. bus_step s s' \<and> \<not> br_closed s \<and> br_closed s' \<and> (\<forall>k. \<not> pub_at k PubSend s) \<longrightarrow>
          (\<forall>s''. bus_step\<^sup>*\<^sup>* s' s'' \<and> br_closer s'' = CloseEnded \<longrightarrow> br_dispatched s'' = br_accepted s''))"
proof -
  have inv: "bus_inv s" by (rule bus_reach_inv [OF assms])
  have "br_dispatched s'' = br_accepted s''"
    if st: "bus_step s s'" "\<not> br_closed s" "br_closed s'" and no: "\<forall>k. \<not> pub_at k PubSend s"
      and run: "bus_step\<^sup>*\<^sup>* s' s''" and ended: "br_closer s'' = CloseEnded" for s' s''
  proof -
    have r': "bus_reach n s'" by (rule br_step [OF assms st(1)])
    have "close_inv s" by (rule bus_reach_close_inv [OF assms])
    moreover have "s' = s\<lparr>br_closer := CloseSet, br_closed := True\<rparr>" by (rule close_mark [OF st])
    ultimately have "quiet s'" using st(2) no by (auto simp: quiet_def close_inv_def)
    then have q: "quiet s''" by (rule quiet_run [OF run])
    have r'': "bus_reach n s''" by (rule bus_reach_run [OF run r'])
    have "br_worker s'' = WorkDone" using bus_reach_close_inv [OF r''] ended by (simp add: close_inv_def)
    then have "br_queue s'' = []" using q by (simp add: quiet_def)
    then show ?thesis using bus_invD(1) [OF bus_reach_inv [OF r'']] by simp
  qed
  then show ?thesis using bus_invD [OF inv] by blast
qed

text \<open>
  Two publishers: the first sends its event, then the bus is marked closed, the second is refused, the
  worker dispatches the event, drains and ends, and \<open>Close\<close> returns.
\<close>

definition sent_one :: bus_run where
  "sent_one = (bus_start 2)\<lparr>br_pubs := [PubAccepted, PubCheck], br_queue := [0], br_accepted := [0]\<rparr>"

definition bus_marked :: bus_run where
  "bus_marked = sent_one\<lparr>br_closer := CloseSet, br_closed := True\<rparr>"

definition closed_after_one :: bus_run where
  "closed_after_one = \<lparr>br_closed = True, br_signal = True, br_chan_closed = True, br_queue = [],
     br_pubs = [PubAccepted, PubRefused], br_worker = WorkDone, br_closer = CloseEnded, br_accepted = [0], br_dispatched = [0]\<rparr>"

lemma sent_one_reach: "bus_reach 2 sent_one"
proof -
  have s: "bus_start 2 = \<lparr>br_closed = False, br_signal = False, br_chan_closed = False, br_queue = [],
     br_pubs = [PubCheck, PubCheck], br_worker = WorkRun, br_closer = CloseNew, br_accepted = [], br_dispatched = []\<rparr>"
    by (simp add: bus_start_def numeral_2_eq_2)
  have "bus_reach 2 (set_pub 0 PubSend (bus_start 2))"
    by (rule br_step [OF br_start], rule pub_open) (simp_all add: s pub_at_def)
  then have "bus_reach 2 ((set_pub 0 PubAccepted (set_pub 0 PubSend (bus_start 2)))
      \<lparr>br_queue := br_queue (set_pub 0 PubSend (bus_start 2)) @ [0], br_accepted := br_accepted (set_pub 0 PubSend (bus_start 2)) @ [0]\<rparr>)"
    by (rule br_step, intro pub_send) (simp_all add: s pub_at_def set_pub_def chan_cap_def)
  then show ?thesis by (simp add: s sent_one_def set_pub_def)
qed

lemma marked_step: "bus_step sent_one bus_marked"
  unfolding bus_marked_def by (rule close_set) (simp add: sent_one_def bus_start_def)

lemma marked_run: "bus_step\<^sup>*\<^sup>* bus_marked closed_after_one"
proof -
  let ?a = "set_pub 1 PubRefused bus_marked"
  let ?b = "take_one 0 [] ?a"
  let ?c = "?b\<lparr>br_closer := CloseSignalled, br_signal := True\<rparr>"
  let ?d = "?c\<lparr>br_worker := WorkDrain\<rparr>"
  let ?e = "?d\<lparr>br_worker := WorkDone\<rparr>"
  have "bus_step bus_marked ?a" by (rule pub_refused) (simp_all add: bus_marked_def sent_one_def pub_at_def)
  moreover have "bus_step ?a ?b" by (rule work_take) (simp_all add: bus_marked_def sent_one_def bus_start_def)
  moreover have "bus_step ?b ?c" by (rule close_signal) (simp add: bus_marked_def take_one_def)
  moreover have "bus_step ?c ?d" by (rule work_stop) (simp_all add: bus_marked_def sent_one_def bus_start_def take_one_def)
  moreover have "bus_step ?d ?e" by (rule drain_end) (simp_all add: take_one_def)
  moreover have "bus_step ?e (?e\<lparr>br_closer := CloseEnded, br_chan_closed := True\<rparr>)" by (rule close_end) simp_all
  moreover have "?e\<lparr>br_closer := CloseEnded, br_chan_closed := True\<rparr> = closed_after_one"
    by (simp add: closed_after_one_def bus_marked_def sent_one_def bus_start_def set_pub_def take_one_def)
  ultimately show ?thesis by (metis (no_types, lifting) converse_rtranclp_into_rtranclp rtranclp.rtrancl_refl)
qed

lemma bus_dispatches_in_order_witness:
  "br_accepted closed_after_one = [0] \<and> br_dispatched closed_after_one = br_accepted closed_after_one
   \<and> br_accepted sent_one = br_dispatched sent_one @ br_queue sent_one"
proof -
  have "\<not> br_closed sent_one" "br_closed bus_marked" "\<forall>k. \<not> pub_at k PubSend sent_one"
    by (auto simp: sent_one_def bus_start_def bus_marked_def pub_at_def less_Suc_eq nth_Cons split: nat.splits)
  moreover have "br_closer closed_after_one = CloseEnded" "br_accepted closed_after_one = [0]"
    by (simp_all add: closed_after_one_def)
  ultimately show ?thesis using bus_dispatches_in_order [OF sent_one_reach] marked_step marked_run by blast
qed

text \<open>
  C40: Publishing while the bus is closed goes wrong in two ways, each with a single publisher: the
  send can panic on the closed channel, and an event can be accepted, with no error for its publisher,
  that no later step dispatches.
\<close>

theorem publish_races_close:
  "(\<exists>s. bus_reach 1 s \<and> pub_at 0 PubPanicked s)
   \<and> (\<exists>s. bus_reach 1 s \<and> pub_at 0 PubAccepted s \<and> (\<forall>s'. bus_step\<^sup>*\<^sup>* s s' \<longrightarrow> 0 \<notin> set (br_dispatched s')))"
proof -
  define s1 where "s1 = set_pub 0 PubSend (bus_start 1)"
  define s2 where "s2 = s1\<lparr>br_closer := CloseSet, br_closed := True\<rparr>"
  define s3 where "s3 = s2\<lparr>br_closer := CloseSignalled, br_signal := True\<rparr>"
  define s4 where "s4 = s3\<lparr>br_worker := WorkDrain\<rparr>"
  define s5 where "s5 = s4\<lparr>br_worker := WorkDone\<rparr>"
  define s6 where "s6 = s5\<lparr>br_closer := CloseEnded, br_chan_closed := True\<rparr>"
  define lost where "lost = (set_pub 0 PubAccepted s5)\<lparr>br_queue := br_queue s5 @ [0], br_accepted := br_accepted s5 @ [0]\<rparr>"
  have at: "pub_at 0 PubCheck (bus_start 1)" "pub_at 0 PubSend s1" by (simp_all add: s1_def bus_start_def pub_at_def set_pub_def)
  have r1: "bus_reach 1 s1" unfolding s1_def
    by (rule br_step [OF br_start]) (rule pub_open [OF at(1)], simp add: bus_start_def)
  have r2: "bus_reach 1 s2" unfolding s2_def by (rule br_step [OF r1]) (rule close_set, simp add: s1_def bus_start_def)
  have r3: "bus_reach 1 s3" unfolding s3_def by (rule br_step [OF r2]) (rule close_signal, simp add: s2_def)
  have r4: "bus_reach 1 s4" unfolding s4_def
    by (rule br_step [OF r3]) (rule work_stop, simp_all add: s3_def s2_def s1_def bus_start_def)
  have r5: "bus_reach 1 s5" unfolding s5_def
    by (rule br_step [OF r4]) (rule drain_end, simp_all add: s4_def s3_def s2_def s1_def bus_start_def)
  have r6: "bus_reach 1 s6" unfolding s6_def
    by (rule br_step [OF r5]) (rule close_end, simp_all add: s5_def s4_def s3_def)
  have at5: "pub_at 0 PubSend s5" and at6: "pub_at 0 PubSend s6"
    using at(2) by (simp_all add: s6_def s5_def s4_def s3_def s2_def)
  have "bus_reach 1 (set_pub 0 PubPanicked s6)"
    by (rule br_step [OF r6]) (rule pub_panic [OF at6], simp add: s6_def)
  moreover have "pub_at 0 PubPanicked (set_pub 0 PubPanicked s6)" using pub_at_less [OF at6] by (simp add: pub_at_set)
  moreover have "bus_reach 1 lost" unfolding lost_def
    by (rule br_step [OF r5])
      (rule pub_send [OF at5]; simp add: s5_def s4_def s3_def s2_def s1_def bus_start_def chan_cap_def)
  moreover have "pub_at 0 PubAccepted lost" using pub_at_less [OF at5] by (simp add: lost_def pub_at_set)
  moreover have "0 \<notin> set (br_dispatched s')" if "bus_step\<^sup>*\<^sup>* lost s'" for s'
  proof -
    have "br_worker s' = WorkDone \<and> br_dispatched s' = []" using that
    proof (induction rule: rtranclp_induct)
      case base
      show ?case by (simp add: lost_def s5_def s4_def s3_def s2_def s1_def bus_start_def)
    next
      case (step y z)
      from step(2,3) show ?case by (induction rule: bus_step.induct) auto
    qed
    then show ?thesis by simp
  qed
  ultimately show ?thesis by blast
qed

lemma publish_races_close_witness: "\<exists>s. bus_reach 1 s \<and> pub_at 0 PubPanicked s"
  by (rule conjunct1 [OF publish_races_close])

end
