(* ===== verification/Event_Handlers.thy ===== *)
theory Event_Handlers
  imports Event_Types
begin

text \<open>
  pkg/events/handler.go: handlers that wrap handlers, but for the buffering one.  The constructors refuse a nil
  handler and fill in defaults; a handler that is nil is \<open>None\<close>.
\<close>

section \<open>Chain\<close>

type_synonym 's chain = "'s handler list"

definition new_handler_chain :: "'s handler list \<Rightarrow> 's chain result" where
  "new_handler_chain hs = (if length hs = 0 then Inl (new_error ErrInvalid) else Inr hs)"

fun chain_handle :: "'s chain \<Rightarrow> event \<Rightarrow> 's \<Rightarrow> go_error option \<times> 's" where
  "chain_handle [] ev s = (None, s)"
| "chain_handle (h # hs) ev s =
     (if \<not> h_can h (ev_type ev) then chain_handle hs ev s
      else case h_handle h ev s of
        (Some e, s') \<Rightarrow> (Some (wrap_error ErrHandlerFailed e), s')
      | (None, s') \<Rightarrow> chain_handle hs ev s')"

definition chain_can :: "'s chain \<Rightarrow> event_type \<Rightarrow> bool" where
  "chain_can hs t \<longleftrightarrow> (\<exists>h \<in> set hs. h_can h t)"

definition chain_add :: "'s handler option \<Rightarrow> 's chain \<Rightarrow> go_error option \<times> 's chain" where
  "chain_add h hs = (case h of None \<Rightarrow> (Some (new_error ErrInvalid), hs) | Some h' \<Rightarrow> (None, hs @ [h']))"

definition chain_remove :: "int \<Rightarrow> 's chain \<Rightarrow> go_error option \<times> 's chain" where
  "chain_remove i hs =
     (if i < 0 \<or> i \<ge> int (length hs) then (Some (new_error ErrInvalid), hs)
      else (None, take (nat i) hs @ drop (Suc (nat i)) hs))"

definition chain_count :: "'s chain \<Rightarrow> nat" where
  "chain_count hs = length hs"

section \<open>Asynchronous and timed handlers\<close>

text \<open>What the select sees first: the result of the handler, its panic, the timer or the context.\<close>

datatype wait_case = HandlerReturned "go_error option" | HandlerPanicked | TimerFired | ContextDone go_error

definition default_timeout :: int where
  "default_timeout = 30000000000"

record 's timed_handler =
  th_handler :: "'s handler"
  th_timeout :: int

definition new_timed_handler :: "'s handler option \<Rightarrow> int \<Rightarrow> 's timed_handler result" where
  "new_timed_handler h timeout =
     (case h of None \<Rightarrow> Inl (new_error ErrInvalid)
      | Some h' \<Rightarrow> Inr \<lparr>th_handler = h', th_timeout = (if timeout = 0 then default_timeout else timeout)\<rparr>)"

fun async_result :: "wait_case \<Rightarrow> go_error option" where
  "async_result (HandlerReturned r) = r"
| "async_result HandlerPanicked = Some (new_error ErrInternal)"
| "async_result TimerFired = Some (new_error ErrTimeout)"
| "async_result (ContextDone e) = Some (wrap_error ErrCanceled e)"

text \<open>The timeout handler derives a context with the timeout, so both ends of it look the same.\<close>

fun timeout_result :: "wait_case \<Rightarrow> go_error option" where
  "timeout_result (HandlerReturned r) = r"
| "timeout_result HandlerPanicked = Some (new_error ErrInternal)"
| "timeout_result TimerFired = Some (new_error ErrTimeout)"
| "timeout_result (ContextDone e) = Some (new_error ErrTimeout)"

section \<open>Retries\<close>

record 's retry_handler =
  rh_handler :: "'s handler"
  rh_max :: int
  rh_backoff :: int

definition new_retry_handler :: "'s handler option \<Rightarrow> int \<Rightarrow> int \<Rightarrow> 's retry_handler result" where
  "new_retry_handler h max_retries backoff =
     (case h of None \<Rightarrow> Inl (new_error ErrInvalid)
      | Some h' \<Rightarrow> Inr \<lparr>rh_handler = h', rh_max = (if max_retries \<le> 0 then 3 else max_retries),
          rh_backoff = (if backoff = 0 then 1000000000 else backoff)\<rparr>)"

definition retryable :: "go_error \<Rightarrow> bool" where
  "retryable e \<longleftrightarrow> \<not> (is_err_code e ErrInvalid \<or> is_err_code e ErrNotFound \<or> is_err_code e ErrPermission)"

text \<open>
  The loop over the attempts.  \<open>wait attempt d\<close> is the error of the context when it ends
  before the backoff \<open>d\<close> has passed, and nothing otherwise.
\<close>

function retry_loop ::
    "(int \<Rightarrow> int \<Rightarrow> go_error option) \<Rightarrow> 's retry_handler \<Rightarrow> event \<Rightarrow> int \<Rightarrow> go_error option \<Rightarrow> 's \<Rightarrow> go_error option \<times> 's" where
  "retry_loop wait rh ev attempt last_err s =
     (if attempt > rh_max rh then (Some (wrap_error ErrHandlerFailed (case last_err of Some e \<Rightarrow> e | None \<Rightarrow> PlainErr [])), s)
      else
        case (if attempt > 0 then wait attempt (rh_backoff rh * attempt) else None) of
          Some e \<Rightarrow> (Some (wrap_error ErrCanceled e), s)
        | None \<Rightarrow>
            (case h_handle (rh_handler rh) ev s of
               (None, s') \<Rightarrow> (None, s')
             | (Some e, s') \<Rightarrow> if \<not> retryable e then (Some e, s') else retry_loop wait rh ev (attempt + 1) (Some e) s'))"
  by pat_completeness auto
termination
  by (relation "measure (\<lambda>(wait, rh, ev, attempt, last_err, s). nat (rh_max rh + 1 - attempt))") auto

declare retry_loop.simps [simp del]

definition retry_handle ::
    "(int \<Rightarrow> int \<Rightarrow> go_error option) \<Rightarrow> 's retry_handler \<Rightarrow> event \<Rightarrow> 's \<Rightarrow> go_error option \<times> 's" where
  "retry_handle wait rh ev s = retry_loop wait rh ev 0 None s"

section \<open>Filter and log\<close>

record 's filter_handler =
  fh_handler :: "'s handler"
  fh_filter :: "event \<Rightarrow> bool"

definition new_filter_handler :: "'s handler option \<Rightarrow> (event \<Rightarrow> bool) option \<Rightarrow> 's filter_handler result" where
  "new_filter_handler h f =
     (case h of None \<Rightarrow> Inl (new_error ErrInvalid)
      | Some h' \<Rightarrow> (case f of None \<Rightarrow> Inl (new_error ErrInvalid) | Some f' \<Rightarrow> Inr \<lparr>fh_handler = h', fh_filter = f'\<rparr>))"

definition filter_handle :: "'s filter_handler \<Rightarrow> event \<Rightarrow> 's \<Rightarrow> go_error option \<times> 's" where
  "filter_handle fh ev s = (if \<not> fh_filter fh ev then (None, s) else h_handle (fh_handler fh) ev s)"

text \<open>The logging handler returns what its handler returns; the log lines are not modelled.\<close>

definition logging_handle :: "'s handler \<Rightarrow> event \<Rightarrow> 's \<Rightarrow> go_error option \<times> 's" where
  "logging_handle h ev s = h_handle h ev s"

section \<open>What holds\<close>

lemma chain_handle_runs_all:
  "(\<And>h s. h \<in> set hs \<Longrightarrow> fst (h_handle h ev s) = None) \<Longrightarrow>
   chain_handle hs ev s =
     (None, fold (\<lambda>h s. snd (h_handle h ev s)) (filter (\<lambda>h. h_can h (ev_type ev)) hs) s)"
proof (induction hs arbitrary: s)
  case (Cons h hs)
  obtain s' where "h_handle h ev s = (None, s')" using Cons.prems [of h s] by (cases "h_handle h ev s") auto
  then show ?case using Cons by simp
qed simp

lemma chain_add_remove: "chain_add (Some h) hs = (None, hs') \<Longrightarrow> chain_remove (int (length hs)) hs' = (None, hs)"
  by (auto simp: chain_add_def chain_remove_def)

text \<open>A handler that answers with the results of a script, one each call, and keeps the rest.\<close>

definition scripted :: "go_error option list handler" where
  "scripted = \<lparr>h_can = (\<lambda>_. True), h_handle = (\<lambda>ev rs. (hd rs, tl rs))\<rparr>"

definition gives_up :: "go_error option \<Rightarrow> bool" where
  "gives_up r \<longleftrightarrow> (case r of None \<Rightarrow> True | Some e \<Rightarrow> \<not> retryable e)"

text \<open>The error of the context, if it ends in the backoff before call \<open>i\<close>; the first call does not wait.\<close>

definition wait_error :: "(int \<Rightarrow> int \<Rightarrow> go_error option) \<Rightarrow> 's retry_handler \<Rightarrow> nat \<Rightarrow> go_error option" where
  "wait_error wait rh i = (if i = 0 then None else wait (int i) (rh_backoff rh * int i))"

lemma retry_loop_scripted:
  assumes "a \<le> n" and "int n = rh_max rh + 1" and "n \<le> length rs" and "rh_handler rh = scripted"
  shows "retry_loop wait rh ev (int a) le (drop a rs) =
    (case find (\<lambda>i. wait_error wait rh i \<noteq> None \<or> gives_up (rs ! i)) [a..<n] of
       None \<Rightarrow> (Some (wrap_error ErrHandlerFailed
                (case (if a = n then le else rs ! (n - 1)) of Some e \<Rightarrow> e | None \<Rightarrow> PlainErr [])), drop n rs)
     | Some i \<Rightarrow> (case wait_error wait rh i of
           Some e \<Rightarrow> (Some (wrap_error ErrCanceled e), drop i rs)
         | None \<Rightarrow> (rs ! i, drop (Suc i) rs)))"
  using assms(1)
proof (induction "n - a" arbitrary: a le)
  case 0
  then have "a = n" by simp
  then show ?case using assms(2) by (subst retry_loop.simps) simp
next
  case (Suc k)
  then have a: "a < n" by simp
  then have upt: "[a..<n] = a # [Suc a..<n]" by (rule upt_conv_Cons)
  have more: "\<not> int a > rh_max rh" using a assms(2) by simp
  have wait: "(if int a > 0 then wait (int a) (rh_backoff rh * int a) else None) = wait_error wait rh a"
    by (simp add: wait_error_def)
  have call: "h_handle (rh_handler rh) ev (drop a rs) = (rs ! a, drop (Suc a) rs)"
    using a assms(3,4) by (simp add: scripted_def hd_drop_conv_nth drop_Suc tl_drop)
  have step: "retry_loop wait rh ev (int a) le (drop a rs) =
    (case wait_error wait rh a of
       Some e \<Rightarrow> (Some (wrap_error ErrCanceled e), drop a rs)
     | None \<Rightarrow> (case rs ! a of
           None \<Rightarrow> (None, drop (Suc a) rs)
         | Some e \<Rightarrow> if \<not> retryable e then (Some e, drop (Suc a) rs)
                     else retry_loop wait rh ev (int (Suc a)) (Some e) (drop (Suc a) rs)))"
    by (subst retry_loop.simps, simp only: more if_False wait call prod.case of_nat_Suc add.commute)
  show ?case
  proof (cases "wait_error wait rh a")
    case (Some e)
    then show ?thesis by (simp add: step upt del: upt_Suc)
  next
    case None
    show ?thesis
    proof (cases "gives_up (rs ! a)")
      case True
      then show ?thesis using None by (auto simp: step upt gives_up_def simp del: upt_Suc split: option.splits)
    next
      case False
      then obtain e where e: "rs ! a = Some e" "retryable e" by (auto simp: gives_up_def split: option.splits)
      have "retry_loop wait rh ev (int a) le (drop a rs) = retry_loop wait rh ev (int (Suc a)) (Some e) (drop (Suc a) rs)"
        using None e by (simp add: step)
      also note Suc.hyps(1) [of "Suc a" "Some e"]
      finally show ?thesis using Suc.hyps(2) a False None e by (cases "Suc a = n") (auto simp: upt simp del: upt_Suc)
    qed
  qed
qed

lemma find_None_all: "find P xs = None \<Longrightarrow> x \<in> set xs \<Longrightarrow> \<not> P x"
  by (simp add: find_None_iff)

text \<open>
  C12: A handler with retries returns after at most one call more than its limit of retries.  What it
  answers is decided by the first call, in order, whose backoff the context ends, or that succeeds or fails
  for good: a cancelled error without that call in the first case, the answer of the call in the others, and
  the handler is called no more.  If there is none, all calls are made and the last error is wrapped.
\<close>

theorem retry_handle_terminates:
  assumes "new_retry_handler (Some scripted) m d = Inr rh" and "n = nat (rh_max rh) + 1" and "n \<le> length rs"
  shows "retry_handle wait rh ev rs =
    (case find (\<lambda>i. wait_error wait rh i \<noteq> None \<or> gives_up (rs ! i)) [0..<n] of
       None \<Rightarrow> (Some (wrap_error ErrHandlerFailed (the (rs ! (n - 1)))), drop n rs)
     | Some i \<Rightarrow> (case wait_error wait rh i of
           Some e \<Rightarrow> (Some (wrap_error ErrCanceled e), drop i rs)
         | None \<Rightarrow> (rs ! i, drop (Suc i) rs)))"
proof -
  have max: "0 < rh_max rh" and h: "rh_handler rh = scripted" using assms(1) by (auto simp: new_retry_handler_def)
  then have n: "int n = rh_max rh + 1" and pos: "0 < n" using assms(2) by simp_all
  have last: "(case rs ! (n - 1) of Some e \<Rightarrow> e | None \<Rightarrow> PlainErr []) = the (rs ! (n - 1))"
    if "find (\<lambda>i. wait_error wait rh i \<noteq> None \<or> gives_up (rs ! i)) [0..<n] = None"
    using find_None_all [OF that, of "n - 1"] pos by (auto simp: gives_up_def split: option.splits)
  show ?thesis
    using retry_loop_scripted [where a = 0 and le = None and ev = ev and wait = wait, OF _ n assms(3) h] last pos
    by (auto simp: retry_handle_def split: option.split)
qed

definition bad_try :: "go_error option" where
  "bad_try = Some (new_error ErrUnavailable)"

lemma retry_handle_terminates_witness:
  "retry_handle (\<lambda>_ _. None) \<lparr>rh_handler = scripted, rh_max = 2, rh_backoff = 5\<rparr> sample_event [bad_try, None, bad_try, bad_try]
     = (None, [bad_try, bad_try])
   \<and> retry_handle (\<lambda>i d. if i = 2 \<and> d = 10 then Some (PlainErr ''done'') else None)
       \<lparr>rh_handler = scripted, rh_max = 2, rh_backoff = 5\<rparr> sample_event [bad_try, bad_try, None]
     = (Some (wrap_error ErrCanceled (PlainErr ''done'')), [None])"
proof -
  let ?rh = "\<lparr>rh_handler = scripted, rh_max = 2, rh_backoff = 5\<rparr>"
  have new: "new_retry_handler (Some scripted) 2 5 = Inr ?rh" by (simp add: new_retry_handler_def)
  have n: "3 = nat (rh_max ?rh) + 1" by simp
  have bad: "\<not> gives_up bad_try" "gives_up None" by code_simp+
  have upt: "[0..<3] = [0, 1, 2::nat]" by code_simp
  show ?thesis
    using retry_handle_terminates [OF new n, of "[bad_try, None, bad_try, bad_try]" "\<lambda>_ _. None" sample_event]
      retry_handle_terminates [OF new n, of "[bad_try, bad_try, None]" "\<lambda>i d. if i = 2 \<and> d = 10 then Some (PlainErr ''done'') else None" sample_event]
    by (simp add: bad upt wait_error_def)
qed

end
