(* ===== verification/Event_Buffer.thy ===== *)
theory Event_Buffer
  imports Event_Types "HOL-Library.Multiset"
begin

text \<open>
  pkg/events/handler.go, \<open>BufferedHandler\<close>: \<open>Handle\<close>, \<open>Flush\<close>, the flush loop and \<open>Close\<close> as
  they interleave.  The lock is held for the two short sections that add to the buffer and that take
  it; the events taken are handled after it is released, one call of the wrapped handler at a
  time, while other goroutines go on.  What is proved is which events are handled, how often and
  in which order, and that two flushes at a time can change the order.
\<close>

section \<open>The two sections under the lock\<close>

record 's buffered_handler =
  bh_handler :: "'s handler"
  bh_buffer :: "event list"
  bh_batch :: int
  bh_stopped :: bool

definition new_buffered_handler :: "'s handler option \<Rightarrow> int \<Rightarrow> 's buffered_handler result" where
  "new_buffered_handler h batch =
     (case h of None \<Rightarrow> Inl (new_error ErrInvalid)
      | Some h' \<Rightarrow> Inr \<lparr>bh_handler = h', bh_buffer = [], bh_batch = (if batch \<le> 0 then 100 else batch), bh_stopped = False\<rparr>)"

text \<open>\<open>Handle\<close>: whether the buffer is full, and the handler with the event added.\<close>

definition buffer_add :: "event \<Rightarrow> 's buffered_handler \<Rightarrow> bool \<times> 's buffered_handler" where
  "buffer_add ev b =
     (let b1 = b\<lparr>bh_buffer := bh_buffer b @ [ev]\<rparr> in (int (length (bh_buffer b1)) \<ge> bh_batch b1, b1))"

text \<open>\<open>Flush\<close>: the events to handle and the handler with an empty buffer.\<close>

definition buffer_take :: "'s buffered_handler \<Rightarrow> event list \<times> 's buffered_handler" where
  "buffer_take b = (if length (bh_buffer b) = 0 then ([], b) else (bh_buffer b, b\<lparr>bh_buffer := []\<rparr>))"

definition flush_result :: "go_error list \<Rightarrow> go_error option" where
  "flush_result errs =
     (if length errs > 0 then Some (wrap_error ErrPartialFailure (PlainErr (dec_nat (length errs)))) else None)"

definition buffered_size :: "'s buffered_handler \<Rightarrow> nat" where
  "buffered_size b = length (bh_buffer b)"

section \<open>Goroutines\<close>

text \<open>
  The callers of \<open>Handle\<close> and \<open>Flush\<close>, the flush loop and the caller of \<open>Close\<close>, and where each is:
  outside (the loop in its select), before the lock of \<open>Flush\<close>, handling what is left of the
  events it took, waiting for the loop, or returned for good.
\<close>

datatype buf_thread = Caller nat | FlushLoop | Closer

datatype buf_pc = PcIdle | PcFlush | PcHandling "event list" "go_error list" | PcWaiting | PcFinished

text \<open>
  \<open>bu_last\<close> marks the last flush of the loop; the events given and those handled, in order, and
  the results of the calls are kept beside the state of the program.
\<close>

record 's buf_run =
  bu_handler :: "'s buffered_handler"
  bu_state :: 's
  bu_pcs :: "buf_thread \<Rightarrow> buf_pc"
  bu_callers :: nat
  bu_last :: bool
  bu_given :: "event list"
  bu_handled :: "event list"
  bu_results :: "(buf_thread \<times> go_error option) list"

definition buf_start :: "nat \<Rightarrow> 's buffered_handler \<Rightarrow> 's \<Rightarrow> 's buf_run" where
  "buf_start n b s = \<lparr>bu_handler = b, bu_state = s, bu_pcs = (\<lambda>_. PcIdle), bu_callers = n, bu_last = False,
     bu_given = [], bu_handled = [], bu_results = []\<rparr>"

definition set_pc :: "buf_thread \<Rightarrow> buf_pc \<Rightarrow> 's buf_run \<Rightarrow> 's buf_run" where
  "set_pc t pc r = r\<lparr>bu_pcs := (bu_pcs r)(t := pc)\<rparr>"

text \<open>A flush returns: a caller is outside again, the loop goes on unless it was its last, \<open>Close\<close> is over.\<close>

definition flush_return :: "buf_thread \<Rightarrow> go_error option \<Rightarrow> 's buf_run \<Rightarrow> 's buf_run" where
  "flush_return t res r =
     set_pc t (case t of Caller k \<Rightarrow> PcIdle | FlushLoop \<Rightarrow> if bu_last r then PcFinished else PcIdle | Closer \<Rightarrow> PcFinished)
       (r\<lparr>bu_results := bu_results r @ [(t, res)]\<rparr>)"

definition give_event :: "nat \<Rightarrow> event \<Rightarrow> 's buf_run \<Rightarrow> 's buf_run" where
  "give_event k ev r =
     (case buffer_add ev (bu_handler r) of
        (full, b) \<Rightarrow>
          let r1 = r\<lparr>bu_handler := b, bu_given := bu_given r @ [ev]\<rparr>
          in if full then set_pc (Caller k) PcFlush r1 else flush_return (Caller k) None r1)"

definition take_buffer :: "buf_thread \<Rightarrow> 's buf_run \<Rightarrow> 's buf_run" where
  "take_buffer t r =
     (case buffer_take (bu_handler r) of
        (evs, b) \<Rightarrow> if length evs = 0 then flush_return t None r else set_pc t (PcHandling evs []) (r\<lparr>bu_handler := b\<rparr>))"

definition handle_next :: "buf_thread \<Rightarrow> event \<Rightarrow> event list \<Rightarrow> go_error list \<Rightarrow> 's buf_run \<Rightarrow> 's buf_run" where
  "handle_next t ev evs errs r =
     (case h_handle (bh_handler (bu_handler r)) ev (bu_state r) of
        (e, s) \<Rightarrow> set_pc t (PcHandling evs (case e of Some x \<Rightarrow> errs @ [x] | None \<Rightarrow> errs))
                   (r\<lparr>bu_state := s, bu_handled := bu_handled r @ [ev]\<rparr>))"

datatype buf_step =
    GiveEvent nat event | CallFlush nat | LoopTick | LoopStop | CloseCall | CloseWake
  | TakeBuffer buf_thread | HandleNext buf_thread | FlushReturn buf_thread

text \<open>One step of a goroutine; a step that is not possible where it is leaves everything.\<close>

fun buf_exec :: "'s buf_run \<Rightarrow> buf_step \<Rightarrow> 's buf_run" where
  "buf_exec r (GiveEvent k ev) = (if k < bu_callers r \<and> bu_pcs r (Caller k) = PcIdle then give_event k ev r else r)"
| "buf_exec r (CallFlush k) = (if k < bu_callers r \<and> bu_pcs r (Caller k) = PcIdle then set_pc (Caller k) PcFlush r else r)"
| "buf_exec r LoopTick = (if bu_pcs r FlushLoop = PcIdle then set_pc FlushLoop PcFlush r else r)"
| "buf_exec r LoopStop =
     (if bu_pcs r FlushLoop = PcIdle \<and> bh_stopped (bu_handler r)
      then set_pc FlushLoop PcFlush (r\<lparr>bu_last := True\<rparr>) else r)"
| "buf_exec r CloseCall =
     (if bu_pcs r Closer = PcIdle
      then set_pc Closer PcWaiting (r\<lparr>bu_handler := (bu_handler r)\<lparr>bh_stopped := True\<rparr>\<rparr>) else r)"
| "buf_exec r CloseWake =
     (if bu_pcs r Closer = PcWaiting \<and> bu_pcs r FlushLoop = PcFinished then set_pc Closer PcFlush r else r)"
| "buf_exec r (TakeBuffer t) = (if bu_pcs r t = PcFlush then take_buffer t r else r)"
| "buf_exec r (HandleNext t) =
     (case bu_pcs r t of PcHandling (ev # evs) errs \<Rightarrow> handle_next t ev evs errs r | _ \<Rightarrow> r)"
| "buf_exec r (FlushReturn t) =
     (case bu_pcs r t of PcHandling [] errs \<Rightarrow> flush_return t (flush_result errs) r | _ \<Rightarrow> r)"

section \<open>What is kept\<close>

definition run_handler :: "'s handler \<Rightarrow> event list \<Rightarrow> 's \<Rightarrow> 's" where
  "run_handler h evs s = fold (\<lambda>ev s. snd (h_handle h ev s)) evs s"

fun flying :: "buf_pc \<Rightarrow> event list" where
  "flying (PcHandling evs errs) = evs"
| "flying _ = []"

definition buf_threads :: "nat \<Rightarrow> buf_thread set" where
  "buf_threads n = {FlushLoop, Closer} \<union> Caller ` {..<n}"

definition in_flight :: "nat \<Rightarrow> 's buf_run \<Rightarrow> event multiset" where
  "in_flight n r = (\<Sum>t\<in>buf_threads n. mset (flying (bu_pcs r t)))"

lemma finite_threads [simp]: "finite (buf_threads n)"
  by (simp add: buf_threads_def)

lemma buf_threads_mem [simp]:
  "FlushLoop \<in> buf_threads n" "Closer \<in> buf_threads n" "Caller k \<in> buf_threads n \<longleftrightarrow> k < n"
  by (auto simp: buf_threads_def)

lemma set_pc_fields [simp]:
  "bu_handler (set_pc t pc r) = bu_handler r" "bu_state (set_pc t pc r) = bu_state r"
  "bu_callers (set_pc t pc r) = bu_callers r" "bu_given (set_pc t pc r) = bu_given r"
  "bu_handled (set_pc t pc r) = bu_handled r" "bu_pcs (set_pc t pc r) = (bu_pcs r)(t := pc)"
  "bu_last (set_pc t pc r) = bu_last r"
  by (simp_all add: set_pc_def)

lemma flush_return_fields [simp]:
  "bu_handler (flush_return t res r) = bu_handler r" "bu_state (flush_return t res r) = bu_state r"
  "bu_callers (flush_return t res r) = bu_callers r" "bu_given (flush_return t res r) = bu_given r"
  "bu_handled (flush_return t res r) = bu_handled r"
  "bu_pcs (flush_return t res r) = (bu_pcs r)(t := (case t of Caller k \<Rightarrow> PcIdle
     | FlushLoop \<Rightarrow> if bu_last r then PcFinished else PcIdle | Closer \<Rightarrow> PcFinished))"
  by (simp_all add: flush_return_def)

lemma flying_return [simp]:
  "flying (case t of Caller k \<Rightarrow> PcIdle | FlushLoop \<Rightarrow> if b then PcFinished else PcIdle | Closer \<Rightarrow> PcFinished) = []"
  by (cases t) auto

text \<open>The events in flight change with those of the one goroutine that moves.\<close>

lemma in_flight_upd:
  assumes "t \<in> buf_threads n" and "bu_pcs r' = (bu_pcs r)(t := pc)"
    and "mset (flying (bu_pcs r t)) + a = mset (flying pc) + b"
  shows "in_flight n r + a = in_flight n r' + b"
proof -
  let ?rest = "\<Sum>u\<in>buf_threads n - {t}. mset (flying (bu_pcs r u))"
  have "in_flight n r = mset (flying (bu_pcs r t)) + ?rest"
    unfolding in_flight_def by (rule sum.remove) (use assms(1) in simp_all)
  moreover have "in_flight n r' = mset (flying pc) + ?rest"
  proof -
    have "in_flight n r' = mset (flying (bu_pcs r' t)) + (\<Sum>u\<in>buf_threads n - {t}. mset (flying (bu_pcs r' u)))"
      unfolding in_flight_def by (rule sum.remove) (use assms(1) in simp_all)
    moreover have "(\<Sum>u\<in>buf_threads n - {t}. mset (flying (bu_pcs r' u))) = ?rest"
      by (rule sum.cong) (auto simp: assms(2))
    ultimately show ?thesis by (simp add: assms(2))
  qed
  ultimately show ?thesis using assms(3) by (simp add: add.assoc add.commute add.left_commute)
qed

text \<open>Each kind of move, with what it does to the goroutine and to the buffer.\<close>

inductive buf_move :: "'s buf_run \<Rightarrow> 's buf_run \<Rightarrow> bool" where
  mv_none: "buf_move r r"
| mv_give: "k < bu_callers r \<Longrightarrow> bu_pcs r (Caller k) = PcIdle \<Longrightarrow> buf_move r (give_event k ev r)"
| mv_wants: "t \<in> buf_threads (bu_callers r) \<Longrightarrow> flying (bu_pcs r t) = [] \<Longrightarrow> t = Closer \<longrightarrow> bu_pcs r FlushLoop = PcFinished \<Longrightarrow>
    t = FlushLoop \<longrightarrow> bu_pcs r t = PcIdle \<Longrightarrow> buf_move r (set_pc t PcFlush (r\<lparr>bu_last := b\<rparr>))"
| mv_close: "bu_pcs r Closer = PcIdle \<Longrightarrow>
    buf_move r (set_pc Closer PcWaiting (r\<lparr>bu_handler := (bu_handler r)\<lparr>bh_stopped := True\<rparr>\<rparr>))"
| mv_take: "bu_pcs r t = PcFlush \<Longrightarrow> buf_move r (take_buffer t r)"
| mv_handle: "bu_pcs r t = PcHandling (ev # evs) errs \<Longrightarrow> buf_move r (handle_next t ev evs errs r)"
| mv_return: "bu_pcs r t = PcHandling [] errs \<Longrightarrow> buf_move r (flush_return t (flush_result errs) r)"

lemma update_last_same: "r\<lparr>bu_last := bu_last r\<rparr> = r"
  by simp

lemma buf_exec_move: "buf_move r (buf_exec r c)"
proof (cases c)
  case (CallFlush k)
  then show ?thesis using mv_wants [of "Caller k" r "bu_last r"] by (auto intro: mv_none)
next
  case LoopTick
  then show ?thesis using mv_wants [of FlushLoop r "bu_last r"] by (auto intro: mv_none)
next
  case LoopStop
  then show ?thesis using mv_wants [of FlushLoop r True] by (auto intro: mv_none)
next
  case CloseWake
  then show ?thesis using mv_wants [of Closer r "bu_last r"] by (auto intro: mv_none)
qed (auto intro: buf_move.intros split: buf_pc.split list.split)

definition buf_inv :: "'s handler \<Rightarrow> int \<Rightarrow> nat \<Rightarrow> 's \<Rightarrow> 's buf_run \<Rightarrow> bool" where
  "buf_inv h m n s0 r \<longleftrightarrow>
     bh_handler (bu_handler r) = h \<and> bh_batch (bu_handler r) = m \<and> bu_callers r = n
     \<and> bu_state r = run_handler h (bu_handled r) s0
     \<and> (\<forall>t. t \<notin> buf_threads n \<longrightarrow> bu_pcs r t = PcIdle)
     \<and> mset (bu_given r) = mset (bu_handled r) + in_flight n r + mset (bh_buffer (bu_handler r))
     \<and> (m \<le> int (length (bh_buffer (bu_handler r))) \<longrightarrow> (\<exists>t. bu_pcs r t = PcFlush))
     \<and> (bu_pcs r Closer = PcIdle \<or> bu_pcs r Closer = PcWaiting \<or> bu_pcs r FlushLoop = PcFinished)"

lemma buf_invD:
  assumes "buf_inv h m n s0 r"
  shows "bh_handler (bu_handler r) = h" "bh_batch (bu_handler r) = m" "bu_callers r = n"
    "bu_state r = run_handler h (bu_handled r) s0" "t \<notin> buf_threads n \<Longrightarrow> bu_pcs r t = PcIdle"
    "mset (bu_given r) = mset (bu_handled r) + in_flight n r + mset (bh_buffer (bu_handler r))"
    "m \<le> int (length (bh_buffer (bu_handler r))) \<Longrightarrow> \<exists>t. bu_pcs r t = PcFlush"
    "bu_pcs r Closer = PcIdle \<or> bu_pcs r Closer = PcWaiting \<or> bu_pcs r FlushLoop = PcFinished"
  using assms unfolding buf_inv_def by blast+

lemma run_handler_snoc: "run_handler h (xs @ [x]) s = snd (h_handle h x (run_handler h xs s))"
  by (simp add: run_handler_def)

lemma in_flight_same:
  assumes "t \<in> buf_threads n" and "bu_pcs r' = (bu_pcs r)(t := pc)" and "flying pc = flying (bu_pcs r t)"
  shows "in_flight n r' = in_flight n r"
  using in_flight_upd [OF assms(1,2), of "{#}" "{#}"] assms(3) by simp

lemma thread_in: "buf_inv h m n s0 r \<Longrightarrow> bu_pcs r t \<noteq> PcIdle \<Longrightarrow> t \<in> buf_threads n"
  using buf_invD(5) [of h m n s0 r t] by blast

lemma buf_inv_give:
  assumes "buf_inv h m n s0 r" and "k < bu_callers r" and "bu_pcs r (Caller k) = PcIdle"
  shows "buf_inv h m n s0 (give_event k ev r)"
proof -
  note i = buf_invD [OF assms(1)]
  have k: "Caller k \<in> buf_threads n" using assms(2) i(3) by simp
  let ?r = "give_event k ev r"
  obtain pc where pcs: "bu_pcs ?r = (bu_pcs r)(Caller k := pc)" "flying pc = []"
    "m \<le> int (length (bh_buffer (bu_handler ?r))) \<Longrightarrow> pc = PcFlush"
    using i(2) by (cases "int (length (bh_buffer (bu_handler r))) + 1 \<ge> m") (auto simp: give_event_def buffer_add_def Let_def)
  have f: "bh_handler (bu_handler ?r) = h" "bh_batch (bu_handler ?r) = m" "bu_callers ?r = n" "bu_state ?r = bu_state r"
    "bu_handled ?r = bu_handled r" "bu_given ?r = bu_given r @ [ev]"
    "bh_buffer (bu_handler ?r) = bh_buffer (bu_handler r) @ [ev]"
    using i(1-3) by (simp_all add: give_event_def buffer_add_def Let_def)
  have fl: "in_flight n ?r = in_flight n r"
    by (rule in_flight_same [OF k pcs(1)]) (simp add: pcs(2) assms(3))
  show ?thesis
    unfolding buf_inv_def fl f using i(4,5,6,8) k pcs(1,3) f(7) by auto
qed

lemma buf_inv_set:
  assumes "buf_inv h m n s0 r" and "t \<in> buf_threads n" and "flying (bu_pcs r t) = []" and "flying pc = []"
    and "bu_pcs r' = (bu_pcs r)(t := pc)" and "bh_handler (bu_handler r') = h" and "bh_batch (bu_handler r') = m"
    and "bh_buffer (bu_handler r') = bh_buffer (bu_handler r)" and "bu_callers r' = n" and "bu_state r' = bu_state r"
    and "bu_given r' = bu_given r" and "bu_handled r' = bu_handled r"
    and "bu_pcs r t = PcFlush \<Longrightarrow> pc = PcFlush \<or> \<not> m \<le> int (length (bh_buffer (bu_handler r)))"
    and "pc = PcIdle \<or> pc = PcWaiting \<or> (t = Closer \<longrightarrow> bu_pcs r FlushLoop = PcFinished)"
    and "t = FlushLoop \<longrightarrow> pc = PcFinished \<or> bu_pcs r t \<noteq> PcFinished"
  shows "buf_inv h m n s0 r'"
proof -
  note i = buf_invD [OF assms(1)]
  have fl: "in_flight n r' = in_flight n r" by (rule in_flight_same [OF assms(2,5)]) (simp add: assms(3,4))
  have "\<exists>u. bu_pcs r' u = PcFlush" if "m \<le> int (length (bh_buffer (bu_handler r)))"
    using i(7) [OF that] assms(13) that by (metis assms(5) fun_upd_apply)
  then show ?thesis
    unfolding buf_inv_def fl assms(6-12) using i(4,5,6,8) assms(2,5,14,15) by (cases t) auto
qed

lemma take_fields:
  "bu_state (take_buffer t r) = bu_state r" "bu_given (take_buffer t r) = bu_given r"
  "bu_handled (take_buffer t r) = bu_handled r" "bu_callers (take_buffer t r) = bu_callers r"
  "bh_handler (bu_handler (take_buffer t r)) = bh_handler (bu_handler r)"
  "bh_batch (bu_handler (take_buffer t r)) = bh_batch (bu_handler r)"
  "bh_buffer (bu_handler (take_buffer t r)) = []"
  by (auto simp: take_buffer_def buffer_take_def)

lemma take_pcs:
  obtains pc where "bu_pcs (take_buffer t r) = (bu_pcs r)(t := pc)" "flying pc = bh_buffer (bu_handler r)"
    "pc \<noteq> PcFlush" "pc = PcIdle \<longrightarrow> t \<noteq> Closer" "pc \<noteq> PcWaiting"
proof (cases "bh_buffer (bu_handler r)")
  case Nil
  show ?thesis
    by (rule that [of "case t of Caller k \<Rightarrow> PcIdle | FlushLoop \<Rightarrow> if bu_last r then PcFinished else PcIdle | Closer \<Rightarrow> PcFinished"])
      (auto simp: take_buffer_def buffer_take_def Nil split: buf_thread.split)
next
  case (Cons ev evs)
  show ?thesis
    by (rule that [of "PcHandling (bh_buffer (bu_handler r)) []"]) (auto simp: take_buffer_def buffer_take_def Cons)
qed

lemma buf_inv_take:
  assumes "buf_inv h m n s0 r" and "bu_pcs r t = PcFlush" and "0 < m"
  shows "buf_inv h m n s0 (take_buffer t r)"
proof -
  note i = buf_invD [OF assms(1)]
  obtain pc where pc: "bu_pcs (take_buffer t r) = (bu_pcs r)(t := pc)" "flying pc = bh_buffer (bu_handler r)"
    "pc \<noteq> PcFlush" "pc = PcIdle \<longrightarrow> t \<noteq> Closer" "pc \<noteq> PcWaiting" by (rule take_pcs [of t r])
  have t: "t \<in> buf_threads n" by (rule thread_in [OF assms(1)]) (simp add: assms(2))
  have "in_flight n r + mset (bh_buffer (bu_handler r)) = in_flight n (take_buffer t r) + {#}"
    by (rule in_flight_upd [OF t pc(1)]) (simp add: pc(2) assms(2))
  then show ?thesis
    unfolding buf_inv_def take_fields using i(1-6,8) t pc(1) assms(2,3) by (cases t) auto
qed

lemma buf_inv_handle:
  assumes "buf_inv h m n s0 r" and "bu_pcs r t = PcHandling (ev # evs) errs"
  shows "buf_inv h m n s0 (handle_next t ev evs errs r)"
proof -
  note i = buf_invD [OF assms(1)]
  let ?r = "handle_next t ev evs errs r"
  have t: "t \<in> buf_threads n" by (rule thread_in [OF assms(1)]) (simp add: assms(2))
  obtain errs' where f: "bu_pcs ?r = (bu_pcs r)(t := PcHandling evs errs')" "bu_handler ?r = bu_handler r"
    "bu_callers ?r = bu_callers r" "bu_given ?r = bu_given r" "bu_handled ?r = bu_handled r @ [ev]"
    "bu_state ?r = snd (h_handle h ev (bu_state r))"
    using i(1) by (cases "h_handle h ev (bu_state r)") (auto simp: handle_next_def)
  have "in_flight n r + {#} = in_flight n ?r + {#ev#}"
    by (rule in_flight_upd [OF t f(1)]) (simp add: assms(2))
  moreover have "\<exists>u. bu_pcs ?r u = PcFlush" if full: "m \<le> int (length (bh_buffer (bu_handler r)))"
  proof -
    obtain u where "bu_pcs r u = PcFlush" using i(7) [OF full] by blast
    moreover from this have "u \<noteq> t" using assms(2) by auto
    ultimately show ?thesis using f(1) by (intro exI [of _ u]) simp
  qed
  ultimately show ?thesis
    unfolding buf_inv_def f(2-6) unfolding f(1) using i(1-6,8) t assms(2) by (cases t) (auto simp: run_handler_snoc)
qed

lemma buf_inv_move:
  assumes "buf_move r r'" and "buf_inv h m n s0 r" and "0 < m"
  shows "buf_inv h m n s0 r'"
  using assms(1)
proof cases
  case (mv_wants t b)
  show ?thesis unfolding mv_wants(1)
    by (rule buf_inv_set [OF assms(2), of t PcFlush]) (use mv_wants buf_invD [OF assms(2)] in auto)
next
  case mv_close
  show ?thesis unfolding mv_close(1)
    by (rule buf_inv_set [OF assms(2), of Closer PcWaiting]) (use mv_close buf_invD [OF assms(2)] in auto)
next
  case (mv_return t errs)
  show ?thesis unfolding mv_return(1)
    by (rule buf_inv_set [OF assms(2) thread_in [OF assms(2), of t] _ _ flush_return_fields(6)])
      (use mv_return buf_invD [OF assms(2)] in \<open>auto split: buf_thread.splits\<close>)
next
  case (mv_give k ev)
  show ?thesis unfolding mv_give(1) by (rule buf_inv_give [OF assms(2) mv_give(2,3)])
next
  case (mv_take t)
  show ?thesis unfolding mv_take(1) by (rule buf_inv_take [OF assms(2) mv_take(2) assms(3)])
next
  case (mv_handle t ev evs errs)
  show ?thesis unfolding mv_handle(1) by (rule buf_inv_handle [OF assms(2) mv_handle(2)])
qed (use assms(2) in simp)

lemma buf_inv_start: "0 < bh_batch b \<Longrightarrow> bh_buffer b = [] \<Longrightarrow> buf_inv (bh_handler b) (bh_batch b) n s (buf_start n b s)"
  by (simp add: buf_inv_def buf_start_def in_flight_def run_handler_def)

lemma buf_inv_run: "buf_inv h m n s0 r \<Longrightarrow> 0 < m \<Longrightarrow> buf_inv h m n s0 (foldl buf_exec r cs)"
  by (induction cs arbitrary: r) (auto intro: buf_inv_move [OF buf_exec_move])

section \<open>Order\<close>

text \<open>No two goroutines have events in flight.\<close>

definition alone :: "'s buf_run \<Rightarrow> bool" where
  "alone r \<longleftrightarrow> (\<forall>t \<in> buf_threads (bu_callers r). \<forall>u \<in> buf_threads (bu_callers r).
     flying (bu_pcs r t) \<noteq> [] \<and> flying (bu_pcs r u) \<noteq> [] \<longrightarrow> t = u)"

text \<open>Nor after any step of the run: the flushes do not overlap.\<close>

fun serial :: "'s buf_run \<Rightarrow> buf_step list \<Rightarrow> bool" where
  "serial r [] = True"
| "serial r (c # cs) = (alone (buf_exec r c) \<and> serial (buf_exec r c) cs)"

definition in_order :: "'s buf_run \<Rightarrow> bool" where
  "in_order r \<longleftrightarrow> (\<exists>t. bu_given r = bu_handled r @ flying (bu_pcs r t) @ bh_buffer (bu_handler r)
     \<and> (\<forall>u. u \<noteq> t \<longrightarrow> flying (bu_pcs r u) = []))"

lemma in_orderI:
  "bu_given r = bu_handled r @ flying (bu_pcs r t) @ bh_buffer (bu_handler r) \<Longrightarrow>
   (\<And>u. u \<noteq> t \<Longrightarrow> flying (bu_pcs r u) = []) \<Longrightarrow> in_order r"
  unfolding in_order_def by blast

lemma in_order_same:
  assumes "in_order r" and "\<And>u. flying (bu_pcs r' u) = flying (bu_pcs r u)" and "bu_handled r' = bu_handled r"
    and "bu_given r' = bu_given r @ late" and "bh_buffer (bu_handler r') = bh_buffer (bu_handler r) @ late"
  shows "in_order r'"
  using assms unfolding in_order_def by auto

lemma in_order_move:
  assumes "buf_move r r'" and "in_order r" and "alone r'" and "buf_inv h m n s0 r"
  shows "in_order r'"
  using assms(1)
proof cases
  case (mv_take t)
  obtain pc where pc: "bu_pcs r' = (bu_pcs r)(t := pc)" "flying pc = bh_buffer (bu_handler r)"
    unfolding mv_take(1) by (rule take_pcs [of t r])
  have callers: "bu_callers r' = n" using buf_invD(3) [OF assms(4)] by (simp add: mv_take(1) take_fields)
  have t: "t \<in> buf_threads n" by (rule thread_in [OF assms(4)]) (simp add: mv_take(2))
  obtain x where x: "bu_given r = bu_handled r @ flying (bu_pcs r x) @ bh_buffer (bu_handler r)"
    "\<And>u. u \<noteq> x \<Longrightarrow> flying (bu_pcs r u) = []" using assms(2) unfolding in_order_def by blast
  show ?thesis
  proof (cases "bh_buffer (bu_handler r) = []")
    case True
    show ?thesis
      by (rule in_order_same [OF assms(2), of _ "[]"])
        (use pc True mv_take(2) in \<open>auto simp: mv_take(1) take_fields\<close>)
  next
    case False
    have none: "flying (bu_pcs r u) = []" for u
    proof (rule ccontr)
      assume u: "flying (bu_pcs r u) \<noteq> []"
      then have "u \<noteq> t" using mv_take(2) by auto
      moreover have "u \<in> buf_threads n" using u by (intro thread_in [OF assms(4)]) auto
      ultimately show False using assms(3) t u pc False by (auto simp: alone_def callers)
    qed
    show ?thesis
      by (rule in_orderI [of _ t]) (use x(1) none pc in \<open>auto simp: mv_take(1) take_fields\<close>)
  qed
next
  case (mv_handle t ev evs errs)
  obtain x where x: "bu_given r = bu_handled r @ flying (bu_pcs r x) @ bh_buffer (bu_handler r)"
    "\<And>u. u \<noteq> x \<Longrightarrow> flying (bu_pcs r u) = []" using assms(2) unfolding in_order_def by blast
  then have "x = t" using mv_handle(2) by (metis flying.simps(1) list.distinct(1))
  then show ?thesis
    by (intro in_orderI [of _ t]) (use x mv_handle in \<open>auto simp: handle_next_def split: prod.split\<close>)
next
  case (mv_give k ev)
  show ?thesis
    by (rule in_order_same [OF assms(2), of _ "[ev]"])
      (use mv_give in \<open>auto simp: give_event_def buffer_add_def Let_def\<close>)
next
  case (mv_wants t b)
  show ?thesis by (rule in_order_same [OF assms(2), of _ "[]"]) (use mv_wants in auto)
next
  case mv_close
  show ?thesis by (rule in_order_same [OF assms(2), of _ "[]"]) (use mv_close in auto)
next
  case (mv_return t errs)
  show ?thesis
    by (rule in_order_same [OF assms(2), of _ "[]"]) (use mv_return in \<open>auto split: buf_thread.split\<close>)
qed (use assms(2) in simp)

lemma in_order_run:
  "serial r cs \<Longrightarrow> in_order r \<Longrightarrow> buf_inv h m n s0 r \<Longrightarrow> 0 < m \<Longrightarrow> in_order (foldl buf_exec r cs)"
proof (induction cs arbitrary: r)
  case (Cons c cs)
  have "in_order (buf_exec r c)" by (rule in_order_move [OF buf_exec_move]) (use Cons.prems in auto)
  moreover have "buf_inv h m n s0 (buf_exec r c)" by (rule buf_inv_move [OF buf_exec_move]) (use Cons.prems in auto)
  ultimately show ?case using Cons.IH Cons.prems by simp
qed simp

section \<open>Closing\<close>

text \<open>What is in the buffer at the end was there at the start or was given on the way.\<close>

lemma buffer_move:
  "buf_move r r' \<Longrightarrow> \<exists>late. bu_given r' = bu_given r @ late
     \<and> mset (bh_buffer (bu_handler r')) \<subseteq># mset (bh_buffer (bu_handler r)) + mset late"
  by (induction rule: buf_move.induct)
    (auto simp: give_event_def buffer_add_def Let_def take_fields handle_next_def split: prod.split)

lemma buffer_run:
  "\<exists>late. bu_given (foldl buf_exec r cs) = bu_given r @ late
     \<and> mset (bh_buffer (bu_handler (foldl buf_exec r cs))) \<subseteq># mset (bh_buffer (bu_handler r)) + mset late"
proof (induction cs rule: rev_induct)
  case (snoc c cs)
  then obtain late where late: "bu_given (foldl buf_exec r cs) = bu_given r @ late"
    "mset (bh_buffer (bu_handler (foldl buf_exec r cs))) \<subseteq># mset (bh_buffer (bu_handler r)) + mset late" by blast
  obtain new where new: "bu_given (foldl buf_exec r (cs @ [c])) = bu_given (foldl buf_exec r cs) @ new"
    "mset (bh_buffer (bu_handler (foldl buf_exec r (cs @ [c])))) \<subseteq># mset (bh_buffer (bu_handler (foldl buf_exec r cs))) + mset new"
    using buffer_move [OF buf_exec_move, of "foldl buf_exec r cs" c] by auto
  have "mset (bh_buffer (bu_handler (foldl buf_exec r (cs @ [c])))) \<subseteq># mset (bh_buffer (bu_handler r)) + mset (late @ new)"
    using subset_mset.order_trans [OF new(2) subset_mset.add_right_mono [OF late(2), of "mset new"]] by (simp add: add.assoc)
  then show ?case using late(1) new(1) by (intro exI [of _ "late @ new"]) simp
qed simp

lemma closed_in_flight:
  assumes "buf_inv h m n s0 r" and "bu_pcs r Closer = PcFinished" and "\<And>k. bu_pcs r (Caller k) = PcIdle"
  shows "in_flight n r = {#}"
proof -
  have "bu_pcs r FlushLoop = PcFinished" using buf_invD(8) [OF assms(1)] assms(2) by simp
  then have "flying (bu_pcs r t) = []" for t using assms(2,3) by (cases t) auto
  then show ?thesis by (simp add: in_flight_def)
qed

lemma closed_handled:
  assumes "buf_inv h m n s0 r1" and "0 < m" and "bu_pcs r1 Closer = PcFlush"
    and "r = foldl buf_exec r1 (TakeBuffer Closer # cs)" and "bu_pcs r Closer = PcFinished"
    and "\<And>k. bu_pcs r (Caller k) = PcIdle"
  shows "mset (bu_given r1) \<subseteq># mset (bu_handled r)"
proof -
  let ?r2 = "buf_exec r1 (TakeBuffer Closer)"
  have r2: "bu_given ?r2 = bu_given r1" "bh_buffer (bu_handler ?r2) = []" using assms(3) by (simp_all add: take_fields)
  obtain late where late: "bu_given r = bu_given r1 @ late" "mset (bh_buffer (bu_handler r)) \<subseteq># mset late"
    using buffer_run [of ?r2 cs] assms(4) r2 by auto
  have inv: "buf_inv h m n s0 r" unfolding assms(4) by (rule buf_inv_run [OF assms(1,2)])
  have "mset (bu_given r1) + mset late = mset (bu_handled r) + mset (bh_buffer (bu_handler r))"
    using buf_invD(6) [OF inv] closed_in_flight [OF inv assms(5,6)] late(1) by simp
  also have "\<dots> \<subseteq># mset (bu_handled r) + mset late" using late(2) by simp
  finally show ?thesis by simp
qed

text \<open>
  C10: However callers, the periodic flush and \<open>Close\<close> interleave, the wrapped handler has been
  given events exactly as the run handled them, and each event given was handled once, or is in flight in one
  flush, or is in the buffer; when the buffer holds a batch some goroutine is about to flush it.  As
  long as no two flushes overlap the order is that in which the events were given.  And when \<open>Close\<close>
  has returned and no caller is inside, every event given before its last flush has been handled.
  (A call of the wrapped handler is one step here, and \<open>Close\<close> is called once.)
\<close>

theorem buffered_handler_refines_direct:
  assumes "new_buffered_handler (Some h) m = Inr b0" and "r = foldl buf_exec (buf_start n b0 s0) cs"
  shows "bu_state r = run_handler h (bu_handled r) s0
    \<and> mset (bu_given r) = mset (bu_handled r) + in_flight n r + mset (bh_buffer (bu_handler r))
    \<and> (bh_batch b0 \<le> int (length (bh_buffer (bu_handler r))) \<longrightarrow> (\<exists>t. bu_pcs r t = PcFlush))
    \<and> (serial (buf_start n b0 s0) cs \<longrightarrow>
         (\<exists>t. bu_given r = bu_handled r @ flying (bu_pcs r t) @ bh_buffer (bu_handler r)
            \<and> (\<forall>u. u \<noteq> t \<longrightarrow> flying (bu_pcs r u) = [])))
    \<and> (\<forall>cs1 cs2. cs = cs1 @ TakeBuffer Closer # cs2 \<and> bu_pcs (foldl buf_exec (buf_start n b0 s0) cs1) Closer = PcFlush
         \<and> bu_pcs r Closer = PcFinished \<and> (\<forall>k. bu_pcs r (Caller k) = PcIdle)
         \<longrightarrow> mset (bu_given (foldl buf_exec (buf_start n b0 s0) cs1)) \<subseteq># mset (bu_handled r))"
proof -
  have b: "0 < bh_batch b0" "bh_buffer b0 = []" "bh_handler b0 = h" using assms(1) by (auto simp: new_buffered_handler_def)
  let ?r0 = "buf_start n b0 s0"
  have start: "buf_inv h (bh_batch b0) n s0 ?r0" using buf_inv_start [OF b(1,2), of n s0] b(3) by simp
  have inv: "buf_inv h (bh_batch b0) n s0 r" unfolding assms(2) by (rule buf_inv_run [OF start b(1)])
  have "in_order ?r0" by (rule in_orderI [of _ Closer]) (simp_all add: buf_start_def b(2))
  then have "serial ?r0 cs \<longrightarrow> in_order r" unfolding assms(2) using in_order_run [OF _ _ start b(1)] by blast
  moreover have "mset (bu_given (foldl buf_exec ?r0 cs1)) \<subseteq># mset (bu_handled r)"
    if "cs = cs1 @ TakeBuffer Closer # cs2" "bu_pcs (foldl buf_exec ?r0 cs1) Closer = PcFlush" "bu_pcs r Closer = PcFinished"
      "\<forall>k. bu_pcs r (Caller k) = PcIdle" for cs1 cs2
    by (rule closed_handled [OF buf_inv_run [OF start b(1), of cs1] b(1), of r cs2]) (use that assms(2) in simp_all)
  ultimately show ?thesis using buf_invD(4,6,7) [OF inv] unfolding in_order_def by blast
qed

definition log_handler :: "event list handler" where
  "log_handler = event_func (\<lambda>ev evs. (None, evs @ [ev]))"

definition sample_buffered :: "int \<Rightarrow> event list buffered_handler" where
  "sample_buffered m = \<lparr>bh_handler = log_handler, bh_buffer = [], bh_batch = m, bh_stopped = False\<rparr>"

definition sample_event' :: event where
  "sample_event' = sample_event\<lparr>ev_id := ''e2''\<rparr>"

text \<open>Two callers, a flush by one of them, and an event that the last flush of the loop handles.\<close>

definition close_steps :: "buf_step list" where
  "close_steps = [GiveEvent 0 sample_event, GiveEvent 1 sample_event', CallFlush 0, TakeBuffer (Caller 0),
     HandleNext (Caller 0), HandleNext (Caller 0), FlushReturn (Caller 0), GiveEvent 1 sample_event,
     CloseCall, LoopStop, TakeBuffer FlushLoop, HandleNext FlushLoop, FlushReturn FlushLoop, CloseWake]"

definition closed_run :: "event list buf_run" where
  "closed_run = foldl buf_exec (buf_start 2 (sample_buffered 3) []) (close_steps @ [TakeBuffer Closer])"

lemma closed_run_eval:
  "bu_given closed_run = [sample_event, sample_event', sample_event]"
  "bu_given (foldl buf_exec (buf_start 2 (sample_buffered 3) []) close_steps) = [sample_event, sample_event', sample_event]"
  "bu_pcs (foldl buf_exec (buf_start 2 (sample_buffered 3) []) close_steps) Closer = PcFlush"
  "bu_pcs closed_run Closer = PcFinished" "bu_pcs closed_run (Caller 0) = PcIdle" "bu_pcs closed_run (Caller 1) = PcIdle"
  "serial (buf_start 2 (sample_buffered 3) []) (close_steps @ [TakeBuffer Closer])"
  "bu_handled closed_run = [sample_event, sample_event', sample_event]"
  by code_simp+

lemma new_sample_buffered: "0 < m \<Longrightarrow> new_buffered_handler (Some log_handler) m = Inr (sample_buffered m)"
  by (simp add: new_buffered_handler_def sample_buffered_def)

lemma closed_run_callers: "bu_pcs closed_run (Caller k) = PcIdle"
proof (cases "k < 2")
  case True
  then have "k = 0 \<or> k = 1" by linarith
  then show ?thesis using closed_run_eval(5,6) by auto
next
  case False
  have "buf_inv log_handler 3 2 [] (buf_start 2 (sample_buffered 3) [])"
    using buf_inv_start [of "sample_buffered 3" 2 "[]"] by (simp add: sample_buffered_def)
  then have "buf_inv log_handler 3 2 [] closed_run" unfolding closed_run_def by (rule buf_inv_run) simp
  from buf_invD(5) [OF this] False show ?thesis by simp
qed

lemma buffered_handler_refines_direct_witness:
  "(\<exists>t. [sample_event, sample_event', sample_event]
       = bu_handled closed_run @ flying (bu_pcs closed_run t) @ bh_buffer (bu_handler closed_run))
   \<and> mset [sample_event, sample_event', sample_event] \<subseteq># mset (bu_handled closed_run)"
proof -
  note exact = buffered_handler_refines_direct [OF new_sample_buffered closed_run_def]
  note parts = exact [THEN conjunct2, THEN conjunct2, THEN conjunct2]
  show ?thesis
    using parts [THEN conjunct1] parts [THEN conjunct2, THEN spec, THEN spec, of close_steps "[]"]
    unfolding closed_run_eval(1,2,3,4) using closed_run_eval(7) closed_run_callers by auto
qed

text \<open>Two flushes at a time can change the order: the second caller overtakes the first.\<close>

lemma flushes_can_overtake:
  "bu_given r = [sample_event, sample_event'] \<and> bu_handled r = [sample_event', sample_event]"
  if "r = foldl buf_exec (buf_start 2 (sample_buffered 1) []) [GiveEvent 0 sample_event, TakeBuffer (Caller 0),
     GiveEvent 1 sample_event', TakeBuffer (Caller 1), HandleNext (Caller 1), HandleNext (Caller 0)]"
  unfolding that by code_simp

end
