(* ===== verification/Event_Middleware.thy ===== *)
theory Event_Middleware
  imports Event_Types
begin

text \<open>
  pkg/events/middleware.go: steps that change or refuse an event before it is
  published.  A step that reads the clock takes the reading as a parameter.  Maps
  from names to \<open>true\<close> are maps to booleans, an absent name reading as false.
\<close>

definition member :: "'k \<Rightarrow> ('k, bool) gomap \<Rightarrow> bool" where
  "member k m = (case mget m k of None \<Rightarrow> False | Some b \<Rightarrow> b)"

type_synonym processed = "event \<times> go_error option"

section \<open>Filters\<close>

definition filter_process :: "(event \<Rightarrow> bool) \<Rightarrow> event \<Rightarrow> processed" where
  "filter_process f ev = (if \<not> f ev then (ev, Some (new_error ErrFiltered)) else (ev, None))"

type_synonym type_filter = "(event_type, bool) gomap"

definition new_type_filter :: "event_type list \<Rightarrow> type_filter" where
  "new_type_filter ts = fold (\<lambda>t m. mput t True m) ts []"

definition type_filter_process :: "type_filter \<Rightarrow> event \<Rightarrow> processed" where
  "type_filter_process m ev =
     (if length m = 0 then (ev, None)
      else if \<not> member (ev_type ev) m then (ev, Some (new_error ErrFiltered)) else (ev, None))"

definition add_allowed_type :: "event_type \<Rightarrow> type_filter \<Rightarrow> type_filter" where
  "add_allowed_type t m = mput t True m"

definition remove_allowed_type :: "event_type \<Rightarrow> type_filter \<Rightarrow> type_filter" where
  "remove_allowed_type t m = mdel t m"

record source_filter =
  sf_allowed :: "(string, bool) gomap"
  sf_blocked :: "(string, bool) gomap"

definition new_source_filter :: source_filter where
  "new_source_filter = \<lparr>sf_allowed = [], sf_blocked = []\<rparr>"

definition source_process :: "source_filter \<Rightarrow> event \<Rightarrow> processed" where
  "source_process m ev =
     (if member (ev_source ev) (sf_blocked m) then (ev, Some (new_error ErrFiltered))
      else if length (sf_allowed m) > 0 \<and> length (sf_blocked m) = 0 \<and> \<not> member (ev_source ev) (sf_allowed m)
           then (ev, Some (new_error ErrFiltered))
      else (ev, None))"

definition add_allowed_source :: "string \<Rightarrow> source_filter \<Rightarrow> source_filter" where
  "add_allowed_source src m = m\<lparr>sf_allowed := mput src True (sf_allowed m)\<rparr>"

definition add_blocked_source :: "string \<Rightarrow> source_filter \<Rightarrow> source_filter" where
  "add_blocked_source src m = m\<lparr>sf_blocked := mput src True (sf_blocked m)\<rparr>"

definition remove_allowed_source :: "string \<Rightarrow> source_filter \<Rightarrow> source_filter" where
  "remove_allowed_source src m = m\<lparr>sf_allowed := mdel src (sf_allowed m)\<rparr>"

definition remove_blocked_source :: "string \<Rightarrow> source_filter \<Rightarrow> source_filter" where
  "remove_blocked_source src m = m\<lparr>sf_blocked := mdel src (sf_blocked m)\<rparr>"

definition add_allowed_pattern :: "string \<Rightarrow> source_filter \<Rightarrow> source_filter" where
  "add_allowed_pattern pat m = m\<lparr>sf_allowed := mput pat True (sf_allowed m)\<rparr>"

text \<open>The loop over the patterns of a map.\<close>

definition pattern_hit :: "string \<Rightarrow> (string, bool) gomap \<Rightarrow> bool" where
  "pattern_hit src m \<longleftrightarrow> (\<exists>p \<in> set (mkeys m). has_suffix p ''*'' \<and> has_prefix src (trim_suffix p ''*''))"

definition is_allowed :: "source_filter \<Rightarrow> string \<Rightarrow> bool" where
  "is_allowed m src =
     (if length (sf_allowed m) = 0 then True
      else if member src (sf_allowed m) then True
      else pattern_hit src (sf_allowed m))"

definition is_blocked :: "source_filter \<Rightarrow> string \<Rightarrow> bool" where
  "is_blocked m src = (if member src (sf_blocked m) then True else pattern_hit src (sf_blocked m))"

definition source_process_patterns :: "source_filter \<Rightarrow> event \<Rightarrow> processed" where
  "source_process_patterns m ev =
     (if is_blocked m (ev_source ev) then (ev, Some (new_error ErrFiltered))
      else if length (sf_allowed m) > 0 \<and> \<not> is_allowed m (ev_source ev) then (ev, Some (new_error ErrFiltered))
      else (ev, None))"

section \<open>Changes\<close>

definition transform_process :: "(event \<Rightarrow> event) \<Rightarrow> event \<Rightarrow> processed" where
  "transform_process f ev = (f ev, None)"

record enrichment =
  en_static :: "(string, any_value) gomap"
  en_timestamp :: bool
  en_hostname :: bool
  en_custom :: "(event \<Rightarrow> (string, any_value) gomap) option"

definition new_enrichment :: enrichment where
  "new_enrichment = \<lparr>en_static = [], en_timestamp = False, en_hostname = False, en_custom = None\<rparr>"

definition put_all :: "('k, 'v) gomap \<Rightarrow> ('k, 'v) gomap \<Rightarrow> ('k, 'v) gomap" where
  "put_all new m = fold (\<lambda>(k, v) m. mput k v m) new m"

definition get_hostname :: string where
  "get_hostname = ''unknown''"

text \<open>
  The data of the event is a map the caller shares: where it was not nil, the caller's event has the
  new entries too.  \<open>unix\<close> is the clock in seconds.
\<close>

definition enrich_process :: "int \<Rightarrow> enrichment \<Rightarrow> event \<Rightarrow> processed" where
  "enrich_process unix m ev =
     (let d0 = (case ev_data ev of None \<Rightarrow> [] | Some d \<Rightarrow> d);
          d1 = put_all (en_static m) d0;
          d2 = (if en_timestamp m then mput ''enriched_at'' (AnyInt unix) d1 else d1);
          d3 = (if en_hostname m then mput ''hostname'' (AnyString get_hostname) d2 else d2);
          ev3 = ev\<lparr>ev_data := Some d3\<rparr>
      in case en_custom m of
           None \<Rightarrow> (ev3, None)
         | Some f \<Rightarrow> (ev3\<lparr>ev_data := Some (put_all (f ev3) d3)\<rparr>, None))"

definition add_enrichment :: "string \<Rightarrow> any_value \<Rightarrow> enrichment \<Rightarrow> enrichment" where
  "add_enrichment k v m = m\<lparr>en_static := mput k v (en_static m)\<rparr>"

definition remove_enrichment :: "string \<Rightarrow> enrichment \<Rightarrow> enrichment" where
  "remove_enrichment k m = m\<lparr>en_static := mdel k (en_static m)\<rparr>"

definition set_add_timestamp :: "bool \<Rightarrow> enrichment \<Rightarrow> enrichment" where
  "set_add_timestamp b m = m\<lparr>en_timestamp := b\<rparr>"

definition set_add_hostname :: "bool \<Rightarrow> enrichment \<Rightarrow> enrichment" where
  "set_add_hostname b m = m\<lparr>en_hostname := b\<rparr>"

definition set_custom_enrichment :: "(event \<Rightarrow> (string, any_value) gomap) option \<Rightarrow> enrichment \<Rightarrow> enrichment" where
  "set_custom_enrichment f m = m\<lparr>en_custom := f\<rparr>"

section \<open>Validation\<close>

record validation =
  va_id :: bool
  va_type :: bool
  va_source :: bool
  va_timestamp :: bool
  va_custom :: "(event \<Rightarrow> go_error option) list"

definition new_validation :: validation where
  "new_validation = \<lparr>va_id = True, va_type = True, va_source = False, va_timestamp = True, va_custom = []\<rparr>"

fun run_validators :: "(event \<Rightarrow> go_error option) list \<Rightarrow> event \<Rightarrow> go_error option" where
  "run_validators [] ev = None"
| "run_validators (f # fs) ev =
     (case f ev of Some e \<Rightarrow> Some (wrap_error ErrInvalid e) | None \<Rightarrow> run_validators fs ev)"

definition validation_process :: "validation \<Rightarrow> event \<Rightarrow> processed" where
  "validation_process m ev =
     (if va_id m \<and> ev_id ev = '''' then (ev, Some (new_error ErrInvalid))
      else if va_type m \<and> ev_type ev = '''' then (ev, Some (new_error ErrInvalid))
      else if va_source m \<and> ev_source ev = '''' then (ev, Some (new_error ErrInvalid))
      else if va_timestamp m \<and> ts_is_zero (ev_timestamp ev) then (ev, Some (new_error ErrInvalid))
      else (ev, run_validators (va_custom m) ev))"

definition add_validator :: "(event \<Rightarrow> go_error option) \<Rightarrow> validation \<Rightarrow> validation" where
  "add_validator f m = m\<lparr>va_custom := va_custom m @ [f]\<rparr>"

definition set_require_id :: "bool \<Rightarrow> validation \<Rightarrow> validation" where
  "set_require_id b m = m\<lparr>va_id := b\<rparr>"

definition set_require_type :: "bool \<Rightarrow> validation \<Rightarrow> validation" where
  "set_require_type b m = m\<lparr>va_type := b\<rparr>"

definition set_require_source :: "bool \<Rightarrow> validation \<Rightarrow> validation" where
  "set_require_source b m = m\<lparr>va_source := b\<rparr>"

definition set_require_timestamp :: "bool \<Rightarrow> validation \<Rightarrow> validation" where
  "set_require_timestamp b m = m\<lparr>va_timestamp := b\<rparr>"

section \<open>Rate limit\<close>

record rate_limit =
  rl_max :: int
  rl_window :: int
  rl_events :: "timestamp list"

definition new_rate_limit :: "int \<Rightarrow> int \<Rightarrow> rate_limit result" where
  "new_rate_limit mx w =
     (if mx \<le> 0 then Inl (new_error ErrInvalid)
      else if w \<le> 0 then Inl (new_error ErrInvalid)
      else Inr \<lparr>rl_max = mx, rl_window = w, rl_events = []\<rparr>)"

definition rate_process :: "timestamp \<Rightarrow> event \<Rightarrow> rate_limit \<Rightarrow> processed \<times> rate_limit" where
  "rate_process now ev m =
     (let cutoff = now - rl_window m;
          m1 = m\<lparr>rl_events := filter (\<lambda>t. cutoff < t) (rl_events m)\<rparr>
      in if int (length (rl_events m1)) \<ge> rl_max m1 then ((ev, Some (new_error ErrRateLimited)), m1)
         else ((ev, None), m1\<lparr>rl_events := rl_events m1 @ [now]\<rparr>))"

definition rate_count :: "timestamp \<Rightarrow> rate_limit \<Rightarrow> nat" where
  "rate_count now m = length (filter (\<lambda>t. now - rl_window m < t) (rl_events m))"

section \<open>Duplicates\<close>

record dedup =
  dd_seen :: "(string, timestamp) gomap"
  dd_ttl :: int

definition new_dedup :: "int \<Rightarrow> dedup result" where
  "new_dedup ttl = (if ttl \<le> 0 then Inl (new_error ErrInvalid) else Inr \<lparr>dd_seen = [], dd_ttl = ttl\<rparr>)"

definition dedup_process :: "timestamp \<Rightarrow> event \<Rightarrow> dedup \<Rightarrow> processed \<times> dedup" where
  "dedup_process now ev m =
     (let cutoff = now - dd_ttl m;
          m1 = m\<lparr>dd_seen := filter (\<lambda>(i, t). \<not> t < cutoff) (dd_seen m)\<rparr>
      in case mget (dd_seen m1) (ev_id ev) of
           Some t \<Rightarrow> ((ev, Some (new_error ErrDuplicate)), m1)
         | None \<Rightarrow> ((ev, None), m1\<lparr>dd_seen := mput (ev_id ev) now (dd_seen m1)\<rparr>))"

definition dedup_clear :: "dedup \<Rightarrow> dedup" where
  "dedup_clear m = m\<lparr>dd_seen := []\<rparr>"

section \<open>Chain\<close>

datatype middleware =
    MwFilter "event \<Rightarrow> bool"
  | MwType type_filter
  | MwSource source_filter
  | MwTransform "event \<Rightarrow> event"
  | MwEnrich enrichment
  | MwValidate validation
  | MwRate rate_limit
  | MwDedup dedup

text \<open>One step: \<open>now\<close> is its reading of the clock.\<close>

fun mw_process :: "timestamp \<Rightarrow> middleware \<Rightarrow> event \<Rightarrow> processed \<times> middleware" where
  "mw_process now (MwFilter f) ev = (filter_process f ev, MwFilter f)"
| "mw_process now (MwType m) ev = (type_filter_process m ev, MwType m)"
| "mw_process now (MwSource m) ev = (source_process m ev, MwSource m)"
| "mw_process now (MwTransform f) ev = (transform_process f ev, MwTransform f)"
| "mw_process now (MwEnrich m) ev = (enrich_process (now div 1000000000) m ev, MwEnrich m)"
| "mw_process now (MwValidate m) ev = (validation_process m ev, MwValidate m)"
| "mw_process now (MwRate m) ev = (case rate_process now ev m of (p, m') \<Rightarrow> (p, MwRate m'))"
| "mw_process now (MwDedup m) ev = (case dedup_process now ev m of (p, m') \<Rightarrow> (p, MwDedup m'))"

text \<open>The clock is read by each step in turn: \<open>now i\<close> is its value at step \<open>i\<close>.\<close>

fun mw_chain_process :: "(nat \<Rightarrow> timestamp) \<Rightarrow> middleware list \<Rightarrow> event \<Rightarrow> processed \<times> middleware list" where
  "mw_chain_process now [] ev = ((ev, None), [])"
| "mw_chain_process now (m # ms) ev =
     (case mw_process (now 0) m ev of
        ((ev', Some e), m') \<Rightarrow> ((ev', Some e), m' # ms)
      | ((ev', None), m') \<Rightarrow> (case mw_chain_process (\<lambda>i. now (Suc i)) ms ev' of (p, ms') \<Rightarrow> (p, m' # ms')))"

definition mw_chain_add :: "middleware \<Rightarrow> middleware list \<Rightarrow> middleware list" where
  "mw_chain_add m ms = ms @ [m]"

section \<open>The rate limit over runs\<close>

text \<open>The calls of a run, each a reading of the clock and an event; the times of those let through.\<close>

fun rate_run :: "rate_limit \<Rightarrow> (timestamp \<times> event) list \<Rightarrow> timestamp list \<times> rate_limit" where
  "rate_run m [] = ([], m)"
| "rate_run m ((now, ev) # cs) =
     (case rate_process now ev m of
        ((_, e), m') \<Rightarrow> (case rate_run m' cs of (ts, m'') \<Rightarrow> ((case e of None \<Rightarrow> now # ts | Some _ \<Rightarrow> ts), m'')))"

definition in_window :: "int \<Rightarrow> timestamp \<Rightarrow> timestamp list \<Rightarrow> nat" where
  "in_window w t ts = length (filter (\<lambda>x. t - w < x \<and> x \<le> t) ts)"

definition rate_inv :: "int \<Rightarrow> int \<Rightarrow> timestamp \<Rightarrow> timestamp list \<Rightarrow> rate_limit \<Rightarrow> bool" where
  "rate_inv mx w now ts m \<longleftrightarrow> rl_max m = mx \<and> rl_window m = w
     \<and> (\<forall>t \<ge> now. filter (\<lambda>x. t - w < x) (rl_events m) = filter (\<lambda>x. t - w < x) ts)
     \<and> (\<forall>x \<in> set ts. x \<le> now) \<and> (\<forall>t. int (in_window w t ts) \<le> mx)"

lemma filter_implies: "(\<And>x. P x \<Longrightarrow> Q x) \<Longrightarrow> filter P (filter Q xs) = filter P xs"
  by (auto intro!: filter_cong)

lemma rate_step:
  assumes inv: "rate_inv mx w now ts m" and later: "now \<le> now'" and p: "rate_process now' ev m = ((ev', e), m')"
  shows "rate_inv mx w now' (case e of None \<Rightarrow> ts @ [now'] | Some _ \<Rightarrow> ts) m'"
proof -
  let ?kept = "filter (\<lambda>t. now' - w < t) (rl_events m)"
  have m: "rl_max m = mx" "rl_window m = w" and old: "\<And>x. x \<in> set ts \<Longrightarrow> x \<le> now"
    and win: "\<And>t. int (in_window w t ts) \<le> mx"
    and ev: "\<And>t. now \<le> t \<Longrightarrow> filter (\<lambda>x. t - w < x) (rl_events m) = filter (\<lambda>x. t - w < x) ts"
    using inv by (auto simp: rate_inv_def)
  have kept: "filter (\<lambda>x. t - w < x) ?kept = filter (\<lambda>x. t - w < x) ts" if "now' \<le> t" for t
  proof -
    have "filter (\<lambda>x. t - w < x) ?kept = filter (\<lambda>x. t - w < x) (rl_events m)"
      by (rule filter_implies) (use that in linarith)
    also have "\<dots> = filter (\<lambda>x. t - w < x) ts" using ev that later by simp
    finally show ?thesis .
  qed
  show ?thesis
  proof (cases "int (length ?kept) \<ge> mx")
    case True
    then have "e = Some (new_error ErrRateLimited)" "m' = m\<lparr>rl_events := ?kept\<rparr>"
      using p m by (auto simp: rate_process_def Let_def)
    then show ?thesis using m kept win old later by (force simp: rate_inv_def)
  next
    case False
    then have em: "e = None" "m' = m\<lparr>rl_events := ?kept @ [now']\<rparr>" using p m by (auto simp: rate_process_def Let_def)
    have "int (in_window w t (ts @ [now'])) \<le> mx" for t
    proof (cases "t < now' \<or> now' \<le> t - w")
      case True
      then show ?thesis using win [of t] by (auto simp: in_window_def)
    next
      case hit: False
      have "in_window w t ts \<le> length (filter (\<lambda>x. now' - w < x) ts)"
        unfolding in_window_def using hit by (intro length_filter_mono) auto
      also have "\<dots> = length ?kept" using ev [OF later] by simp
      finally show ?thesis using False hit by (simp add: in_window_def)
    qed
    moreover have "\<forall>x \<in> set (ts @ [now']). x \<le> now'" using old later by force
    ultimately show ?thesis using m kept em by (simp add: rate_inv_def)
  qed
qed

lemma rate_run_inv:
  assumes "rate_inv mx w now ts m" and "sorted (now # map fst cs)"
  shows "int (in_window w t (ts @ fst (rate_run m cs))) \<le> mx"
  using assms
proof (induction cs arbitrary: now ts m)
  case Nil
  then show ?case by (simp add: rate_inv_def)
next
  case (Cons c cs)
  obtain now' ev where c: "c = (now', ev)" by fastforce
  obtain ev' e m' where p: "rate_process now' ev m = ((ev', e), m')" by (metis surj_pair)
  have "rate_inv mx w now' (case e of None \<Rightarrow> ts @ [now'] | Some _ \<Rightarrow> ts) m'"
    using rate_step [OF Cons.prems(1) _ p] Cons.prems(2) by (simp add: c)
  then have "int (in_window w t ((case e of None \<Rightarrow> ts @ [now'] | Some _ \<Rightarrow> ts) @ fst (rate_run m' cs))) \<le> mx"
    by (rule Cons.IH) (use Cons.prems(2) in \<open>simp add: c\<close>)
  then show ?case by (simp add: c p case_prod_unfold split: option.splits)
qed

text \<open>
  While the clock does not go back, no more than the maximum of events pass the rate limit in any
  window of its length, wherever the window ends.
\<close>

lemma rate_limit_bounds_every_window:
  assumes "new_rate_limit mx w = Inr m" and "sorted (map fst cs)" and "fst (rate_run m cs) = ts"
  shows "int (length (filter (\<lambda>x. t - w < x \<and> x \<le> t) ts)) \<le> mx"
proof -
  obtain now where now: "sorted (now # map fst cs)"
    using assms(2) by (cases cs) (auto intro: that [of "fst (hd cs)"])
  have m: "m = \<lparr>rl_max = mx, rl_window = w, rl_events = []\<rparr>" "0 < mx" using assms(1) by (auto simp: new_rate_limit_def split: if_splits)
  then have "rate_inv mx w now [] m" by (simp add: rate_inv_def in_window_def)
  from rate_run_inv [OF this now, of t] show ?thesis by (simp add: in_window_def assms(3))
qed

lemma rate_limit_bounds_every_window_witness:
  "let ts = fst (rate_run \<lparr>rl_max = 1, rl_window = 10, rl_events = []\<rparr> [(1, sample_event), (4, sample_event), (12, sample_event)])
   in ts = [1, 12] \<and> length (filter (\<lambda>x. 12 - 10 < x \<and> x \<le> 12) ts) \<le> 1"
proof -
  let ?m = "\<lparr>rl_max = 1, rl_window = 10, rl_events = []\<rparr>" and ?cs = "[(1 :: int, sample_event), (4, sample_event), (12, sample_event)]"
  have new: "new_rate_limit 1 10 = Inr ?m" by (simp add: new_rate_limit_def)
  have sorted: "sorted (map fst ?cs)" by simp
  have ts: "fst (rate_run ?m ?cs) = [1, 12]" by (simp add: rate_process_def Let_def)
  show ?thesis using rate_limit_bounds_every_window [OF new sorted ts, of 12] ts by (simp add: Let_def)
qed

section \<open>Duplicates over runs\<close>

fun dedup_run :: "dedup \<Rightarrow> (timestamp \<times> event) list \<Rightarrow> (timestamp \<times> id) list \<times> dedup" where
  "dedup_run m [] = ([], m)"
| "dedup_run m ((now, ev) # cs) =
     (case dedup_process now ev m of
        ((_, e), m') \<Rightarrow> (case dedup_run m' cs of (ts, m'') \<Rightarrow> ((case e of None \<Rightarrow> (now, ev_id ev) # ts | Some _ \<Rightarrow> ts), m'')))"

definition dedup_inv :: "int \<Rightarrow> timestamp \<Rightarrow> (timestamp \<times> id) list \<Rightarrow> dedup \<Rightarrow> bool" where
  "dedup_inv ttl now ts m \<longleftrightarrow> dd_ttl m = ttl \<and> mwf (dd_seen m)
     \<and> (\<forall>i t. (i, t) \<in> set (dd_seen m) \<longrightarrow> (t, i) \<in> set ts)
     \<and> (\<forall>t i. (t, i) \<in> set ts \<and> now - t \<le> ttl \<longrightarrow> (\<exists>t'. (i, t') \<in> set (dd_seen m) \<and> t \<le> t'))
     \<and> (\<forall>(t, i) \<in> set ts. t \<le> now)"

lemma mwf_filter: "mwf m \<Longrightarrow> mwf (filter P m)"
  unfolding mwf_def by (rule distinct_map_filter)

lemma dedup_refuses_iff:
  assumes inv: "dedup_inv ttl now ts m" and later: "now \<le> now'"
  shows "snd (fst (dedup_process now' ev m)) \<noteq> None \<longleftrightarrow> (\<exists>t. (t, ev_id ev) \<in> set ts \<and> now' - t \<le> ttl)"
proof -
  let ?kept = "filter (\<lambda>(i, t). \<not> t < now' - ttl) (dd_seen m)"
  have ttl: "dd_ttl m = ttl" and wf: "mwf ?kept" using inv by (auto simp: dedup_inv_def intro: mwf_filter)
  have "snd (fst (dedup_process now' ev m)) \<noteq> None \<longleftrightarrow> (\<exists>t. mget ?kept (ev_id ev) = Some t)"
    by (auto simp: dedup_process_def Let_def ttl split: option.split)
  also have "\<dots> \<longleftrightarrow> (\<exists>t. (ev_id ev, t) \<in> set (dd_seen m) \<and> now' - t \<le> ttl)"
    by (auto simp: mget_iff_in_set [OF wf])
  also have "\<dots> \<longleftrightarrow> (\<exists>t. (t, ev_id ev) \<in> set ts \<and> now' - t \<le> ttl)"
  proof
    assume "\<exists>t. (ev_id ev, t) \<in> set (dd_seen m) \<and> now' - t \<le> ttl"
    then show "\<exists>t. (t, ev_id ev) \<in> set ts \<and> now' - t \<le> ttl" using inv unfolding dedup_inv_def by blast
  next
    assume "\<exists>t. (t, ev_id ev) \<in> set ts \<and> now' - t \<le> ttl"
    then obtain t where t: "(t, ev_id ev) \<in> set ts" "now' - t \<le> ttl" by blast
    then have "now - t \<le> ttl" using later by linarith
    then obtain t' where "(ev_id ev, t') \<in> set (dd_seen m)" "t \<le> t'" using inv t(1) unfolding dedup_inv_def by blast
    then show "\<exists>t. (ev_id ev, t) \<in> set (dd_seen m) \<and> now' - t \<le> ttl" using t(2) by (intro exI [of _ t']) auto
  qed
  finally show ?thesis .
qed

lemma dedup_step:
  assumes inv: "dedup_inv ttl now ts m" and later: "now \<le> now'" and pos: "0 < ttl"
    and p: "dedup_process now' ev m = ((ev', e), m')"
  shows "dedup_inv ttl now' (case e of None \<Rightarrow> ts @ [(now', ev_id ev)] | Some _ \<Rightarrow> ts) m'"
proof -
  let ?kept = "filter (\<lambda>(i, t). \<not> t < now' - ttl) (dd_seen m)"
  have ttl: "dd_ttl m = ttl" and wf: "mwf ?kept"
    and seen: "\<And>i t. (i, t) \<in> set (dd_seen m) \<Longrightarrow> (t, i) \<in> set ts"
    and fresh: "\<And>i t. (t, i) \<in> set ts \<Longrightarrow> now - t \<le> ttl \<Longrightarrow> \<exists>t'. (i, t') \<in> set (dd_seen m) \<and> t \<le> t'"
    and old: "\<And>i t. (t, i) \<in> set ts \<Longrightarrow> t \<le> now"
    using inv by (auto simp: dedup_inv_def intro: mwf_filter)
  have kept: "\<exists>t'. (i, t') \<in> set ?kept \<and> t \<le> t'" if "(t, i) \<in> set ts" "now' - t \<le> ttl" for i t
    using fresh [OF that(1)] that(2) later by force
  show ?thesis
  proof (cases "mget ?kept (ev_id ev)")
    case None
    then have em: "e = None" "m' = m\<lparr>dd_seen := mput (ev_id ev) now' ?kept\<rparr>"
      using p by (auto simp: dedup_process_def Let_def ttl)
    have no: "(ev_id ev, t) \<notin> set ?kept" for t using None mget_iff_in_set [OF wf, of "ev_id ev" t] by simp
    have set: "set (mput (ev_id ev) now' ?kept) = insert (ev_id ev, now') (set ?kept)"
      using set_mput [OF wf, of "ev_id ev" now'] no by auto
    have "\<exists>t'. (i, t') \<in> insert (ev_id ev, now') (set ?kept) \<and> t \<le> t'"
      if "(t, i) \<in> set (ts @ [(now', ev_id ev)])" "now' - t \<le> ttl" for t i
      using that kept [of t i] by auto
    moreover have "(t, i) \<in> set (ts @ [(now', ev_id ev)])" if "(i, t) \<in> insert (ev_id ev, now') (set ?kept)" for t i
      using that seen by auto
    moreover have "\<forall>(t, i) \<in> set (ts @ [(now', ev_id ev)]). t \<le> now'" using old later by force
    ultimately show ?thesis using wf by (simp add: dedup_inv_def em ttl set)
  next
    case (Some t)
    then have "e = Some (new_error ErrDuplicate)" "m' = m\<lparr>dd_seen := ?kept\<rparr>" using p by (auto simp: dedup_process_def Let_def ttl)
    then show ?thesis using wf kept seen old later by (force simp: dedup_inv_def ttl)
  qed
qed

lemma dedup_run_inv:
  assumes "dedup_inv ttl now ts m" and "0 < ttl" and "sorted (now # map fst cs)" and "dedup_run m cs = (ts', m')"
  shows "dedup_inv ttl (if cs = [] then now else fst (last cs)) (ts @ ts') m'"
  using assms
proof (induction cs arbitrary: now ts m ts' m')
  case (Cons c cs)
  obtain now' ev where c: "c = (now', ev)" by fastforce
  obtain ev' e m1 where p: "dedup_process now' ev m = ((ev', e), m1)" by (metis surj_pair)
  obtain ts1 m2 where r: "dedup_run m1 cs = (ts1, m2)" by fastforce
  have later: "now \<le> now'" "sorted (now' # map fst cs)" using Cons.prems(3) by (auto simp: c)
  have eq: "m' = m2" "ts' = (case e of None \<Rightarrow> (now', ev_id ev) # ts1 | Some _ \<Rightarrow> ts1)"
    using Cons.prems(4) by (auto simp: c p r)
  show ?case using Cons.IH [OF dedup_step [OF Cons.prems(1) later(1) assms(2) p] assms(2) later(2) r]
    by (auto simp: c eq split: option.splits)
qed simp

text \<open>
  While the clock does not go back and nothing is cleared, an event is refused as a duplicate
  exactly when an event with its identifier was let through within the time to live before it.
\<close>

lemma dedup_refuses_exactly_duplicates:
  assumes "new_dedup ttl = Inr m0" and "sorted (map fst cs @ [now])" and "dedup_run m0 cs = (passed, m)"
  shows "snd (fst (dedup_process now ev m)) \<noteq> None \<longleftrightarrow> (\<exists>t. (t, ev_id ev) \<in> set passed \<and> now - t \<le> ttl)"
proof -
  let ?t0 = "if cs = [] then now else fst (hd cs)"
  have m0: "m0 = \<lparr>dd_seen = [], dd_ttl = ttl\<rparr>" "0 < ttl" using assms(1) by (auto simp: new_dedup_def split: if_splits)
  then have start: "dedup_inv ttl ?t0 [] m0" by (simp add: dedup_inv_def)
  have "sorted (?t0 # map fst cs)" using assms(2) by (cases cs) (auto simp: sorted_append)
  from dedup_run_inv [OF start m0(2) this assms(3)]
  have "dedup_inv ttl (if cs = [] then ?t0 else fst (last cs)) passed m" by simp
  moreover have "(if cs = [] then ?t0 else fst (last cs)) \<le> now" using assms(2) by (auto simp: sorted_append)
  ultimately show ?thesis using dedup_refuses_iff by fastforce
qed

lemma dedup_refuses_exactly_duplicates_witness:
  "snd (fst (dedup_process 7 sample_event (snd (dedup_run \<lparr>dd_seen = [], dd_ttl = 5\<rparr> [(3, sample_event)])))) \<noteq> None"
proof -
  let ?m0 = "\<lparr>dd_seen = [], dd_ttl = 5\<rparr>" and ?cs = "[(3 :: int, sample_event)]"
  have new: "new_dedup 5 = Inr ?m0" by (simp add: new_dedup_def)
  have sorted: "sorted (map fst ?cs @ [7])" by simp
  have run: "dedup_run ?m0 ?cs = ([(3, ev_id sample_event)], snd (dedup_run ?m0 ?cs))" by (simp add: dedup_process_def Let_def)
  show ?thesis using dedup_refuses_exactly_duplicates [OF new sorted run] by simp
qed

section \<open>Sources\<close>

text \<open>
  As soon as one source is blocked the list of allowed sources has no effect, and a pattern in it
  never matches by its wildcard, in \<open>Process\<close>; \<open>ProcessWithPatterns\<close> does both.
\<close>

lemma blocked_source_opens_allowlist:
  "sf_blocked m \<noteq> [] \<Longrightarrow> snd (source_process m ev) = None \<longleftrightarrow> \<not> member (ev_source ev) (sf_blocked m)"
  by (simp add: source_process_def)

lemma source_pattern_needs_pattern_process:
  "snd (source_process (add_allowed_pattern ''src*'' new_source_filter) (sample_event\<lparr>ev_source := ''src1''\<rparr>)) \<noteq> None"
  "snd (source_process_patterns (add_allowed_pattern ''src*'' new_source_filter) (sample_event\<lparr>ev_source := ''src1''\<rparr>)) = None"
  by (auto simp: source_process_def source_process_patterns_def add_allowed_pattern_def new_source_filter_def is_allowed_def
      is_blocked_def member_def pattern_hit_def mkeys_def mput_def has_suffix_def has_prefix_def trim_suffix_def mget_def)

end
