(* ===== verification/Provider_Types.thy ===== *)
theory Provider_Types
  imports Go_Types Go_Strings Exchange_Sort
begin

text \<open>
  pkg/provider/types.go, request.go, response.go and config.go: providers, models, the
  unified request and response, and the configuration of the registry.  A float is
  only passed on by the code; it is kept as its text.
\<close>

section \<open>Providers and models\<close>

type_synonym provider = string
type_synonym model = string
type_synonym go_float = string

definition prov_anthropic :: provider where "prov_anthropic = ''anthropic''"
definition prov_openai :: provider where "prov_openai = ''openai''"

definition provider_valid :: "provider \<Rightarrow> bool" where
  "provider_valid p \<longleftrightarrow> p = prov_anthropic \<or> p = prov_openai"

datatype provider_status =
    PsUnknown | PsStarting | PsAvailable | PsUnavailable | PsDegraded | PsError

fun ps_available :: "provider_status \<Rightarrow> bool" where
  "ps_available PsAvailable = True"
| "ps_available PsDegraded = True"
| "ps_available _ = False"

definition anthropic_models :: "model list" where
  "anthropic_models = [''claude-3-5-sonnet-20241022'', ''claude-3-5-sonnet-20240620'', ''claude-3-opus-20240229'',
     ''claude-3-sonnet-20240229'', ''claude-3-haiku-20240307'']"

definition openai_models :: "model list" where
  "openai_models = [''gpt-4o'', ''gpt-4o-mini'', ''gpt-4-turbo'', ''gpt-4'', ''gpt-3.5-turbo'']"

definition is_anthropic_model :: "model \<Rightarrow> bool" where
  "is_anthropic_model m \<longleftrightarrow> m \<in> set anthropic_models"

definition is_openai_model :: "model \<Rightarrow> bool" where
  "is_openai_model m \<longleftrightarrow> m \<in> set openai_models"

definition provider_for :: "model \<Rightarrow> provider" where
  "provider_for m = (if is_anthropic_model m then prov_anthropic else if is_openai_model m then prov_openai else '''')"

record model_capabilities =
  mc_streaming :: bool
  mc_functions :: bool
  mc_vision :: bool
  mc_caching :: bool
  mc_json :: bool
  mc_system :: bool
  mc_temperature :: bool
  mc_top_p :: bool
  mc_top_k :: bool
  mc_max_tokens :: bool
  mc_stop :: bool

record model_info =
  mi_id :: model
  mi_provider :: provider
  mi_name :: string
  mi_context :: int
  mi_capabilities :: model_capabilities

section \<open>Requests and responses\<close>

datatype llm_role = RoleSystem | RoleUser | RoleAssistant | RoleOther string

fun role_text :: "llm_role \<Rightarrow> string" where
  "role_text RoleSystem = ''system''"
| "role_text RoleUser = ''user''"
| "role_text RoleAssistant = ''assistant''"
| "role_text (RoleOther s) = s"

record image_source =
  im_type :: string
  im_media :: string
  im_data :: string

text \<open>A tool block is only passed to the JSON encoder; it is kept as its text.\<close>

record content_block =
  cb_type :: string
  cb_text :: string
  cb_source :: "image_source option"
  cb_tool_use :: "string option"
  cb_tool_result :: "string option"

datatype content = TextContent string | BlockContent "content_block list" | OtherContent any_value

record llm_message =
  lm_role :: llm_role
  lm_content :: content

record completion_request =
  cq_model :: model
  cq_messages :: "llm_message list"
  cq_max_tokens :: int
  cq_temperature :: "go_float option"
  cq_top_p :: "go_float option"
  cq_top_k :: "int option"
  cq_stop :: "string list"
  cq_stream :: bool
  cq_metadata :: "(string, any_value) gomap"

datatype stop_reason = StopNone | StopEndTurn | StopMaxTokens | StopSequence | StopToolUse

record token_usage =
  tu_input :: int
  tu_cache_read :: int
  tu_cache_write :: int
  tu_output :: int
  tu_total :: int

definition no_usage :: token_usage where
  "no_usage = \<lparr>tu_input = 0, tu_cache_read = 0, tu_cache_write = 0, tu_output = 0, tu_total = 0\<rparr>"

text \<open>Counts of tokens are machine integers; sums are taken in 64 bits.\<close>

definition usage_total :: "token_usage \<Rightarrow> int" where
  "usage_total u = int64_add (int64_add (int64_add (tu_input u) (tu_cache_read u)) (tu_cache_write u)) (tu_output u)"

record completion_response =
  cr_id :: string
  cr_model :: model
  cr_provider :: provider
  cr_content :: string
  cr_stop :: stop_reason
  cr_usage :: token_usage

record completion_chunk =
  ck_id :: string
  ck_model :: model
  ck_provider :: provider
  ck_content :: string
  ck_delta :: string
  ck_stop :: "stop_reason option"
  ck_usage :: "token_usage option"
  ck_error :: "go_error option"
  ck_done :: bool

section \<open>Configuration\<close>

record provider_config =
  pc_provider :: provider
  pc_key :: string
  pc_url :: string
  pc_timeout :: int
  pc_retries :: int
  pc_models :: "model list"
  pc_enabled :: bool
  pc_priority :: int
  pc_metadata :: "(string, any_value) gomap option"

record registry_config =
  rc_default :: provider
  rc_providers :: "(provider, provider_config) gomap"
  rc_failover :: bool
  rc_threshold :: int
  rc_health_interval :: duration
  rc_breaker_timeout :: duration

definition default_provider_timeout :: int where "default_provider_timeout = 60"
definition default_provider_retries :: int where "default_provider_retries = 3"
definition default_provider_priority :: int where "default_provider_priority = 100"
definition anthropic_url :: string where "anthropic_url = ''https://api.anthropic.com''"
definition openai_url :: string where "openai_url = ''https://api.openai.com''"

definition default_anthropic_config :: provider_config where
  "default_anthropic_config = \<lparr>pc_provider = prov_anthropic, pc_key = '''', pc_url = anthropic_url,
     pc_timeout = default_provider_timeout, pc_retries = default_provider_retries, pc_models = anthropic_models,
     pc_enabled = True, pc_priority = 10,
     pc_metadata = Some [(''name'', AnyString ''Anthropic''), (''description'', AnyString ''Anthropic Claude API''),
       (''supports_prompt_caching'', AnyBool True), (''supports_function_calling'', AnyBool True),
       (''supports_vision'', AnyBool True)]\<rparr>"

definition default_openai_config :: provider_config where
  "default_openai_config = \<lparr>pc_provider = prov_openai, pc_key = '''', pc_url = openai_url,
     pc_timeout = default_provider_timeout, pc_retries = default_provider_retries, pc_models = openai_models,
     pc_enabled = True, pc_priority = 20,
     pc_metadata = Some [(''name'', AnyString ''OpenAI''), (''description'', AnyString ''OpenAI GPT API''),
       (''supports_function_calling'', AnyBool True), (''supports_vision'', AnyBool True),
       (''supports_json_mode'', AnyBool True)]\<rparr>"

definition default_registry_config :: registry_config where
  "default_registry_config = \<lparr>rc_default = prov_anthropic,
     rc_providers = [(prov_anthropic, default_anthropic_config), (prov_openai, default_openai_config)],
     rc_failover = True, rc_threshold = 3, rc_health_interval = 30000000000, rc_breaker_timeout = 60000000000\<rparr>"

text \<open>One round of the loop over the providers of \<open>Validate\<close>.\<close>

definition validate_provider :: "provider \<times> provider_config \<Rightarrow> go_error option" where
  "validate_provider pc = (case pc of (p, cfg) \<Rightarrow>
     if \<not> provider_valid p then Some (new_error ErrInvalidArgument)
     else if pc_provider cfg \<noteq> p then Some (new_error ErrInvalidArgument)
     else if pc_url cfg = '''' then Some (new_error ErrInvalidArgument)
     else if pc_timeout cfg \<le> 0 then Some (new_error ErrInvalidArgument)
     else if pc_retries cfg < 0 then Some (new_error ErrInvalidArgument)
     else if length (pc_models cfg) = 0 then Some (new_error ErrInvalidArgument)
     else None)"

definition rc_validate :: "registry_config \<Rightarrow> go_error option" where
  "rc_validate c =
     (if rc_default c = '''' then Some (new_error ErrInvalidArgument)
      else if \<not> provider_valid (rc_default c) then Some (new_error ErrInvalidArgument)
      else case first_error validate_provider (rc_providers c) of
        Some e \<Rightarrow> Some e
      | None \<Rightarrow>
          if mget (rc_providers c) (rc_default c) = None then Some (new_error ErrInvalidArgument)
          else if rc_failover c \<and> rc_threshold c \<le> 0 then Some (new_error ErrInvalidArgument)
          else if rc_health_interval c \<le> 0 then Some (new_error ErrInvalidArgument)
          else if rc_breaker_timeout c \<le> 0 then Some (new_error ErrInvalidArgument)
          else None)"

definition fill_provider :: "provider_config \<Rightarrow> provider_config" where
  "fill_provider c = c\<lparr>
     pc_timeout := (if pc_timeout c = 0 then default_provider_timeout else pc_timeout c),
     pc_retries := (if pc_retries c = 0 then default_provider_retries else pc_retries c),
     pc_priority := (if pc_priority c = 0 then default_provider_priority else pc_priority c),
     pc_metadata := (case pc_metadata c of None \<Rightarrow> Some [] | Some m \<Rightarrow> Some m)\<rparr>"

definition put_absent :: "'k \<Rightarrow> 'v \<Rightarrow> ('k, 'v) gomap \<Rightarrow> ('k, 'v) gomap" where
  "put_absent k v m = (case mget m k of None \<Rightarrow> mput k v m | Some _ \<Rightarrow> m)"

definition rc_apply_defaults :: "registry_config \<Rightarrow> registry_config" where
  "rc_apply_defaults c =
     (let ps0 = (if length (rc_providers c) = 0 then rc_providers default_registry_config else rc_providers c);
          ps1 = put_absent prov_anthropic default_anthropic_config ps0;
          ps2 = put_absent prov_openai default_openai_config ps1
      in c\<lparr>rc_providers := mmap (\<lambda>_. fill_provider) ps2,
           rc_threshold := (if rc_threshold c = 0 then 3 else rc_threshold c),
           rc_health_interval := (if rc_health_interval c = 0 then 30000000000 else rc_health_interval c),
           rc_breaker_timeout := (if rc_breaker_timeout c = 0 then 60000000000 else rc_breaker_timeout c)\<rparr>)"

definition rc_get_provider :: "provider \<Rightarrow> registry_config \<Rightarrow> provider_config result" where
  "rc_get_provider p c = (case mget (rc_providers c) p of Some cfg \<Rightarrow> Inr cfg | None \<Rightarrow> Inl (new_error ErrProviderNotFound))"

definition rc_enabled :: "registry_config \<Rightarrow> provider_config list" where
  "rc_enabled c =
     (let ps = filter pc_enabled (mvals (rc_providers c))
      in exchange_sort (\<lambda>a b. pc_priority a < pc_priority b) (length ps) ps)"

section \<open>Environment and overrides\<close>

definition parse_nonneg :: "string \<Rightarrow> int option" where
  "parse_nonneg s = (case sscanf_int s of None \<Rightarrow> None | Some i \<Rightarrow> if i < 0 then None else Some i)"

definition truthy :: "string \<Rightarrow> bool" where
  "truthy v \<longleftrightarrow> to_lower v = ''true'' \<or> v = ''1''"

text \<open>A variable that is set to text: the new value, else the old.\<close>

definition env_or :: "string \<Rightarrow> (string \<Rightarrow> 'a) \<Rightarrow> 'a \<Rightarrow> 'a" where
  "env_or v f old = (if v \<noteq> '''' then f v else old)"

definition number_or :: "int \<Rightarrow> string \<Rightarrow> int" where
  "number_or old v = (case parse_nonneg v of Some i \<Rightarrow> i | None \<Rightarrow> old)"

definition provider_from_env :: "(string \<Rightarrow> string) \<Rightarrow> string \<Rightarrow> provider_config \<Rightarrow> provider_config" where
  "provider_from_env env pre c = c\<lparr>
     pc_key := env_or (env (pre @ ''_API_KEY'')) id (pc_key c),
     pc_url := env_or (env (pre @ ''_BASE_URL'')) id (pc_url c),
     pc_timeout := env_or (env (pre @ ''_TIMEOUT'')) (number_or (pc_timeout c)) (pc_timeout c),
     pc_retries := env_or (env (pre @ ''_MAX_RETRIES'')) (number_or (pc_retries c)) (pc_retries c),
     pc_enabled := env_or (env (pre @ ''_ENABLED'')) truthy (pc_enabled c)\<rparr>"

definition update_present :: "'k \<Rightarrow> ('v \<Rightarrow> 'v) \<Rightarrow> ('k, 'v) gomap \<Rightarrow> ('k, 'v) gomap" where
  "update_present k f m = (case mget m k of None \<Rightarrow> m | Some v \<Rightarrow> mput k (f v) m)"

definition rc_load_env :: "(string \<Rightarrow> string) \<Rightarrow> registry_config \<Rightarrow> registry_config" where
  "rc_load_env env c =
     (let c1 = c\<lparr>rc_default := env_or (env ''PROVIDER_DEFAULT'') id (rc_default c),
                 rc_failover := env_or (env ''PROVIDER_FAILOVER_ENABLED'') truthy (rc_failover c),
                 rc_threshold := env_or (env ''PROVIDER_FAILOVER_THRESHOLD'') (number_or (rc_threshold c)) (rc_threshold c)\<rparr>;
          ps1 = update_present prov_anthropic (provider_from_env env ''ANTHROPIC'') (rc_providers c1);
          ps2 = update_present prov_openai (provider_from_env env ''OPENAI'') ps1
      in c1\<lparr>rc_providers := ps2\<rparr>)"

record provider_override =
  po_enabled :: "bool option"
  po_url :: string
  po_timeout :: string
  po_retries :: "int option"
  po_key :: string

record override_options =
  oo_providers :: "(string, provider_override) gomap"
  oo_default :: string
  oo_failover :: "bool option"
  oo_threshold :: "int option"

definition or_else :: "'a option \<Rightarrow> 'a \<Rightarrow> 'a" where
  "or_else x old = (case x of None \<Rightarrow> old | Some a \<Rightarrow> a)"

definition override_provider :: "provider_override \<Rightarrow> provider_config \<Rightarrow> provider_config" where
  "override_provider ov c = c\<lparr>
     pc_enabled := or_else (po_enabled ov) (pc_enabled c),
     pc_url := env_or (po_url ov) id (pc_url c),
     pc_timeout := env_or (po_timeout ov) (number_or (pc_timeout c)) (pc_timeout c),
     pc_retries := or_else (po_retries ov) (pc_retries c),
     pc_key := env_or (po_key ov) id (pc_key c)\<rparr>"

definition rc_apply_overrides :: "override_options \<Rightarrow> registry_config \<Rightarrow> registry_config" where
  "rc_apply_overrides opts c = c\<lparr>
     rc_providers := fold (\<lambda>(k, ov) m. update_present k (override_provider ov) m) (oo_providers opts) (rc_providers c),
     rc_default := env_or (oo_default opts) id (rc_default c),
     rc_failover := or_else (oo_failover opts) (rc_failover c),
     rc_threshold := or_else (oo_threshold opts) (rc_threshold c)\<rparr>"

section \<open>What holds\<close>

lemma default_config_valid: "rc_validate default_registry_config = None"
  by code_simp


interpretation config_priority: weak_order "\<lambda>a b :: provider_config. pc_priority a < pc_priority b"
  by unfold_locales auto

lemma rc_enabled_sorted: "sorted_wrt (\<lambda>a b. pc_priority a \<le> pc_priority b) (rc_enabled c)"
  using config_priority.exchange_sort_sorted [of "length (filter pc_enabled (mvals (rc_providers c)))"]
  by (simp add: rc_enabled_def Let_def not_less)

lemma rc_enabled_mset: "mset (rc_enabled c) = mset (filter pc_enabled (mvals (rc_providers c)))"
  by (simp add: rc_enabled_def Let_def config_priority.exchange_sort_mset)

text \<open>A timeout written as a duration is read as its leading number of seconds.\<close>

lemma minutes_read_as_seconds: "number_or 60 ''1m'' = 1"
  by code_simp

end
