(* ===== verification/Token_Accounting.thy ===== *)
theory Token_Accounting
  imports Provider_Types
begin

text \<open>
  pkg/provider/token_accounting.go: accounts of used tokens and budgets.  Counts are
  64-bit; a reading of the clock is a parameter.  Averages and costs are floats and
  are left out.
\<close>

record usage_record =
  ur_time :: timestamp
  ur_request :: string
  ur_provider :: provider
  ur_model :: model
  ur_usage :: token_usage
  ur_metadata :: "(string, any_value) gomap option"

record token_account =
  ta_provider :: provider
  ta_model :: model
  ta_start :: timestamp
  ta_total :: token_usage
  ta_count :: int
  ta_last :: timestamp
  ta_records :: "usage_record list"
  ta_max :: int

definition new_token_account :: "timestamp \<Rightarrow> provider \<Rightarrow> model \<Rightarrow> token_account" where
  "new_token_account now p m = \<lparr>ta_provider = p, ta_model = m, ta_start = now, ta_total = no_usage, ta_count = 0,
     ta_last = 0, ta_records = [], ta_max = 1000\<rparr>"

definition add_usage_to :: "token_usage \<Rightarrow> int \<Rightarrow> token_usage \<Rightarrow> token_usage" where
  "add_usage_to u delta t = \<lparr>tu_input = int64_add (tu_input t) (tu_input u),
     tu_cache_read = int64_add (tu_cache_read t) (tu_cache_read u),
     tu_cache_write = int64_add (tu_cache_write t) (tu_cache_write u),
     tu_output = int64_add (tu_output t) (tu_output u), tu_total = int64_add (tu_total t) delta\<rparr>"

definition account_record ::
    "timestamp \<Rightarrow> string \<Rightarrow> model \<Rightarrow> token_usage \<Rightarrow> (string, any_value) gomap option \<Rightarrow> token_account \<Rightarrow> token_account" where
  "account_record now req m u md a =
     (let a1 = a\<lparr>ta_total := add_usage_to u (usage_total u) (ta_total a), ta_count := int64_add (ta_count a) 1, ta_last := now\<rparr>
      in if ta_max a1 > 0 then
           let recs = ta_records a1 @ [\<lparr>ur_time = now, ur_request = req, ur_provider = ta_provider a1, ur_model = m,
                 ur_usage = u, ur_metadata = md\<rparr>]
           in a1\<lparr>ta_records := (if int (length recs) > ta_max a1 then drop (length recs - nat (ta_max a1)) recs else recs)\<rparr>
         else a1)"

definition account_add :: "token_usage \<Rightarrow> token_account \<Rightarrow> token_account" where
  "account_add u a = a\<lparr>ta_total := add_usage_to u (tu_total u) (ta_total a)\<rparr>"

definition records_since :: "timestamp \<Rightarrow> token_account \<Rightarrow> usage_record list" where
  "records_since t a = filter (\<lambda>r. t < ur_time r) (ta_records a)"

definition records_in_range :: "timestamp \<Rightarrow> timestamp \<Rightarrow> token_account \<Rightarrow> usage_record list" where
  "records_in_range t0 t1 a = filter (\<lambda>r. t0 < ur_time r \<and> ur_time r < t1) (ta_records a)"

definition account_reset :: "timestamp \<Rightarrow> token_account \<Rightarrow> token_account" where
  "account_reset now a = a\<lparr>ta_start := now, ta_total := no_usage, ta_count := 0, ta_last := 0, ta_records := []\<rparr>"

section \<open>Budgets\<close>

record token_budget =
  tb_name :: string
  tb_limit :: int
  tb_used :: int
  tb_period :: duration
  tb_start :: timestamp
  tb_reset :: timestamp

definition new_token_budget :: "timestamp \<Rightarrow> string \<Rightarrow> int \<Rightarrow> token_budget" where
  "new_token_budget now name limit =
     \<lparr>tb_name = name, tb_limit = limit, tb_used = 0, tb_period = 0, tb_start = now, tb_reset = 0\<rparr>"

definition new_period_budget :: "timestamp \<Rightarrow> string \<Rightarrow> int \<Rightarrow> duration \<Rightarrow> token_budget" where
  "new_period_budget now name limit period =
     \<lparr>tb_name = name, tb_limit = limit, tb_used = 0, tb_period = period, tb_start = now, tb_reset = now + period\<rparr>"

definition budget_reset :: "timestamp \<Rightarrow> token_budget \<Rightarrow> token_budget" where
  "budget_reset now b =
     (let b1 = b\<lparr>tb_used := 0, tb_start := now\<rparr>
      in if tb_period b1 > 0 then b1\<lparr>tb_reset := now + tb_period b1\<rparr> else b1)"

text \<open>The check both ways of using a budget begin with.\<close>

definition budget_refresh :: "timestamp \<Rightarrow> token_budget \<Rightarrow> token_budget" where
  "budget_refresh now b = (if tb_period b > 0 \<and> tb_reset b < now then budget_reset now b else b)"

definition can_use :: "timestamp \<Rightarrow> int \<Rightarrow> token_budget \<Rightarrow> bool \<times> token_budget" where
  "can_use now n b =
     (let b1 = budget_refresh now b in (int64_add (tb_used b1) n \<le> tb_limit b1, b1))"

definition use_tokens :: "timestamp \<Rightarrow> int \<Rightarrow> token_budget \<Rightarrow> go_error option \<times> token_budget" where
  "use_tokens now n b =
     (let b1 = budget_refresh now b
      in if int64_add (tb_used b1) n > tb_limit b1 then (Some (new_error ErrResourceExhausted), b1)
         else (None, b1\<lparr>tb_used := int64_add (tb_used b1) n\<rparr>))"

definition get_remaining :: "token_budget \<Rightarrow> int" where
  "get_remaining b = (if int64_add (tb_limit b) (- tb_used b) < 0 then 0 else int64_add (tb_limit b) (- tb_used b))"

section \<open>What holds\<close>

definition usage_field :: "(token_usage \<Rightarrow> int) \<Rightarrow> bool" where
  "usage_field f \<longleftrightarrow> f \<in> {tu_input, tu_cache_read, tu_cache_write, tu_output}"

definition small_usage :: "token_usage \<Rightarrow> bool" where
  "small_usage u \<longleftrightarrow> 0 \<le> tu_input u \<and> 0 \<le> tu_cache_read u \<and> 0 \<le> tu_cache_write u \<and> 0 \<le> tu_output u"

definition record_all :: "(timestamp \<times> string \<times> model \<times> token_usage) list \<Rightarrow> token_account \<Rightarrow> token_account" where
  "record_all us a = fold (\<lambda>(now, req, m, u) a. account_record now req m u None a) us a"

definition usage_sum :: "token_usage list \<Rightarrow> token_usage" where
  "usage_sum us = \<lparr>tu_input = sum_list (map tu_input us), tu_cache_read = sum_list (map tu_cache_read us),
     tu_cache_write = sum_list (map tu_cache_write us), tu_output = sum_list (map tu_output us),
     tu_total = sum_list (map (\<lambda>u. tu_input u + tu_cache_read u + tu_cache_write u + tu_output u) us)\<rparr>"

lemma usage_sum_snoc_bound:
  assumes "list_all small_usage us"
  shows "0 \<le> tu_input (usage_sum us)" "0 \<le> tu_cache_read (usage_sum us)" "0 \<le> tu_cache_write (usage_sum us)"
    "0 \<le> tu_output (usage_sum us)"
    "tu_total (usage_sum us) = tu_input (usage_sum us) + tu_cache_read (usage_sum us) + tu_cache_write (usage_sum us) + tu_output (usage_sum us)"
  using assms by (induction us) (auto simp: usage_sum_def small_usage_def)

lemma usage_sum_snoc:
  "usage_sum (us @ [u]) = \<lparr>tu_input = tu_input (usage_sum us) + tu_input u,
     tu_cache_read = tu_cache_read (usage_sum us) + tu_cache_read u,
     tu_cache_write = tu_cache_write (usage_sum us) + tu_cache_write u,
     tu_output = tu_output (usage_sum us) + tu_output u,
     tu_total = tu_total (usage_sum us) + (tu_input u + tu_cache_read u + tu_cache_write u + tu_output u)\<rparr>"
  by (simp add: usage_sum_def)

lemma usage_total_exact:
  assumes "small_usage u" and "tu_input u + tu_cache_read u + tu_cache_write u + tu_output u \<le> int64_max"
  shows "usage_total u = tu_input u + tu_cache_read u + tu_cache_write u + tu_output u"
  using assms by (simp add: usage_total_def small_usage_def int64_add_exact int64_min_def)

lemma account_record_fields [simp]:
  "ta_total (account_record now req m u md a) = add_usage_to u (usage_total u) (ta_total a)"
  "ta_count (account_record now req m u md a) = int64_add (ta_count a) 1"
  "ta_max (account_record now req m u md a) = ta_max a"
  by (simp_all add: account_record_def Let_def)

lemma account_record_records:
  assumes "0 < ta_max a" and "int (length (ta_records a)) \<le> ta_max a"
  shows "\<exists>r. ur_request r = req \<and> ur_model r = m \<and> ur_usage r = u
    \<and> ta_records (account_record now req m u md a) = (if int (length (ta_records a)) < ta_max a then ta_records a @ [r] else tl (ta_records a) @ [r])"
proof -
  let ?r = "\<lparr>ur_time = now, ur_request = req, ur_provider = ta_provider a, ur_model = m, ur_usage = u, ur_metadata = md\<rparr>"
  have "drop (Suc (length (ta_records a)) - nat (ta_max a)) (ta_records a @ [?r]) = tl (ta_records a) @ [?r]"
    if "\<not> int (length (ta_records a)) < ta_max a"
  proof -
    have "Suc (length (ta_records a)) - nat (ta_max a) = 1" "ta_records a \<noteq> []" using that assms by auto
    then show ?thesis by (cases "ta_records a") (simp_all add: drop_Suc)
  qed
  then show ?thesis using assms by (intro exI [of _ ?r]) (auto simp: account_record_def Let_def)
qed

lemma record_all_snoc:
  "record_all (us @ [(now, req, m, u)]) a = account_record now req m u None (record_all us a)"
  by (simp add: record_all_def)

abbreviation usages :: "(timestamp \<times> string \<times> model \<times> token_usage) list \<Rightarrow> token_usage list" where
  "usages us \<equiv> map (\<lambda>(now, req, m, u). u) us"

lemma sum_prefix_le:
  assumes "list_all small_usage (us @ [u])" and "tu_total (usage_sum (us @ [u])) \<le> int64_max"
  shows "tu_total (usage_sum us) \<le> int64_max"
    and "tu_input u + tu_cache_read u + tu_cache_write u + tu_output u \<le> int64_max"
proof -
  have us: "list_all small_usage us" "small_usage u" using assms(1) by simp_all
  have "0 \<le> tu_total (usage_sum us)" using usage_sum_snoc_bound [OF us(1)] by linarith
  then show "tu_total (usage_sum us) \<le> int64_max" "tu_input u + tu_cache_read u + tu_cache_write u + tu_output u \<le> int64_max"
    using assms(2) us(2) by (simp_all add: usage_sum_snoc small_usage_def)
qed

lemma add_usage_exact:
  assumes us: "list_all small_usage us" and u: "small_usage u" and b: "tu_total (usage_sum (us @ [u])) \<le> int64_max"
  shows "add_usage_to u (usage_total u) (usage_sum us) = usage_sum (us @ [u])"
proof -
  have t: "usage_total u = tu_input u + tu_cache_read u + tu_cache_write u + tu_output u"
    using usage_total_exact [OF u] sum_prefix_le(2) [of us u] us u b by simp
  have nn: "0 \<le> tu_input u" "0 \<le> tu_cache_read u" "0 \<le> tu_cache_write u" "0 \<le> tu_output u"
    using u by (simp_all add: small_usage_def)
  note s = usage_sum_snoc_bound [OF us]
  have b': "tu_total (usage_sum us) + (tu_input u + tu_cache_read u + tu_cache_write u + tu_output u) \<le> int64_max"
    using b by (simp add: usage_sum_snoc)
  have exact: "int64_add a c = a + c" if "0 \<le> a" "0 \<le> c" "a + c \<le> int64_max" for a c
    using that by (intro int64_add_exact) (simp_all add: int64_min_def)
  have "int64_add (tu_input (usage_sum us)) (tu_input u) = tu_input (usage_sum us) + tu_input u"
    "int64_add (tu_cache_read (usage_sum us)) (tu_cache_read u) = tu_cache_read (usage_sum us) + tu_cache_read u"
    "int64_add (tu_cache_write (usage_sum us)) (tu_cache_write u) = tu_cache_write (usage_sum us) + tu_cache_write u"
    "int64_add (tu_output (usage_sum us)) (tu_output u) = tu_output (usage_sum us) + tu_output u"
    "int64_add (tu_total (usage_sum us)) (usage_total u) = tu_total (usage_sum us) + usage_total u"
    using nn s b' t by (intro exact; linarith)+
  then show ?thesis by (simp add: add_usage_to_def usage_sum_snoc t)
qed

text \<open>
  While the sum of all tokens fits 64 bits, an account holds the exact sums of what was recorded,
  the number of records, and the last thousand records in order.
\<close>

lemma account_sums_exactly:
  assumes "list_all small_usage (usages us)" and "tu_total (usage_sum (usages us)) \<le> int64_max"
    and "int (length us) \<le> int64_max" and "a = record_all us (new_token_account t p m)"
  shows "ta_total a = usage_sum (usages us) \<and> ta_count a = int (length us)
    \<and> map ur_usage (ta_records a) = drop (length us - 1000) (usages us)"
proof -
  have "ta_total b = usage_sum (usages us) \<and> ta_count b = int (length us) \<and> ta_max b = 1000
    \<and> map ur_usage (ta_records b) = drop (length us - 1000) (usages us)"
    if "b = record_all us (new_token_account t p m)" for b
    using assms(1-3) that
  proof (induction us arbitrary: b rule: rev_induct)
    case Nil
    then show ?case by (simp add: record_all_def new_token_account_def no_usage_def usage_sum_def)
  next
    case (snoc x us)
    obtain now req mo u where x: "x = (now, req, mo, u)" by (cases x)
    have pre: "list_all small_usage (usages us)" "small_usage u"
      "tu_total (usage_sum (usages us @ [u])) \<le> int64_max" "int (length us) + 1 \<le> int64_max"
      using snoc.prems by (simp_all add: x)
    let ?c = "record_all us (new_token_account t p m)"
    have le: "tu_total (usage_sum (usages us)) \<le> int64_max"
      using sum_prefix_le(1) [of "usages us" u] pre by simp
    have IH: "ta_total ?c = usage_sum (usages us)" "ta_count ?c = int (length us)" "ta_max ?c = 1000"
      "map ur_usage (ta_records ?c) = drop (length us - 1000) (usages us)"
      using snoc.IH [OF pre(1) le _ refl] pre(4) by auto
    have b: "b = account_record now req mo u None ?c" using snoc.prems(4) by (simp add: x record_all_snoc)
    have len: "length (ta_records ?c) = length us - (length us - 1000)" using arg_cong [OF IH(4), of length] by simp
    obtain r where r: "ur_usage r = u" "ta_records b = (if int (length (ta_records ?c)) < ta_max ?c then ta_records ?c @ [r] else tl (ta_records ?c) @ [r])"
    proof -
      have "0 < ta_max ?c" "int (length (ta_records ?c)) \<le> ta_max ?c" using IH(3) len by simp_all
      then show thesis using account_record_records [of ?c req mo u now None] b that by blast
    qed
    have "map ur_usage (ta_records b) = drop (length (us @ [x]) - 1000) (usages (us @ [x]))"
    proof (cases "length us < 1000")
      case True
      then show ?thesis using r IH(3,4) len by (simp add: x)
    next
      case False
      then have "map ur_usage (ta_records b) = tl (drop (length us - 1000) (usages us)) @ [u]"
        using r IH(3) len by (simp add: map_tl IH(4) [symmetric])
      also have "\<dots> = drop (Suc (length us - 1000)) (usages us) @ [u]" by (simp add: drop_Suc tl_drop)
      also have "Suc (length us - 1000) = length (us @ [x]) - 1000" using False by simp
      finally show ?thesis using False by (simp add: x)
    qed
    moreover have "ta_total b = usage_sum (usages us @ [u])" using add_usage_exact [OF pre(1-3)] IH(1) by (simp add: b)
    moreover have "ta_count b = int (length us) + 1"
      using int64_add_exact [of "int (length us)" 1] pre(4) IH(2) by (simp add: b int64_min_def)
    ultimately show ?case using IH(3) by (simp add: x b)
  qed
  from this [OF assms(4)] show ?thesis by simp
qed

definition sample_usage :: token_usage where
  "sample_usage = \<lparr>tu_input = 7, tu_cache_read = 1, tu_cache_write = 0, tu_output = 4, tu_total = 12\<rparr>"

lemma account_sums_exactly_witness:
  "tu_total (ta_total (record_all [(3, ''r1'', ''gpt-4'', sample_usage), (4, ''r2'', ''gpt-4'', sample_usage)]
     (new_token_account 1 prov_openai ''''))) = 24"
proof -
  let ?us = "[(3, ''r1'', ''gpt-4'', sample_usage), (4, ''r2'', ''gpt-4'', sample_usage)]"
  have pre: "list_all small_usage (usages ?us)" "tu_total (usage_sum (usages ?us)) \<le> int64_max" "int (length ?us) \<le> int64_max"
    by (simp_all add: small_usage_def sample_usage_def usage_sum_def int64_max_def)
  show ?thesis using account_sums_exactly [OF pre refl, of 1 prov_openai "[]"] by (simp add: usage_sum_def sample_usage_def)
qed

section \<open>Budgets over runs\<close>

datatype budget_op = BudUse timestamp int | BudCan timestamp int | BudReset timestamp

fun budget_exec :: "token_budget \<Rightarrow> budget_op \<Rightarrow> token_budget" where
  "budget_exec b (BudUse now n) = snd (use_tokens now n b)"
| "budget_exec b (BudCan now n) = snd (can_use now n b)"
| "budget_exec b (BudReset now) = budget_reset now b"

lemma budget_reset_fields [simp]: "tb_used (budget_reset now b) = 0" "tb_limit (budget_reset now b) = tb_limit b"
  by (simp_all add: budget_reset_def Let_def)

lemma budget_refresh_fields:
  "tb_used (budget_refresh now b) = tb_used b \<or> tb_used (budget_refresh now b) = 0"
  "tb_limit (budget_refresh now b) = tb_limit b"
  by (simp_all add: budget_refresh_def)

definition fits :: "int \<Rightarrow> budget_op \<Rightarrow> bool" where
  "fits limit c \<longleftrightarrow> (case c of BudUse now n \<Rightarrow> 0 \<le> n \<and> limit + n \<le> int64_max | _ \<Rightarrow> True)"

lemma budget_exec_bound:
  assumes "0 \<le> tb_used b" and "tb_used b \<le> tb_limit b" and "fits (tb_limit b) c"
  shows "0 \<le> tb_used (budget_exec b c) \<and> tb_used (budget_exec b c) \<le> tb_limit (budget_exec b c)
    \<and> tb_limit (budget_exec b c) = tb_limit b"
proof (cases c)
  case (BudUse now n)
  let ?b = "budget_refresh now b"
  have b: "0 \<le> tb_used ?b" "tb_used ?b \<le> tb_limit b" "tb_limit ?b = tb_limit b"
    using budget_refresh_fields [of now b] assms(1,2) by auto
  have n: "0 \<le> n" "tb_limit b + n \<le> int64_max" using assms(3) by (simp_all add: BudUse fits_def)
  then have "int64_add (tb_used ?b) n = tb_used ?b + n" using b by (intro int64_add_exact) (auto simp: int64_min_def)
  then show ?thesis using b n by (simp add: BudUse use_tokens_def Let_def)
next
  case (BudCan now n)
  then show ?thesis using budget_refresh_fields [of now b] assms(1,2) by (auto simp: can_use_def Let_def)
qed (use assms in simp)

text \<open>
  C21: A budget is never overdrawn by requests that fit: over any calls, while each request is not
  negative and its sum with the limit fits 64 bits, what is used stays between nothing and the limit.
\<close>

theorem budget_never_overdrawn:
  assumes "0 \<le> limit" and "list_all (fits limit) cs"
  shows "0 \<le> tb_used (foldl budget_exec (new_period_budget now name limit period) cs)
    \<and> tb_used (foldl budget_exec (new_period_budget now name limit period) cs) \<le> limit"
proof -
  have "0 \<le> tb_used (foldl budget_exec b cs) \<and> tb_used (foldl budget_exec b cs) \<le> limit"
    if "0 \<le> tb_used b" "tb_used b \<le> limit" "tb_limit b = limit" for b
    using that assms(2)
  proof (induction cs arbitrary: b)
    case (Cons c cs)
    have "0 \<le> tb_used (budget_exec b c) \<and> tb_used (budget_exec b c) \<le> limit \<and> tb_limit (budget_exec b c) = limit"
      using budget_exec_bound [of b c] Cons.prems by auto
    then show ?case using Cons.IH [of "budget_exec b c"] Cons.prems(4) by simp
  qed simp
  from this [of "new_period_budget now name limit period"] show ?thesis using assms(1) by (simp add: new_period_budget_def)
qed

lemma budget_never_overdrawn_witness:
  "tb_used (foldl budget_exec (new_period_budget 0 ''b'' 10 0) [BudUse 1 6, BudUse 2 6]) \<le> 10"
  using budget_never_overdrawn [of 10 "[BudUse 1 6, BudUse 2 6]" 0 "''b''" 0] by (simp add: fits_def int64_max_def)

text \<open>
  A request whose sum with what is used leaves the 64 bits is granted whatever the limit, and
  leaves a negative amount in use.
\<close>

lemma budget_wraps_around:
  assumes "0 < tb_used b" and "tb_used b \<le> tb_limit b" and "tb_limit b \<le> int64_max" and "tb_period b = 0"
  shows "fst (use_tokens now int64_max b) = None \<and> tb_used (snd (use_tokens now int64_max b)) < 0"
proof -
  have "int64_add (tb_used b) int64_max = tb_used b - int64_max - 2"
  proof -
    have "word_of_int (tb_used b + int64_max) = (word_of_int (tb_used b - int64_max - 2) :: 64 word)"
      by (simp add: word_of_int_eq_iff take_bit_eq_mod mod_eq_dvd_iff int64_max_def)
    then have "int64_add (tb_used b) int64_max = signed_take_bit 63 (tb_used b - int64_max - 2)"
      by (simp only: int64_add_def wi_hom_add sint_sbintrunc') simp
    also have "\<dots> = tb_used b - int64_max - 2"
      using assms by (intro signed_take_bit_int_eq_self) (simp_all add: int64_max_def)
    finally show ?thesis .
  qed
  then show ?thesis using assms by (simp add: use_tokens_def budget_refresh_def Let_def)
qed

lemma budget_wraps_around_witness:
  "fst (use_tokens 5 int64_max ((new_token_budget 0 ''b'' 10)\<lparr>tb_used := 1\<rparr>)) = None"
  using budget_wraps_around [of "(new_token_budget 0 ''b'' 10)\<lparr>tb_used := 1\<rparr>" 5]
  by (simp add: new_token_budget_def int64_max_def)

end
