(* ===== verification/Provider_Client.thy ===== *)
theory Provider_Client
  imports Token_Accounting
begin

text \<open>
  What the clients of the two LLM providers share: their state, the outcome of an HTTP
  exchange, and what is read from a stream.  HTTP and JSON are not under src/: an
  exchange is an outcome the model takes as a parameter, and the encoder and the
  decoders are parameters too.
\<close>

record llm_client =
  cl_config :: provider_config
  cl_status :: provider_status
  cl_closed :: bool
  cl_account :: token_account

text \<open>
  The ways an exchange can end: the body is not encodable, the request cannot be built,
  it fails, its body cannot be read, or there is a reply.
\<close>

datatype exchange =
    EncodeFailed go_error | RequestFailed go_error | SendFailed go_error | ReadFailed go_error | Replied int string

record codec =
  enc_content :: "content \<Rightarrow> string result"
  enc_block :: "content_block \<Rightarrow> string result"

text \<open>A loop that converts the elements of a slice and returns at the first error.\<close>

fun map_result :: "('a \<Rightarrow> 'b result) \<Rightarrow> 'a list \<Rightarrow> 'b list result" where
  "map_result f [] = Inr []"
| "map_result f (x # xs) =
     (case f x of Inl e \<Rightarrow> Inl e | Inr y \<Rightarrow> (case map_result f xs of Inl e \<Rightarrow> Inl e | Inr ys \<Rightarrow> Inr (y # ys)))"

definition update_status :: "provider_status \<Rightarrow> llm_client \<Rightarrow> llm_client" where
  "update_status st c = c\<lparr>cl_status := st\<rparr>"

text \<open>The fields of a client that the constructors fill in.\<close>

definition client_config :: "string \<Rightarrow> provider_config \<Rightarrow> provider_config" where
  "client_config url cfg = cfg\<lparr>pc_url := (if pc_url cfg = '''' then url else pc_url cfg),
     pc_timeout := (if pc_timeout cfg = 0 then default_provider_timeout else pc_timeout cfg)\<rparr>"

definition configured_name :: "string \<Rightarrow> llm_client \<Rightarrow> string" where
  "configured_name fallback c =
     (case pc_metadata (cl_config c) of
        None \<Rightarrow> fallback
      | Some m \<Rightarrow> (case mget m ''name'' of Some (AnyString s) \<Rightarrow> s | _ \<Rightarrow> fallback))"

text \<open>What the code compares a reply's status with.\<close>

definition http_ok :: int where "http_ok = 200"

definition error_code_of_status :: "int \<Rightarrow> err_code" where
  "error_code_of_status n =
     (if n = 401 then ErrAuthenticationFailed
      else if n = 429 then ErrRateLimited
      else if n = 400 then ErrInvalidRequest
      else if n = 413 then ErrContextTooLong
      else ErrUpstreamError)"

definition status_after_error :: "int \<Rightarrow> provider_status \<Rightarrow> provider_status" where
  "status_after_error n st =
     (if n = 401 then PsUnavailable
      else if n = 429 \<or> n = 400 \<or> n = 413 then st
      else PsError)"

text \<open>The rounds of the loop over a stream: the context ends, the reader fails or ends, or there is an event.\<close>

datatype 'e stream_read = StreamCanceled go_error | StreamFailed go_error | StreamEnd | StreamEvent 'e

record stream_state =
  ss_id :: string
  ss_content :: string
  ss_finished :: bool

definition stream_start :: stream_state where
  "stream_start = \<lparr>ss_id = '''', ss_content = '''', ss_finished = False\<rparr>"

text \<open>The code sends chunks with only some fields set.\<close>

definition empty_chunk :: "provider \<Rightarrow> model \<Rightarrow> completion_chunk" where
  "empty_chunk p m = \<lparr>ck_id = '''', ck_model = m, ck_provider = p, ck_content = '''', ck_delta = '''', ck_stop = None,
     ck_usage = None, ck_error = None, ck_done = False\<rparr>"

section \<open>Server-sent events\<close>

text \<open>
  \<open>NextEvent\<close> over the lines that are left: it reads up to the blank line that ends an
  event with a type and data, and gives what it read and the lines after it.
\<close>

fun sse_next :: "string \<Rightarrow> string \<Rightarrow> string list \<Rightarrow> (string \<times> string) option \<times> string list" where
  "sse_next t d [] = ((if t \<noteq> '''' \<and> d \<noteq> '''' then Some (t, d) else None), [])"
| "sse_next t d (line # rest) =
     (if line = '''' then
        if t \<noteq> '''' \<and> d \<noteq> '''' then (Some (t, d), rest) else sse_next '''' '''' rest
      else if has_prefix line ''event:'' then sse_next (trim_space (trim_prefix line ''event:'')) d rest
      else if has_prefix line ''data:'' then
        sse_next t ((if d \<noteq> '''' then d @ [newline] else d) @ trim_space (trim_prefix line ''data:'')) rest
      else sse_next t d rest)"

lemma sse_next_shorter: "length (snd (sse_next t d lines)) \<le> length lines"
  by (induction t d lines rule: sse_next.induct) (auto intro: le_SucI)

text \<open>The stream read to its end.\<close>

function sse_all :: "string list \<Rightarrow> (string \<times> string) list" where
  "sse_all lines =
     (case lines of [] \<Rightarrow> []
      | line # rest \<Rightarrow>
         (case sse_next '''' '''' (line # rest) of (None, _) \<Rightarrow> [] | (Some e, left) \<Rightarrow> e # sse_all (take (length rest) left)))"
  by pat_completeness auto
termination
  by (relation "measure length") auto

declare sse_all.simps [simp del]

lemma sse_next_event_shorter: "sse_next t d (line # rest) = (Some e, left) \<Longrightarrow> length left \<le> length rest"
  using sse_next_shorter [of "[]" "[]" rest] sse_next_shorter [of t d rest]
    sse_next_shorter [of "trim_space (trim_prefix line ''event:'')" d rest]
    sse_next_shorter [of t "(if d \<noteq> '''' then d @ [newline] else d) @ trim_space (trim_prefix line ''data:'')" rest]
  by (auto split: if_splits)

lemma sse_all_step:
  "sse_next '''' '''' (line # rest) = (Some e, left) \<Longrightarrow> sse_all (line # rest) = e # sse_all left"
  using sse_next_event_shorter [of "[]" "[]" line rest e left] by (subst sse_all.simps) simp

text \<open>The lines a server sends for an event whose data has no line break.\<close>

definition sse_lines :: "string \<times> string \<Rightarrow> string list" where
  "sse_lines e = [''event: '' @ fst e, ''data: '' @ snd e, '''']"

definition plain_text :: "string \<Rightarrow> bool" where
  "plain_text s \<longleftrightarrow> s \<noteq> '''' \<and> \<not> is_space (hd s) \<and> \<not> is_space (last s)"

lemma trim_space_plain: "plain_text s \<Longrightarrow> trim_space (CHR '' '' # s) = s"
proof -
  assume s: "plain_text s"
  have sp: "is_space CHR '' ''" by code_simp
  have "dropWhile is_space s = s" using s by (cases s) (auto simp: plain_text_def)
  moreover have "dropWhile is_space (rev s) = rev s"
    using s by (cases s rule: rev_cases) (auto simp: plain_text_def)
  ultimately show ?thesis by (simp add: trim_space_def sp)
qed

lemma sse_next_event:
  assumes "plain_text t" and "plain_text d"
  shows "sse_next '''' '''' (sse_lines (t, d) @ rest) = (Some (t, d), rest)"
proof -
  have ne: "t \<noteq> ''''" "d \<noteq> ''''" using assms by (auto simp: plain_text_def)
  have "has_prefix (''event: '' @ t) ''event:''" "trim_prefix (''event: '' @ t) ''event:'' = CHR '' '' # t"
    "\<not> has_prefix (''data: '' @ d) ''event:''" "has_prefix (''data: '' @ d) ''data:''"
    "trim_prefix (''data: '' @ d) ''data:'' = CHR '' '' # d"
    by (simp_all add: has_prefix_def trim_prefix_def)
  then show ?thesis using ne assms by (simp add: sse_lines_def trim_space_plain)
qed

text \<open>
  Reading a stream of events gives back the events that were sent, in order, when each has a
  type and data without surrounding blanks; the reader takes lines for ever only if they come for
  ever.
\<close>

lemma sse_round_trip:
  assumes "\<forall>e \<in> set evs. plain_text (fst e) \<and> plain_text (snd e)"
  shows "sse_all (concat (map sse_lines evs)) = evs"
  using assms
proof (induction evs)
  case Nil
  then show ?case by (subst sse_all.simps) simp
next
  case (Cons e evs)
  obtain t d where e: "e = (t, d)" by fastforce
  have nx: "sse_next '''' '''' (sse_lines (t, d) @ concat (map sse_lines evs)) = (Some (t, d), concat (map sse_lines evs))"
    by (rule sse_next_event) (use Cons.prems in \<open>simp_all add: e\<close>)
  obtain line rest where split: "sse_lines (t, d) @ concat (map sse_lines evs) = line # rest"
    by (simp add: sse_lines_def)
  show ?case using sse_all_step [OF nx [unfolded split]] Cons by (simp add: e split [symmetric])
qed

lemma sse_round_trip_witness:
  "sse_all (concat (map sse_lines [(''ping'', ''{}''), (''message_stop'', ''{}'')])) = [(''ping'', ''{}''), (''message_stop'', ''{}'')]"
  by (rule sse_round_trip) code_simp

end
