(* ===== verification/Anthropic_Client.thy ===== *)
theory Anthropic_Client
  imports Provider_Client
begin

text \<open>
  pkg/provider/anthropic.go: the client of the Anthropic API.
\<close>

section \<open>The client\<close>

definition new_anthropic :: "timestamp \<Rightarrow> provider_config \<Rightarrow> llm_client result" where
  "new_anthropic now cfg =
     (if pc_key cfg = '''' then Inl (new_error ErrAuthenticationFailed)
      else Inr \<lparr>cl_config = client_config anthropic_url cfg, cl_status = PsAvailable, cl_closed = False,
             cl_account = new_token_account now prov_anthropic ''''\<rparr>)"

definition an_name :: "llm_client \<Rightarrow> string" where
  "an_name c = configured_name ''Anthropic'' c"

definition an_available :: "llm_client \<Rightarrow> bool" where
  "an_available c = ps_available (cl_status c)"

definition an_supports :: "llm_client \<Rightarrow> model \<Rightarrow> bool" where
  "an_supports c m \<longleftrightarrow> (\<exists>x \<in> set (pc_models (cl_config c)). x = m) \<or> is_anthropic_model m"

definition an_capabilities :: model_capabilities where
  "an_capabilities = \<lparr>mc_streaming = True, mc_functions = True, mc_vision = True, mc_caching = True, mc_json = False,
     mc_system = True, mc_temperature = True, mc_top_p = True, mc_top_k = True, mc_max_tokens = True, mc_stop = True\<rparr>"

text \<open>The table of known models is a parameter; what is not in it gets the values below.\<close>

definition an_model_info :: "(model, model_info) gomap \<Rightarrow> llm_client \<Rightarrow> model \<Rightarrow> model_info result" where
  "an_model_info known c m =
     (if \<not> an_supports c m then Inl (new_error ErrModelNotSupported)
      else case mget known m of
        None \<Rightarrow> Inr \<lparr>mi_id = m, mi_provider = prov_anthropic, mi_name = m, mi_context = 200000, mi_capabilities = an_capabilities\<rparr>
      | Some info \<Rightarrow> Inr info)"

definition an_list_models :: "llm_client \<Rightarrow> model list" where
  "an_list_models c = (if length (pc_models (cl_config c)) > 0 then pc_models (cl_config c) else anthropic_models)"

definition an_close :: "llm_client \<Rightarrow> llm_client" where
  "an_close c = (if cl_closed c then c else c\<lparr>cl_closed := True, cl_status := PsUnavailable\<rparr>)"

definition an_validate :: "llm_client \<Rightarrow> completion_request option \<Rightarrow> go_error option" where
  "an_validate c req =
     (case req of None \<Rightarrow> Some (new_error ErrInvalidRequest)
      | Some r \<Rightarrow>
          if cq_model r = '''' then Some (new_error ErrInvalidRequest)
          else if \<not> an_supports c (cq_model r) then Some (new_error ErrModelNotSupported)
          else if length (cq_messages r) = 0 then Some (new_error ErrInvalidRequest)
          else if cq_max_tokens r \<le> 0 then Some (new_error ErrInvalidRequest)
          else None)"

section \<open>Requests\<close>

record an_block =
  ab_type :: string
  ab_text :: string
  ab_source :: "image_source option"

datatype an_content = AnText string | AnBlocks "an_block list"

record an_message =
  am_role :: string
  am_content :: an_content

record an_request =
  aq_model :: string
  aq_max_tokens :: int
  aq_messages :: "an_message list"
  aq_system :: string
  aq_temperature :: "go_float option"
  aq_top_p :: "go_float option"
  aq_top_k :: "int option"
  aq_stop :: "string list"
  aq_stream :: bool

definition an_convert_block :: "codec \<Rightarrow> content_block \<Rightarrow> an_block result" where
  "an_convert_block cd b =
     (let ab = \<lparr>ab_type = cb_type b, ab_text = '''', ab_source = None\<rparr>
      in if cb_type b = ''text'' then Inr (ab\<lparr>ab_text := cb_text b\<rparr>)
         else if cb_type b = ''image'' then
           (case cb_source b of None \<Rightarrow> Inl (PlainErr ''image content block missing source'')
            | Some src \<Rightarrow> Inr (ab\<lparr>ab_source := Some src\<rparr>))
         else (case enc_block cd b of Inl e \<Rightarrow> Inl e | Inr s \<Rightarrow> Inr (ab\<lparr>ab_text := s\<rparr>)))"

definition an_convert_message :: "codec \<Rightarrow> llm_message \<Rightarrow> an_message result" where
  "an_convert_message cd m =
     (case lm_content m of
        TextContent s \<Rightarrow> Inr \<lparr>am_role = role_text (lm_role m), am_content = AnText s\<rparr>
      | BlockContent bs \<Rightarrow>
          (case map_result (an_convert_block cd) bs of Inl e \<Rightarrow> Inl e
           | Inr blocks \<Rightarrow> Inr \<lparr>am_role = role_text (lm_role m), am_content = AnBlocks blocks\<rparr>)
      | OtherContent v \<Rightarrow>
          (case enc_content cd (lm_content m) of Inl e \<Rightarrow> Inl e
           | Inr s \<Rightarrow> Inr \<lparr>am_role = role_text (lm_role m), am_content = AnText s\<rparr>))"

text \<open>The loop over the messages: a system message is kept apart, the last one wins.\<close>

fun an_convert_messages :: "codec \<Rightarrow> llm_message list \<Rightarrow> string \<times> an_message list \<Rightarrow> (string \<times> an_message list) result" where
  "an_convert_messages cd [] (sys, ams) = Inr (sys, ams)"
| "an_convert_messages cd (m # ms) (sys, ams) =
     (if lm_role m = RoleSystem then
        (case lm_content m of
           TextContent s \<Rightarrow> an_convert_messages cd ms (s, ams)
         | _ \<Rightarrow> (case enc_content cd (lm_content m) of Inl e \<Rightarrow> Inl e | Inr s \<Rightarrow> an_convert_messages cd ms (s, ams)))
      else case an_convert_message cd m of
        Inl e \<Rightarrow> Inl e
      | Inr am \<Rightarrow> an_convert_messages cd ms (sys, ams @ [am]))"

definition an_convert_request :: "codec \<Rightarrow> completion_request \<Rightarrow> an_request result" where
  "an_convert_request cd r =
     (case an_convert_messages cd (cq_messages r) ('''', []) of
        Inl e \<Rightarrow> Inl e
      | Inr (sys, ams) \<Rightarrow> Inr \<lparr>aq_model = cq_model r, aq_max_tokens = cq_max_tokens r, aq_messages = ams, aq_system = sys,
          aq_temperature = cq_temperature r, aq_top_p = cq_top_p r, aq_top_k = cq_top_k r, aq_stop = cq_stop r,
          aq_stream = False\<rparr>)"

section \<open>Responses\<close>

record an_usage =
  au_input :: int
  au_cache_read :: int
  au_cache_creation :: int
  au_output :: int

record an_response =
  ar_id :: string
  ar_content :: "an_block list"
  ar_stop :: string
  ar_usage :: an_usage

definition map_stop_reason :: "string \<Rightarrow> stop_reason" where
  "map_stop_reason r =
     (if r = ''end_turn'' then StopEndTurn
      else if r = ''max_tokens'' then StopMaxTokens
      else if r = ''stop_sequence'' then StopSequence
      else if r = ''tool_use'' then StopToolUse
      else StopEndTurn)"

definition an_token_usage :: "an_usage \<Rightarrow> token_usage" where
  "an_token_usage u =
     (let t = \<lparr>tu_input = au_input u, tu_cache_read = au_cache_read u, tu_cache_write = au_cache_creation u,
               tu_output = au_output u, tu_total = 0\<rparr>
      in t\<lparr>tu_total := usage_total t\<rparr>)"

definition an_convert_response :: "an_response \<Rightarrow> model \<Rightarrow> completion_response" where
  "an_convert_response r m =
     \<lparr>cr_id = ar_id r, cr_model = m, cr_provider = prov_anthropic,
      cr_content = concat (map ab_text (filter (\<lambda>b. ab_type b = ''text'') (ar_content r))),
      cr_stop = map_stop_reason (ar_stop r), cr_usage = an_token_usage (ar_usage r)\<rparr>"

text \<open>\<open>errbody\<close> decodes the body of an error reply.\<close>

definition an_handle_error :: "(string \<Rightarrow> go_error option) \<Rightarrow> int \<Rightarrow> string \<Rightarrow> llm_client \<Rightarrow> go_error \<times> llm_client" where
  "an_handle_error errbody code body c =
     (case errbody body of
        Some e \<Rightarrow> (wrap_error ErrInvalidResponse e, update_status PsError c)
      | None \<Rightarrow> (new_error (error_code_of_status code), update_status (status_after_error code (cl_status c)) c))"

text \<open>The checks and the conversion both ways of completing begin with.\<close>

definition an_prepare :: "codec \<Rightarrow> completion_request option \<Rightarrow> llm_client \<Rightarrow> an_request result" where
  "an_prepare cd req c =
     (if cl_closed c then Inl (new_error ErrProviderNotAvailable)
      else if \<not> an_available c then Inl (new_error ErrProviderNotAvailable)
      else case an_validate c req of
        Some e \<Rightarrow> Inl e
      | None \<Rightarrow> (case an_convert_request cd (the req) of Inl e \<Rightarrow> Inl (wrap_error ErrInvalidRequest e) | Inr r \<Rightarrow> Inr r))"

definition an_complete ::
    "codec \<Rightarrow> (string \<Rightarrow> go_error option) \<Rightarrow> (string \<Rightarrow> an_response result) \<Rightarrow> timestamp \<Rightarrow> exchange \<Rightarrow>
     completion_request option \<Rightarrow> llm_client \<Rightarrow> completion_response result \<times> llm_client" where
  "an_complete cd errbody decode now x req c =
     (case an_prepare cd req c of
        Inl e \<Rightarrow> (Inl e, c)
      | Inr r \<Rightarrow>
          (case x of
             EncodeFailed e \<Rightarrow> (Inl (wrap_error ErrInvalidRequest e), c)
           | RequestFailed e \<Rightarrow> (Inl (wrap_error ErrProviderNotAvailable e), c)
           | SendFailed e \<Rightarrow> (Inl (wrap_error ErrUpstreamError e), update_status PsError c)
           | ReadFailed e \<Rightarrow> (Inl (wrap_error ErrInvalidResponse e), c)
           | Replied code body \<Rightarrow>
               if code \<noteq> http_ok then (case an_handle_error errbody code body c of (e, c') \<Rightarrow> (Inl e, c'))
               else case decode body of
                 Inl e \<Rightarrow> (Inl (wrap_error ErrInvalidResponse e), c)
               | Inr resp \<Rightarrow>
                   let completion = an_convert_response resp (cq_model (the req));
                       c1 = update_status PsAvailable c
                   in (Inr completion,
                       c1\<lparr>cl_account := account_record now (cr_id completion) (cq_model (the req)) (cr_usage completion) None
                            (cl_account c1)\<rparr>)))"

section \<open>Streams\<close>

text \<open>A decoded event; a part the code checks for nil is an option.\<close>

record an_event =
  ae_type :: string
  ae_message_id :: "string option"
  ae_text :: "string option"
  ae_delta :: "(string option \<times> an_usage option) option"
  ae_error :: bool

datatype an_stream_result = StreamGoes "completion_chunk list" stream_state llm_client
  | StreamErr go_error stream_state llm_client | StreamPanic

text \<open>
  One event of the stream.  The log line for the last message reads the usage of the chunk,
  which is nil when the event carries none.
\<close>

definition an_stream_event :: "timestamp \<Rightarrow> model \<Rightarrow> an_event \<Rightarrow> stream_state \<Rightarrow> llm_client \<Rightarrow> an_stream_result" where
  "an_stream_event now m ev st c =
     (if ae_type ev = ''message_start'' then
        StreamGoes [] (case ae_message_id ev of Some i \<Rightarrow> st\<lparr>ss_id := i\<rparr> | None \<Rightarrow> st) c
      else if ae_type ev = ''content_block_delta'' then
        (case ae_text ev of
           None \<Rightarrow> StreamGoes [] st c
         | Some delta \<Rightarrow>
             let st1 = st\<lparr>ss_content := ss_content st @ delta\<rparr>
             in StreamGoes [(empty_chunk prov_anthropic m)\<lparr>ck_id := ss_id st, ck_delta := delta, ck_content := ss_content st1\<rparr>] st1 c)
      else if ae_type ev = ''message_delta'' then
        (case ae_delta ev of
           None \<Rightarrow> StreamGoes [] st c
         | Some (reason, usage) \<Rightarrow>
             (case usage of
                None \<Rightarrow> StreamPanic
              | Some u \<Rightarrow>
                  StreamGoes
                    [(empty_chunk prov_anthropic m)\<lparr>ck_id := ss_id st, ck_content := ss_content st, ck_done := True,
                       ck_stop := (case reason of Some r \<Rightarrow> if r \<noteq> '''' then Some (map_stop_reason r) else None | None \<Rightarrow> None),
                       ck_usage := Some (an_token_usage u)\<rparr>]
                    st (c\<lparr>cl_account := account_record now (ss_id st) m (an_token_usage u) None (cl_account c)\<rparr>)))
      else if ae_type ev = ''error'' then StreamErr (new_error ErrUpstreamError) st c
      else StreamGoes [] st c)"

text \<open>The loop; \<open>None\<close> is a panic of the goroutine.  The chunks are those sent before.\<close>

fun an_stream ::
    "timestamp \<Rightarrow> model \<Rightarrow> an_event stream_read list \<Rightarrow> stream_state \<Rightarrow> llm_client \<Rightarrow> completion_chunk list \<times> llm_client option" where
  "an_stream now m [] st c = ([], Some c)"
| "an_stream now m (StreamCanceled e # rs) st c = ([(empty_chunk prov_anthropic m)\<lparr>ck_error := Some e\<rparr>], Some c)"
| "an_stream now m (StreamEnd # rs) st c = ([], Some c)"
| "an_stream now m (StreamFailed e # rs) st c =
     ([(empty_chunk prov_anthropic m)\<lparr>ck_error := Some (wrap_error ErrStreamError e)\<rparr>], Some (update_status PsError c))"
| "an_stream now m (StreamEvent ev # rs) st c =
     (case an_stream_event now m ev st c of
        StreamPanic \<Rightarrow> ([], None)
      | StreamErr e st' c' \<Rightarrow> ([(empty_chunk prov_anthropic m)\<lparr>ck_error := Some e\<rparr>], Some (update_status PsError c'))
      | StreamGoes cks st' c' \<Rightarrow> (case an_stream now m rs st' c' of (later, r) \<Rightarrow> (cks @ later, r)))"

definition an_process_stream ::
    "timestamp \<Rightarrow> model \<Rightarrow> an_event stream_read list \<Rightarrow> llm_client \<Rightarrow> completion_chunk list \<times> llm_client option" where
  "an_process_stream now m rs c = an_stream now m rs stream_start (update_status PsAvailable c)"

text \<open>\<open>CompleteStream\<close> up to the start of the goroutine; its errors leave the status alone.  A reply with status
  OK is not read here: \<open>ReadFailed\<close> stands for one whose body fails while it is streamed.\<close>

definition an_complete_stream ::
    "codec \<Rightarrow> (string \<Rightarrow> go_error option) \<Rightarrow> exchange \<Rightarrow> completion_request option \<Rightarrow> llm_client \<Rightarrow>
     an_request result \<times> llm_client" where
  "an_complete_stream cd errbody x req c =
     (case an_prepare cd req c of
        Inl e \<Rightarrow> (Inl e, c)
      | Inr r0 \<Rightarrow>
          let r = r0\<lparr>aq_stream := True\<rparr>
          in case x of
             EncodeFailed e \<Rightarrow> (Inl (wrap_error ErrInvalidRequest e), c)
           | RequestFailed e \<Rightarrow> (Inl (wrap_error ErrProviderNotAvailable e), c)
           | SendFailed e \<Rightarrow> (Inl (wrap_error ErrUpstreamError e), update_status PsError c)
           | ReadFailed e \<Rightarrow> (Inr r, c)
           | Replied code body \<Rightarrow>
               if code \<noteq> http_ok then
                 (case errbody body of
                    None \<Rightarrow> (Inl (new_error (error_code_of_status code)), c)
                  | Some e \<Rightarrow> (Inl (new_error ErrUpstreamError), c))
               else (Inr r, c))"

section \<open>What holds\<close>

lemma an_validate_None:
  "an_validate c (Some r) = None \<longleftrightarrow>
     cq_model r \<noteq> '''' \<and> an_supports c (cq_model r) \<and> cq_messages r \<noteq> [] \<and> 0 < cq_max_tokens r"
  by (auto simp: an_validate_def)

text \<open>The calls of a client, with the outcome of the exchange each makes.\<close>

datatype an_op =
    AnComplete timestamp exchange "completion_request option"
  | AnStream timestamp exchange "completion_request option" "an_event stream_read list"
  | AnClose

fun an_exec ::
    "codec \<Rightarrow> (string \<Rightarrow> go_error option) \<Rightarrow> (string \<Rightarrow> an_response result) \<Rightarrow> llm_client \<Rightarrow> an_op \<Rightarrow> llm_client" where
  "an_exec cd errbody decode c (AnComplete now x req) = snd (an_complete cd errbody decode now x req c)"
| "an_exec cd errbody decode c (AnStream now x req rs) =
     (case an_complete_stream cd errbody x req c of
        (Inl e, c') \<Rightarrow> c'
      | (Inr r, c') \<Rightarrow> (case an_process_stream now (aq_model r) rs c' of (_, Some c'') \<Rightarrow> c'' | (_, None) \<Rightarrow> c'))"
| "an_exec cd errbody decode c AnClose = an_close c"

lemma an_prepare_unavailable: "\<not> an_available c \<Longrightarrow> an_prepare cd req c = Inl (new_error ErrProviderNotAvailable)"
  by (simp add: an_prepare_def)

lemma an_close_unavailable: "\<not> an_available c \<Longrightarrow> \<not> an_available (an_close c)"
  by (simp add: an_close_def an_available_def)

lemma an_exec_unavailable: "\<not> an_available c \<Longrightarrow> \<not> an_available (an_exec cd errbody decode c x)"
  by (cases x) (simp_all add: an_complete_def an_complete_stream_def an_prepare_unavailable an_close_unavailable)

interpretation an_down: machine "an_exec cd errbody decode" "\<lambda>c. \<not> an_available c" for cd errbody decode
  by unfold_locales (rule an_exec_unavailable)

lemma an_complete_error_status:
  assumes "an_prepare cd req c = Inr r" and "code \<notin> {200, 400, 413, 429}"
  shows "\<not> an_available (snd (an_complete cd errbody decode now (Replied code body) req c))"
  using assms
  by (auto simp: an_complete_def http_ok_def an_handle_error_def status_after_error_def update_status_def an_available_def
      split: option.split)

text \<open>
  One reply with an unexpected status, an internal error of the server among them, ends the use of
  the client: every later completion is refused as unavailable without being sent, whatever calls come
  between.
\<close>

lemma server_error_disables_client:
  assumes "an_prepare cd req c = Inr r" and "code \<notin> {200, 400, 413, 429}"
  shows "fst (an_complete cd errbody decode now' x' req'
      (foldl (an_exec cd errbody decode) (snd (an_complete cd errbody decode now (Replied code body) req c)) ops))
    = Inl (new_error ErrProviderNotAvailable)"
proof -
  have "\<not> an_available (foldl (an_exec cd errbody decode) (snd (an_complete cd errbody decode now (Replied code body) req c)) ops)"
    by (rule an_down.run_good [OF an_complete_error_status [OF assms]])
  from an_prepare_unavailable [OF this] show ?thesis by (simp add: an_complete_def)
qed

definition sample_codec :: codec where
  "sample_codec = \<lparr>enc_content = (\<lambda>_. Inr ''{}''), enc_block = (\<lambda>_. Inr ''{}'')\<rparr>"

definition sample_request :: completion_request where
  "sample_request = \<lparr>cq_model = ''claude-3-opus-20240229'',
     cq_messages = [\<lparr>lm_role = RoleUser, lm_content = TextContent ''hello''\<rparr>], cq_max_tokens = 10, cq_temperature = None,
     cq_top_p = None, cq_top_k = None, cq_stop = [], cq_stream = False, cq_metadata = []\<rparr>"

definition sample_client :: llm_client where
  "sample_client = \<lparr>cl_config = default_anthropic_config\<lparr>pc_key := ''k''\<rparr>, cl_status = PsAvailable, cl_closed = False,
     cl_account = new_token_account 0 prov_anthropic ''''\<rparr>"

lemma server_error_disables_client_witness:
  "fst (an_complete sample_codec (\<lambda>_. None) (\<lambda>_. Inl (PlainErr '''')) 9 (Replied 200 ''ok'') (Some sample_request)
      (snd (an_complete sample_codec (\<lambda>_. None) (\<lambda>_. Inl (PlainErr '''')) 5 (Replied 503 ''busy'') (Some sample_request) sample_client)))
    = Inl (new_error ErrProviderNotAvailable)"
proof -
  have "an_prepare sample_codec (Some sample_request) sample_client =
    Inr \<lparr>aq_model = ''claude-3-opus-20240229'', aq_max_tokens = 10,
      aq_messages = [\<lparr>am_role = ''user'', am_content = AnText ''hello''\<rparr>], aq_system = [], aq_temperature = None, aq_top_p = None,
      aq_top_k = None, aq_stop = [], aq_stream = False\<rparr>"
    by code_simp
  from server_error_disables_client [OF this, where code = 503 and ops = "[]"] show ?thesis by simp
qed

text \<open>The content of each chunk without error is \<open>s\<close> and the text of the deltas up to it.\<close>

definition chunks_accumulate :: "string \<Rightarrow> completion_chunk list \<Rightarrow> bool" where
  "chunks_accumulate s cks \<longleftrightarrow>
     (\<forall>i < length cks. ck_error (cks ! i) = None \<longrightarrow> ck_content (cks ! i) = s @ concat (map ck_delta (take (Suc i) cks)))"

lemma chunks_accumulate_Nil [simp]: "chunks_accumulate s []"
  by (simp add: chunks_accumulate_def)

lemma chunks_accumulate_Cons:
  "chunks_accumulate s (ck # cks) \<longleftrightarrow>
     (ck_error ck = None \<longrightarrow> ck_content ck = s @ ck_delta ck) \<and> chunks_accumulate (s @ ck_delta ck) cks"
  unfolding chunks_accumulate_def by (auto simp: less_Suc_eq_0_disj nth_Cons split: nat.splits)

lemma chunks_accumulate_append:
  "chunks_accumulate s (xs @ ys) \<longleftrightarrow> chunks_accumulate s xs \<and> chunks_accumulate (s @ concat (map ck_delta xs)) ys"
  by (induction xs arbitrary: s) (auto simp: chunks_accumulate_Cons)

lemma an_stream_event_accumulates:
  "an_stream_event now m ev st c = StreamGoes cks st' c' \<Longrightarrow>
   chunks_accumulate (ss_content st) cks \<and> ss_content st' = ss_content st @ concat (map ck_delta cks)"
  by (auto simp: an_stream_event_def empty_chunk_def chunks_accumulate_Cons Let_def split: if_splits option.splits prod.splits)

lemma an_stream_accumulates: "chunks_accumulate (ss_content st) (fst (an_stream now m rs st c))"
proof (induction now m rs st c rule: an_stream.induct)
  case (5 now m ev rs st c)
  show ?case
  proof (cases "an_stream_event now m ev st c")
    case (StreamGoes cks st' c')
    then show ?thesis using 5 an_stream_event_accumulates [OF StreamGoes]
      by (simp add: chunks_accumulate_append case_prod_unfold)
  qed (simp_all add: chunks_accumulate_Cons)
qed (simp_all add: chunks_accumulate_Cons)

text \<open>
  In every sequence of chunks of a stream the content of each chunk without an error is the text
  of all the deltas sent up to it, so a reader can use either.
\<close>

lemma stream_content_accumulates:
  assumes "cks = fst (an_process_stream now m rs c)" and "i < length cks" and "ck_error (cks ! i) = None"
  shows "ck_content (cks ! i) = concat (map ck_delta (take (Suc i) cks))"
  using an_stream_accumulates [of stream_start now m rs "update_status PsAvailable c"] assms
  by (simp add: an_process_stream_def chunks_accumulate_def stream_start_def)

definition text_event :: "string \<Rightarrow> an_event" where
  "text_event s = \<lparr>ae_type = ''content_block_delta'', ae_message_id = None, ae_text = Some s, ae_delta = None, ae_error = False\<rparr>"

lemma stream_content_accumulates_witness:
  "ck_content (fst (an_process_stream 3 ''m'' [StreamEvent (text_event ''Hel''), StreamEvent (text_event ''lo''), StreamEnd] sample_client) ! 1)
    = ''Hello''"
proof -
  let ?cks = "fst (an_process_stream 3 ''m'' [StreamEvent (text_event ''Hel''), StreamEvent (text_event ''lo''), StreamEnd] sample_client)"
  have cks: "length ?cks = 2" "ck_error (?cks ! 1) = None" "map ck_delta ?cks = [''Hel'', ''lo'']"
    by (simp_all add: an_process_stream_def an_stream_event_def text_event_def empty_chunk_def Let_def)
  have "ck_content (?cks ! 1) = concat (map ck_delta (take (Suc 1) ?cks))"
    using stream_content_accumulates [OF refl _ cks(2)] cks(1) by simp
  then show ?thesis using cks(1,3) by (simp add: take_map [symmetric])
qed

text \<open>
  The goroutine that reads a stream panics, and takes the program down with it, when the server's
  last message carries no usage; what it sent before is the text up to there.
\<close>

lemma stream_panics_without_usage:
  assumes "ae_type ev = ''message_delta''" and "ae_delta ev = Some (reason, None)"
  shows "an_process_stream now m (map (StreamEvent \<circ> text_event) ss @ StreamEvent ev # rs) c =
     (fst (an_process_stream now m (map (StreamEvent \<circ> text_event) ss) c), None)"
proof -
  have "an_stream now m (map (StreamEvent \<circ> text_event) ss @ StreamEvent ev # rs) st c =
      (fst (an_stream now m (map (StreamEvent \<circ> text_event) ss) st c), None)" for st c
  proof (induction ss arbitrary: st)
    case Nil
    then show ?case using assms by (simp add: an_stream_event_def)
  next
    case (Cons s ss)
    then show ?case by (simp add: an_stream_event_def text_event_def Let_def case_prod_unfold)
  qed
  then show ?thesis by (simp add: an_process_stream_def)
qed

lemma stream_panics_without_usage_witness:
  "snd (an_process_stream 3 ''m'' (map (StreamEvent \<circ> text_event) [''a''] @
     StreamEvent \<lparr>ae_type = ''message_delta'', ae_message_id = None, ae_text = None, ae_delta = Some (None, None), ae_error = False\<rparr> # [])
     sample_client) = None"
  by (subst stream_panics_without_usage) simp_all

lemma an_convert_messages_text:
  assumes "\<forall>m \<in> set ms. \<exists>s. lm_content m = TextContent s"
  shows "an_convert_messages cd ms (sys, ams) =
    Inr (last (sys # map (\<lambda>m. case lm_content m of TextContent s \<Rightarrow> s) (filter (\<lambda>m. lm_role m = RoleSystem) ms)),
      ams @ map (\<lambda>m. \<lparr>am_role = role_text (lm_role m), am_content = AnText (case lm_content m of TextContent s \<Rightarrow> s)\<rparr>)
        (filter (\<lambda>m. lm_role m \<noteq> RoleSystem) ms))"
  using assms
proof (induction ms arbitrary: sys ams)
  case (Cons m ms)
  then obtain s where "lm_content m = TextContent s" by auto
  then show ?case using Cons by (simp add: an_convert_message_def)
qed simp

text \<open>
  Of several system messages only the last reaches the API; the other messages all do, in order.
\<close>

lemma only_last_system_message_sent:
  assumes "\<forall>m \<in> set (cq_messages r). \<exists>s. lm_content m = TextContent s"
  shows "\<exists>q. an_convert_request cd r = Inr q
    \<and> aq_system q = last ([] # map (\<lambda>m. case lm_content m of TextContent s \<Rightarrow> s) (filter (\<lambda>m. lm_role m = RoleSystem) (cq_messages r)))
    \<and> map am_role (aq_messages q) = map (role_text \<circ> lm_role) (filter (\<lambda>m. lm_role m \<noteq> RoleSystem) (cq_messages r))"
  using an_convert_messages_text [OF assms] by (simp add: an_convert_request_def o_def)

lemma only_last_system_message_sent_witness:
  "\<exists>q. an_convert_request sample_codec (sample_request\<lparr>cq_messages :=
       [\<lparr>lm_role = RoleSystem, lm_content = TextContent ''a''\<rparr>, \<lparr>lm_role = RoleSystem, lm_content = TextContent ''b''\<rparr>]\<rparr>) = Inr q
     \<and> aq_system q = ''b''"
  using only_last_system_message_sent [of "sample_request\<lparr>cq_messages :=
       [\<lparr>lm_role = RoleSystem, lm_content = TextContent ''a''\<rparr>, \<lparr>lm_role = RoleSystem, lm_content = TextContent ''b''\<rparr>]\<rparr>" sample_codec]
  by auto

end
