(* ===== verification/Openai_Client.thy ===== *)
theory Openai_Client
  imports Anthropic_Client
begin

text \<open>
  pkg/provider/openai.go: the client of the OpenAI API.
\<close>

section \<open>The client\<close>

definition new_openai :: "timestamp \<Rightarrow> provider_config \<Rightarrow> llm_client result" where
  "new_openai now cfg =
     (if pc_key cfg = '''' then Inl (new_error ErrAuthenticationFailed)
      else Inr \<lparr>cl_config = client_config openai_url cfg, cl_status = PsAvailable, cl_closed = False,
             cl_account = new_token_account now prov_openai ''''\<rparr>)"

definition oa_name :: "llm_client \<Rightarrow> string" where
  "oa_name c = configured_name ''OpenAI'' c"

definition oa_available :: "llm_client \<Rightarrow> bool" where
  "oa_available c = ps_available (cl_status c)"

definition oa_supports :: "llm_client \<Rightarrow> model \<Rightarrow> bool" where
  "oa_supports c m \<longleftrightarrow> (\<exists>x \<in> set (pc_models (cl_config c)). x = m) \<or> is_openai_model m"

definition oa_capabilities :: model_capabilities where
  "oa_capabilities = \<lparr>mc_streaming = True, mc_functions = True, mc_vision = True, mc_caching = False, mc_json = True,
     mc_system = True, mc_temperature = True, mc_top_p = True, mc_top_k = False, mc_max_tokens = True, mc_stop = True\<rparr>"

definition oa_model_info :: "(model, model_info) gomap \<Rightarrow> llm_client \<Rightarrow> model \<Rightarrow> model_info result" where
  "oa_model_info known c m =
     (if \<not> oa_supports c m then Inl (new_error ErrModelNotSupported)
      else case mget known m of
        None \<Rightarrow> Inr \<lparr>mi_id = m, mi_provider = prov_openai, mi_name = m, mi_context = 128000, mi_capabilities = oa_capabilities\<rparr>
      | Some info \<Rightarrow> Inr info)"

definition oa_list_models :: "llm_client \<Rightarrow> model list" where
  "oa_list_models c = (if length (pc_models (cl_config c)) > 0 then pc_models (cl_config c) else openai_models)"

definition oa_close :: "llm_client \<Rightarrow> llm_client" where
  "oa_close c = (if cl_closed c then c else c\<lparr>cl_closed := True, cl_status := PsUnavailable\<rparr>)"

definition oa_validate :: "llm_client \<Rightarrow> completion_request option \<Rightarrow> go_error option" where
  "oa_validate c req =
     (case req of None \<Rightarrow> Some (new_error ErrInvalidRequest)
      | Some r \<Rightarrow>
          if cq_model r = '''' then Some (new_error ErrInvalidRequest)
          else if \<not> oa_supports c (cq_model r) then Some (new_error ErrModelNotSupported)
          else if length (cq_messages r) = 0 then Some (new_error ErrInvalidRequest)
          else if cq_max_tokens r \<le> 0 then Some (new_error ErrInvalidRequest)
          else None)"

section \<open>Requests\<close>

datatype oa_block = OaText string | OaImage string | OaEncoded string

datatype oa_content = OaString string | OaBlocks "oa_block list"

record oa_message =
  om_role :: string
  om_content :: oa_content

datatype oa_stop = OaNoStop | OaOneStop string | OaStops "string list"

record oa_request =
  oq_model :: string
  oq_messages :: "oa_message list"
  oq_max_tokens :: int
  oq_temperature :: "go_float option"
  oq_top_p :: "go_float option"
  oq_stop :: oa_stop
  oq_stream :: bool

definition image_url :: "image_source \<Rightarrow> string" where
  "image_url src = im_type src @ '':'' @ im_media src @ '';base64,'' @ im_data src"

definition oa_convert_block :: "codec \<Rightarrow> content_block \<Rightarrow> oa_block result" where
  "oa_convert_block cd b =
     (if cb_type b = ''text'' then Inr (OaText (cb_text b))
      else if cb_type b = ''image'' then
        (case cb_source b of None \<Rightarrow> Inl (PlainErr ''image content block missing source'')
         | Some src \<Rightarrow> Inr (OaImage (image_url src)))
      else (case enc_block cd b of Inl e \<Rightarrow> Inl e | Inr s \<Rightarrow> Inr (OaEncoded s)))"

definition oa_convert_message :: "codec \<Rightarrow> llm_message \<Rightarrow> oa_message result" where
  "oa_convert_message cd m =
     (case lm_content m of
        TextContent s \<Rightarrow> Inr \<lparr>om_role = role_text (lm_role m), om_content = OaString s\<rparr>
      | BlockContent bs \<Rightarrow>
          (case map_result (oa_convert_block cd) bs of Inl e \<Rightarrow> Inl e
           | Inr blocks \<Rightarrow> Inr \<lparr>om_role = role_text (lm_role m), om_content = OaBlocks blocks\<rparr>)
      | OtherContent v \<Rightarrow>
          (case enc_content cd (lm_content m) of Inl e \<Rightarrow> Inl e
           | Inr s \<Rightarrow> Inr \<lparr>om_role = role_text (lm_role m), om_content = OaString s\<rparr>))"

definition oa_convert_request :: "codec \<Rightarrow> completion_request \<Rightarrow> oa_request result" where
  "oa_convert_request cd r =
     (case map_result (oa_convert_message cd) (cq_messages r) of
        Inl e \<Rightarrow> Inl e
      | Inr oms \<Rightarrow> Inr \<lparr>oq_model = cq_model r, oq_messages = oms,
          oq_max_tokens = (if cq_max_tokens r > 0 then cq_max_tokens r else 0),
          oq_temperature = cq_temperature r, oq_top_p = cq_top_p r,
          oq_stop = (case cq_stop r of [] \<Rightarrow> OaNoStop | [s] \<Rightarrow> OaOneStop s | ss \<Rightarrow> OaStops ss),
          oq_stream = False\<rparr>)"

section \<open>Responses\<close>

record oa_usage =
  ou_prompt :: int
  ou_completion :: int
  ou_total :: int

text \<open>The content of a choice as text: a string itself, anything else as it is printed.\<close>

record oa_response =
  or_id :: string
  or_choices :: "(string \<times> string option) list"
  or_usage :: oa_usage

definition oa_stop_reason :: "string \<Rightarrow> stop_reason" where
  "oa_stop_reason r =
     (if r = ''stop'' then StopEndTurn
      else if r = ''length'' then StopMaxTokens
      else if r = ''content_filter'' then StopSequence
      else if r = ''tool_calls'' then StopToolUse
      else StopEndTurn)"

definition oa_token_usage :: "oa_usage \<Rightarrow> token_usage" where
  "oa_token_usage u =
     (let t = \<lparr>tu_input = ou_prompt u, tu_cache_read = 0, tu_cache_write = 0, tu_output = ou_completion u, tu_total = ou_total u\<rparr>
      in t\<lparr>tu_total := usage_total t\<rparr>)"

definition oa_convert_response :: "oa_response \<Rightarrow> model \<Rightarrow> completion_response" where
  "oa_convert_response r m =
     \<lparr>cr_id = or_id r, cr_model = m, cr_provider = prov_openai,
      cr_content = (case or_choices r of [] \<Rightarrow> '''' | (s, _) # _ \<Rightarrow> s),
      cr_stop = (case or_choices r of (_, Some reason) # _ \<Rightarrow> oa_stop_reason reason | _ \<Rightarrow> StopNone),
      cr_usage = oa_token_usage (or_usage r)\<rparr>"

definition oa_handle_error :: "(string \<Rightarrow> go_error option) \<Rightarrow> int \<Rightarrow> string \<Rightarrow> llm_client \<Rightarrow> go_error \<times> llm_client" where
  "oa_handle_error errbody code body c =
     (case errbody body of
        Some e \<Rightarrow> (wrap_error ErrInvalidResponse e, update_status PsError c)
      | None \<Rightarrow> (new_error (error_code_of_status code), update_status (status_after_error code (cl_status c)) c))"

definition oa_prepare :: "codec \<Rightarrow> completion_request option \<Rightarrow> llm_client \<Rightarrow> oa_request result" where
  "oa_prepare cd req c =
     (if cl_closed c then Inl (new_error ErrProviderNotAvailable)
      else if \<not> oa_available c then Inl (new_error ErrProviderNotAvailable)
      else case oa_validate c req of
        Some e \<Rightarrow> Inl e
      | None \<Rightarrow> (case oa_convert_request cd (the req) of Inl e \<Rightarrow> Inl (wrap_error ErrInvalidRequest e) | Inr r \<Rightarrow> Inr r))"

definition oa_complete ::
    "codec \<Rightarrow> (string \<Rightarrow> go_error option) \<Rightarrow> (string \<Rightarrow> oa_response result) \<Rightarrow> timestamp \<Rightarrow> exchange \<Rightarrow>
     completion_request option \<Rightarrow> llm_client \<Rightarrow> completion_response result \<times> llm_client" where
  "oa_complete cd errbody decode now x req c =
     (case oa_prepare cd req c of
        Inl e \<Rightarrow> (Inl e, c)
      | Inr r \<Rightarrow>
          (case x of
             EncodeFailed e \<Rightarrow> (Inl (wrap_error ErrInvalidRequest e), c)
           | RequestFailed e \<Rightarrow> (Inl (wrap_error ErrProviderNotAvailable e), c)
           | SendFailed e \<Rightarrow> (Inl (wrap_error ErrUpstreamError e), update_status PsError c)
           | ReadFailed e \<Rightarrow> (Inl (wrap_error ErrInvalidResponse e), c)
           | Replied code body \<Rightarrow>
               if code \<noteq> http_ok then (case oa_handle_error errbody code body c of (e, c') \<Rightarrow> (Inl e, c'))
               else case decode body of
                 Inl e \<Rightarrow> (Inl (wrap_error ErrInvalidResponse e), c)
               | Inr resp \<Rightarrow>
                   let completion = oa_convert_response resp (cq_model (the req));
                       c1 = update_status PsAvailable c
                   in (Inr completion,
                       c1\<lparr>cl_account := account_record now (cr_id completion) (cq_model (the req)) (cr_usage completion) None
                            (cl_account c1)\<rparr>)))"

text \<open>
  \<open>errmsg\<close> decodes the message of an error reply; the message is used when it is not empty.
\<close>

definition oa_complete_stream ::
    "codec \<Rightarrow> (string \<Rightarrow> string result) \<Rightarrow> exchange \<Rightarrow> completion_request option \<Rightarrow> llm_client \<Rightarrow> oa_request result \<times> llm_client" where
  "oa_complete_stream cd errmsg x req c =
     (case oa_prepare cd req c of
        Inl e \<Rightarrow> (Inl e, c)
      | Inr r0 \<Rightarrow>
          let r = r0\<lparr>oq_stream := True\<rparr>
          in case x of
             EncodeFailed e \<Rightarrow> (Inl (wrap_error ErrInvalidRequest e), c)
           | RequestFailed e \<Rightarrow> (Inl (wrap_error ErrProviderNotAvailable e), c)
           | SendFailed e \<Rightarrow> (Inl (wrap_error ErrUpstreamError e), update_status PsError c)
           | ReadFailed e \<Rightarrow> (Inr r, c)
           | Replied code body \<Rightarrow>
               if code \<noteq> http_ok then
                 (case errmsg body of
                    Inr msg \<Rightarrow> if msg \<noteq> '''' then (Inl (new_error (error_code_of_status code)), c)
                              else (Inl (new_error ErrUpstreamError), c)
                  | Inl e \<Rightarrow> (Inl (new_error ErrUpstreamError), c))
               else (Inr r, c))"

section \<open>Streams\<close>

text \<open>
  \<open>NextChunk\<close> over the lines that are left: the first line of data, decoded; the marker
  of the end counts as the end.
\<close>

fun oa_next_chunk :: "(string \<Rightarrow> 'e result) \<Rightarrow> string list \<Rightarrow> 'e stream_read \<times> string list" where
  "oa_next_chunk decode [] = (StreamEnd, [])"
| "oa_next_chunk decode (line # rest) =
     (if \<not> has_prefix line ''data: '' then oa_next_chunk decode rest
      else let data = trim_prefix line ''data: ''
        in if data = ''[DONE]'' then (StreamEnd, rest)
           else case decode data of Inl e \<Rightarrow> (StreamFailed e, rest) | Inr ck \<Rightarrow> (StreamEvent ck, rest))"

text \<open>A chunk: its identifier and the text and finish reason of its first choice, if it has one.\<close>

record oa_event =
  oe_id :: string
  oe_choice :: "(string \<times> string option) option"

definition oa_stream_event :: "model \<Rightarrow> oa_event \<Rightarrow> stream_state \<Rightarrow> completion_chunk list \<times> stream_state" where
  "oa_stream_event m ev st =
     (let st1 = (if oe_id ev \<noteq> '''' then st\<lparr>ss_id := oe_id ev\<rparr> else st)
      in case oe_choice ev of
           None \<Rightarrow> ([], st1)
         | Some (delta, reason) \<Rightarrow>
             let st2 = (if delta \<noteq> '''' then st1\<lparr>ss_content := ss_content st1 @ delta\<rparr> else st1);
                 text = (if delta \<noteq> '''' then [(empty_chunk prov_openai m)\<lparr>ck_id := ss_id st2, ck_delta := delta,
                            ck_content := ss_content st2\<rparr>] else [])
             in case reason of
                  None \<Rightarrow> (text, st2)
                | Some r \<Rightarrow>
                    (text @ [(empty_chunk prov_openai m)\<lparr>ck_id := ss_id st2, ck_content := ss_content st2, ck_done := True,
                       ck_stop := Some (oa_stop_reason r)\<rparr>], st2\<lparr>ss_finished := True\<rparr>))"

fun oa_stream :: "model \<Rightarrow> oa_event stream_read list \<Rightarrow> stream_state \<Rightarrow> llm_client \<Rightarrow> completion_chunk list \<times> llm_client" where
  "oa_stream m [] st c = ([], c)"
| "oa_stream m (StreamCanceled e # rs) st c =
     ((if \<not> ss_finished st then [(empty_chunk prov_openai m)\<lparr>ck_error := Some e\<rparr>] else []), c)"
| "oa_stream m (StreamEnd # rs) st c = ([], c)"
| "oa_stream m (StreamFailed e # rs) st c =
     (if \<not> ss_finished st then
        ([(empty_chunk prov_openai m)\<lparr>ck_error := Some (wrap_error ErrStreamError e)\<rparr>], update_status PsError c)
      else ([], c))"
| "oa_stream m (StreamEvent ev # rs) st c =
     (if ss_finished st then oa_stream m rs st c
      else case oa_stream_event m ev st of
        (cks, st') \<Rightarrow> (case oa_stream m rs st' c of (later, c') \<Rightarrow> (cks @ later, c')))"

definition oa_process_stream :: "model \<Rightarrow> oa_event stream_read list \<Rightarrow> llm_client \<Rightarrow> completion_chunk list \<times> llm_client" where
  "oa_process_stream m rs c = oa_stream m rs stream_start (update_status PsAvailable c)"

section \<open>What holds\<close>

lemma oa_stream_event_accumulates:
  "chunks_accumulate (ss_content st) (fst (oa_stream_event m ev st))
   \<and> ss_content (snd (oa_stream_event m ev st)) = ss_content st @ concat (map ck_delta (fst (oa_stream_event m ev st)))"
  by (auto simp: oa_stream_event_def empty_chunk_def chunks_accumulate_Cons Let_def split: option.split)

lemma oa_stream_accumulates: "chunks_accumulate (ss_content st) (fst (oa_stream m rs st c))"
proof (induction m rs st c rule: oa_stream.induct)
  case (5 m ev rs st c)
  obtain cks st' where e: "oa_stream_event m ev st = (cks, st')" by fastforce
  have "chunks_accumulate (ss_content st') (fst (oa_stream m rs st' c))" if "\<not> ss_finished st"
    using 5(2) [OF that e [symmetric]] .
  then show ?case using 5(1) oa_stream_event_accumulates [of st m ev]
    by (simp add: e chunks_accumulate_append case_prod_unfold)
qed (simp_all add: chunks_accumulate_Cons)

lemma oa_stream_finished: "ss_finished st \<Longrightarrow> oa_stream m rs st c = ([], c)"
  by (induction m rs st c rule: oa_stream.induct) simp_all

lemma oa_stream_event_done:
  "\<not> ss_finished st \<Longrightarrow> oa_stream_event m ev st = (cks, st') \<Longrightarrow>
   (ss_finished st' \<longrightarrow> (\<exists>xs ck. cks = xs @ [ck] \<and> ck_done ck \<and> list_all (\<lambda>x. \<not> ck_done x) xs))
   \<and> (\<not> ss_finished st' \<longrightarrow> list_all (\<lambda>x. \<not> ck_done x) cks)"
  by (auto simp: oa_stream_event_def empty_chunk_def Let_def split: option.splits if_splits)

text \<open>
  In a stream of the OpenAI client nothing comes after the chunk that is marked done, and the
  content of each chunk without an error is the text of the deltas up to it.
\<close>

lemma openai_stream_shape:
  "chunks_accumulate '''' (fst (oa_process_stream m rs c))
   \<and> list_all (\<lambda>ck. \<not> ck_done ck) (butlast (fst (oa_process_stream m rs c)))"
proof -
  have "list_all (\<lambda>ck. \<not> ck_done ck) (butlast (fst (oa_stream m rs st c)))" if "\<not> ss_finished st" for st c
    using that
  proof (induction m rs st c rule: oa_stream.induct)
    case (5 m ev rs st c)
    obtain cks st' where e: "oa_stream_event m ev st = (cks, st')" by fastforce
    show ?case
    proof (cases "ss_finished st'")
      case True
      then show ?thesis using 5(3) oa_stream_event_done [OF 5(3) e] by (auto simp: e oa_stream_finished)
    next
      case False
      then have "list_all (\<lambda>x. \<not> ck_done x) cks" using oa_stream_event_done [OF 5(3) e] by blast
      then show ?thesis using 5(2) [OF 5(3) e [symmetric] False] 5(3)
        by (auto simp: e case_prod_unfold butlast_append list_all_iff dest: in_set_butlastD)
    qed
  qed auto
  from this [of stream_start] show ?thesis using oa_stream_accumulates [of stream_start m rs]
    by (simp add: oa_process_stream_def stream_start_def)
qed

text \<open>An image given as base64 does not become a data URL.\<close>

lemma image_url_scheme:
  "image_url \<lparr>im_type = ''base64'', im_media = ''image/png'', im_data = ''AAAA''\<rparr> = ''base64:image/png;base64,AAAA''"
  by (simp add: image_url_def)

end
