(* ===== verification/Failover.thy ===== *)
theory Failover
  imports Openai_Client
begin

text \<open>
  pkg/provider/failover.go: circuit breakers, health and the choice of a provider.  The
  manager and its health checker share one map of states until both are closed, and
  then each has an empty map; the model keeps one map.  A call takes its reading of the
  clock as a parameter.
\<close>

section \<open>Providers\<close>

text \<open>The interface \<open>LLMProvider\<close>: one of the clients, or a provider from elsewhere.\<close>

record custom_provider =
  cp_id :: provider
  cp_status :: provider_status
  cp_available :: bool
  cp_models :: "model list"
  cp_close :: "go_error option"

datatype llm_provider = AnthropicProvider llm_client | OpenaiProvider llm_client | CustomProvider custom_provider

fun prov_id :: "llm_provider \<Rightarrow> provider" where
  "prov_id (AnthropicProvider c) = prov_anthropic"
| "prov_id (OpenaiProvider c) = prov_openai"
| "prov_id (CustomProvider p) = cp_id p"

fun prov_status :: "llm_provider \<Rightarrow> provider_status" where
  "prov_status (AnthropicProvider c) = cl_status c"
| "prov_status (OpenaiProvider c) = cl_status c"
| "prov_status (CustomProvider p) = cp_status p"

fun prov_available :: "llm_provider \<Rightarrow> bool" where
  "prov_available (AnthropicProvider c) = an_available c"
| "prov_available (OpenaiProvider c) = oa_available c"
| "prov_available (CustomProvider p) = cp_available p"

fun prov_supports :: "llm_provider \<Rightarrow> model \<Rightarrow> bool" where
  "prov_supports (AnthropicProvider c) m = an_supports c m"
| "prov_supports (OpenaiProvider c) m = oa_supports c m"
| "prov_supports (CustomProvider p) m = (m \<in> set (cp_models p))"

fun prov_close :: "llm_provider \<Rightarrow> go_error option" where
  "prov_close (AnthropicProvider c) = None"
| "prov_close (OpenaiProvider c) = None"
| "prov_close (CustomProvider p) = cp_close p"

fun prov_account :: "llm_provider \<Rightarrow> token_account option" where
  "prov_account (AnthropicProvider c) = Some (cl_account c)"
| "prov_account (OpenaiProvider c) = Some (cl_account c)"
| "prov_account (CustomProvider p) = None"

section \<open>States\<close>

text \<open>A health status is text; \<open>HealthUnset\<close> is the empty one a fresh state has.\<close>

datatype health_status = HealthUnset | HealthUnknown | HealthHealthy | HealthUnhealthy | HealthDegraded

definition hs_healthy :: "health_status \<Rightarrow> bool" where
  "hs_healthy s \<longleftrightarrow> s = HealthHealthy \<or> s = HealthDegraded"

record failover_state =
  fs_failures :: int
  fs_open_until :: timestamp
  fs_last_time :: timestamp
  fs_last_reason :: string
  fs_health :: health_status
  fs_last_check :: timestamp

definition zero_state :: failover_state where
  "zero_state = \<lparr>fs_failures = 0, fs_open_until = 0, fs_last_time = 0, fs_last_reason = '''', fs_health = HealthUnset, fs_last_check = 0\<rparr>"

record failover =
  fo_cfg :: registry_config
  fo_states :: "(provider, failover_state) gomap"
  fo_closed :: bool
  fo_health_closed :: bool

definition new_failover :: "registry_config \<Rightarrow> failover" where
  "new_failover cfg = \<lparr>fo_cfg = cfg, fo_states = [], fo_closed = False, fo_health_closed = False\<rparr>"

text \<open>\<open>getOrCreateState\<close> of the manager and of the health checker differ in the health of a new state.\<close>

definition fo_state :: "provider \<Rightarrow> failover \<Rightarrow> failover_state" where
  "fo_state p fm = (case mget (fo_states fm) p of Some s \<Rightarrow> s | None \<Rightarrow> zero_state)"

definition hc_state :: "provider \<Rightarrow> failover \<Rightarrow> failover_state" where
  "hc_state p fm = (case mget (fo_states fm) p of Some s \<Rightarrow> s | None \<Rightarrow> zero_state\<lparr>fs_health := HealthHealthy\<rparr>)"

section \<open>Health\<close>

definition hc_check :: "provider \<Rightarrow> (provider \<Rightarrow> llm_provider result) \<Rightarrow> failover \<Rightarrow> health_status \<times> go_error option" where
  "hc_check p get fm =
     (if fo_health_closed fm then (HealthUnhealthy, Some (new_error ErrProviderNotAvailable))
      else case get p of
        Inl e \<Rightarrow> (HealthUnhealthy, Some e)
      | Inr prov \<Rightarrow>
          if \<not> prov_available prov then (HealthUnhealthy, None)
          else case mget (fo_states fm) p of None \<Rightarrow> (HealthHealthy, None) | Some s \<Rightarrow> (fs_health s, None))"

definition hc_get_status :: "provider \<Rightarrow> failover \<Rightarrow> health_status" where
  "hc_get_status p fm =
     (if fo_health_closed fm then HealthUnhealthy
      else case mget (fo_states fm) p of None \<Rightarrow> HealthHealthy | Some s \<Rightarrow> fs_health s)"

definition hc_set_status :: "timestamp \<Rightarrow> provider \<Rightarrow> health_status \<Rightarrow> failover \<Rightarrow> failover" where
  "hc_set_status now p st fm =
     (if fo_health_closed fm then fm
      else fm\<lparr>fo_states := mput p ((hc_state p fm)\<lparr>fs_health := st, fs_last_check := now\<rparr>) (fo_states fm)\<rparr>)"

definition hc_is_healthy :: "provider \<Rightarrow> failover \<Rightarrow> bool" where
  "hc_is_healthy p fm \<longleftrightarrow> hs_healthy (hc_get_status p fm)"

definition hc_all_statuses :: "failover \<Rightarrow> (provider, health_status) gomap" where
  "hc_all_statuses fm = map (\<lambda>(p, s). (p, fs_health s)) (fo_states fm)"

section \<open>Circuit breakers\<close>

text \<open>\<open>now\<close> is the time of the failure, \<open>now'\<close> the reading the circuit opens with.\<close>

definition record_failure :: "timestamp \<Rightarrow> timestamp \<Rightarrow> provider \<Rightarrow> string \<Rightarrow> failover \<Rightarrow> failover" where
  "record_failure now now' p reason fm =
     (if \<not> rc_failover (fo_cfg fm) then fm
      else if fo_closed fm then fm
      else
        let s = fo_state p fm;
            s1 = s\<lparr>fs_failures := fs_failures s + 1, fs_last_time := now, fs_last_reason := reason\<rparr>;
            s2 = (if fs_failures s1 \<ge> rc_threshold (fo_cfg fm)
                  then s1\<lparr>fs_open_until := now' + rc_breaker_timeout (fo_cfg fm)\<rparr> else s1)
        in fm\<lparr>fo_states := mput p s2 (fo_states fm)\<rparr>)"

definition record_success :: "provider \<Rightarrow> failover \<Rightarrow> failover" where
  "record_success p fm =
     (if \<not> rc_failover (fo_cfg fm) then fm
      else if fo_closed fm then fm
      else fm\<lparr>fo_states := mput p ((fo_state p fm)\<lparr>fs_failures := 0, fs_open_until := 0, fs_last_reason := ''''\<rparr>) (fo_states fm)\<rparr>)"

definition circuit_blocks :: "timestamp \<Rightarrow> failover_state \<Rightarrow> bool" where
  "circuit_blocks now s \<longleftrightarrow> \<not> ts_is_zero (fs_open_until s) \<and> now < fs_open_until s"

definition provider_available :: "timestamp \<Rightarrow> provider \<Rightarrow> failover \<Rightarrow> bool" where
  "provider_available now p fm =
     (if \<not> rc_failover (fo_cfg fm) then True
      else if fo_closed fm then False
      else case mget (fo_states fm) p of None \<Rightarrow> True | Some s \<Rightarrow> if circuit_blocks now s then False else True)"

definition should_attempt :: "timestamp \<Rightarrow> provider \<Rightarrow> failover \<Rightarrow> bool" where
  "should_attempt now p fm =
     (if \<not> rc_failover (fo_cfg fm) then True
      else if fo_closed fm then False
      else case mget (fo_states fm) p of None \<Rightarrow> True | Some s \<Rightarrow> if circuit_blocks now s then False else True)"

record failover_report =
  fr_provider :: provider
  fr_failures :: int
  fr_open :: bool
  fr_last_time :: "timestamp option"
  fr_last_reason :: string

definition get_provider_state :: "timestamp \<Rightarrow> provider \<Rightarrow> failover \<Rightarrow> failover_report" where
  "get_provider_state now p fm =
     (case mget (fo_states fm) p of
        None \<Rightarrow> \<lparr>fr_provider = p, fr_failures = 0, fr_open = False, fr_last_time = None, fr_last_reason = ''''\<rparr>
      | Some s \<Rightarrow> \<lparr>fr_provider = p, fr_failures = fs_failures s, fr_open = circuit_blocks now s,
          fr_last_time = (if ts_is_zero (fs_last_time s) then None else Some (fs_last_time s)), fr_last_reason = fs_last_reason s\<rparr>)"

definition get_all_states :: "timestamp \<Rightarrow> failover \<Rightarrow> (provider, failover_report) gomap" where
  "get_all_states now fm = map (\<lambda>p. (p, get_provider_state now p fm)) (mkeys (fo_states fm))"

definition fo_reset :: "provider \<Rightarrow> failover \<Rightarrow> failover" where
  "fo_reset p fm =
     (case mget (fo_states fm) p of
        None \<Rightarrow> fm
      | Some s \<Rightarrow> fm\<lparr>fo_states := mput p (s\<lparr>fs_failures := 0, fs_open_until := 0, fs_last_reason := '''',
          fs_health := HealthHealthy, fs_last_check := 0\<rparr>) (fo_states fm)\<rparr>)"

definition fo_reset_all :: "failover \<Rightarrow> failover" where
  "fo_reset_all fm = fm\<lparr>fo_states := mmap (\<lambda>_ _. zero_state\<lparr>fs_health := HealthHealthy\<rparr>) (fo_states fm)\<rparr>"

definition fo_close :: "failover \<Rightarrow> failover" where
  "fo_close fm = (if fo_closed fm then fm else fm\<lparr>fo_health_closed := True, fo_closed := True, fo_states := []\<rparr>)"

definition provider_healthy :: "timestamp \<Rightarrow> provider \<Rightarrow> failover \<Rightarrow> bool" where
  "provider_healthy now p fm = (if \<not> hc_is_healthy p fm then False else provider_available now p fm)"

section \<open>Choosing a provider\<close>

definition provider_priority :: "registry_config \<Rightarrow> provider \<Rightarrow> int" where
  "provider_priority cfg p =
     (case mget (rc_providers cfg) p of
        Some c \<Rightarrow> if pc_priority c > 0 then pc_priority c else default_provider_priority
      | None \<Rightarrow> default_provider_priority)"

definition sort_by_priority :: "registry_config \<Rightarrow> llm_provider list \<Rightarrow> llm_provider list" where
  "sort_by_priority cfg ps =
     exchange_sort (\<lambda>a b. provider_priority cfg (prov_id a) < provider_priority cfg (prov_id b)) (length ps) ps"

definition select_backup :: "timestamp \<Rightarrow> provider \<Rightarrow> llm_provider list result \<Rightarrow> failover \<Rightarrow> (llm_provider \<times> bool) result" where
  "select_backup now primary providers fm =
     (case providers of
        Inl e \<Rightarrow> Inl (wrap_error ErrProviderNotFound e)
      | Inr ps \<Rightarrow>
          let candidates = filter (\<lambda>p. prov_id p \<noteq> primary \<and> should_attempt now (prov_id p) fm) ps
          in if length candidates = 0 then Inl (new_error ErrProviderNotAvailable)
             else case find prov_available (sort_by_priority (fo_cfg fm) candidates) of
               Some p \<Rightarrow> Inr (p, True)
             | None \<Rightarrow> Inl (new_error ErrProviderNotAvailable))"

text \<open>\<open>msg\<close> is the message of an error.\<close>

definition select_with_failover ::
    "(go_error \<Rightarrow> string) \<Rightarrow> timestamp \<Rightarrow> provider \<Rightarrow> (provider \<Rightarrow> llm_provider result) \<Rightarrow> llm_provider list result \<Rightarrow>
     failover \<Rightarrow> (llm_provider \<times> bool) result \<times> failover" where
  "select_with_failover msg now primary get providers fm =
     (if \<not> rc_failover (fo_cfg fm) then ((case get primary of Inl e \<Rightarrow> Inl e | Inr p \<Rightarrow> Inr (p, False)), fm)
      else if should_attempt now primary fm then
        (case get primary of
           Inr p \<Rightarrow> if prov_available p then (Inr (p, False), fm) else (select_backup now primary providers fm, fm)
         | Inl e \<Rightarrow>
             (let fm1 = record_failure now now primary (msg e) fm in (select_backup now primary providers fm1, fm1)))
      else (select_backup now primary providers fm, fm))"

section \<open>The breaker as a history\<close>

datatype fo_op =
    FoFail provider string timestamp timestamp
  | FoSucceed provider
  | FoReset provider
  | FoResetAll
  | FoHealth provider health_status timestamp

fun fo_exec :: "failover \<Rightarrow> fo_op \<Rightarrow> failover" where
  "fo_exec fm (FoFail p reason now now') = record_failure now now' p reason fm"
| "fo_exec fm (FoSucceed p) = record_success p fm"
| "fo_exec fm (FoReset p) = fo_reset p fm"
| "fo_exec fm FoResetAll = fo_reset_all fm"
| "fo_exec fm (FoHealth p st now) = hc_set_status now p st fm"

text \<open>The failures of a provider since its last success or reset, the latest first, as the times they opened with.\<close>

fun recent_failures :: "provider \<Rightarrow> fo_op list \<Rightarrow> timestamp list" where
  "recent_failures p [] = []"
| "recent_failures p (c # cs) =
     (case c of
        FoFail q reason now now' \<Rightarrow> if q = p then now' # recent_failures p cs else recent_failures p cs
      | FoSucceed q \<Rightarrow> if q = p then [] else recent_failures p cs
      | FoReset q \<Rightarrow> if q = p then [] else recent_failures p cs
      | FoResetAll \<Rightarrow> []
      | FoHealth q st now \<Rightarrow> recent_failures p cs)"

definition breaker_open :: "registry_config \<Rightarrow> timestamp \<Rightarrow> timestamp list \<Rightarrow> bool" where
  "breaker_open cfg now ts \<longleftrightarrow>
     (case ts of [] \<Rightarrow> False | t # _ \<Rightarrow> rc_threshold cfg \<le> int (length ts) \<and> now < t + rc_breaker_timeout cfg)"

definition breaker_inv :: "registry_config \<Rightarrow> provider \<Rightarrow> timestamp list \<Rightarrow> failover_state option \<Rightarrow> bool" where
  "breaker_inv cfg p ts s \<longleftrightarrow>
     (case s of
        None \<Rightarrow> ts = []
      | Some st \<Rightarrow> fs_failures st = int (length ts)
          \<and> fs_open_until st = (case ts of [] \<Rightarrow> 0 | t # _ \<Rightarrow> if rc_threshold cfg \<le> int (length ts) then t + rc_breaker_timeout cfg else 0))"

lemma breaker_inv_step:
  assumes inv: "breaker_inv (fo_cfg fm) p (recent_failures p cs) (mget (fo_states fm) p)"
    and open_: "rc_failover (fo_cfg fm)" "\<not> fo_closed fm" "\<not> fo_health_closed fm"
  shows "breaker_inv (fo_cfg fm) p (recent_failures p (c # cs)) (mget (fo_states (fo_exec fm c)) p)"
proof (cases c)
  case (FoFail q reason now now')
  show ?thesis
  proof (cases "q = p")
    case True
    have f: "fs_failures (fo_state p fm) = int (length (recent_failures p cs))"
      using inv by (cases "mget (fo_states fm) p") (simp_all add: breaker_inv_def fo_state_def zero_state_def)
    have "fs_open_until (fo_state p fm) = 0" if "\<not> rc_threshold (fo_cfg fm) \<le> int (length (recent_failures p cs)) + 1"
      using inv that
      by (cases "mget (fo_states fm) p")
        (auto simp: breaker_inv_def fo_state_def zero_state_def split: list.splits if_splits)
    then show ?thesis using True open_ f by (simp add: FoFail breaker_inv_def record_failure_def Let_def)
  next
    case False
    then show ?thesis using inv open_ by (simp add: FoFail record_failure_def Let_def)
  qed
next
  case (FoSucceed q)
  then show ?thesis using inv open_ by (auto simp: breaker_inv_def record_success_def)
next
  case (FoReset q)
  then show ?thesis using inv by (auto simp: breaker_inv_def fo_reset_def split: option.splits)
next
  case FoResetAll
  then show ?thesis by (auto simp: breaker_inv_def fo_reset_all_def zero_state_def split: option.splits)
next
  case (FoHealth q st now)
  then show ?thesis using inv open_
    by (auto simp: breaker_inv_def hc_set_status_def hc_state_def zero_state_def split: option.splits)
qed

lemma fo_exec_fields [simp]:
  "fo_cfg (fo_exec fm c) = fo_cfg fm" "fo_closed (fo_exec fm c) = fo_closed fm"
  "fo_health_closed (fo_exec fm c) = fo_health_closed fm"
  by (cases c; auto simp: record_failure_def record_success_def fo_reset_def fo_reset_all_def hc_set_status_def Let_def
      split: option.split)+

lemma fo_run_fields [simp]:
  "fo_cfg (foldl fo_exec fm cs) = fo_cfg fm" "fo_closed (foldl fo_exec fm cs) = fo_closed fm"
  "fo_health_closed (foldl fo_exec fm cs) = fo_health_closed fm"
  by (induction cs arbitrary: fm) simp_all

lemma breaker_run:
  assumes "rc_failover cfg"
  shows "breaker_inv cfg p (recent_failures p (rev cs)) (mget (fo_states (foldl fo_exec (new_failover cfg) cs)) p)"
proof (induction cs rule: rev_induct)
  case Nil
  then show ?case by (simp add: breaker_inv_def new_failover_def)
next
  case (snoc c cs)
  have "fo_cfg (foldl fo_exec (new_failover cfg) cs) = cfg" "\<not> fo_closed (foldl fo_exec (new_failover cfg) cs)"
    "\<not> fo_health_closed (foldl fo_exec (new_failover cfg) cs)"
    by (simp_all add: new_failover_def)
  then show ?case using breaker_inv_step [of "foldl fo_exec (new_failover cfg) cs" p "rev cs" c] snoc assms by simp
qed

text \<open>
  C5: With failover on, over any sequence of reports a provider is withheld exactly while it has failed
  at least the threshold of times since its last success or reset and the time-out has not passed since
  the latest of these failures.
\<close>

theorem circuit_breaker_exact:
  assumes "rc_failover cfg" and "0 < now" and "fm = foldl fo_exec (new_failover cfg) cs"
  shows "should_attempt now p fm \<longleftrightarrow> \<not> breaker_open cfg now (recent_failures p (rev cs))"
proof -
  have "breaker_inv cfg p (recent_failures p (rev cs)) (mget (fo_states fm) p)"
    using breaker_run [OF assms(1)] assms(3) by simp
  moreover have "fo_cfg fm = cfg" "\<not> fo_closed fm" using assms(3) by (simp_all add: new_failover_def)
  ultimately show ?thesis using assms(1,2)
    by (cases "mget (fo_states fm) p"; cases "recent_failures p (rev cs)")
      (auto simp: should_attempt_def breaker_inv_def breaker_open_def circuit_blocks_def ts_is_zero_def split: if_splits)
qed

lemma circuit_breaker_exact_witness:
  "\<not> should_attempt 9 prov_openai (foldl fo_exec (new_failover default_registry_config)
     [FoFail prov_openai ''a'' 5 5, FoFail prov_openai ''b'' 6 6, FoFail prov_openai ''c'' 7 7])"
  using circuit_breaker_exact [OF _ _ refl, of default_registry_config 9 prov_openai
      "[FoFail prov_openai ''a'' 5 5, FoFail prov_openai ''b'' 6 6, FoFail prov_openai ''c'' 7 7]"]
  by (simp add: default_registry_config_def breaker_open_def)

section \<open>What the choice guarantees\<close>

interpretation failover_priority: weak_order "\<lambda>a b :: llm_provider. provider_priority cfg (prov_id a) < provider_priority cfg (prov_id b)" for cfg
  by unfold_locales auto

lemma sort_by_priority_set [simp]: "set (sort_by_priority cfg ps) = set ps"
  by (simp add: sort_by_priority_def failover_priority.exchange_sort_set)

lemma sort_by_priority_sorted:
  "sorted_wrt (\<lambda>a b. provider_priority cfg (prov_id a) \<le> provider_priority cfg (prov_id b)) (sort_by_priority cfg ps)"
  using failover_priority.exchange_sort_sorted [of "length ps" ps cfg] by (simp add: sort_by_priority_def not_less)

lemma in_set_not_Nil: "x \<in> set xs \<Longrightarrow> xs \<noteq> []"
  by auto

lemma find_in: "find P xs = Some x \<Longrightarrow> x \<in> set xs" "find P xs = Some x \<Longrightarrow> P x"
  by (induction xs) (auto split: if_splits)

lemma find_sorted:
  assumes "sorted_wrt (\<lambda>a b. f a \<le> f b) xs" and "find P xs = Some x" and "y \<in> set xs" and "P y"
  shows "f x \<le> (f y :: int)"
  using assms by (induction xs) (auto split: if_splits)

definition eligible :: "timestamp \<Rightarrow> provider \<Rightarrow> failover \<Rightarrow> llm_provider \<Rightarrow> bool" where
  "eligible now primary fm p \<longleftrightarrow> prov_id p \<noteq> primary \<and> should_attempt now (prov_id p) fm \<and> prov_available p"

lemma select_backup_best:
  "case select_backup now primary (Inr ps) fm of
     Inr (p, b) \<Rightarrow> b \<and> p \<in> set ps \<and> eligible now primary fm p
       \<and> (\<forall>q \<in> set ps. eligible now primary fm q \<longrightarrow>
            provider_priority (fo_cfg fm) (prov_id p) \<le> provider_priority (fo_cfg fm) (prov_id q))
   | Inl e \<Rightarrow> e = new_error ErrProviderNotAvailable \<and> (\<forall>q \<in> set ps. \<not> eligible now primary fm q)"
proof -
  let ?cs = "filter (\<lambda>p. prov_id p \<noteq> primary \<and> should_attempt now (prov_id p) fm) ps"
  let ?sorted = "sort_by_priority (fo_cfg fm) ?cs"
  show ?thesis
  proof (cases "find prov_available ?sorted")
    case None
    then have "\<forall>q \<in> set ?cs. \<not> prov_available q" by (auto simp: find_None_iff)
    then show ?thesis using None by (auto simp: select_backup_def Let_def eligible_def)
  next
    case (Some p)
    then have p: "p \<in> set ?sorted" "prov_available p" by (rule find_in)+
    have "p \<in> set ?cs" using p(1) by (simp only: sort_by_priority_set)
    then have ne: "?cs \<noteq> []" by (rule in_set_not_Nil)
    have "provider_priority (fo_cfg fm) (prov_id p) \<le> provider_priority (fo_cfg fm) (prov_id q)"
      if "q \<in> set ps" "eligible now primary fm q" for q
      by (rule find_sorted [OF sort_by_priority_sorted Some]) (use that in \<open>auto simp: eligible_def\<close>)
    then show ?thesis using Some p ne by (auto simp: select_backup_def Let_def eligible_def)
  qed
qed

text \<open>
  With failover on, the primary provider is chosen whenever its circuit lets it be tried and it is
  available; otherwise the choice is an eligible provider of the best priority, and the call fails only
  when no provider is eligible.
\<close>

lemma failover_selects_best:
  assumes "rc_failover (fo_cfg fm)" and "select_with_failover msg now primary get (Inr ps) fm = (r, fm')"
  shows "(\<forall>p. should_attempt now primary fm \<and> get primary = Inr p \<and> prov_available p \<longrightarrow> r = Inr (p, False) \<and> fm' = fm)
    \<and> ((\<forall>p. \<not> (should_attempt now primary fm \<and> get primary = Inr p \<and> prov_available p)) \<longrightarrow>
        (case r of
           Inr (p, b) \<Rightarrow> b \<and> p \<in> set ps \<and> eligible now primary fm' p
             \<and> (\<forall>q \<in> set ps. eligible now primary fm' q \<longrightarrow>
                  provider_priority (fo_cfg fm') (prov_id p) \<le> provider_priority (fo_cfg fm') (prov_id q))
         | Inl e \<Rightarrow> e = new_error ErrProviderNotAvailable \<and> (\<forall>q \<in> set ps. \<not> eligible now primary fm' q)))"
proof -
  have "r = Inr (p, False) \<and> fm' = fm"
    if "should_attempt now primary fm" "get primary = Inr p" "prov_available p" for p
    using assms that by (simp add: select_with_failover_def)
  moreover have "r = select_backup now primary (Inr ps) fm'"
    if "\<forall>p. \<not> (should_attempt now primary fm \<and> get primary = Inr p \<and> prov_available p)"
    using assms that by (auto simp: select_with_failover_def Let_def split: if_splits sum.splits)
  ultimately show ?thesis using select_backup_best [where now = now and primary = primary and ps = ps and fm = fm'] by auto
qed

definition custom :: "provider \<Rightarrow> bool \<Rightarrow> llm_provider" where
  "custom p avail = CustomProvider \<lparr>cp_id = p, cp_status = PsAvailable, cp_available = avail, cp_models = [], cp_close = None\<rparr>"

lemma failover_selects_best_witness:
  "let fm = new_failover default_registry_config;
       (r, fm') = select_with_failover (\<lambda>_. []) 5 prov_anthropic (\<lambda>_. Inr (custom prov_anthropic False))
         (Inr [custom prov_anthropic False, custom prov_openai True]) fm
   in case r of Inr (p, b) \<Rightarrow> b \<and> eligible 5 prov_anthropic fm' p | Inl e \<Rightarrow> False"
proof -
  let ?fm = "new_failover default_registry_config" and ?ps = "[custom prov_anthropic False, custom prov_openai True]"
  obtain r fm' where sel: "select_with_failover (\<lambda>_. []) 5 prov_anthropic (\<lambda>_. Inr (custom prov_anthropic False)) (Inr ?ps) ?fm = (r, fm')"
    by fastforce
  have on: "rc_failover (fo_cfg ?fm)" by (simp add: new_failover_def default_registry_config_def)
  have fm': "fm' = ?fm" using sel by (auto simp: select_with_failover_def custom_def Let_def split: if_splits)
  have "eligible 5 prov_anthropic ?fm (custom prov_openai True)"
    by (simp add: eligible_def custom_def should_attempt_def new_failover_def prov_anthropic_def prov_openai_def)
  then show ?thesis
    using failover_selects_best [OF on sel] fm' sel by (auto simp: custom_def split: sum.splits)
qed

text \<open>A report on a provider.\<close>

definition report_on :: "provider \<Rightarrow> fo_op \<Rightarrow> bool" where
  "report_on p c \<longleftrightarrow> c = FoSucceed p \<or> (\<exists>reason t t'. c = FoFail p reason t t')"

definition all_unset :: "failover \<Rightarrow> bool" where
  "all_unset fm \<longleftrightarrow> (\<forall>p s. mget (fo_states fm) p = Some s \<longrightarrow> fs_health s = HealthUnset)"

lemma report_step:
  assumes "report_on q c" and "all_unset fm" and "rc_failover (fo_cfg fm)" and "\<not> fo_closed fm"
  shows "all_unset (fo_exec fm c)" and "mget (fo_states fm) p \<noteq> None \<or> q = p \<Longrightarrow> mget (fo_states (fo_exec fm c)) p \<noteq> None"
proof -
  have "fs_health (fo_state q fm) = HealthUnset"
    using assms(2) by (cases "mget (fo_states fm) q") (auto simp: fo_state_def zero_state_def all_unset_def)
  then show "all_unset (fo_exec fm c)"
    using assms by (auto simp: report_on_def record_success_def record_failure_def all_unset_def Let_def split: if_splits)
  show "mget (fo_states fm) p \<noteq> None \<or> q = p \<Longrightarrow> mget (fo_states (fo_exec fm c)) p \<noteq> None"
    using assms by (auto simp: report_on_def record_success_def record_failure_def Let_def)
qed

lemma report_run:
  assumes "rc_failover (fo_cfg fm)" and "\<not> fo_closed fm" and "all_unset fm" and "\<forall>c \<in> set cs. \<exists>q. report_on q c"
  shows "all_unset (foldl fo_exec fm cs)
    \<and> (mget (fo_states fm) p \<noteq> None \<or> (\<exists>c \<in> set cs. report_on p c) \<longrightarrow> mget (fo_states (foldl fo_exec fm cs)) p \<noteq> None)"
  using assms
proof (induction cs arbitrary: fm)
  case (Cons c cs)
  obtain q where q: "report_on q c" using Cons.prems(4) by auto
  have unique: "report_on p c \<Longrightarrow> q = p" using q by (auto simp: report_on_def)
  have IH: "all_unset (foldl fo_exec (fo_exec fm c) cs)
    \<and> (mget (fo_states (fo_exec fm c)) p \<noteq> None \<or> (\<exists>c \<in> set cs. report_on p c) \<longrightarrow>
         mget (fo_states (foldl fo_exec (fo_exec fm c) cs)) p \<noteq> None)"
    using Cons.prems report_step(1) [OF q Cons.prems(3,1,2)] by (intro Cons.IH) simp_all
  then show ?case using report_step(2) [OF q Cons.prems(3,1,2), of p] unique by auto
qed simp

text \<open>
  The first report on a provider, of a success as much as of a failure, makes it count as unhealthy,
  and no further report changes that: only a reset or a status set from outside does.
\<close>

lemma first_report_makes_unhealthy:
  assumes "rc_failover cfg" and "\<forall>c \<in> set cs. \<exists>q. report_on q c" and "\<exists>c \<in> set cs. report_on p c"
  shows "\<not> provider_healthy now p (foldl fo_exec (new_failover cfg) cs)"
proof -
  let ?fm = "foldl fo_exec (new_failover cfg) cs"
  have "all_unset ?fm" "mget (fo_states ?fm) p \<noteq> None"
    using report_run [of "new_failover cfg" cs p] assms by (auto simp: new_failover_def all_unset_def)
  then obtain s where "mget (fo_states ?fm) p = Some s" "fs_health s = HealthUnset" by (auto simp: all_unset_def)
  then show ?thesis by (simp add: provider_healthy_def hc_is_healthy_def hc_get_status_def hs_healthy_def)
qed

lemma first_report_makes_unhealthy_witness:
  "\<not> provider_healthy 9 prov_openai (foldl fo_exec (new_failover default_registry_config) [FoSucceed prov_openai])"
  by (rule first_report_makes_unhealthy) (auto simp: default_registry_config_def report_on_def)

end
