(* ===== verification/Provider_Registry.thy ===== *)
theory Provider_Registry
  imports Failover
begin

text \<open>
  pkg/provider/registry.go: the registered providers, the default one, and the calls that
  go on to the failover manager.
\<close>

record registry =
  rg_providers :: "(provider, llm_provider) gomap"
  rg_cfg :: registry_config
  rg_closed :: bool
  rg_default :: provider
  rg_failover :: failover

text \<open>One round of the loop of \<open>validateRegistryConfig\<close>; a missing provider is filled in.\<close>

definition check_entry :: "provider \<times> provider_config \<Rightarrow> go_error option" where
  "check_entry pc = (case pc of (p, c) \<Rightarrow>
     if \<not> provider_valid p then Some (PlainErr ''invalid provider ID'')
     else if pc_provider c \<noteq> '''' \<and> pc_provider c \<noteq> p then Some (PlainErr ''provider config mismatch'')
     else None)"

definition fill_id :: "provider \<Rightarrow> provider_config \<Rightarrow> provider_config" where
  "fill_id p c = (if pc_provider c = '''' then c\<lparr>pc_provider := p\<rparr> else c)"

definition validate_registry_config :: "registry_config \<Rightarrow> registry_config result" where
  "validate_registry_config cfg =
     (if rc_default cfg \<noteq> '''' \<and> \<not> provider_valid (rc_default cfg) then Inl (PlainErr ''invalid default provider'')
      else case first_error check_entry (rc_providers cfg) of
        Some e \<Rightarrow> Inl e
      | None \<Rightarrow> Inr (cfg\<lparr>rc_providers := mmap fill_id (rc_providers cfg)\<rparr>))"

text \<open>An empty default becomes the first provider in the iteration order.\<close>

definition new_registry :: "registry_config \<Rightarrow> registry result" where
  "new_registry cfg0 =
     (case validate_registry_config cfg0 of
        Inl e \<Rightarrow> Inl (wrap_error ErrInvalidArgument e)
      | Inr cfg1 \<Rightarrow>
          let cfg = (if rc_default cfg1 = '''' then
                       cfg1\<lparr>rc_default := (case rc_providers cfg1 of (p, _) # _ \<Rightarrow> p | [] \<Rightarrow> prov_anthropic)\<rparr>
                     else cfg1)
          in Inr \<lparr>rg_providers = [], rg_cfg = cfg, rg_closed = False, rg_default = rc_default cfg, rg_failover = new_failover cfg\<rparr>)"

definition register :: "llm_provider option \<Rightarrow> registry \<Rightarrow> go_error option \<times> registry" where
  "register p r =
     (if rg_closed r then (Some (new_error ErrUnavailable), r)
      else case p of
        None \<Rightarrow> (Some (new_error ErrInvalidArgument), r)
      | Some prov \<Rightarrow>
          if mget (rg_providers r) (prov_id prov) \<noteq> None then (Some (new_error ErrInvalidArgument), r)
          else (None, r\<lparr>rg_providers := mput (prov_id prov) prov (rg_providers r)\<rparr>))"

text \<open>The switch on the provider that both ways of creating a client share.\<close>

definition create_provider :: "timestamp \<Rightarrow> provider \<Rightarrow> provider_config \<Rightarrow> llm_provider result" where
  "create_provider now p cfg =
     (if p = prov_anthropic then (case new_anthropic now cfg of Inl e \<Rightarrow> Inl e | Inr c \<Rightarrow> Inr (AnthropicProvider c))
      else (case new_openai now cfg of Inl e \<Rightarrow> Inl e | Inr c \<Rightarrow> Inr (OpenaiProvider c)))"

definition register_from_config :: "timestamp \<Rightarrow> provider_config \<Rightarrow> registry \<Rightarrow> go_error option \<times> registry" where
  "register_from_config now cfg r =
     (if rg_closed r then (Some (new_error ErrUnavailable), r)
      else if \<not> provider_valid (pc_provider cfg) then (Some (new_error ErrInvalidArgument), r)
      else if mget (rg_providers r) (pc_provider cfg) \<noteq> None then (Some (new_error ErrInvalidArgument), r)
      else case create_provider now (pc_provider cfg) cfg of
        Inl e \<Rightarrow> (Some (wrap_error ErrInternal e), r)
      | Inr prov \<Rightarrow> (None, r\<lparr>rg_providers := mput (pc_provider cfg) prov (rg_providers r)\<rparr>))"

definition unregister :: "provider \<Rightarrow> registry \<Rightarrow> go_error option \<times> registry" where
  "unregister p r =
     (if rg_closed r then (Some (new_error ErrUnavailable), r)
      else case mget (rg_providers r) p of
        None \<Rightarrow> (Some (new_error ErrNotFound), r)
      | Some prov \<Rightarrow> (None, r\<lparr>rg_providers := mdel p (rg_providers r)\<rparr>))"

definition reg_get :: "provider \<Rightarrow> registry \<Rightarrow> llm_provider result" where
  "reg_get p r =
     (if rg_closed r then Inl (new_error ErrUnavailable)
      else if \<not> provider_valid p then Inl (new_error ErrInvalidArgument)
      else case mget (rg_providers r) p of None \<Rightarrow> Inl (new_error ErrNotFound) | Some prov \<Rightarrow> Inr prov)"

definition get_default :: "registry \<Rightarrow> llm_provider result" where
  "get_default r =
     (if rg_closed r then Inl (new_error ErrUnavailable)
      else case mget (rg_providers r) (rg_default r) of None \<Rightarrow> Inl (new_error ErrNotFound) | Some prov \<Rightarrow> Inr prov)"

definition set_default :: "provider \<Rightarrow> registry \<Rightarrow> go_error option \<times> registry" where
  "set_default p r =
     (if rg_closed r then (Some (new_error ErrUnavailable), r)
      else if \<not> provider_valid p then (Some (new_error ErrInvalidArgument), r)
      else if mget (rg_providers r) p = None then (Some (new_error ErrNotFound), r)
      else (None, r\<lparr>rg_default := p\<rparr>))"

definition list_providers :: "registry \<Rightarrow> llm_provider list result" where
  "list_providers r = (if rg_closed r then Inl (new_error ErrUnavailable) else Inr (mvals (rg_providers r)))"

definition list_available :: "registry \<Rightarrow> llm_provider list result" where
  "list_available r =
     (if rg_closed r then Inl (new_error ErrUnavailable) else Inr (filter prov_available (mvals (rg_providers r))))"

definition provider_by_model :: "model \<Rightarrow> registry \<Rightarrow> llm_provider result" where
  "provider_by_model m r =
     (if rg_closed r then Inl (new_error ErrUnavailable)
      else if m = '''' then Inl (new_error ErrInvalidArgument)
      else case find (\<lambda>p. prov_supports p m \<and> prov_available p) (mvals (rg_providers r)) of
        Some p \<Rightarrow> Inr p | None \<Rightarrow> Inl (new_error ErrNotFound))"

record provider_stats =
  pt_provider :: provider
  pt_status :: provider_status
  pt_usage :: token_usage

definition provider_stats_of :: "registry \<Rightarrow> (provider, provider_stats) gomap result" where
  "provider_stats_of r =
     (if rg_closed r then Inl (new_error ErrUnavailable)
      else Inr (map (\<lambda>(p, prov). (p, \<lparr>pt_provider = p, pt_status = prov_status prov,
             pt_usage = (case prov_account prov of None \<Rightarrow> no_usage | Some a \<Rightarrow> ta_total a)\<rparr>)) (rg_providers r)))"

text \<open>Closing: the error is that of the last provider, in the iteration order, that fails to close.\<close>

definition reg_close :: "registry \<Rightarrow> go_error option \<times> registry" where
  "reg_close r =
     (if rg_closed r then (None, r)
      else
        (fold (\<lambda>p err. case prov_close p of Some e \<Rightarrow> Some e | None \<Rightarrow> err) (mvals (rg_providers r)) None,
         r\<lparr>rg_failover := fo_close (rg_failover r), rg_providers := [], rg_closed := True\<rparr>))"

definition get_with_failover ::
    "(go_error \<Rightarrow> string) \<Rightarrow> timestamp \<Rightarrow> provider \<Rightarrow> registry \<Rightarrow> (llm_provider \<times> bool) result \<times> registry" where
  "get_with_failover msg now primary r =
     (if rg_closed r then (Inl (new_error ErrUnavailable), r)
      else case select_with_failover msg now primary
          (\<lambda>p. case mget (rg_providers r) p of None \<Rightarrow> Inl (new_error ErrNotFound) | Some prov \<Rightarrow> Inr prov)
          (Inr (mvals (rg_providers r))) (rg_failover r) of
        (res, fm) \<Rightarrow> (res, r\<lparr>rg_failover := fm\<rparr>))"

definition reg_health_check :: "provider \<Rightarrow> registry \<Rightarrow> health_status \<times> go_error option" where
  "reg_health_check p r =
     hc_check p (\<lambda>q. if rg_closed r then Inl (new_error ErrUnavailable)
                     else case mget (rg_providers r) q of None \<Rightarrow> Inl (new_error ErrNotFound) | Some prov \<Rightarrow> Inr prov)
       (rg_failover r)"

definition reg_report_failure :: "timestamp \<Rightarrow> timestamp \<Rightarrow> provider \<Rightarrow> string \<Rightarrow> registry \<Rightarrow> registry" where
  "reg_report_failure now now' p reason r = r\<lparr>rg_failover := record_failure now now' p reason (rg_failover r)\<rparr>"

definition reg_report_success :: "provider \<Rightarrow> registry \<Rightarrow> registry" where
  "reg_report_success p r = r\<lparr>rg_failover := record_success p (rg_failover r)\<rparr>"

text \<open>One round of \<open>InitializeFromConfig\<close>, and the loop; a provider that cannot be created is skipped.\<close>

definition init_provider :: "timestamp \<Rightarrow> provider \<times> provider_config \<Rightarrow> registry \<Rightarrow> registry" where
  "init_provider now pc r = (case pc of (p, cfg) \<Rightarrow>
     if \<not> pc_enabled cfg then r
     else if mget (rg_providers r) p \<noteq> None then r
     else if \<not> provider_valid p then r
     else case create_provider now p (cfg\<lparr>pc_provider := p\<rparr>) of
       Inl e \<Rightarrow> r | Inr prov \<Rightarrow> r\<lparr>rg_providers := mput p prov (rg_providers r)\<rparr>)"

definition init_from_config :: "timestamp \<Rightarrow> registry \<Rightarrow> go_error option \<times> registry" where
  "init_from_config now r =
     (if rg_closed r then (Some (new_error ErrUnavailable), r)
      else (None, fold (init_provider now) (rc_providers (rg_cfg r)) r))"

section \<open>The registry over runs\<close>

definition registry_ok :: "registry \<Rightarrow> bool" where
  "registry_ok r \<longleftrightarrow> mwf (rg_providers r) \<and> mall (\<lambda>p prov. prov_id prov = p) (rg_providers r)
     \<and> (rg_closed r \<longrightarrow> rg_providers r = [])"

datatype registry_op =
    RegRegister "llm_provider option"
  | RegFromConfig timestamp provider_config
  | RegUnregister provider
  | RegSetDefault provider
  | RegFailure timestamp timestamp provider string
  | RegSuccess provider
  | RegSelect timestamp provider
  | RegInit timestamp
  | RegClose

fun registry_exec :: "(go_error \<Rightarrow> string) \<Rightarrow> registry \<Rightarrow> registry_op \<Rightarrow> registry" where
  "registry_exec msg r (RegRegister p) = snd (register p r)"
| "registry_exec msg r (RegFromConfig now cfg) = snd (register_from_config now cfg r)"
| "registry_exec msg r (RegUnregister p) = snd (unregister p r)"
| "registry_exec msg r (RegSetDefault p) = snd (set_default p r)"
| "registry_exec msg r (RegFailure now now' p reason) = reg_report_failure now now' p reason r"
| "registry_exec msg r (RegSuccess p) = reg_report_success p r"
| "registry_exec msg r (RegSelect now p) = snd (get_with_failover msg now p r)"
| "registry_exec msg r (RegInit now) = snd (init_from_config now r)"
| "registry_exec msg r RegClose = snd (reg_close r)"

lemma create_provider_id: "provider_valid p \<Longrightarrow> create_provider now p cfg = Inr prov \<Longrightarrow> prov_id prov = p"
  by (auto simp: create_provider_def provider_valid_def split: if_splits sum.splits)

lemma registry_ok_put:
  "registry_ok r \<Longrightarrow> \<not> rg_closed r \<Longrightarrow> prov_id prov = p \<Longrightarrow> registry_ok (r\<lparr>rg_providers := mput p prov (rg_providers r)\<rparr>)"
  by (simp add: registry_ok_def mall_mput)

lemma init_provider_ok: "registry_ok r \<Longrightarrow> \<not> rg_closed r \<Longrightarrow> registry_ok (init_provider now pc r) \<and> \<not> rg_closed (init_provider now pc r)"
  by (cases pc) (auto simp: init_provider_def registry_ok_put create_provider_id split: sum.split)

lemma init_loop_ok: "registry_ok r \<Longrightarrow> \<not> rg_closed r \<Longrightarrow> registry_ok (fold (init_provider now) pcs r)"
  by (induction pcs arbitrary: r) (simp_all add: init_provider_ok)

lemma registry_exec_ok: "registry_ok r \<Longrightarrow> registry_ok (registry_exec msg r c)"
proof (cases c)
  case (RegRegister p)
  assume "registry_ok r"
  then show ?thesis by (cases p) (auto simp: RegRegister register_def registry_ok_put)
next
  case (RegFromConfig now cfg)
  assume "registry_ok r"
  then show ?thesis by (auto simp: RegFromConfig register_from_config_def registry_ok_put create_provider_id split: sum.split)
next
  case (RegUnregister p)
  assume "registry_ok r"
  then show ?thesis by (auto simp: RegUnregister unregister_def registry_ok_def mall_mdel split: option.split)
next
  case (RegInit now)
  assume "registry_ok r"
  then show ?thesis by (auto simp: RegInit init_from_config_def init_loop_ok)
qed (auto simp: registry_ok_def set_default_def reg_report_failure_def reg_report_success_def get_with_failover_def
    reg_close_def split: prod.split)

lemma registry_exec_closed: "rg_closed r \<Longrightarrow> rg_closed (registry_exec msg r c)"
  by (cases c) (simp_all add: register_def register_from_config_def unregister_def set_default_def reg_report_failure_def
      reg_report_success_def get_with_failover_def init_from_config_def reg_close_def)

interpretation registries: closable_machine "registry_exec msg" registry_ok rg_closed for msg
  by unfold_locales (rule registry_exec_ok registry_exec_closed, assumption)+

lemma new_registry_ok: "new_registry cfg = Inr r \<Longrightarrow> registry_ok r"
  by (auto simp: new_registry_def registry_ok_def Let_def split: sum.splits)

text \<open>
  In every state a registry can reach, each provider is registered under its own identifier, at
  most once, a lookup gives a provider of the identifier asked for, and what failover chooses is one of
  the registered providers; a closed registry holds none and stays closed.
\<close>

lemma registry_runs_stay_consistent:
  assumes "new_registry cfg = Inr r0" and "r = foldl (registry_exec msg) r0 cs"
  shows "registry_ok r
    \<and> (\<forall>p prov. reg_get p r = Inr prov \<longrightarrow> prov_id prov = p)
    \<and> (\<forall>now p prov b r'. get_with_failover msg now p r = (Inr (prov, b), r') \<longrightarrow>
          mget (rg_providers r) (prov_id prov) = Some prov \<and> (\<not> b \<longrightarrow> prov_id prov = p))
    \<and> (rg_closed r \<longrightarrow> (\<forall>ds. rg_closed (foldl (registry_exec msg) r ds)))"
proof -
  have ok: "registry_ok r" unfolding assms(2) by (rule registries.run_good [OF new_registry_ok [OF assms(1)]])
  then have wf: "mwf (rg_providers r)" and ids: "mall (\<lambda>p prov. prov_id prov = p) (rg_providers r)"
    by (simp_all add: registry_ok_def)
  have get: "prov_id prov = p" if "mget (rg_providers r) p = Some prov" for p prov
    using mall_get [OF ids that] .
  have member: "mget (rg_providers r) (prov_id prov) = Some prov" if mem: "prov \<in> set (mvals (rg_providers r))" for prov
  proof -
    obtain p where p: "mget (rg_providers r) p = Some prov"
      using mem mget_iff_in_set [OF wf] by (auto simp: mvals_def)
    then show ?thesis using get [OF p] by simp
  qed
  have sel: "mget (rg_providers r) (prov_id prov) = Some prov \<and> (\<not> b \<longrightarrow> prov_id prov = p)"
    if eq: "get_with_failover msg now p r = (Inr (prov, b), r')" for now p prov b r'
  proof -
    let ?get = "\<lambda>p. case mget (rg_providers r) p of None \<Rightarrow> Inl (new_error ErrNotFound) | Some prov \<Rightarrow> Inr prov"
    let ?fm = "rg_failover r"
    obtain fm where s: "select_with_failover msg now p ?get (Inr (mvals (rg_providers r))) ?fm = (Inr (prov, b), fm)"
      using eq by (auto simp: get_with_failover_def split: if_splits prod.splits)
    consider (direct) "?get p = Inr prov" "\<not> b"
      | (backup) fm' where "select_backup now p (Inr (mvals (rg_providers r))) fm' = Inr (prov, b)"
      using s by (auto simp: select_with_failover_def Let_def split: if_splits sum.splits)
    then show ?thesis
    proof cases
      case direct
      then have "mget (rg_providers r) p = Some prov" by (simp split: option.splits)
      then show ?thesis using get by simp
    next
      case backup
      then show ?thesis using select_backup_best [where now = now and primary = p and ps = "mvals (rg_providers r)" and fm = fm'] member
        by simp
    qed
  qed
  have "\<forall>p prov. reg_get p r = Inr prov \<longrightarrow> prov_id prov = p"
    using get by (auto simp: reg_get_def split: if_splits option.splits)
  then show ?thesis using ok sel registries.run_shut by blast
qed

lemma registry_runs_stay_consistent_witness:
  "case new_registry default_registry_config of Inl e \<Rightarrow> False
   | Inr r0 \<Rightarrow> registry_ok (foldl (registry_exec (\<lambda>_. '''')) r0 [RegRegister (Some (custom prov_openai True)), RegSelect 5 prov_anthropic])"
proof -
  obtain r0 where r0: "new_registry default_registry_config = Inr r0"
  proof -
    have "first_error check_entry (rc_providers default_registry_config) = None" by code_simp
    then have "validate_registry_config default_registry_config =
        Inr (default_registry_config\<lparr>rc_providers := mmap fill_id (rc_providers default_registry_config)\<rparr>)"
      by (simp add: validate_registry_config_def provider_valid_def default_registry_config_def)
    then show thesis using that by (simp add: new_registry_def Let_def)
  qed
  show ?thesis unfolding r0 sum.case using registry_runs_stay_consistent [OF r0 refl] by blast
qed

text \<open>
  A provider whose identifier is not one of the two built in can be registered, and is listed and
  chosen by failover, but cannot be looked up or made the default.
\<close>

lemma custom_provider_unreachable:
  assumes "\<not> rg_closed r" and "\<not> provider_valid p" and "mget (rg_providers r) p = None"
  shows "fst (register (Some (custom p True)) r) = None"
    and "reg_get p (snd (register (Some (custom p True)) r)) = Inl (new_error ErrInvalidArgument)"
    and "fst (set_default p (snd (register (Some (custom p True)) r))) = Some (new_error ErrInvalidArgument)"
  using assms by (simp_all add: register_def custom_def reg_get_def set_default_def)

text \<open>Removing the default provider leaves the default dangling.\<close>

lemma unregister_default_dangles:
  "\<not> rg_closed r \<Longrightarrow> mget (rg_providers r) (rg_default r) = Some prov \<Longrightarrow>
   fst (unregister (rg_default r) r) = None \<and> get_default (snd (unregister (rg_default r) r)) = Inl (new_error ErrNotFound)"
  by (simp add: unregister_def get_default_def)

end
