(* ===== verification/Ipc_Socket.thy ===== *)
theory Ipc_Socket
  imports Go_Types Go_Strings
begin

text \<open>
  pkg/ipc/socket.go: the table of connections of the Unix socket.  The outcome of a call
  on a connection (deadline, read, write, close) is a parameter, a function of the
  identifier of the connection; what is written is part of the result.
\<close>

record connection =
  cn_container :: id
  cn_session :: id
  cn_authenticated :: bool
  cn_created :: timestamp
  cn_last_active :: timestamp

record socket_config =
  sk_path :: string
  sk_max_connections :: int
  sk_buffer_size :: int
  sk_timeout :: duration
  sk_enable_auth :: bool

text \<open>
  \<open>so_checked\<close> is the connection that the accepting goroutine has let through and not yet
  handed over, \<open>so_accept_ch\<close> the channel to the goroutine that registers connections; both
  hold remote addresses.
\<close>

record socket =
  so_path :: string
  so_listening :: bool
  so_conns :: "(string, connection) gomap"
  so_conn_count :: int
  so_closed :: bool
  so_checked :: "string option"
  so_accept_ch :: "string list"
  so_max_conns :: int
  so_buffer_size :: int
  so_timeout :: duration
  so_enable_auth :: bool

definition default_buffer_size :: int where
  "default_buffer_size = 4096"

definition accept_cap :: nat where
  "accept_cap = 100"

text \<open>\<open>NewSocket\<close>; \<open>removed\<close> is the outcome of removing a socket file that is left over.\<close>

definition new_socket :: "string \<Rightarrow> socket_config \<Rightarrow> go_error option \<Rightarrow> socket result" where
  "new_socket path cfg removed =
     (case removed of
        Some e \<Rightarrow> Inl (wrap_error ErrInternal e)
      | None \<Rightarrow> Inr \<lparr>so_path = path, so_listening = False, so_conns = [], so_conn_count = 0, so_closed = False,
          so_checked = None, so_accept_ch = [], so_max_conns = sk_max_connections cfg,
          so_buffer_size = (if sk_buffer_size cfg \<le> 0 then default_buffer_size else sk_buffer_size cfg),
          so_timeout = sk_timeout cfg, so_enable_auth = sk_enable_auth cfg\<rparr>)"

section \<open>Accepting\<close>

definition socket_listen :: "go_error option \<Rightarrow> socket \<Rightarrow> go_error option \<times> socket" where
  "socket_listen bound s =
     (if so_closed s then (Some (new_error ErrUnavailable), s)
      else case bound of
        Some e \<Rightarrow> (Some (wrap_error ErrInternal e), s)
      | None \<Rightarrow> (None, s\<lparr>so_listening := True\<rparr>))"

text \<open>
  One round of \<open>acceptConnections\<close> in two steps: the check of the limit under the lock, and
  the send on the channel, which other goroutines can come between.  A connection that is
  not let through, or not taken for five seconds, is closed.
\<close>

definition accept_check :: "string \<Rightarrow> socket \<Rightarrow> socket" where
  "accept_check addr s =
     (if so_max_conns s > 0 \<and> so_conn_count s \<ge> so_max_conns s then s else s\<lparr>so_checked := Some addr\<rparr>)"

definition accept_hand_over :: "socket \<Rightarrow> socket" where
  "accept_hand_over s =
     (case so_checked s of
        None \<Rightarrow> s
      | Some addr \<Rightarrow>
          if length (so_accept_ch s) < accept_cap
          then s\<lparr>so_checked := None, so_accept_ch := so_accept_ch s @ [addr]\<rparr>
          else s\<lparr>so_checked := None\<rparr>)"

definition conn_id :: "string \<Rightarrow> timestamp \<Rightarrow> string" where
  "conn_id addr now = addr @ ''-'' @ dec_int now"

definition handle_connection :: "string \<Rightarrow> timestamp \<Rightarrow> socket \<Rightarrow> socket" where
  "handle_connection addr now s =
     s\<lparr>so_conn_count := so_conn_count s + 1,
       so_conns := mput (conn_id addr now)
         \<lparr>cn_container = '''', cn_session = '''', cn_authenticated = (\<not> so_enable_auth s),
          cn_created = now, cn_last_active = now\<rparr> (so_conns s)\<rparr>"

text \<open>One round of \<open>acceptLoop\<close>.\<close>

definition accept_loop :: "timestamp \<Rightarrow> socket \<Rightarrow> socket" where
  "accept_loop now s =
     (case so_accept_ch s of
        [] \<Rightarrow> s
      | addr # rest \<Rightarrow> handle_connection addr now (s\<lparr>so_accept_ch := rest\<rparr>))"

section \<open>Sending and receiving\<close>

record conn_io =
  io_deadline :: "string \<Rightarrow> go_error option"
  io_write :: "string \<Rightarrow> go_error option"
  io_read :: "string \<Rightarrow> string result"
  io_close :: "string \<Rightarrow> go_error option"

definition touch_conn :: "timestamp \<Rightarrow> string \<Rightarrow> socket \<Rightarrow> socket" where
  "touch_conn now cid s = s\<lparr>so_conns := mmap (\<lambda>k c. if k = cid then c\<lparr>cn_last_active := now\<rparr> else c) (so_conns s)\<rparr>"

definition deadline_fails :: "conn_io \<Rightarrow> string \<Rightarrow> socket \<Rightarrow> go_error option" where
  "deadline_fails io cid s = (if so_timeout s > 0 then io_deadline io cid else None)"

text \<open>The map is searched in its iteration order, which is the order of the list.\<close>

definition socket_send ::
    "conn_io \<Rightarrow> timestamp \<Rightarrow> id \<Rightarrow> string \<Rightarrow> socket \<Rightarrow> go_error option \<times> (string \<times> string) list \<times> socket" where
  "socket_send io now cont data s =
     (if so_closed s then (Some (new_error ErrUnavailable), [], s)
      else case find (\<lambda>(cid, c). cn_container c = cont) (so_conns s) of
        None \<Rightarrow> (Some (new_error ErrNotFound), [], s)
      | Some (cid, c) \<Rightarrow>
          (case deadline_fails io cid s of
             Some e \<Rightarrow> (Some (wrap_error ErrInternal e), [], s)
           | None \<Rightarrow>
               (case io_write io cid of
                  Some e \<Rightarrow> (Some (wrap_error ErrInternal e), [], s)
                | None \<Rightarrow> (None, [(cid, data)], touch_conn now cid s))))"

fun broadcast_to ::
    "conn_io \<Rightarrow> timestamp \<Rightarrow> string \<Rightarrow> string list \<Rightarrow> socket \<Rightarrow> go_error list \<times> (string \<times> string) list \<times> socket" where
  "broadcast_to io now data [] s = ([], [], s)"
| "broadcast_to io now data (cid # cids) s =
     (case deadline_fails io cid s of
        Some e \<Rightarrow> broadcast_to io now data cids s
      | None \<Rightarrow>
          (case io_write io cid of
             Some e \<Rightarrow> (case broadcast_to io now data cids s of (errs, ws, s') \<Rightarrow> (e # errs, ws, s'))
           | None \<Rightarrow> (case broadcast_to io now data cids (touch_conn now cid s) of (errs, ws, s') \<Rightarrow> (errs, (cid, data) # ws, s'))))"

definition socket_broadcast ::
    "conn_io \<Rightarrow> timestamp \<Rightarrow> string \<Rightarrow> socket \<Rightarrow> go_error option \<times> (string \<times> string) list \<times> socket" where
  "socket_broadcast io now data s =
     (if so_closed s then (Some (new_error ErrUnavailable), [], s)
      else case broadcast_to io now data (mkeys (so_conns s)) s of
        (errs, ws, s') \<Rightarrow>
          (if length errs > 0 then Some (wrap_error ErrPartialFailure (PlainErr (dec_nat (length errs)))) else None, ws, s'))"

text \<open>\<open>io_read\<close> is what waits on the connection; one read takes what fits the buffer.\<close>

definition socket_receive :: "conn_io \<Rightarrow> timestamp \<Rightarrow> string \<Rightarrow> socket \<Rightarrow> string result \<times> socket" where
  "socket_receive io now cid s =
     (case mget (so_conns s) cid of
        None \<Rightarrow> (Inl (new_error ErrNotFound), s)
      | Some c \<Rightarrow>
          (case deadline_fails io cid s of
             Some e \<Rightarrow> (Inl (wrap_error ErrInternal e), s)
           | None \<Rightarrow>
               (case io_read io cid of
                  Inl e \<Rightarrow> (Inl (wrap_error ErrInternal e), s)
                | Inr data \<Rightarrow> (Inr (take (nat (so_buffer_size s)) data), touch_conn now cid s))))"

section \<open>Connections\<close>

definition close_connection :: "conn_io \<Rightarrow> string \<Rightarrow> socket \<Rightarrow> go_error option \<times> socket" where
  "close_connection io cid s =
     (case mget (so_conns s) cid of
        None \<Rightarrow> (Some (new_error ErrNotFound), s)
      | Some c \<Rightarrow>
          (case io_close io cid of
             Some e \<Rightarrow> (Some (wrap_error ErrInternal e), s)
           | None \<Rightarrow> (None, s\<lparr>so_conns := mdel cid (so_conns s), so_conn_count := so_conn_count s - 1\<rparr>)))"

definition authenticate :: "string \<Rightarrow> id \<Rightarrow> id \<Rightarrow> socket \<Rightarrow> go_error option \<times> socket" where
  "authenticate cid cont sess s =
     (case mget (so_conns s) cid of
        None \<Rightarrow> (Some (new_error ErrNotFound), s)
      | Some c \<Rightarrow>
          (None, s\<lparr>so_conns := mput cid (c\<lparr>cn_container := cont, cn_session := sess, cn_authenticated := True\<rparr>) (so_conns s)\<rparr>))"

definition is_authenticated :: "string \<Rightarrow> socket \<Rightarrow> bool" where
  "is_authenticated cid s = (case mget (so_conns s) cid of None \<Rightarrow> False | Some c \<Rightarrow> cn_authenticated c)"

text \<open>\<open>Close\<close>, once its goroutines have ended: what was let through but not registered stays open.\<close>

definition socket_close :: "socket \<Rightarrow> go_error option \<times> socket" where
  "socket_close s =
     (if so_closed s then (Some (new_error ErrInvalid), s)
      else (None, s\<lparr>so_closed := True, so_conns := [], so_conn_count := 0\<rparr>))"

record socket_stats =
  sks_path :: string
  sks_active :: int
  sks_authenticated :: int

definition count_authenticated :: "socket \<Rightarrow> int" where
  "count_authenticated s = int (length (filter (\<lambda>(cid, c). cn_authenticated c) (so_conns s)))"

definition socket_stats_of :: "socket \<Rightarrow> socket_stats" where
  "socket_stats_of s = \<lparr>sks_path = so_path s, sks_active = so_conn_count s, sks_authenticated = count_authenticated s\<rparr>"

section \<open>Runs\<close>

datatype socket_op =
    SAccept string
  | SHandOver
  | SRegister timestamp
  | SSend conn_io timestamp id string
  | SBroadcast conn_io timestamp string
  | SReceive conn_io timestamp string
  | SCloseConn conn_io string
  | SAuthenticate string id id

text \<open>
  What runs while the socket is open.  The accepting goroutine checks a connection only when
  it has handed the last one over.
\<close>

fun socket_exec :: "socket \<Rightarrow> socket_op \<Rightarrow> socket" where
  "socket_exec s (SAccept addr) = (if so_checked s = None then accept_check addr s else s)"
| "socket_exec s SHandOver = accept_hand_over s"
| "socket_exec s (SRegister now) = accept_loop now s"
| "socket_exec s (SSend io now cont data) = snd (snd (socket_send io now cont data s))"
| "socket_exec s (SBroadcast io now data) = snd (snd (socket_broadcast io now data s))"
| "socket_exec s (SReceive io now cid) = snd (socket_receive io now cid s)"
| "socket_exec s (SCloseConn io cid) = snd (close_connection io cid s)"
| "socket_exec s (SAuthenticate cid cont sess) = snd (authenticate cid cont sess s)"

text \<open>What touching a connection leaves alone.\<close>

definition same_table :: "socket \<Rightarrow> socket \<Rightarrow> bool" where
  "same_table s s' \<longleftrightarrow> so_conn_count s' = so_conn_count s \<and> so_checked s' = so_checked s
     \<and> so_accept_ch s' = so_accept_ch s \<and> so_max_conns s' = so_max_conns s \<and> so_closed s' = so_closed s
     \<and> so_buffer_size s' = so_buffer_size s \<and> so_enable_auth s' = so_enable_auth s
     \<and> map (\<lambda>(k, c). (k, cn_container c, cn_authenticated c)) (so_conns s') =
       map (\<lambda>(k, c). (k, cn_container c, cn_authenticated c)) (so_conns s)"

lemma same_table_refl [simp]: "same_table s s"
  by (simp add: same_table_def)

lemma same_table_trans: "same_table s s' \<Longrightarrow> same_table s' s'' \<Longrightarrow> same_table s s''"
  by (simp add: same_table_def)

lemma same_table_touch [simp]: "same_table s (touch_conn now cid s)"
  by (simp add: same_table_def touch_conn_def mmap_def case_prod_unfold)

lemma same_table_send: "same_table s (snd (snd (socket_send io now cont data s)))"
  by (simp add: socket_send_def split: option.split)

lemma same_table_broadcast_to: "same_table s (snd (snd (broadcast_to io now data cids s)))"
proof (induction cids arbitrary: s)
  case (Cons c cids)
  show ?case
    using Cons [of s] same_table_trans [OF same_table_touch Cons [of "touch_conn now c s"]]
    by (auto split: option.split prod.split)
qed simp

lemma same_table_broadcast: "same_table s (snd (snd (socket_broadcast io now data s)))"
  using same_table_broadcast_to [of s io now data "mkeys (so_conns s)"]
  by (auto simp: socket_broadcast_def split: prod.split)

lemma same_table_receive: "same_table s (snd (socket_receive io now cid s))"
  by (simp add: socket_receive_def split: option.split sum.split)

section \<open>The limit\<close>

text \<open>Connections that are registered or on their way to be.\<close>

definition load :: "socket \<Rightarrow> int" where
  "load s = so_conn_count s + int (length (so_accept_ch s)) + (case so_checked s of None \<Rightarrow> 0 | Some a \<Rightarrow> 1)"

definition load_ok :: "int \<Rightarrow> socket \<Rightarrow> bool" where
  "load_ok m s \<longleftrightarrow> so_max_conns s = m \<and> load s \<le> m + int accept_cap \<and> length (so_accept_ch s) \<le> accept_cap"

lemma load_ok_same: "same_table s s' \<Longrightarrow> load_ok m s \<Longrightarrow> load_ok m s'"
  by (simp add: same_table_def load_ok_def load_def)

lemma load_ok_exec:
  assumes "0 < m" and ok: "load_ok m s"
  shows "load_ok m (socket_exec s c)"
proof (cases c)
  case (SAccept a)
  then show ?thesis using assms by (auto simp: accept_check_def load_ok_def load_def)
next
  case SHandOver
  then show ?thesis using ok by (auto simp: accept_hand_over_def load_ok_def load_def split: option.split)
next
  case (SRegister now)
  then show ?thesis using ok by (auto simp: accept_loop_def handle_connection_def load_ok_def load_def split: list.split)
next
  case (SSend io now cont data)
  then show ?thesis using load_ok_same [OF same_table_send ok] by simp
next
  case (SBroadcast io now data)
  then show ?thesis using load_ok_same [OF same_table_broadcast ok] by simp
next
  case (SReceive io now cid)
  then show ?thesis using load_ok_same [OF same_table_receive ok] by simp
next
  case (SCloseConn io cid)
  then show ?thesis using ok by (auto simp: close_connection_def load_ok_def load_def split: option.split)
next
  case (SAuthenticate cid cont sess)
  then show ?thesis using ok by (auto simp: authenticate_def load_ok_def load_def split: option.split)
qed

interpretation connection_limit: machine socket_exec "\<lambda>s. 0 < m \<and> load_ok m s" for m
  by unfold_locales (simp add: load_ok_exec)

lemma new_socket_load: "new_socket p cfg r = Inr s \<Longrightarrow> 0 < sk_max_connections cfg \<Longrightarrow> load_ok (sk_max_connections cfg) s"
  by (auto simp: new_socket_def load_ok_def load_def split: option.splits)

text \<open>A burst of connections that are all let through before the first of them is registered.\<close>

definition burst :: "nat \<Rightarrow> socket_op list" where
  "burst n = concat (replicate n [SAccept ''a'', SHandOver]) @ SAccept ''a'' # map SRegister (replicate n 0) @ [SHandOver, SRegister 0]"

lemma burst_let_through:
  assumes "so_conn_count s = 0" and "so_max_conns s = 1" and "so_checked s = None" and "length (so_accept_ch s) + n \<le> accept_cap"
  shows "foldl socket_exec s (concat (replicate n [SAccept ''a'', SHandOver])) = s\<lparr>so_accept_ch := so_accept_ch s @ replicate n ''a''\<rparr>"
  using assms
proof (induction n arbitrary: s)
  case (Suc n)
  have "foldl socket_exec s [SAccept ''a'', SHandOver] = s\<lparr>so_accept_ch := so_accept_ch s @ [''a'']\<rparr>"
    using Suc.prems by (simp add: accept_check_def accept_hand_over_def)
  then show ?case using Suc.IH [of "s\<lparr>so_accept_ch := so_accept_ch s @ [''a'']\<rparr>"] Suc.prems by simp
qed simp

lemma burst_registered:
  assumes "so_accept_ch s = replicate n ''a''"
  shows "so_conn_count (foldl socket_exec s (map SRegister (replicate n 0))) = so_conn_count s + int n
    \<and> so_checked (foldl socket_exec s (map SRegister (replicate n 0))) = so_checked s
    \<and> so_accept_ch (foldl socket_exec s (map SRegister (replicate n 0))) = []"
  using assms by (induction n arbitrary: s) (simp_all add: accept_loop_def handle_connection_def)

text \<open>
  With a limit on connections, no run has more than the limit and a hundred of them: the
  limit is checked before a connection waits for its registration, and a hundred can wait.  With a
  limit of one, a burst makes it a hundred and one.
\<close>

lemma connection_limit_overrun:
  assumes "0 < sk_max_connections cfg" and "new_socket p cfg r = Inr s0"
  shows "so_conn_count (foldl socket_exec s0 ops) \<le> sk_max_connections cfg + 100
    \<and> (sk_max_connections cfg = 1 \<longrightarrow> so_conn_count (foldl socket_exec s0 (burst 100)) = 101)"
proof
  have "load_ok (sk_max_connections cfg) (foldl socket_exec s0 ops)"
    using connection_limit.run_good [of "sk_max_connections cfg" s0 ops] assms new_socket_load by blast
  then show "so_conn_count (foldl socket_exec s0 ops) \<le> sk_max_connections cfg + 100"
    by (auto simp: load_ok_def load_def accept_cap_def split: option.splits)
  show "sk_max_connections cfg = 1 \<longrightarrow> so_conn_count (foldl socket_exec s0 (burst 100)) = 101"
  proof
    assume one: "sk_max_connections cfg = 1"
    have s0: "so_conn_count s0 = 0" "so_max_conns s0 = 1" "so_checked s0 = None" "so_accept_ch s0 = []"
      using assms(2) one by (auto simp: new_socket_def split: option.splits)
    define s1 where "s1 = s0\<lparr>so_accept_ch := replicate 100 ''a'', so_checked := Some ''a''\<rparr>"
    have "foldl socket_exec s0 (burst 100) = foldl socket_exec s1 (map SRegister (replicate 100 0) @ [SHandOver, SRegister 0])"
      using burst_let_through [of s0 100] s0
      by (simp only: burst_def foldl_append foldl_Cons)
        (simp add: s1_def accept_check_def accept_cap_def)
    then show "so_conn_count (foldl socket_exec s0 (burst 100)) = 101"
      using burst_registered [of s1 100] s0
      by (simp add: s1_def accept_hand_over_def accept_cap_def accept_loop_def handle_connection_def)
  qed
qed

definition sample_socket_config :: socket_config where
  "sample_socket_config = \<lparr>sk_path = ''/run/ipc'', sk_max_connections = 1, sk_buffer_size = 0, sk_timeout = 0, sk_enable_auth = True\<rparr>"

definition sample_socket :: socket where
  "sample_socket = projr (new_socket ''/run/ipc'' sample_socket_config None)"

lemma sample_socket: "new_socket ''/run/ipc'' sample_socket_config None = Inr sample_socket"
  by (simp add: sample_socket_def new_socket_def)

lemma connection_limit_overrun_witness: "so_conn_count (foldl socket_exec sample_socket (burst 100)) = 101"
proof -
  have one: "sk_max_connections sample_socket_config = 1" by (simp add: sample_socket_config_def)
  then have "0 < sk_max_connections sample_socket_config" by (simp only: zero_less_one)
  note c = connection_limit_overrun [OF this sample_socket, where ops = "[]"]
  show ?thesis by (rule mp [OF conjunct2 [OF c] one])
qed

section \<open>Authentication\<close>

lemma broadcast_to_writes:
  "fst (snd (broadcast_to io now data cids s)) =
     map (\<lambda>cid. (cid, data)) (filter (\<lambda>cid. deadline_fails io cid s = None \<and> io_write io cid = None) cids)"
proof (induction cids arbitrary: s)
  case (Cons c cids)
  have "deadline_fails io d (touch_conn now c s) = deadline_fails io d s" for d
    by (simp add: deadline_fails_def touch_conn_def)
  then show ?case
    using Cons [of s] Cons [of "touch_conn now c s"] by (auto split: option.split prod.split)
qed simp

text \<open>Every connection is as it was registered: nobody's, and not authenticated.\<close>

definition anonymous :: "socket \<Rightarrow> bool" where
  "anonymous s \<longleftrightarrow> so_enable_auth s \<and> (\<forall>(k, c) \<in> set (so_conns s). cn_container c = '''' \<and> \<not> cn_authenticated c)"

lemma anonymous_iff: "anonymous s \<longleftrightarrow>
  so_enable_auth s \<and> (\<forall>x \<in> set (map (\<lambda>(k, c). (k, cn_container c, cn_authenticated c)) (so_conns s)). fst (snd x) = '''' \<and> \<not> snd (snd x))"
  by (auto simp: anonymous_def)

lemma anonymous_same: "same_table s s' \<Longrightarrow> anonymous s \<Longrightarrow> anonymous s'"
  unfolding anonymous_iff same_table_def by (elim conjE) (simp only: simp_thms)

lemma anonymous_mall: "anonymous s \<longleftrightarrow> so_enable_auth s \<and> mall (\<lambda>k c. cn_container c = '''' \<and> \<not> cn_authenticated c) (so_conns s)"
  by (simp add: anonymous_def mall_def)

lemma anonymous_exec:
  assumes an: "anonymous s" and "\<nexists>cid cont sess. c = SAuthenticate cid cont sess"
  shows "anonymous (socket_exec s c)"
proof (cases c)
  case (SAccept a)
  then show ?thesis using an by (simp add: accept_check_def anonymous_def)
next
  case SHandOver
  then show ?thesis using an by (simp add: accept_hand_over_def anonymous_def split: option.split)
next
  case (SRegister now)
  then show ?thesis using an
    by (auto simp: accept_loop_def handle_connection_def anonymous_mall split: list.split intro: mall_mput)
next
  case (SSend io now cont data)
  then show ?thesis using anonymous_same [OF same_table_send an] by simp
next
  case (SBroadcast io now data)
  then show ?thesis using anonymous_same [OF same_table_broadcast an] by simp
next
  case (SReceive io now cid)
  then show ?thesis using anonymous_same [OF same_table_receive an] by simp
next
  case (SCloseConn io cid)
  then show ?thesis using an
    by (auto simp: close_connection_def anonymous_mall split: option.split intro: mall_mdel)
qed (use assms(2) in blast)

lemma anonymous_run:
  "anonymous s \<Longrightarrow> \<forall>cid cont sess. SAuthenticate cid cont sess \<notin> set ops \<Longrightarrow> anonymous (foldl socket_exec s ops)"
proof (induction ops arbitrary: s)
  case (Cons c ops)
  have "anonymous (socket_exec s c)" by (rule anonymous_exec) (use Cons.prems in auto)
  then show ?case using Cons by simp
qed simp

text \<open>
  Unless somebody calls \<open>Authenticate\<close>, which nothing in the program does, a socket with
  authentication turned on has no authenticated connection and no message for a container finds one,
  while a broadcast is written to every connection.
\<close>

lemma nobody_is_authenticated:
  assumes "sk_enable_auth cfg" and "new_socket p cfg r = Inr s0" and "\<forall>cid cont sess. SAuthenticate cid cont sess \<notin> set ops"
    and "s = foldl socket_exec s0 ops"
  shows "count_authenticated s = 0
    \<and> (cont \<noteq> '''' \<longrightarrow> \<not> so_closed s \<longrightarrow> socket_send io now cont data s = (Some (new_error ErrNotFound), [], s))
    \<and> (\<not> so_closed s \<longrightarrow> (\<forall>cid. io_deadline io cid = None \<and> io_write io cid = None) \<longrightarrow>
         fst (snd (socket_broadcast io now data s)) = map (\<lambda>cid. (cid, data)) (mkeys (so_conns s)))"
proof (intro conjI impI)
  have "anonymous s0" using assms(1,2) by (auto simp: new_socket_def anonymous_def split: option.splits)
  then have an: "anonymous s" unfolding assms(4) using assms(3) by (rule anonymous_run)
  show "count_authenticated s = 0" using an by (auto simp: count_authenticated_def anonymous_def filter_empty_conv)
  show "socket_send io now cont data s = (Some (new_error ErrNotFound), [], s)" if "cont \<noteq> ''''" "\<not> so_closed s"
  proof -
    have "find (\<lambda>(cid, c). cn_container c = cont) (so_conns s) = None"
      using an that(1) by (auto simp: find_None_iff anonymous_def)
    then show ?thesis using that(2) by (simp add: socket_send_def)
  qed
  show "fst (snd (socket_broadcast io now data s)) = map (\<lambda>cid. (cid, data)) (mkeys (so_conns s))"
    if "\<not> so_closed s" "\<forall>cid. io_deadline io cid = None \<and> io_write io cid = None"
    using broadcast_to_writes [of io now data "mkeys (so_conns s)" s] that
    by (cases "broadcast_to io now data (mkeys (so_conns s)) s") (simp add: socket_broadcast_def deadline_fails_def)
qed

definition sample_conn_io :: conn_io where
  "sample_conn_io = \<lparr>io_deadline = \<lambda>_. None, io_write = \<lambda>_. None, io_read = \<lambda>_. Inr [], io_close = \<lambda>_. None\<rparr>"

definition one_connection :: socket where
  "one_connection = foldl socket_exec sample_socket [SAccept ''a'', SHandOver, SRegister 1]"

lemma nobody_is_authenticated_witness:
  "fst (snd (socket_broadcast sample_conn_io 2 ''m'' one_connection)) = [(conn_id ''a'' 1, ''m'')]"
proof -
  have "so_closed one_connection = False" "mkeys (so_conns one_connection) = [conn_id ''a'' 1]"
    by (simp_all add: one_connection_def sample_socket_def sample_socket_config_def new_socket_def accept_check_def
        accept_hand_over_def accept_loop_def handle_connection_def accept_cap_def mkeys_def mput_def)
  then show ?thesis
    using nobody_is_authenticated [OF _ sample_socket _ one_connection_def, where cont = "''''" and io = sample_conn_io and now = 2 and data = "''m''"]
    by (simp add: sample_socket_config_def sample_conn_io_def)
qed

end
