(* ===== verification/Ipc_Broker.thy ===== *)
theory Ipc_Broker
  imports Ipc_Socket
begin

text \<open>
  pkg/ipc/broker.go: messages, their handlers by type, the queue of received messages and the
  history of each session.  The JSON codec is a parameter, \<open>enc\<close> and \<open>dec\<close>; the error of a
  handler for a message is a function of the message.  The counters are incremented under the
  lock at the end of a call, so a call is one step.
\<close>

record ipc_metadata =
  im_correlation :: string
  im_session :: id
  im_message_id :: string
  im_headers :: "(string, string) gomap"

record ipc_message =
  ip_id :: id
  ip_source :: id
  ip_target :: id
  ip_type :: string
  ip_payload :: string
  ip_metadata :: ipc_metadata
  ip_timestamp :: timestamp

type_synonym message_handler = "ipc_message \<Rightarrow> go_error option"

record ipc_config =
  ic_socket_path :: string
  ic_buffer_size :: int
  ic_timeout :: duration
  ic_max_connections :: int
  ic_enable_auth :: bool

record broker_stats =
  bs_sent :: int
  bs_received :: int
  bs_failed :: int
  bs_handlers :: int
  bs_queue_size :: int

record broker =
  bk_socket :: socket
  bk_queue :: "ipc_message list"
  bk_handlers :: "(string, message_handler) gomap"
  bk_history :: "(id, ipc_message list) gomap"
  bk_cfg :: ipc_config
  bk_closed :: bool
  bk_stats :: broker_stats

definition broker_queue_cap :: nat where
  "broker_queue_cap = 1000"

definition max_history :: nat where
  "max_history = 1000"

definition new_broker :: "ipc_config \<Rightarrow> go_error option \<Rightarrow> broker result" where
  "new_broker cfg removed =
     (case new_socket (ic_socket_path cfg) \<lparr>sk_path = ic_socket_path cfg, sk_max_connections = ic_max_connections cfg,
          sk_buffer_size = ic_buffer_size cfg, sk_timeout = ic_timeout cfg, sk_enable_auth = ic_enable_auth cfg\<rparr> removed of
        Inl e \<Rightarrow> Inl (wrap_error ErrInternal e)
      | Inr s \<Rightarrow> Inr \<lparr>bk_socket = s, bk_queue = [], bk_handlers = [], bk_history = [], bk_cfg = cfg, bk_closed = False,
          bk_stats = \<lparr>bs_sent = 0, bs_received = 0, bs_failed = 0, bs_handlers = 0, bs_queue_size = 0\<rparr>\<rparr>)"

definition broker_start :: "go_error option \<Rightarrow> broker \<Rightarrow> go_error option \<times> broker" where
  "broker_start bound b =
     (if bk_closed b then (Some (new_error ErrUnavailable), b)
      else case socket_listen bound (bk_socket b) of
        (Some e, s) \<Rightarrow> (Some (wrap_error ErrInternal e), b\<lparr>bk_socket := s\<rparr>)
      | (None, s) \<Rightarrow> (None, b\<lparr>bk_socket := s\<rparr>))"

section \<open>Messages\<close>

definition validate_message :: "ipc_message \<Rightarrow> go_error option" where
  "validate_message m =
     (if id_is_empty (ip_source m) then Some (PlainErr ''source cannot be empty'')
      else if id_is_empty (ip_target m) then Some (PlainErr ''target cannot be empty'')
      else if ip_type m = '''' then Some (PlainErr ''type cannot be empty'')
      else None)"

text \<open>The time and the identifier a message gets when it has none.\<close>

definition stamp_message :: "id \<Rightarrow> timestamp \<Rightarrow> ipc_message \<Rightarrow> ipc_message" where
  "stamp_message gid now m =
     (let m1 = (if ts_is_zero (ip_timestamp m) then m\<lparr>ip_timestamp := now\<rparr> else m)
      in if id_is_empty (ip_id m1) then m1\<lparr>ip_id := gid\<rparr> else m1)"

definition history_of :: "id \<Rightarrow> broker \<Rightarrow> ipc_message list" where
  "history_of i b = (case mget (bk_history b) i of None \<Rightarrow> [] | Some ms \<Rightarrow> ms)"

definition store_message :: "ipc_message \<Rightarrow> broker \<Rightarrow> broker" where
  "store_message m b =
     (let i = im_session (ip_metadata m)
      in if id_is_empty i then b
         else
           let ms = history_of i b @ [m]
           in b\<lparr>bk_history := mput i (if length ms > max_history then drop (length ms - max_history) ms else ms) (bk_history b)\<rparr>)"

definition count_failed :: "broker \<Rightarrow> broker" where
  "count_failed b = b\<lparr>bk_stats := (bk_stats b)\<lparr>bs_failed := bs_failed (bk_stats b) + 1\<rparr>\<rparr>"

definition count_sent :: "broker \<Rightarrow> broker" where
  "count_sent b = b\<lparr>bk_stats := (bk_stats b)\<lparr>bs_sent := bs_sent (bk_stats b) + 1\<rparr>\<rparr>"

text \<open>
  \<open>Send\<close> and \<open>Broadcast\<close>: \<open>gid\<close> is the identifier \<open>GenerateID\<close> draws.  The message is a
  pointer of the caller, whose time and identifier are set even if the call fails after that.
\<close>

definition broker_send ::
    "(ipc_message \<Rightarrow> string result) \<Rightarrow> conn_io \<Rightarrow> id \<Rightarrow> timestamp \<Rightarrow> ipc_message \<Rightarrow> broker
      \<Rightarrow> go_error option \<times> ipc_message \<times> (string \<times> string) list \<times> broker" where
  "broker_send enc io gid now m b =
     (if bk_closed b then (Some (new_error ErrUnavailable), m, [], b)
      else case validate_message m of
        Some e \<Rightarrow> (Some (wrap_error ErrInvalid e), m, [], b)
      | None \<Rightarrow>
          let m' = stamp_message gid now m
          in case enc m' of
            Inl e \<Rightarrow> (Some (wrap_error ErrInternal e), m', [], b)
          | Inr data \<Rightarrow>
              (case socket_send io now (ip_target m') data (bk_socket b) of
                 (Some e, ws, s) \<Rightarrow> (Some (wrap_error ErrInternal e), m', ws, count_failed (b\<lparr>bk_socket := s\<rparr>))
               | (None, ws, s) \<Rightarrow>
                   let b1 = b\<lparr>bk_socket := s\<rparr>;
                       b2 = (if \<not> id_is_empty (im_session (ip_metadata m')) then store_message m' b1 else b1)
                   in (None, m', ws, count_sent b2)))"

definition broker_broadcast ::
    "(ipc_message \<Rightarrow> string result) \<Rightarrow> conn_io \<Rightarrow> id \<Rightarrow> timestamp \<Rightarrow> ipc_message \<Rightarrow> broker
      \<Rightarrow> go_error option \<times> ipc_message \<times> (string \<times> string) list \<times> broker" where
  "broker_broadcast enc io gid now m b =
     (if bk_closed b then (Some (new_error ErrUnavailable), m, [], b)
      else case validate_message m of
        Some e \<Rightarrow> (Some (wrap_error ErrInvalid e), m, [], b)
      | None \<Rightarrow>
          let m' = stamp_message gid now m
          in case enc m' of
            Inl e \<Rightarrow> (Some (wrap_error ErrInternal e), m', [], b)
          | Inr data \<Rightarrow>
              (case socket_broadcast io now data (bk_socket b) of
                 (Some e, ws, s) \<Rightarrow> (Some (wrap_error ErrInternal e), m', ws, count_failed (b\<lparr>bk_socket := s\<rparr>))
               | (None, ws, s) \<Rightarrow> (None, m', ws, count_sent (b\<lparr>bk_socket := s\<rparr>))))"

section \<open>Handlers\<close>

definition broker_register :: "string \<Rightarrow> message_handler option \<Rightarrow> broker \<Rightarrow> go_error option \<times> broker" where
  "broker_register t h b =
     (if bk_closed b then (Some (new_error ErrUnavailable), b)
      else case h of
        None \<Rightarrow> (Some (new_error ErrInvalid), b)
      | Some h' \<Rightarrow>
          let b1 = (if mget (bk_handlers b) t = None
                    then b\<lparr>bk_stats := (bk_stats b)\<lparr>bs_handlers := bs_handlers (bk_stats b) + 1\<rparr>\<rparr> else b)
          in (None, b1\<lparr>bk_handlers := mput t h' (bk_handlers b1)\<rparr>))"

definition broker_unregister :: "string \<Rightarrow> broker \<Rightarrow> go_error option \<times> broker" where
  "broker_unregister t b =
     (if bk_closed b then (Some (new_error ErrUnavailable), b)
      else if mget (bk_handlers b) t = None then (Some (new_error ErrNotFound), b)
      else (None, b\<lparr>bk_handlers := mdel t (bk_handlers b),
              bk_stats := (bk_stats b)\<lparr>bs_handlers := bs_handlers (bk_stats b) - 1\<rparr>\<rparr>))"

text \<open>
  \<open>Receive\<close>: the send on the channel goes through when there is room, waits at most five
  seconds, and panics when \<open>Close\<close> has closed the channel.  \<open>gave_up\<close> is what ended the wait,
  if the sender did not get room.
\<close>

datatype receive_out = Received "go_error option" | ReceivePanic

definition broker_receive ::
    "(string \<Rightarrow> ipc_message result) \<Rightarrow> go_error option \<Rightarrow> string \<Rightarrow> broker \<Rightarrow> receive_out \<times> broker" where
  "broker_receive dec gave_up data b =
     (case dec data of
        Inl e \<Rightarrow> (Received (Some (wrap_error ErrInvalid e)), b)
      | Inr m \<Rightarrow>
          (case validate_message m of
             Some e \<Rightarrow> (Received (Some (wrap_error ErrInvalid e)), b)
           | None \<Rightarrow>
               (case gave_up of
                 Some e \<Rightarrow> (Received (Some e), b)
               | None \<Rightarrow>
                   if bk_closed b then (ReceivePanic, b)
                   else if length (bk_queue b) < broker_queue_cap
                   then (Received None, b\<lparr>bk_queue := bk_queue b @ [m],
                           bk_stats := (bk_stats b)\<lparr>bs_received := bs_received (bk_stats b) + 1\<rparr>\<rparr>)
                   else (Received (Some (new_error ErrTimeout)), b))))"

text \<open>\<open>handleMessage\<close>: the answer says whether a handler was called.\<close>

definition handle_message :: "ipc_message \<Rightarrow> broker \<Rightarrow> bool \<times> broker" where
  "handle_message m b =
     (case mget (bk_handlers b) (ip_type m) of
        None \<Rightarrow> (False, b)
      | Some h \<Rightarrow> (case h m of Some e \<Rightarrow> (True, count_failed b) | None \<Rightarrow> (True, b)))"

text \<open>One round of \<open>processMessages\<close>.\<close>

definition process_message :: "broker \<Rightarrow> (ipc_message \<times> bool) option \<times> broker" where
  "process_message b =
     (case bk_queue b of
        [] \<Rightarrow> (None, b)
      | m # q \<Rightarrow> (case handle_message m (b\<lparr>bk_queue := q\<rparr>) of (called, b') \<Rightarrow> (Some (m, called), b')))"

fun drain_messages :: "ipc_message list \<Rightarrow> broker \<Rightarrow> broker" where
  "drain_messages [] b = b"
| "drain_messages (m # q) b = drain_messages q (snd (handle_message m (b\<lparr>bk_queue := q\<rparr>)))"

section \<open>History and closing\<close>

definition get_session_messages :: "id \<Rightarrow> broker \<Rightarrow> ipc_message list result" where
  "get_session_messages i b = (if bk_closed b then Inl (new_error ErrUnavailable) else Inr (history_of i b))"

definition clear_session_messages :: "id \<Rightarrow> broker \<Rightarrow> go_error option \<times> broker" where
  "clear_session_messages i b =
     (if bk_closed b then (Some (new_error ErrUnavailable), b)
      else (None, b\<lparr>bk_history := mdel i (bk_history b)\<rparr>))"

definition broker_close :: "broker \<Rightarrow> go_error option \<times> broker" where
  "broker_close b =
     (if bk_closed b then (Some (new_error ErrInvalid), b)
      else
        let b1 = drain_messages (bk_queue b) (b\<lparr>bk_closed := True\<rparr>)
        in case socket_close (bk_socket b1) of
          (e, s) \<Rightarrow> (e, b1\<lparr>bk_queue := [], bk_socket := s\<rparr>))"

definition broker_stats_of :: "broker \<Rightarrow> broker_stats" where
  "broker_stats_of b = (bk_stats b)\<lparr>bs_queue_size := int (length (bk_queue b))\<rparr>"

section \<open>Runs\<close>

datatype broker_op =
    BkStart "go_error option"
  | BkSend conn_io id timestamp ipc_message
  | BkBroadcast conn_io id timestamp ipc_message
  | BkRegister string "message_handler option"
  | BkUnregister string
  | BkReceive "go_error option" string
  | BkProcess
  | BkClear id
  | BkSocket socket_op
  | BkClose

fun broker_exec ::
    "(ipc_message \<Rightarrow> string result) \<Rightarrow> (string \<Rightarrow> ipc_message result) \<Rightarrow> broker \<Rightarrow> broker_op \<Rightarrow> broker" where
  "broker_exec enc dec b (BkStart r) = snd (broker_start r b)"
| "broker_exec enc dec b (BkSend io gid now m) = snd (snd (snd (broker_send enc io gid now m b)))"
| "broker_exec enc dec b (BkBroadcast io gid now m) = snd (snd (snd (broker_broadcast enc io gid now m b)))"
| "broker_exec enc dec b (BkRegister t h) = snd (broker_register t h b)"
| "broker_exec enc dec b (BkUnregister t) = snd (broker_unregister t b)"
| "broker_exec enc dec b (BkReceive g d) = snd (broker_receive dec g d b)"
| "broker_exec enc dec b BkProcess = snd (process_message b)"
| "broker_exec enc dec b (BkClear i) = snd (clear_session_messages i b)"
| "broker_exec enc dec b (BkSocket c) = b\<lparr>bk_socket := socket_exec (bk_socket b) c\<rparr>"
| "broker_exec enc dec b BkClose = snd (broker_close b)"

text \<open>What only the processing goroutine changes: the queue and the count of failures.\<close>

lemma handle_message_same [simp]:
  "bk_handlers (snd (handle_message m b)) = bk_handlers b" "bk_history (snd (handle_message m b)) = bk_history b"
  "bk_closed (snd (handle_message m b)) = bk_closed b" "bk_queue (snd (handle_message m b)) = bk_queue b"
  "bs_handlers (bk_stats (snd (handle_message m b))) = bs_handlers (bk_stats b)"
  by (simp_all add: handle_message_def count_failed_def split: option.split)

lemma drain_messages_same [simp]:
  "bk_handlers (drain_messages q b) = bk_handlers b" "bk_history (drain_messages q b) = bk_history b"
  "bk_closed (drain_messages q b) = bk_closed b" "bs_handlers (bk_stats (drain_messages q b)) = bs_handlers (bk_stats b)"
  by (induction q arbitrary: b) simp_all

lemma close_same [simp]:
  "bk_handlers (snd (broker_close b)) = bk_handlers b" "bk_history (snd (broker_close b)) = bk_history b"
  "bs_handlers (bk_stats (snd (broker_close b))) = bs_handlers (bk_stats b)"
  by (simp_all add: broker_close_def Let_def split: prod.split)

lemma snd_process: "snd (process_message b) =
    (case bk_queue b of [] \<Rightarrow> b | m # q \<Rightarrow> snd (handle_message m (b\<lparr>bk_queue := q\<rparr>)))"
  by (simp add: process_message_def split: list.split prod.split)

lemma process_same [simp]:
  "bk_handlers (snd (process_message b)) = bk_handlers b" "bk_history (snd (process_message b)) = bk_history b"
  "bk_closed (snd (process_message b)) = bk_closed b"
  "bs_handlers (bk_stats (snd (process_message b))) = bs_handlers (bk_stats b)"
  by (simp_all add: snd_process split: list.split)

text \<open>What sending leaves alone.\<close>

lemma count_same [simp]:
  "bk_handlers (count_sent b) = bk_handlers b" "bk_history (count_sent b) = bk_history b"
  "bk_queue (count_sent b) = bk_queue b" "bk_closed (count_sent b) = bk_closed b"
  "bs_handlers (bk_stats (count_sent b)) = bs_handlers (bk_stats b)"
  "bk_handlers (count_failed b) = bk_handlers b" "bk_history (count_failed b) = bk_history b"
  "bk_queue (count_failed b) = bk_queue b" "bk_closed (count_failed b) = bk_closed b"
  "bs_handlers (bk_stats (count_failed b)) = bs_handlers (bk_stats b)"
  by (simp_all add: count_sent_def count_failed_def)

lemma store_same [simp]:
  "bk_handlers (store_message m b) = bk_handlers b" "bk_queue (store_message m b) = bk_queue b"
  "bk_closed (store_message m b) = bk_closed b" "bk_stats (store_message m b) = bk_stats b"
  by (simp_all add: store_message_def Let_def)

lemma send_same [simp]:
  "bk_handlers (snd (snd (snd (broker_send enc io gid now m b)))) = bk_handlers b"
  "bk_queue (snd (snd (snd (broker_send enc io gid now m b)))) = bk_queue b"
  "bk_closed (snd (snd (snd (broker_send enc io gid now m b)))) = bk_closed b"
  "bs_handlers (bk_stats (snd (snd (snd (broker_send enc io gid now m b))))) = bs_handlers (bk_stats b)"
  by (simp_all add: broker_send_def Let_def split: option.split sum.split prod.split)

lemma broadcast_same [simp]:
  "bk_handlers (snd (snd (snd (broker_broadcast enc io gid now m b)))) = bk_handlers b"
  "bk_history (snd (snd (snd (broker_broadcast enc io gid now m b)))) = bk_history b"
  "bk_queue (snd (snd (snd (broker_broadcast enc io gid now m b)))) = bk_queue b"
  "bk_closed (snd (snd (snd (broker_broadcast enc io gid now m b)))) = bk_closed b"
  "bs_handlers (bk_stats (snd (snd (snd (broker_broadcast enc io gid now m b))))) = bs_handlers (bk_stats b)"
  by (simp_all add: broker_broadcast_def Let_def split: option.split sum.split prod.split)

lemma receive_same [simp]:
  "bk_handlers (snd (broker_receive dec g d b)) = bk_handlers b" "bk_history (snd (broker_receive dec g d b)) = bk_history b"
  "bk_closed (snd (broker_receive dec g d b)) = bk_closed b"
  "bs_handlers (bk_stats (snd (broker_receive dec g d b))) = bs_handlers (bk_stats b)"
  by (simp_all add: broker_receive_def split: option.split sum.split)

lemma start_same [simp]:
  "bk_handlers (snd (broker_start r b)) = bk_handlers b" "bk_history (snd (broker_start r b)) = bk_history b"
  "bk_queue (snd (broker_start r b)) = bk_queue b"
  "bk_closed (snd (broker_start r b)) = bk_closed b" "bk_stats (snd (broker_start r b)) = bk_stats b"
  by (auto simp: broker_start_def split: option.split prod.split)

lemma register_same [simp]:
  "bk_history (snd (broker_register t h b)) = bk_history b" "bk_closed (snd (broker_register t h b)) = bk_closed b"
  "bk_queue (snd (broker_register t h b)) = bk_queue b"
  "bk_history (snd (broker_unregister t b)) = bk_history b" "bk_closed (snd (broker_unregister t b)) = bk_closed b"
  "bk_queue (snd (broker_unregister t b)) = bk_queue b"
  by (simp_all add: broker_register_def broker_unregister_def Let_def split: option.split)

lemma clear_same [simp]:
  "bk_handlers (snd (clear_session_messages i b)) = bk_handlers b" "bk_queue (snd (clear_session_messages i b)) = bk_queue b"
  "bk_closed (snd (clear_session_messages i b)) = bk_closed b" "bk_stats (snd (clear_session_messages i b)) = bk_stats b"
  by (simp_all add: clear_session_messages_def)

section \<open>The history of a session\<close>

text \<open>
  What was sent for a session since its history was last cleared, kept beside the broker.
\<close>

definition log_step ::
    "(ipc_message \<Rightarrow> string result) \<Rightarrow> id \<Rightarrow> broker \<Rightarrow> ipc_message list \<Rightarrow> broker_op \<Rightarrow> ipc_message list" where
  "log_step enc i b l c =
     (case c of
        BkSend io gid now m \<Rightarrow>
          (case broker_send enc io gid now m b of
             (None, m', _) \<Rightarrow> if im_session (ip_metadata m') = i then l @ [m'] else l
           | (Some e, _) \<Rightarrow> l)
      | BkClear j \<Rightarrow> if j = i \<and> \<not> bk_closed b then [] else l
      | _ \<Rightarrow> l)"

fun session_log ::
    "(ipc_message \<Rightarrow> string result) \<Rightarrow> (string \<Rightarrow> ipc_message result) \<Rightarrow> id \<Rightarrow> broker \<Rightarrow> ipc_message list \<Rightarrow> broker_op list \<Rightarrow> ipc_message list" where
  "session_log enc dec i b l [] = l"
| "session_log enc dec i b l (c # cs) = session_log enc dec i (broker_exec enc dec b c) (log_step enc i b l c) cs"

definition newest :: "'a list \<Rightarrow> 'a list" where
  "newest l = drop (length l - max_history) l"

lemma newest_snoc: "(let ms = newest l @ [x] in if length ms > max_history then drop (length ms - max_history) ms else ms) = newest (l @ [x])"
proof (cases "length l \<ge> max_history")
  case True
  then have "Suc (length l - max_history) = Suc (length l) - max_history" by (rule Suc_diff_le [symmetric])
  with True show ?thesis by (simp add: newest_def Let_def)
qed (simp add: newest_def Let_def)

lemma history_store:
  "i \<noteq> '''' \<Longrightarrow> history_of i b = newest l \<Longrightarrow>
   history_of i (store_message m b) = (if im_session (ip_metadata m) = i then newest (l @ [m]) else newest l)"
  using newest_snoc [of l m] by (auto simp: store_message_def history_of_def id_is_empty_def Let_def)

lemma history_send:
  assumes "i \<noteq> ''''" and h: "history_of i b = newest l"
  shows "history_of i (snd (snd (snd (broker_send enc io gid now m b)))) = newest (log_step enc i b l (BkSend io gid now m))"
proof -
  have same: "history_of i (count_sent b') = history_of i b'" "history_of i (count_failed b') = history_of i b'"
    "history_of i (b'\<lparr>bk_socket := s\<rparr>) = history_of i b'" for b' s
    by (simp_all add: history_of_def)
  have st: "history_of i (store_message m' (b\<lparr>bk_socket := s\<rparr>)) =
      (if im_session (ip_metadata m') = i then newest (l @ [m']) else newest l)" for m' s
    by (rule history_store [OF assms(1)]) (simp add: same h)
  show ?thesis
    using assms st
    by (auto simp: broker_send_def log_step_def Let_def same id_is_empty_def split: option.split sum.split prod.split)
qed

lemma history_exec:
  assumes "i \<noteq> ''''" and h: "history_of i b = newest l"
  shows "history_of i (broker_exec enc dec b c) = newest (log_step enc i b l c)"
proof (cases c)
  case (BkSend io gid now m)
  then show ?thesis using history_send [OF assms] by simp
next
  case (BkClear j)
  then show ?thesis using h
    by (auto simp: clear_session_messages_def history_of_def log_step_def newest_def split: option.splits)
qed (use h in \<open>simp_all add: log_step_def history_of_def\<close>)

lemma history_run: "i \<noteq> '''' \<Longrightarrow> history_of i b = newest l \<Longrightarrow>
  history_of i (foldl (broker_exec enc dec) b cs) = newest (session_log enc dec i b l cs)"
  by (induction cs arbitrary: b l) (simp_all add: history_exec)

text \<open>
  The history of a session is, over all calls, the last thousand of the messages that were sent
  for it since it was last cleared, in the order in which they were sent; what fails is not in it.
\<close>

lemma session_history_exact:
  assumes "new_broker cfg r = Inr b0" and "i \<noteq> ''''" and "b = foldl (broker_exec enc dec) b0 cs" and "\<not> bk_closed b"
  shows "get_session_messages i b =
    (let l = session_log enc dec i b0 [] cs in Inr (drop (length l - 1000) l))"
proof -
  have "history_of i b0 = newest []"
    using assms(1) by (auto simp: new_broker_def history_of_def newest_def split: sum.splits)
  from history_run [OF assms(2) this, of enc dec cs] show ?thesis
    using assms(3,4) by (simp add: get_session_messages_def newest_def max_history_def Let_def)
qed

definition sample_broker_config :: ipc_config where
  "sample_broker_config = \<lparr>ic_socket_path = ''/run/ipc'', ic_buffer_size = 0, ic_timeout = 0, ic_max_connections = 4, ic_enable_auth = True\<rparr>"

definition sample_ipc_message :: ipc_message where
  "sample_ipc_message = \<lparr>ip_id = ''m1'', ip_source = ''c0'', ip_target = ''c1'', ip_type = ''request'', ip_payload = ''hello'',
     ip_metadata = \<lparr>im_correlation = '''', im_session = ''s1'', im_message_id = '''', im_headers = []\<rparr>, ip_timestamp = 7\<rparr>"

definition sample_broker :: broker where
  "sample_broker = projr (new_broker sample_broker_config None)"

lemma sample_broker: "new_broker sample_broker_config None = Inr sample_broker"
  by (simp add: sample_broker_def new_broker_def new_socket_def)

definition sample_sends :: "broker_op list" where
  "sample_sends = [BkSocket (SAccept ''a''), BkSocket SHandOver, BkSocket (SRegister 1),
     BkSocket (SAuthenticate ''a-1'' ''c1'' ''s1''), BkSend sample_conn_io ''g'' 3 sample_ipc_message]"

lemma dec_int_1: "dec_int 1 = ''1''"
  by code_simp

lemma sample_sent:
  "broker_send (Inr \<circ> ip_payload) sample_conn_io ''g'' 3 sample_ipc_message
     (foldl (broker_exec (Inr \<circ> ip_payload) dec) sample_broker (take 4 sample_sends)) =
   (None, sample_ipc_message, [(''a-1'', ''hello'')],
     foldl (broker_exec (Inr \<circ> ip_payload) dec) sample_broker sample_sends)"
  "bk_closed (foldl (broker_exec (Inr \<circ> ip_payload) dec) sample_broker sample_sends) = False"
  "session_log (Inr \<circ> ip_payload) dec ''s1'' sample_broker [] sample_sends = [sample_ipc_message]"
  by (simp_all add: sample_sends_def sample_broker_def new_broker_def new_socket_def sample_broker_config_def accept_check_def
      accept_hand_over_def accept_loop_def handle_connection_def accept_cap_def conn_id_def dec_int_1 mput_def mget_def
      authenticate_def broker_send_def validate_message_def sample_ipc_message_def stamp_message_def id_is_empty_def ts_is_zero_def
      socket_send_def deadline_fails_def sample_conn_io_def log_step_def Let_def)

lemma session_history_exact_witness:
  "get_session_messages ''s1'' (foldl (broker_exec (Inr \<circ> ip_payload) (\<lambda>_. Inl (new_error ErrInvalid))) sample_broker sample_sends)
     = Inr [sample_ipc_message]"
  using session_history_exact [OF sample_broker _ refl, of "''s1''" "Inr \<circ> ip_payload" "\<lambda>_. Inl (new_error ErrInvalid)" sample_sends]
  by (simp add: sample_sent)

section \<open>The invariant\<close>

definition valid_message :: "ipc_message \<Rightarrow> bool" where
  "valid_message m \<longleftrightarrow> validate_message m = None"

lemma valid_message_iff: "valid_message m \<longleftrightarrow> ip_source m \<noteq> '''' \<and> ip_target m \<noteq> '''' \<and> ip_type m \<noteq> ''''"
  by (simp add: valid_message_def validate_message_def id_is_empty_def)

lemma valid_stamp [simp]: "valid_message (stamp_message gid now m) = valid_message m"
  by (simp add: valid_message_iff stamp_message_def Let_def)

definition history_ok :: "id \<Rightarrow> ipc_message list \<Rightarrow> bool" where
  "history_ok i ms \<longleftrightarrow> length ms \<le> max_history \<and> (\<forall>m \<in> set ms. valid_message m \<and> im_session (ip_metadata m) = i)"

definition broker_ok :: "broker \<Rightarrow> bool" where
  "broker_ok b \<longleftrightarrow> mwf (bk_handlers b) \<and> bs_handlers (bk_stats b) = mlen (bk_handlers b)
     \<and> length (bk_queue b) \<le> broker_queue_cap \<and> list_all valid_message (bk_queue b)
     \<and> mall (\<lambda>i ms. i \<noteq> '''' \<and> history_ok i ms) (bk_history b)"

lemma broker_okI:
  "mwf (bk_handlers b) \<Longrightarrow> bs_handlers (bk_stats b) = mlen (bk_handlers b) \<Longrightarrow> length (bk_queue b) \<le> broker_queue_cap \<Longrightarrow>
   list_all valid_message (bk_queue b) \<Longrightarrow> mall (\<lambda>i ms. i \<noteq> '''' \<and> history_ok i ms) (bk_history b) \<Longrightarrow> broker_ok b"
  by (simp add: broker_ok_def)

lemma broker_okD:
  assumes "broker_ok b"
  shows "mwf (bk_handlers b)" "bs_handlers (bk_stats b) = mlen (bk_handlers b)" "length (bk_queue b) \<le> broker_queue_cap"
    "list_all valid_message (bk_queue b)" "mall (\<lambda>i ms. i \<noteq> '''' \<and> history_ok i ms) (bk_history b)"
  using assms by (simp_all add: broker_ok_def)

lemma history_ok_newest: "history_ok i ms \<Longrightarrow> valid_message m \<Longrightarrow> im_session (ip_metadata m) = i \<Longrightarrow>
  history_ok i (if length (ms @ [m]) > max_history then drop (length (ms @ [m]) - max_history) (ms @ [m]) else ms @ [m])"
  by (auto simp: history_ok_def dest: in_set_dropD)

lemma store_mall:
  assumes "mall (\<lambda>i ms. i \<noteq> '''' \<and> history_ok i ms) (bk_history b)" and "valid_message m"
  shows "mall (\<lambda>i ms. i \<noteq> '''' \<and> history_ok i ms) (bk_history (store_message m b))"
proof -
  have "history_ok i (history_of i b)" for i
    using mall_get [OF assms(1), of i] by (auto simp: history_of_def history_ok_def split: option.split)
  from history_ok_newest [OF this assms(2) refl] show ?thesis
    using assms(1) unfolding store_message_def Let_def id_is_empty_def by (auto intro!: mall_mput simp del: length_append drop_append)
qed

lemma send_mall:
  assumes "mall (\<lambda>i ms. i \<noteq> '''' \<and> history_ok i ms) (bk_history b)"
  shows "mall (\<lambda>i ms. i \<noteq> '''' \<and> history_ok i ms) (bk_history (snd (snd (snd (broker_send enc io gid now m b)))))"
proof -
  have "mall (\<lambda>i ms. i \<noteq> '''' \<and> history_ok i ms) (bk_history (store_message (stamp_message gid now m) (b\<lparr>bk_socket := s\<rparr>)))"
    if "validate_message m = None" for s
    using assms that by (intro store_mall) (simp_all add: valid_message_def [symmetric])
  then show ?thesis
    using assms by (auto simp: broker_send_def Let_def split: option.split sum.split prod.split)
qed

lemma close_queue: "bk_queue (snd (broker_close b)) = [] \<or> snd (broker_close b) = b"
  by (simp add: broker_close_def Let_def split: prod.split)

lemma broker_ok_exec:
  assumes ok: "broker_ok b"
  shows "broker_ok (broker_exec enc dec b c)"
proof (cases c)
  case (BkSend io gid now m)
  show ?thesis using ok send_mall [OF broker_okD(5) [OF ok]] unfolding BkSend
    by (intro broker_okI) (simp_all add: broker_ok_def)
next
  case (BkRegister t h)
  then show ?thesis using ok
    by (auto simp: broker_register_def broker_ok_def mlen_mput Let_def split: option.split)
next
  case (BkUnregister t)
  then show ?thesis using ok by (auto simp: broker_unregister_def broker_ok_def mlen_mdel)
next
  case (BkReceive g d)
  then show ?thesis using ok
    by (auto simp: broker_receive_def broker_ok_def valid_message_def split: option.split sum.split)
next
  case BkProcess
  then show ?thesis using ok by (auto simp: broker_ok_def snd_process split: list.split)
next
  case (BkClear i)
  then show ?thesis using ok by (auto simp: clear_session_messages_def broker_ok_def intro: mall_mdel)
next
  case BkClose
  then show ?thesis using ok close_queue [of b] by (auto simp: broker_ok_def)
qed (use ok in \<open>simp_all add: broker_ok_def\<close>)

lemma broker_closed_exec: "bk_closed b \<Longrightarrow> bk_closed (broker_exec enc dec b c)"
  by (cases c) (simp_all add: broker_close_def)

interpretation brokers: closable_machine "broker_exec enc dec" broker_ok bk_closed for enc dec
  by unfold_locales (rule broker_ok_exec, assumption, rule broker_closed_exec)

text \<open>
  In every state of a broker the count of handlers is the number of registered types, no more
  than a thousand messages wait, all of them valid, each history holds at most a thousand valid messages of its
  session; and after \<open>Close\<close> a valid message that arrives with room to wait makes the receiver panic.
\<close>

lemma broker_runs_stay_consistent:
  assumes "new_broker cfg r = Inr b0" and "b = foldl (broker_exec enc dec) b0 cs"
  shows "broker_ok b
    \<and> (bk_closed b \<longrightarrow> (\<forall>ds. bk_closed (foldl (broker_exec enc dec) b ds)
         \<and> (\<forall>d m. dec d = Inr m \<and> valid_message m \<longrightarrow>
              fst (broker_receive dec None d (foldl (broker_exec enc dec) b ds)) = ReceivePanic)))"
proof -
  have "broker_ok b0" using assms(1) by (auto simp: new_broker_def broker_ok_def split: sum.splits)
  then have "broker_ok b" unfolding assms(2) by (rule brokers.run_good)
  moreover have "bk_closed (foldl (broker_exec enc dec) b ds)" if "bk_closed b" for ds
    by (rule brokers.run_shut [OF that])
  ultimately show ?thesis by (simp add: broker_receive_def valid_message_def)
qed

lemma broker_runs_stay_consistent_witness:
  "fst (broker_receive (\<lambda>_. Inr sample_ipc_message) None ''x''
     (foldl (broker_exec (Inr \<circ> ip_payload) (\<lambda>_. Inr sample_ipc_message)) sample_broker [BkClose])) = ReceivePanic"
proof -
  have "bk_closed (foldl (broker_exec (Inr \<circ> ip_payload) (\<lambda>_. Inr sample_ipc_message)) sample_broker [BkClose])"
    by (simp add: broker_close_def sample_broker_def new_broker_def new_socket_def sample_broker_config_def socket_close_def)
  moreover have "valid_message sample_ipc_message" by (simp add: valid_message_iff sample_ipc_message_def)
  ultimately show ?thesis
    using broker_runs_stay_consistent [OF sample_broker refl, of "Inr \<circ> ip_payload" "\<lambda>_. Inr sample_ipc_message" "[BkClose]"]
    by (metis foldl_Nil)
qed

end
