(* ===== verification/Tool_Types.thy ===== *)
theory Tool_Types
  imports Container_Types Go_Strings
begin

text \<open>
  pkg/tools/types.go and the definitions of the built-in tools of pkg/tools/registry.go.
  A slice or map whose being nil matters is an \<open>option\<close>.
\<close>

datatype tool_type =
    ToolUnspecified | ToolFile | ToolShell | ToolWeb | ToolMessage | ToolCustom | ToolTypeOther string

datatype execution_status =
    ExecUnspecified | ExecPending | ExecRunning | ExecCompleted | ExecFailed | ExecTimeout | ExecCancelled

datatype parameter_type =
    ParamUnspecified | ParamString | ParamInteger | ParamFloat | ParamBoolean | ParamArray | ParamObject
  | ParamFilePath | ParamDirectoryPath

record tool_parameter =
  tp_name :: string
  tp_description :: string
  tp_type :: parameter_type
  tp_required :: bool
  tp_default :: string
  tp_allowed :: "string list"
  tp_constraints :: "(string, string) gomap"

record tool_security_policy =
  ts_allow_network :: bool
  ts_allowed_hosts :: "string list"
  ts_blocked_hosts :: "string list"
  ts_allow_filesystem :: bool
  ts_allowed_paths :: "string list"
  ts_read_only_filesystem :: bool
  ts_allow_ipc :: bool
  ts_max_concurrent :: int
  ts_allowed_users :: "string list"
  ts_blocked_commands :: "string list"

record tool_definition =
  td_name :: string
  td_display_name :: string
  td_type :: tool_type
  td_description :: string
  td_parameters :: "tool_parameter list option"
  td_security :: tool_security_policy
  td_limits :: resource_limits
  td_timeout :: duration
  td_image :: string
  td_command :: "string list option"
  td_metadata :: "(string, string) gomap option"
  td_version :: string
  td_enabled :: bool

record tool_result =
  tr_execution_id :: string
  tr_tool_name :: string
  tr_status :: execution_status
  tr_exit_code :: int
  tr_output :: string
  tr_error :: string
  tr_metadata :: "(string, string) gomap"
  tr_duration :: duration
  tr_completed :: timestamp
  tr_container :: string

record tool_usage_stats =
  us_total :: int
  us_successful :: int
  us_failed :: int
  us_timeout :: int
  us_cancelled :: int
  us_total_duration :: duration
  us_average_duration :: duration
  us_last_execution :: "timestamp option"

definition no_security :: tool_security_policy where
  "no_security = \<lparr>ts_allow_network = False, ts_allowed_hosts = [], ts_blocked_hosts = [], ts_allow_filesystem = False,
     ts_allowed_paths = [], ts_read_only_filesystem = False, ts_allow_ipc = False, ts_max_concurrent = 0,
     ts_allowed_users = [], ts_blocked_commands = []\<rparr>"

definition no_definition :: tool_definition where
  "no_definition = \<lparr>td_name = '''', td_display_name = '''', td_type = ToolTypeOther '''', td_description = '''',
     td_parameters = None, td_security = no_security, td_limits = zero_resources, td_timeout = 0, td_image = '''',
     td_command = None, td_metadata = None, td_version = '''', td_enabled = False\<rparr>"

definition no_usage_stats :: tool_usage_stats where
  "no_usage_stats = \<lparr>us_total = 0, us_successful = 0, us_failed = 0, us_timeout = 0, us_cancelled = 0,
     us_total_duration = 0, us_average_duration = 0, us_last_execution = None\<rparr>"

text \<open>A range over a slice that may be nil.\<close>

definition elements :: "'a list option \<Rightarrow> 'a list" where
  "elements xs = (case xs of None \<Rightarrow> [] | Some ys \<Rightarrow> ys)"

definition required_params :: "tool_definition \<Rightarrow> string list" where
  "required_params d = map tp_name (filter tp_required (elements (td_parameters d)))"

section \<open>The built-in tools\<close>

definition required_param :: "string \<Rightarrow> string \<Rightarrow> parameter_type \<Rightarrow> tool_parameter" where
  "required_param n desc t = \<lparr>tp_name = n, tp_description = desc, tp_type = t, tp_required = True,
     tp_default = '''', tp_allowed = [], tp_constraints = []\<rparr>"

definition builtin_definition ::
    "string \<Rightarrow> string \<Rightarrow> tool_type \<Rightarrow> string \<Rightarrow> tool_parameter list \<Rightarrow> tool_security_policy \<Rightarrow> string \<times> tool_definition" where
  "builtin_definition n disp t desc ps sec =
     (n, no_definition\<lparr>td_name := n, td_display_name := disp, td_type := t, td_description := desc,
        td_parameters := Some ps, td_security := sec, td_enabled := True\<rparr>)"

definition read_only_files :: tool_security_policy where
  "read_only_files = no_security\<lparr>ts_allow_filesystem := True, ts_read_only_filesystem := True, ts_max_concurrent := 10\<rparr>"

definition writable_files :: tool_security_policy where
  "writable_files = no_security\<lparr>ts_allow_filesystem := True, ts_max_concurrent := 10\<rparr>"

definition network_only :: tool_security_policy where
  "network_only = no_security\<lparr>ts_allow_network := True, ts_max_concurrent := 5\<rparr>"

definition shell_security :: tool_security_policy where
  "shell_security = no_security\<lparr>ts_max_concurrent := 5, ts_blocked_commands := [''rm -rf /'', ''mkfs'', ''dd if=/dev/zero'']\<rparr>"

definition message_security :: tool_security_policy where
  "message_security = no_security\<lparr>ts_allow_ipc := True, ts_max_concurrent := 20\<rparr>"

definition file_definitions :: "(string, tool_definition) gomap" where
  "file_definitions =
    [builtin_definition ''read_file'' ''Read File'' ToolFile ''Read the contents of a file''
       [required_param ''path'' ''Path to the file to read'' ParamFilePath] read_only_files,
     builtin_definition ''write_file'' ''Write File'' ToolFile ''Write content to a file''
       [required_param ''path'' ''Path to the file to write'' ParamFilePath,
        required_param ''content'' ''Content to write to the file'' ParamString] writable_files,
     builtin_definition ''edit_file'' ''Edit File'' ToolFile ''Edit a file by replacing text''
       [required_param ''path'' ''Path to the file to edit'' ParamFilePath,
        required_param ''old_text'' ''Text to replace'' ParamString,
        required_param ''new_text'' ''Replacement text'' ParamString] writable_files,
     builtin_definition ''list_dir'' ''List Directory'' ToolFile ''List the contents of a directory''
       [required_param ''path'' ''Path to the directory to list'' ParamDirectoryPath] read_only_files,
     builtin_definition ''grep'' ''Grep'' ToolFile ''Search for text in files using grep''
       [required_param ''pattern'' ''Regular expression pattern to search for'' ParamString,
        required_param ''path'' ''Path to search in'' ParamString] read_only_files,
     builtin_definition ''find'' ''Find'' ToolFile ''Find files by name or pattern''
       [required_param ''pattern'' ''File name pattern to search for'' ParamString,
        required_param ''path'' ''Path to search in'' ParamDirectoryPath] read_only_files]"

definition other_definitions :: "(string, tool_definition) gomap" where
  "other_definitions =
    [builtin_definition ''exec'' ''Execute Shell Command'' ToolShell ''Execute a shell command in an isolated container''
       [required_param ''command'' ''Shell command to execute'' ParamString] shell_security,
     builtin_definition ''web_search'' ''Web Search'' ToolWeb ''Search the web for information''
       [required_param ''query'' ''Search query'' ParamString] network_only,
     builtin_definition ''web_fetch'' ''Web Fetch'' ToolWeb ''Fetch a URL and return its content''
       [required_param ''url'' ''URL to fetch'' ParamString] network_only,
     builtin_definition ''message'' ''Message'' ToolMessage ''Send a message through the orchestrator''
       [required_param ''content'' ''Message content'' ParamString] message_security]"

definition builtin_definitions :: "(string, tool_definition) gomap" where
  "builtin_definitions = file_definitions @ other_definitions"

definition list_builtin_tools :: "string list" where
  "list_builtin_tools = mkeys builtin_definitions"

section \<open>Overriding a definition\<close>

definition has_security_override :: "tool_security_policy \<Rightarrow> bool" where
  "has_security_override p \<longleftrightarrow> ts_allow_network p \<or> ts_allow_filesystem p \<or> ts_read_only_filesystem p \<or> ts_allow_ipc p
     \<or> ts_max_concurrent p \<noteq> 0 \<or> length (ts_allowed_hosts p) > 0 \<or> length (ts_blocked_hosts p) > 0
     \<or> length (ts_allowed_paths p) > 0 \<or> length (ts_allowed_users p) > 0 \<or> length (ts_blocked_commands p) > 0"

definition type_given :: "tool_type \<Rightarrow> bool" where
  "type_given t \<longleftrightarrow> t \<noteq> ToolTypeOther '''' \<and> t \<noteq> ToolUnspecified"

definition merge_definitions :: "tool_definition \<Rightarrow> tool_definition \<Rightarrow> tool_definition" where
  "merge_definitions base ov = base\<lparr>
     td_name := (if td_name ov \<noteq> '''' then td_name ov else td_name base),
     td_enabled := td_enabled ov,
     td_display_name := (if td_display_name ov \<noteq> '''' then td_display_name ov else td_display_name base),
     td_type := (if type_given (td_type ov) then td_type ov else td_type base),
     td_description := (if td_description ov \<noteq> '''' then td_description ov else td_description base),
     td_parameters := (if td_parameters ov \<noteq> None then td_parameters ov else td_parameters base),
     td_security := (if has_security_override (td_security ov) then td_security ov else td_security base),
     td_limits := (if td_limits ov \<noteq> zero_resources then td_limits ov else td_limits base),
     td_timeout := (if td_timeout ov \<noteq> 0 then td_timeout ov else td_timeout base),
     td_image := (if td_image ov \<noteq> '''' then td_image ov else td_image base),
     td_command := (if td_command ov \<noteq> None then td_command ov else td_command base),
     td_metadata := (if td_metadata ov \<noteq> None then td_metadata ov else td_metadata base),
     td_version := (if td_version ov \<noteq> '''' then td_version ov else td_version base)\<rparr>"

definition definitions_match :: "tool_definition \<Rightarrow> tool_definition \<Rightarrow> bool" where
  "definitions_match a b \<longleftrightarrow> td_name a = td_name b \<and> td_type a = td_type b \<and> td_enabled a = td_enabled b
     \<and> td_image a = td_image b"

lemma has_security_override_iff: "has_security_override p \<longleftrightarrow> p \<noteq> no_security"
  by (cases p) (auto simp: has_security_override_def no_security_def)

lemma merge_definitions_assoc: "merge_definitions (merge_definitions a b) c = merge_definitions a (merge_definitions b c)"
  by (rule tool_definition.equality) (auto simp: merge_definitions_def)

lemma merge_definitions_idem: "merge_definitions a a = a"
  by (simp add: merge_definitions_def)

lemma builtin_names: "mwf builtin_definitions" "mall (\<lambda>n d. td_name d = n \<and> td_enabled d) builtin_definitions"
  by code_simp+

text \<open>The policy that forbids everything is the one that is taken for no policy.\<close>

lemma strictest_override_ignored: "td_security ov = no_security \<Longrightarrow> td_security (merge_definitions base ov) = td_security base"
  by (simp add: merge_definitions_def has_security_override_def no_security_def)

end
