(* ===== verification/Builtin_Tools.thy ===== *)
theory Builtin_Tools
  imports Tool_Types Ipc_Broker Go_Files "HOL-Library.Signed_Division"
begin

text \<open>
  pkg/tools/builtin: the file, shell, web and message tools, and the placeholder of
  pkg/tools/registry.go.  The four tools have the same fields and the same skeleton of
  \<open>Execute\<close>; what they do to the outside is a list of effects, and what the outside answers is
  a parameter: the file system, the shell, the parser of URLs, the HTTP client, the broker.
\<close>

section \<open>Tools and what they touch\<close>

datatype tool_kind =
    FileTool
  | ShellTool "string list"
  | WebTool "string list" "string list" duration
  | MessageTool id
  | PlaceholderTool tool_type

record tool =
  tl_kind :: tool_kind
  tl_name :: string
  tl_def :: tool_definition
  tl_enabled :: bool
  tl_closed :: bool
  tl_stats :: tool_usage_stats
  tl_last_used :: "timestamp option"

datatype stat_result = StatFile | StatDir | StatMissing | StatFails go_error

datatype shell_exit = ShellExit int | ShellFailed

record url_parts =
  up_scheme :: string
  up_host :: string
  up_hostname :: string

text \<open>What one GET request gets: an error, a redirect to follow with its target, or another reply with its body.\<close>

datatype http_reply = HttpFails go_error | HttpRedirect string | HttpReply int "string result"

text \<open>
  \<open>te_walk\<close> gives the entries of a walk in its order, an error where one is met;
  \<open>te_glob\<close> is \<open>filepath.Match\<close> of a pattern and a name.
\<close>

record tool_env =
  te_stat :: "string \<Rightarrow> stat_result"
  te_read :: "string \<Rightarrow> string result"
  te_mkdir :: "string \<Rightarrow> go_error option"
  te_write :: "string \<Rightarrow> string \<Rightarrow> go_error option"
  te_readdir :: "string \<Rightarrow> (string \<times> bool option) list result"
  te_walk :: "string \<Rightarrow> (string \<times> bool result) list"
  te_glob :: "string \<Rightarrow> string \<Rightarrow> bool result"
  te_shell :: "string \<Rightarrow> string \<times> shell_exit"
  te_parse_url :: "string \<Rightarrow> url_parts result"
  te_http :: "string \<Rightarrow> http_reply"
  te_send :: "ipc_message \<Rightarrow> go_error option"
  te_gid :: id
  te_now :: timestamp

datatype tool_effect =
    EffMkdir string
  | EffWrite string string
  | EffShell string
  | EffFetch string
  | EffRedirect string string
  | EffSend ipc_message

text \<open>
  \<open>Do\<close> of an \<open>http.Client\<close> without a redirect policy of its own, as the tool makes it: redirects are followed
  until ten requests have been made.  \<open>EffRedirect u v\<close> is the request for \<open>v\<close> that the client makes
  because the reply to the request for \<open>u\<close> redirects to \<open>v\<close>.
\<close>

fun client_do :: "(string \<Rightarrow> http_reply) \<Rightarrow> nat \<Rightarrow> string \<Rightarrow> (int \<times> string result) result \<times> tool_effect list" where
  "client_do http left u =
     (case http u of
        HttpFails e \<Rightarrow> (Inl e, [])
      | HttpReply code body \<Rightarrow> (Inr (code, body), [])
      | HttpRedirect v \<Rightarrow>
          (case left of
             0 \<Rightarrow> (Inl (PlainErr ''stopped after 10 redirects''), [])
           | Suc k \<Rightarrow> (case client_do http k v of (q, effs) \<Rightarrow> (q, EffRedirect u v # effs))))"

declare client_do.simps [simp del]

definition max_redirects :: nat where
  "max_redirects = 9"

text \<open>Output, exit code, error and effects of an operation.\<close>

type_synonym op_outcome = "string \<times> int \<times> go_error option \<times> tool_effect list"

type_synonym params = "(string, string) gomap"

definition pget :: "params \<Rightarrow> string \<Rightarrow> string" where
  "pget ps k = (case mget ps k of None \<Rightarrow> '''' | Some v \<Rightarrow> v)"

definition op_fails :: "go_error \<Rightarrow> op_outcome" where
  "op_fails e = ('''', 1, Some e, [])"

section \<open>File operations\<close>

definition validate_file_path :: "tool_env \<Rightarrow> string \<Rightarrow> string \<Rightarrow> go_error option" where
  "validate_file_path env name p =
     (if p = '''' then Some (new_error ErrInvalidArgument)
      else case te_stat env (path_clean p) of
        StatMissing \<Rightarrow> if name = ''write_file'' then None else Some (new_error ErrNotFound)
      | StatFails e \<Rightarrow> Some e
      | StatDir \<Rightarrow> Some (new_error ErrInvalidArgument)
      | StatFile \<Rightarrow> None)"

definition validate_directory_path :: "tool_env \<Rightarrow> string \<Rightarrow> go_error option" where
  "validate_directory_path env p =
     (if p = '''' then Some (new_error ErrInvalidArgument)
      else case te_stat env (path_clean p) of
        StatMissing \<Rightarrow> Some (new_error ErrNotFound)
      | StatFails e \<Rightarrow> Some e
      | StatFile \<Rightarrow> Some (new_error ErrInvalidArgument)
      | StatDir \<Rightarrow> None)"

definition read_file :: "tool_env \<Rightarrow> string \<Rightarrow> params \<Rightarrow> op_outcome" where
  "read_file env name ps =
     (let p = pget ps ''path''
      in case validate_file_path env name p of
        Some e \<Rightarrow> op_fails e
      | None \<Rightarrow> (case te_read env p of Inl e \<Rightarrow> op_fails e | Inr s \<Rightarrow> (s, 0, None, [])))"

definition write_file :: "tool_env \<Rightarrow> params \<Rightarrow> op_outcome" where
  "write_file env ps =
     (let p = pget ps ''path''; text = pget ps ''content''; d = path_dir p
      in case te_mkdir env d of
        Some e \<Rightarrow> ('''', 1, Some e, [EffMkdir d])
      | None \<Rightarrow>
          (case te_write env p text of
             Some e \<Rightarrow> ('''', 1, Some e, [EffMkdir d, EffWrite p text])
           | None \<Rightarrow> (''Successfully wrote '' @ dec_nat (length text) @ '' bytes to '' @ p, 0, None,
                      [EffMkdir d, EffWrite p text])))"

definition edit_file :: "tool_env \<Rightarrow> string \<Rightarrow> params \<Rightarrow> op_outcome" where
  "edit_file env name ps =
     (let p = pget ps ''path''; old = pget ps ''old_text''; nw = pget ps ''new_text''
      in if old = '''' then op_fails (new_error ErrInvalidArgument)
         else case validate_file_path env name p of
           Some e \<Rightarrow> op_fails e
         | None \<Rightarrow>
             (case te_read env p of
                Inl e \<Rightarrow> op_fails e
              | Inr s \<Rightarrow>
                  if \<not> str_contains s old then op_fails (PlainErr ''old_text not found in file'')
                  else
                    let s' = replace_all old nw s
                    in case te_write env p s' of
                      Some e \<Rightarrow> ('''', 1, Some e, [EffWrite p s'])
                    | None \<Rightarrow> (''Successfully replaced '' @ dec_nat (str_count old s) @ '' occurrence(s) in '' @ p, 0, None,
                               [EffWrite p s'])))"

definition dir_line :: "string \<times> bool option \<Rightarrow> string" where
  "dir_line x =
     (case x of
        (n, Some d) \<Rightarrow> ''  '' @ n @ '' ('' @ (if d then ''dir'' else ''file'') @ '')'' @ [newline]
      | (n, None) \<Rightarrow> ''  '' @ n @ [newline])"

definition list_dir :: "tool_env \<Rightarrow> params \<Rightarrow> op_outcome" where
  "list_dir env ps =
     (let p = pget ps ''path''
      in case validate_directory_path env p of
        Some e \<Rightarrow> op_fails e
      | None \<Rightarrow>
          (case te_readdir env p of
             Inl e \<Rightarrow> op_fails e
           | Inr es \<Rightarrow> (''Contents of '' @ p @ '':'' @ [newline] @ concat (map dir_line es), 0, None, [])))"

definition grep_lines :: "string \<Rightarrow> string \<Rightarrow> string list" where
  "grep_lines s pat =
     map (\<lambda>(n, l). dec_nat n @ '': '' @ l)
       (filter (\<lambda>(n, l). str_contains l pat) (List.zip [1..<Suc (length (split_on newline s))] (split_on newline s)))"

text \<open>The walk stops at the first error; a file that cannot be read is passed over.\<close>

fun grep_walk :: "tool_env \<Rightarrow> string \<Rightarrow> (string \<times> bool result) list \<Rightarrow> string result" where
  "grep_walk env pat [] = Inr ''''"
| "grep_walk env pat ((p, Inl e) # es) = Inl e"
| "grep_walk env pat ((p, Inr d) # es) =
     (case grep_walk env pat es of
        Inl e \<Rightarrow> Inl e
      | Inr rest \<Rightarrow>
          Inr ((if d then ''''
                else case te_read env p of
                  Inl e \<Rightarrow> ''''
                | Inr s \<Rightarrow>
                    let ls = grep_lines s pat
                    in if length ls > 0 then p @ '':'' @ [newline] @ concat (map (\<lambda>l. ''  '' @ l @ [newline]) ls) else '''') @ rest))"

definition no_matches :: "string \<Rightarrow> op_outcome" where
  "no_matches pat = (''No matches found for pattern: '' @ pat, 0, None, [])"

definition grep_op :: "tool_env \<Rightarrow> params \<Rightarrow> op_outcome" where
  "grep_op env ps =
     (let pat = pget ps ''pattern''; p = pget ps ''path''
      in case te_stat env p of
        StatMissing \<Rightarrow> op_fails (PlainErr ''failed to stat path'')
      | StatFails e \<Rightarrow> op_fails e
      | StatDir \<Rightarrow>
          (case grep_walk env pat (te_walk env p) of
             Inl e \<Rightarrow> op_fails e
           | Inr s \<Rightarrow> if s = '''' then no_matches pat else (s, 0, None, []))
      | StatFile \<Rightarrow>
          (case te_read env p of
             Inl e \<Rightarrow> op_fails e
           | Inr s \<Rightarrow>
               let ls = grep_lines s pat
               in if length ls = 0 then no_matches pat else (concat (map (\<lambda>l. l @ [newline]) ls), 0, None, [])))"

fun find_walk :: "tool_env \<Rightarrow> string \<Rightarrow> (string \<times> bool result) list \<Rightarrow> string list result" where
  "find_walk env pat [] = Inr []"
| "find_walk env pat ((p, Inl e) # es) = Inl e"
| "find_walk env pat ((p, Inr d) # es) =
     (case te_glob env pat (path_base p) of
        Inl e \<Rightarrow> Inl e
      | Inr hit \<Rightarrow> (case find_walk env pat es of Inl e \<Rightarrow> Inl e | Inr ps \<Rightarrow> Inr (if hit then p # ps else ps)))"

definition find_op :: "tool_env \<Rightarrow> params \<Rightarrow> op_outcome" where
  "find_op env ps =
     (let pat = pget ps ''pattern''; p = pget ps ''path''
      in case validate_directory_path env p of
        Some e \<Rightarrow> op_fails e
      | None \<Rightarrow>
          (case find_walk env pat (te_walk env p) of
             Inl e \<Rightarrow> op_fails e
           | Inr fs \<Rightarrow>
               if length fs = 0 then (''No files found matching pattern: '' @ pat, 0, None, [])
               else (''Found '' @ dec_nat (length fs) @ '' file(s):'' @ [newline] @ concat (map (\<lambda>f. ''  '' @ f @ [newline]) fs),
                     0, None, [])))"

section \<open>Shell, web and messages\<close>

definition check_blocked_commands :: "string list \<Rightarrow> string \<Rightarrow> go_error option" where
  "check_blocked_commands blocked c =
     (if list_ex (\<lambda>bl. str_contains (to_lower (trim_space c)) (to_lower (trim_space bl))) blocked
      then Some (new_error ErrPermissionDenied) else None)"

definition exec_command :: "tool_env \<Rightarrow> params \<Rightarrow> op_outcome" where
  "exec_command env ps =
     (let c = pget ps ''command''
      in case te_shell env c of
        (out, ShellExit n) \<Rightarrow> (out, n, None, [EffShell c])
      | (out, ShellFailed) \<Rightarrow> (out, 1, None, [EffShell c]))"

definition host_within :: "string \<Rightarrow> string \<Rightarrow> bool" where
  "host_within host entry \<longleftrightarrow>
     (let h = to_lower (trim_space host); a = to_lower (trim_space entry)
      in h = a \<or> has_suffix h (''.'' @ a))"

definition check_blocked_hosts :: "string list \<Rightarrow> string \<Rightarrow> go_error option" where
  "check_blocked_hosts blocked host =
     (if list_ex (host_within host) blocked then Some (new_error ErrPermissionDenied) else None)"

definition check_allowed_hosts :: "string list \<Rightarrow> string \<Rightarrow> go_error option" where
  "check_allowed_hosts allowed host =
     (if length allowed = 0 then None
      else if list_ex (host_within host) allowed then None
      else Some (new_error ErrPermissionDenied))"

definition web_search :: "params \<Rightarrow> op_outcome" where
  "web_search ps =
     (''Web search performed for query: '' @ pget ps ''query'' @ [newline]
        @ ''Note: This is a placeholder implementation.'' @ [newline]
        @ ''In the containerized version, this would use a search API.'' @ [newline], 0, None, [])"

definition web_fetch :: "string list \<Rightarrow> string list \<Rightarrow> tool_env \<Rightarrow> params \<Rightarrow> op_outcome" where
  "web_fetch allowed blocked env ps =
     (let u = pget ps ''url''
      in case te_parse_url env u of
        Inl e \<Rightarrow> op_fails e
      | Inr parts \<Rightarrow>
          (case check_blocked_hosts blocked (up_hostname parts) of
             Some e \<Rightarrow> op_fails e
           | None \<Rightarrow>
               (case check_allowed_hosts allowed (up_hostname parts) of
                  Some e \<Rightarrow> op_fails e
                | None \<Rightarrow>
                    (case client_do (te_http env) max_redirects u of
                       (Inl e, effs) \<Rightarrow> ('''', 1, Some e, EffFetch u # effs)
                     | (Inr (code, body), effs) \<Rightarrow>
                         if code < 200 \<or> code \<ge> 300 then ('''', code, Some (PlainErr ''HTTP request failed''), EffFetch u # effs)
                         else case body of
                           Inl e \<Rightarrow> ('''', 1, Some e, EffFetch u # effs)
                         | Inr s \<Rightarrow> (s, 0, None, EffFetch u # effs)))))"

definition max_content :: nat where
  "max_content = 10 * 1024"

definition tool_message :: "tool_env \<Rightarrow> id \<Rightarrow> string \<Rightarrow> params \<Rightarrow> ipc_message" where
  "tool_message env src name ps =
     \<lparr>ip_id = '''', ip_source = src,
      ip_target = (if id_is_empty (pget ps ''target'') then ''orchestrator'' else pget ps ''target''),
      ip_type = (if pget ps ''type'' = '''' then ''notification'' else pget ps ''type''),
      ip_payload = pget ps ''content'',
      ip_metadata = \<lparr>im_correlation = '''', im_session = pget ps ''session_id'', im_message_id = te_gid env,
        im_headers = [(''tool_name'', name), (''content_length'', dec_nat (length (pget ps ''content'')))]\<rparr>,
      ip_timestamp = te_now env\<rparr>"

definition send_message :: "tool_env \<Rightarrow> id \<Rightarrow> string \<Rightarrow> params \<Rightarrow> op_outcome" where
  "send_message env src name ps =
     (let msg = tool_message env src name ps
      in case te_send env msg of
        Some e \<Rightarrow> ('''', 1, Some e, [EffSend msg])
      | None \<Rightarrow> (''Message sent successfully to '' @ ip_target msg @ '' (ID: '' @ te_gid env @ '')'', 0, None, [EffSend msg]))"

section \<open>Validation\<close>

definition missing_value :: "params \<Rightarrow> string \<Rightarrow> bool" where
  "missing_value ps n \<longleftrightarrow> (case mget ps n of None \<Rightarrow> True | Some v \<Rightarrow> v = '''')"

definition invalid_if :: "bool \<Rightarrow> go_error option" where
  "invalid_if c = (if c then Some (new_error ErrInvalidArgument) else None)"

definition check_required :: "params \<Rightarrow> tool \<Rightarrow> go_error option" where
  "check_required ps t = invalid_if (list_ex (missing_value ps) (required_params (tl_def t)))"

definition file_validate :: "params \<Rightarrow> tool \<Rightarrow> go_error option" where
  "file_validate ps t =
     (case check_required ps t of
        Some e \<Rightarrow> Some e
      | None \<Rightarrow>
          if tl_name t \<in> {''read_file'', ''write_file'', ''edit_file'', ''list_dir'', ''find''} then invalid_if (pget ps ''path'' = '''')
          else if tl_name t = ''grep'' then invalid_if (pget ps ''pattern'' = '''' \<or> pget ps ''path'' = '''')
          else None)"

definition shell_validate :: "string list \<Rightarrow> params \<Rightarrow> tool \<Rightarrow> go_error option" where
  "shell_validate blocked ps t =
     (case check_required ps t of
        Some e \<Rightarrow> Some e
      | None \<Rightarrow>
          if tl_name t = ''exec'' then
            if pget ps ''command'' = '''' then Some (new_error ErrInvalidArgument)
            else check_blocked_commands blocked (pget ps ''command'')
          else None)"

definition web_validate :: "tool_env \<Rightarrow> params \<Rightarrow> tool \<Rightarrow> go_error option" where
  "web_validate env ps t =
     (case check_required ps t of
        Some e \<Rightarrow> Some e
      | None \<Rightarrow>
          if tl_name t = ''web_search'' then invalid_if (pget ps ''query'' = '''')
          else if tl_name t = ''web_fetch'' then
            if pget ps ''url'' = '''' then Some (new_error ErrInvalidArgument)
            else case te_parse_url env (pget ps ''url'') of
              Inl e \<Rightarrow> Some (new_error ErrInvalidArgument)
            | Inr parts \<Rightarrow> invalid_if (up_scheme parts = '''' \<or> up_host parts = '''')
          else None)"

definition message_validate :: "params \<Rightarrow> tool \<Rightarrow> go_error option" where
  "message_validate ps t =
     (case check_required ps t of
        Some e \<Rightarrow> Some e
      | None \<Rightarrow>
          if tl_name t = ''message'' then invalid_if (pget ps ''content'' = '''' \<or> length (pget ps ''content'') > max_content)
          else None)"

definition placeholder_validate :: "params \<Rightarrow> tool \<Rightarrow> go_error option" where
  "placeholder_validate ps t = invalid_if (list_ex (\<lambda>n. mget ps n = None) (required_params (tl_def t)))"

definition tool_validate :: "tool_env \<Rightarrow> params \<Rightarrow> tool \<Rightarrow> go_error option" where
  "tool_validate env ps t =
     (case tl_kind t of
        FileTool \<Rightarrow> file_validate ps t
      | ShellTool blocked \<Rightarrow> shell_validate blocked ps t
      | WebTool allowed blocked tmo \<Rightarrow> web_validate env ps t
      | MessageTool src \<Rightarrow> message_validate ps t
      | PlaceholderTool ty \<Rightarrow> placeholder_validate ps t)"

lemmas validate_defs = file_validate_def shell_validate_def web_validate_def message_validate_def placeholder_validate_def
  check_required_def invalid_if_def

section \<open>The tools\<close>

text \<open>The constructors; \<open>src\<close> is the identifier that a message tool draws.\<close>

definition new_tool_of :: "tool_kind \<Rightarrow> tool_definition \<Rightarrow> tool result" where
  "new_tool_of k d =
     (if td_name d = '''' then Inl (new_error ErrInvalidArgument)
      else Inr \<lparr>tl_kind = k, tl_name = td_name d, tl_def = d, tl_enabled = td_enabled d, tl_closed = False,
        tl_stats = no_usage_stats, tl_last_used = None\<rparr>)"

definition new_file_tool :: "tool_definition \<Rightarrow> tool result" where
  "new_file_tool d = new_tool_of FileTool d"

definition new_shell_tool :: "tool_definition \<Rightarrow> tool result" where
  "new_shell_tool d = new_tool_of (ShellTool (ts_blocked_commands (td_security d))) d"

definition new_web_tool :: "tool_definition \<Rightarrow> tool result" where
  "new_web_tool d =
     new_tool_of (WebTool (ts_allowed_hosts (td_security d)) (ts_blocked_hosts (td_security d))
       (if td_timeout d > 0 then td_timeout d else 30000000000)) d"

definition new_message_tool :: "id \<Rightarrow> tool_definition \<Rightarrow> tool result" where
  "new_message_tool src d = new_tool_of (MessageTool src) d"

definition placeholder_tool :: "tool_definition \<Rightarrow> tool result" where
  "placeholder_tool d =
     (case mget builtin_definitions (td_name d) of
        None \<Rightarrow> Inl (new_error ErrNotFound)
      | Some base \<Rightarrow>
          let m = merge_definitions base d
          in Inr \<lparr>tl_kind = PlaceholderTool (td_type m), tl_name = td_name m, tl_def = m, tl_enabled = td_enabled m,
               tl_closed = False, tl_stats = no_usage_stats, tl_last_used = None\<rparr>)"

text \<open>\<open>None\<close> is a name the tool does not know.\<close>

definition file_operation :: "tool_env \<Rightarrow> params \<Rightarrow> tool \<Rightarrow> op_outcome option" where
  "file_operation env ps t =
     (if tl_name t = ''read_file'' then Some (read_file env (tl_name t) ps)
      else if tl_name t = ''write_file'' then Some (write_file env ps)
      else if tl_name t = ''edit_file'' then Some (edit_file env (tl_name t) ps)
      else if tl_name t = ''list_dir'' then Some (list_dir env ps)
      else if tl_name t = ''grep'' then Some (grep_op env ps)
      else if tl_name t = ''find'' then Some (find_op env ps)
      else None)"

definition shell_operation :: "tool_env \<Rightarrow> params \<Rightarrow> tool \<Rightarrow> op_outcome option" where
  "shell_operation env ps t = (if tl_name t = ''exec'' then Some (exec_command env ps) else None)"

definition web_operation :: "string list \<Rightarrow> string list \<Rightarrow> tool_env \<Rightarrow> params \<Rightarrow> tool \<Rightarrow> op_outcome option" where
  "web_operation allowed blocked env ps t =
     (if tl_name t = ''web_search'' then Some (web_search ps)
      else if tl_name t = ''web_fetch'' then Some (web_fetch allowed blocked env ps)
      else None)"

definition message_operation :: "id \<Rightarrow> tool_env \<Rightarrow> params \<Rightarrow> tool \<Rightarrow> op_outcome option" where
  "message_operation src env ps t = (if tl_name t = ''message'' then Some (send_message env src (tl_name t) ps) else None)"

definition map_stats :: "(tool_usage_stats \<Rightarrow> tool_usage_stats) \<Rightarrow> tool \<Rightarrow> tool" where
  "map_stats f t = t\<lparr>tl_stats := f (tl_stats t)\<rparr>"

definition count_use :: "timestamp \<Rightarrow> tool \<Rightarrow> tool" where
  "count_use now t =
     (let t1 = (map_stats (\<lambda>s. s\<lparr>us_total := us_total s + 1\<rparr>) t)\<lparr>tl_last_used := Some now\<rparr>
      in case tl_kind t of
        ShellTool bl \<Rightarrow> map_stats (\<lambda>s. s\<lparr>us_last_execution := Some now\<rparr>) t1
      | _ \<Rightarrow> t1)"

definition count_failure :: "tool \<Rightarrow> tool" where
  "count_failure = map_stats (\<lambda>s. s\<lparr>us_failed := us_failed s + 1\<rparr>)"

definition count_duration :: "duration \<Rightarrow> tool \<Rightarrow> tool" where
  "count_duration d = map_stats (\<lambda>s. s\<lparr>us_total_duration := us_total_duration s + d\<rparr>)"

definition count_success :: "tool \<Rightarrow> tool" where
  "count_success = map_stats (\<lambda>s. s\<lparr>us_successful := us_successful s + 1,
     us_average_duration := us_total_duration s sdiv us_total s\<rparr>)"

text \<open>The end of \<open>Execute\<close>, once the operation has been tried.\<close>

definition finish_execute :: "duration \<Rightarrow> tool_env \<Rightarrow> tool \<Rightarrow> op_outcome \<Rightarrow> tool_result result \<times> tool_effect list \<times> tool" where
  "finish_execute dur env t1 q =
     (case q of
        (out, code, Some e, effs) \<Rightarrow> (Inl (wrap_error ErrInternal e), effs, count_failure (count_duration dur t1))
      | (out, code, None, effs) \<Rightarrow>
          (Inr \<lparr>tr_execution_id = '''', tr_tool_name = tl_name t1, tr_status = ExecCompleted, tr_exit_code = code,
             tr_output = out, tr_error = '''', tr_metadata = [], tr_duration = dur,
             tr_completed = te_now env + dur, tr_container = ''''\<rparr>, effs, count_success (count_duration dur t1)))"

text \<open>
  The skeleton of \<open>Execute\<close>, with the answer of \<open>Validate\<close> and the outcome of the operation; \<open>dur\<close> is
  the time the operation takes.
\<close>

definition run_tool ::
    "duration \<Rightarrow> tool_env \<Rightarrow> go_error option \<Rightarrow> op_outcome option \<Rightarrow> tool \<Rightarrow> tool_result result \<times> tool_effect list \<times> tool" where
  "run_tool dur env invalid q t =
     (if tl_closed t then (Inl (new_error ErrUnavailable), [], t)
      else
        let t1 = count_use (te_now env) t
        in case invalid of
          Some e \<Rightarrow> (Inl e, [], count_failure t1)
        | None \<Rightarrow>
            (case q of
               None \<Rightarrow> (Inl (new_error ErrInternal), [], count_failure t1)
             | Some q' \<Rightarrow> finish_execute dur env t1 q'))"

definition file_execute :: "duration \<Rightarrow> tool_env \<Rightarrow> params \<Rightarrow> tool \<Rightarrow> tool_result result \<times> tool_effect list \<times> tool" where
  "file_execute dur env ps t = run_tool dur env (file_validate ps t) (file_operation env ps t) t"

definition shell_execute ::
    "string list \<Rightarrow> duration \<Rightarrow> tool_env \<Rightarrow> params \<Rightarrow> tool \<Rightarrow> tool_result result \<times> tool_effect list \<times> tool" where
  "shell_execute blocked dur env ps t = run_tool dur env (shell_validate blocked ps t) (shell_operation env ps t) t"

definition web_execute ::
    "string list \<Rightarrow> string list \<Rightarrow> duration \<Rightarrow> tool_env \<Rightarrow> params \<Rightarrow> tool \<Rightarrow> tool_result result \<times> tool_effect list \<times> tool" where
  "web_execute allowed blocked dur env ps t =
     run_tool dur env (web_validate env ps t) (web_operation allowed blocked env ps t) t"

definition message_execute ::
    "id \<Rightarrow> duration \<Rightarrow> tool_env \<Rightarrow> params \<Rightarrow> tool \<Rightarrow> tool_result result \<times> tool_effect list \<times> tool" where
  "message_execute src dur env ps t = run_tool dur env (message_validate ps t) (message_operation src env ps t) t"

definition placeholder_execute :: "tool \<Rightarrow> tool_result result \<times> tool_effect list \<times> tool" where
  "placeholder_execute t = (Inl (new_error (if tl_closed t then ErrUnavailable else ErrInternal)), [], t)"

definition tool_execute ::
    "duration \<Rightarrow> tool_env \<Rightarrow> params \<Rightarrow> tool \<Rightarrow> tool_result result \<times> tool_effect list \<times> tool" where
  "tool_execute dur env ps t =
     (case tl_kind t of
        FileTool \<Rightarrow> file_execute dur env ps t
      | ShellTool blocked \<Rightarrow> shell_execute blocked dur env ps t
      | WebTool allowed blocked tmo \<Rightarrow> web_execute allowed blocked dur env ps t
      | MessageTool src \<Rightarrow> message_execute src dur env ps t
      | PlaceholderTool ty \<Rightarrow> placeholder_execute t)"

text \<open>The operation of a tool, whatever its kind.\<close>

definition tool_operation :: "tool_env \<Rightarrow> params \<Rightarrow> tool \<Rightarrow> op_outcome option" where
  "tool_operation env ps t =
     (case tl_kind t of
        FileTool \<Rightarrow> file_operation env ps t
      | ShellTool blocked \<Rightarrow> shell_operation env ps t
      | WebTool allowed blocked tmo \<Rightarrow> web_operation allowed blocked env ps t
      | MessageTool src \<Rightarrow> message_operation src env ps t
      | PlaceholderTool ty \<Rightarrow> None)"

lemmas operation_defs = file_operation_def shell_operation_def web_operation_def message_operation_def
lemmas execute_defs = file_execute_def shell_execute_def web_execute_def message_execute_def

definition tool_type_of :: "tool \<Rightarrow> tool_type" where
  "tool_type_of t =
     (case tl_kind t of FileTool \<Rightarrow> ToolFile | ShellTool bl \<Rightarrow> ToolShell | WebTool al bl tmo \<Rightarrow> ToolWeb
      | MessageTool src \<Rightarrow> ToolMessage | PlaceholderTool ty \<Rightarrow> ty)"

definition tool_enabled :: "tool \<Rightarrow> bool" where
  "tool_enabled t = (case tl_kind t of PlaceholderTool ty \<Rightarrow> tl_enabled t \<and> \<not> tl_closed t | _ \<Rightarrow> tl_enabled t)"

definition tool_available :: "tool \<Rightarrow> bool" where
  "tool_available t \<longleftrightarrow> \<not> tl_closed t"

definition tool_status :: "tool \<Rightarrow> status" where
  "tool_status t = (case tl_kind t of PlaceholderTool ty \<Rightarrow> StatusRunning
     | _ \<Rightarrow> if tl_closed t then StatusStopped else StatusRunning)"

definition tool_definition_of :: "tool \<Rightarrow> tool_definition" where
  "tool_definition_of t =
     (case tl_kind t of PlaceholderTool ty \<Rightarrow> tl_def t | _ \<Rightarrow> (tl_def t)\<lparr>td_enabled := tool_enabled t\<rparr>)"

definition tool_set_enabled :: "bool \<Rightarrow> tool \<Rightarrow> tool" where
  "tool_set_enabled b t = t\<lparr>tl_enabled := b\<rparr>"

definition tool_close :: "tool \<Rightarrow> go_error option \<times> tool" where
  "tool_close t = (None, t\<lparr>tl_closed := True\<rparr>)"

section \<open>Editing\<close>

lemma join_Cons_char: "join_with s ((x # p) # ps) = x # join_with s (p # ps)"
  by (cases ps) simp_all

lemma join_prefix: "\<exists>r. join_with s (p # ps) = p @ r"
  by (cases ps) auto

text \<open>The text is cut at the occurrences, which the replacement then joins.\<close>

definition cuts :: "string \<Rightarrow> string \<Rightarrow> string list \<Rightarrow> bool" where
  "cuts old s ps \<longleftrightarrow> ps \<noteq> [] \<and> s = join_with old ps \<and> (\<forall>p \<in> set ps. \<not> str_contains p old)"

lemma replace_all_cuts:
  "old \<noteq> '''' \<Longrightarrow> \<exists>ps. cuts old s ps \<and> replace_all old nw s = join_with nw ps \<and> length ps = Suc (str_count old s)"
proof (induction old nw s rule: replace_all.induct)
  case (1 old nw)
  then show ?case by (intro exI [of _ "['''']"]) (simp add: cuts_def)
next
  case (2 old nw x xs)
  show ?case
  proof (cases "has_prefix (x # xs) old")
    case True
    with 2 obtain ps where ps: "cuts old (drop (length old) (x # xs)) ps"
      "replace_all old nw (drop (length old) (x # xs)) = join_with nw ps" "length ps = Suc (str_count old (drop (length old) (x # xs)))"
      by blast
    moreover obtain p qs where "ps = p # qs" using ps(1) by (cases ps) (simp_all add: cuts_def)
    moreover have "x # xs = old @ drop (length old) (x # xs)"
      using True by (metis append_take_drop_id has_prefix_def)
    ultimately have "cuts old (x # xs) ('''' # ps)" using 2(3) by (cases old) (auto simp: cuts_def)
    then show ?thesis using ps True 2(3) \<open>ps = p # qs\<close> by (intro exI [of _ "'''' # ps"]) simp
  next
    case False
    with 2 obtain ps where ps: "cuts old xs ps" "replace_all old nw xs = join_with nw ps" "length ps = Suc (str_count old xs)"
      by blast
    then obtain p qs where p: "ps = p # qs" by (cases ps) (simp_all add: cuts_def)
    obtain r where "xs = p @ r" using ps(1) join_prefix [of old p qs] by (auto simp: cuts_def p)
    then have "x # xs = (x # p) @ r" by simp
    then have "\<not> has_prefix (x # p) old" using False by (metis append.assoc has_prefix_iff)
    with ps(1) have "cuts old (x # xs) ((x # p) # qs)" by (simp add: cuts_def p join_Cons_char)
    then show ?thesis using ps False by (intro exI [of _ "(x # p) # qs"]) (simp add: p join_Cons_char)
  qed
qed

lemma cuts_count: "cuts old s ps \<Longrightarrow> length ps > 1 \<Longrightarrow> str_contains s old"
  by (cases ps; cases "tl ps") (auto simp: cuts_def str_contains_iff)

text \<open>
  An edit that succeeds writes the file once, with the text cut at the occurrences of the old text, of which
  there is at least one, and joined again by the new text; an edit that fails writes nothing, unless
  it is the write that fails.
\<close>

lemma edit_replaces_every_occurrence:
  assumes "edit_file env name ps = (out, code, err, effs)"
  shows "(err = None \<longrightarrow>
      (\<exists>s pieces. te_read env (pget ps ''path'') = Inr s \<and> cuts (pget ps ''old_text'') s pieces \<and> 2 \<le> length pieces
         \<and> effs = [EffWrite (pget ps ''path'') (join_with (pget ps ''new_text'') pieces)] \<and> code = 0))
    \<and> (err \<noteq> None \<longrightarrow> effs = [] \<or> (\<exists>s'. effs = [EffWrite (pget ps ''path'') s'] \<and> err = te_write env (pget ps ''path'') s'))"
proof -
  have two: "2 \<le> length pieces" if c: "cuts old s pieces" and "str_contains s old" for old s pieces
    using that by (cases pieces; cases "tl pieces") (auto simp: cuts_def)
  show ?thesis
  proof (cases "pget ps ''old_text'' = ''''")
    case True
    then show ?thesis using assms by (auto simp: edit_file_def op_fails_def)
  next
    case old: False
    show ?thesis
    proof (cases "\<exists>s. te_read env (pget ps ''path'') = Inr s \<and> str_contains s (pget ps ''old_text'')")
      case True
      then obtain s where s: "te_read env (pget ps ''path'') = Inr s" "str_contains s (pget ps ''old_text'')" by blast
      from replace_all_cuts [OF old, of s "pget ps ''new_text''"] obtain pieces where
        pieces: "cuts (pget ps ''old_text'') s pieces"
        "replace_all (pget ps ''old_text'') (pget ps ''new_text'') s = join_with (pget ps ''new_text'') pieces" by blast
      let ?p = "pget ps ''path''" and ?j = "join_with (pget ps ''new_text'') pieces"
      have "(validate_file_path env name ?p \<noteq> None \<and> err \<noteq> None \<and> effs = [])
          \<or> (\<exists>e. te_write env ?p ?j = Some e \<and> err = Some e \<and> effs = [EffWrite ?p ?j])
          \<or> (err = None \<and> code = 0 \<and> effs = [EffWrite ?p ?j])"
        using assms old s pieces by (simp add: edit_file_def op_fails_def Let_def split: option.splits) metis+
      then show ?thesis using s(1) pieces(1) two [OF pieces(1) s(2)] by auto
    next
      case False
      then have "effs = [] \<and> err \<noteq> None" using assms old
        by (simp add: edit_file_def op_fails_def Let_def split: option.splits sum.splits if_splits) metis+
      then show ?thesis by blast
    qed
  qed
qed

definition sample_env :: tool_env where
  "sample_env = \<lparr>te_stat = \<lambda>p. StatFile, te_read = \<lambda>p. Inr ''one two one'', te_mkdir = \<lambda>p. None, te_write = \<lambda>p s. None,
     te_readdir = \<lambda>p. Inr [], te_walk = \<lambda>p. [], te_glob = \<lambda>p s. Inr True, te_shell = \<lambda>c. ('''', ShellExit 0),
     te_parse_url = \<lambda>u. Inr \<lparr>up_scheme = ''https'', up_host = ''a.example.org'', up_hostname = ''a.example.org''\<rparr>,
     te_http = \<lambda>u. HttpReply 200 (Inr ''page''), te_send = \<lambda>m. None, te_gid = ''g'', te_now = 5\<rparr>"

definition sample_edit :: params where
  "sample_edit = [(''path'', ''/f''), (''old_text'', ''one''), (''new_text'', ''three'')]"

lemma sample_edit_result: "edit_file sample_env ''edit_file'' sample_edit =
    (''Successfully replaced 2 occurrence(s) in /f'', 0, None, [EffWrite ''/f'' ''three two three''])"
  by code_simp

lemma edit_replaces_every_occurrence_witness:
  "\<exists>s pieces. te_read sample_env ''/f'' = Inr s \<and> cuts ''one'' s pieces \<and> 2 \<le> length pieces"
proof -
  have "pget sample_edit ''path'' = ''/f''" "pget sample_edit ''old_text'' = ''one''" by code_simp+
  then show ?thesis using edit_replaces_every_occurrence [OF sample_edit_result] by auto
qed

section \<open>What the tools may do\<close>

text \<open>A host is a domain or below it, up to case and surrounding blanks.\<close>

definition in_domain :: "string \<Rightarrow> string \<Rightarrow> bool" where
  "in_domain host d \<longleftrightarrow> to_lower (trim_space host) = to_lower (trim_space d)
     \<or> (\<exists>r. to_lower (trim_space host) = r @ ''.'' @ to_lower (trim_space d))"

definition guarded :: "tool_env \<Rightarrow> tool_kind \<Rightarrow> tool_effect \<Rightarrow> bool" where
  "guarded env k e =
     (case e of
        EffMkdir d \<Rightarrow> k = FileTool
      | EffWrite p s \<Rightarrow> k = FileTool \<and> p \<noteq> ''''
      | EffShell c \<Rightarrow>
          (case k of
             ShellTool bl \<Rightarrow> c \<noteq> '''' \<and> (\<forall>b \<in> set bl. \<nexists>u v. to_lower (trim_space c) = u @ to_lower (trim_space b) @ v)
           | _ \<Rightarrow> False)
      | EffFetch u \<Rightarrow>
          (case k of
             WebTool al bl tmo \<Rightarrow>
               (\<exists>parts. te_parse_url env u = Inr parts \<and> up_scheme parts \<noteq> '''' \<and> up_host parts \<noteq> ''''
                  \<and> (\<forall>d \<in> set bl. \<not> in_domain (up_hostname parts) d)
                  \<and> (al = [] \<or> (\<exists>d \<in> set al. in_domain (up_hostname parts) d)))
           | _ \<Rightarrow> False)
      | EffRedirect u v \<Rightarrow> (\<exists>al bl tmo. k = WebTool al bl tmo) \<and> te_http env u = HttpRedirect v
      | EffSend m \<Rightarrow> (case k of MessageTool src \<Rightarrow> ip_source m = src \<and> ip_payload m \<noteq> '''' \<and> length (ip_payload m) \<le> max_content
                       | _ \<Rightarrow> False))"

text \<open>Requests that follow one another from a first one.\<close>

fun redirects_from :: "tool_env \<Rightarrow> string \<Rightarrow> tool_effect list \<Rightarrow> bool" where
  "redirects_from env u [] = True"
| "redirects_from env u (e # es) =
     (case e of EffRedirect u' v \<Rightarrow> u' = u \<and> te_http env u = HttpRedirect v \<and> redirects_from env v es | _ \<Rightarrow> False)"

lemma client_do_chain:
  "client_do (te_http env) k u = (q, effs) \<Longrightarrow> redirects_from env u effs \<and> length effs \<le> k"
proof (induction k arbitrary: u q effs)
  case 0
  then show ?case by (subst (asm) client_do.simps) (auto split: http_reply.splits)
next
  case (Suc k)
  show ?case
  proof (cases "te_http env u")
    case (HttpRedirect v)
    obtain q' effs' where "client_do (te_http env) k v = (q', effs')" by fastforce
    with Suc HttpRedirect show ?thesis by (subst (asm) client_do.simps [of _ "Suc k"]) auto
  qed (use Suc.prems in \<open>auto simp: client_do.simps [of _ "Suc k"]\<close>)
qed

lemma redirects_guarded: "redirects_from env u effs \<Longrightarrow> \<forall>e \<in> set effs. guarded env (WebTool al bl tmo) e"
proof (induction effs arbitrary: u)
  case (Cons e effs)
  from Cons.prems obtain v where "e = EffRedirect u v" "te_http env u = HttpRedirect v" "redirects_from env v effs"
    by (auto split: tool_effect.splits)
  then show ?case using Cons.IH by (simp add: guarded_def)
qed simp

lemma host_within_domain: "host_within h d \<longleftrightarrow> in_domain h d"
  by (auto simp: host_within_def in_domain_def has_suffix_iff Let_def)

lemma check_blocked_commands_None:
  "check_blocked_commands bl c = None \<longleftrightarrow> (\<forall>b \<in> set bl. \<nexists>u v. to_lower (trim_space c) = u @ to_lower (trim_space b) @ v)"
  by (simp add: check_blocked_commands_def str_contains_iff list_ex_iff)

text \<open>A page is fetched from a host that passed the checks, and then from where the replies redirect to.\<close>

lemma web_fetch_effects:
  assumes "web_fetch al bl env ps = (out, code, err, effs)" and "effs \<noteq> []"
  shows "\<exists>parts rest. te_parse_url env (pget ps ''url'') = Inr parts
    \<and> (\<forall>d \<in> set bl. \<not> in_domain (up_hostname parts) d) \<and> (al = [] \<or> (\<exists>d \<in> set al. in_domain (up_hostname parts) d))
    \<and> effs = EffFetch (pget ps ''url'') # rest \<and> redirects_from env (pget ps ''url'') rest \<and> length rest \<le> max_redirects"
proof -
  obtain q rest where c: "client_do (te_http env) max_redirects (pget ps ''url'') = (q, rest)" by fastforce
  have "effs = EffFetch (pget ps ''url'') # rest" "\<exists>parts. te_parse_url env (pget ps ''url'') = Inr parts
      \<and> check_blocked_hosts bl (up_hostname parts) = None \<and> check_allowed_hosts al (up_hostname parts) = None"
    using assms c by (auto simp: web_fetch_def op_fails_def Let_def split: sum.splits option.splits if_splits)
  then show ?thesis using client_do_chain [OF c]
    by (auto simp: check_blocked_hosts_def check_allowed_hosts_def list_ex_iff host_within_domain split: if_splits)
qed

lemma count_use_simps [simp]:
  "tl_kind (count_use now t) = tl_kind t" "tl_name (count_use now t) = tl_name t" "tl_def (count_use now t) = tl_def t"
  "tl_closed (count_use now t) = tl_closed t" "tl_enabled (count_use now t) = tl_enabled t"
  "us_total (tl_stats (count_use now t)) = us_total (tl_stats t) + 1"
  "us_successful (tl_stats (count_use now t)) = us_successful (tl_stats t)"
  "us_failed (tl_stats (count_use now t)) = us_failed (tl_stats t)"
  by (simp_all add: count_use_def map_stats_def Let_def split: tool_kind.split)

lemma count_simps [simp]:
  "tl_kind (count_failure t) = tl_kind t" "tl_closed (count_failure t) = tl_closed t" "tl_enabled (count_failure t) = tl_enabled t"
  "tl_kind (count_success t) = tl_kind t" "tl_closed (count_success t) = tl_closed t" "tl_enabled (count_success t) = tl_enabled t"
  "tl_kind (count_duration d t) = tl_kind t" "tl_closed (count_duration d t) = tl_closed t"
  "tl_enabled (count_duration d t) = tl_enabled t"
  "tl_def (count_failure t) = tl_def t" "tl_def (count_success t) = tl_def t" "tl_def (count_duration d t) = tl_def t"
  "tl_name (count_failure t) = tl_name t" "tl_name (count_success t) = tl_name t" "tl_name (count_duration d t) = tl_name t"
  by (simp_all add: count_failure_def count_success_def count_duration_def map_stats_def)

lemma tool_operation_guarded:
  assumes "tool_operation env ps t = Some (out, code, err, effs)" and "tool_validate env ps t = None"
  shows "\<forall>e \<in> set effs. guarded env (tl_kind t) e"
proof (cases "tl_kind t")
  case FileTool
  then show ?thesis using assms
    by (auto simp: tool_operation_def tool_validate_def operation_defs validate_defs guarded_def read_file_def
        write_file_def edit_file_def list_dir_def grep_op_def find_op_def op_fails_def no_matches_def Let_def
        split: if_splits option.splits sum.splits stat_result.splits)
next
  case (ShellTool bl)
  then show ?thesis using assms
    by (auto simp: tool_operation_def tool_validate_def operation_defs validate_defs guarded_def exec_command_def Let_def
        check_blocked_commands_None split: if_splits option.splits prod.splits shell_exit.splits)
next
  case (WebTool al bl tmo)
  show ?thesis
  proof (cases "effs = []")
    case False
    have f: "web_fetch al bl env ps = (out, code, err, effs)" "tl_name t = ''web_fetch''"
      using assms(1) False WebTool by (auto simp: tool_operation_def operation_defs web_search_def split: if_splits)
    from web_fetch_effects [OF f(1) False] obtain parts rest where w: "te_parse_url env (pget ps ''url'') = Inr parts"
      "\<forall>d \<in> set bl. \<not> in_domain (up_hostname parts) d" "al = [] \<or> (\<exists>d \<in> set al. in_domain (up_hostname parts) d)"
      "effs = EffFetch (pget ps ''url'') # rest" "redirects_from env (pget ps ''url'') rest" by blast
    have "up_scheme parts \<noteq> '''' \<and> up_host parts \<noteq> ''''"
      using assms(2) w(1) f(2) WebTool by (auto simp: tool_validate_def validate_defs split: if_splits)
    then have "guarded env (tl_kind t) (EffFetch (pget ps ''url''))" using w(1-3) WebTool by (simp add: guarded_def)
    then show ?thesis using redirects_guarded [OF w(5)] w(4) WebTool by simp
  qed simp
next
  case (MessageTool src)
  then show ?thesis using assms
    by (auto simp: tool_operation_def tool_validate_def operation_defs validate_defs guarded_def send_message_def
        tool_message_def Let_def split: if_splits option.splits)
next
  case (PlaceholderTool ty)
  then show ?thesis using assms by (simp add: tool_operation_def)
qed

text \<open>An open tool counts the use, and whether it succeeded.\<close>

definition counted :: "timestamp \<Rightarrow> tool \<Rightarrow> bool \<Rightarrow> tool \<Rightarrow> bool" where
  "counted now t ok t' \<longleftrightarrow> (\<exists>d. t' = (if ok then count_success else count_failure) (count_duration d (count_use now t)))
     \<or> (\<not> ok \<and> t' = count_failure (count_use now t))"

lemma run_tool_steps:
  assumes "run_tool dur env invalid q t = (r, effs, t')"
    and guarded: "\<And>out code err effs. q = Some (out, code, err, effs) \<Longrightarrow> invalid = None \<Longrightarrow> \<forall>e \<in> set effs. P e"
  shows "(\<forall>e \<in> set effs. P e)
    \<and> (tl_closed t \<longrightarrow> r = Inl (new_error ErrUnavailable) \<and> effs = [] \<and> t' = t)
    \<and> (t' = t \<or> counted (te_now env) t (is_ok r) t')"
proof (cases "tl_closed t \<or> invalid \<noteq> None \<or> q = None")
  case True
  then show ?thesis using assms(1) by (auto simp: run_tool_def counted_def Let_def split: if_splits option.splits)
next
  case False
  then obtain out code err effs' where q: "q = Some (out, code, err, effs')" by (metis not_None_eq prod_cases4)
  with False assms(1) have f: "(r, effs, t') = finish_execute dur env (count_use (te_now env) t) (out, code, err, effs')"
    by (auto simp: run_tool_def Let_def)
  then have "effs' = effs \<and> counted (te_now env) t (is_ok r) t'"
    by (cases err) (auto simp: finish_execute_def counted_def)
  then show ?thesis using guarded [OF q] False by simp
qed

lemma tool_execute_steps:
  assumes "tool_execute dur env ps t = (r, effs, t')"
  shows "(\<forall>e \<in> set effs. guarded env (tl_kind t) e)
    \<and> (tl_closed t \<longrightarrow> r = Inl (new_error ErrUnavailable) \<and> effs = [] \<and> t' = t)
    \<and> (t' = t \<or> counted (te_now env) t (is_ok r) t')"
proof (cases "\<exists>ty. tl_kind t = PlaceholderTool ty")
  case True
  then show ?thesis using assms by (auto simp: tool_execute_def placeholder_execute_def)
next
  case False
  then have "run_tool dur env (tool_validate env ps t) (tool_operation env ps t) t = (r, effs, t')"
    using assms by (cases "tl_kind t") (simp_all add: tool_execute_def execute_defs tool_validate_def tool_operation_def)
  then show ?thesis by (rule run_tool_steps) (rule tool_operation_guarded)
qed

lemma tool_execute_web:
  assumes "tool_execute dur env ps t = (r, effs, t')" and "tl_kind t = WebTool al bl tmo"
  shows "effs = [] \<or> (\<exists>u rest. effs = EffFetch u # rest \<and> redirects_from env u rest \<and> length rest \<le> 9)"
proof (cases "effs = []")
  case False
  have run: "run_tool dur env (tool_validate env ps t) (tool_operation env ps t) t = (r, effs, t')"
    using assms by (simp add: tool_execute_def execute_defs tool_validate_def tool_operation_def)
  then obtain out code err where q: "tool_operation env ps t = Some (out, code, err, effs)"
    using False by (auto simp: run_tool_def Let_def finish_execute_def split: if_splits option.splits)
  then have "web_fetch al bl env ps = (out, code, err, effs)"
    using False assms(2) by (auto simp: tool_operation_def operation_defs web_search_def split: if_splits)
  from web_fetch_effects [OF this False] show ?thesis by (auto simp: max_redirects_def)
qed simp

lemma counted_keeps:
  assumes "counted now t ok t'"
  shows "tl_kind t' = tl_kind t" "tl_closed t' = tl_closed t" "tl_enabled t' = tl_enabled t" "tl_def t' = tl_def t" "tl_name t' = tl_name t"
  using assms by (auto simp: counted_def split: if_splits)

lemma counted_stats:
  assumes "counted now t ok t'"
  shows "us_total (tl_stats t') = us_total (tl_stats t) + 1"
    "us_successful (tl_stats t') = us_successful (tl_stats t) + (if ok then 1 else 0)"
    "us_failed (tl_stats t') = us_failed (tl_stats t) + (if ok then 0 else 1)"
  using assms
  by (auto simp: counted_def count_failure_def count_success_def count_duration_def map_stats_def count_use_def Let_def
      split: if_splits tool_kind.splits)

text \<open>
  C20: Whatever its parameters, a tool does to the outside only this.  The shell runs no command whose trimmed
  text, in any case, contains the trimmed text of a blocked one.  A web tool makes at most one request of
  its own accord, first, for a page of a host that is in no blocked domain and, if there are allowed ones, in
  one of them; then at most nine more, each because the reply to the one before redirects to it, and these
  are not checked: they go to any host.  A message is not empty nor longer than ten kilobytes, a file has
  a name.  And a closed tool does nothing and fails.
\<close>

theorem tool_effects_guarded:
  assumes "tool_execute dur env ps t = (r, effs, t')"
  shows "(\<forall>e \<in> set effs. guarded env (tl_kind t) e)
    \<and> (\<forall>al bl tmo. tl_kind t = WebTool al bl tmo \<longrightarrow>
         effs = [] \<or> (\<exists>u rest. effs = EffFetch u # rest \<and> redirects_from env u rest \<and> length rest \<le> 9))
    \<and> (tl_closed t \<longrightarrow> r = Inl (new_error ErrUnavailable) \<and> effs = [] \<and> t' = t)
    \<and> tl_kind t' = tl_kind t \<and> tl_closed t' = tl_closed t"
proof -
  have "tl_kind t' = tl_kind t \<and> tl_closed t' = tl_closed t"
    using tool_execute_steps [OF assms] counted_keeps by blast
  then show ?thesis using tool_execute_steps [OF assms] tool_execute_web [OF assms] by blast
qed

definition sample_shell :: tool where
  "sample_shell = projr (new_shell_tool (the (mget builtin_definitions ''exec'')))"

text \<open>A blocked command with one more blank in it is not blocked.\<close>

definition two_blanks :: params where
  "two_blanks = [(''command'', ''rm  -rf /'')]"

lemma blocked_command_with_two_blanks:
  "is_ok (fst (tool_execute 0 sample_env two_blanks sample_shell))"
  "fst (snd (tool_execute 0 sample_env two_blanks sample_shell)) = [EffShell ''rm  -rf /'']"
  by code_simp+

lemma blocked_command:
  "fst (tool_execute 0 sample_env [(''command'', '' RM -rf / '')] sample_shell) = Inl (new_error ErrPermissionDenied)"
  by code_simp

text \<open>A page of an allowed host that redirects to a blocked one, and on.\<close>

definition redirecting_env :: tool_env where
  "redirecting_env = sample_env\<lparr>te_http := \<lambda>u. if u = ''https://a.example.org/'' then HttpRedirect ''http://blocked.net/''
     else HttpReply 200 (Inr ''secret'')\<rparr>"

definition sample_web :: tool where
  "sample_web = projr (new_web_tool (no_definition\<lparr>td_name := ''web_fetch'',
     td_security := (td_security no_definition)\<lparr>ts_allowed_hosts := [''example.org''], ts_blocked_hosts := [''blocked.net'']\<rparr>\<rparr>))"

lemma redirect_to_blocked_host:
  "fst (snd (tool_execute 0 redirecting_env [(''url'', ''https://a.example.org/'')] sample_web))
     = [EffFetch ''https://a.example.org/'', EffRedirect ''https://a.example.org/'' ''http://blocked.net/'']"
  by code_simp

lemma tool_effects_guarded_witness:
  "guarded sample_env (tl_kind sample_shell) (EffShell ''rm  -rf /'')
   \<and> guarded redirecting_env (tl_kind sample_web) (EffFetch ''https://a.example.org/'')"
proof -
  obtain r effs t' where e: "tool_execute 0 sample_env two_blanks sample_shell = (r, effs, t')"
    by (metis prod_cases3)
  with blocked_command_with_two_blanks(2) have "effs = [EffShell ''rm  -rf /'']" by simp
  moreover obtain r2 effs2 t2 where e2: "tool_execute 0 redirecting_env [(''url'', ''https://a.example.org/'')] sample_web = (r2, effs2, t2)"
    by (metis prod_cases3)
  with redirect_to_blocked_host have "EffFetch ''https://a.example.org/'' \<in> set effs2" by simp
  ultimately show ?thesis using tool_effects_guarded [OF e] tool_effects_guarded [OF e2] by simp
qed

section \<open>Statistics\<close>

datatype tool_op = TExecute duration tool_env params | TSetEnabled bool | TClose

fun tool_exec :: "tool \<Rightarrow> tool_op \<Rightarrow> tool" where
  "tool_exec t (TExecute dur env ps) = snd (snd (tool_execute dur env ps t))"
| "tool_exec t (TSetEnabled b) = tool_set_enabled b t"
| "tool_exec t TClose = snd (tool_close t)"

definition stats_ok :: "tool \<Rightarrow> bool" where
  "stats_ok t \<longleftrightarrow> us_total (tl_stats t) = us_successful (tl_stats t) + us_failed (tl_stats t)
     \<and> 0 \<le> us_successful (tl_stats t) \<and> 0 \<le> us_failed (tl_stats t)"

lemma stats_ok_exec: "stats_ok t \<Longrightarrow> stats_ok (tool_exec t c)"
proof (cases c)
  case (TExecute dur env ps)
  assume ok: "stats_ok t"
  obtain r effs t' where e: "tool_execute dur env ps t = (r, effs, t')" by (metis prod_cases3)
  from tool_execute_steps [OF e] have "t' = t \<or> counted (te_now env) t (is_ok r) t'" by blast
  then show ?thesis using ok TExecute e counted_stats by (auto simp: stats_ok_def)
qed (simp_all add: stats_ok_def tool_set_enabled_def tool_close_def)

lemma tool_closed_exec: "tl_closed t \<Longrightarrow> tl_closed (tool_exec t c)"
  by (cases c)
    (simp_all add: tool_execute_def execute_defs run_tool_def placeholder_execute_def tool_set_enabled_def tool_close_def
      split: tool_kind.split)

interpretation tools: closable_machine tool_exec stats_ok tl_closed
  by unfold_locales (rule stats_ok_exec, assumption, rule tool_closed_exec)

end
