(* ===== verification/Tool_Registry.thy ===== *)
theory Tool_Registry
  imports Builtin_Tools
begin

text \<open>
  pkg/tools/registry.go: factories and cached instances of tools.  Tools are shared by
  pointer, so an instance is an index into the store of all instances the registry has
  handed out.  A factory is a function of the definition.  \<open>rt_strays\<close> are the tools that a list by
  type has made and left open; nothing refers to them any more.
\<close>

type_synonym tool_factory = "tool_definition \<Rightarrow> tool result"

record tool_registry =
  rt_factories :: "(string, tool_factory) gomap"
  rt_tools :: "(string, nat) gomap"
  rt_store :: "tool list"
  rt_strays :: "tool list"
  rt_closed :: bool

definition new_tool_registry :: tool_registry where
  "new_tool_registry = \<lparr>rt_factories = [], rt_tools = [], rt_store = [], rt_strays = [], rt_closed = False\<rparr>"

definition register_tool :: "string \<Rightarrow> tool_factory option \<Rightarrow> tool_registry \<Rightarrow> go_error option \<times> tool_registry" where
  "register_tool n f r =
     (if n = '''' then (Some (new_error ErrInvalidArgument), r)
      else case f of
        None \<Rightarrow> (Some (new_error ErrInvalidArgument), r)
      | Some f' \<Rightarrow>
          if rt_closed r then (Some (new_error ErrUnavailable), r)
          else (None, r\<lparr>rt_factories := mput n f' (rt_factories r)\<rparr>))"

definition close_instance :: "nat \<Rightarrow> tool_registry \<Rightarrow> go_error option \<times> tool_registry" where
  "close_instance k r =
     (case tool_close (rt_store r ! k) of (e, t) \<Rightarrow> (e, r\<lparr>rt_store := (rt_store r)[k := t]\<rparr>))"

text \<open>Closing the instance of a name and dropping it; an error of closing is logged.\<close>

definition drop_instance :: "string \<Rightarrow> tool_registry \<Rightarrow> tool_registry" where
  "drop_instance n r =
     (case mget (rt_tools r) n of
        None \<Rightarrow> r
      | Some k \<Rightarrow> (snd (close_instance k r))\<lparr>rt_tools := mdel n (rt_tools r)\<rparr>)"

definition unregister_tool :: "string \<Rightarrow> tool_registry \<Rightarrow> go_error option \<times> tool_registry" where
  "unregister_tool n r =
     (if n = '''' then (Some (new_error ErrInvalidArgument), r)
      else if rt_closed r then (Some (new_error ErrUnavailable), r)
      else
        let r1 = drop_instance n r
        in (None, r1\<lparr>rt_factories := mdel n (rt_factories r1)\<rparr>))"

text \<open>Making an instance with the factory of a name and caching it.\<close>

definition make_instance :: "string \<Rightarrow> tool_definition \<Rightarrow> tool_registry \<Rightarrow> nat result \<times> tool_registry" where
  "make_instance n d r =
     (case mget (rt_factories r) n of
        None \<Rightarrow> (Inl (new_error ErrNotFound), r)
      | Some f \<Rightarrow>
          (case f d of
             Inl e \<Rightarrow> (Inl (wrap_error ErrInternal e), r)
           | Inr t \<Rightarrow>
               let k = length (rt_store r)
               in (Inr k, r\<lparr>rt_store := rt_store r @ [t], rt_tools := mput n k (rt_tools r)\<rparr>)))"

definition default_definition :: "string \<Rightarrow> tool_definition" where
  "default_definition n = no_definition\<lparr>td_name := n, td_enabled := True\<rparr>"

definition get_tool :: "string \<Rightarrow> tool_registry \<Rightarrow> nat result \<times> tool_registry" where
  "get_tool n r =
     (if n = '''' then (Inl (new_error ErrInvalidArgument), r)
      else if rt_closed r then (Inl (new_error ErrUnavailable), r)
      else case mget (rt_tools r) n of
        Some k \<Rightarrow> (Inr k, r)
      | None \<Rightarrow> make_instance n (default_definition n) r)"

definition get_tool_with_definition :: "string \<Rightarrow> tool_definition \<Rightarrow> tool_registry \<Rightarrow> nat result \<times> tool_registry" where
  "get_tool_with_definition n d r =
     (if n = '''' then (Inl (new_error ErrInvalidArgument), r)
      else if rt_closed r then (Inl (new_error ErrUnavailable), r)
      else case mget (rt_tools r) n of
        Some k \<Rightarrow>
          if definitions_match (tool_definition_of (rt_store r ! k)) d then (Inr k, r)
          else make_instance n d (drop_instance n r)
      | None \<Rightarrow> make_instance n d r)"

definition get_existing_tool :: "string \<Rightarrow> tool_registry \<Rightarrow> nat result" where
  "get_existing_tool n r =
     (if n = '''' then Inl (new_error ErrInvalidArgument)
      else if rt_closed r then Inl (new_error ErrUnavailable)
      else case mget (rt_tools r) n of None \<Rightarrow> Inl (new_error ErrNotFound) | Some k \<Rightarrow> Inr k)"

definition has_tool :: "string \<Rightarrow> tool_registry \<Rightarrow> bool" where
  "has_tool n r \<longleftrightarrow> mget (rt_factories r) n \<noteq> None"

definition has_tool_instance :: "string \<Rightarrow> tool_registry \<Rightarrow> bool" where
  "has_tool_instance n r \<longleftrightarrow> mget (rt_tools r) n \<noteq> None"

definition list_tools :: "tool_registry \<Rightarrow> string list" where
  "list_tools r = mkeys (rt_factories r)"

definition list_instances :: "tool_registry \<Rightarrow> string list" where
  "list_instances r = mkeys (rt_tools r)"

text \<open>
  \<open>ListToolsByType\<close> makes a tool with each factory, asking for the type, to see its type.  These
  tools are not cached; one of another type is not closed.
\<close>

definition has_type :: "tool_type \<Rightarrow> string \<times> tool_factory \<Rightarrow> bool" where
  "has_type ty nf =
     (case snd nf (no_definition\<lparr>td_name := fst nf, td_type := ty\<rparr>) of Inl e \<Rightarrow> False | Inr t \<Rightarrow> tool_type_of t = ty)"

definition left_open :: "tool_type \<Rightarrow> string \<times> tool_factory \<Rightarrow> tool option" where
  "left_open ty nf =
     (case snd nf (no_definition\<lparr>td_name := fst nf, td_type := ty\<rparr>) of
        Inl e \<Rightarrow> None | Inr t \<Rightarrow> if tool_type_of t = ty then None else Some t)"

definition list_tools_by_type :: "tool_type \<Rightarrow> tool_registry \<Rightarrow> string list \<times> tool_registry" where
  "list_tools_by_type ty r =
     (map fst (filter (has_type ty) (rt_factories r)),
      r\<lparr>rt_strays := rt_strays r @ List.map_filter (left_open ty) (rt_factories r)\<rparr>)"

definition get_tool_definition :: "string \<Rightarrow> tool_registry \<Rightarrow> tool_definition result \<times> tool_registry" where
  "get_tool_definition n r =
     (case get_tool n r of
        (Inl e, r') \<Rightarrow> (Inl e, r')
      | (Inr k, r') \<Rightarrow> (Inr (tool_definition_of (rt_store r' ! k)), r'))"

definition execute_tool ::
    "duration \<Rightarrow> tool_env \<Rightarrow> string \<Rightarrow> params \<Rightarrow> tool_registry \<Rightarrow> tool_result result \<times> tool_effect list \<times> tool_registry" where
  "execute_tool dur env n ps r =
     (case get_tool n r of
        (Inl e, r') \<Rightarrow> (Inl e, [], r')
      | (Inr k, r') \<Rightarrow>
          let t = rt_store r' ! k
          in if \<not> tool_enabled t then (Inl (new_error ErrPermissionDenied), [], r')
             else if \<not> tool_available t then (Inl (new_error ErrUnavailable), [], r')
             else case tool_execute dur env ps t of
               (res, effs, t') \<Rightarrow> (res, effs, r'\<lparr>rt_store := (rt_store r')[k := t']\<rparr>))"

definition close_tool :: "string \<Rightarrow> tool_registry \<Rightarrow> go_error option \<times> tool_registry" where
  "close_tool n r =
     (if n = '''' then (Some (new_error ErrInvalidArgument), r)
      else if rt_closed r then (Some (new_error ErrUnavailable), r)
      else case mget (rt_tools r) n of
        None \<Rightarrow> (Some (new_error ErrNotFound), r)
      | Some k \<Rightarrow>
          (case close_instance k r of
             (e, r1) \<Rightarrow> (map_option (wrap_error ErrInternal) e, r1\<lparr>rt_tools := mdel n (rt_tools r1)\<rparr>)))"

fun close_all :: "nat list \<Rightarrow> tool_registry \<Rightarrow> go_error list \<times> tool_registry" where
  "close_all [] r = ([], r)"
| "close_all (k # ks) r =
     (case close_instance k r of
        (Some e, r1) \<Rightarrow> (case close_all ks r1 of (es, r2) \<Rightarrow> (e # es, r2))
      | (None, r1) \<Rightarrow> close_all ks r1)"

definition close_registry :: "tool_registry \<Rightarrow> go_error option \<times> tool_registry" where
  "close_registry r =
     (if rt_closed r then (None, r)
      else case close_all (mvals (rt_tools r)) r of
        (es, r1) \<Rightarrow>
          (if length es > 0 then Some (new_error ErrInternal) else None,
           r1\<lparr>rt_tools := [], rt_factories := [], rt_closed := True\<rparr>))"

definition get_tool_stats :: "tool_registry \<Rightarrow> (string, tool_usage_stats) gomap" where
  "get_tool_stats r =
     map (\<lambda>(n, k). (n, case tl_kind (rt_store r ! k) of PlaceholderTool ty \<Rightarrow> no_usage_stats | _ \<Rightarrow> tl_stats (rt_store r ! k)))
       (rt_tools r)"

text \<open>\<open>RegisterBuiltinTools\<close>.\<close>

fun register_all :: "(string \<times> tool_factory) list \<Rightarrow> tool_registry \<Rightarrow> go_error option \<times> tool_registry" where
  "register_all [] r = (None, r)"
| "register_all ((n, f) # fs) r =
     (case register_tool n (Some f) r of
        (Some e, r1) \<Rightarrow> (Some (wrap_error ErrInternal e), r1)
      | (None, r1) \<Rightarrow> register_all fs r1)"

definition builtin_factories :: "(string, tool_factory) gomap" where
  "builtin_factories = map (\<lambda>n. (n, placeholder_tool)) (mkeys builtin_definitions)"

definition register_builtin_tools :: "tool_registry \<Rightarrow> go_error option \<times> tool_registry" where
  "register_builtin_tools r = register_all builtin_factories r"

section \<open>Runs\<close>

text \<open>\<open>GUse\<close> is a call on an instance by somebody who was given it.\<close>

datatype tool_registry_op =
    GRegister string "tool_factory option"
  | GUnregister string
  | GGet string
  | GGetDef string tool_definition
  | GExecute duration tool_env string params
  | GUse nat tool_op
  | GListByType tool_type
  | GCloseTool string
  | GClose

fun tool_registry_exec :: "tool_registry \<Rightarrow> tool_registry_op \<Rightarrow> tool_registry" where
  "tool_registry_exec r (GRegister n f) = snd (register_tool n f r)"
| "tool_registry_exec r (GUnregister n) = snd (unregister_tool n r)"
| "tool_registry_exec r (GGet n) = snd (get_tool n r)"
| "tool_registry_exec r (GGetDef n d) = snd (get_tool_with_definition n d r)"
| "tool_registry_exec r (GExecute dur env n ps) = snd (snd (execute_tool dur env n ps r))"
| "tool_registry_exec r (GUse k c) =
     (if k < length (rt_store r) then r\<lparr>rt_store := (rt_store r)[k := tool_exec (rt_store r ! k) c]\<rparr> else r)"
| "tool_registry_exec r (GListByType ty) = snd (list_tools_by_type ty r)"
| "tool_registry_exec r (GCloseTool n) = snd (close_tool n r)"
| "tool_registry_exec r GClose = snd (close_registry r)"

text \<open>A factory makes open tools, as those of the program do, and those who use a tool leave closing it to the registry.\<close>

definition makes_open :: "tool_factory \<Rightarrow> bool" where
  "makes_open f \<longleftrightarrow> (\<forall>d t. f d = Inr t \<longrightarrow> \<not> tl_closed t)"

fun fair_call :: "tool_registry_op \<Rightarrow> bool" where
  "fair_call (GRegister n f) = (case f of None \<Rightarrow> True | Some f' \<Rightarrow> makes_open f')"
| "fair_call (GUse k c) = (c \<noteq> TClose)"
| "fair_call c = True"

lemma program_factories_open:
  "makes_open new_file_tool" "makes_open new_shell_tool" "makes_open new_web_tool" "makes_open (new_message_tool i)"
  "makes_open placeholder_tool"
  by (auto simp: makes_open_def new_file_tool_def new_shell_tool_def new_web_tool_def new_message_tool_def new_tool_of_def
      placeholder_tool_def Let_def split: option.splits)

text \<open>The open instances are exactly the cached ones, and each is cached under one name.\<close>

definition tool_registry_ok :: "tool_registry \<Rightarrow> bool" where
  "tool_registry_ok r \<longleftrightarrow>
     (\<forall>n k. mget (rt_tools r) n = Some k \<longrightarrow> k < length (rt_store r))
     \<and> (\<forall>n n' k. mget (rt_tools r) n = Some k \<and> mget (rt_tools r) n' = Some k \<longrightarrow> n = n')
     \<and> (\<forall>k < length (rt_store r). tl_closed (rt_store r ! k) \<longleftrightarrow> (\<forall>n. mget (rt_tools r) n \<noteq> Some k))
     \<and> (rt_closed r \<longrightarrow> rt_tools r = [])
     \<and> mall (\<lambda>n f. makes_open f) (rt_factories r) \<and> mwf (rt_tools r)"

lemma tool_registry_okI:
  assumes "\<And>n k. mget (rt_tools r) n = Some k \<Longrightarrow> k < length (rt_store r)"
    and "\<And>n n' k. mget (rt_tools r) n = Some k \<Longrightarrow> mget (rt_tools r) n' = Some k \<Longrightarrow> n = n'"
    and "\<And>k. k < length (rt_store r) \<Longrightarrow> tl_closed (rt_store r ! k) \<longleftrightarrow> (\<forall>n. mget (rt_tools r) n \<noteq> Some k)"
    and "rt_closed r \<Longrightarrow> rt_tools r = []" and "mall (\<lambda>n f. makes_open f) (rt_factories r)" and "mwf (rt_tools r)"
  shows "tool_registry_ok r"
  unfolding tool_registry_ok_def
proof (intro conjI allI impI)
  show "n = n'" if "mget (rt_tools r) n = Some k \<and> mget (rt_tools r) n' = Some k" for n n' k
    by (rule assms(2) [OF conjunct1 [OF that] conjunct2 [OF that]])
qed (fact assms)+

lemma tool_registry_okD:
  assumes "tool_registry_ok r"
  shows "mget (rt_tools r) n = Some k \<Longrightarrow> k < length (rt_store r)"
    and "mget (rt_tools r) n = Some k \<Longrightarrow> mget (rt_tools r) n' = Some k \<Longrightarrow> n = n'"
    and "k < length (rt_store r) \<Longrightarrow> tl_closed (rt_store r ! k) \<longleftrightarrow> (\<forall>n. mget (rt_tools r) n \<noteq> Some k)"
    and "rt_closed r \<Longrightarrow> rt_tools r = []" and "mall (\<lambda>n f. makes_open f) (rt_factories r)" and "mwf (rt_tools r)"
  using assms unfolding tool_registry_ok_def by blast+

lemma close_instance_eq: "close_instance k r =
    (None, r\<lparr>rt_store := (rt_store r)[k := (rt_store r ! k)\<lparr>tl_closed := True\<rparr>]\<rparr>)"
  by (simp add: close_instance_def tool_close_def)

text \<open>Three ways to change the cache: closing and dropping, adding an open instance, using an instance.\<close>

lemma drop_ok:
  assumes ok: "tool_registry_ok r" and k: "mget (rt_tools r) n = Some k"
  shows "tool_registry_ok (r\<lparr>rt_store := (rt_store r)[k := (rt_store r ! k)\<lparr>tl_closed := True\<rparr>], rt_tools := mdel n (rt_tools r)\<rparr>)"
    (is "tool_registry_ok ?r")
proof (rule tool_registry_okI)
  fix j assume j: "j < length (rt_store ?r)"
  show "tl_closed (rt_store ?r ! j) \<longleftrightarrow> (\<forall>m. mget (rt_tools ?r) m \<noteq> Some j)"
  proof (cases "j = k")
    case True
    have "m = n" if "mget (rt_tools r) m = Some k" for m using tool_registry_okD(2) [OF ok that k] .
    then show ?thesis using True j by auto
  next
    case False
    then have "mget (mdel n (rt_tools r)) m = Some j \<longleftrightarrow> mget (rt_tools r) m = Some j" for m using k by auto
    then show ?thesis using tool_registry_okD(3) [OF ok, of j] j False by simp
  qed
next
  fix m j assume "mget (rt_tools ?r) m = Some j"
  then show "j < length (rt_store ?r)" using tool_registry_okD(1) [OF ok, of m j] by (simp split: if_splits)
next
  fix m m' j assume "mget (rt_tools ?r) m = Some j" and "mget (rt_tools ?r) m' = Some j"
  then show "m = m'" by (intro tool_registry_okD(2) [OF ok]) (simp_all split: if_splits)
next
  assume "rt_closed ?r"
  then show "rt_tools ?r = []" using tool_registry_okD(4) [OF ok] by (simp add: mdel_def)
qed (use tool_registry_okD(5,6) [OF ok] in simp_all)

lemma add_ok:
  assumes ok: "tool_registry_ok r" and n: "mget (rt_tools r) n = None" and t: "\<not> tl_closed t" and "\<not> rt_closed r"
  shows "tool_registry_ok (r\<lparr>rt_store := rt_store r @ [t], rt_tools := mput n (length (rt_store r)) (rt_tools r)\<rparr>)"
    (is "tool_registry_ok ?r")
proof (rule tool_registry_okI)
  have old: "j < length (rt_store r)" if "mget (rt_tools r) m = Some j" for m j using tool_registry_okD(1) [OF ok that] .
  fix j assume j: "j < length (rt_store ?r)"
  show "tl_closed (rt_store ?r ! j) \<longleftrightarrow> (\<forall>m. mget (rt_tools ?r) m \<noteq> Some j)"
  proof (cases "j = length (rt_store r)")
    case True
    then show ?thesis using t by auto
  next
    case False
    with j have "j < length (rt_store r)" by simp
    moreover have "mget (mput n (length (rt_store r)) (rt_tools r)) m = Some j \<longleftrightarrow> mget (rt_tools r) m = Some j" for m
      using n False by auto
    ultimately show ?thesis using tool_registry_okD(3) [OF ok, of j] by (simp add: nth_append)
  qed
next
  fix m j assume "mget (rt_tools ?r) m = Some j"
  then show "j < length (rt_store ?r)" using tool_registry_okD(1) [OF ok, of m j] by (simp split: if_splits)
next
  fix m m' j assume "mget (rt_tools ?r) m = Some j" and "mget (rt_tools ?r) m' = Some j"
  then show "m = m'"
    using tool_registry_okD(1) [OF ok, of m j] tool_registry_okD(1) [OF ok, of m' j] tool_registry_okD(2) [OF ok, of m j m']
    by (auto split: if_splits)
qed (use tool_registry_okD(5,6) [OF ok] assms(4) in simp_all)

lemma use_ok:
  assumes ok: "tool_registry_ok r" and "k < length (rt_store r)" and "tl_closed t = tl_closed (rt_store r ! k)"
  shows "tool_registry_ok (r\<lparr>rt_store := (rt_store r)[k := t]\<rparr>)"
proof (rule tool_registry_okI)
  fix j assume "j < length (rt_store (r\<lparr>rt_store := (rt_store r)[k := t]\<rparr>))"
  then show "tl_closed (rt_store (r\<lparr>rt_store := (rt_store r)[k := t]\<rparr>) ! j)
      \<longleftrightarrow> (\<forall>m. mget (rt_tools (r\<lparr>rt_store := (rt_store r)[k := t]\<rparr>)) m \<noteq> Some j)"
    using tool_registry_okD(3) [OF ok, of j] assms(3) by (cases "j = k") simp_all
qed (use tool_registry_okD(1,2,4,5,6) [OF ok] in simp_all)

lemma drop_instance_ok: "tool_registry_ok r \<Longrightarrow> tool_registry_ok (drop_instance n r)"
  using drop_ok [of r n] by (simp add: drop_instance_def close_instance_eq split: option.split)

lemma drop_instance_simps [simp]:
  "mget (rt_tools (drop_instance n r)) n = None" "rt_closed (drop_instance n r) = rt_closed r"
  "rt_factories (drop_instance n r) = rt_factories r"
  by (simp_all add: drop_instance_def close_instance_eq split: option.split)

lemma make_instance_ok:
  assumes "tool_registry_ok r" and "mget (rt_tools r) n = None" and "\<not> rt_closed r"
  shows "tool_registry_ok (snd (make_instance n d r))"
proof -
  have "makes_open f" if "mget (rt_factories r) n = Some f" for f
    using mall_get [OF tool_registry_okD(5) [OF assms(1)] that] .
  then show ?thesis
    using assms add_ok [OF assms(1,2) _ assms(3)]
    by (auto simp: make_instance_def makes_open_def Let_def split: option.split sum.split)
qed

lemma get_tool_ok: "tool_registry_ok r \<Longrightarrow> tool_registry_ok (snd (get_tool n r))"
  by (simp add: get_tool_def make_instance_ok split: option.split)

lemma get_tool_result:
  assumes "get_tool n r = (Inr k, r')" and "tool_registry_ok r"
  shows "mget (rt_tools r') n = Some k" "k < length (rt_store r')" "\<not> tl_closed (rt_store r' ! k)" "get_tool n r' = (Inr k, r')"
proof -
  have ok: "tool_registry_ok r'" using get_tool_ok [OF assms(2), of n] assms(1) by simp
  show "mget (rt_tools r') n = Some k"
    using assms(1) by (auto simp: get_tool_def make_instance_def Let_def split: if_splits option.splits sum.splits)
  then show "k < length (rt_store r')" using tool_registry_okD(1) [OF ok] by blast
  then show "\<not> tl_closed (rt_store r' ! k)" using tool_registry_okD(3) [OF ok] \<open>mget (rt_tools r') n = Some k\<close> by blast
  have "n \<noteq> ''''" "\<not> rt_closed r'"
    using assms(1) by (auto simp: get_tool_def make_instance_def Let_def split: if_splits option.splits sum.splits)
  then show "get_tool n r' = (Inr k, r')" using \<open>mget (rt_tools r') n = Some k\<close> by (simp add: get_tool_def)
qed

lemma close_all_store:
  "set ks \<subseteq> {..<length (rt_store r)} \<Longrightarrow>
   fst (close_all ks r) = [] \<and> rt_tools (snd (close_all ks r)) = rt_tools r
   \<and> length (rt_store (snd (close_all ks r))) = length (rt_store r)
   \<and> (\<forall>j < length (rt_store r). tl_closed (rt_store (snd (close_all ks r)) ! j) \<longleftrightarrow> tl_closed (rt_store r ! j) \<or> j \<in> set ks)"
proof (induction ks arbitrary: r)
  case (Cons k ks)
  let ?r = "r\<lparr>rt_store := (rt_store r)[k := (rt_store r ! k)\<lparr>tl_closed := True\<rparr>]\<rparr>"
  have "set ks \<subseteq> {..<length (rt_store ?r)}" using Cons.prems by simp
  from Cons.IH [OF this] Cons.prems show ?case by (auto simp: close_instance_eq nth_list_update)
qed simp

lemma close_registry_ok:
  assumes ok: "tool_registry_ok r"
  shows "tool_registry_ok (snd (close_registry r))"
proof (cases "rt_closed r")
  case True
  then show ?thesis using ok by (simp add: close_registry_def)
next
  case False
  let ?ks = "mvals (rt_tools r)" and ?r = "snd (close_all (mvals (rt_tools r)) r)"
  have cached: "j \<in> set ?ks \<longleftrightarrow> (\<exists>n. mget (rt_tools r) n = Some j)" for j
    using mget_iff_in_set [OF tool_registry_okD(6) [OF ok]] by (force simp: mvals_def)
  then have "set ?ks \<subseteq> {..<length (rt_store r)}" using tool_registry_okD(1) [OF ok] by auto
  note c = close_all_store [OF this]
  have "tl_closed (rt_store ?r ! j)" if "j < length (rt_store r)" for j
    using c that tool_registry_okD(3) [OF ok that] cached [of j] by blast
  moreover have "snd (close_registry r) = ?r\<lparr>rt_tools := [], rt_factories := [], rt_closed := True\<rparr>"
    using False by (simp add: close_registry_def split: prod.split)
  ultimately show ?thesis using c by (intro tool_registry_okI) simp_all
qed

lemma tool_registry_ok_exec:
  assumes ok: "tool_registry_ok r" and fair: "fair_call c"
  shows "tool_registry_ok (tool_registry_exec r c)"
proof (cases c)
  case (GRegister n f)
  then show ?thesis using ok fair
    by (auto simp: register_tool_def tool_registry_ok_def intro: mall_mput split: option.split)
next
  case (GUnregister n)
  then show ?thesis using ok drop_instance_ok [OF ok, of n]
    by (simp add: unregister_tool_def Let_def tool_registry_ok_def mall_mdel)
next
  case (GGet n)
  then show ?thesis using get_tool_ok [OF ok] by simp
next
  case (GGetDef n d)
  then show ?thesis using ok
    by (simp add: get_tool_with_definition_def make_instance_ok drop_instance_ok split: option.split)
next
  case (GExecute dur env n ps)
  show ?thesis
  proof (cases "get_tool n r")
    case (Pair q r1)
    have ok1: "tool_registry_ok r1" using get_tool_ok [OF ok, of n] Pair by simp
    show ?thesis
    proof (cases q)
      case (Inl e)
      then show ?thesis using ok1 Pair GExecute by (simp add: execute_tool_def)
    next
      case (Inr k)
      obtain res effs t' where e: "tool_execute dur env ps (rt_store r1 ! k) = (res, effs, t')" by (metis prod_cases3)
      have "tl_closed t' = tl_closed (rt_store r1 ! k)" using tool_execute_steps [OF e] counted_keeps by blast
      then have "tool_registry_ok (r1\<lparr>rt_store := (rt_store r1)[k := t']\<rparr>)"
        using use_ok [OF ok1] get_tool_result(2) [OF Pair [unfolded Inr] ok] by blast
      then show ?thesis using ok1 Pair Inr GExecute e by (simp add: execute_tool_def Let_def)
    qed
  qed
next
  case (GUse k a)
  show ?thesis
  proof (cases a)
    case (TExecute dur env ps)
    obtain res effs t' where e: "tool_execute dur env ps (rt_store r ! k) = (res, effs, t')" by (metis prod_cases3)
    have "tl_closed t' = tl_closed (rt_store r ! k)" using tool_execute_steps [OF e] counted_keeps by blast
    then show ?thesis using use_ok [OF ok] ok GUse TExecute e by simp
  next
    case (TSetEnabled b)
    then show ?thesis using use_ok [OF ok] ok GUse by (simp add: tool_set_enabled_def)
  next
    case TClose
    then show ?thesis using fair GUse by simp
  qed
next
  case (GListByType ty)
  then show ?thesis using ok by (simp add: list_tools_by_type_def tool_registry_ok_def)
next
  case (GCloseTool n)
  then show ?thesis using ok drop_ok [OF ok, of n]
    by (simp add: close_tool_def close_instance_eq split: option.split)
next
  case GClose
  then show ?thesis using close_registry_ok [OF ok] by simp
qed

interpretation tool_caches: machine "\<lambda>r c. if fair_call c then tool_registry_exec r c else r" tool_registry_ok
  by unfold_locales (simp add: tool_registry_ok_exec)

lemma fair_run: "list_all fair_call cs \<Longrightarrow>
    foldl tool_registry_exec r cs = foldl (\<lambda>r c. if fair_call c then tool_registry_exec r c else r) r cs"
  by (induction cs arbitrary: r) simp_all

text \<open>The tools that a list by type leaves open stay so; no other call adds one.\<close>

lemma close_all_strays: "rt_strays (snd (close_all ks r)) = rt_strays r"
  by (induction ks arbitrary: r) (simp_all add: close_instance_eq)

lemma make_instance_strays: "rt_strays (snd (make_instance n d r)) = rt_strays r"
  by (simp add: make_instance_def Let_def split: option.split sum.split)

lemma drop_instance_strays: "rt_strays (drop_instance n r) = rt_strays r"
  by (simp add: drop_instance_def close_instance_eq split: option.split)

lemma get_tool_strays: "rt_strays (snd (get_tool n r)) = rt_strays r"
  by (simp add: get_tool_def make_instance_strays split: option.split)

lemma exec_strays: "\<forall>ty. c \<noteq> GListByType ty \<Longrightarrow> rt_strays (tool_registry_exec r c) = rt_strays r"
proof (cases c)
  case (GExecute dur env n ps)
  then show ?thesis using get_tool_strays [of n r]
    by (auto simp: execute_tool_def Let_def split: sum.split prod.split)
next
  case GClose
  then show ?thesis using close_all_strays [of "mvals (rt_tools r)" r]
    by (auto simp: close_registry_def split: prod.split)
qed (simp_all add: register_tool_def unregister_tool_def Let_def drop_instance_strays get_tool_strays make_instance_strays
      get_tool_with_definition_def close_tool_def close_instance_eq split: option.split)

lemma strays_open:
  assumes "tool_registry_ok r" and "\<forall>t \<in> set (rt_strays r). \<not> tl_closed t"
  shows "\<forall>t \<in> set (rt_strays (tool_registry_exec r c)). \<not> tl_closed t"
proof (cases "\<exists>ty. c = GListByType ty")
  case True
  then obtain ty where c: "c = GListByType ty" by blast
  have "\<not> tl_closed t" if "nf \<in> set (rt_factories r)" "left_open ty nf = Some t" for nf t
    using tool_registry_okD(5) [OF assms(1)] that
    by (auto simp: mall_def left_open_def makes_open_def split: sum.splits if_splits)
  then show ?thesis using assms(2) by (auto simp: c list_tools_by_type_def List.map_filter_def)
next
  case False
  then show ?thesis using assms(2) exec_strays [of c r] by simp
qed

lemma fair_run_ok:
  "list_all fair_call cs \<Longrightarrow> tool_registry_ok r \<Longrightarrow> \<forall>t \<in> set (rt_strays r). \<not> tl_closed t \<Longrightarrow>
   tool_registry_ok (foldl tool_registry_exec r cs) \<and> (\<forall>t \<in> set (rt_strays (foldl tool_registry_exec r cs)). \<not> tl_closed t)"
proof (induction cs arbitrary: r)
  case (Cons c cs)
  have "tool_registry_ok (tool_registry_exec r c)" by (rule tool_registry_ok_exec) (use Cons.prems in simp_all)
  moreover have "\<forall>t \<in> set (rt_strays (tool_registry_exec r c)). \<not> tl_closed t"
    by (rule strays_open) (use Cons.prems in simp_all)
  ultimately show ?case using Cons.IH Cons.prems(1) by simp
qed simp

lemma unlisted_run: "\<forall>c \<in> set cs. \<forall>ty. c \<noteq> GListByType ty \<Longrightarrow> rt_strays (foldl tool_registry_exec r cs) = rt_strays r"
  by (induction cs arbitrary: r) (simp_all add: exec_strays)

lemma length_map_filter: "length (List.map_filter f xs) = length (filter (\<lambda>x. f x \<noteq> None) xs)"
  by (simp add: List.map_filter_def)

text \<open>
  C17: Provided that factories make open tools, as those of the program do, and that the users of a tool
  leave closing it to the registry: in every state a registry can reach, an instance it has handed out is
  open exactly while it is cached, under one name, so none of these is leaked and none is handed out
  closed; asking twice for a tool gives the same open instance; and a closed registry has
  closed every one.  Not so the tools that a list by type makes: each list leaves one open for every
  factory that answers with a tool of another type, for ever, and nothing else does.
\<close>

theorem tool_instances_exact:
  assumes "list_all fair_call cs" and "r = foldl tool_registry_exec new_tool_registry cs"
  shows "(\<forall>k < length (rt_store r). \<not> tl_closed (rt_store r ! k) \<longleftrightarrow> (\<exists>!n. mget (rt_tools r) n = Some k))
    \<and> (\<forall>n k r'. get_tool n r = (Inr k, r') \<longrightarrow> \<not> tl_closed (rt_store r' ! k) \<and> get_tool n r' = (Inr k, r'))
    \<and> (rt_closed r \<longrightarrow> (\<forall>k < length (rt_store r). tl_closed (rt_store r ! k)))
    \<and> (\<forall>t \<in> set (rt_strays r). \<not> tl_closed t)
    \<and> ((\<forall>c \<in> set cs. \<forall>ty. c \<noteq> GListByType ty) \<longrightarrow> rt_strays r = [])
    \<and> (\<forall>ty. length (rt_strays (snd (list_tools_by_type ty r))) = length (rt_strays r)
         + length (filter (\<lambda>(n, f). \<exists>t. f (no_definition\<lparr>td_name := n, td_type := ty\<rparr>) = Inr t \<and> tool_type_of t \<noteq> ty) (rt_factories r)))"
proof -
  have start: "tool_registry_ok new_tool_registry" "rt_strays new_tool_registry = []"
    by (simp_all add: tool_registry_ok_def new_tool_registry_def)
  have ok: "tool_registry_ok r" and opened: "\<forall>t \<in> set (rt_strays r). \<not> tl_closed t"
    using fair_run_ok [OF assms(1) start(1)] start(2) by (simp_all add: assms(2))
  have none: "(\<forall>c \<in> set cs. \<forall>ty. c \<noteq> GListByType ty) \<longrightarrow> rt_strays r = []"
    using unlisted_run [of cs new_tool_registry] start(2) by (simp add: assms(2))
  have "(left_open ty nf \<noteq> None) = (case nf of (n, f) \<Rightarrow> \<exists>t. f (no_definition\<lparr>td_name := n, td_type := ty\<rparr>) = Inr t \<and> tool_type_of t \<noteq> ty)" for ty nf
    by (cases nf) (auto simp: left_open_def split: sum.split)
  then have listed: "length (rt_strays (snd (list_tools_by_type ty r))) = length (rt_strays r)
       + length (filter (\<lambda>(n, f). \<exists>t. f (no_definition\<lparr>td_name := n, td_type := ty\<rparr>) = Inr t \<and> tool_type_of t \<noteq> ty) (rt_factories r))" for ty
    by (simp add: list_tools_by_type_def length_map_filter)
  have "\<not> tl_closed (rt_store r ! k) \<longleftrightarrow> (\<exists>!n. mget (rt_tools r) n = Some k)" if "k < length (rt_store r)" for k
    using tool_registry_okD(3) [OF ok that] tool_registry_okD(2) [OF ok] by blast
  moreover have "tl_closed (rt_store r ! k)" if "rt_closed r" "k < length (rt_store r)" for k
    using tool_registry_okD(3) [OF ok that(2)] tool_registry_okD(4) [OF ok that(1)] by simp
  moreover have "\<not> tl_closed (rt_store r' ! k) \<and> get_tool n r' = (Inr k, r')" if "get_tool n r = (Inr k, r')" for n k r'
    using get_tool_result(3,4) [OF that ok] by blast
  ultimately show ?thesis using opened none listed by blast
qed

definition sample_tool_calls :: "tool_registry_op list" where
  "sample_tool_calls = [GRegister ''exec'' (Some placeholder_tool), GRegister ''web_fetch'' (Some new_web_tool), GGet ''exec'',
     GGetDef ''exec'' ((default_definition ''exec'')\<lparr>td_image := ''alpine''\<rparr>), GListByType ToolFile, GClose]"

lemma sample_tool_run:
  "rt_closed (foldl tool_registry_exec new_tool_registry sample_tool_calls)"
  "length (rt_store (foldl tool_registry_exec new_tool_registry sample_tool_calls)) = 2"
  "length (rt_strays (foldl tool_registry_exec new_tool_registry sample_tool_calls)) = 1"
  by code_simp+

lemma tool_instances_exact_witness:
  "tl_closed (rt_store (foldl tool_registry_exec new_tool_registry sample_tool_calls) ! 0)
   \<and> tl_closed (rt_store (foldl tool_registry_exec new_tool_registry sample_tool_calls) ! 1)
   \<and> \<not> tl_closed (hd (rt_strays (foldl tool_registry_exec new_tool_registry sample_tool_calls)))"
proof -
  have "list_all fair_call sample_tool_calls"
    by (simp add: sample_tool_calls_def program_factories_open)
  note exact = tool_instances_exact [OF this refl]
  let ?r = "foldl tool_registry_exec new_tool_registry sample_tool_calls"
  have "hd (rt_strays ?r) \<in> set (rt_strays ?r)"
    by (rule hd_in_set) (use sample_tool_run(3) in \<open>simp only: length_0_conv [symmetric]\<close>)
  moreover have "\<forall>k < length (rt_store ?r). tl_closed (rt_store ?r ! k)" using exact sample_tool_run(1) by blast
  moreover have "\<forall>t \<in> set (rt_strays ?r). \<not> tl_closed t" using exact by blast
  moreover have "0 < length (rt_store ?r)" "1 < length (rt_store ?r)" unfolding sample_tool_run(2) by simp_all
  ultimately show ?thesis by blast
qed

section \<open>What goes wrong\<close>

text \<open>
  The placeholder takes the type it is asked for, so a list by type has every built-in tool.
\<close>

lemma placeholder_type:
  assumes "mget builtin_definitions n \<noteq> None" and "type_given ty"
  shows "has_type ty (n, placeholder_tool)"
  using assms by (auto simp: has_type_def placeholder_tool_def merge_definitions_def tool_type_of_def Let_def)

lemma register_all_builtin: "register_builtin_tools new_tool_registry =
    (None, new_tool_registry\<lparr>rt_factories := builtin_factories\<rparr>)"
  by (simp add: register_builtin_tools_def builtin_factories_def builtin_definitions_def file_definitions_def other_definitions_def builtin_definition_def mkeys_def
      register_tool_def new_tool_registry_def mput_def)

lemma list_by_type_lists_all:
  assumes "type_given ty"
  shows "fst (list_tools_by_type ty (snd (register_builtin_tools new_tool_registry))) = list_builtin_tools"
proof -
  have "has_type ty nf" if "nf \<in> set builtin_factories" for nf
  proof -
    have "mget builtin_definitions (fst nf) \<noteq> None"
      using that mget_iff_in_set [OF builtin_names(1)] by (fastforce simp: builtin_factories_def mkeys_def)
    moreover have "snd nf = placeholder_tool" using that by (auto simp: builtin_factories_def)
    ultimately show ?thesis using placeholder_type [OF _ assms, of "fst nf"] by (metis prod.collapse)
  qed
  then have "filter (has_type ty) builtin_factories = builtin_factories" by simp
  then show ?thesis unfolding register_all_builtin
    by (simp add: list_tools_by_type_def list_builtin_tools_def builtin_factories_def comp_def)
qed

text \<open>
  Asked for a definition with a stricter security policy, the registry hands out the instance it
  has, with the policy it has: the comparison of definitions leaves the policy out.
\<close>

lemma stricter_definition_ignored:
  assumes "tool_registry_ok r" and "get_tool n r = (Inr k, r1)"
    and "definitions_match (tool_definition_of (rt_store r1 ! k)) d"
  shows "get_tool_with_definition n (d\<lparr>td_security := s\<rparr>) r1 = (Inr k, r1)"
proof -
  have "mget (rt_tools r1) n = Some k" "n \<noteq> ''''" "\<not> rt_closed r1"
    using get_tool_result(1,4) [OF assms(2,1)] by (auto simp: get_tool_def split: if_splits)
  then show ?thesis using assms(3) by (simp add: get_tool_with_definition_def definitions_match_def)
qed

end
