(* ===== verification/Tool_Executor.thy ===== *)
theory Tool_Executor
  imports Tool_Registry Policy_Proofs
begin

text \<open>
  pkg/tools/executor.go: a tool runs in a container that is made for the call.  What the
  container runtime answers is a parameter; the calls that are made on it, in order, are part of
  the result.  \<open>Execute\<close> holds the lock of the executor throughout and is one step.
\<close>

record execution_config =
  xc_tool_name :: string
  xc_params :: "params option"
  xc_session :: id
  xc_timeout :: duration
  xc_auto_cleanup :: bool

datatype runtime_call =
    RtCreate container_config string id
  | RtStart id
  | RtWait id
  | RtLogs id
  | RtDestroy id

text \<open>
  The answers of the runtime to each call of one execution; \<open>ro_expired\<close> says whether the deadline
  had passed when the wait failed, \<open>ro_stdout\<close> and \<open>ro_stderr\<close> are what could be read of the
  logs, nothing if they could not be had.  \<open>ro_text\<close> is the text of a duration.
\<close>

record runtime_answers =
  ro_create :: "id result"
  ro_start :: "go_error option"
  ro_wait :: "int result"
  ro_expired :: bool
  ro_stdout :: string
  ro_stderr :: string
  ro_destroy :: "go_error option"
  ro_text :: "duration \<Rightarrow> string"

record executor =
  ex_registry :: tool_registry
  ex_enforcer :: "enforcer option"

definition new_executor :: "bool \<Rightarrow> tool_registry option \<Rightarrow> executor result" where
  "new_executor has_runtime r =
     (if \<not> has_runtime then Inl (new_error ErrInvalidArgument)
      else case r of
        None \<Rightarrow> Inl (new_error ErrInvalidArgument)
      | Some r' \<Rightarrow> Inr \<lparr>ex_registry = r', ex_enforcer = None\<rparr>)"

definition ex_set_registry :: "tool_registry \<Rightarrow> executor \<Rightarrow> executor" where
  "ex_set_registry r x = x\<lparr>ex_registry := r\<rparr>"

definition ex_set_enforcer :: "enforcer option \<Rightarrow> executor \<Rightarrow> executor" where
  "ex_set_enforcer e x = x\<lparr>ex_enforcer := e\<rparr>"

definition validate_execution :: "execution_config \<Rightarrow> go_error option" where
  "validate_execution c =
     (if xc_tool_name c = '''' then Some (new_error ErrInvalidArgument)
      else if id_is_empty (xc_session c) then Some (new_error ErrInvalidArgument)
      else None)"

section \<open>The container\<close>

definition container_name :: "string \<Rightarrow> string \<Rightarrow> string" where
  "container_name tool eid = ''tool-'' @ tool @ ''-'' @ (if length eid > 8 then take 8 eid else eid)"

definition env_key :: "string \<Rightarrow> string" where
  "env_key k = ''TOOL_'' @ to_upper k"

fun params_env :: "params \<Rightarrow> (string, string) gomap \<Rightarrow> (string, string) gomap" where
  "params_env [] m = m"
| "params_env ((k, v) # ps) m = params_env ps (mput (env_key k) v m)"

definition tool_container_env :: "string \<Rightarrow> params \<Rightarrow> id \<Rightarrow> string \<Rightarrow> (string, string) gomap" where
  "tool_container_env tool ps sid eid =
     mput ''SESSION_ID'' sid (mput ''EXECUTION_ID'' eid (mput ''TOOL_NAME'' tool (params_env ps [])))"

definition build_mounts :: "tool_security_policy \<Rightarrow> mount list" where
  "build_mounts sec =
     (if \<not> ts_allow_filesystem sec then []
      else map (\<lambda>(i, p). \<lparr>mt_type = MountBind, mt_source = p, mt_target = ''/mnt/scope'' @ dec_nat i,
                  mt_read_only = ts_read_only_filesystem sec\<rparr>)
             (List.zip [0..<length (ts_allowed_paths sec)] (ts_allowed_paths sec)))"

definition container_labels :: "string \<Rightarrow> id \<Rightarrow> string \<Rightarrow> (string, string) gomap" where
  "container_labels tool sid eid =
     [(''baaaht.managed'', ''true''), (''baaaht.tool_name'', tool), (''baaaht.session_id'', sid),
      (''baaaht.execution_id'', eid), (''baaaht.tool_type'', ''ephemeral'')]"

definition tool_container_config :: "string \<Rightarrow> params \<Rightarrow> id \<Rightarrow> string \<Rightarrow> tool_definition \<Rightarrow> container_config" where
  "tool_container_config tool ps sid eid d =
     (let c = zero_config\<lparr>cc_image := td_image d, cc_command := elements (td_command d),
           cc_env := tool_container_env tool ps sid eid, cc_labels := container_labels tool sid eid,
           cc_mounts := build_mounts (td_security d), cc_resources := td_limits d,
           cc_read_only_rootfs := ts_read_only_filesystem (td_security d), cc_remove_on_stop := True\<rparr>
      in if \<not> ts_allow_network (td_security d) then c\<lparr>cc_network_mode := ''none''\<rparr> else c)"

text \<open>What the policy makes of the configuration, when there is an enforcer.\<close>

definition apply_enforcer :: "id \<Rightarrow> container_config \<Rightarrow> enforcer option \<Rightarrow> container_config result \<times> enforcer option" where
  "apply_enforcer sid c en =
     (case en of
        None \<Rightarrow> (Inr c, None)
      | Some e \<Rightarrow>
          (case en_validate sid c e of
             (Inl err, e1) \<Rightarrow> (Inl (wrap_error ErrInternal err), Some e1)
           | (Inr res, e1) \<Rightarrow>
               if \<not> vr_allowed res then (Inl (new_error ErrPermission), Some e1)
               else (case en_enforce sid c e1 of
                       (Inl err, e2) \<Rightarrow> (Inl (wrap_error ErrInternal err), Some e2)
                     | (Inr c', e2) \<Rightarrow> (Inr c', Some e2))))"

definition create_tool_container ::
    "runtime_answers \<Rightarrow> string \<Rightarrow> params \<Rightarrow> id \<Rightarrow> string \<Rightarrow> tool_definition \<Rightarrow> enforcer option
      \<Rightarrow> id result \<times> runtime_call list \<times> enforcer option" where
  "create_tool_container ans tool ps sid eid d en =
     (case apply_enforcer sid (tool_container_config tool ps sid eid d) en of
        (Inl err, en') \<Rightarrow> (Inl err, [], en')
      | (Inr c, en') \<Rightarrow>
          (map_sum (wrap_error ErrInternal) id (ro_create ans), [RtCreate c (container_name tool eid) sid], en'))"

section \<open>Execution\<close>

definition default_timeout_ns :: duration where
  "default_timeout_ns = 300000000000"

definition effective_timeout :: "execution_config \<Rightarrow> tool_definition \<Rightarrow> duration" where
  "effective_timeout c d =
     (if xc_timeout c = 0 then (if td_timeout d = 0 then default_timeout_ns else td_timeout d) else xc_timeout c)"

definition int32_of :: "int \<Rightarrow> int" where
  "int32_of i = sint (word_of_int i :: 32 word)"

definition determine_status :: "int \<Rightarrow> execution_status" where
  "determine_status code = (if code = 0 then ExecCompleted else ExecFailed)"

definition error_result :: "string \<Rightarrow> string \<Rightarrow> string \<Rightarrow> timestamp \<Rightarrow> duration \<Rightarrow> tool_result" where
  "error_result eid tool msg now dur =
     \<lparr>tr_execution_id = eid, tr_tool_name = tool, tr_status = ExecFailed, tr_exit_code = -1, tr_output = '''',
      tr_error = msg, tr_metadata = [], tr_duration = dur, tr_completed = now + dur, tr_container = ''''\<rparr>"

definition timed_out_result :: "runtime_answers \<Rightarrow> string \<Rightarrow> string \<Rightarrow> duration \<Rightarrow> id \<Rightarrow> timestamp \<Rightarrow> duration \<Rightarrow> tool_result" where
  "timed_out_result ans eid tool tmo cid now dur =
     \<lparr>tr_execution_id = eid, tr_tool_name = tool, tr_status = ExecTimeout, tr_exit_code = -1, tr_output = '''',
      tr_error = ''execution timeout after '' @ ro_text ans tmo,
      tr_metadata = [(''timeout'', ro_text ans tmo), (''container_id'', cid)], tr_duration = dur,
      tr_completed = now + dur, tr_container = cid\<rparr>"

definition finished_result ::
    "runtime_answers \<Rightarrow> string \<Rightarrow> execution_config \<Rightarrow> duration \<Rightarrow> id \<Rightarrow> int \<Rightarrow> timestamp \<Rightarrow> duration \<Rightarrow> tool_result" where
  "finished_result ans eid c tmo cid code now dur =
     \<lparr>tr_execution_id = eid, tr_tool_name = xc_tool_name c, tr_status = determine_status (int32_of code),
      tr_exit_code = int32_of code, tr_output = ro_stdout ans, tr_error = ro_stderr ans,
      tr_metadata = [(''session_id'', xc_session c), (''container_id'', cid), (''timeout'', ro_text ans tmo)],
      tr_duration = dur, tr_completed = now + dur, tr_container = cid\<rparr>"

text \<open>From the start of the container to the result, without the deferred clean-up.\<close>

definition run_container ::
    "runtime_answers \<Rightarrow> (go_error \<Rightarrow> string) \<Rightarrow> string \<Rightarrow> execution_config \<Rightarrow> duration \<Rightarrow> id \<Rightarrow> timestamp \<Rightarrow> duration
      \<Rightarrow> tool_result \<times> runtime_call list" where
  "run_container ans msg eid c tmo cid now dur =
     (case ro_start ans of
        Some e \<Rightarrow> (error_result eid (xc_tool_name c) (msg e) now dur, [RtStart cid])
      | None \<Rightarrow>
          (case ro_wait ans of
             Inl e \<Rightarrow>
               if ro_expired ans
               then (timed_out_result ans eid (xc_tool_name c) tmo cid now dur, [RtStart cid, RtWait cid, RtDestroy cid])
               else (error_result eid (xc_tool_name c) (msg e) now dur, [RtStart cid, RtWait cid])
           | Inr code \<Rightarrow>
               (finished_result ans eid c tmo cid code now dur, [RtStart cid, RtWait cid, RtLogs cid, RtLogs cid])))"

text \<open>\<open>Execute\<close>; \<open>eid\<close> is the identifier drawn, \<open>msg\<close> the text of an error.\<close>

definition ex_execute ::
    "runtime_answers \<Rightarrow> (go_error \<Rightarrow> string) \<Rightarrow> tool_env \<Rightarrow> string \<Rightarrow> timestamp \<Rightarrow> duration \<Rightarrow> execution_config \<Rightarrow> executor
      \<Rightarrow> tool_result result \<times> runtime_call list \<times> executor" where
  "ex_execute ans msg env eid now dur c x =
     (case validate_execution c of
        Some e \<Rightarrow> (Inl e, [], x)
      | None \<Rightarrow>
          (case get_tool (xc_tool_name c) (ex_registry x) of
             (Inl e, r) \<Rightarrow> (Inl (wrap_error ErrInternal e), [], x\<lparr>ex_registry := r\<rparr>)
           | (Inr k, r) \<Rightarrow>
               let t = rt_store r ! k; ps = elements (xc_params c); x1 = x\<lparr>ex_registry := r\<rparr>
               in case tool_validate env ps t of
                 Some e \<Rightarrow> (Inl (wrap_error ErrInvalidArgument e), [], x1)
               | None \<Rightarrow>
                   let d = tool_definition_of t; tmo = effective_timeout c d
                   in case create_tool_container ans (xc_tool_name c) ps (xc_session c) eid d (ex_enforcer x1) of
                     (Inl e, calls, en) \<Rightarrow>
                       (Inr (error_result eid (xc_tool_name c) (msg e) now dur), calls, x1\<lparr>ex_enforcer := en\<rparr>)
                   | (Inr cid, calls, en) \<Rightarrow>
                       (case run_container ans msg eid c tmo cid now dur of
                          (res, calls') \<Rightarrow>
                            (Inr res, calls @ calls' @ (if xc_auto_cleanup c then [RtDestroy cid] else []), x1\<lparr>ex_enforcer := en\<rparr>))))"

section \<open>What the runtime is asked to do\<close>

text \<open>The configuration that goes to the runtime, if the execution gets that far.\<close>

definition wanted_config :: "string \<Rightarrow> execution_config \<Rightarrow> executor \<Rightarrow> container_config" where
  "wanted_config eid c x =
     (case get_tool (xc_tool_name c) (ex_registry x) of
        (Inr k, r) \<Rightarrow> tool_container_config (xc_tool_name c) (elements (xc_params c)) (xc_session c) eid
                      (tool_definition_of (rt_store r ! k))
      | _ \<Rightarrow> zero_config)"

text \<open>An execution asks for nothing, or for a container that cannot be had, or runs one.\<close>

definition asked :: "string \<Rightarrow> execution_config \<Rightarrow> executor \<Rightarrow> executor \<Rightarrow> container_config \<Rightarrow> bool" where
  "asked eid c x x' cfg \<longleftrightarrow> apply_enforcer (xc_session c) (wanted_config eid c x) (ex_enforcer x) = (Inr cfg, ex_enforcer x')"

lemma ex_execute_cases:
  assumes "ex_execute ans msg env eid now dur c x = (res, calls, x')"
  shows "(calls = [] \<and> (\<forall>q. res = Inr q \<longrightarrow> tr_status q = ExecFailed))
    \<or> (\<exists>cfg e. calls = [RtCreate cfg (container_name (xc_tool_name c) eid) (xc_session c)] \<and> ro_create ans = Inl e
         \<and> asked eid c x x' cfg \<and> (\<exists>q. res = Inr q \<and> tr_status q = ExecFailed))
    \<or> (\<exists>cfg tmo cid q mid. calls = RtCreate cfg (container_name (xc_tool_name c) eid) (xc_session c)
           # mid @ (if xc_auto_cleanup c then [RtDestroy cid] else [])
         \<and> ro_create ans = Inr cid \<and> run_container ans msg eid c tmo cid now dur = (q, mid) \<and> res = Inr q \<and> asked eid c x x' cfg)"
proof (cases "validate_execution c")
  case (Some e)
  then show ?thesis using assms by (auto simp: ex_execute_def)
next
  case v: None
  obtain g r where g: "get_tool (xc_tool_name c) (ex_registry x) = (g, r)" by fastforce
  show ?thesis
  proof (cases g)
    case (Inl e)
    then show ?thesis using assms v g by (auto simp: ex_execute_def)
  next
    case k: (Inr k)
    show ?thesis
    proof (cases "tool_validate env (elements (xc_params c)) (rt_store r ! k)")
      case (Some e)
      then show ?thesis using assms v g k by (auto simp: ex_execute_def Let_def)
    next
      case None
      obtain a en where a: "apply_enforcer (xc_session c) (wanted_config eid c x) (ex_enforcer x) = (a, en)" by fastforce
      have w: "wanted_config eid c x = tool_container_config (xc_tool_name c) (elements (xc_params c)) (xc_session c) eid
          (tool_definition_of (rt_store r ! k))"
        by (simp add: wanted_config_def g k)
      show ?thesis
      proof (cases a)
        case (Inl e)
        then show ?thesis using assms v g k None a
          by (auto simp: ex_execute_def Let_def create_tool_container_def w error_result_def)
      next
        case cfg: (Inr cfg)
        show ?thesis
        proof (cases "ro_create ans")
          case (Inl e)
          then show ?thesis using assms v g k None a cfg
            by (auto simp: ex_execute_def Let_def create_tool_container_def w error_result_def asked_def)
        next
          case (Inr cid)
          obtain q mid where "run_container ans msg eid c (effective_timeout c (tool_definition_of (rt_store r ! k))) cid now dur = (q, mid)"
            by fastforce
          then show ?thesis using assms v g k None a cfg Inr
            by (auto simp: ex_execute_def Let_def create_tool_container_def w asked_def)
        qed
      qed
    qed
  qed
qed

text \<open>The container that a call is about; a creation has none yet.\<close>

fun call_container :: "runtime_call \<Rightarrow> id option" where
  "call_container (RtCreate cfg n sid) = None"
| "call_container (RtStart cid) = Some cid"
| "call_container (RtWait cid) = Some cid"
| "call_container (RtLogs cid) = Some cid"
| "call_container (RtDestroy cid) = Some cid"

text \<open>
  C18: An execution makes at most one container, first, and every later call on the runtime, to start, wait
  for, read or destroy, is about that container; an execution that cleans up asks, last, for its destruction,
  whatever failed in between.  Without a container nothing more is asked of the runtime.  (That the
  runtime obeys is not part of it: an error of the last call is logged and ignored.)
\<close>

theorem executor_leaves_no_container:
  assumes "ex_execute ans msg env eid now dur c x = (res, calls, x')"
  shows "calls = [] \<or>
    (\<exists>cfg n rest. calls = RtCreate cfg n (xc_session c) # rest
       \<and> (case ro_create ans of
            Inl e \<Rightarrow> rest = []
          | Inr cid \<Rightarrow> rest \<noteq> [] \<and> (\<forall>k \<in> set rest. call_container k = Some cid)
              \<and> (xc_auto_cleanup c \<longrightarrow> last rest = RtDestroy cid)))"
proof -
  have mid: "mid \<noteq> [] \<and> set mid \<subseteq> {RtStart cid, RtWait cid, RtDestroy cid, RtLogs cid}"
    if "run_container ans msg eid c tmo cid now dur = (q, mid)" for tmo cid q mid
    using that by (auto simp: run_container_def split: option.splits sum.splits if_splits)
  from ex_execute_cases [OF assms(1)] show ?thesis
  proof (elim disjE exE conjE)
    fix cfg tmo cid q mid
    assume c: "calls = RtCreate cfg (container_name (xc_tool_name c) eid) (xc_session c)
        # mid @ (if xc_auto_cleanup c then [RtDestroy cid] else [])" "ro_create ans = Inr cid"
      and r: "run_container ans msg eid c tmo cid now dur = (q, mid)"
    show ?thesis using c mid [OF r] by auto
  qed auto
qed

text \<open>What the enforcer lets through.\<close>

lemma apply_enforcer_enforced:
  assumes "apply_enforcer sid c (Some e) = (Inr c', en)"
  shows "\<exists>e1 e2. en = Some e2 \<and> en_enforce sid c e1 = (Inr c', e2) \<and> effective_policy e1 sid = effective_policy e sid
    \<and> fst (en_validate sid c e) = Inr \<lparr>vr_allowed = True, vr_violations = vr_violations (projr (fst (en_validate sid c e))), vr_warnings = []\<rparr>"
proof -
  obtain v e1 where v: "en_validate sid c e = (v, e1)" by fastforce
  have "effective_policy e1 sid = effective_policy e sid" using en_validate_frame(2) [of sid c e sid] v by simp
  moreover have "vr_warnings (projr v) = []" if "is_ok v"
    using that v en_validate_fst [of sid c e] by (auto split: if_splits)
  ultimately show ?thesis using assms v
    by (auto simp: apply_enforcer_def split: sum.splits if_splits prod.splits)
qed

text \<open>
  C19: With a strict enforcer every container that is made for a tool was validated as it was asked for, and
  as it is made it validates again, in the state the execution leaves the enforcer, with one exception: where
  the merged policy has a minimum above its maximum, a CPU or memory limit filled in from the
  maximum violates the minimum.  With minima that do not exceed maxima there is no violation at all.
\<close>

theorem tool_containers_conform:
  assumes "ex_execute ans msg env eid now dur c x = (res, calls, x')" and "RtCreate cfg n sid \<in> set calls"
    and "ex_enforcer x = Some e" and "pol_mode (effective_policy e (xc_session c)) = ModeStrict"
  shows "\<exists>e' vs. ex_enforcer x' = Some e' \<and> sid = xc_session c
    \<and> fst (en_validate sid (wanted_config eid c x) e) = Inr \<lparr>vr_allowed = True, vr_violations = [], vr_warnings = []\<rparr>
    \<and> fst (en_validate sid cfg e') = Inr \<lparr>vr_allowed = (vs = []), vr_violations = vs, vr_warnings = []\<rparr>
    \<and> set vs \<subseteq> {viol ''quota.cpu.min'' SeverityWarning CompQuota, viol ''quota.memory.min'' SeverityWarning CompQuota}
    \<and> (vs \<noteq> [] \<longleftrightarrow>
         filled_below (rl_nano_cpus (cc_resources (wanted_config eid c x))) (rq_min_cpus (pol_quotas (effective_policy e sid)))
           (rq_max_cpus (pol_quotas (effective_policy e sid)))
         \<or> filled_below (rl_memory_bytes (cc_resources (wanted_config eid c x))) (rq_min_memory (pol_quotas (effective_policy e sid)))
           (rq_max_memory (pol_quotas (effective_policy e sid))))
    \<and> (quotas_consistent (effective_policy e sid) \<longrightarrow> vs = [])"
proof -
  let ?w = "wanted_config eid c x" and ?vs = "minimum_clash (effective_policy e sid) (wanted_config eid c x)"
  from ex_execute_cases [OF assms(1)] assms(2) have asked: "asked eid c x x' cfg" and sid: "sid = xc_session c"
    by (auto simp: run_container_def split: option.splits sum.splits if_splits)
  then obtain e1 e2 where e: "ex_enforcer x' = Some e2" "en_enforce sid ?w e1 = (Inr cfg, e2)"
    "effective_policy e1 sid = effective_policy e sid"
    "fst (en_validate sid ?w e) =
       Inr \<lparr>vr_allowed = True, vr_violations = vr_violations (projr (fst (en_validate sid ?w e))), vr_warnings = []\<rparr>"
    using apply_enforcer_enforced [of "xc_session c" ?w e cfg "ex_enforcer x'"] assms(3)
    by (auto simp: asked_def)
  have first: "fst (en_validate sid ?w e) = Inr \<lparr>vr_allowed = True, vr_violations = [], vr_warnings = []\<rparr>"
    using e(4) assms(4) sid by (auto simp: en_validate_fst split: if_splits)
  have again: "fst (en_validate sid cfg e2) = Inr \<lparr>vr_allowed = (?vs = []), vr_violations = ?vs, vr_warnings = []\<rparr>"
    using enforced_validates [OF e(2)] assms(4) e(3) sid by simp
  have "set ?vs \<subseteq> {viol ''quota.cpu.min'' SeverityWarning CompQuota, viol ''quota.memory.min'' SeverityWarning CompQuota}"
    by (auto simp: minimum_clash_def Let_def flag_if_def)
  with first again e(1) sid minimum_clash_consistent [of "effective_policy e sid" ?w] show ?thesis
    by (intro exI [of _ e2] exI [of _ ?vs]) (auto simp: minimum_clash_def Let_def flag_if_def)
qed

definition sample_answers :: runtime_answers where
  "sample_answers = \<lparr>ro_create = Inr ''c1'', ro_start = None, ro_wait = Inr 0, ro_expired = False, ro_stdout = ''out'',
     ro_stderr = '''', ro_destroy = None, ro_text = \<lambda>d. ''5m0s''\<rparr>"

definition sample_executor :: executor where
  "sample_executor = \<lparr>ex_registry = snd (register_builtin_tools new_tool_registry), ex_enforcer = Some (new_enforcer sample_cfg)\<rparr>"

text \<open>The default policy wants an image with a name, so the tool is given one first.\<close>

definition sample_image_executor :: executor where
  "sample_image_executor = sample_executor\<lparr>ex_registry :=
     snd (get_tool_with_definition ''exec'' ((default_definition ''exec'')\<lparr>td_image := ''alpine:3''\<rparr>) (ex_registry sample_executor))\<rparr>"

definition sample_execution :: execution_config where
  "sample_execution = \<lparr>xc_tool_name = ''exec'', xc_params = Some [(''command'', ''ls'')], xc_session = ''s'', xc_timeout = 0,
     xc_auto_cleanup = True\<rparr>"

definition sample_calls :: "runtime_call list" where
  "sample_calls = fst (snd (ex_execute sample_answers (\<lambda>e. ''error'') sample_env ''0123456789'' 3 4 sample_execution sample_image_executor))"

lemma sample_calls_shape:
  "length sample_calls = 6" "last sample_calls = RtDestroy ''c1''" "RtStart ''c1'' \<in> set sample_calls"
  by code_simp+

lemma executor_leaves_no_container_witness:
  "\<exists>cfg n rest. sample_calls = RtCreate cfg n ''s'' # rest \<and> rest \<noteq> []
     \<and> (\<forall>k \<in> set rest. call_container k = Some ''c1'') \<and> last rest = RtDestroy ''c1''"
proof -
  obtain res x' where e: "ex_execute sample_answers (\<lambda>e. ''error'') sample_env ''0123456789'' 3 4 sample_execution sample_image_executor
      = (res, sample_calls, x')"
    by (metis prod.collapse sample_calls_def)
  have s: "xc_auto_cleanup sample_execution" "xc_session sample_execution = ''s''" "ro_create sample_answers = Inr ''c1''"
    by (simp_all add: sample_execution_def sample_answers_def)
  from executor_leaves_no_container [OF e] sample_calls_shape(1) s show ?thesis by auto
qed

lemma sample_policy: "pol_mode (effective_policy (new_enforcer sample_cfg) ''s'') = ModeStrict"
  "quotas_consistent (effective_policy (new_enforcer sample_cfg) ''s'')"
  by (simp_all only: sample_effective default_policy_simps)

definition sample_created :: container_config where
  "sample_created = (case hd sample_calls of RtCreate cfg n sid \<Rightarrow> cfg | _ \<Rightarrow> zero_config)"

lemma sample_created: "RtCreate sample_created ''tool-exec-01234567'' ''s'' \<in> set sample_calls"
  by code_simp

lemma tool_containers_conform_witness:
  "\<exists>e'. fst (en_validate ''s'' sample_created e') = Inr \<lparr>vr_allowed = True, vr_violations = [], vr_warnings = []\<rparr>"
proof -
  obtain res x' where e: "ex_execute sample_answers (\<lambda>e. ''error'') sample_env ''0123456789'' 3 4 sample_execution sample_image_executor
      = (res, sample_calls, x')"
    by (metis prod.collapse sample_calls_def)
  have "ex_enforcer sample_image_executor = Some (new_enforcer sample_cfg)" "xc_session sample_execution = ''s''"
    by (simp_all add: sample_image_executor_def sample_executor_def sample_execution_def)
  from tool_containers_conform [OF e sample_created this(1), unfolded this(2), OF sample_policy(1)] sample_policy(2)
  show ?thesis by auto
qed

section \<open>Disabled tools\<close>

lemma set_enabled_config:
  "tool_container_config n ps sid eid (tool_definition_of (tool_set_enabled b t)) = tool_container_config n ps sid eid (tool_definition_of t)"
  "effective_timeout c (tool_definition_of (tool_set_enabled b t)) = effective_timeout c (tool_definition_of t)"
  "tool_validate env ps (tool_set_enabled b t) = tool_validate env ps t"
  by (simp_all add: tool_container_config_def effective_timeout_def tool_definition_of_def tool_set_enabled_def tool_validate_def
      validate_defs split: tool_kind.split)

text \<open>
  Disabling a tool makes no difference to the executor, which runs it in a container as before, while
  the registry refuses to execute it.
\<close>

lemma disabled_tool_still_runs:
  assumes "get_tool (xc_tool_name c) r = (Inr k, r)" and "k < length (rt_store r)"
    and "r' = r\<lparr>rt_store := (rt_store r)[k := tool_set_enabled False (rt_store r ! k)]\<rparr>"
  shows "fst (ex_execute ans msg env eid now dur c (x\<lparr>ex_registry := r'\<rparr>)) = fst (ex_execute ans msg env eid now dur c (x\<lparr>ex_registry := r\<rparr>))
    \<and> fst (snd (ex_execute ans msg env eid now dur c (x\<lparr>ex_registry := r'\<rparr>)))
      = fst (snd (ex_execute ans msg env eid now dur c (x\<lparr>ex_registry := r\<rparr>)))
    \<and> fst (execute_tool dur env (xc_tool_name c) ps r') = Inl (new_error ErrPermissionDenied)"
proof -
  have g: "get_tool (xc_tool_name c) r' = (Inr k, r')"
    using assms(1) unfolding assms(3) get_tool_def make_instance_def Let_def
    by (auto split: if_splits option.splits sum.splits dest!: arg_cong [where f = "\<lambda>x. length (rt_store x)"])
  have "\<not> tool_enabled (rt_store r' ! k)" using assms(2) unfolding assms(3)
    by (simp add: tool_enabled_def tool_set_enabled_def split: tool_kind.split)
  then have "fst (execute_tool dur env (xc_tool_name c) ps r') = Inl (new_error ErrPermissionDenied)"
    using g by (simp add: execute_tool_def Let_def)
  moreover have "fst (ex_execute ans msg env eid now dur c (x\<lparr>ex_registry := r'\<rparr>)) = fst (ex_execute ans msg env eid now dur c (x\<lparr>ex_registry := r\<rparr>))
    \<and> fst (snd (ex_execute ans msg env eid now dur c (x\<lparr>ex_registry := r'\<rparr>)))
      = fst (snd (ex_execute ans msg env eid now dur c (x\<lparr>ex_registry := r\<rparr>)))"
    using assms(1,2) g unfolding assms(3)
    by (simp add: ex_execute_def Let_def set_enabled_config create_tool_container_def split: option.split sum.split prod.split)
  ultimately show ?thesis by blast
qed

lemma builtin_registry_ok: "tool_registry_ok (snd (register_builtin_tools new_tool_registry))"
  using program_factories_open(5) unfolding register_all_builtin
  by (auto simp: tool_registry_ok_def new_tool_registry_def mall_def builtin_factories_def)

definition exec_registry :: tool_registry where
  "exec_registry = snd (get_tool ''exec'' (snd (register_builtin_tools new_tool_registry)))"

lemma disabled_tool_still_runs_witness:
  "fst (execute_tool 4 sample_env ''exec'' [] (exec_registry\<lparr>rt_store := (rt_store exec_registry)
     [0 := tool_set_enabled False (rt_store exec_registry ! 0)]\<rparr>)) = Inl (new_error ErrPermissionDenied)"
proof -
  have "fst (get_tool ''exec'' (snd (register_builtin_tools new_tool_registry))) = Inr 0" by code_simp
  then have g: "get_tool ''exec'' (snd (register_builtin_tools new_tool_registry)) = (Inr 0, exec_registry)"
    by (simp add: exec_registry_def prod_eq_iff)
  note r = get_tool_result [OF g builtin_registry_ok]
  have n: "xc_tool_name sample_execution = ''exec''" by (simp add: sample_execution_def)
  from disabled_tool_still_runs [of sample_execution exec_registry 0, unfolded n, OF r(4,2) refl, where env = sample_env and dur = 4 and ps = "[]"]
  show ?thesis by blast
qed

end
