(* ===== verification/Memory_Types.thy ===== *)
theory Memory_Types
  imports Go_Files Complex_Main
begin

text \<open>
  pkg/types/memory.go, pkg/memory/scope.go and the names of topics of
  pkg/memory/organizer.go: memories, filters, and the directories of owners and topics.
  Scopes and types are strings, of which the code knows some; a float64 is a rational number
  that is only compared.  A label map or tag list that is nil is the empty one.
\<close>

section \<open>Data\<close>

type_synonym memory_scope = string
type_synonym memory_type = string

definition scope_user :: memory_scope where "scope_user = ''user''"
definition scope_group :: memory_scope where "scope_group = ''group''"

definition memory_types :: "memory_type list" where
  "memory_types = [''preference'', ''fact'', ''context'', ''decision'', ''custom'']"

record memory_metadata =
  md_labels :: "(string, string) gomap"
  md_tags :: "string list"
  md_source :: string
  md_source_id :: "id option"
  md_importance :: int
  md_confidence :: rat
  md_verified :: bool
  md_version :: int

record memory =
  me_id :: id
  me_scope :: memory_scope
  me_owner :: string
  me_type :: memory_type
  me_topic :: string
  me_title :: string
  me_content :: string
  me_created :: timestamp
  me_updated :: timestamp
  me_accessed :: "timestamp option"
  me_expires :: "timestamp option"
  me_metadata :: memory_metadata

record memory_filter =
  mf_scope :: "memory_scope option"
  mf_owner :: "string option"
  mf_type :: "memory_type option"
  mf_topic :: "string option"
  mf_label :: "(string, string) gomap"
  mf_tags :: "string list"
  mf_start :: "timestamp option"
  mf_end :: "timestamp option"
  mf_min_importance :: "int option"
  mf_verified :: "bool option"

record memory_stats =
  mt_scope :: memory_scope
  mt_owner :: string
  mt_total :: int
  mt_types :: "(memory_type, int) gomap"
  mt_topics :: "(string, int) gomap"
  mt_last_updated :: timestamp
  mt_timestamp :: timestamp

record memory_config =
  mc_storage_path :: string
  mc_user_path :: string
  mc_group_path :: string
  mc_enabled :: bool
  mc_max_file_size :: int
  mc_file_format :: string

section \<open>Scopes and owners\<close>

definition validate_scope :: "memory_scope \<Rightarrow> go_error option" where
  "validate_scope sc = (if sc = scope_user \<or> sc = scope_group then None else Some (new_error ErrInvalidArgument))"

definition get_scope_path :: "memory_config \<Rightarrow> memory_scope \<Rightarrow> string result" where
  "get_scope_path cfg sc =
     (case validate_scope sc of
        Some e \<Rightarrow> Inl e
      | None \<Rightarrow> if sc = scope_user then Inr (mc_user_path cfg)
                else if sc = scope_group then Inr (mc_group_path cfg)
                else Inl (new_error ErrInvalidArgument))"

definition is_lower_letter :: "char \<Rightarrow> bool" where
  "is_lower_letter c \<longleftrightarrow> (let n = of_char c :: nat in 97 \<le> n \<and> n \<le> 122)"

definition is_upper_letter :: "char \<Rightarrow> bool" where
  "is_upper_letter c \<longleftrightarrow> (let n = of_char c :: nat in 65 \<le> n \<and> n \<le> 90)"

definition hyphen :: char where "hyphen = CHR ''-''"

definition owner_char :: "char \<Rightarrow> bool" where
  "owner_char c \<longleftrightarrow> is_lower_letter c \<or> is_upper_letter c \<or> is_digit c \<or> c = hyphen \<or> c = CHR ''_'' \<or> c = dot"

text \<open>
  Characters are bytes, so this is exact on ASCII; of any other rune Go makes one hyphen, the
  model one for each byte.
\<close>

definition sanitize_owner_id :: "string \<Rightarrow> string" where
  "sanitize_owner_id o1 = map (\<lambda>c. if owner_char c then c else hyphen) (path_base o1)"

definition get_owner_path :: "memory_config \<Rightarrow> memory_scope \<Rightarrow> string \<Rightarrow> string result" where
  "get_owner_path cfg sc owner =
     (if owner = '''' then Inl (new_error ErrInvalidArgument)
      else
        (case validate_scope sc of
           Some e \<Rightarrow> Inl e
         | None \<Rightarrow>
             (case get_scope_path cfg sc of
                Inl e \<Rightarrow> Inl e
              | Inr p \<Rightarrow> Inr (path_join [p, sanitize_owner_id owner]))))"

text \<open>The operations on directories; \<open>fault\<close> is what \<open>MkdirAll\<close> or \<open>ReadDir\<close> returns.\<close>

definition create_scope_dir :: "memory_config \<Rightarrow> go_error option \<Rightarrow> memory_scope \<Rightarrow> disk \<Rightarrow> go_error option \<times> disk" where
  "create_scope_dir cfg fault sc d =
     (case get_scope_path cfg sc of
        Inl e \<Rightarrow> (Some e, d)
      | Inr p \<Rightarrow> (case fault of Some e \<Rightarrow> (Some (wrap_error ErrInternal e), d) | None \<Rightarrow> (None, disk_mkdir_all p d)))"

definition create_owner_dir ::
    "memory_config \<Rightarrow> go_error option \<Rightarrow> memory_scope \<Rightarrow> string \<Rightarrow> disk \<Rightarrow> string result \<times> disk" where
  "create_owner_dir cfg fault sc owner d =
     (case get_owner_path cfg sc owner of
        Inl e \<Rightarrow> (Inl e, d)
      | Inr p \<Rightarrow> (case fault of Some e \<Rightarrow> (Inl (wrap_error ErrInternal e), d) | None \<Rightarrow> (Inr p, disk_mkdir_all p d)))"

text \<open>\<open>os.Stat\<close> on a directory: whether there is one, or an error other than absence.\<close>

definition dir_exists :: "go_error option \<Rightarrow> string \<Rightarrow> disk \<Rightarrow> bool result" where
  "dir_exists fault p d =
     (case fault of Some e \<Rightarrow> Inl (wrap_error ErrInternal e) | None \<Rightarrow> Inr (p \<in> set (dk_dirs d)))"

definition scope_exists :: "memory_config \<Rightarrow> go_error option \<Rightarrow> memory_scope \<Rightarrow> disk \<Rightarrow> bool result" where
  "scope_exists cfg fault sc d =
     (case get_scope_path cfg sc of Inl e \<Rightarrow> Inl e | Inr p \<Rightarrow> dir_exists fault p d)"

definition owner_dir_exists ::
    "memory_config \<Rightarrow> go_error option \<Rightarrow> memory_scope \<Rightarrow> string \<Rightarrow> disk \<Rightarrow> bool result" where
  "owner_dir_exists cfg fault sc owner d =
     (case get_owner_path cfg sc owner of Inl e \<Rightarrow> Inl e | Inr p \<Rightarrow> dir_exists fault p d)"

text \<open>The names of the directories in a directory; the first fault is that of \<open>Stat\<close>.\<close>

definition dirs_in :: "go_error option \<Rightarrow> string \<Rightarrow> disk \<Rightarrow> string list result" where
  "dirs_in fault p d =
     (case fault of
        Some e \<Rightarrow> Inl (wrap_error ErrInternal e)
      | None \<Rightarrow> Inr (map fst (filter snd (disk_read_dir p d))))"

definition list_owners ::
    "memory_config \<Rightarrow> go_error option \<Rightarrow> go_error option \<Rightarrow> memory_scope \<Rightarrow> disk \<Rightarrow> string list result" where
  "list_owners cfg fault1 fault2 sc d =
     (case validate_scope sc of
        Some e \<Rightarrow> Inl e
      | None \<Rightarrow>
          (case get_scope_path cfg sc of
             Inl e \<Rightarrow> Inl e
           | Inr p \<Rightarrow>
               (case scope_exists cfg fault1 sc d of
                  Inl e \<Rightarrow> Inl e
                | Inr False \<Rightarrow> Inr []
                | Inr True \<Rightarrow> dirs_in fault2 p d)))"

definition list_all_scopes :: "memory_config \<Rightarrow> (memory_scope \<times> string) list" where
  "list_all_scopes cfg = [(scope_user, mc_user_path cfg), (scope_group, mc_group_path cfg)]"

text \<open>
  Both paths are made absolute first, so \<open>filepath.Rel\<close> does not fail; \<open>Abs\<close> fails only
  when there is no working directory.
\<close>

definition validate_memory_path ::
    "memory_config \<Rightarrow> string \<Rightarrow> memory_scope \<Rightarrow> string \<Rightarrow> string \<Rightarrow> go_error option" where
  "validate_memory_path cfg cwd sc owner file =
     (case get_owner_path cfg sc owner of
        Inl e \<Rightarrow> Some e
      | Inr p \<Rightarrow>
          if has_prefix (path_rel (path_abs cwd p) (path_abs cwd file)) ''..''
          then Some (new_error ErrPermission) else None)"

definition within_scope :: "string \<Rightarrow> string \<Rightarrow> string \<Rightarrow> bool" where
  "within_scope cwd base file \<longleftrightarrow> \<not> has_prefix (path_rel (path_abs cwd base) (path_abs cwd file)) ''..''"

definition get_scope_for_path :: "memory_config \<Rightarrow> string \<Rightarrow> string \<Rightarrow> memory_scope" where
  "get_scope_for_path cfg cwd file =
     (if within_scope cwd (mc_user_path cfg) file then scope_user
      else if within_scope cwd (mc_group_path cfg) file then scope_group else '''')"

fun ensure_scope_dirs :: "memory_config \<Rightarrow> (memory_scope \<Rightarrow> go_error option) \<Rightarrow> memory_scope list \<Rightarrow> disk \<Rightarrow> go_error option \<times> disk" where
  "ensure_scope_dirs cfg faults [] d = (None, d)"
| "ensure_scope_dirs cfg faults (sc # scs) d =
     (case create_scope_dir cfg (faults sc) sc d of
        (Some e, d') \<Rightarrow> (Some (wrap_error ErrInternal e), d')
      | (None, d') \<Rightarrow> ensure_scope_dirs cfg faults scs d')"

definition ensure_scope_directories :: "memory_config \<Rightarrow> (memory_scope \<Rightarrow> go_error option) \<Rightarrow> disk \<Rightarrow> go_error option \<times> disk" where
  "ensure_scope_directories cfg faults d = ensure_scope_dirs cfg faults [scope_user, scope_group] d"

section \<open>Topics\<close>

definition validate_topic :: "string \<Rightarrow> go_error option" where
  "validate_topic t =
     (if t = '''' then Some (new_error ErrInvalidArgument)
      else if str_contains t ''..'' \<or> str_contains t [slash] \<or> str_contains t [char_of (92::nat)]
      then Some (new_error ErrInvalidArgument)
      else if length t > 100 then Some (new_error ErrInvalidArgument)
      else None)"

definition name_char :: "char \<Rightarrow> bool" where
  "name_char c \<longleftrightarrow> is_lower_letter c \<or> is_digit c \<or> c = hyphen \<or> c = CHR ''_''"

definition hyphenate :: "string \<Rightarrow> string" where
  "hyphenate s = map (\<lambda>c. if name_char c then c else hyphen) s"

lemma replace_hyphens_length: "length (replace_all [hyphen, hyphen] [hyphen] s) \<le> length s"
  by (induction "[hyphen, hyphen]" "[hyphen]" s rule: replace_all.induct)
    (auto simp: has_prefix_def split: if_splits)

lemma replace_hyphens_shorter:
  "str_contains s [hyphen, hyphen] \<Longrightarrow> length (replace_all [hyphen, hyphen] [hyphen] s) < length s"
proof (induction "[hyphen, hyphen]" "[hyphen]" s rule: replace_all.induct)
  case (2 x xs)
  then show ?case
    using replace_hyphens_length [of "drop 2 (x # xs)"]
    by (cases xs) (auto simp: has_prefix_def split: if_splits)
qed simp

text \<open>The loop that removes runs of hyphens.\<close>

function squeeze_hyphens :: "string \<Rightarrow> string" where
  "squeeze_hyphens s =
     (if str_contains s [hyphen, hyphen] then squeeze_hyphens (replace_all [hyphen, hyphen] [hyphen] s) else s)"
  by auto
termination by (relation "measure length") (auto simp: replace_hyphens_shorter)

declare squeeze_hyphens.simps [simp del]

definition trim_hyphens :: "string \<Rightarrow> string" where
  "trim_hyphens s = rev (dropWhile (\<lambda>c. c = hyphen) (rev (dropWhile (\<lambda>c. c = hyphen) s)))"

definition sanitize_topic :: "string \<Rightarrow> string" where
  "sanitize_topic t =
     (let s = trim_hyphens (squeeze_hyphens (hyphenate (replace_all '' '' [hyphen] (to_lower t))))
      in if s = '''' then ''general'' else s)"

end
