(* ===== verification/Memory_Markdown.thy ===== *)
theory Memory_Markdown
  imports Memory_Types
begin

text \<open>
  pkg/memory/markdown.go: a memory as a markdown file with its metadata as JSON in front.
  The JSON codec and the text of times in RFC 3339 are parameters.  Reading slices the
  text between two marks; where the second mark overlaps the first the slice panics, and
  the result of reading is \<open>None\<close>.
\<close>

section \<open>Front matter\<close>

text \<open>What the JSON holds; a key that is left out is read as the zero value, so they are one here.\<close>

record front_matter =
  fr_id :: string
  fr_scope :: string
  fr_owner :: string
  fr_type :: string
  fr_topic :: string
  fr_created :: string
  fr_updated :: string
  fr_accessed :: string
  fr_expires :: string
  fr_labels :: "(string, string) gomap"
  fr_tags :: "string list"
  fr_source :: string
  fr_source_id :: string
  fr_importance :: int
  fr_confidence :: rat
  fr_verified :: bool
  fr_version :: int

record memory_codec =
  mc_marshal :: "front_matter \<Rightarrow> string result"
  mc_unmarshal :: "string \<Rightarrow> front_matter result"
  mc_format :: "timestamp \<Rightarrow> string"
  mc_parse :: "string \<Rightarrow> timestamp result"

definition fence :: string where "fence = ''```''"

definition optional_time :: "memory_codec \<Rightarrow> timestamp option \<Rightarrow> string" where
  "optional_time cd t = (case t of None \<Rightarrow> '''' | Some x \<Rightarrow> mc_format cd x)"

definition front_of :: "memory_codec \<Rightarrow> memory \<Rightarrow> front_matter" where
  "front_of cd m =
     (let md = me_metadata m
      in \<lparr>fr_id = me_id m, fr_scope = me_scope m, fr_owner = me_owner m, fr_type = me_type m, fr_topic = me_topic m,
          fr_created = mc_format cd (me_created m), fr_updated = mc_format cd (me_updated m),
          fr_accessed = optional_time cd (me_accessed m), fr_expires = optional_time cd (me_expires m),
          fr_labels = md_labels md, fr_tags = md_tags md, fr_source = md_source md,
          fr_source_id = (case md_source_id md of None \<Rightarrow> '''' | Some i \<Rightarrow> i),
          fr_importance = (if md_importance md > 0 then md_importance md else 0),
          fr_confidence = (if md_confidence md > 0 then md_confidence md else 0),
          fr_verified = md_verified md,
          fr_version = (if md_version md > 0 then md_version md else 0)\<rparr>)"

definition serialize_memory :: "memory_codec \<Rightarrow> memory \<Rightarrow> string result" where
  "serialize_memory cd m =
     (case mc_marshal cd (front_of cd m) of
        Inl e \<Rightarrow> Inl (wrap_error ErrInternal e)
      | Inr j \<Rightarrow>
          Inr (fence @ ''json'' @ [newline] @ j @ [newline] @ fence @ [newline, newline]
               @ ''# '' @ me_title m @ [newline, newline] @ me_content m))"

section \<open>Reading\<close>

definition is_trimmed :: "char \<Rightarrow> bool" where
  "is_trimmed c \<longleftrightarrow> (let n = of_char c :: nat in n = 32 \<or> n = 9 \<or> n = 13 \<or> n = 10)"

definition trim_left :: "string \<Rightarrow> string" where
  "trim_left s = dropWhile is_trimmed s"

definition trim_right :: "string \<Rightarrow> string" where
  "trim_right s = rev (dropWhile is_trimmed (rev s))"

text \<open>The first heading and the lines after it, without the empty line that follows.\<close>

fun find_title :: "string list \<Rightarrow> (string \<times> string list) option" where
  "find_title [] = None"
| "find_title (l # ls) =
     (if has_prefix l ''# ''
      then Some (trim_space (trim_prefix l ''# ''),
                 case ls of [] \<Rightarrow> [] | l' # ls' \<Rightarrow> if l' = '''' then ls' else l' # ls')
      else find_title ls)"

definition title_and_body :: "string \<Rightarrow> string \<times> string" where
  "title_and_body s =
     (case find_title (split_on newline s) of
        None \<Rightarrow> (''Untitled'', trim_left (trim_right s))
      | Some (t, ls) \<Rightarrow> (t, trim_left (trim_right (join_with [newline] ls))))"

definition parse_optional :: "memory_codec \<Rightarrow> string \<Rightarrow> timestamp option result" where
  "parse_optional cd s =
     (if s = '''' then Inr None
      else (case mc_parse cd s of Inl e \<Rightarrow> Inl (wrap_error ErrInternal e) | Inr t \<Rightarrow> Inr (Some t)))"

definition memory_of_front ::
    "front_matter \<Rightarrow> timestamp \<Rightarrow> timestamp \<Rightarrow> timestamp option \<Rightarrow> timestamp option \<Rightarrow> string \<Rightarrow> memory_scope \<Rightarrow> string \<Rightarrow> memory" where
  "memory_of_front f created updated accessed expires s sc owner =
     \<lparr>me_id = fr_id f, me_scope = sc, me_owner = owner, me_type = fr_type f, me_topic = fr_topic f,
      me_title = fst (title_and_body s), me_content = snd (title_and_body s),
      me_created = created, me_updated = updated, me_accessed = accessed, me_expires = expires,
      me_metadata = \<lparr>md_labels = fr_labels f, md_tags = fr_tags f, md_source = fr_source f,
        md_source_id = (if fr_source_id f = '''' then None else Some (fr_source_id f)),
        md_importance = fr_importance f, md_confidence = fr_confidence f, md_verified = fr_verified f,
        md_version = fr_version f\<rparr>\<rparr>"

definition read_front :: "memory_codec \<Rightarrow> front_matter \<Rightarrow> string \<Rightarrow> memory_scope \<Rightarrow> string \<Rightarrow> memory result" where
  "read_front cd f s sc owner =
     (if fr_id f = '''' \<or> fr_type f = '''' \<or> fr_created f = '''' \<or> fr_updated f = ''''
      then Inl (new_error ErrInternal)
      else
        (case mc_parse cd (fr_created f) of
           Inl e \<Rightarrow> Inl (wrap_error ErrInternal e)
         | Inr created \<Rightarrow>
             (case mc_parse cd (fr_updated f) of
                Inl e \<Rightarrow> Inl (wrap_error ErrInternal e)
              | Inr updated \<Rightarrow>
                  (case parse_optional cd (fr_accessed f) of
                     Inl e \<Rightarrow> Inl e
                   | Inr accessed \<Rightarrow>
                       (case parse_optional cd (fr_expires f) of
                          Inl e \<Rightarrow> Inl e
                        | Inr expires \<Rightarrow> Inr (memory_of_front f created updated accessed expires s sc owner))))))"

text \<open>The slice \<open>content[8:endIndex]\<close> panics if the closing mark starts before its lower bound.\<close>

definition deserialize_memory :: "memory_codec \<Rightarrow> string \<Rightarrow> memory_scope \<Rightarrow> string \<Rightarrow> memory result option" where
  "deserialize_memory cd data sc owner =
     (if data = '''' then Some (Inl (new_error ErrInvalidArgument))
      else
        let s = trim_left data
        in if has_prefix s (fence @ ''json'' @ [newline])
           then (case str_index s ([newline] @ fence @ [newline]) of
                   None \<Rightarrow> Some (Inl (new_error ErrInternal))
                 | Some k \<Rightarrow>
                     if k < 8 then None
                     else (case mc_unmarshal cd (take (k - 8) (drop 8 s)) of
                             Inl e \<Rightarrow> Some (Inl (wrap_error ErrInternal e))
                           | Inr f \<Rightarrow> Some (read_front cd f (drop (k + 5) s) sc owner)))
           else Some (Inl (new_error ErrInternal)))"

section \<open>Round trip\<close>

lemma lines_hold: "w @ newline # x @ newline # v = s \<Longrightarrow> newline \<notin> set x \<Longrightarrow> x \<in> set (split_on newline s)"
  by (auto simp: split_on_append_sep split_on_append split_on_fresh)

lemma prefix_splits: "u @ q = w @ t \<Longrightarrow> length w < length u \<Longrightarrow> \<exists>z. u = w @ z"
  by (metis append_eq_append_conv_if append_take_drop_id less_imp_le_nat)

lemma fence_line: "newline \<notin> set fence"
  by (simp add: fence_def newline_def)

text \<open>An occurrence of the mark that starts within a text is a line of the text, or the one after it.\<close>

lemma mark_overlap:
  assumes "z \<noteq> []" and "z @ [newline] @ fence @ [newline] @ r = [newline] @ fence @ [newline] @ r'"
  shows "\<exists>v. z @ [newline] = [newline] @ fence @ [newline] @ v"
proof -
  have "length z = 1 \<or> length z = 2 \<or> length z = 3 \<or> 4 \<le> length z"
    using assms(1) unfolding length_0_conv [symmetric] by linarith
  then show ?thesis
  proof (elim disjE)
    assume z: "4 \<le> length z"
    then obtain a b c d z' where z': "z = a # b # c # d # z'"
      by (auto simp: numeral_eq_Suc Suc_le_length_iff)
    with assms(2) show ?thesis by (cases z') (auto simp: fence_def)
  next
    assume "length z = 1"
    then obtain a where "z = [a]" by (auto simp: length_Suc_conv)
    with assms(2) show ?thesis by (simp add: fence_def newline_def)
  next
    assume "length z = 2"
    then obtain a b where "z = [a, b]" by (auto simp: length_Suc_conv numeral_2_eq_2)
    with assms(2) show ?thesis by (simp add: fence_def newline_def)
  next
    assume "length z = 3"
    then obtain a b c where "z = [a, b, c]" by (auto simp: length_Suc_conv numeral_3_eq_3)
    with assms(2) show ?thesis by (simp add: fence_def newline_def)
  qed
qed

lemma closing_fence_found:
  assumes "fence \<notin> set (split_on newline j)"
  shows "str_index (fence @ ''json'' @ [newline] @ j @ [newline] @ fence @ newline # r) ([newline] @ fence @ [newline])
    = Some (8 + length j)"
proof -
  let ?u = "fence @ ''json'' @ [newline] @ j" and ?p = "[newline] @ fence @ [newline]"
  have "newline \<notin> set (fence @ ''json'')" by (simp add: fence_def newline_def)
  from split_on_append [OF this, of j]
  have parts: "split_on newline (?u @ [newline]) = (fence @ ''json'') # split_on newline j @ ['''']"
    using split_on_append_sep [of newline ?u "[]"] by simp
  have early: False if less: "length w < length ?u" and eq: "?u @ ?p @ r = w @ ?p @ r'" for w r'
  proof -
    from prefix_splits [OF eq less] obtain z where z: "?u = w @ z" by blast
    with less have ne: "z \<noteq> []" by auto
    have "(w @ z) @ ?p @ r = w @ ?p @ r'" using eq unfolding z .
    then have "z @ ?p @ r = ?p @ r'" unfolding append_assoc same_append_eq .
    then have "z @ [newline] @ fence @ [newline] @ r = [newline] @ fence @ [newline] @ r'" by (simp only: append_assoc)
    from mark_overlap [OF ne this] obtain v where "z @ [newline] = [newline] @ fence @ [newline] @ v" by blast
    with z have "w @ newline # fence @ newline # v = ?u @ [newline]" by (metis append_assoc append_Cons append_Nil)
    from lines_hold [OF this fence_line] show False
      using assms unfolding parts by (auto simp: fence_def)
  qed
  have "str_index (?u @ ?p @ r) ?p = Some (length ?u)"
    by (rule str_index_at) (use early in blast)
  then show ?thesis by (simp add: fence_def)
qed

text \<open>
  What is asked of the codec for one memory: its front matter, if it can be marshalled, reads back
  with the labels as a map, and no line of the text is a fence; its times read back to the second.
  encoding/json and time document this of a memory whose strings are valid UTF-8 and whose times
  lie in the years 0 to 9999.
\<close>

definition whole_second :: "timestamp \<Rightarrow> timestamp" where
  "whole_second t = t - t mod 1000000000"

definition memory_times :: "memory \<Rightarrow> timestamp list" where
  "memory_times m =
     [me_created m, me_updated m]
     @ (case me_accessed m of None \<Rightarrow> [] | Some t \<Rightarrow> [t]) @ (case me_expires m of None \<Rightarrow> [] | Some t \<Rightarrow> [t])"

definition codec_keeps :: "memory_codec \<Rightarrow> memory \<Rightarrow> bool" where
  "codec_keeps cd m \<longleftrightarrow>
     (\<forall>j. mc_marshal cd (front_of cd m) = Inr j \<longrightarrow>
        fence \<notin> set (split_on newline j)
        \<and> (\<exists>ls. (\<forall>k. mget ls k = mget (md_labels (me_metadata m)) k)
              \<and> mc_unmarshal cd j = Inr ((front_of cd m)\<lparr>fr_labels := ls\<rparr>)))
     \<and> (\<forall>t \<in> set (memory_times m). mc_format cd t \<noteq> '''' \<and> mc_parse cd (mc_format cd t) = Inr (whole_second t))"

text \<open>
  A memory as it comes back from its file.  Of a title of several lines only the first is read as
  the title; the others go in front of the text.
\<close>

definition trim_text :: "string \<Rightarrow> string" where
  "trim_text s = trim_left (trim_right s)"

definition stored_form :: "memory_scope \<Rightarrow> string \<Rightarrow> (string, string) gomap \<Rightarrow> memory \<Rightarrow> memory" where
  "stored_form sc owner ls m =
     (let md = me_metadata m
      in m\<lparr>me_scope := sc, me_owner := owner,
           me_title := trim_space (takeWhile (\<lambda>c. c \<noteq> newline) (me_title m)),
           me_content := trim_text (dropWhile (\<lambda>c. c \<noteq> newline) (me_title m) @ [newline, newline] @ me_content m),
           me_created := whole_second (me_created m), me_updated := whole_second (me_updated m),
           me_accessed := map_option whole_second (me_accessed m), me_expires := map_option whole_second (me_expires m),
           me_metadata := md\<lparr>md_labels := ls,
             md_source_id := (if md_source_id md = Some '''' then None else md_source_id md),
             md_importance := max 0 (md_importance md), md_confidence := max 0 (md_confidence md),
             md_version := max 0 (md_version md)\<rparr>\<rparr>)"

lemma trim_right_Cons: "trim_right (c # s) = (if trim_right s = [] \<and> is_trimmed c then [] else c # trim_right s)"
  by (auto simp: trim_right_def dropWhile_append)

lemma trim_text_newline: "trim_text (newline # s) = trim_text s"
  by (simp add: trim_text_def trim_right_Cons trim_left_def is_trimmed_def newline_def)

lemma stored_form_one_line:
  "newline \<notin> set (me_title m) \<Longrightarrow>
    me_title (stored_form sc owner ls m) = trim_space (me_title m)
    \<and> me_content (stored_form sc owner ls m) = trim_text (me_content m)"
  unfolding stored_form_def Let_def
  by (subst takeWhile_eq_all_conv [THEN iffD2] dropWhile_eq_Nil_conv [THEN iffD2], blast)+
    (simp add: trim_text_newline)

lemma optional_time_kept:
  "(\<And>x. t = Some x \<Longrightarrow> mc_format cd x \<noteq> '''' \<and> mc_parse cd (mc_format cd x) = Inr (whole_second x))
    \<Longrightarrow> parse_optional cd (optional_time cd t) = Inr (map_option whole_second t)"
  by (simp add: parse_optional_def optional_time_def split: option.split)

lemma empty_line_skipped:
  "trim_text (join_with [newline] (case split_on newline s of [] \<Rightarrow> [] | l # ls \<Rightarrow> if l = '''' then ls else l # ls))
    = trim_text s"
proof (cases s)
  case Nil
  then show ?thesis by (simp add: trim_text_def trim_left_def trim_right_def)
next
  case (Cons c r)
  show ?thesis
  proof (cases "c = newline")
    case True
    with Cons show ?thesis by (simp add: join_split trim_text_newline)
  next
    case False
    with Cons obtain y ys where "split_on newline s = (c # y) # ys"
      by (cases "split_on newline r") auto
    then show ?thesis using join_split [of newline s] by simp
  qed
qed

lemma read_heading:
  "title_and_body (newline # ''# '' @ t @ [newline, newline] @ s)
    = (trim_space (takeWhile (\<lambda>c. c \<noteq> newline) t), trim_text (dropWhile (\<lambda>c. c \<noteq> newline) t @ [newline, newline] @ s))"
proof -
  let ?h = "takeWhile (\<lambda>c. c \<noteq> newline) t" and ?d = "dropWhile (\<lambda>c. c \<noteq> newline) t"
  have "newline \<notin> set ?h" using set_takeWhileD by fastforce
  then have h: "newline \<notin> set (''# '' @ ?h)" by (simp add: newline_def)
  obtain r where r: "?d @ [newline, newline] @ s = newline # r"
    using hd_dropWhile [of "\<lambda>c. c \<noteq> newline" t] by (cases ?d) auto
  have "t @ [newline, newline] @ s = ?h @ newline # r"
    using r by (metis append_assoc takeWhile_dropWhile_id)
  then have "split_on newline (newline # ''# '' @ t @ [newline, newline] @ s) = [] # (''# '' @ ?h) # split_on newline r"
    using split_on_append [OF h, of r] by simp
  moreover have "\<not> has_prefix [] ''# ''" by (simp add: has_prefix_def)
  moreover have "has_prefix (''# '' @ ?h) ''# '' \<and> trim_prefix (''# '' @ ?h) ''# '' = ?h"
    using has_prefix_append trim_prefix_append by blast
  ultimately have "find_title (split_on newline (newline # ''# '' @ t @ [newline, newline] @ s))
      = Some (trim_space ?h, case split_on newline r of [] \<Rightarrow> [] | l # ls \<Rightarrow> if l = '''' then ls else l # ls)"
    by (simp only: find_title.simps if_True if_False simp_thms)
  then show ?thesis
    unfolding r trim_text_newline using empty_line_skipped [of r]
    by (simp add: title_and_body_def trim_text_def)
qed

lemma read_heading_line:
  "newline \<notin> set t \<Longrightarrow>
    title_and_body (newline # ''# '' @ t @ [newline, newline] @ s) = (trim_space t, trim_left (trim_right s))"
  unfolding read_heading
  by (subst takeWhile_eq_all_conv [THEN iffD2] dropWhile_eq_Nil_conv [THEN iffD2], blast)+
    (simp add: trim_text_newline, simp add: trim_text_def)

lemma read_front_of:
  assumes times: "\<And>t. t \<in> set (memory_times m) \<Longrightarrow> mc_format cd t \<noteq> '''' \<and> mc_parse cd (mc_format cd t) = Inr (whole_second t)"
    and body: "title_and_body s = (me_title (stored_form sc owner ls m), me_content (stored_form sc owner ls m))"
  shows "read_front cd ((front_of cd m)\<lparr>fr_labels := ls\<rparr>) s sc owner =
    (if me_id m = '''' \<or> me_type m = '''' then Inl (new_error ErrInternal) else Inr (stored_form sc owner ls m))"
proof -
  have "parse_optional cd (optional_time cd (me_accessed m)) = Inr (map_option whole_second (me_accessed m))"
    "parse_optional cd (optional_time cd (me_expires m)) = Inr (map_option whole_second (me_expires m))"
    by (rule optional_time_kept, rule times, simp add: memory_times_def)+
  moreover have "mc_format cd (me_created m) \<noteq> ''''" "mc_format cd (me_updated m) \<noteq> ''''"
    "mc_parse cd (mc_format cd (me_created m)) = Inr (whole_second (me_created m))"
    "mc_parse cd (mc_format cd (me_updated m)) = Inr (whole_second (me_updated m))"
    using times by (simp_all add: memory_times_def)
  ultimately show ?thesis
    using body by (simp add: read_front_def front_of_def memory_of_front_def stored_form_def Let_def max_def split: option.split)
qed

text \<open>
  C23: A memory that has been written to its file with a codec that keeps it (strings in UTF-8,
  years 0 to 9999) reads back with every field as it was, in the scope and for the owner of the
  directory, up to blanks at the ends of title and text, fractions of seconds, negative figures and
  an empty source id; but of a title of several lines, which the store accepts, only the first comes
  back as the title and the others are put in front of the text, and a memory without an id or a
  type cannot be read back at all.
\<close>

theorem memory_round_trip:
  assumes "codec_keeps cd m" and "serialize_memory cd m = Inr s"
  shows "\<exists>ls. (\<forall>k. mget ls k = mget (md_labels (me_metadata m)) k)
    \<and> deserialize_memory cd s sc owner =
        Some (if me_id m = '''' \<or> me_type m = '''' then Inl (new_error ErrInternal) else Inr (stored_form sc owner ls m))
    \<and> (newline \<notin> set (me_title m) \<longrightarrow>
         me_title (stored_form sc owner ls m) = trim_space (me_title m)
         \<and> me_content (stored_form sc owner ls m) = trim_text (me_content m))
    \<and> (\<forall>t r. me_title m = t @ newline # r \<and> newline \<notin> set t \<longrightarrow>
         me_title (stored_form sc owner ls m) = trim_space t
         \<and> me_content (stored_form sc owner ls m) = trim_text (r @ [newline, newline] @ me_content m))"
proof -
  obtain j where j: "mc_marshal cd (front_of cd m) = Inr j"
    and s: "s = fence @ ''json'' @ [newline] @ j @ [newline] @ fence @ [newline, newline] @ ''# '' @ me_title m @ [newline, newline] @ me_content m"
    using assms(2) by (auto simp: serialize_memory_def split: sum.splits)
  with assms(1) obtain ls where un: "mc_unmarshal cd j = Inr ((front_of cd m)\<lparr>fr_labels := ls\<rparr>)"
    and lines: "fence \<notin> set (split_on newline j)" and ls: "\<forall>k. mget ls k = mget (md_labels (me_metadata m)) k"
    by (auto simp: codec_keeps_def)
  let ?b = "newline # ''# '' @ me_title m @ [newline, newline] @ me_content m"
  have s': "s = fence @ ''json'' @ [newline] @ j @ [newline] @ fence @ newline # ?b" using s by simp
  have tl: "trim_left s = s" and ne: "s \<noteq> ''''" using s by (simp_all add: trim_left_def fence_def is_trimmed_def newline_def)
  have pre: "has_prefix s (fence @ ''json'' @ [newline])"
    unfolding s' has_prefix_iff by (intro exI [of _ "j @ [newline] @ fence @ newline # ?b"]) simp
  have ix: "str_index s ([newline] @ fence @ [newline]) = Some (8 + length j)"
    unfolding s' by (rule closing_fence_found [OF lines])
  have cut: "take (8 + length j - 8) (drop 8 s) = j" "drop (8 + length j + 5) s = ?b"
    unfolding s' by (simp_all add: fence_def numeral_eq_Suc)
  have "title_and_body ?b = (me_title (stored_form sc owner ls m), me_content (stored_form sc owner ls m))"
    by (simp only: read_heading) (simp add: stored_form_def Let_def)
  from read_front_of [OF _ this] assms(1)
  have "read_front cd ((front_of cd m)\<lparr>fr_labels := ls\<rparr>) ?b sc owner =
    (if me_id m = '''' \<or> me_type m = '''' then Inl (new_error ErrInternal) else Inr (stored_form sc owner ls m))"
    by (simp add: codec_keeps_def)
  then have "deserialize_memory cd s sc owner =
      Some (if me_id m = '''' \<or> me_type m = '''' then Inl (new_error ErrInternal) else Inr (stored_form sc owner ls m))"
    using tl ne pre ix un cut by (simp add: deserialize_memory_def Let_def)
  moreover have "trim_text (newline # r @ v) = trim_text (r @ v)" for r v by (rule trim_text_newline)
  ultimately show ?thesis using ls stored_form_one_line [of m sc owner ls]
    by (intro exI [of _ ls])
      (auto simp: stored_form_def Let_def takeWhile_tail dropWhile_append3 takeWhile_append dropWhile_append)
qed

text \<open>A memory, a codec that keeps it, and the round trip on it, with a title of one line and of two.\<close>

definition titled_sample :: "string \<Rightarrow> memory" where
  "titled_sample t = \<lparr>me_id = ''m1'', me_scope = ''user'', me_owner = ''ann'', me_type = ''fact'', me_topic = ''go'',
     me_title = t, me_content = ''text '', me_created = 3, me_updated = 2000000001, me_accessed = None, me_expires = None,
     me_metadata = \<lparr>md_labels = [], md_tags = [''a''], md_source = '''', md_source_id = None, md_importance = 5,
       md_confidence = 0, md_verified = False, md_version = 1\<rparr>\<rparr>"

definition sample_memory :: memory where "sample_memory = titled_sample ''My Note''"

definition two_lines :: string where "two_lines = ''My Note'' @ [newline] @ ''by Ann''"

definition unary_time :: "timestamp \<Rightarrow> string" where
  "unary_time t =
     (let n = t div 1000000000 in if 0 \<le> n then replicate (Suc (nat n)) (CHR ''+'') else replicate (nat (- n)) (CHR ''-''))"

definition unary_parse :: "string \<Rightarrow> timestamp result" where
  "unary_parse s = Inr (1000000000 * (if hd s = CHR ''+'' then int (length s) - 1 else - int (length s)))"

definition one_memory_codec :: "front_matter list \<Rightarrow> memory_codec" where
  "one_memory_codec fs = \<lparr>mc_marshal = (\<lambda>f. if f \<in> set fs then Inr ''{}'' else Inl (PlainErr ''unknown'')),
     mc_unmarshal = (\<lambda>s. Inr (hd fs)), mc_format = unary_time, mc_parse = unary_parse\<rparr>"

lemma unary_time_parse: "unary_time t \<noteq> '''' \<and> unary_parse (unary_time t) = Inr (whole_second t)"
proof (cases "0 \<le> t div 1000000000")
  case True
  then have "hd (unary_time t) = CHR ''+''" "int (length (unary_time t)) = t div 1000000000 + 1" "unary_time t \<noteq> ''''"
    by (simp_all add: unary_time_def Let_def)
  then show ?thesis using minus_mod_eq_mult_div [of t 1000000000]
    by (auto simp: unary_parse_def whole_second_def)
next
  case False
  then obtain n where n: "nat (- (t div 1000000000)) = Suc n" by (cases "nat (- (t div 1000000000))") auto
  with False have "unary_time t = replicate (Suc n) (CHR ''-'')" "int (Suc n) = - (t div 1000000000)"
    by (simp_all add: unary_time_def Let_def)
  then show ?thesis using minus_mod_eq_mult_div [of t 1000000000]
    by (auto simp: unary_parse_def whole_second_def simp del: of_nat_Suc)
qed

lemma front_of_format: "mc_format cd = mc_format cd' \<Longrightarrow> front_of cd m = front_of cd' m"
  by (simp add: front_of_def optional_time_def Let_def split: option.split)

definition sample_memory_codec :: memory_codec where
  "sample_memory_codec = one_memory_codec [front_of (one_memory_codec []) (titled_sample '''')]"

lemma sample_front: "front_of sample_memory_codec (titled_sample t) = front_of (one_memory_codec []) (titled_sample '''')"
proof -
  have "front_of sample_memory_codec (titled_sample t) = front_of (one_memory_codec []) (titled_sample t)"
    by (rule front_of_format) (simp add: sample_memory_codec_def one_memory_codec_def)
  also have "\<dots> = front_of (one_memory_codec []) (titled_sample '''')"
    by (simp add: front_of_def titled_sample_def Let_def)
  finally show ?thesis .
qed

lemma sample_codec_keeps: "codec_keeps sample_memory_codec (titled_sample t)"
  unfolding codec_keeps_def sample_front
  using unary_time_parse
  by (auto simp: sample_memory_codec_def one_memory_codec_def titled_sample_def front_of_def fence_def newline_def Let_def)

lemma sample_serialize:
  "serialize_memory sample_memory_codec (titled_sample t) =
     Inr (fence @ ''json'' @ [newline] @ ''{}'' @ [newline] @ fence @ [newline, newline]
       @ ''# '' @ t @ [newline, newline] @ ''text '')"
  unfolding serialize_memory_def sample_front
  by (simp add: sample_memory_codec_def one_memory_codec_def) (simp add: titled_sample_def)

lemma memory_round_trip_witness:
  "(\<exists>ls. deserialize_memory sample_memory_codec (projr (serialize_memory sample_memory_codec (titled_sample ''My Note''))) ''user'' ''ann''
       = Some (Inr (stored_form ''user'' ''ann'' ls (titled_sample ''My Note'')))
     \<and> me_title (stored_form ''user'' ''ann'' ls (titled_sample ''My Note'')) = ''My Note''
     \<and> me_content (stored_form ''user'' ''ann'' ls (titled_sample ''My Note'')) = ''text'')
   \<and> (\<exists>ls. deserialize_memory sample_memory_codec (projr (serialize_memory sample_memory_codec (titled_sample two_lines))) ''user'' ''ann''
       = Some (Inr (stored_form ''user'' ''ann'' ls (titled_sample two_lines)))
     \<and> me_title (stored_form ''user'' ''ann'' ls (titled_sample two_lines)) = ''My Note''
     \<and> me_content (stored_form ''user'' ''ann'' ls (titled_sample two_lines)) = ''by Ann'' @ [newline, newline] @ ''text'')"
proof -
  have f: "me_id (titled_sample t) = ''m1''" "me_type (titled_sample t) = ''fact''" "me_title (titled_sample t) = t"
    "me_content (titled_sample t) = ''text ''" for t by (simp_all add: titled_sample_def)
  have typed: "(if ''m1'' = '''' \<or> ''fact'' = '''' then a else b) = b" for a b :: "memory result" by simp
  have read: "\<exists>ls. deserialize_memory sample_memory_codec (projr (serialize_memory sample_memory_codec (titled_sample t))) ''user'' ''ann''
        = Some (Inr (stored_form ''user'' ''ann'' ls (titled_sample t)))
      \<and> (newline \<notin> set t \<longrightarrow> me_title (stored_form ''user'' ''ann'' ls (titled_sample t)) = trim_space t
         \<and> me_content (stored_form ''user'' ''ann'' ls (titled_sample t)) = trim_text ''text '')
      \<and> (\<forall>u r. t = u @ newline # r \<and> newline \<notin> set u \<longrightarrow> me_title (stored_form ''user'' ''ann'' ls (titled_sample t)) = trim_space u
         \<and> me_content (stored_form ''user'' ''ann'' ls (titled_sample t)) = trim_text (r @ [newline, newline] @ ''text ''))" for t
    using memory_round_trip [OF sample_codec_keeps sample_serialize, of t "''user''" "''ann''"]
    unfolding f sample_serialize sum.sel typed by blast
  have one: "newline \<notin> set ''My Note''" and two: "two_lines = ''My Note'' @ newline # ''by Ann''"
    by (simp_all add: newline_def two_lines_def)
  have cut: "trim_space ''My Note'' = ''My Note''" "trim_text ''text '' = ''text''"
    "trim_text (''by Ann'' @ [newline, newline] @ ''text '') = ''by Ann'' @ [newline, newline] @ ''text''" by code_simp+
  show ?thesis
  proof (rule conjI)
    show "\<exists>ls. deserialize_memory sample_memory_codec (projr (serialize_memory sample_memory_codec (titled_sample ''My Note''))) ''user'' ''ann''
        = Some (Inr (stored_form ''user'' ''ann'' ls (titled_sample ''My Note'')))
      \<and> me_title (stored_form ''user'' ''ann'' ls (titled_sample ''My Note'')) = ''My Note''
      \<and> me_content (stored_form ''user'' ''ann'' ls (titled_sample ''My Note'')) = ''text''"
      using read [of "''My Note''"] one unfolding sample_serialize sum.sel cut(1,2) by blast
    show "\<exists>ls. deserialize_memory sample_memory_codec (projr (serialize_memory sample_memory_codec (titled_sample two_lines))) ''user'' ''ann''
        = Some (Inr (stored_form ''user'' ''ann'' ls (titled_sample two_lines)))
      \<and> me_title (stored_form ''user'' ''ann'' ls (titled_sample two_lines)) = ''My Note''
      \<and> me_content (stored_form ''user'' ''ann'' ls (titled_sample two_lines)) = ''by Ann'' @ [newline, newline] @ ''text''"
      using read [of two_lines] one two unfolding sample_serialize sum.sel
      by (elim exE conjE) (drule spec [of _ "''My Note''"], drule spec [of _ "''by Ann''"], use cut in auto)
  qed
qed

section \<open>What goes wrong\<close>

text \<open>A file with an empty front matter makes the reader panic, and with it the start of the store.\<close>

lemma empty_front_matter_panics:
  "deserialize_memory cd (fence @ ''json'' @ [newline] @ fence @ newline # s) sc owner = None"
  by (simp add: deserialize_memory_def fence_def trim_left_def is_trimmed_def newline_def has_prefix_def Let_def)

end
