(* ===== verification/Memory_Paths.thy ===== *)
theory Memory_Paths
  imports Memory_Types
begin

text \<open>
  Where the directories of owners and topics lie, and what \<open>ValidateMemoryPath\<close> accepts.
\<close>

section \<open>Paths below a rooted one\<close>

lemma clean_comps_append: "clean_comps r st (xs @ ys) = clean_comps r (rev (clean_comps r st xs)) ys"
  by (induction r st xs rule: clean_comps.induct) auto

lemma path_comps_clean: "path_is_abs p \<Longrightarrow> path_comps (path_clean p) = path_comps p"
  by (simp add: path_comps_def path_clean_abs_iff path_clean_comps_abs)

lemma path_comps_real: "path_is_abs p \<Longrightarrow> c \<in> set (path_comps p) \<Longrightarrow> real_comp c \<and> slash \<notin> set c"
  using clean_comps_rooted_realD [of c "split_on slash p"] clean_comps_no_slash [of c True p]
  by (simp add: path_comps_def)

lemma path_abs_rooted: "path_is_abs cwd \<Longrightarrow> path_is_abs (path_abs cwd p)"
proof -
  assume "path_is_abs cwd"
  moreover from this have "path_is_abs (cwd @ slash # p) \<and> cwd \<noteq> ''''"
    by (cases cwd) (simp_all add: path_is_abs_def)
  moreover from calculation have "path_is_abs (cwd @ [slash])" by (cases cwd) (simp_all add: path_is_abs_def)
  ultimately show ?thesis by (simp add: path_abs_def path_join_def path_clean_abs_iff)
qed

lemma path_join_below:
  assumes "path_is_abs b" and "x \<noteq> ''''" and "slash \<notin> set x"
  shows "path_is_abs (path_join [b, x])"
    and "path_comps (path_join [b, x]) =
      (if x = ''.'' then path_comps b else if x = ''..'' then butlast (path_comps b) else path_comps b @ [x])"
proof -
  have b: "b \<noteq> ''''" using assms(1) by (auto simp: path_is_abs_def)
  then have j: "path_join [b, x] = path_clean (b @ slash # x)" by (simp add: path_join_def)
  have ab: "path_is_abs (b @ slash # x)" using assms(1) b by (cases b) (simp_all add: path_is_abs_def)
  then show "path_is_abs (path_join [b, x])" by (simp add: j path_clean_abs_iff)
  have "split_on slash (b @ slash # x) = split_on slash b @ [x]"
    using split_on_append_sep [of slash b x] split_on_fresh [OF assms(3)] by simp
  then have "path_comps (b @ slash # x) = clean_comps True (rev (path_comps b)) [x]"
    using assms(1) ab by (simp add: path_comps_def clean_comps_append)
  then have "path_comps (path_join [b, x]) = clean_comps True (rev (path_comps b)) [x]"
    unfolding j by (simp add: path_comps_clean [OF ab])
  moreover have "hd (rev (path_comps b)) \<noteq> ''..''" if "path_comps b \<noteq> []"
    using path_comps_real [OF assms(1), of "last (path_comps b)"] that by (auto simp: hd_rev real_comp_def)
  moreover have "rev (tl (rev (path_comps b))) = butlast (path_comps b)" by (metis butlast_rev rev_rev_ident)
  ultimately show "path_comps (path_join [b, x]) =
      (if x = ''.'' then path_comps b else if x = ''..'' then butlast (path_comps b) else path_comps b @ [x])"
    using assms(2) by (cases "path_comps b = []") auto
qed

section \<open>Sanitized names\<close>

lemma path_base_no_slash: "slash \<notin> set (path_base p) \<or> path_base p = [slash]"
  by (auto simp: path_base_def Let_def slash_def dest: set_takeWhileD)

lemma path_base_not_empty: "path_base p \<noteq> ''''"
  by (simp add: path_base_def Let_def)

lemma owner_char_facts: "owner_char dot" "\<not> owner_char slash" "hyphen \<noteq> dot" "hyphen \<noteq> slash"
  by (simp_all add: owner_char_def dot_def slash_def hyphen_def is_lower_letter_def is_upper_letter_def is_digit_def)

lemma sanitize_owner_no_slash: "slash \<notin> set (sanitize_owner_id o1) \<and> sanitize_owner_id o1 \<noteq> ''''"
  using owner_char_facts path_base_not_empty [of o1] by (auto simp: sanitize_owner_id_def)

lemma sanitize_dots: "list_all (\<lambda>c. c = dot) x \<Longrightarrow> sanitize_owner_id o1 = x \<longleftrightarrow> path_base o1 = x"
proof -
  assume x: "list_all (\<lambda>c. c = dot) x"
  have "map (\<lambda>c. if owner_char c then c else hyphen) s = x \<longleftrightarrow> s = x" for s
    using x
  proof (induction s arbitrary: x)
    case (Cons c s)
    then show ?case using owner_char_facts by (cases x) auto
  qed auto
  then show ?thesis by (simp add: sanitize_owner_id_def)
qed

lemma sanitize_dot [simp]: "sanitize_owner_id o1 = ''.'' \<longleftrightarrow> path_base o1 = ''.''"
  and sanitize_dot_dot [simp]: "sanitize_owner_id o1 = ''..'' \<longleftrightarrow> path_base o1 = ''..''"
  using sanitize_dots [of "''.''" o1] sanitize_dots [of "''..''" o1] by (simp_all add: dot_def)

text \<open>The name of a topic: letters, digits, hyphens and underscores, without runs of hyphens.\<close>

definition topic_name :: "string \<Rightarrow> bool" where
  "topic_name s \<longleftrightarrow> s \<noteq> '''' \<and> list_all name_char s \<and> \<not> str_contains s [hyphen, hyphen]
     \<and> hd s \<noteq> hyphen \<and> last s \<noteq> hyphen"

lemma replace_keeps: "list_all P s \<Longrightarrow> list_all P nw \<Longrightarrow> list_all P (replace_all old nw s)"
proof (induction old nw s rule: replace_all.induct)
  case (2 old nw x xs)
  have "list_all P (drop (length old) (x # xs))"
    using "2.prems"(1) by (metis append_take_drop_id list_all_append)
  with 2 show ?case by auto
qed simp

lemma squeezed: "\<not> str_contains (squeeze_hyphens s) [hyphen, hyphen]"
proof (induction s rule: squeeze_hyphens.induct)
  case (1 s)
  then show ?case by (cases "str_contains s [hyphen, hyphen]") (simp_all add: squeeze_hyphens.simps [of s])
qed

lemma squeeze_keeps: "list_all P s \<Longrightarrow> P hyphen \<Longrightarrow> list_all P (squeeze_hyphens s)"
proof (induction s rule: squeeze_hyphens.induct)
  case (1 s)
  then show ?case
    by (cases "str_contains s [hyphen, hyphen]") (simp_all add: squeeze_hyphens.simps [of s] replace_keeps)
qed

lemma rev_dropWhile_split: "s = rev (dropWhile P (rev s)) @ rev (takeWhile P (rev s))"
proof -
  have "rev (takeWhile P (rev s) @ dropWhile P (rev s)) = rev (rev s)" by (simp only: takeWhile_dropWhile_id)
  then have "rev (dropWhile P (rev s)) @ rev (takeWhile P (rev s)) = s" by (simp only: rev_append rev_rev_ident)
  then show ?thesis by (rule sym)
qed

lemma trim_hyphens_part: "\<exists>u v. s = u @ trim_hyphens s @ v"
proof -
  let ?d = "dropWhile (\<lambda>c. c = hyphen) s"
  obtain v where v: "?d = trim_hyphens s @ v"
    unfolding trim_hyphens_def using rev_dropWhile_split [of ?d "\<lambda>c. c = hyphen"] by blast
  have "s = takeWhile (\<lambda>c. c = hyphen) s @ trim_hyphens s @ v"
    unfolding v [symmetric] by (rule takeWhile_dropWhile_id [symmetric])
  then show ?thesis by (intro exI)
qed

lemma hd_dropWhile_hyphen: "dropWhile (\<lambda>c. c = hyphen) s \<noteq> [] \<Longrightarrow> hd (dropWhile (\<lambda>c. c = hyphen) s) \<noteq> hyphen"
  by (rule hd_dropWhile)

lemma trim_hyphens_ends: "trim_hyphens s \<noteq> '''' \<Longrightarrow> hd (trim_hyphens s) \<noteq> hyphen \<and> last (trim_hyphens s) \<noteq> hyphen"
proof -
  let ?d = "dropWhile (\<lambda>c. c = hyphen) s"
  assume ne: "trim_hyphens s \<noteq> ''''"
  then have d: "dropWhile (\<lambda>c. c = hyphen) (rev ?d) \<noteq> []" by (simp add: trim_hyphens_def)
  have "last (trim_hyphens s) \<noteq> hyphen"
    using hd_dropWhile_hyphen [OF d] d by (simp add: trim_hyphens_def last_rev)
  moreover obtain v where "?d = trim_hyphens s @ v"
    unfolding trim_hyphens_def using rev_dropWhile_split [of ?d "\<lambda>c. c = hyphen"] by blast
  then have "hd (trim_hyphens s) = hd ?d" "?d \<noteq> []" using ne by simp_all
  ultimately show ?thesis using hd_dropWhile_hyphen [of s] by simp
qed

lemma sanitize_topic_name: "topic_name (sanitize_topic t)"
proof -
  let ?h = "hyphenate (replace_all '' '' [hyphen] (to_lower t))"
  let ?s = "squeeze_hyphens ?h"
  have hy: "name_char hyphen" by (simp add: name_char_def)
  have "list_all name_char ?h" by (auto simp: hyphenate_def list_all_iff hy)
  then have "list_all name_char ?s" by (rule squeeze_keeps) (rule hy)
  moreover obtain u v where uv: "?s = u @ trim_hyphens ?s @ v" using trim_hyphens_part by blast
  ultimately have chars: "list_all name_char (trim_hyphens ?s)" by (metis list_all_append)
  have squeezed': "\<not> str_contains (trim_hyphens ?s) [hyphen, hyphen]"
  proof
    assume "str_contains (trim_hyphens ?s) [hyphen, hyphen]"
    then obtain a b where "trim_hyphens ?s = a @ [hyphen, hyphen] @ b" unfolding str_contains_iff by blast
    then have "?s = (u @ a) @ [hyphen, hyphen] @ (b @ v)" using uv by simp
    then have "str_contains ?s [hyphen, hyphen]" unfolding str_contains_iff by blast
    then show False using squeezed by blast
  qed
  have "topic_name ''general''" by code_simp
  then show ?thesis
    using chars squeezed' trim_hyphens_ends [of ?s] by (auto simp: sanitize_topic_def Let_def topic_name_def)
qed

lemma topic_name_real: "topic_name s \<Longrightarrow> s \<noteq> '''' \<and> slash \<notin> set s \<and> s \<noteq> ''.'' \<and> s \<noteq> ''..''"
  by (auto simp: topic_name_def name_char_def list_all_iff slash_def hyphen_def is_lower_letter_def is_digit_def)

section \<open>Directories stay within their scope\<close>

definition topic_path_of :: "string \<Rightarrow> string \<Rightarrow> string" where
  "topic_path_of p t = path_join [p, sanitize_topic t]"

lemma owner_path_cases:
  assumes "get_owner_path cfg sc owner = Inr p"
  obtains b where "get_scope_path cfg sc = Inr b" "p = path_join [b, sanitize_owner_id owner]" "owner \<noteq> ''''"
  using assms by (auto simp: get_owner_path_def split: if_splits option.splits sum.splits)

text \<open>
  The directory of an owner lies directly in the directory of its scope, whatever the owner is
  called, unless the last part of the name is a dot, which is the scope itself, or two dots, which is
  the directory above it; and that of a topic always lies directly in that of its owner.
\<close>

lemma memory_dirs_confined:
  assumes "get_scope_path cfg sc = Inr b" and "path_is_abs b" and "get_owner_path cfg sc owner = Inr p"
  shows "path_comps p =
      (if path_base owner = ''.'' then path_comps b
       else if path_base owner = ''..'' then butlast (path_comps b)
       else path_comps b @ [sanitize_owner_id owner])
    \<and> path_comps (topic_path_of p t) = path_comps p @ [sanitize_topic t]"
proof -
  have p: "p = path_join [b, sanitize_owner_id owner]"
    using assms(1) by (rule_tac owner_path_cases [OF assms(3)]) simp
  have ow: "sanitize_owner_id owner \<noteq> ''''" "slash \<notin> set (sanitize_owner_id owner)"
    using sanitize_owner_no_slash [of owner] by simp_all
  note pb = path_join_below [OF assms(2) ow, folded p]
  have "path_comps (topic_path_of p t) = path_comps p @ [sanitize_topic t]"
    using path_join_below(2) [OF pb(1), of "sanitize_topic t"] topic_name_real [OF sanitize_topic_name [of t]]
    by (simp add: topic_path_of_def)
  then show ?thesis using pb(2) by simp
qed

definition sample_memory_config :: memory_config where
  "sample_memory_config = \<lparr>mc_storage_path = ''/m'', mc_user_path = ''/m/users'', mc_group_path = ''/m/groups'', mc_enabled = True,
     mc_max_file_size = 100, mc_file_format = ''markdown''\<rparr>"

lemma memory_dirs_confined_witness:
  "path_comps (projr (get_owner_path sample_memory_config ''user'' ''a/..'')) = [''m'']
   \<and> path_comps (projr (get_owner_path sample_memory_config ''user'' ''a/b'')) = [''m'', ''users'', ''b'']"
proof -
  have b: "get_scope_path sample_memory_config ''user'' = Inr ''/m/users''" by code_simp
  have ab: "path_is_abs ''/m/users''" by code_simp
  have c: "path_comps ''/m/users'' = [''m'', ''users'']" by code_simp
  have p1: "get_owner_path sample_memory_config ''user'' ''a/..'' = Inr (projr (get_owner_path sample_memory_config ''user'' ''a/..''))"
    and p2: "get_owner_path sample_memory_config ''user'' ''a/b'' = Inr (projr (get_owner_path sample_memory_config ''user'' ''a/b''))"
    by code_simp+
  have s: "path_base ''a/..'' = ''..''" "path_base ''a/b'' = ''b''" "sanitize_owner_id ''a/b'' = ''b''" by code_simp+
  show ?thesis
    using memory_dirs_confined [OF b ab p1, of "''''"] memory_dirs_confined [OF b ab p2, of "''''"] c s by simp
qed

section \<open>What a path check accepts\<close>

lemma rel_comps_cases: "(\<exists>rest. t = b @ rest \<and> rel_comps b t = rest) \<or> (\<not> (\<exists>rest. t = b @ rest) \<and> (\<exists>r. rel_comps b t = ''..'' # r))"
  by (induction b t rule: rel_comps.induct) (auto simp: neq_Nil_conv)

lemma join_dots_prefix:
  assumes "slash \<notin> set c"
  shows "has_prefix (join_with [slash] (c # cs)) ''..'' \<longleftrightarrow> has_prefix c ''..''"
proof -
  have "slash \<noteq> CHR ''.''" by (simp add: slash_def)
  then show ?thesis using assms
    by (cases cs; cases c; cases "tl c") (auto simp: has_prefix_def)
qed

text \<open>
  A path is accepted for an owner exactly if it lies in the directory of the owner and the first
  name below that does not start with two dots.
\<close>

lemma validate_memory_path_exact:
  assumes "path_is_abs cwd" and "get_owner_path cfg sc owner = Inr p"
  shows "validate_memory_path cfg cwd sc owner file = None \<longleftrightarrow>
    (\<exists>rest. path_comps (path_abs cwd file) = path_comps (path_abs cwd p) @ rest
       \<and> (rest = [] \<or> \<not> has_prefix (hd rest) ''..''))"
proof -
  let ?b = "path_comps (path_abs cwd p)" and ?t = "path_comps (path_abs cwd file)"
  have real: "slash \<notin> set c" if "c \<in> set ?t" for c
    using path_comps_real [OF path_abs_rooted [OF assms(1)] that] by simp
  have v: "validate_memory_path cfg cwd sc owner file = None
      \<longleftrightarrow> \<not> has_prefix (case rel_comps ?b ?t of [] \<Rightarrow> ''.'' | cs \<Rightarrow> join_with [slash] cs) ''..''"
    using assms(2) by (simp add: validate_memory_path_def path_rel_def)
  from rel_comps_cases [of ?t ?b] show ?thesis
  proof (elim disjE exE conjE)
    fix rest assume r: "?t = ?b @ rest" "rel_comps ?b ?t = rest"
    show ?thesis
    proof (cases rest)
      case Nil
      then show ?thesis using r v by (simp add: has_prefix_def)
    next
      case (Cons c cs)
      then have "slash \<notin> set c" using real r(1) by simp
      then show ?thesis using r v Cons by (simp add: join_dots_prefix)
    qed
  next
    fix r assume r: "\<nexists>rest. ?t = ?b @ rest" "rel_comps ?b ?t = ''..'' # r"
    have "has_prefix (join_with [slash] (''..'' # r)) ''..''"
      using join_dots_prefix [of "''..''" r] by (simp add: slash_def has_prefix_def)
    then show ?thesis using r v by auto
  qed
qed

lemma validate_memory_path_exact_witness:
  "validate_memory_path sample_memory_config ''/w'' ''user'' ''ann'' ''/m/users/ann/go/n.md'' = None
   \<and> validate_memory_path sample_memory_config ''/w'' ''user'' ''ann'' ''/m/users/ann/..n.md'' \<noteq> None"
proof -
  have w: "path_is_abs ''/w''" by code_simp
  have p: "get_owner_path sample_memory_config ''user'' ''ann'' = Inr ''/m/users/ann''" by code_simp
  have c: "path_comps (path_abs ''/w'' ''/m/users/ann'') = [''m'', ''users'', ''ann'']"
    "path_comps (path_abs ''/w'' ''/m/users/ann/go/n.md'') = [''m'', ''users'', ''ann'', ''go'', ''n.md'']"
    "path_comps (path_abs ''/w'' ''/m/users/ann/..n.md'') = [''m'', ''users'', ''ann'', ''..n.md'']" by code_simp+
  have d: "\<not> has_prefix ''go'' ''..''" "has_prefix ''..n.md'' ''..''" by code_simp+
  show ?thesis
    using validate_memory_path_exact [OF w p, of "''/m/users/ann/go/n.md''"]
      validate_memory_path_exact [OF w p, of "''/m/users/ann/..n.md''"] c d by auto
qed

section \<open>What goes wrong\<close>

text \<open>Two owners share a directory as soon as their names differ before a slash or in other characters.\<close>

lemma owners_share_directory:
  "get_owner_path cfg sc ''a/x'' = get_owner_path cfg sc ''b/x'' \<and> get_owner_path cfg sc ''a b'' = get_owner_path cfg sc ''a-b''"
proof -
  have "sanitize_owner_id ''a/x'' = sanitize_owner_id ''b/x'' \<and> sanitize_owner_id ''a b'' = sanitize_owner_id ''a-b''"
    by code_simp
  then show ?thesis unfolding get_owner_path_def by (simp split: option.split sum.split)
qed

end
