(* ===== verification/Memory_Store.thy ===== *)
theory Memory_Store
  imports Memory_Markdown Memory_Paths
begin

text \<open>
  pkg/memory/store.go: the store of memories and their files.  The state holds the disk
  below the memory directories.  A method is one step under its lock; the update of the access
  time that \<open>Get\<close> starts is a step of its own.  What the operations of the disk return, the
  clock and the identifier drawn are arguments.
\<close>

section \<open>State\<close>

record memory_store =
  ms_memories :: "(id, memory) gomap"
  ms_cfg :: memory_config
  ms_closed :: bool
  ms_disk :: disk

definition map_disk :: "(disk \<Rightarrow> disk) \<Rightarrow> memory_store \<Rightarrow> memory_store" where
  "map_disk f s = s\<lparr>ms_disk := f (ms_disk s)\<rparr>"

definition is_expired :: "timestamp \<Rightarrow> memory \<Rightarrow> bool" where
  "is_expired now m = (case me_expires m of None \<Rightarrow> False | Some t \<Rightarrow> t < now)"

section \<open>Files\<close>

definition generate_filename :: "memory \<Rightarrow> string" where
  "generate_filename m =
     me_id m @ ''__'' @ hyphenate (to_lower (replace_all '' '' [hyphen] (me_title m))) @ ''.md''"

definition base_path :: "memory_config \<Rightarrow> memory_scope \<Rightarrow> string option" where
  "base_path cfg sc =
     (if sc = scope_user then Some (mc_user_path cfg)
      else if sc = scope_group then Some (mc_group_path cfg) else None)"

definition too_large :: "memory_config \<Rightarrow> string \<Rightarrow> bool" where
  "too_large cfg s \<longleftrightarrow> mc_max_file_size cfg > 0 \<and> int (length s) > mc_max_file_size cfg * 1024"

definition bad_format :: "memory_config \<Rightarrow> bool" where
  "bad_format cfg \<longleftrightarrow> mc_file_format cfg \<notin> {'''', ''markdown'', ''md''}"

definition owner_dir_of :: "memory_config \<Rightarrow> memory \<Rightarrow> string option" where
  "owner_dir_of cfg m = map_option (\<lambda>b. path_join [b, sanitize_owner_id (me_owner m)]) (base_path cfg (me_scope m))"

definition save_to_disk :: "memory_codec \<Rightarrow> save_faults \<Rightarrow> memory \<Rightarrow> memory_store \<Rightarrow> go_error option \<times> memory_store" where
  "save_to_disk cd f m s =
     (case owner_dir_of (ms_cfg s) m of
        None \<Rightarrow> (Some (new_error ErrInvalidArgument), s)
      | Some dir \<Rightarrow>
          (case sf_mkdir f of
             Some e \<Rightarrow> (Some (wrap_error ErrInternal e), s)
           | None \<Rightarrow>
               let s1 = map_disk (disk_mkdir_all dir) s
               in case serialize_memory cd m of
                    Inl e \<Rightarrow> (Some (wrap_error ErrInternal e), s1)
                  | Inr text1 \<Rightarrow>
                      if too_large (ms_cfg s) text1 then (Some (new_error ErrInvalidArgument), s1)
                      else if bad_format (ms_cfg s) then (Some (new_error ErrInvalidArgument), s1)
                      else
                        (case write_then_rename f (path_join [dir, generate_filename m]) text1 (ms_disk s1) of
                           (r, d) \<Rightarrow> (r, s1\<lparr>ms_disk := d\<rparr>))))"

text \<open>The file of a memory: in the directory of its topic if it is there, else in that of its owner.\<close>

definition memory_file_path :: "memory \<Rightarrow> memory_store \<Rightarrow> string" where
  "memory_file_path m s =
     (case base_path (ms_cfg s) (me_scope m) of
        None \<Rightarrow> ''''
      | Some b \<Rightarrow>
          let file = generate_filename m;
              in_topic = path_join [path_join [b, sanitize_owner_id (me_owner m), sanitize_topic (me_topic m)], file]
          in if me_topic m \<noteq> '''' \<and> disk_exists in_topic (ms_disk s) then in_topic
             else path_join [b, sanitize_owner_id (me_owner m), file])"

text \<open>\<open>fault\<close> is an error of \<open>Remove\<close> other than that there is no file.\<close>

definition delete_from_disk :: "go_error option \<Rightarrow> memory \<Rightarrow> memory_store \<Rightarrow> go_error option \<times> memory_store" where
  "delete_from_disk fault m s =
     (let p = memory_file_path m s
      in if p = '''' then (None, s)
         else (case fault of
                 Some e \<Rightarrow> (Some (wrap_error ErrInternal e), s)
               | None \<Rightarrow> (None, map_disk (disk_remove p) s)))"

section \<open>Operations\<close>

text \<open>The fields of an existing memory that a new version replaces.\<close>

definition overwrite_memory :: "timestamp \<Rightarrow> memory \<Rightarrow> memory \<Rightarrow> memory" where
  "overwrite_memory now m old =
     old\<lparr>me_title := me_title m, me_content := me_content m, me_topic := me_topic m, me_type := me_type m,
         me_metadata := me_metadata m, me_updated := now,
         me_expires := (case me_expires m of None \<Rightarrow> me_expires old | Some t \<Rightarrow> Some t)\<rparr>"

text \<open>
  \<open>Store\<close>.  The caller's memory is given an identifier in place, so it is part of the result; a new
  memory is kept with the time, but it is the caller's, without it, that is saved.
\<close>

definition store_memory ::
    "memory_codec \<Rightarrow> save_faults \<Rightarrow> id \<Rightarrow> timestamp \<Rightarrow> memory \<Rightarrow> memory_store \<Rightarrow> go_error option \<times> memory \<times> memory_store" where
  "store_memory cd f gid now m s =
     (if ms_closed s then (Some (new_error ErrUnavailable), m, s)
      else if \<not> mc_enabled (ms_cfg s) then (Some (new_error ErrPermission), m, s)
      else
        let m1 = (if me_id m = '''' then m\<lparr>me_id := gid\<rparr> else m)
        in if me_title m1 = '''' \<or> me_scope m1 = '''' \<or> me_owner m1 = ''''
           then (Some (new_error ErrInvalidArgument), m1, s)
           else
             (case mget (ms_memories s) (me_id m1) of
                Some old \<Rightarrow>
                  let m2 = overwrite_memory now m1 old;
                      (e, s1) = save_to_disk cd f m2 (s\<lparr>ms_memories := mput (me_id m1) m2 (ms_memories s)\<rparr>)
                  in (e, m1, s1)
              | None \<Rightarrow>
                  let (e, s1) = save_to_disk cd f m1
                        (s\<lparr>ms_memories := mput (me_id m1) (m1\<lparr>me_created := now, me_updated := now\<rparr>) (ms_memories s)\<rparr>)
                  in (e, m1, s1)))"

definition get_memory :: "timestamp \<Rightarrow> id \<Rightarrow> memory_store \<Rightarrow> memory result" where
  "get_memory now i s =
     (if ms_closed s then Inl (new_error ErrUnavailable)
      else
        (case mget (ms_memories s) i of
           None \<Rightarrow> Inl (new_error ErrNotFound)
         | Some m \<Rightarrow> if is_expired now m then Inl (new_error ErrPermission) else Inr m))"

definition update_access_time :: "timestamp \<Rightarrow> id \<Rightarrow> memory_store \<Rightarrow> memory_store" where
  "update_access_time now i s =
     (case mget (ms_memories s) i of
        None \<Rightarrow> s
      | Some m \<Rightarrow> s\<lparr>ms_memories := mput i (m\<lparr>me_accessed := Some now\<rparr>) (ms_memories s)\<rparr>)"

definition get_by_owner :: "timestamp \<Rightarrow> memory_scope \<Rightarrow> string \<Rightarrow> memory_store \<Rightarrow> memory list result" where
  "get_by_owner now sc owner s =
     (if ms_closed s then Inl (new_error ErrUnavailable)
      else Inr (filter (\<lambda>m. me_scope m = sc \<and> me_owner m = owner \<and> \<not> is_expired now m) (mvals (ms_memories s))))"

definition if_given :: "('a \<Rightarrow> bool) \<Rightarrow> 'a option \<Rightarrow> bool" where
  "if_given P v = (case v of None \<Rightarrow> True | Some x \<Rightarrow> P x)"

definition memory_labels_match :: "(string, string) gomap \<Rightarrow> (string, string) gomap \<Rightarrow> bool" where
  "memory_labels_match wanted have1 \<longleftrightarrow> wanted = [] \<or> list_ex (\<lambda>(k, v). mget have1 k = Some v) wanted"

definition tags_match :: "string list \<Rightarrow> string list \<Rightarrow> bool" where
  "tags_match wanted have1 \<longleftrightarrow> list_all (\<lambda>t. t \<in> set have1) wanted"

definition memory_matches :: "memory \<Rightarrow> memory_filter option \<Rightarrow> bool" where
  "memory_matches m fo =
     (case fo of
        None \<Rightarrow> True
      | Some f \<Rightarrow>
          if_given (\<lambda>x. me_scope m = x) (mf_scope f)
          \<and> if_given (\<lambda>x. me_owner m = x) (mf_owner f)
          \<and> if_given (\<lambda>x. me_type m = x) (mf_type f)
          \<and> if_given (\<lambda>x. me_topic m = x) (mf_topic f)
          \<and> if_given (\<lambda>x. md_verified (me_metadata m) = x) (mf_verified f)
          \<and> if_given (\<lambda>x. x \<le> md_importance (me_metadata m)) (mf_min_importance f)
          \<and> memory_labels_match (mf_label f) (md_labels (me_metadata m))
          \<and> tags_match (mf_tags f) (md_tags (me_metadata m))
          \<and> if_given (\<lambda>x. x \<le> me_created m) (mf_start f)
          \<and> if_given (\<lambda>x. me_created m \<le> x) (mf_end f))"

definition list_memories :: "timestamp \<Rightarrow> memory_filter option \<Rightarrow> memory_store \<Rightarrow> memory list result" where
  "list_memories now f s =
     (if ms_closed s then Inl (new_error ErrUnavailable)
      else Inr (filter (\<lambda>m. memory_matches m f \<and> \<not> is_expired now m) (mvals (ms_memories s))))"

definition delete_memory :: "go_error option \<Rightarrow> id \<Rightarrow> memory_store \<Rightarrow> go_error option \<times> memory_store" where
  "delete_memory fault i s =
     (if ms_closed s then (Some (new_error ErrUnavailable), s)
      else
        (case mget (ms_memories s) i of
           None \<Rightarrow> (Some (new_error ErrNotFound), s)
         | Some m \<Rightarrow>
             (case delete_from_disk fault m s of
                (Some e, s1) \<Rightarrow> (Some e, s1)
              | (None, s1) \<Rightarrow> (None, s1\<lparr>ms_memories := mdel i (ms_memories s1)\<rparr>))))"

definition bump :: "'k \<Rightarrow> ('k, int) gomap \<Rightarrow> ('k, int) gomap" where
  "bump k t = mput k ((case mget t k of None \<Rightarrow> 0 | Some n \<Rightarrow> n) + 1) t"

definition count_memory :: "memory \<Rightarrow> memory_stats \<Rightarrow> memory_stats" where
  "count_memory m st =
     st\<lparr>mt_total := mt_total st + 1, mt_types := bump (me_type m) (mt_types st),
        mt_topics := bump (me_topic m) (mt_topics st),
        mt_last_updated := (if mt_last_updated st < me_updated m then me_updated m else mt_last_updated st)\<rparr>"

definition memory_stats_of :: "timestamp \<Rightarrow> memory_scope \<Rightarrow> string \<Rightarrow> memory_store \<Rightarrow> memory_stats result" where
  "memory_stats_of now sc owner s =
     (if ms_closed s then Inl (new_error ErrUnavailable)
      else Inr (fold count_memory
                  (filter (\<lambda>m. me_scope m = sc \<and> me_owner m = owner \<and> \<not> is_expired now m) (mvals (ms_memories s)))
                  \<lparr>mt_scope = sc, mt_owner = owner, mt_total = 0, mt_types = [], mt_topics = [], mt_last_updated = 0, mt_timestamp = now\<rparr>))"

definition close_memory_store :: "memory_store \<Rightarrow> memory_store" where
  "close_memory_store s = (if ms_closed s then s else s\<lparr>ms_closed := True\<rparr>)"

section \<open>Loading\<close>

text \<open>
  \<open>bad\<close> says which paths cannot be read.  A file that does not parse is skipped; \<open>None\<close> is a panic of
  the reader, which nothing catches.
\<close>

definition load_memory_file ::
    "memory_codec \<Rightarrow> (string \<Rightarrow> bool) \<Rightarrow> memory_scope \<Rightarrow> string \<Rightarrow> string \<Rightarrow> memory_store \<Rightarrow> memory_store option" where
  "load_memory_file cd bad sc owner p s =
     (case (if bad p then None else mget (dk_files (ms_disk s)) p) of
        None \<Rightarrow> Some s
      | Some data \<Rightarrow>
          (case deserialize_memory cd data sc owner of
             None \<Rightarrow> None
           | Some (Inl e) \<Rightarrow> Some s
           | Some (Inr m) \<Rightarrow> Some (s\<lparr>ms_memories := mput (me_id m) m (ms_memories s)\<rparr>)))"

fun until_panic :: "('a \<Rightarrow> 's \<Rightarrow> 's option) \<Rightarrow> 'a list \<Rightarrow> 's \<Rightarrow> 's option" where
  "until_panic f [] s = Some s"
| "until_panic f (x # xs) s = (case f x s of None \<Rightarrow> None | Some s' \<Rightarrow> until_panic f xs s')"

definition load_topic_entry ::
    "memory_codec \<Rightarrow> (string \<Rightarrow> bool) \<Rightarrow> memory_scope \<Rightarrow> string \<Rightarrow> string \<Rightarrow> string \<times> bool \<Rightarrow> memory_store \<Rightarrow> memory_store option" where
  "load_topic_entry cd bad sc owner dir ent s =
     (if snd ent then Some s else load_memory_file cd bad sc owner (path_join [dir, fst ent]) s)"

definition load_owner_entry ::
    "memory_codec \<Rightarrow> (string \<Rightarrow> bool) \<Rightarrow> memory_scope \<Rightarrow> string \<Rightarrow> string \<Rightarrow> string \<times> bool \<Rightarrow> memory_store \<Rightarrow> memory_store option" where
  "load_owner_entry cd bad sc owner dir ent s =
     (let p = path_join [dir, fst ent]
      in if snd ent
         then (if bad p then Some s
               else until_panic (load_topic_entry cd bad sc owner p) (disk_read_dir p (ms_disk s)) s)
         else load_memory_file cd bad sc owner p s)"

definition load_owner_dir ::
    "memory_codec \<Rightarrow> (string \<Rightarrow> bool) \<Rightarrow> memory_scope \<Rightarrow> string \<Rightarrow> string \<times> bool \<Rightarrow> memory_store \<Rightarrow> memory_store option" where
  "load_owner_dir cd bad sc dir ent s =
     (let p = path_join [dir, fst ent]
      in if \<not> snd ent \<or> bad p then Some s
         else until_panic (load_owner_entry cd bad sc (fst ent) p) (disk_read_dir p (ms_disk s)) s)"

definition load_memories_from_dir ::
    "memory_codec \<Rightarrow> (string \<Rightarrow> bool) \<Rightarrow> string \<Rightarrow> memory_scope \<Rightarrow> memory_store \<Rightarrow> memory_store option" where
  "load_memories_from_dir cd bad dir sc s =
     (if bad dir then Some s
      else until_panic (load_owner_dir cd bad sc dir) (disk_read_dir (path_clean dir) (ms_disk s)) s)"

definition load_from_disk :: "memory_codec \<Rightarrow> (string \<Rightarrow> bool) \<Rightarrow> memory_store \<Rightarrow> memory_store option" where
  "load_from_disk cd bad s =
     (case load_memories_from_dir cd bad (mc_user_path (ms_cfg s)) scope_user s of
        None \<Rightarrow> None
      | Some s1 \<Rightarrow> load_memories_from_dir cd bad (mc_group_path (ms_cfg s)) scope_group s1)"

definition empty_memory_store :: "memory_config \<Rightarrow> disk \<Rightarrow> memory_store" where
  "empty_memory_store cfg d = \<lparr>ms_memories = [], ms_cfg = cfg, ms_closed = False, ms_disk = d\<rparr>"

definition new_memory_store ::
    "memory_codec \<Rightarrow> memory_config \<Rightarrow> go_error option \<Rightarrow> go_error option \<Rightarrow> (string \<Rightarrow> bool) \<Rightarrow> disk \<Rightarrow> memory_store result option" where
  "new_memory_store cd cfg fault1 fault2 bad d =
     (case fault1 of
        Some e \<Rightarrow> Some (Inl (wrap_error ErrInternal e))
      | None \<Rightarrow>
          (case fault2 of
             Some e \<Rightarrow> Some (Inl (wrap_error ErrInternal e))
           | None \<Rightarrow>
               map_option Inr
                 (load_from_disk cd bad (empty_memory_store cfg
                    (disk_mkdir_all (path_clean (mc_group_path cfg)) (disk_mkdir_all (path_clean (mc_user_path cfg)) d))))))"

end
