(* ===== verification/Memory_Proofs.thy ===== *)
theory Memory_Proofs
  imports Memory_Store
begin

text \<open>
  The store of memories over its runs, what a save leaves on the disk, and what a restart
  finds there.
\<close>

section \<open>Runs\<close>

datatype memory_op =
    MStore save_faults id timestamp memory
  | MTouch timestamp id
  | MDelete "go_error option" id
  | MClose

fun memory_exec :: "memory_codec \<Rightarrow> memory_store \<Rightarrow> memory_op \<Rightarrow> memory_store" where
  "memory_exec cd s (MStore f gid now m) = snd (snd (store_memory cd f gid now m s))"
| "memory_exec cd s (MTouch now i) = update_access_time now i s"
| "memory_exec cd s (MDelete fault i) = snd (delete_memory fault i s)"
| "memory_exec cd s MClose = close_memory_store s"

definition memory_store_ok :: "memory_store \<Rightarrow> bool" where
  "memory_store_ok s \<longleftrightarrow> mwf (ms_memories s) \<and> mall (\<lambda>i m. me_id m = i) (ms_memories s)"

lemma map_disk_fields [simp]:
  "ms_memories (map_disk f s) = ms_memories s" "ms_cfg (map_disk f s) = ms_cfg s"
  "ms_closed (map_disk f s) = ms_closed s" "ms_disk (map_disk f s) = f (ms_disk s)"
  by (simp_all add: map_disk_def)

lemma save_fields [simp]:
  "ms_memories (snd (save_to_disk cd f m s)) = ms_memories s" "ms_cfg (snd (save_to_disk cd f m s)) = ms_cfg s"
  "ms_closed (snd (save_to_disk cd f m s)) = ms_closed s"
  by (simp_all add: save_to_disk_def Let_def split: option.split sum.split prod.split)

lemma delete_fields [simp]:
  "ms_memories (snd (delete_from_disk fault m s)) = ms_memories s" "ms_cfg (snd (delete_from_disk fault m s)) = ms_cfg s"
  "ms_closed (snd (delete_from_disk fault m s)) = ms_closed s"
  by (simp_all add: delete_from_disk_def Let_def split: option.split)

text \<open>The two ways in which storing changes the memories: not at all, or at the identifier of the result.\<close>

definition stored_as :: "timestamp \<Rightarrow> memory \<Rightarrow> memory_store \<Rightarrow> memory" where
  "stored_as now m s =
     (case mget (ms_memories s) (me_id m) of
        Some old \<Rightarrow> overwrite_memory now m old | None \<Rightarrow> m\<lparr>me_created := now, me_updated := now\<rparr>)"

definition saved_as :: "timestamp \<Rightarrow> memory \<Rightarrow> memory_store \<Rightarrow> memory" where
  "saved_as now m s =
     (case mget (ms_memories s) (me_id m) of Some old \<Rightarrow> overwrite_memory now m old | None \<Rightarrow> m)"

definition accepts_store :: "memory \<Rightarrow> memory_store \<Rightarrow> bool" where
  "accepts_store m s \<longleftrightarrow> \<not> ms_closed s \<and> mc_enabled (ms_cfg s) \<and> me_title m \<noteq> '''' \<and> me_scope m \<noteq> '''' \<and> me_owner m \<noteq> ''''"

definition with_id :: "id \<Rightarrow> memory \<Rightarrow> memory" where
  "with_id gid m = (if me_id m = '''' then m\<lparr>me_id := gid\<rparr> else m)"

lemma store_memory_accepted:
  assumes "accepts_store m s"
  shows "store_memory cd f gid now m s =
    (let m1 = with_id gid m;
         (e, s1) = save_to_disk cd f (saved_as now m1 s) (s\<lparr>ms_memories := mput (me_id m1) (stored_as now m1 s) (ms_memories s)\<rparr>)
     in (e, m1, s1))"
  using assms
  by (simp add: store_memory_def accepts_store_def with_id_def stored_as_def saved_as_def Let_def split: option.split)

lemma store_memory_refused:
  assumes "\<not> accepts_store m s"
  shows "fst (store_memory cd f gid now m s) \<noteq> None \<and> snd (snd (store_memory cd f gid now m s)) = s"
  using assms by (auto simp: store_memory_def accepts_store_def Let_def)

lemma store_memory_state:
  "snd (snd (store_memory cd f gid now m s)) =
     (if accepts_store m s
      then snd (save_to_disk cd f (saved_as now (with_id gid m) s)
             (s\<lparr>ms_memories := mput (me_id (with_id gid m)) (stored_as now (with_id gid m) s) (ms_memories s)\<rparr>))
      else s)"
  by (simp add: store_memory_accepted store_memory_refused Let_def split: prod.split)

lemma stored_as_fields:
  "mget (ms_memories s) (me_id m) = Some old \<Longrightarrow> memory_store_ok s \<Longrightarrow>
     me_id (stored_as now m s) = me_id m \<and> me_scope (stored_as now m s) = me_scope old
     \<and> me_owner (stored_as now m s) = me_owner old \<and> me_created (stored_as now m s) = me_created old"
  by (auto simp: stored_as_def overwrite_memory_def memory_store_ok_def dest: mall_get)

lemma memory_ok_put:
  "memory_store_ok s \<Longrightarrow> me_id m = i \<Longrightarrow> ms_memories s' = mput i m (ms_memories s) \<Longrightarrow> memory_store_ok s'"
  by (simp add: memory_store_ok_def mall_mput)

lemma memory_ok_same: "memory_store_ok s \<Longrightarrow> ms_memories s' = ms_memories s \<Longrightarrow> memory_store_ok s'"
  by (simp add: memory_store_ok_def)

lemma delete_memories:
  "ms_memories (snd (delete_memory fault i s)) \<in> {ms_memories s, mdel i (ms_memories s)}
   \<and> ms_closed (snd (delete_memory fault i s)) = ms_closed s \<and> ms_cfg (snd (delete_memory fault i s)) = ms_cfg s"
  by (simp add: delete_memory_def delete_from_disk_def Let_def split: option.split)

lemma memory_exec_ok: "memory_store_ok s \<Longrightarrow> memory_store_ok (memory_exec cd s c)"
proof (induction c)
  case (MStore f gid now m)
  let ?m = "with_id gid m"
  have "me_id (stored_as now ?m s) = me_id ?m"
    using stored_as_fields [of s ?m _ now] MStore
    by (cases "mget (ms_memories s) (me_id ?m)") (auto simp: stored_as_def)
  then show ?case
    using MStore memory_ok_put [OF MStore, of "stored_as now ?m s" "me_id ?m"]
    by (simp add: store_memory_state)
next
  case (MTouch now i)
  then show ?case
    by (auto simp: update_access_time_def memory_store_ok_def dest: mall_get intro!: mall_mput split: option.split)
next
  case (MDelete fault i)
  have "memory_store_ok s'" if "ms_memories s' = mdel i (ms_memories s)" for s' :: memory_store
    using MDelete that by (simp add: memory_store_ok_def mall_mdel)
  then show ?case
    using delete_memories [of fault i s] memory_ok_same [OF MDelete] by auto
qed (auto simp: close_memory_store_def memory_store_ok_def)

lemma memory_exec_closed: "ms_closed s \<Longrightarrow> ms_closed (memory_exec cd s c)"
proof (induction c)
  case (MStore f gid now m)
  then show ?case by (simp add: store_memory_state)
qed (use delete_memories in \<open>auto simp: update_access_time_def close_memory_store_def split: option.split\<close>)

interpretation memories: closable_machine "memory_exec cd" memory_store_ok ms_closed for cd
  by unfold_locales (fact memory_exec_ok memory_exec_closed)+

text \<open>What no call but a deletion changes of a memory.\<close>

definition same_identity :: "memory \<Rightarrow> memory \<Rightarrow> bool" where
  "same_identity m m' \<longleftrightarrow> me_id m' = me_id m \<and> me_scope m' = me_scope m \<and> me_owner m' = me_owner m \<and> me_created m' = me_created m"

definition deletes :: "id \<Rightarrow> memory_op \<Rightarrow> bool" where
  "deletes i c = (case c of MDelete fault j \<Rightarrow> j = i | _ \<Rightarrow> False)"

lemma memory_exec_identity:
  assumes "memory_store_ok s" and "mget (ms_memories s) i = Some m" and "\<not> deletes i c"
  shows "\<exists>m'. mget (ms_memories (memory_exec cd s c)) i = Some m' \<and> same_identity m m'"
proof (cases c)
  case (MStore f gid now n)
  let ?n = "with_id gid n"
  have "same_identity m (stored_as now ?n s)" if "me_id ?n = i"
    using stored_as_fields [of s ?n m now] assms that
    by (auto simp: same_identity_def memory_store_ok_def dest: mall_get)
  then show ?thesis using assms(2) MStore by (auto simp: store_memory_state same_identity_def)
next
  case (MTouch now j)
  then show ?thesis using assms(2) by (auto simp: update_access_time_def same_identity_def split: option.split)
next
  case (MDelete fault j)
  then have "j \<noteq> i" using assms(3) by (simp add: deletes_def)
  then show ?thesis using delete_memories [of fault j s] assms(2) MDelete by (auto simp: same_identity_def)
next
  case MClose
  then show ?thesis using assms(2) by (auto simp: close_memory_store_def same_identity_def)
qed

lemma same_identity_trans: "same_identity a b \<Longrightarrow> same_identity b c \<Longrightarrow> same_identity a c"
  by (simp add: same_identity_def)

lemma memory_run_identity:
  "memory_store_ok s \<Longrightarrow> mget (ms_memories s) i = Some m \<Longrightarrow> list_all (\<lambda>c. \<not> deletes i c) cs \<Longrightarrow>
     \<exists>m'. mget (ms_memories (foldl (memory_exec cd) s cs)) i = Some m' \<and> same_identity m m'"
proof (induction cs arbitrary: s m)
  case (Cons c cs)
  obtain m1 where m1: "mget (ms_memories (memory_exec cd s c)) i = Some m1" "same_identity m m1"
    using memory_exec_identity [of s i m c cd] Cons.prems by auto
  have "list_all (\<lambda>c. \<not> deletes i c) cs" using Cons.prems(3) by simp
  from Cons.IH [OF memory_exec_ok [OF Cons.prems(1)] m1(1) this] show ?case
    using same_identity_trans [OF m1(2)] by auto
qed (simp add: same_identity_def)

text \<open>
  C22: Until it is deleted a memory keeps its identifier, scope, owner and time of creation, whatever is
  called, so a store for another owner under the same identifier changes its text but not whose it is; and in every state each memory is
  kept under its own identifier, and a closed store stays closed.
\<close>

theorem memory_keeps_its_owner:
  assumes "memory_store_ok s0" and "s = foldl (memory_exec cd) s0 cs"
  shows "memory_store_ok s \<and> (ms_closed s0 \<longrightarrow> ms_closed s)
    \<and> (\<forall>i m. mget (ms_memories s0) i = Some m \<longrightarrow> list_all (\<lambda>c. \<not> deletes i c) cs \<longrightarrow>
         (\<exists>m'. mget (ms_memories s) i = Some m' \<and> same_identity m m'))"
  unfolding assms(2)
  using memories.run_good [OF assms(1), of cd cs] memories.run_shut [of s0 cd cs] memory_run_identity [OF assms(1)] by blast

definition sample_memory_store :: memory_store where
  "sample_memory_store = \<lparr>ms_memories = [(''m1'', sample_memory)], ms_cfg = sample_memory_config, ms_closed = False,
     ms_disk = \<lparr>dk_files = [], dk_dirs = []\<rparr>\<rparr>"

definition sample_memory_calls :: "memory_op list" where
  "sample_memory_calls = [MStore no_faults ''g'' 9 (sample_memory\<lparr>me_owner := ''bob'', me_title := ''Mine''\<rparr>), MTouch 10 ''m1'',
     MDelete None ''m2'']"

lemma sample_memory_store_ok: "memory_store_ok sample_memory_store"
  by (simp add: sample_memory_store_def memory_store_ok_def mwf_def mall_def sample_memory_def titled_sample_def)

lemma memory_keeps_its_owner_witness:
  "map_option me_owner (mget (ms_memories (foldl (memory_exec sample_memory_codec) sample_memory_store sample_memory_calls)) ''m1'')
     = Some ''ann''"
proof -
  have get: "mget (ms_memories sample_memory_store) ''m1'' = Some sample_memory"
    by (simp add: sample_memory_store_def mget_def)
  have calls: "list_all (\<lambda>c. \<not> deletes ''m1'' c) sample_memory_calls"
    by (simp add: sample_memory_calls_def deletes_def)
  have ow: "me_owner sample_memory = ''ann''" by (simp add: sample_memory_def titled_sample_def)
  from memory_keeps_its_owner [OF sample_memory_store_ok refl, of sample_memory_codec sample_memory_calls] get calls
  obtain m' where "mget (ms_memories (foldl (memory_exec sample_memory_codec) sample_memory_store sample_memory_calls)) ''m1'' = Some m'"
    and "same_identity sample_memory m'" by blast
  with ow show ?thesis by (simp add: same_identity_def)
qed

section \<open>What a store leaves on the disk\<close>

definition target_path :: "memory_config \<Rightarrow> memory \<Rightarrow> string" where
  "target_path cfg m =
     (case owner_dir_of cfg m of None \<Rightarrow> '''' | Some dir \<Rightarrow> path_join [dir, generate_filename m])"

lemma save_to_disk_files:
  assumes "save_to_disk cd f m s = (r, s')"
  shows "(r = None \<longrightarrow> (\<exists>t. serialize_memory cd m = Inr t \<and> mget (dk_files (ms_disk s')) (target_path (ms_cfg s) m) = Some t))
    \<and> (\<forall>q. q \<noteq> target_path (ms_cfg s) m @ ''.tmp'' \<longrightarrow> r \<noteq> None \<or> q \<noteq> target_path (ms_cfg s) m \<longrightarrow>
         mget (dk_files (ms_disk s')) q = mget (dk_files (ms_disk s)) q)"
proof (cases "owner_dir_of (ms_cfg s) m")
  case None
  then show ?thesis using assms by (auto simp: save_to_disk_def)
next
  case (Some dir)
  then show ?thesis
    using assms write_then_rename_files [of f "path_join [dir, generate_filename m]"]
    by (force simp: save_to_disk_def target_path_def Let_def split: option.splits sum.splits if_splits prod.splits)
qed

text \<open>
  A store that the checks accept changes the memory in the store whether or not it fails after that;
  if it succeeds, the file of the memory holds what was saved, which for a new memory is the caller's
  copy, without the times that the store has set; if it fails no file but a temporary one changes,
  so the store and the disk disagree; and the file of an earlier title stays.
\<close>

lemma store_memory_reaches_disk:
  assumes "accepts_store m s" and "store_memory cd f gid now m s = (e, m1, s1)"
  shows "mget (ms_memories s1) (me_id m1) = Some (stored_as now m1 s)
    \<and> get_memory t (me_id m1) s1 =
        (if is_expired t (stored_as now m1 s) then Inl (new_error ErrPermission) else Inr (stored_as now m1 s))
    \<and> (e = None \<longrightarrow> (\<exists>w. serialize_memory cd (saved_as now m1 s) = Inr w
         \<and> mget (dk_files (ms_disk s1)) (target_path (ms_cfg s) (saved_as now m1 s)) = Some w))
    \<and> (\<forall>q. q \<noteq> target_path (ms_cfg s) (saved_as now m1 s) @ ''.tmp'' \<longrightarrow>
         e \<noteq> None \<or> q \<noteq> target_path (ms_cfg s) (saved_as now m1 s) \<longrightarrow>
         mget (dk_files (ms_disk s1)) q = mget (dk_files (ms_disk s)) q)"
proof -
  let ?s = "s\<lparr>ms_memories := mput (me_id m1) (stored_as now m1 s) (ms_memories s)\<rparr>"
  have sv: "save_to_disk cd f (saved_as now m1 s) ?s = (e, s1)"
    using assms by (auto simp: store_memory_accepted Let_def split: prod.splits)
  have mem: "ms_memories s1 = mput (me_id m1) (stored_as now m1 s) (ms_memories s)" "ms_closed s1 = ms_closed s"
    using save_fields [of cd f "saved_as now m1 s" ?s] sv by simp_all
  have open1: "\<not> ms_closed s" using assms(1) by (simp add: accepts_store_def)
  show ?thesis using save_to_disk_files [OF sv] mem open1 by (simp add: get_memory_def)
qed

definition sample_empty_store :: memory_store where
  "sample_empty_store = sample_memory_store\<lparr>ms_memories := []\<rparr>"

lemma sample_stored: "fst (store_memory sample_memory_codec no_faults ''g'' 9 sample_memory sample_empty_store) = None"
  by code_simp

lemma store_memory_reaches_disk_witness:
  "mget (dk_files (ms_disk (snd (snd (store_memory sample_memory_codec no_faults ''g'' 9 sample_memory sample_empty_store)))))
       ''/m/users/ann/m1__my-note.md''
     = Some (projr (serialize_memory sample_memory_codec sample_memory))
   \<and> me_created (projr (get_memory 10 ''m1'' (snd (snd (store_memory sample_memory_codec no_faults ''g'' 9 sample_memory sample_empty_store))))) = 9"
proof -
  obtain e m1 s1 where r: "store_memory sample_memory_codec no_faults ''g'' 9 sample_memory sample_empty_store = (e, m1, s1)"
    by (rule prod_cases3)
  have acc: "accepts_store sample_memory sample_empty_store" by code_simp
  have "with_id ''g'' sample_memory = sample_memory" by (simp add: with_id_def sample_memory_def titled_sample_def)
  then have m1: "m1 = sample_memory"
    using r by (simp add: store_memory_accepted [OF acc] Let_def split: prod.splits)
  have e: "e = None" using sample_stored r by simp
  have saved: "saved_as 9 sample_memory sample_empty_store = sample_memory"
    "stored_as 9 sample_memory sample_empty_store = sample_memory\<lparr>me_created := 9, me_updated := 9\<rparr>"
    by (simp_all add: saved_as_def stored_as_def sample_empty_store_def)
  have path: "target_path (ms_cfg sample_empty_store) sample_memory = ''/m/users/ann/m1__my-note.md''" by code_simp
  have live: "\<not> is_expired 10 (sample_memory\<lparr>me_created := 9, me_updated := 9\<rparr>)" "me_id sample_memory = ''m1''"
    by (simp_all add: is_expired_def sample_memory_def titled_sample_def)
  note th = store_memory_reaches_disk [OF acc r, of 10, unfolded m1 saved path live(2)]
  from th e obtain w where "serialize_memory sample_memory_codec sample_memory = Inr w"
    "mget (dk_files (ms_disk s1)) ''/m/users/ann/m1__my-note.md'' = Some w" by blast
  moreover have "get_memory 10 ''m1'' s1 = Inr (sample_memory\<lparr>me_created := 9, me_updated := 9\<rparr>)"
    using th live(1) by simp
  ultimately show ?thesis by (simp add: r)
qed

section \<open>What a restart finds\<close>

lemma until_panic_keeps:
  assumes "until_panic f xs s = Some s'" and "\<And>x s s'. f x s = Some s' \<Longrightarrow> P s \<Longrightarrow> P s'" and "P s"
  shows "P s'"
  using assms(1,3)
proof (induction xs arbitrary: s)
  case (Cons x xs)
  then show ?case using assms(2) by (auto split: option.splits)
qed simp

lemma until_panic_reaches:
  assumes "until_panic f xs s = Some s'" and "x \<in> set xs"
    and "\<And>x s s'. f x s = Some s' \<Longrightarrow> P s \<Longrightarrow> P s'" and "\<And>s s'. f x s = Some s' \<Longrightarrow> Q s \<Longrightarrow> P s'"
    and "\<And>x s s'. f x s = Some s' \<Longrightarrow> Q s \<Longrightarrow> Q s'" and "Q s"
  shows "P s'"
  using assms(1,2,6)
proof (induction xs arbitrary: s)
  case (Cons y ys)
  then obtain s1 where s1: "f y s = Some s1" "until_panic f ys s1 = Some s'" by (auto split: option.splits)
  show ?case
  proof (cases "x = y")
    case True
    then have "P s1" using assms(4) s1(1) Cons.prems(3) by blast
    with s1(2) show ?thesis using until_panic_keeps [of f ys s1 s' P] assms(3) by blast
  next
    case False
    then show ?thesis using Cons s1 assms(5) by (metis set_ConsD)
  qed
qed simp

text \<open>Loading never touches the disk or the configuration, and keeps the identifiers it has met.\<close>

definition loaded_from :: "disk \<Rightarrow> memory_config \<Rightarrow> memory_store \<Rightarrow> bool" where
  "loaded_from d cfg s \<longleftrightarrow> ms_disk s = d \<and> ms_cfg s = cfg"

definition knows :: "id \<Rightarrow> disk \<Rightarrow> memory_config \<Rightarrow> memory_store \<Rightarrow> bool" where
  "knows i d cfg s \<longleftrightarrow> mget (ms_memories s) i \<noteq> None \<and> loaded_from d cfg s"

lemma load_file_keeps:
  assumes "load_memory_file cd bad sc owner p s = Some s'"
  shows "(loaded_from d cfg s \<longrightarrow> loaded_from d cfg s') \<and> (knows i d cfg s \<longrightarrow> knows i d cfg s')"
  using assms by (auto simp: load_memory_file_def knows_def loaded_from_def split: option.splits sum.splits if_splits)

lemma load_topic_entry_keeps:
  assumes "load_topic_entry cd bad sc owner p x s = Some s'"
  shows "(loaded_from d cfg s \<longrightarrow> loaded_from d cfg s') \<and> (knows i d cfg s \<longrightarrow> knows i d cfg s')"
  using assms load_file_keeps [of cd bad sc owner "path_join [p, fst x]" s s' d cfg i]
  by (auto simp: load_topic_entry_def split: if_splits)

lemma load_owner_entry_keeps:
  assumes "load_owner_entry cd bad sc owner dir x s = Some s'"
  shows "(loaded_from d cfg s \<longrightarrow> loaded_from d cfg s') \<and> (knows i d cfg s \<longrightarrow> knows i d cfg s')"
  using assms load_file_keeps [of cd bad sc owner "path_join [dir, fst x]" s s' d cfg i]
    until_panic_keeps [of "load_topic_entry cd bad sc owner (path_join [dir, fst x])" _ s s' "loaded_from d cfg"]
    until_panic_keeps [of "load_topic_entry cd bad sc owner (path_join [dir, fst x])" _ s s' "knows i d cfg"]
    load_topic_entry_keeps
  by (auto simp: load_owner_entry_def Let_def split: if_splits)

lemma load_owner_dir_keeps:
  assumes "load_owner_dir cd bad sc dir x s = Some s'"
  shows "(loaded_from d cfg s \<longrightarrow> loaded_from d cfg s') \<and> (knows i d cfg s \<longrightarrow> knows i d cfg s')"
  using assms
    until_panic_keeps [of "load_owner_entry cd bad sc (fst x) (path_join [dir, fst x])" _ s s' "loaded_from d cfg"]
    until_panic_keeps [of "load_owner_entry cd bad sc (fst x) (path_join [dir, fst x])" _ s s' "knows i d cfg"]
    load_owner_entry_keeps
  by (auto simp: load_owner_dir_def Let_def split: if_splits)

lemma load_dir_keeps:
  assumes "load_memories_from_dir cd bad dir sc s = Some s'"
  shows "(loaded_from d cfg s \<longrightarrow> loaded_from d cfg s') \<and> (knows i d cfg s \<longrightarrow> knows i d cfg s')"
  using assms until_panic_keeps [of "load_owner_dir cd bad sc dir" _ s s' "loaded_from d cfg"]
    until_panic_keeps [of "load_owner_dir cd bad sc dir" _ s s' "knows i d cfg"] load_owner_dir_keeps
  by (auto simp: load_memories_from_dir_def split: if_splits)

text \<open>A file in the directory of an owner that can be read and parsed.\<close>

definition readable_file ::
    "memory_codec \<Rightarrow> (string \<Rightarrow> bool) \<Rightarrow> memory_scope \<Rightarrow> string \<Rightarrow> string \<Rightarrow> string \<Rightarrow> disk \<Rightarrow> memory \<Rightarrow> bool" where
  "readable_file cd bad sc b ow n d m \<longleftrightarrow>
     (let p = path_join [b, ow]; q = path_join [p, n]
      in (ow, True) \<in> set (disk_read_dir (path_clean b) d) \<and> (n, False) \<in> set (disk_read_dir p d)
         \<and> \<not> bad b \<and> \<not> bad p \<and> \<not> bad q
         \<and> (\<exists>data. mget (dk_files d) q = Some data \<and> deserialize_memory cd data sc ow = Some (Inr m)))"

lemma load_dir_finds:
  assumes "load_memories_from_dir cd bad b sc s = Some s'" and "loaded_from d cfg s" and "readable_file cd bad sc b ow n d m"
  shows "knows (me_id m) d cfg s'"
proof -
  let ?p = "path_join [b, ow]"
  let ?K = "knows (me_id m) d cfg" and ?L = "loaded_from d cfg"
  obtain data where content: "mget (dk_files d) (path_join [?p, n]) = Some data" "deserialize_memory cd data sc ow = Some (Inr m)"
    and names: "(ow, True) \<in> set (disk_read_dir (path_clean b) d)" "(n, False) \<in> set (disk_read_dir ?p d)"
    and good: "\<not> bad b" "\<not> bad ?p" "\<not> bad (path_join [?p, n])"
    using assms(3) by (auto simp: readable_file_def Let_def)
  have one: "?K s2" if "load_owner_entry cd bad sc ow ?p (n, False) s1 = Some s2" "?L s1" for s1 s2
    using that content good by (auto simp: load_owner_entry_def load_memory_file_def knows_def loaded_from_def Let_def)
  have dir: "?K s2" if "load_owner_dir cd bad sc b (ow, True) s1 = Some s2" "?L s1" for s1 s2
  proof -
    have "until_panic (load_owner_entry cd bad sc ow ?p) (disk_read_dir ?p d) s1 = Some s2"
      using that good by (simp add: load_owner_dir_def loaded_from_def Let_def)
    from until_panic_reaches [OF this names(2), of ?K ?L] one load_owner_entry_keeps [of cd bad sc ow ?p] that(2)
    show ?thesis by blast
  qed
  have "until_panic (load_owner_dir cd bad sc b) (disk_read_dir (path_clean b) d) s = Some s'"
    using assms(1,2) good(1) by (simp add: load_memories_from_dir_def loaded_from_def)
  from until_panic_reaches [OF this names(1), of ?K ?L] dir load_owner_dir_keeps [of cd bad sc b] assms(2)
  show ?thesis by blast
qed

lemma load_finds:
  assumes "load_from_disk cd bad (empty_memory_store cfg d) = Some s'" and "base_path cfg sc = Some b"
    and "readable_file cd bad sc b ow n d m"
  shows "mget (ms_memories s') (me_id m) \<noteq> None"
proof -
  have start: "loaded_from d cfg (empty_memory_store cfg d)" and cfg: "ms_cfg (empty_memory_store cfg d) = cfg"
    by (simp_all add: loaded_from_def empty_memory_store_def)
  obtain s1 where s1: "load_memories_from_dir cd bad (mc_user_path cfg) scope_user (empty_memory_store cfg d) = Some s1"
    and s2: "load_memories_from_dir cd bad (mc_group_path (ms_cfg (empty_memory_store cfg d))) scope_group s1 = Some s'"
    using assms(1) by (auto simp: load_from_disk_def cfg split: option.splits)
  consider "sc = scope_user" "b = mc_user_path cfg" | "sc = scope_group" "b = mc_group_path cfg"
    using assms(2) by (auto simp: base_path_def split: if_splits)
  then have "knows (me_id m) d cfg s'"
  proof cases
    case 1
    then have "knows (me_id m) d cfg s1" using load_dir_finds [OF s1 start] assms(3) by simp
    then show ?thesis using load_dir_keeps [OF s2] by blast
  next
    case 2
    have "loaded_from d cfg s1" using load_dir_keeps [OF s1] start by blast
    then show ?thesis using load_dir_finds [OF s2 [unfolded cfg]] assms(3) 2 by simp
  qed
  then show ?thesis by (simp add: knows_def)
qed

lemma delete_memory_files:
  assumes "mget (ms_memories s) i = Some m" and "\<not> ms_closed s" and "delete_memory None i s = (e, s')"
  shows "e = None \<and> mget (ms_memories s') i = None \<and> ms_cfg s' = ms_cfg s
    \<and> (\<forall>q. q \<noteq> memory_file_path m s \<longrightarrow> mget (dk_files (ms_disk s')) q = mget (dk_files (ms_disk s)) q)"
  using assms by (auto simp: delete_memory_def delete_from_disk_def Let_def split: if_splits)

text \<open>
  A memory that was given another title and then deleted, both without error, leaves the file of
  its earlier title; so the next store that starts on the disk knows the memory again.
\<close>

lemma renamed_memory_survives_deletion:
  assumes "accepts_store m s" and "me_id m = i" and "i \<noteq> ''''"
    and "store_memory cd no_faults gid now m s = (None, m1, s1)"
    and "delete_memory None i s1 = (e, s2)"
    and "old = path_join [path_join [b, ow], n]" and "\<not> has_suffix old ''.tmp''"
    and "old \<noteq> target_path (ms_cfg s) (saved_as now m s)" and "old \<noteq> memory_file_path (stored_as now m s) s1"
  shows "mget (dk_files (ms_disk s2)) old = mget (dk_files (ms_disk s)) old
    \<and> e = None \<and> mget (ms_memories s2) i = None
    \<and> (\<forall>bad s3 m0. readable_file cd bad sc b ow n (ms_disk s2) m0 \<and> me_id m0 = i \<and> base_path (ms_cfg s2) sc = Some b
         \<and> load_from_disk cd bad (empty_memory_store (ms_cfg s2) (ms_disk s2)) = Some s3
         \<longrightarrow> mget (ms_memories s3) i \<noteq> None)"
proof -
  have m1: "m1 = m" using assms(1-4) by (auto simp: store_memory_accepted with_id_def Let_def split: prod.splits)
  note st = store_memory_reaches_disk [OF assms(1,4), unfolded m1]
  have mem: "mget (ms_memories s1) i = Some (stored_as now m s)" using st assms(2) by blast
  have open1: "\<not> ms_closed s1"
    using assms(1,4) store_memory_state [of cd no_faults gid now m s] by (simp add: accepts_store_def)
  note del = delete_memory_files [OF mem open1 assms(5)]
  have "old \<noteq> target_path (ms_cfg s) (saved_as now m s) @ ''.tmp''" using assms(7) by auto
  then have "mget (dk_files (ms_disk s1)) old = mget (dk_files (ms_disk s)) old" using st assms(8) by blast
  moreover have "mget (dk_files (ms_disk s2)) old = mget (dk_files (ms_disk s1)) old" using del assms(9) by blast
  moreover have "mget (ms_memories s3) i \<noteq> None"
    if "readable_file cd bad sc b ow n (ms_disk s2) m0 \<and> me_id m0 = i \<and> base_path (ms_cfg s2) sc = Some b
        \<and> load_from_disk cd bad (empty_memory_store (ms_cfg s2) (ms_disk s2)) = Some s3" for bad s3 m0
    using load_finds [of cd bad "ms_cfg s2" "ms_disk s2" s3 sc b ow n m0] that by blast
  ultimately show ?thesis using del by auto
qed

definition lenient_codec :: memory_codec where
  "lenient_codec = \<lparr>mc_marshal = (\<lambda>f. Inr ''{}''), mc_unmarshal = (\<lambda>s. Inr (front_of (one_memory_codec []) sample_memory)),
     mc_format = unary_time, mc_parse = unary_parse\<rparr>"

definition renamed_sample :: memory where
  "renamed_sample = sample_memory\<lparr>me_title := ''Other''\<rparr>"

definition first_stored :: memory_store where
  "first_stored = snd (snd (store_memory lenient_codec no_faults ''g'' 9 sample_memory sample_empty_store))"

definition then_renamed :: memory_store where
  "then_renamed = snd (snd (store_memory lenient_codec no_faults ''g'' 10 renamed_sample first_stored))"

definition then_deleted :: memory_store where
  "then_deleted = snd (delete_memory None ''m1'' then_renamed)"

lemma renamed_memory_survives_deletion_witness:
  "mget (ms_memories then_deleted) ''m1'' = None
   \<and> mget (ms_memories (the (load_from_disk lenient_codec (\<lambda>p. False) (empty_memory_store (ms_cfg then_deleted) (ms_disk then_deleted))))) ''m1'' \<noteq> None"
proof -
  have acc: "accepts_store renamed_sample first_stored" by code_simp
  have i: "me_id renamed_sample = ''m1''" "''m1'' \<noteq> ''''" by code_simp+
  have "fst (store_memory lenient_codec no_faults ''g'' 10 renamed_sample first_stored) = None" by code_simp
  then have st: "store_memory lenient_codec no_faults ''g'' 10 renamed_sample first_stored =
      (None, fst (snd (store_memory lenient_codec no_faults ''g'' 10 renamed_sample first_stored)), then_renamed)"
    by (simp add: then_renamed_def prod_eq_iff)
  have del: "delete_memory None ''m1'' then_renamed = (fst (delete_memory None ''m1'' then_renamed), then_deleted)"
    by (simp add: then_deleted_def)
  have old: "''/m/users/ann/m1__my-note.md'' = path_join [path_join [''/m/users'', ''ann''], ''m1__my-note.md'']" by code_simp
  have ne: "\<not> has_suffix ''/m/users/ann/m1__my-note.md'' ''.tmp''"
    "''/m/users/ann/m1__my-note.md'' \<noteq> target_path (ms_cfg first_stored) (saved_as 10 renamed_sample first_stored)"
    "''/m/users/ann/m1__my-note.md'' \<noteq> memory_file_path (stored_as 10 renamed_sample first_stored) then_renamed" by code_simp+
  let ?cfg = "ms_cfg then_deleted" and ?d = "ms_disk then_deleted"
  let ?bytes = "the (mget (dk_files ?d) ''/m/users/ann/m1__my-note.md'')"
  let ?m0 = "projr (the (deserialize_memory lenient_codec ?bytes ''user'' ''ann''))"
  have "(''ann'', True) \<in> set (disk_read_dir (path_clean ''/m/users'') ?d)"
    "(''m1__my-note.md'', False) \<in> set (disk_read_dir (path_join [''/m/users'', ''ann'']) ?d)"
    "mget (dk_files ?d) ''/m/users/ann/m1__my-note.md'' = Some ?bytes"
    "deserialize_memory lenient_codec ?bytes ''user'' ''ann'' = Some (Inr ?m0)" by code_simp+
  then have file1: "readable_file lenient_codec (\<lambda>p. False) ''user'' ''/m/users'' ''ann'' ''m1__my-note.md'' ?d ?m0"
    unfolding readable_file_def Let_def old [symmetric] by blast
  have m0: "me_id ?m0 = ''m1''" "base_path ?cfg ''user'' = Some ''/m/users''" by code_simp+
  have "load_from_disk lenient_codec (\<lambda>p. False) (empty_memory_store ?cfg ?d) \<noteq> None" by code_simp
  then obtain s3 where s3: "load_from_disk lenient_codec (\<lambda>p. False) (empty_memory_store ?cfg ?d) = Some s3" by blast
  from renamed_memory_survives_deletion [OF acc i st del old ne, of "''user''"] file1 m0 s3
  show ?thesis by auto
qed

end
