(* ===== verification/Memory_Organizer.thy ===== *)
theory Memory_Organizer
  imports Memory_Proofs
begin

text \<open>
  pkg/memory/organizer.go: the topics of an owner as directories, and moving the files of
  memories between them.  The organizer holds the store it works on; the topic of a memory is a field
  in the store and, after organizing, the directory of its file.
\<close>

section \<open>State and paths\<close>

record organizer =
  og_cfg :: memory_config
  og_store :: memory_store
  og_closed :: bool

definition new_organizer :: "memory_config \<Rightarrow> memory_store option \<Rightarrow> organizer result" where
  "new_organizer cfg so =
     (case so of
        None \<Rightarrow> Inl (new_error ErrInvalidArgument)
      | Some s \<Rightarrow> Inr \<lparr>og_cfg = cfg, og_store = s, og_closed = False\<rparr>)"

definition topic_path_locked :: "memory_scope \<Rightarrow> string \<Rightarrow> string \<Rightarrow> organizer \<Rightarrow> string result" where
  "topic_path_locked sc owner t og =
     (case validate_topic t of
        Some e \<Rightarrow> Inl e
      | None \<Rightarrow>
          (case get_owner_path (og_cfg og) sc owner of
             Inl e \<Rightarrow> Inl e
           | Inr p \<Rightarrow> Inr (topic_path_of p t)))"

definition get_topic_path :: "memory_scope \<Rightarrow> string \<Rightarrow> string \<Rightarrow> organizer \<Rightarrow> string result" where
  "get_topic_path sc owner t og =
     (if og_closed og then Inl (new_error ErrUnavailable) else topic_path_locked sc owner t og)"

definition og_map_disk :: "(disk \<Rightarrow> disk) \<Rightarrow> organizer \<Rightarrow> organizer" where
  "og_map_disk f og = og\<lparr>og_store := map_disk f (og_store og)\<rparr>"

abbreviation og_disk :: "organizer \<Rightarrow> disk" where
  "og_disk og \<equiv> ms_disk (og_store og)"

section \<open>Topics\<close>

definition create_topic_dir ::
    "go_error option \<Rightarrow> memory_scope \<Rightarrow> string \<Rightarrow> string \<Rightarrow> organizer \<Rightarrow> go_error option \<times> organizer" where
  "create_topic_dir fault sc owner t og =
     (if og_closed og then (Some (new_error ErrUnavailable), og)
      else
        (case get_topic_path sc owner t og of
           Inl e \<Rightarrow> (Some e, og)
         | Inr p \<Rightarrow>
             (case fault of
                Some e \<Rightarrow> (Some (wrap_error ErrInternal e), og)
              | None \<Rightarrow> (None, og_map_disk (disk_mkdir_all p) og))))"

definition list_topics ::
    "go_error option \<Rightarrow> go_error option \<Rightarrow> memory_scope \<Rightarrow> string \<Rightarrow> organizer \<Rightarrow> string list result" where
  "list_topics fault1 fault2 sc owner og =
     (if og_closed og then Inl (new_error ErrUnavailable)
      else
        (case get_owner_path (og_cfg og) sc owner of
           Inl e \<Rightarrow> Inl e
         | Inr p \<Rightarrow>
             (case owner_dir_exists (og_cfg og) fault1 sc owner (og_disk og) of
                Inl e \<Rightarrow> Inl e
              | Inr False \<Rightarrow> Inr []
              | Inr True \<Rightarrow> dirs_in fault2 p (og_disk og))))"

definition owner_topic_filter :: "memory_scope \<Rightarrow> string \<Rightarrow> string \<Rightarrow> memory_filter" where
  "owner_topic_filter sc owner t = \<lparr>mf_scope = Some sc, mf_owner = Some owner, mf_type = None, mf_topic = Some t, mf_label = [],
     mf_tags = [], mf_start = None, mf_end = None, mf_min_importance = None, mf_verified = None\<rparr>"

definition memories_by_topic ::
    "timestamp \<Rightarrow> memory_scope \<Rightarrow> string \<Rightarrow> string \<Rightarrow> organizer \<Rightarrow> memory list result" where
  "memories_by_topic now sc owner t og =
     (if og_closed og then Inl (new_error ErrUnavailable)
      else
        (case validate_topic t of
           Some e \<Rightarrow> Inl e
         | None \<Rightarrow> list_memories now (Some (owner_topic_filter sc owner t)) (og_store og)))"

definition rename_topic ::
    "go_error option \<Rightarrow> memory_scope \<Rightarrow> string \<Rightarrow> string \<Rightarrow> string \<Rightarrow> organizer \<Rightarrow> go_error option \<times> organizer" where
  "rename_topic fault sc owner old nw og =
     (if og_closed og then (Some (new_error ErrUnavailable), og)
      else if validate_topic old \<noteq> None then (validate_topic old, og)
      else if validate_topic nw \<noteq> None then (validate_topic nw, og)
      else
        (case topic_path_locked sc owner old og of
           Inl e \<Rightarrow> (Some e, og)
         | Inr p \<Rightarrow>
             (case topic_path_locked sc owner nw og of
                Inl e \<Rightarrow> (Some e, og)
              | Inr q \<Rightarrow>
                  if \<not> disk_exists p (og_disk og) then (Some (new_error ErrNotFound), og)
                  else if disk_exists q (og_disk og) then (Some (new_error ErrAlreadyExists), og)
                  else (case fault of
                          Some e \<Rightarrow> (Some (wrap_error ErrInternal e), og)
                        | None \<Rightarrow> (None, og_map_disk (disk_rename_dir p q) og)))))"

definition delete_topic ::
    "go_error option \<Rightarrow> memory_scope \<Rightarrow> string \<Rightarrow> string \<Rightarrow> organizer \<Rightarrow> go_error option \<times> organizer" where
  "delete_topic fault sc owner t og =
     (if og_closed og then (Some (new_error ErrUnavailable), og)
      else if validate_topic t \<noteq> None then (validate_topic t, og)
      else
        (case topic_path_locked sc owner t og of
           Inl e \<Rightarrow> (Some e, og)
         | Inr p \<Rightarrow>
             if \<not> disk_exists p (og_disk og) then (Some (new_error ErrNotFound), og)
             else (case fault of
                     Some e \<Rightarrow> (Some (wrap_error ErrInternal e), og)
                   | None \<Rightarrow> (None, og_map_disk (disk_remove_all p) og))))"

definition topic_of :: "memory \<Rightarrow> string" where
  "topic_of m = (if me_topic m = '''' then ''general'' else me_topic m)"

definition get_topic_stats :: "timestamp \<Rightarrow> memory_scope \<Rightarrow> string \<Rightarrow> organizer \<Rightarrow> (string, int) gomap result" where
  "get_topic_stats now sc owner og =
     (if og_closed og then Inl (new_error ErrUnavailable)
      else
        (case get_by_owner now sc owner (og_store og) of
           Inl e \<Rightarrow> Inl e
         | Inr ms \<Rightarrow> Inr (fold (\<lambda>m. bump (topic_of m)) ms [])))"

text \<open>Each memory of the source topic is stored with the other topic; those that fail are skipped.\<close>

fun merge_each ::
    "memory_codec \<Rightarrow> (id \<Rightarrow> save_faults) \<Rightarrow> timestamp \<Rightarrow> string \<Rightarrow> memory list \<Rightarrow> memory_store \<Rightarrow> int \<times> memory_store" where
  "merge_each cd faults now t [] s = (0, s)"
| "merge_each cd faults now t (m # ms) s =
     (case store_memory cd (faults (me_id m)) '''' now (m\<lparr>me_topic := t\<rparr>) s of
        (e, m1, s1) \<Rightarrow>
          (case merge_each cd faults now t ms s1 of
             (n, s2) \<Rightarrow> ((if e = None then n + 1 else n), s2)))"

definition merge_topic ::
    "memory_codec \<Rightarrow> (id \<Rightarrow> save_faults) \<Rightarrow> timestamp \<Rightarrow> memory_scope \<Rightarrow> string \<Rightarrow> string \<Rightarrow> string \<Rightarrow> organizer
      \<Rightarrow> int result \<times> organizer" where
  "merge_topic cd faults now sc owner src dst og =
     (if og_closed og then (Inl (new_error ErrUnavailable), og)
      else if validate_topic src \<noteq> None then (Inl (the (validate_topic src)), og)
      else if validate_topic dst \<noteq> None then (Inl (the (validate_topic dst)), og)
      else
        (case list_memories now (Some (owner_topic_filter sc owner src)) (og_store og) of
           Inl e \<Rightarrow> (Inl e, og)
         | Inr ms \<Rightarrow>
             (case merge_each cd faults now dst ms (og_store og) of
                (n, s) \<Rightarrow> (Inr n, og\<lparr>og_store := s\<rparr>))))"

section \<open>Moving files\<close>

record move_faults =
  mv_mkdir :: "go_error option"
  mv_rename :: "go_error option"
  mv_read :: "go_error option"
  mv_write :: "go_error option"
  mv_remove :: "go_error option"

definition copy_and_delete :: "move_faults \<Rightarrow> string \<Rightarrow> string \<Rightarrow> disk \<Rightarrow> go_error option \<times> disk" where
  "copy_and_delete f src dst d =
     (case (mv_read f, mget (dk_files d) src) of
        (Some e, _) \<Rightarrow> (Some e, d)
      | (None, None) \<Rightarrow> (Some (PlainErr ''no such file''), d)
      | (None, Some s) \<Rightarrow>
          (case mv_write f of
             Some e \<Rightarrow> (Some e, d)
           | None \<Rightarrow>
               let d1 = disk_write dst s d
               in (case mv_remove f of Some e \<Rightarrow> (Some e, d1) | None \<Rightarrow> (None, disk_remove src d1))))"

definition move_file :: "move_faults \<Rightarrow> string \<Rightarrow> string \<Rightarrow> disk \<Rightarrow> go_error option \<times> disk" where
  "move_file f src dst d =
     (case mv_rename f of None \<Rightarrow> (None, disk_rename src dst d) | Some _ \<Rightarrow> copy_and_delete f src dst d)"

definition organize_memory :: "move_faults \<Rightarrow> timestamp \<Rightarrow> id \<Rightarrow> organizer \<Rightarrow> go_error option \<times> organizer" where
  "organize_memory f now i og =
     (if og_closed og then (Some (new_error ErrUnavailable), og)
      else
        (case get_memory now i (og_store og) of
           Inl e \<Rightarrow> (Some e, og)
         | Inr m \<Rightarrow>
             let src = memory_file_path m (og_store og)
             in if src = '''' then (Some (new_error ErrNotFound), og)
                else if \<not> disk_exists src (og_disk og) then (Some (new_error ErrNotFound), og)
                else
                  (case topic_path_locked (me_scope m) (me_owner m) (me_topic m) og of
                     Inl e \<Rightarrow> (Some e, og)
                   | Inr p \<Rightarrow>
                       (case mv_mkdir f of
                          Some e \<Rightarrow> (Some (wrap_error ErrInternal e), og)
                        | None \<Rightarrow>
                            let og1 = og_map_disk (disk_mkdir_all p) og;
                                dst = path_join [p, generate_filename m]
                            in if src = dst then (None, og1)
                               else (case move_file f src dst (og_disk og1) of
                                       (Some e, d) \<Rightarrow> (Some (wrap_error ErrInternal e), og_map_disk (\<lambda>_. d) og1)
                                     | (None, d) \<Rightarrow> (None, og_map_disk (\<lambda>_. d) og1))))))"

record organize_stats =
  os_scope :: memory_scope
  os_owner :: string
  os_total :: int
  os_organized :: int
  os_skipped :: int
  os_failed :: int
  os_errors :: "id list"

definition count_failed_memory :: "id \<Rightarrow> organize_stats \<Rightarrow> organize_stats" where
  "count_failed_memory i st = st\<lparr>os_failed := os_failed st + 1, os_errors := os_errors st @ [i]\<rparr>"

definition organize_one :: "move_faults \<Rightarrow> memory \<Rightarrow> organize_stats \<times> organizer \<Rightarrow> organize_stats \<times> organizer" where
  "organize_one f m so =
     (case so of (st, og) \<Rightarrow>
        let src = memory_file_path m (og_store og)
        in if src = '''' then (count_failed_memory (me_id m) st, og)
           else if \<not> disk_exists src (og_disk og) then (st\<lparr>os_skipped := os_skipped st + 1\<rparr>, og)
           else
             (case topic_path_locked (me_scope m) (me_owner m) (topic_of m) og of
                Inl e \<Rightarrow> (count_failed_memory (me_id m) st, og)
              | Inr p \<Rightarrow>
                  (case mv_mkdir f of
                     Some e \<Rightarrow> (count_failed_memory (me_id m) st, og)
                   | None \<Rightarrow>
                       let og1 = og_map_disk (disk_mkdir_all p) og;
                           dst = path_join [p, generate_filename m]
                       in if src = dst then (st\<lparr>os_skipped := os_skipped st + 1\<rparr>, og1)
                          else (case move_file f src dst (og_disk og1) of
                                  (Some e, d) \<Rightarrow> (count_failed_memory (me_id m) st, og_map_disk (\<lambda>_. d) og1)
                                | (None, d) \<Rightarrow> (st\<lparr>os_organized := os_organized st + 1\<rparr>, og_map_disk (\<lambda>_. d) og1)))))"

definition organize_all_memories ::
    "(id \<Rightarrow> move_faults) \<Rightarrow> timestamp \<Rightarrow> memory_scope \<Rightarrow> string \<Rightarrow> organizer \<Rightarrow> organize_stats result \<times> organizer" where
  "organize_all_memories faults now sc owner og =
     (if og_closed og then (Inl (new_error ErrUnavailable), og)
      else
        (case get_by_owner now sc owner (og_store og) of
           Inl e \<Rightarrow> (Inl e, og)
         | Inr ms \<Rightarrow>
             (case fold (\<lambda>m. organize_one (faults (me_id m)) m) ms
                     (\<lparr>os_scope = sc, os_owner = owner, os_total = int (length ms), os_organized = 0, os_skipped = 0,
                       os_failed = 0, os_errors = []\<rparr>, og) of
                (st, og1) \<Rightarrow> (Inr st, og1))))"

definition close_organizer :: "organizer \<Rightarrow> organizer" where
  "close_organizer og = (if og_closed og then og else og\<lparr>og_closed := True\<rparr>)"

section \<open>What organizing does\<close>

lemma og_map_disk_fields [simp]:
  "og_cfg (og_map_disk f og) = og_cfg og" "og_closed (og_map_disk f og) = og_closed og"
  "ms_memories (og_store (og_map_disk f og)) = ms_memories (og_store og)"
  "ms_cfg (og_store (og_map_disk f og)) = ms_cfg (og_store og)"
  "ms_disk (og_store (og_map_disk f og)) = f (og_disk og)"
  by (simp_all add: og_map_disk_def)

lemma move_file_files:
  assumes "move_file f src dst d = (e, d')" and "src \<noteq> dst"
  shows "(\<forall>q. q \<noteq> src \<longrightarrow> q \<noteq> dst \<longrightarrow> mget (dk_files d') q = mget (dk_files d) q)
    \<and> (mget (dk_files d) src \<noteq> None \<longrightarrow>
         (e = None \<longrightarrow> mget (dk_files d') dst = mget (dk_files d) src \<and> mget (dk_files d') src = None)
         \<and> (e \<noteq> None \<longrightarrow> mget (dk_files d') src = mget (dk_files d) src))"
  using assms
  by (auto simp: move_file_def copy_and_delete_def disk_rename_files Let_def split: option.splits) (metis option.exhaust)?

lemma organize_one_files:
  assumes "organize_one f m (st, og) = (st', og')"
  shows "ms_memories (og_store og') = ms_memories (og_store og) \<and> og_cfg og' = og_cfg og
    \<and> os_total st' = os_total st
    \<and> os_organized st' + os_skipped st' + os_failed st' = os_organized st + os_skipped st + os_failed st + 1
    \<and> int (length (os_errors st')) - os_failed st' = int (length (os_errors st)) - os_failed st"
  using assms
  by (simp add: organize_one_def count_failed_memory_def Let_def split: if_splits sum.splits option.splits prod.splits)
    (auto simp: organize_one_def count_failed_memory_def Let_def)

text \<open>
  Organizing a memory changes no memory and at most two files: the text moves to the directory of the
  topic, or stays where it was when anything fails; no other file is touched.
\<close>

lemma organizing_moves_one_file:
  assumes "organize_memory f now i og = (e, og')" and "get_memory now i (og_store og) = Inr m"
    and "src = memory_file_path m (og_store og)" and "mget (dk_files (og_disk og)) src = Some t"
  shows "ms_memories (og_store og') = ms_memories (og_store og)
    \<and> (e = None \<longrightarrow> (\<exists>p. topic_path_locked (me_scope m) (me_owner m) (me_topic m) og = Inr p
         \<and> mget (dk_files (og_disk og')) (path_join [p, generate_filename m]) = Some t
         \<and> (\<forall>q. q \<noteq> src \<longrightarrow> q \<noteq> path_join [p, generate_filename m] \<longrightarrow>
              mget (dk_files (og_disk og')) q = mget (dk_files (og_disk og)) q)))
    \<and> (e \<noteq> None \<longrightarrow> mget (dk_files (og_disk og')) src = Some t)"
proof (cases "og_closed og \<or> src = '''' \<or> \<not> disk_exists src (og_disk og)")
  case True
  then show ?thesis using assms by (auto simp: organize_memory_def Let_def split: if_splits)
next
  case live: False
  show ?thesis
  proof (cases "topic_path_locked (me_scope m) (me_owner m) (me_topic m) og")
    case (Inl x)
    then show ?thesis using assms live by (auto simp: organize_memory_def Let_def)
  next
    case (Inr p)
    let ?dst = "path_join [p, generate_filename m]"
    let ?d = "disk_mkdir_all p (og_disk og)"
    consider "mv_mkdir f \<noteq> None" | "mv_mkdir f = None" "src = ?dst" | "mv_mkdir f = None" "src \<noteq> ?dst" by blast
    then show ?thesis
    proof cases
      case 1
      then show ?thesis using assms live Inr by (auto simp: organize_memory_def Let_def)
    next
      case 2
      then have "e = None \<and> og' = og_map_disk (disk_mkdir_all p) og"
        using assms(1,2) live Inr unfolding organize_memory_def assms(3) [symmetric] by (simp add: Let_def assms(3) [symmetric])
      then show ?thesis using assms(4) Inr 2 by simp
    next
      case 3
      obtain e1 d1 where mv: "move_file f src ?dst ?d = (e1, d1)" by (rule prod.exhaust)
      then have "e = map_option (wrap_error ErrInternal) e1 \<and> og_disk og' = d1 \<and> ms_memories (og_store og') = ms_memories (og_store og)"
        using assms(1,2) live Inr 3 by (auto simp: organize_memory_def Let_def assms(3) [symmetric] split: option.splits)
      then show ?thesis using move_file_files [OF mv 3(2)] assms(4) Inr by auto
    qed
  qed
qed

definition sample_organizer :: organizer where
  "sample_organizer = \<lparr>og_cfg = sample_memory_config, og_store = first_stored, og_closed = False\<rparr>"

definition no_move_faults :: move_faults where
  "no_move_faults = \<lparr>mv_mkdir = None, mv_rename = None, mv_read = None, mv_write = None, mv_remove = None\<rparr>"

lemma organizing_moves_one_file_witness:
  "mget (dk_files (og_disk (snd (organize_memory no_move_faults 10 ''m1'' sample_organizer)))) ''/m/users/ann/go/m1__my-note.md'' \<noteq> None"
proof -
  obtain e og' where r: "organize_memory no_move_faults 10 ''m1'' sample_organizer = (e, og')" by (rule prod.exhaust)
  have "fst (organize_memory no_move_faults 10 ''m1'' sample_organizer) = None" by code_simp
  then have e: "e = None" using r by simp
  let ?m = "projr (get_memory 10 ''m1'' (og_store sample_organizer))"
  let ?t = "the (mget (dk_files (og_disk sample_organizer)) ''/m/users/ann/m1__my-note.md'')"
  have m: "get_memory 10 ''m1'' (og_store sample_organizer) = Inr ?m" by code_simp
  have src: "''/m/users/ann/m1__my-note.md'' = memory_file_path ?m (og_store sample_organizer)" by code_simp
  have t: "mget (dk_files (og_disk sample_organizer)) ''/m/users/ann/m1__my-note.md'' = Some ?t" by code_simp
  have p: "topic_path_locked (me_scope ?m) (me_owner ?m) (me_topic ?m) sample_organizer = Inr ''/m/users/ann/go''" by code_simp
  have dst: "path_join [''/m/users/ann/go'', generate_filename ?m] = ''/m/users/ann/go/m1__my-note.md''" by code_simp
  from organizing_moves_one_file [OF r m src t] e p dst show ?thesis by (auto simp: r)
qed

section \<open>What goes wrong\<close>

text \<open>
  Deleting a topic removes the files and leaves the memories in the store.  A memory without a topic
  is moved to the directory general, where its file is never looked for again.
\<close>

lemma deleted_topic_still_served:
  assumes "delete_topic fault sc owner t og = (e, og')"
  shows "get_memory now i (og_store og') = get_memory now i (og_store og)"
proof -
  have "ms_memories (og_store og') = ms_memories (og_store og) \<and> ms_closed (og_store og') = ms_closed (og_store og)"
    using assms by (auto simp: delete_topic_def og_map_disk_def split: if_splits sum.splits option.splits)
  then show ?thesis by (simp add: get_memory_def)
qed

lemma file_without_topic_not_found:
  assumes "me_topic m = ''''" and "base_path (ms_cfg s) (me_scope m) = Some b"
  shows "memory_file_path m s = path_join [b, sanitize_owner_id (me_owner m), generate_filename m]"
  using assms by (simp add: memory_file_path_def Let_def)

end
