(* ===== verification/Memory_Extractor.thy ===== *)
theory Memory_Extractor
  imports Memory_Proofs Session_State
begin

text \<open>
  pkg/memory/extractor.go: what a session or a message is searched for and what becomes a
  memory.  Go runs through a map of patterns in no fixed order and stops at the first that
  occurs; the order is an argument.
\<close>

record extraction_config =
  xf_enabled :: bool
  xf_min_confidence :: rat
  xf_max_memories :: int
  xf_topics :: "string list"
  xf_excluded :: "string list"

record extractor =
  xt_cfg :: extraction_config
  xt_store :: memory_store
  xt_closed :: bool

definition new_extractor :: "extraction_config \<Rightarrow> memory_store option \<Rightarrow> extractor result" where
  "new_extractor cfg so =
     (case so of
        None \<Rightarrow> Inl (new_error ErrInvalidArgument)
      | Some s \<Rightarrow> Inr \<lparr>xt_cfg = cfg, xt_store = s, xt_closed = False\<rparr>)"

definition default_extraction :: extraction_config where
  "default_extraction = \<lparr>xf_enabled = True, xf_min_confidence = 6/10, xf_max_memories = 10, xf_topics = [], xf_excluded = []\<rparr>"

section \<open>Candidates\<close>

definition to_title_case :: "string \<Rightarrow> string" where
  "to_title_case s = (if s = '''' then s else to_upper (take 1 s) @ drop 1 s)"

definition generate_title :: "string \<Rightarrow> string \<Rightarrow> string" where
  "generate_title s suffix =
     (let t = trim_space s in (if length t > 50 then take 47 t @ ''...'' else t) @ '' - '' @ suffix)"

definition candidate ::
    "memory_type \<Rightarrow> memory_scope \<Rightarrow> string \<Rightarrow> string \<Rightarrow> string \<Rightarrow> string \<Rightarrow> (string, string) gomap \<Rightarrow> string list \<Rightarrow> int \<Rightarrow> rat \<Rightarrow> memory" where
  "candidate ty sc owner topic title s labels tags imp conf =
     \<lparr>me_id = '''', me_scope = sc, me_owner = owner, me_type = ty, me_topic = topic, me_title = title, me_content = s,
      me_created = 0, me_updated = 0, me_accessed = None, me_expires = None,
      me_metadata = \<lparr>md_labels = labels, md_tags = tags, md_source = '''', md_source_id = None, md_importance = imp,
        md_confidence = conf, md_verified = False, md_version = 0\<rparr>\<rparr>"

type_synonym pattern_order = "(string \<times> string) list \<Rightarrow> (string \<times> string) list"

definition preference_patterns :: "(string \<times> string) list" where
  "preference_patterns = map (\<lambda>p. (p, ''preference''))
     [''i prefer'', ''i like'', ''i don'' @ [CHR 0x27] @ ''t like'', ''i always'', ''i never'', ''i usually'', ''i want'', ''i need'']"

definition decision_patterns :: "(string \<times> string) list" where
  "decision_patterns = map (\<lambda>p. (p, ''decision''))
     [''i decided'', ''we decided'', ''my decision'', ''chosen'', ''going with'', ''settled on'', ''agreed on'', ''conclusion'']"

definition fact_patterns :: "(string \<times> string) list" where
  "fact_patterns = [(''my name is'', ''identity''), (''i work at'', ''work''), (''i am a'', ''identity''), (''my email is'', ''contact''),
     (''my phone is'', ''contact''), (''located in'', ''location''), (''based in'', ''location''), (''my project is'', ''project''),
     (''working on'', ''project'')]"

definition context_patterns :: "(string \<times> string) list" where
  "context_patterns = [(''working on'', ''project''), (''building'', ''project''), (''developing'', ''project''), (''my goal'', ''goal''),
     (''trying to'', ''goal''), (''want to achieve'', ''goal'')]"

definition first_pattern :: "pattern_order \<Rightarrow> string \<Rightarrow> (string \<times> string) list \<Rightarrow> (string \<times> string) list" where
  "first_pattern ord s ps = (case find (\<lambda>(p, t). str_contains s p) (ord ps) of None \<Rightarrow> [] | Some x \<Rightarrow> [x])"

definition analyze_message :: "pattern_order \<Rightarrow> message \<Rightarrow> string \<Rightarrow> memory_scope \<Rightarrow> memory list" where
  "analyze_message ord msg owner sc =
     (let s = msg_content msg; low = to_lower s
      in if length (trim_space s) < 10 then []
         else
           map (\<lambda>(p, t). candidate ''preference'' sc owner t (generate_title s ''Preference'') s [(''pattern'', p)]
                  [''preference'', ''extracted''] 5 (65/100)) (first_pattern ord low preference_patterns)
           @ map (\<lambda>(p, t). candidate ''decision'' sc owner t (generate_title s ''Decision'') s [(''pattern'', p)]
                  [''decision'', ''extracted''] 7 (7/10)) (first_pattern ord low decision_patterns)
           @ map (\<lambda>(p, t). candidate ''fact'' sc owner t (generate_title s (to_title_case t)) s [(''pattern'', p)]
                  [''fact'', t, ''extracted''] 6 (75/100)) (first_pattern ord low fact_patterns)
           @ map (\<lambda>(p, t). candidate ''context'' sc owner t (generate_title s (to_title_case t)) s [(''pattern'', p)]
                  [''context'', t, ''extracted''] 5 (6/10)) (first_pattern ord low context_patterns))"

definition preference_candidate :: "string \<Rightarrow> string \<Rightarrow> string \<Rightarrow> string list \<Rightarrow> int \<Rightarrow> string \<Rightarrow> memory list" where
  "preference_candidate owner title text1 tags imp v =
     (if v = '''' then []
      else [candidate ''preference'' scope_user owner ''preferences'' title (text1 @ v) [(''category'', ''preferences'')] tags imp (9/10)])"

definition analyze_session :: "pattern_order \<Rightarrow> session \<Rightarrow> memory list" where
  "analyze_session ord se =
     (let owner = sd_owner_id (se_metadata se); pr = sx_preferences (se_context se); q = [CHR 0x27]
      in preference_candidate owner ''User Timezone Preference'' (''User'' @ q @ ''s timezone is '') [''timezone'', ''preferences''] 3 (up_timezone pr)
         @ preference_candidate owner ''User Language Preference'' (''User'' @ q @ ''s preferred language is '')
             [''language'', ''preferences''] 3 (up_language pr)
         @ preference_candidate owner ''User Theme Preference'' (''User'' @ q @ ''s preferred theme is '')
             [''theme'', ''ui'', ''preferences''] 2 (up_theme pr)
         @ map (\<lambda>(k, v). candidate ''context'' scope_user owner ''metadata'' (''Session Label: '' @ k)
                  (''Session has label '' @ q @ k @ q @ '' with value '' @ q @ v @ q) [(''label_key'', k)] [''metadata'', ''labels''] 2 (7/10))
             (case sd_labels (se_metadata se) of None \<Rightarrow> [] | Some l \<Rightarrow> l)
         @ concat (map (\<lambda>m. analyze_message ord m owner scope_user) (sx_messages (se_context se))))"

section \<open>Selection and storing\<close>

definition should_include_topic :: "extraction_config \<Rightarrow> string \<Rightarrow> bool" where
  "should_include_topic cfg t \<longleftrightarrow> t \<notin> set (xf_excluded cfg) \<and> (xf_topics cfg = [] \<or> t \<in> set (xf_topics cfg))"

definition filter_candidates :: "extraction_config \<Rightarrow> memory list \<Rightarrow> memory list" where
  "filter_candidates cfg ms =
     (let fs = filter (\<lambda>m. xf_min_confidence cfg \<le> md_confidence (me_metadata m) \<and> should_include_topic cfg (me_topic m)) ms
      in if xf_max_memories cfg > 0 \<and> int (length fs) > xf_max_memories cfg then take (nat (xf_max_memories cfg)) fs else fs)"

definition from_session :: "id \<Rightarrow> memory \<Rightarrow> memory" where
  "from_session sid m = m\<lparr>me_metadata := (me_metadata m)\<lparr>md_source := ''session'', md_source_id := Some sid\<rparr>\<rparr>"

text \<open>Storing one by one; those that fail are left out.  The disk and the identifiers drawn are given in turn.\<close>

fun store_candidates ::
    "memory_codec \<Rightarrow> (nat \<Rightarrow> save_faults \<times> id) \<Rightarrow> nat \<Rightarrow> timestamp \<Rightarrow> id \<Rightarrow> memory list \<Rightarrow> memory_store \<Rightarrow> memory list \<times> memory_store" where
  "store_candidates cd draw n now sid [] s = ([], s)"
| "store_candidates cd draw n now sid (m # ms) s =
     (case store_memory cd (fst (draw n)) (snd (draw n)) now (from_session sid m) s of
        (e, m1, s1) \<Rightarrow>
          (case store_candidates cd draw (Suc n) now sid ms s1 of
             (stored, s2) \<Rightarrow> ((if e = None then m1 # stored else stored), s2)))"

definition extract_from_session ::
    "memory_codec \<Rightarrow> (nat \<Rightarrow> save_faults \<times> id) \<Rightarrow> pattern_order \<Rightarrow> timestamp \<Rightarrow> session option \<Rightarrow> extractor
      \<Rightarrow> memory list result \<times> extractor" where
  "extract_from_session cd draw ord now so x =
     (if xt_closed x then (Inl (new_error ErrUnavailable), x)
      else if \<not> xf_enabled (xt_cfg x) then (Inr [], x)
      else
        (case so of
           None \<Rightarrow> (Inl (new_error ErrInvalidArgument), x)
         | Some se \<Rightarrow>
             (case store_candidates cd draw 0 now (se_id se) (filter_candidates (xt_cfg x) (analyze_session ord se)) (xt_store x) of
                (stored, s) \<Rightarrow> (Inr stored, x\<lparr>xt_store := s\<rparr>))))"

definition extract_from_message ::
    "memory_codec \<Rightarrow> (nat \<Rightarrow> save_faults \<times> id) \<Rightarrow> pattern_order \<Rightarrow> timestamp \<Rightarrow> id \<Rightarrow> message \<Rightarrow> string \<Rightarrow> memory_scope \<Rightarrow> extractor
      \<Rightarrow> memory list result \<times> extractor" where
  "extract_from_message cd draw ord now sid msg owner sc x =
     (if xt_closed x then (Inl (new_error ErrUnavailable), x)
      else if \<not> xf_enabled (xt_cfg x) then (Inr [], x)
      else
        (case store_candidates cd draw 0 now sid (filter_candidates (xt_cfg x) (analyze_message ord msg owner sc)) (xt_store x) of
           (stored, s) \<Rightarrow> (Inr stored, x\<lparr>xt_store := s\<rparr>)))"

definition close_extractor :: "extractor \<Rightarrow> extractor" where
  "close_extractor x = (if xt_closed x then x else x\<lparr>xt_closed := True\<rparr>)"

definition update_extraction_config :: "extraction_config \<Rightarrow> extractor \<Rightarrow> go_error option \<times> extractor" where
  "update_extraction_config cfg x = (if xt_closed x then (Some (new_error ErrUnavailable), x) else (None, x\<lparr>xt_cfg := cfg\<rparr>))"

section \<open>What is extracted\<close>

lemma filter_candidates_bounds:
  assumes "m \<in> set (filter_candidates cfg ms)"
  shows "m \<in> set ms \<and> xf_min_confidence cfg \<le> md_confidence (me_metadata m) \<and> should_include_topic cfg (me_topic m)"
  using assms by (auto simp: filter_candidates_def Let_def dest: in_set_takeD split: if_splits)

lemma filter_candidates_length: "0 < xf_max_memories cfg \<Longrightarrow> int (length (filter_candidates cfg ms)) \<le> xf_max_memories cfg"
  by (simp add: filter_candidates_def Let_def)

lemma analyze_session_owner:
  "m \<in> set (analyze_session ord se) \<Longrightarrow> me_owner m = sd_owner_id (se_metadata se) \<and> me_scope m = scope_user"
  by (auto simp: analyze_session_def preference_candidate_def analyze_message_def candidate_def Let_def split: if_splits)

text \<open>What storing in turn gives: stored copies of some of the candidates, at most as many, each of which the checks accept.\<close>

lemma store_candidates_result:
  assumes "store_candidates cd draw n now sid ms s = (stored, s')"
  shows "length stored \<le> length ms
    \<and> (\<forall>m1 \<in> set stored. \<exists>m \<in> set ms. \<exists>i. m1 = with_id i (from_session sid m) \<and> me_owner m \<noteq> '''')
    \<and> (memory_store_ok s \<longrightarrow> memory_store_ok s')"
  using assms
proof (induction ms arbitrary: n s stored)
  case (Cons m ms)
  obtain e m1 s1 where st: "store_memory cd (fst (draw n)) (snd (draw n)) now (from_session sid m) s = (e, m1, s1)"
    by (rule prod_cases3)
  obtain rest where rest: "store_candidates cd draw (Suc n) now sid ms s1 = (rest, s')" "stored = (if e = None then m1 # rest else rest)"
    using Cons.prems st by (auto split: prod.splits)
  have m1: "m1 = with_id (snd (draw n)) (from_session sid m) \<and> me_owner m \<noteq> ''''" if "e = None"
  proof -
    have acc: "accepts_store (from_session sid m) s"
      using store_memory_refused [of "from_session sid m" s cd "fst (draw n)" "snd (draw n)" now] st that by auto
    then show ?thesis using store_memory_accepted [OF acc, of cd "fst (draw n)" "snd (draw n)" now] st
      by (auto simp: Let_def accepts_store_def from_session_def split: prod.splits)
  qed
  have "memory_store_ok s1" if "memory_store_ok s"
    using memory_exec_ok [OF that, of cd "MStore (fst (draw n)) (snd (draw n)) now (from_session sid m)"] st by simp
  then show ?case using Cons.IH [OF rest(1)] m1 rest(2) by auto
qed simp

text \<open>
  An extraction from a session stores at most as many memories as configured; each belongs to the
  owner of the session, names the session as its source, reaches the configured confidence and has a
  topic that is wanted; and the store stays consistent.
\<close>

lemma extraction_within_limits:
  assumes "extract_from_session cd draw ord now (Some se) x = (Inr stored, x')" and "memory_store_ok (xt_store x)"
  shows "(0 < xf_max_memories (xt_cfg x) \<longrightarrow> int (length stored) \<le> xf_max_memories (xt_cfg x))
    \<and> memory_store_ok (xt_store x')
    \<and> (\<forall>m \<in> set stored. me_owner m = sd_owner_id (se_metadata se) \<and> me_owner m \<noteq> '''' \<and> me_scope m = scope_user
         \<and> md_source_id (me_metadata m) = Some (se_id se) \<and> xf_min_confidence (xt_cfg x) \<le> md_confidence (me_metadata m)
         \<and> should_include_topic (xt_cfg x) (me_topic m))"
proof (cases "xf_enabled (xt_cfg x)")
  case False
  then show ?thesis using assms by (auto simp: extract_from_session_def split: if_splits)
next
  case True
  let ?ms = "filter_candidates (xt_cfg x) (analyze_session ord se)"
  obtain s where s: "store_candidates cd draw 0 now (se_id se) ?ms (xt_store x) = (stored, s)" "x' = x\<lparr>xt_store := s\<rparr>"
    using assms(1) True by (auto simp: extract_from_session_def split: if_splits prod.splits)
  note res = store_candidates_result [OF s(1)]
  have "\<forall>m1 \<in> set stored. me_owner m1 = sd_owner_id (se_metadata se) \<and> me_owner m1 \<noteq> '''' \<and> me_scope m1 = scope_user
      \<and> md_source_id (me_metadata m1) = Some (se_id se) \<and> xf_min_confidence (xt_cfg x) \<le> md_confidence (me_metadata m1)
      \<and> should_include_topic (xt_cfg x) (me_topic m1)"
  proof
    fix m1 assume in1: "m1 \<in> set stored"
    from res in1 obtain m i where m: "m \<in> set ?ms" "m1 = with_id i (from_session (se_id se) m)" "me_owner m \<noteq> ''''" by blast
    from filter_candidates_bounds [OF m(1)] analyze_session_owner [of m ord se]
    show "me_owner m1 = sd_owner_id (se_metadata se) \<and> me_owner m1 \<noteq> '''' \<and> me_scope m1 = scope_user
        \<and> md_source_id (me_metadata m1) = Some (se_id se) \<and> xf_min_confidence (xt_cfg x) \<le> md_confidence (me_metadata m1)
        \<and> should_include_topic (xt_cfg x) (me_topic m1)"
      using m by (auto simp: with_id_def from_session_def)
  qed
  moreover have "0 < xf_max_memories (xt_cfg x) \<longrightarrow> int (length stored) \<le> xf_max_memories (xt_cfg x)"
    using res filter_candidates_length [of "xt_cfg x" "analyze_session ord se"] by linarith
  moreover have "memory_store_ok (xt_store x')" using res assms(2) s(2) by simp
  ultimately show ?thesis by (intro conjI)
qed

definition sample_archived :: session where
  "sample_archived = \<lparr>se_id = ''s1'', se_state = StClosed, se_status = StatusStopped, se_created = 1, se_updated = 2,
     se_expires = None, se_closed_at = Some 2, se_metadata = zero_metadata\<lparr>sd_owner_id := ''ann''\<rparr>,
     se_context = zero_context\<lparr>sx_preferences := \<lparr>up_timezone = ''UTC'', up_language = ''de'', up_theme = '''', up_notifications = False\<rparr>,
       sx_messages := []\<rparr>, se_containers = []\<rparr>"

definition sample_extractor :: extractor where
  "sample_extractor = \<lparr>xt_cfg = default_extraction\<lparr>xf_max_memories := 1\<rparr>, xt_store = sample_empty_store, xt_closed = False\<rparr>"

lemma extraction_within_limits_witness:
  "map (\<lambda>m. (me_title m, me_owner m)) (projr (fst (extract_from_session lenient_codec (\<lambda>n. (no_faults, ''g'')) (\<lambda>ps. ps) 9 (Some sample_archived) sample_extractor)))
     = [(''User Timezone Preference'', ''ann'')]
   \<and> int (length (projr (fst (extract_from_session lenient_codec (\<lambda>n. (no_faults, ''g'')) (\<lambda>ps. ps) 9 (Some sample_archived) sample_extractor)))) \<le> 1"
proof -
  let ?r = "extract_from_session lenient_codec (\<lambda>n. (no_faults, ''g'')) (\<lambda>ps. ps) 9 (Some sample_archived) sample_extractor"
  have titles: "map (\<lambda>m. (me_title m, me_owner m)) (projr (fst ?r)) = [(''User Timezone Preference'', ''ann'')]" by code_simp
  have "\<not> isl (fst ?r)" by code_simp
  then have r: "?r = (Inr (projr (fst ?r)), snd ?r)" by (simp add: prod_eq_iff)
  have ok: "memory_store_ok (xt_store sample_extractor)"
    by (simp add: sample_extractor_def sample_empty_store_def sample_memory_store_def memory_store_ok_def)
  have lim: "xf_max_memories (xt_cfg sample_extractor) = 1" by (simp add: sample_extractor_def)
  from extraction_within_limits [OF r ok] have "int (length (projr (fst ?r))) \<le> 1" unfolding lim by simp
  with titles show ?thesis ..
qed

end
