(* ===== verification/Memory_Handler.thy ===== *)
theory Memory_Handler
  imports Memory_Extractor
begin

text \<open>
  pkg/memory/handler.go: the handler that extracts memories when a session is archived.  The
  session comes in the data of the event, as a session or as decoded JSON, of which every field of
  the wrong type is passed over.  The text of states, statuses and roles is read by parameters that
  stand for the conversions of Go between a string and a string type.
\<close>

definition jfield :: "json \<Rightarrow> string \<Rightarrow> json option" where
  "jfield j k = (case j of JMap m \<Rightarrow> mget m k | _ \<Rightarrow> None)"

definition jstring :: "json \<Rightarrow> string \<Rightarrow> string option" where
  "jstring j k = (case jfield j k of Some (JString s) \<Rightarrow> Some s | _ \<Rightarrow> None)"

definition jbool :: "json \<Rightarrow> string \<Rightarrow> bool option" where
  "jbool j k = (case jfield j k of Some (JBool b) \<Rightarrow> Some b | _ \<Rightarrow> None)"

definition jlist :: "json \<Rightarrow> string \<Rightarrow> json list option" where
  "jlist j k = (case jfield j k of Some (JList l) \<Rightarrow> Some l | _ \<Rightarrow> None)"

definition jmap :: "json \<Rightarrow> string \<Rightarrow> json option" where
  "jmap j k = (case jfield j k of Some (JMap m) \<Rightarrow> Some (JMap m) | _ \<Rightarrow> None)"

definition text_or :: "string \<Rightarrow> string option \<Rightarrow> string" where
  "text_or d v = (case v of None \<Rightarrow> d | Some s \<Rightarrow> s)"

record text_readers =
  rd_state :: "string \<Rightarrow> session_state"
  rd_status :: "string \<Rightarrow> status"
  rd_role :: "string \<Rightarrow> message_role"
  rd_time :: "string \<Rightarrow> timestamp result"

definition read_time :: "text_readers \<Rightarrow> json \<Rightarrow> string \<Rightarrow> timestamp" where
  "read_time rd j k =
     (case jstring j k of None \<Rightarrow> 0 | Some s \<Rightarrow> (case rd_time rd s of Inl e \<Rightarrow> 0 | Inr t \<Rightarrow> t))"

fun strings_of :: "json list \<Rightarrow> string list" where
  "strings_of [] = []"
| "strings_of (JString s # js) = s # strings_of js"
| "strings_of (j # js) = strings_of js"

fun string_entries :: "(string \<times> json) list \<Rightarrow> (string, string) gomap" where
  "string_entries [] = []"
| "string_entries ((k, JString s) # m) = (k, s) # string_entries m"
| "string_entries ((k, j) # m) = string_entries m"

definition extract_metadata :: "json \<Rightarrow> session_metadata" where
  "extract_metadata j =
     \<lparr>sd_name = text_or '''' (jstring j ''name''), sd_description = text_or '''' (jstring j ''description''),
      sd_labels = (case jfield j ''labels'' of Some (JMap m) \<Rightarrow> Some (string_entries m) | _ \<Rightarrow> None),
      sd_owner_id = text_or '''' (jstring j ''owner_id''),
      sd_tags = (case jlist j ''tags'' of None \<Rightarrow> [] | Some l \<Rightarrow> strings_of l)\<rparr>"

definition extract_preferences :: "json \<Rightarrow> user_preferences" where
  "extract_preferences j =
     \<lparr>up_timezone = text_or '''' (jstring j ''timezone''), up_language = text_or '''' (jstring j ''language''),
      up_theme = text_or '''' (jstring j ''theme''),
      up_notifications = (case jbool j ''notifications'' of None \<Rightarrow> False | Some b \<Rightarrow> b)\<rparr>"

definition extract_message :: "text_readers \<Rightarrow> json \<Rightarrow> message" where
  "extract_message rd j =
     \<lparr>msg_id = text_or '''' (jstring j ''id''), msg_timestamp = read_time rd j ''timestamp'',
      msg_role = (case jstring j ''role'' of None \<Rightarrow> RoleOther '''' | Some s \<Rightarrow> rd_role rd s),
      msg_content = text_or '''' (jstring j ''content''), msg_metadata = zero_message_metadata\<rparr>"

fun extract_messages :: "text_readers \<Rightarrow> json list \<Rightarrow> message list" where
  "extract_messages rd [] = []"
| "extract_messages rd (JMap m # js) = extract_message rd (JMap m) # extract_messages rd js"
| "extract_messages rd (j # js) = extract_messages rd js"

definition extract_context :: "text_readers \<Rightarrow> json \<Rightarrow> session_context" where
  "extract_context rd j =
     zero_context
       \<lparr>sx_messages := (case jlist j ''messages'' of None \<Rightarrow> [] | Some l \<Rightarrow> extract_messages rd l),
        sx_preferences := (case jmap j ''preferences'' of None \<Rightarrow> sx_preferences zero_context | Some p \<Rightarrow> extract_preferences p)\<rparr>"

definition session_from_map :: "text_readers \<Rightarrow> json \<Rightarrow> session" where
  "session_from_map rd j =
     \<lparr>se_id = text_or '''' (jstring j ''id''),
      se_state = (case jstring j ''state'' of None \<Rightarrow> StOther '''' | Some s \<Rightarrow> rd_state rd s),
      se_status = (case jstring j ''status'' of None \<Rightarrow> StatusUnknown | Some s \<Rightarrow> rd_status rd s),
      se_created = read_time rd j ''created_at'', se_updated = read_time rd j ''updated_at'',
      se_expires = None, se_closed_at = None,
      se_metadata = (case jmap j ''metadata'' of None \<Rightarrow> zero_metadata | Some m \<Rightarrow> extract_metadata m),
      se_context = (case jmap j ''context'' of None \<Rightarrow> zero_context | Some m \<Rightarrow> extract_context rd m),
      se_containers = []\<rparr>"

section \<open>The handler\<close>

datatype session_data = SessionValue session | SessionPointer "session option" | SessionMap json | SessionOther

record archival_handler =
  ah_extractor :: extractor
  ah_timeout :: duration
  ah_closed :: bool

definition new_archival_handler :: "extractor option \<Rightarrow> memory_store option \<Rightarrow> archival_handler result" where
  "new_archival_handler xo so =
     (case xo of
        None \<Rightarrow> Inl (new_error ErrInvalid)
      | Some x \<Rightarrow>
          (case so of
             None \<Rightarrow> Inl (new_error ErrInvalid)
           | Some s \<Rightarrow> Inr \<lparr>ah_extractor = x, ah_timeout = 30000000000, ah_closed = False\<rparr>))"

definition new_archival_handler_with_timeout ::
    "extractor option \<Rightarrow> memory_store option \<Rightarrow> duration \<Rightarrow> archival_handler result" where
  "new_archival_handler_with_timeout xo so t =
     (case new_archival_handler xo so of
        Inl e \<Rightarrow> Inl e
      | Inr h \<Rightarrow> Inr (if t > 0 then h\<lparr>ah_timeout := t\<rparr> else h))"

definition extract_session_from_event :: "text_readers \<Rightarrow> session_data option \<Rightarrow> session option result" where
  "extract_session_from_event rd d =
     (case d of
        None \<Rightarrow> Inr None
      | Some (SessionPointer so) \<Rightarrow> Inr so
      | Some (SessionValue se) \<Rightarrow> Inr (Some se)
      | Some (SessionMap j) \<Rightarrow> Inr (Some (session_from_map rd j))
      | Some SessionOther \<Rightarrow> Inl (new_error ErrInvalid))"

text \<open>The deadline of the context is passed on, and nothing below reads it.\<close>

definition archival_handle ::
    "text_readers \<Rightarrow> memory_codec \<Rightarrow> (nat \<Rightarrow> save_faults \<times> id) \<Rightarrow> pattern_order \<Rightarrow> timestamp \<Rightarrow> string \<Rightarrow> session_data option
      \<Rightarrow> archival_handler \<Rightarrow> go_error option \<times> archival_handler" where
  "archival_handle rd cd draw ord now ty d h =
     (if ah_closed h then (Some (new_error ErrUnavailable), h)
      else if ty \<noteq> ''session.archived'' then (Some (new_error ErrInvalid), h)
      else
        (case extract_session_from_event rd d of
           Inl e \<Rightarrow> (Some (wrap_error ErrInvalid e), h)
         | Inr None \<Rightarrow> (None, h)
         | Inr (Some se) \<Rightarrow>
             (case extract_from_session cd draw ord now (Some se) (ah_extractor h) of
                (Inl e, x) \<Rightarrow> (Some (wrap_error ErrInternal e), h\<lparr>ah_extractor := x\<rparr>)
              | (Inr ms, x) \<Rightarrow> (None, h\<lparr>ah_extractor := x\<rparr>))))"

definition archival_can_handle :: "string \<Rightarrow> bool" where
  "archival_can_handle ty \<longleftrightarrow> ty = ''session.archived''"

definition archival_close :: "archival_handler \<Rightarrow> archival_handler" where
  "archival_close h = (if ah_closed h then h else h\<lparr>ah_closed := True\<rparr>)"

definition archival_set_timeout :: "duration \<Rightarrow> archival_handler \<Rightarrow> go_error option \<times> archival_handler" where
  "archival_set_timeout t h = (if t \<le> 0 then (Some (new_error ErrInvalid), h) else (None, h\<lparr>ah_timeout := t\<rparr>))"

section \<open>The handler keeps the store consistent\<close>

lemma extract_from_session_ok:
  assumes "extract_from_session cd draw ord now so x = (r, x')" and "memory_store_ok (xt_store x)"
  shows "memory_store_ok (xt_store x')"
  using assms store_candidates_result
  by (auto simp: extract_from_session_def split: if_splits option.splits prod.splits)

lemma archival_handle_ok:
  assumes "archival_handle rd cd draw ord now ty d h = (e, h')" and "memory_store_ok (xt_store (ah_extractor h))"
  shows "memory_store_ok (xt_store (ah_extractor h'))"
  using assms extract_from_session_ok
  by (auto simp: archival_handle_def split: if_splits sum.splits option.splits prod.splits)

end
