(* ===== verification/Skill_Types.thy ===== *)
theory Skill_Types
  imports Memory_Markdown
begin

text \<open>
  pkg/types/skill.go and pkg/skills/parser.go: skills and their files, a markdown text with
  JSON in front like that of a memory.  The enumerations of skill.go are strings in the code
  and may hold any, so they are strings here.  A list or map that is nil is the empty one.
\<close>

section \<open>Data\<close>

record skill_capability =
  sk_cap_type :: string
  sk_cap_name :: string
  sk_cap_description :: string
  sk_cap_config :: "(string \<times> json) list"

record skill_metadata =
  kd_labels :: "(string, string) gomap"
  kd_tags :: "string list"
  kd_category :: string
  kd_keywords :: "string list"
  kd_required_apis :: "string list"
  kd_dependencies :: "string list"
  kd_load_count :: int
  kd_last_used :: "timestamp option"
  kd_error_count :: int
  kd_last_error :: string
  kd_verified :: bool

record skill =
  kl_id :: id
  kl_scope :: string
  kl_owner :: string
  kl_state :: string
  kl_source :: string
  kl_name :: string
  kl_display :: string
  kl_description :: string
  kl_version :: string
  kl_author :: string
  kl_agents :: "string list"
  kl_capabilities :: "skill_capability list"
  kl_file :: string
  kl_repository :: string
  kl_content :: string
  kl_created :: timestamp
  kl_updated :: timestamp
  kl_activated :: "timestamp option"
  kl_metadata :: skill_metadata

record skill_filter =
  kf_scope :: "string option"
  kf_owner :: "string option"
  kf_state :: "string option"
  kf_source :: "string option"
  kf_agent :: "string option"
  kf_category :: "string option"
  kf_label :: "(string, string) gomap"
  kf_tags :: "string list"
  kf_min_load :: "int option"
  kf_verified :: "bool option"
  kf_start :: "timestamp option"
  kf_end :: "timestamp option"

record skill_stats =
  kt_scope :: string
  kt_owner :: string
  kt_total :: int
  kt_states :: "(string, int) gomap"
  kt_sources :: "(string, int) gomap"
  kt_categories :: "(string, int) gomap"
  kt_last_updated :: timestamp
  kt_timestamp :: timestamp

record skill_load_config =
  kc_load_enabled :: bool
  kc_paths :: "string list"
  kc_recursive :: bool
  kc_watch :: bool
  kc_max_errors :: int
  kc_excluded :: "string list"
  kc_required :: "string list"

record skill_config =
  kc_enabled :: bool
  kc_storage_path :: string
  kc_max_per_owner :: int
  kc_auto_load :: bool
  kc_load :: skill_load_config

definition skill_loaded :: string where "skill_loaded = ''loaded''"
definition skill_unloaded :: string where "skill_unloaded = ''unloaded''"

text \<open>\<open>DefaultSkillConfig\<close>; the argument is the configuration directory of the user, if there is one.\<close>

definition default_skill_config :: "string option \<Rightarrow> skill_config" where
  "default_skill_config dir =
     (let p = (case dir of None \<Rightarrow> ''/var/lib/baaaht/skills'' | Some d \<Rightarrow> path_join [d, ''baaaht'', ''skills''])
      in \<lparr>kc_enabled = True, kc_storage_path = p, kc_max_per_owner = 100, kc_auto_load = True,
          kc_load = \<lparr>kc_load_enabled = True, kc_paths = [p], kc_recursive = True, kc_watch = False, kc_max_errors = 10,
            kc_excluded = [], kc_required = []\<rparr>\<rparr>)"

section \<open>Front matter\<close>

record skill_front =
  kq_id :: string
  kq_front_scope :: string
  kq_owner :: string
  kq_name :: string
  kq_display :: string
  kq_description :: string
  kq_version :: string
  kq_author :: string
  kq_front_state :: string
  kq_source :: string
  kq_agents :: "string list"
  kq_capabilities :: "skill_capability list"
  kq_file :: string
  kq_repository :: string
  kq_created :: string
  kq_updated :: string
  kq_activated :: string
  kq_labels :: "(string, string) gomap"
  kq_tags :: "string list"
  kq_category :: string
  kq_keywords :: "string list"
  kq_required_apis :: "string list"
  kq_dependencies :: "string list"
  kq_verified :: bool

record skill_codec =
  sk_marshal :: "skill_front \<Rightarrow> string result"
  sk_unmarshal :: "string \<Rightarrow> skill_front result"
  sk_format :: "timestamp \<Rightarrow> string"
  sk_parse :: "string \<Rightarrow> timestamp result"

definition skill_front_of :: "skill_codec \<Rightarrow> skill \<Rightarrow> skill_front" where
  "skill_front_of cd k =
     (let md = kl_metadata k
      in \<lparr>kq_id = kl_id k, kq_front_scope = kl_scope k, kq_owner = kl_owner k, kq_name = kl_name k, kq_display = kl_display k,
          kq_description = kl_description k, kq_version = kl_version k, kq_author = kl_author k, kq_front_state = kl_state k,
          kq_source = kl_source k, kq_agents = kl_agents k, kq_capabilities = kl_capabilities k, kq_file = kl_file k,
          kq_repository = kl_repository k, kq_created = sk_format cd (kl_created k), kq_updated = sk_format cd (kl_updated k),
          kq_activated = (case kl_activated k of None \<Rightarrow> '''' | Some t \<Rightarrow> sk_format cd t),
          kq_labels = kd_labels md, kq_tags = kd_tags md, kq_category = kd_category md, kq_keywords = kd_keywords md,
          kq_required_apis = kd_required_apis md, kq_dependencies = kd_dependencies md, kq_verified = kd_verified md\<rparr>)"

definition skill_details :: "skill \<Rightarrow> string" where
  "skill_details k = (if kl_content k \<noteq> '''' \<and> kl_content k \<noteq> kl_description k then kl_content k else '''')"

definition serialize_skill :: "skill_codec \<Rightarrow> skill \<Rightarrow> string result" where
  "serialize_skill cd k =
     (case sk_marshal cd (skill_front_of cd k) of
        Inl e \<Rightarrow> Inl (wrap_error ErrInternal e)
      | Inr j \<Rightarrow>
          Inr (fence @ ''json'' @ [newline] @ j @ [newline] @ fence @ [newline, newline]
               @ ''# '' @ kl_display k @ [newline, newline] @ kl_description k @ [newline, newline] @ skill_details k))"

section \<open>Reading\<close>

definition skill_body :: "string \<Rightarrow> string" where
  "skill_body s =
     (case find_title (split_on newline s) of
        None \<Rightarrow> trim_left (trim_right s)
      | Some (t, ls) \<Rightarrow> trim_left (trim_right (join_with [newline] ls)))"

definition or_default :: "string \<Rightarrow> string \<Rightarrow> string" where
  "or_default s d = (if s = '''' then d else s)"

definition parse_or_now :: "skill_codec \<Rightarrow> timestamp \<Rightarrow> string \<Rightarrow> timestamp result" where
  "parse_or_now cd now s =
     (if s = '''' then Inr now
      else (case sk_parse cd s of Inl e \<Rightarrow> Inl (wrap_error ErrInternal e) | Inr t \<Rightarrow> Inr t))"

definition parse_activated :: "skill_codec \<Rightarrow> string \<Rightarrow> timestamp option result" where
  "parse_activated cd s =
     (if s = '''' then Inr None
      else (case sk_parse cd s of Inl e \<Rightarrow> Inl (wrap_error ErrInternal e) | Inr t \<Rightarrow> Inr (Some t)))"

definition skill_of_front ::
    "skill_front \<Rightarrow> timestamp \<Rightarrow> timestamp \<Rightarrow> timestamp option \<Rightarrow> string \<Rightarrow> string \<Rightarrow> string \<Rightarrow> string \<Rightarrow> skill" where
  "skill_of_front f created updated activated s sc owner path =
     \<lparr>kl_id = (if kq_id f \<noteq> '''' then kq_id f else sc @ ''-'' @ owner @ ''-'' @ kq_name f),
      kl_scope = sc, kl_owner = owner, kl_state = or_default (kq_front_state f) ''unknown'',
      kl_source = or_default (kq_source f) ''filesystem'', kl_name = kq_name f, kl_display = kq_display f,
      kl_description = kq_description f, kl_version = or_default (kq_version f) ''1.0.0'', kl_author = kq_author f,
      kl_agents = (if kq_agents f = [] then [''all''] else kq_agents f), kl_capabilities = kq_capabilities f,
      kl_file = path, kl_repository = kq_repository f, kl_content = skill_body s,
      kl_created = created, kl_updated = updated, kl_activated = activated,
      kl_metadata = \<lparr>kd_labels = kq_labels f, kd_tags = kq_tags f, kd_category = kq_category f, kd_keywords = kq_keywords f,
        kd_required_apis = kq_required_apis f, kd_dependencies = kq_dependencies f, kd_load_count = 0, kd_last_used = None,
        kd_error_count = 0, kd_last_error = '''', kd_verified = kq_verified f\<rparr>\<rparr>"

definition read_skill_front ::
    "skill_codec \<Rightarrow> timestamp \<Rightarrow> skill_front \<Rightarrow> string \<Rightarrow> string \<Rightarrow> string \<Rightarrow> string \<Rightarrow> skill result" where
  "read_skill_front cd now f s sc owner path =
     (if kq_name f = '''' \<or> kq_display f = '''' \<or> kq_description f = '''' then Inl (new_error ErrInternal)
      else
        (case parse_or_now cd now (kq_created f) of
           Inl e \<Rightarrow> Inl e
         | Inr created \<Rightarrow>
             (case parse_or_now cd now (kq_updated f) of
                Inl e \<Rightarrow> Inl e
              | Inr updated \<Rightarrow>
                  (case parse_activated cd (kq_activated f) of
                     Inl e \<Rightarrow> Inl e
                   | Inr activated \<Rightarrow> Inr (skill_of_front f created updated activated s sc owner path)))))"

text \<open>As for a memory, the slice up to a closing mark that overlaps the opening one panics.\<close>

definition parse_skill ::
    "skill_codec \<Rightarrow> timestamp \<Rightarrow> string \<Rightarrow> string \<Rightarrow> string \<Rightarrow> string \<Rightarrow> skill result option" where
  "parse_skill cd now data sc owner path =
     (if data = '''' then Some (Inl (new_error ErrInvalidArgument))
      else
        let s = trim_left data
        in if has_prefix s (fence @ ''json'' @ [newline])
           then (case str_index s ([newline] @ fence @ [newline]) of
                   None \<Rightarrow> Some (Inl (new_error ErrInternal))
                 | Some k \<Rightarrow>
                     if k < 8 then None
                     else (case sk_unmarshal cd (take (k - 8) (drop 8 s)) of
                             Inl e \<Rightarrow> Some (Inl (wrap_error ErrInternal e))
                           | Inr f \<Rightarrow> Some (read_skill_front cd now f (drop (k + 5) s) sc owner path)))
           else Some (Inl (new_error ErrInternal)))"

section \<open>Writing and reading again\<close>

definition skill_codec_ok :: "skill_codec \<Rightarrow> bool" where
  "skill_codec_ok cd \<longleftrightarrow>
     (\<forall>f j. sk_marshal cd f = Inr j \<longrightarrow> sk_unmarshal cd j = Inr f \<and> fence \<notin> set (split_on newline j))
     \<and> (\<forall>t. sk_format cd t \<noteq> [] \<and> sk_parse cd (sk_format cd t) = Inr (whole_second t))"

text \<open>What the file of a skill reads back as; the description, written before the text, becomes part of the text.\<close>

definition reloaded_skill :: "string \<Rightarrow> string \<Rightarrow> string \<Rightarrow> skill \<Rightarrow> skill" where
  "reloaded_skill sc owner path k =
     k\<lparr>kl_id := (if kl_id k \<noteq> [] then kl_id k else sc @ ''-'' @ owner @ ''-'' @ kl_name k),
       kl_scope := sc, kl_owner := owner, kl_state := or_default (kl_state k) ''unknown'',
       kl_source := or_default (kl_source k) ''filesystem'', kl_version := or_default (kl_version k) ''1.0.0'',
       kl_agents := (if kl_agents k = [] then [''all''] else kl_agents k), kl_file := path,
       kl_content := trim_left (trim_right (kl_description k @ [newline, newline] @ skill_details k)),
       kl_created := whole_second (kl_created k), kl_updated := whole_second (kl_updated k),
       kl_activated := map_option whole_second (kl_activated k),
       kl_metadata := (kl_metadata k)\<lparr>kd_load_count := 0, kd_last_used := None, kd_error_count := 0, kd_last_error := []\<rparr>\<rparr>"

lemma skill_body_title: "skill_body s = snd (title_and_body s)"
  by (simp add: skill_body_def title_and_body_def split: option.split)

lemma read_skill_front_of:
  assumes "skill_codec_ok cd" and "kl_name k \<noteq> []" and "kl_display k \<noteq> []" and "kl_description k \<noteq> []"
    and "skill_body s = trim_left (trim_right (kl_description k @ [newline, newline] @ skill_details k))"
  shows "read_skill_front cd now (skill_front_of cd k) s sc owner path = Inr (reloaded_skill sc owner path k)"
proof -
  have f: "sk_format cd t \<noteq> []" "sk_parse cd (sk_format cd t) = Inr (whole_second t)" for t
    using assms(1) by (auto simp: skill_codec_ok_def)
  show ?thesis
    using assms(2-5) f
    by (simp add: read_skill_front_def skill_front_of_def skill_of_front_def reloaded_skill_def parse_or_now_def
        parse_activated_def Let_def split: option.split)
qed

lemma parse_serialized_skill:
  assumes "skill_codec_ok cd" and "serialize_skill cd k = Inr s"
    and "kl_name k \<noteq> []" and "kl_display k \<noteq> []" and "kl_description k \<noteq> []" and "newline \<notin> set (kl_display k)"
  shows "parse_skill cd now s sc owner path = Some (Inr (reloaded_skill sc owner path k))"
proof -
  obtain j where j: "sk_marshal cd (skill_front_of cd k) = Inr j"
    and s: "s = fence @ ''json'' @ [newline] @ j @ [newline] @ fence @ [newline, newline] @ ''# '' @ kl_display k @ [newline, newline]
      @ kl_description k @ [newline, newline] @ skill_details k"
    using assms(2) by (auto simp: serialize_skill_def split: sum.splits)
  have un: "sk_unmarshal cd j = Inr (skill_front_of cd k)" and lines: "fence \<notin> set (split_on newline j)"
    using assms(1) j by (auto simp: skill_codec_ok_def)
  let ?b = "newline # ''# '' @ kl_display k @ [newline, newline] @ (kl_description k @ [newline, newline] @ skill_details k)"
  have s': "s = fence @ ''json'' @ [newline] @ j @ [newline] @ fence @ newline # ?b" using s by simp
  have tl: "trim_left s = s" and ne: "s \<noteq> []" using s by (simp_all add: trim_left_def fence_def is_trimmed_def newline_def)
  have pre: "has_prefix s (fence @ ''json'' @ [newline])"
    unfolding s' has_prefix_iff by (intro exI [of _ "j @ [newline] @ fence @ newline # ?b"]) simp
  have ix: "str_index s ([newline] @ fence @ [newline]) = Some (8 + length j)"
    unfolding s' by (rule closing_fence_found [OF lines])
  have parts: "take (8 + length j - 8) (drop 8 s) = j" "drop (8 + length j + 5) s = ?b"
    unfolding s' by (simp_all add: fence_def numeral_eq_Suc)
  have body: "skill_body ?b = trim_left (trim_right (kl_description k @ [newline, newline] @ skill_details k))"
    unfolding skill_body_title by (simp only: read_heading_line [OF assms(6)] snd_conv)
  show ?thesis
    using tl ne pre ix un read_skill_front_of [OF assms(1,3-5) body] parts
    by (simp add: parse_skill_def Let_def)
qed

text \<open>Writing a skill to its file and reading it back, so many times.\<close>

fun reload_skill_times ::
    "skill_codec \<Rightarrow> timestamp \<Rightarrow> string \<Rightarrow> string \<Rightarrow> string \<Rightarrow> nat \<Rightarrow> skill \<Rightarrow> skill option" where
  "reload_skill_times cd now sc owner path 0 k = Some k"
| "reload_skill_times cd now sc owner path (Suc n) k =
     (case serialize_skill cd k of
        Inl e \<Rightarrow> None
      | Inr s \<Rightarrow>
          (case parse_skill cd now s sc owner path of
             Some (Inr k') \<Rightarrow> reload_skill_times cd now sc owner path n k'
           | _ \<Rightarrow> None))"

definition tight :: "string \<Rightarrow> bool" where
  "tight s \<longleftrightarrow> s \<noteq> [] \<and> \<not> is_trimmed (hd s) \<and> \<not> is_trimmed (last s)"

lemma trim_tight: "tight s \<Longrightarrow> trim_left (trim_right s) = s"
proof -
  assume s: "tight s"
  have keep: "dropWhile P xs = xs" if "xs \<noteq> []" "\<not> P (hd xs)" for P and xs :: string
    using that by (cases xs) auto
  have "dropWhile is_trimmed (rev s) = rev s" using s by (intro keep) (simp_all add: tight_def hd_rev)
  then have "trim_right s = s" by (simp add: trim_right_def)
  moreover have "dropWhile is_trimmed s = s" using s by (intro keep) (simp_all add: tight_def)
  ultimately show ?thesis by (simp add: trim_left_def)
qed

lemma tight_join: "tight a \<Longrightarrow> tight b \<Longrightarrow> tight (a @ m @ b)"
  by (auto simp: tight_def)

lemma replicate_snoc_concat: "concat (replicate n x) @ x = x @ concat (replicate n x)"
  by (induction n) simp_all

text \<open>
  Each time a skill is written to its file and read back, its text has the description once more in
  front of it, unless the text was the description, so a skill whose text says more grows without end; name and description are kept.
\<close>

lemma skill_text_grows:
  assumes "skill_codec_ok cd" and "tight (kl_description k)" and "tight (kl_content k)"
    and "kl_description k \<noteq> kl_content k" and "kl_name k \<noteq> []" and "kl_display k \<noteq> []" and "newline \<notin> set (kl_display k)"
    and "reload_skill_times cd now sc owner path n k = Some k'"
  shows "kl_content k' = concat (replicate n (kl_description k @ [newline, newline])) @ kl_content k
    \<and> kl_description k' = kl_description k \<and> kl_name k' = kl_name k"
  using assms(2-8)
proof (induction n arbitrary: k)
  case (Suc n)
  obtain s where s: "serialize_skill cd k = Inr s" using Suc.prems(7) by (auto split: sum.splits)
  have ne: "kl_description k \<noteq> []" "kl_content k \<noteq> []" using Suc.prems(1,2) by (auto simp: tight_def)
  let ?k = "reloaded_skill sc owner path k"
  have "parse_skill cd now s sc owner path = Some (Inr ?k)"
    by (rule parse_serialized_skill [OF assms(1) s Suc.prems(4,5) ne(1) Suc.prems(6)])
  then have run: "reload_skill_times cd now sc owner path n ?k = Some k'" using Suc.prems(7) s by simp
  have "skill_details k = kl_content k" using ne(2) Suc.prems(3) by (simp add: skill_details_def)
  then have c: "kl_content ?k = kl_description k @ [newline, newline] @ kl_content k"
    using trim_tight [OF tight_join [OF Suc.prems(1,2)], of "[newline, newline]"] by (simp add: reloaded_skill_def)
  have d: "kl_description ?k = kl_description k" "kl_name ?k = kl_name k" "kl_display ?k = kl_display k"
    by (simp_all add: reloaded_skill_def)
  have "kl_description ?k \<noteq> kl_content ?k" by (simp add: c d)
  then show ?case
    using Suc.IH [OF _ _ _ _ _ _ run] tight_join [OF Suc.prems(1,2), of "[newline, newline]"] Suc.prems(1,4-6)
      replicate_snoc_concat [of n "kl_description k @ [newline, newline]"]
    by (simp add: c d)
qed simp

definition sample_skill :: skill where
  "sample_skill = \<lparr>kl_id = ''k1'', kl_scope = ''user'', kl_owner = ''ann'', kl_state = ''loaded'', kl_source = ''filesystem'',
     kl_name = ''go'', kl_display = ''Go'', kl_description = ''Writes Go'', kl_version = ''1.0.0'', kl_author = [],
     kl_agents = [''all''], kl_capabilities = [], kl_file = ''/k/ann/k1__go.md'', kl_repository = [], kl_content = ''Use gofmt.'',
     kl_created = 0, kl_updated = 0, kl_activated = None,
     kl_metadata = \<lparr>kd_labels = [], kd_tags = [], kd_category = [], kd_keywords = [], kd_required_apis = [], kd_dependencies = [],
       kd_load_count = 0, kd_last_used = None, kd_error_count = 0, kd_last_error = [], kd_verified = False\<rparr>\<rparr>"

definition one_skill_codec :: "skill_front list \<Rightarrow> skill_codec" where
  "one_skill_codec fs = \<lparr>sk_marshal = (\<lambda>f. if f \<in> set fs then Inr ''{}'' else Inl (PlainErr ''unknown'')),
     sk_unmarshal = (\<lambda>s. Inr (hd fs)), sk_format = unary_time, sk_parse = unary_parse\<rparr>"

definition sample_skill_codec :: skill_codec where
  "sample_skill_codec = one_skill_codec [skill_front_of (one_skill_codec []) sample_skill]"

lemma one_skill_codec_ok: "skill_codec_ok (one_skill_codec [f])"
  unfolding skill_codec_ok_def one_skill_codec_def
  using unary_time_parse by (auto simp: fence_def newline_def split: if_splits)

lemma skill_text_grows_witness:
  "kl_content (the (reload_skill_times sample_skill_codec 0 ''user'' ''ann'' ''/k/ann/k1__go.md'' 2 sample_skill)) =
     concat (replicate 2 (''Writes Go'' @ [newline, newline])) @ ''Use gofmt.''"
proof -
  have ok: "skill_codec_ok sample_skill_codec" unfolding sample_skill_codec_def by (rule one_skill_codec_ok)
  have p: "tight (kl_description sample_skill)" "tight (kl_content sample_skill)"
    "kl_description sample_skill \<noteq> kl_content sample_skill"
    "kl_name sample_skill \<noteq> []" "kl_display sample_skill \<noteq> []" "newline \<notin> set (kl_display sample_skill)" by code_simp+
  have "reload_skill_times sample_skill_codec 0 ''user'' ''ann'' ''/k/ann/k1__go.md'' 2 sample_skill \<noteq> None" by code_simp
  then obtain k' where k': "reload_skill_times sample_skill_codec 0 ''user'' ''ann'' ''/k/ann/k1__go.md'' 2 sample_skill = Some k'" by blast
  have "kl_description sample_skill = ''Writes Go'' \<and> kl_content sample_skill = ''Use gofmt.''" by (simp add: sample_skill_def)
  with skill_text_grows [OF ok p k'] k' show ?thesis by simp
qed

end
