(* ===== verification/Skill_Store.thy ===== *)
theory Skill_Store
  imports Skill_Types Memory_Store
begin

text \<open>
  pkg/skills/store.go: the store of skills and their files, with the disk and the outcome of
  its operations as in Memory_Store.  The update of the time of use that \<open>Get\<close> starts is a
  step of its own.
\<close>

record skill_store =
  ks_skills :: "(id, skill) gomap"
  ks_cfg :: skill_config
  ks_closed :: bool
  ks_disk :: disk

section \<open>Files\<close>

definition skill_owner_dir :: "string \<Rightarrow> string" where
  "skill_owner_dir o1 = (if path_base o1 = ''.'' then [] else map (\<lambda>c. if owner_char c then c else hyphen) (path_base o1))"

definition skill_filename :: "skill \<Rightarrow> string" where
  "skill_filename k = kl_id k @ ''__'' @ hyphenate (to_lower (replace_all '' '' [hyphen] (kl_name k))) @ ''.md''"

definition skill_copy_path :: "skill_config \<Rightarrow> skill \<Rightarrow> string" where
  "skill_copy_path cfg k = path_join [path_join [kc_storage_path cfg, skill_owner_dir (kl_owner k)], skill_filename k]"

text \<open>\<open>getFilePath\<close>: the file a skill was loaded from, if it has one.\<close>

definition skill_file_path :: "skill_config \<Rightarrow> skill \<Rightarrow> string" where
  "skill_file_path cfg k =
     (if kl_file k \<noteq> [] then kl_file k
      else path_join [kc_storage_path cfg, skill_owner_dir (kl_owner k), skill_filename k])"

definition other_skills :: "skill \<Rightarrow> (id, skill) gomap \<Rightarrow> nat" where
  "other_skills k ks = length (filter (\<lambda>x. kl_scope x = kl_scope k \<and> kl_owner x = kl_owner k \<and> kl_id x \<noteq> kl_id k) (mvals ks))"

definition at_skill_limit :: "skill_store \<Rightarrow> skill \<Rightarrow> bool" where
  "at_skill_limit s k \<longleftrightarrow>
     kc_max_per_owner (ks_cfg s) > 0 \<and> int (other_skills k (ks_skills s)) \<ge> kc_max_per_owner (ks_cfg s)"

definition save_skill :: "skill_codec \<Rightarrow> save_faults \<Rightarrow> skill \<Rightarrow> skill_store \<Rightarrow> go_error option \<times> skill_store" where
  "save_skill cd f k s =
     (case sf_mkdir f of
        Some e \<Rightarrow> (Some (wrap_error ErrInternal e), s)
      | None \<Rightarrow>
          let s1 = s\<lparr>ks_disk := disk_mkdir_all (path_join [kc_storage_path (ks_cfg s), skill_owner_dir (kl_owner k)]) (ks_disk s)\<rparr>
          in case serialize_skill cd k of
               Inl e \<Rightarrow> (Some (wrap_error ErrInternal e), s1)
             | Inr text1 \<Rightarrow>
                 if at_skill_limit s k then (Some (new_error ErrPermission), s1)
                 else (case write_then_rename f (skill_copy_path (ks_cfg s) k) text1 (ks_disk s1) of
                         (r, d) \<Rightarrow> (r, s1\<lparr>ks_disk := d\<rparr>)))"

definition delete_skill_file :: "go_error option \<Rightarrow> skill \<Rightarrow> skill_store \<Rightarrow> go_error option \<times> skill_store" where
  "delete_skill_file fault k s =
     (let p = skill_file_path (ks_cfg s) k
      in if p = [] then (None, s)
         else (case fault of
                 Some e \<Rightarrow> (Some (wrap_error ErrInternal e), s)
               | None \<Rightarrow> (None, s\<lparr>ks_disk := disk_remove p (ks_disk s)\<rparr>)))"

section \<open>Operations\<close>

definition overwrite_skill :: "timestamp \<Rightarrow> skill \<Rightarrow> skill \<Rightarrow> skill" where
  "overwrite_skill now k old =
     k\<lparr>kl_id := kl_id old, kl_scope := kl_scope old, kl_owner := kl_owner old, kl_created := kl_created old,
       kl_updated := (if ts_is_zero (kl_updated k) then now else kl_updated k)\<rparr>"

definition skill_complete :: "skill \<Rightarrow> bool" where
  "skill_complete k \<longleftrightarrow>
     kl_name k \<noteq> [] \<and> kl_display k \<noteq> [] \<and> kl_description k \<noteq> [] \<and> kl_scope k \<noteq> [] \<and> kl_owner k \<noteq> []"

definition skill_to_keep :: "timestamp \<Rightarrow> skill \<Rightarrow> skill_store \<Rightarrow> skill" where
  "skill_to_keep now k s =
     (case mget (ks_skills s) (kl_id k) of
        Some old \<Rightarrow> overwrite_skill now k old | None \<Rightarrow> k\<lparr>kl_created := now, kl_updated := now\<rparr>)"

definition store_skill ::
    "skill_codec \<Rightarrow> save_faults \<Rightarrow> id \<Rightarrow> timestamp \<Rightarrow> skill \<Rightarrow> skill_store \<Rightarrow> go_error option \<times> skill \<times> skill_store" where
  "store_skill cd f gid now k s =
     (if ks_closed s then (Some (new_error ErrUnavailable), k, s)
      else if \<not> kc_enabled (ks_cfg s) then (Some (new_error ErrPermission), k, s)
      else
        let k1 = (if kl_id k = [] then k\<lparr>kl_id := gid\<rparr> else k)
        in if \<not> skill_complete k1 then (Some (new_error ErrInvalidArgument), k1, s)
           else
             let k2 = skill_to_keep now k1 s;
                 (e, s1) = save_skill cd f k2 (s\<lparr>ks_skills := mput (kl_id k1) k2 (ks_skills s)\<rparr>)
             in (e, k1, s1))"

definition get_skill :: "id \<Rightarrow> skill_store \<Rightarrow> skill result" where
  "get_skill i s =
     (if ks_closed s then Inl (new_error ErrUnavailable)
      else (case mget (ks_skills s) i of None \<Rightarrow> Inl (new_error ErrNotFound) | Some k \<Rightarrow> Inr k))"

definition touch_skill :: "timestamp \<Rightarrow> id \<Rightarrow> skill_store \<Rightarrow> skill_store" where
  "touch_skill now i s =
     (case mget (ks_skills s) i of
        None \<Rightarrow> s
      | Some k \<Rightarrow> s\<lparr>ks_skills := mput i (k\<lparr>kl_metadata := (kl_metadata k)\<lparr>kd_last_used := Some now\<rparr>\<rparr>) (ks_skills s)\<rparr>)"

definition skills_by_owner :: "string \<Rightarrow> string \<Rightarrow> skill_store \<Rightarrow> skill list result" where
  "skills_by_owner sc owner s =
     (if ks_closed s then Inl (new_error ErrUnavailable)
      else Inr (filter (\<lambda>k. kl_scope k = sc \<and> kl_owner k = owner) (mvals (ks_skills s))))"

definition skill_matches :: "skill \<Rightarrow> skill_filter option \<Rightarrow> bool" where
  "skill_matches k fo =
     (case fo of
        None \<Rightarrow> True
      | Some f \<Rightarrow>
          if_given (\<lambda>x. kl_scope k = x) (kf_scope f)
          \<and> if_given (\<lambda>x. kl_owner k = x) (kf_owner f)
          \<and> if_given (\<lambda>x. kl_state k = x) (kf_state f)
          \<and> if_given (\<lambda>x. kl_source k = x) (kf_source f)
          \<and> if_given (\<lambda>x. list_ex (\<lambda>a. a = x \<or> a = ''all'') (kl_agents k)) (kf_agent f)
          \<and> if_given (\<lambda>x. kd_category (kl_metadata k) = x) (kf_category f)
          \<and> if_given (\<lambda>x. kd_verified (kl_metadata k) = x) (kf_verified f)
          \<and> if_given (\<lambda>x. x \<le> kd_load_count (kl_metadata k)) (kf_min_load f)
          \<and> memory_labels_match (kf_label f) (kd_labels (kl_metadata k))
          \<and> tags_match (kf_tags f) (kd_tags (kl_metadata k))
          \<and> if_given (\<lambda>x. x \<le> kl_created k) (kf_start f)
          \<and> if_given (\<lambda>x. kl_created k \<le> x) (kf_end f))"

definition list_skills :: "skill_filter option \<Rightarrow> skill_store \<Rightarrow> skill list result" where
  "list_skills f s =
     (if ks_closed s then Inl (new_error ErrUnavailable)
      else Inr (filter (\<lambda>k. skill_matches k f) (mvals (ks_skills s))))"

definition delete_skill :: "go_error option \<Rightarrow> id \<Rightarrow> skill_store \<Rightarrow> go_error option \<times> skill_store" where
  "delete_skill fault i s =
     (if ks_closed s then (Some (new_error ErrUnavailable), s)
      else
        (case mget (ks_skills s) i of
           None \<Rightarrow> (Some (new_error ErrNotFound), s)
         | Some k \<Rightarrow>
             (case delete_skill_file fault k s of
                (Some e, s1) \<Rightarrow> (Some e, s1)
              | (None, s1) \<Rightarrow> (None, s1\<lparr>ks_skills := mdel i (ks_skills s1)\<rparr>))))"

definition count_skill :: "skill \<Rightarrow> skill_stats \<Rightarrow> skill_stats" where
  "count_skill k st =
     st\<lparr>kt_total := kt_total st + 1, kt_states := bump (kl_state k) (kt_states st), kt_sources := bump (kl_source k) (kt_sources st),
        kt_categories := (if kd_category (kl_metadata k) = [] then kt_categories st
                          else bump (kd_category (kl_metadata k)) (kt_categories st)),
        kt_last_updated := (if kt_last_updated st < kl_updated k then kl_updated k else kt_last_updated st)\<rparr>"

definition skill_stats_of :: "timestamp \<Rightarrow> string \<Rightarrow> string \<Rightarrow> skill_store \<Rightarrow> skill_stats result" where
  "skill_stats_of now sc owner s =
     (if ks_closed s then Inl (new_error ErrUnavailable)
      else Inr (fold count_skill (filter (\<lambda>k. kl_scope k = sc \<and> kl_owner k = owner) (mvals (ks_skills s)))
                  \<lparr>kt_scope = sc, kt_owner = owner, kt_total = 0, kt_states = [], kt_sources = [], kt_categories = [],
                   kt_last_updated = 0, kt_timestamp = now\<rparr>))"

definition close_skill_store :: "skill_store \<Rightarrow> skill_store" where
  "close_skill_store s = (if ks_closed s then s else s\<lparr>ks_closed := True\<rparr>)"

section \<open>Loading\<close>

definition load_skill_entry ::
    "skill_codec \<Rightarrow> timestamp \<Rightarrow> (string \<Rightarrow> bool) \<Rightarrow> string \<Rightarrow> string \<Rightarrow> string \<times> bool \<Rightarrow> skill_store \<Rightarrow> skill_store option" where
  "load_skill_entry cd now bad owner dir ent s =
     (let p = path_join [dir, fst ent]
      in if snd ent \<or> \<not> has_suffix (fst ent) ''.md'' then Some s
         else
           (case (if bad p then None else mget (dk_files (ks_disk s)) p) of
              None \<Rightarrow> Some s
            | Some data \<Rightarrow>
                (case parse_skill cd now data ''user'' owner p of
                   None \<Rightarrow> None
                 | Some (Inl e) \<Rightarrow> Some s
                 | Some (Inr k) \<Rightarrow> Some (s\<lparr>ks_skills := mput (kl_id k) k (ks_skills s)\<rparr>))))"

definition load_skill_owner ::
    "skill_codec \<Rightarrow> timestamp \<Rightarrow> (string \<Rightarrow> bool) \<Rightarrow> string \<Rightarrow> string \<times> bool \<Rightarrow> skill_store \<Rightarrow> skill_store option" where
  "load_skill_owner cd now bad dir ent s =
     (let p = path_join [dir, fst ent]
      in if \<not> snd ent \<or> bad p then Some s
         else until_panic (load_skill_entry cd now bad (fst ent) p) (disk_read_dir p (ks_disk s)) s)"

definition load_skills :: "skill_codec \<Rightarrow> timestamp \<Rightarrow> (string \<Rightarrow> bool) \<Rightarrow> skill_store \<Rightarrow> skill_store option" where
  "load_skills cd now bad s =
     (let dir = kc_storage_path (ks_cfg s)
      in if bad dir then Some s
         else until_panic (load_skill_owner cd now bad dir) (disk_read_dir (path_clean dir) (ks_disk s)) s)"

definition new_skill_store ::
    "skill_codec \<Rightarrow> skill_config \<Rightarrow> timestamp \<Rightarrow> go_error option \<Rightarrow> (string \<Rightarrow> bool) \<Rightarrow> disk \<Rightarrow> skill_store result option" where
  "new_skill_store cd cfg now fault bad d =
     (case fault of
        Some e \<Rightarrow> Some (Inl (wrap_error ErrInternal e))
      | None \<Rightarrow>
          map_option Inr
            (load_skills cd now bad
               \<lparr>ks_skills = [], ks_cfg = cfg, ks_closed = False, ks_disk = disk_mkdir_all (path_clean (kc_storage_path cfg)) d\<rparr>))"

section \<open>Runs\<close>

datatype skill_op =
    KStore save_faults id timestamp skill
  | KTouch timestamp id
  | KDelete "go_error option" id
  | KClose

fun skill_exec :: "skill_codec \<Rightarrow> skill_store \<Rightarrow> skill_op \<Rightarrow> skill_store" where
  "skill_exec cd s (KStore f gid now k) = snd (snd (store_skill cd f gid now k s))"
| "skill_exec cd s (KTouch now i) = touch_skill now i s"
| "skill_exec cd s (KDelete fault i) = snd (delete_skill fault i s)"
| "skill_exec cd s KClose = close_skill_store s"

definition skill_store_ok :: "skill_store \<Rightarrow> bool" where
  "skill_store_ok s \<longleftrightarrow> mwf (ks_skills s) \<and> mall (\<lambda>i k. kl_id k = i) (ks_skills s)"

lemma save_skill_fields [simp]:
  "ks_skills (snd (save_skill cd f k s)) = ks_skills s" "ks_cfg (snd (save_skill cd f k s)) = ks_cfg s"
  "ks_closed (snd (save_skill cd f k s)) = ks_closed s"
  by (simp_all add: save_skill_def Let_def split: option.split sum.split prod.split)

definition accepts_skill :: "skill \<Rightarrow> skill_store \<Rightarrow> bool" where
  "accepts_skill k s \<longleftrightarrow> \<not> ks_closed s \<and> kc_enabled (ks_cfg s) \<and> skill_complete k"

definition skill_with_id :: "id \<Rightarrow> skill \<Rightarrow> skill" where
  "skill_with_id gid k = (if kl_id k = [] then k\<lparr>kl_id := gid\<rparr> else k)"

lemma skill_complete_id: "skill_complete (skill_with_id gid k) = skill_complete k"
  by (simp add: skill_complete_def skill_with_id_def)

lemma store_skill_state:
  "snd (snd (store_skill cd f gid now k s)) =
     (if accepts_skill k s
      then (let k1 = skill_with_id gid k; k2 = skill_to_keep now k1 s
            in snd (save_skill cd f k2 (s\<lparr>ks_skills := mput (kl_id k1) k2 (ks_skills s)\<rparr>)))
      else s)"
  using skill_complete_id [of gid k]
  by (simp add: store_skill_def accepts_skill_def skill_with_id_def [symmetric] Let_def split: prod.split)

lemma skill_to_keep_id: "skill_store_ok s \<Longrightarrow> kl_id (skill_to_keep now k s) = kl_id k"
  by (auto simp: skill_to_keep_def overwrite_skill_def skill_store_ok_def dest: mall_get split: option.split)

lemma delete_skill_state:
  "ks_skills (snd (delete_skill fault i s)) \<in> {ks_skills s, mdel i (ks_skills s)}
   \<and> ks_closed (snd (delete_skill fault i s)) = ks_closed s"
  by (simp add: delete_skill_def delete_skill_file_def Let_def split: option.split)

lemma skill_exec_ok: "skill_store_ok s \<Longrightarrow> skill_store_ok (skill_exec cd s c)"
proof (induction c)
  case (KStore f gid now k)
  then show ?case using skill_to_keep_id [OF KStore, of now "skill_with_id gid k"]
    by (simp add: store_skill_state Let_def) (simp add: skill_store_ok_def mall_mput)
next
  case (KTouch now i)
  then show ?case
    by (auto simp: touch_skill_def skill_store_ok_def dest: mall_get intro!: mall_mput split: option.split)
next
  case (KDelete fault i)
  then show ?case using delete_skill_state [of fault i s] by (auto simp: skill_store_ok_def mall_mdel)
qed (auto simp: close_skill_store_def skill_store_ok_def)

lemma skill_exec_closed: "ks_closed s \<Longrightarrow> ks_closed (skill_exec cd s c)"
proof (induction c)
  case (KStore f gid now k)
  then show ?case by (simp add: store_skill_state accepts_skill_def)
qed (use delete_skill_state in \<open>auto simp: touch_skill_def close_skill_store_def split: option.split\<close>)

interpretation skills: closable_machine "skill_exec cd" skill_store_ok ks_closed for cd
  by unfold_locales (fact skill_exec_ok skill_exec_closed)+

end
