(* ===== verification/Skill_Loader.thy ===== *)
theory Skill_Loader
  imports Skill_Store
begin

text \<open>
  pkg/skills/loader.go: finding the files SKILL.md below a directory, storing what they hold,
  and activation.  The directory is a tree that the caller of an operation gives, with the errors of
  reading it; \<open>excluded\<close> is \<open>filepath.Match\<close> of a pattern on a name.  The text of the errors is
  left out of the statistics, their number is kept.
\<close>

section \<open>Scanning\<close>

datatype tree = File | Dir "(string \<times> tree) list" | BadDir go_error

record loader =
  ld_cfg :: skill_config
  ld_store :: skill_store
  ld_closed :: bool

definition new_loader :: "skill_config \<Rightarrow> skill_store option \<Rightarrow> loader result" where
  "new_loader cfg so =
     (case so of None \<Rightarrow> Inl (new_error ErrInvalidArgument) | Some s \<Rightarrow> Inr \<lparr>ld_cfg = cfg, ld_store = s, ld_closed = False\<rparr>)"

definition is_path_excluded :: "(string \<Rightarrow> string \<Rightarrow> bool) \<Rightarrow> string list \<Rightarrow> string \<Rightarrow> bool" where
  "is_path_excluded glob patterns p \<longleftrightarrow> list_ex (\<lambda>pat. glob pat (path_base p) \<or> str_contains p pat) patterns"

definition is_skill_file :: "string \<Rightarrow> bool" where
  "is_skill_file n \<longleftrightarrow> to_lower n = ''skill.md''"

text \<open>A subdirectory that cannot be read is passed over; the directory itself gives an error.\<close>

fun scan_skill_files :: "(string \<Rightarrow> bool) \<Rightarrow> bool \<Rightarrow> string \<Rightarrow> tree \<Rightarrow> string list result"
  and scan_entries :: "(string \<Rightarrow> bool) \<Rightarrow> bool \<Rightarrow> string \<Rightarrow> (string \<times> tree) list \<Rightarrow> string list"
  and scan_entry :: "(string \<Rightarrow> bool) \<Rightarrow> bool \<Rightarrow> string \<Rightarrow> string \<times> tree \<Rightarrow> string list" where
  "scan_skill_files excl rec p File = (if excl p then Inr [] else Inl (PlainErr ''not a directory''))"
| "scan_skill_files excl rec p (BadDir e) = (if excl p then Inr [] else Inl e)"
| "scan_skill_files excl rec p (Dir es) = (if excl p then Inr [] else Inr (scan_entries excl rec p es))"
| "scan_entries excl rec p [] = []"
| "scan_entries excl rec p (e # es) = scan_entry excl rec p e @ scan_entries excl rec p es"
| "scan_entry excl rec p (n, File) = (if is_skill_file n \<and> \<not> excl (path_join [p, n]) then [path_join [p, n]] else [])"
| "scan_entry excl rec p (n, Dir es) =
     (if rec then (case scan_skill_files excl rec (path_join [p, n]) (Dir es) of Inl e \<Rightarrow> [] | Inr fs \<Rightarrow> fs) else [])"
| "scan_entry excl rec p (n, BadDir e) = []"

section \<open>Loading\<close>

record load_stats =
  ls_scope :: string
  ls_owner :: string
  ls_total :: int
  ls_loaded :: int
  ls_skipped :: int
  ls_failed :: int
  ls_errors :: nat
  ls_duration :: duration

definition no_load_stats :: "string \<Rightarrow> string \<Rightarrow> load_stats" where
  "no_load_stats sc owner = \<lparr>ls_scope = sc, ls_owner = owner, ls_total = 0, ls_loaded = 0, ls_skipped = 0, ls_failed = 0,
     ls_errors = 0, ls_duration = 0\<rparr>"

definition load_failed :: "load_stats \<Rightarrow> load_stats" where
  "load_failed st = st\<lparr>ls_failed := ls_failed st + 1, ls_errors := ls_errors st + 1\<rparr>"

text \<open>The files are those of the disk of the store; \<open>bad\<close> says which cannot be read.\<close>

definition read_skill_file ::
    "skill_codec \<Rightarrow> timestamp \<Rightarrow> (string \<Rightarrow> bool) \<Rightarrow> disk \<Rightarrow> string \<Rightarrow> string \<Rightarrow> string \<Rightarrow> skill result option" where
  "read_skill_file cd now bad d sc owner p =
     (case (if bad p then None else mget (dk_files d) p) of
        None \<Rightarrow> Some (Inl (wrap_error ErrInternal (PlainErr ''read'')))
      | Some data \<Rightarrow>
          (case parse_skill cd now data sc owner p of
             None \<Rightarrow> None
           | Some (Inl e) \<Rightarrow> Some (Inl e)
           | Some (Inr k) \<Rightarrow>
               Some (Inr (k\<lparr>kl_source := (if str_contains p ''.config'' \<or> str_contains p ''config'' then ''builtin'' else ''filesystem'')\<rparr>))))"

record load_env =
  le_codec :: skill_codec
  le_now :: timestamp
  le_bad :: "string \<Rightarrow> bool"
  le_faults :: "string \<Rightarrow> save_faults"

text \<open>One file after the other; reading errors stop the loop once there are as many as allowed, errors of storing do not.\<close>

fun load_files :: "load_env \<Rightarrow> int \<Rightarrow> string \<Rightarrow> string \<Rightarrow> string list \<Rightarrow> load_stats \<times> skill_store \<Rightarrow> (load_stats \<times> skill_store) option" where
  "load_files env mx sc owner [] (st, s) = Some (st, s)"
| "load_files env mx sc owner (p # ps) (st, s) =
     (case read_skill_file (le_codec env) (le_now env) (le_bad env) (ks_disk s) sc owner p of
        None \<Rightarrow> None
      | Some (Inl e) \<Rightarrow>
          if mx > 0 \<and> ls_failed (load_failed st) \<ge> mx then Some (load_failed st, s)
          else load_files env mx sc owner ps (load_failed st, s)
      | Some (Inr k) \<Rightarrow>
          (case store_skill (le_codec env) (le_faults env p) [] (le_now env) k s of
             (Some e, k1, s1) \<Rightarrow> load_files env mx sc owner ps (load_failed st, s1)
           | (None, k1, s1) \<Rightarrow> load_files env mx sc owner ps (st\<lparr>ls_loaded := ls_loaded st + 1\<rparr>, s1)))"

definition load_from_path ::
    "load_env \<Rightarrow> (string \<Rightarrow> string \<Rightarrow> bool) \<Rightarrow> string \<Rightarrow> string \<Rightarrow> string \<Rightarrow> tree option \<Rightarrow> duration \<Rightarrow> loader
      \<Rightarrow> (load_stats result \<times> loader) option" where
  "load_from_path env glob sc owner p t dur l =
     (if ld_closed l then Some (Inl (new_error ErrUnavailable), l)
      else
        (case t of
           None \<Rightarrow> Some (Inr ((load_failed (no_load_stats sc owner))\<lparr>ls_duration := dur\<rparr>), l)
         | Some tr \<Rightarrow>
             let lc = kc_load (ld_cfg l)
             in case scan_skill_files (is_path_excluded glob (kc_excluded lc)) (kc_recursive lc) p tr of
                  Inl e \<Rightarrow> Some (Inr ((load_failed (no_load_stats sc owner))\<lparr>ls_duration := dur\<rparr>), l)
                | Inr fs \<Rightarrow>
                    (case load_files env (kc_max_errors lc) sc owner fs
                            ((no_load_stats sc owner)\<lparr>ls_total := int (length fs)\<rparr>, ld_store l) of
                       None \<Rightarrow> None
                     | Some (st, s) \<Rightarrow> Some (Inr (st\<lparr>ls_duration := dur\<rparr>), l\<lparr>ld_store := s\<rparr>))))"

definition add_load_stats :: "load_stats \<Rightarrow> load_stats \<Rightarrow> load_stats" where
  "add_load_stats a b =
     a\<lparr>ls_total := ls_total a + ls_total b, ls_loaded := ls_loaded a + ls_loaded b, ls_skipped := ls_skipped a + ls_skipped b,
       ls_failed := ls_failed a + ls_failed b, ls_errors := ls_errors a + ls_errors b, ls_duration := ls_duration a + ls_duration b\<rparr>"

fun load_paths ::
    "load_env \<Rightarrow> (string \<Rightarrow> string \<Rightarrow> bool) \<Rightarrow> string \<Rightarrow> string \<Rightarrow> (string \<Rightarrow> tree option) \<Rightarrow> (string \<Rightarrow> duration) \<Rightarrow> string list
      \<Rightarrow> load_stats \<times> loader \<Rightarrow> (load_stats \<times> loader) option" where
  "load_paths env glob sc owner trees durs [] (st, l) = Some (st, l)"
| "load_paths env glob sc owner trees durs (p # ps) (st, l) =
     (case load_from_path env glob sc owner p (trees p) (durs p) l of
        None \<Rightarrow> None
      | Some (Inl e, l1) \<Rightarrow> load_paths env glob sc owner trees durs ps (st\<lparr>ls_errors := ls_errors st + 1\<rparr>, l1)
      | Some (Inr st1, l1) \<Rightarrow> load_paths env glob sc owner trees durs ps (add_load_stats st st1, l1))"

definition load_all ::
    "load_env \<Rightarrow> (string \<Rightarrow> string \<Rightarrow> bool) \<Rightarrow> string \<Rightarrow> string \<Rightarrow> (string \<Rightarrow> tree option) \<Rightarrow> (string \<Rightarrow> duration) \<Rightarrow> loader
      \<Rightarrow> (load_stats result \<times> loader) option" where
  "load_all env glob sc owner trees durs l =
     (if ld_closed l then Some (Inl (new_error ErrUnavailable), l)
      else if \<not> kc_auto_load (ld_cfg l) \<or> \<not> kc_load_enabled (kc_load (ld_cfg l)) then Some (Inr (no_load_stats sc owner), l)
      else
        (case load_paths env glob sc owner trees durs (kc_paths (kc_load (ld_cfg l))) (no_load_stats sc owner, l) of
           None \<Rightarrow> None
         | Some (st, l1) \<Rightarrow> Some (Inr st, l1)))"

section \<open>Activation\<close>

text \<open>Changing a stored skill: read it, change the copy, store the copy.\<close>

definition change_skill ::
    "skill_codec \<Rightarrow> save_faults \<Rightarrow> timestamp \<Rightarrow> (skill \<Rightarrow> skill) \<Rightarrow> id \<Rightarrow> loader \<Rightarrow> go_error option \<times> loader" where
  "change_skill cd f now g i l =
     (if ld_closed l then (Some (new_error ErrUnavailable), l)
      else
        (case get_skill i (ld_store l) of
           Inl e \<Rightarrow> (Some e, l)
         | Inr k \<Rightarrow> (case store_skill cd f [] now (g k) (ld_store l) of (e, k1, s) \<Rightarrow> (e, l\<lparr>ld_store := s\<rparr>))))"

definition count_load :: "skill \<Rightarrow> skill" where
  "count_load k = k\<lparr>kl_metadata := (kl_metadata k)\<lparr>kd_load_count := kd_load_count (kl_metadata k) + 1\<rparr>\<rparr>"

definition activate_skill :: "skill_codec \<Rightarrow> save_faults \<Rightarrow> timestamp \<Rightarrow> id \<Rightarrow> loader \<Rightarrow> go_error option \<times> loader" where
  "activate_skill cd f now =
     change_skill cd f now (\<lambda>k. count_load (k\<lparr>kl_state := skill_loaded, kl_updated := now, kl_activated := Some now\<rparr>))"

definition deactivate_skill :: "skill_codec \<Rightarrow> save_faults \<Rightarrow> timestamp \<Rightarrow> id \<Rightarrow> loader \<Rightarrow> go_error option \<times> loader" where
  "deactivate_skill cd f now = change_skill cd f now (\<lambda>k. k\<lparr>kl_state := skill_unloaded, kl_updated := now\<rparr>)"

definition activated_by_owner :: "timestamp \<Rightarrow> skill \<Rightarrow> skill" where
  "activated_by_owner now k =
     count_load (k\<lparr>kl_state := skill_loaded, kl_updated := now,
       kl_activated := (case kl_activated k of None \<Rightarrow> Some now | Some t \<Rightarrow> Some t)\<rparr>)"

fun activate_each :: "skill_codec \<Rightarrow> (id \<Rightarrow> save_faults) \<Rightarrow> timestamp \<Rightarrow> skill list \<Rightarrow> skill_store \<Rightarrow> int \<times> skill_store" where
  "activate_each cd faults now [] s = (0, s)"
| "activate_each cd faults now (k # ks) s =
     (case store_skill cd (faults (kl_id k)) [] now (activated_by_owner now k) s of
        (e, k1, s1) \<Rightarrow> (case activate_each cd faults now ks s1 of (n, s2) \<Rightarrow> ((if e = None then n + 1 else n), s2)))"

definition activate_by_owner ::
    "skill_codec \<Rightarrow> (id \<Rightarrow> save_faults) \<Rightarrow> timestamp \<Rightarrow> string \<Rightarrow> string \<Rightarrow> loader \<Rightarrow> int result \<times> loader" where
  "activate_by_owner cd faults now sc owner l =
     (if ld_closed l then (Inl (new_error ErrUnavailable), l)
      else
        (case skills_by_owner sc owner (ld_store l) of
           Inl e \<Rightarrow> (Inl e, l)
         | Inr ks \<Rightarrow> (case activate_each cd faults now ks (ld_store l) of (n, s) \<Rightarrow> (Inr n, l\<lparr>ld_store := s\<rparr>))))"

definition get_active_skills :: "string \<Rightarrow> string \<Rightarrow> loader \<Rightarrow> skill list result" where
  "get_active_skills sc owner l =
     (if ld_closed l then Inl (new_error ErrUnavailable)
      else
        (case skills_by_owner sc owner (ld_store l) of
           Inl e \<Rightarrow> Inl e
         | Inr ks \<Rightarrow> Inr (filter (\<lambda>k. kl_state k = skill_loaded) ks)))"

definition reload_skill :: "load_env \<Rightarrow> save_faults \<Rightarrow> id \<Rightarrow> loader \<Rightarrow> (go_error option \<times> loader) option" where
  "reload_skill env f i l =
     (if ld_closed l then Some (Some (new_error ErrUnavailable), l)
      else
        (case get_skill i (ld_store l) of
           Inl e \<Rightarrow> Some (Some e, l)
         | Inr k \<Rightarrow>
             if kl_file k = [] then Some (Some (new_error ErrInvalidArgument), l)
             else
               (case read_skill_file (le_codec env) (le_now env) (le_bad env) (ks_disk (ld_store l)) (kl_scope k) (kl_owner k) (kl_file k) of
                  None \<Rightarrow> None
                | Some (Inl e) \<Rightarrow> Some (Some (wrap_error ErrInternal e), l)
                | Some (Inr n) \<Rightarrow>
                    let n' = n\<lparr>kl_id := kl_id k, kl_created := kl_created k, kl_activated := kl_activated k,
                               kl_metadata := (kl_metadata n)\<lparr>kd_load_count := kd_load_count (kl_metadata k),
                                 kd_verified := kd_verified (kl_metadata k)\<rparr>\<rparr>
                    in case store_skill (le_codec env) f [] (le_now env) n' (ld_store l) of
                         (e, k1, s) \<Rightarrow> Some (e, l\<lparr>ld_store := s\<rparr>))))"

definition get_load_stats :: "timestamp \<Rightarrow> string \<Rightarrow> string \<Rightarrow> loader \<Rightarrow> skill_stats result" where
  "get_load_stats now sc owner l =
     (if ld_closed l then Inl (new_error ErrUnavailable) else skill_stats_of now sc owner (ld_store l))"

definition close_loader :: "loader \<Rightarrow> loader" where
  "close_loader l = (if ld_closed l then l else l\<lparr>ld_closed := True\<rparr>)"

end
