(* ===== verification/Skill_Proofs.thy ===== *)
theory Skill_Proofs
  imports Skill_Loader Memory_Proofs
begin

text \<open>
  The limit on the skills of an owner, what deleting a skill leaves on the disk, and what the
  loader counts.
\<close>

section \<open>Storing\<close>

lemma store_skill_accepted:
  assumes "accepts_skill k s" and "store_skill cd f gid now k s = (e, k1, s1)"
  shows "k1 = skill_with_id gid k
    \<and> save_skill cd f (skill_to_keep now k1 s) (s\<lparr>ks_skills := mput (kl_id k1) (skill_to_keep now k1 s) (ks_skills s)\<rparr>) = (e, s1)"
  using assms skill_complete_id [of gid k]
  by (simp add: store_skill_def accepts_skill_def skill_with_id_def [symmetric] Let_def split: prod.splits)

lemma store_skill_refused:
  assumes "\<not> accepts_skill k s"
  shows "fst (store_skill cd f gid now k s) \<noteq> None \<and> snd (snd (store_skill cd f gid now k s)) = s"
  using assms skill_complete_id [of gid k]
  by (auto simp: store_skill_def accepts_skill_def skill_with_id_def [symmetric] Let_def)

lemma mput_absent: "mget m k = None \<Longrightarrow> mput k v m = m @ [(k, v)]"
  by (induction m) (auto simp: mget_def mput_def split: if_splits)

lemma other_skills_put:
  assumes "skill_store_ok s" and "mget (ks_skills s) (kl_id k) = None" and "kl_id k2 = kl_id k"
    and "kl_scope k2 = kl_scope k" and "kl_owner k2 = kl_owner k"
  shows "other_skills k2 (mput (kl_id k) k2 (ks_skills s)) = other_skills k (ks_skills s)"
  using assms by (simp add: other_skills_def mput_absent mvals_def)

lemma write_then_rename_error: "write_then_rename f p s d = (r, d') \<Longrightarrow> r \<noteq> None \<Longrightarrow> q \<noteq> p @ ''.tmp'' \<Longrightarrow>
    mget (dk_files d') q = mget (dk_files d) q"
  using write_then_rename_files by blast

text \<open>
  At the limit of an owner the store of another skill fails and writes nothing, but the skill is in
  the store and served from then on, so the owner has more skills than the limit; only the disk is limited.
\<close>

lemma skill_limit_not_kept_in_memory:
  assumes "skill_store_ok s" and "accepts_skill k s" and "kl_id k \<noteq> []" and "mget (ks_skills s) (kl_id k) = None"
    and "at_skill_limit s k" and "store_skill cd f gid now k s = (e, k1, s1)"
  shows "e \<noteq> None \<and> dk_files (ks_disk s1) = dk_files (ks_disk s)
    \<and> get_skill (kl_id k) s1 = Inr (k\<lparr>kl_created := now, kl_updated := now\<rparr>)
    \<and> kc_max_per_owner (ks_cfg s) < int (length (projr (skills_by_owner (kl_scope k) (kl_owner k) s1)))"
proof -
  let ?k = "k\<lparr>kl_created := now, kl_updated := now\<rparr>"
  let ?s = "s\<lparr>ks_skills := mput (kl_id k) ?k (ks_skills s)\<rparr>"
  have keep: "skill_to_keep now k s = ?k" using assms(4) by (simp add: skill_to_keep_def)
  have "skill_with_id gid k = k" using assms(3) by (simp add: skill_with_id_def)
  then have sv: "save_skill cd f ?k ?s = (e, s1)"
    using store_skill_accepted [OF assms(2,6)] keep by auto
  have other: "other_skills ?k (mput (kl_id k) ?k (ks_skills s)) = other_skills k (ks_skills s)"
    by (rule other_skills_put [OF assms(1,4)]) simp_all
  then have lim: "at_skill_limit ?s ?k" using assms(5) by (simp add: at_skill_limit_def)
  have "e \<noteq> None \<and> dk_files (ks_disk s1) = dk_files (ks_disk s)"
    using sv lim by (auto simp: save_skill_def Let_def split: option.splits sum.splits)
  moreover have s1: "ks_skills s1 = mput (kl_id k) ?k (ks_skills s)" "ks_cfg s1 = ks_cfg s" "ks_closed s1 = ks_closed s"
    using save_skill_fields [of cd f ?k ?s] sv by simp_all
  moreover have open1: "\<not> ks_closed s" using assms(2) by (simp add: accepts_skill_def)
  moreover have "other_skills k (ks_skills s) < length (projr (skills_by_owner (kl_scope k) (kl_owner k) s1))"
  proof -
    have "other_skills k (ks_skills s) \<le> length (filter (\<lambda>x. kl_scope x = kl_scope k \<and> kl_owner x = kl_owner k) (mvals (ks_skills s)))"
      unfolding other_skills_def by (rule length_filter_mono) auto
    then show ?thesis using assms(4) s1 open1 by (simp add: skills_by_owner_def mput_absent mvals_def)
  qed
  moreover have "kc_max_per_owner (ks_cfg s) \<le> int (other_skills k (ks_skills s))"
    using assms(5) by (simp add: at_skill_limit_def)
  ultimately show ?thesis by (simp add: get_skill_def)
qed

definition sample_skill_store :: skill_store where
  "sample_skill_store = \<lparr>ks_skills = [(''k1'', sample_skill)],
     ks_cfg = \<lparr>kc_enabled = True, kc_storage_path = ''/k'', kc_max_per_owner = 1, kc_auto_load = True,
       kc_load = \<lparr>kc_load_enabled = True, kc_paths = [], kc_recursive = True, kc_watch = False, kc_max_errors = 0, kc_excluded = [], kc_required = []\<rparr>\<rparr>,
     ks_closed = False, ks_disk = \<lparr>dk_files = [], dk_dirs = []\<rparr>\<rparr>"

lemma skill_limit_not_kept_in_memory_witness:
  "1 < int (length (projr (skills_by_owner ''user'' ''ann''
      (snd (snd (store_skill sample_skill_codec no_faults ''g'' 5 (sample_skill\<lparr>kl_id := ''k2''\<rparr>) sample_skill_store))))))"
proof -
  let ?k = "sample_skill\<lparr>kl_id := ''k2''\<rparr>"
  obtain e k1 s1 where st: "store_skill sample_skill_codec no_faults ''g'' 5 ?k sample_skill_store = (e, k1, s1)"
    by (rule prod_cases3)
  have ok: "skill_store_ok sample_skill_store"
    by (simp add: skill_store_ok_def sample_skill_store_def mwf_def mall_def sample_skill_def)
  have p: "accepts_skill ?k sample_skill_store" "kl_id ?k \<noteq> []" "mget (ks_skills sample_skill_store) (kl_id ?k) = None"
    "at_skill_limit sample_skill_store ?k" by code_simp+
  have c: "kl_scope ?k = ''user''" "kl_owner ?k = ''ann''" "kc_max_per_owner (ks_cfg sample_skill_store) = 1"
    by (simp_all add: sample_skill_def sample_skill_store_def)
  with skill_limit_not_kept_in_memory [OF ok p st] c show ?thesis by (simp add: st)
qed

section \<open>Deleting\<close>

lemma save_skill_writes:
  assumes "save_skill cd no_faults k s = (None, s1)"
  shows "\<exists>t. serialize_skill cd k = Inr t \<and> mget (dk_files (ks_disk s1)) (skill_copy_path (ks_cfg s) k) = Some t"
  using assms write_then_rename_files [of no_faults "skill_copy_path (ks_cfg s) k"]
  by (auto simp: save_skill_def no_faults_def Let_def split: sum.splits if_splits prod.splits)

text \<open>
  Deleting a skill that was stored with the file it came from removes that file, not the copy that
  the store has made of it, which the next start of the store loads again.
\<close>

lemma deleting_a_skill_removes_its_source:
  assumes "accepts_skill k s" and "store_skill cd no_faults gid now k s = (None, k1, s1)"
    and "kl_file k \<noteq> []" and "kl_file k \<noteq> skill_copy_path (ks_cfg s) (skill_to_keep now k1 s)"
    and "delete_skill None (kl_id k1) s1 = (e, s2)"
  shows "e = None \<and> get_skill (kl_id k1) s2 = Inl (new_error ErrNotFound)
    \<and> mget (dk_files (ks_disk s2)) (kl_file k) = None
    \<and> (\<exists>t. serialize_skill cd (skill_to_keep now k1 s) = Inr t
         \<and> mget (dk_files (ks_disk s2)) (skill_copy_path (ks_cfg s) (skill_to_keep now k1 s)) = Some t)"
proof -
  let ?k = "skill_to_keep now k1 s"
  let ?s = "s\<lparr>ks_skills := mput (kl_id k1) ?k (ks_skills s)\<rparr>"
  have k1: "k1 = skill_with_id gid k" and sv: "save_skill cd no_faults ?k ?s = (None, s1)"
    using store_skill_accepted [OF assms(1,2)] by auto
  obtain t where t: "serialize_skill cd ?k = Inr t" "mget (dk_files (ks_disk s1)) (skill_copy_path (ks_cfg s) ?k) = Some t"
    using save_skill_writes [OF sv] by auto
  have s1: "mget (ks_skills s1) (kl_id k1) = Some ?k" "\<not> ks_closed s1" "ks_cfg s1 = ks_cfg s"
    using save_skill_fields [of cd no_faults ?k ?s] sv assms(1) by (simp_all add: accepts_skill_def)
  have src: "kl_file ?k = kl_file k"
    by (simp add: k1 skill_to_keep_def skill_with_id_def overwrite_skill_def split: option.split)
  have "e = None \<and> s2 = s1\<lparr>ks_disk := disk_remove (kl_file k) (ks_disk s1), ks_skills := mdel (kl_id k1) (ks_skills s1)\<rparr>"
    using assms(3,5) s1 src by (simp add: delete_skill_def delete_skill_file_def skill_file_path_def Let_def)
  then show ?thesis using t assms(4) s1(2) by (simp add: get_skill_def)
qed

definition given_skill :: skill where
  "given_skill = sample_skill\<lparr>kl_file := ''/home/ann/go/SKILL.md'', kl_created := 5, kl_updated := 5\<rparr>"

definition given_codec :: skill_codec where
  "given_codec = one_skill_codec [skill_front_of (one_skill_codec []) given_skill]"

definition given_store :: skill_store where
  "given_store = sample_skill_store\<lparr>ks_skills := []\<rparr>"

definition after_given :: skill_store where
  "after_given = snd (snd (store_skill given_codec no_faults [] 5 given_skill given_store))"

lemma deleting_a_skill_removes_its_source_witness:
  "mget (dk_files (ks_disk (snd (delete_skill None ''k1'' after_given)))) ''/home/ann/go/SKILL.md'' = None
   \<and> mget (dk_files (ks_disk (snd (delete_skill None ''k1'' after_given)))) ''/k/ann/k1__go.md'' \<noteq> None"
proof -
  let ?k1 = "fst (snd (store_skill given_codec no_faults [] 5 given_skill given_store))"
  have "fst (store_skill given_codec no_faults [] 5 given_skill given_store) = None" by code_simp
  then have st: "store_skill given_codec no_faults [] 5 given_skill given_store = (None, ?k1, after_given)"
    by (simp add: after_given_def prod_eq_iff)
  have p: "accepts_skill given_skill given_store" "kl_file given_skill \<noteq> []"
    "kl_file given_skill \<noteq> skill_copy_path (ks_cfg given_store) (skill_to_keep 5 ?k1 given_store)"
    "kl_id ?k1 = ''k1''" "kl_file given_skill = ''/home/ann/go/SKILL.md''"
    "skill_copy_path (ks_cfg given_store) (skill_to_keep 5 ?k1 given_store) = ''/k/ann/k1__go.md''" by code_simp+
  obtain e s2 where del: "delete_skill None ''k1'' after_given = (e, s2)" by (rule prod.exhaust)
  from deleting_a_skill_removes_its_source [OF p(1) st p(2,3), unfolded p(4-6), OF del] show ?thesis by (auto simp: del)
qed

section \<open>Loading\<close>

lemma load_files_counts:
  assumes "load_files env mx sc owner ps (st, s) = Some (st', s')"
  shows "ls_total st' = ls_total st \<and> int (ls_errors st') - ls_failed st' = int (ls_errors st) - ls_failed st
    \<and> ls_loaded st' + ls_failed st' \<le> ls_loaded st + ls_failed st + int (length ps)
    \<and> (ls_loaded st' + ls_failed st' < ls_loaded st + ls_failed st + int (length ps) \<longrightarrow> 0 < mx \<and> mx \<le> ls_failed st')
    \<and> (skill_store_ok s \<longrightarrow> skill_store_ok s')"
  using assms
proof (induction env mx sc owner ps "(st, s)" arbitrary: st s st' s' rule: load_files.induct)
  case (2 env mx sc owner p ps st s)
  consider e where "read_skill_file (le_codec env) (le_now env) (le_bad env) (ks_disk s) sc owner p = Some (Inl e)"
    | k where "read_skill_file (le_codec env) (le_now env) (le_bad env) (ks_disk s) sc owner p = Some (Inr k)"
    using "2.prems" by (auto split: option.splits sum.splits)
  then show ?case
  proof cases
    case 1
    show ?thesis
    proof (cases "mx > 0 \<and> ls_failed (load_failed st) \<ge> mx")
      case True
      then show ?thesis using "2.prems" 1 by (auto simp: load_failed_def)
    next
      case False
      then have run: "load_files env mx sc owner ps (load_failed st, s) = Some (st', s')" using "2.prems" 1 by (auto split: if_splits)
      show ?thesis using "2.hyps"(1) [OF 1 refl False run] by (simp add: load_failed_def)
    qed
  next
    case 2
    obtain e k1 s1 where st: "store_skill (le_codec env) (le_faults env p) [] (le_now env) k s = (e, k1, s1)"
      by (rule prod_cases3)
    have ok: "skill_store_ok s1" if "skill_store_ok s"
      using skill_exec_ok [OF that, of "le_codec env" "KStore (le_faults env p) [] (le_now env) k"] st by simp
    show ?thesis
    proof (cases e)
      case None
      then have run: "load_files env mx sc owner ps (st\<lparr>ls_loaded := ls_loaded st + 1\<rparr>, s1) = Some (st', s')"
        using "2.prems" 2 st by simp
      show ?thesis using "2.hyps"(2) [OF 2 refl st [symmetric] None refl run] ok by simp
    next
      case (Some a)
      then have run: "load_files env mx sc owner ps (load_failed st, s1) = Some (st', s')" using "2.prems" 2 st by simp
      show ?thesis using "2.hyps"(3) [OF 2 refl st [symmetric] Some refl run] ok by (simp add: load_failed_def)
    qed
  qed
qed simp

text \<open>
  A load counts each file it found as loaded or failed and leaves none out, unless it stopped
  because the allowed number of failures was reached; and it keeps the store consistent.
\<close>

lemma loading_counts_every_file:
  assumes "load_from_path env glob sc owner p (Some tr) dur l = Some (Inr st, l')" and "\<not> ld_closed l"
    and "scan_skill_files (is_path_excluded glob (kc_excluded (kc_load (ld_cfg l)))) (kc_recursive (kc_load (ld_cfg l))) p tr = Inr fs"
  shows "ls_total st = int (length fs) \<and> int (ls_errors st) = ls_failed st \<and> ls_loaded st + ls_failed st \<le> ls_total st
    \<and> (ls_loaded st + ls_failed st < ls_total st \<longrightarrow>
         0 < kc_max_errors (kc_load (ld_cfg l)) \<and> kc_max_errors (kc_load (ld_cfg l)) \<le> ls_failed st)
    \<and> (skill_store_ok (ld_store l) \<longrightarrow> skill_store_ok (ld_store l'))"
proof -
  obtain st1 s1 where r: "load_files env (kc_max_errors (kc_load (ld_cfg l))) sc owner fs
      ((no_load_stats sc owner)\<lparr>ls_total := int (length fs)\<rparr>, ld_store l) = Some (st1, s1)"
    and "st = st1\<lparr>ls_duration := dur\<rparr>" "l' = l\<lparr>ld_store := s1\<rparr>"
    using assms by (auto simp: load_from_path_def Let_def split: option.splits)
  then show ?thesis using load_files_counts [OF r] by (simp add: no_load_stats_def)
qed

definition sample_loader :: loader where
  "sample_loader = \<lparr>ld_cfg = ks_cfg given_store,
     ld_store = given_store\<lparr>ks_disk := \<lparr>dk_files = [(''/src/SKILL.md'', ''x'')], dk_dirs = [''/src'']\<rparr>\<rparr>, ld_closed = False\<rparr>"

definition sample_load_env :: load_env where
  "sample_load_env = \<lparr>le_codec = given_codec, le_now = 5, le_bad = (\<lambda>p. False), le_faults = (\<lambda>p. no_faults)\<rparr>"

lemma loading_counts_every_file_witness:
  "map_option (map_sum (\<lambda>e. e) (\<lambda>st. (ls_total st, ls_loaded st + ls_failed st)) \<circ> fst)
     (load_from_path sample_load_env (\<lambda>pat n. False) ''user'' ''ann'' ''/src'' (Some (Dir [(''Skill.MD'', File), (''a.txt'', File)])) 1 sample_loader)
   = Some (Inr (1, 1))"
proof -
  let ?r = "load_from_path sample_load_env (\<lambda>pat n. False) ''user'' ''ann'' ''/src'' (Some (Dir [(''Skill.MD'', File), (''a.txt'', File)])) 1 sample_loader"
  have "\<not> isl (fst (the ?r)) \<and> ?r \<noteq> None" by code_simp
  then obtain st l' where r: "?r = Some (Inr st, l')" by (cases "the ?r"; cases "fst (the ?r)") auto
  have p: "\<not> ld_closed sample_loader"
    "scan_skill_files (is_path_excluded (\<lambda>pat n. False) (kc_excluded (kc_load (ld_cfg sample_loader)))) (kc_recursive (kc_load (ld_cfg sample_loader)))
       ''/src'' (Dir [(''Skill.MD'', File), (''a.txt'', File)]) = Inr [''/src/Skill.MD'']"
    "kc_max_errors (kc_load (ld_cfg sample_loader)) = 0" by code_simp+
  from loading_counts_every_file [OF r p(1,2)] p(3) show ?thesis unfolding r by auto
qed

end
