(* ===== verification/Go_Base64.thy ===== *)
theory Go_Base64
  imports Go_Strings Go_Types
begin

text \<open>
  encoding/base64: the standard encoding with padding.  The decoder skips line breaks, wants
  the padding, and does not look at the bits that the padding leaves unused.
\<close>

section \<open>The alphabet\<close>

definition b64_code :: "nat \<Rightarrow> nat" where
  "b64_code n = (if n < 26 then 65 + n else if n < 52 then 71 + n else if n < 62 then n - 4 else if n = 62 then 43 else 47)"

definition b64_char :: "nat \<Rightarrow> char" where
  "b64_char n = char_of (b64_code n)"

definition b64_value :: "char \<Rightarrow> nat option" where
  "b64_value c =
     (let n = of_char c :: nat
      in if 65 \<le> n \<and> n \<le> 90 then Some (n - 65)
         else if 97 \<le> n \<and> n \<le> 122 then Some (n - 71)
         else if 48 \<le> n \<and> n \<le> 57 then Some (n + 4)
         else if n = 43 then Some 62 else if n = 47 then Some 63 else None)"

definition b64_pad :: char where
  "b64_pad = CHR ''=''"

lemma b64_char_code: "n < 64 \<Longrightarrow> of_char (b64_char n) = b64_code n"
  by (simp add: b64_char_def b64_code_def)

lemma b64_code_range: "n < 64 \<Longrightarrow> 43 \<le> b64_code n \<and> b64_code n \<noteq> 61"
  by (auto simp: b64_code_def)

lemma special_codes: "of_char b64_pad = (61 :: nat)" "of_char newline = (10 :: nat)" "of_char (char_of (13 :: nat) :: char) = (13 :: nat)"
  by (simp_all add: b64_pad_def newline_def)

lemma b64_char:
  assumes "n < 64"
  shows "b64_value (b64_char n) = Some n" and "b64_char n \<noteq> b64_pad"
    and "b64_char n \<noteq> newline" and "b64_char n \<noteq> char_of (13 :: nat)"
proof -
  note c = b64_char_code [OF assms]
  show "b64_value (b64_char n) = Some n"
    unfolding b64_value_def c Let_def using assms by (auto simp: b64_code_def)
  show "b64_char n \<noteq> b64_pad" "b64_char n \<noteq> newline" "b64_char n \<noteq> char_of (13 :: nat)"
    using b64_code_range [OF assms] c special_codes by auto
qed

lemma b64_pad_no_break: "b64_pad \<noteq> newline" "b64_pad \<noteq> char_of (13 :: nat)"
proof -
  have "of_char b64_pad \<noteq> (of_char newline :: nat)" "of_char b64_pad \<noteq> (of_char (char_of (13 :: nat) :: char) :: nat)"
    unfolding special_codes by simp_all
  then show "b64_pad \<noteq> newline" "b64_pad \<noteq> char_of (13 :: nat)" by metis+
qed

section \<open>Encoding and decoding\<close>

abbreviation byte :: "char \<Rightarrow> nat" where
  "byte c \<equiv> of_char c"

fun b64_encode :: "string \<Rightarrow> string" where
  "b64_encode [] = []"
| "b64_encode [a] = [b64_char (byte a div 4), b64_char (byte a mod 4 * 16), b64_pad, b64_pad]"
| "b64_encode [a, b] =
     [b64_char (byte a div 4), b64_char (byte a mod 4 * 16 + byte b div 16), b64_char (byte b mod 16 * 4), b64_pad]"
| "b64_encode (a # b # c # s) =
     b64_char (byte a div 4) # b64_char (byte a mod 4 * 16 + byte b div 16)
     # b64_char (byte b mod 16 * 4 + byte c div 64) # b64_char (byte c mod 64) # b64_encode s"

fun b64_quads :: "string \<Rightarrow> string option" where
  "b64_quads [] = Some []"
| "b64_quads (a # b # c # d # s) =
     (case (b64_value a, b64_value b) of
        (Some p, Some q) \<Rightarrow>
          if c = b64_pad then (if d = b64_pad \<and> s = [] then Some [char_of (p * 4 + q div 16)] else None)
          else
            (case b64_value c of
               None \<Rightarrow> None
             | Some r \<Rightarrow>
                 if d = b64_pad
                 then (if s = [] then Some [char_of (p * 4 + q div 16), char_of (q mod 16 * 16 + r div 4)] else None)
                 else
                   (case b64_value d of
                      None \<Rightarrow> None
                    | Some t \<Rightarrow>
                        map_option (\<lambda>u. char_of (p * 4 + q div 16) # char_of (q mod 16 * 16 + r div 4)
                                         # char_of (r mod 4 * 64 + t) # u)
                          (b64_quads s)))
      | _ \<Rightarrow> None)"
| "b64_quads _ = None"

definition b64_decode :: "string \<Rightarrow> string option" where
  "b64_decode s = b64_quads (filter (\<lambda>c. c \<noteq> newline \<and> c \<noteq> char_of (13 :: nat)) s)"

section \<open>The round trip\<close>

lemma sextets:
  fixes x y z :: nat
  assumes "x < 256" and "y < 256" and "z < 256"
  shows "x div 4 < 64" and "x mod 4 * 16 + y div 16 < 64" and "y mod 16 * 4 + z div 64 < 64" and "z mod 64 < 64"
    and "x div 4 * 4 + (x mod 4 * 16 + y div 16) div 16 = x"
    and "(x mod 4 * 16 + y div 16) mod 16 * 16 + (y mod 16 * 4 + z div 64) div 4 = y"
    and "(y mod 16 * 4 + z div 64) mod 4 * 64 + z mod 64 = z"
proof -
  show "x div 4 < 64" "z mod 64 < 64" using assms by simp_all
  have y: "y div 16 < 16" and z: "z div 64 < 4" using assms by simp_all
  have x4: "x mod 4 < 4" and y16: "y mod 16 < 16" by simp_all
  show "x mod 4 * 16 + y div 16 < 64" "y mod 16 * 4 + z div 64 < 64" using x4 y16 y z by linarith+
  have "(x mod 4 * 16 + y div 16) div 16 = x mod 4" using y by simp
  then show "x div 4 * 4 + (x mod 4 * 16 + y div 16) div 16 = x" by simp
  have "(x mod 4 * 16 + y div 16) mod 16 = y div 16" "(y mod 16 * 4 + z div 64) div 4 = y mod 16" using y z by simp_all
  then show "(x mod 4 * 16 + y div 16) mod 16 * 16 + (y mod 16 * 4 + z div 64) div 4 = y" by simp
  have "(y mod 16 * 4 + z div 64) mod 4 = z div 64" using z by simp
  then show "(y mod 16 * 4 + z div 64) mod 4 * 64 + z mod 64 = z" by simp
qed

lemma zero_byte: "(0 :: nat) < 256"
  by simp

lemma b64_quads_encode: "b64_quads (b64_encode s) = Some s"
proof (induction s rule: b64_encode.induct)
  case (2 a)
  have "byte a div 4 < 64" "byte a mod 4 * 16 < 64" "byte a div 4 * 4 + byte a mod 4 * 16 div 16 = byte a"
    using sextets [of "byte a" 0 0] by auto
  then show ?case by (simp add: b64_char)
next
  case (3 a b)
  note s = sextets [OF nat_of_char_less_256 [of a] nat_of_char_less_256 [of b] zero_byte, unfolded div_0 mod_0 add_0_right]
  show ?case
    by (simp only: b64_encode.simps b64_quads.simps b64_char [OF s(1)] b64_char [OF s(2)] b64_char [OF s(3)]
        option.case prod.case if_False if_True HOL.simp_thms s(5,6) char_of_char)
next
  case (4 a b c s)
  note s = sextets [OF nat_of_char_less_256 [of a] nat_of_char_less_256 [of b] nat_of_char_less_256 [of c]]
  show ?case
    by (simp only: b64_encode.simps b64_quads.simps b64_char [OF s(1)] b64_char [OF s(2)] b64_char [OF s(3)] b64_char [OF s(4)]
        option.case prod.case if_False HOL.simp_thms s(5-7) char_of_char 4 option.map)
qed simp

definition b64_letter :: "char \<Rightarrow> bool" where
  "b64_letter c \<longleftrightarrow> c \<noteq> newline \<and> c \<noteq> char_of (13 :: nat)"

lemma b64_letters: "b64_letter b64_pad" "n < 64 \<Longrightarrow> b64_letter (b64_char n)"
  using b64_pad_no_break b64_char(3,4) by (simp_all add: b64_letter_def)

lemma b64_encode_letters: "list_all b64_letter (b64_encode s)"
proof (induction s rule: b64_encode.induct)
  case (2 a)
  have "byte a div 4 < 64" "byte a mod 4 * 16 < 64" using sextets [of "byte a" 0 0] by auto
  then show ?case by (simp only: b64_encode.simps list.pred_inject b64_letters HOL.simp_thms)
next
  case (3 a b)
  note s = sextets(1-3) [OF nat_of_char_less_256 [of a] nat_of_char_less_256 [of b] zero_byte, unfolded div_0 add_0_right]
  show ?case by (simp only: b64_encode.simps list.pred_inject b64_letters(1) s [THEN b64_letters(2)] HOL.simp_thms)
next
  case (4 a b c s)
  note s = sextets(1-4) [OF nat_of_char_less_256 [of a] nat_of_char_less_256 [of b] nat_of_char_less_256 [of c]]
  show ?case by (simp only: b64_encode.simps list.pred_inject s [THEN b64_letters(2)] 4 HOL.simp_thms)
qed simp

lemma b64_encode_no_breaks: "filter (\<lambda>c. c \<noteq> newline \<and> c \<noteq> char_of (13 :: nat)) (b64_encode s) = b64_encode s"
  using b64_encode_letters [of s] by (simp add: b64_letter_def list_all_iff)

lemma b64_round_trip [simp]: "b64_decode (b64_encode s) = Some s"
  by (simp only: b64_decode_def b64_encode_no_breaks b64_quads_encode)

end
