(* ===== verification/Credential_Store.thy ===== *)
theory Credential_Store
  imports Go_Base64 Go_Files
begin

text \<open>
  pkg/credentials/store.go: the store of credentials.  A credential is an object that the store
  shares with the caller who stored it, so the store maps identifiers to references into a heap.
  The cipher and the JSON codec are parameters; random bytes, the clock, the identifier drawn and
  what the disk answers are arguments.  A method is one step under its lock; the update of the
  access statistics that a read starts is a step of its own.
\<close>

section \<open>State\<close>

record credential =
  cr_id :: string
  cr_name :: string
  cr_type :: string
  cr_value :: string
  cr_metadata :: "(string, string) gomap"
  cr_created :: timestamp
  cr_updated :: timestamp
  cr_expires :: timestamp
  cr_last_used :: timestamp
  cr_access_count :: int
  cr_tags :: "string list"

record credentials_config =
  xc_store_path :: string
  xc_encryption_enabled :: bool
  xc_key_rotation_days :: int
  xc_max_credential_age :: int

type_synonym cred_ref = nat

record cred_store =
  cs_creds :: "(string, cred_ref) gomap"
  cs_heap :: "cred_ref \<Rightarrow> credential"
  cs_next :: cred_ref
  cs_cfg :: credentials_config
  cs_key :: string
  cs_gcm :: string
  cs_closed :: bool
  cs_disk :: disk

text \<open>
  The cipher \<open>cipher.AEAD\<close> by its key: \<open>Seal\<close> of a nonce and a text, \<open>Open\<close> of a nonce and a sealed
  text; and the JSON of the map of credentials.
\<close>

record cred_crypto =
  cx_seal :: "string \<Rightarrow> string \<Rightarrow> string \<Rightarrow> string"
  cx_open :: "string \<Rightarrow> string \<Rightarrow> string \<Rightarrow> string option"
  cx_marshal :: "(string \<times> credential) list \<Rightarrow> string result"
  cx_unmarshal :: "string \<Rightarrow> go_error option \<times> (string \<times> credential) list"

definition upd_cred :: "cred_ref \<Rightarrow> (credential \<Rightarrow> credential) \<Rightarrow> cred_store \<Rightarrow> cred_store" where
  "upd_cred r f s = s\<lparr>cs_heap := (cs_heap s)(r := f (cs_heap s r))\<rparr>"

text \<open>A new object, of a caller or of the store.\<close>

definition alloc_cred :: "credential \<Rightarrow> cred_store \<Rightarrow> cred_ref \<times> cred_store" where
  "alloc_cred c s = (cs_next s, s\<lparr>cs_heap := (cs_heap s)(cs_next s := c), cs_next := Suc (cs_next s)\<rparr>)"

definition stored_creds :: "cred_store \<Rightarrow> (string \<times> credential) list" where
  "stored_creds s = map (\<lambda>(i, r). (i, cs_heap s r)) (cs_creds s)"

definition cred_expired :: "timestamp \<Rightarrow> credential \<Rightarrow> bool" where
  "cred_expired now c \<longleftrightarrow> \<not> ts_is_zero (cr_expires c) \<and> cr_expires c < now"

definition cred_expiring :: "timestamp \<Rightarrow> duration \<Rightarrow> credential \<Rightarrow> bool" where
  "cred_expiring now within c \<longleftrightarrow> \<not> ts_is_zero (cr_expires c) \<and> cr_expires c < now + within"

section \<open>Encryption\<close>

text \<open>The nonce is read from the random source, which may yield too little.\<close>

definition nonce_size :: nat where
  "nonce_size = 12"

definition read_full :: "nat \<Rightarrow> string \<Rightarrow> string result" where
  "read_full n random = (if length random < n then Inl (PlainErr ''unexpected EOF'') else Inr (take n random))"

definition encrypt_value :: "cred_crypto \<Rightarrow> string \<Rightarrow> string \<Rightarrow> cred_store \<Rightarrow> string result" where
  "encrypt_value cx random p s =
     (if \<not> xc_encryption_enabled (cs_cfg s) then Inr p
      else
        (case read_full nonce_size random of
           Inl e \<Rightarrow> Inl (wrap_error ErrInternal e)
         | Inr n \<Rightarrow> Inr (b64_encode (n @ cx_seal cx (cs_gcm s) n p))))"

definition decrypt_with_gcm :: "cred_crypto \<Rightarrow> string \<Rightarrow> string \<Rightarrow> cred_store \<Rightarrow> string result" where
  "decrypt_with_gcm cx gcm c s =
     (if \<not> xc_encryption_enabled (cs_cfg s) then Inr c
      else
        (case b64_decode c of
           None \<Rightarrow> Inl (wrap_error ErrInternal (PlainErr ''illegal base64 data''))
         | Some d \<Rightarrow>
             if length d < nonce_size then Inl (new_error ErrInternal)
             else
               (case cx_open cx gcm (take nonce_size d) (drop nonce_size d) of
                  None \<Rightarrow> Inl (wrap_error ErrPermission (PlainErr ''message authentication failed''))
                | Some p \<Rightarrow> Inr p)))"

definition decrypt_value :: "cred_crypto \<Rightarrow> string \<Rightarrow> cred_store \<Rightarrow> string result" where
  "decrypt_value cx c s = decrypt_with_gcm cx (cs_gcm s) c s"

section \<open>Files\<close>

definition cred_key_path :: "credentials_config \<Rightarrow> string" where
  "cred_key_path cfg = path_join [path_dir (xc_store_path cfg), ''.cred_key'']"

definition save_creds :: "cred_crypto \<Rightarrow> save_faults \<Rightarrow> cred_store \<Rightarrow> go_error option \<times> cred_store" where
  "save_creds cx f s =
     (case cx_marshal cx (stored_creds s) of
        Inl e \<Rightarrow> (Some (wrap_error ErrInternal e), s)
      | Inr d \<Rightarrow>
          (case write_then_rename f (xc_store_path (cs_cfg s)) d (cs_disk s) of
             (r, d') \<Rightarrow> (r, s\<lparr>cs_disk := d'\<rparr>)))"

text \<open>
  \<open>bad\<close> says which paths cannot be read.  What \<open>Unmarshal\<close> has decoded before an error stays in the map.
\<close>

definition load_creds :: "cred_crypto \<Rightarrow> (string \<Rightarrow> bool) \<Rightarrow> cred_store \<Rightarrow> go_error option \<times> cred_store" where
  "load_creds cx bad s =
     (let p = xc_store_path (cs_cfg s)
      in if bad p then (Some (wrap_error ErrInternal (PlainErr ''read'')), s)
         else
           (case mget (dk_files (cs_disk s)) p of
              None \<Rightarrow> (None, s)
            | Some d \<Rightarrow>
                (case cx_unmarshal cx d of
                   (e, m) \<Rightarrow>
                     (map_option (wrap_error ErrInternal) e,
                      s\<lparr>cs_creds := zip (map fst m) [0..<length m], cs_next := length m,
                        cs_heap := (\<lambda>r. if r < length m then snd (m ! r) else cs_heap s r)\<rparr>))))"

text \<open>
  The key on the disk, or a new one.  A key that cannot be read is replaced.  \<open>fault\<close> is an error of
  \<open>WriteFile\<close>, with what it left of the file if it touched it.
\<close>

definition write_key :: "(go_error \<times> string option) option \<Rightarrow> string \<Rightarrow> string \<Rightarrow> disk \<Rightarrow> go_error option \<times> disk" where
  "write_key fault p k d =
     (case fault of
        Some (e, torn) \<Rightarrow> (Some (wrap_error ErrInternal e), (case torn of None \<Rightarrow> d | Some t \<Rightarrow> disk_write p t d))
      | None \<Rightarrow> (None, disk_write p k d))"

definition get_or_create_key ::
    "string \<Rightarrow> (string \<Rightarrow> bool) \<Rightarrow> (go_error \<times> string option) option \<Rightarrow> credentials_config \<Rightarrow> disk \<Rightarrow> string result \<times> disk" where
  "get_or_create_key random bad fault cfg d =
     (let p = cred_key_path cfg
      in case (if bad p then None else mget (dk_files d) p) of
           Some k \<Rightarrow> (if length k = 32 then Inr k else Inl (new_error ErrInternal), d)
         | None \<Rightarrow>
             (case read_full 32 random of
                Inl e \<Rightarrow> (Inl (wrap_error ErrInternal e), d)
              | Inr k \<Rightarrow>
                  (case write_key fault p k d of
                     (Some e, d') \<Rightarrow> (Inl e, d')
                   | (None, d') \<Rightarrow> (Inr k, d'))))"

definition zero_credential :: credential where
  "zero_credential = \<lparr>cr_id = '''', cr_name = '''', cr_type = '''', cr_value = '''', cr_metadata = [], cr_created = 0,
     cr_updated = 0, cr_expires = 0, cr_last_used = 0, cr_access_count = 0, cr_tags = []\<rparr>"

definition empty_cred_store :: "credentials_config \<Rightarrow> string \<Rightarrow> disk \<Rightarrow> cred_store" where
  "empty_cred_store cfg k d =
     \<lparr>cs_creds = [], cs_heap = (\<lambda>_. zero_credential), cs_next = 0, cs_cfg = cfg, cs_key = k, cs_gcm = k,
      cs_closed = False, cs_disk = d\<rparr>"

text \<open>\<open>NewStore\<close>.  A failed load is logged and the store goes on with what it has.\<close>

definition new_cred_store ::
    "cred_crypto \<Rightarrow> go_error option \<Rightarrow> string \<Rightarrow> (string \<Rightarrow> bool) \<Rightarrow> (go_error \<times> string option) option
      \<Rightarrow> credentials_config \<Rightarrow> disk \<Rightarrow> cred_store result \<times> disk" where
  "new_cred_store cx mkdir random bad fault cfg d =
     (case mkdir of
        Some e \<Rightarrow> (Inl (wrap_error ErrInternal e), d)
      | None \<Rightarrow>
          let d1 = disk_mkdir_all (path_dir (xc_store_path cfg)) d
          in case get_or_create_key random bad fault cfg d1 of
               (Inl e, d2) \<Rightarrow> (Inl (wrap_error ErrInternal e), d2)
             | (Inr k, d2) \<Rightarrow>
                 let s = snd (load_creds cx bad (empty_cred_store cfg k d2))
                 in (Inr s, cs_disk s))"

section \<open>Operations\<close>

text \<open>
  \<open>Store\<close> of the object \<open>r\<close>.  An existing credential takes the fields of the caller's; a new one is the
  caller's object itself, whose value is replaced by its sealed form.
\<close>

definition overwrite_cred :: "timestamp \<Rightarrow> credential \<Rightarrow> credential \<Rightarrow> credential" where
  "overwrite_cred now c old =
     old\<lparr>cr_name := cr_name c, cr_type := cr_type c, cr_metadata := cr_metadata c, cr_updated := now,
         cr_expires := cr_expires c, cr_tags := cr_tags c\<rparr>"

definition store_cred ::
    "cred_crypto \<Rightarrow> save_faults \<Rightarrow> string \<Rightarrow> timestamp \<Rightarrow> string \<Rightarrow> cred_ref \<Rightarrow> cred_store \<Rightarrow> go_error option \<times> cred_store" where
  "store_cred cx f gid now random r s =
     (if cs_closed s then (Some (new_error ErrUnavailable), s)
      else
        let s1 = (if cr_id (cs_heap s r) = '''' then upd_cred r (\<lambda>c. c\<lparr>cr_id := gid\<rparr>) s else s);
            i = cr_id (cs_heap s1 r)
        in if cr_name (cs_heap s1 r) = '''' then (Some (new_error ErrInvalidArgument), s1)
           else
             (case mget (cs_creds s1) i of
                Some e \<Rightarrow>
                  let s2 = upd_cred e (overwrite_cred now (cs_heap s1 r)) s1
                  in (case encrypt_value cx random (cr_value (cs_heap s2 r)) s2 of
                        Inl x \<Rightarrow> (Some x, s2)
                      | Inr v \<Rightarrow> save_creds cx f (upd_cred e (\<lambda>c. c\<lparr>cr_value := v\<rparr>) s2))
              | None \<Rightarrow>
                  let s2 = upd_cred r (\<lambda>c. c\<lparr>cr_created := now, cr_updated := now\<rparr>) s1
                  in (case encrypt_value cx random (cr_value (cs_heap s2 r)) s2 of
                        Inl x \<Rightarrow> (Some x, s2)
                      | Inr v \<Rightarrow>
                          let s3 = upd_cred r (\<lambda>c. c\<lparr>cr_value := v\<rparr>) s2
                          in save_creds cx f (s3\<lparr>cs_creds := mput i r (cs_creds s3)\<rparr>))))"

definition get_cred :: "cred_crypto \<Rightarrow> timestamp \<Rightarrow> string \<Rightarrow> cred_store \<Rightarrow> credential result" where
  "get_cred cx now i s =
     (if cs_closed s then Inl (new_error ErrUnavailable)
      else
        (case mget (cs_creds s) i of
           None \<Rightarrow> Inl (new_error ErrNotFound)
         | Some r \<Rightarrow>
             let c = cs_heap s r
             in if cred_expired now c then Inl (new_error ErrPermission)
                else
                  (case decrypt_value cx (cr_value c) s of
                     Inl e \<Rightarrow> Inl e
                   | Inr v \<Rightarrow> Inr (c\<lparr>cr_value := v\<rparr>))))"

text \<open>The first credential of the name in the order of the map.\<close>

definition find_by_name :: "string \<Rightarrow> cred_store \<Rightarrow> (string \<times> cred_ref) option" where
  "find_by_name n s = find (\<lambda>(i, r). cr_name (cs_heap s r) = n) (cs_creds s)"

definition get_cred_by_name :: "cred_crypto \<Rightarrow> timestamp \<Rightarrow> string \<Rightarrow> cred_store \<Rightarrow> credential result" where
  "get_cred_by_name cx now n s =
     (if cs_closed s then Inl (new_error ErrUnavailable)
      else
        (case find_by_name n s of
           None \<Rightarrow> Inl (new_error ErrNotFound)
         | Some (i, r) \<Rightarrow>
             let c = cs_heap s r
             in if cred_expired now c then Inl (new_error ErrPermission)
                else
                  (case decrypt_value cx (cr_value c) s of
                     Inl e \<Rightarrow> Inl (wrap_error ErrInternal e)
                   | Inr v \<Rightarrow> Inr (c\<lparr>cr_value := v\<rparr>))))"

definition update_access_stats :: "timestamp \<Rightarrow> string \<Rightarrow> cred_store \<Rightarrow> cred_store" where
  "update_access_stats now i s =
     (case mget (cs_creds s) i of
        None \<Rightarrow> s
      | Some r \<Rightarrow> upd_cred r (\<lambda>c. c\<lparr>cr_last_used := now, cr_access_count := cr_access_count c + 1\<rparr>) s)"

definition list_creds :: "cred_store \<Rightarrow> credential list result" where
  "list_creds s =
     (if cs_closed s then Inl (new_error ErrUnavailable)
      else Inr (map (\<lambda>(i, c). c\<lparr>cr_value := ''***REDACTED***''\<rparr>) (stored_creds s)))"

definition delete_cred :: "cred_crypto \<Rightarrow> save_faults \<Rightarrow> string \<Rightarrow> cred_store \<Rightarrow> go_error option \<times> cred_store" where
  "delete_cred cx f i s =
     (if cs_closed s then (Some (new_error ErrUnavailable), s)
      else if mget (cs_creds s) i = None then (Some (new_error ErrNotFound), s)
      else save_creds cx f (s\<lparr>cs_creds := mdel i (cs_creds s)\<rparr>))"

section \<open>Rotation of the key\<close>

text \<open>
  The loop re-encrypts in the order of the map and stops at the first failure; what it has done
  until then stays.  The cipher of the store is the new one meanwhile.
\<close>

fun reencrypt :: "cred_crypto \<Rightarrow> string \<Rightarrow> (string \<Rightarrow> string) \<Rightarrow> (string \<times> cred_ref) list \<Rightarrow> cred_store \<Rightarrow> go_error option \<times> cred_store" where
  "reencrypt cx old random [] s = (None, s)"
| "reencrypt cx old random ((i, r) # irs) s =
     (case decrypt_with_gcm cx old (cr_value (cs_heap s r)) s of
        Inl e \<Rightarrow> (Some (wrap_error ErrInternal e), s)
      | Inr p \<Rightarrow>
          (case encrypt_value cx (random i) p s of
             Inl e \<Rightarrow> (Some (wrap_error ErrInternal e), s)
           | Inr v \<Rightarrow> reencrypt cx old random irs (upd_cred r (\<lambda>c. c\<lparr>cr_value := v\<rparr>) s)))"

definition rotate_key ::
    "cred_crypto \<Rightarrow> string \<Rightarrow> (string \<Rightarrow> string) \<Rightarrow> (go_error \<times> string option) option \<Rightarrow> save_faults \<Rightarrow> cred_store
      \<Rightarrow> go_error option \<times> cred_store" where
  "rotate_key cx key_random random key_fault f s =
     (if cs_closed s then (Some (new_error ErrUnavailable), s)
      else
        (case read_full 32 key_random of
           Inl e \<Rightarrow> (Some (wrap_error ErrInternal e), s)
         | Inr k \<Rightarrow>
             (case reencrypt cx (cs_gcm s) random (cs_creds s) (s\<lparr>cs_gcm := k\<rparr>) of
                (Some e, s1) \<Rightarrow> (Some e, s1\<lparr>cs_gcm := cs_gcm s\<rparr>)
              | (None, s1) \<Rightarrow>
                  (case write_key key_fault (cred_key_path (cs_cfg s)) k (cs_disk s1) of
                     (Some e, d) \<Rightarrow> (Some e, s1\<lparr>cs_key := k, cs_disk := d\<rparr>)
                   | (None, d) \<Rightarrow> save_creds cx f (s1\<lparr>cs_key := k, cs_disk := d\<rparr>)))))"

section \<open>Upkeep\<close>

definition cleanup_expired :: "cred_crypto \<Rightarrow> save_faults \<Rightarrow> timestamp \<Rightarrow> cred_store \<Rightarrow> (int \<times> go_error option) \<times> cred_store" where
  "cleanup_expired cx f now s =
     (if cs_closed s then ((0, Some (new_error ErrUnavailable)), s)
      else
        let kept = filter (\<lambda>(i, r). \<not> cred_expired now (cs_heap s r)) (cs_creds s);
            count = mlen (cs_creds s) - mlen kept;
            s1 = s\<lparr>cs_creds := kept\<rparr>
        in if count > 0 then (case save_creds cx f s1 of (e, s2) \<Rightarrow> ((count, e), s2)) else ((count, None), s1))"

record cred_stats =
  cq_total :: int
  cq_expired :: int
  cq_expiring :: int
  cq_access_count :: int
  cq_encryption_enabled :: bool

definition one_week :: duration where
  "one_week = 7 * 24 * 3600 * 1000000000"

definition count_cred :: "timestamp \<Rightarrow> string \<times> credential \<Rightarrow> cred_stats \<Rightarrow> cred_stats" where
  "count_cred now ic st =
     (let st1 = (if cred_expired now (snd ic) then st\<lparr>cq_expired := cq_expired st + 1\<rparr>
                 else if cred_expiring now one_week (snd ic) then st\<lparr>cq_expiring := cq_expiring st + 1\<rparr> else st)
      in st1\<lparr>cq_access_count := cq_access_count st + cr_access_count (snd ic)\<rparr>)"

definition cred_stats_of :: "timestamp \<Rightarrow> cred_store \<Rightarrow> cred_stats result" where
  "cred_stats_of now s =
     (if cs_closed s then Inl (new_error ErrUnavailable)
      else Inr (fold (count_cred now) (stored_creds s)
                  \<lparr>cq_total = mlen (cs_creds s), cq_expired = 0, cq_expiring = 0, cq_access_count = 0,
                   cq_encryption_enabled = xc_encryption_enabled (cs_cfg s)\<rparr>))"

definition close_cred_store :: "cred_crypto \<Rightarrow> save_faults \<Rightarrow> cred_store \<Rightarrow> go_error option \<times> cred_store" where
  "close_cred_store cx f s =
     (if cs_closed s then (None, s)
      else
        (case save_creds cx f s of
           (Some e, s1) \<Rightarrow> (Some e, s1)
         | (None, s1) \<Rightarrow> (None, s1\<lparr>cs_closed := True\<rparr>)))"

section \<open>Keys of LLM providers\<close>

definition llm_cred_name :: "string \<Rightarrow> string" where
  "llm_cred_name p = ''llm/'' @ p"

definition llm_key_type :: string where
  "llm_key_type = ''llm_api_key''"

text \<open>An empty identifier counts as none.\<close>

definition find_id_by_name :: "string \<Rightarrow> cred_store \<Rightarrow> (string \<times> cred_ref) option" where
  "find_id_by_name n s =
     (case find_by_name n s of None \<Rightarrow> None | Some (i, r) \<Rightarrow> if i = '''' then None else Some (i, r))"

definition store_llm_cred ::
    "cred_crypto \<Rightarrow> save_faults \<Rightarrow> string \<Rightarrow> timestamp \<Rightarrow> string \<Rightarrow> string \<Rightarrow> string \<Rightarrow> cred_store \<Rightarrow> go_error option \<times> cred_store" where
  "store_llm_cred cx f gid now random provider key s =
     (if provider = '''' \<or> key = '''' then (Some (new_error ErrInvalidArgument), s)
      else if cs_closed s then (Some (new_error ErrUnavailable), s)
      else
        (case find_id_by_name (llm_cred_name provider) s of
           Some (i, e) \<Rightarrow>
             let s1 = upd_cred e (\<lambda>c. c\<lparr>cr_name := llm_cred_name provider, cr_type := llm_key_type,
                        cr_metadata := [(''provider'', provider)], cr_updated := now, cr_tags := [''llm'', provider]\<rparr>) s
             in (case encrypt_value cx random key s1 of
                   Inl x \<Rightarrow> (Some x, s1)
                 | Inr v \<Rightarrow> save_creds cx f (upd_cred e (\<lambda>c. c\<lparr>cr_value := v\<rparr>) s1))
         | None \<Rightarrow>
             (case encrypt_value cx random key s of
                Inl x \<Rightarrow> (Some x, s)
              | Inr v \<Rightarrow>
                  let (r, s1) = alloc_cred (zero_credential\<lparr>cr_id := gid, cr_name := llm_cred_name provider,
                        cr_type := llm_key_type, cr_value := v, cr_metadata := [(''provider'', provider)],
                        cr_tags := [''llm'', provider], cr_created := now, cr_updated := now\<rparr>) s
                  in save_creds cx f (s1\<lparr>cs_creds := mput gid r (cs_creds s1)\<rparr>))))"

definition get_llm_cred :: "cred_crypto \<Rightarrow> timestamp \<Rightarrow> string \<Rightarrow> cred_store \<Rightarrow> string result" where
  "get_llm_cred cx now provider s =
     (if provider = '''' then Inl (new_error ErrInvalidArgument)
      else
        (case get_cred_by_name cx now (llm_cred_name provider) s of
           Inl e \<Rightarrow> Inl (if is_err_code e ErrNotFound then new_error ErrNotFound else e)
         | Inr c \<Rightarrow> Inr (cr_value c)))"

definition list_llm_providers :: "cred_store \<Rightarrow> string list result" where
  "list_llm_providers s =
     (if cs_closed s then Inl (new_error ErrUnavailable)
      else Inr (remdups (List.map_filter (\<lambda>(i, c). if cr_type c = llm_key_type then mget (cr_metadata c) ''provider'' else None)
                           (stored_creds s))))"

definition has_llm_cred :: "timestamp \<Rightarrow> string \<Rightarrow> cred_store \<Rightarrow> bool result" where
  "has_llm_cred now provider s =
     (if provider = '''' then Inl (new_error ErrInvalidArgument)
      else if cs_closed s then Inl (new_error ErrUnavailable)
      else
        (case find_by_name (llm_cred_name provider) s of
           None \<Rightarrow> Inr False
         | Some (i, r) \<Rightarrow> Inr (\<not> cred_expired now (cs_heap s r))))"

definition delete_llm_cred :: "cred_crypto \<Rightarrow> save_faults \<Rightarrow> string \<Rightarrow> cred_store \<Rightarrow> go_error option \<times> cred_store" where
  "delete_llm_cred cx f provider s =
     (if provider = '''' then (Some (new_error ErrInvalidArgument), s)
      else if cs_closed s then (Some (new_error ErrUnavailable), s)
      else
        (case find_id_by_name (llm_cred_name provider) s of
           None \<Rightarrow> (Some (new_error ErrNotFound), s)
         | Some (i, r) \<Rightarrow> save_creds cx f (s\<lparr>cs_creds := mdel i (cs_creds s)\<rparr>)))"

end
