(* ===== verification/Credential_Proofs.thy ===== *)
theory Credential_Proofs
  imports Credential_Store
begin

text \<open>
  Properties of the credential store: its runs, what a rotation of the key does to the values, what a
  restart finds, and what becomes of an object that is stored twice.
\<close>

section \<open>What is assumed of cipher and codec\<close>

text \<open>Opening what was sealed under the same key and nonce, and reading what was written.\<close>

definition crypto_ok :: "cred_crypto \<Rightarrow> bool" where
  "crypto_ok cx \<longleftrightarrow>
     (\<forall>k n p. length n = nonce_size \<longrightarrow> cx_open cx k n (cx_seal cx k n p) = Some p)
     \<and> (\<forall>m d. cx_marshal cx m = Inr d \<longrightarrow> cx_unmarshal cx d = (None, m))"

text \<open>Another key does not open it.\<close>

definition key_matters :: "cred_crypto \<Rightarrow> bool" where
  "key_matters cx \<longleftrightarrow> (\<forall>k k' n p. k \<noteq> k' \<longrightarrow> cx_open cx k' n (cx_seal cx k n p) = None)"

lemma encrypted_form:
  assumes "encrypt_value cx rnd p s = Inr v" and "xc_encryption_enabled (cs_cfg s)"
  shows "length (take nonce_size rnd) = nonce_size"
    and "v = b64_encode (take nonce_size rnd @ cx_seal cx (cs_gcm s) (take nonce_size rnd) p)"
  using assms by (auto simp: encrypt_value_def read_full_def split: if_splits)

lemma decrypt_encrypted:
  assumes "crypto_ok cx" and "encrypt_value cx rnd p s = Inr v"
  shows "decrypt_value cx v s = Inr p"
proof (cases "xc_encryption_enabled (cs_cfg s)")
  case True
  note f = encrypted_form [OF assms(2) True]
  show ?thesis
    using True assms(1) f(1) unfolding f(2) by (simp add: decrypt_value_def decrypt_with_gcm_def crypto_ok_def)
qed (use assms(2) in \<open>simp_all add: encrypt_value_def decrypt_value_def decrypt_with_gcm_def\<close>)

lemma decrypt_other_key:
  assumes "key_matters cx" and "encrypt_value cx rnd p s = Inr v" and "xc_encryption_enabled (cs_cfg s)" and "k \<noteq> cs_gcm s"
  shows "\<exists>e. decrypt_with_gcm cx k v s = Inl e"
proof -
  note f = encrypted_form [OF assms(2,3)]
  have "cx_open cx k n (cx_seal cx (cs_gcm s) n p) = None" for n
    using assms(1,4) by (metis key_matters_def)
  then show ?thesis using assms(3) f(1) unfolding f(2) by (simp add: decrypt_with_gcm_def)
qed

lemma encrypt_enough: "nonce_size \<le> length rnd \<Longrightarrow> \<exists>v. encrypt_value cx rnd p s = Inr v"
  by (simp add: encrypt_value_def read_full_def)

lemma decrypt_cfg: "cs_cfg s = cs_cfg s' \<Longrightarrow> decrypt_with_gcm cx g c s = decrypt_with_gcm cx g c s'"
  by (simp add: decrypt_with_gcm_def)

section \<open>Consistency\<close>

definition cred_ok :: "cred_store \<Rightarrow> bool" where
  "cred_ok s \<longleftrightarrow> mwf (cs_creds s) \<and> (\<forall>(i, r) \<in> set (cs_creds s). r < cs_next s \<and> cr_id (cs_heap s r) = i)"

lemma cred_okD:
  assumes "cred_ok s" and "mget (cs_creds s) i = Some r"
  shows "r < cs_next s" and "cr_id (cs_heap s r) = i"
  using assms mget_in_set [OF assms(2)] by (auto simp: cred_ok_def)

lemma cred_ref_unique:
  assumes "cred_ok s" and "mget (cs_creds s) i = Some r" and "mget (cs_creds s) j = Some r"
  shows "i = j"
  using cred_okD(2) [OF assms(1,2)] cred_okD(2) [OF assms(1,3)] by simp

lemma cred_refs_distinct: "cred_ok s \<Longrightarrow> distinct (map snd (cs_creds s))"
proof -
  assume ok: "cred_ok s"
  have "distinct (cs_creds s)" using ok by (simp add: cred_ok_def mwf_def distinct_map)
  moreover have "p = q" if "p \<in> set (cs_creds s)" "q \<in> set (cs_creds s)" "snd p = snd q" for p q
    using ok that unfolding cred_ok_def by (cases p, cases q) fastforce
  ultimately show ?thesis by (simp add: distinct_map inj_on_def)
qed

lemma upd_cred_fields [simp]:
  "cs_creds (upd_cred r f s) = cs_creds s" "cs_next (upd_cred r f s) = cs_next s" "cs_cfg (upd_cred r f s) = cs_cfg s"
  "cs_key (upd_cred r f s) = cs_key s" "cs_gcm (upd_cred r f s) = cs_gcm s" "cs_closed (upd_cred r f s) = cs_closed s"
  "cs_disk (upd_cred r f s) = cs_disk s" "cs_heap (upd_cred r f s) q = (if q = r then f (cs_heap s r) else cs_heap s q)"
  by (simp_all add: upd_cred_def)

lemma save_creds_fields:
  assumes "save_creds cx f s = (e, s')"
  shows "s' = s\<lparr>cs_disk := cs_disk s'\<rparr>"
  using assms by (auto simp: save_creds_def split: sum.splits prod.splits)

lemma save_creds_same:
  assumes "save_creds cx f s = (e, s')"
  shows "cs_creds s' = cs_creds s" and "cs_heap s' = cs_heap s" and "cs_next s' = cs_next s" and "cs_cfg s' = cs_cfg s"
    and "cs_key s' = cs_key s" and "cs_gcm s' = cs_gcm s" and "cs_closed s' = cs_closed s"
  by (subst save_creds_fields [OF assms], simp)+

lemma cred_ok_disk: "cs_creds s' = cs_creds s \<Longrightarrow> cs_heap s' = cs_heap s \<Longrightarrow> cs_next s' = cs_next s \<Longrightarrow> cred_ok s' = cred_ok s"
  by (simp add: cred_ok_def)

lemma cred_ok_save: "cred_ok s \<Longrightarrow> cred_ok (snd (save_creds cx f s))"
  using save_creds_same [of cx f s] by (metis cred_ok_disk prod.collapse)

lemma cred_ok_upd: "cred_ok s \<Longrightarrow> (\<And>c. cr_id (g c) = cr_id c) \<Longrightarrow> cred_ok (upd_cred r g s)"
  by (auto simp: cred_ok_def)

lemma cred_ok_upd_loose: "cred_ok s \<Longrightarrow> r \<notin> snd ` set (cs_creds s) \<Longrightarrow> cred_ok (upd_cred r g s)"
  by (force simp: cred_ok_def)

lemma cred_ok_del: "cred_ok s \<Longrightarrow> cred_ok (s\<lparr>cs_creds := mdel i (cs_creds s)\<rparr>)"
  by (auto simp: cred_ok_def set_mdel)

lemma cred_ok_filter: "cred_ok s \<Longrightarrow> cred_ok (s\<lparr>cs_creds := filter P (cs_creds s)\<rparr>)"
  by (auto simp: cred_ok_def mwf_def distinct_map inj_on_def)

lemma cred_ok_put: "cred_ok s \<Longrightarrow> r < cs_next s \<Longrightarrow> cr_id (cs_heap s r) = i \<Longrightarrow> cred_ok (s\<lparr>cs_creds := mput i r (cs_creds s)\<rparr>)"
  by (auto simp: cred_ok_def set_mput)

lemma cred_ok_alloc: "cred_ok s \<Longrightarrow> alloc_cred c s = (r, s1) \<Longrightarrow> cred_ok s1 \<and> r < cs_next s1 \<and> r \<notin> snd ` set (cs_creds s1)
    \<and> cs_heap s1 r = c \<and> cs_creds s1 = cs_creds s \<and> cs_closed s1 = cs_closed s \<and> cs_cfg s1 = cs_cfg s \<and> cs_gcm s1 = cs_gcm s
    \<and> cs_disk s1 = cs_disk s \<and> (\<forall>q < cs_next s. cs_heap s1 q = cs_heap s q)"
  by (force simp: alloc_cred_def cred_ok_def)

section \<open>The rotation loop\<close>

lemma reencrypt_fields:
  "reencrypt cx old random irs s = (e, s1) \<Longrightarrow>
     cs_creds s1 = cs_creds s \<and> cs_next s1 = cs_next s \<and> cs_cfg s1 = cs_cfg s \<and> cs_gcm s1 = cs_gcm s \<and> cs_disk s1 = cs_disk s
     \<and> cs_closed s1 = cs_closed s \<and> cs_key s1 = cs_key s
     \<and> (\<forall>r. cs_heap s1 r = (cs_heap s r)\<lparr>cr_value := cr_value (cs_heap s1 r)\<rparr>)
     \<and> (\<forall>r. r \<notin> snd ` set irs \<longrightarrow> cs_heap s1 r = cs_heap s r)"
proof (induction cx old random irs s rule: reencrypt.induct)
  case (2 cx old random i r irs s)
  show ?case
  proof (cases "decrypt_with_gcm cx old (cr_value (cs_heap s r)) s")
    case (Inr p)
    show ?thesis
    proof (cases "encrypt_value cx (random i) p s")
      case (Inr v)
      then have "reencrypt cx old random irs (upd_cred r (\<lambda>c. c\<lparr>cr_value := v\<rparr>) s) = (e, s1)"
        using "2.prems" \<open>decrypt_with_gcm _ _ _ _ = _\<close> by simp
      note ih = "2.IH" [OF \<open>decrypt_with_gcm _ _ _ _ = _\<close> Inr this]
      have "cs_heap s1 q = (cs_heap s q)\<lparr>cr_value := cr_value (cs_heap s1 q)\<rparr>" for q
      proof -
        have "cs_heap s1 q = (cs_heap (upd_cred r (\<lambda>c. c\<lparr>cr_value := v\<rparr>) s) q)\<lparr>cr_value := cr_value (cs_heap s1 q)\<rparr>" using ih by blast
        then show ?thesis by (cases "q = r") simp_all
      qed
      moreover have "cs_heap s1 q = cs_heap s q" if "q \<notin> snd ` set ((i, r) # irs)" for q
        using ih that by simp
      ultimately show ?thesis using ih by simp
    qed (use "2.prems" Inr in auto)
  qed (use "2.prems" in auto)
qed simp

definition cred_plain :: "cred_crypto \<Rightarrow> cred_store \<Rightarrow> cred_ref \<Rightarrow> string result" where
  "cred_plain cx s r = decrypt_value cx (cr_value (cs_heap s r)) s"

definition all_readable :: "cred_crypto \<Rightarrow> cred_store \<Rightarrow> bool" where
  "all_readable cx s \<longleftrightarrow> (\<forall>(i, r) \<in> set (cs_creds s). is_ok (cred_plain cx s r))"

lemma all_readableD: "all_readable cx s \<Longrightarrow> mget (cs_creds s) i = Some r \<Longrightarrow> \<exists>p. cred_plain cx s r = Inr p"
  using mget_in_set [of "cs_creds s" i r] by (force simp: all_readable_def is_ok_iff)

text \<open>The loop over credentials that can all be read and for which the random source suffices: each value stays what it was.\<close>

lemma reencrypt_all:
  assumes "crypto_ok cx" and "\<And>i. nonce_size \<le> length (random i)" and "distinct (map snd irs)"
    and "\<forall>(i, r) \<in> set irs. is_ok (decrypt_with_gcm cx old (cr_value (cs_heap s r)) s)"
    and "reencrypt cx old random irs s = (e, s1)"
  shows "e = None \<and> (\<forall>(i, r) \<in> set irs. cred_plain cx s1 r = decrypt_with_gcm cx old (cr_value (cs_heap s r)) s)"
  using assms(3-5)
proof (induction irs arbitrary: s)
  case (Cons ir irs)
  obtain i r where ir: "ir = (i, r)" by fastforce
  obtain p where p: "decrypt_with_gcm cx old (cr_value (cs_heap s r)) s = Inr p"
    using Cons.prems(2) ir by (auto simp: is_ok_iff)
  obtain v where v: "encrypt_value cx (random i) p s = Inr v" using encrypt_enough [OF assms(2)] by blast
  let ?s = "upd_cred r (\<lambda>c. c\<lparr>cr_value := v\<rparr>) s"
  have run: "reencrypt cx old random irs ?s = (e, s1)" using Cons.prems(3) ir p v by simp
  have same: "decrypt_with_gcm cx old (cr_value (cs_heap ?s q)) ?s = decrypt_with_gcm cx old (cr_value (cs_heap s q)) s"
    if "q \<noteq> r" for q
    using that by (simp add: decrypt_cfg [of ?s s])
  have r: "r \<notin> snd ` set irs" using Cons.prems(1) ir by simp
  then have other: "\<forall>(j, q) \<in> set irs. q \<noteq> r" by force
  have "\<forall>(j, q) \<in> set irs. is_ok (decrypt_with_gcm cx old (cr_value (cs_heap ?s q)) ?s)"
    using Cons.prems(2) ir other same by fastforce
  note ih = Cons.IH [OF _ this run]
  have ih1: "e = None" "\<forall>(j, q) \<in> set irs. cred_plain cx s1 q = decrypt_with_gcm cx old (cr_value (cs_heap ?s q)) ?s"
    using ih Cons.prems(1) ir by simp_all
  note fl = reencrypt_fields [OF run]
  have "cs_heap s1 r = cs_heap ?s r" using fl r by blast
  then have "cr_value (cs_heap s1 r) = v" by simp
  moreover have "decrypt_value cx v s1 = decrypt_value cx v s"
    using fl by (simp add: decrypt_value_def decrypt_cfg [of s1 s])
  ultimately have "cred_plain cx s1 r = Inr p" using decrypt_encrypted [OF assms(1) v] by (simp add: cred_plain_def)
  then show ?case using ih1 ir p other same by fastforce
qed simp

text \<open>The loop stopped by a credential that cannot be read: those before it are left under the new key.\<close>

lemma reencrypt_stops:
  assumes "key_matters cx" and "\<And>i. nonce_size \<le> length (random i)" and "xc_encryption_enabled (cs_cfg s)" and "old \<noteq> cs_gcm s"
    and "distinct (map snd (xs @ (j, q) # ys))"
    and "\<forall>(i, r) \<in> set xs. is_ok (decrypt_with_gcm cx old (cr_value (cs_heap s r)) s)"
    and "decrypt_with_gcm cx old (cr_value (cs_heap s q)) s = Inl x"
    and "reencrypt cx old random (xs @ (j, q) # ys) s = (e, s1)"
  shows "e \<noteq> None \<and> (\<forall>(i, r) \<in> set xs. \<not> is_ok (decrypt_with_gcm cx old (cr_value (cs_heap s1 r)) s1))
    \<and> (\<forall>(i, r) \<in> set ys. cs_heap s1 r = cs_heap s r)"
  using assms(3-8)
proof (induction xs arbitrary: s)
  case Nil
  then show ?case by auto
next
  case (Cons ir xs)
  obtain i r where ir: "ir = (i, r)" by fastforce
  obtain p where p: "decrypt_with_gcm cx old (cr_value (cs_heap s r)) s = Inr p"
    using Cons.prems(4) ir by (auto simp: is_ok_iff)
  obtain v where v: "encrypt_value cx (random i) p s = Inr v" using encrypt_enough [OF assms(2)] by blast
  let ?s = "upd_cred r (\<lambda>c. c\<lparr>cr_value := v\<rparr>) s"
  have run: "reencrypt cx old random (xs @ (j, q) # ys) ?s = (e, s1)" using Cons.prems(6) ir p v by simp
  have same: "decrypt_with_gcm cx old (cr_value (cs_heap ?s q)) ?s = decrypt_with_gcm cx old (cr_value (cs_heap s q)) s"
    if "q \<noteq> r" for q
    using that by (simp add: decrypt_cfg [of ?s s])
  have r: "r \<notin> snd ` set (xs @ (j, q) # ys)" using Cons.prems(3) ir by (simp add: image_Un)
  then have other: "\<forall>(j, q) \<in> set xs. q \<noteq> r" "q \<noteq> r" "\<forall>(j, q) \<in> set ys. q \<noteq> r" by force+
  have "\<forall>(j, q) \<in> set xs. is_ok (decrypt_with_gcm cx old (cr_value (cs_heap ?s q)) ?s)"
    using Cons.prems(4) ir other(1) same by fastforce
  moreover have "decrypt_with_gcm cx old (cr_value (cs_heap ?s q)) ?s = Inl x" using Cons.prems(5) same other(2) by simp
  ultimately have ih: "e \<noteq> None \<and> (\<forall>(i, r) \<in> set xs. \<not> is_ok (decrypt_with_gcm cx old (cr_value (cs_heap s1 r)) s1))
    \<and> (\<forall>(i, r) \<in> set ys. cs_heap s1 r = cs_heap ?s r)"
    using Cons.IH [of ?s] Cons.prems(1-3) ir run by simp
  note fl = reencrypt_fields [OF run]
  have "cs_heap s1 r = cs_heap ?s r" using fl r by blast
  then have "cr_value (cs_heap s1 r) = v" by simp
  moreover have "decrypt_with_gcm cx old v s1 = decrypt_with_gcm cx old v s"
    using fl by (intro decrypt_cfg) simp
  ultimately have "\<not> is_ok (decrypt_with_gcm cx old (cr_value (cs_heap s1 r)) s1)"
    using decrypt_other_key [OF assms(1) v Cons.prems(1,2)] by auto
  then show ?case using ih ir other(3) by fastforce
qed

section \<open>Runs\<close>

datatype cred_op =
    CStore save_faults string timestamp string credential
  | CTouch timestamp string
  | CDelete save_faults string
  | CRotate string "string \<Rightarrow> string" "(go_error \<times> string option) option" save_faults
  | CCleanup save_faults timestamp
  | CStoreLlm save_faults string timestamp string string string
  | CDeleteLlm save_faults string
  | CClose save_faults

text \<open>Each store is of an object that the caller has just made.\<close>

fun cred_exec :: "cred_crypto \<Rightarrow> cred_store \<Rightarrow> cred_op \<Rightarrow> cred_store" where
  "cred_exec cx s (CStore f gid now rnd c) = (case alloc_cred c s of (r, s1) \<Rightarrow> snd (store_cred cx f gid now rnd r s1))"
| "cred_exec cx s (CTouch now i) = update_access_stats now i s"
| "cred_exec cx s (CDelete f i) = snd (delete_cred cx f i s)"
| "cred_exec cx s (CRotate kr rnd kf f) = snd (rotate_key cx kr rnd kf f s)"
| "cred_exec cx s (CCleanup f now) = snd (cleanup_expired cx f now s)"
| "cred_exec cx s (CStoreLlm f gid now rnd p k) = snd (store_llm_cred cx f gid now rnd p k s)"
| "cred_exec cx s (CDeleteLlm f p) = snd (delete_llm_cred cx f p s)"
| "cred_exec cx s (CClose f) = snd (close_cred_store cx f s)"

lemma plain_same: "cs_cfg s' = cs_cfg s \<Longrightarrow> cs_gcm s' = cs_gcm s \<Longrightarrow> cr_value (cs_heap s' r) = cr_value (cs_heap s r) \<Longrightarrow>
    cred_plain cx s' r = cred_plain cx s r"
  by (simp add: cred_plain_def decrypt_value_def decrypt_cfg [of s' s])

definition cred_good :: "cred_crypto \<Rightarrow> cred_store \<Rightarrow> bool" where
  "cred_good cx s \<longleftrightarrow> cred_ok s \<and> all_readable cx s"

text \<open>One change of the store: an object, its value, the map.\<close>

lemma good_same:
  assumes "cred_good cx s" and "cs_creds s' = cs_creds s" "cs_heap s' = cs_heap s" "cs_next s' = cs_next s"
    "cs_cfg s' = cs_cfg s" "cs_gcm s' = cs_gcm s"
  shows "cred_good cx s'"
proof -
  have "cred_plain cx s' q = cred_plain cx s q" for q by (rule plain_same) (simp_all add: assms)
  then show ?thesis using assms by (simp add: cred_good_def cred_ok_def all_readable_def)
qed

lemma good_save:
  assumes "cred_good cx s" and "save_creds cx f s = (e, s')"
  shows "cred_good cx s'"
  by (rule good_same [OF assms(1)]) (simp_all add: save_creds_same [OF assms(2)])

lemma good_upd:
  assumes "cred_good cx s" and "\<And>c. cr_id (g c) = cr_id c" and "\<And>c. cr_value (g c) = cr_value c"
  shows "cred_good cx (upd_cred r g s)"
proof -
  have "cred_plain cx (upd_cred r g s) q = cred_plain cx s q" for q by (rule plain_same) (simp_all add: assms(3))
  then show ?thesis using assms(1,2) by (simp add: cred_good_def cred_ok_upd all_readable_def)
qed

lemma good_upd_loose:
  assumes "cred_good cx s" and "r \<notin> snd ` set (cs_creds s)"
  shows "cred_good cx (upd_cred r g s)"
proof -
  have "cred_plain cx (upd_cred r g s) q = cred_plain cx s q" if "(i, q) \<in> set (cs_creds s)" for i q
    using that assms(2) by (intro plain_same) force+
  then show ?thesis using assms by (auto simp: cred_good_def cred_ok_upd_loose all_readable_def)
qed

lemma good_value:
  assumes "cred_good cx s" and "crypto_ok cx" and "encrypt_value cx rnd p s = Inr v"
  shows "cred_good cx (upd_cred r (\<lambda>c. c\<lparr>cr_value := v\<rparr>) s)" (is "cred_good cx ?s")
    and "cred_plain cx (upd_cred r (\<lambda>c. c\<lparr>cr_value := v\<rparr>) s) r = Inr p"
proof -
  show r: "cred_plain cx ?s r = Inr p"
    using decrypt_encrypted [OF assms(2,3)] by (simp add: cred_plain_def decrypt_value_def decrypt_cfg [of ?s s])
  have "is_ok (cred_plain cx ?s q)" if "(i, q) \<in> set (cs_creds s)" for i q
  proof (cases "q = r")
    case False
    then have "cred_plain cx ?s q = cred_plain cx s q" by (intro plain_same) simp_all
    then show ?thesis using that assms(1) by (auto simp: cred_good_def all_readable_def)
  qed (simp add: r)
  then show "cred_good cx ?s" using assms(1) by (auto simp: cred_good_def cred_ok_upd all_readable_def)
qed

lemma good_put:
  assumes "cred_good cx s" and "r < cs_next s" and "cr_id (cs_heap s r) = i" and "is_ok (cred_plain cx s r)"
  shows "cred_good cx (s\<lparr>cs_creds := mput i r (cs_creds s)\<rparr>)"
proof -
  have "cred_plain cx (s\<lparr>cs_creds := mput i r (cs_creds s)\<rparr>) q = cred_plain cx s q" for q by (rule plain_same) simp_all
  moreover have "mwf (cs_creds s)" using assms(1) by (simp add: cred_good_def cred_ok_def)
  ultimately show ?thesis
    using assms by (auto simp: cred_good_def cred_ok_put all_readable_def set_mput)
qed

lemma good_fewer:
  assumes "cred_good cx s" and "cred_ok (s\<lparr>cs_creds := m\<rparr>)" and "set m \<subseteq> set (cs_creds s)"
  shows "cred_good cx (s\<lparr>cs_creds := m\<rparr>)"
proof -
  have "cred_plain cx (s\<lparr>cs_creds := m\<rparr>) q = cred_plain cx s q" for q by (rule plain_same) simp_all
  then show ?thesis using assms by (auto simp: cred_good_def all_readable_def)
qed

lemma good_del: "cred_good cx s \<Longrightarrow> cred_good cx (s\<lparr>cs_creds := mdel i (cs_creds s)\<rparr>)"
  by (rule good_fewer) (auto simp: cred_good_def cred_ok_del set_mdel)

lemma good_filter: "cred_good cx s \<Longrightarrow> cred_good cx (s\<lparr>cs_creds := filter P (cs_creds s)\<rparr>)"
  by (rule good_fewer) (auto simp: cred_good_def cred_ok_filter)

lemma good_alloc: "cred_good cx s \<Longrightarrow> alloc_cred c s = (r, s1) \<Longrightarrow> cred_good cx s1"
proof -
  assume g: "cred_good cx s" and a: "alloc_cred c s = (r, s1)"
  note al = cred_ok_alloc [OF _ a]
  have ok: "cred_ok s" using g by (simp add: cred_good_def)
  have "cred_plain cx s1 q = cred_plain cx s q" if "(i, q) \<in> set (cs_creds s)" for i q
    using that ok al [OF ok] by (intro plain_same) (auto simp: cred_ok_def)
  then show ?thesis using g al [OF ok] by (auto simp: cred_good_def all_readable_def)
qed

section \<open>Each operation\<close>

text \<open>A store of an object that is not in the store yet.\<close>

lemma store_cred_good:
  assumes "cred_good cx s" and "crypto_ok cx" and "r < cs_next s" and "r \<notin> snd ` set (cs_creds s)"
    and "store_cred cx f gid now rnd r s = (e, s')"
  shows "cred_good cx s'"
proof -
  let ?s1 = "if cr_id (cs_heap s r) = '''' then upd_cred r (\<lambda>c. c\<lparr>cr_id := gid\<rparr>) s else s"
  let ?i = "cr_id (cs_heap ?s1 r)"
  have g1: "cred_good cx ?s1" using good_upd_loose [OF assms(1,4)] assms(1) by simp
  show ?thesis
  proof (cases "cs_closed s \<or> cr_name (cs_heap ?s1 r) = ''''")
    case True
    then have "s' = s \<or> s' = ?s1" using assms(5) by (auto simp: store_cred_def Let_def split: if_splits)
    then show ?thesis using g1 assms(1) by blast
  next
    case live: False
    show ?thesis
    proof (cases "mget (cs_creds ?s1) ?i")
      case (Some q)
      let ?s2 = "upd_cred q (overwrite_cred now (cs_heap ?s1 r)) ?s1"
      have g2: "cred_good cx ?s2" by (rule good_upd [OF g1]) (simp_all add: overwrite_cred_def)
      show ?thesis
      proof (cases "encrypt_value cx rnd (cr_value (cs_heap ?s2 r)) ?s2")
        case (Inl x)
        then have "s' = ?s2" using assms(5) live Some unfolding store_cred_def Let_def by simp
        then show ?thesis using g2 by simp
      next
        case (Inr v)
        then have "save_creds cx f (upd_cred q (\<lambda>c. c\<lparr>cr_value := v\<rparr>) ?s2) = (e, s')"
          using assms(5) live Some unfolding store_cred_def Let_def by simp
        then show ?thesis using good_save good_value(1) [OF g2 assms(2) Inr] by blast
      qed
    next
      case None
      let ?s2 = "upd_cred r (\<lambda>c. c\<lparr>cr_created := now, cr_updated := now\<rparr>) ?s1"
      have g2: "cred_good cx ?s2" by (rule good_upd [OF g1]) simp_all
      show ?thesis
      proof (cases "encrypt_value cx rnd (cr_value (cs_heap ?s2 r)) ?s2")
        case (Inl x)
        then have "s' = ?s2" using assms(5) live None unfolding store_cred_def Let_def by simp
        then show ?thesis using g2 by simp
      next
        case (Inr v)
        let ?s3 = "upd_cred r (\<lambda>c. c\<lparr>cr_value := v\<rparr>) ?s2"
        have sv: "save_creds cx f (?s3\<lparr>cs_creds := mput ?i r (cs_creds ?s3)\<rparr>) = (e, s')"
          using assms(5) live None Inr unfolding store_cred_def Let_def by simp
        have "cred_good cx (?s3\<lparr>cs_creds := mput ?i r (cs_creds ?s3)\<rparr>)"
          using good_put [OF good_value(1) [OF g2 assms(2) Inr, of r], of r ?i] assms(3)
            good_value(2) [OF g2 assms(2) Inr, of r] by simp
        then show ?thesis using good_save sv by blast
      qed
    qed
  qed
qed

lemma touch_good: "cred_good cx s \<Longrightarrow> cred_good cx (update_access_stats now i s)"
  by (auto simp: update_access_stats_def intro!: good_upd split: option.split)

lemma delete_cred_good: "cred_good cx s \<Longrightarrow> delete_cred cx f i s = (e, s') \<Longrightarrow> cred_good cx s'"
  by (auto simp: delete_cred_def split: if_splits intro: good_save [OF good_del])

lemma delete_llm_cred_good: "cred_good cx s \<Longrightarrow> delete_llm_cred cx f p s = (e, s') \<Longrightarrow> cred_good cx s'"
  by (auto simp: delete_llm_cred_def split: if_splits option.splits intro: good_save [OF good_del])

lemma cleanup_good: "cred_good cx s \<Longrightarrow> cleanup_expired cx f now s = (e, s') \<Longrightarrow> cred_good cx s'"
  by (auto simp: cleanup_expired_def Let_def split: if_splits prod.splits intro: good_save [OF good_filter] good_filter)

lemma close_cred_good: "cred_good cx s \<Longrightarrow> close_cred_store cx f s = (e, s') \<Longrightarrow> cred_good cx s'"
  by (auto simp: close_cred_store_def split: if_splits prod.splits option.splits dest: good_save intro: good_same [where s = "_ :: cred_store"])

lemma find_id_in_map: "find_id_by_name n s = Some (i, r) \<Longrightarrow> (i, r) \<in> set (cs_creds s) \<and> cr_name (cs_heap s r) = n"
  by (auto simp: find_id_by_name_def find_by_name_def find_Some_iff split: option.splits if_splits) (metis nth_mem)

lemma store_llm_good:
  assumes "cred_good cx s" and "crypto_ok cx" and "store_llm_cred cx f gid now rnd p k s = (e, s')"
  shows "cred_good cx s'"
proof (cases "p = '''' \<or> k = '''' \<or> cs_closed s")
  case True
  then show ?thesis using assms by (auto simp: store_llm_cred_def split: if_splits)
next
  case live: False
  show ?thesis
  proof (cases "find_id_by_name (llm_cred_name p) s")
    case (Some ir)
    obtain i r where ir: "ir = (i, r)" by fastforce
    let ?s1 = "upd_cred r (\<lambda>c. c\<lparr>cr_name := llm_cred_name p, cr_type := llm_key_type,
        cr_metadata := [(''provider'', p)], cr_updated := now, cr_tags := [''llm'', p]\<rparr>) s"
    have g1: "cred_good cx ?s1" by (rule good_upd [OF assms(1)]) simp_all
    show ?thesis
    proof (cases "encrypt_value cx rnd k ?s1")
      case (Inl x)
      then show ?thesis using g1 assms(3) live Some ir by (simp add: store_llm_cred_def)
    next
      case (Inr v)
      then have "save_creds cx f (upd_cred r (\<lambda>c. c\<lparr>cr_value := v\<rparr>) ?s1) = (e, s')"
        using assms(3) live Some ir by (simp add: store_llm_cred_def)
      then show ?thesis using good_save good_value(1) [OF g1 assms(2) Inr] by blast
    qed
  next
    case None
    show ?thesis
    proof (cases "encrypt_value cx rnd k s")
      case (Inl x)
      then show ?thesis using assms(1,3) live None by (simp add: store_llm_cred_def)
    next
      case (Inr v)
      let ?c = "zero_credential\<lparr>cr_id := gid, cr_name := llm_cred_name p,
        cr_type := llm_key_type, cr_value := v, cr_metadata := [(''provider'', p)],
        cr_tags := [''llm'', p], cr_created := now, cr_updated := now\<rparr>"
      obtain r s1 where a: "alloc_cred ?c s = (r, s1)" by fastforce
      have al: "cred_ok s1 \<and> r < cs_next s1 \<and> cs_heap s1 r = ?c \<and> cs_cfg s1 = cs_cfg s \<and> cs_gcm s1 = cs_gcm s"
        using cred_ok_alloc [OF _ a] assms(1) by (simp add: cred_good_def)
      have "cred_plain cx s1 r = Inr k"
        using decrypt_encrypted [OF assms(2) Inr] al by (simp add: cred_plain_def decrypt_value_def decrypt_cfg [of s1 s])
      then have "cred_good cx (s1\<lparr>cs_creds := mput gid r (cs_creds s1)\<rparr>)"
        using al by (intro good_put good_alloc [OF assms(1) a]) simp_all
      moreover have "save_creds cx f (s1\<lparr>cs_creds := mput gid r (cs_creds s1)\<rparr>) = (e, s')"
        using assms(3) live None Inr a by (simp add: store_llm_cred_def)
      ultimately show ?thesis using good_save by blast
    qed
  qed
qed

text \<open>A rotation for which the random source suffices re-encrypts everything.\<close>

lemma rotate_effect:
  assumes "cred_good cx s" and "crypto_ok cx" and "\<not> cs_closed s" and "32 \<le> length kr" and "\<And>i. nonce_size \<le> length (rnd i)"
    and "rotate_key cx kr rnd kf f s = (e, s')"
  shows "cs_creds s' = cs_creds s \<and> cs_gcm s' = take 32 kr \<and> cs_next s' = cs_next s \<and> cs_cfg s' = cs_cfg s
    \<and> (\<forall>r. cs_heap s' r = (cs_heap s r)\<lparr>cr_value := cr_value (cs_heap s' r)\<rparr>)
    \<and> (\<forall>(i, r) \<in> set (cs_creds s). cred_plain cx s' r = cred_plain cx s r)"
proof -
  let ?k = "take 32 kr"
  obtain e1 s1 where r: "reencrypt cx (cs_gcm s) rnd (cs_creds s) (s\<lparr>cs_gcm := ?k\<rparr>) = (e1, s1)" by fastforce
  have old: "decrypt_with_gcm cx (cs_gcm s) (cr_value (cs_heap (s\<lparr>cs_gcm := ?k\<rparr>) r)) (s\<lparr>cs_gcm := ?k\<rparr>) = cred_plain cx s r" for r
    by (simp add: cred_plain_def decrypt_value_def decrypt_cfg [of "s\<lparr>cs_gcm := ?k\<rparr>" s])
  have all: "e1 = None \<and> (\<forall>(i, r) \<in> set (cs_creds s). cred_plain cx s1 r = cred_plain cx s r)"
    using reencrypt_all [OF assms(2,5) cred_refs_distinct _ r] assms(1) unfolding old
    by (simp add: cred_good_def all_readable_def)
  note fl = reencrypt_fields [OF r]
  have kr: "read_full 32 kr = Inr ?k" using assms(4) by (simp add: read_full_def)
  have fin: "cs_creds s' = cs_creds s1 \<and> cs_gcm s' = cs_gcm s1 \<and> cs_next s' = cs_next s1 \<and> cs_cfg s' = cs_cfg s1 \<and> cs_heap s' = cs_heap s1"
    using assms(3,6) r kr all
    by (auto simp: rotate_key_def dest: save_creds_same split: prod.splits option.splits)
  then have "cred_plain cx s' r = cred_plain cx s1 r" for r by (intro plain_same) simp_all
  then show ?thesis using all fl fin by simp
qed

lemma rotate_good:
  assumes "cred_good cx s" and "crypto_ok cx" and "32 \<le> length kr" and "\<And>i. nonce_size \<le> length (rnd i)"
    and "rotate_key cx kr rnd kf f s = (e, s')"
  shows "cred_good cx s'"
proof (cases "cs_closed s")
  case True
  then show ?thesis using assms(1,5) by (simp add: rotate_key_def)
next
  case False
  note ef = rotate_effect [OF assms(1,2) False assms(3-5)]
  have "cr_id (cs_heap s' r) = cr_id (cs_heap s r)" for r
    using ef by (metis (no_types, lifting) credential.ext_inject credential.surjective credential.update_convs(4))
  then have "cred_ok s'" using ef assms(1) by (simp add: cred_good_def cred_ok_def)
  moreover have "all_readable cx s'" using ef assms(1) unfolding cred_good_def all_readable_def by fastforce
  ultimately show ?thesis by (simp add: cred_good_def)
qed

text \<open>For which calls the random source must suffice.\<close>

fun enough_random :: "cred_op \<Rightarrow> bool" where
  "enough_random (CRotate kr rnd kf f) \<longleftrightarrow> 32 \<le> length kr \<and> (\<forall>i. nonce_size \<le> length (rnd i))"
| "enough_random c \<longleftrightarrow> True"

lemma alloc_loose:
  assumes "cred_good cx s" and "alloc_cred c s = (r, s1)"
  shows "cred_good cx s1" and "r < cs_next s1" and "r \<notin> snd ` set (cs_creds s1)"
  using good_alloc [OF assms] cred_ok_alloc [OF _ assms(2)] assms(1) by (auto simp: cred_good_def)

lemma exec_good:
  assumes "cred_good cx s" and "crypto_ok cx" and "enough_random c"
  shows "cred_good cx (cred_exec cx s c)"
proof (cases c)
  case (CStore f gid now rnd c0)
  obtain r s1 where a: "alloc_cred c0 s = (r, s1)" by fastforce
  obtain e s' where st: "store_cred cx f gid now rnd r s1 = (e, s')" by fastforce
  show ?thesis using store_cred_good [OF alloc_loose(1) [OF assms(1) a] assms(2) alloc_loose(2,3) [OF assms(1) a] st] a st CStore by simp
next
  case (CDelete f i)
  then show ?thesis using delete_cred_good [OF assms(1), of f i] by (cases "delete_cred cx f i s") simp
next
  case (CRotate kr rnd kf f)
  then show ?thesis using rotate_good [OF assms(1,2), of kr rnd kf f] assms(3) by (cases "rotate_key cx kr rnd kf f s") simp
next
  case (CCleanup f now)
  then show ?thesis using cleanup_good [OF assms(1), of f now] by (cases "cleanup_expired cx f now s") simp
next
  case (CStoreLlm f gid now rnd p k)
  then show ?thesis using store_llm_good [OF assms(1,2), of f gid now rnd p k] by (cases "store_llm_cred cx f gid now rnd p k s") simp
next
  case (CDeleteLlm f p)
  then show ?thesis using delete_llm_cred_good [OF assms(1), of f p] by (cases "delete_llm_cred cx f p s") simp
next
  case (CClose f)
  then show ?thesis using close_cred_good [OF assms(1), of f] by (cases "close_cred_store cx f s") simp
qed (simp add: touch_good assms(1))

section \<open>What other calls leave alone\<close>

text \<open>What a client sees of a credential: its name, its expiry, its value.\<close>

definition cred_view :: "cred_crypto \<Rightarrow> string \<Rightarrow> cred_store \<Rightarrow> (string \<times> timestamp \<times> string result) option" where
  "cred_view cx i s =
     map_option (\<lambda>r. (cr_name (cs_heap s r), cr_expires (cs_heap s r), cred_plain cx s r)) (mget (cs_creds s) i)"

fun leaves_alone :: "string \<Rightarrow> string \<Rightarrow> timestamp \<Rightarrow> cred_op \<Rightarrow> bool" where
  "leaves_alone i n t (CStore f gid now rnd c) \<longleftrightarrow> (if cr_id c = '''' then gid else cr_id c) \<noteq> i"
| "leaves_alone i n t (CDelete f j) \<longleftrightarrow> j \<noteq> i"
| "leaves_alone i n t (CCleanup f now) \<longleftrightarrow> t = 0 \<or> now \<le> t"
| "leaves_alone i n t (CStoreLlm f gid now rnd p k) \<longleftrightarrow> gid \<noteq> i \<and> llm_cred_name p \<noteq> n"
| "leaves_alone i n t (CDeleteLlm f p) \<longleftrightarrow> llm_cred_name p \<noteq> n"
| "leaves_alone i n t c \<longleftrightarrow> True"

lemma view_same:
  assumes "mget (cs_creds s') i = mget (cs_creds s) i" and "cs_cfg s' = cs_cfg s" and "cs_gcm s' = cs_gcm s"
    and "\<And>r. mget (cs_creds s) i = Some r \<Longrightarrow> cr_name (cs_heap s' r) = cr_name (cs_heap s r)
      \<and> cr_expires (cs_heap s' r) = cr_expires (cs_heap s r) \<and> cr_value (cs_heap s' r) = cr_value (cs_heap s r)"
  shows "cred_view cx i s' = cred_view cx i s"
  using assms plain_same [of s' s] by (auto simp: cred_view_def map_option_case split: option.split)

lemma view_save: "save_creds cx f s = (e, s') \<Longrightarrow> cred_view cx i s' = cred_view cx i s"
  by (rule view_same) (simp_all add: save_creds_same)

lemma view_branch:
  assumes "s' = a \<or> (\<exists>v. save_creds cx f (b v) = (e, s'))"
    and "cred_view cx i a = w" and "\<And>v. cred_view cx i (b v) = w"
  shows "cred_view cx i s' = w"
  using assms(1)
proof (elim disjE exE)
  fix v assume "save_creds cx f (b v) = (e, s')"
  from view_save [OF this, of i] show ?thesis using assms(3) by simp
qed (simp add: assms(2))

lemma view_upd_other: "mget (cs_creds s) i \<noteq> Some r \<Longrightarrow> cred_view cx i (upd_cred r g s) = cred_view cx i s"
  by (rule view_same) auto

lemma view_put_other: "j \<noteq> i \<Longrightarrow> cred_view cx i (s\<lparr>cs_creds := mput j r (cs_creds s)\<rparr>) = cred_view cx i s"
  by (rule view_same) auto

lemma view_del_other: "j \<noteq> i \<Longrightarrow> cred_view cx i (s\<lparr>cs_creds := mdel j (cs_creds s)\<rparr>) = cred_view cx i s"
  by (rule view_same) auto

lemma view_alloc: "cred_good cx s \<Longrightarrow> alloc_cred c s = (r, s1) \<Longrightarrow> cred_view cx i s1 = cred_view cx i s"
  by (rule view_same) (auto simp: alloc_cred_def cred_good_def dest: cred_okD)

lemma not_ref_of_other: "cred_ok s \<Longrightarrow> mget (cs_creds s) j = Some r \<Longrightarrow> j \<noteq> i \<Longrightarrow> mget (cs_creds s) i \<noteq> Some r"
  using cred_ref_unique by blast

lemma loose_not_ref: "r \<notin> snd ` set (cs_creds s) \<Longrightarrow> mget (cs_creds s) i \<noteq> Some r"
  using mget_in_set by force

lemma store_cred_view:
  assumes "cred_good cx s" and "r \<notin> snd ` set (cs_creds s)"
    and "(if cr_id (cs_heap s r) = '''' then gid else cr_id (cs_heap s r)) \<noteq> i"
    and "store_cred cx f gid now rnd r s = (e, s')"
  shows "cred_view cx i s' = cred_view cx i s"
proof -
  let ?s1 = "if cr_id (cs_heap s r) = '''' then upd_cred r (\<lambda>c. c\<lparr>cr_id := gid\<rparr>) s else s"
  have ok1: "cred_ok ?s1" using assms(1,2) by (simp add: cred_good_def cred_ok_upd_loose)
  have loose: "mget (cs_creds s) i \<noteq> Some r" by (rule loose_not_ref [OF assms(2)])
  have other: "mget (cs_creds ?s1) (cr_id (cs_heap ?s1 r)) = Some q \<Longrightarrow> mget (cs_creds s) i \<noteq> Some q" for q
    using not_ref_of_other [OF ok1, of _ q i] assms(3) by (simp split: if_splits)
  have idx: "cr_id (cs_heap ?s1 r) \<noteq> i" using assms(3) by (auto split: if_splits)
  have v1: "cred_view cx i ?s1 = cred_view cx i s" using view_upd_other [OF loose] by simp
  show ?thesis
  proof (cases "cs_closed s \<or> cr_name (cs_heap ?s1 r) = ''''")
    case True
    then have "s' = s \<or> s' = ?s1" using assms(4) by (auto simp: store_cred_def Let_def split: if_splits)
    then show ?thesis using v1 by metis
  next
    case live: False
    show ?thesis
    proof (cases "mget (cs_creds ?s1) (cr_id (cs_heap ?s1 r))")
      case (Some q)
      let ?s2 = "upd_cred q (overwrite_cred now (cs_heap ?s1 r)) ?s1"
      have q: "mget (cs_creds ?s1) i \<noteq> Some q" using other [OF Some] by simp
      have v2: "cred_view cx i (upd_cred q g ?s2) = cred_view cx i s" "cred_view cx i ?s2 = cred_view cx i s" for g
        using view_upd_other [OF q] view_upd_other [of ?s2 i q] q v1 by simp_all
      have "s' = ?s2 \<or> (\<exists>v. save_creds cx f (upd_cred q (\<lambda>c. c\<lparr>cr_value := v\<rparr>) ?s2) = (e, s'))"
        using assms(4) live Some unfolding store_cred_def Let_def by (auto split: sum.splits)
      then show ?thesis by (rule view_branch) (rule v2)+
    next
      case None
      let ?s2 = "upd_cred r (\<lambda>c. c\<lparr>cr_created := now, cr_updated := now\<rparr>) ?s1"
      have "mget (cs_creds ?s1) i \<noteq> Some r" using loose by simp
      then have v2: "cred_view cx i (upd_cred r g ?s2) = cred_view cx i s" "cred_view cx i ?s2 = cred_view cx i s" for g
        using view_upd_other [of ?s1 i r] view_upd_other [of ?s2 i r] v1 by simp_all
      have "s' = ?s2 \<or> (\<exists>v. save_creds cx f ((upd_cred r (\<lambda>c. c\<lparr>cr_value := v\<rparr>) ?s2)\<lparr>cs_creds :=
          mput (cr_id (cs_heap ?s1 r)) r (cs_creds (upd_cred r (\<lambda>c. c\<lparr>cr_value := v\<rparr>) ?s2))\<rparr>) = (e, s'))"
        using assms(4) live None unfolding store_cred_def Let_def by (auto split: sum.splits)
      then show ?thesis by (rule view_branch) (rule v2 trans [OF view_put_other [OF idx] v2(1)])+
    qed
  qed
qed

lemma find_id_ref:
  assumes "cred_good cx s" and "find_id_by_name m s = Some (j, r)" and "m \<noteq> n"
    and "\<And>q. mget (cs_creds s) i = Some q \<Longrightarrow> cr_name (cs_heap s q) = n"
  shows "mget (cs_creds s) i \<noteq> Some r" and "j \<noteq> i"
proof -
  have r: "cr_name (cs_heap s r) = m" and "(j, r) \<in> set (cs_creds s)" using find_id_in_map [OF assms(2)] by simp_all
  then have "mget (cs_creds s) j = Some r" using assms(1) by (simp add: cred_good_def cred_ok_def mget_iff_in_set)
  then show "mget (cs_creds s) i \<noteq> Some r" "j \<noteq> i" using assms(3,4) r by auto
qed

lemma store_llm_view:
  assumes "cred_good cx s" and "gid \<noteq> i" and "\<And>q. mget (cs_creds s) i = Some q \<Longrightarrow> cr_name (cs_heap s q) = n"
    and "llm_cred_name p \<noteq> n" and "store_llm_cred cx f gid now rnd p k s = (e, s')"
  shows "cred_view cx i s' = cred_view cx i s"
proof (cases "p = '''' \<or> k = '''' \<or> cs_closed s")
  case True
  then show ?thesis using assms(5) by (auto simp: store_llm_cred_def split: if_splits)
next
  case live: False
  show ?thesis
  proof (cases "find_id_by_name (llm_cred_name p) s")
    case (Some ir)
    obtain j r where ir: "ir = (j, r)" by fastforce
    have r: "mget (cs_creds s) i \<noteq> Some r" using find_id_ref [OF assms(1) _ assms(4,3)] Some ir by blast
    let ?s1 = "upd_cred r (\<lambda>c. c\<lparr>cr_name := llm_cred_name p, cr_type := llm_key_type,
        cr_metadata := [(''provider'', p)], cr_updated := now, cr_tags := [''llm'', p]\<rparr>) s"
    have v: "cred_view cx i ?s1 = cred_view cx i s" "cred_view cx i (upd_cred r g ?s1) = cred_view cx i s" for g
      using view_upd_other [OF r] view_upd_other [of ?s1 i r] r by simp_all
    have "s' = ?s1 \<or> (\<exists>v. save_creds cx f (upd_cred r (\<lambda>c. c\<lparr>cr_value := v\<rparr>) ?s1) = (e, s'))"
      using assms(5) live Some ir unfolding store_llm_cred_def Let_def by (auto split: sum.splits)
    then show ?thesis by (rule view_branch) (rule v)+
  next
    case None
    then have "s' = s \<or> (\<exists>c r s1. alloc_cred c s = (r, s1) \<and> save_creds cx f (s1\<lparr>cs_creds := mput gid r (cs_creds s1)\<rparr>) = (e, s'))"
      using assms(5) live by (auto simp: store_llm_cred_def split: sum.splits prod.splits)
    then show ?thesis
    proof (elim disjE exE conjE)
      fix c r s1 assume a: "alloc_cred c s = (r, s1)" and "save_creds cx f (s1\<lparr>cs_creds := mput gid r (cs_creds s1)\<rparr>) = (e, s')"
      from view_save [OF this(2), of i] show ?thesis using view_put_other [OF assms(2)] view_alloc [OF assms(1) a] by simp
    qed simp
  qed
qed

lemma cleanup_view:
  assumes "\<And>q. mget (cs_creds s) i = Some q \<Longrightarrow> \<not> cred_expired now (cs_heap s q)"
    and "mwf (cs_creds s)" and "cleanup_expired cx f now s = (e, s')"
  shows "cred_view cx i s' = cred_view cx i s"
proof -
  let ?kept = "filter (\<lambda>(i, r). \<not> cred_expired now (cs_heap s r)) (cs_creds s)"
  have "mget ?kept i = mget (cs_creds s) i"
  proof -
    have wf: "mwf ?kept" using assms(2) by (auto simp: mwf_def distinct_map inj_on_def)
    have "mget ?kept i = Some q \<longleftrightarrow> mget (cs_creds s) i = Some q" for q
      using assms(1) by (auto simp: mget_iff_in_set [OF wf] mget_iff_in_set [OF assms(2)])
    then show ?thesis by (metis not_None_eq)
  qed
  then have v: "cred_view cx i (s\<lparr>cs_creds := ?kept\<rparr>) = cred_view cx i s" by (intro view_same) auto
  obtain e2 s2 where sv: "save_creds cx f (s\<lparr>cs_creds := ?kept\<rparr>) = (e2, s2)" by fastforce
  have "s' = s \<or> s' = s\<lparr>cs_creds := ?kept\<rparr> \<or> s' = s2"
    using assms(3) sv by (simp add: cleanup_expired_def Let_def split: if_splits)
  then show ?thesis using view_save [OF sv, of i] v by auto
qed

lemma exec_view:
  assumes "cred_good cx s" and "crypto_ok cx" and "enough_random c" and "leaves_alone i n t c"
    and "cred_view cx i s = Some (n, t, v)"
  shows "cred_view cx i (cred_exec cx s c) = Some (n, t, v)"
proof -
  have nt: "cr_name (cs_heap s q) = n \<and> cr_expires (cs_heap s q) = t" if "mget (cs_creds s) i = Some q" for q
    using assms(5) that by (simp add: cred_view_def)
  have ok: "cred_ok s" using assms(1) by (simp add: cred_good_def)
  have "cred_view cx i (cred_exec cx s c) = cred_view cx i s"
  proof (cases c)
    case (CStore f gid now rnd c0)
    obtain r s1 where a: "alloc_cred c0 s = (r, s1)" by fastforce
    obtain e s' where st: "store_cred cx f gid now rnd r s1 = (e, s')" by fastforce
    have "cs_heap s1 r = c0" using cred_ok_alloc [OF ok a] by blast
    then have "cred_view cx i s' = cred_view cx i s1"
      using assms(4) CStore by (intro store_cred_view [OF alloc_loose(1,3) [OF assms(1) a] _ st]) (auto split: if_splits)
    then show ?thesis using view_alloc [OF assms(1) a] a st CStore by simp
  next
    case (CTouch now j)
    then show ?thesis by (auto simp: update_access_stats_def intro!: view_same split: option.split)
  next
    case (CDelete f j)
    obtain e s' where d: "delete_cred cx f j s = (e, s')" by fastforce
    then have "s' = s \<or> save_creds cx f (s\<lparr>cs_creds := mdel j (cs_creds s)\<rparr>) = (e, s')"
      by (auto simp: delete_cred_def split: if_splits)
    moreover have "j \<noteq> i" using assms(4) CDelete by simp
    ultimately have "cred_view cx i s' = cred_view cx i s" using view_save [of cx f _ e s' i] view_del_other [of j i cx s] by auto
    then show ?thesis using CDelete d by simp
  next
    case (CRotate kr rnd kf f)
    obtain e s' where d: "rotate_key cx kr rnd kf f s = (e, s')" by fastforce
    have "cred_view cx i s' = cred_view cx i s"
    proof (cases "cs_closed s")
      case True
      then show ?thesis using d by (simp add: rotate_key_def)
    next
      case False
      have ef: "cs_creds s' = cs_creds s" "\<And>r. cs_heap s' r = (cs_heap s r)\<lparr>cr_value := cr_value (cs_heap s' r)\<rparr>"
        "\<And>j r. mget (cs_creds s) j = Some r \<Longrightarrow> cred_plain cx s' r = cred_plain cx s r"
        using rotate_effect [OF assms(1,2) False _ _ d] assms(3) CRotate mget_in_set by fastforce+
      have "cr_name (cs_heap s' r) = cr_name (cs_heap s r)" "cr_expires (cs_heap s' r) = cr_expires (cs_heap s r)" for r
        by (subst ef(2), simp)+
      then show ?thesis using ef by (auto simp: cred_view_def map_option_case split: option.split)
    qed
    then show ?thesis using CRotate d by simp
  next
    case (CCleanup f now)
    obtain e s' where d: "cleanup_expired cx f now s = (e, s')" by fastforce
    have "cred_view cx i s' = cred_view cx i s"
      using cleanup_view [OF _ _ d] nt assms(4) ok CCleanup by (auto simp: cred_expired_def ts_is_zero_def cred_ok_def)
    then show ?thesis using CCleanup d by simp
  next
    case (CStoreLlm f gid now rnd p k)
    obtain e s' where d: "store_llm_cred cx f gid now rnd p k s = (e, s')" by fastforce
    then show ?thesis using store_llm_view [OF assms(1) _ _ _ d, of i n] nt assms(4) CStoreLlm by simp
  next
    case (CDeleteLlm f p)
    obtain e s' where d: "delete_llm_cred cx f p s = (e, s')" by fastforce
    have "s' = s \<or> (\<exists>j r. find_id_by_name (llm_cred_name p) s = Some (j, r) \<and> save_creds cx f (s\<lparr>cs_creds := mdel j (cs_creds s)\<rparr>) = (e, s'))"
      using d by (auto simp: delete_llm_cred_def split: if_splits option.splits)
    moreover have "j \<noteq> i" if "find_id_by_name (llm_cred_name p) s = Some (j, r)" for j r
      using find_id_ref(2) [OF assms(1) that] nt assms(4) CDeleteLlm by auto
    ultimately have "cred_view cx i s' = cred_view cx i s" using view_save [of cx f _ e s' i] view_del_other [of _ i cx s] by auto
    then show ?thesis using CDeleteLlm d by simp
  next
    case (CClose f)
    obtain e s' where d: "close_cred_store cx f s = (e, s')" by fastforce
    obtain e1 s1 where sv: "save_creds cx f s = (e1, s1)" by fastforce
    have "s' = s \<or> s' = s1 \<or> s' = s1\<lparr>cs_closed := True\<rparr>"
      using d sv by (auto simp: close_cred_store_def split: if_splits option.splits)
    moreover have "cred_view cx i (s1\<lparr>cs_closed := True\<rparr>) = cred_view cx i s1" by (rule view_same) simp_all
    ultimately have "cred_view cx i s' = cred_view cx i s" using view_save [OF sv, of i] by auto
    then show ?thesis using CClose d by simp
  qed
  then show ?thesis using assms(5) by simp
qed

section \<open>What a store leaves\<close>

definition eff_id :: "string \<Rightarrow> credential \<Rightarrow> string" where
  "eff_id gid c = (if cr_id c = '''' then gid else cr_id c)"

lemma stored_view:
  assumes "cred_good cx s" and "crypto_ok cx" and "encrypt_value cx rnd p s = Inr v"
    and "mget (cs_creds s) i = Some r" and "save_creds cx f (upd_cred r (\<lambda>c. c\<lparr>cr_value := v\<rparr>) s) = (e, s')"
  shows "cred_view cx i s' = Some (cr_name (cs_heap s r), cr_expires (cs_heap s r), Inr p)"
  using view_save [OF assms(5), of i] good_value(2) [OF assms(1-3), of r] assms(4) by (simp add: cred_view_def)

lemma store_cred_stored:
  assumes "cred_good cx s" and "crypto_ok cx" and "r < cs_next s" and "r \<notin> snd ` set (cs_creds s)"
    and "\<not> cs_closed s" and "cr_name (cs_heap s r) \<noteq> ''''" and "nonce_size \<le> length rnd"
    and "store_cred cx f gid now rnd r s = (e, s')"
  shows "cred_view cx (eff_id gid (cs_heap s r)) s' = Some (cr_name (cs_heap s r), cr_expires (cs_heap s r), Inr (cr_value (cs_heap s r)))
    \<and> (\<exists>s1. save_creds cx f s1 = (e, s') \<and> cs_cfg s1 = cs_cfg s \<and> cs_gcm s1 = cs_gcm s \<and> cs_disk s1 = cs_disk s \<and> cs_closed s1 = cs_closed s)"
proof -
  let ?s1 = "if cr_id (cs_heap s r) = '''' then upd_cred r (\<lambda>c. c\<lparr>cr_id := gid\<rparr>) s else s"
  let ?i = "cr_id (cs_heap ?s1 r)"
  have i: "?i = eff_id gid (cs_heap s r)" by (simp add: eff_id_def)
  have g1: "cred_good cx ?s1" using good_upd_loose [OF assms(1,4)] assms(1) by simp
  have same: "cr_name (cs_heap ?s1 r) = cr_name (cs_heap s r)" "cr_value (cs_heap ?s1 r) = cr_value (cs_heap s r)"
    "cr_expires (cs_heap ?s1 r) = cr_expires (cs_heap s r)" "cs_closed ?s1 = cs_closed s" "cs_cfg ?s1 = cs_cfg s" "cs_gcm ?s1 = cs_gcm s"
    "cs_disk ?s1 = cs_disk s" "cs_creds ?s1 = cs_creds s" "cs_next ?s1 = cs_next s" by simp_all
  show ?thesis
  proof (cases "mget (cs_creds ?s1) ?i")
    case (Some q)
    let ?s2 = "upd_cred q (overwrite_cred now (cs_heap ?s1 r)) ?s1"
    have g2: "cred_good cx ?s2" by (rule good_upd [OF g1]) (simp_all add: overwrite_cred_def)
    have qr: "q \<noteq> r" using loose_not_ref [OF assms(4)] Some same(8) by metis
    have vr: "cr_value (cs_heap ?s2 r) = cr_value (cs_heap s r)" using qr by simp
    obtain v where v: "encrypt_value cx rnd (cr_value (cs_heap s r)) ?s2 = Inr v" using encrypt_enough [OF assms(7)] by blast
    have sv: "save_creds cx f (upd_cred q (\<lambda>c. c\<lparr>cr_value := v\<rparr>) ?s2) = (e, s')"
      using assms(5,6,8) Some same(1) vr v unfolding store_cred_def Let_def by simp
    have q2: "mget (cs_creds ?s2) ?i = Some q" using Some by simp
    have "cred_view cx ?i s' = Some (cr_name (cs_heap s r), cr_expires (cs_heap s r), Inr (cr_value (cs_heap s r)))"
      using stored_view [OF g2 assms(2) v q2 sv] by (simp add: overwrite_cred_def)
    moreover have "cs_cfg (upd_cred q (\<lambda>c. c\<lparr>cr_value := v\<rparr>) ?s2) = cs_cfg s \<and> cs_gcm (upd_cred q (\<lambda>c. c\<lparr>cr_value := v\<rparr>) ?s2) = cs_gcm s
        \<and> cs_disk (upd_cred q (\<lambda>c. c\<lparr>cr_value := v\<rparr>) ?s2) = cs_disk s \<and> cs_closed (upd_cred q (\<lambda>c. c\<lparr>cr_value := v\<rparr>) ?s2) = cs_closed s"
      by simp
    ultimately show ?thesis using sv unfolding i by blast
  next
    case None
    let ?s2 = "upd_cred r (\<lambda>c. c\<lparr>cr_created := now, cr_updated := now\<rparr>) ?s1"
    have g2: "cred_good cx ?s2" by (rule good_upd [OF g1]) simp_all
    have vr: "cr_value (cs_heap ?s2 r) = cr_value (cs_heap s r)" by simp
    obtain v where v: "encrypt_value cx rnd (cr_value (cs_heap s r)) ?s2 = Inr v" using encrypt_enough [OF assms(7)] by blast
    let ?s3 = "upd_cred r (\<lambda>c. c\<lparr>cr_value := v\<rparr>) ?s2"
    let ?s4 = "?s3\<lparr>cs_creds := mput ?i r (cs_creds ?s3)\<rparr>"
    have sv: "save_creds cx f ?s4 = (e, s')"
      using assms(5,6,8) None same(1) vr v unfolding store_cred_def Let_def by simp
    have "cred_plain cx ?s4 r = cred_plain cx ?s3 r" by (rule plain_same) simp_all
    then have "cred_view cx ?i ?s4 = Some (cr_name (cs_heap s r), cr_expires (cs_heap s r), Inr (cr_value (cs_heap s r)))"
      using good_value(2) [OF g2 assms(2) v, of r] by (simp add: cred_view_def)
    moreover have "cs_cfg ?s4 = cs_cfg s \<and> cs_gcm ?s4 = cs_gcm s \<and> cs_disk ?s4 = cs_disk s \<and> cs_closed ?s4 = cs_closed s" by simp
    ultimately show ?thesis using sv view_save [OF sv, of ?i] unfolding i by metis
  qed
qed

section \<open>The properties\<close>

text \<open>The machine of the calls for which the random source suffices.\<close>

definition cred_step :: "cred_crypto \<Rightarrow> cred_store \<Rightarrow> cred_op \<Rightarrow> cred_store" where
  "cred_step cx s c = (if enough_random c then cred_exec cx s c else s)"

lemma exec_closed: "cs_closed s \<Longrightarrow> cs_closed (cred_exec cx s c)"
proof (cases c)
  case (CStore f gid now rnd c0)
  assume "cs_closed s"
  then show ?thesis using CStore by (auto simp: alloc_cred_def store_cred_def)
next
  case (CTouch now j)
  assume "cs_closed s"
  then show ?thesis using CTouch by (auto simp: update_access_stats_def split: option.split)
next
  case (CStoreLlm f gid now rnd p k)
  assume "cs_closed s"
  then show ?thesis using CStoreLlm by (simp add: store_llm_cred_def)
qed (simp_all add: delete_cred_def rotate_key_def cleanup_expired_def delete_llm_cred_def close_cred_store_def)

interpretation creds: closable_machine "cred_step cx" "\<lambda>s. crypto_ok cx \<longrightarrow> cred_good cx s" cs_closed
  by unfold_locales (auto simp: cred_step_def exec_good exec_closed)

lemma step_run: "list_all enough_random cs \<Longrightarrow> foldl (cred_step cx) s cs = foldl (cred_exec cx) s cs"
  by (induction cs arbitrary: s) (simp_all add: cred_step_def)

lemma run_view:
  assumes "crypto_ok cx" and "list_all enough_random cs" and "list_all (leaves_alone i n t) cs"
    and "cred_good cx s" and "cred_view cx i s = Some (n, t, v)"
  shows "cred_view cx i (foldl (cred_exec cx) s cs) = Some (n, t, v)"
  using assms(2-5)
proof (induction cs arbitrary: s)
  case (Cons c cs)
  then show ?case using exec_good [OF _ assms(1)] exec_view [OF _ assms(1)] by simp
qed simp

text \<open>
  C24: Over any calls, rotations of the key and failing saves among them, every credential of the store
  can be decrypted, and one that no call names keeps its name, its expiry and its value; a closed store
  stays closed.
\<close>

theorem credentials_keep_their_values:
  assumes "crypto_ok cx" and "cred_good cx s0" and "list_all enough_random cs" and "s = foldl (cred_exec cx) s0 cs"
  shows "cred_good cx s \<and> (cs_closed s0 \<longrightarrow> cs_closed s)
    \<and> (\<forall>i n t v. cred_view cx i s0 = Some (n, t, v) \<longrightarrow> list_all (leaves_alone i n t) cs \<longrightarrow>
         cred_view cx i s = Some (n, t, v))"
proof -
  have "cred_good cx s" "cs_closed s0 \<longrightarrow> cs_closed s"
    using creds.run_good [of cx s0 cs] creds.run_shut [of s0 cx cs] assms step_run [OF assms(3)] by auto
  then show ?thesis using run_view [OF assms(1,3) _ assms(2)] assms(4) by blast
qed

text \<open>
  A cipher and a codec of this kind, for one credential: the key is written in front of the text, with
  each letter marked, and the map is written as the value of its only entry.
\<close>

definition marked :: "string \<Rightarrow> string" where
  "marked k = concat (map (\<lambda>c. [CHR ''0'', c]) k) @ ''1''"

definition sample_cred :: credential where
  "sample_cred = zero_credential\<lparr>cr_id := ''c1'', cr_name := ''db'', cr_value := ''secret''\<rparr>"

definition sample_map :: "string \<Rightarrow> (string \<times> credential) list" where
  "sample_map v = [(''c1'', sample_cred\<lparr>cr_created := 5, cr_updated := 5, cr_value := v\<rparr>)]"

definition sample_crypto :: cred_crypto where
  "sample_crypto = \<lparr>cx_seal = (\<lambda>k n p. marked k @ p),
     cx_open = (\<lambda>k n c. if has_prefix c (marked k) then Some (drop (length (marked k)) c) else None),
     cx_marshal = (\<lambda>m. if m = sample_map (cr_value (snd (hd m))) then Inr (cr_value (snd (hd m))) else Inl (PlainErr ''unsupported'')),
     cx_unmarshal = (\<lambda>d. (None, sample_map d))\<rparr>"

lemma own_prefix: "has_prefix (p @ s) p"
  by (simp add: has_prefix_def)

lemma sample_crypto_ok: "crypto_ok sample_crypto"
  by (auto simp: crypto_ok_def sample_crypto_def own_prefix split: if_splits)

lemma marked_prefix: "marked k @ p = marked k' @ q \<Longrightarrow> k = k'"
proof (induction k arbitrary: k')
  case Nil
  then show ?case by (cases k') (auto simp: marked_def)
next
  case (Cons a k)
  then show ?case by (cases k') (auto simp: marked_def)
qed

lemma sample_key_matters: "key_matters sample_crypto"
  by (auto simp: key_matters_def sample_crypto_def has_prefix_iff dest: marked_prefix)

definition sample_key :: string where
  "sample_key = replicate 32 CHR ''k''"

definition sample_cred_config :: credentials_config where
  "sample_cred_config = \<lparr>xc_store_path = ''/c/creds.json'', xc_encryption_enabled = True, xc_key_rotation_days = 90, xc_max_credential_age = 365\<rparr>"

definition sample_no_creds :: cred_store where
  "sample_no_creds = empty_cred_store sample_cred_config sample_key
     \<lparr>dk_files = [(''/c/.cred_key'', sample_key)], dk_dirs = [''/c'']\<rparr>"

lemma sample_no_creds_good: "cred_good cx sample_no_creds"
  by (simp add: cred_good_def cred_ok_def all_readable_def sample_no_creds_def empty_cred_store_def)

definition twelve :: string where
  "twelve = replicate 12 CHR ''n''"

lemma twelve_enough [simp]: "nonce_size \<le> length twelve"
  by (simp add: twelve_def nonce_size_def)

definition sample_given :: cred_store where
  "sample_given = snd (alloc_cred sample_cred sample_no_creds)"

lemma sample_alloc: "alloc_cred sample_cred sample_no_creds = (0, sample_given)"
  by (simp add: sample_given_def alloc_cred_def sample_no_creds_def empty_cred_store_def)

lemma sample_given_fields: "cs_heap sample_given 0 = sample_cred" "cs_creds sample_given = []" "\<not> cs_closed sample_given"
    "cs_next sample_given = 1" "cs_cfg sample_given = sample_cred_config" "cs_gcm sample_given = sample_key"
    "cs_disk sample_given = cs_disk sample_no_creds"
  by (simp_all add: sample_given_def alloc_cred_def sample_no_creds_def empty_cred_store_def)

definition one_cred :: cred_store where
  "one_cred = cred_exec sample_crypto sample_no_creds (CStore no_faults ''g'' 5 twelve sample_cred)"

lemma one_cred_stored: "store_cred sample_crypto no_faults ''g'' 5 twelve 0 sample_given = (None, one_cred)"
proof -
  have "\<exists>v. \<forall>s. cs_cfg s = sample_cred_config \<longrightarrow> cs_gcm s = sample_key \<longrightarrow> encrypt_value sample_crypto twelve ''secret'' s = Inr v"
    by (auto simp: encrypt_value_def read_full_def leD [OF twelve_enough] sample_cred_config_def)
  then obtain v where "\<And>s. cs_cfg s = sample_cred_config \<Longrightarrow> cs_gcm s = sample_key \<Longrightarrow> encrypt_value sample_crypto twelve ''secret'' s = Inr v"
    by blast
  then have "fst (store_cred sample_crypto no_faults ''g'' 5 twelve 0 sample_given) = None"
    by (simp add: store_cred_def sample_given_fields Let_def sample_cred_def zero_credential_def
        save_creds_def stored_creds_def mput_def sample_crypto_def sample_map_def write_then_rename_def no_faults_def)
  then show ?thesis by (simp add: one_cred_def sample_alloc prod_eq_iff)
qed

lemma one_cred_good: "cred_good sample_crypto one_cred"
  unfolding one_cred_def by (rule exec_good [OF sample_no_creds_good sample_crypto_ok]) simp

lemma one_cred_view: "cred_view sample_crypto ''c1'' one_cred = Some (''db'', 0, Inr ''secret'')"
  using store_cred_stored [OF alloc_loose(1) [OF sample_no_creds_good sample_alloc] sample_crypto_ok _ _ _ _ twelve_enough one_cred_stored]
  by (simp add: sample_given_fields sample_cred_def zero_credential_def eff_id_def)

lemma credentials_keep_their_values_witness:
  "cred_view sample_crypto ''c1'' (foldl (cred_exec sample_crypto) one_cred
      [CRotate (replicate 32 CHR ''x'') (\<lambda>_. twelve) None no_faults, CStoreLlm no_faults ''c2'' 7 twelve ''openai'' ''sk'', CTouch 8 ''c1''])
    = Some (''db'', 0, Inr ''secret'')"
proof -
  let ?cs = "[CRotate (replicate 32 CHR ''x'') (\<lambda>_. twelve) None no_faults, CStoreLlm no_faults ''c2'' 7 twelve ''openai'' ''sk'', CTouch 8 ''c1'']"
  have "list_all enough_random ?cs" "list_all (leaves_alone ''c1'' ''db'' 0) ?cs"
    by (simp_all add: llm_cred_name_def)
  then show ?thesis
    using credentials_keep_their_values [OF sample_crypto_ok one_cred_good _ refl, of ?cs] one_cred_view by blast
qed

section \<open>Restart\<close>

definition key_on_disk :: "cred_store \<Rightarrow> bool" where
  "key_on_disk s \<longleftrightarrow> mget (dk_files (cs_disk s)) (cred_key_path (cs_cfg s)) = Some (cs_gcm s) \<and> length (cs_gcm s) = 32"

definition cred_paths_ok :: "credentials_config \<Rightarrow> bool" where
  "cred_paths_ok cfg \<longleftrightarrow> cred_key_path cfg \<notin> {xc_store_path cfg, xc_store_path cfg @ ''.tmp''}"

lemma mget_numbered: "map_option (\<lambda>k. snd (m ! (k - a))) (mget (zip (map fst m) [a..<a + length m]) i) = mget m i
    \<and> (\<forall>k. mget (zip (map fst m) [a..<a + length m]) i = Some k \<longrightarrow> a \<le> k \<and> k < a + length m)"
proof (induction m arbitrary: a)
  case (Cons p m)
  obtain j v where p: "p = (j, v)" by fastforce
  have up: "[a..<a + length (p # m)] = a # [Suc a..<Suc a + length m]" by (simp add: upt_conv_Cons del: upt_Suc)
  show ?case
  proof (cases "j = i")
    case True
    then show ?thesis unfolding up by (simp add: p mget_Cons)
  next
    case False
    then have eq: "mget (zip (map fst (p # m)) [a..<a + length (p # m)]) i = mget (zip (map fst m) [Suc a..<Suc a + length m]) i"
      unfolding up by (simp add: p mget_Cons)
    have nth: "(p # m) ! (k - a) = m ! (k - Suc a)" if "Suc a \<le> k" for k
      using that by (simp add: nth_Cons')
    show ?thesis
    proof (cases "mget (zip (map fst m) [Suc a..<Suc a + length m]) i")
      case None
      then show ?thesis using Cons.IH [of "Suc a"] False unfolding eq by (simp add: p mget_Cons)
    next
      case (Some k)
      then show ?thesis using Cons.IH [of "Suc a"] False nth [of k] unfolding eq by (simp add: p mget_Cons)
    qed
  qed
qed simp

lemma mget_stored_creds: "mget (stored_creds s) i = map_option (cs_heap s) (mget (cs_creds s) i)"
  unfolding stored_creds_def by (induction "cs_creds s" arbitrary: s) (auto simp: mget_def map_of_map)

lemma saved_file:
  assumes "save_creds cx f s = (None, s')"
  shows "\<exists>d. cx_marshal cx (stored_creds s') = Inr d \<and> mget (dk_files (cs_disk s')) (xc_store_path (cs_cfg s')) = Some d"
    and "q \<noteq> xc_store_path (cs_cfg s) @ ''.tmp'' \<Longrightarrow> q \<noteq> xc_store_path (cs_cfg s) \<Longrightarrow>
      mget (dk_files (cs_disk s')) q = mget (dk_files (cs_disk s)) q"
proof -
  obtain d d' where d: "cx_marshal cx (stored_creds s) = Inr d"
    and w: "write_then_rename f (xc_store_path (cs_cfg s)) d (cs_disk s) = (None, d')" and s': "s' = s\<lparr>cs_disk := d'\<rparr>"
    using assms by (auto simp: save_creds_def split: sum.splits prod.splits)
  have "stored_creds s' = stored_creds s" by (simp add: s' stored_creds_def)
  then show "\<exists>d. cx_marshal cx (stored_creds s') = Inr d \<and> mget (dk_files (cs_disk s')) (xc_store_path (cs_cfg s')) = Some d"
    using d write_then_rename_files [OF w] by (simp add: s')
  show "q \<noteq> xc_store_path (cs_cfg s) @ ''.tmp'' \<Longrightarrow> q \<noteq> xc_store_path (cs_cfg s) \<Longrightarrow>
      mget (dk_files (cs_disk s')) q = mget (dk_files (cs_disk s)) q"
    using write_then_rename_files [OF w] by (simp add: s')
qed

lemma empty_cred_store_fields:
  "cs_creds (empty_cred_store cfg k d) = []" "cs_cfg (empty_cred_store cfg k d) = cfg" "cs_gcm (empty_cred_store cfg k d) = k"
  "cs_closed (empty_cred_store cfg k d) = False" "cs_disk (empty_cred_store cfg k d) = d"
  by (simp_all add: empty_cred_store_def)

text \<open>A store that starts on a disk with the key and the saved map has what was saved.\<close>

lemma restart_view:
  assumes "crypto_ok cx" and "mget (dk_files d) (cred_key_path (cs_cfg s)) = Some (cs_gcm s)" and "length (cs_gcm s) = 32"
    and "cx_marshal cx (stored_creds s) = Inr t" and "mget (dk_files d) (xc_store_path (cs_cfg s)) = Some t"
    and "new_cred_store cx None random (\<lambda>_. False) fault (cs_cfg s) d = (res, d')"
  shows "\<exists>s3. res = Inr s3 \<and> \<not> cs_closed s3 \<and> (\<forall>i. cred_view cx i s3 = cred_view cx i s)"
proof -
  let ?m = "stored_creds s"
  let ?d1 = "disk_mkdir_all (path_dir (xc_store_path (cs_cfg s))) d"
  let ?e = "empty_cred_store (cs_cfg s) (cs_gcm s) ?d1"
  let ?s3 = "?e\<lparr>cs_creds := zip (map fst ?m) [0..<length ?m], cs_next := length ?m,
      cs_heap := (\<lambda>r. if r < length ?m then snd (?m ! r) else cs_heap ?e r)\<rparr>"
  have "snd (load_creds cx (\<lambda>_. False) ?e) = ?s3"
    using assms(1,4,5) by (simp add: load_creds_def empty_cred_store_fields crypto_ok_def)
  then have res: "res = Inr ?s3"
    using assms(2,3,6) by (simp add: new_cred_store_def get_or_create_key_def Let_def)
  have "cred_view cx i ?s3 = cred_view cx i s" for i
  proof -
    have num: "map_option (\<lambda>k. snd (?m ! k)) (mget (zip (map fst ?m) [0..<length ?m]) i) = mget ?m i"
      "\<forall>k. mget (zip (map fst ?m) [0..<length ?m]) i = Some k \<longrightarrow> k < length ?m"
      using mget_numbered [of ?m 0 i] by simp_all
    show ?thesis
    proof (cases "mget (zip (map fst ?m) [0..<length ?m]) i")
      case None
      then show ?thesis using num mget_stored_creds [of s i] by (simp add: cred_view_def)
    next
      case (Some k)
      then obtain r where r: "mget (cs_creds s) i = Some r" "snd (?m ! k) = cs_heap s r"
        using num mget_stored_creds [of s i] by (cases "mget (cs_creds s) i") auto
      have "cs_heap ?s3 k = cs_heap s r" using num(2) Some r by simp
      moreover have "cs_cfg ?s3 = cs_cfg s" "cs_gcm ?s3 = cs_gcm s" by (simp_all add: empty_cred_store_def)
      ultimately have "cred_plain cx ?s3 k = cred_plain cx s r"
        by (simp add: cred_plain_def decrypt_value_def decrypt_cfg [of ?s3 s])
      then show ?thesis using Some r \<open>cs_heap ?s3 k = _\<close> by (simp add: cred_view_def)
    qed
  qed
  then show ?thesis using res by (simp add: empty_cred_store_def)
qed

lemma get_of_view: "cred_view cx i s = Some (n, t, Inr v) \<Longrightarrow> \<not> cs_closed s \<Longrightarrow> t = 0 \<or> now \<le> t \<Longrightarrow>
    \<exists>c. get_cred cx now i s = Inr c \<and> cr_name c = n \<and> cr_value c = v"
  by (auto simp: cred_view_def get_cred_def cred_plain_def cred_expired_def ts_is_zero_def Let_def)

text \<open>
  C25: A credential that a caller makes and stores without error can be got with the value it was given,
  from this store and from the next one that starts on the disk; on the way the value is sealed,
  encoded, written and read, and the next store has every other credential as well.
\<close>

theorem stored_credential_survives_restart:
  assumes "crypto_ok cx" and "cred_good cx s" and "key_on_disk s" and "cred_paths_ok (cs_cfg s)"
    and "alloc_cred c s = (r, s1)" and "store_cred cx f gid now rnd r s1 = (None, s2)" and "nonce_size \<le> length rnd"
    and "new_cred_store cx None random (\<lambda>_. False) fault (cs_cfg s2) (cs_disk s2) = (res, d)"
    and "cr_expires c = 0 \<or> t \<le> cr_expires c"
  shows "\<exists>s3 c2 c3. res = Inr s3 \<and> get_cred cx t (eff_id gid c) s2 = Inr c2 \<and> cr_name c2 = cr_name c \<and> cr_value c2 = cr_value c
    \<and> get_cred cx t (eff_id gid c) s3 = Inr c3 \<and> cr_name c3 = cr_name c \<and> cr_value c3 = cr_value c
    \<and> (\<forall>i. cred_view cx i s3 = cred_view cx i s2)"
proof -
  have ok: "cred_ok s" using assms(2) by (simp add: cred_good_def)
  note al = cred_ok_alloc [OF ok assms(5), THEN conjunct2]
  have live: "\<not> cs_closed s1" and named: "cr_name (cs_heap s1 r) \<noteq> ''''"
    using assms(6) by (auto simp: store_cred_def Let_def split: if_splits)
  have h: "cs_heap s1 r = c" using al by blast
  note st = store_cred_stored [OF alloc_loose(1) [OF assms(2,5)] assms(1) alloc_loose(2,3) [OF assms(2,5)] live named assms(7,6), unfolded h]
  obtain s0 where s0: "save_creds cx f s0 = (None, s2)" "cs_cfg s0 = cs_cfg s" "cs_gcm s0 = cs_gcm s" "cs_disk s0 = cs_disk s" "\<not> cs_closed s0"
    using st al live by auto
  note sv = save_creds_same [OF s0(1)]
  obtain w where w: "cx_marshal cx (stored_creds s2) = Inr w" "mget (dk_files (cs_disk s2)) (xc_store_path (cs_cfg s2)) = Some w"
    using saved_file(1) [OF s0(1)] by blast
  have "mget (dk_files (cs_disk s2)) (cred_key_path (cs_cfg s2)) = Some (cs_gcm s2)" "length (cs_gcm s2) = 32"
    using saved_file(2) [OF s0(1), of "cred_key_path (cs_cfg s)"] assms(3,4) s0 sv by (simp_all add: key_on_disk_def cred_paths_ok_def)
  from restart_view [OF assms(1) this w assms(8)] obtain s3 where s3: "res = Inr s3" "\<not> cs_closed s3" "\<forall>i. cred_view cx i s3 = cred_view cx i s2"
    by blast
  have v: "cred_view cx (eff_id gid c) s2 = Some (cr_name c, cr_expires c, Inr (cr_value c))" using st by blast
  have "\<not> cs_closed s2" using sv(7) s0(5) by simp
  then show ?thesis
    using get_of_view [OF v _ assms(9)] get_of_view [OF trans [OF s3(3) [rule_format] v] s3(2) assms(9)] s3 by blast
qed

lemma stored_credential_survives_restart_witness:
  "cr_value (projr (get_cred sample_crypto 9 ''c1'' (projr (fst (new_cred_store sample_crypto None '''' (\<lambda>_. False) None
      (cs_cfg one_cred) (cs_disk one_cred)))))) = ''secret''"
proof -
  obtain res d where n: "new_cred_store sample_crypto None '''' (\<lambda>_. False) None (cs_cfg one_cred) (cs_disk one_cred) = (res, d)" by fastforce
  have kp: "cred_key_path sample_cred_config = ''/c/.cred_key''" by code_simp
  have "key_on_disk sample_no_creds"
    by (simp add: key_on_disk_def sample_no_creds_def empty_cred_store_def kp mget_Cons sample_key_def)
  moreover have "cred_paths_ok (cs_cfg sample_no_creds)"
    by (simp add: cred_paths_ok_def sample_no_creds_def empty_cred_store_def kp) (simp add: sample_cred_config_def)
  ultimately show ?thesis
    using stored_credential_survives_restart [OF sample_crypto_ok sample_no_creds_good _ _ sample_alloc one_cred_stored twelve_enough n, of 9] n
    by (auto simp: sample_cred_def zero_credential_def eff_id_def)
qed

section \<open>Objects shared with the caller\<close>

text \<open>
  The store keeps the object of the caller and seals its value in place; so a caller who stores the
  same object again, with whatever else changed in it, seals the sealed text, and from then on the store
  gives out that text instead of the value.
\<close>

lemma storing_again_seals_twice:
  assumes "crypto_ok cx" and "cred_good cx s" and "xc_encryption_enabled (cs_cfg s)"
    and "alloc_cred c s = (r, s1)" and "mget (cs_creds s) (eff_id gid c) = None" and "eff_id gid c \<noteq> ''''"
    and "nonce_size \<le> length rnd" and "nonce_size \<le> length rnd2"
    and "store_cred cx f gid now rnd r s1 = (e, s2)" and "\<not> cs_closed s" and "cr_name c \<noteq> ''''"
    and "store_cred cx f2 gid2 now2 rnd2 r s2 = (e2, s3)"
  shows "cred_view cx (eff_id gid c) s2 = Some (cr_name c, cr_expires c, Inr (cr_value c))
    \<and> cred_view cx (eff_id gid c) s3 = Some (cr_name c, cr_expires c, Inr (cr_value (cs_heap s2 r)))
    \<and> cr_value (cs_heap s2 r) = b64_encode (take nonce_size rnd @ cx_seal cx (cs_gcm s) (take nonce_size rnd) (cr_value c))"
proof -
  let ?i = "eff_id gid c"
  have ok: "cred_ok s" using assms(2) by (simp add: cred_good_def)
  note al = cred_ok_alloc [OF ok assms(4), THEN conjunct2]
  have h: "cs_heap s1 r = c" using al by blast
  have live: "\<not> cs_closed s1" using al assms(10) by simp
  have named: "cr_name (cs_heap s1 r) \<noteq> ''''" using assms(11) h by simp
  note st = store_cred_stored [OF alloc_loose(1) [OF assms(2,4)] assms(1) alloc_loose(2,3) [OF assms(2,4)] live named assms(7,9), unfolded h]
  let ?s1 = "if cr_id (cs_heap s1 r) = '''' then upd_cred r (\<lambda>c. c\<lparr>cr_id := gid\<rparr>) s1 else s1"
  let ?t2 = "upd_cred r (\<lambda>c. c\<lparr>cr_created := now, cr_updated := now\<rparr>) ?s1"
  obtain v where v: "encrypt_value cx rnd (cr_value c) ?t2 = Inr v" using encrypt_enough [OF assms(7)] by blast
  have none: "mget (cs_creds ?s1) (cr_id (cs_heap ?s1 r)) = None" using assms(5) al by (auto simp: eff_id_def split: if_splits)
  have val: "cr_value (cs_heap ?t2 r) = cr_value c" using h by simp
  have nm: "cr_name (cs_heap ?s1 r) = cr_name c" using h by simp
  have sv: "save_creds cx f ((upd_cred r (\<lambda>c. c\<lparr>cr_value := v\<rparr>) ?t2)\<lparr>cs_creds := mput (cr_id (cs_heap ?s1 r)) r
      (cs_creds (upd_cred r (\<lambda>c. c\<lparr>cr_value := v\<rparr>) ?t2))\<rparr>) = (e, s2)"
    using assms(9,11) live none v val nm unfolding store_cred_def Let_def by simp
  note same = save_creds_same [OF sv]
  have r2: "cs_heap s2 r = c\<lparr>cr_id := ?i, cr_created := now, cr_updated := now, cr_value := v\<rparr>"
    using same(2) h by (simp add: eff_id_def)
  have m2: "mget (cs_creds s2) ?i = Some r" using same(1) h by (simp add: eff_id_def)
  have g2: "cred_good cx s2" by (rule store_cred_good [OF alloc_loose(1) [OF assms(2,4)] assms(1) alloc_loose(2,3) [OF assms(2,4)] assms(9)])
  have live2: "\<not> cs_closed s2" using same(7) live by simp
  \<comment> \<open>the second store finds the object itself\<close>
  let ?u2 = "upd_cred r (overwrite_cred now2 (cs_heap s2 r)) s2"
  have gu: "cred_good cx ?u2" by (rule good_upd [OF g2]) (simp_all add: overwrite_cred_def)
  obtain v2 where v2: "encrypt_value cx rnd2 (cr_value (cs_heap ?u2 r)) ?u2 = Inr v2" using encrypt_enough [OF assms(8)] by blast
  have "save_creds cx f2 (upd_cred r (\<lambda>c. c\<lparr>cr_value := v2\<rparr>) ?u2) = (e2, s3)"
    using assms(6,11,12) live2 m2 r2 v2 unfolding store_cred_def Let_def by simp
  from stored_view [OF gu assms(1) v2 _ this] have "cred_view cx ?i s3 = Some (cr_name c, cr_expires c, Inr (cr_value (cs_heap ?u2 r)))"
    using m2 r2 by (simp add: overwrite_cred_def)
  moreover have "cr_value (cs_heap ?u2 r) = cr_value (cs_heap s2 r)" by (simp add: overwrite_cred_def)
  moreover have "cs_cfg ?t2 = cs_cfg s" "cs_gcm ?t2 = cs_gcm s" using al by simp_all
  then have "v = b64_encode (take nonce_size rnd @ cx_seal cx (cs_gcm s) (take nonce_size rnd) (cr_value c))"
    using encrypted_form(2) [OF v] assms(3) by simp
  ultimately show ?thesis using st r2 by simp
qed

lemma storing_again_seals_twice_witness:
  "cred_view sample_crypto ''c1'' (snd (store_cred sample_crypto no_faults ''h'' 6 twelve 0 one_cred))
     = Some (''db'', 0, Inr (b64_encode (twelve @ marked sample_key @ ''secret'')))"
proof -
  obtain e2 s3 where s: "store_cred sample_crypto no_faults ''h'' 6 twelve 0 one_cred = (e2, s3)" by fastforce
  have "take nonce_size twelve = twelve" by (simp add: twelve_def nonce_size_def)
  then show ?thesis
    using storing_again_seals_twice [OF sample_crypto_ok sample_no_creds_good _ sample_alloc _ _ twelve_enough twelve_enough one_cred_stored _ _ s] s
    by (simp add: sample_no_creds_def empty_cred_store_def sample_cred_config_def sample_cred_def zero_credential_def eff_id_def sample_crypto_def)
qed

section \<open>A rotation that fails\<close>

text \<open>
  C26: One credential that cannot be decrypted makes a rotation of the key fail; the old cipher is put
  back, but the credentials before it in the order of the map have been sealed under the new key, which
  is thrown away: none of them can be got any more, while those after it are as before.
\<close>

theorem failed_rotation_loses_credentials:
  assumes "key_matters cx" and "cred_ok s" and "\<not> cs_closed s" and "xc_encryption_enabled (cs_cfg s)"
    and "cs_creds s = xs @ (j, q) # ys" and "\<forall>(i, r) \<in> set xs. is_ok (cred_plain cx s r)" and "\<not> is_ok (cred_plain cx s q)"
    and "32 \<le> length kr" and "take 32 kr \<noteq> cs_gcm s" and "\<forall>i. nonce_size \<le> length (rnd i)"
    and "rotate_key cx kr rnd kf f s = (e, s')"
  shows "e \<noteq> None \<and> cs_gcm s' = cs_gcm s \<and> cs_disk s' = cs_disk s
    \<and> (\<forall>(i, r) \<in> set xs. \<forall>now. \<not> is_ok (get_cred cx now i s'))
    \<and> (\<forall>(i, r) \<in> set ys. cred_view cx i s' = cred_view cx i s)"
proof -
  let ?k = "take 32 kr"
  let ?s = "s\<lparr>cs_gcm := ?k\<rparr>"
  obtain e1 s1 where r: "reencrypt cx (cs_gcm s) rnd (xs @ (j, q) # ys) ?s = (e1, s1)" by fastforce
  have old: "decrypt_with_gcm cx (cs_gcm s) (cr_value (cs_heap ?s r)) ?s = cred_plain cx s r" for r
    by (simp add: cred_plain_def decrypt_value_def decrypt_cfg [of ?s s])
  obtain x where x: "cred_plain cx s q = Inl x" using assms(7) by (auto simp: not_is_ok_iff)
  have dist: "distinct (map snd (xs @ (j, q) # ys))" using cred_refs_distinct [OF assms(2)] assms(5) by simp
  have stop: "e1 \<noteq> None \<and> (\<forall>(i, r) \<in> set xs. \<not> is_ok (decrypt_with_gcm cx (cs_gcm s) (cr_value (cs_heap s1 r)) s1))
      \<and> (\<forall>(i, r) \<in> set ys. cs_heap s1 r = cs_heap ?s r)"
    by (rule reencrypt_stops [OF assms(1) _ _ _ dist _ _ r, where x = x]) (use assms(4,6,9,10) old x in auto)
  note fl = reencrypt_fields [OF r]
  have s': "s' = s1\<lparr>cs_gcm := cs_gcm s\<rparr>" "e \<noteq> None"
    using assms(3,8,11) r stop unfolding assms(5) [symmetric] by (auto simp: rotate_key_def read_full_def split: option.splits)
  have mg: "(i, r) \<in> set (xs @ (j, q) # ys) \<Longrightarrow> mget (cs_creds s) i = Some r" for i r
    using assms(2,5) by (auto simp: cred_ok_def mget_iff_in_set)
  have "\<not> is_ok (get_cred cx now i s')" if "(i, r) \<in> set xs" for i r now
  proof -
    have "\<not> is_ok (decrypt_with_gcm cx (cs_gcm s) (cr_value (cs_heap s1 r)) s1)" using stop that by blast
    then have "\<not> is_ok (decrypt_value cx (cr_value (cs_heap s1 r)) s')"
      by (simp add: s' decrypt_value_def decrypt_cfg [of "s1\<lparr>cs_gcm := cs_gcm s\<rparr>" s1])
    then show ?thesis using mg [of i r] that fl by (auto simp: get_cred_def s' not_is_ok_iff Let_def split: sum.split)
  qed
  moreover have "cred_view cx i s' = cred_view cx i s" if "(i, r) \<in> set ys" for i r
  proof (rule view_same)
    show "cr_name (cs_heap s' p) = cr_name (cs_heap s p) \<and> cr_expires (cs_heap s' p) = cr_expires (cs_heap s p)
        \<and> cr_value (cs_heap s' p) = cr_value (cs_heap s p)" if "mget (cs_creds s) i = Some p" for p
    proof -
      have "p = r" using mg [of i r] \<open>(i, r) \<in> set ys\<close> that by simp
      then have "cs_heap s1 p = cs_heap s p" using stop \<open>(i, r) \<in> set ys\<close> by auto
      then show ?thesis by (simp add: s')
    qed
  qed (simp_all add: s' fl)
  ultimately show ?thesis using s' fl by auto
qed

definition spoiled_pair :: cred_store where
  "spoiled_pair = one_cred\<lparr>cs_creds := cs_creds one_cred @ [(''c2'', 1)], cs_next := 2,
     cs_heap := (cs_heap one_cred)(1 := sample_cred\<lparr>cr_id := ''c2'', cr_value := []\<rparr>)\<rparr>"

lemma one_cred_fields: "cs_creds one_cred = [(''c1'', 0)]" "cs_cfg one_cred = sample_cred_config" "cs_gcm one_cred = sample_key"
    "\<not> cs_closed one_cred" "cs_next one_cred = 1" "cr_id (cs_heap one_cred 0) = ''c1''"
proof -
  have "\<exists>s. save_creds sample_crypto no_faults s = (None, one_cred) \<and> cs_creds s = [(''c1'', 0)] \<and> cs_cfg s = sample_cred_config
      \<and> cs_gcm s = sample_key \<and> \<not> cs_closed s \<and> cs_next s = 1 \<and> cr_id (cs_heap s 0) = ''c1''"
    using one_cred_stored
    by (auto simp: store_cred_def sample_given_fields Let_def sample_cred_def zero_credential_def mput_def split: sum.splits)
  then show "cs_creds one_cred = [(''c1'', 0)]" "cs_cfg one_cred = sample_cred_config" "cs_gcm one_cred = sample_key"
    "\<not> cs_closed one_cred" "cs_next one_cred = 1" "cr_id (cs_heap one_cred 0) = ''c1''"
    by (auto dest: save_creds_same)
qed

lemma failed_rotation_loses_credentials_witness:
  "cred_view sample_crypto ''c1'' one_cred = Some (''db'', 0, Inr ''secret'')
   \<and> \<not> is_ok (get_cred sample_crypto 9 ''c1''
        (snd (rotate_key sample_crypto (replicate 32 CHR ''x'') (\<lambda>_. twelve) None no_faults spoiled_pair)))"
proof -
  let ?s = spoiled_pair
  obtain e s' where r: "rotate_key sample_crypto (replicate 32 CHR ''x'') (\<lambda>_. twelve) None no_faults ?s = (e, s')" by fastforce
  have p0: "cred_plain sample_crypto ?s 0 = Inr ''secret''"
  proof -
    have "cred_plain sample_crypto ?s 0 = cred_plain sample_crypto one_cred 0"
      by (rule plain_same) (simp_all add: spoiled_pair_def)
    then show ?thesis using one_cred_view by (simp add: cred_view_def one_cred_fields mget_Cons)
  qed
  have "b64_decode [] = Some []" by (simp add: b64_decode_def)
  then have p1: "\<not> is_ok (cred_plain sample_crypto ?s 1)"
    by (simp add: cred_plain_def decrypt_value_def decrypt_with_gcm_def spoiled_pair_def one_cred_fields sample_cred_config_def nonce_size_def)
  have ok: "cred_ok ?s" by (simp add: cred_ok_def spoiled_pair_def one_cred_fields mwf_def)
  have "\<not> is_ok (get_cred sample_crypto 9 ''c1'' s')"
    using failed_rotation_loses_credentials [OF sample_key_matters ok _ _ _ _ p1 _ _ _ r, of "[(''c1'', 0)]" "''c2''" "[]"] p0
    by (simp add: spoiled_pair_def one_cred_fields sample_cred_config_def sample_key_def)
  then show ?thesis using one_cred_view r by simp
qed

end
