(* ===== verification/Credential_Injector.thy ===== *)
theory Credential_Injector
  imports Credential_Proofs Memory_Paths
begin

text \<open>
  pkg/credentials/injector.go and llm_credentials.go: how credentials reach a container, as
  environment variables and as files below a mounted directory, and the keys of LLM providers.
  The injector reads the store and changes nothing but its own closed flag; the updates of the
  access statistics that its reads start are steps of the store.
\<close>

section \<open>Configuration and result\<close>

type_synonym injection_method = string

abbreviation method_env :: injection_method where "method_env \<equiv> ''env_var''"
abbreviation method_file :: injection_method where "method_file \<equiv> ''file''"
abbreviation method_both :: injection_method where "method_both \<equiv> ''both''"

record injection_config =
  ij_cred_id :: string
  ij_cred_name :: string
  ij_method :: injection_method
  ij_env_name :: string
  ij_file_path :: string
  ij_file_permissions :: string
  ij_mount_path :: string
  ij_format :: string
  ij_template :: string
  ij_additional_env :: "(string, string) gomap"

record mount_info =
  mi_source :: string
  mi_destination :: string
  mi_read_only :: bool

record injected =
  id_env :: "(string, string) gomap"
  id_files :: "(string, string) gomap"
  id_mounts :: "mount_info list"
  id_metadata :: "(string, string) gomap"

record injector =
  in_store :: cred_store
  in_closed :: bool

definition new_injector :: "cred_store option \<Rightarrow> injector result" where
  "new_injector so =
     (case so of None \<Rightarrow> Inl (new_error ErrInvalidArgument) | Some s \<Rightarrow> Inr \<lparr>in_store = s, in_closed = False\<rparr>)"

section \<open>Environment variables\<close>

definition env_char :: "char \<Rightarrow> char" where
  "env_char c =
     (let n = of_char c :: nat
      in if (65 \<le> n \<and> n \<le> 90) \<or> (48 \<le> n \<and> n \<le> 57) \<or> n = 95 then c else CHR ''_'')"

definition default_env_name :: "credential \<Rightarrow> string" where
  "default_env_name c = map env_char (''CRED_'' @ to_upper (cr_type c) @ ''_'' @ to_upper (cr_name c))"

fun mput_all :: "('k \<times> 'v) list \<Rightarrow> ('k, 'v) gomap \<Rightarrow> ('k, 'v) gomap" where
  "mput_all [] m = m"
| "mput_all ((k, v) # kvs) m = mput_all kvs (mput k v m)"

definition prepare_env :: "credential \<Rightarrow> injection_config \<Rightarrow> injected \<Rightarrow> injected" where
  "prepare_env c cfg r =
     (let n = (if ij_env_name cfg = '''' then default_env_name c else ij_env_name cfg)
      in r\<lparr>id_env := mput_all (ij_additional_env cfg) (mput n (cr_value c) (id_env r)),
           id_metadata := mput (''cred_'' @ cr_name c @ ''_type'') (cr_type c)
             (mput (''cred_'' @ cr_name c @ ''_id'') (cr_id c) (id_metadata r))\<rparr>)"

section \<open>Files\<close>

text \<open>A path below a base, or \<open>None\<close> for one that leads out of it; \<open>cwd\<close> is the working directory.\<close>

definition filepath_with_base :: "string \<Rightarrow> string \<Rightarrow> string \<Rightarrow> string option" where
  "filepath_with_base cwd base path =
     (let path = (if has_prefix path [slash] then tl path else path);
          clean_base = path_abs cwd (path_clean base);
          full = path_abs cwd (path_clean (path_join [clean_base, path]));
          rel = path_rel clean_base full
      in if path_is_abs rel \<or> rel = ''..'' \<or> has_prefix rel (''..'' @ [slash]) then None else Some full)"

text \<open>\<open>json.Marshal\<close> of the three fields of a credential is a parameter.\<close>

definition fill_template :: "credential \<Rightarrow> string \<Rightarrow> string" where
  "fill_template c t =
     fold (\<lambda>(k, v) s. replace_all (''{{metadata.'' @ k @ ''}}'') v s) (cr_metadata c)
       (replace_all ''{{name}}'' (cr_name c)
         (replace_all ''{{type}}'' (cr_type c) (replace_all ''{{value}}'' (cr_value c) t)))"

definition format_content :: "(string \<Rightarrow> string \<Rightarrow> string \<Rightarrow> string result) \<Rightarrow> credential \<Rightarrow> injection_config \<Rightarrow> string result" where
  "format_content to_json c cfg =
     (if ij_format cfg = ''json''
      then (case to_json (cr_value c) (cr_type c) (cr_name c) of Inl e \<Rightarrow> Inl (wrap_error ErrInternal e) | Inr s \<Rightarrow> Inr s)
      else if ij_format cfg = ''env'' then Inr (to_upper (cr_name c) @ ''='' @ cr_value c @ [newline])
      else if ij_format cfg \<in> {''raw'', ''''} then Inr (cr_value c)
      else if ij_template cfg \<noteq> '''' then Inr (fill_template c (ij_template cfg))
      else Inr (cr_value c))"

definition mount_path_of :: "injection_config \<Rightarrow> string" where
  "mount_path_of cfg = (if ij_mount_path cfg = '''' then ''/credentials'' else ij_mount_path cfg)"

definition prepare_file ::
    "(string \<Rightarrow> string \<Rightarrow> string \<Rightarrow> string result) \<Rightarrow> string \<Rightarrow> credential \<Rightarrow> injection_config \<Rightarrow> injected \<Rightarrow> injected result" where
  "prepare_file to_json cwd c cfg r =
     (let file = (if ij_file_path cfg = '''' then [slash] @ cr_name c else ij_file_path cfg);
          mp = mount_path_of cfg
      in case filepath_with_base cwd mp file of
           None \<Rightarrow> Inl (wrap_error ErrInvalidArgument (PlainErr ''path traversal''))
         | Some full \<Rightarrow>
             (case format_content to_json c cfg of
                Inl e \<Rightarrow> Inl e
              | Inr content \<Rightarrow>
                  Inr (r\<lparr>id_files := mput full content (id_files r),
                         id_mounts :=
                           (if list_ex (\<lambda>m. mi_destination m = mp) (id_mounts r) then id_mounts r
                            else id_mounts r @ [\<lparr>mi_source = ''/tmp/credentials/'' @ cr_id c, mi_destination = mp, mi_read_only = True\<rparr>])\<rparr>)))"

section \<open>Preparing\<close>

record injection_env =
  ie_crypto :: cred_crypto
  ie_to_json :: "string \<Rightarrow> string \<Rightarrow> string \<Rightarrow> string result"
  ie_cwd :: string

definition cred_of_config :: "injection_env \<Rightarrow> timestamp \<Rightarrow> injection_config \<Rightarrow> cred_store \<Rightarrow> credential result" where
  "cred_of_config env now cfg s =
     (if ij_cred_id cfg \<noteq> '''' then get_cred (ie_crypto env) now (ij_cred_id cfg) s
      else get_cred_by_name (ie_crypto env) now (ij_cred_name cfg) s)"

definition prepare_one ::
    "injection_env \<Rightarrow> timestamp \<Rightarrow> cred_store \<Rightarrow> injection_config \<Rightarrow> injected \<Rightarrow> injected result" where
  "prepare_one env now s cfg r =
     (if ij_cred_id cfg = '''' \<and> ij_cred_name cfg = '''' then Inl (new_error ErrInvalidArgument)
      else
        (case cred_of_config env now cfg s of
           Inl e \<Rightarrow> Inl (wrap_error ErrNotFound e)
         | Inr c \<Rightarrow>
             if cred_expired now c then Inl (new_error ErrPermission)
             else if ij_method cfg = method_env then Inr (prepare_env c cfg r)
             else if ij_method cfg = method_both then prepare_file (ie_to_json env) (ie_cwd env) c cfg (prepare_env c cfg r)
             else if ij_method cfg = method_file then prepare_file (ie_to_json env) (ie_cwd env) c cfg r
             else Inl (new_error ErrInvalidArgument)))"

fun prepare_all ::
    "injection_env \<Rightarrow> timestamp \<Rightarrow> cred_store \<Rightarrow> injection_config list \<Rightarrow> injected \<Rightarrow> injected result" where
  "prepare_all env now s [] r = Inr r"
| "prepare_all env now s (cfg # cfgs) r =
     (case prepare_one env now s cfg r of Inl e \<Rightarrow> Inl e | Inr r' \<Rightarrow> prepare_all env now s cfgs r')"

definition prepare :: "injection_env \<Rightarrow> timestamp \<Rightarrow> injection_config list \<Rightarrow> injector \<Rightarrow> injected result" where
  "prepare env now cfgs ij =
     (if in_closed ij \<or> cs_closed (in_store ij) then Inl (new_error ErrUnavailable)
      else prepare_all env now (in_store ij) cfgs \<lparr>id_env = [], id_files = [], id_mounts = [], id_metadata = []\<rparr>)"

definition injection_env_vars :: "injection_env \<Rightarrow> timestamp \<Rightarrow> injection_config list \<Rightarrow> injector \<Rightarrow> (string, string) gomap result" where
  "injection_env_vars env now cfgs ij = (case prepare env now cfgs ij of Inl e \<Rightarrow> Inl e | Inr r \<Rightarrow> Inr (id_env r))"

definition injection_files :: "injection_env \<Rightarrow> timestamp \<Rightarrow> injection_config list \<Rightarrow> injector \<Rightarrow> (string, string) gomap result" where
  "injection_files env now cfgs ij = (case prepare env now cfgs ij of Inl e \<Rightarrow> Inl e | Inr r \<Rightarrow> Inr (id_files r))"

definition injection_mounts :: "injection_env \<Rightarrow> timestamp \<Rightarrow> injection_config list \<Rightarrow> injector \<Rightarrow> mount_info list result" where
  "injection_mounts env now cfgs ij = (case prepare env now cfgs ij of Inl e \<Rightarrow> Inl e | Inr r \<Rightarrow> Inr (id_mounts r))"

text \<open>\<open>ValidateConfig\<close> looks at neither flag itself; a closed store answers the read.\<close>

definition validate_injection :: "injection_env \<Rightarrow> timestamp \<Rightarrow> injection_config \<Rightarrow> injector \<Rightarrow> go_error option" where
  "validate_injection env now cfg ij =
     (if ij_cred_id cfg = '''' \<and> ij_cred_name cfg = '''' then Some (new_error ErrInvalidArgument)
      else
        (case cred_of_config env now cfg (in_store ij) of
           Inl e \<Rightarrow> Some (wrap_error ErrNotFound e)
         | Inr c \<Rightarrow>
             if cred_expired now c then Some (new_error ErrPermission)
             else if ij_method cfg \<in> {method_env, method_file, method_both} then None
             else Some (new_error ErrInvalidArgument)))"

definition verify_access :: "injection_env \<Rightarrow> timestamp \<Rightarrow> string \<Rightarrow> injector \<Rightarrow> go_error option" where
  "verify_access env now i ij =
     (case get_cred (ie_crypto env) now i (in_store ij) of
        Inl e \<Rightarrow> Some e
      | Inr c \<Rightarrow> if cred_expired now c then Some (new_error ErrPermission) else None)"

definition list_injectable :: "timestamp \<Rightarrow> injector \<Rightarrow> credential list result" where
  "list_injectable now ij =
     (case list_creds (in_store ij) of
        Inl e \<Rightarrow> Inl e | Inr cs \<Rightarrow> Inr (filter (\<lambda>c. \<not> cred_expired now c) cs))"

definition close_injector :: "injector \<Rightarrow> injector" where
  "close_injector ij = (if in_closed ij then ij else ij\<lparr>in_closed := True\<rparr>)"

section \<open>LLM providers\<close>

definition llm_env_vars :: "(string, string) gomap" where
  "llm_env_vars =
     [(''anthropic'', ''ANTHROPIC_API_KEY''), (''openai'', ''OPENAI_API_KEY''), (''openrouter'', ''OPENROUTER_API_KEY''),
      (''ollama'', ''''), (''lmstudio'', '''')]"

definition credential_env_var :: "string \<Rightarrow> string \<times> bool" where
  "credential_env_var p =
     (case mget llm_env_vars p of None \<Rightarrow> ('''', False) | Some v \<Rightarrow> (v, v \<noteq> ''''))"

text \<open>The variables of the stored providers whose key can be read, in the order of the list.\<close>

definition llm_pairs :: "cred_crypto \<Rightarrow> timestamp \<Rightarrow> string list \<Rightarrow> cred_store \<Rightarrow> (string \<times> string) list" where
  "llm_pairs cx now ps s =
     List.map_filter (\<lambda>p.
       case credential_env_var p of
         (v, False) \<Rightarrow> None
       | (v, True) \<Rightarrow> (case get_llm_cred cx now p s of Inl e \<Rightarrow> None | Inr k \<Rightarrow> Some (v, k))) ps"

definition inject_llm_credentials :: "cred_crypto \<Rightarrow> timestamp \<Rightarrow> injector \<Rightarrow> (string, string) gomap result" where
  "inject_llm_credentials cx now ij =
     (if in_closed ij \<or> cs_closed (in_store ij) then Inl (new_error ErrUnavailable)
      else
        (case list_llm_providers (in_store ij) of
           Inl e \<Rightarrow> Inl (wrap_error ErrInternal e)
         | Inr ps \<Rightarrow> Inr (mput_all (llm_pairs cx now ps (in_store ij)) [])))"

record llm_provider_config =
  lp_name :: string
  lp_api_key :: string
  lp_base_url :: string
  lp_enabled :: bool
  lp_models :: "string list"

record llm_config =
  lc_enabled :: bool
  lc_container_image :: string
  lc_providers :: "(string, llm_provider_config) gomap option"
  lc_default_model :: string
  lc_default_provider :: string
  lc_timeout :: duration
  lc_max_concurrent :: int
  lc_rate_limits :: "(string, int) gomap option"
  lc_fallback_chains :: "(string, string list) gomap option"

text \<open>A map that can be nil, which reads as an empty one.\<close>

definition map_entries :: "('k, 'v) gomap option \<Rightarrow> ('k, 'v) gomap" where
  "map_entries m = (case m of None \<Rightarrow> [] | Some es \<Rightarrow> es)"

record llm_manager =
  lm_store :: cred_store
  lm_cfg :: llm_config

definition lm_inject :: "cred_crypto \<Rightarrow> timestamp \<Rightarrow> string list \<Rightarrow> llm_manager \<Rightarrow> string list" where
  "lm_inject cx now env m =
     (case list_llm_providers (lm_store m) of
        Inl e \<Rightarrow> env
      | Inr ps \<Rightarrow> env @ map (\<lambda>(v, k). v @ ''='' @ k) (llm_pairs cx now ps (lm_store m)))"

text \<open>The loop over the configured providers: an error, or the names of those without a key.\<close>

fun missing_providers :: "timestamp \<Rightarrow> (string \<times> llm_provider_config) list \<Rightarrow> cred_store \<Rightarrow> string list result" where
  "missing_providers now [] s = Inr []"
| "missing_providers now ((n, p) # ps) s =
     (if \<not> lp_enabled p \<or> \<not> snd (credential_env_var n) then missing_providers now ps s
      else
        (case has_llm_cred now n s of
           Inl e \<Rightarrow> Inl (wrap_error ErrInternal e)
         | Inr b \<Rightarrow>
             (case missing_providers now ps s of
                Inl e \<Rightarrow> Inl e
              | Inr ms \<Rightarrow> Inr (if b then ms else n # ms))))"

definition lm_validate :: "timestamp \<Rightarrow> llm_manager \<Rightarrow> go_error option" where
  "lm_validate now m =
     (case missing_providers now (map_entries (lc_providers (lm_cfg m))) (lm_store m) of
        Inl e \<Rightarrow> Some e
      | Inr [] \<Rightarrow> None
      | Inr (n # ns) \<Rightarrow> Some (new_error ErrInvalidArgument))"

definition lm_provider_config :: "cred_crypto \<Rightarrow> timestamp \<Rightarrow> string \<Rightarrow> llm_manager \<Rightarrow> llm_provider_config result" where
  "lm_provider_config cx now p m =
     (case mget (map_entries (lc_providers (lm_cfg m))) p of
        None \<Rightarrow> Inl (new_error ErrNotFound)
      | Some cfg \<Rightarrow>
          if snd (credential_env_var p)
          then (case get_llm_cred cx now p (lm_store m) of
                  Inl e \<Rightarrow> Inl (if is_err_code e ErrNotFound then new_error ErrNotFound else wrap_error ErrInternal e)
                | Inr k \<Rightarrow> Inr (cfg\<lparr>lp_api_key := k\<rparr>))
          else Inr cfg)"

definition lm_configured :: "llm_manager \<Rightarrow> string list result" where
  "lm_configured m =
     (case list_llm_providers (lm_store m) of
        Inl e \<Rightarrow> Inl e
      | Inr ps \<Rightarrow>
          Inr (filter (\<lambda>p. case mget (map_entries (lc_providers (lm_cfg m))) p of None \<Rightarrow> False | Some cfg \<Rightarrow> lp_enabled cfg) ps))"

definition lm_ensure_default :: "cred_crypto \<Rightarrow> timestamp \<Rightarrow> llm_manager \<Rightarrow> go_error option" where
  "lm_ensure_default cx now m =
     (if lc_default_provider (lm_cfg m) = '''' then Some (new_error ErrInvalidArgument)
      else
        (case lm_provider_config cx now (lc_default_provider (lm_cfg m)) m of
           Inl e \<Rightarrow> Some (wrap_error ErrInvalidArgument e)
         | Inr cfg \<Rightarrow> None))"

section \<open>Files stay below their mount\<close>

lemma join_cons_prefix:
  assumes "slash \<notin> set c"
  shows "has_prefix (join_with [slash] (c # cs)) (''..'' @ [slash]) \<longleftrightarrow> c = ''..'' \<and> cs \<noteq> []"
proof
  have sd: "slash \<noteq> CHR ''.''" by (simp add: slash_def)
  assume p: "has_prefix (join_with [slash] (c # cs)) (''..'' @ [slash])"
  then have p2: "has_prefix (join_with [slash] (c # cs)) ''..''" by (auto simp: has_prefix_iff)
  then have "has_prefix c ''..''" using join_dots_prefix [OF assms] by blast
  then obtain r where r: "c = ''..'' @ r" by (auto simp: has_prefix_iff)
  show "c = ''..'' \<and> cs \<noteq> []"
  proof (cases cs)
    case Nil
    then show ?thesis using p r assms by (auto simp: has_prefix_iff)
  next
    case (Cons d ds)
    then show ?thesis using p r assms by (cases r) (auto simp: has_prefix_iff)
  qed
next
  assume "c = ''..'' \<and> cs \<noteq> []"
  then show "has_prefix (join_with [slash] (c # cs)) (''..'' @ [slash])" by (cases cs) (auto simp: has_prefix_iff)
qed

lemma join_real:
  assumes "real_comp c" and "slash \<notin> set c"
  shows "\<not> path_is_abs (join_with [slash] (c # cs))" and "join_with [slash] (c # cs) \<noteq> ''..''"
proof -
  obtain t where t: "join_with [slash] (c # cs) = c @ t" "t = [] \<or> slash \<in> set t" by (cases cs) auto
  obtain a as where a: "c = a # as" "a \<noteq> slash" using assms by (cases c) (auto simp: real_comp_def)
  show "\<not> path_is_abs (join_with [slash] (c # cs))" unfolding t(1) using a by (simp add: path_is_abs_def)
  have "slash \<notin> set ''..''" by (simp add: slash_def)
  then show "join_with [slash] (c # cs) \<noteq> ''..''"
    unfolding t(1) using t(2) assms(1) by (metis Un_iff append_Nil2 real_comp_def set_append insertCI)
qed

lemma leads_out:
  assumes "\<forall>c \<in> set (path_comps t). real_comp c \<and> slash \<notin> set c"
  shows "(path_is_abs (path_rel b t) \<or> path_rel b t = ''..'' \<or> has_prefix (path_rel b t) (''..'' @ [slash]))
    \<longleftrightarrow> \<not> (\<exists>rest. path_comps t = path_comps b @ rest)"
proof -
  from rel_comps_cases [of "path_comps t" "path_comps b"] show ?thesis
  proof (elim disjE exE conjE)
    fix rest assume r: "path_comps t = path_comps b @ rest" "rel_comps (path_comps b) (path_comps t) = rest"
    show ?thesis
    proof (cases rest)
      case Nil
      then show ?thesis using r by (simp add: path_rel_def path_is_abs_def has_prefix_def slash_def)
    next
      case (Cons c cs)
      then have c: "real_comp c" "slash \<notin> set c" using assms r(1) by simp_all
      have rel: "path_rel b t = join_with [slash] (c # cs)" using r Cons by (simp add: path_rel_def)
      have "\<not> path_is_abs (join_with [slash] (c # cs))" "join_with [slash] (c # cs) \<noteq> ''..''"
        using join_real [OF c] by simp_all
      then show ?thesis unfolding rel using join_cons_prefix [OF c(2), of cs] c(1) r(1) by (auto simp: real_comp_def)
    qed
  next
    fix r assume n: "\<nexists>rest. path_comps t = path_comps b @ rest" and r: "rel_comps (path_comps b) (path_comps t) = ''..'' # r"
    then have "path_rel b t = join_with [slash] (''..'' # r)" by (simp add: path_rel_def)
    then have "path_rel b t = ''..'' \<or> has_prefix (path_rel b t) (''..'' @ [slash])"
      by (cases r) (auto simp: has_prefix_iff)
    then show ?thesis using n by blast
  qed
qed

definition mount_base :: "string \<Rightarrow> string \<Rightarrow> string" where
  "mount_base cwd base = path_abs cwd (path_clean base)"

definition mount_target :: "string \<Rightarrow> string \<Rightarrow> string \<Rightarrow> string" where
  "mount_target cwd base path =
     path_abs cwd (path_clean (path_join [mount_base cwd base, if has_prefix path [slash] then tl path else path]))"

lemma filepath_with_base_exact:
  assumes "path_is_abs cwd"
  shows "filepath_with_base cwd base path = Some full \<longleftrightarrow>
    full = mount_target cwd base path \<and> (\<exists>rest. path_comps full = path_comps (mount_base cwd base) @ rest)"
proof -
  let ?t = "mount_target cwd base path"
  have "path_is_abs ?t" unfolding mount_target_def by (rule path_abs_rooted [OF assms])
  then have "\<forall>c \<in> set (path_comps ?t). real_comp c \<and> slash \<notin> set c" using path_comps_real by blast
  note out = leads_out [OF this, of "mount_base cwd base"]
  have fw: "filepath_with_base cwd base path =
      (if path_is_abs (path_rel (mount_base cwd base) ?t) \<or> path_rel (mount_base cwd base) ?t = ''..''
         \<or> has_prefix (path_rel (mount_base cwd base) ?t) (''..'' @ [slash]) then None else Some ?t)"
    by (simp only: filepath_with_base_def mount_target_def mount_base_def Let_def)
  show ?thesis unfolding fw out by auto
qed

section \<open>What is prepared\<close>

text \<open>Every file lies below the mount of one of the configurations, and that mount is made.\<close>

definition prepared_ok :: "string \<Rightarrow> injection_config list \<Rightarrow> injected \<Rightarrow> bool" where
  "prepared_ok cwd cfgs r \<longleftrightarrow>
     (\<forall>(p, s) \<in> set (id_files r). \<exists>cfg \<in> set cfgs. ij_method cfg \<in> {method_file, method_both}
        \<and> (\<exists>rest. path_comps p = path_comps (mount_base cwd (mount_path_of cfg)) @ rest)
        \<and> (\<exists>m \<in> set (id_mounts r). mi_destination m = mount_path_of cfg))
     \<and> (\<forall>m \<in> set (id_mounts r). mi_read_only m)
     \<and> distinct (map mi_destination (id_mounts r))"

lemma set_mput_subset: "set (mput k v m) \<subseteq> insert (k, v) (set m)"
  by (induction m) (auto simp: mput_def)

lemma prepare_file_ok:
  assumes "path_is_abs cwd" and "prepared_ok cwd cfgs r" and "cfg \<in> set cfgs" and "ij_method cfg \<in> {method_file, method_both}"
    and "prepare_file js cwd c cfg r = Inr r'"
  shows "prepared_ok cwd cfgs r'"
proof -
  obtain full content where f: "filepath_with_base cwd (mount_path_of cfg) (if ij_file_path cfg = '''' then [slash] @ cr_name c else ij_file_path cfg) = Some full"
    and r': "r' = r\<lparr>id_files := mput full content (id_files r),
       id_mounts := (if list_ex (\<lambda>m. mi_destination m = mount_path_of cfg) (id_mounts r) then id_mounts r
         else id_mounts r @ [\<lparr>mi_source = ''/tmp/credentials/'' @ cr_id c, mi_destination = mount_path_of cfg, mi_read_only = True\<rparr>])\<rparr>"
    using assms(5) by (auto simp: prepare_file_def Let_def split: option.splits sum.splits)
  have below: "\<exists>rest. path_comps full = path_comps (mount_base cwd (mount_path_of cfg)) @ rest"
    using filepath_with_base_exact [OF assms(1)] f by blast
  have dest: "\<exists>m \<in> set (id_mounts r'). mi_destination m = mount_path_of cfg"
    unfolding r' by (auto simp: list_ex_iff)
  have more: "set (id_mounts r) \<subseteq> set (id_mounts r')" unfolding r' by auto
  have "\<exists>cfg \<in> set cfgs. ij_method cfg \<in> {method_file, method_both}
        \<and> (\<exists>rest. path_comps p = path_comps (mount_base cwd (mount_path_of cfg)) @ rest)
        \<and> (\<exists>m \<in> set (id_mounts r'). mi_destination m = mount_path_of cfg)" if "(p, s) \<in> set (id_files r')" for p s
  proof -
    have "(p, s) = (full, content) \<or> (p, s) \<in> set (id_files r)" using that set_mput_subset unfolding r' by fastforce
    then show ?thesis
    proof
      assume "(p, s) = (full, content)"
      then show ?thesis using below dest assms(3,4) by blast
    next
      assume "(p, s) \<in> set (id_files r)"
      then show ?thesis using assms(2) more unfolding prepared_ok_def by fastforce
    qed
  qed
  moreover have "\<forall>m \<in> set (id_mounts r'). mi_read_only m" "distinct (map mi_destination (id_mounts r'))"
    using assms(2) unfolding r' by (auto simp: prepared_ok_def list_ex_iff)
  ultimately show ?thesis unfolding prepared_ok_def by blast
qed

lemma prepare_env_ok: "prepared_ok cwd cfgs r \<Longrightarrow> prepared_ok cwd cfgs (prepare_env c cfg r)"
  by (simp add: prepared_ok_def prepare_env_def Let_def)

lemma prepare_one_ok:
  assumes "path_is_abs (ie_cwd env)" and "prepared_ok (ie_cwd env) cfgs r" and "cfg \<in> set cfgs" and "prepare_one env now s cfg r = Inr r'"
  shows "prepared_ok (ie_cwd env) cfgs r'"
proof -
  have fl: "prepared_ok (ie_cwd env) cfgs r1 \<Longrightarrow> prepare_file js (ie_cwd env) c cfg r1 = Inr r' \<Longrightarrow>
      ij_method cfg = method_both \<or> ij_method cfg = method_file \<Longrightarrow> prepared_ok (ie_cwd env) cfgs r'" for js c r1
    using prepare_file_ok [OF assms(1) _ assms(3), of r1 js c r'] by auto
  show ?thesis using assms(4)
    by (auto simp: prepare_one_def split: if_splits sum.splits
        intro: fl [OF assms(2)] fl [OF prepare_env_ok [OF assms(2)]] prepare_env_ok [OF assms(2)])
qed

lemma prepare_all_ok:
  "path_is_abs (ie_cwd env) \<Longrightarrow> prepared_ok (ie_cwd env) all_cfgs r \<Longrightarrow> set cfgs \<subseteq> set all_cfgs \<Longrightarrow> prepare_all env now s cfgs r = Inr r' \<Longrightarrow>
    prepared_ok (ie_cwd env) all_cfgs r'"
proof (induction cfgs arbitrary: r)
  case (Cons cfg cfgs)
  then show ?case using prepare_one_ok [of env all_cfgs r cfg now s] by (auto split: sum.splits)
qed simp

text \<open>
  C27: What is prepared for a container has files only below the mount paths of the configurations that
  ask for files, whatever the names and paths say, each of these mounts is there, once and read-only; and
  an environment variable that is not named gets a name of capital letters, digits and underscores.
\<close>

theorem prepared_files_confined:
  assumes "path_is_abs (ie_cwd env)" and "prepare env now cfgs ij = Inr r"
  shows "prepared_ok (ie_cwd env) cfgs r
    \<and> (\<forall>c. list_all (\<lambda>x. let n = of_char x :: nat in 65 \<le> n \<and> n \<le> 90 \<or> 48 \<le> n \<and> n \<le> 57 \<or> n = 95) (default_env_name c))"
proof
  have start: "prepared_ok (ie_cwd env) cfgs \<lparr>id_env = [], id_files = [], id_mounts = [], id_metadata = []\<rparr>"
    by (simp add: prepared_ok_def)
  have "prepare_all env now (in_store ij) cfgs \<lparr>id_env = [], id_files = [], id_mounts = [], id_metadata = []\<rparr> = Inr r"
    using assms(2) by (simp add: prepare_def split: if_splits)
  then show "prepared_ok (ie_cwd env) cfgs r"
    by (rule prepare_all_ok [OF assms(1) start subset_refl])
  show "\<forall>c. list_all (\<lambda>x. let n = of_char x :: nat in 65 \<le> n \<and> n \<le> 90 \<or> 48 \<le> n \<and> n \<le> 57 \<or> n = 95) (default_env_name c)"
    by (auto simp: default_env_name_def list_all_iff env_char_def Let_def)
qed

definition sample_injection :: injection_config where
  "sample_injection = \<lparr>ij_cred_id = ''c1'', ij_cred_name = [], ij_method = method_both, ij_env_name = [], ij_file_path = ''../db'',
     ij_file_permissions = [], ij_mount_path = [], ij_format = [], ij_template = [], ij_additional_env = []\<rparr>"

definition sample_injection_env :: injection_env where
  "sample_injection_env = \<lparr>ie_crypto = sample_crypto, ie_to_json = (\<lambda>v t n. Inr v), ie_cwd = [slash]\<rparr>"

lemma one_cred_got: "\<exists>c. get_cred sample_crypto 9 ''c1'' one_cred = Inr c \<and> cr_value c = ''secret'' \<and> \<not> cred_expired 9 c"
  using one_cred_view one_cred_fields
  by (auto simp: cred_view_def get_cred_def cred_plain_def mget_Cons cred_expired_def ts_is_zero_def Let_def)

lemma prepared_files_confined_witness:
  "prepare sample_injection_env 9 [sample_injection] \<lparr>in_store = one_cred, in_closed = False\<rparr> = Inl (wrap_error ErrInvalidArgument (PlainErr ''path traversal''))
   \<and> (\<exists>r. prepare sample_injection_env 9 [sample_injection\<lparr>ij_file_path := ''x/../db''\<rparr>] \<lparr>in_store = one_cred, in_closed = False\<rparr> = Inr r
        \<and> mget (id_files r) ''/credentials/db'' = Some ''secret''
        \<and> prepared_ok [slash] [sample_injection\<lparr>ij_file_path := ''x/../db''\<rparr>] r)"
proof -
  have f: "filepath_with_base [slash] ''/credentials'' ''../db'' = None"
    "filepath_with_base [slash] ''/credentials'' ''x/../db'' = Some ''/credentials/db''" by code_simp+
  obtain c where c: "get_cred sample_crypto 9 ''c1'' one_cred = Inr c" "cr_value c = ''secret''" "\<not> cred_expired 9 c"
    using one_cred_got by blast
  let ?i = "sample_injection\<lparr>ij_file_path := ''x/../db''\<rparr>"
  have "\<exists>r. prepare sample_injection_env 9 [?i] \<lparr>in_store = one_cred, in_closed = False\<rparr> = Inr r \<and> mget (id_files r) ''/credentials/db'' = Some ''secret''"
    using c f(2) one_cred_fields(4)
    by (simp add: prepare_def sample_injection_env_def sample_injection_def prepare_one_def cred_of_config_def prepare_file_def mount_path_of_def
        format_content_def prepare_env_def Let_def)
  then obtain r where r: "prepare sample_injection_env 9 [?i] \<lparr>in_store = one_cred, in_closed = False\<rparr> = Inr r" "mget (id_files r) ''/credentials/db'' = Some ''secret''"
    by blast
  have "path_is_abs (ie_cwd sample_injection_env)" by (simp add: sample_injection_env_def path_is_abs_def)
  from prepared_files_confined [OF this r(1)] have "prepared_ok [slash] [?i] r" by (simp add: sample_injection_env_def)
  moreover have "prepare sample_injection_env 9 [sample_injection] \<lparr>in_store = one_cred, in_closed = False\<rparr> = Inl (wrap_error ErrInvalidArgument (PlainErr ''path traversal''))"
    using c f(1) one_cred_fields(4)
    by (simp add: prepare_def sample_injection_env_def sample_injection_def prepare_one_def cred_of_config_def prepare_file_def mount_path_of_def
        format_content_def prepare_env_def Let_def)
  ultimately show ?thesis using r by blast
qed

section \<open>Keys of LLM providers\<close>

lemma in_map_filter: "y \<in> set (List.map_filter f xs) \<longleftrightarrow> (\<exists>x \<in> set xs. f x = Some y)"
  by (force simp: List.map_filter_def)

text \<open>
  The injected keys are those of the three services that take one, each under the variable of its
  service and with the value that the store gives out for it; no other variable is set.
\<close>

lemma injected_llm_keys_exact:
  assumes "inject_llm_credentials cx now ij = Inr env"
  shows "mget env v = Some k \<longleftrightarrow>
    (\<exists>p. mget llm_env_vars p = Some v \<and> v \<noteq> '''' \<and> p \<in> set (projr (list_llm_providers (in_store ij)))
       \<and> get_llm_cred cx now p (in_store ij) = Inr k)"
proof -
  let ?s = "in_store ij"
  obtain ps where ps: "list_llm_providers ?s = Inr ps" "env = mput_all (llm_pairs cx now ps ?s) []"
    using assms by (auto simp: inject_llm_credentials_def split: if_splits sum.splits)
  have pair: "(v, k) \<in> set (llm_pairs cx now ps ?s) \<longleftrightarrow>
      (\<exists>p \<in> set ps. mget llm_env_vars p = Some v \<and> v \<noteq> '''' \<and> get_llm_cred cx now p ?s = Inr k)" for v k
  proof -
    have "(case credential_env_var p of (v, False) \<Rightarrow> None
        | (v, True) \<Rightarrow> (case get_llm_cred cx now p ?s of Inl e \<Rightarrow> None | Inr k \<Rightarrow> Some (v, k))) = Some (v, k)
      \<longleftrightarrow> mget llm_env_vars p = Some v \<and> v \<noteq> '''' \<and> get_llm_cred cx now p ?s = Inr k" for p
      by (cases "mget llm_env_vars p"; cases "get_llm_cred cx now p ?s") (auto simp: credential_env_var_def split: bool.split)
    then show ?thesis unfolding llm_pairs_def in_map_filter by blast
  qed
  have var_inj: "p = q" if "mget llm_env_vars p = Some v" "mget llm_env_vars q = Some v" "v \<noteq> ''''" for p q v
    using that by (auto simp: llm_env_vars_def mget_Cons split: if_splits)
  have uniq: "k = k'" if "(v, k) \<in> set (llm_pairs cx now ps ?s)" "(v, k') \<in> set (llm_pairs cx now ps ?s)" for v k k'
  proof -
    from that obtain p q where "mget llm_env_vars p = Some v" "v \<noteq> ''''" "get_llm_cred cx now p ?s = Inr k"
      "mget llm_env_vars q = Some v" "get_llm_cred cx now q ?s = Inr k'"
      unfolding pair by blast
    then show ?thesis using var_inj [of p v q] by simp
  qed
  have all: "mget (mput_all kvs m) v = Some k \<longleftrightarrow> (v, k) \<in> set kvs \<or> (v \<notin> fst ` set kvs \<and> mget m v = Some k)"
    if "\<And>v k k'. (v, k) \<in> set kvs \<Longrightarrow> (v, k') \<in> set kvs \<Longrightarrow> k = k'" for kvs m
    using that
  proof (induction kvs arbitrary: m)
    case (Cons a kvs)
    obtain w j where a: "a = (w, j)" by fastforce
    have ih: "mget (mput_all kvs (mput w j m)) v = Some k \<longleftrightarrow> (v, k) \<in> set kvs \<or> (v \<notin> fst ` set kvs \<and> mget (mput w j m) v = Some k)"
      by (rule Cons.IH) (use Cons.prems in \<open>meson list.set_intros(2)\<close>)
    have same: "j = k" if "(w, k) \<in> set kvs" for k using Cons.prems [of w j k] that a by simp
    show ?case
    proof (cases "v = w")
      case True
      have "(v, j) \<in> set kvs" if "v \<in> fst ` set kvs" using that same True by auto
      then show ?thesis using ih same True a by auto
    next
      case False
      then show ?thesis using ih a by auto
    qed
  qed simp
  show ?thesis using all [of "llm_pairs cx now ps ?s" "[]", OF uniq] pair ps by auto
qed

definition llm_cred_store :: cred_store where
  "llm_cred_store = one_cred\<lparr>cs_creds := [(''c1'', 0)], cs_heap := (cs_heap one_cred)(0 := (cs_heap one_cred 0)
     \<lparr>cr_name := ''llm/openai'', cr_type := llm_key_type, cr_metadata := [(''provider'', ''openai'')]\<rparr>)\<rparr>"

lemma injected_llm_keys_exact_witness:
  "\<exists>env. inject_llm_credentials sample_crypto 9 \<lparr>in_store = llm_cred_store, in_closed = False\<rparr> = Inr env
     \<and> mget env ''OPENAI_API_KEY'' = Some ''secret'' \<and> mget env ''ANTHROPIC_API_KEY'' = None"
proof -
  let ?ij = "\<lparr>in_store = llm_cred_store, in_closed = False\<rparr>"
  have ps: "list_llm_providers llm_cred_store = Inr [''openai'']"
    by (simp add: list_llm_providers_def llm_cred_store_def one_cred_fields stored_creds_def List.map_filter_def mget_Cons)
  then obtain env where env: "inject_llm_credentials sample_crypto 9 ?ij = Inr env"
    by (simp add: inject_llm_credentials_def llm_cred_store_def one_cred_fields)
  have "cred_plain sample_crypto llm_cred_store 0 = cred_plain sample_crypto one_cred 0"
    by (rule plain_same) (simp_all add: llm_cred_store_def)
  then have "decrypt_value sample_crypto (cr_value (cs_heap llm_cred_store 0)) llm_cred_store = Inr ''secret''"
    using one_cred_view by (simp add: cred_view_def one_cred_fields mget_Cons cred_plain_def)
  moreover have "cr_expires (cs_heap one_cred 0) = 0" using one_cred_view by (simp add: cred_view_def one_cred_fields mget_Cons)
  ultimately have got: "get_llm_cred sample_crypto 9 ''openai'' llm_cred_store = Inr ''secret''"
    by (simp add: get_llm_cred_def get_cred_by_name_def find_by_name_def llm_cred_name_def llm_cred_store_def one_cred_fields
        cred_expired_def ts_is_zero_def Let_def)
  have "mget env ''OPENAI_API_KEY'' = Some ''secret''"
    unfolding injected_llm_keys_exact [OF env] using ps got by (auto simp: llm_env_vars_def mget_Cons intro!: exI [of _ "''openai''"])
  moreover have "mget env ''ANTHROPIC_API_KEY'' \<noteq> Some k" for k
    unfolding injected_llm_keys_exact [OF env] using ps by (auto simp: llm_env_vars_def mget_Cons split: if_splits)
  ultimately show ?thesis using env by auto
qed

end
