(* ===== verification/Config_Types.thy ===== *)
theory Config_Types
  imports Session_Store Scheduler Policy_Enforcer Ipc_Broker Memory_Types Credential_Injector
begin

text \<open>
  internal/config/config.go and defaults.go: the sections of the configuration and their defaults.
  The sections of the components that are modelled elsewhere are the records of those components.
  The directory of the user's configuration is an argument, \<open>None\<close> where the system has none; the
  path that tests set in its place is left out.
\<close>

section \<open>Sections\<close>

record docker_config =
  dkc_host :: string
  dkc_tls_cert :: string
  dkc_tls_key :: string
  dkc_tls_ca_cert :: string
  dkc_tls_verify :: bool
  dkc_api_version :: string
  dkc_timeout :: duration
  dkc_max_retries :: int
  dkc_retry_delay :: duration

record api_server_config =
  api_host :: string
  api_port :: int
  api_read_timeout :: duration
  api_write_timeout :: duration
  api_idle_timeout :: duration
  api_max_connections :: int
  api_tls_enabled :: bool
  api_tls_cert :: string
  api_tls_key :: string

record logging_config =
  log_level :: string
  log_format :: string
  log_output :: string
  log_syslog_facility :: string
  log_rotation :: bool
  log_max_size :: int
  log_max_backups :: int
  log_max_age :: int
  log_compress :: bool

record event_config =
  evc_queue_size :: int
  evc_workers :: int
  evc_buffer_size :: int
  evc_timeout :: duration
  evc_retry_attempts :: int
  evc_retry_delay :: duration
  evc_persistence :: bool

record metrics_config =
  met_enabled :: bool
  met_port :: int
  met_path :: string
  met_interval :: duration

record tracing_config =
  trc_enabled :: bool
  trc_sample_rate :: rat
  trc_exporter :: string
  trc_endpoint :: string

record orchestrator_config =
  orc_shutdown_timeout :: duration
  orc_health_interval :: duration
  orc_graceful_timeout :: duration
  orc_profiling :: bool
  orc_profiling_port :: int

record runtime_config =
  rtc_type :: string
  rtc_socket_path :: string
  rtc_timeout :: duration
  rtc_max_retries :: int
  rtc_retry_delay :: duration
  rtc_tls_enabled :: bool
  rtc_tls_cert :: string
  rtc_tls_key :: string
  rtc_tls_ca :: string

record grpc_config =
  grc_socket_path :: string
  grc_max_recv :: int
  grc_max_send :: int
  grc_timeout :: duration
  grc_max_connections :: int

record provider_specific_config =
  psc_enabled :: bool
  psc_base_url :: string
  psc_timeout :: int
  psc_max_retries :: int
  psc_priority :: int

record provider_section =
  prc_default :: string
  prc_failover :: bool
  prc_threshold :: int
  prc_health_interval :: duration
  prc_breaker_timeout :: duration
  prc_anthropic :: provider_specific_config
  prc_openai :: provider_specific_config

record skills_load_section =
  skl_enabled :: bool
  skl_paths :: "string list"
  skl_recursive :: bool
  skl_watch :: bool
  skl_max_errors :: int
  skl_excluded :: "string list"
  skl_required :: "string list"
  skl_reload_interval :: duration

record skills_github_section =
  skg_enabled :: bool
  skg_endpoint :: string
  skg_max_repo :: int
  skg_orgs :: "string list"
  skg_repos :: "string list"
  skg_token :: string
  skg_auto_update :: bool
  skg_update_interval :: duration

record skills_retention_section =
  skr_enabled :: bool
  skr_max_age :: duration
  skr_unused_max_age :: duration
  skr_error_max_age :: duration
  skr_min_load_count :: int
  skr_preserve_verified :: bool

record skills_section =
  skc_enabled :: bool
  skc_storage_path :: string
  skc_max_per_owner :: int
  skc_auto_load :: bool
  skc_load :: skills_load_section
  skc_github :: skills_github_section
  skc_retention :: skills_retention_section

record audit_config =
  auc_enabled :: bool
  auc_output :: string
  auc_format :: string
  auc_rotation :: bool
  auc_max_size :: int
  auc_max_backups :: int
  auc_max_age :: int
  auc_compress :: bool
  auc_sensitive :: bool

record config =
  cfg_docker :: docker_config
  cfg_api :: api_server_config
  cfg_logging :: logging_config
  cfg_session :: session_mgr_config
  cfg_event :: event_config
  cfg_ipc :: ipc_config
  cfg_scheduler :: sched_config
  cfg_credentials :: credentials_config
  cfg_policy :: policy_config
  cfg_metrics :: metrics_config
  cfg_tracing :: tracing_config
  cfg_orchestrator :: orchestrator_config
  cfg_runtime :: runtime_config
  cfg_memory :: memory_config
  cfg_grpc :: grpc_config
  cfg_llm :: llm_config
  cfg_provider :: provider_section
  cfg_skills :: skills_section
  cfg_audit :: audit_config

section \<open>Defaults\<close>

definition seconds :: "int \<Rightarrow> duration" where
  "seconds n = n * 1000000000"

text \<open>\<open>GetConfigDir\<close> below the user's configuration directory, and a path in it or a fallback.\<close>

definition get_config_dir :: "string option \<Rightarrow> string option" where
  "get_config_dir user = map_option (\<lambda>d. path_join [d, ''baaaht'']) user"

definition in_config_dir :: "string option \<Rightarrow> string \<Rightarrow> string \<Rightarrow> string" where
  "in_config_dir user name fallback = (case get_config_dir user of None \<Rightarrow> fallback | Some d \<Rightarrow> path_join [d, name])"

definition default_config_path :: "string option \<Rightarrow> string option" where
  "default_config_path user = map_option (\<lambda>d. path_join [d, ''config.yaml'']) (get_config_dir user)"

definition default_docker :: docker_config where
  "default_docker = \<lparr>dkc_host = ''unix:///var/run/docker.sock'', dkc_tls_cert = '''', dkc_tls_key = '''', dkc_tls_ca_cert = '''',
     dkc_tls_verify = False, dkc_api_version = ''1.44'', dkc_timeout = seconds 30, dkc_max_retries = 3, dkc_retry_delay = seconds 1\<rparr>"

definition default_api :: api_server_config where
  "default_api = \<lparr>api_host = ''0.0.0.0'', api_port = 8080, api_read_timeout = seconds 30, api_write_timeout = seconds 30,
     api_idle_timeout = seconds 60, api_max_connections = 1000, api_tls_enabled = False, api_tls_cert = '''', api_tls_key = ''''\<rparr>"

definition default_logging :: logging_config where
  "default_logging = \<lparr>log_level = ''info'', log_format = ''json'', log_output = ''stdout'', log_syslog_facility = ''local0'',
     log_rotation = True, log_max_size = 100, log_max_backups = 3, log_max_age = 28, log_compress = True\<rparr>"

definition default_session :: "string option \<Rightarrow> session_mgr_config" where
  "default_session user = \<lparr>sg_timeout = seconds 1800, sg_max_sessions = 100, sg_cleanup_interval = seconds 300,
     sg_idle_timeout = seconds 600, sg_persistence = True,
     sg_storage_path = in_config_dir user ''sessions'' ''/var/lib/baaaht/sessions''\<rparr>"

definition default_event :: event_config where
  "default_event = \<lparr>evc_queue_size = 10000, evc_workers = 4, evc_buffer_size = 1000, evc_timeout = seconds 5,
     evc_retry_attempts = 3, evc_retry_delay = 100000000, evc_persistence = False\<rparr>"

definition default_ipc :: ipc_config where
  "default_ipc = \<lparr>ic_socket_path = ''/tmp/baaaht-ipc.sock'', ic_buffer_size = 65536, ic_timeout = seconds 30,
     ic_max_connections = 100, ic_enable_auth = True\<rparr>"

definition default_scheduler :: sched_config where
  "default_scheduler = \<lparr>sk_queue_size = 1000, sk_workers = 2, sk_max_retries = 3, sk_retry_delay = seconds 1,
     sk_task_timeout = seconds 300, sk_queue_timeout = seconds 60\<rparr>"

definition default_credentials :: "string option \<Rightarrow> credentials_config" where
  "default_credentials user = \<lparr>xc_store_path = in_config_dir user ''credentials'' ''/var/lib/baaaht/credentials'',
     xc_encryption_enabled = True, xc_key_rotation_days = 90, xc_max_credential_age = 365\<rparr>"

definition default_policy_section :: "string option \<Rightarrow> policy_config" where
  "default_policy_section user = \<lparr>pc_config_path = in_config_dir user ''policies.yaml'' ''/etc/baaaht/policies.yaml'',
     pc_reload_on_changes = True, pc_reload_interval = seconds 60, pc_enforcement_mode = ''strict'',
     pc_default_quota_cpu = 1000000000, pc_default_quota_memory = 1073741824\<rparr>"

definition default_metrics :: metrics_config where
  "default_metrics = \<lparr>met_enabled = False, met_port = 9090, met_path = ''/metrics'', met_interval = seconds 15\<rparr>"

definition default_tracing :: tracing_config where
  "default_tracing = \<lparr>trc_enabled = False, trc_sample_rate = 1 / 10, trc_exporter = ''stdout'', trc_endpoint = ''''\<rparr>"

definition default_orchestrator :: orchestrator_config where
  "default_orchestrator = \<lparr>orc_shutdown_timeout = seconds 30, orc_health_interval = seconds 30, orc_graceful_timeout = seconds 10,
     orc_profiling = False, orc_profiling_port = 6060\<rparr>"

definition default_runtime :: runtime_config where
  "default_runtime = \<lparr>rtc_type = ''auto'', rtc_socket_path = '''', rtc_timeout = seconds 30, rtc_max_retries = 3,
     rtc_retry_delay = seconds 1, rtc_tls_enabled = False, rtc_tls_cert = '''', rtc_tls_key = '''', rtc_tls_ca = ''''\<rparr>"

definition default_memory :: "string option \<Rightarrow> memory_config" where
  "default_memory user =
     (let p = in_config_dir user ''memory'' ''/var/lib/baaaht/memory''
      in \<lparr>mc_storage_path = p, mc_user_path = path_join [p, ''users''], mc_group_path = path_join [p, ''groups''],
          mc_enabled = True, mc_max_file_size = 100, mc_file_format = ''markdown''\<rparr>)"

definition default_grpc :: grpc_config where
  "default_grpc = \<lparr>grc_socket_path = ''/tmp/baaaht-grpc.sock'', grc_max_recv = 100 * 1024 * 1024, grc_max_send = 100 * 1024 * 1024,
     grc_timeout = seconds 30, grc_max_connections = 100\<rparr>"

definition default_provider_section :: provider_section where
  "default_provider_section = \<lparr>prc_default = ''anthropic'', prc_failover = True, prc_threshold = 3,
     prc_health_interval = seconds 30, prc_breaker_timeout = seconds 60,
     prc_anthropic = \<lparr>psc_enabled = True, psc_base_url = ''https://api.anthropic.com'', psc_timeout = 60, psc_max_retries = 3, psc_priority = 10\<rparr>,
     prc_openai = \<lparr>psc_enabled = True, psc_base_url = ''https://api.openai.com'', psc_timeout = 60, psc_max_retries = 3, psc_priority = 20\<rparr>\<rparr>"

definition default_llm :: llm_config where
  "default_llm = \<lparr>lc_enabled = False, lc_container_image = ''ghcr.io/billm/baaaht/llm-gateway:latest'',
     lc_providers = Some
       [(''anthropic'', \<lparr>lp_name = ''anthropic'', lp_api_key = '''', lp_base_url = ''https://api.anthropic.com'', lp_enabled = True,
           lp_models = [''anthropic/claude-sonnet-4-20250514'', ''anthropic/claude-3-5-sonnet-20241022'']\<rparr>),
        (''openai'', \<lparr>lp_name = ''openai'', lp_api_key = '''', lp_base_url = ''https://api.openai.com/v1'', lp_enabled = True,
           lp_models = [''openai/gpt-4o'', ''openai/gpt-4o-mini'', ''openai/gpt-4-turbo'']\<rparr>)],
     lc_default_model = ''anthropic/claude-sonnet-4-20250514'', lc_default_provider = ''anthropic'', lc_timeout = seconds 120,
     lc_max_concurrent = 10, lc_rate_limits = Some [(''anthropic'', 60), (''openai'', 60)],
     lc_fallback_chains = Some [(''anthropic/*'', [''openai'']), (''openai/*'', [''anthropic''])]\<rparr>"

definition default_skills :: "string option \<Rightarrow> skills_section" where
  "default_skills user =
     (let p = in_config_dir user ''skills'' ''/var/lib/baaaht/skills''
      in \<lparr>skc_enabled = True, skc_storage_path = p, skc_max_per_owner = 100, skc_auto_load = True,
          skc_load = \<lparr>skl_enabled = True, skl_paths = [p], skl_recursive = True, skl_watch = False, skl_max_errors = 10,
            skl_excluded = [''.git'', ''.github'', ''node_modules'', ''vendor''], skl_required = [], skl_reload_interval = seconds 300\<rparr>,
          skc_github = \<lparr>skg_enabled = False, skg_endpoint = ''https://api.github.com'', skg_max_repo = 50, skg_orgs = [], skg_repos = [],
            skg_token = '''', skg_auto_update = False, skg_update_interval = seconds (24 * 3600)\<rparr>,
          skc_retention = \<lparr>skr_enabled = False, skr_max_age = seconds (90 * 24 * 3600), skr_unused_max_age = seconds (30 * 24 * 3600),
            skr_error_max_age = seconds (7 * 24 * 3600), skr_min_load_count = 0, skr_preserve_verified = True\<rparr>\<rparr>)"

definition default_audit :: audit_config where
  "default_audit = \<lparr>auc_enabled = False, auc_output = ''stdout'', auc_format = ''json'', auc_rotation = True, auc_max_size = 100,
     auc_max_backups = 10, auc_max_age = 30, auc_compress = True, auc_sensitive = False\<rparr>"

definition default_config :: "string option \<Rightarrow> config" where
  "default_config user = \<lparr>cfg_docker = default_docker, cfg_api = default_api, cfg_logging = default_logging,
     cfg_session = default_session user, cfg_event = default_event, cfg_ipc = default_ipc, cfg_scheduler = default_scheduler,
     cfg_credentials = default_credentials user, cfg_policy = default_policy_section user, cfg_metrics = default_metrics,
     cfg_tracing = default_tracing, cfg_orchestrator = default_orchestrator, cfg_runtime = default_runtime,
     cfg_memory = default_memory user, cfg_grpc = default_grpc, cfg_llm = default_llm, cfg_provider = default_provider_section,
     cfg_skills = default_skills user, cfg_audit = default_audit\<rparr>"

section \<open>Filling in defaults\<close>

definition or_str :: "string \<Rightarrow> string \<Rightarrow> string" where
  "or_str s d = (if s = '''' then d else s)"

definition or_num :: "int \<Rightarrow> int \<Rightarrow> int" where
  "or_num n d = (if n = 0 then d else n)"

definition fill_docker :: "docker_config \<Rightarrow> docker_config" where
  "fill_docker c = c\<lparr>dkc_host := or_str (dkc_host c) (dkc_host default_docker),
     dkc_api_version := or_str (dkc_api_version c) (dkc_api_version default_docker),
     dkc_timeout := or_num (dkc_timeout c) (dkc_timeout default_docker),
     dkc_max_retries := or_num (dkc_max_retries c) (dkc_max_retries default_docker),
     dkc_retry_delay := or_num (dkc_retry_delay c) (dkc_retry_delay default_docker)\<rparr>"

definition fill_api :: "api_server_config \<Rightarrow> api_server_config" where
  "fill_api c = c\<lparr>api_host := or_str (api_host c) (api_host default_api),
     api_port := or_num (api_port c) (api_port default_api),
     api_read_timeout := or_num (api_read_timeout c) (api_read_timeout default_api),
     api_write_timeout := or_num (api_write_timeout c) (api_write_timeout default_api),
     api_idle_timeout := or_num (api_idle_timeout c) (api_idle_timeout default_api),
     api_max_connections := or_num (api_max_connections c) (api_max_connections default_api)\<rparr>"

definition fill_logging :: "logging_config \<Rightarrow> logging_config" where
  "fill_logging c = c\<lparr>log_level := or_str (log_level c) (log_level default_logging),
     log_format := or_str (log_format c) (log_format default_logging),
     log_output := or_str (log_output c) (log_output default_logging),
     log_syslog_facility := or_str (log_syslog_facility c) (log_syslog_facility default_logging),
     log_max_size := or_num (log_max_size c) (log_max_size default_logging),
     log_max_backups := or_num (log_max_backups c) (log_max_backups default_logging),
     log_max_age := or_num (log_max_age c) (log_max_age default_logging)\<rparr>"

definition fill_session :: "string option \<Rightarrow> session_mgr_config \<Rightarrow> session_mgr_config" where
  "fill_session user c = c\<lparr>sg_timeout := or_num (sg_timeout c) (sg_timeout (default_session user)),
     sg_max_sessions := or_num (sg_max_sessions c) (sg_max_sessions (default_session user)),
     sg_cleanup_interval := or_num (sg_cleanup_interval c) (sg_cleanup_interval (default_session user)),
     sg_idle_timeout := or_num (sg_idle_timeout c) (sg_idle_timeout (default_session user)),
     sg_storage_path := or_str (sg_storage_path c) (sg_storage_path (default_session user))\<rparr>"

definition fill_event :: "event_config \<Rightarrow> event_config" where
  "fill_event c = c\<lparr>evc_queue_size := or_num (evc_queue_size c) (evc_queue_size default_event),
     evc_workers := or_num (evc_workers c) (evc_workers default_event),
     evc_buffer_size := or_num (evc_buffer_size c) (evc_buffer_size default_event),
     evc_timeout := or_num (evc_timeout c) (evc_timeout default_event),
     evc_retry_attempts := or_num (evc_retry_attempts c) (evc_retry_attempts default_event),
     evc_retry_delay := or_num (evc_retry_delay c) (evc_retry_delay default_event)\<rparr>"

definition fill_ipc :: "ipc_config \<Rightarrow> ipc_config" where
  "fill_ipc c = c\<lparr>ic_socket_path := or_str (ic_socket_path c) (ic_socket_path default_ipc),
     ic_buffer_size := or_num (ic_buffer_size c) (ic_buffer_size default_ipc),
     ic_timeout := or_num (ic_timeout c) (ic_timeout default_ipc),
     ic_max_connections := or_num (ic_max_connections c) (ic_max_connections default_ipc)\<rparr>"

definition fill_scheduler :: "sched_config \<Rightarrow> sched_config" where
  "fill_scheduler c = c\<lparr>sk_queue_size := or_num (sk_queue_size c) (sk_queue_size default_scheduler),
     sk_workers := or_num (sk_workers c) (sk_workers default_scheduler),
     sk_max_retries := or_num (sk_max_retries c) (sk_max_retries default_scheduler),
     sk_retry_delay := or_num (sk_retry_delay c) (sk_retry_delay default_scheduler),
     sk_task_timeout := or_num (sk_task_timeout c) (sk_task_timeout default_scheduler),
     sk_queue_timeout := or_num (sk_queue_timeout c) (sk_queue_timeout default_scheduler)\<rparr>"

definition fill_credentials :: "string option \<Rightarrow> credentials_config \<Rightarrow> credentials_config" where
  "fill_credentials user c = c\<lparr>xc_store_path := or_str (xc_store_path c) (xc_store_path (default_credentials user)),
     xc_key_rotation_days := or_num (xc_key_rotation_days c) (xc_key_rotation_days (default_credentials user)),
     xc_max_credential_age := or_num (xc_max_credential_age c) (xc_max_credential_age (default_credentials user))\<rparr>"

definition fill_policy :: "string option \<Rightarrow> policy_config \<Rightarrow> policy_config" where
  "fill_policy user c = c\<lparr>pc_config_path := or_str (pc_config_path c) (pc_config_path (default_policy_section user)),
     pc_reload_interval := or_num (pc_reload_interval c) (pc_reload_interval (default_policy_section user)),
     pc_enforcement_mode := or_str (pc_enforcement_mode c) (pc_enforcement_mode (default_policy_section user)),
     pc_default_quota_cpu := or_num (pc_default_quota_cpu c) (pc_default_quota_cpu (default_policy_section user)),
     pc_default_quota_memory := or_num (pc_default_quota_memory c) (pc_default_quota_memory (default_policy_section user))\<rparr>"

definition fill_metrics :: "metrics_config \<Rightarrow> metrics_config" where
  "fill_metrics c = c\<lparr>met_port := or_num (met_port c) (met_port default_metrics),
     met_path := or_str (met_path c) (met_path default_metrics),
     met_interval := or_num (met_interval c) (met_interval default_metrics)\<rparr>"

definition fill_tracing :: "tracing_config \<Rightarrow> tracing_config" where
  "fill_tracing c = c\<lparr>trc_sample_rate := (if trc_sample_rate c = 0 then trc_sample_rate default_tracing else trc_sample_rate c),
     trc_exporter := or_str (trc_exporter c) (trc_exporter default_tracing)\<rparr>"

definition fill_orchestrator :: "orchestrator_config \<Rightarrow> orchestrator_config" where
  "fill_orchestrator c = c\<lparr>orc_shutdown_timeout := or_num (orc_shutdown_timeout c) (orc_shutdown_timeout default_orchestrator),
     orc_health_interval := or_num (orc_health_interval c) (orc_health_interval default_orchestrator),
     orc_graceful_timeout := or_num (orc_graceful_timeout c) (orc_graceful_timeout default_orchestrator),
     orc_profiling_port := or_num (orc_profiling_port c) (orc_profiling_port default_orchestrator)\<rparr>"

definition fill_runtime :: "runtime_config \<Rightarrow> runtime_config" where
  "fill_runtime c = c\<lparr>rtc_type := or_str (rtc_type c) (rtc_type default_runtime),
     rtc_socket_path := or_str (rtc_socket_path c) (rtc_socket_path default_runtime),
     rtc_timeout := or_num (rtc_timeout c) (rtc_timeout default_runtime),
     rtc_max_retries := or_num (rtc_max_retries c) (rtc_max_retries default_runtime),
     rtc_retry_delay := or_num (rtc_retry_delay c) (rtc_retry_delay default_runtime),
     rtc_tls_cert := or_str (rtc_tls_cert c) (rtc_tls_cert default_runtime),
     rtc_tls_key := or_str (rtc_tls_key c) (rtc_tls_key default_runtime),
     rtc_tls_ca := or_str (rtc_tls_ca c) (rtc_tls_ca default_runtime)\<rparr>"

text \<open>A memory section without any value takes the whole default; its paths follow the storage path otherwise.\<close>

definition zero_memory :: memory_config where
  "zero_memory = \<lparr>mc_storage_path = '''', mc_user_path = '''', mc_group_path = '''', mc_enabled = False, mc_max_file_size = 0, mc_file_format = ''''\<rparr>"

definition fill_memory :: "string option \<Rightarrow> memory_config \<Rightarrow> memory_config" where
  "fill_memory user c =
     (if c = zero_memory then default_memory user
      else
        let p = or_str (mc_storage_path c) (mc_storage_path (default_memory user))
        in c\<lparr>mc_storage_path := p, mc_user_path := or_str (mc_user_path c) (path_join [p, ''users'']),
             mc_group_path := or_str (mc_group_path c) (path_join [p, ''groups'']),
             mc_max_file_size := or_num (mc_max_file_size c) (mc_max_file_size (default_memory user)),
             mc_file_format := or_str (mc_file_format c) (mc_file_format (default_memory user))\<rparr>)"

definition fill_grpc :: "grpc_config \<Rightarrow> grpc_config" where
  "fill_grpc c = c\<lparr>grc_socket_path := or_str (grc_socket_path c) (grc_socket_path default_grpc),
     grc_max_recv := or_num (grc_max_recv c) (grc_max_recv default_grpc),
     grc_max_send := or_num (grc_max_send c) (grc_max_send default_grpc),
     grc_timeout := or_num (grc_timeout c) (grc_timeout default_grpc),
     grc_max_connections := or_num (grc_max_connections c) (grc_max_connections default_grpc)\<rparr>"

definition or_map :: "'m option \<Rightarrow> 'm option \<Rightarrow> 'm option" where
  "or_map m d = (case m of None \<Rightarrow> d | Some es \<Rightarrow> Some es)"

definition fill_llm :: "llm_config \<Rightarrow> llm_config" where
  "fill_llm c = c\<lparr>lc_providers := or_map (lc_providers c) (lc_providers default_llm),
     lc_container_image := or_str (lc_container_image c) (lc_container_image default_llm),
     lc_default_model := or_str (lc_default_model c) (lc_default_model default_llm),
     lc_default_provider := or_str (lc_default_provider c) (lc_default_provider default_llm),
     lc_timeout := or_num (lc_timeout c) (lc_timeout default_llm),
     lc_max_concurrent := or_num (lc_max_concurrent c) (lc_max_concurrent default_llm),
     lc_rate_limits := or_map (lc_rate_limits c) (lc_rate_limits default_llm),
     lc_fallback_chains := or_map (lc_fallback_chains c) (lc_fallback_chains default_llm)\<rparr>"

definition fill_specific :: "provider_specific_config \<Rightarrow> provider_specific_config \<Rightarrow> provider_specific_config" where
  "fill_specific d c = c\<lparr>psc_timeout := or_num (psc_timeout c) (psc_timeout d),
     psc_max_retries := or_num (psc_max_retries c) (psc_max_retries d), psc_priority := or_num (psc_priority c) (psc_priority d)\<rparr>"

definition fill_provider_section :: "provider_section \<Rightarrow> provider_section" where
  "fill_provider_section c = c\<lparr>prc_default := or_str (prc_default c) (prc_default default_provider_section),
     prc_threshold := or_num (prc_threshold c) (prc_threshold default_provider_section),
     prc_health_interval := or_num (prc_health_interval c) (prc_health_interval default_provider_section),
     prc_breaker_timeout := or_num (prc_breaker_timeout c) (prc_breaker_timeout default_provider_section),
     prc_anthropic := fill_specific (prc_anthropic default_provider_section) (prc_anthropic c),
     prc_openai := fill_specific (prc_openai default_provider_section) (prc_openai c)\<rparr>"

definition fill_skills :: "string option \<Rightarrow> skills_section \<Rightarrow> skills_section" where
  "fill_skills user c =
     (let d = default_skills user
      in c\<lparr>skc_storage_path := or_str (skc_storage_path c) (skc_storage_path d),
           skc_max_per_owner := or_num (skc_max_per_owner c) (skc_max_per_owner d),
           skc_load := (skc_load c)\<lparr>
             skl_reload_interval := or_num (skl_reload_interval (skc_load c)) (skl_reload_interval (skc_load d)),
             skl_max_errors := or_num (skl_max_errors (skc_load c)) (skl_max_errors (skc_load d))\<rparr>,
           skc_github := (skc_github c)\<lparr>
             skg_max_repo := or_num (skg_max_repo (skc_github c)) (skg_max_repo (skc_github d)),
             skg_update_interval := or_num (skg_update_interval (skc_github c)) (skg_update_interval (skc_github d))\<rparr>,
           skc_retention := (skc_retention c)\<lparr>
             skr_max_age := or_num (skr_max_age (skc_retention c)) (skr_max_age (skc_retention d)),
             skr_unused_max_age := or_num (skr_unused_max_age (skc_retention c)) (skr_unused_max_age (skc_retention d)),
             skr_error_max_age := or_num (skr_error_max_age (skc_retention c)) (skr_error_max_age (skc_retention d))\<rparr>\<rparr>)"

text \<open>The last condition is looked at after the values have been filled in.\<close>

definition fill_audit :: "audit_config \<Rightarrow> audit_config" where
  "fill_audit c =
     (let c1 = c\<lparr>auc_output := or_str (auc_output c) (auc_output default_audit),
            auc_format := or_str (auc_format c) (auc_format default_audit),
            auc_max_size := or_num (auc_max_size c) (auc_max_size default_audit),
            auc_max_backups := or_num (auc_max_backups c) (auc_max_backups default_audit),
            auc_max_age := or_num (auc_max_age c) (auc_max_age default_audit)\<rparr>
      in if auc_output c1 = '''' \<and> auc_format c1 = '''' \<and> auc_max_size c1 = 0 \<and> auc_max_backups c1 = 0 \<and> auc_max_age c1 = 0
         then c1\<lparr>auc_rotation := auc_rotation default_audit, auc_compress := auc_compress default_audit\<rparr>
         else c1)"

definition apply_defaults :: "string option \<Rightarrow> config \<Rightarrow> config" where
  "apply_defaults user c = \<lparr>cfg_docker = fill_docker (cfg_docker c), cfg_api = fill_api (cfg_api c),
     cfg_logging = fill_logging (cfg_logging c), cfg_session = fill_session user (cfg_session c),
     cfg_event = fill_event (cfg_event c), cfg_ipc = fill_ipc (cfg_ipc c), cfg_scheduler = fill_scheduler (cfg_scheduler c),
     cfg_credentials = fill_credentials user (cfg_credentials c), cfg_policy = fill_policy user (cfg_policy c),
     cfg_metrics = fill_metrics (cfg_metrics c), cfg_tracing = fill_tracing (cfg_tracing c),
     cfg_orchestrator = fill_orchestrator (cfg_orchestrator c), cfg_runtime = fill_runtime (cfg_runtime c),
     cfg_memory = fill_memory user (cfg_memory c), cfg_grpc = fill_grpc (cfg_grpc c), cfg_llm = fill_llm (cfg_llm c),
     cfg_provider = fill_provider_section (cfg_provider c), cfg_skills = fill_skills user (cfg_skills c),
     cfg_audit = fill_audit (cfg_audit c)\<rparr>"

end
