(* ===== verification/Config_Load.thy ===== *)
theory Config_Load
  imports Config_Types
begin

text \<open>
  internal/config/config.go, loader.go and reloader.go: overriding the configuration from the
  environment, placeholders in its strings, validation, loading from a file and reloading.  The
  environment is a function (the empty string for a variable that is not set); durations and YAML
  are parsed by parameters.
\<close>

section \<open>Environment\<close>

record sys_env =
  gv_get :: "string \<Rightarrow> string"
  gv_duration :: "string \<Rightarrow> duration option"
  gv_config_dir :: "string option"

text \<open>\<open>strconv.Atoi\<close>.\<close>

definition atoi :: "string \<Rightarrow> int option" where
  "atoi s =
     (let neg = has_prefix s ''-'';
          ds = (if has_prefix s ''-'' \<or> has_prefix s ''+'' then tl s else s);
          v = (if neg then - digits_value ds else digits_value ds)
      in if ds = [] \<or> \<not> list_all is_digit ds \<or> v < int64_min \<or> int64_max < v then None else Some v)"

definition ov_str :: "sys_env \<Rightarrow> string \<Rightarrow> string \<Rightarrow> string" where
  "ov_str e k old = (if gv_get e k = '''' then old else gv_get e k)"

definition ov_int :: "sys_env \<Rightarrow> string \<Rightarrow> int \<Rightarrow> int" where
  "ov_int e k old = (if gv_get e k = '''' then old else (case atoi (gv_get e k) of None \<Rightarrow> old | Some n \<Rightarrow> n))"

definition ov_duration :: "sys_env \<Rightarrow> string \<Rightarrow> duration \<Rightarrow> duration" where
  "ov_duration e k old = (if gv_get e k = '''' then old else (case gv_duration e (gv_get e k) of None \<Rightarrow> old | Some d \<Rightarrow> d))"

definition ov_bool :: "sys_env \<Rightarrow> string \<Rightarrow> bool \<Rightarrow> bool" where
  "ov_bool e k old = (if gv_get e k = '''' then old else to_lower (gv_get e k) = ''true'' \<or> gv_get e k = ''1'')"

definition env_docker :: "sys_env \<Rightarrow> docker_config \<Rightarrow> docker_config" where
  "env_docker e c = c\<lparr>dkc_host := ov_str e ''DOCKER_HOST'' (dkc_host c), dkc_tls_cert := gv_get e ''DOCKER_TLS_CERT'',
     dkc_tls_key := gv_get e ''DOCKER_TLS_KEY'', dkc_tls_ca_cert := gv_get e ''DOCKER_TLS_CA_CERT'',
     dkc_tls_verify := ov_bool e ''DOCKER_TLS_VERIFY'' (dkc_tls_verify c)\<rparr>"

definition env_api :: "sys_env \<Rightarrow> api_server_config \<Rightarrow> api_server_config" where
  "env_api e c = c\<lparr>api_host := ov_str e ''API_SERVER_HOST'' (api_host c), api_port := ov_int e ''API_SERVER_PORT'' (api_port c)\<rparr>"

definition env_logging :: "sys_env \<Rightarrow> logging_config \<Rightarrow> logging_config" where
  "env_logging e c = c\<lparr>log_level := ov_str e ''LOG_LEVEL'' (log_level c), log_format := ov_str e ''LOG_FORMAT'' (log_format c)\<rparr>"

definition env_session :: "sys_env \<Rightarrow> session_mgr_config \<Rightarrow> session_mgr_config" where
  "env_session e c = c\<lparr>sg_timeout := ov_duration e ''SESSION_TIMEOUT'' (sg_timeout c),
     sg_max_sessions := ov_int e ''MAX_SESSIONS'' (sg_max_sessions c),
     sg_persistence := ov_bool e ''SESSION_PERSISTENCE'' (sg_persistence c),
     sg_storage_path := ov_str e ''SESSION_STORAGE_PATH'' (sg_storage_path c)\<rparr>"

definition env_event :: "sys_env \<Rightarrow> event_config \<Rightarrow> event_config" where
  "env_event e c = c\<lparr>evc_queue_size := ov_int e ''EVENT_QUEUE_SIZE'' (evc_queue_size c),
     evc_workers := ov_int e ''EVENT_WORKERS'' (evc_workers c)\<rparr>"

definition env_scheduler :: "sys_env \<Rightarrow> sched_config \<Rightarrow> sched_config" where
  "env_scheduler e c = c\<lparr>sk_queue_size := ov_int e ''SCHEDULER_QUEUE_SIZE'' (sk_queue_size c),
     sk_workers := ov_int e ''SCHEDULER_WORKERS'' (sk_workers c)\<rparr>"

definition env_metrics :: "sys_env \<Rightarrow> metrics_config \<Rightarrow> metrics_config" where
  "env_metrics e c = c\<lparr>met_enabled := ov_bool e ''METRICS_ENABLED'' (met_enabled c), met_port := ov_int e ''METRICS_PORT'' (met_port c)\<rparr>"

definition env_runtime :: "sys_env \<Rightarrow> runtime_config \<Rightarrow> runtime_config" where
  "env_runtime e c = c\<lparr>rtc_type := ov_str e ''CONTAINER_RUNTIME'' (rtc_type c),
     rtc_socket_path := ov_str e ''CONTAINER_RUNTIME_SOCKET'' (rtc_socket_path c),
     rtc_timeout := ov_duration e ''CONTAINER_RUNTIME_TIMEOUT'' (rtc_timeout c),
     rtc_tls_cert := gv_get e ''CONTAINER_RUNTIME_TLS_CERT'', rtc_tls_key := gv_get e ''CONTAINER_RUNTIME_TLS_KEY'',
     rtc_tls_ca := gv_get e ''CONTAINER_RUNTIME_TLS_CA'', rtc_tls_enabled := ov_bool e ''CONTAINER_RUNTIME_TLS_ENABLED'' (rtc_tls_enabled c)\<rparr>"

text \<open>Paths that start with the earlier storage path, in whatever way it goes on, move with it.\<close>

definition move_path :: "string \<Rightarrow> string \<Rightarrow> string \<Rightarrow> string" where
  "move_path old nw p = (if p \<noteq> '''' \<and> has_prefix p old then nw @ drop (length old) p else p)"

definition env_memory :: "sys_env \<Rightarrow> memory_config \<Rightarrow> memory_config" where
  "env_memory e c =
     (let v = gv_get e ''MEMORY_STORAGE_PATH'';
          old = mc_storage_path c;
          c1 = (if v = '''' then c
                else c\<lparr>mc_storage_path := v, mc_user_path := move_path old v (mc_user_path c),
                       mc_group_path := move_path old v (mc_group_path c)\<rparr>)
      in c1\<lparr>mc_enabled := ov_bool e ''MEMORY_ENABLED'' (mc_enabled c1),
            mc_max_file_size := ov_int e ''MEMORY_MAX_FILE_SIZE'' (mc_max_file_size c1),
            mc_file_format := ov_str e ''MEMORY_FILE_FORMAT'' (mc_file_format c1)\<rparr>)"

definition env_grpc :: "sys_env \<Rightarrow> grpc_config \<Rightarrow> grpc_config" where
  "env_grpc e c = c\<lparr>grc_socket_path := ov_str e ''GRPC_SOCKET_PATH'' (grc_socket_path c),
     grc_max_recv := ov_int e ''GRPC_MAX_RECV_MSG_SIZE'' (grc_max_recv c),
     grc_max_send := ov_int e ''GRPC_MAX_SEND_MSG_SIZE'' (grc_max_send c),
     grc_timeout := ov_duration e ''GRPC_TIMEOUT'' (grc_timeout c),
     grc_max_connections := ov_int e ''GRPC_MAX_CONNECTIONS'' (grc_max_connections c)\<rparr>"

definition env_api_key :: "sys_env \<Rightarrow> string \<Rightarrow> llm_provider_config \<Rightarrow> llm_provider_config" where
  "env_api_key e name p =
     (if name = ''anthropic'' then p\<lparr>lp_api_key := ov_str e ''ANTHROPIC_API_KEY'' (lp_api_key p)\<rparr>
      else if name = ''openai'' then p\<lparr>lp_api_key := ov_str e ''OPENAI_API_KEY'' (lp_api_key p)\<rparr> else p)"

definition env_llm :: "sys_env \<Rightarrow> llm_config \<Rightarrow> llm_config" where
  "env_llm e c = c\<lparr>lc_enabled := ov_bool e ''LLM_ENABLED'' (lc_enabled c),
     lc_container_image := ov_str e ''LLM_CONTAINER_IMAGE'' (lc_container_image c),
     lc_default_model := ov_str e ''LLM_DEFAULT_MODEL'' (lc_default_model c),
     lc_default_provider := ov_str e ''LLM_DEFAULT_PROVIDER'' (lc_default_provider c),
     lc_timeout := ov_duration e ''LLM_TIMEOUT'' (lc_timeout c),
     lc_max_concurrent := ov_int e ''LLM_MAX_CONCURRENT_REQUESTS'' (lc_max_concurrent c),
     lc_providers := map_option (mmap (env_api_key e)) (lc_providers c)\<rparr>"

definition env_skills :: "sys_env \<Rightarrow> skills_section \<Rightarrow> skills_section" where
  "env_skills e c = c\<lparr>skc_enabled := ov_bool e ''SKILLS_ENABLED'' (skc_enabled c),
     skc_storage_path := ov_str e ''SKILLS_STORAGE_PATH'' (skc_storage_path c),
     skc_auto_load := ov_bool e ''SKILLS_AUTO_LOAD'' (skc_auto_load c),
     skc_max_per_owner := ov_int e ''SKILLS_MAX_PER_OWNER'' (skc_max_per_owner c),
     skc_github := (skc_github c)\<lparr>skg_token := ov_str e ''SKILLS_GITHUB_TOKEN'' (skg_token (skc_github c))\<rparr>\<rparr>"

definition apply_env_overrides :: "sys_env \<Rightarrow> config \<Rightarrow> config" where
  "apply_env_overrides e c = c\<lparr>cfg_docker := env_docker e (cfg_docker c), cfg_api := env_api e (cfg_api c),
     cfg_logging := env_logging e (cfg_logging c), cfg_session := env_session e (cfg_session c),
     cfg_event := env_event e (cfg_event c),
     cfg_ipc := (cfg_ipc c)\<lparr>ic_socket_path := ov_str e ''IPC_SOCKET_PATH'' (ic_socket_path (cfg_ipc c))\<rparr>,
     cfg_scheduler := env_scheduler e (cfg_scheduler c),
     cfg_credentials := (cfg_credentials c)\<lparr>xc_store_path := ov_str e ''CREDENTIAL_STORE_PATH'' (xc_store_path (cfg_credentials c))\<rparr>,
     cfg_policy := (cfg_policy c)\<lparr>pc_config_path := ov_str e ''POLICY_CONFIG_PATH'' (pc_config_path (cfg_policy c))\<rparr>,
     cfg_metrics := env_metrics e (cfg_metrics c),
     cfg_tracing := (cfg_tracing c)\<lparr>trc_enabled := ov_bool e ''TRACE_ENABLED'' (trc_enabled (cfg_tracing c))\<rparr>,
     cfg_orchestrator := (cfg_orchestrator c)\<lparr>orc_shutdown_timeout := ov_duration e ''SHUTDOWN_TIMEOUT'' (orc_shutdown_timeout (cfg_orchestrator c))\<rparr>,
     cfg_runtime := env_runtime e (cfg_runtime c), cfg_memory := env_memory e (cfg_memory c), cfg_grpc := env_grpc e (cfg_grpc c),
     cfg_llm := env_llm e (cfg_llm c), cfg_skills := env_skills e (cfg_skills c)\<rparr>"

section \<open>Placeholders\<close>

text \<open>
  A placeholder is a dollar sign, a brace, a name, then either a closing brace or a colon, a minus, a
  default up to the next closing brace.  \<open>parse_placeholder\<close> reads what follows the dollar sign.
\<close>

definition name_start :: "char \<Rightarrow> bool" where
  "name_start c \<longleftrightarrow> (let n = of_char c :: nat in (97 \<le> n \<and> n \<le> 122) \<or> (65 \<le> n \<and> n \<le> 90) \<or> n = 95)"

definition name_part :: "char \<Rightarrow> bool" where
  "name_part c \<longleftrightarrow> name_start c \<or> is_digit c"

definition parse_placeholder :: "string \<Rightarrow> (string \<times> string \<times> string) option" where
  "parse_placeholder s =
     (case s of
        b # c # r \<Rightarrow>
          if b = CHR 0x7B \<and> name_start c then
            let name = c # takeWhile name_part r; r1 = dropWhile name_part r
            in case r1 of
                 [] \<Rightarrow> None
               | d # r2 \<Rightarrow>
                   if d = CHR 0x7D then Some (name, [], r2)
                   else if has_prefix r1 '':-'' then
                     (case dropWhile (\<lambda>x. x \<noteq> CHR 0x7D) (drop 2 r1) of
                        [] \<Rightarrow> None
                      | _ # r3 \<Rightarrow> Some (name, takeWhile (\<lambda>x. x \<noteq> CHR 0x7D) (drop 2 r1), r3))
                   else None
          else None
      | _ \<Rightarrow> None)"

lemma parse_placeholder_shorter: "parse_placeholder s = Some (n, d, r) \<Longrightarrow> length r < length s"
proof -
  assume p: "parse_placeholder s = Some (n, d, r)"
  then obtain b c s' where s: "s = b # c # s'" by (auto simp: parse_placeholder_def split: list.splits)
  have l1: "length (dropWhile name_part s') \<le> length s'" by (rule length_dropWhile_le)
  have l2: "length (dropWhile (\<lambda>x. x \<noteq> CHR 0x7D) (drop 2 (dropWhile name_part s'))) \<le> length (dropWhile name_part s')"
    using length_dropWhile_le [of "\<lambda>x. x \<noteq> CHR 0x7D" "drop 2 (dropWhile name_part s')"] by simp
  show ?thesis using p s l1 l2
    by (auto simp: parse_placeholder_def Let_def split: list.splits if_splits)
qed

function interpolate :: "(string \<Rightarrow> string) \<Rightarrow> string \<Rightarrow> string" where
  "interpolate get [] = []"
| "interpolate get (c # s) =
     (case (if c = CHR 0x24 then parse_placeholder s else None) of
        None \<Rightarrow> c # interpolate get s
      | Some (n, d, r) \<Rightarrow> (if get n = [] then d else get n) @ interpolate get r)"
  by pat_completeness auto
termination
  by (relation "measure (\<lambda>(g, s). length s)") (auto dest!: parse_placeholder_shorter split: if_splits)

definition interpolate_config :: "(string \<Rightarrow> string) \<Rightarrow> config \<Rightarrow> config" where
  "interpolate_config get c =
     (let i = interpolate get; dk = cfg_docker c; ap = cfg_api c; lg = cfg_logging c; rt = cfg_runtime c; me = cfg_memory c; pr = cfg_provider c
      in c\<lparr>cfg_docker := dk\<lparr>dkc_host := i (dkc_host dk), dkc_tls_cert := i (dkc_tls_cert dk), dkc_tls_key := i (dkc_tls_key dk),
             dkc_tls_ca_cert := i (dkc_tls_ca_cert dk), dkc_api_version := i (dkc_api_version dk)\<rparr>,
           cfg_api := ap\<lparr>api_host := i (api_host ap), api_tls_cert := i (api_tls_cert ap), api_tls_key := i (api_tls_key ap)\<rparr>,
           cfg_logging := lg\<lparr>log_level := i (log_level lg), log_format := i (log_format lg), log_output := i (log_output lg),
             log_syslog_facility := i (log_syslog_facility lg)\<rparr>,
           cfg_session := (cfg_session c)\<lparr>sg_storage_path := i (sg_storage_path (cfg_session c))\<rparr>,
           cfg_ipc := (cfg_ipc c)\<lparr>ic_socket_path := i (ic_socket_path (cfg_ipc c))\<rparr>,
           cfg_credentials := (cfg_credentials c)\<lparr>xc_store_path := i (xc_store_path (cfg_credentials c))\<rparr>,
           cfg_policy := (cfg_policy c)\<lparr>pc_config_path := i (pc_config_path (cfg_policy c)),
             pc_enforcement_mode := i (pc_enforcement_mode (cfg_policy c))\<rparr>,
           cfg_metrics := (cfg_metrics c)\<lparr>met_path := i (met_path (cfg_metrics c))\<rparr>,
           cfg_tracing := (cfg_tracing c)\<lparr>trc_exporter := i (trc_exporter (cfg_tracing c)), trc_endpoint := i (trc_endpoint (cfg_tracing c))\<rparr>,
           cfg_runtime := rt\<lparr>rtc_socket_path := i (rtc_socket_path rt), rtc_tls_cert := i (rtc_tls_cert rt), rtc_tls_key := i (rtc_tls_key rt),
             rtc_tls_ca := i (rtc_tls_ca rt)\<rparr>,
           cfg_memory := me\<lparr>mc_storage_path := i (mc_storage_path me), mc_user_path := i (mc_user_path me), mc_group_path := i (mc_group_path me),
             mc_file_format := i (mc_file_format me)\<rparr>,
           cfg_grpc := (cfg_grpc c)\<lparr>grc_socket_path := i (grc_socket_path (cfg_grpc c))\<rparr>,
           cfg_provider := pr\<lparr>prc_default := i (prc_default pr), prc_anthropic := (prc_anthropic pr)\<lparr>psc_base_url := i (psc_base_url (prc_anthropic pr))\<rparr>,
             prc_openai := (prc_openai pr)\<lparr>psc_base_url := i (psc_base_url (prc_openai pr))\<rparr>\<rparr>\<rparr>)"

section \<open>Validation\<close>

text \<open>Every refusal has the same code.\<close>

definition demand :: "bool list \<Rightarrow> go_error option" where
  "demand bs = (if list_all (\<lambda>b. b) bs then None else Some (new_error ErrInvalidArgument))"

definition validate_servers :: "config \<Rightarrow> bool list" where
  "validate_servers c =
     [dkc_host (cfg_docker c) \<noteq> '''', 0 < dkc_timeout (cfg_docker c), 0 \<le> dkc_max_retries (cfg_docker c),
      1 \<le> api_port (cfg_api c) \<and> api_port (cfg_api c) \<le> 65535, 0 < api_read_timeout (cfg_api c), 0 < api_write_timeout (cfg_api c),
      log_level (cfg_logging c) \<in> {''debug'', ''info'', ''warn'', ''error''}, log_format (cfg_logging c) \<in> {''json'', ''text''}]"

definition validate_core :: "config \<Rightarrow> bool list" where
  "validate_core c =
     [0 < sg_timeout (cfg_session c), 0 < sg_max_sessions (cfg_session c),
      0 < evc_queue_size (cfg_event c), 0 < evc_workers (cfg_event c),
      ic_socket_path (cfg_ipc c) \<noteq> '''', 0 < ic_buffer_size (cfg_ipc c),
      0 < sk_queue_size (cfg_scheduler c), 0 < sk_workers (cfg_scheduler c),
      xc_store_path (cfg_credentials c) \<noteq> '''', 0 < xc_key_rotation_days (cfg_credentials c),
      pc_config_path (cfg_policy c) \<noteq> '''', pc_enforcement_mode (cfg_policy c) \<in> {''strict'', ''permissive'', ''disabled''}]"

definition validate_system :: "config \<Rightarrow> bool list" where
  "validate_system c =
     [1 \<le> met_port (cfg_metrics c) \<and> met_port (cfg_metrics c) \<le> 65535,
      0 \<le> trc_sample_rate (cfg_tracing c) \<and> trc_sample_rate (cfg_tracing c) \<le> 1,
      0 < orc_shutdown_timeout (cfg_orchestrator c),
      rtc_type (cfg_runtime c) \<in> {''auto'', ''docker'', ''apple''}, 0 < rtc_timeout (cfg_runtime c), 0 \<le> rtc_max_retries (cfg_runtime c),
      mc_storage_path (cfg_memory c) \<noteq> '''', 0 < mc_max_file_size (cfg_memory c),
      mc_file_format (cfg_memory c) \<in> {'''', ''markdown'', ''md''},
      grc_socket_path (cfg_grpc c) \<noteq> '''', 0 < grc_max_recv (cfg_grpc c), 0 < grc_max_send (cfg_grpc c),
      0 < grc_timeout (cfg_grpc c), 0 < grc_max_connections (cfg_grpc c)]"

definition provider_has_key :: "(string \<Rightarrow> string) \<Rightarrow> string \<Rightarrow> llm_provider_config \<Rightarrow> bool" where
  "provider_has_key get name p \<longleftrightarrow> lp_api_key p \<noteq> ''''
     \<or> (name = ''anthropic'' \<and> get ''ANTHROPIC_API_KEY'' \<noteq> '''') \<or> (name = ''openai'' \<and> get ''OPENAI_API_KEY'' \<noteq> '''')"

definition validate_llm :: "(string \<Rightarrow> string) \<Rightarrow> llm_config \<Rightarrow> bool list" where
  "validate_llm get c =
     (if \<not> lc_enabled c then []
      else [lc_container_image c \<noteq> '''', lc_default_provider c \<noteq> '''', lc_default_model c \<noteq> '''', 0 < lc_timeout c, 0 < lc_max_concurrent c,
            mget (map_entries (lc_providers c)) (lc_default_provider c) \<noteq> None]
           @ map (\<lambda>(n, p). lp_name p \<noteq> '''' \<and> (lp_enabled p \<longrightarrow> provider_has_key get n p)) (map_entries (lc_providers c)))"

definition zero_specific :: provider_specific_config where
  "zero_specific = \<lparr>psc_enabled = False, psc_base_url = '''', psc_timeout = 0, psc_max_retries = 0, psc_priority = 0\<rparr>"

definition zero_provider_section :: provider_section where
  "zero_provider_section = \<lparr>prc_default = '''', prc_failover = False, prc_threshold = 0, prc_health_interval = 0, prc_breaker_timeout = 0,
     prc_anthropic = zero_specific, prc_openai = zero_specific\<rparr>"

definition validate_provider_section :: "provider_section \<Rightarrow> bool list" where
  "validate_provider_section c =
     (if c = zero_provider_section then []
      else [prc_default c \<in> {'''', ''anthropic'', ''openai''}, prc_failover c \<longrightarrow> 0 < prc_threshold c,
            0 < prc_health_interval c, 0 < prc_breaker_timeout c])"

definition validate_skills :: "skills_section \<Rightarrow> bool list" where
  "validate_skills c =
     (if \<not> skc_enabled c then []
      else [skc_storage_path c \<noteq> '''', 0 \<le> skc_max_per_owner c,
            skl_enabled (skc_load c) \<longrightarrow> 0 \<le> skl_max_errors (skc_load c) \<and> 0 < skl_reload_interval (skc_load c),
            skg_enabled (skc_github c) \<longrightarrow> 0 \<le> skg_max_repo (skc_github c) \<and> (skg_auto_update (skc_github c) \<longrightarrow> 0 < skg_update_interval (skc_github c)),
            skr_enabled (skc_retention c) \<longrightarrow> 0 \<le> skr_min_load_count (skc_retention c)])"

definition validate_audit :: "audit_config \<Rightarrow> bool list" where
  "validate_audit c =
     (if \<not> auc_enabled c then []
      else [auc_output c \<noteq> '''', auc_format c \<in> {''json'', ''text''}, 0 < auc_max_size c, 0 \<le> auc_max_backups c, 0 < auc_max_age c])"

definition validate_config :: "(string \<Rightarrow> string) \<Rightarrow> config \<Rightarrow> go_error option" where
  "validate_config get c =
     demand (validate_servers c @ validate_core c @ validate_system c @ validate_llm get (cfg_llm c)
             @ validate_provider_section (cfg_provider c) @ validate_skills (cfg_skills c) @ validate_audit (cfg_audit c))"

section \<open>Loading\<close>

text \<open>
  Reading a file: its text, or an error and whether that is the absence of the file.  \<open>yl_syntax\<close> says
  whether a text is YAML, and with any content; \<open>yl_decode\<close> decodes it.
\<close>

record yaml_loader =
  yl_read :: "string \<Rightarrow> (bool \<times> go_error) + string"
  yl_syntax :: "string \<Rightarrow> bool result"
  yl_decode :: "string \<Rightarrow> config result"

definition file_ext :: "string \<Rightarrow> string" where
  "file_ext p = path_ext (rev (takeWhile (\<lambda>c. c \<noteq> slash) (rev p)))"

definition validate_config_path :: "string \<Rightarrow> go_error option" where
  "validate_config_path p =
     (if p = '''' \<or> to_lower (file_ext p) \<notin> {''.yaml'', ''.yml''} then Some (new_error ErrInvalidArgument) else None)"

definition validate_yaml :: "yaml_loader \<Rightarrow> string \<Rightarrow> go_error option" where
  "validate_yaml y d =
     (if d = '''' \<or> trim_space d = '''' then Some (new_error ErrInvalid)
      else
        (case yl_syntax y d of
           Inl e \<Rightarrow> Some (wrap_error ErrInvalid e)
         | Inr content \<Rightarrow> if content then None else Some (new_error ErrInvalid)))"

definition load_from_file :: "sys_env \<Rightarrow> yaml_loader \<Rightarrow> string \<Rightarrow> config result" where
  "load_from_file e y p =
     (case validate_config_path p of
        Some x \<Rightarrow> Inl x
      | None \<Rightarrow>
          (case yl_read y p of
             Inl (missing, x) \<Rightarrow> Inl (wrap_error (if missing then ErrNotFound else ErrInvalidArgument) x)
           | Inr d \<Rightarrow>
               (case validate_yaml y d of
                  Some x \<Rightarrow> Inl x
                | None \<Rightarrow>
                    (case yl_decode y d of
                       Inl x \<Rightarrow> Inl (wrap_error ErrInvalid x)
                     | Inr c \<Rightarrow>
                         let c1 = apply_defaults (gv_config_dir e) (interpolate_config (gv_get e) c)
                         in (case validate_config (gv_get e) c1 of
                               Some x \<Rightarrow> Inl (wrap_error ErrInvalid x)
                             | None \<Rightarrow> Inr c1)))))"

definition override_and_validate :: "sys_env \<Rightarrow> config \<Rightarrow> config result" where
  "override_and_validate e c =
     (let c1 = apply_env_overrides e c
      in case validate_config (gv_get e) c1 of Some x \<Rightarrow> Inl x | None \<Rightarrow> Inr c1)"

text \<open>What \<open>os.Stat\<close> says of the file of the default path.\<close>

datatype file_stat = FileThere | FileMissing | StatFails go_error

definition load_config :: "sys_env \<Rightarrow> yaml_loader \<Rightarrow> file_stat \<Rightarrow> config result" where
  "load_config e y st =
     (case (case default_config_path (gv_config_dir e) of
              None \<Rightarrow> Inr None
            | Some p \<Rightarrow>
                (case st of
                   FileThere \<Rightarrow> (case load_from_file e y p of Inl x \<Rightarrow> Inl x | Inr c \<Rightarrow> Inr (Some c))
                 | FileMissing \<Rightarrow> Inr None
                 | StatFails x \<Rightarrow> Inl (PlainErr ''failed to check config file''))) of
        Inl x \<Rightarrow> Inl x
      | Inr None \<Rightarrow> override_and_validate e (default_config (gv_config_dir e))
      | Inr (Some c) \<Rightarrow> override_and_validate e c)"

definition load_with_path :: "sys_env \<Rightarrow> yaml_loader \<Rightarrow> file_stat \<Rightarrow> string \<Rightarrow> config result" where
  "load_with_path e y st p =
     (if p = '''' then load_config e y st
      else (case load_from_file e y p of Inl x \<Rightarrow> Inl x | Inr c \<Rightarrow> override_and_validate e c))"

section \<open>Flags\<close>

record override_flags =
  of_docker_host :: string
  of_api_host :: string
  of_api_port :: int
  of_log_level :: string
  of_log_format :: string
  of_log_output :: string
  of_grpc_socket :: string
  of_grpc_recv :: int
  of_grpc_send :: int
  of_grpc_timeout :: string
  of_grpc_connections :: int

definition flag_str :: "string \<Rightarrow> string \<Rightarrow> string" where
  "flag_str v old = (if v = '''' then old else v)"

definition flag_pos :: "int \<Rightarrow> int \<Rightarrow> int" where
  "flag_pos v old = (if 0 < v then v else old)"

definition apply_overrides :: "(string \<Rightarrow> duration option) \<Rightarrow> override_flags \<Rightarrow> config \<Rightarrow> config" where
  "apply_overrides dur o1 c =
     c\<lparr>cfg_docker := (cfg_docker c)\<lparr>dkc_host := flag_str (of_docker_host o1) (dkc_host (cfg_docker c))\<rparr>,
       cfg_api := (cfg_api c)\<lparr>api_host := flag_str (of_api_host o1) (api_host (cfg_api c)),
         api_port := flag_pos (of_api_port o1) (api_port (cfg_api c))\<rparr>,
       cfg_logging := (cfg_logging c)\<lparr>log_level := flag_str (of_log_level o1) (log_level (cfg_logging c)),
         log_format := flag_str (of_log_format o1) (log_format (cfg_logging c)),
         log_output := flag_str (of_log_output o1) (log_output (cfg_logging c))\<rparr>,
       cfg_grpc := (cfg_grpc c)\<lparr>grc_socket_path := flag_str (of_grpc_socket o1) (grc_socket_path (cfg_grpc c)),
         grc_max_recv := flag_pos (of_grpc_recv o1) (grc_max_recv (cfg_grpc c)),
         grc_max_send := flag_pos (of_grpc_send o1) (grc_max_send (cfg_grpc c)),
         grc_timeout := (if of_grpc_timeout o1 = '''' then grc_timeout (cfg_grpc c)
           else (case dur (of_grpc_timeout o1) of None \<Rightarrow> grc_timeout (cfg_grpc c) | Some d \<Rightarrow> d)),
         grc_max_connections := flag_pos (of_grpc_connections o1) (grc_max_connections (cfg_grpc c))\<rparr>\<rparr>"

definition api_address :: "config \<Rightarrow> string" where
  "api_address c = api_host (cfg_api c) @ '':'' @ dec_int (api_port (cfg_api c))"

definition metrics_address :: "config \<Rightarrow> string" where
  "metrics_address c = '':'' @ dec_int (met_port (cfg_metrics c))"

definition profiling_address :: "config \<Rightarrow> string" where
  "profiling_address c = '':'' @ dec_int (orc_profiling_port (cfg_orchestrator c))"

section \<open>Reloading\<close>

datatype reload_state = ReloadIdle | Reloading | ReloadStopped

text \<open>
  A callback answers a configuration with an error or none.  \<open>rl_listening\<close> says whether the goroutine
  that waits for signals is alive: one that starts under a cancelled context ends at once.
\<close>

record reloader =
  rl_path :: string
  rl_current :: config
  rl_state :: reload_state
  rl_context_live :: bool
  rl_started :: bool
  rl_listening :: bool
  rl_callbacks :: "(config \<Rightarrow> go_error option) list"

definition new_reloader :: "string \<Rightarrow> config \<Rightarrow> reloader" where
  "new_reloader p c = \<lparr>rl_path = p, rl_current = c, rl_state = ReloadIdle, rl_context_live = True, rl_started = False,
     rl_listening = False, rl_callbacks = []\<rparr>"

definition reloader_start :: "reloader \<Rightarrow> reloader" where
  "reloader_start r =
     (if rl_started r then r
      else
        let r1 = (if rl_state r = ReloadStopped then r\<lparr>rl_context_live := True, rl_state := ReloadIdle\<rparr> else r)
        in r1\<lparr>rl_started := True, rl_listening := rl_context_live r1\<rparr>)"

definition reloader_stop :: "reloader \<Rightarrow> reloader" where
  "reloader_stop r =
     (if \<not> rl_started r then r
      else r\<lparr>rl_context_live := False, rl_listening := False, rl_started := False, rl_state := ReloadStopped\<rparr>)"

definition add_callback :: "(config \<Rightarrow> go_error option) \<Rightarrow> reloader \<Rightarrow> reloader" where
  "add_callback f r = r\<lparr>rl_callbacks := rl_callbacks r @ [f]\<rparr>"

definition set_reload_state :: "reload_state \<Rightarrow> reloader \<Rightarrow> reloader" where
  "set_reload_state st r = r\<lparr>rl_state := st\<rparr>"

definition execute_callbacks :: "config \<Rightarrow> reloader \<Rightarrow> go_error option" where
  "execute_callbacks c r = first_error (\<lambda>f. f c) (rl_callbacks r)"

text \<open>
  \<open>Reload\<close> in two steps, since it works without the lock in between: the first says whether there is
  anything to do, the second loads, calls back and installs.
\<close>

definition reload_begin :: "reloader \<Rightarrow> bool \<times> reloader" where
  "reload_begin r = (if rl_state r = Reloading then (False, r) else (True, r\<lparr>rl_state := Reloading\<rparr>))"

definition reload_finish :: "sys_env \<Rightarrow> yaml_loader \<Rightarrow> reloader \<Rightarrow> go_error option \<times> reloader" where
  "reload_finish e y r =
     (case load_from_file e y (rl_path r) of
        Inl x \<Rightarrow> (Some (PlainErr ''failed to load configuration''), set_reload_state ReloadIdle r)
      | Inr c \<Rightarrow>
          let c1 = apply_env_overrides e c
          in case execute_callbacks c1 r of
               Some x \<Rightarrow> (Some (PlainErr ''reload callbacks failed''), set_reload_state ReloadIdle r)
             | None \<Rightarrow> (None, r\<lparr>rl_current := c1, rl_state := ReloadIdle\<rparr>))"

definition reload :: "sys_env \<Rightarrow> yaml_loader \<Rightarrow> reloader \<Rightarrow> go_error option \<times> reloader" where
  "reload e y r = (case reload_begin r of (False, r1) \<Rightarrow> (None, r1) | (True, r1) \<Rightarrow> reload_finish e y r1)"

end
