(* ===== verification/Config_Proofs.thy ===== *)
theory Config_Proofs
  imports Config_Load
begin

text \<open>
  The properties of internal/config: the defaults are complete and valid, what is loaded is valid,
  placeholders, and the reloader as a machine of calls that interleave.
\<close>

section \<open>Defaults\<close>

lemma clean_comps_kept: "real_comp c \<Longrightarrow> clean_comps r st (cs @ [c]) = clean_comps r st cs @ [c]"
  by (induction r st cs rule: clean_comps.induct) (auto simp: real_comp_def)

lemma path_clean_not_empty: "path_clean p \<noteq> ''''"
proof (cases "path_is_abs p")
  case False
  let ?cs = "clean_comps False [] (split_on slash p)"
  have "join_with [slash] ?cs \<noteq> []" if ne: "?cs \<noteq> []"
  proof -
    have "c \<noteq> ''''" if "c \<in> set (clean_comps r st cs)" "'''' \<notin> set st" for c r st cs
      using that
    proof (induction r st cs rule: clean_comps.induct)
      case (2 r st x xs)
      then show ?case by (cases st) (auto split: if_splits)
    qed auto
    then have "hd ?cs \<noteq> ''''" using ne hd_in_set [OF ne] by force
    then show ?thesis using ne by (cases ?cs; cases "tl ?cs") auto
  qed
  then show ?thesis using False by (simp add: path_clean_def Let_def)
qed (simp add: path_clean_def Let_def)

lemma path_join_not_empty: "e \<in> set es \<Longrightarrow> e \<noteq> '''' \<Longrightarrow> path_join es \<noteq> ''''"
  by (auto simp: path_join_def path_clean_not_empty dropWhile_eq_Nil_conv split: list.split)

lemma path_join_pair: "e \<noteq> '''' \<Longrightarrow> path_join [x, e] \<noteq> ''''"
  by (rule path_join_not_empty [of e]) simp_all

lemma in_config_dir_not_empty: "name \<noteq> '''' \<Longrightarrow> fallback \<noteq> '''' \<Longrightarrow> in_config_dir user name fallback \<noteq> ''''"
  using path_join_not_empty [of name] by (auto simp: in_config_dir_def split: option.split)

lemma or_str_same [simp]: "or_str s s = s" and or_num_same [simp]: "or_num n n = n"
  and or_str_again [simp]: "or_str (or_str s d) d = or_str s d" and or_num_again [simp]: "or_num (or_num n k) k = or_num n k"
  and or_map_same [simp]: "or_map m m = m" and or_map_again [simp]: "or_map (or_map m m2) m2 = or_map m m2"
  by (auto simp: or_str_def or_num_def or_map_def split: option.split)

lemma or_str_set [simp]: "s \<noteq> '''' \<Longrightarrow> or_str s d = s" by (simp add: or_str_def)

lemma or_num_set [simp]: "n \<noteq> 0 \<Longrightarrow> or_num n d = n" by (simp add: or_num_def)

lemma or_empty_iff [simp]: "or_str s d = '''' \<longleftrightarrow> s = '''' \<and> d = ''''" "or_num n k = 0 \<longleftrightarrow> n = 0 \<and> k = 0"
  by (auto simp: or_str_def or_num_def)

lemmas section_defaults = default_docker_def default_api_def default_logging_def default_session_def default_event_def
  default_ipc_def default_scheduler_def default_credentials_def default_policy_section_def default_metrics_def
  default_tracing_def default_orchestrator_def default_runtime_def default_memory_def default_grpc_def
  default_provider_section_def default_llm_def default_skills_def default_audit_def seconds_def

lemmas section_fills = fill_docker_def fill_api_def fill_logging_def fill_session_def fill_event_def fill_ipc_def
  fill_scheduler_def fill_credentials_def fill_policy_def fill_metrics_def fill_tracing_def fill_orchestrator_def
  fill_runtime_def fill_grpc_def fill_llm_def fill_provider_section_def fill_specific_def fill_skills_def fill_audit_def

lemmas section_checks = validate_servers_def validate_core_def validate_system_def validate_llm_def
  validate_provider_section_def validate_skills_def validate_audit_def

lemma fill_sections_again:
  "fill_docker (fill_docker c1) = fill_docker c1" "fill_api (fill_api c2) = fill_api c2"
  "fill_logging (fill_logging c3) = fill_logging c3" "fill_session user (fill_session user c4) = fill_session user c4"
  "fill_event (fill_event c5) = fill_event c5" "fill_ipc (fill_ipc c6) = fill_ipc c6"
  "fill_scheduler (fill_scheduler c7) = fill_scheduler c7" "fill_credentials user (fill_credentials user c8) = fill_credentials user c8"
  "fill_policy user (fill_policy user c9) = fill_policy user c9" "fill_metrics (fill_metrics d1) = fill_metrics d1"
  "fill_tracing (fill_tracing d2) = fill_tracing d2" "fill_orchestrator (fill_orchestrator d3) = fill_orchestrator d3"
  "fill_runtime (fill_runtime d4) = fill_runtime d4" "fill_grpc (fill_grpc d5) = fill_grpc d5"
  "fill_llm (fill_llm d6) = fill_llm d6" "fill_provider_section (fill_provider_section d7) = fill_provider_section d7"
  "fill_skills user (fill_skills user d8) = fill_skills user d8"
  by (simp_all add: section_fills Let_def)

lemma fill_audit_again: "fill_audit (fill_audit c) = fill_audit c"
  by (simp add: fill_audit_def Let_def default_audit_def)

lemma default_memory_paths: "mc_storage_path (default_memory user) \<noteq> ''''"
  by (simp add: default_memory_def Let_def in_config_dir_not_empty)

lemma fill_memory_again: "fill_memory user (fill_memory user c) = fill_memory user c"
proof -
  have "mc_storage_path (fill_memory user c) \<noteq> ''''" using default_memory_paths
    by (simp add: fill_memory_def Let_def)
  then have "fill_memory user c \<noteq> zero_memory" by (auto simp: zero_memory_def)
  moreover note path_join_pair [of "''users''"] path_join_pair [of "''groups''"]
  ultimately show ?thesis using default_memory_paths
    by (auto simp: fill_memory_def Let_def default_memory_def)
qed

lemma apply_defaults_again: "apply_defaults user (apply_defaults user c) = apply_defaults user c"
  by (simp add: apply_defaults_def fill_sections_again fill_audit_again fill_memory_again)

lemma fill_defaults:
  "fill_docker default_docker = default_docker" "fill_api default_api = default_api" "fill_logging default_logging = default_logging"
  "fill_session user (default_session user) = default_session user" "fill_event default_event = default_event"
  "fill_ipc default_ipc = default_ipc" "fill_scheduler default_scheduler = default_scheduler"
  "fill_credentials user (default_credentials user) = default_credentials user"
  "fill_policy user (default_policy_section user) = default_policy_section user" "fill_metrics default_metrics = default_metrics"
  "fill_tracing default_tracing = default_tracing" "fill_orchestrator default_orchestrator = default_orchestrator"
  "fill_runtime default_runtime = default_runtime" "fill_grpc default_grpc = default_grpc"
  "fill_llm default_llm = default_llm" "fill_provider_section default_provider_section = default_provider_section"
  "fill_skills user (default_skills user) = default_skills user" "fill_audit default_audit = default_audit"
  by (simp_all add: section_fills section_defaults Let_def)

lemma fill_default_memory: "fill_memory user (default_memory user) = default_memory user"
proof -
  note path_join_pair [of "''users''"] path_join_pair [of "''groups''"]
  then show ?thesis using default_memory_paths
    by (auto simp: fill_memory_def Let_def default_memory_def)
qed

lemma demand_None: "demand bs = None \<longleftrightarrow> list_all (\<lambda>b. b) bs"
  by (simp add: demand_def)

lemma default_checks:
  "list_all (\<lambda>b. b) (validate_servers (default_config user))" "list_all (\<lambda>b. b) (validate_core (default_config user))"
  "list_all (\<lambda>b. b) (validate_system (default_config user))" "list_all (\<lambda>b. b) (validate_llm get default_llm)"
  "list_all (\<lambda>b. b) (validate_provider_section default_provider_section)" "list_all (\<lambda>b. b) (validate_skills (default_skills user))"
  "list_all (\<lambda>b. b) (validate_audit default_audit)"
  by (simp_all add: section_checks default_config_def section_defaults Let_def in_config_dir_not_empty)

lemma defaults_valid: "validate_config get (default_config user) = None"
proof -
  have "cfg_llm (default_config user) = default_llm" "cfg_provider (default_config user) = default_provider_section"
    "cfg_skills (default_config user) = default_skills user" "cfg_audit (default_config user) = default_audit"
    by (simp_all add: default_config_def)
  then show ?thesis by (simp add: validate_config_def demand_None default_checks)
qed

text \<open>
  The default configuration is valid in every environment and complete: filling in defaults changes
  neither it nor any configuration they have been filled into before.
\<close>

lemma defaults_are_valid:
  "validate_config get (default_config user) = None
   \<and> apply_defaults user (default_config user) = default_config user
   \<and> apply_defaults user (apply_defaults user c) = apply_defaults user c"
proof -
  have "apply_defaults user (default_config user) = default_config user"
    by (simp add: default_config_def apply_defaults_def fill_defaults fill_default_memory)
  then show ?thesis by (simp add: apply_defaults_again defaults_valid)
qed

section \<open>Loading\<close>

lemma override_and_validate_Inr:
  "override_and_validate e c = Inr c' \<Longrightarrow> c' = apply_env_overrides e c \<and> validate_config (gv_get e) c' = None"
  by (auto simp: override_and_validate_def Let_def split: option.splits)

lemma load_Inr:
  assumes "load_with_path e y st p = Inr c"
  shows "\<exists>c0. c = apply_env_overrides e c0 \<and> validate_config (gv_get e) c = None"
  using assms
  by (auto simp: load_with_path_def load_config_def split: if_splits sum.splits option.splits file_stat.splits
      dest: override_and_validate_Inr)

lemma load_from_file_Inr:
  "load_from_file e y p = Inr c \<Longrightarrow> validate_config (gv_get e) c = None
   \<and> (\<exists>d c0. yl_read y p = Inr d \<and> validate_yaml y d = None \<and> yl_decode y d = Inr c0
        \<and> c = apply_defaults (gv_config_dir e) (interpolate_config (gv_get e) c0))"
  by (auto simp: load_from_file_def Let_def split: option.splits sum.splits)

lemma validated_bounds:
  assumes "validate_config get c = None"
  shows "0 < sg_max_sessions (cfg_session c) \<and> 0 < sg_timeout (cfg_session c) \<and> 0 < sk_queue_size (cfg_scheduler c)
     \<and> 0 < sk_workers (cfg_scheduler c) \<and> 0 < ic_buffer_size (cfg_ipc c) \<and> xc_store_path (cfg_credentials c) \<noteq> ''''
     \<and> pc_enforcement_mode (cfg_policy c) \<in> {''strict'', ''permissive'', ''disabled''}
     \<and> 1 \<le> api_port (cfg_api c) \<and> api_port (cfg_api c) \<le> 65535 \<and> 1 \<le> met_port (cfg_metrics c) \<and> met_port (cfg_metrics c) \<le> 65535
     \<and> 0 < grc_max_recv (cfg_grpc c) \<and> mc_storage_path (cfg_memory c) \<noteq> ''''
     \<and> (lc_enabled (cfg_llm c) \<longrightarrow> (\<exists>p. mget (map_entries (lc_providers (cfg_llm c))) (lc_default_provider (cfg_llm c)) = Some p))"
  using assms
  by (auto simp: validate_config_def demand_None section_checks split: if_splits)

text \<open>
  C28: A configuration that Load or LoadWithPath returns is valid, so ports are ports, queues, pools and
  limits are positive, the mode of enforcement is a known one and an enabled gateway has its default
  provider.  But the certificate paths of the Docker client and of the runtime are those of the
  environment whatever the file says: empty where no variable is set.
\<close>

theorem loaded_config_in_bounds:
  assumes "load_with_path e y st p = Inr c"
  shows "validate_config (gv_get e) c = None
    \<and> 0 < sg_max_sessions (cfg_session c) \<and> 0 < sg_timeout (cfg_session c) \<and> 0 < sk_queue_size (cfg_scheduler c)
    \<and> 0 < sk_workers (cfg_scheduler c) \<and> 0 < ic_buffer_size (cfg_ipc c) \<and> xc_store_path (cfg_credentials c) \<noteq> ''''
    \<and> pc_enforcement_mode (cfg_policy c) \<in> {''strict'', ''permissive'', ''disabled''}
    \<and> 1 \<le> api_port (cfg_api c) \<and> api_port (cfg_api c) \<le> 65535 \<and> 1 \<le> met_port (cfg_metrics c) \<and> met_port (cfg_metrics c) \<le> 65535
    \<and> 0 < grc_max_recv (cfg_grpc c) \<and> mc_storage_path (cfg_memory c) \<noteq> ''''
    \<and> (lc_enabled (cfg_llm c) \<longrightarrow> (\<exists>p. mget (map_entries (lc_providers (cfg_llm c))) (lc_default_provider (cfg_llm c)) = Some p))
    \<and> dkc_tls_cert (cfg_docker c) = gv_get e ''DOCKER_TLS_CERT'' \<and> dkc_tls_key (cfg_docker c) = gv_get e ''DOCKER_TLS_KEY''
    \<and> rtc_tls_cert (cfg_runtime c) = gv_get e ''CONTAINER_RUNTIME_TLS_CERT''
    \<and> rtc_tls_key (cfg_runtime c) = gv_get e ''CONTAINER_RUNTIME_TLS_KEY''"
proof -
  obtain c0 where c: "c = apply_env_overrides e c0" and v: "validate_config (gv_get e) c = None"
    using load_Inr [OF assms] by blast
  have "dkc_tls_cert (cfg_docker c) = gv_get e ''DOCKER_TLS_CERT'' \<and> dkc_tls_key (cfg_docker c) = gv_get e ''DOCKER_TLS_KEY''
    \<and> rtc_tls_cert (cfg_runtime c) = gv_get e ''CONTAINER_RUNTIME_TLS_CERT''
    \<and> rtc_tls_key (cfg_runtime c) = gv_get e ''CONTAINER_RUNTIME_TLS_KEY''"
    by (simp add: c apply_env_overrides_def env_docker_def env_runtime_def)
  then show ?thesis using v validated_bounds [OF v] by blast
qed

text \<open>
  An empty environment, a file of the default configuration but for a certificate and the switch of
  encryption, what is loaded from it, and its path.
\<close>

definition bare_env :: sys_env where
  "bare_env = \<lparr>gv_get = (\<lambda>_. ''''), gv_duration = (\<lambda>_. None), gv_config_dir = None\<rparr>"

definition loaded_config :: config where
  "loaded_config = (default_config None)\<lparr>cfg_credentials := (default_credentials None)\<lparr>xc_encryption_enabled := False\<rparr>\<rparr>"

definition file_config :: config where
  "file_config = loaded_config\<lparr>cfg_docker := default_docker\<lparr>dkc_tls_cert := ''/etc/docker/cert.pem''\<rparr>\<rparr>"

definition one_file :: "string \<Rightarrow> config \<Rightarrow> yaml_loader" where
  "one_file p c = \<lparr>yl_read = (\<lambda>q. if q = p then Inr ''x: y'' else Inl (True, PlainErr ''no such file'')),
     yl_syntax = (\<lambda>_. Inr True), yl_decode = (\<lambda>_. Inr c)\<rparr>"

section \<open>Placeholders\<close>

text \<open>A text in pieces: plain text without a dollar sign, a name, and a name with a default.\<close>

datatype piece = Plain string | Var string | VarOr string string

fun piece_text :: "piece \<Rightarrow> string" where
  "piece_text (Plain s) = s"
| "piece_text (Var n) = [CHR 0x24, CHR 0x7B] @ n @ [CHR 0x7D]"
| "piece_text (VarOr n d) = [CHR 0x24, CHR 0x7B] @ n @ '':-'' @ d @ [CHR 0x7D]"

fun piece_value :: "(string \<Rightarrow> string) \<Rightarrow> piece \<Rightarrow> string" where
  "piece_value get (Plain s) = s"
| "piece_value get (Var n) = get n"
| "piece_value get (VarOr n d) = (if get n = '''' then d else get n)"

definition var_name :: "string \<Rightarrow> bool" where
  "var_name n \<longleftrightarrow> (case n of [] \<Rightarrow> False | c # cs \<Rightarrow> name_start c \<and> list_all name_part cs)"

fun piece_ok :: "piece \<Rightarrow> bool" where
  "piece_ok (Plain s) = (CHR 0x24 \<notin> set s)"
| "piece_ok (Var n) = var_name n"
| "piece_ok (VarOr n d) = (var_name n \<and> CHR 0x7D \<notin> set d)"

lemma interpolate_plain_then: "CHR 0x24 \<notin> set s \<Longrightarrow> interpolate get (s @ r) = s @ interpolate get r"
  by (induction s) auto

lemma interpolate_plain: "CHR 0x24 \<notin> set s \<Longrightarrow> interpolate get s = s"
  using interpolate_plain_then [of s get "[]"] by simp

lemma not_name_part: "\<not> name_part (CHR 0x7D)" "\<not> name_part (CHR '':'')"
  by (simp_all add: name_part_def name_start_def is_digit_def)

lemma name_split:
  assumes "list_all name_part cs" and "\<not> name_part x"
  shows "takeWhile name_part (cs @ x # r) = cs" and "dropWhile name_part (cs @ x # r) = x # r"
  using assms by (simp_all add: list_all_iff takeWhile_append dropWhile_append)

lemma default_split:
  assumes "CHR 0x7D \<notin> set d"
  shows "takeWhile (\<lambda>x. x \<noteq> CHR 0x7D) (d @ CHR 0x7D # r) = d"
    and "dropWhile (\<lambda>x. x \<noteq> CHR 0x7D) (d @ CHR 0x7D # r) = CHR 0x7D # r"
  using assms by (auto simp: takeWhile_append dropWhile_append)

lemma interpolate_piece: "piece_ok p \<Longrightarrow> interpolate get (piece_text p @ r) = piece_value get p @ interpolate get r"
proof (cases p)
  case (Var n)
  assume "piece_ok p"
  with Var obtain c cs where n: "n = c # cs" "name_start c" "list_all name_part cs" by (auto simp: var_name_def split: list.splits)
  have "parse_placeholder (CHR 0x7B # c # cs @ CHR 0x7D # r) = Some (n, [], r)"
    using n by (simp add: parse_placeholder_def name_split not_name_part)
  then show ?thesis by (simp add: Var n(1))
next
  case (VarOr n d)
  assume "piece_ok p"
  with VarOr obtain c cs where n: "n = c # cs" "name_start c" "list_all name_part cs" and d: "CHR 0x7D \<notin> set d"
    by (auto simp: var_name_def split: list.splits)
  have "parse_placeholder (CHR 0x7B # c # cs @ CHR '':'' # CHR ''-'' # d @ CHR 0x7D # r) = Some (n, d, r)"
    using n d by (simp add: parse_placeholder_def name_split not_name_part default_split has_prefix_def)
  then show ?thesis by (simp add: VarOr n(1))
qed (simp add: interpolate_plain_then)

text \<open>
  C32: Placeholders are replaced one by one: in a text made of plain pieces, names and names with
  defaults each name becomes its value in the environment, or its default where that is empty, the
  plain pieces stay, and what a value brings in is not looked at again.
\<close>

theorem placeholders_exact:
  assumes "list_all piece_ok ps"
  shows "interpolate get (concat (map piece_text ps)) = concat (map (piece_value get) ps)"
  using assms by (induction ps) (simp_all add: interpolate_piece)

theorem placeholders_exact_witness:
  "interpolate (\<lambda>n. if n = ''HOME'' then ''/root'' else '''')
     (concat (map piece_text [Plain ''a/'', Var ''HOME'', Plain '':'', VarOr ''X_1'' ''b'']))
   = ''a//root:b''"
proof -
  have "list_all piece_ok [Plain ''a/'', Var ''HOME'', Plain '':'', VarOr ''X_1'' ''b'']"
    by (simp add: var_name_def name_part_def name_start_def is_digit_def)
  from placeholders_exact [OF this, of "\<lambda>n. if n = ''HOME'' then ''/root'' else ''''"]
  show ?thesis by simp
qed

section \<open>A file and what becomes of it\<close>

lemma default_memory_here: "default_memory None = \<lparr>mc_storage_path = ''/var/lib/baaaht/memory'',
    mc_user_path = ''/var/lib/baaaht/memory/users'', mc_group_path = ''/var/lib/baaaht/memory/groups'',
    mc_enabled = True, mc_max_file_size = 100, mc_file_format = ''markdown''\<rparr>"
proof -
  have "path_join [''/var/lib/baaaht/memory'', ''users''] = ''/var/lib/baaaht/memory/users''"
    and "path_join [''/var/lib/baaaht/memory'', ''groups''] = ''/var/lib/baaaht/memory/groups''" by code_simp+
  then show ?thesis by (simp add: default_memory_def in_config_dir_def get_config_dir_def)
qed

lemma file_config_plain: "interpolate_config get file_config = file_config"
  by (simp add: interpolate_config_def Let_def file_config_def loaded_config_def default_config_def default_memory_here interpolate_plain)
     (simp add: section_defaults in_config_dir_def get_config_dir_def interpolate_plain)

lemma file_config_filled: "apply_defaults None file_config = file_config"
  by (simp add: file_config_def loaded_config_def default_config_def apply_defaults_def fill_defaults fill_default_memory)
     (simp add: section_fills section_defaults)

lemma file_config_valid: "validate_config get file_config = None"
proof -
  have "validate_servers file_config = validate_servers (default_config None)" "validate_core file_config = validate_core (default_config None)"
    "validate_system file_config = validate_system (default_config None)" "cfg_llm file_config = default_llm"
    "cfg_provider file_config = default_provider_section" "cfg_skills file_config = default_skills None" "cfg_audit file_config = default_audit"
    by (simp_all add: file_config_def loaded_config_def section_checks default_config_def default_docker_def)
  then show ?thesis by (simp add: validate_config_def demand_None default_checks)
qed

lemma file_loads: "load_from_file bare_env (one_file ''/c.yaml'' file_config) ''/c.yaml'' = Inr file_config"
proof -
  have "validate_config_path ''/c.yaml'' = None" by code_simp
  moreover have "validate_yaml (one_file ''/c.yaml'' file_config) ''x: y'' = None"
  proof -
    have "trim_space ''x: y'' \<noteq> ''''" by code_simp
    then show ?thesis by (simp add: validate_yaml_def one_file_def)
  qed
  ultimately show ?thesis
    by (simp add: load_from_file_def one_file_def bare_env_def file_config_plain file_config_filled file_config_valid)
qed

lemma bare_env_changes: "apply_env_overrides bare_env file_config = loaded_config"
  by (simp add: apply_env_overrides_def bare_env_def ov_str_def ov_int_def ov_duration_def ov_bool_def env_docker_def env_api_def
      env_logging_def env_session_def env_event_def env_scheduler_def env_metrics_def env_runtime_def env_memory_def Let_def env_grpc_def
      env_llm_def env_api_key_def env_skills_def file_config_def loaded_config_def)
     (simp add: default_config_def section_defaults Let_def mmap_def env_api_key_def ov_str_def)

lemma file_loads_with_path: "load_with_path bare_env (one_file ''/c.yaml'' file_config) FileMissing ''/c.yaml'' = Inr loaded_config"
proof -
  have "validate_config get loaded_config = None" for get
  proof -
    have "validate_servers loaded_config = validate_servers (default_config None)" "validate_core loaded_config = validate_core (default_config None)"
      "validate_system loaded_config = validate_system (default_config None)" "cfg_llm loaded_config = default_llm"
      "cfg_provider loaded_config = default_provider_section" "cfg_skills loaded_config = default_skills None" "cfg_audit loaded_config = default_audit"
      by (simp_all add: loaded_config_def section_checks default_config_def default_docker_def)
    then show ?thesis by (simp add: validate_config_def demand_None default_checks)
  qed
  then show ?thesis by (simp add: load_with_path_def file_loads override_and_validate_def bare_env_changes Let_def)
qed

theorem loaded_config_in_bounds_witness:
  "dkc_tls_cert (cfg_docker file_config) = ''/etc/docker/cert.pem''
   \<and> load_from_file bare_env (one_file ''/c.yaml'' file_config) ''/c.yaml'' = Inr file_config
   \<and> load_with_path bare_env (one_file ''/c.yaml'' file_config) FileMissing ''/c.yaml'' = Inr loaded_config
   \<and> dkc_tls_cert (cfg_docker loaded_config) = ''''"
  using loaded_config_in_bounds [OF file_loads_with_path] file_loads_with_path file_loads
  by (simp add: bare_env_def file_config_def)

section \<open>The reloader\<close>

text \<open>
  The calls on a reloader, a reload cut in two where it works without the lock, with the number of
  reloads that have begun and not ended.
\<close>

datatype reloader_op = RlStart | RlStop | RlCallback "config \<Rightarrow> go_error option" | RlBegin | RlFinish sys_env yaml_loader

fun reloader_exec :: "reloader \<times> nat \<Rightarrow> reloader_op \<Rightarrow> reloader \<times> nat" where
  "reloader_exec (r, n) RlStart = (reloader_start r, n)"
| "reloader_exec (r, n) RlStop = (reloader_stop r, n)"
| "reloader_exec (r, n) (RlCallback f) = (add_callback f r, n)"
| "reloader_exec (r, n) RlBegin = (case reload_begin r of (b, r') \<Rightarrow> (r', if b then Suc n else n))"
| "reloader_exec (r, n) (RlFinish e y) = (if n = 0 then (r, n) else (snd (reload_finish e y r), n - 1))"

lemmas reloader_defs = reloader_start_def reloader_stop_def add_callback_def reload_begin_def reload_finish_def
  set_reload_state_def Let_def

text \<open>The configuration in use: the first one, or one that a file gave and the callbacks took.\<close>

definition config_from :: "string \<Rightarrow> config \<Rightarrow> bool" where
  "config_from p c \<longleftrightarrow> (\<exists>e y c0. load_from_file e y p = Inr c0 \<and> c = apply_env_overrides e c0)"

definition reloader_sound :: "string \<Rightarrow> config \<Rightarrow> reloader \<times> nat \<Rightarrow> bool" where
  "reloader_sound p c s \<longleftrightarrow> rl_path (fst s) = p \<and> (rl_current (fst s) = c \<or> config_from p (rl_current (fst s))) \<and> (rl_listening (fst s) \<longrightarrow> rl_started (fst s))"

lemma reload_finish_state:
  "rl_path (snd (reload_finish e y r)) = rl_path r" "rl_started (snd (reload_finish e y r)) = rl_started r"
  "rl_listening (snd (reload_finish e y r)) = rl_listening r" "rl_context_live (snd (reload_finish e y r)) = rl_context_live r"
  "rl_state (snd (reload_finish e y r)) = ReloadIdle" "rl_callbacks (snd (reload_finish e y r)) = rl_callbacks r"
  by (auto simp: reload_finish_def set_reload_state_def Let_def split: sum.split option.split)

lemma reload_finish_current:
  "rl_current (snd (reload_finish e y r)) = rl_current r \<or> config_from (rl_path r) (rl_current (snd (reload_finish e y r)))"
  by (auto simp: reload_finish_def set_reload_state_def config_from_def Let_def split: sum.split option.split)

lemma reloader_exec_sound:
  assumes "reloader_sound p c s"
  shows "reloader_sound p c (reloader_exec s x)"
proof (cases s)
  case (Pair r n)
  show ?thesis
  proof (cases x)
    case (RlFinish e y)
    then show ?thesis using assms Pair reload_finish_current [of e y r]
      by (auto simp: reloader_sound_def reload_finish_state)
  qed (use assms Pair in \<open>auto simp: reloader_sound_def reloader_start_def reloader_stop_def
      add_callback_def reload_begin_def Let_def\<close>)
qed

interpretation reloads: machine reloader_exec "reloader_sound p c"
  by unfold_locales (rule reloader_exec_sound)

text \<open>Every stop comes when no reload is under way, and every reload begins while the reloader is not stopped.\<close>

definition quiet_call :: "reloader \<times> nat \<Rightarrow> reloader_op \<Rightarrow> bool" where
  "quiet_call s x \<longleftrightarrow> (case x of RlStop \<Rightarrow> snd s = 0 | RlBegin \<Rightarrow> rl_state (fst s) \<noteq> ReloadStopped | _ \<Rightarrow> True)"

fun quiet_run :: "reloader \<times> nat \<Rightarrow> reloader_op list \<Rightarrow> bool" where
  "quiet_run s [] = True"
| "quiet_run s (x # xs) = (quiet_call s x \<and> quiet_run (reloader_exec s x) xs)"

definition attentive :: "reloader \<times> nat \<Rightarrow> bool" where
  "attentive s \<longleftrightarrow> rl_listening (fst s) = rl_started (fst s) \<and> (rl_context_live (fst s) \<or> rl_state (fst s) = ReloadStopped)
     \<and> (rl_started (fst s) \<longrightarrow> rl_context_live (fst s)) \<and> (snd s \<noteq> 0 \<longrightarrow> rl_state (fst s) = Reloading \<and> rl_context_live (fst s))
     \<and> snd s \<le> 1"

lemma attentive_exec:
  assumes "attentive s" and "quiet_call s x"
  shows "attentive (reloader_exec s x)"
proof (cases s)
  case (Pair r n)
  show ?thesis
  proof (cases x)
    case (RlFinish e y)
    then show ?thesis using assms Pair by (auto simp: attentive_def reload_finish_state)
  qed (use assms Pair in \<open>auto simp: attentive_def quiet_call_def reloader_start_def reloader_stop_def add_callback_def
      reload_begin_def Let_def\<close>)
qed

lemma attentive_run: "attentive s \<Longrightarrow> quiet_run s xs \<Longrightarrow> attentive (foldl reloader_exec s xs)"
  by (induction xs arbitrary: s) (simp_all add: attentive_exec)

text \<open>A reloader that has ended up without its context stays deaf until it is stopped.\<close>

definition deaf :: "reloader \<times> nat \<Rightarrow> bool" where
  "deaf s \<longleftrightarrow> rl_started (fst s) \<and> \<not> rl_listening (fst s)"

lemma deaf_exec: "deaf s \<Longrightarrow> RlStop \<noteq> x \<Longrightarrow> deaf (reloader_exec s x)"
  by (cases s; cases x) (auto simp: deaf_def reload_finish_state reloader_start_def add_callback_def reload_begin_def)

lemma deaf_run: "deaf s \<Longrightarrow> RlStop \<notin> set xs \<Longrightarrow> deaf (foldl reloader_exec s xs)"
  by (induction xs arbitrary: s) (simp_all add: deaf_exec )

lemma overlap_deafens:
  assumes "rl_started r" and "rl_state r = ReloadIdle"
  shows "deaf (foldl reloader_exec (r, 0) [RlBegin, RlStop, RlFinish e y, RlStart])"
  using assms by (simp add: deaf_def reload_begin_def reloader_stop_def reloader_start_def reload_finish_state Let_def)

text \<open>
  C31: A reloader whose stops never meet a reload under way, and that is not asked to reload while it is
  stopped, hears the signal exactly while it is started.  After one stop during a reload it is lost: started
  again it hears nothing, whatever is called, until it is stopped.  In every run the configuration
  in use is the first one or one that the file gave.
\<close>

theorem reloader_hears_unless_stopped_mid_reload:
  assumes "s = foldl reloader_exec (new_reloader p c, 0) xs"
  shows "(quiet_run (new_reloader p c, 0) xs \<longrightarrow> rl_listening (fst s) = rl_started (fst s))
    \<and> (snd s = 0 \<and> rl_started (fst s) \<and> rl_state (fst s) = ReloadIdle \<and> RlStop \<notin> set ys \<longrightarrow>
        deaf (foldl reloader_exec s ([RlBegin, RlStop, RlFinish e y, RlStart] @ ys)))
    \<and> (rl_current (fst s) = c \<or> config_from p (rl_current (fst s)))"
proof -
  have "attentive (new_reloader p c, 0)" by (simp add: attentive_def new_reloader_def)
  then have "quiet_run (new_reloader p c, 0) xs \<longrightarrow> rl_listening (fst s) = rl_started (fst s)"
    using attentive_run [of "(new_reloader p c, 0)" xs] assms by (auto simp: attentive_def)
  moreover have "reloader_sound p c s"
    unfolding assms by (rule reloads.run_good) (simp add: reloader_sound_def new_reloader_def)
  moreover have "deaf (foldl reloader_exec s ([RlBegin, RlStop, RlFinish e y, RlStart] @ ys))"
    if "snd s = 0" "rl_started (fst s)" "rl_state (fst s) = ReloadIdle" "RlStop \<notin> set ys"
  proof -
    have "s = (fst s, 0)" using that(1) by (cases s) auto
    then have "deaf (foldl reloader_exec s [RlBegin, RlStop, RlFinish e y, RlStart])"
      using overlap_deafens [OF that(2,3), of e y] by simp
    then show ?thesis using deaf_run [OF _ that(4)] by simp
  qed
  ultimately show ?thesis by (simp add: reloader_sound_def)
qed

theorem reloader_hears_unless_stopped_mid_reload_witness:
  "rl_listening (fst (foldl reloader_exec (new_reloader ''/c.yaml'' (default_config None), 0) [RlStart]))
   \<and> deaf (foldl reloader_exec (new_reloader ''/c.yaml'' (default_config None), 0)
       [RlStart, RlBegin, RlStop, RlFinish bare_env (one_file ''/c.yaml'' file_config), RlStart, RlBegin])"
proof -
  let ?r = "new_reloader ''/c.yaml'' (default_config None)"
  have s: "foldl reloader_exec (?r, 0) [RlStart] = (reloader_start ?r, 0)" by simp
  have q: "quiet_run (?r, 0) [RlStart]" by (simp add: quiet_call_def)
  show ?thesis
    using reloader_hears_unless_stopped_mid_reload [OF refl, of "''/c.yaml''" "default_config None" "[RlStart]" "[RlBegin]"
        bare_env "one_file ''/c.yaml'' file_config"] q
    unfolding s by (simp add: reloader_start_def new_reloader_def)
qed

section \<open>Reloading against loading\<close>

text \<open>
  C30: Loading validates what the environment has overridden and reloading does not: where the file is
  valid and its configuration with the overrides is not, LoadWithPath refuses, while a reload that the
  callbacks accept succeeds and puts the invalid configuration in use.
\<close>

theorem reload_skips_validation:
  assumes "load_from_file e y (rl_path r) = Inr c" and "validate_config (gv_get e) (apply_env_overrides e c) = Some x"
    and "rl_state r \<noteq> Reloading" and "\<forall>f \<in> set (rl_callbacks r). f (apply_env_overrides e c) = None"
    and "rl_path r \<noteq> ''''"
  shows "load_with_path e y st (rl_path r) = Inl x \<and> fst (reload e y r) = None
    \<and> rl_current (snd (reload e y r)) = apply_env_overrides e c
    \<and> validate_config (gv_get e) (rl_current (snd (reload e y r))) \<noteq> None
    \<and> validate_config (gv_get e) c = None"
proof -
  have "execute_callbacks (apply_env_overrides e c) (r\<lparr>rl_state := Reloading\<rparr>) = None"
    using assms(4) by (simp add: execute_callbacks_def first_error_None)
  then have "reload e y r = (None, r\<lparr>rl_current := apply_env_overrides e c, rl_state := ReloadIdle\<rparr>)"
    using assms(1,3) by (simp add: reload_def reload_begin_def reload_finish_def Let_def)
  moreover have "load_with_path e y st (rl_path r) = Inl x"
    using assms(1,2,5) by (simp add: load_with_path_def override_and_validate_def Let_def)
  ultimately show ?thesis using assms(2) load_from_file_Inr [OF assms(1)] by simp
qed

text \<open>The port of the server is set to zero by the environment.\<close>

definition port_env :: sys_env where
  "port_env = bare_env\<lparr>gv_get := (\<lambda>k. if k = ''API_SERVER_PORT'' then ''0'' else '''')\<rparr>"

lemma file_loads_anywhere:
  "gv_config_dir e = None \<Longrightarrow> load_from_file e (one_file ''/c.yaml'' file_config) ''/c.yaml'' = Inr file_config"
  using file_loads
  by (simp add: load_from_file_def one_file_def bare_env_def file_config_plain file_config_filled file_config_valid
      split: option.splits)

theorem reload_skips_validation_witness:
  "fst (reload port_env (one_file ''/c.yaml'' file_config) (new_reloader ''/c.yaml'' (default_config None))) = None
   \<and> api_port (cfg_api (rl_current (snd (reload port_env (one_file ''/c.yaml'' file_config) (new_reloader ''/c.yaml'' (default_config None)))))) = 0"
proof -
  let ?r = "new_reloader ''/c.yaml'' (default_config None)" and ?y = "one_file ''/c.yaml'' file_config"
  have p: "rl_path ?r = ''/c.yaml''" by (simp add: new_reloader_def)
  have l: "load_from_file port_env ?y (rl_path ?r) = Inr file_config"
    unfolding p by (rule file_loads_anywhere) (simp add: port_env_def bare_env_def)
  have "atoi ''0'' = Some 0" by code_simp
  then have port: "api_port (cfg_api (apply_env_overrides port_env file_config)) = 0"
    by (simp add: apply_env_overrides_def port_env_def env_api_def ov_int_def)
  then have v: "validate_config (gv_get port_env) (apply_env_overrides port_env file_config) = Some (new_error ErrInvalidArgument)"
    by (simp add: validate_config_def demand_def validate_servers_def)
  show ?thesis
    using reload_skips_validation [OF l v, of FileMissing] port by (simp add: new_reloader_def)
qed

section \<open>A switch that is left out\<close>

lemma load_creds_cfg: "cs_cfg (snd (load_creds cx bad s)) = cs_cfg s"
  by (simp add: load_creds_def Let_def split: option.split prod.split)

text \<open>
  C29: Defaults are filled into strings and numbers only.  A file that says nothing of encryption decodes
  to a section in which it is off; the configuration that is loaded keeps it off, and a store opened
  with it seals nothing: what it writes for a value is the value itself.
\<close>

theorem unmentioned_encryption_stays_off:
  assumes "yl_read y p = Inr d" and "yl_decode y d = Inr c0" and "\<not> xc_encryption_enabled (cfg_credentials c0)"
    and "p \<noteq> ''''" and "load_with_path e y st p = Inr c"
    and "new_cred_store cx mkdir random bad fault (cfg_credentials c) dk = (Inr s, dk')"
  shows "\<not> xc_encryption_enabled (cs_cfg s) \<and> encrypt_value cx rnd v s = Inr v
    \<and> xc_encryption_enabled (cfg_credentials (default_config user))"
proof -
  obtain c1 where l: "load_from_file e y p = Inr c1" and c: "c = apply_env_overrides e c1"
    using assms(4,5) by (auto simp: load_with_path_def split: sum.splits dest: override_and_validate_Inr)
  have "c1 = apply_defaults (gv_config_dir e) (interpolate_config (gv_get e) c0)"
    using load_from_file_Inr [OF l] assms(1,2) by auto
  then have "\<not> xc_encryption_enabled (cfg_credentials c)" using assms(3)
    by (simp add: c apply_env_overrides_def apply_defaults_def fill_credentials_def interpolate_config_def Let_def)
  moreover have "cs_cfg s = cfg_credentials c"
    using assms(6) by (auto simp: new_cred_store_def Let_def load_creds_cfg empty_cred_store_def split: option.splits prod.splits sum.splits)
  ultimately show ?thesis
    by (simp add: encrypt_value_def default_config_def default_credentials_def)
qed

theorem unmentioned_encryption_stays_off_witness:
  "\<exists>s d. new_cred_store \<lparr>cx_seal = (\<lambda>k n p. p), cx_open = (\<lambda>k n c. Some c), cx_marshal = (\<lambda>_. Inr ''''), cx_unmarshal = (\<lambda>_. (None, []))\<rparr>
      None (replicate 32 CHR ''k'') (\<lambda>_. False) None (cfg_credentials loaded_config) \<lparr>dk_files = [], dk_dirs = []\<rparr> = (Inr s, d)
    \<and> encrypt_value \<lparr>cx_seal = (\<lambda>k n p. p), cx_open = (\<lambda>k n c. Some c), cx_marshal = (\<lambda>_. Inr ''''), cx_unmarshal = (\<lambda>_. (None, []))\<rparr>
        (replicate 12 CHR ''n'') ''secret'' s = Inr ''secret''"
proof -
  let ?cx = "\<lparr>cx_seal = (\<lambda>k n p. p), cx_open = (\<lambda>k n c. Some c), cx_marshal = (\<lambda>_. Inr ''''), cx_unmarshal = (\<lambda>_. (None, []))\<rparr>"
  let ?new = "new_cred_store ?cx None (replicate 32 CHR ''k'') (\<lambda>_. False) None (cfg_credentials loaded_config) \<lparr>dk_files = [], dk_dirs = []\<rparr>"
  obtain s d where n: "?new = (Inr s, d)"
    by (simp add: new_cred_store_def get_or_create_key_def read_full_def write_key_def Let_def disk_mkdir_all_def split: option.split)
  have "yl_read (one_file ''/c.yaml'' file_config) ''/c.yaml'' = Inr ''x: y''"
    "yl_decode (one_file ''/c.yaml'' file_config) ''x: y'' = Inr file_config" by (simp_all add: one_file_def)
  moreover have "\<not> xc_encryption_enabled (cfg_credentials file_config)" by (simp add: file_config_def loaded_config_def)
  ultimately have "encrypt_value ?cx (replicate 12 CHR ''n'') ''secret'' s = Inr ''secret''"
    using unmentioned_encryption_stays_off [OF _ _ _ _ file_loads_with_path n] by simp
  then show ?thesis using n by blast
qed

end
