(* ===== verification/Grpc_Enums.thy ===== *)
theory Grpc_Enums
  imports Session_State Event_Types
begin

text \<open>
  The enumerations of the messages (proto/common.proto, orchestrator.proto, agent.proto) and their
  conversions in pkg/grpc/convert.go.  An enumeration of a message is open: a peer may send a number
  that has no name.
\<close>

section \<open>Enumerations of the messages\<close>

datatype pb_session_state =
    PbSessUnspecified | PbSessInitializing | PbSessActive | PbSessIdle | PbSessClosing | PbSessClosed | PbSessOther int

datatype pb_status =
    PbStatusUnspecified | PbStatusUnknown | PbStatusStarting | PbStatusRunning | PbStatusStopping | PbStatusStopped
  | PbStatusError | PbStatusTerminated | PbStatusOther int

datatype pb_health =
    PbHealthUnspecified | PbHealthUnknown | PbHealthHealthy | PbHealthUnhealthy | PbHealthDegraded | PbHealthChecking
  | PbHealthOther int

datatype pb_role = PbRoleUnspecified | PbRoleUser | PbRoleSystem | PbRoleAssistant | PbRoleTool | PbRoleOther int

datatype pb_priority =
    PbPriorityUnspecified | PbPriorityLow | PbPriorityNormal | PbPriorityHigh | PbPriorityCritical | PbPriorityOther int

datatype pb_event_type =
    PbEventUnspecified | PbContainerCreated | PbContainerStarted | PbContainerStopped | PbContainerRemoved
  | PbContainerError | PbSessionCreated | PbSessionUpdated | PbSessionClosed | PbTaskCreated | PbTaskUpdated
  | PbTaskCompleted | PbTaskFailed | PbIpcMessage | PbPolicyViolation | PbResourceThreshold | PbSystemStartup
  | PbSystemShutdown | PbEventOther int

datatype pb_agent_type =
    PbAgentUnspecified | PbAgentOrchestrator | PbAgentGateway | PbAgentWorker | PbAgentTool | PbAgentMonitor | PbAgentOther int

datatype pb_agent_state =
    PbAgentStateUnspecified | PbAgentInitializing | PbAgentRegistering | PbAgentIdle | PbAgentBusy | PbAgentUnregistering
  | PbAgentTerminated | PbAgentStateOther int

datatype pb_task_type =
    PbTaskTypeUnspecified | PbCodeExecution | PbFileOperation | PbNetworkRequest | PbDataProcessing
  | PbContainerOperation | PbToolExecution | PbCustomTask | PbTaskTypeOther int

datatype pb_task_state =
    PbTaskStateUnspecified | PbTaskPending | PbTaskQueued | PbTaskRunning | PbTaskPaused | PbTaskStateCompleted
  | PbTaskStateFailed | PbTaskCancelled | PbTaskTimeout | PbTaskStateOther int

datatype pb_task_priority =
    PbTaskPriorityUnspecified | PbTaskLow | PbTaskNormal | PbTaskHigh | PbTaskCritical | PbTaskPriorityOther int

datatype pb_message_type =
    PbMessageUnspecified | PbTaskRequest | PbTaskResponse | PbTaskUpdate | PbControl | PbData | PbEvent | PbHeartbeat
  | PbError | PbMessageOther int

datatype pb_control =
    PbControlUnspecified | PbPause | PbResume | PbCancel | PbShutdown | PbRestart | PbStatusCommand | PbControlOther int

datatype pb_container_state =
    PbContUnspecified | PbContCreated | PbContRunning | PbContPaused | PbContRestarting | PbContExited | PbContRemoving
  | PbContUnknown | PbContOther int

datatype pb_mount_type = PbMountUnspecified | PbMountBind | PbMountVolume | PbMountTmpfs | PbMountOther int

section \<open>Enumerations of the orchestrator\<close>

datatype health = HlUnknown | HlHealthy | HlUnhealthy | HlDegraded | HlChecking | HlOther string

datatype container_state = CsCreated | CsRunning | CsPaused | CsRestarting | CsExited | CsRemoving | CsUnknown | CsOther string

section \<open>Conversions\<close>

fun proto_to_session_state :: "pb_session_state \<Rightarrow> session_state" where
  "proto_to_session_state PbSessInitializing = StInitializing"
| "proto_to_session_state PbSessActive = StActive"
| "proto_to_session_state PbSessIdle = StIdle"
| "proto_to_session_state PbSessClosing = StClosing"
| "proto_to_session_state PbSessClosed = StClosed"
| "proto_to_session_state _ = StInitializing"

fun session_state_to_proto :: "session_state \<Rightarrow> pb_session_state" where
  "session_state_to_proto StInitializing = PbSessInitializing"
| "session_state_to_proto StActive = PbSessActive"
| "session_state_to_proto StIdle = PbSessIdle"
| "session_state_to_proto StClosing = PbSessClosing"
| "session_state_to_proto StClosed = PbSessClosed"
| "session_state_to_proto (StOther s) = PbSessUnspecified"

fun proto_to_status :: "pb_status \<Rightarrow> status" where
  "proto_to_status PbStatusUnknown = StatusUnknown"
| "proto_to_status PbStatusStarting = StatusStarting"
| "proto_to_status PbStatusRunning = StatusRunning"
| "proto_to_status PbStatusStopping = StatusStopping"
| "proto_to_status PbStatusStopped = StatusStopped"
| "proto_to_status PbStatusError = StatusError"
| "proto_to_status PbStatusTerminated = StatusTerminated"
| "proto_to_status _ = StatusUnknown"

fun status_to_proto :: "status \<Rightarrow> pb_status" where
  "status_to_proto StatusUnknown = PbStatusUnknown"
| "status_to_proto StatusStarting = PbStatusStarting"
| "status_to_proto StatusRunning = PbStatusRunning"
| "status_to_proto StatusStopping = PbStatusStopping"
| "status_to_proto StatusStopped = PbStatusStopped"
| "status_to_proto StatusError = PbStatusError"
| "status_to_proto StatusTerminated = PbStatusTerminated"
| "status_to_proto (StatusOther s) = PbStatusUnspecified"

fun proto_to_health :: "pb_health \<Rightarrow> health" where
  "proto_to_health PbHealthUnknown = HlUnknown"
| "proto_to_health PbHealthHealthy = HlHealthy"
| "proto_to_health PbHealthUnhealthy = HlUnhealthy"
| "proto_to_health PbHealthDegraded = HlDegraded"
| "proto_to_health PbHealthChecking = HlChecking"
| "proto_to_health _ = HlUnknown"

fun health_to_proto :: "health \<Rightarrow> pb_health" where
  "health_to_proto HlUnknown = PbHealthUnknown"
| "health_to_proto HlHealthy = PbHealthHealthy"
| "health_to_proto HlUnhealthy = PbHealthUnhealthy"
| "health_to_proto HlDegraded = PbHealthDegraded"
| "health_to_proto HlChecking = PbHealthChecking"
| "health_to_proto (HlOther s) = PbHealthUnspecified"

fun proto_to_role :: "pb_role \<Rightarrow> message_role" where
  "proto_to_role PbRoleUser = RoleUser"
| "proto_to_role PbRoleSystem = RoleSystem"
| "proto_to_role PbRoleAssistant = RoleAssistant"
| "proto_to_role PbRoleTool = RoleTool"
| "proto_to_role _ = RoleUser"

fun role_to_proto :: "message_role \<Rightarrow> pb_role" where
  "role_to_proto RoleUser = PbRoleUser"
| "role_to_proto RoleSystem = PbRoleSystem"
| "role_to_proto RoleAssistant = PbRoleAssistant"
| "role_to_proto RoleTool = PbRoleTool"
| "role_to_proto (RoleOther s) = PbRoleUnspecified"

fun proto_to_container_state :: "pb_container_state \<Rightarrow> container_state" where
  "proto_to_container_state PbContCreated = CsCreated"
| "proto_to_container_state PbContRunning = CsRunning"
| "proto_to_container_state PbContPaused = CsPaused"
| "proto_to_container_state PbContRestarting = CsRestarting"
| "proto_to_container_state PbContExited = CsExited"
| "proto_to_container_state PbContRemoving = CsRemoving"
| "proto_to_container_state _ = CsUnknown"

fun container_state_to_proto :: "container_state \<Rightarrow> pb_container_state" where
  "container_state_to_proto CsCreated = PbContCreated"
| "container_state_to_proto CsRunning = PbContRunning"
| "container_state_to_proto CsPaused = PbContPaused"
| "container_state_to_proto CsRestarting = PbContRestarting"
| "container_state_to_proto CsExited = PbContExited"
| "container_state_to_proto CsRemoving = PbContRemoving"
| "container_state_to_proto CsUnknown = PbContUnknown"
| "container_state_to_proto (CsOther s) = PbContUnspecified"

fun proto_to_mount_type :: "pb_mount_type \<Rightarrow> mount_type" where
  "proto_to_mount_type PbMountBind = MountBind"
| "proto_to_mount_type PbMountVolume = MountVolume"
| "proto_to_mount_type PbMountTmpfs = MountTmpfs"
| "proto_to_mount_type _ = MountBind"

fun mount_type_to_proto :: "mount_type \<Rightarrow> pb_mount_type" where
  "mount_type_to_proto MountBind = PbMountBind"
| "mount_type_to_proto MountVolume = PbMountVolume"
| "mount_type_to_proto MountTmpfs = PbMountTmpfs"
| "mount_type_to_proto (MountOther s) = PbMountUnspecified"

text \<open>Where the orchestrator has strings, a table gives the names and the default.\<close>

definition named :: "(string \<times> 'p) list \<Rightarrow> 'p \<Rightarrow> string \<Rightarrow> 'p" where
  "named table d s = (case map_of table s of None \<Rightarrow> d | Some p \<Rightarrow> p)"

definition event_type_to_proto :: "string \<Rightarrow> pb_event_type" where
  "event_type_to_proto = named
     [(''container.created'', PbContainerCreated), (''container.started'', PbContainerStarted),
      (''container.stopped'', PbContainerStopped), (''container.removed'', PbContainerRemoved),
      (''container.error'', PbContainerError), (''session.created'', PbSessionCreated),
      (''session.updated'', PbSessionUpdated), (''session.closed'', PbSessionClosed), (''task.created'', PbTaskCreated),
      (''task.updated'', PbTaskUpdated), (''task.completed'', PbTaskCompleted), (''task.failed'', PbTaskFailed),
      (''ipc.message'', PbIpcMessage), (''policy.violation'', PbPolicyViolation),
      (''resource.threshold'', PbResourceThreshold), (''system.startup'', PbSystemStartup),
      (''system.shutdown'', PbSystemShutdown)] PbEventUnspecified"

definition priority_to_proto :: "string \<Rightarrow> pb_priority" where
  "priority_to_proto = named [(''low'', PbPriorityLow), (''normal'', PbPriorityNormal), (''high'', PbPriorityHigh),
     (''critical'', PbPriorityCritical)] PbPriorityUnspecified"

fun proto_to_agent_type :: "pb_agent_type \<Rightarrow> string" where
  "proto_to_agent_type PbAgentOrchestrator = ''orchestrator''"
| "proto_to_agent_type PbAgentGateway = ''gateway''"
| "proto_to_agent_type PbAgentWorker = ''worker''"
| "proto_to_agent_type PbAgentTool = ''tool''"
| "proto_to_agent_type PbAgentMonitor = ''monitor''"
| "proto_to_agent_type _ = ''unspecified''"

definition agent_type_to_proto :: "string \<Rightarrow> pb_agent_type" where
  "agent_type_to_proto = named [(''orchestrator'', PbAgentOrchestrator), (''gateway'', PbAgentGateway),
     (''worker'', PbAgentWorker), (''tool'', PbAgentTool), (''monitor'', PbAgentMonitor)] PbAgentUnspecified"

fun proto_to_agent_state :: "pb_agent_state \<Rightarrow> string" where
  "proto_to_agent_state PbAgentInitializing = ''initializing''"
| "proto_to_agent_state PbAgentRegistering = ''registering''"
| "proto_to_agent_state PbAgentIdle = ''idle''"
| "proto_to_agent_state PbAgentBusy = ''busy''"
| "proto_to_agent_state PbAgentUnregistering = ''unregistering''"
| "proto_to_agent_state PbAgentTerminated = ''terminated''"
| "proto_to_agent_state _ = ''unspecified''"

definition agent_state_to_proto :: "string \<Rightarrow> pb_agent_state" where
  "agent_state_to_proto = named [(''initializing'', PbAgentInitializing), (''registering'', PbAgentRegistering),
     (''idle'', PbAgentIdle), (''busy'', PbAgentBusy), (''unregistering'', PbAgentUnregistering),
     (''terminated'', PbAgentTerminated)] PbAgentStateUnspecified"

fun proto_to_task_type :: "pb_task_type \<Rightarrow> string" where
  "proto_to_task_type PbCodeExecution = ''code_execution''"
| "proto_to_task_type PbFileOperation = ''file_operation''"
| "proto_to_task_type PbNetworkRequest = ''network_request''"
| "proto_to_task_type PbDataProcessing = ''data_processing''"
| "proto_to_task_type PbContainerOperation = ''container_operation''"
| "proto_to_task_type PbToolExecution = ''tool_execution''"
| "proto_to_task_type PbCustomTask = ''custom''"
| "proto_to_task_type _ = ''unspecified''"

definition task_type_to_proto :: "string \<Rightarrow> pb_task_type" where
  "task_type_to_proto = named [(''code_execution'', PbCodeExecution), (''file_operation'', PbFileOperation),
     (''network_request'', PbNetworkRequest), (''data_processing'', PbDataProcessing),
     (''container_operation'', PbContainerOperation), (''tool_execution'', PbToolExecution), (''custom'', PbCustomTask)]
     PbTaskTypeUnspecified"

fun proto_to_task_state :: "pb_task_state \<Rightarrow> string" where
  "proto_to_task_state PbTaskPending = ''pending''"
| "proto_to_task_state PbTaskQueued = ''queued''"
| "proto_to_task_state PbTaskRunning = ''running''"
| "proto_to_task_state PbTaskPaused = ''paused''"
| "proto_to_task_state PbTaskStateCompleted = ''completed''"
| "proto_to_task_state PbTaskStateFailed = ''failed''"
| "proto_to_task_state PbTaskCancelled = ''cancelled''"
| "proto_to_task_state PbTaskTimeout = ''timeout''"
| "proto_to_task_state _ = ''unspecified''"

definition task_state_to_proto :: "string \<Rightarrow> pb_task_state" where
  "task_state_to_proto = named [(''pending'', PbTaskPending), (''queued'', PbTaskQueued), (''running'', PbTaskRunning),
     (''paused'', PbTaskPaused), (''completed'', PbTaskStateCompleted), (''failed'', PbTaskStateFailed),
     (''cancelled'', PbTaskCancelled), (''timeout'', PbTaskTimeout)] PbTaskStateUnspecified"

fun proto_to_task_priority :: "pb_task_priority \<Rightarrow> string" where
  "proto_to_task_priority PbTaskLow = ''low''"
| "proto_to_task_priority PbTaskNormal = ''normal''"
| "proto_to_task_priority PbTaskHigh = ''high''"
| "proto_to_task_priority PbTaskCritical = ''critical''"
| "proto_to_task_priority _ = ''unspecified''"

definition task_priority_to_proto :: "string \<Rightarrow> pb_task_priority" where
  "task_priority_to_proto = named [(''low'', PbTaskLow), (''normal'', PbTaskNormal), (''high'', PbTaskHigh),
     (''critical'', PbTaskCritical)] PbTaskPriorityUnspecified"

fun proto_to_message_type :: "pb_message_type \<Rightarrow> string" where
  "proto_to_message_type PbTaskRequest = ''task_request''"
| "proto_to_message_type PbTaskResponse = ''task_response''"
| "proto_to_message_type PbTaskUpdate = ''task_update''"
| "proto_to_message_type PbControl = ''control''"
| "proto_to_message_type PbData = ''data''"
| "proto_to_message_type PbEvent = ''event''"
| "proto_to_message_type PbHeartbeat = ''heartbeat''"
| "proto_to_message_type PbError = ''error''"
| "proto_to_message_type _ = ''unspecified''"

definition message_type_to_proto :: "string \<Rightarrow> pb_message_type" where
  "message_type_to_proto = named [(''task_request'', PbTaskRequest), (''task_response'', PbTaskResponse),
     (''task_update'', PbTaskUpdate), (''control'', PbControl), (''data'', PbData), (''event'', PbEvent),
     (''heartbeat'', PbHeartbeat), (''error'', PbError)] PbMessageUnspecified"

fun proto_to_control :: "pb_control \<Rightarrow> string" where
  "proto_to_control PbPause = ''pause''"
| "proto_to_control PbResume = ''resume''"
| "proto_to_control PbCancel = ''cancel''"
| "proto_to_control PbShutdown = ''shutdown''"
| "proto_to_control PbRestart = ''restart''"
| "proto_to_control PbStatusCommand = ''status''"
| "proto_to_control _ = ''unspecified''"

definition control_to_proto :: "string \<Rightarrow> pb_control" where
  "control_to_proto = named [(''pause'', PbPause), (''resume'', PbResume), (''cancel'', PbCancel), (''shutdown'', PbShutdown),
     (''restart'', PbRestart), (''status'', PbStatusCommand)] PbControlUnspecified"

section \<open>Errors\<close>

datatype grpc_code =
    GrpcNotFound | GrpcAlreadyExists | GrpcInvalidArgument | GrpcPermissionDenied | GrpcInternal | GrpcUnavailable
  | GrpcDeadlineExceeded | GrpcFailedPrecondition | GrpcResourceExhausted

fun grpc_of_code :: "err_code \<Rightarrow> grpc_code" where
  "grpc_of_code ErrNotFound = GrpcNotFound"
| "grpc_of_code ErrAlreadyExists = GrpcAlreadyExists"
| "grpc_of_code ErrInvalidArgument = GrpcInvalidArgument"
| "grpc_of_code ErrPermissionDenied = GrpcPermissionDenied"
| "grpc_of_code ErrInternal = GrpcInternal"
| "grpc_of_code ErrUnavailable = GrpcUnavailable"
| "grpc_of_code ErrTimeout = GrpcDeadlineExceeded"
| "grpc_of_code ErrFailedPrecondition = GrpcFailedPrecondition"
| "grpc_of_code ErrResourceExhausted = GrpcResourceExhausted"
| "grpc_of_code _ = GrpcInternal"

definition grpc_error :: "go_error \<Rightarrow> grpc_code" where
  "grpc_error e = (case get_error_code e of None \<Rightarrow> GrpcInternal | Some c \<Rightarrow> grpc_of_code c)"

type_synonym 'a rpc = "grpc_code + 'a"

end
