(* ===== verification/Grpc_Convert.thy ===== *)
theory Grpc_Convert
  imports Grpc_Enums "HOL-Library.Word"
begin

text \<open>
  pkg/grpc/convert.go: messages of the protocol (proto/*.proto) and their conversions.  A field that is
  a message may be missing, \<open>None\<close>; a list that is missing and an empty one are the same on the wire and
  here.  Numbers of 32 bits are cut as Go cuts them.
\<close>

section \<open>Numbers and times\<close>

definition to_int32 :: "int \<Rightarrow> int" where
  "to_int32 n = signed_take_bit 31 n"

definition fits_int32 :: "int \<Rightarrow> bool" where
  "fits_int32 n \<longleftrightarrow> - 2147483648 \<le> n \<and> n < 2147483648"

lemma to_int32_fits [simp]: "fits_int32 n \<Longrightarrow> to_int32 n = n"
  by (simp add: to_int32_def fits_int32_def signed_take_bit_int_eq_self)

text \<open>Seconds since 1970 and nanoseconds; the zero time of Go is the year one.\<close>

record proto_timestamp =
  pt_seconds :: int
  pt_nanos :: int

definition unix_zero :: int where
  "unix_zero = 62135596800"

definition timestamp_to_proto :: "timestamp option \<Rightarrow> proto_timestamp option" where
  "timestamp_to_proto t = map_option (\<lambda>n. \<lparr>pt_seconds = n div 1000000000 - unix_zero, pt_nanos = n mod 1000000000\<rparr>) t"

definition proto_to_timestamp :: "proto_timestamp option \<Rightarrow> timestamp option" where
  "proto_to_timestamp p = map_option (\<lambda>q. (pt_seconds q + unix_zero) * 1000000000 + pt_nanos q) p"

lemma timestamp_round_trip [simp]: "proto_to_timestamp (timestamp_to_proto t) = t"
  by (cases t) (simp_all add: timestamp_to_proto_def proto_to_timestamp_def)

section \<open>Messages of the protocol\<close>

record proto_metadata =
  pmd_name :: string
  pmd_description :: string
  pmd_labels :: "(string, string) gomap option"
  pmd_owner :: string
  pmd_tags :: "string list"

record proto_limits =
  plm_nano_cpus :: int
  plm_memory_bytes :: int
  plm_memory_swap :: int
  plm_pids :: int

record proto_usage =
  pus_cpu_percent :: rat
  pus_memory_usage :: int
  pus_memory_limit :: int
  pus_memory_percent :: rat
  pus_network_rx :: int
  pus_network_tx :: int
  pus_block_read :: int
  pus_block_write :: int
  pus_pids_count :: int

record proto_policy =
  ppo_allow_network :: bool
  ppo_allowed_networks :: "string list"
  ppo_allow_volume_mount :: bool
  ppo_allowed_paths :: "string list"
  ppo_require_approval :: bool

record proto_session_config =
  psg_max_containers :: int
  psg_max_duration :: int
  psg_idle_timeout :: int
  psg_limits :: "proto_limits option"
  psg_images :: "string list"
  psg_policy :: "proto_policy option"

record proto_preferences =
  ppf_timezone :: string
  ppf_language :: string
  ppf_theme :: string
  ppf_notifications :: bool

record proto_message_metadata =
  pmm_container :: string
  pmm_tool_name :: string
  pmm_tool_call :: string
  pmm_extra :: "(string, string) gomap"

record proto_message =
  pmg_id :: string
  pmg_timestamp :: "proto_timestamp option"
  pmg_role :: pb_role
  pmg_content :: string
  pmg_metadata :: "proto_message_metadata option"

record proto_context =
  pcx_messages :: "proto_message option list"
  pcx_task :: string
  pcx_history :: "string list"
  pcx_preferences :: "proto_preferences option"
  pcx_config :: "proto_session_config option"
  pcx_usage :: "proto_usage option"

record proto_session =
  pss_id :: string
  pss_state :: pb_session_state
  pss_status :: pb_status
  pss_created :: "proto_timestamp option"
  pss_updated :: "proto_timestamp option"
  pss_expires :: "proto_timestamp option"
  pss_closed :: "proto_timestamp option"
  pss_metadata :: "proto_metadata option"
  pss_context :: "proto_context option"
  pss_containers :: "string list"

record proto_mount =
  pmt_type :: pb_mount_type
  pmt_source :: string
  pmt_target :: string
  pmt_read_only :: bool

record proto_port =
  ppb_container :: int
  ppb_host :: int
  ppb_protocol :: string
  ppb_host_ip :: string

record proto_restart =
  prs_name :: string
  prs_max_retry :: int
  prs_timeout :: int

record proto_container_config =
  pcc_image :: string
  pcc_command :: "string list"
  pcc_args :: "string list"
  pcc_env :: "(string, string) gomap"
  pcc_working_dir :: string
  pcc_labels :: "(string, string) gomap"
  pcc_mounts :: "proto_mount option list"
  pcc_ports :: "proto_port option list"
  pcc_network_mode :: string
  pcc_networks :: "string list"
  pcc_resources :: "proto_limits option"
  pcc_restart :: "proto_restart option"
  pcc_read_only :: bool
  pcc_remove :: bool

record proto_container =
  pct_id :: string
  pct_name :: string
  pct_image :: string
  pct_state :: pb_container_state
  pct_status :: pb_status
  pct_health :: pb_health
  pct_created :: "proto_timestamp option"
  pct_started :: "proto_timestamp option"
  pct_exited :: "proto_timestamp option"
  pct_exit_code :: int
  pct_config :: "proto_container_config option"
  pct_resources :: "proto_usage option"
  pct_session :: string

record proto_event_metadata =
  pem_correlation :: string
  pem_session :: string
  pem_container :: string
  pem_user :: string
  pem_labels :: "(string, string) gomap option"
  pem_priority :: pb_priority

record proto_event =
  pev_id :: string
  pev_type :: pb_event_type
  pev_source :: string
  pev_timestamp :: "proto_timestamp option"
  pev_data :: "(string, string) gomap option"
  pev_metadata :: proto_event_metadata

record proto_session_filter =
  psf_state :: pb_session_state
  psf_status :: pb_status
  psf_owner :: string
  psf_labels :: "(string, string) gomap option"

record proto_container_filter =
  pcf_session :: string
  pcf_state :: pb_container_state
  pcf_status :: pb_status
  pcf_labels :: "(string, string) gomap option"

text \<open>The containers and filters of pkg/types/container.go.\<close>

record container =
  cn_id :: id
  cn_name :: string
  cn_image :: string
  cn_state :: container_state
  cn_status :: status
  cn_health :: health
  cn_created :: timestamp
  cn_started :: "timestamp option"
  cn_exited :: "timestamp option"
  cn_exit_code :: "int option"
  cn_config :: container_config
  cn_resources :: resource_usage
  cn_session :: id

record container_filter =
  cf_session :: "id option"
  cf_state :: "container_state option"
  cf_status :: "status option"
  cf_label :: "(string, string) gomap option"

section \<open>Resources and sessions\<close>

definition proto_to_limits :: "proto_limits option \<Rightarrow> resource_limits" where
  "proto_to_limits r = (case r of None \<Rightarrow> zero_resources
     | Some p \<Rightarrow> \<lparr>rl_nano_cpus = plm_nano_cpus p, rl_memory_bytes = plm_memory_bytes p, rl_memory_swap = plm_memory_swap p,
         rl_pids_limit = (if 0 < plm_pids p then Some (plm_pids p) else None)\<rparr>)"

definition limits_to_proto :: "resource_limits \<Rightarrow> proto_limits" where
  "limits_to_proto r = \<lparr>plm_nano_cpus = rl_nano_cpus r, plm_memory_bytes = rl_memory_bytes r, plm_memory_swap = rl_memory_swap r,
     plm_pids = (case rl_pids_limit r of None \<Rightarrow> 0 | Some n \<Rightarrow> n)\<rparr>"

definition proto_to_usage :: "proto_usage option \<Rightarrow> resource_usage" where
  "proto_to_usage r = (case r of None \<Rightarrow> zero_usage
     | Some p \<Rightarrow> \<lparr>ru_cpu_percent = pus_cpu_percent p, ru_memory_usage = pus_memory_usage p, ru_memory_limit = pus_memory_limit p,
         ru_memory_percent = pus_memory_percent p, ru_network_rx = pus_network_rx p, ru_network_tx = pus_network_tx p,
         ru_block_read = pus_block_read p, ru_block_write = pus_block_write p, ru_pids_count = pus_pids_count p\<rparr>)"

definition usage_to_proto :: "resource_usage \<Rightarrow> proto_usage" where
  "usage_to_proto r = \<lparr>pus_cpu_percent = ru_cpu_percent r, pus_memory_usage = ru_memory_usage r, pus_memory_limit = ru_memory_limit r,
     pus_memory_percent = ru_memory_percent r, pus_network_rx = ru_network_rx r, pus_network_tx = ru_network_tx r,
     pus_block_read = ru_block_read r, pus_block_write = ru_block_write r, pus_pids_count = ru_pids_count r\<rparr>"

definition proto_to_session_metadata :: "proto_metadata option \<Rightarrow> session_metadata" where
  "proto_to_session_metadata m = (case m of None \<Rightarrow> zero_metadata
     | Some p \<Rightarrow> \<lparr>sd_name = pmd_name p, sd_description = pmd_description p, sd_labels = pmd_labels p, sd_owner_id = pmd_owner p,
         sd_tags = pmd_tags p\<rparr>)"

definition session_metadata_to_proto :: "session_metadata \<Rightarrow> proto_metadata" where
  "session_metadata_to_proto m = \<lparr>pmd_name = sd_name m, pmd_description = sd_description m, pmd_labels = sd_labels m,
     pmd_owner = sd_owner_id m, pmd_tags = sd_tags m\<rparr>"

definition zero_session_policy :: session_policy where
  "zero_session_policy = \<lparr>sn_allow_network = False, sn_allowed_networks = [], sn_allow_volume_mount = False,
     sn_allowed_paths = [], sn_require_approval = False\<rparr>"

definition proto_to_session_policy :: "proto_policy option \<Rightarrow> session_policy" where
  "proto_to_session_policy m = (case m of None \<Rightarrow> zero_session_policy
     | Some p \<Rightarrow> \<lparr>sn_allow_network = ppo_allow_network p, sn_allowed_networks = ppo_allowed_networks p,
         sn_allow_volume_mount = ppo_allow_volume_mount p, sn_allowed_paths = ppo_allowed_paths p,
         sn_require_approval = ppo_require_approval p\<rparr>)"

definition session_policy_to_proto :: "session_policy \<Rightarrow> proto_policy" where
  "session_policy_to_proto p = \<lparr>ppo_allow_network = sn_allow_network p, ppo_allowed_networks = sn_allowed_networks p,
     ppo_allow_volume_mount = sn_allow_volume_mount p, ppo_allowed_paths = sn_allowed_paths p,
     ppo_require_approval = sn_require_approval p\<rparr>"

definition proto_to_session_config :: "proto_session_config option \<Rightarrow> session_config" where
  "proto_to_session_config m = (case m of None \<Rightarrow> zero_session_config
     | Some c \<Rightarrow> \<lparr>sc_max_containers = psg_max_containers c,
         sc_max_duration = (if 0 < psg_max_duration c then psg_max_duration c else 0),
         sc_idle_timeout = (if 0 < psg_idle_timeout c then psg_idle_timeout c else 0),
         sc_resource_limits = proto_to_limits (psg_limits c), sc_allowed_images = psg_images c,
         sc_policy = proto_to_session_policy (psg_policy c)\<rparr>)"

definition session_config_to_proto :: "session_config \<Rightarrow> proto_session_config" where
  "session_config_to_proto c = \<lparr>psg_max_containers = to_int32 (sc_max_containers c),
     psg_max_duration = (if 0 < sc_max_duration c then sc_max_duration c else 0),
     psg_idle_timeout = (if 0 < sc_idle_timeout c then sc_idle_timeout c else 0),
     psg_limits = Some (limits_to_proto (sc_resource_limits c)), psg_images = sc_allowed_images c,
     psg_policy = Some (session_policy_to_proto (sc_policy c))\<rparr>"

definition zero_preferences :: user_preferences where
  "zero_preferences = \<lparr>up_timezone = '''', up_language = '''', up_theme = '''', up_notifications = False\<rparr>"

definition proto_to_preferences :: "proto_preferences option \<Rightarrow> user_preferences" where
  "proto_to_preferences m = (case m of None \<Rightarrow> zero_preferences
     | Some p \<Rightarrow> \<lparr>up_timezone = ppf_timezone p, up_language = ppf_language p, up_theme = ppf_theme p,
         up_notifications = ppf_notifications p\<rparr>)"

definition preferences_to_proto :: "user_preferences \<Rightarrow> proto_preferences" where
  "preferences_to_proto p = \<lparr>ppf_timezone = up_timezone p, ppf_language = up_language p, ppf_theme = up_theme p,
     ppf_notifications = up_notifications p\<rparr>"

section \<open>Messages and contexts\<close>

definition zero_message :: message where
  "zero_message = \<lparr>msg_id = '''', msg_timestamp = 0, msg_role = RoleOther '''', msg_content = '''', msg_metadata = zero_message_metadata\<rparr>"

definition optional_id :: "string \<Rightarrow> id option" where
  "optional_id s = (if s = '''' then None else Some s)"

definition id_text :: "id option \<Rightarrow> string" where
  "id_text i = (case i of None \<Rightarrow> '''' | Some s \<Rightarrow> s)"

definition proto_to_message_metadata :: "proto_message_metadata option \<Rightarrow> message_metadata" where
  "proto_to_message_metadata m = (case m of None \<Rightarrow> zero_message_metadata
     | Some p \<Rightarrow> \<lparr>mm_container_id = optional_id (pmm_container p), mm_tool_name = pmm_tool_name p, mm_tool_call_id = pmm_tool_call p,
         mm_extra = pmm_extra p\<rparr>)"

definition proto_to_message :: "proto_message option \<Rightarrow> message" where
  "proto_to_message m = (case m of None \<Rightarrow> zero_message
     | Some p \<Rightarrow> \<lparr>msg_id = pmg_id p,
         msg_timestamp = (case proto_to_timestamp (pmg_timestamp p) of None \<Rightarrow> 0 | Some t \<Rightarrow> t),
         msg_role = proto_to_role (pmg_role p), msg_content = pmg_content p,
         msg_metadata = proto_to_message_metadata (pmg_metadata p)\<rparr>)"

definition message_to_proto :: "message \<Rightarrow> proto_message" where
  "message_to_proto m = \<lparr>pmg_id = msg_id m,
     pmg_timestamp = (if ts_is_zero (msg_timestamp m) then None else timestamp_to_proto (Some (msg_timestamp m))),
     pmg_role = role_to_proto (msg_role m), pmg_content = msg_content m,
     pmg_metadata = Some \<lparr>pmm_container = id_text (mm_container_id (msg_metadata m)), pmm_tool_name = mm_tool_name (msg_metadata m),
       pmm_tool_call = mm_tool_call_id (msg_metadata m), pmm_extra = mm_extra (msg_metadata m)\<rparr>\<rparr>"

definition proto_to_context :: "proto_context option \<Rightarrow> session_context" where
  "proto_to_context m = (case m of None \<Rightarrow> zero_context
     | Some c \<Rightarrow> \<lparr>sx_messages = map proto_to_message (pcx_messages c), sx_current_task = optional_id (pcx_task c),
         sx_task_history = pcx_history c, sx_preferences = proto_to_preferences (pcx_preferences c),
         sx_config = proto_to_session_config (pcx_config c), sx_resource_usage = proto_to_usage (pcx_usage c)\<rparr>)"

definition context_to_proto :: "session_context \<Rightarrow> proto_context" where
  "context_to_proto c = \<lparr>pcx_messages = map (\<lambda>m. Some (message_to_proto m)) (sx_messages c), pcx_task = id_text (sx_current_task c),
     pcx_history = sx_task_history c, pcx_preferences = Some (preferences_to_proto (sx_preferences c)),
     pcx_config = Some (session_config_to_proto (sx_config c)), pcx_usage = Some (usage_to_proto (sx_resource_usage c))\<rparr>"

definition session_to_proto :: "session \<Rightarrow> proto_session" where
  "session_to_proto s = \<lparr>pss_id = se_id s, pss_state = session_state_to_proto (se_state s), pss_status = status_to_proto (se_status s),
     pss_created = timestamp_to_proto (Some (se_created s)), pss_updated = timestamp_to_proto (Some (se_updated s)),
     pss_expires = timestamp_to_proto (se_expires s), pss_closed = timestamp_to_proto (se_closed_at s),
     pss_metadata = Some (session_metadata_to_proto (se_metadata s)), pss_context = Some (context_to_proto (se_context s)),
     pss_containers = se_containers s\<rparr>"

definition proto_to_session_filter :: "proto_session_filter option \<Rightarrow> session_filter option" where
  "proto_to_session_filter m = map_option (\<lambda>f.
     \<lparr>sf_state = (if psf_state f = PbSessUnspecified then None else Some (proto_to_session_state (psf_state f))),
      sf_status = (if psf_status f = PbStatusUnspecified then None else Some (proto_to_status (psf_status f))),
      sf_owner = optional_id (psf_owner f), sf_label = psf_labels f\<rparr>) m"

section \<open>Events\<close>

text \<open>\<open>Sprintf\<close> of a value; the text of one that is neither text, number nor truth value is a parameter.\<close>

fun any_text :: "(nat \<Rightarrow> string) \<Rightarrow> any_value \<Rightarrow> string" where
  "any_text other (AnyString s) = s"
| "any_text other (AnyInt n) = dec_int n"
| "any_text other (AnyBool b) = (if b then ''true'' else ''false'')"
| "any_text other (AnyOther k) = other k"

definition event_to_proto :: "(nat \<Rightarrow> string) \<Rightarrow> event \<Rightarrow> proto_event" where
  "event_to_proto other e = \<lparr>pev_id = ev_id e, pev_type = event_type_to_proto (ev_type e), pev_source = ev_source e,
     pev_timestamp = timestamp_to_proto (Some (ev_timestamp e)),
     pev_data = map_option (map (\<lambda>(k, v). (k, any_text other v))) (ev_data e),
     pev_metadata = \<lparr>pem_correlation = id_text (em_correlation (ev_metadata e)), pem_session = id_text (em_session (ev_metadata e)),
       pem_container = id_text (em_container (ev_metadata e)), pem_user = em_user (ev_metadata e),
       pem_labels = em_labels (ev_metadata e), pem_priority = priority_to_proto (em_priority (ev_metadata e))\<rparr>\<rparr>"

section \<open>Agents\<close>

record proto_agent_metadata =
  pam_version :: string
  pam_description :: string
  pam_labels :: "(string, string) gomap option"
  pam_owner :: string
  pam_tags :: "string list option"
  pam_hostname :: string
  pam_pid :: string

text \<open>The values of the map of an agent's metadata.\<close>

datatype meta_value = MetaText string | MetaLabels "(string, string) gomap" | MetaTags "string list" | MetaOther nat

definition proto_to_agent_metadata :: "proto_agent_metadata option \<Rightarrow> (string, meta_value) gomap option" where
  "proto_to_agent_metadata m = map_option (\<lambda>p.
     (case pam_tags p of None \<Rightarrow> (\<lambda>x. x) | Some ts \<Rightarrow> mput ''tags'' (MetaTags ts))
       ((case pam_labels p of None \<Rightarrow> (\<lambda>x. x) | Some ls \<Rightarrow> mput ''labels'' (MetaLabels ls))
         (mput ''pid'' (MetaText (pam_pid p)) (mput ''hostname'' (MetaText (pam_hostname p))
           (mput ''owner_id'' (MetaText (pam_owner p)) (mput ''description'' (MetaText (pam_description p))
             (mput ''version'' (MetaText (pam_version p)) []))))))) m"

definition meta_text :: "(string, meta_value) gomap \<Rightarrow> string \<Rightarrow> string" where
  "meta_text m k = (case mget m k of Some (MetaText s) \<Rightarrow> s | _ \<Rightarrow> '''')"

text \<open>Reading a map that is missing finds nothing.\<close>

definition agent_metadata_to_proto :: "(string, meta_value) gomap option \<Rightarrow> proto_agent_metadata" where
  "agent_metadata_to_proto mo =
     (let m = (case mo of None \<Rightarrow> [] | Some m \<Rightarrow> m)
      in \<lparr>pam_version = meta_text m ''version'', pam_description = meta_text m ''description'',
          pam_labels = (case mget m ''labels'' of Some (MetaLabels ls) \<Rightarrow> Some ls | _ \<Rightarrow> None), pam_owner = meta_text m ''owner_id'',
          pam_tags = (case mget m ''tags'' of Some (MetaTags ts) \<Rightarrow> Some ts | _ \<Rightarrow> None), pam_hostname = meta_text m ''hostname'',
          pam_pid = meta_text m ''pid''\<rparr>)"

section \<open>Containers\<close>

definition zero_mount :: mount where
  "zero_mount = \<lparr>mt_type = MountOther '''', mt_source = '''', mt_target = '''', mt_read_only = False\<rparr>"

definition proto_to_mount :: "proto_mount option \<Rightarrow> mount" where
  "proto_to_mount m = (case m of None \<Rightarrow> zero_mount
     | Some p \<Rightarrow> \<lparr>mt_type = proto_to_mount_type (pmt_type p), mt_source = pmt_source p, mt_target = pmt_target p,
         mt_read_only = pmt_read_only p\<rparr>)"

definition mount_to_proto :: "mount \<Rightarrow> proto_mount" where
  "mount_to_proto m = \<lparr>pmt_type = mount_type_to_proto (mt_type m), pmt_source = mt_source m, pmt_target = mt_target m,
     pmt_read_only = mt_read_only m\<rparr>"

definition zero_port :: port_binding where
  "zero_port = \<lparr>pb_container_port = 0, pb_host_port = 0, pb_protocol = '''', pb_host_ip = ''''\<rparr>"

definition proto_to_port :: "proto_port option \<Rightarrow> port_binding" where
  "proto_to_port m = (case m of None \<Rightarrow> zero_port
     | Some p \<Rightarrow> \<lparr>pb_container_port = ppb_container p, pb_host_port = ppb_host p, pb_protocol = ppb_protocol p, pb_host_ip = ppb_host_ip p\<rparr>)"

definition port_to_proto :: "port_binding \<Rightarrow> proto_port" where
  "port_to_proto p = \<lparr>ppb_container = to_int32 (pb_container_port p), ppb_host = to_int32 (pb_host_port p),
     ppb_protocol = pb_protocol p, ppb_host_ip = pb_host_ip p\<rparr>"

definition zero_restart :: restart_policy where
  "zero_restart = \<lparr>rp_name = '''', rp_max_retry = 0, rp_timeout = None\<rparr>"

definition proto_to_restart :: "proto_restart option \<Rightarrow> restart_policy" where
  "proto_to_restart m = (case m of None \<Rightarrow> zero_restart
     | Some p \<Rightarrow> \<lparr>rp_name = prs_name p, rp_max_retry = prs_max_retry p,
         rp_timeout = (if 0 < prs_timeout p then Some (prs_timeout p) else None)\<rparr>)"

definition restart_to_proto :: "restart_policy \<Rightarrow> proto_restart" where
  "restart_to_proto p = \<lparr>prs_name = rp_name p, prs_max_retry = to_int32 (rp_max_retry p),
     prs_timeout = (case rp_timeout p of None \<Rightarrow> 0 | Some d \<Rightarrow> d)\<rparr>"

definition proto_to_container_config :: "proto_container_config option \<Rightarrow> container_config" where
  "proto_to_container_config m = (case m of None \<Rightarrow> zero_config
     | Some c \<Rightarrow> zero_config\<lparr>cc_image := pcc_image c, cc_working_dir := pcc_working_dir c, cc_network_mode := pcc_network_mode c,
         cc_read_only_rootfs := pcc_read_only c, cc_remove_on_stop := pcc_remove c, cc_command := pcc_command c,
         cc_args := pcc_args c, cc_env := pcc_env c, cc_labels := pcc_labels c, cc_mounts := map proto_to_mount (pcc_mounts c),
         cc_ports := map proto_to_port (pcc_ports c), cc_networks := pcc_networks c,
         cc_resources := proto_to_limits (pcc_resources c), cc_restart_policy := proto_to_restart (pcc_restart c)\<rparr>)"

definition container_config_to_proto :: "container_config \<Rightarrow> proto_container_config" where
  "container_config_to_proto c = \<lparr>pcc_image = cc_image c, pcc_command = cc_command c, pcc_args = cc_args c, pcc_env = cc_env c,
     pcc_working_dir = cc_working_dir c, pcc_labels = cc_labels c, pcc_mounts = map (\<lambda>m. Some (mount_to_proto m)) (cc_mounts c),
     pcc_ports = map (\<lambda>p. Some (port_to_proto p)) (cc_ports c), pcc_network_mode = cc_network_mode c, pcc_networks = cc_networks c,
     pcc_resources = Some (limits_to_proto (cc_resources c)), pcc_restart = Some (restart_to_proto (cc_restart_policy c)),
     pcc_read_only = cc_read_only_rootfs c, pcc_remove = cc_remove_on_stop c\<rparr>"

definition zero_container :: container where
  "zero_container = \<lparr>cn_id = '''', cn_name = '''', cn_image = '''', cn_state = CsOther '''', cn_status = StatusOther '''',
     cn_health = HlOther '''', cn_created = 0, cn_started = None, cn_exited = None, cn_exit_code = None, cn_config = zero_config,
     cn_resources = zero_usage, cn_session = ''''\<rparr>"

text \<open>A container without a time of creation makes the conversion panic, \<open>None\<close>.\<close>

definition proto_to_container :: "proto_container option \<Rightarrow> container option" where
  "proto_to_container m = (case m of None \<Rightarrow> Some zero_container
     | Some c \<Rightarrow>
         (case proto_to_timestamp (pct_created c) of
            None \<Rightarrow> None
          | Some t \<Rightarrow> Some \<lparr>cn_id = pct_id c, cn_name = pct_name c, cn_image = pct_image c, cn_state = proto_to_container_state (pct_state c),
              cn_status = proto_to_status (pct_status c), cn_health = proto_to_health (pct_health c), cn_created = t,
              cn_started = proto_to_timestamp (pct_started c), cn_exited = proto_to_timestamp (pct_exited c),
              cn_exit_code = (if pct_exit_code c \<noteq> 0 then Some (pct_exit_code c) else None),
              cn_config = proto_to_container_config (pct_config c), cn_resources = proto_to_usage (pct_resources c),
              cn_session = pct_session c\<rparr>))"

definition container_to_proto :: "container \<Rightarrow> proto_container option" where
  "container_to_proto c =
     (if cn_id c = '''' then None
      else Some \<lparr>pct_id = cn_id c, pct_name = cn_name c, pct_image = cn_image c, pct_state = container_state_to_proto (cn_state c),
        pct_status = status_to_proto (cn_status c), pct_health = health_to_proto (cn_health c),
        pct_created = timestamp_to_proto (Some (cn_created c)), pct_started = timestamp_to_proto (cn_started c),
        pct_exited = timestamp_to_proto (cn_exited c), pct_exit_code = (case cn_exit_code c of None \<Rightarrow> 0 | Some n \<Rightarrow> to_int32 n),
        pct_config = Some (container_config_to_proto (cn_config c)), pct_resources = Some (usage_to_proto (cn_resources c)),
        pct_session = cn_session c\<rparr>)"

definition proto_to_container_filter :: "proto_container_filter option \<Rightarrow> container_filter option" where
  "proto_to_container_filter m = map_option (\<lambda>f.
     \<lparr>cf_session = optional_id (pcf_session f),
      cf_state = (if pcf_state f = PbContUnspecified then None else Some (proto_to_container_state (pcf_state f))),
      cf_status = (if pcf_status f = PbStatusUnspecified then None else Some (proto_to_status (pcf_status f))),
      cf_label = pcf_labels f\<rparr>) m"

end
