(* ===== verification/Grpc_Convert_Proofs.thy ===== *)
theory Grpc_Convert_Proofs
  imports Grpc_Convert
begin

text \<open>
  What the conversions of pkg/grpc/convert.go keep: sessions come back as they were within the ranges of
  the messages, containers without the part of their configuration that the messages do not have.
\<close>

section \<open>Enumerations\<close>

lemma named_image: "named table d s \<noteq> d \<Longrightarrow> map_of table s = Some (named table d s)"
  by (auto simp: named_def split: option.splits)

lemma states_round_trip [simp]:
  "(\<forall>t. x \<noteq> StOther t) \<Longrightarrow> proto_to_session_state (session_state_to_proto x) = x"
  "(\<forall>t. st \<noteq> StatusOther t) \<Longrightarrow> proto_to_status (status_to_proto st) = st"
  "(\<forall>t. h \<noteq> HlOther t) \<Longrightarrow> proto_to_health (health_to_proto h) = h"
  "(\<forall>t. r \<noteq> RoleOther t) \<Longrightarrow> proto_to_role (role_to_proto r) = r"
  "(\<forall>t. cs \<noteq> CsOther t) \<Longrightarrow> proto_to_container_state (container_state_to_proto cs) = cs"
  "(\<forall>t. mt \<noteq> MountOther t) \<Longrightarrow> proto_to_mount_type (mount_type_to_proto mt) = mt"
  by ((cases x; simp), (cases st; simp), (cases h; simp), (cases r; simp), (cases cs; simp), (cases mt; simp))

text \<open>The numbers that have no name, and the unspecified one, become a default on the way in.\<close>

lemma agent_enums_round_trip:
  "agent_type_to_proto (proto_to_agent_type a) = (case a of PbAgentOther n \<Rightarrow> PbAgentUnspecified | _ \<Rightarrow> a)"
  "agent_state_to_proto (proto_to_agent_state b) = (case b of PbAgentStateOther n \<Rightarrow> PbAgentStateUnspecified | _ \<Rightarrow> b)"
  "task_type_to_proto (proto_to_task_type c) = (case c of PbTaskTypeOther n \<Rightarrow> PbTaskTypeUnspecified | _ \<Rightarrow> c)"
  "task_state_to_proto (proto_to_task_state d) = (case d of PbTaskStateOther n \<Rightarrow> PbTaskStateUnspecified | _ \<Rightarrow> d)"
  "task_priority_to_proto (proto_to_task_priority e) = (case e of PbTaskPriorityOther n \<Rightarrow> PbTaskPriorityUnspecified | _ \<Rightarrow> e)"
  "message_type_to_proto (proto_to_message_type f) = (case f of PbMessageOther n \<Rightarrow> PbMessageUnspecified | _ \<Rightarrow> f)"
  "control_to_proto (proto_to_control g) = (case g of PbControlOther n \<Rightarrow> PbControlUnspecified | _ \<Rightarrow> g)"
  by ((cases a; simp add: agent_type_to_proto_def named_def), (cases b; simp add: agent_state_to_proto_def named_def),
      (cases c; simp add: task_type_to_proto_def named_def), (cases d; simp add: task_state_to_proto_def named_def),
      (cases e; simp add: task_priority_to_proto_def named_def), (cases f; simp add: message_type_to_proto_def named_def),
      (cases g; simp add: control_to_proto_def named_def))

section \<open>Sessions\<close>

text \<open>What the messages can hold.\<close>

definition limits_fit :: "resource_limits \<Rightarrow> bool" where
  "limits_fit r \<longleftrightarrow> (case rl_pids_limit r of None \<Rightarrow> True | Some n \<Rightarrow> 0 < n)"

definition session_config_fits :: "session_config \<Rightarrow> bool" where
  "session_config_fits c \<longleftrightarrow> fits_int32 (sc_max_containers c) \<and> 0 \<le> sc_max_duration c \<and> 0 \<le> sc_idle_timeout c
     \<and> limits_fit (sc_resource_limits c)"

definition message_fits :: "message \<Rightarrow> bool" where
  "message_fits m \<longleftrightarrow> msg_role m \<in> {RoleUser, RoleSystem, RoleAssistant, RoleTool} \<and> mm_container_id (msg_metadata m) \<noteq> Some ''''"

definition context_fits :: "session_context \<Rightarrow> bool" where
  "context_fits c \<longleftrightarrow> list_all message_fits (sx_messages c) \<and> sx_current_task c \<noteq> Some '''' \<and> session_config_fits (sx_config c)"

lemma optional_id_text [simp]: "i \<noteq> Some '''' \<Longrightarrow> optional_id (id_text i) = i"
  by (cases i) (auto simp: optional_id_def id_text_def)

lemma limits_round_trip [simp]: "limits_fit r \<Longrightarrow> proto_to_limits (Some (limits_to_proto r)) = r"
  by (auto simp: proto_to_limits_def limits_to_proto_def limits_fit_def split: option.splits)

lemma usage_round_trip [simp]: "proto_to_usage (Some (usage_to_proto u)) = u"
  by (simp add: proto_to_usage_def usage_to_proto_def)

lemma metadata_round_trip [simp]: "proto_to_session_metadata (Some (session_metadata_to_proto m)) = m"
  by (simp add: proto_to_session_metadata_def session_metadata_to_proto_def)

lemma session_policy_round_trip [simp]: "proto_to_session_policy (Some (session_policy_to_proto p)) = p"
  by (simp add: proto_to_session_policy_def session_policy_to_proto_def)

lemma preferences_round_trip [simp]: "proto_to_preferences (Some (preferences_to_proto p)) = p"
  by (simp add: proto_to_preferences_def preferences_to_proto_def)

lemma session_config_round_trip [simp]:
  assumes "session_config_fits c"
  shows "proto_to_session_config (Some (session_config_to_proto c)) = c"
  using assms by (simp add: session_config_fits_def proto_to_session_config_def session_config_to_proto_def)

lemma message_round_trip [simp]:
  assumes "message_fits m"
  shows "proto_to_message (Some (message_to_proto m)) = m"
proof -
  have "proto_to_role (role_to_proto (msg_role m)) = msg_role m" "mm_container_id (msg_metadata m) \<noteq> Some ''''"
    using assms by (auto simp: message_fits_def)
  moreover have "(case proto_to_timestamp None of None \<Rightarrow> 0 | Some t \<Rightarrow> t) = 0" by (simp add: proto_to_timestamp_def)
  ultimately show ?thesis
    by (simp add: proto_to_message_def message_to_proto_def proto_to_message_metadata_def ts_is_zero_def)
qed

lemma messages_round_trip: "list_all message_fits ms \<Longrightarrow> map (proto_to_message \<circ> (\<lambda>m. Some (message_to_proto m))) ms = ms"
  by (induction ms) auto

text \<open>
  C33: A session whose conversation and configuration the messages can hold (roles that are named, a task and
  container references that are not the empty text, a number of containers that fits 32 bits, durations
  that are not negative and a process limit that is positive, each where it is set) comes back from them
  with every field: its conversation with roles, times and tool calls, its task, preferences,
  configuration and usage, its metadata, containers and its four times as they were, and its state and
  status as they were if they are named ones; any other state comes back as initializing, any other
  status as unknown.
\<close>

theorem session_survives_the_wire:
  assumes "context_fits (se_context s)" and "p = session_to_proto s"
  shows "pss_id p = se_id s \<and> proto_to_context (pss_context p) = se_context s
    \<and> proto_to_session_state (pss_state p) = (case se_state s of StOther t \<Rightarrow> StInitializing | st \<Rightarrow> st)
    \<and> proto_to_status (pss_status p) = (case se_status s of StatusOther t \<Rightarrow> StatusUnknown | st \<Rightarrow> st)
    \<and> proto_to_timestamp (pss_created p) = Some (se_created s) \<and> proto_to_timestamp (pss_updated p) = Some (se_updated s)
    \<and> proto_to_timestamp (pss_expires p) = se_expires s \<and> proto_to_timestamp (pss_closed p) = se_closed_at s
    \<and> proto_to_session_metadata (pss_metadata p) = se_metadata s \<and> pss_containers p = se_containers s"
proof -
  have "proto_to_session_state (session_state_to_proto (se_state s)) = (case se_state s of StOther t \<Rightarrow> StInitializing | st \<Rightarrow> st)"
    "proto_to_status (status_to_proto (se_status s)) = (case se_status s of StatusOther t \<Rightarrow> StatusUnknown | st \<Rightarrow> st)"
    by ((cases "se_state s"; simp), (cases "se_status s"; simp))
  moreover have "proto_to_context (Some (context_to_proto (se_context s))) = se_context s"
    using assms(1) by (simp add: context_fits_def proto_to_context_def context_to_proto_def messages_round_trip)
  ultimately show ?thesis by (simp add: assms(2) session_to_proto_def)
qed

definition wire_session :: session where
  "wire_session = \<lparr>se_id = ''s1'', se_state = StActive, se_status = StatusRunning, se_created = 70000000000000000000,
     se_updated = 70000000000000000005, se_expires = None, se_closed_at = None, se_metadata = zero_metadata,
     se_context = zero_context\<lparr>sx_messages := [\<lparr>msg_id = ''m'', msg_timestamp = 70000000000000000007, msg_role = RoleTool,
       msg_content = ''ok'', msg_metadata = zero_message_metadata\<lparr>mm_container_id := Some ''c1''\<rparr>\<rparr>]\<rparr>, se_containers = [''c1'']\<rparr>"

theorem session_survives_the_wire_witness:
  "proto_to_context (pss_context (session_to_proto wire_session)) = se_context wire_session
   \<and> sx_messages (se_context wire_session) \<noteq> []
   \<and> proto_to_status (pss_status (session_to_proto wire_session)) = StatusRunning
   \<and> proto_to_timestamp (pss_updated (session_to_proto wire_session)) = Some 70000000000000000005"
proof -
  have "context_fits (se_context wire_session)"
    by (simp_all add: wire_session_def context_fits_def message_fits_def zero_context_def zero_message_metadata_def
        session_config_fits_def zero_session_config_def fits_int32_def limits_fit_def zero_resources_def)
  from session_survives_the_wire [OF this refl] show ?thesis by (simp add: wire_session_def)
qed

section \<open>Containers\<close>

definition container_config_fits :: "container_config \<Rightarrow> bool" where
  "container_config_fits c \<longleftrightarrow> list_all (\<lambda>m. mt_type m \<in> {MountBind, MountVolume, MountTmpfs}) (cc_mounts c)
     \<and> list_all (\<lambda>p. fits_int32 (pb_container_port p) \<and> fits_int32 (pb_host_port p)) (cc_ports c) \<and> limits_fit (cc_resources c)
     \<and> fits_int32 (rp_max_retry (cc_restart_policy c))
     \<and> (case rp_timeout (cc_restart_policy c) of None \<Rightarrow> True | Some t \<Rightarrow> 0 < t)"

lemma mount_round_trip: "mt_type m \<in> {MountBind, MountVolume, MountTmpfs} \<Longrightarrow> proto_to_mount (Some (mount_to_proto m)) = m"
  by (auto simp: proto_to_mount_def mount_to_proto_def)

lemma port_round_trip: "fits_int32 (pb_container_port p) \<Longrightarrow> fits_int32 (pb_host_port p) \<Longrightarrow> proto_to_port (Some (port_to_proto p)) = p"
  by (simp add: proto_to_port_def port_to_proto_def)

lemma mounts_round_trip: "list_all (\<lambda>m. mt_type m \<in> {MountBind, MountVolume, MountTmpfs}) ms \<Longrightarrow>
    map (proto_to_mount \<circ> (\<lambda>m. Some (mount_to_proto m))) ms = ms"
  by (induction ms) (auto simp: mount_round_trip simp del: insert_iff)

lemma ports_round_trip: "list_all (\<lambda>p. fits_int32 (pb_container_port p) \<and> fits_int32 (pb_host_port p)) ps \<Longrightarrow>
    map (proto_to_port \<circ> (\<lambda>p. Some (port_to_proto p))) ps = ps"
  by (induction ps) (auto simp: port_round_trip)

lemma restart_round_trip:
  "fits_int32 (rp_max_retry p) \<Longrightarrow> (case rp_timeout p of None \<Rightarrow> True | Some t \<Rightarrow> 0 < t) \<Longrightarrow> proto_to_restart (Some (restart_to_proto p)) = p"
  by (auto simp: proto_to_restart_def restart_to_proto_def split: option.splits)

text \<open>
  C34: A container that the messages can hold (it has an identifier, a named state, status and health,
  ports, retries and an exit code that fit 32 bits, mounts of the three named types, and limits and
  time-outs that are positive where they are set) comes back from them with the configuration it had
  except for the user it runs as, its security options, the capabilities added and dropped and its
  health check, which the messages do not carry; an exit code of zero comes back as no exit code; all
  else is as it was.  The conversion of a container panics exactly where the time of its creation is
  missing.
\<close>

theorem container_loses_its_hardening:
  assumes "container_config_fits (cn_config c)" and "cn_id c \<noteq> ''''"
    and "cn_state c \<in> {CsCreated, CsRunning, CsPaused, CsRestarting, CsExited, CsRemoving, CsUnknown}"
    and "cn_status c \<in> {StatusUnknown, StatusStarting, StatusRunning, StatusStopping, StatusStopped, StatusError, StatusTerminated}"
    and "cn_health c \<in> {HlUnknown, HlHealthy, HlUnhealthy, HlDegraded, HlChecking}"
    and "\<forall>n. cn_exit_code c = Some n \<longrightarrow> fits_int32 n"
  shows "proto_to_container (container_to_proto c) =
      Some (c\<lparr>cn_config := (cn_config c)\<lparr>cc_user := '''', cc_security_opt := [], cc_cap_add := [], cc_cap_drop := [], cc_health_check := None\<rparr>,
              cn_exit_code := (if cn_exit_code c = Some 0 then None else cn_exit_code c)\<rparr>)
    \<and> (proto_to_container (Some q) = None \<longleftrightarrow> pct_created q = None)"
proof -
  have "proto_to_container_config (Some (container_config_to_proto (cn_config c)))
      = (cn_config c)\<lparr>cc_user := '''', cc_security_opt := [], cc_cap_add := [], cc_cap_drop := [], cc_health_check := None\<rparr>"
    using assms(1)
    by (simp add: container_config_fits_def proto_to_container_config_def container_config_to_proto_def mounts_round_trip
        ports_round_trip restart_round_trip zero_config_def)
  moreover have "proto_to_container_state (container_state_to_proto (cn_state c)) = cn_state c"
    "proto_to_status (status_to_proto (cn_status c)) = cn_status c" "proto_to_health (health_to_proto (cn_health c)) = cn_health c"
    using assms(3-5) by auto
  moreover have "proto_to_container (Some q) = None \<longleftrightarrow> pct_created q = None"
    by (auto simp: proto_to_container_def proto_to_timestamp_def split: option.splits)
  ultimately show ?thesis using assms(2,6)
    by (cases "cn_exit_code c") (auto simp: proto_to_container_def container_to_proto_def)
qed

definition hardened_container :: container where
  "hardened_container = zero_container\<lparr>cn_id := ''c1'', cn_state := CsExited, cn_status := StatusStopped, cn_health := HlUnknown,
     cn_exit_code := Some 0, cn_config := zero_config\<lparr>cc_image := ''tool:1'', cc_user := ''1000:1000'', cc_cap_drop := [''ALL''],
       cc_security_opt := [''no-new-privileges'']\<rparr>\<rparr>"

theorem container_loses_its_hardening_witness:
  "\<exists>c. proto_to_container (container_to_proto hardened_container) = Some c \<and> cc_image (cn_config c) = ''tool:1''
     \<and> cc_user (cn_config c) = '''' \<and> cc_cap_drop (cn_config c) = [] \<and> cc_security_opt (cn_config c) = [] \<and> cn_exit_code c = None"
proof -
  have "container_config_fits (cn_config hardened_container)" "cn_id hardened_container \<noteq> ''''"
    "cn_state hardened_container \<in> {CsCreated, CsRunning, CsPaused, CsRestarting, CsExited, CsRemoving, CsUnknown}"
    "cn_status hardened_container \<in> {StatusUnknown, StatusStarting, StatusRunning, StatusStopping, StatusStopped, StatusError, StatusTerminated}"
    "cn_health hardened_container \<in> {HlUnknown, HlHealthy, HlUnhealthy, HlDegraded, HlChecking}"
    "\<forall>n. cn_exit_code hardened_container = Some n \<longrightarrow> fits_int32 n"
    by (simp_all add: hardened_container_def zero_container_def container_config_fits_def zero_config_def limits_fit_def
        zero_resources_def fits_int32_def)
  from container_loses_its_hardening [OF this] show ?thesis by (simp add: hardened_container_def)
qed

end
