(* ===== verification/Grpc_Agent.thy ===== *)
theory Grpc_Agent
  imports Grpc_Convert Skill_Loader
begin

text \<open>
  pkg/grpc/agent_service.go: the registry of agents and their tasks, the service that serves agents over
  gRPC, and the routes that wait for their answers.  Tasks are references into a store, since the
  registry and the agent share them.  What the service does outside, sending on a stream, adding a
  message to a session, answering a client and publishing an event, is a list of effects; their errors
  are logged only, except for that of a send, which is an argument.
\<close>

section \<open>Messages\<close>

record proto_capabilities =
  pcp_tasks :: "string list"
  pcp_tools :: "string list"
  pcp_max_concurrent :: int
  pcp_limits :: "proto_limits option"
  pcp_streaming :: bool
  pcp_cancellation :: bool
  pcp_protocols :: "string list"

record proto_task_constraints =
  ptc_memory :: int
  ptc_cpu :: int
  ptc_execution :: int
  ptc_allowed :: "string list"
  ptc_denied :: "string list"

record proto_task_config =
  ptk_command :: string
  ptk_arguments :: "string list"
  ptk_environment :: "(string, string) gomap"
  ptk_directory :: string
  ptk_timeout :: int
  ptk_max_retries :: int
  ptk_retry :: bool
  ptk_input :: string
  ptk_parameters :: "(string, string) gomap"
  ptk_constraints :: "proto_task_constraints option"

record proto_task_result =
  ptr_exit_code :: int
  ptr_output_data :: string
  ptr_output_text :: string
  ptr_error_text :: string
  ptr_metadata :: "(string, string) gomap"
  ptr_completed :: "proto_timestamp option"
  ptr_duration :: int

record proto_task_error =
  pte_code :: string
  pte_message :: string
  pte_details :: "string list"
  pte_trace :: string
  pte_occurred :: "proto_timestamp option"

record proto_task =
  pta_id :: string
  pta_name :: string
  pta_session :: string
  pta_type :: pb_task_type
  pta_state :: pb_task_state
  pta_priority :: pb_task_priority
  pta_created :: "proto_timestamp option"
  pta_started :: "proto_timestamp option"
  pta_completed :: "proto_timestamp option"
  pta_config :: "proto_task_config option"
  pta_result :: "proto_task_result option"
  pta_error :: "proto_task_error option"
  pta_progress :: rat

record proto_agent =
  pag_id :: string
  pag_name :: string
  pag_type :: pb_agent_type
  pag_state :: pb_agent_state
  pag_status :: pb_status
  pag_registered :: "proto_timestamp option"
  pag_heartbeat :: "proto_timestamp option"
  pag_metadata :: proto_agent_metadata
  pag_capabilities :: "proto_capabilities option"
  pag_tasks :: "string list"

record data_message =
  dm_content_type :: string
  dm_data :: string
  dm_headers :: "(string, string) gomap"

record agent_message_metadata =
  gmd_correlation :: string
  gmd_session :: string

record agent_message =
  agm_id :: string
  agm_source :: string
  agm_target :: string
  agm_timestamp :: "proto_timestamp option"
  agm_data :: "data_message option"
  agm_metadata :: "agent_message_metadata option"

section \<open>State\<close>

type_synonym task_ref = nat

record task_info =
  ti_id :: string
  ti_name :: string
  ti_session :: string
  ti_type :: string
  ti_state :: string
  ti_priority :: string
  ti_config :: "proto_task_config option"
  ti_result :: "proto_task_result option"
  ti_error :: "proto_task_error option"
  ti_progress :: rat
  ti_created :: timestamp
  ti_started :: "timestamp option"
  ti_completed :: "timestamp option"

record agent_info =
  ai_id :: string
  ai_name :: string
  ai_type :: string
  ai_state :: string
  ai_metadata :: "(string, meta_value) gomap option"
  ai_capabilities :: "proto_capabilities option"
  ai_registered :: timestamp
  ai_heartbeat :: timestamp
  ai_tasks :: "(string, task_ref) gomap"

record agent_registry =
  ar_agents :: "(string, agent_info) gomap"
  ar_tasks :: "(string, task_ref) gomap"
  ar_heap :: "task_ref \<Rightarrow> task_info"
  ar_next :: task_ref

text \<open>A route that waits: the session, the client to answer if any, and when it was made.\<close>

type_synonym stream_id = nat
type_synonym client_id = nat

record pending_route =
  pr_session :: id
  pr_handler :: "client_id option"
  pr_created :: timestamp

record agent_service =
  gs_registry :: agent_registry
  gs_loader :: "loader option"
  gs_bus :: bool
  gs_sessions :: bool
  gs_streams :: "stream_id list"
  gs_agent_streams :: "(string, stream_id) gomap"
  gs_send_locks :: "(string, nat) gomap"
  gs_next_lock :: nat
  gs_pending :: "(string, pending_route) gomap"
  gs_timers :: "(string, string) gomap"

datatype agent_effect =
    SendHeartbeat stream_id
  | SendMessage stream_id agent_message
  | AddToSession id message
  | AnswerClient client_id id message
  | PublishEvent string "(string \<times> string) list"

definition new_agent_registry :: agent_registry where
  "new_agent_registry = \<lparr>ar_agents = [], ar_tasks = [],
     ar_heap = (\<lambda>_. \<lparr>ti_id = '''', ti_name = '''', ti_session = '''', ti_type = '''', ti_state = '''', ti_priority = '''', ti_config = None,
       ti_result = None, ti_error = None, ti_progress = 0, ti_created = 0, ti_started = None, ti_completed = None\<rparr>),
     ar_next = 0\<rparr>"

definition new_agent_service :: "bool \<Rightarrow> bool \<Rightarrow> loader option \<Rightarrow> agent_service" where
  "new_agent_service bus sessions skl = \<lparr>gs_registry = new_agent_registry, gs_loader = skl, gs_bus = bus, gs_sessions = sessions,
     gs_streams = [], gs_agent_streams = [], gs_send_locks = [], gs_next_lock = 0, gs_pending = [], gs_timers = []\<rparr>"

section \<open>The registry\<close>

definition ar_register :: "timestamp \<Rightarrow> string \<Rightarrow> agent_info \<Rightarrow> agent_registry \<Rightarrow> go_error option \<times> agent_registry" where
  "ar_register now i info r =
     (if mget (ar_agents r) i \<noteq> None then (Some (new_error ErrAlreadyExists), r)
      else (None, r\<lparr>ar_agents := mput i (info\<lparr>ai_id := i, ai_registered := now, ai_heartbeat := now, ai_state := ''idle'', ai_tasks := []\<rparr>)
                     (ar_agents r)\<rparr>))"

text \<open>The agent that is removed is also marked as terminated, which nothing reads any more.\<close>

definition ar_unregister :: "string \<Rightarrow> agent_registry \<Rightarrow> go_error option \<times> agent_registry" where
  "ar_unregister i r =
     (if mget (ar_agents r) i = None then (Some (new_error ErrNotFound), r)
      else (None, r\<lparr>ar_agents := mdel i (ar_agents r)\<rparr>))"

definition ar_get :: "string \<Rightarrow> agent_registry \<Rightarrow> agent_info result" where
  "ar_get i r = (case mget (ar_agents r) i of None \<Rightarrow> Inl (new_error ErrNotFound) | Some a \<Rightarrow> Inr a)"

definition ar_list :: "agent_registry \<Rightarrow> agent_info list" where
  "ar_list r = mvals (ar_agents r)"

definition ar_update_heartbeat :: "timestamp \<Rightarrow> string \<Rightarrow> agent_registry \<Rightarrow> go_error option \<times> agent_registry" where
  "ar_update_heartbeat now i r =
     (case mget (ar_agents r) i of
        None \<Rightarrow> (Some (new_error ErrNotFound), r)
      | Some a \<Rightarrow> (None, r\<lparr>ar_agents := mput i (a\<lparr>ai_heartbeat := now\<rparr>) (ar_agents r)\<rparr>))"

text \<open>\<open>gid\<close> is the identifier that is generated for the task.\<close>

definition ar_add_task :: "timestamp \<Rightarrow> string \<Rightarrow> string \<Rightarrow> task_info \<Rightarrow> agent_registry \<Rightarrow> go_error option \<times> agent_registry" where
  "ar_add_task now gid i t r =
     (case mget (ar_agents r) i of
        None \<Rightarrow> (Some (new_error ErrNotFound), r)
      | Some a \<Rightarrow>
          let k = ar_next r
          in (None, r\<lparr>ar_tasks := mput gid k (ar_tasks r), ar_next := Suc k,
                      ar_heap := (ar_heap r)(k := t\<lparr>ti_id := gid, ti_created := now, ti_state := ''pending''\<rparr>),
                      ar_agents := mput i (a\<lparr>ai_tasks := mput gid k (ai_tasks a), ai_state := ''busy''\<rparr>) (ar_agents r)\<rparr>))"

definition ar_get_task :: "string \<Rightarrow> agent_registry \<Rightarrow> task_ref result" where
  "ar_get_task i r = (case mget (ar_tasks r) i of None \<Rightarrow> Inl (new_error ErrNotFound) | Some k \<Rightarrow> Inr k)"

definition ar_list_tasks :: "string \<Rightarrow> agent_registry \<Rightarrow> task_ref list" where
  "ar_list_tasks i r = (case mget (ar_agents r) i of None \<Rightarrow> [] | Some a \<Rightarrow> mvals (ai_tasks a))"

definition upd_task :: "task_ref \<Rightarrow> (task_info \<Rightarrow> task_info) \<Rightarrow> agent_registry \<Rightarrow> agent_registry" where
  "upd_task k f r = r\<lparr>ar_heap := (ar_heap r)(k := f (ar_heap r k))\<rparr>"

definition cancelled_task :: "timestamp \<Rightarrow> task_info \<Rightarrow> task_info" where
  "cancelled_task now t = t\<lparr>ti_state := ''cancelled'', ti_completed := Some now\<rparr>"

section \<open>Conversions\<close>

definition agent_info_to_proto :: "agent_info \<Rightarrow> proto_agent" where
  "agent_info_to_proto a = \<lparr>pag_id = ai_id a, pag_name = ai_name a, pag_type = agent_type_to_proto (ai_type a),
     pag_state = agent_state_to_proto (ai_state a), pag_status = status_to_proto StatusRunning,
     pag_registered = timestamp_to_proto (Some (ai_registered a)), pag_heartbeat = timestamp_to_proto (Some (ai_heartbeat a)),
     pag_metadata = agent_metadata_to_proto (ai_metadata a), pag_capabilities = ai_capabilities a, pag_tasks = mkeys (ai_tasks a)\<rparr>"

definition task_info_to_proto :: "task_info \<Rightarrow> proto_task" where
  "task_info_to_proto t = \<lparr>pta_id = ti_id t, pta_name = ti_name t, pta_session = ti_session t, pta_type = task_type_to_proto (ti_type t),
     pta_state = task_state_to_proto (ti_state t), pta_priority = task_priority_to_proto (ti_priority t),
     pta_created = timestamp_to_proto (Some (ti_created t)), pta_started = timestamp_to_proto (ti_started t),
     pta_completed = timestamp_to_proto (ti_completed t), pta_config = ti_config t, pta_result = ti_result t, pta_error = ti_error t,
     pta_progress = ti_progress t\<rparr>"

section \<open>Registration\<close>

text \<open>Skills are activated for the identifier of the agent as their owner; a failure is logged.\<close>

definition activate_skills ::
    "skill_codec \<Rightarrow> (id \<Rightarrow> save_faults) \<Rightarrow> timestamp \<Rightarrow> string \<Rightarrow> agent_service \<Rightarrow> go_error option \<times> agent_service" where
  "activate_skills cd faults now i s =
     (case gs_loader s of
        None \<Rightarrow> (None, s)
      | Some l \<Rightarrow>
          (case activate_by_owner cd faults now ''user'' i l of
             (Inl e, l') \<Rightarrow> (Some e, s\<lparr>gs_loader := Some l'\<rparr>)
           | (Inr n, l') \<Rightarrow> (case get_active_skills ''user'' i l' of Inl e \<Rightarrow> Some e | Inr ks \<Rightarrow> None, s\<lparr>gs_loader := Some l'\<rparr>)))"

definition active_skills :: "string \<Rightarrow> agent_service \<Rightarrow> skill list result" where
  "active_skills i s = (case gs_loader s of None \<Rightarrow> Inr [] | Some l \<Rightarrow> get_active_skills ''user'' i l)"

definition published :: "agent_service \<Rightarrow> string \<Rightarrow> (string \<times> string) list \<Rightarrow> agent_effect list" where
  "published s ty d = (if gs_bus s then [PublishEvent ty d] else [])"

text \<open>\<open>tname\<close> gives the names of the types, which generated code prints.\<close>

definition rpc_register ::
    "skill_codec \<Rightarrow> (id \<Rightarrow> save_faults) \<Rightarrow> timestamp \<Rightarrow> string \<Rightarrow> (pb_agent_type \<Rightarrow> string) \<Rightarrow> string \<Rightarrow> pb_agent_type
      \<Rightarrow> proto_agent_metadata option \<Rightarrow> proto_capabilities option \<Rightarrow> agent_service
      \<Rightarrow> (string \<times> proto_agent) rpc \<times> agent_effect list \<times> agent_service" where
  "rpc_register cd faults now gid tname name ty md caps s =
     (if name = '''' then (Inl GrpcInvalidArgument, [], s)
      else
        let info = \<lparr>ai_id = '''', ai_name = name, ai_type = proto_to_agent_type ty, ai_state = '''',
              ai_metadata = proto_to_agent_metadata md, ai_capabilities = caps, ai_registered = 0, ai_heartbeat = 0, ai_tasks = []\<rparr>
        in (case ar_register now gid info (gs_registry s) of
              (Some e, r) \<Rightarrow> (Inl (grpc_error e), [], s\<lparr>gs_registry := r\<rparr>)
            | (None, r) \<Rightarrow>
                let s1 = s\<lparr>gs_registry := r\<rparr>
                in (case ar_get gid r of
                      Inl e \<Rightarrow> (Inl (grpc_error e), [], s1)
                    | Inr a \<Rightarrow>
                        let s2 = snd (activate_skills cd faults now gid s1)
                        in (Inr (gid, agent_info_to_proto a),
                            published s2 ''agent.registered'' [(''agent_id'', gid), (''name'', name), (''type'', tname ty)], s2))))"

definition rpc_unregister :: "string \<Rightarrow> string \<Rightarrow> agent_service \<Rightarrow> unit rpc \<times> agent_effect list \<times> agent_service" where
  "rpc_unregister i reason s =
     (if i = '''' then (Inl GrpcInvalidArgument, [], s)
      else
        (case ar_unregister i (gs_registry s) of
           (Some e, r) \<Rightarrow> (Inl (grpc_error e), [], s\<lparr>gs_registry := r\<rparr>)
         | (None, r) \<Rightarrow> (Inr (), published s ''agent.unregistered'' [(''agent_id'', i), (''reason'', reason)], s\<lparr>gs_registry := r\<rparr>)))"

text \<open>The tasks that are pending are handed out and marked.\<close>

fun hand_out :: "task_ref list \<Rightarrow> agent_registry \<Rightarrow> string list \<times> agent_registry" where
  "hand_out [] r = ([], r)"
| "hand_out (k # ks) r =
     (if ti_state (ar_heap r k) = ''pending''
      then (case hand_out ks (upd_task k (\<lambda>t. t\<lparr>ti_state := ''started''\<rparr>) r) of (is, r') \<Rightarrow> (ti_id (ar_heap r k) # is, r'))
      else hand_out ks r)"

definition rpc_heartbeat :: "timestamp \<Rightarrow> string \<Rightarrow> agent_service \<Rightarrow> string list rpc \<times> agent_service" where
  "rpc_heartbeat now i s =
     (if i = '''' then (Inl GrpcInvalidArgument, s)
      else
        (case ar_update_heartbeat now i (gs_registry s) of
           (Some e, r) \<Rightarrow> (Inl (grpc_error e), s\<lparr>gs_registry := r\<rparr>)
         | (None, r) \<Rightarrow> (case hand_out (ar_list_tasks i r) r of (is, r') \<Rightarrow> (Inr is, s\<lparr>gs_registry := r'\<rparr>))))"

section \<open>Tasks\<close>

definition rpc_execute_task ::
    "timestamp \<Rightarrow> string \<Rightarrow> (pb_task_type \<Rightarrow> string) \<Rightarrow> string \<Rightarrow> string \<Rightarrow> proto_task_config option \<Rightarrow> pb_task_type \<Rightarrow> pb_task_priority
      \<Rightarrow> agent_service \<Rightarrow> (string \<times> proto_task) rpc \<times> agent_effect list \<times> agent_service" where
  "rpc_execute_task now gid tname i session cfg ty prio s =
     (if i = '''' \<or> session = '''' then (Inl GrpcInvalidArgument, [], s)
      else
        (case cfg of
           None \<Rightarrow> (Inl GrpcInvalidArgument, [], s)
         | Some c \<Rightarrow>
             let t = \<lparr>ti_id = '''', ti_name = ptk_command c, ti_session = session, ti_type = proto_to_task_type ty, ti_state = '''',
                   ti_priority = proto_to_task_priority prio, ti_config = Some c, ti_result = None, ti_error = None, ti_progress = 0,
                   ti_created = 0, ti_started = None, ti_completed = None\<rparr>
             in (case ar_add_task now gid i t (gs_registry s) of
                   (Some e, r) \<Rightarrow> (Inl (grpc_error e), [], s\<lparr>gs_registry := r\<rparr>)
                 | (None, r) \<Rightarrow>
                     (Inr (gid, task_info_to_proto (ar_heap r (ar_next (gs_registry s)))),
                      published s ''task.created'' [(''task_id'', gid), (''agent_id'', i), (''session_id'', session), (''type'', tname ty)],
                      s\<lparr>gs_registry := r\<rparr>))))"

definition rpc_cancel_task :: "timestamp \<Rightarrow> string \<Rightarrow> agent_service \<Rightarrow> pb_task_state rpc \<times> agent_service" where
  "rpc_cancel_task now i s =
     (if i = '''' then (Inl GrpcInvalidArgument, s)
      else
        (case ar_get_task i (gs_registry s) of
           Inl e \<Rightarrow> (Inl (grpc_error e), s)
         | Inr k \<Rightarrow>
             let r = upd_task k (cancelled_task now) (gs_registry s)
             in (Inr (task_state_to_proto (ti_state (ar_heap r k))), s\<lparr>gs_registry := r\<rparr>)))"

definition rpc_list_tasks :: "string \<Rightarrow> agent_service \<Rightarrow> (proto_task list \<times> int) rpc" where
  "rpc_list_tasks i s =
     (if i = '''' then Inl GrpcInvalidArgument
      else
        let ks = ar_list_tasks i (gs_registry s)
        in Inr (map (\<lambda>k. task_info_to_proto (ar_heap (gs_registry s) k)) ks, to_int32 (int (length ks))))"

definition rpc_get_task_status :: "string \<Rightarrow> agent_service \<Rightarrow> proto_task rpc" where
  "rpc_get_task_status i s =
     (if i = '''' then Inl GrpcInvalidArgument
      else
        (case ar_get_task i (gs_registry s) of
           Inl e \<Rightarrow> Inl (grpc_error e)
         | Inr k \<Rightarrow> Inr (task_info_to_proto (ar_heap (gs_registry s) k))))"

text \<open>
  One message on the stream of a task: the task of the stream, \<open>None\<close> before the first message.  A send
  that fails ends the stream with its error.
\<close>

datatype task_payload = TaskInput string | TaskBeat | TaskCancel string | TaskOtherPayload

datatype task_reply = ReplyBeat | ReplyOutput string | ReplyComplete string

datatype stream_end = StreamGoesOn | StreamDone | StreamFails go_error | StreamFailsWith grpc_code

definition stream_task_input :: "go_error option \<Rightarrow> task_payload \<Rightarrow> task_reply list \<times> go_error option" where
  "stream_task_input send pl = (case pl of TaskInput d \<Rightarrow> ([ReplyOutput d], send) | _ \<Rightarrow> ([], None))"

definition stream_task_step ::
    "timestamp \<Rightarrow> go_error option \<Rightarrow> string \<Rightarrow> task_payload \<Rightarrow> string option \<Rightarrow> agent_service
      \<Rightarrow> task_reply list \<times> stream_end \<times> string option \<times> agent_service" where
  "stream_task_step now send i pl cur s =
     (if pl = TaskBeat then ([ReplyBeat], case send of Some e \<Rightarrow> StreamFails e | None \<Rightarrow> StreamGoesOn, cur, s)
      else if cur = None \<and> i = '''' then ([], StreamFailsWith GrpcInvalidArgument, cur, s)
      else
        let t = (case cur of None \<Rightarrow> i | Some j \<Rightarrow> j)
        in case (if cur = None then ar_get_task t (gs_registry s) else Inr 0) of
             Inl e \<Rightarrow> ([], StreamFailsWith (grpc_error e), Some t, s)
           | Inr k0 \<Rightarrow>
               (case stream_task_input send pl of
                  (out, Some e) \<Rightarrow> (out, StreamFails e, Some t, s)
                | (out, None) \<Rightarrow>
                    (case pl of
                       TaskCancel reason \<Rightarrow>
                         (case ar_get_task t (gs_registry s) of
                            Inl e \<Rightarrow> (out, StreamDone, Some t, s)
                          | Inr k \<Rightarrow>
                              (out @ [ReplyComplete t], case send of Some e \<Rightarrow> StreamFails e | None \<Rightarrow> StreamDone, Some t,
                               s\<lparr>gs_registry := upd_task k (cancelled_task now) (gs_registry s)\<rparr>))
                     | _ \<Rightarrow> (out, StreamGoesOn, Some t, s))))"

section \<open>Routes\<close>

definition pending_response_key :: "string \<Rightarrow> string \<Rightarrow> string" where
  "pending_response_key agent corr = agent @ '':'' @ corr"

text \<open>What a message says of the request it answers: its correlation and its session.\<close>

definition header_of :: "string \<Rightarrow> data_message \<Rightarrow> string" where
  "header_of k d = (case mget (dm_headers d) k of None \<Rightarrow> '''' | Some v \<Rightarrow> trim_space v)"

definition response_routing_keys :: "agent_message \<Rightarrow> string \<times> string" where
  "response_routing_keys m =
     (let corr = (case agm_metadata m of None \<Rightarrow> '''' | Some d \<Rightarrow> trim_space (gmd_correlation d));
          sess = (case agm_metadata m of None \<Rightarrow> '''' | Some d \<Rightarrow> trim_space (gmd_session d))
      in case agm_data m of
           None \<Rightarrow> (corr, sess)
         | Some d \<Rightarrow> (if corr = '''' then header_of ''correlation_id'' d else corr,
                      if sess = '''' then header_of ''session_id'' d else sess))"

definition clear_pending :: "string \<Rightarrow> agent_service \<Rightarrow> agent_service" where
  "clear_pending k s = s\<lparr>gs_pending := mdel k (gs_pending s), gs_timers := mdel k (gs_timers s)\<rparr>"

definition deliver :: "agent_service \<Rightarrow> pending_route \<Rightarrow> id \<Rightarrow> message \<Rightarrow> agent_effect list" where
  "deliver s p session msg =
     (if gs_sessions s then [AddToSession session msg] else [])
     @ (case pr_handler p of None \<Rightarrow> [] | Some h \<Rightarrow> [AnswerClient h session msg])"

definition assistant_message :: "id \<Rightarrow> timestamp \<Rightarrow> string \<Rightarrow> message" where
  "assistant_message gid now t = \<lparr>msg_id = gid, msg_timestamp = now, msg_role = RoleAssistant, msg_content = t,
     msg_metadata = zero_message_metadata\<rparr>"

definition process_agent_response ::
    "id \<Rightarrow> timestamp \<Rightarrow> string \<Rightarrow> agent_message option \<Rightarrow> agent_service \<Rightarrow> agent_effect list \<times> agent_service" where
  "process_agent_response gid now agent mo s =
     (case mo of
        None \<Rightarrow> ([], s)
      | Some m \<Rightarrow>
          (case response_routing_keys m of
             (corr, sess) \<Rightarrow>
               if corr = '''' then ([], s)
               else
                 let k = pending_response_key agent corr
                 in (case mget (gs_pending s) k of
                       None \<Rightarrow> ([], s)
                     | Some p \<Rightarrow>
                         let s1 = clear_pending k s;
                             session = (if sess = '''' then pr_session p else sess)
                         in if session \<noteq> pr_session p then ([], s1)
                            else
                              (case agm_data m of
                                 None \<Rightarrow> ([], s1)
                               | Some d \<Rightarrow> (deliver s1 p session (assistant_message gid now (dm_data d)), s1)))))"

text \<open>The timer of a route runs out.\<close>

definition expire_pending :: "id \<Rightarrow> timestamp \<Rightarrow> string \<Rightarrow> agent_service \<Rightarrow> agent_effect list \<times> agent_service" where
  "expire_pending gid now k s =
     (case mget (gs_pending s) k of
        None \<Rightarrow> ([], s)
      | Some p \<Rightarrow>
          let s1 = clear_pending k s
          in (deliver s1 p (pr_session p) (assistant_message gid now ''Timed out waiting for assistant response.''), s1))"

section \<open>Streams of agents\<close>

text \<open>\<open>sendToAgentStream\<close> in the two steps between which the stream can be replaced.\<close>

definition send_lookup :: "string \<Rightarrow> agent_service \<Rightarrow> (stream_id \<times> nat) option" where
  "send_lookup agent s =
     (case (mget (gs_agent_streams s) agent, mget (gs_send_locks s) agent) of
        (Some st, Some lk) \<Rightarrow> Some (st, lk)
      | _ \<Rightarrow> None)"

definition send_locked ::
    "go_error option \<Rightarrow> string \<Rightarrow> (stream_id \<times> nat) option \<Rightarrow> (stream_id \<Rightarrow> agent_effect) \<Rightarrow> agent_service \<Rightarrow> go_error option \<times> agent_effect list" where
  "send_locked fault agent found eff s =
     (case found of
        None \<Rightarrow> (Some (new_error ErrUnavailable), [])
      | Some (st, lk) \<Rightarrow>
          if send_lookup agent s \<noteq> Some (st, lk) then (Some (new_error ErrUnavailable), [])
          else (map_option (wrap_error ErrInternal) fault, [eff st]))"

definition has_agent_stream :: "string \<Rightarrow> agent_service \<Rightarrow> bool" where
  "has_agent_stream agent s \<longleftrightarrow> mget (gs_agent_streams s) agent \<noteq> None"

text \<open>
  One message on the stream \<open>st\<close> of an agent.  \<open>cur\<close> is the agent of the stream, \<open>None\<close> before the first
  message that is not a heartbeat.
\<close>

datatype agent_payload = AgentBeat | AgentSays agent_message | AgentOtherPayload

definition open_agent_stream :: "stream_id \<Rightarrow> agent_service \<Rightarrow> agent_service" where
  "open_agent_stream st s = s\<lparr>gs_streams := st # remove1 st (gs_streams s)\<rparr>"

definition bind_agent_stream :: "string \<Rightarrow> stream_id \<Rightarrow> agent_service \<Rightarrow> agent_service" where
  "bind_agent_stream agent st s = s\<lparr>gs_agent_streams := mput agent st (gs_agent_streams s),
     gs_send_locks := mput agent (gs_next_lock s) (gs_send_locks s), gs_next_lock := Suc (gs_next_lock s)\<rparr>"

definition stream_agent_step ::
    "id \<Rightarrow> timestamp \<Rightarrow> go_error option \<Rightarrow> stream_id \<Rightarrow> string \<Rightarrow> agent_payload \<Rightarrow> string option \<Rightarrow> agent_service
      \<Rightarrow> agent_effect list \<times> stream_end \<times> string option \<times> agent_service" where
  "stream_agent_step gid now fault st agent pl cur s =
     (if pl = AgentBeat then
        (case cur of
           Some i \<Rightarrow>
             (case send_locked fault i (send_lookup i s) SendHeartbeat s of
                (Some e, effs) \<Rightarrow> (effs, StreamFails e, cur, s)
              | (None, effs) \<Rightarrow> (effs, StreamGoesOn, cur, s))
         | None \<Rightarrow> ([SendHeartbeat st], case fault of Some e \<Rightarrow> StreamFails e | None \<Rightarrow> StreamGoesOn, cur, s))
      else if cur = None \<and> agent = '''' then ([], StreamFailsWith GrpcInvalidArgument, None, s)
      else
        let i = (case cur of None \<Rightarrow> agent | Some j \<Rightarrow> j)
        in case (if cur = None then map_sum (\<lambda>e. e) (\<lambda>_. ()) (ar_get i (gs_registry s)) else Inr ()) of
             Inl e \<Rightarrow> ([], StreamFailsWith (grpc_error e), None, s)
           | Inr _ \<Rightarrow>
               let s1 = (if cur = None then bind_agent_stream i st s else s)
               in (case pl of
                     AgentSays m \<Rightarrow> (case process_agent_response gid now i (Some m) s1 of (effs, s2) \<Rightarrow> (effs, StreamGoesOn, Some i, s2))
                   | _ \<Rightarrow> ([], StreamGoesOn, Some i, s1)))"

text \<open>The stream ends: what the deferred functions do, for the agent it was bound to if any.\<close>

definition end_agent_stream :: "stream_id \<Rightarrow> string option \<Rightarrow> agent_service \<Rightarrow> agent_service" where
  "end_agent_stream st cur s =
     (let s1 = (case cur of
                  None \<Rightarrow> s
                | Some i \<Rightarrow>
                    fold clear_pending (filter (\<lambda>k. has_prefix k (i @ '':'')) (mkeys (gs_pending s)))
                      (s\<lparr>gs_agent_streams := mdel i (gs_agent_streams s), gs_send_locks := mdel i (gs_send_locks s)\<rparr>))
      in s1\<lparr>gs_streams := remove1 st (gs_streams s1)\<rparr>)"

section \<open>Messages to agents\<close>

definition rpc_send_message :: "string \<Rightarrow> string \<Rightarrow> agent_message option \<Rightarrow> agent_service \<Rightarrow> string rpc" where
  "rpc_send_message gid agent mo s =
     (if agent = '''' then Inl GrpcInvalidArgument
      else
        (case mo of
           None \<Rightarrow> Inl GrpcInvalidArgument
         | Some m \<Rightarrow>
             (case ar_get agent (gs_registry s) of
                Inl e \<Rightarrow> Inl (grpc_error e)
              | Inr a \<Rightarrow> Inr (if agm_id m = '''' then gid else agm_id m))))"

text \<open>
  \<open>RouteMessageToAgent\<close> in its steps: the route is made, the stream is looked up, the message is sent or
  the route removed.
\<close>

definition route_begin :: "timestamp \<Rightarrow> string \<Rightarrow> string \<Rightarrow> id \<Rightarrow> client_id option \<Rightarrow> agent_service \<Rightarrow> agent_service" where
  "route_begin now agent corr session h s =
     (let k = pending_response_key agent corr
      in s\<lparr>gs_pending := mput k \<lparr>pr_session = session, pr_handler = h, pr_created = now\<rparr> (gs_pending s),
           gs_timers := mput k agent (gs_timers s)\<rparr>)"

definition routed_message :: "string \<Rightarrow> string \<Rightarrow> string \<Rightarrow> id \<Rightarrow> timestamp \<Rightarrow> message \<Rightarrow> agent_message" where
  "routed_message rid agent corr session now m = \<lparr>agm_id = rid, agm_source = ''orchestrator'', agm_target = agent,
     agm_timestamp = timestamp_to_proto (Some (if ts_is_zero (msg_timestamp m) then now else msg_timestamp m)),
     agm_data = Some \<lparr>dm_content_type = ''text/plain'', dm_data = msg_content m, dm_headers = []\<rparr>,
     agm_metadata = Some \<lparr>gmd_correlation = corr, gmd_session = session\<rparr>\<rparr>"

definition route_finish ::
    "go_error option \<Rightarrow> string \<Rightarrow> string \<Rightarrow> agent_message \<Rightarrow> (stream_id \<times> nat) option \<Rightarrow> agent_service
      \<Rightarrow> go_error option \<times> agent_effect list \<times> agent_service" where
  "route_finish fault agent corr am found s =
     (case send_locked fault agent found (\<lambda>st. SendMessage st am) s of
        (Some e, effs) \<Rightarrow> (Some e, effs, clear_pending (pending_response_key agent corr) s)
      | (None, effs) \<Rightarrow> (None, effs, s))"

definition route_message_to_agent ::
    "go_error option \<Rightarrow> timestamp \<Rightarrow> string \<Rightarrow> string \<Rightarrow> string \<Rightarrow> id \<Rightarrow> message \<Rightarrow> client_id option \<Rightarrow> agent_service
      \<Rightarrow> go_error option \<times> agent_effect list \<times> agent_service" where
  "route_message_to_agent fault now rid corr agent session m h s =
     (let s1 = route_begin now agent corr session h s
      in route_finish fault agent corr (routed_message rid agent corr session now m) (send_lookup agent s1) s1)"

section \<open>Status\<close>

definition rpc_agent_status :: "agent_service \<Rightarrow> pb_status \<times> pb_agent_state \<times> int" where
  "rpc_agent_status s = (status_to_proto StatusRunning, PbAgentIdle,
     to_int32 (sum_list (map (\<lambda>a. mlen (ai_tasks a)) (ar_list (gs_registry s)))))"

definition rpc_health_check :: "pb_status \<times> string \<times> string list" where
  "rpc_health_check = (status_to_proto StatusRunning, ''dev'', [''agent_registry'', ''task_manager''])"

definition rpc_capabilities :: proto_capabilities where
  "rpc_capabilities = \<lparr>pcp_tasks = [''code_execution'', ''file_operation'', ''tool_execution''],
     pcp_tools = [''bash'', ''python'', ''file_reader''], pcp_max_concurrent = 10,
     pcp_limits = Some \<lparr>plm_nano_cpus = 1000000000, plm_memory_bytes = 1024 * 1024 * 1024, plm_memory_swap = 0, plm_pids = 0\<rparr>,
     pcp_streaming = True, pcp_cancellation = True, pcp_protocols = [''grpc'', ''uds'']\<rparr>"

text \<open>\<open>Close\<close> cancels contexts that nothing waits for, and forgets the streams.\<close>

definition close_agent_service :: "agent_service \<Rightarrow> agent_service" where
  "close_agent_service s = s\<lparr>gs_streams := []\<rparr>"

end
