(* ===== verification/Grpc_Agent_Proofs.thy ===== *)
theory Grpc_Agent_Proofs
  imports Grpc_Agent
begin

text \<open>
  Runs of the agent service: calls of the registry, routes being made, answered, running out and being
  dropped, streams that are bound and end, in any order.
\<close>

section \<open>Runs\<close>

datatype agent_call =
    AgRegister skill_codec "id \<Rightarrow> save_faults" timestamp string string pb_agent_type "proto_agent_metadata option" "proto_capabilities option"
  | AgUnregister string string
  | AgHeartbeat timestamp string
  | AgExecute timestamp string string string "proto_task_config option" pb_task_type pb_task_priority
  | AgCancel timestamp string
  | AgRoute timestamp string string id "client_id option"
  | AgSend "go_error option" string string agent_message "(stream_id \<times> nat) option"
  | AgBind string stream_id
  | AgMessage id timestamp string agent_message
  | AgExpire id timestamp string
  | AgEnd stream_id "string option"

text \<open>What is recorded of a run: what was done for the route of a key, and which tasks a heartbeat handed out.\<close>

datatype agent_record = Answered string "agent_effect list" | HandedOut "string list"

type_synonym agent_run = "agent_service \<times> agent_record list"

fun agent_exec :: "agent_run \<Rightarrow> agent_call \<Rightarrow> agent_run" where
  "agent_exec (s, g) (AgRegister cd f now gid name ty md caps) = (snd (snd (rpc_register cd f now gid (\<lambda>_. '''') name ty md caps s)), g)"
| "agent_exec (s, g) (AgUnregister i reason) = (snd (snd (rpc_unregister i reason s)), g)"
| "agent_exec (s, g) (AgHeartbeat now i) =
     (case rpc_heartbeat now i s of (r, s') \<Rightarrow> (s', g @ [HandedOut (case r of Inl e \<Rightarrow> [] | Inr ts \<Rightarrow> ts)]))"
| "agent_exec (s, g) (AgExecute now gid i session cfg ty prio) = (snd (snd (rpc_execute_task now gid (\<lambda>_. '''') i session cfg ty prio s)), g)"
| "agent_exec (s, g) (AgCancel now i) = (snd (rpc_cancel_task now i s), g)"
| "agent_exec (s, g) (AgRoute now agent corr session h) = (route_begin now agent corr session h s, g)"
| "agent_exec (s, g) (AgSend fault agent corr am found) = (snd (snd (route_finish fault agent corr am found s)), g)"
| "agent_exec (s, g) (AgBind agent st) = (bind_agent_stream agent st s, g)"
| "agent_exec (s, g) (AgMessage gid now agent m) =
     (case process_agent_response gid now agent (Some m) s of
        (effs, s') \<Rightarrow> (s', g @ [Answered (pending_response_key agent (fst (response_routing_keys m))) effs]))"
| "agent_exec (s, g) (AgExpire gid now k) = (case expire_pending gid now k s of (effs, s') \<Rightarrow> (s', g @ [Answered k effs]))"
| "agent_exec (s, g) (AgEnd st cur) = (end_agent_stream st cur s, g)"

section \<open>Routes and their answers\<close>

text \<open>The routes that a run has made, by key.\<close>

fun route_of :: "agent_call \<Rightarrow> (string \<times> id \<times> client_id option) list" where
  "route_of (AgRoute now agent corr session h) = [(pending_response_key agent corr, session, h)]"
| "route_of _ = []"

definition routes :: "agent_call list \<Rightarrow> (string \<times> id \<times> client_id option) list" where
  "routes cs = concat (map route_of cs)"

text \<open>Effects that answer the client of a route, and nobody else.\<close>

definition answers_route :: "id \<Rightarrow> client_id option \<Rightarrow> agent_effect list \<Rightarrow> bool" where
  "answers_route session h effs \<longleftrightarrow>
     (\<forall>e \<in> set effs. case e of AddToSession i m \<Rightarrow> i = session | AnswerClient c i m \<Rightarrow> i = session \<and> h = Some c | _ \<Rightarrow> False)"

fun answered_key :: "agent_record \<Rightarrow> string list" where
  "answered_key (Answered k effs) = (if effs = [] then [] else [k])"
| "answered_key (HandedOut ts) = []"

definition answered_keys :: "agent_record list \<Rightarrow> string list" where
  "answered_keys g = concat (map answered_key g)"

definition routing_ok :: "(string \<times> id \<times> client_id option) list \<Rightarrow> agent_run \<Rightarrow> bool" where
  "routing_ok rs x \<longleftrightarrow>
     (\<forall>k p. mget (gs_pending (fst x)) k = Some p \<longrightarrow> (k, pr_session p, pr_handler p) \<in> set rs \<and> k \<notin> set (answered_keys (snd x)))
     \<and> distinct (answered_keys (snd x))
     \<and> (\<forall>k effs. Answered k effs \<in> set (snd x) \<longrightarrow> effs \<noteq> [] \<longrightarrow>
          (\<exists>session h. (k, session, h) \<in> set rs \<and> answers_route session h effs))"

lemma answered_keys_record: "k \<in> set (answered_keys g) \<Longrightarrow> \<exists>effs. Answered k effs \<in> set g \<and> effs \<noteq> []"
proof -
  assume "k \<in> set (answered_keys g)"
  then obtain x where x: "x \<in> set g" "k \<in> set (answered_key x)" by (auto simp: answered_keys_def)
  show ?thesis
  proof (cases x)
    case (Answered j effs)
    then show ?thesis using x by (auto split: if_splits)
  qed (use x in simp)
qed

lemma deliver_answers: "answers_route i (pr_handler p) (deliver s p i m)"
  by (auto simp: answers_route_def deliver_def split: option.splits)

lemma routing_ok_same:
  assumes "routing_ok rs (s, g)" and "\<And>k p. mget (gs_pending s') k = Some p \<Longrightarrow> mget (gs_pending s) k = Some p"
  shows "routing_ok rs (s', g)"
  using assms unfolding routing_ok_def fst_conv snd_conv by blast

lemma routing_ok_more: "routing_ok rs x \<Longrightarrow> set rs \<subseteq> set rs' \<Longrightarrow> routing_ok rs' x"
  unfolding routing_ok_def by blast

lemma routing_ok_handed: "routing_ok rs (s, g) \<Longrightarrow> routing_ok rs (s, g @ [HandedOut ts])"
  by (auto simp: routing_ok_def answered_keys_def)

lemma routing_ok_answered:
  assumes ok: "routing_ok rs (s, g)"
    and gone: "\<And>j p. mget (gs_pending s') j = Some p \<Longrightarrow> mget (gs_pending s) j = Some p \<and> (effs \<noteq> [] \<longrightarrow> j \<noteq> k)"
    and eff: "effs \<noteq> [] \<Longrightarrow> \<exists>p. mget (gs_pending s) k = Some p \<and> answers_route (pr_session p) (pr_handler p) effs"
  shows "routing_ok rs (s', g @ [Answered k effs])"
proof (cases "effs = []")
  case True
  then show ?thesis using ok gone by (auto simp: routing_ok_def answered_keys_def)
next
  case False
  then obtain p where p: "mget (gs_pending s) k = Some p" "answers_route (pr_session p) (pr_handler p) effs" using eff by blast
  then have k: "(k, pr_session p, pr_handler p) \<in> set rs" "k \<notin> set (answered_keys g)"
    using ok by (auto simp: routing_ok_def)
  have keys: "answered_keys (g @ [Answered k effs]) = answered_keys g @ [k]" using False by (simp add: answered_keys_def)
  show ?thesis unfolding routing_ok_def fst_conv snd_conv keys
  proof (intro conjI allI impI)
    fix j q assume "mget (gs_pending s') j = Some q"
    then have "mget (gs_pending s) j = Some q" "j \<noteq> k" using gone False by blast+
    then show "(j, pr_session q, pr_handler q) \<in> set rs" "j \<notin> set (answered_keys g @ [k])"
      using ok by (auto simp: routing_ok_def)
  next
    show "distinct (answered_keys g @ [k])" using ok k(2) by (simp add: routing_ok_def)
  next
    fix j effs' assume "Answered j effs' \<in> set (g @ [Answered k effs])" "effs' \<noteq> []"
    then show "\<exists>session h. (j, session, h) \<in> set rs \<and> answers_route session h effs'"
      using ok k(1) p(2) by (auto simp: routing_ok_def)
  qed
qed

lemma clear_pending_get: "mget (gs_pending (clear_pending k s)) j = (if j = k then None else mget (gs_pending s) j)"
  by (simp add: clear_pending_def)

lemma fold_clear_pending_get:
  "mget (gs_pending (fold clear_pending ks s)) j = (if j \<in> set ks then None else mget (gs_pending s) j)"
  by (induction ks arbitrary: s) (auto simp: clear_pending_get)

lemma registry_keeps_pending:
  "gs_pending (snd (snd (rpc_register cd f now gid tn name ty md caps s))) = gs_pending s"
  "gs_pending (snd (snd (rpc_unregister i reason s))) = gs_pending s"
  "gs_pending (snd (rpc_heartbeat now i s)) = gs_pending s"
  "gs_pending (snd (snd (rpc_execute_task now gid tt i session cfg tty prio s))) = gs_pending s"
  "gs_pending (snd (rpc_cancel_task now i s)) = gs_pending s"
  by (auto simp: rpc_register_def rpc_unregister_def rpc_heartbeat_def rpc_execute_task_def rpc_cancel_task_def
      activate_skills_def Let_def split: option.splits sum.splits prod.splits)

lemma response_effects:
  assumes "process_agent_response gid now agent (Some m) s = (effs, s')" and "k = pending_response_key agent (fst (response_routing_keys m))"
  shows "\<And>j p. mget (gs_pending s') j = Some p \<Longrightarrow> mget (gs_pending s) j = Some p \<and> (effs \<noteq> [] \<longrightarrow> j \<noteq> k)"
    and "effs \<noteq> [] \<Longrightarrow> \<exists>p. mget (gs_pending s) k = Some p \<and> answers_route (pr_session p) (pr_handler p) effs"
  using assms
  by (auto simp: process_agent_response_def Let_def clear_pending_get deliver_answers
      split: prod.splits option.splits if_splits)

lemma expiry_effects:
  assumes "expire_pending gid now k s = (effs, s')"
  shows "\<And>j p. mget (gs_pending s') j = Some p \<Longrightarrow> mget (gs_pending s) j = Some p \<and> (effs \<noteq> [] \<longrightarrow> j \<noteq> k)"
    and "effs \<noteq> [] \<Longrightarrow> \<exists>p. mget (gs_pending s) k = Some p \<and> answers_route (pr_session p) (pr_handler p) effs"
  using assms by (auto simp: expire_pending_def Let_def clear_pending_get deliver_answers split: option.splits if_splits)

lemma routing_ok_exec:
  assumes ok: "routing_ok rs x" and new: "\<forall>(k, d) \<in> set (route_of c). k \<notin> fst ` set rs"
  shows "routing_ok (rs @ route_of c) (agent_exec x c)"
proof -
  obtain s g where x: "x = (s, g)" by fastforce
  have ok': "routing_ok rs (s, g)" using ok x by simp
  show ?thesis
  proof (cases c)
    case (AgRoute now agent corr session h)
    let ?k = "pending_response_key agent corr"
    have k: "?k \<notin> fst ` set rs" using new AgRoute by simp
    have "?k \<notin> set (answered_keys g)"
    proof
      assume "?k \<in> set (answered_keys g)"
      then obtain effs where "Answered ?k effs \<in> set g" "effs \<noteq> []"
        by (blast dest: answered_keys_record)
      then show False using ok' k unfolding routing_ok_def by force
    qed
    moreover have "routing_ok (rs @ [(?k, session, h)]) (s, g)" by (rule routing_ok_more [OF ok']) auto
    ultimately show ?thesis unfolding routing_ok_def AgRoute x
      by (simp add: route_begin_def Let_def) blast
  next
    case (AgMessage gid now agent m)
    then show ?thesis using routing_ok_answered [OF ok'] response_effects [OF _ refl]
      by (auto simp: x split: prod.splits)
  next
    case (AgExpire gid now k)
    then show ?thesis using routing_ok_answered [OF ok'] expiry_effects by (auto simp: x split: prod.splits)
  next
    case (AgHeartbeat now i)
    obtain r s' where h: "rpc_heartbeat now i s = (r, s')" by fastforce
    then have "gs_pending s' = gs_pending s" using registry_keeps_pending(3) [of now i s] by simp
    then have "routing_ok rs (s', g)" by (intro routing_ok_same [OF ok']) simp
    then show ?thesis using AgHeartbeat h by (simp add: x routing_ok_handed)
  next
    case (AgSend fault agent corr am found)
    have "routing_ok rs (snd (snd (route_finish fault agent corr am found s)), g)"
      by (rule routing_ok_same [OF ok']) (auto simp: route_finish_def clear_pending_get split: option.splits prod.splits if_splits)
    then show ?thesis using AgSend by (simp add: x)
  next
    case (AgEnd st cur)
    have "routing_ok rs (end_agent_stream st cur s, g)"
      by (rule routing_ok_same [OF ok']) (auto simp: end_agent_stream_def Let_def fold_clear_pending_get split: option.splits if_splits)
    then show ?thesis using AgEnd by (simp add: x)
  next
    case (AgBind agent st)
    have "routing_ok rs (bind_agent_stream agent st s, g)"
      by (rule routing_ok_same [OF ok']) (simp add: bind_agent_stream_def)
    then show ?thesis using AgBind by (simp add: x)
  qed (simp add: x, rule routing_ok_same [OF ok'], simp add: registry_keeps_pending)+
qed

lemma routes_snoc: "routes (cs @ [c]) = routes cs @ route_of c"
  by (simp add: routes_def)

lemma route_of_single: "length (route_of c) \<le> 1"
  by (cases c) auto

lemma distinct_routes_snoc: "distinct (map fst (routes (cs @ [c]))) \<Longrightarrow> distinct (map fst (routes cs))
    \<and> (\<forall>(k, d) \<in> set (route_of c). k \<notin> fst ` set (routes cs))"
  by (force simp: routes_snoc)

lemma run_routing_ok:
  "distinct (map fst (routes cs)) \<Longrightarrow> routing_ok (routes cs) (foldl agent_exec (new_agent_service b sb l, []) cs)"
proof (induction cs rule: rev_induct)
  case Nil
  then show ?case by (simp add: routing_ok_def new_agent_service_def answered_keys_def)
next
  case (snoc c cs)
  note d = distinct_routes_snoc [OF snoc.prems]
  show ?case
    using routing_ok_exec [OF snoc.IH [OF d [THEN conjunct1]] d [THEN conjunct2]] by (simp add: routes_snoc)
qed

text \<open>
  C35: Over any calls of the service, in which each routed request has a correlation of its own, a request
  is answered at most once, by its agent's message or by its time-out, and everything that is added to a
  session or sent to a client for it goes to the session and the client that made the request.
\<close>

theorem answers_reach_only_their_session:
  assumes "distinct (map fst (routes cs))" and "foldl agent_exec (new_agent_service b sb l, []) cs = (s, g)"
  shows "distinct (answered_keys g)
    \<and> (\<forall>k effs. Answered k effs \<in> set g \<longrightarrow> effs \<noteq> [] \<longrightarrow>
         (\<exists>session h. (k, session, h) \<in> set (routes cs) \<and> answers_route session h effs))
    \<and> (\<forall>k. mget (gs_pending s) k \<noteq> None \<longrightarrow> k \<notin> set (answered_keys g))"
proof -
  have ok: "routing_ok (routes cs) (s, g)" using run_routing_ok [OF assms(1), of b sb l] assms(2) by simp
  then show ?thesis unfolding routing_ok_def fst_conv snd_conv by blast
qed

definition answer_message :: "string \<Rightarrow> string \<Rightarrow> string \<Rightarrow> agent_message" where
  "answer_message corr session t = \<lparr>agm_id = ''r'', agm_source = ''a1'', agm_target = '''', agm_timestamp = None,
     agm_data = Some \<lparr>dm_content_type = ''text/plain'', dm_data = t, dm_headers = []\<rparr>,
     agm_metadata = Some \<lparr>gmd_correlation = corr, gmd_session = session\<rparr>\<rparr>"

definition agent_calls :: "agent_call list" where
  "agent_calls = [AgRoute 1 ''a1'' ''k1'' ''s1'' (Some 7), AgRoute 1 ''a1'' ''k2'' ''s2'' (Some 8),
     AgMessage ''m1'' 2 ''a1'' (answer_message ''k1'' ''s1'' ''hello''), AgMessage ''m2'' 3 ''a1'' (answer_message ''k1'' ''s1'' ''again''),
     AgExpire ''m3'' 4 ''a1:k2'']"

lemma agent_calls_run:
  "map (\<lambda>x. case x of Answered k effs \<Rightarrow> (k, length effs) | HandedOut ts \<Rightarrow> ('''', 0))
     (snd (foldl agent_exec (new_agent_service False True None, []) agent_calls)) = [(''a1:k1'', 2), (''a1:k1'', 0), (''a1:k2'', 2)]"
  by code_simp

theorem answers_reach_only_their_session_witness:
  "distinct (answered_keys (snd (foldl agent_exec (new_agent_service False True None, []) agent_calls)))
   \<and> length (snd (foldl agent_exec (new_agent_service False True None, []) agent_calls)) = 3"
proof -
  let ?x = "foldl agent_exec (new_agent_service False True None, []) agent_calls"
  have "distinct (map fst (routes agent_calls))" by (simp add: agent_calls_def routes_def pending_response_key_def)
  from answers_reach_only_their_session [OF this, of False True None "fst ?x" "snd ?x"]
  have "distinct (answered_keys (snd ?x))" by simp
  moreover have "length (snd ?x) = 3" using arg_cong [OF agent_calls_run, of length] by simp
  ultimately show ?thesis by blast
qed

text \<open>
  C36: An answer with another session than the request's, or without data, uses the request up: nothing is
  delivered, the route and its timer are gone, and neither a later answer nor the time-out delivers
  anything: the client is never answered.
\<close>

theorem wrong_answer_silences_request:
  assumes "mget (gs_pending s) k = Some p" and "response_routing_keys m = (corr, sess)" and "corr \<noteq> ''''"
    and "k = pending_response_key agent corr" and "(sess \<noteq> '''' \<and> sess \<noteq> pr_session p) \<or> agm_data m = None"
  shows "\<exists>s'. process_agent_response gid now agent (Some m) s = ([], s') \<and> mget (gs_pending s') k = None \<and> mget (gs_timers s') k = None
    \<and> (\<forall>gid2 now2. expire_pending gid2 now2 k s' = ([], s'))
    \<and> (\<forall>gid2 now2 m2. fst (response_routing_keys m2) = corr \<longrightarrow> process_agent_response gid2 now2 agent (Some m2) s' = ([], s'))"
proof -
  let ?s = "clear_pending k s"
  have r: "process_agent_response gid now agent (Some m) s = ([], ?s)"
    using assms by (auto simp: process_agent_response_def Let_def split: option.splits)
  have n: "mget (gs_pending ?s) k = None" "mget (gs_timers ?s) k = None" by (simp_all add: clear_pending_def)
  have "process_agent_response gid2 now2 agent (Some m2) ?s = ([], ?s)" if "fst (response_routing_keys m2) = corr" for gid2 now2 m2
    using that n assms(4) by (auto simp: process_agent_response_def Let_def split: prod.splits)
  moreover have "expire_pending gid2 now2 k ?s = ([], ?s)" for gid2 now2 using n by (simp add: expire_pending_def)
  ultimately show ?thesis using r n by blast
qed

definition waiting_service :: agent_service where
  "waiting_service = route_begin 1 ''a1'' ''k1'' ''s1'' (Some 7) (new_agent_service False True None)"

theorem wrong_answer_silences_request_witness:
  "\<exists>s'. process_agent_response ''m'' 2 ''a1'' (Some (answer_message ''k1'' ''s2'' ''hello'')) waiting_service = ([], s')
    \<and> process_agent_response ''m'' 3 ''a1'' (Some (answer_message ''k1'' ''s1'' ''hello'')) s' = ([], s')
    \<and> expire_pending ''m'' 40 ''a1:k1'' s' = ([], s')"
proof -
  have p: "mget (gs_pending waiting_service) ''a1:k1'' = Some \<lparr>pr_session = ''s1'', pr_handler = Some 7, pr_created = 1\<rparr>"
    by (simp add: waiting_service_def route_begin_def pending_response_key_def new_agent_service_def Let_def)
  have k: "response_routing_keys (answer_message ''k1'' ''s2'' ''hello'') = (''k1'', ''s2'')"
    "fst (response_routing_keys (answer_message ''k1'' ''s1'' ''hello'')) = ''k1''" by code_simp+
  show ?thesis
    using wrong_answer_silences_request [OF p k(1), of "''a1''" "''m''" 2] k(2) by (auto simp: pending_response_key_def)
qed

section \<open>The registry over a run\<close>

text \<open>
  Every task that the registry or an agent knows is in the store under its identifier, in one of three
  states and without a result; an agent is busy exactly if it has been given a task.
\<close>

definition task_listed :: "agent_registry \<Rightarrow> string \<Rightarrow> task_ref \<Rightarrow> bool" where
  "task_listed r i k \<longleftrightarrow> k < ar_next r \<and> ti_id (ar_heap r k) = i"

definition task_open :: "task_info \<Rightarrow> bool" where
  "task_open t \<longleftrightarrow> ti_state t \<in> {''pending'', ''started'', ''cancelled''} \<and> ti_result t = None \<and> ti_error t = None"

definition agent_ok :: "agent_registry \<Rightarrow> string \<Rightarrow> agent_info \<Rightarrow> bool" where
  "agent_ok r i a \<longleftrightarrow> ai_id a = i \<and> mall (task_listed r) (ai_tasks a) \<and> ai_state a = (if ai_tasks a = [] then ''idle'' else ''busy'')"

definition agents_ok :: "agent_registry \<Rightarrow> bool" where
  "agents_ok r \<longleftrightarrow> mall (task_listed r) (ar_tasks r) \<and> (\<forall>k < ar_next r. task_open (ar_heap r k)) \<and> mall (agent_ok r) (ar_agents r)"

text \<open>A change of tasks that keeps their identifiers keeps what is listed.\<close>

lemma registry_ok_tasks:
  assumes "agents_ok r" and "ar_agents r' = ar_agents r" "ar_tasks r' = ar_tasks r" "ar_next r' = ar_next r"
    and "\<And>k. ti_id (ar_heap r' k) = ti_id (ar_heap r k)" and "\<And>k. task_open (ar_heap r k) \<Longrightarrow> task_open (ar_heap r' k)"
  shows "agents_ok r'"
proof -
  have "task_listed r' = task_listed r" using assms(4,5) by (intro ext) (simp add: task_listed_def)
  then have "agent_ok r' = agent_ok r" by (intro ext) (simp add: agent_ok_def)
  then show ?thesis using assms \<open>task_listed r' = task_listed r\<close> by (simp add: agents_ok_def)
qed

lemma cancelled_task_keeps: "ti_id (cancelled_task now t) = ti_id t" "task_open t \<Longrightarrow> task_open (cancelled_task now t)"
  by (simp_all add: cancelled_task_def task_open_def)

lemma upd_task_fields:
  "ar_agents (upd_task k f r) = ar_agents r" "ar_tasks (upd_task k f r) = ar_tasks r" "ar_next (upd_task k f r) = ar_next r"
  "ar_heap (upd_task k f r) j = (if j = k then f (ar_heap r k) else ar_heap r j)"
  by (simp_all add: upd_task_def)

lemma hand_out_fields:
  "ar_agents (snd (hand_out ks r)) = ar_agents r \<and> ar_tasks (snd (hand_out ks r)) = ar_tasks r \<and> ar_next (snd (hand_out ks r)) = ar_next r"
  by (induction ks r rule: hand_out.induct) (auto simp: upd_task_fields split: prod.splits)

lemma hand_out_heap:
  "ar_heap (snd (hand_out ks r)) j =
     (if j \<in> set ks \<and> ti_state (ar_heap r j) = ''pending'' then (ar_heap r j)\<lparr>ti_state := ''started''\<rparr> else ar_heap r j)"
  by (induction ks r rule: hand_out.induct) (auto simp: upd_task_fields split: prod.splits)

lemma hand_out_ids:
  "i \<in> set (fst (hand_out ks r)) \<Longrightarrow> \<exists>k \<in> set ks. ti_state (ar_heap r k) = ''pending'' \<and> ti_id (ar_heap r k) = i"
proof (induction ks r rule: hand_out.induct)
  case (2 k ks r)
  show ?case
  proof (cases "ti_state (ar_heap r k) = ''pending''")
    case True
    let ?r = "upd_task k (\<lambda>t. t\<lparr>ti_state := ''started''\<rparr>) r"
    have "i = ti_id (ar_heap r k) \<or> i \<in> set (fst (hand_out ks ?r))" using "2.prems" True by (auto split: prod.splits)
    then show ?thesis
    proof
      assume "i \<in> set (fst (hand_out ks ?r))"
      then obtain j where "j \<in> set ks" "ti_state (ar_heap ?r j) = ''pending''" "ti_id (ar_heap ?r j) = i" using "2.IH"(1) True by blast
      then show ?thesis by (auto simp: upd_task_fields split: if_splits)
    qed (use True in auto)
  next
    case False
    then show ?thesis using 2 by auto
  qed
qed simp

lemma hand_out_distinct:
  "(\<And>j k. j \<in> set ks \<Longrightarrow> k \<in> set ks \<Longrightarrow> ti_id (ar_heap r j) = ti_id (ar_heap r k) \<Longrightarrow> j = k) \<Longrightarrow> distinct (fst (hand_out ks r))"
proof (induction ks r rule: hand_out.induct)
  case (2 k ks r)
  show ?case
  proof (cases "ti_state (ar_heap r k) = ''pending''")
    case True
    let ?r = "upd_task k (\<lambda>t. t\<lparr>ti_state := ''started''\<rparr>) r"
    have ids: "ti_id (ar_heap ?r j) = ti_id (ar_heap r j)" for j by (simp add: upd_task_fields)
    have "distinct (fst (hand_out ks ?r))" by (rule "2.IH"(1) [OF True]) (simp add: ids "2.prems")
    moreover have "ti_id (ar_heap r k) \<notin> set (fst (hand_out ks ?r))"
    proof
      assume "ti_id (ar_heap r k) \<in> set (fst (hand_out ks ?r))"
      then obtain j where j: "j \<in> set ks" "ti_state (ar_heap ?r j) = ''pending''" "ti_id (ar_heap ?r j) = ti_id (ar_heap r k)"
        using hand_out_ids by blast
      then have "j = k" using "2.prems" ids by simp
      then show False using j(2) by (simp add: upd_task_fields)
    qed
    ultimately show ?thesis using True by (auto split: prod.splits)
  next
    case False
    then show ?thesis using 2 by auto
  qed
qed simp

lemma hand_out_registry_ok: "agents_ok r \<Longrightarrow> agents_ok (snd (hand_out ks r))"
  by (rule registry_ok_tasks) (auto simp: hand_out_fields hand_out_heap task_open_def)

lemma add_task_registry_ok:
  assumes ok: "agents_ok r" and a: "ar_add_task now gid i t r = (e, r')" and t: "ti_result t = None" "ti_error t = None"
  shows "agents_ok r'"
proof (cases "mget (ar_agents r) i")
  case None
  then show ?thesis using a ok by (simp add: ar_add_task_def)
next
  case (Some b)
  let ?k = "ar_next r"
  have r': "r' = r\<lparr>ar_tasks := mput gid ?k (ar_tasks r), ar_next := Suc ?k,
      ar_heap := (ar_heap r)(?k := t\<lparr>ti_id := gid, ti_created := now, ti_state := ''pending''\<rparr>),
      ar_agents := mput i (b\<lparr>ai_tasks := mput gid ?k (ai_tasks b), ai_state := ''busy''\<rparr>) (ar_agents r)\<rparr>"
    using a Some by (simp add: ar_add_task_def Let_def)
  have listed: "task_listed r j k \<Longrightarrow> task_listed r' j k" for j k by (auto simp: task_listed_def r')
  have new: "task_listed r' gid ?k" by (simp add: task_listed_def r')
  have listed_all: "mall (task_listed r) m \<Longrightarrow> mall (task_listed r') m" for m by (rule mall_mono [OF _ listed])
  have agent: "agent_ok r j c \<Longrightarrow> agent_ok r' j c" for j c by (simp add: agent_ok_def listed_all)
  have b: "agent_ok r i b" using ok Some mall_get unfolding agents_ok_def by fast
  have "mput gid ?k m \<noteq> []" for m :: "(string, task_ref) gomap"
  proof
    assume "mput gid ?k m = []"
    then have "mget (mput gid ?k m) gid = None" by simp
    then show False by simp
  qed
  then have "agent_ok r' i (b\<lparr>ai_tasks := mput gid ?k (ai_tasks b), ai_state := ''busy''\<rparr>)"
    using b new mall_mput [OF listed_all] by (auto simp: agent_ok_def)
  then have "mall (agent_ok r') (ar_agents r')"
    using mall_mput [OF mall_mono [OF _ agent]] ok by (auto simp: agents_ok_def r')
  moreover have "mall (task_listed r') (ar_tasks r')"
    using mall_mput [OF listed_all new] ok by (auto simp: agents_ok_def r')
  moreover have "task_open (ar_heap r' k)" if "k < ar_next r'" for k
    using that ok t by (cases "k = ?k") (auto simp: agents_ok_def r' task_open_def less_Suc_eq)
  ultimately show ?thesis by (simp add: agents_ok_def)
qed

lemma listed_agents [simp]:
  "task_listed (r\<lparr>ar_agents := m\<rparr>) = task_listed r" "agent_ok (r\<lparr>ar_agents := m\<rparr>) = agent_ok r"
  "agents_ok (r\<lparr>ar_agents := m\<rparr>) \<longleftrightarrow> mall (task_listed r) (ar_tasks r) \<and> (\<forall>k < ar_next r. task_open (ar_heap r k)) \<and> mall (agent_ok r) m"
proof -
  show l: "task_listed (r\<lparr>ar_agents := m\<rparr>) = task_listed r" by (intro ext) (simp add: task_listed_def)
  show a: "agent_ok (r\<lparr>ar_agents := m\<rparr>) = agent_ok r" by (intro ext) (simp add: agent_ok_def l)
  show "agents_ok (r\<lparr>ar_agents := m\<rparr>) \<longleftrightarrow> mall (task_listed r) (ar_tasks r) \<and> (\<forall>k < ar_next r. task_open (ar_heap r k)) \<and> mall (agent_ok r) m"
    by (simp add: agents_ok_def l a)
qed

text \<open>A step that makes no task: what was handed out stays handed out.\<close>

definition quiet_step :: "agent_registry \<Rightarrow> agent_registry \<Rightarrow> bool" where
  "quiet_step r r' \<longleftrightarrow> agents_ok r' \<and> ar_next r' = ar_next r \<and> (\<forall>k. ti_id (ar_heap r' k) = ti_id (ar_heap r k))
     \<and> (\<forall>k. ti_state (ar_heap r k) \<noteq> ''pending'' \<longrightarrow> ti_state (ar_heap r' k) \<noteq> ''pending'')"

lemma register_step: "agents_ok r \<Longrightarrow> quiet_step r (snd (ar_register now i info r))"
  by (auto simp: quiet_step_def ar_register_def agent_ok_def agents_ok_def [of r] intro!: mall_mput)

lemma unregister_step: "agents_ok r \<Longrightarrow> quiet_step r (snd (ar_unregister i r))"
  by (auto simp: quiet_step_def ar_unregister_def agents_ok_def [of r] intro!: mall_mdel)

lemma heartbeat_step:
  assumes "agents_ok r"
  shows "quiet_step r (snd (ar_update_heartbeat now i r))"
proof (cases "mget (ar_agents r) i")
  case (Some a)
  have all: "mall (agent_ok r) (ar_agents r)" using assms by (simp add: agents_ok_def)
  have "agent_ok r i (a\<lparr>ai_heartbeat := now\<rparr>)" using mall_get [OF all Some] by (simp add: agent_ok_def)
  then show ?thesis using assms Some mall_mput [OF all]
    by (auto simp: quiet_step_def ar_update_heartbeat_def agents_ok_def [of r])
qed (use assms in \<open>simp add: quiet_step_def ar_update_heartbeat_def\<close>)

lemma cancel_task_step: "agents_ok r \<Longrightarrow> quiet_step r (upd_task k (cancelled_task now) r)"
  unfolding quiet_step_def
  by (intro conjI, rule registry_ok_tasks)
     (auto simp: upd_task_fields cancelled_task_keeps, simp_all add: cancelled_task_def)

lemma hand_out_step: "agents_ok r \<Longrightarrow> quiet_step r (snd (hand_out ks r))"
  by (simp add: quiet_step_def hand_out_registry_ok hand_out_fields hand_out_heap)

lemma quiet_step_trans: "quiet_step r r1 \<Longrightarrow> quiet_step r1 r2 \<Longrightarrow> quiet_step r r2"
  by (simp add: quiet_step_def)

fun handed_of :: "agent_record \<Rightarrow> string list" where
  "handed_of (HandedOut ts) = ts"
| "handed_of (Answered k effs) = []"

definition handed :: "agent_record list \<Rightarrow> string list" where
  "handed g = concat (map handed_of g)"

fun task_id_of :: "agent_call \<Rightarrow> string list" where
  "task_id_of (AgExecute now gid i session cfg ty prio) = [gid]"
| "task_id_of _ = []"

definition task_ids :: "agent_call list \<Rightarrow> string list" where
  "task_ids cs = concat (map task_id_of cs)"

definition registry_run_ok :: "string list \<Rightarrow> agent_registry \<Rightarrow> string list \<Rightarrow> bool" where
  "registry_run_ok is r h \<longleftrightarrow> agents_ok r \<and> inj_on (\<lambda>k. ti_id (ar_heap r k)) {..<ar_next r}
     \<and> (\<forall>k < ar_next r. ti_id (ar_heap r k) \<in> set is) \<and> distinct h
     \<and> (\<forall>i \<in> set h. \<exists>k < ar_next r. ti_id (ar_heap r k) = i \<and> ti_state (ar_heap r k) \<noteq> ''pending'')"

lemma run_ok_quiet: "registry_run_ok is r h \<Longrightarrow> quiet_step r r' \<Longrightarrow> registry_run_ok is r' h"
  unfolding registry_run_ok_def quiet_step_def inj_on_def by (simp only: simp_thms) metis

lemma run_ok_handed:
  "registry_run_ok is r h \<Longrightarrow> i \<in> set h \<Longrightarrow> \<exists>k < ar_next r. ti_id (ar_heap r k) = i \<and> ti_state (ar_heap r k) \<noteq> ''pending''"
  by (simp add: registry_run_ok_def)

lemma run_ok_more: "registry_run_ok is r h \<Longrightarrow> set is \<subseteq> set js \<Longrightarrow> registry_run_ok js r h"
  unfolding registry_run_ok_def by blast

lemma run_ok_hand_out:
  assumes ok: "registry_run_ok is r h" and ks: "\<forall>k \<in> set ks. k < ar_next r" and o: "hand_out ks r = (ts, r')"
  shows "registry_run_ok is r' (h @ ts)"
proof -
  have r': "r' = snd (hand_out ks r)" and ts: "ts = fst (hand_out ks r)" using o by simp_all
  have q: "quiet_step r r'" unfolding r' using ok hand_out_step by (simp add: registry_run_ok_def)
  then have ok': "registry_run_ok is r' h" using run_ok_quiet [OF ok] by blast
  have "distinct ts" unfolding ts
  proof (rule hand_out_distinct)
    fix j k assume "j \<in> set ks" "k \<in> set ks" "ti_id (ar_heap r j) = ti_id (ar_heap r k)"
    then show "j = k" using ok ks unfolding registry_run_ok_def inj_on_def by blast
  qed
  moreover have "i \<notin> set h" if i: "i \<in> set ts" for i
  proof
    assume "i \<in> set h"
    then obtain j where j: "j < ar_next r" "ti_id (ar_heap r j) = i" "ti_state (ar_heap r j) \<noteq> ''pending''"
      using ok unfolding registry_run_ok_def by blast
    obtain k where k: "k \<in> set ks" "ti_state (ar_heap r k) = ''pending''" "ti_id (ar_heap r k) = i" using i ts hand_out_ids by blast
    have "j = k" using j k ks ok unfolding registry_run_ok_def inj_on_def by blast
    then show False using j k by simp
  qed
  moreover have "\<exists>k < ar_next r'. ti_id (ar_heap r' k) = i \<and> ti_state (ar_heap r' k) \<noteq> ''pending''" if i: "i \<in> set ts" for i
  proof -
    obtain k where k: "k \<in> set ks" "ti_state (ar_heap r k) = ''pending''" "ti_id (ar_heap r k) = i" using i ts hand_out_ids by blast
    then show ?thesis using ks by (intro exI [of _ k]) (simp add: r' hand_out_heap hand_out_fields)
  qed
  ultimately show ?thesis using ok' unfolding registry_run_ok_def by (auto simp: disjoint_iff)
qed

lemma run_ok_add_task:
  assumes ok: "registry_run_ok is r h" and a: "ar_add_task now gid i t r = (e, r')" and t: "ti_result t = None" "ti_error t = None"
    and new: "gid \<notin> set is"
  shows "registry_run_ok (is @ [gid]) r' h"
proof (cases "mget (ar_agents r) i")
  case None
  then have "r' = r" using a by (simp add: ar_add_task_def)
  then show ?thesis using run_ok_more [OF ok, of "is @ [gid]"] by auto
next
  case (Some b)
  then have n: "ar_next r' = Suc (ar_next r)" and old: "\<And>k. k < ar_next r \<Longrightarrow> ar_heap r' k = ar_heap r k"
    and new_id: "ti_id (ar_heap r' (ar_next r)) = gid" using a by (auto simp: ar_add_task_def Let_def)
  have "agents_ok r'" using add_task_registry_ok [OF _ a t] ok by (simp add: registry_run_ok_def)
  moreover have "ti_id (ar_heap r k) \<noteq> gid" if "k < ar_next r" for k using ok new that unfolding registry_run_ok_def by blast
  then have "inj_on (\<lambda>k. ti_id (ar_heap r' k)) {..<ar_next r'}"
    using ok old new_id n unfolding registry_run_ok_def inj_on_def by (metis lessThan_iff less_Suc_eq)
  moreover have "\<forall>k < ar_next r'. ti_id (ar_heap r' k) \<in> set (is @ [gid])"
    using ok old new_id n unfolding registry_run_ok_def by (auto simp: less_Suc_eq)
  moreover have "\<forall>i \<in> set h. \<exists>k < ar_next r'. ti_id (ar_heap r' k) = i \<and> ti_state (ar_heap r' k) \<noteq> ''pending''"
    using ok old n unfolding registry_run_ok_def by (metis less_SucI)
  ultimately show ?thesis using ok unfolding registry_run_ok_def by blast
qed

lemma quiet_step_refl: "agents_ok r \<Longrightarrow> quiet_step r r"
  by (simp add: quiet_step_def)

lemma activate_skills_registry: "gs_registry (snd (activate_skills cd f now i s)) = gs_registry s"
  by (simp add: activate_skills_def split: option.splits sum.splits prod.splits)

lemma rpc_register_registry:
  "gs_registry (snd (snd (rpc_register cd f now gid tn name ty md caps s))) = gs_registry s
    \<or> (\<exists>info. gs_registry (snd (snd (rpc_register cd f now gid tn name ty md caps s))) = snd (ar_register now gid info (gs_registry s)))"
  by (auto simp: rpc_register_def Let_def activate_skills_registry split: option.splits sum.splits prod.splits)
     (metis snd_conv)+

lemma rpc_register_step: "agents_ok (gs_registry s) \<Longrightarrow> quiet_step (gs_registry s) (gs_registry (snd (snd (rpc_register cd f now gid tn name ty md caps s))))"
  using rpc_register_registry [of cd f now gid tn name ty md caps s] quiet_step_refl register_step by metis

lemma rpc_unregister_step: "agents_ok (gs_registry s) \<Longrightarrow> quiet_step (gs_registry s) (gs_registry (snd (snd (rpc_unregister i reason s))))"
  using unregister_step [of "gs_registry s" i] quiet_step_refl
  by (auto simp: rpc_unregister_def split: prod.splits option.splits)

lemma rpc_cancel_step: "agents_ok (gs_registry s) \<Longrightarrow> quiet_step (gs_registry s) (gs_registry (snd (rpc_cancel_task now i s)))"
  by (auto simp: rpc_cancel_task_def Let_def quiet_step_refl cancel_task_step split: sum.splits)

lemma routing_keeps_registry:
  "gs_registry (route_begin now agent corr session h s) = gs_registry s"
  "gs_registry (snd (snd (route_finish fault agent corr am found s))) = gs_registry s"
  "gs_registry (bind_agent_stream agent st s) = gs_registry s"
  "gs_registry (snd (process_agent_response gid now agent mo s)) = gs_registry s"
  "gs_registry (snd (expire_pending gid now k s)) = gs_registry s"
  by (auto simp: route_begin_def route_finish_def bind_agent_stream_def process_agent_response_def expire_pending_def
      clear_pending_def Let_def split: option.splits prod.splits)

lemma end_keeps_registry: "gs_registry (end_agent_stream st cur s) = gs_registry s"
proof -
  have "gs_registry (fold clear_pending ks u) = gs_registry u" for ks u by (induction ks arbitrary: u) (simp_all add: clear_pending_def)
  then show ?thesis by (simp add: end_agent_stream_def Let_def split: option.split)
qed

lemma listed_below:
  assumes "agents_ok r"
  shows "\<forall>k \<in> set (ar_list_tasks i r). k < ar_next r"
proof (cases "mget (ar_agents r) i")
  case (Some a)
  then have "mall (task_listed r) (ai_tasks a)" using assms mall_get unfolding agents_ok_def agent_ok_def by fast
  then show ?thesis using Some by (auto simp: ar_list_tasks_def mvals_def mall_def task_listed_def)
qed (simp add: ar_list_tasks_def)

lemma registry_run_exec:
  assumes ok: "registry_run_ok is (gs_registry (fst x)) (handed (snd x))" and new: "\<forall>i \<in> set (task_id_of c). i \<notin> set is"
  shows "registry_run_ok (is @ task_id_of c) (gs_registry (fst (agent_exec x c))) (handed (snd (agent_exec x c)))"
proof -
  obtain s g where x: "x = (s, g)" by fastforce
  let ?r = "gs_registry s"
  have ok': "registry_run_ok is ?r (handed g)" using ok x by simp
  have reg: "agents_ok ?r" using ok' by (simp add: registry_run_ok_def)
  show ?thesis
  proof (cases c)
    case (AgHeartbeat now i)
    show ?thesis
    proof (cases "fst (rpc_heartbeat now i s)")
      case (Inl e)
      then have "gs_registry (snd (rpc_heartbeat now i s)) = ?r"
        by (auto simp: rpc_heartbeat_def ar_update_heartbeat_def split: if_splits prod.splits option.splits)
      then show ?thesis using Inl ok' AgHeartbeat by (cases "rpc_heartbeat now i s") (simp add: x handed_def)
    next
      case (Inr ts)
      obtain e r1 where u: "ar_update_heartbeat now i ?r = (e, r1)" by fastforce
      have q: "quiet_step ?r r1" using heartbeat_step [OF reg, of now i] u by simp
      then have r1: "registry_run_ok is r1 (handed g)" using run_ok_quiet [OF ok'] by blast
      obtain is' r2 where h: "hand_out (ar_list_tasks i r1) r1 = (is', r2)" by fastforce
      have "registry_run_ok is r2 (handed g @ is')"
        using run_ok_hand_out [OF r1 _ h] listed_below r1 by (simp add: registry_run_ok_def)
      moreover have "rpc_heartbeat now i s = (Inr is', s\<lparr>gs_registry := r2\<rparr>)"
        using Inr u h by (auto simp: rpc_heartbeat_def split: if_splits option.splits)
      ultimately show ?thesis using AgHeartbeat by (simp add: x handed_def)
    qed
  next
    case (AgExecute now gid i session cfg ty prio)
    have n: "gid \<notin> set is" using new AgExecute by simp
    have more: "registry_run_ok (is @ [gid]) ?r (handed g)" using run_ok_more [OF ok', of "is @ [gid]"] by auto
    show ?thesis
    proof (cases "i = '''' \<or> session = '''' \<or> cfg = None")
      case True
      then show ?thesis using more AgExecute by (auto simp: x rpc_execute_task_def split: option.splits)
    next
      case False
      then obtain cf where cf: "cfg = Some cf" by auto
      let ?t = "\<lparr>ti_id = '''', ti_name = ptk_command cf, ti_session = session, ti_type = proto_to_task_type ty, ti_state = '''',
        ti_priority = proto_to_task_priority prio, ti_config = Some cf, ti_result = None, ti_error = None, ti_progress = 0,
        ti_created = 0, ti_started = None, ti_completed = None\<rparr>"
      obtain e r1 where a: "ar_add_task now gid i ?t ?r = (e, r1)" by fastforce
      have "registry_run_ok (is @ [gid]) r1 (handed g)" by (rule run_ok_add_task [OF ok' a _ _ n]) simp_all
      then show ?thesis using False cf a AgExecute by (simp add: x rpc_execute_task_def Let_def split: option.splits)
    qed
  next
    case (AgMessage gid now agent m)
    then show ?thesis using ok' routing_keeps_registry(4) [of gid now agent "Some m" s]
      by (auto simp: x handed_def split: prod.splits)
  next
    case (AgExpire gid now k)
    then show ?thesis using ok' routing_keeps_registry(5) [of gid now k s] by (auto simp: x handed_def split: prod.splits)
  qed (use ok' run_ok_quiet [OF ok'] reg in
      \<open>simp_all add: x rpc_register_step rpc_unregister_step rpc_cancel_step routing_keeps_registry end_keeps_registry\<close>)
qed

lemma run_registry_ok:
  "distinct (task_ids cs) \<Longrightarrow> foldl agent_exec (new_agent_service b sb l, []) cs = x \<Longrightarrow>
    registry_run_ok (task_ids cs) (gs_registry (fst x)) (handed (snd x))"
proof (induction cs arbitrary: x rule: rev_induct)
  case Nil
  then show ?case
    by (auto simp: registry_run_ok_def agents_ok_def new_agent_service_def new_agent_registry_def handed_def)
next
  case (snoc c cs)
  have d: "distinct (task_ids cs)" "\<forall>i \<in> set (task_id_of c). i \<notin> set (task_ids cs)" using snoc.prems(1) by (auto simp: task_ids_def)
  have "registry_run_ok (task_ids cs @ task_id_of c) (gs_registry (fst x)) (handed (snd x))"
    using registry_run_exec [OF snoc.IH [OF d(1) refl] d(2)] snoc.prems(2) by simp
  then show ?case by (simp add: task_ids_def)
qed

text \<open>An agent that has a task keeps it, and is busy, whatever is called, until it is unregistered.\<close>

definition busy_with :: "string \<Rightarrow> string \<Rightarrow> agent_registry \<Rightarrow> bool" where
  "busy_with i t r \<longleftrightarrow> (\<exists>a. mget (ar_agents r) i = Some a \<and> ai_state a = ''busy'' \<and> mget (ai_tasks a) t \<noteq> None)"

lemma busy_with_agents: "ar_agents r' = ar_agents r \<Longrightarrow> busy_with i t r' = busy_with i t r"
  by (simp add: busy_with_def)

lemma busy_with_register: "busy_with i t r \<Longrightarrow> busy_with i t (snd (ar_register now j info r))"
  by (auto simp: busy_with_def ar_register_def)

lemma busy_with_unregister: "busy_with i t r \<Longrightarrow> j \<noteq> i \<Longrightarrow> busy_with i t (snd (ar_unregister j r))"
  by (auto simp: busy_with_def ar_unregister_def)

lemma busy_with_heartbeat: "busy_with i t r \<Longrightarrow> busy_with i t (snd (ar_update_heartbeat now j r))"
  by (auto simp: busy_with_def ar_update_heartbeat_def split: option.split)

lemma busy_with_add_task:
  "busy_with i t r \<Longrightarrow> busy_with i t (snd (ar_add_task now gid j info r))"
  "ar_add_task now gid i info r = (None, r') \<Longrightarrow> busy_with i gid r'"
  by (auto simp: busy_with_def ar_add_task_def Let_def split: option.splits)

lemma busy_with_rpc_register:
  "busy_with i t (gs_registry s) \<Longrightarrow> busy_with i t (gs_registry (snd (snd (rpc_register cd f now gid tn name ty md caps s))))"
  using rpc_register_registry [of cd f now gid tn name ty md caps s] busy_with_register by metis

lemma busy_with_rpc_heartbeat:
  "busy_with i t (gs_registry s) \<Longrightarrow> busy_with i t (gs_registry (snd (rpc_heartbeat now j s)))"
proof -
  assume b: "busy_with i t (gs_registry s)"
  have "busy_with i t (snd (hand_out ks r)) = busy_with i t r" for ks r
    by (rule busy_with_agents) (simp add: hand_out_fields)
  then show ?thesis using b busy_with_heartbeat [OF b, of now j]
    by (simp add: rpc_heartbeat_def split: prod.splits option.splits) (metis snd_conv)
qed

lemma busy_with_rpc_execute:
  "busy_with i t (gs_registry s) \<Longrightarrow> busy_with i t (gs_registry (snd (snd (rpc_execute_task now gid tn j se cf ty pr s))))"
  "fst (rpc_execute_task now gid tn i se cf ty pr s) = Inr y \<Longrightarrow>
    busy_with i gid (gs_registry (snd (snd (rpc_execute_task now gid tn i se cf ty pr s))))"
proof -
  assume b: "busy_with i t (gs_registry s)"
  show "busy_with i t (gs_registry (snd (snd (rpc_execute_task now gid tn j se cf ty pr s))))"
  proof (cases cf)
    case (Some c)
    then show ?thesis using b busy_with_add_task(1) [OF b, of now gid j]
      by (auto simp: rpc_execute_task_def Let_def split: option.splits prod.splits) (metis snd_conv)+
  qed (use b in \<open>simp add: rpc_execute_task_def\<close>)
next
  assume "fst (rpc_execute_task now gid tn i se cf ty pr s) = Inr y"
  then show "busy_with i gid (gs_registry (snd (snd (rpc_execute_task now gid tn i se cf ty pr s))))"
    by (auto simp: rpc_execute_task_def Let_def split: option.splits prod.splits if_splits intro: busy_with_add_task(2))
qed

lemma busy_with_kept:
  assumes "busy_with i t (gs_registry (fst x))" and "\<And>reason. c \<noteq> AgUnregister i reason"
  shows "busy_with i t (gs_registry (fst (agent_exec x c)))"
proof -
  obtain s g where x: "x = (s, g)" by fastforce
  have b: "busy_with i t (gs_registry s)" using assms(1) x by simp
  have upd: "busy_with i t (upd_task k f (gs_registry s))" for k f using b by (simp add: busy_with_def upd_task_def)
  show ?thesis
  proof (cases c)
    case (AgUnregister j reason)
    then have "busy_with i t (snd (ar_unregister j (gs_registry s)))" using busy_with_unregister [OF b] assms(2) by auto
    then show ?thesis using b AgUnregister
      by (auto simp: x rpc_unregister_def split: prod.splits option.splits)
  next
    case (AgCancel now j)
    then show ?thesis using b upd by (simp add: x rpc_cancel_task_def Let_def split: sum.split)
  next
    case (AgHeartbeat now j)
    then show ?thesis using busy_with_rpc_heartbeat [OF b, of now j]
      by (cases "rpc_heartbeat now j s") (simp add: x)
  next
    case (AgMessage gid now agent m)
    then show ?thesis using b routing_keeps_registry(4) [of gid now agent "Some m" s]
      by (cases "process_agent_response gid now agent (Some m) s") (simp add: x)
  next
    case (AgExpire gid now k)
    then show ?thesis using b routing_keeps_registry(5) [of gid now k s]
      by (cases "expire_pending gid now k s") (simp add: x)
  qed (use b in \<open>simp_all add: x busy_with_rpc_register busy_with_rpc_execute routing_keeps_registry end_keeps_registry\<close>)
qed

lemma busy_with_run:
  "busy_with i t (gs_registry (fst x)) \<Longrightarrow> \<forall>reason. AgUnregister i reason \<notin> set cs \<Longrightarrow>
    busy_with i t (gs_registry (fst (foldl agent_exec x cs)))"
proof (induction cs arbitrary: x)
  case (Cons c cs)
  then have "busy_with i t (gs_registry (fst (agent_exec x c)))" by (intro busy_with_kept) auto
  then show ?case using Cons by simp
qed simp

text \<open>
  C37: Over any calls of the service, with a new identifier for each task, every task is handed out by a
  heartbeat at most once.  But none is ever finished: a task is pending, started or cancelled and has no
  result, and its status reads as unspecified or cancelled once it was handed out.  An agent is idle only
  as long as it has no task, and one that has been given a task is busy with it for ever, whether it is
  cancelled or not, until it is unregistered.
\<close>

theorem tasks_handed_out_once_and_never_finished:
  assumes "distinct (task_ids cs)" and "foldl agent_exec (new_agent_service b sb l, []) cs = (s, g)" and "r = gs_registry s"
  shows "distinct (handed g)
    \<and> (\<forall>k < ar_next r. ti_state (ar_heap r k) \<in> {''pending'', ''started'', ''cancelled''} \<and> ti_result (ar_heap r k) = None)
    \<and> (\<forall>i \<in> set (handed g). \<exists>k < ar_next r. ti_id (ar_heap r k) = i
         \<and> pta_state (task_info_to_proto (ar_heap r k)) \<in> {PbTaskStateUnspecified, PbTaskCancelled})
    \<and> (\<forall>i a. mget (ar_agents r) i = Some a \<longrightarrow> (ai_state a = ''idle'' \<longleftrightarrow> ai_tasks a = []))
    \<and> (\<forall>us vs now gid i session cfg ty prio y.
         cs = us @ AgExecute now gid i session cfg ty prio # vs \<longrightarrow>
         fst (rpc_execute_task now gid (\<lambda>_. '''') i session cfg ty prio
                (fst (foldl agent_exec (new_agent_service b sb l, []) us))) = Inr y \<longrightarrow>
         (\<forall>reason. AgUnregister i reason \<notin> set vs) \<longrightarrow>
         (\<exists>a. mget (ar_agents r) i = Some a \<and> ai_state a = ''busy'' \<and> mget (ai_tasks a) gid \<noteq> None))"
proof -
  have ok: "registry_run_ok (task_ids cs) r (handed g)" using run_registry_ok [OF assms(1,2)] assms(3) by simp
  have states: "ti_state (ar_heap r k) \<in> {''pending'', ''started'', ''cancelled''}" "ti_result (ar_heap r k) = None" if "k < ar_next r" for k
    using ok that by (auto simp: registry_run_ok_def agents_ok_def task_open_def)
  have "\<exists>k < ar_next r. ti_id (ar_heap r k) = i \<and> pta_state (task_info_to_proto (ar_heap r k)) \<in> {PbTaskStateUnspecified, PbTaskCancelled}"
    if "i \<in> set (handed g)" for i
  proof -
    obtain k where k: "k < ar_next r" "ti_id (ar_heap r k) = i" "ti_state (ar_heap r k) \<noteq> ''pending''"
      using run_ok_handed [OF ok] \<open>i \<in> set (handed g)\<close> by blast
    have "ti_state (ar_heap r k) = ''started'' \<or> ti_state (ar_heap r k) = ''cancelled''" using states(1) [OF k(1)] k(3) by auto
    then have "pta_state (task_info_to_proto (ar_heap r k)) \<in> {PbTaskStateUnspecified, PbTaskCancelled}"
      by (auto simp: task_info_to_proto_def task_state_to_proto_def named_def)
    then show ?thesis using k by blast
  qed
  moreover have "ai_state a = ''idle'' \<longleftrightarrow> ai_tasks a = []" if "mget (ar_agents r) i = Some a" for i a
  proof -
    have "mall (agent_ok r) (ar_agents r)" using ok by (simp add: registry_run_ok_def agents_ok_def)
    then have "agent_ok r i a" using that mall_get by fast
    then show ?thesis by (simp add: agent_ok_def)
  qed
  moreover have "distinct (handed g)" using ok by (simp add: registry_run_ok_def)
  moreover have "busy_with i gid r"
    if run: "cs = us @ AgExecute now gid i session cfg ty prio # vs"
      and accepted: "fst (rpc_execute_task now gid (\<lambda>_. '''') i session cfg ty prio
        (fst (foldl agent_exec (new_agent_service b sb l, []) us))) = Inr y"
      and stays: "\<forall>reason. AgUnregister i reason \<notin> set vs" for us vs now gid i session cfg ty prio y
  proof -
    let ?x = "foldl agent_exec (new_agent_service b sb l, []) us" and ?c = "AgExecute now gid i session cfg ty prio"
    have "busy_with i gid (gs_registry (fst (agent_exec ?x ?c)))"
      using busy_with_rpc_execute(2) [OF accepted] by (cases ?x) simp
    from busy_with_run [OF this stays] show ?thesis using assms(2,3) run by simp
  qed
  moreover note states
  ultimately show ?thesis unfolding busy_with_def by (intro conjI allI ballI impI) blast+
qed

definition task_calls :: "agent_call list" where
  "task_calls = [AgRegister sample_skill_codec (\<lambda>_. no_faults) 1 ''a1'' ''worker'' PbAgentWorker None None,
     AgExecute 2 ''t1'' ''a1'' ''s1'' (Some \<lparr>ptk_command = ''ls'', ptk_arguments = [], ptk_environment = [], ptk_directory = '''',
       ptk_timeout = 0, ptk_max_retries = 0, ptk_retry = False, ptk_input = '''', ptk_parameters = [], ptk_constraints = None\<rparr>)
       PbCodeExecution PbTaskNormal, AgHeartbeat 3 ''a1'', AgHeartbeat 4 ''a1'']"

lemma task_calls_run: "snd (foldl agent_exec (new_agent_service False True None, []) task_calls) = [HandedOut [''t1''], HandedOut []]"
  by (simp add: task_calls_def new_agent_service_def new_agent_registry_def rpc_register_def ar_register_def ar_get_def activate_skills_def
      Let_def mget_Cons mput_def rpc_execute_task_def ar_add_task_def rpc_heartbeat_def ar_update_heartbeat_def ar_list_tasks_def mvals_def
      upd_task_def)

theorem tasks_handed_out_once_and_never_finished_witness:
  "handed (snd (foldl agent_exec (new_agent_service False True None, []) task_calls)) = [''t1'']
   \<and> distinct (handed (snd (foldl agent_exec (new_agent_service False True None, []) task_calls)))"
proof -
  let ?x = "foldl agent_exec (new_agent_service False True None, []) task_calls"
  have "distinct (task_ids task_calls)" by (simp add: task_calls_def task_ids_def)
  from tasks_handed_out_once_and_never_finished [OF this, of False True None "fst ?x" "snd ?x", OF _ refl]
  have "distinct (handed (snd ?x))" by simp
  then show ?thesis by (simp add: task_calls_run handed_def)
qed

section \<open>Agents that reconnect\<close>

lemma first_stream_ends:
  assumes "s1 = end_agent_stream st (Some agent) (bind_agent_stream agent st2 s)"
  shows "\<not> has_agent_stream agent s1
    \<and> (\<forall>corr. mget (gs_pending s1) (pending_response_key agent corr) = None)
    \<and> fst (route_message_to_agent fault now rid corr agent session m h s1) = Some (new_error ErrUnavailable)
    \<and> fst (snd (route_message_to_agent fault now rid corr agent session m h s1)) = []
    \<and> has_agent_stream agent (bind_agent_stream agent st3 s1)"
proof -
  have streams: "gs_agent_streams (fold clear_pending ks u) = gs_agent_streams u" for ks u
    by (induction ks arbitrary: u) (simp_all add: clear_pending_def)
  have no: "mget (gs_agent_streams s1) agent = None" by (simp add: assms end_agent_stream_def Let_def streams)
  have p: "mget (gs_pending s1) k = (if k \<in> set (filter (\<lambda>k. has_prefix k (agent @ '':'')) (mkeys (gs_pending s))) then None
      else mget (gs_pending s) k)" for k
    by (simp only: assms end_agent_stream_def Let_def option.case) (simp add: fold_clear_pending_get bind_agent_stream_def)
  have "mget (gs_pending s1) (pending_response_key agent corr2) = None" for corr2
  proof (cases "pending_response_key agent corr2 \<in> set (mkeys (gs_pending s))")
    case True
    then show ?thesis by (simp add: p pending_response_key_def has_prefix_def)
  next
    case False
    then have "mget (gs_pending s) (pending_response_key agent corr2) = None" by (simp add: mkeys_def mget_def map_of_eq_None_iff)
    then show ?thesis by (simp add: p)
  qed
  moreover have "send_lookup agent (route_begin now agent corr session h s1) = None"
    using no by (simp add: send_lookup_def route_begin_def Let_def)
  ultimately show ?thesis using no
    by (simp add: has_agent_stream_def route_message_to_agent_def route_finish_def send_locked_def Let_def bind_agent_stream_def)
qed

text \<open>
  C38: When an agent connects again before its first stream has ended, the end of the first stream takes the
  second away: the agent has no stream although it is connected, its waiting requests are dropped without
  an answer, and every message for it fails as unavailable, until it connects once more.
\<close>

theorem first_stream_takes_second_away:
  "let s1 = end_agent_stream st (Some agent) (bind_agent_stream agent st2 s)
   in \<not> has_agent_stream agent s1
    \<and> (\<forall>corr. mget (gs_pending s1) (pending_response_key agent corr) = None)
    \<and> fst (route_message_to_agent fault now rid corr agent session m h s1) = Some (new_error ErrUnavailable)
    \<and> fst (snd (route_message_to_agent fault now rid corr agent session m h s1)) = []
    \<and> has_agent_stream agent (bind_agent_stream agent st3 s1)"
  unfolding Let_def by (rule first_stream_ends [OF refl])

end
