(* ===== verification/Spec2Isabelle.thy ===== *)
theory Spec2Isabelle
  imports Policy_Paths Session_Properties Session_Shutdown Scheduler_Properties
    Router_Lookup Event_Bus Bus_Shutdown Event_Handlers Event_Buffer Event_Middleware Provider_Registry
    Ipc_Broker Tool_Executor Memory_Organizer Memory_Handler Skill_Proofs
    Credential_Injector Config_Proofs Grpc_Convert_Proofs Grpc_Agent_Proofs
begin

text \<open>
  A verification development of the baaaht orchestrator (Go).

  The program.  The orchestrator runs agents in containers.  A client opens a
  session, the session manager keeps its state, its containers and its
  conversation and writes each message to a log; the policy engine checks and
  hardens each container configuration before a container is created; the
  scheduler runs tasks on a pool of workers from a priority queue; the event bus
  and the router carry what happens to the parts that subscribed; the provider
  registry chooses the LLM service that answers a request, with failover, and the
  clients of the services convert requests, replies and streams; the IPC broker
  carries messages between containers over a socket; the tool registry makes the
  tools that agents call, and the tool executor runs each in a container that the
  policy engine has hardened.  The memory store keeps what is worth remembering of the
  sessions of a user, as files under directories of scopes, owners and topics, and the
  skill store the texts that teach an agent a task.  The credential store keeps the keys of
  the services sealed on disk, and its injector hands them to containers; the configuration
  of all of this is read from a file, defaults and the environment, and can be reloaded.
  Agents connect over gRPC: the agent service registers them, hands them tasks and carries
  the messages of users to them and their answers back.  The other gRPC services and the
  user interface surround these.
  This development models the policy engine, the sessions, the scheduler, the events,
  the providers, IPC, the tools, memory, skills, credentials, the configuration, and of
  gRPC the conversions and the agent service: they
  decide what a container may do, what is remembered, what runs, who hears of it, who
  answers, and what an agent can reach.

  The theories and the code.

    Prelude            Go maps as association lists, and the locales \<open>machine\<close> and
                       \<open>closable_machine\<close>: an invariant that each operation keeps
                       holds in every state of every run.
    Go_Types           pkg/types/common.go: identifiers, statuses, coded errors.
    Go_Strings         the functions of strings, strconv and fmt the code uses.
    Go_Files           the rest of path/filepath (Join, Dir, Base, Abs, Rel), and a disk of
                       files and directories with the operations of os on it, and the way
                       the stores replace a file.
    Go_Base64          encoding/base64 and its round trip.
    Go_Path            path/filepath as the code uses it (Clean, IsAbs).
    Go_Regexp          regexp as matchPattern of pkg/policy/rules.go uses it (QuoteMeta,
                       compiling, searching), matchPattern, and its glob language.
    Go_Heap            container/heap on lists, with the locale \<open>weak_order\<close> in which
                       its correctness is proved.
    Container_Types    pkg/types/container.go: the configuration of a container.
    Policy_Rules       pkg/policy/rules.go: policies, Merge, Validate, defaults.
    Mount_Allowlist    pkg/policy/mount_allowlist.go: the resolver of mount access,
                       with the locale \<open>mount_access\<close> the enforcer relies on.
    Audit_Log          pkg/policy/audit_logger.go: the events that are logged.
    Tmpfs_Size         parseTmpfsSize of pkg/policy/enforcer.go, in 64-bit words.
    Policy_Enforcer    pkg/policy/enforcer.go: the enforcer and its checks.
    Policy_Proofs, Policy_Paths     the properties of the policy engine.
    Session_State      pkg/types/session.go, pkg/session/state.go.
    Session_Store      pkg/session/persistence.go: the log of a session.
    Session_Manager    pkg/session/manager.go: every method of the manager.
    Session_Proofs     the life of one session as a step relation, the refinement
                       of the manager to it, and the locale \<open>entry_property\<close>.
    Session_Properties, Session_Shutdown   the properties of the session manager;
                       its shutdown against the clean-up goroutine.
    Task_Queue         pkg/scheduler/queue.go, tasks as references into a store.
    Queue_Proofs       the queue is a heap of distinct tasks; the serving order.
    Scheduler          pkg/scheduler/scheduler.go: clients and workers as steps.
    Scheduler_Proofs, Scheduler_Properties    the invariants of every run and the
                       properties of the scheduler.
    Exchange_Sort      the exchange sort that the router and the failover manager use,
                       in the context of \<open>weak_order\<close>.
    Event_Types, Event_Router       pkg/types/event.go, pkg/events/router.go.
    Router_Proofs, Router_Lookup    the invariant of the router; its prefix lookup
                       against the routes that match.
    Event_Bus, Bus_Shutdown         pkg/events/bus.go; publishing against the worker
                       and Close as a step relation.
    Event_Handlers, Event_Middleware    pkg/events/handler.go and middleware.go.
    Event_Buffer       the buffered handler of handler.go, its goroutines as steps.
    Provider_Types     pkg/provider/types.go, request.go, response.go, config.go.
    Token_Accounting   pkg/provider/token_accounting.go, counters as 64-bit integers.
    Provider_Client    what the clients share, and the reader of server-sent events.
    Anthropic_Client, Openai_Client    pkg/provider/anthropic.go and openai.go.
    Failover, Provider_Registry        pkg/provider/failover.go and registry.go.
    Ipc_Socket, Ipc_Broker             pkg/ipc/socket.go and broker.go.
    Tool_Types         pkg/tools/types.go and the definitions of registry.go.
    Builtin_Tools      pkg/tools/builtin: the file, shell, web and message tools.
    Tool_Registry, Tool_Executor       pkg/tools/registry.go and executor.go, instances
                       as references into a store, calls to the runtime as a list.
    Memory_Types, Memory_Markdown      pkg/types/memory.go, pkg/memory/markdown.go.
    Memory_Paths       pkg/memory/scope.go and the topic names of organizer.go.
    Memory_Store, Memory_Proofs        pkg/memory/store.go on a disk; its runs.
    Memory_Organizer, Memory_Extractor, Memory_Handler    the files of that name in
                       pkg/memory.
    Skill_Types        pkg/types/skill.go and pkg/skills/parser.go.
    Skill_Store, Skill_Loader, Skill_Proofs    pkg/skills/store.go, loader.go, config.go.
    Credential_Store   pkg/credentials/store.go, credentials as references into a store,
                       since the code shares them with its callers.
    Credential_Proofs  the runs of the credential store, restart and rotation.
    Credential_Injector    pkg/credentials/injector.go and llm_credentials.go.
    Config_Types       internal/config: the sections, defaults and filling in.
    Config_Load        overrides, placeholders, validation, loading and the reloader.
    Config_Proofs      the properties of the configuration.
    Grpc_Enums, Grpc_Convert    pkg/grpc/convert.go: the messages of the protocol and the
                       conversions from and to the types of the orchestrator.
    Grpc_Convert_Proofs    what the conversions keep.
    Grpc_Agent         pkg/grpc/agent_service.go: agents, their tasks and streams, and the
                       requests that wait for an agent's answer.
    Grpc_Agent_Proofs  the runs of the agent service.

  How state and operations correspond.  A struct is a record with the source's
  fields, an operation is a function from the state to its result and the new
  state, and the guards and early returns of a method are the branches of its
  function.  An error is a value: \<open>Inl\<close> of an error with its code.  A method that
  holds its lock from the first to the last statement is one step.  The buffered
  handler releases its lock before it handles the events it took, so its callers, flush
  loop and Close are cut into steps between which the others act (\<open>buf_exec\<close>).  The scheduler's
  workers are cut into the steps between which another goroutine can act, and
  \<open>sched_exec\<close> takes any sequence of client calls and worker steps.  A panic is a
  value of its own (\<open>WaitPanic\<close>, \<open>None\<close> of \<open>sm_must_transition\<close>).

  What the lemmas show.  Policy: strict enforcement yields configurations that
  validate, except for limits filled in below a minimum that merging put above its
  maximum, and hardened as far as enforcement goes; the resolver picks the most specific entry
  and is not fooled by dot-dot components; the expression built for a wildcard pattern decides its
  language; runs of the enforcer keep its resolver and its policies consistent; and
  where limits, overflow, merging and session allowlists escape enforcement.
  Sessions: each call of the manager is, on each session, a step of the session's
  life (\<open>mg_exec_effect\<close>), so closed sessions are final, conversations only grow,
  only a deletion removes a session, and memory and log stay in step; and where
  restore, expiry, change of owner, torn writes and shutdown go wrong.  Scheduler:
  in every reachable state no task is in two places and none is lost, tasks are
  served by priority and age, retries are bounded; and what cancellation, duplicate
  identifiers and failed retries do to a waiting client.  Events: the prefix lookup
  finds the routes that match and no others, a subscription receives what its filter
  accepts for as long as it exists, dispatch keeps the order, retries end, the rate limit bounds every window, and a duplicate is
  refused exactly; and what topics, and publishing during Close, do instead.  Buffering loses
  and doubles nothing however its goroutines interleave, and keeps the order while no two
  flushes overlap (\<open>flushes_can_overtake\<close> shows that they can).
  Providers: the circuit breaker is the statement over the history of reports that it
  stands for, failover chooses an eligible provider of the best priority, accounts and
  budgets are exact while 64 bits suffice, streams deliver the text they were sent;
  and where budgets wrap, a status disables a client for ever, or a stream panics.
  IPC: the history of a session is the last thousand messages sent for it, the broker
  stays consistent; and what the limit on connections and authentication let through.
  Tools: the registry hands out no closed instance and leaks none but those a list by
  type makes, tools act only within their checks but for the redirects a server asks for, the
  executor makes only containers that satisfy the policy and asks for the destruction of each;
  and what a disabled tool still does.
  Memory and skills: owners keep their memories, directories are confined, files read back
  what was written (but for the later lines of a title), organizing loses no text, extraction respects its limits, and a load
  accounts for every file; and how files left by a change of title, limits looked at too
  late and texts that grow set store and disk apart.

  Credentials and configuration: values survive runs, rotations and restarts of the
  credential store, files for containers stay below their mounts, a loaded configuration
  satisfies what the components rely on, placeholders are replaced exactly; and what a
  rotation that fails, a section that is left out, the environment and a stop during a
  reload do.
  gRPC: a session crosses the wire unchanged and a container without its hardening, a
  request is answered once and in its own session only, a task is handed out once and keeps
  its agent busy for ever; and what a wrong answer does.

  What is left out of the models.  The text of errors, violations and log lines;
  the handler, context and metadata of a
  task.  Clock readings (one for each call, as a method that reads the clock twice
  reads the same time), generated identifiers, the outcome of file operations,
  of a handler, of an HTTP exchange, and of the shutdown timeout are arguments of the
  operations, so the theorems hold for each choice.  Handlers of one event that run
  concurrently enter as their outcomes.  The JSON codec and the provider of group
  membership, the URL parser, the cipher, the parsers of YAML and of durations, the file
  system, the shell, the HTTP client and the container runtime are parameters, and what is assumed of them is a hypothesis of the
  theorem.  Paths and patterns are byte strings.  Integers of Go are integers here,
  except in the tmpfs size and the token counters, where 64-bit wrap-around matters; the counters of the
  scheduler would take 2^63 tasks to wrap.  No model uses fuel except
  \<open>drain\<close>, whose number of rounds is the length of the queue.

  Not modelled, with the reason in the manifest: loading of policies,
  logging, containers, the tool, model, gateway and orchestrator services of gRPC and its
  transport, orchestrator wiring, the worker agent, the user interface, generated code and
  the TypeScript agents.
\<close>

end
